(* ===== verification/Prelude.thy ===== *)
theory Prelude
  imports Main "HOL-Library.AList" "HOL-Library.Word" "HOL-Library.Char_ord" "HOL-Library.List_Lexorder"
begin

text \<open>
  Shared vocabulary of the development: 64-bit integers with the wrap-around written out,
  error results, and Go maps as association lists (the order of the list is one order in which
  a \<^verbatim>\<open>range\<close> loop may visit the map), with the collections of lemmas the
  component theories rewrite with.
\<close>

named_theorems go_str \<open>evaluation and characterisation of Go string functions\<close>
named_theorems go_map \<open>lookup facts of Go maps\<close>
named_theorems res_iff \<open>inversion of error results\<close>

subsection \<open>64-bit integers\<close>

definition wrap64 :: "int \<Rightarrow> int" where
  "wrap64 x = (x + 2 ^ 63) mod 2 ^ 64 - 2 ^ 63"

definition in_int64 :: "int \<Rightarrow> bool" where
  "in_int64 x \<longleftrightarrow> - (2 ^ 63) \<le> x \<and> x < 2 ^ 63"

lemma wrap64_id [simp]: "in_int64 x \<Longrightarrow> wrap64 x = x"
  by (simp add: wrap64_def in_int64_def)

lemma in_int64_wrap64 [simp]: "in_int64 (wrap64 x)"
proof -
  have "0 \<le> (x + 2 ^ 63) mod 2 ^ 64" "(x + 2 ^ 63) mod 2 ^ 64 < (2 ^ 64 :: int)"
    by simp_all
  then show ?thesis by (simp add: in_int64_def wrap64_def)
qed

lemma wrap64_cong: "x mod 2 ^ 64 = y mod 2 ^ 64 \<Longrightarrow> wrap64 x = wrap64 y"
  unfolding wrap64_def by (metis mod_add_left_eq)

lemma wrap64_mod: "wrap64 x mod 2 ^ 64 = x mod 2 ^ 64"
proof -
  have "((x + 2 ^ 63) mod 2 ^ 64 - 2 ^ 63) mod 2 ^ 64 = (x + 2 ^ 63 - 2 ^ 63) mod (2 ^ 64 :: int)"
    by (rule mod_diff_left_eq)
  then show ?thesis by (simp add: wrap64_def)
qed

lemma wrap64_add_left [simp]: "wrap64 (wrap64 x + y) = wrap64 (x + y)"
  by (rule wrap64_cong) (metis mod_add_left_eq wrap64_mod)

lemma wrap64_add_right [simp]: "wrap64 (x + wrap64 y) = wrap64 (x + y)"
  by (rule wrap64_cong) (metis mod_add_right_eq wrap64_mod)

lemma wrap64_diff_left [simp]: "wrap64 (wrap64 x - y) = wrap64 (x - y)"
  by (rule wrap64_cong) (metis mod_diff_left_eq wrap64_mod)

lemma wrap64_diff_right [simp]: "wrap64 (x - wrap64 y) = wrap64 (x - y)"
  by (rule wrap64_cong) (metis mod_diff_right_eq wrap64_mod)

lemma wrap64_idem [simp]: "wrap64 (wrap64 x) = wrap64 x"
  by simp

text \<open>Go's integer division truncates towards zero.\<close>

definition quot :: "int \<Rightarrow> int \<Rightarrow> int" where
  "quot a b = sgn a * sgn b * (\<bar>a\<bar> div \<bar>b\<bar>)"

lemma quot_nonneg [simp]: "0 \<le> a \<Longrightarrow> 0 < b \<Longrightarrow> quot a b = a div b"
  by (cases "a = 0") (simp_all add: quot_def)

subsection \<open>Results\<close>

text \<open>\<open>Inl\<close> is a returned error, \<open>Inr\<close> a returned value.\<close>

fun bind_res :: "'e + 'a \<Rightarrow> ('a \<Rightarrow> 'e + 'b) \<Rightarrow> 'e + 'b" where
  "bind_res (Inl e) f = Inl e"
| "bind_res (Inr x) f = f x"

lemma bind_res_Inr_iff [res_iff]: "bind_res m f = Inr y \<longleftrightarrow> (\<exists>x. m = Inr x \<and> f x = Inr y)"
  by (cases m) auto

lemma bind_res_Inl_iff [res_iff]:
  "bind_res m f = Inl e \<longleftrightarrow> m = Inl e \<or> (\<exists>x. m = Inr x \<and> f x = Inl e)"
  by (cases m) auto

lemma bind_res_cong [fundef_cong]:
  "m = m' \<Longrightarrow> (\<And>x. m' = Inr x \<Longrightarrow> f x = g x) \<Longrightarrow> bind_res m f = bind_res m' g"
  by (cases m') auto

definition or_default :: "'a option \<Rightarrow> 'a \<Rightarrow> 'a" where
  "or_default x d = (case x of None \<Rightarrow> d | Some y \<Rightarrow> y)"

lemma or_default_simps [simp]: "or_default None d = d" "or_default (Some y) d = y"
  by (simp_all add: or_default_def)

subsection \<open>Go maps\<close>

type_synonym 'v gomap = "(string \<times> 'v) list"

abbreviation gm_get :: "'v gomap \<Rightarrow> string \<Rightarrow> 'v option" where
  "gm_get m k \<equiv> map_of m k"

abbreviation gm_put :: "string \<Rightarrow> 'v \<Rightarrow> 'v gomap \<Rightarrow> 'v gomap" where
  "gm_put k v m \<equiv> AList.update k v m"

abbreviation gm_del :: "string \<Rightarrow> 'v gomap \<Rightarrow> 'v gomap" where
  "gm_del k m \<equiv> AList.delete k m"

definition gm_wf :: "'v gomap \<Rightarrow> bool" where
  "gm_wf m \<longleftrightarrow> distinct (map fst m)"

lemma gm_get_put [simp, go_map]: "gm_get (gm_put k v m) k' = (if k' = k then Some v else gm_get m k')"
  by (simp add: update_conv)

lemma gm_get_del [simp, go_map]: "gm_get (gm_del k m) k' = (if k' = k then None else gm_get m k')"
  by (simp add: delete_conv)

lemma gm_wf_put [simp, intro]: "gm_wf m \<Longrightarrow> gm_wf (gm_put k v m)"
  by (simp add: gm_wf_def distinct_update)

lemma gm_wf_del [simp, intro]: "gm_wf m \<Longrightarrow> gm_wf (gm_del k m)"
  by (simp add: gm_wf_def distinct_delete)

lemma gm_wf_Nil [simp, intro]: "gm_wf []"
  by (simp add: gm_wf_def)

lemma gm_wf_Cons [simp]: "gm_wf (p # m) \<longleftrightarrow> fst p \<notin> fst ` set m \<and> gm_wf m"
  by (simp add: gm_wf_def)

lemma gm_put_fresh: "gm_get m k = None \<Longrightarrow> gm_put k v m = m @ [(k, v)]"
  by (induction m) (auto split: if_splits)

lemma gm_del_fresh: "gm_get m k = None \<Longrightarrow> gm_del k m = m"
  by (induction m) (auto split: if_splits)

lemma gm_del_put_fresh: "gm_get m k = None \<Longrightarrow> gm_del k (gm_put k v m) = m"
  by (induction m) (auto simp: gm_del_fresh split: if_splits)

lemma gm_put_put [simp]: "gm_put k v (gm_put k w m) = gm_put k v m"
  by (induction m) auto

lemma gm_put_same: "gm_wf m \<Longrightarrow> gm_get m k = Some v \<Longrightarrow> gm_put k v m = m"
  by (induction m) (auto split: if_splits simp: map_of_eq_None_iff)

lemma gm_get_in_set: "gm_get m k = Some v \<Longrightarrow> (k, v) \<in> set m"
  by (rule map_of_SomeD)

lemma gm_in_set_get: "gm_wf m \<Longrightarrow> (k, v) \<in> set m \<Longrightarrow> gm_get m k = Some v"
  by (simp add: gm_wf_def)

lemma gm_put_nonempty [simp]: "gm_put k v m \<noteq> []"
  by (cases m) auto

text \<open>Totals over the entries of a map.\<close>

definition gm_sum :: "('v \<Rightarrow> int) \<Rightarrow> 'v gomap \<Rightarrow> int" where
  "gm_sum f m = sum_list (map (\<lambda>p. f (snd p)) m)"

lemma gm_sum_simps [simp]: "gm_sum f [] = 0" "gm_sum f (p # m) = f (snd p) + gm_sum f m"
  by (simp_all add: gm_sum_def)

lemma gm_sum_append [simp]: "gm_sum f (m @ m') = gm_sum f m + gm_sum f m'"
  by (simp add: gm_sum_def)

lemma gm_sum_put:
  "gm_wf m \<Longrightarrow> gm_sum f (gm_put k v m) = gm_sum f m + f v - (case gm_get m k of None \<Rightarrow> 0 | Some w \<Rightarrow> f w)"
  by (induction m) (auto split: option.splits)

lemma gm_sum_del:
  "gm_wf m \<Longrightarrow> gm_sum f (gm_del k m) = gm_sum f m - (case gm_get m k of None \<Rightarrow> 0 | Some w \<Rightarrow> f w)"
proof (induction m)
  case (Cons p m)
  then show ?case
    by (cases "fst p = k") (auto simp: gm_del_fresh map_of_eq_None_iff split: option.splits)
qed simp

lemma gm_sum_mono: "(\<And>k v. (k, v) \<in> set m \<Longrightarrow> 0 \<le> f v) \<Longrightarrow> 0 \<le> gm_sum f m"
proof (induction m)
  case (Cons p m)
  have "0 \<le> f (snd p)" using Cons.prems [of "fst p" "snd p"] by simp
  moreover have "0 \<le> gm_sum f m" using Cons by auto
  ultimately show ?case by simp
qed simp

lemma gm_put_length: "int (length (gm_put k v m)) = int (length m) + (if gm_get m k = None then 1 else 0)"
  by (induction m) (auto split: if_splits)

lemma gm_del_length:
  "gm_wf m \<Longrightarrow> int (length (gm_del k m)) = int (length m) - (if gm_get m k = None then 0 else 1)"
proof (induction m)
  case (Cons p m)
  then show ?case by (cases "fst p = k") (auto simp: gm_del_fresh map_of_eq_None_iff)
qed simp

end
