(* ===== verification/GoStrings.thy ===== *)
theory GoStrings
  imports Prelude
begin

text \<open>
  The functions of Go's package \<^verbatim>\<open>strings\<close>
  that the journey engine calls, on byte strings. \<open>ToLower\<close>, \<open>ToUpper\<close>, \<open>TrimSpace\<close> and
  \<open>EqualFold\<close> follow Go's ASCII path: bytes from 128 on are ordinary, unchanged characters.
\<close>

subsection \<open>Prefixes and suffixes\<close>

definition HasPrefix :: "string \<Rightarrow> string \<Rightarrow> bool" where
  "HasPrefix s p \<longleftrightarrow> take (length p) s = p"

definition HasSuffix :: "string \<Rightarrow> string \<Rightarrow> bool" where
  "HasSuffix s p \<longleftrightarrow> length p \<le> length s \<and> drop (length s - length p) s = p"

definition TrimPrefix :: "string \<Rightarrow> string \<Rightarrow> string" where
  "TrimPrefix s p = (if HasPrefix s p then drop (length p) s else s)"

definition TrimSuffix :: "string \<Rightarrow> string \<Rightarrow> string" where
  "TrimSuffix s p = (if HasSuffix s p then take (length s - length p) s else s)"

lemma HasPrefix_append [simp, go_str]: "HasPrefix (p @ s) p"
  by (simp add: HasPrefix_def)

lemma HasSuffix_append [simp, go_str]: "HasSuffix (s @ p) p"
  by (simp add: HasSuffix_def)

lemma TrimPrefix_append [simp, go_str]: "TrimPrefix (p @ s) p = s"
  by (simp add: TrimPrefix_def)

lemma TrimSuffix_append [simp, go_str]: "TrimSuffix (s @ p) p = s"
  by (simp add: TrimSuffix_def)

lemma HasPrefix_iff: "HasPrefix s p \<longleftrightarrow> (\<exists>t. s = p @ t)"
  unfolding HasPrefix_def by (metis append_eq_conv_conj append_take_drop_id)

lemma HasPrefix_length: "HasPrefix s p \<Longrightarrow> length p \<le> length s"
  by (auto simp: HasPrefix_iff)

lemma HasSuffix_iff: "HasSuffix s p \<longleftrightarrow> (\<exists>t. s = t @ p)"
  unfolding HasSuffix_def by (auto, metis append_take_drop_id)

subsection \<open>Searching and splitting\<close>

text \<open>\<open>Index s sub\<close> is the first occurrence; \<open>None\<close> stands for Go's \<open>-1\<close>.\<close>

fun Index :: "string \<Rightarrow> string \<Rightarrow> nat option" where
  "Index [] sub = (if sub = [] then Some 0 else None)"
| "Index (c # s) sub = (if HasPrefix (c # s) sub then Some 0 else map_option Suc (Index s sub))"

fun IndexByte :: "string \<Rightarrow> char \<Rightarrow> nat option" where
  "IndexByte [] b = None"
| "IndexByte (c # s) b = (if c = b then Some 0 else map_option Suc (IndexByte s b))"

definition Contains :: "string \<Rightarrow> string \<Rightarrow> bool" where
  "Contains s sub \<longleftrightarrow> Index s sub \<noteq> None"

text \<open>\<open>strings.SplitN(s, sep, 2)\<close> for a one-byte separator: one or two parts.\<close>

definition SplitN2 :: "string \<Rightarrow> char \<Rightarrow> string list" where
  "SplitN2 s b = (case IndexByte s b of None \<Rightarrow> [s] | Some i \<Rightarrow> [take i s, drop (Suc i) s])"

text \<open>\<open>strings.Split(s, sep)\<close> for a one-byte separator; never empty.\<close>

fun Split :: "string \<Rightarrow> char \<Rightarrow> string list" where
  "Split [] b = [[]]"
| "Split (c # s) b = (if c = b then [] # Split s b
     else (case Split s b of [] \<Rightarrow> [[c]] | w # ws \<Rightarrow> (c # w) # ws))"

fun Join :: "string list \<Rightarrow> string \<Rightarrow> string" where
  "Join [] sep = []"
| "Join [w] sep = w"
| "Join (w # v # ws) sep = w @ sep @ Join (v # ws) sep"

lemma IndexByte_Some: "IndexByte s b = Some i \<Longrightarrow> i < length s \<and> s ! i = b \<and> b \<notin> set (take i s)"
  by (induction s b arbitrary: i rule: IndexByte.induct) (auto split: if_splits)

lemma IndexByte_None: "IndexByte s b = None \<longleftrightarrow> b \<notin> set s"
  by (induction s b rule: IndexByte.induct) auto

lemma IndexByte_append: "b \<notin> set s \<Longrightarrow> IndexByte (s @ b # t) b = Some (length s)"
  by (induction s) auto

lemma SplitN2_append [go_str]: "b \<notin> set s \<Longrightarrow> SplitN2 (s @ b # t) b = [s, t]"
  by (simp add: SplitN2_def IndexByte_append)

lemma SplitN2_single [go_str]: "b \<notin> set s \<Longrightarrow> SplitN2 s b = [s]"
  by (simp add: SplitN2_def IndexByte_None [THEN iffD2])

lemma SplitN2_cases:
  "SplitN2 s b = [s] \<and> b \<notin> set s \<or> (\<exists>l r. SplitN2 s b = [l, r] \<and> s = l @ b # r \<and> b \<notin> set l)"
proof (cases "IndexByte s b")
  case None
  then show ?thesis by (simp add: SplitN2_def IndexByte_None [symmetric])
next
  case (Some i)
  then have "i < length s" "s ! i = b" "b \<notin> set (take i s)"
    using IndexByte_Some by blast+
  moreover have "s = take i s @ s ! i # drop (Suc i) s"
    using \<open>i < length s\<close> by (rule id_take_nth_drop)
  ultimately show ?thesis using Some by (auto simp: SplitN2_def)
qed

lemma Split_not_Nil [simp]: "Split s b \<noteq> []"
  by (induction s b rule: Split.induct) (auto split: list.splits)

lemma Join_Split [simp, go_str]: "Join (Split s b) [b] = s"
proof (induction s b rule: Split.induct)
  case (2 c s b)
  then show ?case by (cases "Split s b"; cases "tl (Split s b)") auto
qed simp

lemma Split_no_sep: "b \<notin> set s \<Longrightarrow> Split s b = [s]"
  by (induction s b rule: Split.induct) auto

lemma Split_append: "b \<notin> set s \<Longrightarrow> Split (s @ b # t) b = s # Split t b"
  by (induction s) auto

lemma Split_parts: "w \<in> set (Split s b) \<Longrightarrow> b \<notin> set w"
  by (induction s b arbitrary: w rule: Split.induct)
     (force split: if_splits list.splits)+

lemma Split_Join: "ws \<noteq> [] \<Longrightarrow> (\<And>w. w \<in> set ws \<Longrightarrow> b \<notin> set w) \<Longrightarrow> Split (Join ws [b]) b = ws"
proof (induction ws "[b]" rule: Join.induct)
  case (3 w v ws)
  then show ?case by (simp add: Split_append)
qed (auto simp: Split_no_sep)

lemma Index_HasPrefix: "Index s sub = Some i \<Longrightarrow> i + length sub \<le> length s \<and> HasPrefix (drop i s) sub"
proof (induction s sub arbitrary: i rule: Index.induct)
  case (2 c s sub)
  then show ?case
    by (auto split: if_splits dest: HasPrefix_length)
qed (auto simp: HasPrefix_def split: if_splits)

lemma Index_append_Some: "Index s sub = Some i \<Longrightarrow> sub \<noteq> [] \<Longrightarrow> Index (s @ t) sub = Some i"
proof (induction s sub arbitrary: i rule: Index.induct)
  case (2 c s sub)
  have "HasPrefix (c # s) sub \<Longrightarrow> HasPrefix (c # s @ t) sub"
    by (metis HasPrefix_iff append_assoc append_Cons)
  moreover have "\<not> HasPrefix (c # s) sub \<Longrightarrow> Index s sub \<noteq> None \<Longrightarrow> \<not> HasPrefix (c # s @ t) sub"
  proof -
    assume np: "\<not> HasPrefix (c # s) sub" and "Index s sub \<noteq> None"
    then obtain j where "Index s sub = Some j" by blast
    then have "length sub \<le> length s" using Index_HasPrefix by fastforce
    with np show "\<not> HasPrefix (c # s @ t) sub"
      by (auto simp: HasPrefix_def take_Cons split: nat.splits)
  qed
  ultimately show ?case using 2 by (auto split: if_splits)
qed (auto split: if_splits)

subsection \<open>Case and white space\<close>

definition is_space :: "char \<Rightarrow> bool" where
  "is_space c \<longleftrightarrow> (let n = of_char c in n = (9::nat) \<or> n = 10 \<or> n = 11 \<or> n = 12 \<or> n = 13 \<or> n = 32)"

definition lower_char :: "char \<Rightarrow> char" where
  "lower_char c = (let n = of_char c in if (65::nat) \<le> n \<and> n \<le> 90 then char_of (n + 32) else c)"

definition upper_char :: "char \<Rightarrow> char" where
  "upper_char c = (let n = of_char c in if (97::nat) \<le> n \<and> n \<le> 122 then char_of (n - 32) else c)"

definition ToLower :: "string \<Rightarrow> string" where
  "ToLower = map lower_char"

definition ToUpper :: "string \<Rightarrow> string" where
  "ToUpper = map upper_char"

definition EqualFold :: "string \<Rightarrow> string \<Rightarrow> bool" where
  "EqualFold s t \<longleftrightarrow> ToLower s = ToLower t"

definition trim_by :: "(char \<Rightarrow> bool) \<Rightarrow> string \<Rightarrow> string" where
  "trim_by p s = rev (dropWhile p (rev (dropWhile p s)))"

definition TrimSpace :: "string \<Rightarrow> string" where
  "TrimSpace = trim_by is_space"

text \<open>\<open>strings.Trim\<close>, \<open>TrimLeft\<close> and \<open>TrimRight\<close> with a cutset of one byte.\<close>

definition Trim :: "string \<Rightarrow> char \<Rightarrow> string" where
  "Trim s b = trim_by (\<lambda>c. c = b) s"

definition TrimLeft :: "string \<Rightarrow> char \<Rightarrow> string" where
  "TrimLeft s b = dropWhile (\<lambda>c. c = b) s"

definition TrimRight :: "string \<Rightarrow> char \<Rightarrow> string" where
  "TrimRight s b = rev (dropWhile (\<lambda>c. c = b) (rev s))"

lemma trim_by_decomp:
  "\<exists>l r. s = l @ trim_by p s @ r \<and> (\<forall>c \<in> set l. p c) \<and> (\<forall>c \<in> set r. p c)"
proof -
  define d where "d = dropWhile p s"
  have s: "s = takeWhile p s @ d" by (simp add: d_def)
  have "rev (takeWhile p (rev d) @ dropWhile p (rev d)) = d"
    by (simp only: takeWhile_dropWhile_id rev_rev_ident)
  then have d: "d = trim_by p s @ rev (takeWhile p (rev d))"
    by (simp only: trim_by_def d_def [symmetric] rev_append)
  have "s = takeWhile p s @ trim_by p s @ rev (takeWhile p (rev d))"
    using s d by metis
  moreover have "\<forall>c \<in> set (takeWhile p s). p c" "\<forall>c \<in> set (rev (takeWhile p (rev d))). p c"
    by (auto dest: set_takeWhileD)
  ultimately show ?thesis by blast
qed

lemma trim_by_id: "(s \<noteq> [] \<Longrightarrow> \<not> p (hd s) \<and> \<not> p (last s)) \<Longrightarrow> trim_by p s = s"
proof (cases s)
  case (Cons c t)
  assume "s \<noteq> [] \<Longrightarrow> \<not> p (hd s) \<and> \<not> p (last s)"
  with Cons have "\<not> p c" "\<not> p (last s)" by auto
  with Cons have "dropWhile p s = s" "dropWhile p (rev s) = rev s"
    by (simp_all only: dropWhile_eq_self_iff) (simp_all add: hd_rev del: rev.simps)
  then show ?thesis by (simp add: trim_by_def)
qed (simp add: trim_by_def)

lemma trim_by_edges: "trim_by p s \<noteq> [] \<Longrightarrow> \<not> p (hd (trim_by p s)) \<and> \<not> p (last (trim_by p s))"
proof -
  assume ne: "trim_by p s \<noteq> []"
  define d where "d = dropWhile p s"
  define e where "e = dropWhile p (rev d)"
  have t: "trim_by p s = rev e" by (simp add: trim_by_def d_def e_def)
  with ne have e: "e \<noteq> []" by simp
  then have he: "\<not> p (hd e)" unfolding e_def by (rule hd_dropWhile)
  from e have d: "d \<noteq> []" unfolding e_def by auto
  then have "\<not> p (hd d)" unfolding d_def by (rule hd_dropWhile)
  moreover have "last e = last (rev d)"
  proof -
    have "rev d = takeWhile p (rev d) @ e" by (simp add: e_def)
    with e show ?thesis by (metis last_appendR)
  qed
  ultimately have "\<not> p (last e)" using d by (simp add: last_rev)
  with t he e show ?thesis by (simp add: hd_rev last_rev)
qed

lemma trim_by_idem [simp]: "trim_by p (trim_by p s) = trim_by p s"
  by (rule trim_by_id) (rule trim_by_edges)

lemma TrimSpace_idem [simp, go_str]: "TrimSpace (TrimSpace s) = TrimSpace s"
  by (simp add: TrimSpace_def)

lemma lower_char_idem [simp]: "lower_char (lower_char c) = lower_char c"
proof -
  define n where "n = (of_char c :: nat)"
  have "n < 256" by (simp add: n_def)
  then show ?thesis
    by (auto simp: lower_char_def Let_def n_def [symmetric])
qed

lemma upper_char_idem [simp]: "upper_char (upper_char c) = upper_char c"
proof -
  define n where "n = (of_char c :: nat)"
  have "n < 256" by (simp add: n_def)
  then show ?thesis
    by (auto simp: upper_char_def Let_def n_def [symmetric])
qed

lemma is_space_lower_char [simp]: "is_space (lower_char c) = is_space c"
proof -
  define n where "n = (of_char c :: nat)"
  have "n < 256" by (simp add: n_def)
  then show ?thesis
    by (auto simp: is_space_def lower_char_def Let_def n_def [symmetric])
qed

lemma ToLower_idem [simp, go_str]: "ToLower (ToLower s) = ToLower s"
  by (simp add: ToLower_def)

lemma ToUpper_idem [simp, go_str]: "ToUpper (ToUpper s) = ToUpper s"
  by (simp add: ToUpper_def)

lemma trim_by_map: "(\<And>c. p (f c) = p c) \<Longrightarrow> trim_by p (map f s) = map f (trim_by p s)"
  by (simp add: trim_by_def dropWhile_map comp_def rev_map)

lemma TrimSpace_ToLower [go_str]: "TrimSpace (ToLower s) = ToLower (TrimSpace s)"
  by (simp add: TrimSpace_def ToLower_def trim_by_map)

lemma TrimSpace_Nil [simp]: "TrimSpace [] = []"
  by (simp add: TrimSpace_def trim_by_def)

subsection \<open>Replacement\<close>

text \<open>\<open>strings.ReplaceAll(s, old, new)\<close> for a non-empty \<open>old\<close>.\<close>

function ReplaceAll :: "string \<Rightarrow> string \<Rightarrow> string \<Rightarrow> string" where
  "ReplaceAll s old new =
     (if old = [] then s
      else case Index s old of
        None \<Rightarrow> s
      | Some i \<Rightarrow> take i s @ new @ ReplaceAll (drop (i + length old) s) old new)"
  by pat_completeness auto
termination
proof (relation "measure (\<lambda>(s, old, new). length s)", goal_cases)
  case (2 s old new i)
  then have "i + length old \<le> length s" "0 < length old"
    using Index_HasPrefix by auto
  then have "length (drop (i + length old) s) < length s"
    unfolding length_drop by linarith
  then show ?case by simp
qed simp

declare ReplaceAll.simps [simp del]

definition ReplaceOnce :: "string \<Rightarrow> string \<Rightarrow> string \<Rightarrow> string" where
  "ReplaceOnce s old new = (case Index s old of None \<Rightarrow> s
     | Some i \<Rightarrow> take i s @ new @ drop (i + length old) s)"

lemma ReplaceAll_absent: "Index s old = None \<Longrightarrow> ReplaceAll s old new = s"
  by (simp add: ReplaceAll.simps)

subsection \<open>Decimal printing\<close>

text \<open>\<open>strconv.Itoa\<close> on a natural number.\<close>

fun nat_str :: "nat \<Rightarrow> string" where
  "nat_str n = (if n < 10 then [char_of (n + 48)]
     else nat_str (n div 10) @ [char_of (n mod 10 + 48)])"

declare nat_str.simps [simp del]

end
