(* ===== verification/Values.thy ===== *)
theory Values
  imports GoStrings
begin

text \<open>
  The values a journey carries (Go's \<open>any\<close>), the error values the engine returns, and the
  third-party container \<^verbatim>\<open>goutils.TreeMapImpl\<close> as a record of operations that every
  definition using it takes as its argument \<open>T\<close>. \<open>AsXOr(d)\<close> of that package is read as
  \<open>AsX\<close> with \<open>d\<close> on error (\<open>or_default\<close>). \<open>ref_tree\<close> is one concrete instance, a nested
  object addressed by dotted paths; only witnesses use it.
\<close>

subsection \<open>Errors (errors.go, types/step.type.go)\<close>

datatype go_error =
    ErrJourneyInvalidPayload string
  | ErrJourneyNotFound
  | ErrInvalidJourneyToken
  | ErrJourneyInvalidOutcome
  | ErrJourneyFailure
  | ErrJourneyStateStore
  | JourneyInfiniteLoopErr string
  | ErrStepNotFound
  | ErrInvalidStepConfig
  | StepUnsupported string
  | StepNotFound string
  | StepInvalidConfig string string
  | StepInvalidOutcome string string
  | ErrCacheNotFound
  | ErrInstanceNotFound
  | ErrFactoryNotFound string
  | ErrInstanceNotPointer
  | ErrMaxInstances
  | ErrMaxSize
  | ErrScheduleNoResult
  | ErrText string
  | ErrWrap string go_error
  | GoPanic string

type_synonym 'a res = "go_error + 'a"

subsection \<open>Values\<close>

record StepPlaceholder =
  Template :: string
  StartsAt :: int
  EndsAt :: int

record StepVariable =
  sv_Type :: string
  sv_Placeholders :: "StepPlaceholder list"

text \<open>
  \<open>GFloat\<close> holds the 64 bits of an IEEE double; \<open>GVar\<close> is a Go struct of type
  \<^verbatim>\<open>StepVariable\<close> stored in a \<^verbatim>\<open>map[string]any\<close>; \<open>GOpaque\<close> is any value that is not
  JSON data (a function, a channel, a pointer).
\<close>

datatype gval =
    GNil
  | GBool bool
  | GInt int
  | GFloat "64 word"
  | GStr string
  | GArr "gval list"
  | GObj "(string \<times> gval) list"
  | GVar StepVariable
  | GOpaque nat

type_synonym DefaultMap = "gval gomap"

subsection \<open>JSON data\<close>

text \<open>
  A JSON text is represented by the value it denotes. \<open>json_ok\<close> says when \<^verbatim>\<open>json.Marshal\<close>
  succeeds, \<open>json_any\<close> is what \<^verbatim>\<open>json.Unmarshal\<close> into an \<open>any\<close> then gives back: every
  number becomes the nearest double.
\<close>

definition f64_exp :: "64 word \<Rightarrow> nat" where
  "f64_exp f = unat f div 2 ^ 52 mod 2 ^ 11"

definition f64_finite :: "64 word \<Rightarrow> bool" where
  "f64_finite f \<longleftrightarrow> f64_exp f \<noteq> 2047"

fun bit_len :: "nat \<Rightarrow> nat" where
  "bit_len n = (if n = 0 then 0 else Suc (bit_len (n div 2)))"

declare bit_len.simps [simp del]

text \<open>Conversion of an integer to a double, rounding to nearest with ties to even.\<close>

definition f64_of_int :: "int \<Rightarrow> 64 word" where
  "f64_of_int i =
     (if i = 0 then 0
      else let a = nat \<bar>i\<bar>; e = bit_len a - 1;
               m = (if e \<le> 52 then a * 2 ^ (52 - e)
                    else let s = e - 52; q = a div 2 ^ s; r = a mod 2 ^ s; h = 2 ^ (s - 1)
                         in if h < r \<or> r = h \<and> odd q then Suc q else q);
               bits = (e + 1023) * 2 ^ 52 + (m - 2 ^ 52)
           in word_of_nat ((if i < 0 then 2 ^ 63 else 0) + bits))"

fun json_ok :: "gval \<Rightarrow> bool" where
  "json_ok (GFloat f) = f64_finite f"
| "json_ok (GArr vs) = list_all json_ok vs"
| "json_ok (GObj m) = list_all (\<lambda>p. json_ok (snd p)) m"
| "json_ok (GOpaque n) = False"
| "json_ok _ = True"

definition json_placeholder :: "StepPlaceholder \<Rightarrow> gval" where
  "json_placeholder p = GObj [(''template'', GStr (Template p)),
     (''starts_at'', GFloat (f64_of_int (StartsAt p))), (''ends_at'', GFloat (f64_of_int (EndsAt p)))]"

fun json_any :: "gval \<Rightarrow> gval" where
  "json_any (GInt i) = GFloat (f64_of_int i)"
| "json_any (GArr vs) = GArr (map json_any vs)"
| "json_any (GObj m) = GObj (map (\<lambda>p. (fst p, json_any (snd p))) m)"
| "json_any (GVar v) = GObj [(''type'', GStr (sv_Type v)),
     (''placeholders'', GArr (map json_placeholder (sv_Placeholders v)))]"
| "json_any v = v"

definition json_map :: "DefaultMap \<Rightarrow> DefaultMap" where
  "json_map m = map (\<lambda>p. (fst p, json_any (snd p))) m"

definition json_copy :: "gval \<Rightarrow> gval res" where
  "json_copy v = (if json_ok v then Inr (json_any v) else Inl (ErrText ''json: unsupported value''))"

lemma json_any_idem [simp]: "json_any (json_any v) = json_any v"
proof (induction v rule: json_any.induct)
  case (3 m)
  then show ?case by (auto simp: comp_def)
next
  case (4 v)
  then show ?case by (simp add: comp_def json_placeholder_def)
qed (auto simp: comp_def)

lemma json_map_idem [simp]: "json_map (json_map m) = json_map m"
  by (simp add: json_map_def comp_def)

lemma json_map_keys [simp]: "map fst (json_map m) = map fst m"
  by (simp add: json_map_def comp_def)

lemma json_map_Nil_iff [simp]: "json_map m = [] \<longleftrightarrow> m = []"
  by (simp add: json_map_def)

lemma gm_get_json_map: "gm_get (json_map m) k = map_option json_any (gm_get m k)"
  by (induction m) (auto simp: json_map_def)

subsection \<open>The tree container\<close>

record 't treemap =
  tm_empty :: 't
  tm_new :: "gval \<Rightarrow> 't"
  tm_get :: "'t \<Rightarrow> string \<Rightarrow> 't"
  tm_set :: "'t \<Rightarrow> string \<Rightarrow> gval \<Rightarrow> 't"
  tm_delete :: "'t \<Rightarrow> string \<Rightarrow> 't \<times> 't"
  tm_try_delete :: "'t \<Rightarrow> string \<Rightarrow> 't"
  tm_defined :: "'t \<Rightarrow> string \<Rightarrow> bool"
  tm_is_empty :: "'t \<Rightarrow> bool"
  tm_as_any :: "'t \<Rightarrow> gval option"
  tm_as_string :: "'t \<Rightarrow> string option"
  tm_as_int :: "'t \<Rightarrow> int option"
  tm_as_float :: "'t \<Rightarrow> 64 word option"
  tm_as_bool :: "'t \<Rightarrow> bool option"
  tm_as_map :: "'t \<Rightarrow> DefaultMap option"
  tm_as_slice :: "'t \<Rightarrow> 't list option"
  tm_as_struct :: "'t \<Rightarrow> gval option"
  tm_keys :: "'t \<Rightarrow> string list"

text \<open>\<open>tm_delete\<close> gives the tree left behind and the removed subtree that \<open>Delete\<close> returns.\<close>

definition get_str_or :: "'t treemap \<Rightarrow> 't \<Rightarrow> string \<Rightarrow> string \<Rightarrow> string" where
  "get_str_or T t k d = or_default (tm_as_string T (tm_get T t k)) d"

definition get_int_or :: "'t treemap \<Rightarrow> 't \<Rightarrow> string \<Rightarrow> int \<Rightarrow> int" where
  "get_int_or T t k d = or_default (tm_as_int T (tm_get T t k)) d"

definition get_bool_or :: "'t treemap \<Rightarrow> 't \<Rightarrow> string \<Rightarrow> bool \<Rightarrow> bool" where
  "get_bool_or T t k d = or_default (tm_as_bool T (tm_get T t k)) d"

definition get_any_or :: "'t treemap \<Rightarrow> 't \<Rightarrow> string \<Rightarrow> gval \<Rightarrow> gval" where
  "get_any_or T t k d = or_default (tm_as_any T (tm_get T t k)) d"

lemmas get_or_defs = get_str_or_def get_int_or_def get_bool_or_def get_any_or_def

subsection \<open>A concrete tree for witnesses\<close>

fun rt_get :: "gval \<Rightarrow> string list \<Rightarrow> gval" where
  "rt_get v [] = v"
| "rt_get (GObj m) (k # ks) = (case gm_get m k of None \<Rightarrow> GNil | Some w \<Rightarrow> rt_get w ks)"
| "rt_get _ (k # ks) = GNil"

fun rt_set :: "gval \<Rightarrow> string list \<Rightarrow> gval \<Rightarrow> gval" where
  "rt_set v [] x = x"
| "rt_set (GObj m) (k # ks) x =
     GObj (gm_put k (rt_set (case gm_get m k of None \<Rightarrow> GObj [] | Some w \<Rightarrow> w) ks x) m)"
| "rt_set _ (k # ks) x = GObj [(k, rt_set (GObj []) ks x)]"

fun rt_del :: "gval \<Rightarrow> string list \<Rightarrow> gval" where
  "rt_del v [] = v"
| "rt_del (GObj m) [k] = GObj (gm_del k m)"
| "rt_del (GObj m) (k # k' # ks) = (case gm_get m k of None \<Rightarrow> GObj m
     | Some w \<Rightarrow> GObj (gm_put k (rt_del w (k' # ks)) m))"
| "rt_del v (k # ks) = v"

definition rt_path :: "string \<Rightarrow> string list" where
  "rt_path p = (if p = [] then [] else Split p (CHR ''.''))"

definition ref_tree :: "gval treemap" where
  "ref_tree = \<lparr>
     tm_empty = GObj [],
     tm_new = (\<lambda>v. v),
     tm_get = (\<lambda>t p. rt_get t (rt_path p)),
     tm_set = (\<lambda>t p v. rt_set t (rt_path p) v),
     tm_delete = (\<lambda>t p. (rt_del t (rt_path p), rt_get t (rt_path p))),
     tm_try_delete = (\<lambda>t p. rt_del t (rt_path p)),
     tm_defined = (\<lambda>t p. rt_get t (rt_path p) \<noteq> GNil),
     tm_is_empty = (\<lambda>t. t = GNil),
     tm_as_any = (\<lambda>t. if t = GNil then None else Some t),
     tm_as_string = (\<lambda>t. case t of GStr s \<Rightarrow> Some s | _ \<Rightarrow> None),
     tm_as_int = (\<lambda>t. case t of GInt i \<Rightarrow> Some i | _ \<Rightarrow> None),
     tm_as_float = (\<lambda>t. case t of GFloat f \<Rightarrow> Some f | _ \<Rightarrow> None),
     tm_as_bool = (\<lambda>t. case t of GBool b \<Rightarrow> Some b | _ \<Rightarrow> None),
     tm_as_map = (\<lambda>t. case t of GObj m \<Rightarrow> Some m | _ \<Rightarrow> None),
     tm_as_slice = (\<lambda>t. case t of GArr vs \<Rightarrow> Some vs | _ \<Rightarrow> None),
     tm_as_struct = (\<lambda>t. if t = GNil then None else Some t),
     tm_keys = (\<lambda>t. case t of GObj m \<Rightarrow> map fst m | _ \<Rightarrow> [])\<rparr>"

end
