(* ===== verification/JourneyState.thy ===== *)
theory JourneyState
  imports Values
begin

text \<open>
  \<^verbatim>\<open>types/journey.state.go\<close>: the state of one journey invocation. A nil context tree is
  \<open>None\<close>; the getters create or decrypt a context on first use and therefore return the
  updated state beside the tree. Encryption and decryption are \<^verbatim>\<open>types/journey.type.go\<close>;
  the cipher, base64 and the JSON text of the plaintext are the record \<open>K\<close> of third-party
  operations.
\<close>

subsection \<open>Data\<close>

record 't JourneyState =
  js_ClosedCtx :: "'t option"
  js_Exp :: int
  js_TrackingsID :: "string list option"
  js_Jti :: string
  js_Realm :: string
  js_Ctx :: "DefaultMap option"
  js_ctx :: "'t option"
  js_EncryptedCtx :: string
  js_encryptedCtx :: "'t option"
  js_tempCtx :: "'t option"
  js_encryptionKey :: string
  js_encryptionErr :: "go_error option"
  js_result :: gval
  js_resultSet :: bool

definition zero_state :: "'t JourneyState" where
  "zero_state = \<lparr>js_ClosedCtx = None, js_Exp = 0, js_TrackingsID = None, js_Jti = '''', js_Realm = '''',
     js_Ctx = None, js_ctx = None, js_EncryptedCtx = '''', js_encryptedCtx = None, js_tempCtx = None,
     js_encryptionKey = '''', js_encryptionErr = None, js_result = GNil, js_resultSet = False\<rparr>"

definition NewJourneyState :: "'t treemap \<Rightarrow> 't JourneyState" where
  "NewJourneyState T = zero_state\<lparr>js_tempCtx := Some (tm_empty T)\<rparr>"

subsection \<open>Encryption of a context\<close>

record crypto =
  cr_marshal :: "gval \<Rightarrow> string option"
  cr_unmarshal :: "string \<Rightarrow> DefaultMap option"
  cr_encrypt :: "string \<Rightarrow> string \<Rightarrow> string option"
  cr_decrypt :: "string \<Rightarrow> string \<Rightarrow> string option"
  cr_b64enc :: "string \<Rightarrow> string"
  cr_b64dec :: "string \<Rightarrow> string option"

definition EncryptCtx :: "crypto \<Rightarrow> DefaultMap \<Rightarrow> string \<Rightarrow> string res" where
  "EncryptCtx K m key =
     (case cr_marshal K (GObj m) of
        None \<Rightarrow> Inl (ErrText ''invalid encrypt'')
      | Some bytes \<Rightarrow>
          (case cr_encrypt K key bytes of
             None \<Rightarrow> Inl (ErrText ''invalid encrypt'')
           | Some d \<Rightarrow> Inr (cr_b64enc K d)))"

definition DecryptCtx :: "'t treemap \<Rightarrow> crypto \<Rightarrow> string \<Rightarrow> string \<Rightarrow> 't res" where
  "DecryptCtx T K s key =
     (case cr_b64dec K s of
        None \<Rightarrow> Inl (ErrText ''base64'')
      | Some d \<Rightarrow>
          (case cr_decrypt K key d of
             None \<Rightarrow> Inl (ErrText ''cipher'')
           | Some b \<Rightarrow>
               (case cr_unmarshal K b of
                  None \<Rightarrow> Inl (ErrText ''json'')
                | Some m \<Rightarrow> Inr (tm_new T (GObj m)))))"

text \<open>What the engine relies on: the three layers are inverted by their counterparts.\<close>

definition crypto_ok :: "crypto \<Rightarrow> string \<Rightarrow> DefaultMap \<Rightarrow> bool" where
  "crypto_ok K key m \<longleftrightarrow>
     (\<exists>b d. cr_marshal K (GObj m) = Some b \<and> cr_unmarshal K b = Some m \<and>
            cr_encrypt K key b = Some d \<and> cr_decrypt K key d = Some b \<and>
            cr_b64dec K (cr_b64enc K d) = Some d \<and> cr_b64enc K d \<noteq> [])"

lemma decrypt_encrypt:
  assumes "crypto_ok K key m" and "EncryptCtx K m key = Inr s"
  shows "DecryptCtx T K s key = Inr (tm_new T (GObj m))" and "s \<noteq> []"
  using assms by (auto simp: crypto_ok_def EncryptCtx_def DecryptCtx_def)

subsection \<open>Simple accessors\<close>

definition Init :: "'t treemap \<Rightarrow> 't JourneyState \<Rightarrow> 't JourneyState" where
  "Init T js = js\<lparr>js_tempCtx := Some (tm_empty T)\<rparr>"

definition SetEncryptionKey :: "string \<Rightarrow> 't JourneyState \<Rightarrow> 't JourneyState" where
  "SetEncryptionKey key js = js\<lparr>js_encryptionKey := key, js_encryptionErr := None\<rparr>"

definition MergeState :: "'t JourneyState \<Rightarrow> 't JourneyState \<Rightarrow> 't JourneyState" where
  "MergeState js st =
     (let a = (if js_TrackingsID js = None then js\<lparr>js_TrackingsID := js_TrackingsID st\<rparr> else js);
          b = (if js_encryptedCtx a = None then a\<lparr>js_encryptedCtx := js_encryptedCtx st\<rparr> else a);
          c = (if js_ClosedCtx b = None then b\<lparr>js_ClosedCtx := js_ClosedCtx st\<rparr> else b);
          d = (if js_tempCtx c = None then c\<lparr>js_tempCtx := js_tempCtx st\<rparr> else c);
          e = (if js_Realm d = '''' then d\<lparr>js_Realm := js_Realm st\<rparr> else d)
      in if js_result e = GNil then e\<lparr>js_result := js_result st\<rparr> else e)"

definition SetRealm :: "string \<Rightarrow> 't JourneyState \<Rightarrow> 't JourneyState" where
  "SetRealm r js = js\<lparr>js_Realm := r\<rparr>"

definition SetID :: "string \<Rightarrow> 't JourneyState \<Rightarrow> 't JourneyState" where
  "SetID i js = js\<lparr>js_Jti := i\<rparr>"

definition SetResult :: "gval \<Rightarrow> 't JourneyState \<Rightarrow> 't JourneyState" where
  "SetResult v js = js\<lparr>js_result := v, js_resultSet := True\<rparr>"

definition GetResult :: "'t JourneyState option \<Rightarrow> gval" where
  "GetResult js = (case js of None \<Rightarrow> GNil | Some s \<Rightarrow> js_result s)"

definition HasResult :: "'t JourneyState option \<Rightarrow> bool" where
  "HasResult js = (case js of None \<Rightarrow> False | Some s \<Rightarrow> js_resultSet s)"

definition ClearState :: "'t JourneyState \<Rightarrow> 't JourneyState" where
  "ClearState js = js\<lparr>js_ctx := None, js_encryptedCtx := None, js_tempCtx := None\<rparr>"

subsection \<open>The tracking stack\<close>

definition trackings :: "'t JourneyState \<Rightarrow> string list" where
  "trackings js = or_default (js_TrackingsID js) []"

definition frame :: "string \<Rightarrow> string \<Rightarrow> string" where
  "frame jid sid = jid @ '':'' @ sid"

definition parse_frame :: "string \<Rightarrow> string \<times> string" where
  "parse_frame f = (case SplitN2 f (CHR '':'') of [a, b] \<Rightarrow> (a, b) | _ \<Rightarrow> ('''', ''''))"

definition UnshiftTracking :: "string \<Rightarrow> string \<Rightarrow> 't JourneyState \<Rightarrow> 't JourneyState" where
  "UnshiftTracking jid sid js = js\<lparr>js_TrackingsID := Some (frame jid sid # trackings js)\<rparr>"

definition PushTracking :: "string \<Rightarrow> string \<Rightarrow> 't JourneyState \<Rightarrow> 't JourneyState" where
  "PushTracking jid sid js = js\<lparr>js_TrackingsID := Some (trackings js @ [frame jid sid])\<rparr>"

definition PopTracking :: "'t JourneyState \<Rightarrow> 't JourneyState \<times> (string \<times> string)" where
  "PopTracking js =
     (if trackings js \<noteq> []
      then (js\<lparr>js_TrackingsID := Some (butlast (trackings js))\<rparr>, parse_frame (last (trackings js)))
      else (js, ('''', '''')))"

definition GetTracking :: "'t JourneyState \<Rightarrow> string \<times> string" where
  "GetTracking js = (if trackings js \<noteq> [] then parse_frame (last (trackings js)) else ('''', ''''))"

definition ExistsTracking :: "'t JourneyState \<Rightarrow> bool" where
  "ExistsTracking js \<longleftrightarrow> trackings js \<noteq> []"

subsection \<open>The four contexts\<close>

definition GetCtx :: "'t treemap \<Rightarrow> 't JourneyState \<Rightarrow> 't JourneyState \<times> 't" where
  "GetCtx T js =
     (case js_ctx js of
        Some t \<Rightarrow> (js, t)
      | None \<Rightarrow>
          let t = (case js_Ctx js of Some m \<Rightarrow> tm_new T (GObj m) | None \<Rightarrow> tm_empty T)
          in (js\<lparr>js_ctx := Some t\<rparr>, t))"

definition GetEncryptedCtx :: "'t treemap \<Rightarrow> crypto \<Rightarrow> 't JourneyState \<Rightarrow> 't JourneyState \<times> 't" where
  "GetEncryptedCtx T K js =
     (case js_encryptedCtx js of
        Some t \<Rightarrow> (js, t)
      | None \<Rightarrow>
          if js_EncryptedCtx js \<noteq> ''''
          then (case DecryptCtx T K (js_EncryptedCtx js) (js_encryptionKey js) of
                  Inl e \<Rightarrow> (js\<lparr>js_encryptionErr := Some e, js_encryptedCtx := Some (tm_empty T)\<rparr>, tm_empty T)
                | Inr t \<Rightarrow> (js\<lparr>js_encryptedCtx := Some t\<rparr>, t))
          else (js\<lparr>js_encryptedCtx := Some (tm_empty T)\<rparr>, tm_empty T))"

definition GetClosedCtx :: "'t treemap \<Rightarrow> 't JourneyState \<Rightarrow> 't JourneyState \<times> 't" where
  "GetClosedCtx T js =
     (case js_ClosedCtx js of
        Some t \<Rightarrow> (js, t)
      | None \<Rightarrow> (js\<lparr>js_ClosedCtx := Some (tm_empty T)\<rparr>, tm_empty T))"

definition GetTempCtx :: "'t treemap \<Rightarrow> 't JourneyState \<Rightarrow> 't JourneyState \<times> 't" where
  "GetTempCtx T js =
     (case js_tempCtx js of
        Some t \<Rightarrow> (js, t)
      | None \<Rightarrow> (js\<lparr>js_tempCtx := Some (tm_empty T)\<rparr>, tm_empty T))"

definition SetAllCtx :: "'t \<Rightarrow> 't \<Rightarrow> 't \<Rightarrow> 't \<Rightarrow> 't JourneyState \<Rightarrow> 't JourneyState" where
  "SetAllCtx c e cl t js = js\<lparr>js_ctx := Some c, js_encryptedCtx := Some e,
     js_ClosedCtx := Some cl, js_tempCtx := Some t\<rparr>"

text \<open>
  \<open>State.Get(name)\<close> hands out a reference. The model names the context the reference
  points to, so that a later \<open>Set\<close> or \<open>Delete\<close> through it is \<open>put_kind\<close>.
\<close>

datatype ctx_kind = KCtx | KEnc | KClosed | KTemp

definition IsCtx :: "string \<Rightarrow> bool" where
  "IsCtx s \<longleftrightarrow> list_ex (\<lambda>k. k = s) [''ctx'', ''encCtx'', ''closedCtx'', ''tempCtx'']"

definition ctx_kind_of :: "string \<Rightarrow> ctx_kind option" where
  "ctx_kind_of s =
     (if s = ''ctx'' then Some KCtx
      else if s = ''encCtx'' then Some KEnc
      else if s = ''closedCtx'' then Some KClosed
      else if s = ''tempCtx'' then Some KTemp
      else None)"

fun get_kind :: "'t treemap \<Rightarrow> crypto \<Rightarrow> ctx_kind \<Rightarrow> 't JourneyState \<Rightarrow> 't JourneyState \<times> 't" where
  "get_kind T K KCtx js = GetCtx T js"
| "get_kind T K KEnc js = GetEncryptedCtx T K js"
| "get_kind T K KClosed js = GetClosedCtx T js"
| "get_kind T K KTemp js = GetTempCtx T js"

fun put_kind :: "ctx_kind \<Rightarrow> 't \<Rightarrow> 't JourneyState \<Rightarrow> 't JourneyState" where
  "put_kind KCtx t js = js\<lparr>js_ctx := Some t\<rparr>"
| "put_kind KEnc t js = js\<lparr>js_encryptedCtx := Some t\<rparr>"
| "put_kind KClosed t js = js\<lparr>js_ClosedCtx := Some t\<rparr>"
| "put_kind KTemp t js = js\<lparr>js_tempCtx := Some t\<rparr>"

definition StateGet :: "'t treemap \<Rightarrow> crypto \<Rightarrow> string \<Rightarrow> 't JourneyState
    \<Rightarrow> 't JourneyState \<times> (ctx_kind \<times> 't) option" where
  "StateGet T K name js =
     (case ctx_kind_of name of
        None \<Rightarrow> (js, None)
      | Some k \<Rightarrow> (let (js', t) = get_kind T K k js in (js', Some (k, t))))"

definition GetCtxPath :: "'t treemap \<Rightarrow> crypto \<Rightarrow> string \<Rightarrow> 't JourneyState
    \<Rightarrow> 't JourneyState \<times> (ctx_kind \<times> 't) option \<times> string" where
  "GetCtxPath T K path js =
     (case SplitN2 path (CHR ''.'') of
        [a, b] \<Rightarrow> if b = '''' then (js, None, '''')
                  else (let (js', r) = StateGet T K a js in (js', r, b))
      | _ \<Rightarrow> (js, None, ''''))"

text \<open>\<open>parseArgs\<close> and the four getters that expressions see.\<close>

definition parseArgs :: "gval list \<Rightarrow> string \<times> gval" where
  "parseArgs args =
     (case args of [] \<Rightarrow> ('''', GNil)
      | a # rest \<Rightarrow> ((case a of GStr s \<Rightarrow> s | _ \<Rightarrow> ''''),
                     (case rest of [] \<Rightarrow> GNil | d # _ \<Rightarrow> d)))"

definition getter :: "'t treemap \<Rightarrow> crypto \<Rightarrow> ctx_kind \<Rightarrow> gval list \<Rightarrow> 't JourneyState
    \<Rightarrow> 't JourneyState \<times> gval" where
  "getter T K k args js =
     (let (key, def) = parseArgs args; (js', t) = get_kind T K k js
      in (js', get_any_or T t key def))"

definition GetterFunctions :: "'t treemap \<Rightarrow> crypto \<Rightarrow>
    (gval list \<Rightarrow> 't JourneyState \<Rightarrow> 't JourneyState \<times> gval) gomap" where
  "GetterFunctions T K =
     [(''getCtxProperty'', getter T K KCtx), (''getClosedCtxProperty'', getter T K KClosed),
      (''getEncCtxProperty'', getter T K KEnc), (''getTempCtxProperty'', getter T K KTemp)]"

subsection \<open>Storage as JSON\<close>

record storage_json =
  sj_TrackingsID :: "string list option"
  sj_Jti :: string
  sj_Realm :: string
  sj_Ctx :: "DefaultMap option"
  sj_EncryptedCtx :: string
  sj_EncryptedCtxMap :: "DefaultMap option"
  sj_ClosedCtx :: "DefaultMap option"
  sj_TempCtx :: "DefaultMap option"
  sj_Exp :: int

definition treeMapStorageMap :: "'t treemap \<Rightarrow> 't option \<Rightarrow> DefaultMap option res" where
  "treeMapStorageMap T v = (case v of None \<Rightarrow> Inr None
     | Some t \<Rightarrow> (case tm_as_map T t of None \<Rightarrow> Inl (ErrText ''not a map'') | Some m \<Rightarrow> Inr (Some m)))"

text \<open>A map field tagged \<open>omitempty\<close>: an empty map is left out of the text, others are decoded.\<close>

definition omitempty_map :: "DefaultMap option \<Rightarrow> DefaultMap option res" where
  "omitempty_map f = (case f of None \<Rightarrow> Inr None
     | Some m \<Rightarrow> if m = [] then Inr None
                 else if json_ok (GObj m) then Inr (Some (json_map m))
                 else Inl (ErrText ''json: unsupported value''))"

definition omitempty_list :: "string list \<Rightarrow> string list option" where
  "omitempty_list xs = (if xs = [] then None else Some xs)"

text \<open>The document written by \<open>json.Marshal(snapshot)\<close>, as its reader sees it.\<close>

definition marshal_snapshot :: "storage_json \<Rightarrow> storage_json res" where
  "marshal_snapshot s =
     bind_res (omitempty_map (sj_Ctx s)) (\<lambda>c.
     bind_res (omitempty_map (sj_EncryptedCtxMap s)) (\<lambda>e.
     bind_res (omitempty_map (sj_ClosedCtx s)) (\<lambda>cl.
     bind_res (omitempty_map (sj_TempCtx s)) (\<lambda>t.
       Inr (s\<lparr>sj_TrackingsID := omitempty_list (or_default (sj_TrackingsID s) []),
              sj_Ctx := c, sj_EncryptedCtxMap := e, sj_ClosedCtx := cl, sj_TempCtx := t\<rparr>)))))"

definition MarshalStorageJSON :: "'t treemap \<Rightarrow> 't JourneyState option
    \<Rightarrow> 't JourneyState option \<times> storage_json option res" where
  "MarshalStorageJSON T jso =
     (case jso of
        None \<Rightarrow> (None, Inr None)
      | Some js0 \<Rightarrow>
          (let (js, c) = GetCtx T js0
           in (Some js,
               bind_res (treeMapStorageMap T (Some c)) (\<lambda>mc.
               bind_res (treeMapStorageMap T (js_encryptedCtx js)) (\<lambda>me.
               bind_res (treeMapStorageMap T (js_ClosedCtx js)) (\<lambda>mcl.
               bind_res (treeMapStorageMap T (js_tempCtx js)) (\<lambda>mt.
               bind_res (marshal_snapshot \<lparr>sj_TrackingsID = omitempty_list (trackings js),
                   sj_Jti = js_Jti js, sj_Realm = js_Realm js, sj_Ctx = mc,
                   sj_EncryptedCtx = js_EncryptedCtx js, sj_EncryptedCtxMap = me,
                   sj_ClosedCtx = mcl, sj_TempCtx = mt, sj_Exp = js_Exp js\<rparr>) (\<lambda>d.
               Inr (Some d)))))))))"

definition UnmarshalJourneyStateStorageJSON :: "'t treemap \<Rightarrow> storage_json \<Rightarrow> 't JourneyState" where
  "UnmarshalJourneyStateStorageJSON T s =
     zero_state\<lparr>
       js_TrackingsID := omitempty_list (or_default (sj_TrackingsID s) []),
       js_Jti := sj_Jti s, js_Realm := sj_Realm s, js_Ctx := sj_Ctx s,
       js_EncryptedCtx := sj_EncryptedCtx s, js_Exp := sj_Exp s,
       js_ctx := map_option (\<lambda>m. tm_new T (GObj m)) (sj_Ctx s),
       js_encryptedCtx := map_option (\<lambda>m. tm_new T (GObj m)) (sj_EncryptedCtxMap s),
       js_ClosedCtx := map_option (\<lambda>m. tm_new T (GObj m)) (sj_ClosedCtx s),
       js_tempCtx := Some (case sj_TempCtx s of Some m \<Rightarrow> tm_new T (GObj m) | None \<Rightarrow> tm_empty T)\<rparr>"

subsection \<open>A stack of frames\<close>

text \<open>The contract the executor and the SubJourney step rely on: frames come back last in, first out.\<close>

locale frame_stack =
  fixes push :: "string \<Rightarrow> string \<Rightarrow> 's \<Rightarrow> 's"
    and pop :: "'s \<Rightarrow> 's \<times> (string \<times> string)"
    and top :: "'s \<Rightarrow> string \<times> string"
    and nonempty :: "'s \<Rightarrow> bool"
    and frames :: "'s \<Rightarrow> (string \<times> string) list"
    and ok_id :: "string \<Rightarrow> bool"
  assumes frames_push: "ok_id j \<Longrightarrow> frames (push j k s) = (j, k) # frames s"
    and frames_pop: "frames s = f # fs \<Longrightarrow> frames (fst (pop s)) = fs \<and> snd (pop s) = f"
    and frames_top: "frames s = f # fs \<Longrightarrow> top s = f"
    and frames_nonempty: "nonempty s \<longleftrightarrow> frames s \<noteq> []"
begin

lemma pop_push: "ok_id j \<Longrightarrow> snd (pop (push j k s)) = (j, k) \<and> frames (fst (pop (push j k s))) = frames s"
  using frames_push frames_pop by blast

lemma top_push: "ok_id j \<Longrightarrow> top (push j k s) = (j, k) \<and> nonempty (push j k s)"
  using frames_push frames_top frames_nonempty by auto

lemma frames_push_all:
  "(\<And>f. f \<in> set fs \<Longrightarrow> ok_id (fst f)) \<Longrightarrow>
   frames (fold (\<lambda>f. push (fst f) (snd f)) fs s) = rev fs @ frames s"
  by (induction fs arbitrary: s) (auto simp: frames_push)

end

definition id_ok :: "string \<Rightarrow> bool" where
  "id_ok j \<longleftrightarrow> CHR '':'' \<notin> set j"

definition js_frames :: "'t JourneyState \<Rightarrow> (string \<times> string) list" where
  "js_frames js = rev (map parse_frame (trackings js))"

lemma parse_frame_frame [simp]: "id_ok j \<Longrightarrow> parse_frame (frame j k) = (j, k)"
  by (simp add: parse_frame_def frame_def id_ok_def SplitN2_append)

lemma trackings_push [simp]: "trackings (PushTracking j k js) = trackings js @ [frame j k]"
  by (simp add: trackings_def PushTracking_def)

lemma trackings_unshift [simp]: "trackings (UnshiftTracking j k js) = frame j k # trackings js"
  by (simp add: trackings_def UnshiftTracking_def)

lemma trackings_pop [simp]: "trackings (fst (PopTracking js)) = butlast (trackings js)"
  by (simp add: PopTracking_def) (simp add: trackings_def)

interpretation tracking: frame_stack PushTracking PopTracking GetTracking ExistsTracking js_frames id_ok
proof unfold_locales
  show "js_frames (PushTracking j k s) = (j, k) # js_frames s" if "id_ok j" for j k and s :: "'a JourneyState"
    using that by (simp add: js_frames_def)
next
  show "js_frames (fst (PopTracking s)) = fs \<and> snd (PopTracking s) = f" if "js_frames s = f # fs"
    for s :: "'a JourneyState" and f fs
    using that by (cases "trackings s" rule: rev_cases)
      (auto simp: js_frames_def PopTracking_def trackings_def)
next
  show "GetTracking s = f" if "js_frames s = f # fs" for s :: "'a JourneyState" and f fs
    using that by (cases "trackings s" rule: rev_cases) (auto simp: js_frames_def GetTracking_def)
next
  show "ExistsTracking s = (js_frames s \<noteq> [])" for s :: "'a JourneyState"
    by (simp add: ExistsTracking_def js_frames_def)
qed

text \<open>Frames survive the other operations.\<close>

lemma frames_update [simp]:
  "js_frames (SetRealm r js) = js_frames js" "js_frames (SetID i js) = js_frames js"
  "js_frames (SetResult v js) = js_frames js" "js_frames (ClearState js) = js_frames js"
  "js_frames (Init T js) = js_frames js" "js_frames (SetEncryptionKey key js) = js_frames js"
  by (simp_all add: js_frames_def trackings_def SetRealm_def SetID_def SetResult_def
      ClearState_def Init_def SetEncryptionKey_def)

lemma frames_put_kind [simp]: "js_frames (put_kind c t js) = js_frames js"
  by (cases c) (simp_all add: js_frames_def trackings_def)

lemma frames_get_kind [simp]: "js_frames (fst (get_kind T K c js)) = js_frames js"
  by (cases c) (auto simp: js_frames_def trackings_def GetCtx_def GetEncryptedCtx_def
      GetClosedCtx_def GetTempCtx_def Let_def split: option.splits sum.splits)

subsection \<open>Facts about the contexts\<close>

lemma get_put_kind [simp]: "get_kind T K c (put_kind c t js) = (put_kind c t js, t)"
  by (cases c) (simp_all add: GetCtx_def GetEncryptedCtx_def GetClosedCtx_def GetTempCtx_def)

lemma get_kind_stable: "get_kind T K c js = (js', t) \<Longrightarrow> get_kind T K c js' = (js', t)"
  by (cases c) (auto simp: GetCtx_def GetEncryptedCtx_def GetClosedCtx_def GetTempCtx_def Let_def
      split: option.splits sum.splits if_splits)

lemma IsCtx_iff_kind: "IsCtx s \<longleftrightarrow> ctx_kind_of s \<noteq> None"
  by (auto simp: IsCtx_def ctx_kind_of_def)

subsection \<open>Properties\<close>

definition tm_map_law :: "'t treemap \<Rightarrow> bool" where
  "tm_map_law T \<longleftrightarrow> (\<forall>m. tm_as_map T (tm_new T (GObj m)) = Some m) \<and> tm_as_map T (tm_empty T) = Some []"

lemma ref_tree_map_law: "tm_map_law ref_tree"
  by (simp add: tm_map_law_def ref_tree_def)

text \<open>What a reader of the stored document recovers of one context.\<close>

definition stored_map :: "'t treemap \<Rightarrow> 't option \<Rightarrow> DefaultMap" where
  "stored_map T t = json_map (case t of None \<Rightarrow> [] | Some x \<Rightarrow> or_default (tm_as_map T x) [])"

lemma omitempty_map_Inr: "omitempty_map f = Inr g \<Longrightarrow> json_map (or_default g []) = json_map (or_default f [])"
  by (auto simp: omitempty_map_def split: option.splits if_splits)

lemma omitempty_list_default [simp]: "or_default (omitempty_list xs) [] = xs"
  by (simp add: omitempty_list_def)

text \<open>
  C23. A journey state written to a custom state store with \<^verbatim>\<open>MarshalStorageJSON\<close> and read
  back keeps its tracking stack, identifier, realm, expiry and ciphertext, and each of the
  four contexts holds the same JSON data (numbers as doubles).
\<close>

theorem storage_roundtrip:
  assumes law: "tm_map_law T"
    and m: "MarshalStorageJSON T (Some js) = (Some js', Inr (Some d))"
    and u: "r = UnmarshalJourneyStateStorageJSON T d"
  shows "trackings r = trackings js \<and> js_Jti r = js_Jti js \<and> js_Realm r = js_Realm js \<and>
         js_Exp r = js_Exp js \<and> js_EncryptedCtx r = js_EncryptedCtx js \<and>
         stored_map T (js_ctx r) = stored_map T (Some (snd (GetCtx T js))) \<and>
         stored_map T (js_encryptedCtx r) = stored_map T (js_encryptedCtx js) \<and>
         stored_map T (js_ClosedCtx r) = stored_map T (js_ClosedCtx js) \<and>
         stored_map T (js_tempCtx r) = stored_map T (js_tempCtx js)"
proof -
  obtain c where c: "GetCtx T js = (js', c)"
    using m by (auto simp: MarshalStorageJSON_def split: prod.splits)
  have eq: "js_TrackingsID js' = js_TrackingsID js" "js_Jti js' = js_Jti js" "js_Realm js' = js_Realm js"
    "js_Exp js' = js_Exp js" "js_EncryptedCtx js' = js_EncryptedCtx js"
    "js_encryptedCtx js' = js_encryptedCtx js" "js_ClosedCtx js' = js_ClosedCtx js"
    "js_tempCtx js' = js_tempCtx js"
    using c by (auto simp: GetCtx_def Let_def split: option.splits)
  obtain mc me mcl mt where
    maps: "treeMapStorageMap T (Some c) = Inr mc" "treeMapStorageMap T (js_encryptedCtx js) = Inr me"
      "treeMapStorageMap T (js_ClosedCtx js) = Inr mcl" "treeMapStorageMap T (js_tempCtx js) = Inr mt"
    and snap: "marshal_snapshot \<lparr>sj_TrackingsID = omitempty_list (trackings js),
        sj_Jti = js_Jti js, sj_Realm = js_Realm js, sj_Ctx = mc, sj_EncryptedCtx = js_EncryptedCtx js,
        sj_EncryptedCtxMap = me, sj_ClosedCtx = mcl, sj_TempCtx = mt, sj_Exp = js_Exp js\<rparr> = Inr d"
    using m c eq by (auto simp: MarshalStorageJSON_def res_iff trackings_def)
  have view: "stored_map T t = json_map (or_default x [])" if "treeMapStorageMap T t = Inr x" for t x
    using that by (auto simp: treeMapStorageMap_def stored_map_def split: option.splits)
  have conv: "stored_map T (map_option (\<lambda>m. tm_new T (GObj m)) f) = json_map (or_default f [])" for f
    using law by (cases f) (auto simp: stored_map_def tm_map_law_def)
  have temp: "stored_map T (Some (case f of Some m \<Rightarrow> tm_new T (GObj m) | None \<Rightarrow> tm_empty T)) =
      json_map (or_default f [])" for f
    using law by (cases f) (auto simp: stored_map_def tm_map_law_def)
  have d: "sj_TrackingsID d = omitempty_list (trackings js)" "sj_Jti d = js_Jti js"
    "sj_Realm d = js_Realm js" "sj_EncryptedCtx d = js_EncryptedCtx js" "sj_Exp d = js_Exp js"
    "omitempty_map mc = Inr (sj_Ctx d)" "omitempty_map me = Inr (sj_EncryptedCtxMap d)"
    "omitempty_map mcl = Inr (sj_ClosedCtx d)" "omitempty_map mt = Inr (sj_TempCtx d)"
    using snap by (auto simp: marshal_snapshot_def res_iff)
  show ?thesis
    using maps d c unfolding u UnmarshalJourneyStateStorageJSON_def
    by (simp add: view conv temp omitempty_map_Inr trackings_def)
qed

text \<open>A state with one frame, a context with one entry and an empty closed context.\<close>

definition sample_state :: "gval JourneyState" where
  "sample_state = zero_state\<lparr>js_TrackingsID := Some [''j1:s1''], js_Jti := ''id'', js_Exp := 60,
     js_ctx := Some (GObj [(''n'', GStr ''v'')]), js_ClosedCtx := Some (GObj [])\<rparr>"

definition sample_doc :: storage_json where
  "sample_doc = \<lparr>sj_TrackingsID = Some [''j1:s1''], sj_Jti = ''id'', sj_Realm = '''',
     sj_Ctx = Some [(''n'', GStr ''v'')], sj_EncryptedCtx = '''', sj_EncryptedCtxMap = None,
     sj_ClosedCtx = None, sj_TempCtx = None, sj_Exp = 60\<rparr>"

lemma sample_marshal:
  "MarshalStorageJSON ref_tree (Some sample_state) = (Some sample_state, Inr (Some sample_doc))"
  by (simp add: MarshalStorageJSON_def sample_state_def sample_doc_def zero_state_def GetCtx_def
      treeMapStorageMap_def marshal_snapshot_def omitempty_map_def omitempty_list_def trackings_def
      ref_tree_def json_map_def)

theorem storage_roundtrip_witness:
  "trackings (UnmarshalJourneyStateStorageJSON ref_tree sample_doc) = [''j1:s1''] \<and>
   js_Exp (UnmarshalJourneyStateStorageJSON ref_tree sample_doc) = 60"
  using storage_roundtrip [OF ref_tree_map_law sample_marshal refl]
  by (simp add: sample_state_def trackings_def)

text \<open>An empty closed context does not survive the same trip: the field is omitted and the
  restored state has a nil \<^verbatim>\<open>ClosedCtx\<close>. The Success step dereferences that field directly.
\<close>

theorem storage_drops_empty_closed:
  assumes law: "tm_map_law T"
    and cl: "js_ClosedCtx js = Some (tm_empty T)"
    and m: "MarshalStorageJSON T (Some js) = (Some js', Inr (Some d))"
  shows "js_ClosedCtx (UnmarshalJourneyStateStorageJSON T d) = None"
proof -
  have "js_ClosedCtx js' = Some (tm_empty T)"
    using m cl by (auto simp: MarshalStorageJSON_def GetCtx_def Let_def split: prod.splits option.splits)
  then have "sj_ClosedCtx d = None"
    using m law by (auto simp: MarshalStorageJSON_def res_iff marshal_snapshot_def treeMapStorageMap_def
        omitempty_map_def tm_map_law_def split: prod.splits)
  then show ?thesis by (simp add: UnmarshalJourneyStateStorageJSON_def)
qed

theorem storage_drops_empty_closed_witness:
  "js_ClosedCtx sample_state \<noteq> None \<and>
   js_ClosedCtx (UnmarshalJourneyStateStorageJSON ref_tree sample_doc) = None"
  using storage_drops_empty_closed [OF ref_tree_map_law _ sample_marshal]
  by (simp add: sample_state_def ref_tree_def)

end
