(* ===== verification/EnvConfig.thy ===== *)
theory EnvConfig
  imports Values
begin

text \<open>
  \<^verbatim>\<open>env/env.go\<close>: the context keys the engine reserves. The package variables are a record;
  the configuration reader \<^verbatim>\<open>goconf\<close> is the lookup function \<open>conf\<close>.
\<close>

record env_keys =
  ek_clientInputsConfigKey :: string
  ek_contextPrefixKey :: string
  ek_extendJourneyExpKey :: string
  ek_suspendJourneyKey :: string

definition unset_env :: env_keys where
  "unset_env = \<lparr>ek_clientInputsConfigKey = '''', ek_contextPrefixKey = '''',
     ek_extendJourneyExpKey = '''', ek_suspendJourneyKey = ''''\<rparr>"

definition GetOptionalJourneyField :: "(string \<Rightarrow> 'a option) \<Rightarrow> string \<Rightarrow> 'a \<Rightarrow> 'a" where
  "GetOptionalJourneyField conf name dflt = or_default (conf (''journey.'' @ name)) dflt"

definition SetEnvironment :: "(string \<Rightarrow> string option) \<Rightarrow> env_keys" where
  "SetEnvironment conf =
     (let prefix = GetOptionalJourneyField conf ''context_prefix_key'' ''journey_''
      in \<lparr>ek_clientInputsConfigKey = GetOptionalJourneyField conf ''client_inputs_key'' ''client_inputs'',
          ek_contextPrefixKey = prefix,
          ek_extendJourneyExpKey = prefix @ ''extend_journey_exp'',
          ek_suspendJourneyKey = prefix @ ''suspend_journey''\<rparr>)"

definition GetClientInputsKey :: "env_keys \<Rightarrow> string" where
  "GetClientInputsKey E = (if ek_clientInputsConfigKey E = '''' then ''client_inputs'' else ek_clientInputsConfigKey E)"

definition GetContextPrefixKey :: "env_keys \<Rightarrow> string" where
  "GetContextPrefixKey E = (if ek_contextPrefixKey E = '''' then ''journey_'' else ek_contextPrefixKey E)"

definition GetMaxTickCount :: int where "GetMaxTickCount = 500"

definition GetMinTickWindowMs :: int where "GetMinTickWindowMs = 2000"

definition GetContextKey :: "env_keys \<Rightarrow> string \<Rightarrow> string" where
  "GetContextKey E name = GetContextPrefixKey E @ name"

definition GetExtendJourneyExpKey :: "env_keys \<Rightarrow> string" where
  "GetExtendJourneyExpKey E =
     (if ek_extendJourneyExpKey E = '''' then GetContextKey E ''extend_journey_exp'' else ek_extendJourneyExpKey E)"

definition GetSuspendJourneyKey :: "env_keys \<Rightarrow> string" where
  "GetSuspendJourneyKey E =
     (if ek_suspendJourneyKey E = '''' then GetContextKey E ''suspend_journey'' else ek_suspendJourneyKey E)"

lemmas env_defs = GetClientInputsKey_def GetContextPrefixKey_def GetContextKey_def
  GetExtendJourneyExpKey_def GetSuspendJourneyKey_def

text \<open>Without configuration the keys are those of a default configuration.\<close>

lemma env_defaults_agree:
  "GetClientInputsKey (SetEnvironment (\<lambda>_. None)) = GetClientInputsKey unset_env"
  "GetExtendJourneyExpKey (SetEnvironment (\<lambda>_. None)) = GetExtendJourneyExpKey unset_env"
  "GetSuspendJourneyKey (SetEnvironment (\<lambda>_. None)) = GetSuspendJourneyKey unset_env"
  by (simp_all add: env_defs SetEnvironment_def GetOptionalJourneyField_def unset_env_def)

end
