(* ===== verification/Inputs.thy ===== *)
theory Inputs
  imports EnvConfig
begin

text \<open>
  Package \<^verbatim>\<open>inputs\<close>: client inputs, their validators and the builder that records which
  inputs a step has requested. Pointers in a \<^verbatim>\<open>[]*ClientInput\<close> may be nil (\<open>None\<close>).
  The record \<open>I\<close> supplies the regular expressions (\<^verbatim>\<open>jcache.GetRegexp\<close>) and the text
  \<^verbatim>\<open>%v\<close> prints for a double. Struct decoding matches JSON keys exactly.
\<close>

subsection \<open>Doubles\<close>

definition f64_mant :: "64 word \<Rightarrow> nat" where
  "f64_mant f = unat f mod 2 ^ 52"

definition f64_mag :: "64 word \<Rightarrow> nat" where
  "f64_mag f = unat f mod 2 ^ 63"

definition f64_neg :: "64 word \<Rightarrow> bool" where
  "f64_neg f \<longleftrightarrow> 2 ^ 63 \<le> unat f"

definition f64_nan :: "64 word \<Rightarrow> bool" where
  "f64_nan f \<longleftrightarrow> f64_exp f = 2047 \<and> f64_mant f \<noteq> 0"

definition f64_inf :: "64 word \<Rightarrow> bool" where
  "f64_inf f \<longleftrightarrow> f64_exp f = 2047 \<and> f64_mant f = 0"

definition f64_key :: "64 word \<Rightarrow> int" where
  "f64_key f = (if f64_neg f then - int (f64_mag f) else int (f64_mag f))"

definition f64_less :: "64 word \<Rightarrow> 64 word \<Rightarrow> bool" where
  "f64_less a b \<longleftrightarrow> \<not> f64_nan a \<and> \<not> f64_nan b \<and> f64_key a < f64_key b"

text \<open>\<open>math.Trunc(v) == v\<close>.\<close>

definition f64_integral :: "64 word \<Rightarrow> bool" where
  "f64_integral f \<longleftrightarrow> \<not> f64_nan f \<and>
     (f64_mag f = 0 \<or> 1075 \<le> f64_exp f \<or>
      1023 \<le> f64_exp f \<and> f64_mant f mod 2 ^ (1075 - f64_exp f) = 0)"

text \<open>\<open>utf8.RuneCountInString\<close> on well-formed UTF-8: bytes that do not continue a rune.\<close>

definition rune_count :: "string \<Rightarrow> nat" where
  "rune_count s = length (filter (\<lambda>c. \<not> (128 \<le> (of_char c :: nat) \<and> (of_char c :: nat) < 192)) s)"

subsection \<open>Data\<close>

record ClientError =
  ce_Error :: string
  ce_Details :: "gval gomap"

record ClientInput =
  ci_ID :: string
  ci_ExternalID :: string
  ci_StepType :: string
  ci_Type :: string
  ci_SendBack :: bool
  ci_Output :: gval
  ci_Input :: gval

record 't ClientInputsBuilder =
  cib_clientInputs :: "ClientInput option list"
  cib_newClientInputs :: "ClientInput list"
  cib_ctxManager :: 't

record input_env =
  ie_regexp :: "string \<Rightarrow> (string \<Rightarrow> bool) option"
  ie_fmt :: "64 word \<Rightarrow> string"

abbreviation client_error :: "string \<Rightarrow> ClientError" where
  "client_error e \<equiv> \<lparr>ce_Error = e, ce_Details = []\<rparr>"

subsection \<open>Decoding configurations\<close>

fun dec_str :: "DefaultMap \<Rightarrow> string \<Rightarrow> string res" where
  "dec_str m k = (case gm_get m k of None \<Rightarrow> Inr '''' | Some GNil \<Rightarrow> Inr '''' | Some (GStr s) \<Rightarrow> Inr s
     | _ \<Rightarrow> Inl (ErrText ''json: cannot unmarshal into string''))"

fun dec_bool :: "DefaultMap \<Rightarrow> string \<Rightarrow> bool res" where
  "dec_bool m k = (case gm_get m k of None \<Rightarrow> Inr False | Some GNil \<Rightarrow> Inr False | Some (GBool b) \<Rightarrow> Inr b
     | _ \<Rightarrow> Inl (ErrText ''json: cannot unmarshal into bool''))"

fun dec_f64 :: "DefaultMap \<Rightarrow> string \<Rightarrow> 64 word option res" where
  "dec_f64 m k = (case gm_get m k of None \<Rightarrow> Inr None | Some GNil \<Rightarrow> Inr None | Some (GFloat f) \<Rightarrow> Inr (Some f)
     | Some (GInt i) \<Rightarrow> Inr (Some (f64_of_int i))
     | _ \<Rightarrow> Inl (ErrText ''json: cannot unmarshal into float64''))"

definition dec_obj :: "gval option \<Rightarrow> DefaultMap res" where
  "dec_obj v = (case v of Some (GObj m) \<Rightarrow> Inr m | Some GNil \<Rightarrow> Inr []
     | _ \<Rightarrow> Inl (ErrText ''json: cannot unmarshal into struct''))"

record StrInputConfig =
  si_ID :: string
  si_StepType :: string
  si_DefaultValue :: string
  si_Prompt :: string
  si_Required :: bool
  si_Pattern :: string
  si_Type :: string
  si_Value :: gval

record ValueInputConfig =
  vi_ID :: string
  vi_ExternalID :: string
  vi_StepType :: string
  vi_Label :: string
  vi_Prompt :: string
  vi_Type :: string
  vi_Required :: bool
  vi_Pattern :: string
  vi_Min :: "64 word option"
  vi_Max :: "64 word option"
  vi_UserName :: bool

definition dec_StrInputConfig :: "gval option \<Rightarrow> StrInputConfig res" where
  "dec_StrInputConfig v =
     bind_res (dec_obj v) (\<lambda>m. bind_res (dec_str m ''id'') (\<lambda>i. bind_res (dec_str m ''step_type'') (\<lambda>st.
     bind_res (dec_str m ''default_value'') (\<lambda>d. bind_res (dec_str m ''prompt'') (\<lambda>p.
     bind_res (dec_bool m ''required'') (\<lambda>r. bind_res (dec_str m ''pattern'') (\<lambda>pa.
     bind_res (dec_str m ''type'') (\<lambda>ty.
       Inr \<lparr>si_ID = i, si_StepType = st, si_DefaultValue = d, si_Prompt = p, si_Required = r,
            si_Pattern = pa, si_Type = ty, si_Value = or_default (gm_get m ''value'') GNil\<rparr>))))))))"

definition dec_ValueInputConfig :: "gval option \<Rightarrow> ValueInputConfig res" where
  "dec_ValueInputConfig v =
     bind_res (dec_obj v) (\<lambda>m. bind_res (dec_str m ''id'') (\<lambda>i. bind_res (dec_str m ''external_id'') (\<lambda>x.
     bind_res (dec_str m ''step_type'') (\<lambda>st. bind_res (dec_str m ''label'') (\<lambda>l.
     bind_res (dec_str m ''prompt'') (\<lambda>p. bind_res (dec_str m ''type'') (\<lambda>ty.
     bind_res (dec_bool m ''required'') (\<lambda>r. bind_res (dec_str m ''pattern'') (\<lambda>pa.
     bind_res (dec_f64 m ''min'') (\<lambda>mi. bind_res (dec_f64 m ''max'') (\<lambda>ma.
     bind_res (dec_bool m ''user_name'') (\<lambda>u.
       Inr \<lparr>vi_ID = i, vi_ExternalID = x, vi_StepType = st, vi_Label = l, vi_Prompt = p, vi_Type = ty,
            vi_Required = r, vi_Pattern = pa, vi_Min = mi, vi_Max = ma, vi_UserName = u\<rparr>))))))))))))"

subsection \<open>Validators\<close>

definition valueError :: "string \<Rightarrow> string \<Rightarrow> ClientError" where
  "valueError ext msg = \<lparr>ce_Error = ''invalid client input'',
     ce_Details = [(''external_id'', GStr ext), (''message'', GStr msg)]\<rparr>"

definition validateBounds :: "input_env \<Rightarrow> ValueInputConfig option \<Rightarrow> 64 word \<Rightarrow> string \<Rightarrow> ClientError option" where
  "validateBounds I cfg value subject =
     (case cfg of
        None \<Rightarrow> Some (valueError '''' ''input configuration is nil'')
      | Some c \<Rightarrow>
          (case (case vi_Min c of
                   None \<Rightarrow> None
                 | Some mn \<Rightarrow> if f64_less value mn
                     then Some (valueError (vi_ExternalID c) (subject @ '' must be at least '' @ ie_fmt I mn))
                     else None) of
             Some e \<Rightarrow> Some e
           | None \<Rightarrow>
               (case vi_Max c of
                  None \<Rightarrow> None
                | Some mx \<Rightarrow> if f64_less mx value
                    then Some (valueError (vi_ExternalID c) (subject @ '' must be at most '' @ ie_fmt I mx))
                    else None)))"

fun numericValue :: "gval \<Rightarrow> 64 word option" where
  "numericValue (GInt i) = Some (f64_of_int i)"
| "numericValue (GFloat f) = Some f"
| "numericValue _ = None"

fun is_object :: "gval \<Rightarrow> bool" where
  "is_object (GObj m) = True"
| "is_object (GVar v) = True"
| "is_object _ = False"

definition validateValueInput :: "'t treemap \<Rightarrow> input_env \<Rightarrow> 't \<Rightarrow> ClientInput \<Rightarrow> ClientError option" where
  "validateValueInput T I config inp =
     (case dec_ValueInputConfig (tm_as_struct T config) of
        Inl e \<Rightarrow> Some (client_error ''cannot serialize input configuration'')
      | Inr c \<Rightarrow>
          let bad = (\<lambda>m. Some (valueError (vi_ExternalID c) m)) in
          if ci_Input inp = GNil then (if vi_Required c then bad ''value is required'' else None)
          else if vi_Type c = ''string'' then
            (case ci_Input inp of
               GStr value \<Rightarrow>
                 (case validateBounds I (Some c) (f64_of_int (int (rune_count value))) ''length'' of
                    Some e \<Rightarrow> Some e
                  | None \<Rightarrow>
                      if vi_Pattern c \<noteq> ''''
                      then (case ie_regexp I (vi_Pattern c) of
                              None \<Rightarrow> bad ''has an invalid configured pattern''
                            | Some rx \<Rightarrow> if rx value then None else bad ''does not match the required pattern'')
                      else None)
             | _ \<Rightarrow> bad ''must be a string'')
          else if vi_Type c = ''int'' then
            (case numericValue (ci_Input inp) of
               None \<Rightarrow> bad ''must be an integer''
             | Some v \<Rightarrow> if \<not> f64_integral v then bad ''must be an integer''
                         else validateBounds I (Some c) v ''value'')
          else if vi_Type c = ''float'' then
            (case numericValue (ci_Input inp) of
               None \<Rightarrow> bad ''must be a number''
             | Some v \<Rightarrow> if f64_inf v \<or> f64_nan v then bad ''must be a number''
                         else validateBounds I (Some c) v ''value'')
          else if vi_Type c = ''bool'' then
            (case ci_Input inp of GBool b \<Rightarrow> None | _ \<Rightarrow> bad ''must be a boolean'')
          else if vi_Type c = ''object'' then
            (if is_object (ci_Input inp) then None else bad ''must be an object'')
          else bad ''uses an unsupported type'')"

definition validateStrInput :: "'t treemap \<Rightarrow> input_env \<Rightarrow> 't \<Rightarrow> ClientInput \<Rightarrow> ClientError option" where
  "validateStrInput T I config inp =
     (case dec_StrInputConfig (tm_as_struct T config) of
        Inl e \<Rightarrow> Some (client_error ''cannot serialize config'')
      | Inr c \<Rightarrow>
          let val = or_default (tm_as_string T (tm_new T (ci_Input inp))) (si_DefaultValue c) in
          if si_Required c \<and> val = ''''
          then Some (client_error (CHR 0x27 # si_ID c @ CHR 0x27 # '' value is required''))
          else if si_Pattern c \<noteq> ''''
          then (case ie_regexp I (si_Pattern c) of
                  None \<Rightarrow> Some (client_error (CHR 0x27 # si_ID c @ CHR 0x27 # '' value doesn'' @ CHR 0x27 # ''t match pattern: '' @ si_Pattern c))
                | Some rx \<Rightarrow> if rx val then None
                    else Some (client_error (CHR 0x27 # si_ID c @ CHR 0x27 # '' value doesn'' @ CHR 0x27 # ''t match pattern: '' @ si_Pattern c)))
          else None)"

definition validateMessage :: "'t \<Rightarrow> ClientInput \<Rightarrow> ClientError option" where
  "validateMessage config inp = None"

type_synonym 't validator = "'t \<Rightarrow> ClientInput \<Rightarrow> ClientError option"

definition RegisterValidator :: "string \<Rightarrow> 't validator option \<Rightarrow> 't validator gomap \<Rightarrow> 't validator gomap \<times> bool" where
  "RegisterValidator ty v reg = (if ty = '''' then (reg, False)
     else (case v of None \<Rightarrow> (reg, False) | Some f \<Rightarrow> (gm_put ty f reg, True)))"

text \<open>The registry after the package's \<open>init\<close> functions have run.\<close>

definition inputsValidators :: "'t treemap \<Rightarrow> input_env \<Rightarrow> 't validator gomap" where
  "inputsValidators T I =
     fold (\<lambda>(ty, v) reg. fst (RegisterValidator ty (Some v) reg))
       [(''msg_input'', validateMessage), (''str'', validateStrInput T I),
        (''string'', validateValueInput T I), (''int'', validateValueInput T I),
        (''float'', validateValueInput T I), (''bool'', validateValueInput T I),
        (''object'', validateValueInput T I)] []"

definition verify :: "'t treemap \<Rightarrow> 't validator gomap \<Rightarrow> 't \<Rightarrow> ClientInput option \<Rightarrow> ClientError option" where
  "verify T reg config inp =
     (case inp of
        None \<Rightarrow> Some (client_error ''client input is nil'')
      | Some i \<Rightarrow>
          let ty = tm_get T config ''type'' in
          if tm_is_empty T ty then Some (client_error ''input type not found'')
          else (case gm_get reg (or_default (tm_as_string T ty) '''') of
                  None \<Rightarrow> Some (client_error (''unsupported input type: '' @ or_default (tm_as_string T ty) ''''))
                | Some v \<Rightarrow> v config i))"

subsection \<open>The builder\<close>

definition NewClientInputBuilder :: "ClientInput option list \<Rightarrow> 't \<Rightarrow> 't ClientInputsBuilder" where
  "NewClientInputBuilder cis ctx = \<lparr>cib_clientInputs = cis, cib_newClientInputs = [], cib_ctxManager = ctx\<rparr>"

definition IsClientEmpty :: "'t ClientInputsBuilder \<Rightarrow> bool" where
  "IsClientEmpty b \<longleftrightarrow> cib_clientInputs b = []"

definition IsNewEmpty :: "'t ClientInputsBuilder \<Rightarrow> bool" where
  "IsNewEmpty b \<longleftrightarrow> cib_newClientInputs b = []"

text \<open>Filtering dereferences every element, so a nil pointer panics.\<close>

fun filter_inputs :: "(ClientInput \<Rightarrow> bool) \<Rightarrow> ClientInput option list \<Rightarrow> ClientInput list res" where
  "filter_inputs p [] = Inr []"
| "filter_inputs p (None # xs) = Inl (GoPanic ''nil pointer dereference'')"
| "filter_inputs p (Some x # xs) = bind_res (filter_inputs p xs) (\<lambda>ys. Inr (if p x then x # ys else ys))"

definition GetFromID :: "string \<Rightarrow> 't ClientInputsBuilder \<Rightarrow> ClientInput list res" where
  "GetFromID i b = filter_inputs (\<lambda>c. ci_ID c = i) (cib_clientInputs b)"

definition GetFirstFromID :: "string \<Rightarrow> 't ClientInputsBuilder \<Rightarrow> ClientInput option res" where
  "GetFirstFromID i b = bind_res (GetFromID i b) (\<lambda>r. Inr (case r of [] \<Rightarrow> None | x # _ \<Rightarrow> Some x))"

fun first_external :: "string \<Rightarrow> ClientInput option list \<Rightarrow> ClientInput option" where
  "first_external x [] = None"
| "first_external x (None # cs) = first_external x cs"
| "first_external x (Some c # cs) = (if ci_ExternalID c = x then Some c else first_external x cs)"

definition GetFirstFromExternalID :: "string \<Rightarrow> 't ClientInputsBuilder \<Rightarrow> ClientInput option" where
  "GetFirstFromExternalID x b = first_external x (cib_clientInputs b)"

definition GetByType :: "string \<Rightarrow> 't ClientInputsBuilder \<Rightarrow> ClientInput list res" where
  "GetByType ty b = filter_inputs (\<lambda>c. ci_Type c = ty) (cib_clientInputs b)"

definition stored_configs :: "'t treemap \<Rightarrow> env_keys \<Rightarrow> 't ClientInputsBuilder \<Rightarrow> gval list" where
  "stored_configs T E b =
     (case tm_as_struct T (tm_get T (cib_ctxManager b) (GetClientInputsKey E)) of
        Some (GArr vs) \<Rightarrow> vs
      | _ \<Rightarrow> [])"

text \<open>\<open>config\<close> is the JSON form of the value passed; decoding it into a map fails for other kinds.\<close>

definition Add :: "'t treemap \<Rightarrow> env_keys \<Rightarrow> ClientInput option \<Rightarrow> gval \<Rightarrow> 't ClientInputsBuilder
    \<Rightarrow> 't ClientInputsBuilder \<times> go_error option" where
  "Add T E inp config b =
     (case inp of
        None \<Rightarrow> (b, Some (ErrText ''client input identity is required''))
      | Some ci \<Rightarrow>
          if ci_ID ci = '''' \<and> ci_ExternalID ci = ''''
          then (b, Some (ErrText ''client input identity is required''))
          else
            let b1 = b\<lparr>cib_newClientInputs := cib_newClientInputs b @ [ci]\<rparr>;
                configs = stored_configs T E b1
            in (case json_copy config of
                  Inl e \<Rightarrow> (b1, Some e)
                | Inr v \<Rightarrow>
                    if is_object v \<or> v = GNil
                    then (b1\<lparr>cib_ctxManager :=
                            tm_set T (cib_ctxManager b1) (GetClientInputsKey E) (GArr (configs @ [v]))\<rparr>, None)
                    else (b1, Some (ErrText ''json: cannot unmarshal into map''))))"

record Message =
  mg_ID :: string
  mg_StepType :: string
  mg_Type :: string
  mg_Value :: gval

definition omit_str :: "string \<Rightarrow> string \<Rightarrow> gval gomap" where
  "omit_str k s = (if s = '''' then [] else [(k, GStr s)])"

definition omit_any :: "string \<Rightarrow> gval \<Rightarrow> gval gomap" where
  "omit_any k v = (if v = GNil then [] else [(k, v)])"

definition omit_bool :: "string \<Rightarrow> bool \<Rightarrow> gval gomap" where
  "omit_bool k v = (if v then [(k, GBool True)] else [])"

definition omit_f64 :: "string \<Rightarrow> 64 word option \<Rightarrow> gval gomap" where
  "omit_f64 k v = (case v of None \<Rightarrow> [] | Some f \<Rightarrow> [(k, GFloat f)])"

definition message_json :: "Message \<Rightarrow> gval" where
  "message_json m = GObj ([(''id'', GStr (mg_ID m))] @ omit_str ''step_type'' (mg_StepType m) @
     [(''type'', GStr (mg_Type m)), (''value'', mg_Value m)])"

text \<open>The error of \<open>Add\<close> is dropped by \<open>AddMessageInput\<close>.\<close>

definition AddMessageInput :: "'t treemap \<Rightarrow> env_keys \<Rightarrow> Message \<Rightarrow> 't ClientInputsBuilder \<Rightarrow> 't ClientInputsBuilder" where
  "AddMessageInput T E m b =
     fst (Add T E (Some \<lparr>ci_ID = mg_ID m, ci_ExternalID = '''', ci_StepType = mg_StepType m,
                         ci_Type = ''msg_input'', ci_SendBack = False, ci_Output = mg_Value m, ci_Input = GNil\<rparr>)
            (message_json (m\<lparr>mg_Type := ''msg_input''\<rparr>)) b)"

definition str_config_json :: "StrInputConfig \<Rightarrow> gval" where
  "str_config_json c = GObj (omit_str ''id'' (si_ID c) @ omit_str ''step_type'' (si_StepType c) @
     omit_str ''default_value'' (si_DefaultValue c) @ omit_str ''prompt'' (si_Prompt c) @
     omit_bool ''required'' (si_Required c) @ omit_str ''pattern'' (si_Pattern c) @
     omit_str ''type'' (si_Type c) @ omit_any ''value'' (si_Value c))"

definition AddStrInput :: "'t treemap \<Rightarrow> env_keys \<Rightarrow> StrInputConfig \<Rightarrow> 't ClientInputsBuilder
    \<Rightarrow> 't ClientInputsBuilder \<times> go_error option" where
  "AddStrInput T E c b =
     Add T E (Some \<lparr>ci_ID = si_ID c, ci_ExternalID = '''', ci_StepType = si_StepType c, ci_Type = ''str'',
                    ci_SendBack = True,
                    ci_Output = str_config_json (c\<lparr>si_ID := '''', si_StepType := '''', si_Type := ''''\<rparr>),
                    ci_Input = GNil\<rparr>)
       (str_config_json (c\<lparr>si_Type := ''str''\<rparr>)) b"

definition AddValueInput :: "'t treemap \<Rightarrow> env_keys \<Rightarrow> ValueInputConfig option \<Rightarrow> 't ClientInputsBuilder
    \<Rightarrow> 't ClientInputsBuilder \<times> go_error option" where
  "AddValueInput T E cfg b =
     (case cfg of
        None \<Rightarrow> (b, Some (ErrText ''input configuration is nil''))
      | Some c \<Rightarrow>
          Add T E (Some \<lparr>ci_ID = '''', ci_ExternalID = vi_ExternalID c, ci_StepType = vi_StepType c,
                 ci_Type = vi_Type c, ci_SendBack = True,
                 ci_Output = GObj (omit_str ''label'' (vi_Label c) @ omit_str ''prompt'' (vi_Prompt c) @
                    [(''required'', GBool (vi_Required c))] @ omit_str ''pattern'' (vi_Pattern c) @
                    omit_f64 ''min'' (vi_Min c) @ omit_f64 ''max'' (vi_Max c)),
                 ci_Input = GNil\<rparr>)
            (GObj ([(''external_id'', GStr (vi_ExternalID c)), (''step_type'', GStr (vi_StepType c)),
                    (''type'', GStr (vi_Type c)), (''required'', GBool (vi_Required c))] @
                   omit_str ''label'' (vi_Label c) @ omit_str ''prompt'' (vi_Prompt c) @
                   omit_str ''pattern'' (vi_Pattern c) @ omit_f64 ''min'' (vi_Min c) @
                   omit_f64 ''max'' (vi_Max c) @ omit_bool ''user_name'' (vi_UserName c))) b)"

definition inputIdentity :: "string \<Rightarrow> string \<Rightarrow> string" where
  "inputIdentity ext i = (if ext \<noteq> '''' then ext else i)"

definition requestStepID :: "'t treemap \<Rightarrow> 't \<Rightarrow> string" where
  "requestStepID T config = get_str_or T config ''journey_step_id'' (get_str_or T config ''id'' '''')"

definition requested :: "'t treemap \<Rightarrow> env_keys \<Rightarrow> 't ClientInputsBuilder \<Rightarrow> 't list option" where
  "requested T E b = tm_as_slice T (tm_get T (cib_ctxManager b) (GetClientInputsKey E))"

subsection \<open>Validating the submitted inputs\<close>

definition config_identity :: "'t treemap \<Rightarrow> 't \<Rightarrow> string" where
  "config_identity T config = inputIdentity (get_str_or T config ''external_id'' '''') (get_str_or T config ''id'' '''')"

fun configured_map :: "'t treemap \<Rightarrow> string \<Rightarrow> 't list \<Rightarrow> 't gomap \<Rightarrow> 't gomap" where
  "configured_map T cur [] acc = acc"
| "configured_map T cur (config # cs) acc =
     (let stepID = requestStepID T config; identity = config_identity T config in
      if stepID \<noteq> '''' \<and> stepID \<noteq> cur then configured_map T cur cs acc
      else if identity \<noteq> '''' then configured_map T cur cs (gm_put identity config acc)
      else configured_map T cur cs acc)"

text \<open>The loop over the submitted inputs; it rewrites the \<open>ID\<close> of each accepted input in place.\<close>

fun check_provided :: "'t treemap \<Rightarrow> 't validator gomap \<Rightarrow> 't gomap \<Rightarrow> string list \<Rightarrow> ClientInput option list
    \<Rightarrow> (ClientInput option list \<times> string list) \<times> ClientError option" where
  "check_provided T reg conf seen [] = (([], seen), None)"
| "check_provided T reg conf seen (inp # rest) =
     (case inp of
        None \<Rightarrow> ((inp # rest, seen), Some (client_error ''invalid client input''))
      | Some i \<Rightarrow>
          let identity = inputIdentity (ci_ExternalID i) (ci_ID i) in
          if identity = '''' then ((inp # rest, seen), Some (client_error ''invalid client input''))
          else if identity \<in> set seen
          then ((inp # rest, seen), Some (client_error (''duplicate client input: '' @ identity)))
          else
            (case gm_get conf identity of
               None \<Rightarrow> ((inp # rest, identity # seen), Some (client_error (''unexpected client input: '' @ identity)))
             | Some config \<Rightarrow>
                 let cid = get_str_or T config ''id'' '''' in
                 if ci_ID i \<noteq> '''' \<and> cid \<noteq> ci_ID i \<or> get_str_or T config ''step_type'' '''' \<noteq> ci_StepType i
                    \<or> get_str_or T config ''type'' '''' \<noteq> ci_Type i
                 then ((inp # rest, identity # seen), Some (client_error (''unexpected client input: '' @ identity)))
                 else
                   let i' = (if cid \<noteq> '''' then i\<lparr>ci_ID := cid\<rparr> else i) in
                   (case verify T reg config (Some i') of
                      Some e \<Rightarrow> ((Some i' # rest, identity # seen), Some e)
                    | None \<Rightarrow>
                        (case check_provided T reg conf (identity # seen) rest of
                           ((out, seen'), e) \<Rightarrow> ((Some i' # out, seen'), e)))))"

fun missing_required :: "'t treemap \<Rightarrow> 't gomap \<Rightarrow> string list \<Rightarrow> ClientError option" where
  "missing_required T [] seen = None"
| "missing_required T ((identity, config) # cs) seen =
     (if get_bool_or T config ''required'' False \<and> identity \<notin> set seen
      then Some \<lparr>ce_Error = ''missing required client input'', ce_Details = [(''external_id'', GStr identity)]\<rparr>
      else missing_required T cs seen)"

definition ValidateProvided :: "'t treemap \<Rightarrow> env_keys \<Rightarrow> 't validator gomap \<Rightarrow> string \<Rightarrow> 't ClientInputsBuilder
    \<Rightarrow> 't ClientInputsBuilder \<times> ClientError option" where
  "ValidateProvided T E reg cur b =
     (case requested T E b of
        None \<Rightarrow> (b, if cib_clientInputs b = [] then None
                    else Some (client_error ''client inputs were not requested''))
      | Some configs \<Rightarrow>
          let conf = configured_map T cur configs [] in
          (case check_provided T reg conf [] (cib_clientInputs b) of
             ((out, seen), Some e) \<Rightarrow> (b\<lparr>cib_clientInputs := out\<rparr>, Some e)
           | ((out, seen), None) \<Rightarrow> (b\<lparr>cib_clientInputs := out\<rparr>, missing_required T conf seen)))"

subsection \<open>Bookkeeping of requests\<close>

definition GetClientInputs :: "'t treemap \<Rightarrow> env_keys \<Rightarrow> string \<Rightarrow> 't ClientInputsBuilder \<Rightarrow> 't list" where
  "GetClientInputs T E i b =
     (case requested T E b of None \<Rightarrow> [] | Some cs \<Rightarrow> filter (\<lambda>c. get_str_or T c ''id'' '''' = i) cs)"

definition GetClientInput :: "'t treemap \<Rightarrow> env_keys \<Rightarrow> string \<Rightarrow> string \<Rightarrow> 't ClientInputsBuilder \<Rightarrow> gval option res" where
  "GetClientInput T E i ty b =
     (case requested T E b of
        None \<Rightarrow> Inl (ErrText ''not found'')
      | Some cs \<Rightarrow>
          (case find (\<lambda>c. get_str_or T c ''id'' '''' = i \<and> get_str_or T c ''step_type'' '''' = ty) cs of
             None \<Rightarrow> Inl (ErrText ''not found'')
           | Some c \<Rightarrow> (case tm_as_struct T c of None \<Rightarrow> Inl (ErrText ''decode'') | Some v \<Rightarrow> Inr (Some v))))"

definition WasRequested :: "'t treemap \<Rightarrow> env_keys \<Rightarrow> string \<Rightarrow> string \<Rightarrow> 't ClientInputsBuilder \<Rightarrow> bool" where
  "WasRequested T E ext sid b =
     (case requested T E b of
        None \<Rightarrow> False
      | Some cs \<Rightarrow> list_ex (\<lambda>c. get_str_or T c ''external_id'' '''' = ext \<and>
                               (requestStepID T c = '''' \<or> requestStepID T c = sid)) cs)"

definition remaining_requests :: "'t treemap \<Rightarrow> string \<Rightarrow> 't list \<Rightarrow> gval list" where
  "remaining_requests T sid cs =
     List.map_filter (\<lambda>c. if requestStepID T c = '''' \<or> requestStepID T c = sid then None
                          else map_option GObj (tm_as_map T c)) cs"

definition ClearRequestsForStep :: "'t treemap \<Rightarrow> env_keys \<Rightarrow> string \<Rightarrow> 't ClientInputsBuilder \<Rightarrow> 't ClientInputsBuilder" where
  "ClearRequestsForStep T E sid b =
     (case requested T E b of
        None \<Rightarrow> b
      | Some cs \<Rightarrow>
          let rem = remaining_requests T sid cs in
          if rem = [] then b\<lparr>cib_ctxManager := fst (tm_delete T (cib_ctxManager b) (GetClientInputsKey E))\<rparr>
          else b\<lparr>cib_ctxManager := tm_set T (cib_ctxManager b) (GetClientInputsKey E) (GArr rem)\<rparr>)"

subsection \<open>What the validation accepts\<close>

abbreviation input_identity :: "ClientInput \<Rightarrow> string" where
  "input_identity i \<equiv> inputIdentity (ci_ExternalID i) (ci_ID i)"

definition for_step :: "'t treemap \<Rightarrow> string \<Rightarrow> 't \<Rightarrow> bool" where
  "for_step T cur config \<longleftrightarrow> requestStepID T config = '''' \<or> requestStepID T config = cur"

text \<open>The configuration an identity denotes: the last one requested for the step under that identity.\<close>

definition config_for :: "'t treemap \<Rightarrow> string \<Rightarrow> 't list \<Rightarrow> string \<Rightarrow> 't option" where
  "config_for T cur configs identity =
     (if identity = '''' then None
      else find (\<lambda>c. for_step T cur c \<and> config_identity T c = identity) (rev configs))"

definition with_config_id :: "'t treemap \<Rightarrow> 't \<Rightarrow> ClientInput \<Rightarrow> ClientInput" where
  "with_config_id T config i = i\<lparr>ci_ID := get_str_or T config ''id'' ''''\<rparr>"

definition input_matches :: "'t treemap \<Rightarrow> 't validator gomap \<Rightarrow> 't \<Rightarrow> ClientInput \<Rightarrow> bool" where
  "input_matches T reg config i \<longleftrightarrow>
     (ci_ID i = '''' \<or> ci_ID i = get_str_or T config ''id'' '''') \<and>
     ci_StepType i = get_str_or T config ''step_type'' '''' \<and>
     ci_Type i = get_str_or T config ''type'' '''' \<and>
     verify T reg config (Some (with_config_id T config i)) = None"

definition acceptable :: "'t treemap \<Rightarrow> 't validator gomap \<Rightarrow> (string \<Rightarrow> 't option) \<Rightarrow> ClientInput \<Rightarrow> bool" where
  "acceptable T reg conf i \<longleftrightarrow>
     input_identity i \<noteq> '''' \<and>
     (case conf (input_identity i) of None \<Rightarrow> False | Some config \<Rightarrow> input_matches T reg config i)"

definition accepted_form :: "'t treemap \<Rightarrow> (string \<Rightarrow> 't option) \<Rightarrow> ClientInput \<Rightarrow> ClientInput" where
  "accepted_form T conf i =
     (case conf (input_identity i) of None \<Rightarrow> i | Some config \<Rightarrow> with_config_id T config i)"

lemma find_append: "find p (xs @ ys) = (case find p xs of None \<Rightarrow> find p ys | Some x \<Rightarrow> Some x)"
  by (induction xs) auto

lemma gm_get_configured_map:
  "gm_get (configured_map T cur configs acc) k =
     (case config_for T cur configs k of None \<Rightarrow> gm_get acc k | Some c \<Rightarrow> Some c)"
proof (induction configs arbitrary: acc)
  case Nil
  then show ?case by (simp add: config_for_def)
next
  case (Cons c cs)
  then show ?case
    by (auto simp: config_for_def find_append for_step_def Let_def split: option.splits)
qed

lemma gm_wf_configured_map: "gm_wf acc \<Longrightarrow> gm_wf (configured_map T cur configs acc)"
  by (induction configs arbitrary: acc) (auto simp: Let_def)

lemma missing_required_None_iff:
  "missing_required T conf seen = None \<longleftrightarrow>
     (\<forall>(identity, config) \<in> set conf. get_bool_or T config ''required'' False \<longrightarrow> identity \<in> set seen)"
  by (induction conf) (auto split: if_splits)

lemma rewritten_id:
  assumes "ci_ID i = '''' \<or> ci_ID i = get_str_or T c ''id'' ''''"
  shows "(if get_str_or T c ''id'' '''' \<noteq> '''' then i\<lparr>ci_ID := get_str_or T c ''id'' ''''\<rparr> else i)
       = with_config_id T c i"
  using assms by (cases i) (auto simp: with_config_id_def)

lemma check_provided_accept:
  assumes "acceptable T reg (gm_get conf) i" "input_identity i \<notin> set seen"
  shows "check_provided T reg conf seen (Some i # rest) =
    (case check_provided T reg conf (input_identity i # seen) rest of
       ((out, seen'), e) \<Rightarrow> ((Some (accepted_form T (gm_get conf) i) # out, seen'), e))"
proof -
  obtain c where c: "gm_get conf (input_identity i) = Some c" and m: "input_matches T reg c i"
    and ne: "input_identity i \<noteq> ''''"
    using assms(1) by (simp add: acceptable_def split: option.splits)
  then have id: "(if get_str_or T c ''id'' '''' \<noteq> '''' then i\<lparr>ci_ID := get_str_or T c ''id'' ''''\<rparr> else i)
      = with_config_id T c i"
    by (intro rewritten_id) (simp add: input_matches_def)
  have g: "\<not> (ci_ID i \<noteq> '''' \<and> get_str_or T c ''id'' '''' \<noteq> ci_ID i \<or>
      get_str_or T c ''step_type'' '''' \<noteq> ci_StepType i \<or> get_str_or T c ''type'' '''' \<noteq> ci_Type i)"
    and v: "verify T reg c (Some (with_config_id T c i)) = None"
    using m unfolding input_matches_def by metis+
  show ?thesis
    unfolding check_provided.simps option.case Let_def c id v accepted_form_def
      if_not_P [OF ne] if_not_P [OF assms(2)] if_not_P [OF g] by (rule refl)
qed

lemma check_provided_reject:
  assumes "\<not> (acceptable T reg (gm_get conf) i \<and> input_identity i \<notin> set seen)"
  shows "snd (check_provided T reg conf seen (Some i # rest)) \<noteq> None"
proof -
  have "snd (check_provided T reg conf seen (Some i # rest)) \<noteq> None"
    if c: "gm_get conf (input_identity i) = Some c" and m: "\<not> input_matches T reg c i"
      and ne: "input_identity i \<noteq> ''''" and fr: "input_identity i \<notin> set seen" for c
  proof (cases "ci_ID i \<noteq> '''' \<and> get_str_or T c ''id'' '''' \<noteq> ci_ID i \<or>
      get_str_or T c ''step_type'' '''' \<noteq> ci_StepType i \<or> get_str_or T c ''type'' '''' \<noteq> ci_Type i")
    case True
    then show ?thesis
      unfolding check_provided.simps option.case Let_def c if_not_P [OF ne] if_not_P [OF fr] if_P [OF True] by simp
  next
    case g: False
    then have id: "(if get_str_or T c ''id'' '''' \<noteq> '''' then i\<lparr>ci_ID := get_str_or T c ''id'' ''''\<rparr> else i)
        = with_config_id T c i"
      by (intro rewritten_id) metis
    from g m obtain e where v: "verify T reg c (Some (with_config_id T c i)) = Some e"
      by (cases "verify T reg c (Some (with_config_id T c i))") (auto simp: input_matches_def)
    show ?thesis
      unfolding check_provided.simps option.case Let_def c id v if_not_P [OF ne] if_not_P [OF fr] if_not_P [OF g] by simp
  qed
  note mismatch = this
  show ?thesis
  proof (cases "input_identity i = '''' \<or> input_identity i \<in> set seen \<or> gm_get conf (input_identity i) = None")
    case True
    then show ?thesis by (auto simp: Let_def)
  next
    case False
    then obtain c where "gm_get conf (input_identity i) = Some c" by auto
    with False assms show ?thesis by (intro mismatch [of c]) (auto simp: acceptable_def simp del: check_provided.simps)
  qed
qed

lemma check_provided_step:
  "check_provided T reg conf seen (Some i # rest) = ((out, seen'), None) \<longleftrightarrow>
     (acceptable T reg (gm_get conf) i \<and> input_identity i \<notin> set seen) \<and>
     (\<exists>out'. check_provided T reg conf (input_identity i # seen) rest = ((out', seen'), None) \<and>
             out = Some (accepted_form T (gm_get conf) i) # out')"
proof (cases "acceptable T reg (gm_get conf) i \<and> input_identity i \<notin> set seen")
  case True
  then have eq: "check_provided T reg conf seen (Some i # rest) =
    (case check_provided T reg conf (input_identity i # seen) rest of
       ((out, seen'), e) \<Rightarrow> ((Some (accepted_form T (gm_get conf) i) # out, seen'), e))"
    by (intro check_provided_accept) auto
  from True show ?thesis unfolding eq by (auto split: prod.splits)
next
  case False
  from check_provided_reject [OF this, of rest] False show ?thesis
    by (metis snd_conv)
qed

lemma check_provided_None: "check_provided T reg conf seen (None # rest) \<noteq> ((out, seen'), None)"
  by simp

lemma map_Some_Cons_ex:
  "(\<exists>xs. Some i # rest = map Some xs \<and> P xs) \<longleftrightarrow> (\<exists>xs. rest = map Some xs \<and> P (i # xs))"
  by (auto simp: Cons_eq_map_conv)

lemma check_provided_iff:
  "check_provided T reg conf seen cis = ((out, seen'), None) \<longleftrightarrow>
     (\<exists>ins. cis = map Some ins \<and> (\<forall>i \<in> set ins. acceptable T reg (gm_get conf) i) \<and>
        distinct (map input_identity ins) \<and> input_identity ` set ins \<inter> set seen = {} \<and>
        out = map (\<lambda>i. Some (accepted_form T (gm_get conf) i)) ins \<and>
        seen' = rev (map input_identity ins) @ seen)"
proof (induction cis arbitrary: seen out)
  case Nil
  then show ?case by auto
next
  case (Cons inp rest)
  show ?case
  proof (cases inp)
    case None
    then show ?thesis using check_provided_None [of T reg conf seen rest out seen'] by auto
  next
    case (Some i)
    show ?thesis
      unfolding Some check_provided_step map_Some_Cons_ex Cons.IH by auto
  qed
qed

definition all_required_present :: "'t treemap \<Rightarrow> string \<Rightarrow> 't list \<Rightarrow> ClientInput list \<Rightarrow> bool" where
  "all_required_present T cur configs ins \<longleftrightarrow>
     (\<forall>identity config. config_for T cur configs identity = Some config \<longrightarrow>
        get_bool_or T config ''required'' False \<longrightarrow> identity \<in> input_identity ` set ins)"

lemma missing_required_configured:
  "missing_required T (configured_map T cur configs []) seen = None \<longleftrightarrow>
     (\<forall>identity config. config_for T cur configs identity = Some config \<longrightarrow>
        get_bool_or T config ''required'' False \<longrightarrow> identity \<in> set seen)"
proof -
  have "gm_get (configured_map T cur configs []) k = config_for T cur configs k" for k
    by (simp add: gm_get_configured_map split: option.splits)
  moreover have "gm_wf (configured_map T cur configs [])"
    by (rule gm_wf_configured_map) simp
  ultimately have "(k, c) \<in> set (configured_map T cur configs []) \<longleftrightarrow> config_for T cur configs k = Some c" for k c
    by (metis gm_get_in_set gm_in_set_get)
  then show ?thesis unfolding missing_required_None_iff by fast
qed

lemma configured_map_get_Nil: "gm_get (configured_map T cur configs []) = config_for T cur configs"
  by (rule ext) (simp add: gm_get_configured_map split: option.splits)

text \<open>C5: \<^verbatim>\<open>ValidateProvided\<close> accepts a submission exactly when no input is nil, no two inputs have the
  same identity, every input has a configuration requested for the current step whose identifier,
  step type and type agree with it and whose validator accepts it, and every required configuration
  of the step has an input; the accepted inputs are then given the identifiers of their
  configurations and nothing else of the builder changes.\<close>

theorem ValidateProvided_iff:
  assumes "requested T E b = Some configs"
  shows "ValidateProvided T E reg cur b = (b', None) \<longleftrightarrow>
     (\<exists>ins. cib_clientInputs b = map Some ins \<and>
        distinct (map input_identity ins) \<and>
        (\<forall>i \<in> set ins. acceptable T reg (config_for T cur configs) i) \<and>
        all_required_present T cur configs ins \<and>
        b' = b\<lparr>cib_clientInputs := map (\<lambda>i. Some (accepted_form T (config_for T cur configs) i)) ins\<rparr>)"
proof -
  have "ValidateProvided T E reg cur b = (b', None) \<longleftrightarrow>
      (\<exists>out seen. check_provided T reg (configured_map T cur configs []) [] (cib_clientInputs b) = ((out, seen), None) \<and>
         missing_required T (configured_map T cur configs []) seen = None \<and> b' = b\<lparr>cib_clientInputs := out\<rparr>)"
    using assms by (auto simp: ValidateProvided_def Let_def split: prod.splits option.splits)
  then show ?thesis
    unfolding check_provided_iff missing_required_configured configured_map_get_Nil
    by (auto simp: all_required_present_def)
qed

definition sample_builder :: "gval ClientInputsBuilder" where
  "sample_builder = \<lparr>
     cib_clientInputs = [Some \<lparr>ci_ID = '''', ci_ExternalID = ''age'', ci_StepType = ''Form'', ci_Type = ''bool'',
                              ci_SendBack = False, ci_Output = GNil, ci_Input = GBool True\<rparr>],
     cib_newClientInputs = [],
     cib_ctxManager = GObj [(''client_inputs'', GArr [GObj [(''id'', GStr ''in1''), (''journey_step_id'', GStr ''s1''),
        (''external_id'', GStr ''age''), (''step_type'', GStr ''Form''), (''type'', GStr ''bool''),
        (''required'', GBool True)]])]\<rparr>"

definition sample_input_env :: input_env where
  "sample_input_env = \<lparr>ie_regexp = (\<lambda>p. None), ie_fmt = (\<lambda>f. '''')\<rparr>"

lemma ValidateProvided_iff_witness:
  "requested ref_tree unset_env sample_builder =
     Some [GObj [(''id'', GStr ''in1''), (''journey_step_id'', GStr ''s1''),
        (''external_id'', GStr ''age''), (''step_type'', GStr ''Form''), (''type'', GStr ''bool''),
        (''required'', GBool True)]] \<and>
   all_required_present ref_tree ''s1'' [GObj [(''id'', GStr ''in1''), (''journey_step_id'', GStr ''s1''),
        (''external_id'', GStr ''age''), (''step_type'', GStr ''Form''), (''type'', GStr ''bool''),
        (''required'', GBool True)]] (map the (cib_clientInputs sample_builder))"
proof -
  have r: "requested ref_tree unset_env sample_builder =
     Some [GObj [(''id'', GStr ''in1''), (''journey_step_id'', GStr ''s1''),
        (''external_id'', GStr ''age''), (''step_type'', GStr ''Form''), (''type'', GStr ''bool''),
        (''required'', GBool True)]]"
    by code_simp
  have "snd (ValidateProvided ref_tree unset_env (inputsValidators ref_tree sample_input_env) ''s1'' sample_builder) = None"
    by code_simp
  then have "ValidateProvided ref_tree unset_env (inputsValidators ref_tree sample_input_env) ''s1'' sample_builder =
      (fst (ValidateProvided ref_tree unset_env (inputsValidators ref_tree sample_input_env) ''s1'' sample_builder), None)"
    by (metis prod.collapse)
  with ValidateProvided_iff [OF r] r show ?thesis
    by (auto simp: comp_def)
qed

end
