(* ===== verification/Placeholders.thy ===== *)
theory Placeholders
  imports JourneyState Inputs
begin

text \<open>
  Placeholders of the form \<^verbatim>\<open>${prefix.path}\<close> in step configurations: discovery of their offsets
  (\<^verbatim>\<open>types/journey.validation.go\<close>), validation of stored offsets, resolution against the state's
  contexts, and the copy-on-write update of the configuration (\<^verbatim>\<open>types/step.type.go\<close>).

  The record \<open>P\<close> has the text conversions whose exact text is not at issue here: \<^verbatim>\<open>fmt.Sprint\<close> of a
  value, \<^verbatim>\<open>strconv.ParseFloat\<close> and the JSON parser. Host-supplied resolvers are functions in a map.
  \<^verbatim>\<open>sort.Slice\<close> is a stable sort here, one of the results the library may give.
\<close>

record text_conv =
  tc_sprint :: "gval \<Rightarrow> string"
  tc_parse_float :: "string \<Rightarrow> 64 word option"
  tc_parse_json :: "string \<Rightarrow> gval option"

type_synonym resolver = "string \<Rightarrow> gval res"

definition slice :: "string \<Rightarrow> nat \<Rightarrow> nat \<Rightarrow> string" where
  "slice s a b = take (b - a) (drop a s)"

lemma slice_mid [simp]: "slice (l @ m @ r) (length l) (length l + length m) = m"
  by (simp add: slice_def)

definition placeholderPath :: "string \<Rightarrow> string" where
  "placeholderPath template = TrimSuffix (TrimPrefix template ''${'') ''}''"

definition placeholderToken :: "string \<Rightarrow> string" where
  "placeholderToken template = ''${'' @ placeholderPath template @ ''}''"

subsection \<open>Discovery\<close>

definition split_ok :: "string \<Rightarrow> bool" where
  "split_ok path \<longleftrightarrow> (case SplitN2 path (CHR ''.'') of [a, b] \<Rightarrow> a \<noteq> '''' \<and> b \<noteq> '''' | _ \<Rightarrow> False)"

function discover_from :: "string \<Rightarrow> nat \<Rightarrow> StepPlaceholder list res" where
  "discover_from value cursor =
     (if cursor < length value then
        (case Index (drop cursor value) ''${'' of
           None \<Rightarrow> Inr []
         | Some relativeStart \<Rightarrow>
             let start = cursor + relativeStart in
             (case IndexByte (drop (start + 2) value) (CHR ''}'') of
                None \<Rightarrow> Inl (ErrText (''placeholder at byte '' @ nat_str start @ '' is not closed''))
              | Some relativeEnd \<Rightarrow>
                  let e = start + 2 + relativeEnd + 1; path = slice value (start + 2) (e - 1) in
                  if \<not> split_ok path then Inl (ErrText (''invalid placeholder '' @ slice value start e))
                  else bind_res (discover_from value e) (\<lambda>rest.
                         Inr (\<lparr>Template = path, StartsAt = int start, EndsAt = int e\<rparr> # rest))))
      else Inr [])"
  by pat_completeness auto
termination by (relation "measure (\<lambda>(value, cursor). length value - cursor)") auto

declare discover_from.simps [simp del]

definition discoverPlaceholders :: "string \<Rightarrow> StepPlaceholder list res" where
  "discoverPlaceholders value = discover_from value 0"

subsection \<open>Decoding a variable\<close>

definition f64_to_int :: "64 word \<Rightarrow> int option" where
  "f64_to_int f =
     (if \<not> f64_integral f \<or> \<not> f64_finite f then None
      else if f64_mag f = 0 then Some 0
      else let m = 2 ^ 52 + f64_mant f; e = f64_exp f;
               a = (if 1075 \<le> e then m * 2 ^ (e - 1075) else m div 2 ^ (1075 - e));
               i = (if f64_neg f then - int a else int a)
           in if in_int64 i then Some i else None)"

fun dec_int :: "DefaultMap \<Rightarrow> string \<Rightarrow> int res" where
  "dec_int m k = (case gm_get m k of None \<Rightarrow> Inr 0 | Some GNil \<Rightarrow> Inr 0 | Some (GInt i) \<Rightarrow> Inr i
     | Some (GFloat f) \<Rightarrow> (case f64_to_int f of Some i \<Rightarrow> Inr i
          | None \<Rightarrow> Inl (ErrText ''json: cannot unmarshal number into int''))
     | _ \<Rightarrow> Inl (ErrText ''json: cannot unmarshal into int''))"

definition dec_StepPlaceholder :: "gval \<Rightarrow> StepPlaceholder res" where
  "dec_StepPlaceholder v =
     bind_res (dec_obj (Some v)) (\<lambda>m. bind_res (dec_str m ''template'') (\<lambda>t.
     bind_res (dec_int m ''starts_at'') (\<lambda>s. bind_res (dec_int m ''ends_at'') (\<lambda>e.
       Inr \<lparr>Template = t, StartsAt = s, EndsAt = e\<rparr>))))"

fun dec_list :: "(gval \<Rightarrow> 'a res) \<Rightarrow> gval list \<Rightarrow> 'a list res" where
  "dec_list f [] = Inr []"
| "dec_list f (v # vs) = bind_res (f v) (\<lambda>x. bind_res (dec_list f vs) (\<lambda>xs. Inr (x # xs)))"

definition dec_StepVariable :: "gval option \<Rightarrow> StepVariable res" where
  "dec_StepVariable v =
     (case v of Some (GVar x) \<Rightarrow> Inr x
      | _ \<Rightarrow> bind_res (dec_obj v) (\<lambda>m. bind_res (dec_str m ''type'') (\<lambda>ty.
          bind_res (case gm_get m ''placeholders'' of None \<Rightarrow> Inr [] | Some GNil \<Rightarrow> Inr []
                    | Some (GArr vs) \<Rightarrow> dec_list dec_StepPlaceholder vs
                    | _ \<Rightarrow> Inl (ErrText ''json: cannot unmarshal into slice'')) (\<lambda>ps.
            Inr \<lparr>sv_Type = ty, sv_Placeholders = ps\<rparr>))))"

definition decodeStepVariable :: "'t treemap \<Rightarrow> gval \<Rightarrow> StepVariable res" where
  "decodeStepVariable T raw =
     (case raw of GVar v \<Rightarrow> Inr v | _ \<Rightarrow> dec_StepVariable (tm_as_struct T (tm_new T raw)))"

subsection \<open>Validation of stored offsets\<close>

definition validVariableType :: "string \<Rightarrow> bool" where
  "validVariableType ty \<longleftrightarrow> ty \<in> set ['''', ''string'', ''number'', ''float'', ''integer'', ''int'',
     ''boolean'', ''bool'', ''object'', ''array'']"

definition by_start :: "StepPlaceholder list \<Rightarrow> StepPlaceholder list" where
  "by_start = sort_key StartsAt"

fun check_offsets :: "string \<Rightarrow> string \<Rightarrow> string \<Rightarrow> int \<Rightarrow> StepPlaceholder list \<Rightarrow> unit res" where
  "check_offsets stepName property source previousEnd [] = Inr ()"
| "check_offsets stepName property source previousEnd (p # ps) =
     (if StartsAt p < previousEnd \<or> StartsAt p < 0 \<or> EndsAt p < StartsAt p \<or> int (length source) < EndsAt p
      then Inl (StepInvalidConfig stepName (''invalid placeholder offsets in vars.'' @ property))
      else if slice source (nat (StartsAt p)) (nat (EndsAt p)) \<noteq> placeholderToken (Template p)
      then Inl (StepInvalidConfig stepName (''stale placeholder '' @ Template p @ '' in vars.'' @ property))
      else if \<not> split_ok (placeholderPath (Template p))
      then Inl (StepInvalidConfig stepName (''invalid placeholder '' @ Template p @ '' in vars.'' @ property))
      else check_offsets stepName property source (EndsAt p) ps)"

fun check_vars :: "'t treemap \<Rightarrow> string \<Rightarrow> 't \<Rightarrow> DefaultMap \<Rightarrow> unit res" where
  "check_vars T stepName config [] = Inr ()"
| "check_vars T stepName config ((property, raw) # vars) =
     (case dec_StepVariable (tm_as_struct T (tm_new T raw)) of
        Inl e \<Rightarrow> Inl (StepInvalidConfig stepName (''invalid vars.'' @ property))
      | Inr v \<Rightarrow>
          if \<not> validVariableType (sv_Type v)
          then Inl (StepInvalidConfig stepName (''unsupported vars.'' @ property @ '' type '' @ sv_Type v))
          else bind_res (check_offsets stepName property (get_str_or T config property '''') 0
                           (by_start (sv_Placeholders v))) (\<lambda>_. check_vars T stepName config vars))"

definition validateStepVariables :: "'t treemap \<Rightarrow> string \<Rightarrow> 't \<Rightarrow> unit res" where
  "validateStepVariables T stepName config =
     (case tm_as_map T (tm_get T config ''vars'') of
        None \<Rightarrow> Inr ()
      | Some vars \<Rightarrow> check_vars T stepName config vars)"

subsection \<open>Resolution\<close>

definition resolvePlaceholderValue :: "'t treemap \<Rightarrow> crypto \<Rightarrow> resolver gomap \<Rightarrow> string \<Rightarrow> 't JourneyState option
    \<Rightarrow> 't JourneyState option \<times> gval res" where
  "resolvePlaceholderValue T K resolvers template state =
     (case (SplitN2 (placeholderPath template) (CHR ''.''), state) of
        ([a, b], Some js) \<Rightarrow>
          (case StateGet T K a js of
             (js', Some (k, t)) \<Rightarrow> (Some js', Inr (get_any_or T t b GNil))
           | (js', None) \<Rightarrow>
               (case gm_get resolvers a of
                  None \<Rightarrow> (Some js', Inl (ErrText (''placeholder resolver '' @ a @ '' is not registered'')))
                | Some r \<Rightarrow> (Some js', r b)))
      | _ \<Rightarrow> (state, Inl (ErrText (''invalid placeholder path '' @ placeholderPath template))))"

fun digits_val :: "string \<Rightarrow> nat \<Rightarrow> nat option" where
  "digits_val [] acc = Some acc"
| "digits_val (c # cs) acc =
     (let n = of_char c in if (48::nat) \<le> n \<and> n \<le> 57 then digits_val cs (acc * 10 + (n - 48)) else None)"

text \<open>\<open>strconv.ParseInt(s, 10, 64)\<close> and \<open>strconv.Atoi\<close>.\<close>

definition ParseInt :: "string \<Rightarrow> int option" where
  "ParseInt s =
     (let (neg, ds) = (case s of [] \<Rightarrow> (False, []) | c # cs \<Rightarrow>
                         if c = CHR ''+'' then (False, cs) else if c = CHR ''-'' then (True, cs) else (False, s))
      in if ds = [] then None
         else (case digits_val ds 0 of
                 None \<Rightarrow> None
               | Some n \<Rightarrow> let i = (if neg then - int n else int n) in if in_int64 i then Some i else None))"

definition ParseBool :: "string \<Rightarrow> bool option" where
  "ParseBool s =
     (if s \<in> set [''1'', ''t'', ''T'', ''true'', ''TRUE'', ''True''] then Some True
      else if s \<in> set [''0'', ''f'', ''F'', ''false'', ''FALSE'', ''False''] then Some False else None)"

definition convertStepVariable :: "text_conv \<Rightarrow> string \<Rightarrow> string \<Rightarrow> gval res" where
  "convertStepVariable P value ty =
     (if ty = '''' \<or> ty = ''string'' then Inr (GStr value)
      else if ty = ''number'' \<or> ty = ''float'' then
        (case tc_parse_float P value of None \<Rightarrow> Inl (ErrText ''strconv.ParseFloat'') | Some f \<Rightarrow> Inr (GFloat f))
      else if ty = ''integer'' \<or> ty = ''int'' then
        (case ParseInt value of None \<Rightarrow> Inl (ErrText ''strconv.ParseInt'') | Some i \<Rightarrow> Inr (GInt i))
      else if ty = ''boolean'' \<or> ty = ''bool'' then
        (case ParseBool value of None \<Rightarrow> Inl (ErrText ''strconv.ParseBool'') | Some b \<Rightarrow> Inr (GBool b))
      else if ty = ''object'' then
        (case tc_parse_json P value of Some (GObj m) \<Rightarrow> Inr (GObj m) | Some GNil \<Rightarrow> Inr (GObj [])
         | _ \<Rightarrow> Inl (ErrText ''json: cannot unmarshal into map''))
      else if ty = ''array'' then
        (case tc_parse_json P value of Some (GArr vs) \<Rightarrow> Inr (GArr vs) | Some GNil \<Rightarrow> Inr (GArr [])
         | _ \<Rightarrow> Inl (ErrText ''json: cannot unmarshal into slice''))
      else Inl (ErrText (''unsupported variable type '' @ ty)))"

definition sprint_resolved :: "text_conv \<Rightarrow> gval \<Rightarrow> string" where
  "sprint_resolved P v = (if v = GNil then '''' else tc_sprint P v)"

fun render_from :: "'t treemap \<Rightarrow> crypto \<Rightarrow> text_conv \<Rightarrow> resolver gomap \<Rightarrow> string \<Rightarrow> int
    \<Rightarrow> StepPlaceholder list \<Rightarrow> 't JourneyState option \<Rightarrow> 't JourneyState option \<times> string res" where
  "render_from T K P resolvers value cursor [] state = (state, Inr (drop (nat cursor) value))"
| "render_from T K P resolvers value cursor (p # ps) state =
     (if StartsAt p < cursor \<or> EndsAt p < StartsAt p \<or> int (length value) < EndsAt p
      then (state, Inl (ErrText ''invalid placeholder offsets''))
      else (case resolvePlaceholderValue T K resolvers (Template p) state of
              (state', Inl e) \<Rightarrow> (state', Inl e)
            | (state', Inr v) \<Rightarrow>
                (case render_from T K P resolvers value (EndsAt p) ps state' of
                   (state'', Inl e) \<Rightarrow> (state'', Inl e)
                 | (state'', Inr rest) \<Rightarrow>
                     (state'', Inr (slice value (nat cursor) (nat (StartsAt p)) @ sprint_resolved P v @ rest)))))"

definition render :: "'t treemap \<Rightarrow> crypto \<Rightarrow> text_conv \<Rightarrow> resolver gomap \<Rightarrow> string \<Rightarrow> StepVariable
    \<Rightarrow> 't JourneyState option \<Rightarrow> 't JourneyState option \<times> gval res" where
  "render T K P resolvers source variable state =
     (case render_from T K P resolvers source 0 (by_start (sv_Placeholders variable)) state of
        (state', Inl e) \<Rightarrow> (state', Inl e)
      | (state', Inr text) \<Rightarrow> (state', convertStepVariable P text (sv_Type variable)))"

definition resolveStepVariable :: "'t treemap \<Rightarrow> crypto \<Rightarrow> text_conv \<Rightarrow> resolver gomap \<Rightarrow> string \<Rightarrow> StepVariable option
    \<Rightarrow> 't JourneyState option \<Rightarrow> 't JourneyState option \<times> gval res" where
  "resolveStepVariable T K P resolvers source variable state =
     (case variable of
        None \<Rightarrow> (state, Inl (ErrText ''step variable is nil''))
      | Some v \<Rightarrow>
          (case sv_Placeholders v of
             [p] \<Rightarrow>
               if StartsAt p = 0 \<and> EndsAt p = int (length source) \<and> placeholderToken (Template p) = source
               then (case resolvePlaceholderValue T K resolvers (Template p) state of
                       (state', Inl e) \<Rightarrow> (state', Inl e)
                     | (state', Inr x) \<Rightarrow>
                         if sv_Type v = '''' then (state', Inr x)
                         else (case (sv_Type v = ''object'', x) of
                                 (True, GObj m) \<Rightarrow> (state', Inr x)
                               | _ \<Rightarrow> (case (sv_Type v = ''array'', x) of
                                         (True, GArr vs) \<Rightarrow> (state', Inr x)
                                       | _ \<Rightarrow> render T K P resolvers source v state')))
               else render T K P resolvers source v state
           | _ \<Rightarrow> render T K P resolvers source v state))"

subsection \<open>Copy-on-write update of the configuration\<close>

datatype configUpdateNode =
  UpdateNode (node_children: "(string \<times> configUpdateNode) list") (node_value: "gval option")

definition newConfigUpdateNode :: configUpdateNode where
  "newConfigUpdateNode = UpdateNode [] None"

fun add_loop :: "string list \<Rightarrow> gval \<Rightarrow> configUpdateNode \<Rightarrow> configUpdateNode res" where
  "add_loop [] value (UpdateNode ch v) = Inr (UpdateNode ch (Some value))"
| "add_loop (part # parts) value (UpdateNode ch v) =
     (if part = '''' then Inl (ErrText ''empty property path segment'')
      else bind_res (add_loop parts value (or_default (gm_get ch part) newConfigUpdateNode))
             (\<lambda>n. Inr (UpdateNode (gm_put part n ch) v)))"

definition node_add :: "string list \<Rightarrow> gval \<Rightarrow> configUpdateNode \<Rightarrow> configUpdateNode res" where
  "node_add parts value node =
     (if parts = [] \<or> hd parts = '''' then Inl (ErrText ''empty property path'') else add_loop parts value node)"

fun apply_node :: "configUpdateNode \<Rightarrow> gval \<Rightarrow> gval res"
  and apply_map :: "(string \<times> configUpdateNode) list \<Rightarrow> DefaultMap \<Rightarrow> DefaultMap \<Rightarrow> gval res"
  and apply_arr :: "(string \<times> configUpdateNode) list \<Rightarrow> gval list \<Rightarrow> gval list \<Rightarrow> gval res" where
  "apply_node (UpdateNode ch v) current =
     (case v of
        Some x \<Rightarrow> if ch \<noteq> [] then Inl (ErrText ''variable paths overlap'') else Inr x
      | None \<Rightarrow>
          (case current of
             GObj m \<Rightarrow> apply_map ch m m
           | GArr vs \<Rightarrow> apply_arr ch vs vs
           | _ \<Rightarrow> Inl (ErrText ''property path crosses a non-container value'')))"
| "apply_map [] container cloned = Inr (GObj cloned)"
| "apply_map ((key, child) # ch) container cloned =
     (case gm_get container key of
        None \<Rightarrow> Inl (ErrText ''property path not found'')
      | Some value \<Rightarrow> bind_res (apply_node child value) (\<lambda>r. apply_map ch container (gm_put key r cloned)))"
| "apply_arr [] container cloned = Inr (GArr cloned)"
| "apply_arr ((rawIndex, child) # ch) container cloned =
     (case ParseInt rawIndex of
        None \<Rightarrow> Inl (ErrText (''invalid array index '' @ rawIndex))
      | Some i \<Rightarrow>
          if i < 0 \<or> int (length container) \<le> i then Inl (ErrText (''invalid array index '' @ rawIndex))
          else bind_res (apply_node child (container ! nat i)) (\<lambda>r. apply_arr ch container (cloned[nat i := r])))"

fun resolve_vars :: "'t treemap \<Rightarrow> crypto \<Rightarrow> text_conv \<Rightarrow> resolver gomap \<Rightarrow> 't \<Rightarrow> DefaultMap
    \<Rightarrow> configUpdateNode \<Rightarrow> 't JourneyState option \<Rightarrow> 't JourneyState option \<times> configUpdateNode res" where
  "resolve_vars T K P resolvers config [] updates state = (state, Inr updates)"
| "resolve_vars T K P resolvers config ((property, raw) # vars) updates state =
     (case decodeStepVariable T raw of
        Inl e \<Rightarrow> (state, Inl (ErrWrap (''resolve vars.'' @ property) e))
      | Inr variable \<Rightarrow>
          (case resolveStepVariable T K P resolvers (get_str_or T config property '''') (Some variable) state of
             (state', Inl e) \<Rightarrow> (state', Inl (ErrWrap (''resolve vars.'' @ property) e))
           | (state', Inr value) \<Rightarrow>
               (case node_add (Split property (CHR ''.'')) value updates of
                  Inl e \<Rightarrow> (state', Inl (ErrWrap (''resolve vars.'' @ property) e))
                | Inr updates' \<Rightarrow> resolve_vars T K P resolvers config vars updates' state')))"

text \<open>The original as a map: the value itself, or its JSON form when it is another type.\<close>

definition config_object :: "gval \<Rightarrow> DefaultMap res" where
  "config_object raw =
     (case raw of GObj m \<Rightarrow> Inr m
      | _ \<Rightarrow> bind_res (json_copy raw) (\<lambda>v. dec_obj (Some v)))"

definition resolve_original :: "'t treemap \<Rightarrow> crypto \<Rightarrow> text_conv \<Rightarrow> resolver gomap \<Rightarrow> DefaultMap
    \<Rightarrow> 't JourneyState option \<Rightarrow> 't JourneyState option \<times> 't res" where
  "resolve_original T K P resolvers original state =
     (let config = tm_new T (GObj original) in
      case tm_as_map T (tm_get T config ''vars'') of
        None \<Rightarrow> (state, Inr config)
      | Some vars \<Rightarrow>
          (case resolve_vars T K P resolvers config vars newConfigUpdateNode state of
             (state', Inl e) \<Rightarrow> (state', Inl e)
           | (state', Inr updates) \<Rightarrow>
               (case apply_node updates (GObj original) of
                  Inl e \<Rightarrow> (state', Inl e)
                | Inr resolved \<Rightarrow> (state', Inr (tm_new T resolved)))))"

definition ResolveStepConfig :: "'t treemap \<Rightarrow> crypto \<Rightarrow> text_conv \<Rightarrow> resolver gomap \<Rightarrow> gval \<Rightarrow> 't JourneyState option
    \<Rightarrow> 't JourneyState option \<times> 't res" where
  "ResolveStepConfig T K P resolvers raw state =
     (case raw of
        GObj m \<Rightarrow>
          if gm_get m ''vars'' = None then (state, Inr (tm_new T raw)) else resolve_original T K P resolvers m state
      | _ \<Rightarrow> (case config_object raw of
                Inl e \<Rightarrow> (state, Inl e)
              | Inr m \<Rightarrow> resolve_original T K P resolvers m state))"

subsection \<open>What discovery finds\<close>

definition brace_token :: "StepPlaceholder \<Rightarrow> string" where
  "brace_token p = ''${'' @ Template p @ ''}''"

fun placed :: "string \<Rightarrow> nat \<Rightarrow> StepPlaceholder list \<Rightarrow> bool" where
  "placed src c [] \<longleftrightarrow> c \<le> length src"
| "placed src c (p # ps) \<longleftrightarrow>
     int c \<le> StartsAt p \<and> EndsAt p = StartsAt p + int (length (brace_token p)) \<and> EndsAt p \<le> int (length src) \<and>
     slice src (nat (StartsAt p)) (nat (EndsAt p)) = brace_token p \<and>
     CHR ''}'' \<notin> set (Template p) \<and> split_ok (Template p) \<and> placed src (nat (EndsAt p)) ps"

text \<open>\<open>fill f src c ps\<close> is the text of \<open>src\<close> from \<open>c\<close> on with every placeholder replaced by its image.\<close>

fun fill :: "(StepPlaceholder \<Rightarrow> string) \<Rightarrow> string \<Rightarrow> nat \<Rightarrow> StepPlaceholder list \<Rightarrow> string" where
  "fill f src c [] = drop c src"
| "fill f src c (p # ps) = slice src c (nat (StartsAt p)) @ f p @ fill f src (nat (EndsAt p)) ps"

lemma Index_brace_split:
  assumes "Index (drop c src) ''${'' = Some rs" "IndexByte (drop (c + rs + 2) src) (CHR ''}'') = Some re"
  shows "c + rs + 2 + re + 1 \<le> length src"
    and "slice src (c + rs) (c + rs + 2 + re + 1) = ''${'' @ slice src (c + rs + 2) (c + rs + 2 + re) @ ''}''"
    and "CHR ''}'' \<notin> set (slice src (c + rs + 2) (c + rs + 2 + re))"
proof -
  from IndexByte_Some [OF assms(2)] have re: "re < length src - (c + rs + 2)"
    and ch: "drop (c + rs + 2) src ! re = CHR ''}''" and nin: "CHR ''}'' \<notin> set (take re (drop (c + rs + 2) src))"
    by auto
  from re show "c + rs + 2 + re + 1 \<le> length src" by simp
  from nin show "CHR ''}'' \<notin> set (slice src (c + rs + 2) (c + rs + 2 + re))" by (simp add: slice_def)
  from Index_HasPrefix [OF assms(1)] obtain t where t: "drop (c + rs) src = ''${'' @ t"
    by (auto simp: HasPrefix_iff add.commute)
  then have t2: "drop (c + rs + 2) src = t"
    by (metis (no_types, lifting) One_nat_def Suc_1 add.commute append_Cons append_Nil drop_Suc_Cons drop_drop drop0)
  from re have "re < length t" using t2 by (metis length_drop)
  then have "take (Suc re) t = take re t @ [CHR ''}'']" using ch t2 by (simp add: take_Suc_conv_app_nth)
  then show "slice src (c + rs) (c + rs + 2 + re + 1) = ''${'' @ slice src (c + rs + 2) (c + rs + 2 + re) @ ''}''"
    unfolding slice_def t t2 by (simp add: numeral_eq_Suc)
qed

lemma placed_Cons_nat:
  assumes "c \<le> s" "e = s + length t + 3" "e \<le> length src" "slice src s e = ''${'' @ t @ ''}''"
    "CHR ''}'' \<notin> set t" "split_ok t" "placed src e ps"
  shows "placed src c (\<lparr>Template = t, StartsAt = int s, EndsAt = int e\<rparr> # ps)"
proof -
  have "int s + (3 + int (length t)) = int e" using assms(2) by simp
  with assms(1,3-) show ?thesis by (simp add: brace_token_def)
qed

lemma discover_from_placed: "discover_from src c = Inr ps \<Longrightarrow> c \<le> length src \<Longrightarrow> placed src c ps"
proof (induction src c arbitrary: ps rule: discover_from.induct)
  case (1 src c)
  show ?case
  proof (cases "c < length src \<and> Index (drop c src) ''${'' \<noteq> None")
    case False
    with 1(2,3) show ?thesis by (auto simp: discover_from.simps split: if_splits)
  next
    case True
    then obtain rs where lt: "c < length src" and rs: "Index (drop c src) ''${'' = Some rs" by auto
    from 1(2) lt rs obtain re where re: "IndexByte (drop (c + rs + 2) src) (CHR ''}'') = Some re"
      by (subst (asm) discover_from.simps) (auto simp: Let_def split: option.splits)
    let ?e = "c + rs + 2 + re + 1"
    from 1(2) lt rs re obtain rest where ok: "split_ok (slice src (c + rs + 2) (?e - 1))"
      and rec: "discover_from src ?e = Inr rest"
      and ps: "ps = \<lparr>Template = slice src (c + rs + 2) (?e - 1), StartsAt = int (c + rs), EndsAt = int ?e\<rparr> # rest"
      by (subst (asm) discover_from.simps) (auto simp: Let_def res_iff split: if_splits)
    note facts = Index_brace_split [OF rs re]
    have "placed src ?e rest"
      using 1(1) [OF lt rs refl re refl refl] ok rec facts(1) by simp
    moreover have "length (slice src (c + rs + 2) (c + rs + 2 + re)) = re"
      using facts(1) by (simp add: slice_def)
    ultimately show ?thesis unfolding ps using ok facts by (intro placed_Cons_nat) simp_all
  qed
qed

lemma placed_bound: "placed src c ps \<Longrightarrow> c \<le> length src"
  by (cases ps) auto

lemma slice_append_drop:
  assumes "a \<le> b" "b \<le> length s"
  shows "slice s a b @ drop b s = drop a s"
  using assms unfolding slice_def
  by (metis append_take_drop_id drop_drop le_add_diff_inverse2)

lemma fill_token: "placed src c ps \<Longrightarrow> fill brace_token src c ps = drop c src"
proof (induction ps arbitrary: c)
  case Nil
  then show ?case by simp
next
  case (Cons p ps)
  then have b: "nat (EndsAt p) \<le> length src" "nat (StartsAt p) \<le> nat (EndsAt p)" "c \<le> nat (StartsAt p)"
    by auto
  have "fill brace_token src c (p # ps)
      = slice src c (nat (StartsAt p)) @ slice src (nat (StartsAt p)) (nat (EndsAt p)) @ drop (nat (EndsAt p)) src"
    using Cons.IH [of "nat (EndsAt p)"] Cons.prems by auto
  also have "\<dots> = drop c src"
    using b by (simp add: slice_append_drop)
  finally show ?case .
qed

lemma placed_sorted: "placed src c ps \<Longrightarrow> sorted (map StartsAt ps) \<and> (\<forall>p \<in> set ps. int c \<le> StartsAt p)"
proof (induction ps arbitrary: c)
  case Nil
  then show ?case by simp
next
  case (Cons p ps)
  then have "placed src (nat (EndsAt p)) ps" unfolding placed.simps by blast
  from Cons.IH [OF this] have "sorted (map StartsAt ps)" "\<forall>q \<in> set ps. int (nat (EndsAt p)) \<le> StartsAt q"
    by auto
  with Cons.prems show ?case by fastforce
qed

lemma by_start_placed: "placed src c ps \<Longrightarrow> by_start ps = ps"
  using placed_sorted [of src c ps] by (simp add: by_start_def sorted_sort_id sort_key_id_if_sorted)

lemma placeholderPath_plain:
  assumes "CHR ''}'' \<notin> set t" "\<not> HasPrefix t ''${''"
  shows "placeholderPath t = t"
proof -
  have "\<not> HasSuffix t ''}''" using assms(1) by (auto simp: HasSuffix_iff)
  with assms show ?thesis by (simp add: placeholderPath_def TrimPrefix_def TrimSuffix_def)
qed

definition plain :: "StepPlaceholder list \<Rightarrow> bool" where
  "plain ps \<longleftrightarrow> (\<forall>p \<in> set ps. \<not> HasPrefix (Template p) ''${'')"

lemma check_offsets_placed:
  "placed src c ps \<Longrightarrow> plain ps \<Longrightarrow> check_offsets n q src (int c) ps = Inr ()"
proof (induction ps arbitrary: c)
  case (Cons p ps)
  then have p: "placeholderPath (Template p) = Template p"
    by (intro placeholderPath_plain) (auto simp: plain_def)
  have "check_offsets n q src (int (nat (EndsAt p))) ps = Inr ()"
    using Cons by (intro Cons.IH) (auto simp: plain_def)
  with Cons.prems p show ?case by (auto simp: placeholderToken_def brace_token_def)
qed simp

text \<open>The offsets that discovery records in a configuration value are exactly those its validation
  demands, in ascending order and without overlap, as long as no placeholder path itself begins with
  the opening characters; and putting every token back at its recorded offsets gives the value again.\<close>

theorem discovered_placeholders_valid:
  assumes "discoverPlaceholders source = Inr ps" "plain ps"
  shows "check_offsets stepName property source 0 (by_start ps) = Inr () \<and>
         sorted (map StartsAt ps) \<and> fill brace_token source 0 ps = source"
proof -
  from assms(1) have p: "placed source 0 ps"
    unfolding discoverPlaceholders_def by (rule discover_from_placed) simp
  from check_offsets_placed [OF p assms(2), of stepName property] p show ?thesis
    by (simp add: by_start_placed fill_token placed_sorted)
qed

subsection \<open>Resolution replaces exactly the placeholders\<close>

lemma render_from_fill:
  assumes "placed src c ps"
    and "\<forall>p \<in> set ps. resolvePlaceholderValue T K R (Template p) st = (st, Inr (val p))"
  shows "render_from T K P R src (int c) ps st = (st, Inr (fill (\<lambda>p. sprint_resolved P (val p)) src c ps))"
  using assms
proof (induction ps arbitrary: c)
  case (Cons p ps)
  from Cons.prems(1) have n: "int (nat (EndsAt p)) = EndsAt p" "placed src (nat (EndsAt p)) ps"
    and b: "\<not> (StartsAt p < int c \<or> EndsAt p < StartsAt p \<or> int (length src) < EndsAt p)"
    by auto
  have "render_from T K P R src (EndsAt p) ps st
      = (st, Inr (fill (\<lambda>p. sprint_resolved P (val p)) src (nat (EndsAt p)) ps))"
    using Cons.IH [OF n(2)] Cons.prems(2) n(1) by simp
  with b Cons.prems(2) show ?case by simp
qed simp

text \<open>Resolving a text variable whose placeholders were discovered in its value gives the value with each
  token replaced by the printed form of what its path denotes, and every other byte unchanged.\<close>

theorem resolve_discovered_text:
  assumes "discoverPlaceholders source = Inr ps"
    and "\<forall>p \<in> set ps. resolvePlaceholderValue T K R (Template p) st = (st, Inr (val p))"
  shows "resolveStepVariable T K P R source (Some \<lparr>sv_Type = ''string'', sv_Placeholders = ps\<rparr>) st =
     (st, Inr (GStr (fill (\<lambda>p. sprint_resolved P (val p)) source 0 ps)))"
proof -
  from assms(1) have p: "placed source 0 ps"
    unfolding discoverPlaceholders_def by (rule discover_from_placed) simp
  have r: "render T K P R source \<lparr>sv_Type = ''string'', sv_Placeholders = ps\<rparr> st =
     (st, Inr (GStr (fill (\<lambda>p. sprint_resolved P (val p)) source 0 ps)))"
    using render_from_fill [OF p assms(2), of P] p by (simp add: render_def by_start_placed convertStepVariable_def)
  with assms(2) show ?thesis
    by (auto simp: resolveStepVariable_def split: list.splits)
qed

subsection \<open>The update touches only its own paths\<close>

fun cfg_at :: "gval \<Rightarrow> string list \<Rightarrow> gval option" where
  "cfg_at v [] = Some v"
| "cfg_at (GObj m) (k # ks) = (case gm_get m k of None \<Rightarrow> None | Some w \<Rightarrow> cfg_at w ks)"
| "cfg_at (GArr vs) (k # ks) = (case ParseInt k of None \<Rightarrow> None
     | Some i \<Rightarrow> if 0 \<le> i \<and> i < int (length vs) then cfg_at (vs ! nat i) ks else None)"
| "cfg_at v (k # ks) = None"

fun node_at :: "configUpdateNode \<Rightarrow> string list \<Rightarrow> gval option" where
  "node_at (UpdateNode ch v) [] = v"
| "node_at (UpdateNode ch v) (k # ks) = (case gm_get ch k of None \<Rightarrow> None | Some n \<Rightarrow> node_at n ks)"

text \<open>Two path segments that index the same array element, such as \<open>1\<close> and \<open>01\<close>, are the same key.\<close>

definition same_key :: "string \<Rightarrow> string \<Rightarrow> bool" where
  "same_key k k' \<longleftrightarrow> k = k' \<or> ParseInt k \<noteq> None \<and> ParseInt k = ParseInt k'"

definition keys_free :: "(string \<times> 'n) list \<Rightarrow> bool" where
  "keys_free ch \<longleftrightarrow> distinct (map fst ch) \<and> (\<forall>(k, n) \<in> set ch. \<forall>(k', n') \<in> set ch. same_key k k' \<longrightarrow> k = k')"

fun node_wf :: "configUpdateNode \<Rightarrow> bool" where
  "node_wf (UpdateNode ch v) \<longleftrightarrow> keys_free ch \<and> (\<forall>(k, n) \<in> set ch. node_wf n)"

fun untouched :: "configUpdateNode \<Rightarrow> string list \<Rightarrow> bool" where
  "untouched n [] \<longleftrightarrow> False"
| "untouched (UpdateNode ch v) (k # ks) \<longleftrightarrow>
     v = None \<and> (\<forall>(k', n) \<in> set ch. same_key k k' \<longrightarrow> k' = k \<and> untouched n ks)"

lemma keys_free_Cons: "keys_free ((k, n) # ch) \<Longrightarrow>
    keys_free ch \<and> gm_get ch k = None \<and> (\<forall>(k', n') \<in> set ch. \<not> same_key k k')"
proof -
  assume h: "keys_free ((k, n) # ch)"
  then have d: "k \<notin> fst ` set ch" "distinct (map fst ch)" by (simp_all add: keys_free_def)
  have "\<not> same_key k k'" if "(k', n') \<in> set ch" for k' n'
    using h d(1) that by (force simp: keys_free_def)
  with h d show ?thesis by (auto simp: keys_free_def map_of_eq_None_iff)
qed

lemma apply_map_get:
  "apply_map ch container cloned = Inr r \<Longrightarrow> keys_free ch \<Longrightarrow>
     \<exists>m. r = GObj m \<and> (\<forall>k. case gm_get ch k of
        None \<Rightarrow> gm_get m k = gm_get cloned k
      | Some c \<Rightarrow> \<exists>w w'. gm_get container k = Some w \<and> apply_node c w = Inr w' \<and> gm_get m k = Some w')"
proof (induction ch arbitrary: cloned)
  case Nil
  then show ?case by auto
next
  case (Cons x ch)
  obtain key c where x: "x = (key, c)" by force
  from Cons.prems(1) obtain w w' where w: "gm_get container key = Some w" "apply_node c w = Inr w'"
    and rest: "apply_map ch container (gm_put key w' cloned) = Inr r"
    unfolding x by (auto simp: res_iff split: option.splits)
  note af = keys_free_Cons [OF Cons.prems(2) [unfolded x]]
  then have fresh: "keys_free ch" "gm_get ch key = None" by simp_all
  from Cons.IH [OF rest fresh(1)] obtain m where r: "r = GObj m" and m: "\<And>k. case gm_get ch k of
        None \<Rightarrow> gm_get m k = gm_get (gm_put key w' cloned) k
      | Some c \<Rightarrow> \<exists>w w'. gm_get container k = Some w \<and> apply_node c w = Inr w' \<and> gm_get m k = Some w'"
    by blast
  have "case gm_get ((key, c) # ch) k of
        None \<Rightarrow> gm_get m k = gm_get cloned k
      | Some c \<Rightarrow> \<exists>w w'. gm_get container k = Some w \<and> apply_node c w = Inr w' \<and> gm_get m k = Some w'" for k
    using m [of k] fresh(2) w by (auto split: option.splits)
  with r x show ?case by auto
qed

lemma apply_arr_nth:
  "apply_arr ch container cloned = Inr r \<Longrightarrow> keys_free ch \<Longrightarrow> length cloned = length container \<Longrightarrow>
     \<exists>vs. r = GArr vs \<and> length vs = length container \<and>
       (\<forall>(k, c) \<in> set ch. \<exists>i w'. ParseInt k = Some i \<and> 0 \<le> i \<and> i < int (length container) \<and>
            apply_node c (container ! nat i) = Inr w' \<and> vs ! nat i = w') \<and>
       (\<forall>j < length container. (\<forall>(k, c) \<in> set ch. ParseInt k \<noteq> Some (int j)) \<longrightarrow> vs ! j = cloned ! j)"
proof (induction ch arbitrary: cloned)
  case Nil
  then show ?case by auto
next
  case (Cons x ch)
  obtain key c where x: "x = (key, c)" by force
  from Cons.prems(1) obtain i w' where i: "ParseInt key = Some i" "0 \<le> i" "i < int (length container)"
    and w: "apply_node c (container ! nat i) = Inr w'"
    and rest: "apply_arr ch container (cloned[nat i := w']) = Inr r"
    unfolding x by (auto simp: res_iff split: option.splits if_splits)
  note af = keys_free_Cons [OF Cons.prems(2) [unfolded x]]
  from Cons.IH [OF rest] af Cons.prems(3) obtain vs where r: "r = GArr vs" "length vs = length container"
    and ch: "\<forall>(k, c) \<in> set ch. \<exists>i w'. ParseInt k = Some i \<and> 0 \<le> i \<and> i < int (length container) \<and>
            apply_node c (container ! nat i) = Inr w' \<and> vs ! nat i = w'"
    and other: "\<And>j. j < length container \<Longrightarrow> (\<forall>(k, c) \<in> set ch. ParseInt k \<noteq> Some (int j)) \<Longrightarrow>
            vs ! j = cloned[nat i := w'] ! j"
    by auto
  have "\<forall>(k, c) \<in> set ch. ParseInt k \<noteq> Some (int (nat i))"
    using af i by (auto simp: same_key_def)
  from other [OF _ this] i have "vs ! nat i = w'" using Cons.prems(3) by simp
  with i w ch have "\<forall>(k, c) \<in> set (x # ch). \<exists>i w'. ParseInt k = Some i \<and> 0 \<le> i \<and> i < int (length container) \<and>
            apply_node c (container ! nat i) = Inr w' \<and> vs ! nat i = w'"
    unfolding x by auto
  moreover have "vs ! j = cloned ! j"
    if "j < length container" "\<forall>(k, c) \<in> set (x # ch). ParseInt k \<noteq> Some (int j)" for j
    using other [of j] that i unfolding x by (auto simp: nth_list_update)
  ultimately show ?case using r by blast
qed

lemma apply_node_at:
  "apply_node n cur = Inr r \<Longrightarrow> node_wf n \<Longrightarrow> node_at n path = Some x \<Longrightarrow> cfg_at r path = Some x"
proof (induction path arbitrary: n cur r)
  case Nil
  then show ?case by (cases n) (auto split: if_splits)
next
  case (Cons k ks)
  obtain ch v where n: "n = UpdateNode ch v" by (cases n)
  from Cons.prems(3) obtain c where c: "gm_get ch k = Some c" "node_at c ks = Some x"
    unfolding n by (auto split: option.splits)
  then have mem: "(k, c) \<in> set ch" and ne: "ch \<noteq> []" by (auto dest: map_of_SomeD)
  with Cons.prems(1,2) have v: "v = None" and wf: "node_wf c" "keys_free ch"
    unfolding n by (auto split: option.splits)
  show ?case
  proof (cases cur)
    case (GObj m)
    with Cons.prems(1) v have "apply_map ch m m = Inr r" unfolding n by simp
    from apply_map_get [OF this wf(2)] obtain m' where r: "r = GObj m'" and m': "case gm_get ch k of
        None \<Rightarrow> gm_get m' k = gm_get m k
      | Some c \<Rightarrow> \<exists>w w'. gm_get m k = Some w \<and> apply_node c w = Inr w' \<and> gm_get m' k = Some w'"
      by blast
    with c obtain w w' where "apply_node c w = Inr w'" "gm_get m' k = Some w'" by auto
    with Cons.IH wf(1) c(2) r show ?thesis by fastforce
  next
    case (GArr vs)
    with Cons.prems(1) v have "apply_arr ch vs vs = Inr r" unfolding n by simp
    from apply_arr_nth [OF this wf(2) refl] mem obtain us i w' where r: "r = GArr us" "length us = length vs"
      and i: "ParseInt k = Some i" "0 \<le> i" "i < int (length vs)" and w: "apply_node c (vs ! nat i) = Inr w'" "us ! nat i = w'"
      by blast
    with Cons.IH [OF w(1) wf(1) c(2)] show ?thesis by simp
  qed (use Cons.prems(1) v in \<open>auto simp: n\<close>)
qed

lemma apply_node_frame:
  "apply_node n cur = Inr r \<Longrightarrow> node_wf n \<Longrightarrow> untouched n path \<Longrightarrow> cfg_at r path = cfg_at cur path"
proof (induction path arbitrary: n cur r)
  case Nil
  then show ?case by simp
next
  case (Cons k ks)
  obtain ch where n: "n = UpdateNode ch None"
    using Cons.prems(3) by (cases n) simp
  have wf: "keys_free ch" "\<And>k c. (k, c) \<in> set ch \<Longrightarrow> node_wf c"
    and un: "\<And>k' c. (k', c) \<in> set ch \<Longrightarrow> same_key k k' \<Longrightarrow> k' = k \<and> untouched c ks"
    using Cons.prems(2,3) unfolding n by auto
  show ?case
  proof (cases cur)
    case (GObj m)
    with Cons.prems(1) have "apply_map ch m m = Inr r" unfolding n by simp
    from apply_map_get [OF this wf(1)] obtain m' where r: "r = GObj m'" and m': "case gm_get ch k of
        None \<Rightarrow> gm_get m' k = gm_get m k
      | Some c \<Rightarrow> \<exists>w w'. gm_get m k = Some w \<and> apply_node c w = Inr w' \<and> gm_get m' k = Some w'"
      by blast
    show ?thesis
    proof (cases "gm_get ch k")
      case None
      with m' r GObj show ?thesis by simp
    next
      case (Some c)
      then have "(k, c) \<in> set ch" by (rule map_of_SomeD)
      with Cons.IH wf(2) un m' Some r GObj show ?thesis by (fastforce simp: same_key_def)
    qed
  next
    case (GArr vs)
    with Cons.prems(1) have ap: "apply_arr ch vs vs = Inr r" unfolding n by simp
    from apply_arr_nth [OF ap wf(1) refl] obtain us where r: "r = GArr us" and len: "length us = length vs"
      and hit: "\<forall>(k, c) \<in> set ch. \<exists>i w'. ParseInt k = Some i \<and> 0 \<le> i \<and> i < int (length vs) \<and>
            apply_node c (vs ! nat i) = Inr w' \<and> us ! nat i = w'"
      and miss: "\<forall>j < length vs. (\<forall>(k, c) \<in> set ch. ParseInt k \<noteq> Some (int j)) \<longrightarrow> us ! j = vs ! j"
      by blast
    show ?thesis
    proof (cases "\<exists>i. ParseInt k = Some i \<and> 0 \<le> i \<and> i < int (length vs)")
      case False
      then show ?thesis using r len GArr by (auto split: option.splits)
    next
      case True
      then obtain i where i: "ParseInt k = Some i" "0 \<le> i" "i < int (length vs)" by blast
      have "cfg_at (us ! nat i) ks = cfg_at (vs ! nat i) ks"
      proof (cases "\<exists>(k', c) \<in> set ch. ParseInt k' = Some i")
        case True
        then obtain k' c where c: "(k', c) \<in> set ch" "ParseInt k' = Some i" by blast
        with un i(1) have "k' = k" "untouched c ks" by (auto simp: same_key_def)
        with hit c wf(2) Cons.IH show ?thesis by fastforce
      next
        case False
        with i have "nat i < length vs" "\<forall>(k, c) \<in> set ch. ParseInt k \<noteq> Some (int (nat i))" by auto
        with miss have "us ! nat i = vs ! nat i" by blast
        then show ?thesis by simp
      qed
      then show ?thesis using i r len GArr by simp
    qed
  qed (use Cons.prems(1) in \<open>auto simp: n\<close>)
qed

lemma node_add_at:
  "add_loop parts x n = Inr n' \<Longrightarrow> node_at n' parts = Some x"
  by (induction parts x n arbitrary: n' rule: add_loop.induct) (auto simp: res_iff split: if_splits)

text \<open>Applying the resolved variables to a configuration puts each value at its path and leaves every
  path that no variable reaches as it was.\<close>

theorem apply_updates_exactly:
  assumes "apply_node updates original = Inr resolved" "node_wf updates"
  shows "(\<forall>path x. node_at updates path = Some x \<longrightarrow> cfg_at resolved path = Some x) \<and>
         (\<forall>path. untouched updates path \<longrightarrow> cfg_at resolved path = cfg_at original path)"
  using apply_node_at [OF assms] apply_node_frame [OF assms] by blast

subsection \<open>Concrete instances\<close>

definition no_crypto :: crypto where
  "no_crypto = \<lparr>cr_marshal = (\<lambda>v. None), cr_unmarshal = (\<lambda>s. None), cr_encrypt = (\<lambda>k s. None),
     cr_decrypt = (\<lambda>k s. None), cr_b64enc = (\<lambda>s. s), cr_b64dec = (\<lambda>s. Some s)\<rparr>"

definition plain_text :: text_conv where
  "plain_text = \<lparr>tc_sprint = (\<lambda>v. case v of GStr s \<Rightarrow> s | _ \<Rightarrow> ''''),
     tc_parse_float = (\<lambda>s. None), tc_parse_json = (\<lambda>s. None)\<rparr>"

definition greeting_state :: "gval JourneyState option" where
  "greeting_state = Some (zero_state\<lparr>js_ctx := Some (GObj [(''name'', GStr ''Ada'')])\<rparr>)"

definition greeting_placeholder :: StepPlaceholder where
  "greeting_placeholder = \<lparr>Template = ''ctx.name'', StartsAt = 3, EndsAt = 14\<rparr>"

lemma greeting_discovered: "discoverPlaceholders ''Hi ${ctx.name}!'' = Inr [greeting_placeholder]"
  by code_simp

theorem discovered_placeholders_valid_witness:
  "plain [greeting_placeholder] \<and>
   check_offsets ''s'' ''text'' ''Hi ${ctx.name}!'' 0 (by_start [greeting_placeholder]) = Inr ()"
proof -
  have "plain [greeting_placeholder]" by code_simp
  with discovered_placeholders_valid [OF greeting_discovered] show ?thesis by blast
qed

theorem resolve_discovered_text_witness:
  "snd (resolveStepVariable ref_tree no_crypto plain_text [] ''Hi ${ctx.name}!''
     (Some \<lparr>sv_Type = ''string'', sv_Placeholders = [greeting_placeholder]\<rparr>) greeting_state) = Inr (GStr ''Hi Ada!'')"
proof -
  have "\<forall>p \<in> set [greeting_placeholder].
      resolvePlaceholderValue ref_tree no_crypto [] (Template p) greeting_state = (greeting_state, Inr (GStr ''Ada''))"
    by code_simp
  moreover have "fill (\<lambda>p. sprint_resolved plain_text (GStr ''Ada'')) ''Hi ${ctx.name}!'' 0 [greeting_placeholder] = ''Hi Ada!''"
    by code_simp
  ultimately show ?thesis
    using resolve_discovered_text [OF greeting_discovered, of ref_tree no_crypto "[]" greeting_state "\<lambda>_. GStr ''Ada''" plain_text]
    by (metis snd_conv)
qed

definition sample_updates :: configUpdateNode where
  "sample_updates = UpdateNode [(''url'', UpdateNode [] (Some (GStr ''x'')))] None"

theorem apply_updates_exactly_witness:
  "\<exists>r. apply_node sample_updates (GObj [(''url'', GStr ''${ctx.a}''), (''n'', GInt 3)]) = Inr r \<and>
     cfg_at r [''url''] = Some (GStr ''x'') \<and> cfg_at r [''n''] = Some (GInt 3)"
proof -
  let ?r = "GObj [(''url'', GStr ''x''), (''n'', GInt 3)]"
  have a: "apply_node sample_updates (GObj [(''url'', GStr ''${ctx.a}''), (''n'', GInt 3)]) = Inr ?r"
    by code_simp
  moreover have "node_wf sample_updates" by code_simp
  moreover have "node_at sample_updates [''url''] = Some (GStr ''x'')" "untouched sample_updates [''n'']"
    by code_simp+
  moreover have "cfg_at (GObj [(''url'', GStr ''${ctx.a}''), (''n'', GInt 3)]) [''n''] = Some (GInt 3)" by code_simp
  ultimately show ?thesis using apply_updates_exactly [of sample_updates _ ?r] by metis
qed

end
