(* ===== verification/Requests.thy ===== *)
theory Requests
  imports Placeholders
begin

text \<open>
  \<^verbatim>\<open>types/journey.type.go\<close> and \<^verbatim>\<open>types/request.bindings.go\<close>: the payload of an invocation, the
  transport-neutral request and its accessors, the in-memory response. Byte slices are strings,
  times are integers, an \<^verbatim>\<open>*http.Request\<close> is a record whose query map and cookies are already
  parsed and whose body is a reader (\<open>None\<close> when nil). \<^verbatim>\<open>mime.ParseMediaType\<close> is a parameter.
\<close>

subsection \<open>Data\<close>

record Realm =
  rl_ID :: nat
  rl_Name :: string
  rl_Active :: bool
  rl_OAuthAlg :: int
  rl_OidcAlg :: int

definition named_realm :: "string \<Rightarrow> Realm" where
  "named_realm n = \<lparr>rl_ID = 0, rl_Name = n, rl_Active = False, rl_OAuthAlg = 0, rl_OidcAlg = 0\<rparr>"

record JourneyPayloadReq =
  jp_JourneyID :: string
  jp_ResumeID :: string
  jp_Jwt :: string
  jp_ClientInputs :: "ClientInput option list"
  jp_ClientError :: "ClientError option"
  jp_State :: string
  jp_InitialData :: DefaultMap
  jp_realm :: "Realm option"

definition SetPayloadRealm :: "Realm option \<Rightarrow> JourneyPayloadReq \<Rightarrow> JourneyPayloadReq" where
  "SetPayloadRealm r jp = jp\<lparr>jp_realm := r\<rparr>"

definition PayloadClientInputs :: "JourneyPayloadReq \<Rightarrow> ClientInput option list" where
  "PayloadClientInputs jp = (if length (jp_ClientInputs jp) = 0 then [] else jp_ClientInputs jp)"

definition TokenPresent :: "JourneyPayloadReq \<Rightarrow> bool" where
  "TokenPresent jp \<longleftrightarrow> jp_Jwt jp \<noteq> ''''"

record JourneyRequestBody =
  rb_ContentType :: string
  rb_MediaType :: string
  rb_Parameters :: "string gomap"
  rb_ContentEncoding :: string
  rb_ContentLength :: int
  rb_Data :: string

record JourneyRequestCookie =
  rc_Name :: string
  rc_Value :: string
  rc_Path :: string
  rc_Domain :: string
  rc_Expires :: int
  rc_MaxAge :: int
  rc_Secure :: bool
  rc_HTTPOnly :: bool
  rc_SameSite :: string

record JourneyRequestCertificate =
  ct_Raw :: string
  ct_Subject :: string
  ct_Issuer :: string
  ct_SerialNumber :: string
  ct_NotBefore :: int
  ct_NotAfter :: int
  ct_DNSNames :: "string list"

type_synonym multimap = "string list gomap"

record JourneyRequest =
  jr_RequestURI :: string
  jr_Path :: string
  jr_RoutePrefix :: string
  jr_RoutePath :: string
  jr_RawQuery :: string
  jr_QueryParameters :: multimap
  jr_Headers :: multimap
  jr_Body :: JourneyRequestBody
  jr_Method :: string
  jr_Origin :: string
  jr_BaseURL :: string
  jr_Host :: string
  jr_Port :: int
  jr_Protocol :: string
  jr_HTTPVersion :: string
  jr_RemoteAddress :: string
  jr_TLSVersion :: string
  jr_Certificates :: "JourneyRequestCertificate list"
  jr_Cookies :: "JourneyRequestCookie list"

definition empty_request :: JourneyRequest where
  "empty_request = \<lparr>jr_RequestURI = '''', jr_Path = '''', jr_RoutePrefix = '''', jr_RoutePath = '''',
     jr_RawQuery = '''', jr_QueryParameters = [], jr_Headers = [],
     jr_Body = \<lparr>rb_ContentType = '''', rb_MediaType = '''', rb_Parameters = [], rb_ContentEncoding = '''',
                rb_ContentLength = 0, rb_Data = ''''\<rparr>,
     jr_Method = '''', jr_Origin = '''', jr_BaseURL = '''', jr_Host = '''', jr_Port = 0, jr_Protocol = '''',
     jr_HTTPVersion = '''', jr_RemoteAddress = '''', jr_TLSVersion = '''', jr_Certificates = [], jr_Cookies = []\<rparr>"

record http_cookie =
  hc_Name :: string
  hc_Value :: string
  hc_Path :: string
  hc_Domain :: string
  hc_Expires :: int
  hc_MaxAge :: int
  hc_Secure :: bool
  hc_HttpOnly :: bool
  hc_SameSite :: int

subsection \<open>Helpers\<close>

definition firstOrDefault :: "string list \<Rightarrow> string list \<Rightarrow> string" where
  "firstOrDefault vals dflt = (case vals of v # _ \<Rightarrow> v | [] \<Rightarrow> (case dflt of d # _ \<Rightarrow> d | [] \<Rightarrow> ''''))"

fun clone_into :: "multimap \<Rightarrow> multimap \<Rightarrow> multimap" where
  "clone_into [] result = result"
| "clone_into ((key, vals) # source) result = clone_into source (gm_put key vals result)"

definition cloneStringValues :: "multimap \<Rightarrow> multimap" where
  "cloneStringValues source = clone_into source []"

definition values_of :: "multimap \<Rightarrow> string \<Rightarrow> string list" where
  "values_of m k = or_default (gm_get m k) []"

definition sameSiteName :: "int \<Rightarrow> string" where
  "sameSiteName v = (if v = 1 then ''default'' else if v = 2 then ''lax'' else if v = 3 then ''strict''
     else if v = 4 then ''none'' else '''')"

definition httpSameSite :: "string \<Rightarrow> int" where
  "httpSameSite s = (let n = ToLower (TrimSpace s) in
     if n = ''lax'' then 2 else if n = ''strict'' then 3 else if n = ''none'' then 4
     else if n = ''default'' then 1 else 0)"

definition tlsVersionName :: "int \<Rightarrow> string" where
  "tlsVersionName v = (if v = 0x0301 then ''TLS1.0'' else if v = 0x0302 then ''TLS1.1''
     else if v = 0x0303 then ''TLS1.2'' else if v = 0x0304 then ''TLS1.3'' else '''')"

text \<open>\<open>strconv.ParseUint(value, 10, 16)\<close>.\<close>

definition ParseUint16 :: "string \<Rightarrow> nat option" where
  "ParseUint16 s = (if s = [] then None
     else (case digits_val s 0 of None \<Rightarrow> None | Some n \<Rightarrow> if n < 2 ^ 16 then Some n else None))"

definition requestPort :: "string \<Rightarrow> string \<Rightarrow> int" where
  "requestPort v scheme =
     (if v = '''' then (if scheme = ''https'' then 443 else 80)
      else (case ParseUint16 v of None \<Rightarrow> 0 | Some n \<Rightarrow> int n))"

definition to_http_cookie :: "JourneyRequestCookie \<Rightarrow> http_cookie" where
  "to_http_cookie c = \<lparr>hc_Name = rc_Name c, hc_Value = rc_Value c, hc_Path = rc_Path c, hc_Domain = rc_Domain c,
     hc_Expires = rc_Expires c, hc_MaxAge = rc_MaxAge c, hc_Secure = rc_Secure c, hc_HttpOnly = rc_HTTPOnly c,
     hc_SameSite = httpSameSite (rc_SameSite c)\<rparr>"

subsection \<open>In-memory requests\<close>

record MemoryRequest =
  SnapshotValue :: "JourneyRequest option"

definition NewEmptyRequest :: MemoryRequest where
  "NewEmptyRequest = \<lparr>SnapshotValue = Some empty_request\<rparr>"

definition NewMemoryRequest :: "JourneyRequest option \<Rightarrow> MemoryRequest" where
  "NewMemoryRequest s = \<lparr>SnapshotValue = Some (case s of None \<Rightarrow> empty_request | Some r \<Rightarrow> r)\<rparr>"

definition mr_snapshot :: "MemoryRequest option \<Rightarrow> JourneyRequest" where
  "mr_snapshot r = (case r of None \<Rightarrow> empty_request | Some m \<Rightarrow> (case SnapshotValue m of None \<Rightarrow> empty_request | Some s \<Rightarrow> s))"

fun fold_header :: "multimap \<Rightarrow> string \<Rightarrow> string list" where
  "fold_header [] name = []"
| "fold_header ((candidate, vals) # hs) name = (if EqualFold candidate name then vals else fold_header hs name)"

definition header_lookup :: "multimap \<Rightarrow> string \<Rightarrow> string list" where
  "header_lookup hs name = (case gm_get hs name of Some vals \<Rightarrow> vals | None \<Rightarrow> fold_header hs name)"

definition MR_QueryValues :: "string \<Rightarrow> MemoryRequest option \<Rightarrow> string list" where
  "MR_QueryValues name r = values_of (jr_QueryParameters (mr_snapshot r)) name"

definition MR_QueryFirst :: "string \<Rightarrow> string list \<Rightarrow> MemoryRequest option \<Rightarrow> string" where
  "MR_QueryFirst name dflt r = firstOrDefault (MR_QueryValues name r) dflt"

definition MR_QueryMap :: "MemoryRequest option \<Rightarrow> multimap" where
  "MR_QueryMap r = cloneStringValues (jr_QueryParameters (mr_snapshot r))"

definition MR_HeaderValues :: "string \<Rightarrow> MemoryRequest option \<Rightarrow> string list" where
  "MR_HeaderValues name r = header_lookup (jr_Headers (mr_snapshot r)) name"

definition MR_HeaderFirst :: "string \<Rightarrow> string list \<Rightarrow> MemoryRequest option \<Rightarrow> string" where
  "MR_HeaderFirst name dflt r = firstOrDefault (MR_HeaderValues name r) dflt"

definition MR_HeaderMap :: "MemoryRequest option \<Rightarrow> multimap" where
  "MR_HeaderMap r = cloneStringValues (jr_Headers (mr_snapshot r))"

definition MR_Cookie :: "string \<Rightarrow> MemoryRequest option \<Rightarrow> http_cookie option" where
  "MR_Cookie name r = map_option to_http_cookie (find (\<lambda>c. rc_Name c = name) (jr_Cookies (mr_snapshot r)))"

definition MR_CookiesList :: "MemoryRequest option \<Rightarrow> http_cookie list" where
  "MR_CookiesList r = map to_http_cookie (jr_Cookies (mr_snapshot r))"

definition MR_BodyBytes :: "MemoryRequest option \<Rightarrow> string" where
  "MR_BodyBytes r = rb_Data (jr_Body (mr_snapshot r))"

definition MR_Snapshot :: "MemoryRequest option \<Rightarrow> JourneyRequest" where
  "MR_Snapshot r = (let source = mr_snapshot r in
     source\<lparr>jr_QueryParameters := cloneStringValues (jr_QueryParameters source),
            jr_Headers := cloneStringValues (jr_Headers source)\<rparr>)"

subsection \<open>Snapshots as requests\<close>

definition opt_field :: "(JourneyRequest \<Rightarrow> 'a) \<Rightarrow> 'a \<Rightarrow> JourneyRequest option \<Rightarrow> 'a" where
  "opt_field f d r = (case r of None \<Rightarrow> d | Some x \<Rightarrow> f x)"

definition MethodValue :: "JourneyRequest option \<Rightarrow> string" where
  "MethodValue = opt_field jr_Method ''''"

definition PathValue :: "JourneyRequest option \<Rightarrow> string" where
  "PathValue = opt_field jr_Path ''''"

definition RequestURIValue :: "JourneyRequest option \<Rightarrow> string" where
  "RequestURIValue = opt_field jr_RequestURI ''''"

definition RoutePrefixValue :: "JourneyRequest option \<Rightarrow> string" where
  "RoutePrefixValue = opt_field jr_RoutePrefix ''''"

definition RoutePathValue :: "JourneyRequest option \<Rightarrow> string" where
  "RoutePathValue = opt_field jr_RoutePath ''''"

definition RawQueryValue :: "JourneyRequest option \<Rightarrow> string" where
  "RawQueryValue = opt_field jr_RawQuery ''''"

definition JR_QueryValues :: "string \<Rightarrow> JourneyRequest option \<Rightarrow> string list" where
  "JR_QueryValues name = opt_field (\<lambda>r. values_of (jr_QueryParameters r) name) []"

definition JR_QueryFirst :: "string \<Rightarrow> string list \<Rightarrow> JourneyRequest option \<Rightarrow> string" where
  "JR_QueryFirst name dflt r = firstOrDefault (JR_QueryValues name r) dflt"

definition JR_QueryMap :: "JourneyRequest option \<Rightarrow> multimap" where
  "JR_QueryMap = opt_field (\<lambda>r. cloneStringValues (jr_QueryParameters r)) []"

definition JR_HeaderValues :: "string \<Rightarrow> JourneyRequest option \<Rightarrow> string list" where
  "JR_HeaderValues name = opt_field (\<lambda>r. header_lookup (jr_Headers r) name) []"

definition JR_HeaderFirst :: "string \<Rightarrow> string list \<Rightarrow> JourneyRequest option \<Rightarrow> string" where
  "JR_HeaderFirst name dflt r = firstOrDefault (JR_HeaderValues name r) dflt"

definition JR_HeaderMap :: "JourneyRequest option \<Rightarrow> multimap" where
  "JR_HeaderMap = opt_field (\<lambda>r. cloneStringValues (jr_Headers r)) []"

definition JR_Cookie :: "string \<Rightarrow> JourneyRequest option \<Rightarrow> http_cookie option" where
  "JR_Cookie name r = (case r of None \<Rightarrow> None | Some x \<Rightarrow> MR_Cookie name (Some (NewMemoryRequest (Some x))))"

definition JR_CookiesList :: "JourneyRequest option \<Rightarrow> http_cookie list" where
  "JR_CookiesList r = MR_CookiesList (Some (NewMemoryRequest r))"

definition JR_BodyBytes :: "JourneyRequest option \<Rightarrow> string" where
  "JR_BodyBytes = opt_field (\<lambda>r. rb_Data (jr_Body r)) ''''"

definition JR_BodyContentType :: "JourneyRequest option \<Rightarrow> string" where
  "JR_BodyContentType = opt_field (\<lambda>r. rb_ContentType (jr_Body r)) ''''"

definition JR_Snapshot :: "JourneyRequest option \<Rightarrow> JourneyRequest" where
  "JR_Snapshot r = MR_Snapshot (Some (NewMemoryRequest r))"

subsection \<open>Responses\<close>

record MemoryResponse =
  rs_Headers :: "multimap option"
  rs_Cookies :: "http_cookie list"
  rs_StatusCode :: int
  rs_ContentType :: string
  rs_BodyBytesValue :: string
  rs_BodySet :: bool

definition NewMemoryResponse :: MemoryResponse where
  "NewMemoryResponse = \<lparr>rs_Headers = Some [], rs_Cookies = [], rs_StatusCode = 0, rs_ContentType = '''',
     rs_BodyBytesValue = '''', rs_BodySet = False\<rparr>"

definition Response_Header :: "string \<Rightarrow> string \<Rightarrow> MemoryResponse option \<Rightarrow> MemoryResponse option" where
  "Response_Header name v r =
     (case r of None \<Rightarrow> None
      | Some m \<Rightarrow> if TrimSpace name = '''' then r
                  else Some (m\<lparr>rs_Headers := Some (gm_put name [v] (or_default (rs_Headers m) []))\<rparr>))"

definition AddHeader :: "string \<Rightarrow> string \<Rightarrow> MemoryResponse option \<Rightarrow> MemoryResponse option" where
  "AddHeader name v r =
     (case r of None \<Rightarrow> None
      | Some m \<Rightarrow> if TrimSpace name = '''' then r
                  else let hs = or_default (rs_Headers m) []
                       in Some (m\<lparr>rs_Headers := Some (gm_put name (values_of hs name @ [v]) hs)\<rparr>))"

definition SetResponseCookie :: "http_cookie option \<Rightarrow> MemoryResponse option \<Rightarrow> MemoryResponse option" where
  "SetResponseCookie c r =
     (case (r, c) of (Some m, Some k) \<Rightarrow> Some (m\<lparr>rs_Cookies := rs_Cookies m @ [k]\<rparr>) | _ \<Rightarrow> r)"

definition Status :: "int \<Rightarrow> MemoryResponse option \<Rightarrow> MemoryResponse option" where
  "Status code r = map_option (\<lambda>m. m\<lparr>rs_StatusCode := code\<rparr>) r"

definition Response_Body :: "string \<Rightarrow> string \<Rightarrow> MemoryResponse option \<Rightarrow> MemoryResponse option" where
  "Response_Body ct data r =
     map_option (\<lambda>m. m\<lparr>rs_ContentType := ct, rs_BodyBytesValue := data, rs_BodySet := True\<rparr>) r"

subsection \<open>HTTP requests\<close>

text \<open>\<open>textproto.CanonicalMIMEHeaderKey\<close>: names of token characters are title-cased at each hyphen.\<close>

definition is_token_char :: "char \<Rightarrow> bool" where
  "is_token_char c \<longleftrightarrow> (let n = of_char c in ((48::nat) \<le> n \<and> n \<le> 57) \<or> (65 \<le> n \<and> n \<le> 90) \<or> (97 \<le> n \<and> n \<le> 122)) \<or>
     c \<in> set (''!#$%&*+-.^_`|~'' @ [CHR 0x27])"

fun title_from :: "bool \<Rightarrow> string \<Rightarrow> string" where
  "title_from up [] = []"
| "title_from up (c # cs) = (if up then upper_char c else lower_char c) # title_from (c = CHR ''-'') cs"

definition canonical_key :: "string \<Rightarrow> string" where
  "canonical_key s = (if s = [] \<or> \<not> list_all is_token_char s then s else title_from True s)"

record http_url =
  ur_Scheme :: string
  ur_Host :: string
  ur_Path :: string
  ur_RawQuery :: string
  ur_Query :: multimap

record http_tls =
  tl_Version :: int
  tl_PeerCertificates :: "JourneyRequestCertificate list"

record http_request =
  hq_Method :: string
  hq_URL :: "http_url option"
  hq_RequestURI :: string
  hq_Header :: multimap
  hq_Host :: string
  hq_TLS :: "http_tls option"
  hq_Proto :: string
  hq_RemoteAddr :: string
  hq_Cookies :: "http_cookie list"
  hq_Body :: "(go_error + string) option"

definition header_values :: "http_request \<Rightarrow> string \<Rightarrow> string list" where
  "header_values q name = values_of (hq_Header q) (canonical_key name)"

definition header_get :: "http_request \<Rightarrow> string \<Rightarrow> string" where
  "header_get q name = (case header_values q name of [] \<Rightarrow> '''' | v # _ \<Rightarrow> v)"

record HTTPRequestAccessor =
  ha_request :: "http_request option"
  ha_body :: string
  ha_bodyRead :: bool
  ha_maxBodySize :: int
  ha_routePrefix :: string
  ha_routePath :: string

definition NewHTTPRequestAccessor :: "http_request option \<Rightarrow> int \<Rightarrow> HTTPRequestAccessor" where
  "NewHTTPRequestAccessor q mx = \<lparr>ha_request = q, ha_body = '''', ha_bodyRead = False, ha_maxBodySize = mx,
     ha_routePrefix = '''', ha_routePath = ''''\<rparr>"

definition NewHTTPRequestAccessorWithBody :: "http_request option \<Rightarrow> string \<Rightarrow> int \<Rightarrow> HTTPRequestAccessor" where
  "NewHTTPRequestAccessorWithBody q body mx = \<lparr>ha_request = q, ha_body = body, ha_bodyRead = True,
     ha_maxBodySize = mx, ha_routePrefix = '''', ha_routePath = ''''\<rparr>"

definition SetRoute :: "string \<Rightarrow> string \<Rightarrow> HTTPRequestAccessor option \<Rightarrow> HTTPRequestAccessor option" where
  "SetRoute prefix path r = map_option (\<lambda>h. h\<lparr>ha_routePrefix := prefix, ha_routePath := path\<rparr>) r"

definition http_of :: "HTTPRequestAccessor option \<Rightarrow> http_request option" where
  "http_of r = (case r of None \<Rightarrow> None | Some h \<Rightarrow> ha_request h)"

definition with_http :: "'a \<Rightarrow> (http_request \<Rightarrow> 'a) \<Rightarrow> HTTPRequestAccessor option \<Rightarrow> 'a" where
  "with_http d f r = (case http_of r of None \<Rightarrow> d | Some q \<Rightarrow> f q)"

definition with_url :: "'a \<Rightarrow> (http_url \<Rightarrow> 'a) \<Rightarrow> HTTPRequestAccessor option \<Rightarrow> 'a" where
  "with_url d f = with_http d (\<lambda>q. case hq_URL q of None \<Rightarrow> d | Some u \<Rightarrow> f u)"

definition HA_GetMethod :: "HTTPRequestAccessor option \<Rightarrow> string" where
  "HA_GetMethod = with_http '''' hq_Method"

definition HA_GetPath :: "HTTPRequestAccessor option \<Rightarrow> string" where
  "HA_GetPath = with_url '''' ur_Path"

definition HA_GetRequestURI :: "HTTPRequestAccessor option \<Rightarrow> string" where
  "HA_GetRequestURI = with_http '''' hq_RequestURI"

definition HA_GetRawQuery :: "HTTPRequestAccessor option \<Rightarrow> string" where
  "HA_GetRawQuery = with_url '''' ur_RawQuery"

definition HA_QueryValues :: "string \<Rightarrow> HTTPRequestAccessor option \<Rightarrow> string list" where
  "HA_QueryValues name = with_url [] (\<lambda>u. values_of (ur_Query u) name)"

definition HA_QueryMap :: "HTTPRequestAccessor option \<Rightarrow> multimap" where
  "HA_QueryMap = with_url [] (\<lambda>u. cloneStringValues (ur_Query u))"

definition HA_HeaderValues :: "string \<Rightarrow> HTTPRequestAccessor option \<Rightarrow> string list" where
  "HA_HeaderValues name = with_http [] (\<lambda>q. header_values q name)"

definition HA_HeaderFirst :: "string \<Rightarrow> string list \<Rightarrow> HTTPRequestAccessor option \<Rightarrow> string" where
  "HA_HeaderFirst name dflt = with_http (firstOrDefault [] dflt)
     (\<lambda>q. let v = header_get q name in if v \<noteq> '''' then v else firstOrDefault [] dflt)"

definition HA_HeaderMap :: "HTTPRequestAccessor option \<Rightarrow> multimap" where
  "HA_HeaderMap = with_http [] (\<lambda>q. cloneStringValues (hq_Header q))"

definition HA_Cookie :: "string \<Rightarrow> HTTPRequestAccessor option \<Rightarrow> http_cookie option" where
  "HA_Cookie name = with_http None (\<lambda>q. if name = '''' then None else find (\<lambda>c. hc_Name c = name) (hq_Cookies q))"

definition HA_CookiesList :: "HTTPRequestAccessor option \<Rightarrow> http_cookie list" where
  "HA_CookiesList = with_http [] hq_Cookies"

text \<open>A body is a reader: \<open>Inl e\<close> fails, \<open>Inr data\<close> has \<open>data\<close> left. Reading consumes it.\<close>

definition HA_BodyBytes :: "HTTPRequestAccessor option \<Rightarrow> HTTPRequestAccessor option \<times> string res" where
  "HA_BodyBytes r =
     (case r of None \<Rightarrow> (r, Inr '''')
      | Some h \<Rightarrow>
          (case ha_request h of None \<Rightarrow> (r, Inr '''')
           | Some q \<Rightarrow>
               (case hq_Body q of None \<Rightarrow> (r, Inr '''')
                | Some b \<Rightarrow>
                    if ha_bodyRead h then (r, Inr (ha_body h))
                    else (case b of
                            Inl e \<Rightarrow> (r, Inl e)
                          | Inr all \<Rightarrow>
                              let mx = ha_maxBodySize h;
                                  data = (if 0 < mx then take (nat (wrap64 (mx + 1))) all else all);
                                  q' = q\<lparr>hq_Body := Some (Inr (drop (length data) all))\<rparr>
                              in if 0 < mx \<and> mx < int (length data)
                                 then (Some (h\<lparr>ha_request := Some q'\<rparr>),
                                       Inl (ErrText (''request body exceeds '' @ nat_str (nat mx) @ '' bytes'')))
                                 else (Some (h\<lparr>ha_request := Some (q\<lparr>hq_Body := Some (Inr data)\<rparr>),
                                              ha_body := data, ha_bodyRead := True\<rparr>), Inr data)))))"

definition HA_BodyContentType :: "HTTPRequestAccessor option \<Rightarrow> string" where
  "HA_BodyContentType = with_http '''' (\<lambda>q. header_get q ''Content-Type'')"

subsection \<open>Snapshot of an HTTP request\<close>

definition last_index :: "string \<Rightarrow> char \<Rightarrow> nat option" where
  "last_index s b = map_option (\<lambda>i. length s - 1 - i) (IndexByte (rev s) b)"

text \<open>\<open>net.SplitHostPort\<close>.\<close>

definition SplitHostPort :: "string \<Rightarrow> (string \<times> string) option" where
  "SplitHostPort hp =
     (case last_index hp (CHR '':'') of
        None \<Rightarrow> None
      | Some i \<Rightarrow>
          (case (if hd hp = CHR ''['' then
                   (case IndexByte hp (CHR '']'') of
                      None \<Rightarrow> None
                    | Some e \<Rightarrow> if e + 1 \<noteq> i then None else Some (slice hp 1 e, 1, e + 1))
                 else (if CHR '':'' \<in> set (take i hp) then None else Some (take i hp, 0, 0))) of
             None \<Rightarrow> None
           | Some (host, j, k) \<Rightarrow>
               if CHR ''['' \<in> set (drop j hp) \<or> CHR '']'' \<in> set (drop k hp) then None
               else Some (host, drop (i + 1) hp)))"

definition valid_optional_port :: "string \<Rightarrow> bool" where
  "valid_optional_port p \<longleftrightarrow> (case p of [] \<Rightarrow> True
     | c # cs \<Rightarrow> c = CHR '':'' \<and> list_all (\<lambda>d. (48::nat) \<le> of_char d \<and> of_char d \<le> (57::nat)) cs)"

text \<open>\<open>URL.Hostname\<close> and \<open>URL.Port\<close>.\<close>

definition url_host_port :: "string \<Rightarrow> string \<times> string" where
  "url_host_port hp =
     (let (host, port) = (case last_index hp (CHR '':'') of
                            Some i \<Rightarrow> if valid_optional_port (drop i hp) then (take i hp, drop (i + 1) hp) else (hp, '''')
                          | None \<Rightarrow> (hp, ''''))
      in (if HasPrefix host ''['' \<and> HasSuffix host '']'' then slice host 1 (length host - 1) else host, port))"

definition NewJourneyRequest :: "(string \<Rightarrow> string \<times> string gomap) \<Rightarrow> http_request option \<Rightarrow> string
    \<Rightarrow> JourneyRequest option res" where
  "NewJourneyRequest parse_media request body =
     (case request of
        None \<Rightarrow> Inr None
      | Some q \<Rightarrow>
          (case hq_URL q of
             None \<Rightarrow> Inl (GoPanic ''nil pointer dereference'')
           | Some u \<Rightarrow>
               let scheme = (if ur_Scheme u \<noteq> '''' then ur_Scheme u
                             else if hq_TLS q \<noteq> None then ''https'' else ''http'');
                   host = (if ur_Host u \<noteq> '''' then ur_Host u else hq_Host q);
                   (uh, up) = url_host_port (ur_Host u);
                   (hostname, portText) =
                     (if uh \<noteq> '''' then (uh, up)
                      else (case SplitHostPort host of Some hp \<Rightarrow> hp | None \<Rightarrow> (host, up)));
                   baseHost = (if Contains hostname '':'' \<and> \<not> HasPrefix hostname ''[''
                               then ''['' @ hostname @ '']'' else hostname);
                   contentType = header_get q ''Content-Type'';
                   (mediaType, parameters) = parse_media contentType
               in Inr (Some \<lparr>
                    jr_RequestURI = hq_RequestURI q, jr_Path = ur_Path u, jr_RoutePrefix = '''', jr_RoutePath = '''',
                    jr_RawQuery = ur_RawQuery u, jr_QueryParameters = cloneStringValues (ur_Query u),
                    jr_Headers = cloneStringValues (hq_Header q),
                    jr_Body = \<lparr>rb_ContentType = contentType, rb_MediaType = mediaType, rb_Parameters = parameters,
                               rb_ContentEncoding = header_get q ''Content-Encoding'',
                               rb_ContentLength = int (length body), rb_Data = body\<rparr>,
                    jr_Method = hq_Method q, jr_Origin = header_get q ''Origin'',
                    jr_BaseURL = scheme @ ''://'' @ baseHost, jr_Host = host, jr_Port = requestPort portText scheme,
                    jr_Protocol = scheme, jr_HTTPVersion = hq_Proto q, jr_RemoteAddress = hq_RemoteAddr q,
                    jr_TLSVersion = (case hq_TLS q of None \<Rightarrow> '''' | Some t \<Rightarrow> tlsVersionName (tl_Version t)),
                    jr_Certificates = (case hq_TLS q of None \<Rightarrow> [] | Some t \<Rightarrow> tl_PeerCertificates t),
                    jr_Cookies = map (\<lambda>c. \<lparr>rc_Name = hc_Name c, rc_Value = hc_Value c, rc_Path = hc_Path c,
                       rc_Domain = hc_Domain c, rc_Expires = hc_Expires c, rc_MaxAge = hc_MaxAge c,
                       rc_Secure = hc_Secure c, rc_HTTPOnly = hc_HttpOnly c,
                       rc_SameSite = sameSiteName (hc_SameSite c)\<rparr>) (hq_Cookies q)\<rparr>)))"

definition HA_Snapshot :: "(string \<Rightarrow> string \<times> string gomap) \<Rightarrow> HTTPRequestAccessor option
    \<Rightarrow> HTTPRequestAccessor option \<times> JourneyRequest option res" where
  "HA_Snapshot parse_media r =
     (case http_of r of
        None \<Rightarrow> (r, Inr (Some (MR_Snapshot (Some NewEmptyRequest))))
      | Some q \<Rightarrow>
          (case HA_BodyBytes r of
             (r', b) \<Rightarrow>
               (r', bind_res (NewJourneyRequest parse_media (http_of r') (case b of Inl e \<Rightarrow> '''' | Inr d \<Rightarrow> d))
                      (\<lambda>s. Inr (map_option (\<lambda>x. x\<lparr>
                          jr_RoutePrefix := (case r' of None \<Rightarrow> '''' | Some h \<Rightarrow> ha_routePrefix h),
                          jr_RoutePath := (case r' of None \<Rightarrow> '''' | Some h \<Rightarrow> ha_routePath h)\<rparr>) s)))))"

subsection \<open>The request interface and its bindings\<close>

datatype request =
    ReqMemory "MemoryRequest option"
  | ReqSnapshot "JourneyRequest option"
  | ReqHTTP "HTTPRequestAccessor option"

fun req_QueryValues :: "string \<Rightarrow> request \<Rightarrow> string list" where
  "req_QueryValues name (ReqMemory r) = MR_QueryValues name r"
| "req_QueryValues name (ReqSnapshot r) = JR_QueryValues name r"
| "req_QueryValues name (ReqHTTP r) = HA_QueryValues name r"

fun req_HeaderValues :: "string \<Rightarrow> request \<Rightarrow> string list" where
  "req_HeaderValues name (ReqMemory r) = MR_HeaderValues name r"
| "req_HeaderValues name (ReqSnapshot r) = JR_HeaderValues name r"
| "req_HeaderValues name (ReqHTTP r) = HA_HeaderValues name r"

fun req_Cookie :: "string \<Rightarrow> request \<Rightarrow> http_cookie option" where
  "req_Cookie name (ReqMemory r) = MR_Cookie name r"
| "req_Cookie name (ReqSnapshot r) = JR_Cookie name r"
| "req_Cookie name (ReqHTTP r) = HA_Cookie name r"

record RequestValuesBinding =
  bi_request :: "request option"
  bi_source :: string
  bi_caseInsensitive :: bool

definition NewRequestQueryBinding :: "request option \<Rightarrow> RequestValuesBinding" where
  "NewRequestQueryBinding r = \<lparr>bi_request = r, bi_source = ''query'', bi_caseInsensitive = False\<rparr>"

definition NewRequestHeaderBinding :: "request option \<Rightarrow> RequestValuesBinding" where
  "NewRequestHeaderBinding r = \<lparr>bi_request = r, bi_source = ''header'', bi_caseInsensitive = True\<rparr>"

definition Binding_All :: "string \<Rightarrow> RequestValuesBinding option \<Rightarrow> string list" where
  "Binding_All key b =
     (case b of None \<Rightarrow> []
      | Some x \<Rightarrow>
          (case bi_request x of None \<Rightarrow> []
           | Some r \<Rightarrow> if bi_source x = ''query'' then req_QueryValues key r
                       else if bi_source x = ''header'' then req_HeaderValues key r else []))"

definition Binding_First :: "string \<Rightarrow> string list \<Rightarrow> RequestValuesBinding option \<Rightarrow> string" where
  "Binding_First key dflt b =
     (case Binding_All key b of v # _ \<Rightarrow> v | [] \<Rightarrow> (case dflt of d # _ \<Rightarrow> d | [] \<Rightarrow> ''''))"

definition Binding_Has :: "string \<Rightarrow> RequestValuesBinding option \<Rightarrow> bool" where
  "Binding_Has key b \<longleftrightarrow> 0 < length (Binding_All key b)"

subsection \<open>Facts about requests\<close>

lemma clone_into_append:
  "gm_wf (result @ source) \<Longrightarrow> clone_into source result = result @ source"
proof (induction source result rule: clone_into.induct)
  case (2 key vals source result)
  then have "gm_get result key = None"
    by (auto simp: gm_wf_def map_of_eq_None_iff)
  with 2 show ?case by (simp add: gm_put_fresh gm_wf_def)
qed simp

lemma cloneStringValues_id [simp]: "gm_wf m \<Longrightarrow> cloneStringValues m = m"
  by (simp add: cloneStringValues_def clone_into_append)

lemma fold_header_key: "gm_wf hs \<Longrightarrow> (k, vals) \<in> set hs \<Longrightarrow> header_lookup hs k = vals"
  by (simp add: header_lookup_def gm_in_set_get)

definition request_wf :: "JourneyRequest \<Rightarrow> bool" where
  "request_wf r \<longleftrightarrow> gm_wf (jr_QueryParameters r) \<and> gm_wf (jr_Headers r)"

text \<open>The snapshot of an in-memory request is the request itself: query parameters, headers and body
  read through it agree with those read through the request.\<close>

theorem memory_snapshot_faithful:
  assumes "request_wf (mr_snapshot r)"
  shows "MR_Snapshot r = mr_snapshot r \<and>
         JR_QueryValues q (Some (MR_Snapshot r)) = MR_QueryValues q r \<and>
         JR_HeaderValues h (Some (MR_Snapshot r)) = MR_HeaderValues h r \<and>
         JR_Cookie c (Some (MR_Snapshot r)) = MR_Cookie c r"
proof -
  have s: "MR_Snapshot r = mr_snapshot r"
    using assms by (simp add: MR_Snapshot_def request_wf_def Let_def)
  show ?thesis
    unfolding s by (simp add: JR_QueryValues_def MR_QueryValues_def JR_HeaderValues_def MR_HeaderValues_def
        opt_field_def JR_Cookie_def MR_Cookie_def NewMemoryRequest_def mr_snapshot_def)
qed

theorem memory_snapshot_faithful_witness:
  "JR_HeaderValues ''accept'' (Some (MR_Snapshot (Some (NewMemoryRequest
     (Some (empty_request\<lparr>jr_Headers := [(''Accept'', [''a'', ''b''])]\<rparr>)))))) = [''a'', ''b'']"
proof -
  let ?r = "Some (NewMemoryRequest (Some (empty_request\<lparr>jr_Headers := [(''Accept'', [''a'', ''b''])]\<rparr>)))"
  have "request_wf (mr_snapshot ?r)" by code_simp
  moreover have "MR_HeaderValues ''accept'' ?r = [''a'', ''b'']" by code_simp
  ultimately show ?thesis using memory_snapshot_faithful [of ?r] by metis
qed

lemma take_wrap_limit: "in_int64 (mx + 1) \<Longrightarrow> 0 < mx \<Longrightarrow> nat (wrap64 (mx + 1)) = nat mx + 1"
  by simp

text \<open>A successful read of a request body is stable: reading again gives the same bytes and changes
  nothing; and a body read under a positive limit is within it.\<close>

theorem body_read_stable:
  assumes "HA_BodyBytes r = (r', Inr d)"
  shows "HA_BodyBytes r' = (r', Inr d) \<and>
         (\<forall>h. r = Some h \<and> \<not> ha_bodyRead h \<and> 0 < ha_maxBodySize h \<longrightarrow> int (length d) \<le> ha_maxBodySize h)"
proof (cases "\<exists>h q b. r = Some h \<and> ha_request h = Some q \<and> hq_Body q = Some b \<and> \<not> ha_bodyRead h")
  case False
  with assms have "r' = r" "HA_BodyBytes r = (r, Inr d)"
    by (simp_all add: HA_BodyBytes_def split: option.splits)
  moreover have "d = ''''" if "r = Some h" "\<not> ha_bodyRead h" for h
    using assms that False by (simp add: HA_BodyBytes_def split: option.splits)
  ultimately show ?thesis by auto
next
  case True
  then obtain h q b where h: "r = Some h" "ha_request h = Some q" "hq_Body q = Some b" "\<not> ha_bodyRead h" by blast
  from assms h obtain all where b: "b = Inr all" by (cases b) (simp_all add: HA_BodyBytes_def)
  define dd where "dd = (if 0 < ha_maxBodySize h then take (nat (wrap64 (ha_maxBodySize h + 1))) all else all)"
  have "HA_BodyBytes r = (if 0 < ha_maxBodySize h \<and> ha_maxBodySize h < int (length dd)
      then (Some (h\<lparr>ha_request := Some (q\<lparr>hq_Body := Some (Inr (drop (length dd) all))\<rparr>)\<rparr>),
            Inl (ErrText (''request body exceeds '' @ nat_str (nat (ha_maxBodySize h)) @ '' bytes'')))
      else (Some (h\<lparr>ha_request := Some (q\<lparr>hq_Body := Some (Inr dd)\<rparr>), ha_body := dd, ha_bodyRead := True\<rparr>), Inr dd))"
    unfolding HA_BodyBytes_def Let_def h option.case b sum.case dd_def using h(4) by simp
  with assms have "\<not> (0 < ha_maxBodySize h \<and> ha_maxBodySize h < int (length dd))" "d = dd"
    "r' = Some (h\<lparr>ha_request := Some (q\<lparr>hq_Body := Some (Inr dd)\<rparr>), ha_body := dd, ha_bodyRead := True\<rparr>)"
    by (auto split: if_splits)
  with h show ?thesis by (auto simp add: HA_BodyBytes_def not_less)
qed

definition oversized :: HTTPRequestAccessor where
  "oversized = NewHTTPRequestAccessor (Some \<lparr>hq_Method = ''POST'', hq_URL = None, hq_RequestURI = '''', hq_Header = [],
     hq_Host = '''', hq_TLS = None, hq_Proto = '''', hq_RemoteAddr = '''', hq_Cookies = [],
     hq_Body = Some (Inr ''abcdefg'')\<rparr>) 3"

theorem body_read_stable_witness:
  "\<exists>r'. HA_BodyBytes (Some (oversized\<lparr>ha_maxBodySize := 9\<rparr>)) = (r', Inr ''abcdefg'') \<and> HA_BodyBytes r' = (r', Inr ''abcdefg'')"
proof -
  have "snd (HA_BodyBytes (Some (oversized\<lparr>ha_maxBodySize := 9\<rparr>))) = Inr ''abcdefg''" by code_simp
  then obtain r' where "HA_BodyBytes (Some (oversized\<lparr>ha_maxBodySize := 9\<rparr>)) = (r', Inr ''abcdefg'')"
    by (metis prod.collapse)
  with body_read_stable [OF this] show ?thesis by blast
qed

text \<open>A body larger than the limit is reported once only. The refused read has consumed one byte more
  than the limit, and a second read returns what is left as if it were the body, whenever that is
  within the limit.\<close>

theorem oversized_body_second_read:
  assumes "ha_request h = Some q" "hq_Body q = Some (Inr all)" "\<not> ha_bodyRead h"
    and "0 < ha_maxBodySize h" "in_int64 (ha_maxBodySize h + 1)"
    and "ha_maxBodySize h < int (length all)" "int (length all) \<le> 2 * ha_maxBodySize h + 1"
  shows "(\<exists>e. snd (HA_BodyBytes (Some h)) = Inl e) \<and>
         snd (HA_BodyBytes (fst (HA_BodyBytes (Some h)))) = Inr (drop (nat (ha_maxBodySize h) + 1) all)"
proof -
  have w: "nat (wrap64 (ha_maxBodySize h + 1)) = nat (ha_maxBodySize h) + 1"
    using assms(4,5) by (intro take_wrap_limit) simp_all
  have l: "length (take (Suc (nat (ha_maxBodySize h))) all) = Suc (nat (ha_maxBodySize h))"
    using assms(4,6) by (auto simp: min_def)
  have f: "HA_BodyBytes (Some h) = (Some (h\<lparr>ha_request := Some (q\<lparr>hq_Body := Some (Inr (drop (nat (ha_maxBodySize h) + 1) all))\<rparr>)\<rparr>),
      Inl (ErrText (''request body exceeds '' @ nat_str (nat (ha_maxBodySize h)) @ '' bytes'')))"
    using assms(1-4,6) unfolding HA_BodyBytes_def by (simp add: Let_def w l del: length_take)
  have t: "take (nat (ha_maxBodySize h) + 1) (drop (nat (ha_maxBodySize h) + 1) all) = drop (nat (ha_maxBodySize h) + 1) all"
    using assms(7) by simp
  have "snd (HA_BodyBytes (fst (HA_BodyBytes (Some h)))) = Inr (drop (nat (ha_maxBodySize h) + 1) all)"
    unfolding f fst_conv using assms(3,4,7) unfolding HA_BodyBytes_def by (simp add: Let_def w t)
  with f show ?thesis by simp
qed

theorem oversized_body_second_read_witness:
  "snd (HA_BodyBytes (fst (HA_BodyBytes (Some oversized)))) = Inr ''efg''"
proof -
  have "ha_request oversized = Some (the (ha_request oversized))"
    "hq_Body (the (ha_request oversized)) = Some (Inr ''abcdefg'')" "\<not> ha_bodyRead oversized"
    "ha_maxBodySize oversized = 3"
    by (simp_all add: oversized_def NewHTTPRequestAccessor_def)
  from oversized_body_second_read [OF this(1-3)] this(4) show ?thesis
    by (simp add: in_int64_def)
qed

end
