(* ===== verification/Transaction.thy ===== *)
theory Transaction
  imports Requests
begin

text \<open>
  The data an execution works on: journey configurations, the step interface and registry
  (\<^verbatim>\<open>types/step.type.go\<close>), the transaction (\<^verbatim>\<open>types/journey.confg.go\<close>) with its interaction
  values (\<^verbatim>\<open>types/transaction.values.go\<close>) and the events it emits (\<^verbatim>\<open>types/event.go\<close>).

  The client-input builder of a transaction holds a pointer to one of the state's contexts. The
  model keeps which one (\<open>tx_inputsRef\<close>): \<open>RefCtx\<close> and \<open>RefEnc\<close> share the tree with the state,
  \<open>Detached t\<close> is a tree the state no longer refers to. Events are kept as a list; their time,
  duration and attributes are left out.
\<close>

subsection \<open>Configurations\<close>

record Step =
  st_Name :: string
  st_StepType :: string
  st_Config :: gval

record Metadata =
  md_ID :: string
  md_Rev :: string

record JourneyConfiguration =
  jc_Metadata :: "Metadata option"
  jc_Name :: string
  jc_Description :: string
  jc_EncryptedClientInputs :: bool
  jc_Confidential :: bool
  jc_Active :: bool
  jc_Debug :: bool
  jc_JourneyType :: string
  jc_DefaultExp :: int
  jc_Realm :: string
  jc_StartStepID :: string
  jc_SubEntries :: "string list"
  jc_Steps :: "Step option gomap"
  jc_AdditionalProps :: DefaultMap

definition jc_ID :: "JourneyConfiguration \<Rightarrow> string" where
  "jc_ID j = (case jc_Metadata j of None \<Rightarrow> '''' | Some m \<Rightarrow> md_ID m)"

definition GetProp :: "'t treemap \<Rightarrow> JourneyConfiguration \<Rightarrow> string \<Rightarrow> 't" where
  "GetProp T j property = tm_get T (tm_new T (GObj (jc_AdditionalProps j))) property"

fun first_outcome :: "string \<Rightarrow> DefaultMap \<Rightarrow> gval option" where
  "first_outcome normalized [] = None"
| "first_outcome normalized ((name, target) # outcomes) =
     (if ToLower (TrimSpace name) = normalized then Some target else first_outcome normalized outcomes)"

definition GetOutcomeID :: "'t treemap \<Rightarrow> Step \<Rightarrow> string \<Rightarrow> string res" where
  "GetOutcomeID T sc outcome =
     (let as_str = (\<lambda>t. case tm_as_string T t of None \<Rightarrow> Inl (ErrText ''value is not a string'') | Some s \<Rightarrow> Inr s) in
      if st_StepType sc \<noteq> ''Script'' then as_str (tm_get T (tm_new T (st_Config sc)) (''outcome.'' @ outcome))
      else (case tm_as_map T (tm_get T (tm_new T (st_Config sc)) ''outcome'') of
              None \<Rightarrow> Inl (ErrText ''value is not a map'')
            | Some outcomes \<Rightarrow>
                (case first_outcome (ToLower (TrimSpace outcome)) outcomes of
                   None \<Rightarrow> Inl (ErrText (''outcome '' @ outcome @ '' is not configured''))
                 | Some target \<Rightarrow> as_str (tm_new T target))))"

subsection \<open>Events\<close>

datatype EventType = EventStarted | EventFinished | EventFailed | EventInfo | EventDebug | EventSuspended

record EventSubject =
  es_Type :: string
  es_ID :: string
  es_Name :: string

record Event =
  ev_Type :: EventType
  ev_Message :: string
  ev_Error :: "go_error option"
  ev_Subject :: EventSubject

subsection \<open>Interaction values\<close>

text \<open>All handles obtained by \<open>Share\<close> see one map, so the map itself is the state.\<close>

type_synonym TransactionValues = "gval gomap"

definition NewTransactionValues :: TransactionValues where
  "NewTransactionValues = []"

definition TV_Set :: "string \<Rightarrow> gval \<Rightarrow> TransactionValues \<Rightarrow> TransactionValues" where
  "TV_Set key v m = gm_put key v m"

definition TV_Get :: "string \<Rightarrow> TransactionValues \<Rightarrow> gval option" where
  "TV_Get key m = gm_get m key"

definition TV_Delete :: "string \<Rightarrow> TransactionValues \<Rightarrow> TransactionValues" where
  "TV_Delete key m = gm_del key m"

definition TV_LoadOrStore :: "string \<Rightarrow> gval \<Rightarrow> TransactionValues \<Rightarrow> TransactionValues \<times> gval \<times> bool" where
  "TV_LoadOrStore key v m =
     (case gm_get m key of Some actual \<Rightarrow> (m, actual, True) | None \<Rightarrow> (gm_put key v m, v, False))"

definition TV_Clear :: "TransactionValues \<Rightarrow> TransactionValues" where
  "TV_Clear m = []"

definition TV_Len :: "TransactionValues \<Rightarrow> nat" where
  "TV_Len m = length m"

text \<open>\<open>typed\<close> is the type assertion at the instance \<open>T\<close> of the generic functions.\<close>

definition InteractionValue :: "(gval \<Rightarrow> 'a option) \<Rightarrow> 'a \<Rightarrow> TransactionValues option \<Rightarrow> string \<Rightarrow> 'a \<times> bool" where
  "InteractionValue typed zero tv key =
     (case tv of None \<Rightarrow> (zero, False)
      | Some m \<Rightarrow> (case TV_Get key m of None \<Rightarrow> (zero, False)
                   | Some v \<Rightarrow> (case typed v of None \<Rightarrow> (zero, False) | Some x \<Rightarrow> (x, True))))"

definition MustInteractionValue :: "(gval \<Rightarrow> 'a option) \<Rightarrow> 'a \<Rightarrow> TransactionValues option \<Rightarrow> string \<Rightarrow> 'a res" where
  "MustInteractionValue typed zero tv key =
     (case InteractionValue typed zero tv key of
        (x, ok) \<Rightarrow> if ok then Inr x
          else Inl (GoPanic (''gojourney: interaction value '' @ key @ '' is missing or has an incompatible type'')))"

subsection \<open>The transaction\<close>

datatype 't ctx_ref = RefCtx | RefEnc | Detached 't

record 't JourneyTransaction =
  tx_Request :: "request option"
  tx_Response :: "MemoryResponse option"
  tx_Journey :: JourneyConfiguration
  tx_CurrentStepID :: string
  tx_ChainStepID :: string
  tx_clientInputs :: "ClientInput option list"
  tx_newClientInputs :: "ClientInput list"
  tx_inputsRef :: "'t ctx_ref"
  tx_State :: "'t JourneyState"
  tx_Payload :: JourneyPayloadReq
  tx_Values :: TransactionValues
  tx_Ticks :: "(int \<times> int) gomap"
  tx_events :: "Event list"
  tx_reads :: nat

definition EmitEvent :: "Event \<Rightarrow> 't JourneyTransaction \<Rightarrow> 't JourneyTransaction" where
  "EmitEvent e tx = tx\<lparr>tx_events := tx_events tx @ [e]\<rparr>"

text \<open>The builder seen through its pointer, and the transaction after the builder has changed.\<close>

definition tx_builder :: "'t treemap \<Rightarrow> crypto \<Rightarrow> 't JourneyTransaction \<Rightarrow> 't ClientInputsBuilder" where
  "tx_builder T K tx = \<lparr>cib_clientInputs = tx_clientInputs tx, cib_newClientInputs = tx_newClientInputs tx,
     cib_ctxManager = (case tx_inputsRef tx of
        RefCtx \<Rightarrow> snd (GetCtx T (tx_State tx))
      | RefEnc \<Rightarrow> snd (GetEncryptedCtx T K (tx_State tx))
      | Detached t \<Rightarrow> t)\<rparr>"

definition put_builder :: "'t ClientInputsBuilder \<Rightarrow> 't JourneyTransaction \<Rightarrow> 't JourneyTransaction" where
  "put_builder b tx =
     (let tx' = tx\<lparr>tx_clientInputs := cib_clientInputs b, tx_newClientInputs := cib_newClientInputs b\<rparr>
      in case tx_inputsRef tx of
           RefCtx \<Rightarrow> tx'\<lparr>tx_State := put_kind KCtx (cib_ctxManager b) (tx_State tx)\<rparr>
         | RefEnc \<Rightarrow> tx'\<lparr>tx_State := put_kind KEnc (cib_ctxManager b) (tx_State tx)\<rparr>
         | Detached t \<Rightarrow> tx'\<lparr>tx_inputsRef := Detached (cib_ctxManager b)\<rparr>)"

text \<open>Replacing all contexts of the state leaves the builder with the tree it had.\<close>

definition tx_SetAllCtx :: "'t treemap \<Rightarrow> crypto \<Rightarrow> 't \<Rightarrow> 't \<Rightarrow> 't \<Rightarrow> 't \<Rightarrow> 't JourneyTransaction \<Rightarrow> 't JourneyTransaction" where
  "tx_SetAllCtx T K c e cl tmp tx =
     tx\<lparr>tx_inputsRef := Detached (cib_ctxManager (tx_builder T K tx)),
        tx_State := SetAllCtx c e cl tmp (tx_State tx)\<rparr>"

subsection \<open>Steps and their registry\<close>

datatype go_type =
    TString | TBool | TInt | TFloat | TIface
  | TPointer go_type
  | TSlice go_type
  | TMap go_type
  | TStruct "(string \<times> bool \<times> go_type) list"

text \<open>A field of a struct is its JSON name, whether it is embedded, and its type.\<close>

record 't IStep =
  is_type :: go_type
  is_EndJourney :: bool
  is_Completion :: "bool option"
  is_VerifyConfig :: "string \<Rightarrow> 't \<Rightarrow> unit res"
  is_Execute :: "'t \<Rightarrow> 't JourneyTransaction \<Rightarrow> 't JourneyTransaction \<times> string res"

text \<open>\<open>rg_valid\<close> is the JSON-schema validator applied to a registered schema and a document.\<close>

record 't Steps =
  rg_steps :: "'t IStep gomap"
  rg_schemas :: "gval gomap"
  rg_valid :: "gval \<Rightarrow> gval \<Rightarrow> bool"

definition GetStep :: "'t Steps \<Rightarrow> string \<Rightarrow> 't IStep option" where
  "GetStep s stepID = gm_get (rg_steps s) stepID"

definition ExecuteStepConfig :: "'t treemap \<Rightarrow> crypto \<Rightarrow> text_conv \<Rightarrow> resolver gomap \<Rightarrow> 't IStep \<Rightarrow> gval
    \<Rightarrow> 't JourneyTransaction \<Rightarrow> 't JourneyTransaction \<times> string res" where
  "ExecuteStepConfig T K P resolvers step rawConfig tx =
     (case ResolveStepConfig T K P resolvers rawConfig (Some (tx_State tx)) of
        (js, Inl e) \<Rightarrow> (tx\<lparr>tx_State := or_default js (tx_State tx)\<rparr>, Inl e)
      | (js, Inr resolved) \<Rightarrow> is_Execute step resolved (tx\<lparr>tx_State := or_default js (tx_State tx)\<rparr>))"

definition AuthJourney :: string where "AuthJourney = ''auth''"
definition ResourceJourney :: string where "ResourceJourney = ''resource''"
definition WorkflowJourney :: string where "WorkflowJourney = ''workflow''"

definition defaultStepFlowTypes :: "string \<Rightarrow> string list" where
  "defaultStepFlowTypes ty =
     (if ty \<in> set [''Form'', ''Choice'', ''Metadata'', ''SuspendFlow'', ''WaitUntil'', ''Success'', ''Failure'',
                   ''OIDCAuthorizationCode''] then [AuthJourney]
      else if ty \<in> set [''HTTPResponse'', ''HTTPFinishResponse'', ''HTTPProxy''] then [ResourceJourney]
      else if ty \<in> set [''SetCookie'', ''ReadCookie''] then [AuthJourney, ResourceJourney]
      else if ty = ''End'' then [WorkflowJourney]
      else [AuthJourney, ResourceJourney, WorkflowJourney])"

definition withDefaultStepFlowTypes :: "string \<Rightarrow> DefaultMap gomap \<Rightarrow> DefaultMap gomap" where
  "withDefaultStepFlowTypes ty extra =
     (let root = or_default (gm_get extra ''.'') [] in
      gm_put ''.'' (if gm_get root ''x-flow-type'' = None
                    then gm_put ''x-flow-type'' (GArr (map GStr (defaultStepFlowTypes ty))) root else root) extra)"

text \<open>\<open>AddMissingFrom\<close>: entries the receiver already has win; a schema is copied where it is missing.\<close>

definition add_one :: "gval gomap \<Rightarrow> string \<times> 't IStep \<Rightarrow> 't Steps \<Rightarrow> 't Steps" where
  "add_one schemas p s =
     (let copy = (\<lambda>r. case gm_get schemas (fst p) of None \<Rightarrow> r
                      | Some d \<Rightarrow> r\<lparr>rg_schemas := gm_put (fst p) d (rg_schemas r)\<rparr>)
      in if GetStep s (fst p) \<noteq> None then (if gm_get (rg_schemas s) (fst p) = None then copy s else s)
         else (copy s)\<lparr>rg_steps := gm_put (fst p) (snd p) (rg_steps s)\<rparr>)"

definition AddMissingFrom :: "'t Steps option \<Rightarrow> 't Steps \<Rightarrow> 't Steps" where
  "AddMissingFrom source s =
     (case source of None \<Rightarrow> s | Some r \<Rightarrow> fold (add_one (rg_schemas r)) (rg_steps r) s)"

definition GetStepSchemasJSON :: "'t Steps \<Rightarrow> gval gomap" where
  "GetStepSchemasJSON s =
     List.map_filter (\<lambda>(ty, step). map_option (Pair ty) (gm_get (rg_schemas s) ty)) (rg_steps s)"

fun str_items :: "gval list \<Rightarrow> string list" where
  "str_items [] = []"
| "str_items (GStr s # vs) = (if s \<noteq> '''' then s # str_items vs else str_items vs)"
| "str_items (v # vs) = str_items vs"

definition StepFlowTypes :: "'t Steps \<Rightarrow> string \<Rightarrow> string list" where
  "StepFlowTypes s ty =
     (case gm_get (rg_schemas s) ty of
        Some (GObj schema) \<Rightarrow>
          (case gm_get schema ''x-flow-type'' of
             Some (GArr vs) \<Rightarrow> (if str_items vs \<noteq> [] then str_items vs else [AuthJourney])
           | Some (GStr v) \<Rightarrow> (if v \<noteq> '''' then [v] else [AuthJourney])
           | _ \<Rightarrow> [AuthJourney])
      | Some GNil \<Rightarrow> [AuthJourney]
      | _ \<Rightarrow> [])"

definition clone_one :: "string \<times> resolver option \<Rightarrow> resolver gomap \<Rightarrow> resolver gomap" where
  "clone_one p cloned =
     (case snd p of None \<Rightarrow> cloned
      | Some f \<Rightarrow> if fst p \<noteq> '''' \<and> \<not> IsCtx (fst p) \<and> fst p \<noteq> ''encCtx'' \<and> fst p \<noteq> ''closedCtx'' \<and> fst p \<noteq> ''tempCtx''
                  then gm_put (fst p) f cloned else cloned)"

definition clonePlaceholderResolvers :: "resolver option gomap \<Rightarrow> resolver gomap" where
  "clonePlaceholderResolvers source = fold clone_one source []"

subsection \<open>Facts\<close>

lemma tx_builder_put [simp]:
  "tx_builder T K (put_builder b tx) = b"
  by (cases b) (simp add: tx_builder_def put_builder_def GetCtx_def GetEncryptedCtx_def Let_def split: ctx_ref.splits)

lemma clone_one_get: "gm_get (clone_one p acc) k = Some f \<Longrightarrow> gm_get acc k = Some f \<or> \<not> IsCtx k \<and> k \<noteq> ''''"
  unfolding clone_one_def by (auto split: option.splits if_splits)

lemma clone_has_no_context:
  assumes "gm_get (clonePlaceholderResolvers src) k = Some f"
  shows "\<not> IsCtx k \<and> k \<noteq> ''''"
proof -
  have "gm_get (fold clone_one src acc) k = Some f \<Longrightarrow> gm_get acc k = Some f \<or> \<not> IsCtx k \<and> k \<noteq> ''''" for acc
    by (induction src arbitrary: acc) (auto dest: clone_one_get)
  from this [of "[]"] assms show ?thesis by (simp add: clonePlaceholderResolvers_def)
qed

text \<open>The engine's defaults never replace an entry the host registered.\<close>

lemma GetStep_add_one:
  "GetStep (add_one schemas p s) ty =
     (if ty = fst p \<and> GetStep s ty = None then Some (snd p) else GetStep s ty)"
  by (auto simp: add_one_def GetStep_def Let_def split: option.splits)

lemma fold_add_one_keeps:
  "GetStep s ty = Some step \<Longrightarrow> GetStep (fold (add_one schemas) rest s) ty = Some step"
  by (induction rest arbitrary: s) (simp_all add: GetStep_add_one)

lemma fold_add_one_provides:
  "ty \<in> fst ` set rest \<Longrightarrow> GetStep (fold (add_one schemas) rest s) ty \<noteq> None"
proof (induction rest arbitrary: s)
  case (Cons p rest)
  have "\<exists>st. GetStep (add_one schemas p s) (fst p) = Some st"
    by (auto simp: GetStep_add_one)
  then obtain st where st: "GetStep (add_one schemas p s) (fst p) = Some st" ..
  show ?case
  proof (cases "ty = fst p")
    case True
    with fold_add_one_keeps [OF st, of schemas rest] show ?thesis by simp
  next
    case False
    with Cons show ?thesis by simp
  qed
qed simp

end
