(* ===== verification/JourneyConfig.thy ===== *)
theory JourneyConfig
  imports Transaction
begin

text \<open>
  \<^verbatim>\<open>types/journey.validation.go\<close>: preparation of a journey before it is stored. Placeholder metadata
  is generated for every step, nested steps included, and the journey is validated against the
  registry. Reflection over a step's struct is the datatype \<open>go_type\<close> (a finite unfolding of the
  Go type). When an error is returned the partly updated journey is dropped, as \<^verbatim>\<open>Save\<close> does.
\<close>

subsection \<open>Journey types\<close>

definition NormalizeJourneyType :: "string \<Rightarrow> string" where
  "NormalizeJourneyType ty =
     (let n = TrimSpace (ToLower ty) in
      if n \<in> set [ResourceJourney, ''resource-journey'', ''proxy-journey''] then ResourceJourney
      else if n \<in> set [WorkflowJourney, ''workflow-journey''] then WorkflowJourney
      else AuthJourney)"

definition StepSupportsJourneyType :: "'t Steps \<Rightarrow> string \<Rightarrow> string \<Rightarrow> bool" where
  "StepSupportsJourneyType s ty jt \<longleftrightarrow> NormalizeJourneyType jt \<in> set (StepFlowTypes s ty)"

definition ValidateStep :: "'t treemap \<Rightarrow> 't Steps \<Rightarrow> Step \<Rightarrow> Step res" where
  "ValidateStep T s step =
     (let st = (if length (st_Name step) = 0 then step\<lparr>st_Name := st_StepType step\<rparr> else step) in
      case gm_get (rg_schemas s) (st_StepType st) of
        None \<Rightarrow> Inl (StepUnsupported (st_StepType st))
      | Some schema \<Rightarrow>
          if st_Config st = GNil then Inr st
          else if \<not> json_ok (st_Config st) \<or> \<not> rg_valid s schema (json_any (st_Config st))
          then Inl (StepInvalidConfig (st_Name st) ''schema'')
          else (case GetStep s (st_StepType st) of
                  None \<Rightarrow> Inl (GoPanic ''nil pointer dereference'')
                | Some impl \<Rightarrow>
                    bind_res (is_VerifyConfig impl (st_Name st) (tm_new T (st_Config st))) (\<lambda>_.
                    bind_res (validateStepVariables T (st_Name st) (tm_new T (st_Config st))) (\<lambda>_. Inr st))))"

definition ValidateStepForJourneyType :: "'t treemap \<Rightarrow> 't Steps \<Rightarrow> Step \<Rightarrow> string \<Rightarrow> Step res" where
  "ValidateStepForJourneyType T s step jt =
     bind_res (ValidateStep T s step) (\<lambda>st.
       if \<not> StepSupportsJourneyType s (st_StepType st) (NormalizeJourneyType jt)
       then Inl (StepInvalidConfig (st_Name st) (''step type '' @ st_StepType st @ '' is not supported by journey type ''
                   @ NormalizeJourneyType jt))
       else Inr st)"

definition dec_Step :: "gval \<Rightarrow> Step res" where
  "dec_Step v =
     bind_res (dec_obj (Some v)) (\<lambda>m. bind_res (dec_str m ''name'') (\<lambda>n. bind_res (dec_str m ''step_type'') (\<lambda>t.
       Inr \<lparr>st_Name = n, st_StepType = t, st_Config = or_default (gm_get m ''config'') GNil\<rparr>)))"

definition step_json :: "Step \<Rightarrow> gval" where
  "step_json st = GObj [(''name'', GStr (st_Name st)), (''step_type'', GStr (st_StepType st)),
     (''config'', json_any (st_Config st))]"

definition nested_steps :: "gval \<Rightarrow> gval list" where
  "nested_steps v = (case v of GObj m \<Rightarrow> (case gm_get m ''steps'' of Some (GArr vs) \<Rightarrow> vs | _ \<Rightarrow> []) | _ \<Rightarrow> [])"

lemma size_gm_get: "gm_get m k = Some v \<Longrightarrow> size v < size (GObj m)"
proof (induction m)
  case (Cons p m)
  then show ?case by (cases p) (auto split: if_splits)
qed simp

lemma size_list_nested: "size_list size (nested_steps v) \<le> size v"
proof -
  have "size_list size vs < size (GArr vs)" for vs :: "gval list" by simp
  then show ?thesis
    by (auto simp: nested_steps_def dest!: size_gm_get split: gval.splits option.splits)
qed

lemma dec_Step_obj: "dec_Step v = Inr st \<Longrightarrow>
    (\<exists>m. v = GObj m \<and> st_Config st = or_default (gm_get m ''config'') GNil) \<or> st_Config st = GNil"
  by (auto simp: dec_Step_def res_iff dec_obj_def split: gval.splits)

lemma dec_Step_config: "dec_Step v = Inr st \<Longrightarrow> size (st_Config st) \<le> size v"
proof (drule dec_Step_obj, elim disjE exE conjE)
  fix m assume "v = GObj m" "st_Config st = or_default (gm_get m ''config'') GNil"
  then show ?thesis by (cases "gm_get m ''config''") (auto dest!: size_gm_get)
qed simp

text \<open>Values that a JSON round trip leaves alone, and their parts.\<close>

definition json_fixed :: "gval \<Rightarrow> bool" where
  "json_fixed v \<longleftrightarrow> json_any v = v"

lemma json_fixed_any [simp]: "json_fixed (json_any v)"
  by (simp add: json_fixed_def)

lemma json_fixed_get: "json_fixed (GObj m) \<Longrightarrow> gm_get m k = Some w \<Longrightarrow> json_fixed w"
proof -
  assume "json_fixed (GObj m)" and w: "gm_get m k = Some w"
  then have "json_map m = m" by (simp add: json_fixed_def json_map_def)
  with w gm_get_json_map [of m k] show ?thesis by (simp add: json_fixed_def)
qed

lemma json_fixed_arr: "json_fixed (GArr vs) \<Longrightarrow> w \<in> set vs \<Longrightarrow> json_fixed w"
  by (metis gval.inject(5) json_any.simps(2) json_fixed_def map_idI map_eq_conv list.map_id id_apply)

lemma json_fixed_nested: "json_fixed v \<Longrightarrow> w \<in> set (nested_steps v) \<Longrightarrow> json_fixed w"
  by (auto simp: nested_steps_def split: gval.splits option.splits dest: json_fixed_get [OF _ sym] json_fixed_get json_fixed_arr)

lemma json_fixed_dec: "dec_Step v = Inr st \<Longrightarrow> json_fixed v \<Longrightarrow> json_fixed (st_Config st)"
proof (drule dec_Step_obj, elim disjE exE conjE)
  fix m assume "v = GObj m" "json_fixed v" "st_Config st = or_default (gm_get m ''config'') GNil"
  then show ?thesis by (cases "gm_get m ''config''") (auto dest: json_fixed_get simp: json_fixed_def [of GNil])
qed (simp add: json_fixed_def)

lemma size_list_same: "(\<And>x. x \<in> set xs \<Longrightarrow> f x = g x) \<Longrightarrow> size_list f xs = size_list g xs"
  by (induction xs) auto

definition json_size :: "gval \<Rightarrow> nat" where
  "json_size v = size (json_any v)"

lemma json_size_nested:
  assumes "dec_Step (json_any v) = Inr child"
  shows "size_list json_size (nested_steps (st_Config child)) \<le> json_size v"
proof -
  have "json_fixed (st_Config child)" using json_fixed_dec [OF assms] by simp
  then have "size_list json_size (nested_steps (st_Config child)) = size_list size (nested_steps (st_Config child))"
    using json_fixed_nested by (intro size_list_same) (auto simp: json_size_def json_fixed_def)
  also have "\<dots> \<le> size (st_Config child)" by (rule size_list_nested)
  also have "\<dots> \<le> json_size v" using dec_Step_config [OF assms] by (simp add: json_size_def)
  finally show ?thesis .
qed

text \<open>The nested steps of a composite are validated before their own nested steps.\<close>

function validate_children :: "'t treemap \<Rightarrow> 't Steps \<Rightarrow> string \<Rightarrow> nat \<Rightarrow> gval list \<Rightarrow> unit res" where
  "validate_children T s jt i [] = Inr ()"
| "validate_children T s jt i (v # vs) =
     (if \<not> json_ok v then Inl (ErrWrap (''steps.'' @ nat_str i) (ErrText ''json: unsupported value''))
      else (case dec_Step (json_any v) of
              Inl e \<Rightarrow> Inl (ErrWrap (''steps.'' @ nat_str i) e)
            | Inr child \<Rightarrow>
                (case ValidateStepForJourneyType T s child jt of
                   Inl e \<Rightarrow> Inl (ErrWrap (''steps.'' @ nat_str i) e)
                 | Inr child' \<Rightarrow>
                     (case validate_children T s jt 0 (nested_steps (st_Config child)) of
                        Inl e \<Rightarrow> Inl (ErrWrap (''steps.'' @ nat_str i) e)
                      | Inr _ \<Rightarrow> validate_children T s jt (Suc i) vs))))"
  by pat_completeness auto

termination
  by (relation "measure (\<lambda>(T, s, jt, i, vs). size_list json_size vs)")
     (auto dest!: json_size_nested simp: less_Suc_eq_le intro: le_trans [OF _ le_add1])

definition validateNestedStepsForJourneyType :: "'t treemap \<Rightarrow> 't Steps \<Rightarrow> string \<Rightarrow> Step option \<Rightarrow> unit res" where
  "validateNestedStepsForJourneyType T s jt step =
     (case step of None \<Rightarrow> Inr () | Some st \<Rightarrow> validate_children T s jt 0 (nested_steps (st_Config st)))"

subsection \<open>Types of variables\<close>

fun deref :: "go_type \<Rightarrow> go_type" where
  "deref (TPointer t) = deref t"
| "deref t = t"

fun jsonStructField :: "(string \<times> bool \<times> go_type) list \<Rightarrow> string \<Rightarrow> go_type option"
  and embedded_field :: "go_type \<Rightarrow> string \<Rightarrow> go_type option" where
  "jsonStructField [] property = None"
| "jsonStructField ((name, anonymous, ty) # flds) property =
     (if name = property then Some ty
      else if anonymous then (case embedded_field ty property of Some t \<Rightarrow> Some t | None \<Rightarrow> jsonStructField flds property)
      else jsonStructField flds property)"
| "embedded_field (TPointer t) property = embedded_field t property"
| "embedded_field (TStruct flds) property = jsonStructField flds property"
| "embedded_field t property = None"

fun walk_type :: "go_type \<Rightarrow> string list \<Rightarrow> go_type option" where
  "walk_type t [] = Some t"
| "walk_type t (part # parts) =
     (case deref t of
        TStruct flds \<Rightarrow> (case jsonStructField flds part of None \<Rightarrow> None | Some u \<Rightarrow> walk_type u parts)
      | TSlice u \<Rightarrow> (if ParseInt part = None then None else walk_type u parts)
      | TMap u \<Rightarrow> walk_type u parts
      | _ \<Rightarrow> None)"

fun kind_name :: "go_type \<Rightarrow> string" where
  "kind_name TString = ''string''"
| "kind_name TBool = ''bool''"
| "kind_name TInt = ''int''"
| "kind_name TFloat = ''float''"
| "kind_name (TMap t) = ''object''"
| "kind_name (TStruct fs) = ''object''"
| "kind_name (TSlice t) = ''array''"
| "kind_name t = ''''"

definition inferStepVariableType :: "'t IStep option \<Rightarrow> string \<Rightarrow> string" where
  "inferStepVariableType step path =
     (case step of None \<Rightarrow> ''''
      | Some s \<Rightarrow> (case walk_type (is_type s) (Split path (CHR ''.'')) of None \<Rightarrow> '''' | Some t \<Rightarrow> kind_name (deref t)))"

definition isExactStepPlaceholder :: "string \<Rightarrow> StepVariable option \<Rightarrow> bool" where
  "isExactStepPlaceholder source variable \<longleftrightarrow>
     (case variable of None \<Rightarrow> False
      | Some v \<Rightarrow> (case sv_Placeholders v of
                     [p] \<Rightarrow> StartsAt p = 0 \<and> EndsAt p = int (length source) \<and> brace_token p = source
                   | _ \<Rightarrow> False))"

subsection \<open>Discovery over a configuration\<close>

fun static_parts :: "string list \<Rightarrow> nat \<Rightarrow> string list \<Rightarrow> bool" where
  "static_parts parts index [] = False"
| "static_parts parts index (part # rest) =
     (if part = ''outcome'' \<and> 0 < index \<and> parts ! (index - 1) = ''config'' then True
      else if (part = ''step_type'' \<or> part = ''name'') \<and> 2 \<le> index \<and> parts ! (index - 2) = ''steps'' then True
      else static_parts parts (Suc index) rest)"

definition staticPlaceholderPath :: "string \<Rightarrow> bool" where
  "staticPlaceholderPath path \<longleftrightarrow>
     (let parts = Split path (CHR ''.'') in hd parts = ''outcome'' \<or> static_parts parts 0 parts)"

definition previous_type :: "DefaultMap \<Rightarrow> string \<Rightarrow> string" where
  "previous_type existing path =
     (case gm_get existing path of None \<Rightarrow> ''''
      | Some raw \<Rightarrow> (if \<not> json_ok raw then '''' else
          (case dec_StepVariable (Some (json_any raw)) of Inl e \<Rightarrow> '''' | Inr v \<Rightarrow> sv_Type v)))"

fun discoverVariables :: "bool \<Rightarrow> DefaultMap \<Rightarrow> string \<Rightarrow> gval \<Rightarrow> DefaultMap \<Rightarrow> DefaultMap res"
  and discover_map :: "bool \<Rightarrow> DefaultMap \<Rightarrow> string \<Rightarrow> DefaultMap \<Rightarrow> DefaultMap \<Rightarrow> DefaultMap res"
  and discover_arr :: "bool \<Rightarrow> DefaultMap \<Rightarrow> string \<Rightarrow> nat \<Rightarrow> gval list \<Rightarrow> DefaultMap \<Rightarrow> DefaultMap res" where
  "discoverVariables composite existing path (GObj m) generated = discover_map composite existing path m generated"
| "discoverVariables composite existing path (GArr vs) generated = discover_arr composite existing path 0 vs generated"
| "discoverVariables composite existing path (GStr current) generated =
     (case discoverPlaceholders current of
        Inl e \<Rightarrow> Inl (ErrWrap path e)
      | Inr placeholders \<Rightarrow>
          if length placeholders = 0 then Inr generated
          else if staticPlaceholderPath path
          then Inl (ErrText (path @ '' cannot contain placeholders because it defines journey structure''))
          else Inr (gm_put path (GVar \<lparr>sv_Type = previous_type existing path, sv_Placeholders = placeholders\<rparr>) generated))"
| "discoverVariables composite existing path v generated = Inr generated"
| "discover_map composite existing path [] generated = Inr generated"
| "discover_map composite existing path ((key, child) # m) generated =
     (if key = ''vars'' \<or> composite \<and> path = '''' \<and> key = ''steps''
      then discover_map composite existing path m generated
      else bind_res (discoverVariables composite existing (if path \<noteq> '''' then path @ ''.'' @ key else key) child generated)
             (\<lambda>g. discover_map composite existing path m g))"
| "discover_arr composite existing path i [] generated = Inr generated"
| "discover_arr composite existing path i (child # vs) generated =
     bind_res (discoverVariables composite existing (path @ ''.'' @ nat_str i) child generated)
       (\<lambda>g. discover_arr composite existing path (Suc i) vs g)"

definition infer_types :: "'t treemap \<Rightarrow> 't IStep option \<Rightarrow> 't \<Rightarrow> DefaultMap \<Rightarrow> DefaultMap" where
  "infer_types T impl configMap generated =
     map (\<lambda>(path, raw).
       case raw of
         GVar v \<Rightarrow>
           if sv_Type v \<noteq> '''' then (path, raw)
           else let ty = inferStepVariableType impl path in
                if ty = '''' \<and> \<not> isExactStepPlaceholder (get_str_or T configMap path '''') (Some v)
                then (path, GVar (v\<lparr>sv_Type := ''string''\<rparr>)) else (path, GVar (v\<lparr>sv_Type := ty\<rparr>))
       | _ \<Rightarrow> (path, raw)) generated"

definition finish_config :: "'t treemap \<Rightarrow> 't Steps option \<Rightarrow> string \<Rightarrow> bool \<Rightarrow> DefaultMap \<Rightarrow> gval res" where
  "finish_config T registry ty composite config =
     (let existing = (case gm_get config ''vars'' of Some (GObj m) \<Rightarrow> m | _ \<Rightarrow> []) in
      bind_res (discoverVariables composite existing '''' (GObj config) []) (\<lambda>generated.
        let impl = (case registry of None \<Rightarrow> None | Some s \<Rightarrow> GetStep s ty);
            final = infer_types T impl (tm_new T (GObj config)) generated
        in Inr (GObj (if length final = 0 then gm_del ''vars'' config else gm_put ''vars'' (GObj final) config))))"

definition is_composite :: "string \<Rightarrow> bool" where
  "is_composite ty \<longleftrightarrow> ty \<in> set [''Chain'', ''AsyncWait'', ''AsyncExec'']"

lemma json_fixed_steps:
  assumes "json_any raw = GObj config" "gm_get config ''steps'' = Some (GArr vs)"
  shows "size_list json_size vs < json_size raw"
proof -
  have f: "json_fixed (GObj config)" using assms(1) by (metis json_fixed_any)
  have "json_fixed w" if "w \<in> set vs" for w
    using json_fixed_arr [OF json_fixed_get [OF f assms(2)] that] .
  then have "size_list json_size vs = size_list size vs"
    by (intro size_list_same) (auto simp: json_size_def json_fixed_def)
  also have "\<dots> < size (GArr vs)" by simp
  also have "\<dots> < size (GObj config)" by (rule size_gm_get [OF assms(2)])
  finally show ?thesis by (simp add: json_size_def assms(1))
qed

lemma dec_Step_json_size: "dec_Step (json_any v) = Inr child \<Longrightarrow> json_size (st_Config child) \<le> json_size v"
  using json_fixed_dec [of "json_any v" child] dec_Step_config [of "json_any v" child]
  by (simp add: json_size_def json_fixed_def)

function GenerateConfig :: "'t treemap \<Rightarrow> 't Steps option \<Rightarrow> string \<Rightarrow> gval \<Rightarrow> gval res"
  and generateNested :: "'t treemap \<Rightarrow> 't Steps option \<Rightarrow> nat \<Rightarrow> gval list \<Rightarrow> gval list res" where
  "GenerateConfig T registry ty raw =
     (if raw = GNil then Inr GNil
      else if \<not> json_ok raw then Inl (ErrText ''json: unsupported value'')
      else (case json_any raw of
              GObj config \<Rightarrow>
                if is_composite ty then
                  (case gm_get config ''steps'' of
                     Some (GArr vs) \<Rightarrow>
                       bind_res (generateNested T registry 0 vs) (\<lambda>vs'.
                         finish_config T registry ty True (gm_put ''steps'' (GArr vs') config))
                   | Some (GStr s) \<Rightarrow>
                       (case discoverPlaceholders s of
                          Inl e \<Rightarrow> Inl (ErrWrap ''steps'' e)
                        | Inr ps \<Rightarrow> if length ps \<noteq> 0
                            then Inl (ErrText ''steps cannot contain placeholders because it defines journey structure'')
                            else finish_config T registry ty True config)
                   | _ \<Rightarrow> finish_config T registry ty True config)
                else finish_config T registry ty False config
            | _ \<Rightarrow> Inl (ErrText ''json: cannot unmarshal into map'')))"
| "generateNested T registry i [] = Inr []"
| "generateNested T registry i (v # vs) =
     (if \<not> json_ok v then Inl (ErrWrap (''steps.'' @ nat_str i) (ErrText ''json: unsupported value''))
      else (case dec_Step (json_any v) of
              Inl e \<Rightarrow> Inl (ErrWrap (''steps.'' @ nat_str i) e)
            | Inr child \<Rightarrow>
                (case GenerateConfig T registry (st_StepType child) (st_Config child) of
                   Inl e \<Rightarrow> Inl (ErrWrap (''steps.'' @ nat_str i) e)
                 | Inr c \<Rightarrow>
                     bind_res (generateNested T registry (Suc i) vs) (\<lambda>rest.
                       Inr (step_json (child\<lparr>st_Config := c\<rparr>) # rest)))))"
  by pat_completeness auto

termination
  by (relation "measure (\<lambda>x. case x of Inl (T, r, ty, raw) \<Rightarrow> json_size raw
                                     | Inr (T, r, i, vs) \<Rightarrow> size_list json_size vs)")
     (auto dest!: dec_Step_json_size json_fixed_steps)

definition GenerateStepVariables :: "'t treemap \<Rightarrow> 't Steps option \<Rightarrow> Step option \<Rightarrow> Step option res" where
  "GenerateStepVariables T registry step =
     (case step of None \<Rightarrow> Inr None
      | Some st \<Rightarrow> bind_res (GenerateConfig T registry (st_StepType st) (st_Config st))
                     (\<lambda>c. Inr (Some (st\<lparr>st_Config := c\<rparr>))))"

subsection \<open>Preparation of a journey\<close>

definition step_at :: "Step option gomap \<Rightarrow> string \<Rightarrow> Step option" where
  "step_at steps i = or_default (gm_get steps i) None"

fun check_targets :: "Step option gomap \<Rightarrow> string \<Rightarrow> DefaultMap \<Rightarrow> unit res" where
  "check_targets steps stepID [] = Inr ()"
| "check_targets steps stepID ((outcome, raw) # outcomes) =
     (case raw of
        GStr target \<Rightarrow>
          if target \<noteq> '''' \<and> step_at steps target = None
          then Inl (ErrText (''step '' @ stepID @ '' outcome '' @ outcome @ '' targets missing step '' @ target))
          else check_targets steps stepID outcomes
      | _ \<Rightarrow> check_targets steps stepID outcomes)"

definition outcomes_of :: "gval \<Rightarrow> DefaultMap" where
  "outcomes_of c = (case c of GObj m \<Rightarrow> (case gm_get m ''outcome'' of Some (GObj o') \<Rightarrow> o' | _ \<Rightarrow> []) | _ \<Rightarrow> [])"

text \<open>One step of the loop, against the journey's steps; nothing removes a step, so the existence of
  a target does not depend on how far the loop has come.\<close>

definition prepare_step :: "'t treemap \<Rightarrow> 't Steps \<Rightarrow> string \<Rightarrow> Step option gomap \<Rightarrow> string \<Rightarrow> Step option \<Rightarrow> Step res" where
  "prepare_step T registry jt steps stepID step =
     (case step of
        None \<Rightarrow> Inl (ErrText (''step '' @ stepID @ '' is nil''))
      | Some st \<Rightarrow>
          (case GenerateConfig T (Some registry) (st_StepType st) (st_Config st) of
             Inl e \<Rightarrow> Inl (ErrWrap (''step '' @ stepID @ '' placeholders'') e)
           | Inr c \<Rightarrow>
               (case ValidateStepForJourneyType T registry (st\<lparr>st_Config := c\<rparr>) jt of
                  Inl e \<Rightarrow> Inl (ErrWrap (''step '' @ stepID) e)
                | Inr st' \<Rightarrow>
                    (case validateNestedStepsForJourneyType T registry jt (Some st') of
                       Inl e \<Rightarrow> Inl (ErrWrap (''step '' @ stepID) e)
                     | Inr _ \<Rightarrow> bind_res (check_targets steps stepID (outcomes_of (st_Config st'))) (\<lambda>_. Inr st')))))"

fun prepare_steps :: "'t treemap \<Rightarrow> 't Steps \<Rightarrow> string \<Rightarrow> Step option gomap \<Rightarrow> Step option gomap \<Rightarrow> Step option gomap res" where
  "prepare_steps T registry jt steps [] = Inr []"
| "prepare_steps T registry jt steps ((stepID, step) # rest) =
     bind_res (prepare_step T registry jt steps stepID step) (\<lambda>st.
     bind_res (prepare_steps T registry jt steps rest) (\<lambda>rest'. Inr ((stepID, Some st) # rest')))"

definition PrepareJourneyConfiguration :: "'t treemap \<Rightarrow> 't Steps option \<Rightarrow> JourneyConfiguration option
    \<Rightarrow> JourneyConfiguration res" where
  "PrepareJourneyConfiguration T registry journey =
     (case journey of
        None \<Rightarrow> Inl (ErrText ''journey is nil'')
      | Some j \<Rightarrow>
          (case registry of
             None \<Rightarrow> Inl (ErrText ''step registry is nil'')
           | Some r \<Rightarrow>
               if jc_StartStepID j = '''' \<or> step_at (jc_Steps j) (jc_StartStepID j) = None
               then Inl (ErrText (''start step '' @ jc_StartStepID j @ '' does not exist''))
               else let jt = NormalizeJourneyType (jc_JourneyType j) in
                    bind_res (prepare_steps T r jt (jc_Steps j) (jc_Steps j)) (\<lambda>steps.
                      Inr (j\<lparr>jc_JourneyType := jt, jc_Steps := steps\<rparr>))))"

subsection \<open>What a prepared journey satisfies\<close>

lemma NormalizeJourneyType_range:
  "NormalizeJourneyType ty \<in> {AuthJourney, ResourceJourney, WorkflowJourney}"
  by (simp add: NormalizeJourneyType_def Let_def)

lemma NormalizeJourneyType_fixed:
  "NormalizeJourneyType AuthJourney = AuthJourney"
  "NormalizeJourneyType ResourceJourney = ResourceJourney"
  "NormalizeJourneyType WorkflowJourney = WorkflowJourney"
  by code_simp+

lemma NormalizeJourneyType_idem [simp]: "NormalizeJourneyType (NormalizeJourneyType ty) = NormalizeJourneyType ty"
  using NormalizeJourneyType_range [of ty] NormalizeJourneyType_fixed by auto

definition targets_exist :: "Step option gomap \<Rightarrow> gval \<Rightarrow> bool" where
  "targets_exist steps c \<longleftrightarrow>
     (\<forall>outcome target. (outcome, GStr target) \<in> set (outcomes_of c) \<longrightarrow> target \<noteq> '''' \<longrightarrow> step_at steps target \<noteq> None)"

lemma check_targets_iff:
  "check_targets steps stepID outcomes = Inr u \<longleftrightarrow>
     (\<forall>outcome target. (outcome, GStr target) \<in> set outcomes \<longrightarrow> target \<noteq> '''' \<longrightarrow> step_at steps target \<noteq> None)"
proof (induction outcomes)
  case (Cons p ps)
  then show ?case by (cases p; cases "snd p") (auto split: if_splits)
qed simp

lemma prepare_step_ok:
  assumes "prepare_step T r jt steps i step = Inr st"
  shows "targets_exist steps (st_Config st)" "StepSupportsJourneyType r (st_StepType st) jt"
    "gm_get (rg_schemas r) (st_StepType st) \<noteq> None"
proof -
  from assms obtain st0 where v: "ValidateStepForJourneyType T r st0 jt = Inr st"
    and t: "check_targets steps i (outcomes_of (st_Config st)) = Inr ()"
    by (auto simp: prepare_step_def res_iff split: option.splits sum.splits)
  from t show "targets_exist steps (st_Config st)" by (simp add: check_targets_iff targets_exist_def)
  from v show "StepSupportsJourneyType r (st_StepType st) jt"
    by (auto simp: ValidateStepForJourneyType_def StepSupportsJourneyType_def res_iff split: if_splits)
  from v obtain "ValidateStep T r st0 = Inr st"
    by (auto simp: ValidateStepForJourneyType_def res_iff split: if_splits)
  then show "gm_get (rg_schemas r) (st_StepType st) \<noteq> None"
    by (auto simp: ValidateStep_def Let_def res_iff split: option.splits if_splits)
qed

lemma prepare_steps_ok:
  "prepare_steps T r jt steps rest = Inr rest' \<Longrightarrow>
     map fst rest' = map fst rest \<and>
     (\<forall>(i, s) \<in> set rest'. \<exists>st. s = Some st \<and> targets_exist steps (st_Config st) \<and>
        StepSupportsJourneyType r (st_StepType st) jt \<and> gm_get (rg_schemas r) (st_StepType st) \<noteq> None)"
proof (induction rest arbitrary: rest')
  case (Cons p rest)
  obtain i s where p: "p = (i, s)" by force
  from Cons.prems obtain st tail where st: "prepare_step T r jt steps i s = Inr st"
    and tail: "prepare_steps T r jt steps rest = Inr tail" and r': "rest' = (i, Some st) # tail"
    unfolding p by (auto simp: res_iff)
  from Cons.IH [OF tail] prepare_step_ok [OF st] show ?case unfolding p r' by auto
qed simp

lemma prepared_step_at:
  assumes "prepare_steps T r jt steps steps = Inr steps'" "step_at steps i \<noteq> None"
  shows "step_at steps' i \<noteq> None"
proof -
  from assms(2) have "i \<in> fst ` set steps"
    by (auto simp: step_at_def or_default_def split: option.splits dest!: map_of_SomeD intro: rev_image_eqI)
  then have "i \<in> fst ` set steps'"
    using prepare_steps_ok [OF assms(1)] by (metis list.set_map)
  then obtain s where s: "gm_get steps' i = Some s" by (metis map_of_eq_None_iff not_None_eq)
  with prepare_steps_ok [OF assms(1)] show ?thesis by (auto simp: step_at_def dest!: map_of_SomeD)
qed

text \<open>C24: A journey that passes preparation has a start step, one of the three journey types, only non-nil
  steps whose type is registered and supports that journey type, and every non-empty outcome target
  names a step of the journey.\<close>

theorem prepared_journey_closed:
  assumes "PrepareJourneyConfiguration T (Some r) (Some j) = Inr j'"
  shows "step_at (jc_Steps j') (jc_StartStepID j') \<noteq> None \<and>
    jc_JourneyType j' \<in> {AuthJourney, ResourceJourney, WorkflowJourney} \<and>
    (\<forall>(i, s) \<in> set (jc_Steps j'). \<exists>st. s = Some st \<and>
       gm_get (rg_schemas r) (st_StepType st) \<noteq> None \<and>
       StepSupportsJourneyType r (st_StepType st) (jc_JourneyType j') \<and>
       targets_exist (jc_Steps j') (st_Config st))"
proof -
  from assms obtain steps where start: "step_at (jc_Steps j) (jc_StartStepID j) \<noteq> None"
    and p: "prepare_steps T r (NormalizeJourneyType (jc_JourneyType j)) (jc_Steps j) (jc_Steps j) = Inr steps"
    and j': "j' = j\<lparr>jc_JourneyType := NormalizeJourneyType (jc_JourneyType j), jc_Steps := steps\<rparr>"
    by (auto simp: PrepareJourneyConfiguration_def Let_def res_iff split: if_splits)
  have t: "targets_exist steps c" if "targets_exist (jc_Steps j) c" for c
    using that prepared_step_at [OF p] by (auto simp: targets_exist_def)
  show ?thesis
    using prepared_step_at [OF p start] NormalizeJourneyType_range [of "jc_JourneyType j"] prepare_steps_ok [OF p] t
    unfolding j' by fastforce
qed

definition tiny_registry :: "gval Steps" where
  "tiny_registry = \<lparr>rg_steps = [(''End'', \<lparr>is_type = TStruct [], is_EndJourney = True, is_Completion = None,
       is_VerifyConfig = (\<lambda>n c. Inr ()), is_Execute = (\<lambda>c tx. (tx, Inr ''''))\<rparr>)],
     rg_schemas = [(''End'', GObj [(''x-flow-type'', GArr [GStr ''workflow''])])],
     rg_valid = (\<lambda>s d. True)\<rparr>"

definition tiny_journey :: JourneyConfiguration where
  "tiny_journey = \<lparr>jc_Metadata = Some \<lparr>md_ID = ''j1'', md_Rev = ''1''\<rparr>, jc_Name = ''tiny'', jc_Description = '''',
     jc_EncryptedClientInputs = False, jc_Confidential = False, jc_Active = True, jc_Debug = False,
     jc_JourneyType = '' Workflow-Journey'', jc_DefaultExp = 5, jc_Realm = '''', jc_StartStepID = ''s'',
     jc_SubEntries = [], jc_Steps = [(''s'', Some \<lparr>st_Name = '''', st_StepType = ''End'',
        st_Config = GObj [(''outcome'', GObj [(''next'', GStr ''s'')])]\<rparr>)], jc_AdditionalProps = []\<rparr>"

definition tiny_prepared :: JourneyConfiguration where
  "tiny_prepared = tiny_journey\<lparr>jc_JourneyType := ''workflow'', jc_Steps := [(''s'', Some \<lparr>st_Name = ''End'',
     st_StepType = ''End'', st_Config = GObj [(''outcome'', GObj [(''next'', GStr ''s'')])]\<rparr>)]\<rparr>"

theorem prepared_journey_closed_witness:
  "PrepareJourneyConfiguration ref_tree (Some tiny_registry) (Some tiny_journey) = Inr tiny_prepared \<and>
   targets_exist (jc_Steps tiny_prepared) (GObj [(''outcome'', GObj [(''next'', GStr ''s'')])])"
proof -
  have p: "PrepareJourneyConfiguration ref_tree (Some tiny_registry) (Some tiny_journey) = Inr tiny_prepared"
    by code_simp
  from prepared_journey_closed [OF p] have "\<forall>(i, s) \<in> set (jc_Steps tiny_prepared). \<exists>st. s = Some st \<and>
       targets_exist (jc_Steps tiny_prepared) (st_Config st)"
    by blast
  then have "targets_exist (jc_Steps tiny_prepared) (GObj [(''outcome'', GObj [(''next'', GStr ''s'')])])"
    by (simp add: tiny_prepared_def)
  with p show ?thesis by blast
qed

end
