(* ===== verification/Runtime.thy ===== *)
theory Runtime
  imports JourneyConfig
begin

text \<open>
  \<^verbatim>\<open>runtime_journey.go\<close> and \<^verbatim>\<open>config_placeholders.go\<close>: execution-only copies of journeys, with the
  \<^verbatim>\<open>env\<close> placeholders substituted once and cached per revision, and the placeholders of runtime
  instance configurations. \<open>digest\<close> stands for the SHA-256 digest of a journey's JSON text. A lookup holds the
  lock of the compiled journeys twice, for the search and for the commit, and compiles in between:
  \<open>cached_journey\<close> and \<open>commit_journey\<close> are those two sections, \<open>runtimeJourney\<close> their composition in one call, and
  the relation \<open>rt_step\<close> what other calls do meanwhile. A call waiting for another's pending
  resolution of an environment value gets its result.
\<close>

subsection \<open>The placeholder pattern\<close>

definition name_start :: "char \<Rightarrow> bool" where
  "name_start c \<longleftrightarrow> (let n = of_char c in ((65::nat) \<le> n \<and> n \<le> 90) \<or> (97 \<le> n \<and> n \<le> 122) \<or> n = 95)"

definition name_char :: "char \<Rightarrow> bool" where
  "name_char c \<longleftrightarrow> name_start c \<or> (let n = of_char c in ((48::nat) \<le> n \<and> n \<le> 57) \<or> n = 45)"

definition path_char :: "char \<Rightarrow> bool" where
  "path_char c \<longleftrightarrow> c \<noteq> CHR ''{'' \<and> c \<noteq> CHR ''}''"

text \<open>A match of the pattern at the start of a string: its prefix and its path.\<close>

definition match_here :: "string \<Rightarrow> (string \<times> string) option" where
  "match_here s =
     (case s of
        d # b # r \<Rightarrow>
          if d = CHR ''$'' \<and> b = CHR ''{'' then
            let prefix = takeWhile name_char r; r1 = dropWhile name_char r in
            if prefix = [] \<or> \<not> name_start (hd prefix) then None
            else (case r1 of
                    [] \<Rightarrow> None
                  | dot # r2 \<Rightarrow>
                      if dot \<noteq> CHR ''.'' then None
                      else let path = takeWhile path_char r2; r3 = dropWhile path_char r2 in
                           (case r3 of [] \<Rightarrow> None
                            | e # _ \<Rightarrow> if path = [] \<or> e \<noteq> CHR ''}'' then None else Some (prefix, path)))
          else None
      | _ \<Rightarrow> None)"

definition match_length :: "string \<times> string \<Rightarrow> nat" where
  "match_length m = 2 + length (fst m) + 1 + length (snd m) + 1"

function find_all :: "string \<Rightarrow> nat \<Rightarrow> (nat \<times> string \<times> string) list" where
  "find_all s i =
     (if length s \<le> i then []
      else (case match_here (drop i s) of
              None \<Rightarrow> find_all s (Suc i)
            | Some m \<Rightarrow> (i, m) # find_all s (i + match_length m)))"
  by pat_completeness auto
termination by (relation "measure (\<lambda>(s, i). length s - i)") (auto simp: match_length_def)

declare find_all.simps [simp del]

subsection \<open>Runtime instance configurations\<close>

definition resolveConfigPlaceholder :: "resolver gomap \<Rightarrow> string \<Rightarrow> string \<Rightarrow> gval res" where
  "resolveConfigPlaceholder resolvers prefix path =
     (if IsCtx prefix \<or> prefix = ''encCtx'' \<or> prefix = ''closedCtx'' \<or> prefix = ''tempCtx''
      then Inl (ErrText (''context placeholder '' @ prefix @ '' cannot be used in runtime instance configuration''))
      else (case gm_get resolvers prefix of
              None \<Rightarrow> Inl (ErrText (''placeholder resolver '' @ prefix @ '' is not configured''))
            | Some r \<Rightarrow> r path))"

fun config_text :: "text_conv \<Rightarrow> resolver gomap \<Rightarrow> string \<Rightarrow> nat \<Rightarrow> (nat \<times> string \<times> string) list \<Rightarrow> string res" where
  "config_text P resolvers s offset [] = Inr (drop offset s)"
| "config_text P resolvers s offset ((start, m) # ms) =
     bind_res (resolveConfigPlaceholder resolvers (fst m) (snd m)) (\<lambda>v.
     bind_res (config_text P resolvers s (start + match_length m) ms) (\<lambda>rest.
       Inr (slice s offset start @ tc_sprint P v @ rest)))"

definition resolveConfigStringPlaceholders :: "text_conv \<Rightarrow> resolver gomap \<Rightarrow> string \<Rightarrow> gval res" where
  "resolveConfigStringPlaceholders P resolvers s =
     (case find_all s 0 of
        [] \<Rightarrow> Inr (GStr s)
      | [(start, m)] \<Rightarrow>
          if start = 0 \<and> match_length m = length s then resolveConfigPlaceholder resolvers (fst m) (snd m)
          else bind_res (config_text P resolvers s 0 [(start, m)]) (\<lambda>t. Inr (GStr t))
      | ms \<Rightarrow> bind_res (config_text P resolvers s 0 ms) (\<lambda>t. Inr (GStr t)))"

fun resolveConfigPlaceholders :: "text_conv \<Rightarrow> resolver gomap \<Rightarrow> gval \<Rightarrow> gval res"
  and resolve_config_map :: "text_conv \<Rightarrow> resolver gomap \<Rightarrow> DefaultMap \<Rightarrow> DefaultMap res"
  and resolve_config_arr :: "text_conv \<Rightarrow> resolver gomap \<Rightarrow> gval list \<Rightarrow> gval list res" where
  "resolveConfigPlaceholders P R (GObj m) = bind_res (resolve_config_map P R m) (\<lambda>m'. Inr (GObj m'))"
| "resolveConfigPlaceholders P R (GArr vs) = bind_res (resolve_config_arr P R vs) (\<lambda>vs'. Inr (GArr vs'))"
| "resolveConfigPlaceholders P R (GStr s) = resolveConfigStringPlaceholders P R s"
| "resolveConfigPlaceholders P R v = Inr v"
| "resolve_config_map P R [] = Inr []"
| "resolve_config_map P R ((k, v) # m) =
     bind_res (resolveConfigPlaceholders P R v) (\<lambda>v'. bind_res (resolve_config_map P R m) (\<lambda>m'. Inr ((k, v') # m')))"
| "resolve_config_arr P R [] = Inr []"
| "resolve_config_arr P R (v # vs) =
     bind_res (resolveConfigPlaceholders P R v) (\<lambda>v'. bind_res (resolve_config_arr P R vs) (\<lambda>vs'. Inr (v' # vs')))"

fun has_marker :: "gval \<Rightarrow> bool" where
  "has_marker (GStr s) = Contains s ''${''"
| "has_marker (GArr vs) = list_ex has_marker vs"
| "has_marker (GObj m) = list_ex (\<lambda>p. Contains (fst p) ''${'' \<or> has_marker (snd p)) m"
| "has_marker v = False"

definition NewCacheConfigPlaceholderResolver :: "text_conv \<Rightarrow> resolver option gomap
    \<Rightarrow> string \<Rightarrow> string \<Rightarrow> gval \<Rightarrow> gval res" where
  "NewCacheConfigPlaceholderResolver P source cacheKey instanceID config =
     (let cloned = clonePlaceholderResolvers source in
      if length cloned = 0 \<or> \<not> has_marker config then Inr config
      else (case resolveConfigPlaceholders P cloned config of
              Inl e \<Rightarrow> Inl (ErrWrap (cacheKey @ ''/'' @ instanceID) e)
            | Inr v \<Rightarrow> if json_ok v then Inr v else Inl (ErrText ''json: unsupported value'')))"

subsection \<open>Static environment\<close>

text \<open>The cache of successful resolutions, each as the JSON value it serialises to.\<close>

type_synonym static_env = "gval gomap"

definition env_resolve :: "resolver option \<Rightarrow> string \<Rightarrow> static_env \<Rightarrow> static_env \<times> gval res" where
  "env_resolve r path cache =
     (case gm_get cache path of
        Some raw \<Rightarrow> (cache, Inr raw)
      | None \<Rightarrow>
          (case r of
             None \<Rightarrow> (cache, Inl (ErrText ''placeholder resolver env is not registered''))
           | Some f \<Rightarrow>
               (case f path of
                  Inl e \<Rightarrow> (cache, Inl e)
                | Inr v \<Rightarrow>
                    if json_ok v then (gm_put path (json_any v) cache, Inr (json_any v))
                    else (cache, Inl (ErrWrap (''env.'' @ path @ '' returned a non-JSON value'')
                                        (ErrText ''json: unsupported value''))))))"

definition resolveStaticEnvironmentPath :: "resolver gomap \<Rightarrow> string \<Rightarrow> static_env \<Rightarrow> static_env \<times> gval res" where
  "resolveStaticEnvironmentPath resolvers path cache = env_resolve (gm_get resolvers ''env'') path cache"

fun static_text :: "text_conv \<Rightarrow> resolver gomap \<Rightarrow> string \<Rightarrow> nat \<Rightarrow> (nat \<times> string \<times> string) list \<Rightarrow> static_env
    \<Rightarrow> static_env \<times> string res" where
  "static_text P R s offset [] cache = (cache, Inr (drop offset s))"
| "static_text P R s offset ((start, m) # ms) cache =
     (case (if fst m \<noteq> ''env'' then (cache, Inr (slice s start (start + match_length m)))
            else (case resolveStaticEnvironmentPath R (snd m) cache of
                    (cache', Inl e) \<Rightarrow> (cache', Inl e)
                  | (cache', Inr v) \<Rightarrow> (cache', Inr (sprint_resolved P v)))) of
        (cache', Inl e) \<Rightarrow> (cache', Inl e)
      | (cache', Inr t) \<Rightarrow>
          (case static_text P R s (start + match_length m) ms cache' of
             (cache'', Inl e) \<Rightarrow> (cache'', Inl e)
           | (cache'', Inr rest) \<Rightarrow> (cache'', Inr (slice s offset start @ t @ rest))))"

definition resolveStaticEnvironmentString :: "text_conv \<Rightarrow> resolver gomap \<Rightarrow> string \<Rightarrow> static_env \<Rightarrow> static_env \<times> gval res" where
  "resolveStaticEnvironmentString P R s cache =
     (let as_value = (\<lambda>ms. case static_text P R s 0 ms cache of
                             (c, Inl e) \<Rightarrow> (c, Inl e) | (c, Inr t) \<Rightarrow> (c, Inr (GStr t))) in
      case find_all s 0 of
        [] \<Rightarrow> (cache, Inr (GStr s))
      | [(start, m)] \<Rightarrow>
          if start = 0 \<and> match_length m = length s \<and> fst m = ''env''
          then resolveStaticEnvironmentPath R (snd m) cache else as_value [(start, m)]
      | ms \<Rightarrow> as_value ms)"

fun resolveStaticEnvironmentPlaceholders :: "text_conv \<Rightarrow> resolver gomap \<Rightarrow> gval \<Rightarrow> static_env \<Rightarrow> static_env \<times> gval res"
  and static_map :: "text_conv \<Rightarrow> resolver gomap \<Rightarrow> DefaultMap \<Rightarrow> static_env \<Rightarrow> static_env \<times> DefaultMap res"
  and static_arr :: "text_conv \<Rightarrow> resolver gomap \<Rightarrow> gval list \<Rightarrow> static_env \<Rightarrow> static_env \<times> gval list res" where
  "resolveStaticEnvironmentPlaceholders P R (GObj m) cache =
     (case static_map P R m cache of (c, r) \<Rightarrow> (c, bind_res r (\<lambda>m'. Inr (GObj m'))))"
| "resolveStaticEnvironmentPlaceholders P R (GArr vs) cache =
     (case static_arr P R vs cache of (c, r) \<Rightarrow> (c, bind_res r (\<lambda>vs'. Inr (GArr vs'))))"
| "resolveStaticEnvironmentPlaceholders P R (GStr s) cache = resolveStaticEnvironmentString P R s cache"
| "resolveStaticEnvironmentPlaceholders P R v cache = (cache, Inr v)"
| "static_map P R [] cache = (cache, Inr [])"
| "static_map P R ((k, v) # m) cache =
     (case resolveStaticEnvironmentPlaceholders P R v cache of
        (c, Inl e) \<Rightarrow> (c, Inl e)
      | (c, Inr v') \<Rightarrow> (case static_map P R m c of (c', r) \<Rightarrow> (c', bind_res r (\<lambda>m'. Inr ((k, v') # m')))))"
| "static_arr P R [] cache = (cache, Inr [])"
| "static_arr P R (v # vs) cache =
     (case resolveStaticEnvironmentPlaceholders P R v cache of
        (c, Inl e) \<Rightarrow> (c, Inl e)
      | (c, Inr v') \<Rightarrow> (case static_arr P R vs c of (c', r) \<Rightarrow> (c', bind_res r (\<lambda>vs'. Inr (v' # vs')))))"

subsection \<open>Compilation and its cache\<close>

definition json_journey :: "JourneyConfiguration \<Rightarrow> JourneyConfiguration res" where
  "json_journey j =
     (if list_all (\<lambda>(i, s). case s of None \<Rightarrow> True | Some st \<Rightarrow> json_ok (st_Config st)) (jc_Steps j) \<and>
         json_ok (GObj (jc_AdditionalProps j))
      then Inr (j\<lparr>jc_Steps := map (\<lambda>(i, s). (i, map_option (\<lambda>st. st\<lparr>st_Config := json_any (st_Config st)\<rparr>) s)) (jc_Steps j),
                  jc_AdditionalProps := json_map (jc_AdditionalProps j)\<rparr>)
      else Inl (ErrText ''json: unsupported value''))"

record 't runtime_env =
  re_tree :: "'t treemap"
  re_text :: text_conv
  re_steps :: "'t Steps"
  re_resolvers :: "resolver gomap"
  re_digest :: "JourneyConfiguration \<Rightarrow> string"

fun compile_steps :: "'t runtime_env \<Rightarrow> Step option gomap \<Rightarrow> static_env \<Rightarrow> static_env \<times> Step option gomap res" where
  "compile_steps R [] cache = (cache, Inr [])"
| "compile_steps R ((i, None) # steps) cache =
     (case compile_steps R steps cache of (c, r) \<Rightarrow> (c, bind_res r (\<lambda>ss. Inr ((i, None) # ss))))"
| "compile_steps R ((i, Some st) # steps) cache =
     (case resolveStaticEnvironmentPlaceholders (re_text R) (re_resolvers R) (st_Config st) cache of
        (c, Inl e) \<Rightarrow> (c, Inl (ErrWrap (''step '' @ i @ '' static placeholders'') e))
      | (c, Inr cfg) \<Rightarrow>
          (case GenerateConfig (re_tree R) (Some (re_steps R)) (st_StepType st) cfg of
             Inl e \<Rightarrow> (c, Inl (ErrWrap (''step '' @ i @ '' runtime placeholders'') e))
           | Inr cfg' \<Rightarrow>
               (case compile_steps R steps c of
                  (c', r) \<Rightarrow> (c', bind_res r (\<lambda>ss. Inr ((i, Some (st\<lparr>st_Config := cfg'\<rparr>)) # ss))))))"

definition compileRuntimeJourney :: "'t runtime_env \<Rightarrow> JourneyConfiguration \<Rightarrow> static_env
    \<Rightarrow> static_env \<times> JourneyConfiguration res" where
  "compileRuntimeJourney R raw cache =
     (case json_journey raw of
        Inl e \<Rightarrow> (cache, Inl e)
      | Inr j \<Rightarrow> (case compile_steps R (jc_Steps j) cache of (c, r) \<Rightarrow> (c, bind_res r (\<lambda>ss. Inr (j\<lparr>jc_Steps := ss\<rparr>)))))"

definition runtimeJourneyVersion :: "'t runtime_env \<Rightarrow> JourneyConfiguration \<Rightarrow> string res" where
  "runtimeJourneyVersion R j =
     (case jc_Metadata j of
        Some m \<Rightarrow> if md_Rev m \<noteq> '''' then Inr (md_Rev m)
                  else bind_res (json_journey j) (\<lambda>_. Inr (re_digest R j))
      | None \<Rightarrow> bind_res (json_journey j) (\<lambda>_. Inr (re_digest R j)))"

record runtime_state =
  rt_entries :: "(string \<times> JourneyConfiguration) gomap"
  rt_env :: static_env

definition cached_journey :: "string \<Rightarrow> string \<Rightarrow> runtime_state \<Rightarrow> JourneyConfiguration option" where
  "cached_journey key version s =
     (case gm_get (rt_entries s) key of Some (v, j) \<Rightarrow> if v = version then Some j else None | None \<Rightarrow> None)"

text \<open>A revision that another call has committed in the meantime is kept, and is the result.\<close>

definition commit_journey :: "string \<Rightarrow> string \<Rightarrow> JourneyConfiguration \<Rightarrow> runtime_state \<Rightarrow> runtime_state \<times> JourneyConfiguration" where
  "commit_journey key version compiled s =
     (case cached_journey key version s of
        Some current \<Rightarrow> (s, current)
      | None \<Rightarrow> (s\<lparr>rt_entries := gm_put key (version, compiled) (rt_entries s)\<rparr>, compiled))"

definition compile_into :: "'t runtime_env \<Rightarrow> JourneyConfiguration \<Rightarrow> string \<Rightarrow> string \<Rightarrow> runtime_state
    \<Rightarrow> runtime_state \<times> JourneyConfiguration res" where
  "compile_into R j key version s =
     (case compileRuntimeJourney R j (rt_env s) of
        (c, Inl e) \<Rightarrow> (s\<lparr>rt_env := c\<rparr>, Inl e)
      | (c, Inr compiled) \<Rightarrow> (case commit_journey key version compiled (s\<lparr>rt_env := c\<rparr>) of (s', current) \<Rightarrow> (s', Inr current)))"

text \<open>The revision of a journey and the key it is cached under. Reading the identifier of a journey without
  metadata dereferences a nil pointer.\<close>

definition runtime_key :: "'t runtime_env \<Rightarrow> JourneyConfiguration \<Rightarrow> (string \<times> string) res" where
  "runtime_key R j =
     (case runtimeJourneyVersion R j of
        Inl e \<Rightarrow> Inl e
      | Inr version \<Rightarrow>
          (case jc_Metadata j of
             None \<Rightarrow> Inl (GoPanic ''nil pointer dereference'')
           | Some m \<Rightarrow> Inr (if md_ID m = '''' then version else md_ID m, version)))"

definition runtimeJourney :: "'t runtime_env \<Rightarrow> JourneyConfiguration option \<Rightarrow> runtime_state
    \<Rightarrow> runtime_state \<times> JourneyConfiguration res" where
  "runtimeJourney R raw s =
     (case raw of
        None \<Rightarrow> (s, Inl (ErrText ''journey is nil''))
      | Some j \<Rightarrow>
          (case runtime_key R j of
             Inl e \<Rightarrow> (s, Inl e)
           | Inr (key, version) \<Rightarrow>
               (case cached_journey key version s of
                  Some compiled \<Rightarrow> (s, Inr compiled)
                | None \<Rightarrow> compile_into R j key version s)))"

subsection \<open>Static values stay\<close>

definition env_extends :: "static_env \<Rightarrow> static_env \<Rightarrow> bool" where
  "env_extends c c' \<longleftrightarrow> (\<forall>p v. gm_get c p = Some v \<longrightarrow> gm_get c' p = Some v)"

lemma env_extends_refl [simp]: "env_extends c c"
  by (simp add: env_extends_def)

lemma env_extends_trans: "env_extends c c' \<Longrightarrow> env_extends c' c'' \<Longrightarrow> env_extends c c''"
  by (simp add: env_extends_def)

lemma env_resolve_extends: "env_extends c (fst (env_resolve r path c))"
  by (auto simp: env_resolve_def env_extends_def split: option.splits sum.splits)

lemma static_path_extends: "resolveStaticEnvironmentPath R p c = (c', x) \<Longrightarrow> env_extends c c'"
  using env_resolve_extends [of c "gm_get R ''env''" p] by (simp add: resolveStaticEnvironmentPath_def)

lemma static_text_extends: "static_text P R s offset ms c = (c', x) \<Longrightarrow> env_extends c c'"
proof (induction ms arbitrary: offset c c' x)
  case (Cons p ms)
  obtain start m where p: "p = (start, m)" by (cases p)
  show ?case
  proof (cases "fst m \<noteq> ''env''")
    case True
    with Cons.prems obtain y where "static_text P R s (start + match_length m) ms c = (c', y)"
      unfolding p by (auto split: prod.splits sum.splits)
    then show ?thesis by (rule Cons.IH)
  next
    case False
    obtain c1 y where r: "resolveStaticEnvironmentPath R (snd m) c = (c1, y)" by force
    note e1 = static_path_extends [OF r]
    show ?thesis
    proof (cases y)
      case (Inl e)
      with Cons.prems False r e1 show ?thesis unfolding p by simp
    next
      case (Inr v)
      with Cons.prems False r obtain z where "static_text P R s (start + match_length m) ms c1 = (c', z)"
        unfolding p by (auto split: prod.splits sum.splits)
      from env_extends_trans [OF e1 Cons.IH [OF this]] show ?thesis .
    qed
  qed
qed simp

lemma static_string_extends: "resolveStaticEnvironmentString P R s c = (c', x) \<Longrightarrow> env_extends c c'"
  by (auto simp: resolveStaticEnvironmentString_def Let_def dest: static_path_extends static_text_extends
      simp del: static_text.simps split: list.splits prod.splits sum.splits if_splits)

lemma static_placeholders_extend:
  "resolveStaticEnvironmentPlaceholders P R v c = (c', x) \<Longrightarrow> env_extends c c'"
  "static_map P R m c = (c', y) \<Longrightarrow> env_extends c c'"
  "static_arr P R vs c = (c', z) \<Longrightarrow> env_extends c c'"
proof (induction P R v c and P R m c and P R vs c arbitrary: c' x and c' y and c' z
    rule: resolveStaticEnvironmentPlaceholders_static_map_static_arr.induct)
  case (3 P R s c)
  then show ?case by (simp add: static_string_extends)
qed (fastforce split: prod.splits sum.splits intro: env_extends_trans)+

lemma compile_steps_extends: "compile_steps R steps c = (c', x) \<Longrightarrow> env_extends c c'"
proof (induction R steps c arbitrary: c' x rule: compile_steps.induct)
  case (3 R i st steps c)
  obtain c1 y where r: "resolveStaticEnvironmentPlaceholders (re_text R) (re_resolvers R) (st_Config st) c = (c1, y)"
    by force
  note e1 = static_placeholders_extend(1) [OF r]
  show ?case
  proof (cases "\<exists>cfg cfg'. y = Inr cfg \<and> GenerateConfig (re_tree R) (Some (re_steps R)) (st_StepType st) cfg = Inr cfg'")
    case False
    with 3(2) r have "c' = c1" by (auto split: sum.splits)
    with e1 show ?thesis by simp
  next
    case True
    then obtain cfg cfg' where y: "y = Inr cfg"
      and g: "GenerateConfig (re_tree R) (Some (re_steps R)) (st_StepType st) cfg = Inr cfg'" by blast
    obtain z where "compile_steps R steps c1 = (c', z)"
      using 3(2) r y g by (auto simp del: GenerateConfig.simps split: prod.splits)
    from 3(1) [OF r [symmetric] y g this] e1 show ?thesis by (rule env_extends_trans [rotated])
  qed
qed (auto split: prod.splits)

lemma compile_extends: "compileRuntimeJourney R raw c = (c', x) \<Longrightarrow> env_extends c c'"
  by (auto simp: compileRuntimeJourney_def dest: compile_steps_extends split: sum.splits prod.splits)

text \<open>What other calls do to the compiled journeys while no other revision of the journey under \<open>key\<close> is
  committed: they commit whatever they have compiled, at any time before or since, and resolve
  environment values.\<close>

inductive rt_step :: "string \<Rightarrow> string \<Rightarrow> runtime_state \<Rightarrow> runtime_state \<Rightarrow> bool" for key version where
  commit: "key' \<noteq> key \<or> version' = version \<Longrightarrow> rt_step key version s (fst (commit_journey key' version' compiled s))"
| resolve: "env_extends (rt_env s) c \<Longrightarrow> rt_step key version s (s\<lparr>rt_env := c\<rparr>)"

text \<open>A whole lookup of any journey, but for another revision under the key, is such steps.\<close>

lemma lookup_steps:
  assumes "runtimeJourney R (Some j) s = (s', r)" "\<And>v. runtime_key R j = Inr (key, v) \<Longrightarrow> v = version"
  shows "(rt_step key version)\<^sup>*\<^sup>* s s'"
proof (cases "\<exists>k v. runtime_key R j = Inr (k, v) \<and> cached_journey k v s = None")
  case True
  then obtain k v where k: "runtime_key R j = Inr (k, v)" "cached_journey k v s = None" by blast
  obtain c x where c: "compileRuntimeJourney R j (rt_env s) = (c, x)" by force
  have e: "rt_step key version s (s\<lparr>rt_env := c\<rparr>)" by (rule rt_step.resolve [OF compile_extends [OF c]])
  show ?thesis
  proof (cases x)
    case (Inl err)
    with assms(1) k c e show ?thesis by (auto simp: runtimeJourney_def compile_into_def)
  next
    case (Inr compiled)
    with assms(1) k c have "s' = fst (commit_journey k v compiled (s\<lparr>rt_env := c\<rparr>))"
      by (auto simp: runtimeJourney_def compile_into_def split: prod.splits)
    moreover have "k \<noteq> key \<or> v = version" using assms(2) k(1) by auto
    ultimately have "rt_step key version (s\<lparr>rt_env := c\<rparr>) s'" using rt_step.commit by simp
    with e show ?thesis by (meson converse_rtranclp_into_rtranclp r_into_rtranclp)
  qed
next
  case False
  with assms(1) have "s' = s"
    by (auto simp: runtimeJourney_def split: sum.splits prod.splits option.splits)
  then show ?thesis by simp
qed

lemma cached_entry: "cached_journey key version s = Some j \<Longrightarrow> gm_get (rt_entries s) key = Some (version, j)"
  by (auto simp: cached_journey_def split: option.splits if_splits)

lemma commit_cached: "cached_journey key version s = Some j \<Longrightarrow> commit_journey key version compiled s = (s, j)"
  by (simp add: commit_journey_def)

lemma commit_keeps:
  assumes "cached_journey key version s = Some j" "key' \<noteq> key \<or> version' = version"
  shows "cached_journey key version (fst (commit_journey key' version' compiled s)) = Some j"
proof (cases "cached_journey key' version' s")
  case None
  with assms have "key' \<noteq> key" by auto
  with None assms(1) show ?thesis by (simp add: commit_journey_def cached_journey_def)
qed (use assms in \<open>simp add: commit_journey_def\<close>)

lemma steps_keep_cached:
  "(rt_step key version)\<^sup>*\<^sup>* s s' \<Longrightarrow> cached_journey key version s = Some j \<Longrightarrow>
     cached_journey key version s' = Some j \<and> env_extends (rt_env s) (rt_env s')"
proof (induction rule: rtranclp_induct)
  case (step s1 s2)
  from step.hyps(2) show ?case
  proof cases
    case (commit key' version' compiled)
    have "rt_env (fst (commit_journey key' version' compiled s1)) = rt_env s1"
      by (simp add: commit_journey_def split: option.split)
    with commit commit_keeps [OF _ commit(2)] step.IH step.prems show ?thesis by auto
  next
    case (resolve c)
    with step.IH step.prems env_extends_trans show ?thesis by (auto simp: cached_journey_def)
  qed
qed simp

lemma runtime_key_digest: "re_digest R' = re_digest R \<Longrightarrow> runtime_key R' j = runtime_key R j"
  by (simp add: runtime_key_def runtimeJourneyVersion_def split: option.split)

lemma found_journey_cached:
  assumes "runtimeJourney R (Some j) s = (s', Inr compiled)" "runtime_key R j = Inr (key, version)"
  shows "cached_journey key version s' = Some compiled \<and> env_extends (rt_env s) (rt_env s')"
proof (cases "cached_journey key version s")
  case (Some j')
  with assms show ?thesis by (simp add: runtimeJourney_def)
next
  case None
  with assms have "compile_into R j key version s = (s', Inr compiled)" by (simp add: runtimeJourney_def)
  then obtain c j' where c: "compileRuntimeJourney R j (rt_env s) = (c, Inr j')"
    and "commit_journey key version j' (s\<lparr>rt_env := c\<rparr>) = (s', compiled)"
    by (auto simp: compile_into_def split: prod.splits sum.splits)
  with None compile_extends [OF c] show ?thesis
    by (auto simp: commit_journey_def cached_journey_def split: option.splits prod.splits if_splits)
qed


definition env_journey :: JourneyConfiguration where
  "env_journey = tiny_journey\<lparr>jc_Steps := [(''s'', Some \<lparr>st_Name = ''n'', st_StepType = ''End'',
     st_Config = GObj [(''url'', GStr ''http://${env.host}/x'')]\<rparr>)]\<rparr>"

definition sample_runtime :: "(string \<Rightarrow> gval res) \<Rightarrow> gval runtime_env" where
  "sample_runtime f = \<lparr>re_tree = ref_tree, re_text = plain_text, re_steps = tiny_registry,
     re_resolvers = [(''env'', f)], re_digest = (\<lambda>j. '''')\<rparr>"

definition compiled_env_journey :: JourneyConfiguration where
  "compiled_env_journey = env_journey\<lparr>jc_Steps := [(''s'', Some \<lparr>st_Name = ''n'', st_StepType = ''End'',
     st_Config = GObj [(''url'', GStr ''http://h/x'')]\<rparr>)]\<rparr>"

definition other_env_journey :: JourneyConfiguration where
  "other_env_journey = env_journey\<lparr>jc_Metadata := Some \<lparr>md_ID = ''j9'', md_Rev = ''1''\<rparr>\<rparr>"


end
