(* ===== verification/StateStore.thy ===== *)
theory StateStore
  imports JourneyState
begin

text \<open>
  \<^verbatim>\<open>state.journey.go\<close> (the default single-use store of paused journey states) and
  \<^verbatim>\<open>token.journey.go\<close> (the signed resume token). The TTL cache \<^verbatim>\<open>go-cache\<close> is the record
  \<open>G\<close>, the key storage and JWS library the record \<open>J\<close>; both are third-party parameters.
  Times and durations are nanoseconds.
\<close>

subsection \<open>The TTL cache\<close>

record ('c, 'v) gocache =
  gc_set :: "int \<Rightarrow> string \<Rightarrow> 'v \<Rightarrow> int \<Rightarrow> 'c \<Rightarrow> 'c"
  gc_get :: "int \<Rightarrow> string \<Rightarrow> 'c \<Rightarrow> 'v option"
  gc_delete :: "string \<Rightarrow> 'c \<Rightarrow> 'c"

text \<open>
  The documented behaviour of the cache the store relies on: a set value is returned until
  its duration has passed and no longer after that, duration 0 means the cache's default,
  keys are independent, a deleted key is absent.
\<close>

locale ttl_cache =
  fixes G :: "('c, 't JourneyState) gocache" and default_ttl :: int
  assumes get_set_other: "k' \<noteq> k \<Longrightarrow> gc_get G n k' (gc_set G n0 k v d c) = gc_get G n k' c"
    and get_set_live: "0 < d \<Longrightarrow> n0 \<le> n \<Longrightarrow> n \<le> n0 + d \<Longrightarrow> gc_get G n k (gc_set G n0 k v d c) = Some v"
    and get_set_expired: "0 < d \<Longrightarrow> n0 + d < n \<Longrightarrow> gc_get G n k (gc_set G n0 k v d c) = None"
    and set_default: "gc_set G n0 k v 0 c = gc_set G n0 k v default_ttl c"
    and get_delete: "gc_get G n k' (gc_delete G k c) = (if k' = k then None else gc_get G n k' c)"

subsection \<open>The store\<close>

definition Store :: "('c, 't JourneyState) gocache \<Rightarrow> int \<Rightarrow> 't JourneyState option \<Rightarrow> int \<Rightarrow> 'c \<Rightarrow> 'c \<times> bool" where
  "Store G now val exp c =
     (case val of
        None \<Rightarrow> (c, False)
      | Some st \<Rightarrow> if js_Jti st = '''' then (c, False) else (gc_set G now (js_Jti st) st exp c, True))"

definition StoreGet :: "('c, 't JourneyState) gocache \<Rightarrow> int \<Rightarrow> string \<Rightarrow> 'c \<Rightarrow> 't JourneyState option" where
  "StoreGet G now i c = gc_get G now i c"

definition GetAndDelete :: "('c, 't JourneyState) gocache \<Rightarrow> int \<Rightarrow> string \<Rightarrow> 'c \<Rightarrow> 'c \<times> 't JourneyState option" where
  "GetAndDelete G now i c =
     (case gc_get G now i c of
        None \<Rightarrow> (c, None)
      | Some st \<Rightarrow> (gc_delete G i c, Some st))"

definition StoreDelete :: "('c, 't JourneyState) gocache \<Rightarrow> string \<Rightarrow> 'c \<Rightarrow> 'c" where
  "StoreDelete G i c = gc_delete G i c"

text \<open>
  What the executor asks of any \<^verbatim>\<open>JourneyStates\<close>: a stored state is handed out at most
  once, to the identifier it was stored under.
\<close>

locale journey_states =
  fixes store :: "int \<Rightarrow> 't JourneyState option \<Rightarrow> int \<Rightarrow> 'c \<Rightarrow> 'c \<times> bool"
    and take_out :: "int \<Rightarrow> string \<Rightarrow> 'c \<Rightarrow> 'c \<times> 't JourneyState option"
  assumes take_once: "take_out n i c = (c', Some st) \<Longrightarrow> snd (take_out n' i c') = None"
    and take_other: "i' \<noteq> i \<Longrightarrow> snd (take_out n' i' (fst (take_out n i c))) = snd (take_out n' i' c)"
    and take_none: "take_out n i c = (c', None) \<Longrightarrow> c' = c"
    and store_refused: "store n v d c = (c', False) \<Longrightarrow> c' = c"
    and store_take: "store n (Some st) d c = (c', True) \<Longrightarrow> 0 < d \<Longrightarrow> n \<le> n' \<Longrightarrow> n' \<le> n + d \<Longrightarrow>
        snd (take_out n' (js_Jti st) c') = Some st"
    and store_late: "store n (Some st) d c = (c', True) \<Longrightarrow> 0 < d \<Longrightarrow> n + d < n' \<Longrightarrow>
        snd (take_out n' (js_Jti st) c') = None"
    and store_other: "store n (Some st) d c = (c', b) \<Longrightarrow> i \<noteq> js_Jti st \<Longrightarrow>
        snd (take_out n' i c') = snd (take_out n' i c)"
begin

text \<open>Between a take and the next store under the same identifier nothing brings the state back.\<close>

lemma no_replay:
  assumes "take_out n i c = (c', Some st)"
    and "\<And>s. s \<in> set sts \<Longrightarrow> js_Jti s \<noteq> i"
  shows "snd (take_out n' i (fold (\<lambda>s x. fst (store m (Some s) d x)) sts c')) = None"
proof -
  have "snd (take_out n' i (fold (\<lambda>s x. fst (store m (Some s) d x)) ss x)) = snd (take_out n' i x)"
    if "\<And>s. s \<in> set ss \<Longrightarrow> js_Jti s \<noteq> i" for ss x
    using that
  proof (induction ss arbitrary: x)
    case (Cons s ss)
    obtain y b where y: "store m (Some s) d x = (y, b)" by fastforce
    have "i \<noteq> js_Jti s" using Cons.prems [of s] by auto
    then have "snd (take_out n' i y) = snd (take_out n' i x)" by (rule store_other [OF y])
    moreover have "snd (take_out n' i (fold (\<lambda>s x. fst (store m (Some s) d x)) ss y)) = snd (take_out n' i y)"
      using Cons.IH Cons.prems by auto
    ultimately show ?case using y by simp
  qed simp
  then show ?thesis using take_once [OF assms(1)] assms(2) by simp
qed

end

sublocale ttl_cache \<subseteq> journey_states "Store G" "GetAndDelete G"
proof unfold_locales
  show "snd (GetAndDelete G n' i c') = None" if "GetAndDelete G n i c = (c', Some st)" for n i c c' st n'
    using that by (auto simp: GetAndDelete_def get_delete split: option.splits)
next
  show "snd (GetAndDelete G n' i' (fst (GetAndDelete G n i c))) = snd (GetAndDelete G n' i' c)"
    if "i' \<noteq> i" for i' i n' n c
    using that by (auto simp: GetAndDelete_def get_delete split: option.splits)
next
  show "c' = c" if "GetAndDelete G n i c = (c', None)" for n i c c'
    using that by (auto simp: GetAndDelete_def split: option.splits)
next
  show "c' = c" if "Store G n v d c = (c', False)" for n v d c c'
    using that by (auto simp: Store_def split: option.splits if_splits)
next
  show "snd (GetAndDelete G n' (js_Jti st) c') = Some st"
    if "Store G n (Some st) d c = (c', True)" "0 < d" "n \<le> n'" "n' \<le> n + d" for n st d c c' n'
    using that by (auto simp: Store_def GetAndDelete_def get_set_live split: if_splits)
next
  show "snd (GetAndDelete G n' (js_Jti st) c') = None"
    if "Store G n (Some st) d c = (c', True)" "0 < d" "n + d < n'" for n st d c c' n'
    using that by (auto simp: Store_def GetAndDelete_def get_set_expired split: if_splits)
next
  show "snd (GetAndDelete G n' i c') = snd (GetAndDelete G n' i c)"
    if "Store G n (Some st) d c = (c', b)" "i \<noteq> js_Jti st" for n st d c c' b i n'
    using that by (auto simp: Store_def GetAndDelete_def get_set_other split: if_splits option.splits)
qed

text \<open>A cache of absolute deadlines, as \<^verbatim>\<open>go-cache\<close> keeps them, instantiates the contract.\<close>

definition exp_cache :: "int \<Rightarrow> (string \<rightharpoonup> int \<times> 't JourneyState, 't JourneyState) gocache" where
  "exp_cache dflt = \<lparr>
     gc_set = (\<lambda>n k v d c. c(k \<mapsto> (n + (if d = 0 then dflt else d), v))),
     gc_get = (\<lambda>n k c. case c k of None \<Rightarrow> None | Some (e, v) \<Rightarrow> if e < n then None else Some v),
     gc_delete = (\<lambda>k c. c(k := None))\<rparr>"

interpretation exp_store: ttl_cache "exp_cache dflt" dflt for dflt
  by unfold_locales (auto simp: exp_cache_def split: option.splits)

subsection \<open>Tokens\<close>

record token_claims =
  tc_jti :: string
  tc_trackings :: "string list option"
  tc_realm :: string
  tc_ctx :: "DefaultMap option"
  tc_enc :: string

record ('k, 's) jws =
  jw_query :: "'s \<Rightarrow> 'k option"
  jw_new_key :: "'s \<Rightarrow> 's \<times> 'k res"
  jw_sign :: "'k \<Rightarrow> token_claims \<Rightarrow> string res"
  jw_kid :: "string \<Rightarrow> string option"
  jw_load :: "'s \<Rightarrow> string \<Rightarrow> 'k option"
  jw_verify :: "'k \<Rightarrow> string \<Rightarrow> bool"
  jw_payload :: "string \<Rightarrow> token_claims option"

definition getJourneyKey :: "('k, 's) jws \<Rightarrow> 's \<Rightarrow> 'k res" where
  "getJourneyKey J s = (case jw_query J s of None \<Rightarrow> Inl ErrInvalidJourneyToken | Some k \<Rightarrow> Inr k)"

definition claims_state :: "token_claims \<Rightarrow> 't JourneyState" where
  "claims_state c = zero_state\<lparr>js_Jti := tc_jti c, js_TrackingsID := tc_trackings c,
     js_Realm := tc_realm c, js_Ctx := tc_ctx c, js_EncryptedCtx := tc_enc c\<rparr>"

definition validateJourneyToken :: "('k, 's) jws \<Rightarrow> 's \<Rightarrow> string \<Rightarrow> 't JourneyState res" where
  "validateJourneyToken J s token =
     (case jw_kid J token of
        None \<Rightarrow> Inl ErrInvalidJourneyToken
      | Some kid \<Rightarrow>
          (case jw_load J s kid of
             None \<Rightarrow> Inl ErrInvalidJourneyToken
           | Some key \<Rightarrow>
               if \<not> jw_verify J key token then Inl ErrInvalidJourneyToken
               else (case jw_payload J token of
                       None \<Rightarrow> Inl ErrInvalidJourneyToken
                     | Some c \<Rightarrow> Inr (claims_state c))))"

text \<open>The claims of a state: empty realm, context and ciphertext are left out; numbers become doubles.\<close>

definition token_payload :: "'t JourneyState \<Rightarrow> token_claims res" where
  "token_payload st =
     (let m = or_default (js_Ctx st) []
      in if json_ok (GObj m)
         then Inr \<lparr>tc_jti = js_Jti st, tc_trackings = js_TrackingsID st, tc_realm = js_Realm st,
                   tc_ctx = (if m = [] then None else Some (json_map m)), tc_enc = js_EncryptedCtx st\<rparr>
         else Inl (ErrText ''json: unsupported value''))"

definition signJourneyToken :: "('k, 's) jws \<Rightarrow> 's \<Rightarrow> 't JourneyState \<Rightarrow> 's \<times> string res" where
  "signJourneyToken J s st =
     (let (s', k) = (case getJourneyKey J s of
                       Inr key \<Rightarrow> (s, Inr key)
                     | Inl _ \<Rightarrow> (case getJourneyKey J s of
                                    Inr key \<Rightarrow> (s, Inr key)
                                  | Inl _ \<Rightarrow> jw_new_key J s))
      in (s', bind_res k (\<lambda>key. bind_res (token_payload st) (\<lambda>c. jw_sign J key c))))"

text \<open>
  What the engine relies on: a token signed with the current key parses, its key is in the
  storage and verifies it, and its payload is what was signed.
\<close>

definition jws_ok :: "('k, 's) jws \<Rightarrow> bool" where
  "jws_ok J \<longleftrightarrow>
     (\<forall>s key c tok. jw_query J s = Some key \<longrightarrow> jw_sign J key c = Inr tok \<longrightarrow>
        (\<exists>kid. jw_kid J tok = Some kid \<and> jw_load J s kid = Some key \<and> jw_verify J key tok \<and>
               jw_payload J tok = Some c)) \<and>
     (\<forall>s s' key. jw_new_key J s = (s', Inr key) \<longrightarrow> jw_query J s' = Some key)"

lemma claims_state_Exp [simp]: "js_Exp (claims_state c) = 0"
  by (simp add: claims_state_def zero_state_def)

lemma sign_validate:
  assumes "jws_ok J" and "signJourneyToken J s st = (s', Inr tok)"
  shows "\<exists>c. validateJourneyToken J s' tok = Inr (claims_state c) \<and>
     tc_jti c = js_Jti st \<and> tc_trackings c = js_TrackingsID st \<and> tc_realm c = js_Realm st \<and>
     tc_enc c = js_EncryptedCtx st \<and> or_default (tc_ctx c) [] = json_map (or_default (js_Ctx st) [])"
proof -
  obtain key c where q: "jw_query J s' = Some key" and p: "token_payload st = Inr c"
    and t: "jw_sign J key c = Inr tok"
    using assms unfolding signJourneyToken_def getJourneyKey_def jws_ok_def
    by (auto simp: res_iff split: option.splits prod.splits)
  from assms(1) q t obtain kid where "jw_kid J tok = Some kid" "jw_load J s' kid = Some key"
    "jw_verify J key tok" "jw_payload J tok = Some c"
    unfolding jws_ok_def by blast
  then have "validateJourneyToken J s' tok = Inr (claims_state c)"
    by (simp add: validateJourneyToken_def)
  moreover have "tc_jti c = js_Jti st \<and> tc_trackings c = js_TrackingsID st \<and> tc_realm c = js_Realm st \<and>
     tc_enc c = js_EncryptedCtx st \<and> or_default (tc_ctx c) [] = json_map (or_default (js_Ctx st) [])"
    using p by (auto simp: token_payload_def Let_def json_map_def split: if_splits)
  ultimately show ?thesis by blast
qed

text \<open>
  Signing a state and validating the token gives back its identifier, tracking stack,
  realm, ciphertext and context data; everything the token does not carry (the expiry, the
  closed and temporary contexts, the result) is empty.
\<close>

theorem token_roundtrip:
  assumes "jws_ok J" and "signJourneyToken J s st = (s', Inr tok)"
  shows "\<exists>c. validateJourneyToken J s' tok = Inr (claims_state c) \<and>
     tc_jti c = js_Jti st \<and> tc_trackings c = js_TrackingsID st \<and> tc_realm c = js_Realm st \<and>
     tc_enc c = js_EncryptedCtx st \<and> or_default (tc_ctx c) [] = json_map (or_default (js_Ctx st) [])"
  using assms by (rule sign_validate)

text \<open>A library that signs one fixed set of claims with one key.\<close>

definition const_jws :: "token_claims \<Rightarrow> (unit, bool) jws" where
  "const_jws c0 = \<lparr>jw_query = (\<lambda>s. if s then Some () else None), jw_new_key = (\<lambda>s. (True, Inr ())),
     jw_sign = (\<lambda>k c. if c = c0 then Inr ''tok'' else Inl ErrInvalidJourneyToken),
     jw_kid = (\<lambda>t. Some ''kid''), jw_load = (\<lambda>s k. if s then Some () else None),
     jw_verify = (\<lambda>k t. True), jw_payload = (\<lambda>t. Some c0)\<rparr>"

definition sample_claims :: token_claims where
  "sample_claims = \<lparr>tc_jti = ''id'', tc_trackings = Some [''j1:s1''], tc_realm = '''', tc_ctx = None, tc_enc = ''''\<rparr>"

lemma const_jws_ok: "jws_ok (const_jws c0)"
  by (auto simp: jws_ok_def const_jws_def split: if_splits)

theorem token_roundtrip_witness:
  "\<exists>c. validateJourneyToken (const_jws sample_claims) True ''tok'' = Inr (claims_state c :: gval JourneyState) \<and>
     tc_trackings c = Some [''j1:s1'']"
proof -
  have "signJourneyToken (const_jws sample_claims) False sample_state = (True, Inr ''tok'')"
    by (simp add: signJourneyToken_def getJourneyKey_def const_jws_def token_payload_def sample_state_def
        zero_state_def sample_claims_def)
  from token_roundtrip [OF const_jws_ok this] show ?thesis
    by (auto simp: sample_state_def)
qed

end
