(* ===== verification/Execution.thy ===== *)
theory Execution
  imports Runtime StateStore
begin

text \<open>
  \<^verbatim>\<open>execution.journey.go\<close>: the executor. A journey manager is the record \<open>jm\<close> of what does not change
  (its third-party parts, registry, key, validators, storage and clock) and the state \<open>ms\<close> of what
  does (pending states, compiled journeys, signing keys, the emitted events and executions).
  \<open>jm_clock\<close> gives the value of the n-th reading of the millisecond clock. The two loops take fuel;
  \<open>None\<close> means that it ran out.
\<close>

subsection \<open>The manager\<close>

record ('t, 'c, 's, 'k) journeyManager =
  jm_rt :: "'t runtime_env"
  jm_crypto :: crypto
  jm_keys :: env_keys
  jm_cache :: "('c, 't JourneyState) gocache"
  jm_jws :: "('k, 's) jws"
  jm_validators :: "'t validator gomap"
  jm_encryptKey :: string
  jm_storage :: "string \<Rightarrow> JourneyConfiguration option res"
  jm_clock :: "nat \<Rightarrow> int"

record ('c, 's) manager_state =
  ms_states :: 'c
  ms_runtime :: runtime_state
  ms_tokens :: 's
  ms_now :: int
  ms_events :: "Event list"
  ms_executions :: "(bool \<times> go_error option) list"

abbreviation jm_tree :: "('t, 'c, 's, 'k) journeyManager \<Rightarrow> 't treemap" where
  "jm_tree jm \<equiv> re_tree (jm_rt jm)"

abbreviation jm_steps :: "('t, 'c, 's, 'k) journeyManager \<Rightarrow> 't Steps" where
  "jm_steps jm \<equiv> re_steps (jm_rt jm)"

fun is_not_found :: "go_error \<Rightarrow> bool" where
  "is_not_found ErrJourneyNotFound = True"
| "is_not_found (ErrWrap s e) = is_not_found e"
| "is_not_found _ = False"

definition loadJourney :: "('t, 'c, 's, 'k) journeyManager \<Rightarrow> string \<Rightarrow> ('c, 's) manager_state
    \<Rightarrow> ('c, 's) manager_state \<times> JourneyConfiguration res" where
  "loadJourney jm journeyID ms =
     (case jm_storage jm journeyID of
        Inr (Some journey) \<Rightarrow>
          if \<not> jc_Active journey then (ms, Inl ErrJourneyNotFound)
          else (case runtimeJourney (jm_rt jm) (Some journey) (ms_runtime ms) of
                  (rt, r) \<Rightarrow> (ms\<lparr>ms_runtime := rt\<rparr>, r))
      | _ \<Rightarrow> (ms, Inl ErrJourneyNotFound))"

subsection \<open>Selecting the state of an invocation\<close>

definition minute :: int where "minute = 60 * 10 ^ 9"
definition second :: int where "second = 10 ^ 9"

text \<open>The state and journey a request names, before any check of the journey. The Boolean of the request
  modes counts how many are selected.\<close>

definition selected_modes :: "JourneyPayloadReq \<Rightarrow> nat" where
  "selected_modes req = (if jp_JourneyID req \<noteq> '''' then 1 else 0) + (if jp_ResumeID req \<noteq> '''' then 1 else 0)
     + (if TokenPresent req then 1 else 0)"

definition resume_state :: "('t, 'c, 's, 'k) journeyManager \<Rightarrow> string \<Rightarrow> ('c, 's) manager_state
    \<Rightarrow> ('c, 's) manager_state \<times> ('t JourneyState \<times> string) res" where
  "resume_state jm resumeID ms =
     (case GetAndDelete (jm_cache jm) (ms_now ms) resumeID (ms_states ms) of
        (c, None) \<Rightarrow> (ms\<lparr>ms_states := c\<rparr>, Inl ErrInvalidJourneyToken)
      | (c, Some st) \<Rightarrow>
          (case GetClosedCtx (jm_tree jm) st of
             (st', closedCtx) \<Rightarrow>
               let journeyID = get_str_or (jm_tree jm) closedCtx (GetSuspendJourneyKey (jm_keys jm) @ ''.journey_id'') '''' in
               if journeyID = '''' \<or> \<not> ExistsTracking st' then (ms\<lparr>ms_states := c\<rparr>, Inl ErrInvalidJourneyToken)
               else (ms\<lparr>ms_states := c\<rparr>, Inr (st', journeyID))))"

definition token_state :: "('t, 'c, 's, 'k) journeyManager \<Rightarrow> string \<Rightarrow> ('c, 's) manager_state
    \<Rightarrow> ('c, 's) manager_state \<times> ('t JourneyState \<times> string) res" where
  "token_state jm token ms =
     (case validateJourneyToken (jm_jws jm) (ms_tokens ms) token of
        Inl e \<Rightarrow> (ms, Inl e)
      | Inr st \<Rightarrow>
          if length (trackings st) = 0 then (ms, Inl ErrInvalidJourneyToken)
          else (case SplitN2 (last (trackings st)) (CHR '':'') of
                  [a, b] \<Rightarrow>
                    if a = '''' then (ms, Inl ErrInvalidJourneyToken)
                    else (case GetAndDelete (jm_cache jm) (ms_now ms) (js_Jti st) (ms_states ms) of
                            (c, None) \<Rightarrow> (ms\<lparr>ms_states := c\<rparr>, Inl ErrInvalidJourneyToken)
                          | (c, Some prev) \<Rightarrow> (ms\<lparr>ms_states := c\<rparr>, Inr (MergeState st prev, a)))
                | _ \<Rightarrow> (ms, Inl ErrInvalidJourneyToken)))"

definition select_state :: "('t, 'c, 's, 'k) journeyManager \<Rightarrow> JourneyPayloadReq \<Rightarrow> ('c, 's) manager_state
    \<Rightarrow> ('c, 's) manager_state \<times> ('t JourneyState \<times> string) res" where
  "select_state jm req ms =
     (if selected_modes req \<noteq> 1
      then (ms, Inl (ErrJourneyInvalidPayload ''exactly one of journey_id, resume_id, or journey_token is required''))
      else if jp_ResumeID req \<noteq> '''' then resume_state jm (jp_ResumeID req) ms
      else if TokenPresent req then token_state jm (jp_Jwt req) ms
      else (ms, Inr (zero_state\<lparr>js_ClosedCtx := Some (tm_empty (jm_tree jm))\<rparr>, jp_JourneyID req)))"

text \<open>\<open>Init\<close>, the encryption key, and decryption of the stored encrypted context.\<close>

definition open_state :: "('t, 'c, 's, 'k) journeyManager \<Rightarrow> 't JourneyState \<Rightarrow> 't JourneyState res" where
  "open_state jm st =
     (let st1 = SetEncryptionKey (jm_encryptKey jm) (Init (jm_tree jm) st) in
      if js_EncryptedCtx st1 \<noteq> ''''
      then (case GetEncryptedCtx (jm_tree jm) (jm_crypto jm) st1 of
              (st2, t) \<Rightarrow> if js_encryptionErr st2 \<noteq> None then Inl ErrInvalidJourneyToken else Inr st2)
      else Inr st1)"

definition realm_mismatch :: "JourneyPayloadReq \<Rightarrow> JourneyConfiguration \<Rightarrow> bool" where
  "realm_mismatch req conf \<longleftrightarrow>
     (case jp_realm req of None \<Rightarrow> False | Some r \<Rightarrow> rl_Name r \<noteq> '''' \<and> jc_Realm conf \<noteq> rl_Name r)"

definition start_state :: "'t treemap \<Rightarrow> JourneyPayloadReq \<Rightarrow> string \<Rightarrow> JourneyConfiguration \<Rightarrow> 't JourneyState \<Rightarrow> 't JourneyState" where
  "start_state T req journeyID conf st =
     (let realmName = (case jp_realm req of None \<Rightarrow> jc_Realm conf
                       | Some r \<Rightarrow> if rl_Name r \<noteq> '''' then rl_Name r else jc_Realm conf);
          st1 = (SetRealm realmName st)\<lparr>js_Exp := wrap64 (jc_DefaultExp conf * minute)\<rparr>;
          st2 = (if length (jp_InitialData req) \<noteq> 0
                 then (case GetCtx T st1 of (s, t) \<Rightarrow> put_kind KCtx (tm_set T t ''initial_data'' (GObj (jp_InitialData req))) s)
                 else st1)
      in PushTracking journeyID (jc_StartStepID conf) st2)"

definition GetJourneyState :: "('t, 'c, 's, 'k) journeyManager \<Rightarrow> JourneyPayloadReq option \<Rightarrow> bool \<Rightarrow> ('c, 's) manager_state
    \<Rightarrow> ('c, 's) manager_state \<times> ('t JourneyState \<times> JourneyConfiguration) res" where
  "GetJourneyState jm req isConfidential ms =
     (case req of
        None \<Rightarrow> (ms, Inl (ErrJourneyInvalidPayload ''''))
      | Some r \<Rightarrow>
          (case select_state jm r ms of
             (ms1, Inl e) \<Rightarrow> (ms1, Inl e)
           | (ms1, Inr (st, journeyID)) \<Rightarrow>
               (case open_state jm st of
                  Inl e \<Rightarrow> (ms1, Inl e)
                | Inr st1 \<Rightarrow>
                    (case loadJourney jm journeyID ms1 of
                       (ms2, Inl e) \<Rightarrow> (ms2, Inl (if is_not_found e then ErrJourneyNotFound else e))
                     | (ms2, Inr conf) \<Rightarrow>
                         let resumed = (jp_ResumeID r \<noteq> '''' \<or> TokenPresent r) in
                         if \<not> jc_Active conf \<or> (jc_Confidential conf \<and> \<not> isConfidential \<and> \<not> resumed)
                         then (ms2, Inl ErrJourneyNotFound)
                         else if realm_mismatch r conf then (ms2, Inl ErrJourneyNotFound)
                         else (ms2, Inr (if resumed then st1 else start_state (jm_tree jm) r journeyID conf st1, conf))))))"

subsection \<open>Steps of one frame\<close>

definition journey_event :: "EventType \<Rightarrow> string \<Rightarrow> go_error option \<Rightarrow> JourneyConfiguration \<Rightarrow> Event" where
  "journey_event ty msg err j = \<lparr>ev_Type = ty, ev_Message = msg, ev_Error = err,
     ev_Subject = \<lparr>es_Type = ''journey'', es_ID = jc_ID j, es_Name = jc_Name j\<rparr>\<rparr>"

definition step_event :: "EventType \<Rightarrow> string \<Rightarrow> go_error option \<Rightarrow> string \<Rightarrow> string \<Rightarrow> Event" where
  "step_event ty msg err i name = \<lparr>ev_Type = ty, ev_Message = msg, ev_Error = err,
     ev_Subject = \<lparr>es_Type = ''step'', es_ID = i, es_Name = name\<rparr>\<rparr>"

text \<open>The debug event reads all four contexts, which creates those not yet created.\<close>

definition debug_event :: "('t, 'c, 's, 'k) journeyManager \<Rightarrow> 't JourneyTransaction \<Rightarrow> 't JourneyTransaction" where
  "debug_event jm tx =
     (if jc_Debug (tx_Journey tx)
      then EmitEvent \<lparr>ev_Type = EventDebug, ev_Message = ''context values'', ev_Error = None,
                      ev_Subject = \<lparr>es_Type = '''', es_ID = '''', es_Name = ''''\<rparr>\<rparr>
             (tx\<lparr>tx_State := fold (\<lambda>k s. fst (get_kind (jm_tree jm) (jm_crypto jm) k s)) [KCtx, KEnc, KTemp, KClosed] (tx_State tx)\<rparr>)
      else tx)"

definition resetClientInputs :: "('t, 'c, 's, 'k) journeyManager \<Rightarrow> 't JourneyTransaction \<Rightarrow> 't JourneyTransaction" where
  "resetClientInputs jm tx =
     (let b = tx_builder (jm_tree jm) (jm_crypto jm) tx;
          ctx = fst (tm_delete (jm_tree jm) (cib_ctxManager b) (GetClientInputsKey (jm_keys jm)))
      in put_builder (NewClientInputBuilder [] ctx) tx)"

definition clear_requests :: "('t, 'c, 's, 'k) journeyManager \<Rightarrow> 't JourneyTransaction \<Rightarrow> 't JourneyTransaction" where
  "clear_requests jm tx =
     put_builder (ClearRequestsForStep (jm_tree jm) (jm_keys jm) (tx_CurrentStepID tx)
                    (tx_builder (jm_tree jm) (jm_crypto jm) tx)) tx"

datatype iteration = Continue | Finished bool bool | Failed go_error

text \<open>What follows a successful execution of a step.\<close>

definition after_step :: "('t, 'c, 's, 'k) journeyManager \<Rightarrow> Step \<Rightarrow> 't IStep \<Rightarrow> string \<Rightarrow> string \<Rightarrow> 't JourneyTransaction
    \<Rightarrow> 't JourneyTransaction \<times> iteration" where
  "after_step jm stepConfig step stepID outcome tx =
     (if tx_newClientInputs tx \<noteq> []
      then (EmitEvent (journey_event EventSuspended ''journey suspended waiting for client input'' None (tx_Journey tx))
              (tx\<lparr>tx_State := PushTracking (jc_ID (tx_Journey tx)) (tx_CurrentStepID tx) (tx_State tx)\<rparr>), Finished True False)
      else let tx1 = EmitEvent (step_event EventFinished ''step execution finished'' None stepID (st_Name stepConfig)) tx in
           if is_EndJourney step
           then (if ExistsTracking (tx_State tx1) then (tx1, Finished False False)
                 else (tx1, Finished False (is_Completion step = Some False)))
           else if outcome = '''' then (resetClientInputs jm tx1, Finished False False)
           else let tx2 = clear_requests jm tx1 in
                (case GetOutcomeID (jm_tree jm) stepConfig outcome of
                   Inl e \<Rightarrow> (tx2, Failed ErrJourneyInvalidOutcome)
                 | Inr nextStepID \<Rightarrow> (tx2\<lparr>tx_CurrentStepID := nextStepID\<rparr>, Continue)))"

definition count_tick :: "('t, 'c, 's, 'k) journeyManager \<Rightarrow> string \<Rightarrow> 't JourneyTransaction \<Rightarrow> 't JourneyTransaction" where
  "count_tick jm stepID tx =
     (let (count, last) = or_default (gm_get (tx_Ticks tx) stepID) (0, 0)
      in tx\<lparr>tx_Ticks := gm_put stepID (wrap64 (count + 1), jm_clock jm (tx_reads tx)) (tx_Ticks tx),
            tx_reads := Suc (tx_reads tx)\<rparr>)"

definition iterate_step :: "('t, 'c, 's, 'k) journeyManager \<Rightarrow> 't JourneyTransaction \<Rightarrow> 't JourneyTransaction \<times> iteration" where
  "iterate_step jm tx =
     (let tx0 = debug_event jm tx; stepID = tx_CurrentStepID tx in
      case step_at (jc_Steps (tx_Journey tx)) stepID of
        None \<Rightarrow> (tx0, Failed ErrStepNotFound)
      | Some stepConfig \<Rightarrow>
          (case GetStep (jm_steps jm) (st_StepType stepConfig) of
             None \<Rightarrow> (tx0, Failed ErrStepNotFound)
           | Some step \<Rightarrow>
               let tx1 = EmitEvent (step_event EventStarted ''step execution started'' None stepID (st_Name stepConfig)) tx0;
                   (count, last) = or_default (gm_get (tx_Ticks tx1) stepID) (0, 0);
                   tx2 = tx1\<lparr>tx_Ticks := gm_put stepID (count, last) (tx_Ticks tx1)\<rparr>;
                   checked = (GetMaxTickCount \<le> count);
                   now = jm_clock jm (tx_reads tx2);
                   tx3 = (if checked then tx2\<lparr>tx_reads := Suc (tx_reads tx2)\<rparr> else tx2)
               in if checked \<and> wrap64 (now - last) < GetMinTickWindowMs
                  then (tx3, Failed (JourneyInfiniteLoopErr (st_Name stepConfig)))
                  else (case ExecuteStepConfig (jm_tree jm) (jm_crypto jm) (re_text (jm_rt jm)) (re_resolvers (jm_rt jm))
                               step (st_Config stepConfig) tx3 of
                          (tx4, Inl e) \<Rightarrow>
                            (EmitEvent (step_event EventFailed ''step execution failed'' (Some e) stepID (st_Name stepConfig)) tx4,
                             Failed e)
                        | (tx4, Inr outcome) \<Rightarrow> after_step jm stepConfig step stepID outcome (count_tick jm stepID tx4))))"

fun executeSteps :: "('t, 'c, 's, 'k) journeyManager \<Rightarrow> nat \<Rightarrow> 't JourneyTransaction
    \<Rightarrow> ('t JourneyTransaction \<times> (bool \<times> bool) res) option" where
  "executeSteps jm 0 tx = None"
| "executeSteps jm (Suc n) tx =
     (case iterate_step jm tx of
        (tx', Continue) \<Rightarrow> executeSteps jm n tx'
      | (tx', Finished paused failed) \<Rightarrow> Some (tx', Inr (paused, failed))
      | (tx', Failed e) \<Rightarrow> Some (tx', Inl e))"

subsection \<open>Pausing\<close>

text \<open>\<open>time.Duration(float64)\<close> truncates; a value that does not fit converts to the least integer, as on amd64.\<close>

definition f64_trunc :: "64 word \<Rightarrow> int" where
  "f64_trunc f =
     (if \<not> f64_finite f then - (2 ^ 63)
      else if f64_exp f < 1023 then 0
      else let m = 2 ^ 52 + f64_mant f; e = f64_exp f;
               a = (if 1075 \<le> e then m * 2 ^ (e - 1075) else m div 2 ^ (1075 - e));
               i = (if f64_neg f then - int a else int a)
           in if in_int64 i then i else - (2 ^ 63))"

definition consumeExpirationExtension :: "'t treemap \<Rightarrow> env_keys \<Rightarrow> 't JourneyState \<Rightarrow> 't JourneyState \<times> int" where
  "consumeExpirationExtension T E st =
     (case GetCtx T st of
        (st1, t) \<Rightarrow>
          (case tm_delete T t (GetExtendJourneyExpKey E) of
             (t', removed) \<Rightarrow>
               (put_kind KCtx t' st1, wrap64 (f64_trunc (or_default (tm_as_float T removed) 0) * minute))))"

definition serializeJourneyContext :: "('t, 'c, 's, 'k) journeyManager \<Rightarrow> 't JourneyState \<Rightarrow> 't JourneyState \<times> unit res" where
  "serializeJourneyContext jm st =
     (case GetCtx (jm_tree jm) st of
        (st1, t) \<Rightarrow>
          (case tm_as_map (jm_tree jm) t of
             None \<Rightarrow> (st1, Inl ErrJourneyFailure)
           | Some ctx \<Rightarrow>
               (case GetEncryptedCtx (jm_tree jm) (jm_crypto jm) (st1\<lparr>js_Ctx := Some ctx\<rparr>) of
                  (st2, et) \<Rightarrow>
                    (case tm_as_map (jm_tree jm) et of
                       None \<Rightarrow> (st2, Inr ())
                     | Some enc \<Rightarrow>
                         if length enc = 0 then (st2, Inr ())
                         else (case EncryptCtx (jm_crypto jm) enc (jm_encryptKey jm) of
                                 Inl e \<Rightarrow> (st2\<lparr>js_EncryptedCtx := ''''\<rparr>, Inl ErrJourneyFailure)
                               | Inr s \<Rightarrow> (st2\<lparr>js_EncryptedCtx := s\<rparr>, Inr ()))))))"

definition empty_payload :: JourneyPayloadReq where
  "empty_payload = \<lparr>jp_JourneyID = '''', jp_ResumeID = '''', jp_Jwt = '''', jp_ClientInputs = [], jp_ClientError = None,
     jp_State = '''', jp_InitialData = [], jp_realm = None\<rparr>"

type_synonym 't outcome = "(JourneyPayloadReq option \<times> 't JourneyState option) res"

definition pauseJourney :: "('t, 'c, 's, 'k) journeyManager \<Rightarrow> 't JourneyTransaction \<Rightarrow> ('c, 's) manager_state
    \<Rightarrow> ('c, 's) manager_state \<times> 't JourneyTransaction \<times> 't outcome" where
  "pauseJourney jm tx ms =
     (let T = jm_tree jm; E = jm_keys jm in
      case consumeExpirationExtension T E (tx_State tx) of
        (st1, extension) \<Rightarrow>
          (case serializeJourneyContext jm st1 of
             (st2, Inl e) \<Rightarrow> (ms, tx\<lparr>tx_State := st2\<rparr>, Inl e)
           | (st2, Inr _) \<Rightarrow>
               let response = empty_payload\<lparr>jp_ClientInputs := map Some (tx_newClientInputs tx)\<rparr>;
                   (st3, temp) = GetTempCtx T st2
               in if tm_defined T temp (GetSuspendJourneyKey E)
                  then let resumeID = or_default (tm_as_string T (tm_get T temp (GetSuspendJourneyKey E @ ''.resume_id''))) '''';
                           suspendTTL = wrap64 (get_int_or T temp (GetSuspendJourneyKey E @ ''.exp'') 60 * second);
                           st4 = ClearState (SetID resumeID st3)
                       in (case Store (jm_cache jm) (ms_now ms) (Some st4) (wrap64 (suspendTTL + extension)) (ms_states ms) of
                             (c, ok) \<Rightarrow> (ms\<lparr>ms_states := c\<rparr>, tx\<lparr>tx_State := st4\<rparr>,
                                         if ok then Inr (Some response, Some st4) else Inl ErrJourneyStateStore))
                  else (case signJourneyToken (jm_jws jm) (ms_tokens ms) st3 of
                          (tk, Inl e) \<Rightarrow> (ms\<lparr>ms_tokens := tk\<rparr>, tx\<lparr>tx_State := st3\<rparr>, Inl e)
                        | (tk, Inr token) \<Rightarrow>
                            let st4 = ClearState st3 in
                            (case Store (jm_cache jm) (ms_now ms) (Some st4) (wrap64 (js_Exp st4 + extension)) (ms_states ms) of
                               (c, ok) \<Rightarrow> (ms\<lparr>ms_tokens := tk, ms_states := c\<rparr>, tx\<lparr>tx_State := st4\<rparr>,
                                           if ok then Inr (Some (response\<lparr>jp_Jwt := token\<rparr>), None) else Inl ErrJourneyStateStore)))))"

subsection \<open>Frames\<close>

fun executeJourney :: "('t, 'c, 's, 'k) journeyManager \<Rightarrow> nat \<Rightarrow> nat \<Rightarrow> 't JourneyTransaction \<Rightarrow> ('c, 's) manager_state
    \<Rightarrow> (('c, 's) manager_state \<times> 't JourneyTransaction \<times> 't outcome) option" where
  "executeJourney jm fuel 0 tx ms = None"
| "executeJourney jm fuel (Suc n) tx ms =
     (if \<not> ExistsTracking (tx_State tx) then Some (ms, tx, Inr (None, Some (tx_State tx)))
      else (case PopTracking (tx_State tx) of
              (st, journeyID, stepID) \<Rightarrow>
                let tx1 = tx\<lparr>tx_State := st\<rparr> in
                (case loadJourney jm journeyID ms of
                   (ms1, Inl e) \<Rightarrow> Some (ms1, tx1, Inl e)
                 | (ms1, Inr journey) \<Rightarrow>
                     let tx2 = EmitEvent (journey_event EventStarted ''journey execution started'' None journey)
                                 (tx1\<lparr>tx_Journey := journey,
                                      tx_CurrentStepID := (if stepID = '''' then jc_StartStepID journey else stepID)\<rparr>)
                     in (case executeSteps jm fuel tx2 of
                           None \<Rightarrow> None
                         | Some (tx3, Inl e) \<Rightarrow>
                             Some (ms1, EmitEvent (journey_event EventFailed ''journey execution failed'' (Some e) journey) tx3, Inl e)
                         | Some (tx3, Inr (paused, failed)) \<Rightarrow>
                             if failed
                             then Some (ms1, EmitEvent (journey_event EventFailed ''journey execution finished with failure''
                                               (Some ErrJourneyFailure) journey) tx3, Inl ErrJourneyFailure)
                             else if paused then Some (pauseJourney jm tx3 ms1)
                             else executeJourney jm fuel n
                                    (EmitEvent (journey_event EventFinished ''journey execution finished'' None journey) tx3) ms1))))"

text \<open>A failed journey returns its state beside the error; the state is that of the returned transaction.\<close>

record JourneyExecute =
  je_Payload :: "JourneyPayloadReq option"
  je_IsConfidential :: bool
  je_Request :: "request option"
  je_Response :: "MemoryResponse option"

definition rejected_event :: "go_error \<Rightarrow> string \<Rightarrow> Event" where
  "rejected_event e i = \<lparr>ev_Type = EventFailed, ev_Message = ''journey invocation rejected'', ev_Error = Some e,
     ev_Subject = \<lparr>es_Type = ''journey'', es_ID = i, es_Name = ''''\<rparr>\<rparr>"

definition new_transaction :: "JourneyExecute \<Rightarrow> JourneyPayloadReq \<Rightarrow> JourneyConfiguration \<Rightarrow> 't JourneyState
    \<Rightarrow> 't ClientInputsBuilder \<Rightarrow> 't JourneyTransaction" where
  "new_transaction je payload conf st b = \<lparr>
     tx_Request = Some (case je_Request je of None \<Rightarrow> ReqMemory (Some NewEmptyRequest) | Some r \<Rightarrow> r),
     tx_Response = Some (case je_Response je of None \<Rightarrow> NewMemoryResponse | Some r \<Rightarrow> r),
     tx_Journey = conf, tx_CurrentStepID = '''', tx_ChainStepID = '''',
     tx_clientInputs = cib_clientInputs b, tx_newClientInputs = cib_newClientInputs b,
     tx_inputsRef = (if jc_EncryptedClientInputs conf then RefEnc else RefCtx),
     tx_State = st, tx_Payload = payload, tx_Values = NewTransactionValues, tx_Ticks = [], tx_events = [], tx_reads = 0\<rparr>"

text \<open>The state and the context that hold the client inputs of the journey.\<close>

definition inputs_context :: "('t, 'c, 's, 'k) journeyManager \<Rightarrow> JourneyConfiguration \<Rightarrow> 't JourneyState \<Rightarrow> ('t JourneyState \<times> 't) res" where
  "inputs_context jm conf st =
     (case GetCtx (jm_tree jm) st of
        (st1, t) \<Rightarrow>
          if jc_EncryptedClientInputs conf
          then (case GetEncryptedCtx (jm_tree jm) (jm_crypto jm) st1 of
                  (st2, et) \<Rightarrow> if js_encryptionErr st2 \<noteq> None then Inl ErrInvalidJourneyToken else Inr (st2, et))
          else Inr (st1, t))"

definition record_end :: "'t outcome \<Rightarrow> ('c, 's) manager_state \<Rightarrow> ('c, 's) manager_state" where
  "record_end r ms =
     (case r of
        Inl e \<Rightarrow> ms\<lparr>ms_executions := ms_executions ms @ [(False, Some e)]\<rparr>
      | Inr (None, _) \<Rightarrow> ms\<lparr>ms_executions := ms_executions ms @ [(True, None)]\<rparr>
      | Inr (Some _, _) \<Rightarrow> ms)"

text \<open>\<open>rand\<close> is the random identifier drawn for the invocation. Validation rewrites the identifiers of the submitted inputs in place, so the payload shows them.\<close>

definition InvokeJourney :: "('t, 'c, 's, 'k) journeyManager \<Rightarrow> nat \<Rightarrow> string res \<Rightarrow> JourneyExecute option \<Rightarrow> ('c, 's) manager_state
    \<Rightarrow> (('c, 's) manager_state \<times> 't JourneyTransaction option \<times> 't outcome) option" where
  "InvokeJourney jm fuel rand je ms =
     (let reject = (\<lambda>e i ms. Some (ms\<lparr>ms_events := ms_events ms @ [rejected_event e i]\<rparr>, None, Inl e)) in
      case je of
        None \<Rightarrow> reject (ErrJourneyInvalidPayload '''') '''' ms
      | Some ex \<Rightarrow>
          (case je_Payload ex of
             None \<Rightarrow> reject (ErrJourneyInvalidPayload '''') '''' ms
           | Some payload \<Rightarrow>
               (case GetJourneyState jm (Some payload) (je_IsConfidential ex) ms of
                  (ms1, Inl e) \<Rightarrow> reject e (jp_JourneyID payload) ms1
                | (ms1, Inr (st, conf)) \<Rightarrow>
                    let payload1 = (if js_Realm st \<noteq> '''' then SetPayloadRealm (Some (named_realm (js_Realm st))) payload else payload) in
                    (case inputs_context jm conf st of
                       Inl e \<Rightarrow> Some (ms1, None, Inl e)
                     | Inr (st1, ctx) \<Rightarrow>
                         let b0 = NewClientInputBuilder (PayloadClientInputs payload1) ctx;
                             (b1, clientError) = (if length (jp_ResumeID payload1) = 0
                                then ValidateProvided (jm_tree jm) (jm_keys jm) (jm_validators jm) (snd (GetTracking st1)) b0
                                else (b0, None));
                             payload2 = payload1\<lparr>jp_ClientInputs := cib_clientInputs b1\<rparr>
                         in (case clientError of
                               Some ce \<Rightarrow>
                                 let response = payload2\<lparr>jp_ClientError := Some ce\<rparr> in
                                 if TokenPresent payload2
                                 then (case Store (jm_cache jm) (ms_now ms1) (Some st1) (js_Exp st1) (ms_states ms1) of
                                         (c, ok) \<Rightarrow> Some (ms1\<lparr>ms_states := c\<rparr>, None,
                                           if ok then Inr (Some response, None) else Inl ErrJourneyStateStore))
                                 else Some (ms1, None, Inr (Some response, None))
                             | None \<Rightarrow>
                                 (case rand of
                                    Inl e \<Rightarrow> Some (ms1, None, Inl e)
                                  | Inr i \<Rightarrow>
                                      (case executeJourney jm fuel fuel (new_transaction ex payload2 conf (SetID i st1) b1) ms1 of
                                         None \<Rightarrow> None
                                       | Some (ms2, tx, r) \<Rightarrow> Some (record_end r ms2, Some tx, r))))))))"

end
