(* ===== verification/FlowSteps.thy ===== *)
theory FlowSteps
  imports Execution
begin

text \<open>
  Built-in steps that route a journey (directory \<^verbatim>\<open>steps\<close>): \<open>Condition\<close>, \<open>IfExpression\<close>,
  \<open>SwitchExpression\<close>, \<open>Assert\<close>, \<open>NotEmpty\<close>, \<open>Choice\<close>, \<open>Form\<close>, \<open>Retry\<close>, \<open>SubJourney\<close>, \<open>Chain\<close>,
  \<open>SuspendFlow\<close>, \<open>Success\<close>, \<open>Failure\<close> and \<open>End\<close>. A step takes its resolved configuration and the
  transaction and returns the transaction with an outcome, \<^verbatim>\<open>""\<close> when it waits or calls.

  The record \<open>S\<close> has what the steps call: the tree container, the cipher and JSON text, the reserved
  keys, text conversions, and the expression evaluator \<^verbatim>\<open>gval.Evaluate\<close> applied to the transaction's
  bindings (whose getters may create a context). A panic is the error \<open>GoPanic\<close>.
\<close>

record 't step_env =
  sp_tree :: "'t treemap"
  sp_crypto :: crypto
  sp_keys :: env_keys
  sp_text :: text_conv
  sp_eval :: "string \<Rightarrow> 't JourneyTransaction \<Rightarrow> 't JourneyTransaction \<times> gval res"

type_synonym 't step = "'t \<Rightarrow> 't JourneyTransaction \<Rightarrow> 't JourneyTransaction \<times> string res"

subsection \<open>Access to the contexts\<close>

definition ctx_read :: "'t step_env \<Rightarrow> ctx_kind \<Rightarrow> 't JourneyTransaction \<Rightarrow> 't JourneyTransaction \<times> 't" where
  "ctx_read S k tx = (case get_kind (sp_tree S) (sp_crypto S) k (tx_State tx) of (st, t) \<Rightarrow> (tx\<lparr>tx_State := st\<rparr>, t))"

definition ctx_update :: "'t step_env \<Rightarrow> ctx_kind \<Rightarrow> ('t \<Rightarrow> 't) \<Rightarrow> 't JourneyTransaction \<Rightarrow> 't JourneyTransaction" where
  "ctx_update S k f tx =
     (case get_kind (sp_tree S) (sp_crypto S) k (tx_State tx) of (st, t) \<Rightarrow> tx\<lparr>tx_State := put_kind k (f t) st\<rparr>)"

definition ctx_set :: "'t step_env \<Rightarrow> ctx_kind \<Rightarrow> string \<Rightarrow> gval \<Rightarrow> 't JourneyTransaction \<Rightarrow> 't JourneyTransaction" where
  "ctx_set S k path v = ctx_update S k (\<lambda>t. tm_set (sp_tree S) t path v)"

definition ctx_delete :: "'t step_env \<Rightarrow> ctx_kind \<Rightarrow> string \<Rightarrow> 't JourneyTransaction \<Rightarrow> 't JourneyTransaction" where
  "ctx_delete S k path = ctx_update S k (\<lambda>t. fst (tm_delete (sp_tree S) t path))"

definition cfg_str :: "'t step_env \<Rightarrow> 't \<Rightarrow> string \<Rightarrow> string \<Rightarrow> string" where
  "cfg_str S config key d = get_str_or (sp_tree S) config key d"

text \<open>\<open>State.Get(name)\<close>: the context a configuration names, created on first use.\<close>

definition named_ctx :: "'t step_env \<Rightarrow> string \<Rightarrow> 't JourneyTransaction \<Rightarrow> 't JourneyTransaction \<times> ctx_kind option" where
  "named_ctx S name tx =
     (case StateGet (sp_tree S) (sp_crypto S) name (tx_State tx) of (st, r) \<Rightarrow> (tx\<lparr>tx_State := st\<rparr>, map_option fst r))"

definition with_builder :: "'t step_env \<Rightarrow> ('t ClientInputsBuilder \<Rightarrow> 't ClientInputsBuilder) \<Rightarrow> 't JourneyTransaction \<Rightarrow> 't JourneyTransaction" where
  "with_builder S f tx = put_builder (f (tx_builder (sp_tree S) (sp_crypto S) tx)) tx"

subsection \<open>Condition\<close>

definition f64_le :: "64 word \<Rightarrow> 64 word \<Rightarrow> bool" where
  "f64_le a b \<longleftrightarrow> \<not> f64_nan a \<and> \<not> f64_nan b \<and> f64_key a \<le> f64_key b"

text \<open>\<open>reflect.DeepEqual\<close> on converted values: doubles by value, maps without order.\<close>

function (sequential) deep_equal :: "gval \<Rightarrow> gval \<Rightarrow> bool" where
  "deep_equal (GFloat a) w = (case w of GFloat b \<Rightarrow> f64_le a b \<and> f64_le b a | _ \<Rightarrow> False)"
| "deep_equal (GArr vs) w = (case w of GArr ws \<Rightarrow> length vs = length ws \<and> list_all (\<lambda>(v, w). deep_equal v w) (zip vs ws) | _ \<Rightarrow> False)"
| "deep_equal (GObj m) w =
     (case w of GObj n \<Rightarrow> length m = length n \<and> list_all (\<lambda>(k, v). case gm_get n k of None \<Rightarrow> False | Some u \<Rightarrow> deep_equal v u) m
      | _ \<Rightarrow> False)"
| "deep_equal v w = (v = w)"
  by pat_completeness auto
termination
proof (relation "measure (\<lambda>p. size (fst p))", goal_cases)
  case (2 vs w ws z x y)
  then have "x \<in> set vs" by (metis set_zip_leftD)
  then have "size x \<le> size_list size vs" by (rule size_list_estimation') simp
  then show ?case by simp
next
  case (3 m w n z k v u)
  then have "(k, v) \<in> set m" by simp
  then have "size v \<le> size_list (size_prod (\<lambda>_. 0) size) m" by (rule size_list_estimation') simp
  then show ?case by simp
qed simp

fun conditionPresent :: "gval \<Rightarrow> bool" where
  "conditionPresent GNil = False"
| "conditionPresent (GStr s) = (s \<noteq> '''')"
| "conditionPresent (GArr vs) = (vs \<noteq> [])"
| "conditionPresent (GObj m) = (m \<noteq> [])"
| "conditionPresent _ = True"

definition conditionValue :: "'t step_env \<Rightarrow> gval \<Rightarrow> string \<Rightarrow> gval res" where
  "conditionValue S v ty =
     (let text = tc_sprint (sp_text S) v in
      if ty = ''string'' then Inr (GStr text)
      else if ty = ''bool'' then (case ParseBool text of None \<Rightarrow> Inl (ErrText ''invalid syntax'') | Some b \<Rightarrow> Inr (GBool b))
      else if ty = ''int'' then
        (case tc_parse_float (sp_text S) text of
           None \<Rightarrow> Inl (ErrText (text @ '' is not an integer''))
         | Some f \<Rightarrow> if \<not> f64_integral f then Inl (ErrText (text @ '' is not an integer'')) else Inr (GInt (f64_trunc f)))
      else if ty = ''float'' then (case tc_parse_float (sp_text S) text of None \<Rightarrow> Inl (ErrText ''invalid syntax'') | Some f \<Rightarrow> Inr (GFloat f))
      else if ty = ''object'' then
        (case json_copy v of
           Inl e \<Rightarrow> Inl e
         | Inr w \<Rightarrow> if is_object w \<or> w = GNil then Inr w else Inl (ErrText ''json: cannot unmarshal into map''))
      else Inl (ErrText (''unsupported condition type '' @ ty)))"

definition conditionMagnitude :: "'t step_env \<Rightarrow> gval \<Rightarrow> gval \<Rightarrow> string \<Rightarrow> (64 word \<times> 64 word) res" where
  "conditionMagnitude S v limit ty =
     (case tc_parse_float (sp_text S) (tc_sprint (sp_text S) limit) of
        None \<Rightarrow> Inl (ErrText ''invalid syntax'')
      | Some threshold \<Rightarrow>
          if ty = ''string''
          then (case v of GStr s \<Rightarrow> Inr (f64_of_int (int (rune_count s)), threshold) | _ \<Rightarrow> Inl (GoPanic ''interface conversion''))
          else (case tc_parse_float (sp_text S) (tc_sprint (sp_text S) v) of
                  None \<Rightarrow> Inl (ErrText ''invalid syntax'') | Some n \<Rightarrow> Inr (n, threshold)))"

definition conditionOutcome :: "bool \<Rightarrow> string" where
  "conditionOutcome b = (if b then ''true'' else ''false'')"

text \<open>The branch on the operation, for the converted value \<open>left\<close>; the string operations assert its type.\<close>

definition condition_matched :: "'t step_env \<Rightarrow> string \<Rightarrow> string \<Rightarrow> gval \<Rightarrow> gval \<Rightarrow> bool res" where
  "condition_matched S operation ty left rightRaw =
     (let right = tc_sprint (sp_text S) rightRaw;
          on_string = (\<lambda>f. case left of GStr s \<Rightarrow> Inr (f s right) | _ \<Rightarrow> Inl (GoPanic ''interface conversion''))
      in if operation = ''equal'' \<or> operation = ''not_equal''
         then bind_res (conditionValue S rightRaw ty) (\<lambda>r. Inr (if operation = ''equal'' then deep_equal left r else \<not> deep_equal left r))
         else if operation = ''min'' \<or> operation = ''max''
         then bind_res (conditionMagnitude S left rightRaw ty)
                (\<lambda>(actual, limit). Inr (if operation = ''max'' then f64_le actual limit else f64_le limit actual))
         else if operation = ''starts_with'' then on_string HasPrefix
         else if operation = ''ends_with'' then on_string HasSuffix
         else if operation = ''contains'' then on_string Contains
         else Inl (ErrText (''unsupported condition operation '' @ operation)))"

definition Condition :: "'t step_env \<Rightarrow> 't step" where
  "Condition S config tx =
     (let v = get_any_or (sp_tree S) config ''value'' GNil;
          operation = cfg_str S config ''operation'' '''';
          ty = cfg_str S config ''type'' ''''
      in (tx, if operation = ''present'' then Inr (conditionOutcome (conditionPresent v))
              else if operation = ''not_present'' then Inr (conditionOutcome (\<not> conditionPresent v))
              else bind_res (conditionValue S v ty) (\<lambda>left.
                     bind_res (condition_matched S operation ty left (get_any_or (sp_tree S) config ''compare_value'' GNil))
                       (\<lambda>b. Inr (conditionOutcome b)))))"

definition Condition_VerifyConfig :: "'t step_env \<Rightarrow> string \<Rightarrow> 't \<Rightarrow> unit res" where
  "Condition_VerifyConfig S stepName config =
     (let operation = cfg_str S config ''operation'' ''''; ty = cfg_str S config ''type'' '''' in
      if Contains operation ''${'' \<or> Contains ty ''${'' then Inr ()
      else if operation \<noteq> ''present'' \<and> operation \<noteq> ''not_present'' \<and> \<not> tm_defined (sp_tree S) config ''compare_value''
      then Inl (StepInvalidConfig stepName (''compare_value is required for operation '' @ operation))
      else if (operation = ''min'' \<or> operation = ''max'') \<and> ty \<noteq> ''int'' \<and> ty \<noteq> ''float'' \<and> ty \<noteq> ''string''
      then Inl (StepInvalidConfig stepName (operation @ '' supports only numbers or string length''))
      else if (operation = ''starts_with'' \<or> operation = ''ends_with'' \<or> operation = ''contains'') \<and> ty \<noteq> ''string''
      then Inl (StepInvalidConfig stepName (operation @ '' supports only strings''))
      else Inr ())"

subsection \<open>Expressions\<close>

definition IfExpression :: "'t step_env \<Rightarrow> 't step" where
  "IfExpression S config tx =
     (case sp_eval S (cfg_str S config ''expression'' '''') tx of
        (tx1, Inl e) \<Rightarrow> (tx1, Inl e)
      | (tx1, Inr v) \<Rightarrow> (tx1, Inr (if v = GBool True then ''true'' else ''false'')))"

fun switch_first :: "'t step_env \<Rightarrow> 't list \<Rightarrow> 't JourneyTransaction \<Rightarrow> 't JourneyTransaction \<times> string res" where
  "switch_first S [] tx = (tx, Inl (StepInvalidOutcome (tx_CurrentStepID tx) ''''))"
| "switch_first S (item # items) tx =
     (case sp_eval S (cfg_str S item ''exp'' '''') tx of
        (tx1, Inl e) \<Rightarrow> (tx1, Inl e)
      | (tx1, Inr v) \<Rightarrow> if v = GBool True then (tx1, Inr (cfg_str S item ''name'' '''')) else switch_first S items tx1)"

definition SwitchExpression :: "'t step_env \<Rightarrow> 't step" where
  "SwitchExpression S config tx =
     (case tm_as_slice (sp_tree S) (tm_get (sp_tree S) config ''expressions'') of
        None \<Rightarrow> (tx, Inr '''')
      | Some items \<Rightarrow> switch_first S items tx)"

text \<open>The loop of \<open>Assert\<close>: the failures and how many rules passed; \<open>None\<close> for an expression that fails or is not
  a Boolean.\<close>

fun assert_rules :: "'t step_env \<Rightarrow> 't list \<Rightarrow> 't JourneyTransaction \<Rightarrow> 't JourneyTransaction \<times> (gval list \<times> nat) option" where
  "assert_rules S [] tx = (tx, Some ([], 0))"
| "assert_rules S (rule # rules) tx =
     (case sp_eval S (cfg_str S rule ''expression'' '''') tx of
        (tx1, Inr (GBool valid)) \<Rightarrow>
          (case assert_rules S rules tx1 of
             (tx2, None) \<Rightarrow> (tx2, None)
           | (tx2, Some (failures, passed)) \<Rightarrow>
               (tx2, Some (if valid then (failures, Suc passed)
                           else (GObj [(''id'', GStr (cfg_str S rule ''id'' '''')), (''message'', GStr (cfg_str S rule ''message'' ''''))]
                                   # failures, passed))))
      | (tx1, _) \<Rightarrow> (tx1, None))"

definition Assert :: "'t step_env \<Rightarrow> 't step" where
  "Assert S config tx =
     (case tm_as_slice (sp_tree S) (tm_get (sp_tree S) config ''rules'') of
        None \<Rightarrow> (tx, Inr ''error'')
      | Some rules \<Rightarrow>
          (case assert_rules S rules tx of
             (tx1, None) \<Rightarrow> (tx1, Inr ''error'')
           | (tx1, Some (failures, passed)) \<Rightarrow>
               let mode = cfg_str S config ''mode'' ''all'';
                   valid = (mode = ''all'' \<and> passed = length rules \<or> mode = ''any'' \<and> 0 < passed);
                   target = cfg_str S config ''errors_target'' ''validationErrors''
               in (case named_ctx S (cfg_str S config ''errors_context'' ''ctx'') tx1 of
                     (tx2, None) \<Rightarrow> (tx2, Inr ''error'')
                   | (tx2, Some k) \<Rightarrow> if valid then (ctx_delete S k target tx2, Inr ''valid'')
                                     else (ctx_set S k target (GArr failures) tx2, Inr ''invalid''))))"

fun verify_rules :: "'t step_env \<Rightarrow> string \<Rightarrow> 't list \<Rightarrow> string list \<Rightarrow> unit res" where
  "verify_rules S stepName [] seen = Inr ()"
| "verify_rules S stepName (rule # rules) seen =
     (let i = cfg_str S rule ''id'' '''' in
      if i = '''' \<or> cfg_str S rule ''expression'' '''' = ''''
      then Inl (StepInvalidConfig stepName ''every assertion requires id and expression'')
      else if i \<in> set seen then Inl (StepInvalidConfig stepName (''duplicate assertion id: '' @ i))
      else verify_rules S stepName rules (i # seen))"

definition Assert_VerifyConfig :: "'t step_env \<Rightarrow> string \<Rightarrow> 't \<Rightarrow> unit res" where
  "Assert_VerifyConfig S stepName config =
     (if Contains (cfg_str S config ''rules'' '''') ''${'' then Inr ()
      else (case tm_as_slice (sp_tree S) (tm_get (sp_tree S) config ''rules'') of
              None \<Rightarrow> Inl (StepInvalidConfig stepName ''at least one assertion rule is required'')
            | Some rules \<Rightarrow>
                if rules = [] then Inl (StepInvalidConfig stepName ''at least one assertion rule is required'')
                else verify_rules S stepName rules []))"

definition NotEmpty :: "'t step_env \<Rightarrow> 't step" where
  "NotEmpty S config tx = (tx, Inr (if cfg_str S config ''string'' '''' \<noteq> '''' then ''true'' else ''false''))"

subsection \<open>Choice\<close>

definition Choice :: "'t step_env \<Rightarrow> 't step" where
  "Choice S config tx =
     (let b = tx_builder (sp_tree S) (sp_crypto S) tx; dflt = cfg_str S config ''default_choice'' '''' in
      case GetFirstFromID (tx_CurrentStepID tx) b of
        Inl e \<Rightarrow> (tx, Inl e)
      | Inr chosen \<Rightarrow>
          (case tm_as_map (sp_tree S) (tm_get (sp_tree S) config ''outcome'') of
             None \<Rightarrow> (tx, Inl (ErrText ''value is not a map''))
           | Some outcomes \<Rightarrow>
               (case chosen of
                  None \<Rightarrow>
                    (with_builder S (\<lambda>b. fst (AddStrInput (sp_tree S) (sp_keys S)
                         \<lparr>si_ID = tx_CurrentStepID tx, si_StepType = ''Choice'', si_DefaultValue = dflt, si_Prompt = '''', si_Required = False,
                          si_Pattern = '''', si_Type = '''', si_Value = GArr (map GStr (sort (map fst outcomes)))\<rparr> b)) tx, Inr '''')
                | Some inp \<Rightarrow> (tx, Inr (or_default (tm_as_string (sp_tree S) (tm_new (sp_tree S) (ci_Input inp))) dflt)))))"

subsection \<open>Form\<close>

definition valueInputConfig :: "'t step_env \<Rightarrow> 't \<Rightarrow> ValueInputConfig res" where
  "valueInputConfig S field =
     bind_res (dec_ValueInputConfig (tm_as_struct (sp_tree S) field)) (\<lambda>c.
       Inr (c\<lparr>vi_Required := get_bool_or (sp_tree S) field ''required'' True, vi_StepType := ''Form''\<rparr>))"

text \<open>The loop over the fields: the accepted values and whether an input was requested.\<close>

fun form_fields :: "'t step_env \<Rightarrow> 't list \<Rightarrow> 't JourneyTransaction
    \<Rightarrow> 't JourneyTransaction \<times> ((ValueInputConfig \<times> gval) list \<times> bool) res" where
  "form_fields S [] tx = (tx, Inr ([], False))"
| "form_fields S (field # fds) tx =
     (case valueInputConfig S field of
        Inl e \<Rightarrow> (tx, Inl e)
      | Inr c \<Rightarrow>
          let T = sp_tree S; b = tx_builder T (sp_crypto S) tx;
              continue = (\<lambda>tx' f. case form_fields S fds tx' of (tx2, Inl e) \<Rightarrow> (tx2, Inl e) | (tx2, Inr r) \<Rightarrow> (tx2, Inr (f r)))
          in (case GetFirstFromExternalID (vi_ExternalID c) b of
                None \<Rightarrow>
                  if WasRequested T (sp_keys S) (vi_ExternalID c) (tx_CurrentStepID tx) b \<and> \<not> vi_Required c then continue tx id
                  else (case AddValueInput T (sp_keys S) (Some c) b of
                          (b', Some e) \<Rightarrow> (put_builder b' tx, Inl e)
                        | (b', None) \<Rightarrow> continue (put_builder b' tx) (\<lambda>(acc, _). (acc, True)))
              | Some inp \<Rightarrow>
                  if ci_Input inp = GNil \<and> \<not> vi_Required c then continue tx id
                  else continue tx (\<lambda>(acc, asked). ((c, ci_Input inp) # acc, asked))))"

fun form_save :: "'t step_env \<Rightarrow> ctx_kind \<Rightarrow> string \<Rightarrow> (ValueInputConfig \<times> gval) list \<Rightarrow> 't JourneyTransaction
    \<Rightarrow> 't JourneyTransaction \<times> string res" where
  "form_save S k object [] tx = (tx, Inr ''true'')"
| "form_save S k object ((c, v) # items) tx =
     (let key = (if object \<noteq> '''' then object @ ''.'' @ vi_ID c else vi_ID c); tx1 = ctx_set S k key v tx in
      if vi_UserName c
      then (case v of
              GStr hint \<Rightarrow> form_save S k object items (ctx_set S KClosed (GetContextKey (sp_keys S) ''user_name'') (GStr hint) tx1)
            | _ \<Rightarrow> (tx1, Inl (ErrText (''user_name input '' @ vi_ExternalID c @ '' is not a string''))))
      else form_save S k object items tx1)"

definition Form :: "'t step_env \<Rightarrow> 't step" where
  "Form S config tx =
     (case tm_as_slice (sp_tree S) (tm_get (sp_tree S) config ''inputs'') of
        None \<Rightarrow> (tx, Inl ErrInvalidStepConfig)
      | Some fds \<Rightarrow>
          if fds = [] then (tx, Inl ErrInvalidStepConfig)
          else (case form_fields S fds tx of
                  (tx1, Inl e) \<Rightarrow> (tx1, Inl e)
                | (tx1, Inr (accepted, asked)) \<Rightarrow>
                    if asked then (tx1, Inr '''')
                    else let name = cfg_str S config ''context'' ''ctx'' in
                         (case named_ctx S name tx1 of
                            (tx2, None) \<Rightarrow> (tx2, Inl (StepInvalidConfig (tx_CurrentStepID tx2) (''invalid context: '' @ name)))
                          | (tx2, Some k) \<Rightarrow> form_save S k (cfg_str S config ''object'' '''') accepted tx2)))"

subsection \<open>Retry\<close>

definition Retry :: "'t step_env \<Rightarrow> 't step" where
  "Retry S config tx =
     (let T = sp_tree S; maxAttempts = get_int_or T config ''max_attempts'' 0 in
      if maxAttempts < 1 then (tx, Inl ErrInvalidStepConfig)
      else (case named_ctx S (cfg_str S config ''context'' ''ctx'') tx of
              (tx1, None) \<Rightarrow> (tx1, Inl (ErrText ''retry context is not available''))
            | (tx1, Some k) \<Rightarrow>
                let counter = cfg_str S config ''counter'' '''' in
                if counter = '''' then (tx1, Inl ErrInvalidStepConfig)
                else let attempts = wrap64 (get_int_or T (snd (ctx_read S k tx1)) counter 0 + 1)
                     in (ctx_set S k counter (GInt attempts) tx1, Inr (if attempts < maxAttempts then ''retry'' else ''exhausted''))))"

subsection \<open>Checks of a form\<close>

definition isValueInputType :: "string \<Rightarrow> bool" where
  "isValueInputType ty \<longleftrightarrow> ty \<in> set [''string'', ''int'', ''float'', ''bool'', ''object'']"

definition get_f64_or :: "'t step_env \<Rightarrow> 't \<Rightarrow> string \<Rightarrow> 64 word \<Rightarrow> 64 word" where
  "get_f64_or S t k d = or_default (tm_as_float (sp_tree S) (tm_get (sp_tree S) t k)) d"

definition field_error :: "'t step_env \<Rightarrow> 't \<Rightarrow> string list \<Rightarrow> string list \<Rightarrow> string option" where
  "field_error S field ids externalIDs =
     (let T = sp_tree S; i = cfg_str S field ''id'' ''''; ext = cfg_str S field ''external_id'' '''';
          ty = cfg_str S field ''type'' ''''; dynamic = Contains ty ''${'';
          bounds = (tm_defined T field ''min'' \<or> tm_defined T field ''max'')
      in if i = '''' \<or> ext = '''' then Some ''every input requires id and external_id''
         else if i \<in> set ids then Some (''duplicate context id: '' @ i)
         else if ext \<in> set externalIDs then Some (''duplicate external_id: '' @ ext)
         else if \<not> dynamic \<and> \<not> isValueInputType ty then Some (''unsupported input type: '' @ ty)
         else if \<not> dynamic \<and> cfg_str S field ''pattern'' '''' \<noteq> '''' \<and> ty \<noteq> ''string''
         then Some (''pattern only applies to string input: '' @ ext)
         else if \<not> dynamic \<and> bounds \<and> ty \<noteq> ''string'' \<and> ty \<noteq> ''int'' \<and> ty \<noteq> ''float''
         then Some (''min and max only apply to string or numeric input: '' @ ext)
         else if \<not> dynamic \<and> get_bool_or T field ''user_name'' False \<and> ty \<noteq> ''string'' then Some ''user_name input must be a string''
         else if tm_defined T field ''min'' \<and> tm_defined T field ''max'' \<and> \<not> Contains (cfg_str S field ''min'' '''') ''${''
              \<and> \<not> Contains (cfg_str S field ''max'' '''') ''${'' \<and> f64_less (get_f64_or S field ''max'' 0) (get_f64_or S field ''min'' 0)
         then Some (''input min cannot exceed max: '' @ ext)
         else None)"

fun verify_fields :: "'t step_env \<Rightarrow> string \<Rightarrow> 't list \<Rightarrow> string list \<Rightarrow> string list \<Rightarrow> unit res" where
  "verify_fields S stepName [] ids externalIDs = Inr ()"
| "verify_fields S stepName (field # fds) ids externalIDs =
     (case field_error S field ids externalIDs of
        Some e \<Rightarrow> Inl (StepInvalidConfig stepName e)
      | None \<Rightarrow> verify_fields S stepName fds (cfg_str S field ''id'' '''' # ids) (cfg_str S field ''external_id'' '''' # externalIDs))"

definition Form_VerifyConfig :: "'t step_env \<Rightarrow> string \<Rightarrow> 't \<Rightarrow> unit res" where
  "Form_VerifyConfig S stepName config =
     (if Contains (cfg_str S config ''inputs'' '''') ''${'' then Inr ()
      else (case tm_as_slice (sp_tree S) (tm_get (sp_tree S) config ''inputs'') of
              None \<Rightarrow> Inl (StepInvalidConfig stepName ''at least one input is required'')
            | Some fds \<Rightarrow> if fds = [] then Inl (StepInvalidConfig stepName ''at least one input is required'')
                          else verify_fields S stepName fds [] []))"

subsection \<open>Sub-journeys\<close>

record subJourneyPropsFrame =
  pf_Props :: DefaultMap
  pf_HadPrevious :: bool
  pf_Previous :: gval

definition frame_json :: "subJourneyPropsFrame \<Rightarrow> gval" where
  "frame_json f = GObj ([(''props'', GObj (pf_Props f)), (''had_previous'', GBool (pf_HadPrevious f))] @ omit_any ''previous'' (pf_Previous f))"

definition dec_frame :: "gval \<Rightarrow> subJourneyPropsFrame res" where
  "dec_frame v =
     bind_res (dec_obj (Some v)) (\<lambda>m.
     bind_res (dec_obj (Some (or_default (gm_get m ''props'') GNil))) (\<lambda>props.
     bind_res (dec_bool m ''had_previous'') (\<lambda>had.
       Inr \<lparr>pf_Props = props, pf_HadPrevious = had, pf_Previous = or_default (gm_get m ''previous'') GNil\<rparr>)))"

fun dec_frames :: "gval list \<Rightarrow> subJourneyPropsFrame list res" where
  "dec_frames [] = Inr []"
| "dec_frames (v # vs) = bind_res (dec_frame v) (\<lambda>f. bind_res (dec_frames vs) (\<lambda>fs. Inr (f # fs)))"

definition subJourneyPropsStack :: "'t step_env \<Rightarrow> 't \<Rightarrow> string \<Rightarrow> subJourneyPropsFrame list" where
  "subJourneyPropsStack S propsCtx stackKey =
     (case tm_as_struct (sp_tree S) (tm_get (sp_tree S) propsCtx stackKey) of
        Some (GArr vs) \<Rightarrow> (case dec_frames vs of Inl _ \<Rightarrow> [] | Inr fs \<Rightarrow> fs)
      | _ \<Rightarrow> [])"

definition subJourneyPropsContext :: "'t step_env \<Rightarrow> 't \<Rightarrow> ctx_kind res" where
  "subJourneyPropsContext S config =
     (let c = cfg_str S config ''props_context'' ''closedCtx'' in
      if c = ''closedCtx'' then Inr KClosed
      else if c = ''encCtx'' then Inr KEnc
      else Inl (ErrText ''sub-journey props_context must be closedCtx or encCtx''))"

definition subJourneyConfigProps :: "'t step_env \<Rightarrow> 't \<Rightarrow> DefaultMap res" where
  "subJourneyConfigProps S config =
     (if \<not> tm_defined (sp_tree S) config ''props'' then Inr []
      else (case tm_as_map (sp_tree S) (tm_get (sp_tree S) config ''props'') of
              None \<Rightarrow> Inl (ErrText ''sub-journey props must be an object'') | Some m \<Rightarrow> Inr m))"

definition props_key :: "'t step_env \<Rightarrow> string" where "props_key S = GetContextKey (sp_keys S) ''props''"
definition stack_key :: "'t step_env \<Rightarrow> string" where "stack_key S = GetContextKey (sp_keys S) ''props_stack''"
definition tags_key :: "'t step_env \<Rightarrow> string" where "tags_key S = GetContextKey (sp_keys S) ''tags''"

definition push_props :: "'t step_env \<Rightarrow> DefaultMap \<Rightarrow> 't \<Rightarrow> 't" where
  "push_props S props ctx =
     (let T = sp_tree S;
          frame = \<lparr>pf_Props = props, pf_HadPrevious = tm_defined T ctx (props_key S), pf_Previous = get_any_or T ctx (props_key S) GNil\<rparr>;
          stack = subJourneyPropsStack S ctx (stack_key S) @ [frame]
      in tm_set T (tm_set T ctx (stack_key S) (GArr (map frame_json stack))) (props_key S) (GObj props))"

definition pushSubJourneyProps :: "'t step_env \<Rightarrow> 't \<Rightarrow> 't JourneyTransaction \<Rightarrow> 't JourneyTransaction \<times> unit res" where
  "pushSubJourneyProps S config tx =
     (case subJourneyPropsContext S config of
        Inl e \<Rightarrow> (tx, Inl e)
      | Inr k \<Rightarrow>
          let tx1 = fst (ctx_read S k tx) in
          (case subJourneyConfigProps S config of
             Inl e \<Rightarrow> (tx1, Inl e)
           | Inr props \<Rightarrow> (ctx_update S k (push_props S props) tx1, Inr ())))"

definition pop_props :: "'t step_env \<Rightarrow> 't \<Rightarrow> 't" where
  "pop_props S ctx =
     (let T = sp_tree S; stack = subJourneyPropsStack S ctx (stack_key S) in
      if stack = [] then ctx
      else let frame = last stack; rest = butlast stack;
               ctx1 = (if pf_HadPrevious frame then tm_set T ctx (props_key S) (pf_Previous frame) else tm_try_delete T ctx (props_key S))
           in if rest = [] then tm_try_delete T ctx1 (stack_key S) else tm_set T ctx1 (stack_key S) (GArr (map frame_json rest)))"

definition restoreSubJourneyProps :: "'t step_env \<Rightarrow> 't \<Rightarrow> 't JourneyTransaction \<Rightarrow> 't JourneyTransaction \<times> unit res" where
  "restoreSubJourneyProps S config tx =
     (case subJourneyPropsContext S config of Inl e \<Rightarrow> (tx, Inl e) | Inr k \<Rightarrow> (ctx_update S k (pop_props S) tx, Inr ()))"

fun dec_strings :: "gval list \<Rightarrow> string list option" where
  "dec_strings [] = Some []"
| "dec_strings (GStr s # vs) = map_option (Cons s) (dec_strings vs)"
| "dec_strings (GNil # vs) = map_option (Cons '''') (dec_strings vs)"
| "dec_strings (_ # vs) = None"

definition journey_tags :: "'t step_env \<Rightarrow> 't \<Rightarrow> string list" where
  "journey_tags S closedCtx =
     (case tm_as_struct (sp_tree S) (tm_get (sp_tree S) closedCtx (tags_key S)) of
        Some (GArr vs) \<Rightarrow> or_default (dec_strings vs) []
      | _ \<Rightarrow> [])"

definition hasJourneyTag :: "'t step_env \<Rightarrow> 't \<Rightarrow> string \<Rightarrow> bool" where
  "hasJourneyTag S closedCtx tagName \<longleftrightarrow> list_ex (\<lambda>t. t = tagName) (journey_tags S closedCtx)"

definition add_tag :: "'t step_env \<Rightarrow> string \<Rightarrow> 't \<Rightarrow> 't" where
  "add_tag S tagName closedCtx =
     (let tags = journey_tags S closedCtx;
          tags' = (if list_ex (\<lambda>t. t = tagName) tags then tags else tags @ [tagName])
      in tm_set (sp_tree S) closedCtx (tags_key S) (GArr (map GStr tags')))"

text \<open>The second visit, after the called journey has left its result under the identifier of the step.\<close>

definition sub_journey_return :: "'t step_env \<Rightarrow> string \<Rightarrow> 't step" where
  "sub_journey_return S tagName config tx =
     (case restoreSubJourneyProps S config tx of
        (tx1, Inl e) \<Rightarrow> (tx1, Inl e)
      | (tx1, Inr _) \<Rightarrow>
          let T = sp_tree S; (tx2, closed) = ctx_read S KClosed tx1;
              (closed', removed) = tm_delete T closed (tx_CurrentStepID tx);
              tx3 = ctx_update S KClosed (\<lambda>_. closed') tx2
          in if or_default (tm_as_bool T removed) False
             then (if get_bool_or T config ''set_tag'' False then ctx_update S KClosed (add_tag S tagName) tx3 else tx3, Inr ''true'')
             else (tx3, Inr ''false''))"

definition SubJourney :: "'t step_env \<Rightarrow> 't step" where
  "SubJourney S config tx =
     (let T = sp_tree S in
      case tm_as_string T (tm_get T config ''journey_id'') of
        None \<Rightarrow> (tx, Inl (ErrText ''value is not a string''))
      | Some journeyId \<Rightarrow>
          let tagName = cfg_str S config ''tag_name'' journeyId; (tx1, closed) = ctx_read S KClosed tx in
          if tm_defined T closed (tx_CurrentStepID tx) then sub_journey_return S tagName config tx1
          else if get_bool_or T config ''pass_tag'' False \<and> hasJourneyTag S closed tagName then (tx1, Inr ''true'')
          else (case pushSubJourneyProps S config tx1 of
                  (tx2, Inl e) \<Rightarrow> (tx2, Inl e)
                | (tx2, Inr _) \<Rightarrow>
                    (tx2\<lparr>tx_State := PushTracking journeyId '''' (PushTracking (jc_ID (tx_Journey tx)) (tx_CurrentStepID tx) (tx_State tx2))\<rparr>,
                     Inr '''')))"

subsection \<open>Ends of a journey\<close>

definition response_json :: "'t step_env \<Rightarrow> string \<Rightarrow> string \<Rightarrow> 't \<Rightarrow> gval" where
  "response_json S realm urlKey config =
     GObj ((if realm \<noteq> '''' then [(''realm'', GStr realm)] else []) @
           (if tm_defined (sp_tree S) config urlKey then [(urlKey, GStr (cfg_str S config urlKey ''''))] else []) @
           (if tm_defined (sp_tree S) config ''data'' then [(''data'', get_any_or (sp_tree S) config ''data'' GNil)] else []))"

definition json_type :: string where "json_type = ''application/json; charset=utf-8''"

text \<open>\<open>Success\<close> uses the field of the closed context itself; a nil context panics.\<close>

definition Success :: "'t step_env \<Rightarrow> 't step" where
  "Success S config tx =
     (if ExistsTracking (tx_State tx)
      then (case js_ClosedCtx (tx_State tx) of
              None \<Rightarrow> (tx, Inl (GoPanic ''nil pointer dereference''))
            | Some t \<Rightarrow>
                (tx\<lparr>tx_State := (tx_State tx)\<lparr>js_ClosedCtx := Some (tm_set (sp_tree S) t (snd (GetTracking (tx_State tx))) (GBool True))\<rparr>\<rparr>,
                 Inr ''true''))
      else if tx_Response tx = None then (tx, Inl (ErrText ''response is not available''))
      else (case cr_marshal (sp_crypto S) (response_json S (js_Realm (tx_State tx)) ''success_url'' config) of
              None \<Rightarrow> (tx, Inl (ErrText ''json: unsupported value''))
            | Some text \<Rightarrow> (tx\<lparr>tx_Response := Response_Body json_type text (Status 200 (tx_Response tx))\<rparr>, Inr ''true'')))"

definition Failure :: "'t step_env \<Rightarrow> 't step" where
  "Failure S config tx =
     (if ExistsTracking (tx_State tx)
      then (ctx_set S KClosed (snd (GetTracking (tx_State tx))) (GBool False) tx, Inr ''true'')
      else if tx_Response tx = None then (tx, Inl (ErrText ''response is not available''))
      else let tx1 = tx\<lparr>tx_Response := Status 401 (tx_Response tx)\<rparr> in
           (case cr_marshal (sp_crypto S) (response_json S (js_Realm (tx_State tx)) ''failure_url'' config) of
              None \<Rightarrow> (tx1, Inl (ErrText ''json: unsupported value''))
            | Some text \<Rightarrow> (tx1\<lparr>tx_Response := Response_Body json_type text (tx_Response tx1)\<rparr>, Inr ''true'')))"

definition End :: "'t step_env \<Rightarrow> 't step" where
  "End S config tx =
     (let hasResult = list_ex (\<lambda>k. k = ''result'') (tm_keys (sp_tree S) config);
          result = get_any_or (sp_tree S) config ''result'' GNil
      in if ExistsTracking (tx_State tx) then (ctx_set S KClosed (snd (GetTracking (tx_State tx))) result tx, Inr ''true'')
         else if hasResult then (tx\<lparr>tx_State := SetResult result (tx_State tx)\<rparr>, Inr ''true'')
         else (tx, Inr ''true''))"

subsection \<open>Suspension\<close>

text \<open>\<open>rand\<close> is the text of the random resume identifier.\<close>

definition SuspendFlow :: "'t step_env \<Rightarrow> string res \<Rightarrow> 't step" where
  "SuspendFlow S rand config tx =
     (let T = sp_tree S; key = GetSuspendJourneyKey (sp_keys S); (tx1, closed) = ctx_read S KClosed tx in
      if get_str_or T closed (key @ ''.step_id'') '''' = tx_CurrentStepID tx then (ctx_delete S KClosed key tx1, Inr ''true'')
      else (case rand of
              Inl e \<Rightarrow> (fst (ctx_read S KTemp tx1), Inl e)
            | Inr resumeID \<Rightarrow>
                let uri = ReplaceOnce (cfg_str S config ''uri'' ''{{resume_id}}'') ''{{resume_id}}'' resumeID;
                    tx2 = ctx_set S KClosed (key @ ''.step_id'') (GStr (tx_CurrentStepID tx))
                            (ctx_set S KClosed (key @ ''.journey_id'') (GStr (jc_ID (tx_Journey tx))) (fst (ctx_read S KTemp tx1)));
                    tx3 = ctx_set S KTemp (key @ ''.exp'') (GInt (get_int_or T config ''exp'' 60)) tx2;
                    tx4 = ctx_set S KTemp (key @ ''.uri'') (GStr uri) (ctx_set S KTemp (key @ ''.resume_id'') (GStr resumeID) tx3)
                in (with_builder S (AddMessageInput T (sp_keys S)
                      \<lparr>mg_ID = tx_CurrentStepID tx, mg_StepType = ''SuspendFlow'', mg_Type = '''',
                       mg_Value = (if uri \<noteq> '''' then GObj [(''value'', GStr uri)] else GNil)\<rparr>) tx4, Inr ''true'')))"

subsection \<open>Chains\<close>

definition dec_step :: "gval \<Rightarrow> Step res" where
  "dec_step v =
     bind_res (dec_obj (Some v)) (\<lambda>m. bind_res (dec_str m ''name'') (\<lambda>n. bind_res (dec_str m ''step_type'') (\<lambda>ty.
       Inr \<lparr>st_Name = n, st_StepType = ty, st_Config = or_default (gm_get m ''config'') GNil\<rparr>)))"

fun dec_steps :: "gval list \<Rightarrow> Step list res" where
  "dec_steps [] = Inr []"
| "dec_steps (v # vs) = bind_res (dec_step v) (\<lambda>s. bind_res (dec_steps vs) (\<lambda>ss. Inr (s # ss)))"

definition chain_config_steps :: "'t step_env \<Rightarrow> 't \<Rightarrow> Step list res" where
  "chain_config_steps S config =
     (case tm_as_struct (sp_tree S) (tm_get (sp_tree S) config ''steps'') of
        Some (GArr vs) \<Rightarrow> dec_steps vs
      | Some GNil \<Rightarrow> Inr []
      | _ \<Rightarrow> Inl (ErrText ''json: cannot unmarshal into slice''))"

text \<open>\<open>reg\<close> is the transaction's registry and \<open>resolvers\<close> its placeholder resolvers.\<close>

fun chain_steps :: "'t step_env \<Rightarrow> 't Steps option \<Rightarrow> resolver gomap \<Rightarrow> nat \<Rightarrow> Step list \<Rightarrow> string \<Rightarrow> 't JourneyTransaction
    \<Rightarrow> 't JourneyTransaction \<times> string res" where
  "chain_steps S reg resolvers index [] outcome tx = (tx, Inr outcome)"
| "chain_steps S reg resolvers index (step # steps) outcome tx =
     (case (case reg of None \<Rightarrow> None | Some r \<Rightarrow> GetStep r (st_StepType step)) of
        None \<Rightarrow> (tx, Inl (StepNotFound (st_StepType step)))
      | Some current \<Rightarrow>
          (case ExecuteStepConfig (sp_tree S) (sp_crypto S) (sp_text S) resolvers current (st_Config step)
                  (tx\<lparr>tx_CurrentStepID := jc_ID (tx_Journey tx) @ nat_str index\<rparr>) of
             (tx1, Inl e) \<Rightarrow> (tx1, Inl e)
           | (tx1, Inr o1) \<Rightarrow> chain_steps S reg resolvers (Suc index) steps (if o1 \<noteq> '''' then o1 else outcome) tx1))"

definition Chain :: "'t step_env \<Rightarrow> 't Steps option \<Rightarrow> resolver gomap \<Rightarrow> 't step" where
  "Chain S reg resolvers config tx =
     (case chain_config_steps S config of
        Inl _ \<Rightarrow> (tx, Inl ErrInvalidStepConfig)
      | Inr steps \<Rightarrow>
          let original = tx_CurrentStepID tx; leave = (\<lambda>t. t\<lparr>tx_ChainStepID := '''', tx_CurrentStepID := original\<rparr>) in
          (case chain_steps S reg resolvers 0 steps '''' (tx\<lparr>tx_ChainStepID := original\<rparr>) of
             (tx1, Inl e) \<Rightarrow> (leave tx1, Inl e)
           | (tx1, Inr outcome) \<Rightarrow>
               if tx_newClientInputs tx1 \<noteq> [] then (leave tx1, Inr '''')
               else (leave (ctx_delete S KClosed original tx1), Inr outcome)))"

definition BLACKLIST_STEPS_CHAIN :: "string list" where
  "BLACKLIST_STEPS_CHAIN = [''Chain'', ''SubJourney'', ''AsyncWait'', ''AsyncExec'']"

text \<open>\<open>known\<close> and \<open>check\<close> are \<open>GetStep\<close> and \<open>ValidateStep\<close> of the registry.\<close>

fun verify_chain :: "(string \<Rightarrow> bool) \<Rightarrow> (Step \<Rightarrow> unit res) \<Rightarrow> string \<Rightarrow> Step list \<Rightarrow> unit res" where
  "verify_chain known check stepName [] = Inr ()"
| "verify_chain known check stepName (step # steps) =
     (if st_StepType step \<in> set BLACKLIST_STEPS_CHAIN
      then Inl (StepInvalidConfig stepName 
             (''Chain steps can'' @ [CHR 0x27] @ ''t contain '' @ [CHR 0x27] @ st_StepType step @ [CHR 0x27] @ '' steps''))
      else if known (st_StepType step)
      then bind_res (check step) (\<lambda>_. verify_chain known check stepName steps)
      else verify_chain known check stepName steps)"

definition dec_string_values :: "gval gomap \<Rightarrow> bool" where
  "dec_string_values m = list_all (\<lambda>p. case snd p of GStr _ \<Rightarrow> True | GNil \<Rightarrow> True | _ \<Rightarrow> False) m"

text \<open>The whole configuration is decoded into the step's struct, its steps and its outcomes.\<close>

definition Chain_VerifyConfig :: "'t step_env \<Rightarrow> (string \<Rightarrow> bool) \<Rightarrow> (Step \<Rightarrow> unit res) \<Rightarrow> string \<Rightarrow> 't \<Rightarrow> unit res" where
  "Chain_VerifyConfig S known check stepName config =
     bind_res (dec_obj (tm_as_struct (sp_tree S) config)) (\<lambda>m.
     bind_res (case gm_get m ''steps'' of None \<Rightarrow> Inr [] | Some GNil \<Rightarrow> Inr [] | Some (GArr vs) \<Rightarrow> dec_steps vs
               | _ \<Rightarrow> Inl (ErrText ''json: cannot unmarshal into slice'')) (\<lambda>steps.
     bind_res (dec_obj (Some (or_default (gm_get m ''outcome'') GNil))) (\<lambda>outcome.
       if dec_string_values outcome then verify_chain known check stepName steps
       else Inl (ErrText ''json: cannot unmarshal into string''))))"

end
