(* ===== verification/StepFacts.thy ===== *)
theory StepFacts
  imports FlowSteps
begin

text \<open>
  What the facts about the routing steps rest on: the laws of the tree container, how a step sees the contexts
  of the state, and a concrete environment.
\<close>

subsection \<open>The tree container\<close>

text \<open>
  What the steps rely on of \<^verbatim>\<open>goutils.TreeMapImpl\<close> for keys without dots: a value that was set is read
  back and no other key changes; \<open>Delete\<close> removes a key and returns what it held; \<open>IsDefined\<close> says
  whether there is a value; the typed readers return values of their type, \<open>AsStruct\<close> decodes JSON data.
\<close>

definition key_ok :: "string \<Rightarrow> bool" where
  "key_ok k \<longleftrightarrow> k \<noteq> '''' \<and> CHR ''.'' \<notin> set k"

definition json_normal :: "gval \<Rightarrow> bool" where
  "json_normal v \<longleftrightarrow> json_ok v \<and> json_any v = v"

definition obs :: "'t treemap \<Rightarrow> 't \<Rightarrow> string \<Rightarrow> gval option" where
  "obs T t k = tm_as_any T (tm_get T t k)"

locale context_tree =
  fixes T :: "'t treemap"
  assumes obs_set: "key_ok k \<Longrightarrow> obs T (tm_set T t k v) k = (if v = GNil then None else Some v)"
    and get_set_other: "key_ok k \<Longrightarrow> key_ok k' \<Longrightarrow> k' \<noteq> k \<Longrightarrow> tm_get T (tm_set T t k v) k' = tm_get T t k'"
    and delete_value: "key_ok k \<Longrightarrow> snd (tm_delete T t k) = tm_get T t k"
    and obs_delete: "key_ok k \<Longrightarrow> obs T (fst (tm_delete T t k)) k = None"
    and get_delete_other: "key_ok k \<Longrightarrow> key_ok k' \<Longrightarrow> k' \<noteq> k \<Longrightarrow> tm_get T (fst (tm_delete T t k)) k' = tm_get T t k'"
    and obs_try_delete: "key_ok k \<Longrightarrow> obs T (tm_try_delete T t k) k = None"
    and get_try_delete_other: "key_ok k \<Longrightarrow> key_ok k' \<Longrightarrow> k' \<noteq> k \<Longrightarrow> tm_get T (tm_try_delete T t k) k' = tm_get T t k'"
    and defined_obs: "key_ok k \<Longrightarrow> tm_defined T t k \<longleftrightarrow> obs T t k \<noteq> None"
    and as_bool: "tm_as_any T x = Some (GBool b) \<Longrightarrow> tm_as_bool T x = Some b"
    and as_int: "tm_as_any T x = Some (GInt i) \<Longrightarrow> tm_as_int T x = Some i"
    and as_int_none: "tm_as_any T x = None \<Longrightarrow> tm_as_int T x = None"
    and as_struct: "tm_as_any T x = Some v \<Longrightarrow> json_normal v \<Longrightarrow> tm_as_struct T x = Some v"
    and as_struct_none: "tm_as_any T x = None \<Longrightarrow> tm_as_struct T x = None \<or> tm_as_struct T x = Some GNil"
begin

lemma obs_set_all: "key_ok k \<Longrightarrow> key_ok k' \<Longrightarrow> obs T (tm_set T t k v) k' = (if k' = k then (if v = GNil then None else Some v) else obs T t k')"
  using obs_set get_set_other by (auto simp: obs_def)

lemma obs_delete_all: "key_ok k \<Longrightarrow> key_ok k' \<Longrightarrow> obs T (fst (tm_delete T t k)) k' = (if k' = k then None else obs T t k')"
  using obs_delete get_delete_other by (auto simp: obs_def)

lemma obs_try_delete_all: "key_ok k \<Longrightarrow> key_ok k' \<Longrightarrow> obs T (tm_try_delete T t k) k' = (if k' = k then None else obs T t k')"
  using obs_try_delete get_try_delete_other by (auto simp: obs_def)

lemmas obs_simps = obs_set_all obs_delete_all obs_try_delete_all

end

lemma rt_path_key: "key_ok k \<Longrightarrow> rt_path k = [k]"
  by (simp add: rt_path_def key_ok_def Split_no_sep)

lemma rt_set_get: "rt_get (rt_set t [k] v) [k'] = (if k' = k then v else rt_get t [k'])"
  by (cases t) (auto split: option.splits)

lemma rt_del_get: "rt_get (rt_del t [k]) [k'] = (if k' = k then GNil else rt_get t [k'])"
  by (cases t) auto

interpretation ref: context_tree ref_tree
  by unfold_locales
    (auto simp: ref_tree_def obs_def rt_path_key rt_set_get rt_del_get split: if_splits)

subsection \<open>Reading and changing contexts\<close>

definition ctx_view :: "'t step_env \<Rightarrow> ctx_kind \<Rightarrow> 't JourneyTransaction \<Rightarrow> 't" where
  "ctx_view S k tx = snd (get_kind (sp_tree S) (sp_crypto S) k (tx_State tx))"

lemma get_kind_other:
  "snd (get_kind T K k (put_kind k' t js)) = (if k' = k then t else snd (get_kind T K k js))"
  by (cases k; cases k') (auto simp: GetCtx_def GetEncryptedCtx_def GetClosedCtx_def GetTempCtx_def Let_def split: option.split sum.split)

lemma get_kind_fst: "snd (get_kind T K k (fst (get_kind T K k' js))) = snd (get_kind T K k js)"
  by (cases k; cases k')
    (auto simp: GetCtx_def GetEncryptedCtx_def GetClosedCtx_def GetTempCtx_def Let_def split: option.split sum.split)

lemma view_read [simp]: "ctx_view S k (fst (ctx_read S k' tx)) = ctx_view S k tx"
  by (simp add: ctx_view_def ctx_read_def split_beta get_kind_fst)

lemma snd_read [simp]: "snd (ctx_read S k tx) = ctx_view S k tx"
  by (simp add: ctx_view_def ctx_read_def split_beta)

lemma view_update [simp]: "ctx_view S k (ctx_update S k' f tx) = (if k' = k then f (ctx_view S k tx) else ctx_view S k tx)"
  by (auto simp: ctx_view_def ctx_update_def split_beta get_kind_other get_kind_fst)

lemma read_keeps [simp]:
  "tx_CurrentStepID (fst (ctx_read S k tx)) = tx_CurrentStepID tx" "tx_Journey (fst (ctx_read S k tx)) = tx_Journey tx"
  "js_frames (tx_State (fst (ctx_read S k tx))) = js_frames (tx_State tx)"
  by (simp_all add: ctx_read_def split_beta)

lemma update_keeps [simp]:
  "tx_CurrentStepID (ctx_update S k f tx) = tx_CurrentStepID tx" "tx_Journey (ctx_update S k f tx) = tx_Journey tx"
  "js_frames (tx_State (ctx_update S k f tx)) = js_frames (tx_State tx)"
  by (simp_all add: ctx_update_def split_beta)

lemma view_frames [simp]: "snd (get_kind T K k (PushTracking j s js)) = snd (get_kind T K k js)"
  "snd (get_kind T K k (fst (PopTracking js))) = snd (get_kind T K k js)"
  by (cases k; simp add: PushTracking_def PopTracking_def GetCtx_def GetEncryptedCtx_def GetClosedCtx_def GetTempCtx_def Let_def
      split: option.split sum.split)+

subsection \<open>Steps and the executor's bookkeeping\<close>

text \<open>A step that leaves the counters of the tick limit and the journey in execution as they are. All routing
  steps are such, when the expression evaluator is, and a chain of such steps.\<close>

definition bookkeeping :: "'t JourneyTransaction \<Rightarrow> (int \<times> int) gomap \<times> JourneyConfiguration" where
  "bookkeeping tx = (tx_Ticks tx, tx_Journey tx)"

definition keeps_ticks :: "'t step \<Rightarrow> bool" where
  "keeps_ticks f \<longleftrightarrow> (\<forall>c tx. bookkeeping (fst (f c tx)) = bookkeeping tx)"

lemma bookkeeping_updates [simp]:
  "bookkeeping (tx\<lparr>tx_State := st\<rparr>) = bookkeeping tx" "bookkeeping (tx\<lparr>tx_Response := r\<rparr>) = bookkeeping tx"
  "bookkeeping (tx\<lparr>tx_CurrentStepID := i\<rparr>) = bookkeeping tx" "bookkeeping (tx\<lparr>tx_ChainStepID := i\<rparr>) = bookkeeping tx"
  "bookkeeping (tx\<lparr>tx_ChainStepID := i, tx_CurrentStepID := i'\<rparr>) = bookkeeping tx"
  by (simp_all add: bookkeeping_def)

lemma bookkeeping_contexts [simp]:
  "bookkeeping (fst (ctx_read S k tx)) = bookkeeping tx" "bookkeeping (ctx_update S k f tx) = bookkeeping tx"
  "bookkeeping (ctx_set S k p v tx) = bookkeeping tx" "bookkeeping (ctx_delete S k p tx) = bookkeeping tx"
  "bookkeeping (fst (named_ctx S name tx)) = bookkeeping tx"
  by (simp_all add: ctx_read_def ctx_update_def ctx_set_def ctx_delete_def named_ctx_def split_beta)

lemma bookkeeping_builder [simp]: "bookkeeping (put_builder b tx) = bookkeeping tx" "bookkeeping (with_builder S f tx) = bookkeeping tx"
  by (simp_all add: with_builder_def put_builder_def bookkeeping_def Let_def split: ctx_ref.splits)

lemma pair_bookkeeping: "f = (tx', r) \<Longrightarrow> bookkeeping (fst f) = b \<Longrightarrow> bookkeeping tx' = b"
  by simp

lemmas read_bookkeeping = pair_bookkeeping [OF _ bookkeeping_contexts(1)] pair_bookkeeping [OF _ bookkeeping_contexts(5)]

lemma plain_steps_keep_ticks:
  "keeps_ticks (Condition S)" "keeps_ticks (NotEmpty S)" "keeps_ticks (Choice S)" "keeps_ticks (Retry S)"
  "keeps_ticks (Success S)" "keeps_ticks (Failure S)" "keeps_ticks (End S)" "keeps_ticks (SuspendFlow S rand)"
  by (auto simp: keeps_ticks_def Condition_def NotEmpty_def Choice_def Retry_def Success_def Failure_def End_def SuspendFlow_def
      Let_def dest: read_bookkeeping split: option.splits sum.splits prod.splits if_splits)

lemma sub_journey_keeps_ticks: "keeps_ticks (SubJourney S)"
proof -
  have push: "bookkeeping (fst (pushSubJourneyProps S c tx)) = bookkeeping tx" for c tx
    by (auto simp: pushSubJourneyProps_def Let_def split: sum.splits)
  have ret: "bookkeeping (fst (sub_journey_return S t c tx)) = bookkeeping tx" for t c tx
    by (auto simp: sub_journey_return_def restoreSubJourneyProps_def Let_def dest!: read_bookkeeping
        split: sum.splits prod.splits)
  show ?thesis
    by (auto simp: keeps_ticks_def SubJourney_def Let_def ret dest!: read_bookkeeping pair_bookkeeping [OF _ push]
        split: option.splits prod.splits sum.splits)
qed

lemma form_keeps_ticks: "keeps_ticks (Form S)"
proof -
  have asks: "bookkeeping (fst (form_fields S fds tx)) = bookkeeping tx" for fds tx
  proof (induction fds arbitrary: tx)
    case (Cons fd fds)
    have go: "form_fields S fds t = (tx', r) \<Longrightarrow> bookkeeping tx' = bookkeeping t" for t tx' r
      using Cons.IH [of t] by simp
    show ?case
      by (auto simp: Let_def dest!: go split: sum.splits option.splits prod.splits)
  qed simp
  have save: "bookkeeping (fst (form_save S k ob items tx)) = bookkeeping tx" for k ob items tx
    by (induction S k ob items tx rule: form_save.induct) (auto simp: Let_def split: gval.splits)
  show ?thesis
    by (auto simp: keeps_ticks_def Form_def Let_def save dest!: pair_bookkeeping [OF _ asks] read_bookkeeping
        split: option.splits prod.splits sum.splits)
qed

lemma expression_steps_keep_ticks:
  assumes "\<And>e tx. bookkeeping (fst (sp_eval S e tx)) = bookkeeping tx"
  shows "keeps_ticks (IfExpression S)" "keeps_ticks (SwitchExpression S)" "keeps_ticks (Assert S)"
proof -
  note ev = pair_bookkeeping [OF _ assms]
  have sw: "bookkeeping (fst (switch_first S items tx)) = bookkeeping tx" for items tx
    by (induction items arbitrary: tx) (auto dest!: ev split: prod.splits sum.splits)
  have rules: "bookkeeping (fst (assert_rules S rules tx)) = bookkeeping tx" for rules tx
  proof (induction rules arbitrary: tx)
    case (Cons rule rules)
    have go: "assert_rules S rules t = (tx', r) \<Longrightarrow> bookkeeping tx' = bookkeeping t" for t tx' r
      using Cons.IH [of t] by simp
    show ?case by (auto dest!: ev go split: prod.splits sum.splits gval.splits option.splits)
  qed simp
  show "keeps_ticks (IfExpression S)"
    by (auto simp: keeps_ticks_def IfExpression_def dest!: ev split: prod.splits sum.splits)
  show "keeps_ticks (SwitchExpression S)"
    by (auto simp: keeps_ticks_def SwitchExpression_def sw split: option.splits)
  show "keeps_ticks (Assert S)"
    by (auto simp: keeps_ticks_def Assert_def Let_def dest!: pair_bookkeeping [OF _ rules] read_bookkeeping
        split: option.splits prod.splits)
qed

lemma ExecuteStepConfig_bookkeeping:
  assumes "keeps_ticks (is_Execute step)"
  shows "bookkeeping (fst (ExecuteStepConfig T K P R step cfg tx)) = bookkeeping tx"
  using assms by (auto simp: ExecuteStepConfig_def keeps_ticks_def split: prod.splits sum.splits)

lemma chain_keeps_ticks:
  assumes "\<And>r ty step. reg = Some r \<Longrightarrow> GetStep r ty = Some step \<Longrightarrow> keeps_ticks (is_Execute step)"
  shows "keeps_ticks (Chain S reg resolvers)"
proof -
  have steps: "bookkeeping (fst (chain_steps S reg resolvers n steps oc tx)) = bookkeeping tx" for n steps oc tx
  proof (induction steps arbitrary: n oc tx)
    case (Cons step steps)
    show ?case
    proof (cases "case reg of None \<Rightarrow> None | Some r \<Rightarrow> GetStep r (st_StepType step)")
      case (Some current)
      then have "keeps_ticks (is_Execute current)" using assms by (auto split: option.splits)
      from ExecuteStepConfig_bookkeeping [OF this, of "sp_tree S" "sp_crypto S" "sp_text S" resolvers "st_Config step"
          "tx\<lparr>tx_CurrentStepID := jc_ID (tx_Journey tx) @ nat_str n\<rparr>"] Some
      show ?thesis by (auto simp: Cons.IH split: prod.splits sum.splits)
    qed simp
  qed simp
  show ?thesis
    by (auto simp: keeps_ticks_def Chain_def Let_def dest!: pair_bookkeeping [OF _ steps] split: prod.splits sum.splits)
qed

subsection \<open>A concrete environment\<close>

definition flow_env :: "gval step_env" where
  "flow_env = \<lparr>sp_tree = ref_tree, sp_crypto = no_crypto, sp_keys = unset_env, sp_text = plain_text, sp_eval = (\<lambda>e tx. (tx, Inr (GBool True)))\<rparr>"

definition flow_tx :: "ClientInput option list \<Rightarrow> gval JourneyState \<Rightarrow> gval JourneyTransaction" where
  "flow_tx cis st = (new_transaction \<lparr>je_Payload = None, je_IsConfidential = False, je_Request = None, je_Response = None\<rparr>
     empty_payload tiny_journey st (NewClientInputBuilder cis (GObj [])))\<lparr>tx_CurrentStepID := ''s''\<rparr>"

end
