(* ===== verification/ExecutionFacts.thy ===== *)
theory ExecutionFacts
  imports StepFacts
begin

text \<open>
  Properties of the executor: which invocations are admitted, single use of tokens and resume
  identifiers, what a pause preserves for the next interaction, how nested journeys end, and that
  the tick limit makes the step loop return.
\<close>

subsection \<open>Admission\<close>

abbreviation resumes :: "JourneyPayloadReq \<Rightarrow> bool" where
  "resumes req \<equiv> jp_ResumeID req \<noteq> '''' \<or> TokenPresent req"

lemma select_state_one_mode: "select_state jm req ms = (ms', Inr x) \<Longrightarrow> selected_modes req = 1"
  by (auto simp: select_state_def split: if_splits)

lemma GetJourneyState_ok:
  assumes "GetJourneyState jm (Some req) isConf ms = (ms', Inr (st, conf))"
  shows "\<exists>ms1 st0 jid st1. select_state jm req ms = (ms1, Inr (st0, jid)) \<and> open_state jm st0 = Inr st1 \<and>
    loadJourney jm jid ms1 = (ms', Inr conf) \<and> jc_Active conf \<and>
    (jc_Confidential conf \<longrightarrow> isConf \<or> resumes req) \<and> \<not> realm_mismatch req conf \<and>
    st = (if resumes req then st1 else start_state (jm_tree jm) req jid conf st1)"
proof -
  from assms obtain ms1 st0 jid where s: "select_state jm req ms = (ms1, Inr (st0, jid))"
    by (auto simp: GetJourneyState_def split: prod.splits sum.splits)
  with assms obtain st1 where o: "open_state jm st0 = Inr st1"
    by (auto simp: GetJourneyState_def split: prod.splits sum.splits)
  obtain ms2 r where l: "loadJourney jm jid ms1 = (ms2, r)" by force
  from assms s o l show ?thesis
    by (cases r) (auto simp: GetJourneyState_def Let_def split: if_splits)
qed

lemma start_state_tracking:
  assumes "trackings st = []"
  shows "trackings (start_state T req jid conf st) = [frame jid (jc_StartStepID conf)]"
  using assms
  by (auto simp: start_state_def Let_def PushTracking_def trackings_def SetRealm_def GetCtx_def split: option.splits)

lemma open_state_frame:
  "open_state jm st = Inr st' \<Longrightarrow> js_TrackingsID st' = js_TrackingsID st \<and> js_Realm st' = js_Realm st \<and>
     js_Exp st' = js_Exp st \<and> js_Jti st' = js_Jti st \<and> js_Ctx st' = js_Ctx st \<and> js_ClosedCtx st' = js_ClosedCtx st"
  by (auto simp: open_state_def Let_def Init_def SetEncryptionKey_def GetEncryptedCtx_def
      split: if_splits option.splits sum.splits)

lemma start_state_realm: "js_Realm (start_state T req jid conf st) =
    (case jp_realm req of None \<Rightarrow> jc_Realm conf | Some r \<Rightarrow> if rl_Name r \<noteq> '''' then rl_Name r else jc_Realm conf)"
  by (auto simp: start_state_def Let_def PushTracking_def SetRealm_def GetCtx_def split: option.splits)

text \<open>C1: An invocation is admitted only when it names exactly one of a journey, a resume identifier and a token;
  its journey is active; a confidential journey is started by a confidential caller only; the journey
  belongs to the realm of the request when the request names one; and a started journey has its start
  step as its only frame and carries the realm of its configuration.\<close>

theorem invocation_admitted:
  assumes "GetJourneyState jm (Some req) isConf ms = (ms', Inr (st, conf))"
  shows "selected_modes req = 1 \<and> jc_Active conf \<and>
    (\<not> resumes req \<longrightarrow> jc_Confidential conf \<longrightarrow> isConf) \<and>
    (\<forall>r. jp_realm req = Some r \<and> rl_Name r \<noteq> '''' \<longrightarrow> jc_Realm conf = rl_Name r) \<and>
    (\<not> resumes req \<longrightarrow> trackings st = [frame (jp_JourneyID req) (jc_StartStepID conf)] \<and> js_Realm st = jc_Realm conf)"
proof -
  from GetJourneyState_ok [OF assms] obtain ms1 st0 jid st1 where
    s: "select_state jm req ms = (ms1, Inr (st0, jid))" and o: "open_state jm st0 = Inr st1"
    and a: "jc_Active conf" "jc_Confidential conf \<longrightarrow> isConf \<or> resumes req" "\<not> realm_mismatch req conf"
    and st: "st = (if resumes req then st1 else start_state (jm_tree jm) req jid conf st1)"
    by blast
  have realm: "jc_Realm conf = rl_Name r" if "jp_realm req = Some r" "rl_Name r \<noteq> ''''" for r
    using a(3) that by (simp add: realm_mismatch_def)
  have "trackings st = [frame (jp_JourneyID req) (jc_StartStepID conf)] \<and> js_Realm st = jc_Realm conf" if n: "\<not> resumes req"
  proof -
    from n s have jid: "jid = jp_JourneyID req" and st0: "js_TrackingsID st0 = None"
      by (auto simp: select_state_def zero_state_def split: if_splits)
    from open_state_frame [OF o] st0 have "trackings st1 = []" by (simp add: trackings_def)
    from start_state_tracking [OF this] n st jid realm show ?thesis
      by (auto simp: start_state_realm split: option.splits)
  qed
  with select_state_one_mode [OF s] a realm show ?thesis by blast
qed

lemma loadJourney_states [simp]:
  "ms_states (fst (loadJourney jm j ms)) = ms_states ms" "ms_tokens (fst (loadJourney jm j ms)) = ms_tokens ms"
  "ms_now (fst (loadJourney jm j ms)) = ms_now ms"
  by (auto simp: loadJourney_def split: sum.splits option.splits prod.splits)

subsection \<open>The tick limit makes execution return\<close>

definition step_ids :: "JourneyConfiguration \<Rightarrow> string set" where
  "step_ids j = fst ` set (jc_Steps j)"

definition cache_within :: "string set \<Rightarrow> runtime_state \<Rightarrow> bool" where
  "cache_within ids rt \<longleftrightarrow> (\<forall>key v j. gm_get (rt_entries rt) key = Some (v, j) \<longrightarrow> step_ids j \<subseteq> ids)"

definition storage_within :: "string set \<Rightarrow> ('t, 'c, 's, 'k) journeyManager \<Rightarrow> bool" where
  "storage_within ids jm \<longleftrightarrow> (\<forall>i j. jm_storage jm i = Inr (Some j) \<longrightarrow> step_ids j \<subseteq> ids)"

lemma compile_steps_keys: "compile_steps R steps c = (c', Inr steps') \<Longrightarrow> map fst steps' = map fst steps"
  by (induction R steps c arbitrary: c' steps' rule: compile_steps.induct)
     (fastforce simp: res_iff simp del: GenerateConfig.simps split: prod.splits sum.splits)+

lemma compile_ids: "compileRuntimeJourney R j c = (c', Inr j') \<Longrightarrow> step_ids j' = step_ids j"
proof -
  assume a: "compileRuntimeJourney R j c = (c', Inr j')"
  then obtain j1 ss where j1: "json_journey j = Inr j1" and c: "compile_steps R (jc_Steps j1) c = (c', Inr ss)"
    and j': "j' = j1\<lparr>jc_Steps := ss\<rparr>"
    by (auto simp: compileRuntimeJourney_def res_iff split: sum.splits prod.splits)
  have "map fst (jc_Steps j1) = map fst (jc_Steps j)"
    using j1 by (auto simp: json_journey_def comp_def split_beta split: if_splits)
  then have "fst ` set (jc_Steps j1) = fst ` set (jc_Steps j)" by (metis list.set_map)
  moreover have "fst ` set ss = fst ` set (jc_Steps j1)"
    using compile_steps_keys [OF c] by (metis list.set_map)
  ultimately show ?thesis by (simp add: step_ids_def j')
qed

lemma commit_within:
  assumes "commit_journey key v j s = (s', current)" "cache_within ids s" "step_ids j \<subseteq> ids"
  shows "cache_within ids s' \<and> step_ids current \<subseteq> ids"
proof (cases "cached_journey key v s")
  case None
  with assms(1) have "current = j" "s' = s\<lparr>rt_entries := gm_put key (v, j) (rt_entries s)\<rparr>" by (auto simp: commit_journey_def)
  with assms(2,3) show ?thesis by (simp add: cache_within_def)
next
  case (Some j')
  with cached_entry [OF Some] assms show ?thesis by (auto simp: commit_journey_def cache_within_def)
qed

lemma compile_into_within:
  assumes "compile_into R j key v s = (s', r)" "cache_within ids s" "step_ids j \<subseteq> ids"
  shows "cache_within ids s' \<and> (\<forall>j'. r = Inr j' \<longrightarrow> step_ids j' \<subseteq> ids)"
proof -
  obtain c x where c: "compileRuntimeJourney R j (rt_env s) = (c, x)" by force
  show ?thesis
  proof (cases x)
    case (Inl e)
    with assms(1) c have "s' = s\<lparr>rt_env := c\<rparr>" "r = Inl e" by (simp_all add: compile_into_def)
    with assms(2) show ?thesis by (simp add: cache_within_def)
  next
    case (Inr j')
    obtain s2 current where k: "commit_journey key v j' (s\<lparr>rt_env := c\<rparr>) = (s2, current)" by force
    with assms(1) c Inr have "s' = s2" "r = Inr current" by (simp_all add: compile_into_def)
    moreover have "step_ids j' \<subseteq> ids" using compile_ids c Inr assms(3) by blast
    moreover have "cache_within ids (s\<lparr>rt_env := c\<rparr>)" using assms(2) by (simp add: cache_within_def)
    ultimately show ?thesis using commit_within [OF k] by blast
  qed
qed

lemma runtimeJourney_within:
  assumes "runtimeJourney R (Some j) s = (s', r)" "cache_within ids s" "step_ids j \<subseteq> ids"
  shows "cache_within ids s' \<and> (\<forall>j'. r = Inr j' \<longrightarrow> step_ids j' \<subseteq> ids)"
proof (cases "\<exists>key v. compile_into R j key v s = (s', r)")
  case True
  with compile_into_within assms(2,3) show ?thesis by blast
next
  case False
  with assms(1) have "s' = s \<and> ((\<exists>e. r = Inl e) \<or> (\<exists>key v j'. cached_journey key v s = Some j' \<and> r = Inr j'))"
    by (auto simp: runtimeJourney_def split: sum.splits option.splits prod.splits)
  with assms(2) show ?thesis by (auto simp: cache_within_def dest!: cached_entry)
qed

lemma loadJourney_within:
  assumes "loadJourney jm i ms = (ms', r)" "storage_within ids jm" "cache_within ids (ms_runtime ms)"
  shows "cache_within ids (ms_runtime ms') \<and> (\<forall>j. r = Inr j \<longrightarrow> step_ids j \<subseteq> ids)"
proof (cases "\<exists>j. jm_storage jm i = Inr (Some j) \<and> jc_Active j")
  case False
  with assms(1) have "ms' = ms \<and> r = Inl ErrJourneyNotFound"
    by (auto simp: loadJourney_def split: sum.splits option.splits)
  with assms(3) show ?thesis by simp
next
  case True
  then obtain j where j: "jm_storage jm i = Inr (Some j)" "jc_Active j" by blast
  obtain rt x where r: "runtimeJourney (jm_rt jm) (Some j) (ms_runtime ms) = (rt, x)" by force
  have "step_ids j \<subseteq> ids" using assms(2) j(1) by (simp add: storage_within_def)
  from runtimeJourney_within [OF r assms(3) this] assms(1) j r show ?thesis
    by (auto simp: loadJourney_def)
qed

text \<open>How often a step has run, and how many runs are left before the limit, over a finite set of steps.\<close>

definition tick_count :: "'t JourneyTransaction \<Rightarrow> string \<Rightarrow> int" where
  "tick_count tx i = fst (or_default (gm_get (tx_Ticks tx) i) (0, 0))"

definition budget :: "string set \<Rightarrow> 't JourneyTransaction \<Rightarrow> nat" where
  "budget ids tx = (\<Sum>i \<in> ids. nat (GetMaxTickCount - tick_count tx i))"

definition ticks_ok :: "'t JourneyTransaction \<Rightarrow> bool" where
  "ticks_ok tx \<longleftrightarrow> (\<forall>i. 0 \<le> tick_count tx i \<and> tick_count tx i \<le> GetMaxTickCount)"

text \<open>The one case in which the limit lets a step run again: it has used up its runs, and at least the window of
  two seconds has passed since its last run.\<close>

definition overdue :: "('t, 'c, 's, 'k) journeyManager \<Rightarrow> 't JourneyTransaction \<Rightarrow> bool" where
  "overdue jm tx \<longleftrightarrow> (case or_default (gm_get (tx_Ticks tx) (tx_CurrentStepID tx)) (0, 0) of
     (count, at) \<Rightarrow> GetMaxTickCount \<le> count \<and> GetMinTickWindowMs \<le> wrap64 (jm_clock jm (tx_reads tx) - at))"

text \<open>Step implementations leave the executor's bookkeeping alone.\<close>

definition steps_keep :: "('t, 'c, 's, 'k) journeyManager \<Rightarrow> bool" where
  "steps_keep jm \<longleftrightarrow> (\<forall>ty step. GetStep (jm_steps jm) ty = Some step \<longrightarrow> keeps_ticks (is_Execute step))"

lemma debug_event_ticks [simp]: "bookkeeping (debug_event jm tx) = bookkeeping tx"
  "tx_reads (debug_event jm tx) = tx_reads tx" "tx_CurrentStepID (debug_event jm tx) = tx_CurrentStepID tx"
  by (simp_all add: debug_event_def EmitEvent_def bookkeeping_def)

lemma EmitEvent_ticks [simp]: "bookkeeping (EmitEvent e tx) = bookkeeping tx" "tx_reads (EmitEvent e tx) = tx_reads tx"
  by (simp_all add: EmitEvent_def bookkeeping_def)

lemma after_step_ticks: "after_step jm cfg step i outcome tx = (tx', r) \<Longrightarrow> bookkeeping tx' = bookkeeping tx \<and> tx_reads tx' = tx_reads tx"
  by (auto simp: after_step_def Let_def resetClientInputs_def clear_requests_def bookkeeping_def EmitEvent_def put_builder_def
      split: if_splits sum.splits ctx_ref.splits)

lemma bookkeepingD: "bookkeeping tx' = bookkeeping tx \<Longrightarrow> tx_Ticks tx' = tx_Ticks tx \<and> tx_Journey tx' = tx_Journey tx"
  by (simp add: bookkeeping_def)

text \<open>One iteration that does not fail: the step was one of the journey, was not at its limit or was overdue, and
  is counted once more, at the time of the last reading of the clock.\<close>

lemma iterate_step_ran:
  assumes keep: "steps_keep jm" and it: "iterate_step jm tx = (tx', r)" and nf: "\<And>e. r \<noteq> Failed e"
  shows "tx_Journey tx' = tx_Journey tx \<and> tx_CurrentStepID tx \<in> step_ids (tx_Journey tx) \<and>
    (tick_count tx (tx_CurrentStepID tx) < GetMaxTickCount \<or> overdue jm tx) \<and>
    (\<exists>k. tx_reads tx' = Suc k \<and> (\<forall>i. gm_get (tx_Ticks tx') i =
       (if i = tx_CurrentStepID tx then Some (wrap64 (tick_count tx i + 1), jm_clock jm k) else gm_get (tx_Ticks tx) i)))"
proof -
  let ?i = "tx_CurrentStepID tx"
  from it nf obtain cfg step where cfg: "step_at (jc_Steps (tx_Journey tx)) ?i = Some cfg"
    and step: "GetStep (jm_steps jm) (st_StepType cfg) = Some step"
    by (cases "step_at (jc_Steps (tx_Journey tx)) ?i"; cases "GetStep (jm_steps jm) (st_StepType (the (step_at (jc_Steps (tx_Journey tx)) ?i)))")
       (auto simp: iterate_step_def Let_def)
  define tx1 where "tx1 = EmitEvent (step_event EventStarted ''step execution started'' None ?i (st_Name cfg)) (debug_event jm tx)"
  obtain c l where cl: "or_default (gm_get (tx_Ticks tx1) ?i) (0, 0) = (c, l)" by force
  define tx2 where "tx2 = tx1\<lparr>tx_Ticks := gm_put ?i (c, l) (tx_Ticks tx1)\<rparr>"
  define tx3 where "tx3 = (if GetMaxTickCount \<le> c then tx2\<lparr>tx_reads := Suc (tx_reads tx2)\<rparr> else tx2)"
  have b1: "bookkeeping tx1 = bookkeeping tx" "tx_reads tx1 = tx_reads tx" by (simp_all add: tx1_def)
  note d1 = bookkeepingD [OF b1(1)]
  have ticks3: "tx_Ticks tx3 = gm_put ?i (c, l) (tx_Ticks tx)" "tx_Journey tx3 = tx_Journey tx" "tx_reads tx2 = tx_reads tx"
    using d1 b1(2) by (simp_all add: tx3_def tx2_def)
  have c: "tick_count tx ?i = c" using cl d1 by (simp add: tick_count_def)
  have eq: "iterate_step jm tx =
      (if GetMaxTickCount \<le> c \<and> wrap64 (jm_clock jm (tx_reads tx2) - l) < GetMinTickWindowMs
       then (tx3, Failed (JourneyInfiniteLoopErr (st_Name cfg)))
       else (case ExecuteStepConfig (jm_tree jm) (jm_crypto jm) (re_text (jm_rt jm)) (re_resolvers (jm_rt jm)) step (st_Config cfg) tx3 of
               (tx4, Inl e) \<Rightarrow> (EmitEvent (step_event EventFailed ''step execution failed'' (Some e) ?i (st_Name cfg)) tx4, Failed e)
             | (tx4, Inr outcome) \<Rightarrow> after_step jm cfg step ?i outcome (count_tick jm ?i tx4)))"
    using cl unfolding tx3_def tx2_def tx1_def by (simp add: iterate_step_def Let_def cfg step)
  have go: "\<not> (GetMaxTickCount \<le> c \<and> wrap64 (jm_clock jm (tx_reads tx2) - l) < GetMinTickWindowMs)"
    using it nf [of "JourneyInfiniteLoopErr (st_Name cfg)"] eq by auto
  obtain tx4 x where ex: "ExecuteStepConfig (jm_tree jm) (jm_crypto jm) (re_text (jm_rt jm)) (re_resolvers (jm_rt jm))
      step (st_Config cfg) tx3 = (tx4, x)" by force
  with it nf eq go obtain outcome where a: "after_step jm cfg step ?i outcome (count_tick jm ?i tx4) = (tx', r)"
    by (cases x) auto
  have "keeps_ticks (is_Execute step)" using keep step by (simp add: steps_keep_def)
  from ExecuteStepConfig_bookkeeping [OF this, of "jm_tree jm" "jm_crypto jm" "re_text (jm_rt jm)" "re_resolvers (jm_rt jm)"
      "st_Config cfg" tx3] ex have "bookkeeping tx4 = bookkeeping tx3" by simp
  note d4 = bookkeepingD [OF this]
  have ct: "tx_Ticks (count_tick jm ?i tx4) = gm_put ?i (wrap64 (c + 1), jm_clock jm (tx_reads tx4)) (tx_Ticks tx4)"
    "tx_reads (count_tick jm ?i tx4) = Suc (tx_reads tx4)" "tx_Journey (count_tick jm ?i tx4) = tx_Journey tx4"
    using d4 ticks3(1) by (simp_all add: count_tick_def)
  from after_step_ticks [OF a] ct bookkeepingD have d5: "tx_Ticks tx' = gm_put ?i (wrap64 (c + 1), jm_clock jm (tx_reads tx4)) (tx_Ticks tx4)"
    "tx_reads tx' = Suc (tx_reads tx4)" "tx_Journey tx' = tx_Journey tx4" by metis+
  have mem: "?i \<in> step_ids (tx_Journey tx)"
    using cfg by (auto simp: step_at_def step_ids_def or_default_def split: option.splits dest!: map_of_SomeD intro: rev_image_eqI)
  have "tick_count tx ?i < GetMaxTickCount \<or> overdue jm tx"
    using go c cl d1 ticks3(3) by (auto simp: overdue_def)
  moreover have "\<forall>i. gm_get (tx_Ticks tx') i =
      (if i = ?i then Some (wrap64 (tick_count tx i + 1), jm_clock jm (tx_reads tx4)) else gm_get (tx_Ticks tx) i)"
    using d5(1) d4 ticks3(1) c by simp
  ultimately show ?thesis using d5 d4 ticks3 mem by auto
qed

lemma iterate_step_progress:
  assumes "steps_keep jm" "iterate_step jm tx = (tx', r)" "\<And>e. r \<noteq> Failed e" "ticks_ok tx" "\<not> overdue jm tx"
  shows "ticks_ok tx' \<and> tick_count tx (tx_CurrentStepID tx) < GetMaxTickCount \<and>
    (\<forall>i. tick_count tx' i = tick_count tx i + (if i = tx_CurrentStepID tx then 1 else 0))"
proof -
  note ran = iterate_step_ran [OF assms(1-3)]
  then have lt: "tick_count tx (tx_CurrentStepID tx) < GetMaxTickCount" using assms(5) by blast
  have nn: "0 \<le> tick_count tx (tx_CurrentStepID tx)" using assms(4) by (simp add: ticks_ok_def)
  then have w: "wrap64 (tick_count tx (tx_CurrentStepID tx) + 1) = tick_count tx (tx_CurrentStepID tx) + 1"
    using lt by (simp add: GetMaxTickCount_def in_int64_def)
  have tc: "tick_count tx' i = tick_count tx i + (if i = tx_CurrentStepID tx then 1 else 0)" for i
    using ran w by (auto simp: tick_count_def)
  moreover from tc assms(4) lt have "ticks_ok tx'" by (auto simp: ticks_ok_def)
  ultimately show ?thesis using lt by simp
qed

lemma budget_decreases:
  assumes "finite ids" "i \<in> ids" "tick_count tx i < GetMaxTickCount"
    and "\<And>k. tick_count tx' k = tick_count tx k + (if k = i then 1 else 0)"
  shows "budget ids tx' < budget ids tx"
  unfolding budget_def using assms
  by (intro sum_strict_mono_ex1) (auto intro!: bexI [of _ i])

text \<open>The points an execution goes through: the frames it takes up and the steps it comes to.\<close>

inductive at_frame :: "('t, 'c, 's, 'k) journeyManager \<Rightarrow> 't JourneyTransaction \<Rightarrow> ('c, 's) manager_state
    \<Rightarrow> 't JourneyTransaction \<Rightarrow> ('c, 's) manager_state \<Rightarrow> bool"
  and at_step :: "('t, 'c, 's, 'k) journeyManager \<Rightarrow> 't JourneyTransaction \<Rightarrow> ('c, 's) manager_state
    \<Rightarrow> 't JourneyTransaction \<Rightarrow> ('c, 's) manager_state \<Rightarrow> bool" for jm tx0 ms0 where
  begin_run: "at_frame jm tx0 ms0 tx0 ms0"
| enter: "at_frame jm tx0 ms0 tx ms \<Longrightarrow> ExistsTracking (tx_State tx) \<Longrightarrow> PopTracking (tx_State tx) = (st, jid, sid) \<Longrightarrow>
    loadJourney jm jid ms = (ms1, Inr j) \<Longrightarrow>
    at_step jm tx0 ms0 (EmitEvent (journey_event EventStarted ''journey execution started'' None j)
       (tx\<lparr>tx_State := st, tx_Journey := j, tx_CurrentStepID := (if sid = '''' then jc_StartStepID j else sid)\<rparr>)) ms1"
| iterate: "at_step jm tx0 ms0 tx ms \<Longrightarrow> iterate_step jm tx = (tx', Continue) \<Longrightarrow> at_step jm tx0 ms0 tx' ms"
| leave: "at_step jm tx0 ms0 tx ms \<Longrightarrow> iterate_step jm tx = (tx', Finished False False) \<Longrightarrow>
    at_frame jm tx0 ms0 (EmitEvent (journey_event EventFinished ''journey execution finished'' None (tx_Journey tx)) tx') ms"

definition never_overdue :: "('t, 'c, 's, 'k) journeyManager \<Rightarrow> 't JourneyTransaction \<Rightarrow> ('c, 's) manager_state \<Rightarrow> bool" where
  "never_overdue jm tx0 ms0 \<longleftrightarrow> (\<forall>tx ms. at_step jm tx0 ms0 tx ms \<longrightarrow> \<not> overdue jm tx)"

lemma executeSteps_leaves:
  assumes "steps_keep jm"
  shows "executeSteps jm n tx = Some (tx', Inr (False, False)) \<Longrightarrow> at_step jm tx0 ms0 tx ms \<Longrightarrow>
    at_frame jm tx0 ms0 (EmitEvent (journey_event EventFinished ''journey execution finished'' None (tx_Journey tx)) tx') ms"
proof (induction n arbitrary: tx)
  case (Suc n)
  obtain tx1 r1 where it: "iterate_step jm tx = (tx1, r1)" by force
  show ?case
  proof (cases r1)
    case Continue
    with it iterate_step_ran [OF assms it] have "tx_Journey tx1 = tx_Journey tx" by simp
    with Suc.IH [of tx1] Suc.prems it Continue at_frame_at_step.iterate show ?thesis by fastforce
  next
    case (Finished a b)
    with Suc.prems it at_frame_at_step.leave show ?thesis by fastforce
  qed (use Suc.prems it in simp)
qed simp

lemma executeSteps_returns:
  assumes "finite ids" "steps_keep jm" "never_overdue jm tx0 ms0"
  shows "at_step jm tx0 ms0 tx ms \<Longrightarrow> ticks_ok tx \<Longrightarrow> step_ids (tx_Journey tx) \<subseteq> ids \<Longrightarrow> budget ids tx < n \<Longrightarrow>
    \<exists>tx' r. executeSteps jm n tx = Some (tx', r) \<and> ((\<exists>e. r = Inl e) \<or> ticks_ok tx' \<and> budget ids tx' < budget ids tx)"
proof (induction n arbitrary: tx)
  case 0
  then show ?case by simp
next
  case (Suc n)
  obtain tx1 r1 where it: "iterate_step jm tx = (tx1, r1)" by force
  show ?case
  proof (cases "\<exists>e. r1 = Failed e")
    case True
    with it show ?thesis by auto
  next
    case False
    then have nf: "\<And>e. r1 \<noteq> Failed e" by simp
    note ran = iterate_step_ran [OF assms(2) it nf]
    have "\<not> overdue jm tx" using assms(3) Suc.prems(1) by (auto simp: never_overdue_def)
    note p = iterate_step_progress [OF assms(2) it nf Suc.prems(2) this]
    have dec: "budget ids tx1 < budget ids tx"
      using p ran Suc.prems(3) by (intro budget_decreases [OF assms(1), of "tx_CurrentStepID tx"]) auto
    show ?thesis
    proof (cases r1)
      case Continue
      have "step_ids (tx_Journey tx1) \<subseteq> ids" using ran Suc.prems(3) by simp
      moreover have "at_step jm tx0 ms0 tx1 ms" using Suc.prems(1) it Continue at_frame_at_step.iterate by blast
      ultimately obtain tx' r where
        "executeSteps jm n tx1 = Some (tx', r)" "(\<exists>e. r = Inl e) \<or> ticks_ok tx' \<and> budget ids tx' < budget ids tx1"
        using Suc.IH [of tx1] p dec Suc.prems(4) by auto
      with it Continue dec show ?thesis by auto
    next
      case (Finished a b)
      with it p dec show ?thesis by auto
    qed (use False in simp)
  qed
qed

lemma ticks_new_frame [simp]:
  "ticks_ok (EmitEvent e tx) = ticks_ok tx" "budget ids (EmitEvent e tx) = budget ids tx"
  "ticks_ok (tx\<lparr>tx_State := st, tx_Journey := j, tx_CurrentStepID := i\<rparr>) = ticks_ok tx"
  "budget ids (tx\<lparr>tx_State := st, tx_Journey := j, tx_CurrentStepID := i\<rparr>) = budget ids tx"
  by (simp_all add: ticks_ok_def budget_def tick_count_def EmitEvent_def)

lemma executeJourney_returns:
  assumes "finite ids" "steps_keep jm" "never_overdue jm tx0 ms0" "storage_within ids jm"
  shows "at_frame jm tx0 ms0 tx ms \<Longrightarrow> ticks_ok tx \<Longrightarrow> cache_within ids (ms_runtime ms) \<Longrightarrow> budget ids tx < n \<Longrightarrow> budget ids tx < fuel \<Longrightarrow>
    executeJourney jm fuel n tx ms \<noteq> None"
proof (induction n arbitrary: tx ms)
  case 0
  then show ?case by simp
next
  case (Suc n)
  obtain st jid sid where pop: "PopTracking (tx_State tx) = (st, jid, sid)" by (metis prod.exhaust)
  obtain ms1 x where l: "loadJourney jm jid ms = (ms1, x)" by force
  note w = loadJourney_within [OF l assms(4) Suc.prems(3)]
  show ?case
  proof (cases "\<exists>j. ExistsTracking (tx_State tx) \<and> x = Inr j")
    case False
    with pop l show ?thesis by (cases x) auto
  next
    case True
    then obtain j where ex: "ExistsTracking (tx_State tx)" and j: "x = Inr j" by blast
    define tx2 where "tx2 = EmitEvent (journey_event EventStarted ''journey execution started'' None j)
       (tx\<lparr>tx_State := st, tx_Journey := j, tx_CurrentStepID := (if sid = '''' then jc_StartStepID j else sid)\<rparr>)"
    have at2: "at_step jm tx0 ms0 tx2 ms1"
      unfolding tx2_def using at_frame_at_step.enter [OF Suc.prems(1) ex pop] l j by blast
    have s: "ticks_ok tx2" "budget ids tx2 = budget ids tx" "tx_Journey tx2 = j"
      using Suc.prems(2) by (simp_all add: tx2_def) (simp add: EmitEvent_def)
    from executeSteps_returns [OF assms(1-3) at2 s(1), of fuel] w j s Suc.prems(5) assms(1) obtain tx3 r
      where es: "executeSteps jm fuel tx2 = Some (tx3, r)"
        and less: "(\<exists>e. r = Inl e) \<or> ticks_ok tx3 \<and> budget ids tx3 < budget ids tx"
      by fastforce
    let ?tx4 = "EmitEvent (journey_event EventFinished ''journey execution finished'' None j) tx3"
    have "executeJourney jm fuel n ?tx4 ms1 \<noteq> None" if "r = Inr (False, False)"
    proof (rule Suc.IH)
      show "at_frame jm tx0 ms0 ?tx4 ms1" using executeSteps_leaves [OF assms(2) _ at2] es that s(3) by simp
      show "ticks_ok ?tx4" "budget ids ?tx4 < n" "budget ids ?tx4 < fuel"
        using less that Suc.prems(4,5) by auto
      show "cache_within ids (ms_runtime ms1)" using w by simp
    qed
    with pop l ex j es show ?thesis
      by (cases r) (auto simp: tx2_def [symmetric] Let_def, metis prod.exhaust)
  qed
qed

text \<open>The payload with the realm of the state, the outcome of the check of the inputs, and the transaction an
  invocation runs with the manager's state at that moment; none when it is answered before any step.\<close>

definition realm_payload :: "'t JourneyState \<Rightarrow> JourneyPayloadReq \<Rightarrow> JourneyPayloadReq" where
  "realm_payload st payload = (if js_Realm st \<noteq> '''' then SetPayloadRealm (Some (named_realm (js_Realm st))) payload else payload)"

definition checked_inputs :: "('t, 'c, 's, 'k) journeyManager \<Rightarrow> JourneyPayloadReq \<Rightarrow> 't JourneyState \<Rightarrow> 't
    \<Rightarrow> 't ClientInputsBuilder \<times> ClientError option" where
  "checked_inputs jm payload st ctx =
     (if length (jp_ResumeID payload) = 0
      then ValidateProvided (jm_tree jm) (jm_keys jm) (jm_validators jm) (snd (GetTracking st)) (NewClientInputBuilder (PayloadClientInputs payload) ctx)
      else (NewClientInputBuilder (PayloadClientInputs payload) ctx, None))"

definition invocation_tx :: "('t, 'c, 's, 'k) journeyManager \<Rightarrow> string res \<Rightarrow> JourneyExecute option \<Rightarrow> ('c, 's) manager_state
    \<Rightarrow> ('t JourneyTransaction \<times> ('c, 's) manager_state) option" where
  "invocation_tx jm rand je ms =
     (case je of None \<Rightarrow> None | Some ex \<Rightarrow>
     (case je_Payload ex of None \<Rightarrow> None | Some payload \<Rightarrow>
     (case GetJourneyState jm (Some payload) (je_IsConfidential ex) ms of (ms1, Inl e) \<Rightarrow> None | (ms1, Inr (st, conf)) \<Rightarrow>
     (case inputs_context jm conf st of Inl e \<Rightarrow> None | Inr (st1, ctx) \<Rightarrow>
     (case checked_inputs jm (realm_payload st payload) st1 ctx of (b, Some ce) \<Rightarrow> None | (b, None) \<Rightarrow>
     (case rand of Inl e \<Rightarrow> None
      | Inr i \<Rightarrow> Some (new_transaction ex ((realm_payload st payload)\<lparr>jp_ClientInputs := cib_clientInputs b\<rparr>) conf (SetID i st1) b, ms1)))))))"

text \<open>An invocation with a payload, by the outcome of its checks.\<close>

lemma InvokeJourney_payload:
  "je_Payload ex = Some payload \<Longrightarrow> InvokeJourney jm fuel rand (Some ex) ms =
     (case GetJourneyState jm (Some payload) (je_IsConfidential ex) ms of
        (ms1, Inl e) \<Rightarrow> Some (ms1\<lparr>ms_events := ms_events ms1 @ [rejected_event e (jp_JourneyID payload)]\<rparr>, None, Inl e)
      | (ms1, Inr (st, conf)) \<Rightarrow>
          (case inputs_context jm conf st of
             Inl e \<Rightarrow> Some (ms1, None, Inl e)
           | Inr (st1, ctx) \<Rightarrow>
               (case checked_inputs jm (realm_payload st payload) st1 ctx of
                  (b, Some ce) \<Rightarrow>
                    let payload2 = (realm_payload st payload)\<lparr>jp_ClientInputs := cib_clientInputs b\<rparr> in
                    if TokenPresent payload2
                    then (case Store (jm_cache jm) (ms_now ms1) (Some st1) (js_Exp st1) (ms_states ms1) of
                            (c, ok) \<Rightarrow> Some (ms1\<lparr>ms_states := c\<rparr>, None,
                              if ok then Inr (Some (payload2\<lparr>jp_ClientError := Some ce\<rparr>), None) else Inl ErrJourneyStateStore))
                    else Some (ms1, None, Inr (Some (payload2\<lparr>jp_ClientError := Some ce\<rparr>), None))
                | (b, None) \<Rightarrow>
                    (case rand of
                       Inl e \<Rightarrow> Some (ms1, None, Inl e)
                     | Inr i \<Rightarrow>
                         (case executeJourney jm fuel fuel (new_transaction ex ((realm_payload st payload)
                                 \<lparr>jp_ClientInputs := cib_clientInputs b\<rparr>) conf (SetID i st1) b) ms1 of
                            None \<Rightarrow> None
                          | Some (ms2, tx, r) \<Rightarrow> Some (record_end r ms2, Some tx, r))))))"
  unfolding InvokeJourney_def Let_def checked_inputs_def realm_payload_def
  by (simp only: option.case case_prod_beta' cong: option.case_cong sum.case_cong)

lemma InvokeJourney_refused:
  "InvokeJourney jm fuel rand None ms = Some (ms\<lparr>ms_events := ms_events ms @ [rejected_event (ErrJourneyInvalidPayload '''') '''']\<rparr>,
     None, Inl (ErrJourneyInvalidPayload ''''))"
  "je_Payload ex = None \<Longrightarrow> InvokeJourney jm fuel rand (Some ex) ms =
     Some (ms\<lparr>ms_events := ms_events ms @ [rejected_event (ErrJourneyInvalidPayload '''') '''']\<rparr>, None, Inl (ErrJourneyInvalidPayload ''''))"
  by (simp_all add: InvokeJourney_def)

lemma invocation_runs:
  assumes "invocation_tx jm rand je ms = Some (tx, ms1)"
  shows "InvokeJourney jm fuel rand je ms =
     (case executeJourney jm fuel fuel tx ms1 of None \<Rightarrow> None | Some (ms2, t, r) \<Rightarrow> Some (record_end r ms2, Some t, r))"
proof -
  from assms obtain ex payload where "je = Some ex" "je_Payload ex = Some payload"
    by (auto simp: invocation_tx_def split: option.splits)
  with assms show ?thesis
    by (auto simp: invocation_tx_def InvokeJourney_payload split: option.splits prod.splits sum.splits)
qed

lemma invocation_answered:
  assumes "invocation_tx jm rand je ms = None"
  shows "\<exists>ms' r. InvokeJourney jm fuel rand je ms = Some (ms', None, r)"
proof (cases "\<exists>ex payload. je = Some ex \<and> je_Payload ex = Some payload")
  case True
  with assms show ?thesis
    by (auto simp: invocation_tx_def InvokeJourney_payload Let_def split: option.splits prod.splits sum.splits)
next
  case False
  then have "je = None \<or> (\<exists>ex. je = Some ex \<and> je_Payload ex = None)" by (metis option.exhaust)
  then show ?thesis using InvokeJourney_refused by blast
qed

lemma GetJourneyState_within:
  assumes "storage_within ids jm" "cache_within ids (ms_runtime ms)" "GetJourneyState jm req c ms = (ms1, x)"
  shows "cache_within ids (ms_runtime ms1)"
proof -
  have sel: "ms_runtime (fst (select_state jm q ms)) = ms_runtime ms" for q
    by (auto simp: select_state_def resume_state_def token_state_def Let_def
        split: prod.splits option.splits sum.splits list.splits)
  have "cache_within ids (ms_runtime (fst (loadJourney jm i (fst (select_state jm q ms)))))" for i q
    using loadJourney_within [OF _ assms(1)] sel [of q] assms(2) by (metis prod.collapse)
  with assms(2,3) sel show ?thesis
    by (auto simp: GetJourneyState_def Let_def split: option.splits prod.splits sum.splits if_splits) (metis fst_conv)+
qed

lemma invocation_tx_start:
  assumes "invocation_tx jm rand je ms = Some (tx, ms1)"
  shows "tx_Ticks tx = [] \<and> (\<exists>req c x. GetJourneyState jm req c ms = (ms1, x))"
  using assms by (auto simp: invocation_tx_def Let_def new_transaction_def split: option.splits prod.splits sum.splits if_splits)


subsection \<open>A concrete manager\<close>

type_synonym pending = "string \<rightharpoonup> int \<times> gval JourneyState"

definition sample_manager :: "(gval, pending, bool, unit) journeyManager" where
  "sample_manager = \<lparr>jm_rt = sample_runtime (\<lambda>p. Inr (GStr ''h'')), jm_crypto = no_crypto, jm_keys = unset_env,
     jm_cache = exp_cache 1000, jm_jws = const_jws sample_claims, jm_validators = [], jm_encryptKey = '''',
     jm_storage = (\<lambda>i. Inr (if i = ''j1'' then Some tiny_journey else None)), jm_clock = (\<lambda>n. 0)\<rparr>"

definition suspended_state :: "gval JourneyState" where
  "suspended_state = zero_state\<lparr>js_ClosedCtx := Some (GObj [(''journey_suspend_journey'', GObj [(''journey_id'', GStr ''j1'')])]),
     js_TrackingsID := Some [''j1:s''], js_Jti := ''r1''\<rparr>"

definition sample_ms :: "(pending, bool) manager_state" where
  "sample_ms = \<lparr>ms_states = [''r1'' \<mapsto> (100, suspended_state)], ms_runtime = \<lparr>rt_entries = [], rt_env = []\<rparr>,
     ms_tokens = True, ms_now = 0, ms_events = [], ms_executions = []\<rparr>"

definition sample_resume :: JourneyPayloadReq where
  "sample_resume = empty_payload\<lparr>jp_ResumeID := ''r1''\<rparr>"

definition is_ok :: "'a \<times> ('e + 'b) \<Rightarrow> bool" where
  "is_ok p = (case snd p of Inl _ \<Rightarrow> False | Inr _ \<Rightarrow> True)"

lemma is_okE: "is_ok p \<Longrightarrow> \<exists>a b. p = (a, Inr b)"
  by (cases p) (auto simp: is_ok_def split: sum.splits)

lemma sample_resume_ok: "is_ok (GetJourneyState sample_manager (Some sample_resume) False sample_ms)"
  by code_simp

lemma sample_start_ok: "is_ok (GetJourneyState sample_manager (Some (empty_payload\<lparr>jp_JourneyID := ''j1''\<rparr>)) False sample_ms)"
  by code_simp

theorem invocation_admitted_witness:
  "\<exists>ms' st conf. GetJourneyState sample_manager (Some (empty_payload\<lparr>jp_JourneyID := ''j1''\<rparr>)) False sample_ms = (ms', Inr (st, conf)) \<and>
     jc_Active conf \<and> trackings st = [frame ''j1'' (jc_StartStepID conf)]"
proof -
  from is_okE [OF sample_start_ok] obtain ms' st conf where
    g: "GetJourneyState sample_manager (Some (empty_payload\<lparr>jp_JourneyID := ''j1''\<rparr>)) False sample_ms = (ms', Inr (st, conf))"
    by (metis surj_pair)
  from invocation_admitted [OF g] show ?thesis
    using g by (auto simp: empty_payload_def TokenPresent_def)
qed

text \<open>When all journeys have one and the same step, it is enough that consecutive readings of the clock lie less
  than the window apart, whatever the whole loop takes.\<close>

definition last_reading :: "('t, 'c, 's, 'k) journeyManager \<Rightarrow> string \<Rightarrow> 't JourneyTransaction \<Rightarrow> bool" where
  "last_reading jm s tx \<longleftrightarrow> (\<forall>i c l. gm_get (tx_Ticks tx) i = Some (c, l) \<longrightarrow> i = s \<and> (\<exists>k. tx_reads tx = Suc k \<and> l = jm_clock jm k))"

lemma last_reading_event [simp]: "last_reading jm s (EmitEvent e tx) = last_reading jm s tx"
  by (simp add: last_reading_def EmitEvent_def)

lemma last_reading_iterate:
  assumes "steps_keep jm" "iterate_step jm tx = (tx', r)" "\<And>e. r \<noteq> Failed e" "last_reading jm s tx" "step_ids (tx_Journey tx) \<subseteq> {s}"
  shows "last_reading jm s tx' \<and> step_ids (tx_Journey tx') \<subseteq> {s}"
proof -
  from iterate_step_ran [OF assms(1-3)] assms(5) obtain k where j: "tx_Journey tx' = tx_Journey tx" and c: "tx_CurrentStepID tx = s"
    and k: "tx_reads tx' = Suc k" and g: "\<And>i. gm_get (tx_Ticks tx') i =
      (if i = s then Some (wrap64 (tick_count tx i + 1), jm_clock jm k) else gm_get (tx_Ticks tx) i)" by auto
  have "i = s \<and> l = jm_clock jm k" if "gm_get (tx_Ticks tx') i = Some (n, l)" for i n l
  proof (cases "i = s")
    case False
    with that g [of i] assms(4) show ?thesis by (simp add: last_reading_def)
  qed (use that g [of i] in simp)
  with k j assms(5) show ?thesis by (simp add: last_reading_def)
qed

lemma lone_step_points:
  assumes "steps_keep jm" "storage_within {s} jm" "tx_Ticks tx0 = []" "cache_within {s} (ms_runtime ms0)"
  shows "at_frame jm tx0 ms0 tx ms \<Longrightarrow> last_reading jm s tx \<and> cache_within {s} (ms_runtime ms)"
    and "at_step jm tx0 ms0 tx ms \<Longrightarrow> last_reading jm s tx \<and> cache_within {s} (ms_runtime ms) \<and> step_ids (tx_Journey tx) \<subseteq> {s}"
proof (induction rule: at_frame_at_step.inducts)
  case begin_run
  with assms show ?case by (simp add: last_reading_def)
next
  case (enter tx ms st jid sid ms1 j)
  with loadJourney_within [OF \<open>loadJourney jm jid ms = (ms1, Inr j)\<close> assms(2)] show ?case by (simp add: last_reading_def EmitEvent_def)
next
  case (iterate tx ms tx')
  with last_reading_iterate [OF assms(1) \<open>iterate_step jm tx = (tx', Continue)\<close>] show ?case by simp
next
  case (leave tx ms tx')
  with last_reading_iterate [OF assms(1) \<open>iterate_step jm tx = (tx', Finished False False)\<close>] show ?case by simp
qed

lemma lone_step_never_overdue:
  assumes "steps_keep jm" "storage_within {s} jm" "tx_Ticks tx0 = []" "cache_within {s} (ms_runtime ms0)"
    and "\<And>k. wrap64 (jm_clock jm (Suc k) - jm_clock jm k) < GetMinTickWindowMs"
  shows "never_overdue jm tx0 ms0"
proof -
  have "\<not> overdue jm tx" if "at_step jm tx0 ms0 tx ms" for tx ms
  proof (cases "gm_get (tx_Ticks tx) (tx_CurrentStepID tx)")
    case None
    then show ?thesis by (simp add: overdue_def GetMaxTickCount_def)
  next
    case (Some p)
    with lone_step_points(2) [OF assms(1-4) that] obtain k where "tx_reads tx = Suc k" "snd p = jm_clock jm k"
      unfolding last_reading_def by (metis surj_pair snd_conv)
    with Some assms(5) [of k] show ?thesis by (cases p) (simp add: overdue_def)
  qed
  then show ?thesis by (simp add: never_overdue_def)
qed

text \<open>A manager with the routing steps, and a journey whose only step, a condition, leads back to itself, on a
  clock that advances by 20 ms with every reading: the loop takes ten seconds and comes to its end.\<close>

definition routing_step :: "gval step \<Rightarrow> bool \<Rightarrow> bool option \<Rightarrow> gval IStep" where
  "routing_step f ends completion = \<lparr>is_type = TStruct [], is_EndJourney = ends, is_Completion = completion,
     is_VerifyConfig = (\<lambda>n c. Inr ()), is_Execute = f\<rparr>"

definition routing_steps :: "gval IStep gomap" where
  "routing_steps =
     [(''Condition'', routing_step (Condition flow_env) False None), (''IfExpression'', routing_step (IfExpression flow_env) False None),
      (''SwitchExpression'', routing_step (SwitchExpression flow_env) False None), (''Assert'', routing_step (Assert flow_env) False None),
      (''NotEmpty'', routing_step (NotEmpty flow_env) False None), (''Choice'', routing_step (Choice flow_env) False None),
      (''Form'', routing_step (Form flow_env) False None), (''Retry'', routing_step (Retry flow_env) False None),
      (''SubJourney'', routing_step (SubJourney flow_env) False None), (''SuspendFlow'', routing_step (SuspendFlow flow_env (Inr ''rid'')) False None),
      (''Success'', routing_step (Success flow_env) True (Some True)), (''Failure'', routing_step (Failure flow_env) True (Some False)),
      (''End'', routing_step (End flow_env) True None)]"

definition loop_journey :: JourneyConfiguration where
  "loop_journey = tiny_journey\<lparr>jc_Steps := [(''s'', Some \<lparr>st_Name = ''loop'', st_StepType = ''Condition'',
     st_Config = GObj [(''value'', GStr ''x''), (''operation'', GStr ''present''),
       (''outcome'', GObj [(''true'', GStr ''s''), (''false'', GStr ''s'')])]\<rparr>)]\<rparr>"

definition loop_manager :: "(gval, pending, bool, unit) journeyManager" where
  "loop_manager = sample_manager\<lparr>jm_rt := (jm_rt sample_manager)\<lparr>re_steps := tiny_registry\<lparr>rg_steps := routing_steps\<rparr>\<rparr>,
     jm_storage := (\<lambda>i. Inr (if i = ''j1'' then Some loop_journey else None)), jm_clock := (\<lambda>n. 20 * int n)\<rparr>"

definition start_execution :: JourneyExecute where
  "start_execution = \<lparr>je_Payload = Some (empty_payload\<lparr>jp_JourneyID := ''j1''\<rparr>), je_IsConfidential = False,
     je_Request = None, je_Response = None\<rparr>"

lemma routing_steps_keep:
  assumes "gm_get routing_steps ty = Some step"
  shows "keeps_ticks (is_Execute step)"
proof -
  have "bookkeeping (fst (sp_eval flow_env e tx)) = bookkeeping tx" for e tx by (simp add: flow_env_def)
  note keep = plain_steps_keep_ticks [of flow_env] sub_journey_keeps_ticks [of flow_env] form_keeps_ticks [of flow_env]
    expression_steps_keep_ticks [of flow_env, OF this]
  have "step \<in> set (map snd routing_steps)" using assms by (force dest: map_of_SomeD)
  with keep show ?thesis by (auto simp: routing_steps_def routing_step_def)
qed


subsection \<open>Pausing and resuming\<close>

definition kept :: "'t JourneyState \<Rightarrow> 't JourneyState \<Rightarrow> bool" where
  "kept st st' \<longleftrightarrow> js_TrackingsID st' = js_TrackingsID st \<and> js_Realm st' = js_Realm st \<and> js_Jti st' = js_Jti st \<and>
     js_Exp st' = js_Exp st \<and> js_ClosedCtx st' = js_ClosedCtx st \<and> js_result st' = js_result st"

lemma kept_trans: "kept a b \<Longrightarrow> kept b c \<Longrightarrow> kept a c"
  by (simp add: kept_def)

lemma consume_kept: "consumeExpirationExtension T E st = (st', d) \<Longrightarrow> kept st st'"
  by (auto simp: consumeExpirationExtension_def kept_def GetCtx_def Let_def split: prod.splits option.splits)

lemma consume_ctx: "consumeExpirationExtension T E st = (st', d) \<Longrightarrow>
    js_ctx st' = Some (fst (tm_delete T (snd (GetCtx T st)) (GetExtendJourneyExpKey E)))"
  by (auto simp: consumeExpirationExtension_def split: prod.splits)

lemma GetEncryptedCtx_kept: "GetEncryptedCtx T K st = (st', t) \<Longrightarrow> kept st st' \<and> js_Ctx st' = js_Ctx st"
  by (auto simp: GetEncryptedCtx_def kept_def split: option.splits sum.splits if_splits)

text \<open>The ciphertext made from the encrypted context: of its content when it has any, and else the one at hand.\<close>

definition sealed :: "('t, 'c, 's, 'k) journeyManager \<Rightarrow> 't JourneyState \<Rightarrow> string \<Rightarrow> bool" where
  "sealed jm st text \<longleftrightarrow>
     (case tm_as_map (jm_tree jm) (snd (GetEncryptedCtx (jm_tree jm) (jm_crypto jm) st)) of
        Some (p # enc) \<Rightarrow> EncryptCtx (jm_crypto jm) (p # enc) (jm_encryptKey jm) = Inr text
      | _ \<Rightarrow> text = js_EncryptedCtx st)"

lemma GetEncryptedCtx_text: "GetEncryptedCtx T K st = (st', t) \<Longrightarrow> js_EncryptedCtx st' = js_EncryptedCtx st"
  by (auto simp: GetEncryptedCtx_def split: option.splits sum.splits if_splits)

lemma GetEncryptedCtx_other: "snd (GetEncryptedCtx T K (st\<lparr>js_Ctx := x\<rparr>)) = snd (GetEncryptedCtx T K st)"
  "snd (GetEncryptedCtx T K (st\<lparr>js_ctx := y\<rparr>)) = snd (GetEncryptedCtx T K st)"
  by (auto simp: GetEncryptedCtx_def split: option.splits sum.splits)

lemma consume_sealed: "consumeExpirationExtension T E st = (st', d) \<Longrightarrow> T = jm_tree jm \<Longrightarrow> sealed jm st' = sealed jm st"
  by (auto simp: fun_eq_iff consumeExpirationExtension_def sealed_def GetCtx_def Let_def GetEncryptedCtx_other
      split: prod.splits option.splits list.splits)

lemma serialize_ok:
  assumes "serializeJourneyContext jm st = (st', Inr ())" "js_ctx st = Some t"
  shows "kept st st' \<and> (\<exists>m. tm_as_map (jm_tree jm) t = Some m \<and> js_Ctx st' = Some m) \<and> sealed jm st (js_EncryptedCtx st')"
proof -
  from assms(2) have g: "GetCtx (jm_tree jm) st = (st, t)" by (simp add: GetCtx_def)
  with assms(1) obtain m where m: "tm_as_map (jm_tree jm) t = Some m"
    by (auto simp: serializeJourneyContext_def split: option.splits)
  obtain st2 et where e: "GetEncryptedCtx (jm_tree jm) (jm_crypto jm) (st\<lparr>js_Ctx := Some m\<rparr>) = (st2, et)" by force
  from GetEncryptedCtx_kept [OF e] have k: "kept st st2" "js_Ctx st2 = Some m" by (simp_all add: kept_def)
  have et: "snd (GetEncryptedCtx (jm_tree jm) (jm_crypto jm) st) = et" "js_EncryptedCtx st2 = js_EncryptedCtx st"
    using GetEncryptedCtx_other(1) [where T = "jm_tree jm" and K = "jm_crypto jm" and st = st and x = "Some m"] e GetEncryptedCtx_text [OF e] by simp_all
  have "kept st st' \<and> js_Ctx st' = Some m"
    using assms(1) g m e k by (auto simp: serializeJourneyContext_def kept_def split: option.splits if_splits sum.splits)
  moreover have "sealed jm st (js_EncryptedCtx st')"
    using assms(1) g m e et by (auto simp: serializeJourneyContext_def sealed_def split: option.splits list.splits sum.splits)
  ultimately show ?thesis using m by blast
qed

lemma GetTempCtx_kept: "GetTempCtx T st = (st', t) \<Longrightarrow> kept st st' \<and> js_Ctx st' = js_Ctx st \<and> js_EncryptedCtx st' = js_EncryptedCtx st"
  by (auto simp: GetTempCtx_def kept_def split: option.splits)

lemma pause_token:
  assumes "pauseJourney jm tx ms = (ms', tx', Inr (Some resp, None))"
    and ext: "consumeExpirationExtension (jm_tree jm) (jm_keys jm) (tx_State tx) = (st1, extension)"
  obtains st3 m where "kept (tx_State tx) st3" "js_Ctx st3 = Some m" "sealed jm (tx_State tx) (js_EncryptedCtx st3)"
    "tm_as_map (jm_tree jm) (fst (tm_delete (jm_tree jm) (snd (GetCtx (jm_tree jm) (tx_State tx)))
        (GetExtendJourneyExpKey (jm_keys jm)))) = Some m"
    "signJourneyToken (jm_jws jm) (ms_tokens ms) st3 = (ms_tokens ms', Inr (jp_Jwt resp))"
    "Store (jm_cache jm) (ms_now ms) (Some (ClearState st3)) (wrap64 (js_Exp (ClearState st3) + extension)) (ms_states ms)
       = (ms_states ms', True)"
    "tx_State tx' = ClearState st3"
proof -
  obtain st2 x where s: "serializeJourneyContext jm st1 = (st2, x)" by force
  with assms have x: "x = Inr ()" by (auto simp: pauseJourney_def Let_def split: sum.splits prod.splits)
  obtain st3 temp where t: "GetTempCtx (jm_tree jm) st2 = (st3, temp)" by force
  have nd: "\<not> tm_defined (jm_tree jm) temp (GetSuspendJourneyKey (jm_keys jm))"
    using assms s x t by (auto simp: pauseJourney_def Let_def split: prod.splits if_splits)
  obtain tk y where sg: "signJourneyToken (jm_jws jm) (ms_tokens ms) st3 = (tk, y)" by force
  obtain tok where y: "y = Inr tok"
    using assms s x t nd sg by (cases y) (auto simp: pauseJourney_def Let_def)
  obtain c ok where st: "Store (jm_cache jm) (ms_now ms) (Some (ClearState st3))
      (wrap64 (js_Exp (ClearState st3) + extension)) (ms_states ms) = (c, ok)" by force
  have r: "ok" "resp = empty_payload\<lparr>jp_ClientInputs := map Some (tx_newClientInputs tx), jp_Jwt := tok\<rparr>"
    "ms_tokens ms' = tk" "ms_states ms' = c" "tx_State tx' = ClearState st3"
    using assms s x t nd sg y st by (auto simp: pauseJourney_def Let_def split: if_splits)
  from serialize_ok [OF s [unfolded x] consume_ctx [OF ext]] obtain m where
    m: "kept st1 st2" "tm_as_map (jm_tree jm) (fst (tm_delete (jm_tree jm) (snd (GetCtx (jm_tree jm) (tx_State tx)))
        (GetExtendJourneyExpKey (jm_keys jm)))) = Some m" "js_Ctx st2 = Some m" "sealed jm st1 (js_EncryptedCtx st2)" by blast
  show thesis
  proof (rule that [of st3 m])
    show "kept (tx_State tx) st3"
      using kept_trans [OF consume_kept [OF ext] kept_trans [OF m(1)]] GetTempCtx_kept [OF t] by blast
    show "sealed jm (tx_State tx) (js_EncryptedCtx st3)"
      using m(4) GetTempCtx_kept [OF t] consume_sealed [OF ext refl] by simp
  qed (use m GetTempCtx_kept [OF t] sg y st r in auto)
qed

lemma merge_resumed:
  "trackings (MergeState (claims_state c) prev) = (if tc_trackings c = None then trackings prev else or_default (tc_trackings c) [])"
  "js_Realm (MergeState (claims_state c) prev) = (if tc_realm c = '''' then js_Realm prev else tc_realm c)"
  "js_ClosedCtx (MergeState (claims_state c) prev) = js_ClosedCtx prev"
  "js_result (MergeState (claims_state c) prev) = js_result prev"
  "js_Ctx (MergeState (claims_state c) prev) = tc_ctx c"
  "js_EncryptedCtx (MergeState (claims_state c) prev) = tc_enc c"
  "js_Exp (MergeState (claims_state c) prev) = 0"
  "js_encryptedCtx (MergeState (claims_state c) prev) = js_encryptedCtx prev"
  by (auto simp: MergeState_def claims_state_def zero_state_def Let_def trackings_def)

text \<open>A ciphertext that was made of a content opens to that content.\<close>

lemma sealed_opens:
  assumes "EncryptCtx (jm_crypto jm) enc (jm_encryptKey jm) = Inr (js_EncryptedCtx st)" "crypto_ok (jm_crypto jm) (jm_encryptKey jm) enc"
    and "js_encryptedCtx st = None"
  shows "\<exists>st'. open_state jm st = Inr st' \<and> js_encryptedCtx st' = Some (tm_new (jm_tree jm) (GObj enc))"
  using decrypt_encrypt(1) [OF assms(2,1), where T = "jm_tree jm"] decrypt_encrypt(2) [OF assms(2,1)] assms(3)
  by (auto simp: open_state_def Let_def GetEncryptedCtx_def SetEncryptionKey_def Init_def)

lemma parse_frame_split: "parse_frame f = (a, b) \<Longrightarrow> a \<noteq> '''' \<Longrightarrow> SplitN2 f (CHR '':'') = [a, b]"
  using SplitN2_cases [of f "CHR '':''"] by (auto simp: parse_frame_def)


subsection \<open>Single use\<close>

text \<open>The request presents the identifier a state is stored under: as a resume identifier, or in a token.\<close>

definition names_state :: "('t, 'c, 's, 'k) journeyManager \<Rightarrow> JourneyPayloadReq \<Rightarrow> string \<Rightarrow> bool" where
  "names_state jm req i \<longleftrightarrow>
     (if jp_ResumeID req \<noteq> '''' then jp_ResumeID req = i
      else TokenPresent req \<and> map_option tc_jti (jw_payload (jm_jws jm) (jp_Jwt req)) = Some i)"

definition spent :: "('t, 'c, 's, 'k) journeyManager \<Rightarrow> string \<Rightarrow> ('c, 's) manager_state \<Rightarrow> bool" where
  "spent jm i ms \<longleftrightarrow> (\<forall>n. gc_get (jm_cache jm) n i (ms_states ms) = None)"

context ttl_cache
begin

lemma taken_once: "GetAndDelete G n k c = (c', Some st) \<Longrightarrow> gc_get G n' k c' = None"
  by (auto simp: GetAndDelete_def get_delete split: option.splits)

lemma take_keeps_absent: "GetAndDelete G n k c = (c', x) \<Longrightarrow> gc_get G n' i c = None \<Longrightarrow> gc_get G n' i c' = None"
  by (auto simp: GetAndDelete_def get_delete split: option.splits)

end

lemma validated_claims:
  "validateJourneyToken J s tok = Inr st \<Longrightarrow> \<exists>c. jw_payload J tok = Some c \<and> st = claims_state c"
  by (auto simp: validateJourneyToken_def split: option.splits if_splits)

lemma claims_state_Jti [simp]: "js_Jti (claims_state c) = tc_jti c"
  by (simp add: claims_state_def)

lemma merge_Jti [simp]: "js_Jti (MergeState st prev) = js_Jti st"
  by (simp add: MergeState_def Let_def)

text \<open>A selection with a token, in all its parts.\<close>

lemma token_state_ok:
  assumes "token_state jm tok ms = (ms1, Inr (st, jid))"
  obtains c prev b where "jw_payload (jm_jws jm) tok = Some c"
    "validateJourneyToken (jm_jws jm) (ms_tokens ms) tok = Inr (claims_state c :: 't JourneyState)"
    "trackings (claims_state c :: 't JourneyState) \<noteq> []" "SplitN2 (last (trackings (claims_state c :: 't JourneyState))) (CHR '':'') = [jid, b]"
    "jid \<noteq> ''''" "GetAndDelete (jm_cache (jm :: ('t, 'c, 's, 'k) journeyManager)) (ms_now ms) (tc_jti c) (ms_states ms) = (ms_states ms1, Some prev)"
    "st = MergeState (claims_state c) prev" "ms1 = ms\<lparr>ms_states := ms_states ms1\<rparr>"
proof -
  from assms obtain v :: "'t JourneyState" where v: "validateJourneyToken (jm_jws jm) (ms_tokens ms) tok = Inr v"
    by (auto simp: token_state_def split: sum.splits)
  from validated_claims [OF v] obtain c where c: "jw_payload (jm_jws jm) tok = Some c" "v = claims_state c" by blast
  from assms v have t: "trackings v \<noteq> []" by (auto simp: token_state_def split: if_splits)
  with assms v obtain b where sp: "SplitN2 (last (trackings v)) (CHR '':'') = [jid, b]" and j: "jid \<noteq> ''''"
    by (auto simp: token_state_def split: if_splits list.splits prod.splits option.splits)
  obtain cc x where g: "GetAndDelete (jm_cache jm) (ms_now ms) (js_Jti v) (ms_states ms) = (cc, x)" by force
  with assms v t sp j obtain prev where "x = Some prev" "ms1 = ms\<lparr>ms_states := cc\<rparr>" "st = MergeState v prev"
    by (cases x) (auto simp: token_state_def)
  with c v t sp j g show thesis by (intro that [of c b prev]) auto
qed

lemma selected_state_spent:
  assumes "ttl_cache (jm_cache jm) ttl" "select_state jm req ms = (ms1, Inr (st, jid))" "names_state jm req i"
  shows "spent jm i ms1 \<and> (jp_ResumeID req = '''' \<longrightarrow> js_Jti st = i)"
proof (cases "jp_ResumeID req = ''''")
  case False
  with assms(2,3) have "resume_state jm i ms = (ms1, Inr (st, jid))"
    by (auto simp: select_state_def names_state_def split: if_splits)
  then obtain c st0 where "GetAndDelete (jm_cache jm) (ms_now ms) i (ms_states ms) = (c, Some st0)" "ms_states ms1 = c"
    by (auto simp: resume_state_def Let_def split: prod.splits option.splits if_splits)
  with ttl_cache.taken_once [OF assms(1)] False show ?thesis by (auto simp: spent_def)
next
  case True
  with assms(2,3) have "token_state jm (jp_Jwt req) ms = (ms1, Inr (st, jid))"
    by (auto simp: select_state_def names_state_def split: if_splits)
  from token_state_ok [OF this] obtain c prev where c: "jw_payload (jm_jws jm) (jp_Jwt req) = Some c"
    and g: "GetAndDelete (jm_cache jm) (ms_now ms) (tc_jti c) (ms_states ms) = (ms_states ms1, Some prev)"
    and st: "st = MergeState (claims_state c) prev" by metis
  from c True assms(3) have "tc_jti c = i" by (simp add: names_state_def)
  with ttl_cache.taken_once [OF assms(1) g] st show ?thesis by (simp add: spent_def)
qed

lemma spent_refused:
  assumes "spent jm i ms" "names_state jm req i" "select_state jm req ms = (ms1, x)"
  shows "\<exists>e. x = Inl e"
proof (rule ccontr)
  assume "\<nexists>e. x = Inl e"
  then obtain st jid where x: "x = Inr (st, jid)" by (metis sum.exhaust surj_pair)
  have none: "GetAndDelete (jm_cache jm) n i (ms_states ms) = (ms_states ms, None)" for n
    using assms(1) by (simp add: spent_def GetAndDelete_def)
  show False
  proof (cases "jp_ResumeID req = ''''")
    case False
    with assms(2,3) x none show False by (auto simp: select_state_def names_state_def resume_state_def split: if_splits)
  next
    case True
    with assms(2,3) x have "token_state jm (jp_Jwt req) ms = (ms1, Inr (st, jid))"
      by (auto simp: select_state_def names_state_def split: if_splits)
    from token_state_ok [OF this] obtain c prev where "jw_payload (jm_jws jm) (jp_Jwt req) = Some c"
      and "GetAndDelete (jm_cache jm) (ms_now ms) (tc_jti c) (ms_states ms) = (ms_states ms1, Some prev)" by metis
    with True assms(2) none show False by (auto simp: names_state_def)
  qed
qed

lemma select_keeps_spent:
  assumes "ttl_cache (jm_cache jm) ttl" "spent jm i ms" "select_state jm req ms = (ms1, x)"
  shows "spent jm i ms1"
proof -
  have "ms_states ms1 = ms_states ms \<or> (\<exists>n k y. GetAndDelete (jm_cache jm) n k (ms_states ms) = (ms_states ms1, y))"
    using assms(3) by (auto simp: select_state_def resume_state_def token_state_def Let_def
        split: if_splits prod.splits option.splits sum.splits list.splits)
  with assms(2) ttl_cache.take_keeps_absent [OF assms(1)] show ?thesis unfolding spent_def by metis
qed

lemma GetJourneyState_states:
  assumes "GetJourneyState jm (Some req) c ms = (ms1, x)" "select_state jm req ms = (ms0, y)"
  shows "ms_states ms1 = ms_states ms0 \<and> ms_tokens ms1 = ms_tokens ms0 \<and> ms_now ms1 = ms_now ms0"
proof -
  have "ms_states ms2 = ms_states ms0 \<and> ms_tokens ms2 = ms_tokens ms0 \<and> ms_now ms2 = ms_now ms0"
    if "loadJourney jm j ms0 = (ms2, z)" for j ms2 z
    using loadJourney_states [of jm j ms0] that by simp
  with assms show ?thesis
    by (auto simp: GetJourneyState_def Let_def split: sum.splits prod.splits if_splits)
qed

lemma refused_invocation:
  assumes "je_Payload ex = Some req" "select_state jm req ms = (ms1, Inl e)"
  shows "\<exists>ms'. InvokeJourney jm fuel rand (Some ex) ms = Some (ms', None, Inl e)"
  using assms(2) by (simp add: InvokeJourney_payload [OF assms(1)] GetJourneyState_def)

lemma pause_states:
  "pauseJourney jm tx ms = (ms', tx', r) \<Longrightarrow> ms_states ms' = ms_states ms \<or>
     (\<exists>n d resp y. r = Inr (Some resp, y) \<and>
        ms_states ms' = gc_set (jm_cache jm) n (js_Jti (tx_State tx')) (tx_State tx') d (ms_states ms))"
  by (auto simp: pauseJourney_def Let_def Store_def split: prod.splits sum.splits if_splits) blast+

lemma executeJourney_states:
  "executeJourney jm fuel n tx ms = Some (ms', tx', r) \<Longrightarrow> ms_states ms' = ms_states ms \<or>
     (\<exists>n d resp y. r = Inr (Some resp, y) \<and>
        ms_states ms' = gc_set (jm_cache jm) n (js_Jti (tx_State tx')) (tx_State tx') d (ms_states ms))"
proof (induction n arbitrary: tx ms)
  case (Suc n)
  obtain st jid sid where pop: "PopTracking (tx_State tx) = (st, jid, sid)" by (metis prod.exhaust)
  obtain ms1 x where l: "loadJourney jm jid ms = (ms1, x)" by force
  have s1: "ms_states ms1 = ms_states ms" using loadJourney_states [of jm jid ms] l by simp
  show ?case
  proof (cases "\<exists>j. ExistsTracking (tx_State tx) \<and> x = Inr j")
    case False
    with Suc.prems pop l s1 show ?thesis by (cases x) (auto split: if_splits)
  next
    case True
    then obtain j where ex: "ExistsTracking (tx_State tx)" and j: "x = Inr j" by blast
    define tx2 where "tx2 = EmitEvent (journey_event EventStarted ''journey execution started'' None j)
       (tx\<lparr>tx_State := st, tx_Journey := j, tx_CurrentStepID := (if sid = '''' then jc_StartStepID j else sid)\<rparr>)"
    from Suc.prems pop l ex j obtain tx3 y where es: "executeSteps jm fuel tx2 = Some (tx3, y)"
      by (auto simp: tx2_def [symmetric] Let_def split: option.splits)
    show ?thesis
    proof (cases "\<exists>a b. y = Inr (a, b) \<and> \<not> b")
      case False
      with Suc.prems pop l ex j es s1 show ?thesis
        by (cases y) (auto simp: tx2_def [symmetric] Let_def split: if_splits)
    next
      case True
      then obtain a where y: "y = Inr (a, False)" by auto
      show ?thesis
      proof (cases a)
        case True
        with Suc.prems pop l ex j es y have "pauseJourney jm tx3 ms1 = (ms', tx', r)"
          by (simp add: tx2_def [symmetric] Let_def)
        from pause_states [OF this] s1 show ?thesis by simp
      next
        case False
        with Suc.prems pop l ex j es y have "executeJourney jm fuel n
            (EmitEvent (journey_event EventFinished ''journey execution finished'' None j) tx3) ms1 = Some (ms', tx', r)"
          by (simp add: tx2_def [symmetric] Let_def)
        from Suc.IH [OF this] s1 show ?thesis by simp
      qed
    qed
  qed
qed simp

lemma inputs_context_kept: "inputs_context jm conf st = Inr (st1, ctx) \<Longrightarrow> kept st st1 \<and> js_Ctx st1 = js_Ctx st"
  by (auto simp: inputs_context_def kept_def GetCtx_def GetEncryptedCtx_def Let_def
      split: prod.splits option.splits sum.splits if_splits)

lemma admitted_Jti:
  assumes "GetJourneyState jm (Some req) c ms = (ms1, Inr (st, conf))" "select_state jm req ms = (ms0, Inr (st0, jid))" "resumes req"
  shows "js_Jti st = js_Jti st0 \<and> js_Exp st = js_Exp st0 \<and> js_ClosedCtx st = js_ClosedCtx st0"
proof -
  from GetJourneyState_ok [OF assms(1)] assms(2,3) have "open_state jm st0 = Inr st" by auto
  from open_state_frame [OF this] show ?thesis by simp
qed

text \<open>What an invocation does to a spent identifier after its admission.\<close>

lemma invocation_keeps_spent:
  assumes law: "ttl_cache (jm_cache jm) ttl" and pl: "je_Payload ex = Some req"
    and g: "GetJourneyState jm (Some req) (je_IsConfidential ex) ms = (ms1, x)" and sp: "spent jm i ms1"
    and inv: "InvokeJourney jm fuel rand (Some ex) ms = Some (ms', tx, r)"
    and ce: "\<And>resp st conf. tx = None \<Longrightarrow> r = Inr (Some resp, None) \<Longrightarrow> TokenPresent req \<Longrightarrow> x = Inr (st, conf) \<Longrightarrow> js_Jti st \<noteq> i"
    and pa: "\<And>t resp y. tx = Some t \<Longrightarrow> r = Inr (Some resp, y) \<Longrightarrow> js_Jti (tx_State t) \<noteq> i"
  shows "spent jm i ms'"
proof -
  note E = inv [unfolded InvokeJourney_payload [OF pl] g]
  note set_other = ttl_cache.get_set_other [OF law]
  show ?thesis
  proof (cases "\<exists>st conf st1 ctx. x = Inr (st, conf) \<and> inputs_context jm conf st = Inr (st1, ctx)")
    case False
    with E have "ms_states ms' = ms_states ms1" by (auto split: sum.splits prod.splits)
    with sp show ?thesis by (simp add: spent_def)
  next
    case True
    then obtain st conf st1 ctx where x: "x = Inr (st, conf)" and c: "inputs_context jm conf st = Inr (st1, ctx)" by blast
    obtain b y where y: "checked_inputs jm (realm_payload st req) st1 ctx = (b, y)" by force
    have tok: "TokenPresent ((realm_payload st req)\<lparr>jp_ClientInputs := v\<rparr>) = TokenPresent req" for v
      by (simp add: realm_payload_def SetPayloadRealm_def TokenPresent_def)
    show ?thesis
    proof (cases y)
      case (Some e)
      show ?thesis
      proof (cases "TokenPresent req \<and> js_Jti st1 \<noteq> ''''")
        case True
        with E x c y Some tok have "tx = None" "\<exists>resp. r = Inr (Some resp, None)"
          "ms_states ms' = gc_set (jm_cache jm) (ms_now ms1) (js_Jti st1) st1 (js_Exp st1) (ms_states ms1)"
          by (auto simp: Store_def)
        moreover have "js_Jti st1 = js_Jti st" using inputs_context_kept [OF c] by (simp add: kept_def)
        moreover from calculation ce x True have "js_Jti st1 \<noteq> i" by auto
        ultimately show ?thesis using sp set_other [of i "js_Jti st1"] by (simp add: spent_def)
      next
        case False
        with E x c y Some tok have "ms_states ms' = ms_states ms1" by (auto simp: Store_def Let_def split: if_splits)
        with sp show ?thesis by (simp add: spent_def)
      qed
    next
      case None
      show ?thesis
      proof (cases rand)
        case (Inl e)
        with E x c y None sp show ?thesis by (simp add: spent_def)
      next
        case (Inr j)
        with E x c y None obtain ms2 t where e: "executeJourney jm fuel fuel (new_transaction ex ((realm_payload st req)
            \<lparr>jp_ClientInputs := cib_clientInputs b\<rparr>) conf (SetID j st1) b) ms1 = Some (ms2, t, r)"
          and ms': "ms' = record_end r ms2" "tx = Some t"
          by (auto split: option.splits)
        have "ms_states ms' = ms_states ms2" using ms'(1) by (auto simp: record_end_def split: sum.splits prod.splits option.splits)
        with executeJourney_states [OF e] pa [OF ms'(2)] sp set_other show ?thesis by (auto simp: spent_def)
      qed
    qed
  qed
qed

text \<open>What happens between two uses: further invocations by whomever, none of which leaves a paused journey under
  the identifier again, and any change of what is not a pending state (time, compiled journeys, keys).\<close>

inductive later_call :: "('t, 'c, 's, 'k) journeyManager \<Rightarrow> string \<Rightarrow> ('c, 's) manager_state \<Rightarrow> ('c, 's) manager_state \<Rightarrow> bool" for jm i where
  invoked: "InvokeJourney jm fuel rand je ms = Some (ms', tx, r) \<Longrightarrow>
     (\<And>t resp y. tx = Some t \<Longrightarrow> r = Inr (Some resp, y) \<Longrightarrow> js_Jti (tx_State t) \<noteq> i) \<Longrightarrow> later_call jm i ms ms'"
| others: "ms_states ms' = ms_states ms \<Longrightarrow> later_call jm i ms ms'"

lemma later_call_keeps_spent:
  assumes "ttl_cache (jm_cache jm) ttl"
  shows "(later_call jm i)\<^sup>*\<^sup>* ms ms' \<Longrightarrow> spent jm i ms \<Longrightarrow> spent jm i ms'"
proof (induction rule: rtranclp_induct)
  case (step ms2 ms3)
  from step.hyps(2) show ?case
  proof cases
    case others
    with step.IH step.prems show ?thesis by (simp add: spent_def)
  next
    case (invoked fuel rand je tx r)
    show ?thesis
    proof (cases "\<exists>ex req. je = Some ex \<and> je_Payload ex = Some req")
      case False
      then have "je = None \<or> (\<exists>ex. je = Some ex \<and> je_Payload ex = None)" by (metis option.exhaust)
      with invoked(1) have "ms_states ms3 = ms_states ms2" by (auto simp: InvokeJourney_refused)
      with step.IH step.prems show ?thesis by (simp add: spent_def)
    next
      case True
      then obtain ex req where je: "je = Some ex" and pl: "je_Payload ex = Some req" by blast
      obtain ms1 x where g: "GetJourneyState jm (Some req) (je_IsConfidential ex) ms2 = (ms1, x)" by force
      obtain ms0 y where s: "select_state jm req ms2 = (ms0, y)" by force
      have "spent jm i ms0" using select_keeps_spent [OF assms _ s] step.IH step.prems by blast
      with GetJourneyState_states [OF g s] have sp: "spent jm i ms1" by (simp add: spent_def)
      have "js_Jti st \<noteq> i" if "TokenPresent req" "x = Inr (st, conf)" for st conf
      proof -
        from GetJourneyState_ok [OF g [unfolded that(2)]] s obtain st0 jid where y: "y = Inr (st0, jid)" by auto
        from select_state_one_mode [of jm req ms2] s y that(1) have nr: "jp_ResumeID req = ''''"
          by (auto simp: selected_modes_def split: if_splits)
        with that(1) s y have "token_state jm (jp_Jwt req) ms2 = (ms0, Inr (st0, jid))"
          by (auto simp: select_state_def split: if_splits)
        from token_state_ok [OF this] obtain c where "jw_payload (jm_jws jm) (jp_Jwt req) = Some c" by metis
        with nr that(1) have n: "names_state jm req (tc_jti c)" by (simp add: names_state_def)
        from selected_state_spent [OF assms s [unfolded y] n] nr have "js_Jti st0 = tc_jti c" by simp
        moreover have "js_Jti st = js_Jti st0" using admitted_Jti [OF g [unfolded that(2)] s [unfolded y]] that(1) by simp
        moreover have "tc_jti c \<noteq> i" using spent_refused [OF _ _ s, of i] n y step.IH step.prems by auto
        ultimately show ?thesis by simp
      qed
      with invocation_keeps_spent [OF assms pl g sp invoked(1) [unfolded je]] invoked(2) show ?thesis by blast
    qed
  qed
qed


subsection \<open>How journeys end\<close>

lemma after_step_finished:
  "after_step jm cfg step i outcome tx = (tx', Finished paused failed) \<Longrightarrow>
     (failed \<longrightarrow> \<not> paused \<and> \<not> ExistsTracking (tx_State tx') \<and> is_EndJourney step \<and> is_Completion step = Some False) \<and>
     (paused \<longrightarrow> tx_newClientInputs tx' \<noteq> [] \<and> ExistsTracking (tx_State tx'))"
  by (auto simp: after_step_def Let_def EmitEvent_def ExistsTracking_def PushTracking_def trackings_def
      split: if_splits sum.splits)

lemma iterate_step_finished:
  "iterate_step jm tx = (tx', Finished paused failed) \<Longrightarrow>
     (failed \<longrightarrow> \<not> paused \<and> \<not> ExistsTracking (tx_State tx')) \<and>
     (paused \<longrightarrow> tx_newClientInputs tx' \<noteq> [] \<and> ExistsTracking (tx_State tx'))"
  by (auto simp: iterate_step_def Let_def split: option.splits prod.splits if_splits sum.splits dest!: after_step_finished)

text \<open>Running the steps of a frame reports failure only when that frame was the outermost one, so that a nested
  journey that ends in failure hands control back to the journey that started it; and it reports a
  pause only when there are inputs to ask for and a frame to come back to.\<close>

theorem frame_end:
  "executeSteps jm n tx = Some (tx', Inr (paused, failed)) \<Longrightarrow>
     (failed \<longrightarrow> \<not> paused \<and> \<not> ExistsTracking (tx_State tx')) \<and>
     (paused \<longrightarrow> tx_newClientInputs tx' \<noteq> [] \<and> ExistsTracking (tx_State tx'))"
proof (induction jm n tx rule: executeSteps.induct)
  case (2 jm n tx)
  then show ?case
    by (auto split: prod.splits iteration.splits dest: iterate_step_finished)
qed simp

text \<open>An execution that ends without a response and without an error has no frame left to run.\<close>

theorem success_means_finished:
  "executeJourney jm fuel n tx ms = Some (ms', tx', Inr (None, st)) \<Longrightarrow> st = Some (tx_State tx') \<and> \<not> ExistsTracking (tx_State tx')"
proof (induction jm fuel n tx ms rule: executeJourney.induct)
  case (2 jm fuel n tx ms)
  have np: "pauseJourney jm t m \<noteq> (ms', tx', Inr (None, st))" for t m
    by (auto simp: pauseJourney_def Let_def split: prod.splits sum.splits if_splits)
  from 2 show ?case
    by (auto simp: Let_def np split: if_splits prod.splits sum.splits option.splits)
qed simp

subsection \<open>Concrete runs\<close>

definition failing_manager :: "(gval, pending, bool, unit) journeyManager" where
  "failing_manager = sample_manager\<lparr>jm_rt := (jm_rt sample_manager)\<lparr>re_steps := tiny_registry\<lparr>rg_steps :=
     [(''End'', \<lparr>is_type = TStruct [], is_EndJourney = True, is_Completion = Some False,
       is_VerifyConfig = (\<lambda>n c. Inr ()), is_Execute = (\<lambda>c tx. (tx, Inr ''''))\<rparr>)]\<rparr>\<rparr>\<rparr>"

definition sample_tx :: "gval JourneyState \<Rightarrow> gval JourneyTransaction" where
  "sample_tx st = (new_transaction \<lparr>je_Payload = None, je_IsConfidential = False, je_Request = None, je_Response = None\<rparr>
     empty_payload tiny_prepared st (NewClientInputBuilder [] (GObj [])))\<lparr>tx_CurrentStepID := ''s''\<rparr>"

definition nested_state :: "gval JourneyState" where
  "nested_state = zero_state\<lparr>js_ctx := Some (GObj []), js_TrackingsID := Some [''j1:s'']\<rparr>"

definition run_result :: "(gval JourneyTransaction \<times> (bool \<times> bool) res) option \<Rightarrow> (bool \<times> bool) option" where
  "run_result r = (case r of Some (tx, Inr x) \<Rightarrow> Some x | _ \<Rightarrow> None)"

lemma run_resultE: "run_result r = Some x \<Longrightarrow> \<exists>tx. r = Some (tx, Inr x)"
  by (auto simp: run_result_def split: option.splits sum.splits prod.splits)

text \<open>The outermost frame fails; the same step below another frame does not.\<close>

theorem frame_end_witness:
  "(\<exists>tx'. executeSteps failing_manager 1 (sample_tx (zero_state\<lparr>js_ctx := Some (GObj [])\<rparr>)) = Some (tx', Inr (False, True)) \<and>
      \<not> ExistsTracking (tx_State tx')) \<and>
   run_result (executeSteps failing_manager 1 (sample_tx nested_state)) = Some (False, False)"
proof -
  have "run_result (executeSteps failing_manager 1 (sample_tx (zero_state\<lparr>js_ctx := Some (GObj [])\<rparr>))) = Some (False, True)"
    by code_simp
  from run_resultE [OF this] obtain tx' where
    "executeSteps failing_manager 1 (sample_tx (zero_state\<lparr>js_ctx := Some (GObj [])\<rparr>)) = Some (tx', Inr (False, True))" by blast
  moreover have "run_result (executeSteps failing_manager 1 (sample_tx nested_state)) = Some (False, False)" by code_simp
  ultimately show ?thesis using frame_end by blast
qed

theorem success_means_finished_witness:
  "\<exists>ms' tx' st. executeJourney sample_manager 2 2 (sample_tx nested_state) sample_ms = Some (ms', tx', Inr (None, st)) \<and>
     \<not> ExistsTracking (tx_State tx')"
proof -
  let ?r = "executeJourney sample_manager 2 2 (sample_tx nested_state) sample_ms"
  have "(case ?r of Some (ms', tx', Inr (None, st)) \<Rightarrow> True | _ \<Rightarrow> False)" by code_simp
  then obtain ms' tx' st where "?r = Some (ms', tx', Inr (None, st))"
    by (auto split: option.splits prod.splits sum.splits)
  with success_means_finished [OF this] show ?thesis by blast
qed

text \<open>A manager with a cipher, and a transaction at its pause with a secret in the encrypted context.\<close>

definition echo_crypto :: crypto where
  "echo_crypto = \<lparr>cr_marshal = (\<lambda>v. Some ''x''), cr_unmarshal = (\<lambda>s. Some [(''pin'', GStr ''1'')]), cr_encrypt = (\<lambda>k s. Some s),
     cr_decrypt = (\<lambda>k s. Some s), cr_b64enc = (\<lambda>s. s), cr_b64dec = (\<lambda>s. Some s)\<rparr>"

definition vault_manager :: "(gval, pending, bool, unit) journeyManager" where
  "vault_manager = sample_manager\<lparr>jm_crypto := echo_crypto, jm_jws := const_jws (sample_claims\<lparr>tc_enc := ''x''\<rparr>)\<rparr>"

definition paused_tx :: "gval JourneyTransaction" where
  "paused_tx = sample_tx (zero_state\<lparr>js_Jti := ''id'', js_TrackingsID := Some [''j1:s1''], js_Exp := 50, js_ctx := Some (GObj []),
     js_encryptedCtx := Some (GObj [(''pin'', GStr ''1'')])\<rparr>)"

definition pause_view :: "('c, 's) manager_state \<times> 't JourneyTransaction \<times> 't outcome \<Rightarrow> string option" where
  "pause_view r = (case snd (snd r) of Inr (Some resp, None) \<Rightarrow> Some (jp_Jwt resp) | _ \<Rightarrow> None)"

lemma pause_viewE: "pause_view r = Some j \<Longrightarrow> \<exists>ms tx resp. r = (ms, tx, Inr (Some resp, None)) \<and> jp_Jwt resp = j"
  by (cases r) (auto simp: pause_view_def split: sum.splits option.splits prod.splits)

lemma f64_trunc_zero [simp]: "f64_trunc 0 = 0"
  by (simp add: f64_trunc_def f64_exp_def f64_finite_def)

lemma paused_extension:
  "consumeExpirationExtension (jm_tree vault_manager) (jm_keys vault_manager) (tx_State paused_tx) = (tx_State paused_tx, 0)"
proof -
  have g: "GetCtx (jm_tree vault_manager) (tx_State paused_tx) = (tx_State paused_tx, GObj [])" by code_simp
  have d: "tm_delete (jm_tree vault_manager) (GObj []) (GetExtendJourneyExpKey (jm_keys vault_manager)) = (GObj [], GNil)" by code_simp
  have f: "tm_as_float (jm_tree vault_manager) GNil = None" by code_simp
  have k: "put_kind KCtx (GObj []) (tx_State paused_tx) = tx_State paused_tx" by code_simp
  show ?thesis by (simp add: consumeExpirationExtension_def g d f k in_int64_def del: put_kind.simps)
qed

definition paused_state :: "gval JourneyState" where
  "paused_state = (tx_State paused_tx)\<lparr>js_Ctx := Some [], js_EncryptedCtx := ''x'', js_tempCtx := Some (GObj [])\<rparr>"

lemma paused_serialized: "serializeJourneyContext vault_manager (tx_State paused_tx) =
    ((tx_State paused_tx)\<lparr>js_Ctx := Some [], js_EncryptedCtx := ''x''\<rparr>, Inr ())"
  by code_simp

lemma paused_temp: "GetTempCtx (jm_tree vault_manager)
     ((tx_State paused_tx)\<lparr>js_Ctx := Some [], js_EncryptedCtx := ''x''\<rparr>) = (paused_state, GObj [])"
  by code_simp

lemma paused_signed: "signJourneyToken (jm_jws vault_manager) (ms_tokens sample_ms) paused_state = (True, Inr ''tok'')"
  by code_simp

lemma paused_view: "pause_view (pauseJourney vault_manager paused_tx sample_ms) = Some ''tok''"
proof -
  have nd: "\<not> tm_defined (jm_tree vault_manager) (GObj []) (GetSuspendJourneyKey (jm_keys vault_manager))" by code_simp
  have j: "js_Jti (ClearState paused_state) = ''id''" by code_simp
  show ?thesis
    by (simp add: pauseJourney_def paused_extension paused_serialized paused_temp paused_signed nd Let_def Store_def j pause_view_def)
qed


text \<open>A suspended journey is resumed, runs to its end, and its identifier is refused at a later time; a token is
  sent with an input nobody asked for, and selects the journey again afterwards.\<close>

definition resume_execution :: JourneyExecute where
  "resume_execution = \<lparr>je_Payload = Some sample_resume, je_IsConfidential = False, je_Request = None, je_Response = None\<rparr>"

definition stray_input :: ClientInput where
  "stray_input = \<lparr>ci_ID = ''a'', ci_ExternalID = ''a'', ci_StepType = ''Form'', ci_Type = ''string'', ci_SendBack = False,
     ci_Output = GNil, ci_Input = GStr ''x''\<rparr>"

definition token_execution :: JourneyExecute where
  "token_execution = resume_execution\<lparr>je_Payload := Some (empty_payload\<lparr>jp_Jwt := ''tok'', jp_ClientInputs := [Some stray_input]\<rparr>)\<rparr>"

definition token_ms :: "(pending, bool) manager_state" where
  "token_ms = sample_ms\<lparr>ms_states := [''id'' \<mapsto> (100, suspended_state)]\<rparr>"

definition answer_kind :: "(('c, 's) manager_state \<times> 't JourneyTransaction option \<times> 't outcome) option \<Rightarrow> nat" where
  "answer_kind a = (case a of
      Some (ms, Some tx, Inr (None, st)) \<Rightarrow> 1 | Some (ms, None, Inr (Some resp, None)) \<Rightarrow> 2 | _ \<Rightarrow> 0)"

lemma resumed_to_the_end: "answer_kind (InvokeJourney sample_manager 2 (Inr ''id2'') (Some resume_execution) sample_ms) = 1"
  by code_simp

lemma token_client_error: "answer_kind (InvokeJourney sample_manager 2 (Inr ''id2'') (Some token_execution) token_ms) = 2"
  by code_simp

lemma token_admitted: "is_ok (GetJourneyState sample_manager (Some (the (je_Payload token_execution))) False token_ms)"
  by code_simp

lemma answer_kindE:
  "answer_kind a = 1 \<Longrightarrow> \<exists>ms tx st. a = Some (ms, Some tx, Inr (None, st))"
  "answer_kind a = 2 \<Longrightarrow> \<exists>ms resp. a = Some (ms, None, Inr (Some resp, None))"
  by (auto simp: answer_kind_def split: option.splits prod.splits sum.splits)


text \<open>C26: Emptying the encrypted context does not survive a pause: the ciphertext of its earlier content stays in
  the state, and the next interaction decrypts that content again.\<close>

theorem emptied_encrypted_context_returns:
  assumes "js_ctx st = Some t" "tm_as_map (jm_tree jm) t = Some ctx"
    and "js_encryptedCtx st = Some et" "tm_as_map (jm_tree jm) et = Some []"
    and "js_EncryptedCtx st \<noteq> ''''" "DecryptCtx (jm_tree jm) (jm_crypto jm) (js_EncryptedCtx st) (js_encryptionKey st) = Inr old"
    and "serializeJourneyContext jm st = (st', r)"
  shows "r = Inr () \<and> js_EncryptedCtx st' = js_EncryptedCtx st \<and>
         snd (GetEncryptedCtx (jm_tree jm) (jm_crypto jm) (ClearState st')) = old"
proof -
  have "GetCtx (jm_tree jm) st = (st, t)" using assms(1) by (simp add: GetCtx_def)
  with assms have "st' = st\<lparr>js_Ctx := Some ctx\<rparr>" "r = Inr ()"
    by (simp_all add: serializeJourneyContext_def GetEncryptedCtx_def)
  with assms(5,6) show ?thesis by (simp add: GetEncryptedCtx_def ClearState_def)
qed

theorem emptied_encrypted_context_returns_witness:
  "snd (GetEncryptedCtx ref_tree echo_crypto (ClearState (fst (serializeJourneyContext (sample_manager\<lparr>jm_crypto := echo_crypto\<rparr>)
     (zero_state\<lparr>js_ctx := Some (GObj []), js_encryptedCtx := Some (GObj []), js_EncryptedCtx := ''x''\<rparr>)))))
   = GObj [(''pin'', GStr ''1'')]"
proof -
  let ?jm = "sample_manager\<lparr>jm_crypto := echo_crypto\<rparr>"
  let ?st = "zero_state\<lparr>js_ctx := Some (GObj []), js_encryptedCtx := Some (GObj []), js_EncryptedCtx := ''x''\<rparr> :: gval JourneyState"
  obtain st' r where s: "serializeJourneyContext ?jm ?st = (st', r)" by force
  have "jm_tree ?jm = ref_tree" "jm_crypto ?jm = echo_crypto" by (simp_all add: sample_manager_def sample_runtime_def)
  moreover have "DecryptCtx ref_tree echo_crypto ''x'' '''' = Inr (GObj [(''pin'', GStr ''1'')])" by code_simp
  ultimately show ?thesis
    using emptied_encrypted_context_returns [OF _ _ _ _ _ _ s, of "GObj []" "[]" "GObj []" "GObj [(''pin'', GStr ''1'')]"] s
    by (simp add: ref_tree_def zero_state_def)
qed

end
