(* ===== verification/CacheManager.thy ===== *)
theory CacheManager
  imports Values
begin

text \<open>
  \<^verbatim>\<open>cache/manager.go\<close>: the registry of shared runtime instances (HTTP clients, route
  tables, script runtimes, schedulers), grouped in named caches with limits, optionally persisted.
  The pointers it keeps are a type parameter \<open>'v\<close>; the storage (\<^verbatim>\<open>go-nstore\<close>) and
  \<^verbatim>\<open>json.Marshal\<close> of the caller's configuration, whose length the limits count, are
  arguments. Every method holds the manager's lock for the whole of its body except
  \<open>UpdateCacheInstance\<close>, which builds the instance between two critical sections; the step
  relation below interleaves those sections.
\<close>

subsection \<open>Data\<close>

text \<open>A Go value of type \<open>any\<close>, as far as \<open>validatePointer\<close> tells values apart.\<close>

datatype 'v dyn = DNil | DNilPtr | DPtr 'v | DOther

type_synonym raw = string

record 'v CacheConfig =
  cc_Factory :: "(raw \<Rightarrow> 'v dyn res) option"
  cc_MaxInstances :: int
  cc_MaxSizeBytes :: int
  cc_Description :: string
  cc_Schema :: raw
  cc_UserConfigurable :: bool

record CacheInfo =
  inf_Key :: string
  inf_MaxInstances :: int
  inf_MaxSizeBytes :: int
  inf_Instances :: int
  inf_SizeBytes :: int
  inf_Persistable :: bool
  inf_UserConfigurable :: bool
  inf_Description :: string
  inf_Schema :: raw

record CacheInstanceInfo =
  ii_CacheKey :: string
  ii_InstanceID :: string
  ii_Config :: raw
  ii_Persisted :: bool
  ii_Runtime :: bool
  ii_SizeBytes :: int

type_synonym ConfigResolver = "string \<Rightarrow> string \<Rightarrow> raw \<Rightarrow> raw res"

record 'v ManagerConfig =
  mc_FolderPath :: string
  mc_Caches :: "'v CacheConfig gomap"
  mc_ConfigResolver :: "ConfigResolver option"

text \<open>\<open>pi_ID\<close> is the identifier in the record's metadata; \<open>None\<close> is a nil \<^verbatim>\<open>Metadata\<close>.\<close>

record persistedInstance =
  pi_ID :: "string option"
  pi_CacheKey :: string
  pi_InstanceID :: string
  pi_Config :: raw

record 'v cache_instance =
  ci_value :: "'v dyn"
  ci_size :: int
  ci_recordID :: string
  ci_config :: raw

text \<open>The storage: \<open>ns_open\<close> opens and loads a folder, \<open>ns_save\<close> returns the record with its
  metadata, \<open>ns_delete\<close> the error, with \<open>True\<close> when it is \<^verbatim>\<open>os.ErrNotExist\<close>.\<close>

record 'n nstore =
  ns_open :: "string \<Rightarrow> 'n res"
  ns_list :: "'n \<Rightarrow> persistedInstance list"
  ns_save :: "persistedInstance \<Rightarrow> 'n \<Rightarrow> 'n \<times> persistedInstance res"
  ns_delete :: "string \<Rightarrow> 'n \<Rightarrow> 'n \<times> (bool \<times> go_error) option"

record ('v, 'n) Manager =
  m_caches :: "'v cache_instance gomap gomap"
  m_configs :: "'v CacheConfig gomap"
  m_storage :: "'n option"
  m_instances :: int
  m_sizeBytes :: int
  m_resolver :: "ConfigResolver option"

definition zero_config :: "'v CacheConfig" where
  "zero_config = \<lparr>cc_Factory = None, cc_MaxInstances = 0, cc_MaxSizeBytes = 0, cc_Description = '''',
     cc_Schema = '''', cc_UserConfigurable = False\<rparr>"

definition zero_instance :: "'v cache_instance" where
  "zero_instance = \<lparr>ci_value = DNil, ci_size = 0, ci_recordID = '''', ci_config = ''''\<rparr>"

definition config_of :: "('v, 'n) Manager \<Rightarrow> string \<Rightarrow> 'v CacheConfig" where
  "config_of m key = or_default (gm_get (m_configs m) key) zero_config"

definition cache_of :: "('v, 'n) Manager \<Rightarrow> string \<Rightarrow> 'v cache_instance gomap" where
  "cache_of m key = or_default (gm_get (m_caches m) key) []"

subsection \<open>Helpers\<close>

fun validatePointer :: "'v dyn \<Rightarrow> go_error option" where
  "validatePointer (DPtr v) = None"
| "validatePointer _ = Some ErrInstanceNotPointer"

definition cloneConfigs :: "'v CacheConfig gomap \<Rightarrow> 'v CacheConfig gomap" where
  "cloneConfigs source = filter (\<lambda>p. fst p \<noteq> '''') source"

definition negative_limits :: "'v CacheConfig \<Rightarrow> bool" where
  "negative_limits c \<longleftrightarrow> cc_MaxInstances c < 0 \<or> cc_MaxSizeBytes c < 0"

text \<open>\<open>%q\<close> is modelled for keys without characters that need an escape.\<close>

definition negative_error :: "string \<Rightarrow> go_error" where
  "negative_error key = ErrText (''cache \"'' @ key @ ''\" limits cannot be negative'')"

fun cacheStatsLocked :: "'v cache_instance gomap \<Rightarrow> int \<times> int \<Rightarrow> int \<times> int" where
  "cacheStatsLocked [] acc = acc"
| "cacheStatsLocked (p # c) (n, s) = cacheStatsLocked c (wrap64 (n + 1), wrap64 (s + ci_size (snd p)))"

definition checkLimits :: "('v, 'n) Manager \<Rightarrow> string \<Rightarrow> bool \<Rightarrow> int \<Rightarrow> int \<Rightarrow> go_error option" where
  "checkLimits m key replacing oldSize newSize =
     (let config = config_of m key; (instances, sizeBytes) = cacheStatsLocked (cache_of m key) (0, 0) in
      if \<not> replacing \<and> 0 < cc_MaxInstances config \<and> cc_MaxInstances config < wrap64 (instances + 1)
      then Some ErrMaxInstances
      else if 0 < cc_MaxSizeBytes config \<and> cc_MaxSizeBytes config < wrap64 (wrap64 (sizeBytes - oldSize) + newSize)
      then Some ErrMaxSize
      else None)"

definition lookup :: "('v, 'n) Manager \<Rightarrow> string \<Rightarrow> string \<Rightarrow> 'v cache_instance \<times> bool" where
  "lookup m key i =
     (case gm_get (m_caches m) key of
        None \<Rightarrow> (zero_instance, False)
      | Some cache \<Rightarrow> (case gm_get cache i of None \<Rightarrow> (zero_instance, False) | Some e \<Rightarrow> (e, True)))"

definition store :: "string \<Rightarrow> string \<Rightarrow> 'v cache_instance \<Rightarrow> bool \<Rightarrow> int \<Rightarrow> ('v, 'n) Manager \<Rightarrow> ('v, 'n) Manager" where
  "store key i entry replacing oldSize m =
     m\<lparr>m_caches := gm_put key (gm_put i entry (cache_of m key)) (m_caches m),
       m_instances := (if replacing then m_instances m else wrap64 (m_instances m + 1)),
       m_sizeBytes := wrap64 (m_sizeBytes m + wrap64 (ci_size entry - oldSize))\<rparr>"

definition deleteRecord :: "'n nstore \<Rightarrow> string \<Rightarrow> 'n \<Rightarrow> 'n \<times> go_error option" where
  "deleteRecord N i s =
     (case ns_delete N i s of
        (s', None) \<Rightarrow> (s', None)
      | (s', Some (notExist, e)) \<Rightarrow> (s', if notExist then None else Some e))"

text \<open>Deletion of an entry's record where the manager persists and the entry has one.\<close>

definition drop_record :: "'n nstore \<Rightarrow> string \<Rightarrow> ('v, 'n) Manager \<Rightarrow> ('v, 'n) Manager \<times> go_error option" where
  "drop_record N recordID m =
     (case m_storage m of
        None \<Rightarrow> (m, None)
      | Some s \<Rightarrow> if recordID = '''' then (m, None)
                  else (case deleteRecord N recordID s of (s', e) \<Rightarrow> (m\<lparr>m_storage := Some s'\<rparr>, e)))"

definition resolveConfig :: "('v, 'n) Manager \<Rightarrow> string \<Rightarrow> string \<Rightarrow> raw \<Rightarrow> raw res" where
  "resolveConfig m key i config =
     (case m_resolver m of None \<Rightarrow> Inr config | Some resolver \<Rightarrow> resolver key i config)"

subsection \<open>Construction\<close>

definition addLoaded :: "persistedInstance \<Rightarrow> 'v dyn \<Rightarrow> ('v, 'n) Manager \<Rightarrow> ('v, 'n) Manager res" where
  "addLoaded record value1 m =
     (let size = int (length (pi_Config record)) in
      case checkLimits m (pi_CacheKey record) False 0 size of
        Some e \<Rightarrow> Inl e
      | None \<Rightarrow> Inr (store (pi_CacheKey record) (pi_InstanceID record)
                  \<lparr>ci_value = value1, ci_size = size, ci_recordID = or_default (pi_ID record) '''',
                   ci_config = pi_Config record\<rparr> False 0 m))"

definition record_name :: "persistedInstance \<Rightarrow> string" where
  "record_name record = pi_CacheKey record @ ''/'' @ pi_InstanceID record"

fun load_records :: "persistedInstance list \<Rightarrow> ('v, 'n) Manager \<Rightarrow> ('v, 'n) Manager res" where
  "load_records [] m = Inr m"
| "load_records (record # rest) m =
     (case cc_Factory (config_of m (pi_CacheKey record)) of
        None \<Rightarrow> Inl (ErrFactoryNotFound (pi_CacheKey record))
      | Some factory \<Rightarrow>
          (case resolveConfig m (pi_CacheKey record) (pi_InstanceID record) (pi_Config record) of
             Inl e \<Rightarrow> Inl (ErrWrap (''resolve '' @ record_name record) e)
           | Inr resolvedConfig \<Rightarrow>
               (case factory resolvedConfig of
                  Inl e \<Rightarrow> Inl (ErrWrap (''construct '' @ record_name record) e)
                | Inr v \<Rightarrow>
                    (case validatePointer v of
                       Some e \<Rightarrow> Inl (ErrWrap (''construct '' @ record_name record) e)
                     | None \<Rightarrow> bind_res (addLoaded record v m) (load_records rest)))))"

definition empty_manager :: "'v ManagerConfig \<Rightarrow> ('v, 'n) Manager" where
  "empty_manager config = \<lparr>m_caches = [], m_configs = cloneConfigs (mc_Caches config), m_storage = None,
     m_instances = 0, m_sizeBytes = 0, m_resolver = mc_ConfigResolver config\<rparr>"

definition NewManager :: "'n nstore \<Rightarrow> 'v ManagerConfig option \<Rightarrow> ('v, 'n) Manager res" where
  "NewManager N configOpt =
     (let config = or_default configOpt \<lparr>mc_FolderPath = '''', mc_Caches = [], mc_ConfigResolver = None\<rparr>;
          manager = empty_manager config in
      case find (\<lambda>p. negative_limits (snd p)) (m_configs manager) of
        Some p \<Rightarrow> Inl (negative_error (fst p))
      | None \<Rightarrow>
          if mc_FolderPath config = '''' then Inr manager
          else bind_res (ns_open N (mc_FolderPath config)) (\<lambda>storage.
                 load_records (ns_list N storage) (manager\<lparr>m_storage := Some storage\<rparr>)))"

subsection \<open>Operations\<close>

definition GetCache :: "('v, 'n) Manager \<Rightarrow> string \<Rightarrow> 'v dyn gomap option" where
  "GetCache m key = map_option (map (\<lambda>p. (fst p, ci_value (snd p)))) (gm_get (m_caches m) key)"

definition GetCacheInstance :: "('v, 'n) Manager \<Rightarrow> string \<Rightarrow> string \<Rightarrow> 'v dyn \<times> bool" where
  "GetCacheInstance m key i =
     (case gm_get (m_caches m) key of
        None \<Rightarrow> (DNil, False)
      | Some cache \<Rightarrow> (case gm_get cache i of None \<Rightarrow> (DNil, False) | Some e \<Rightarrow> (ci_value e, True)))"

definition ConfigureCache :: "string \<Rightarrow> 'v CacheConfig option \<Rightarrow> ('v, 'n) Manager \<Rightarrow> ('v, 'n) Manager \<times> go_error option" where
  "ConfigureCache key0 configOpt m =
     (case configOpt of
        None \<Rightarrow> (m, Some (ErrText ''cache config is nil''))
      | Some config \<Rightarrow>
          let key = TrimSpace key0 in
          if key = '''' then (m, Some (ErrText ''cache key is required''))
          else if negative_limits config then (m, Some (negative_error key))
          else (m\<lparr>m_configs := gm_put key config (m_configs m)\<rparr>, None))"

definition fill_missing :: "'v CacheConfig \<Rightarrow> 'v CacheConfig \<Rightarrow> 'v CacheConfig" where
  "fill_missing config existing =
     existing\<lparr>cc_Factory := (if Option.is_none (cc_Factory existing) then cc_Factory config else cc_Factory existing),
       cc_Description := (if cc_Description existing = '''' then cc_Description config else cc_Description existing),
       cc_Schema := (if length (cc_Schema existing) = 0 then cc_Schema config else cc_Schema existing),
       cc_UserConfigurable := (if \<not> cc_UserConfigurable existing then cc_UserConfigurable config
                               else cc_UserConfigurable existing)\<rparr>"

definition ConfigureCacheIfMissing :: "string \<Rightarrow> 'v CacheConfig option \<Rightarrow> ('v, 'n) Manager
    \<Rightarrow> ('v, 'n) Manager \<times> go_error option" where
  "ConfigureCacheIfMissing key0 configOpt m =
     (case configOpt of
        None \<Rightarrow> (m, Some (ErrText ''cache config is nil''))
      | Some config \<Rightarrow>
          let key = TrimSpace key0 in
          if key = '''' then (m, Some (ErrText ''cache key is required''))
          else if negative_limits config then (m, Some (negative_error key))
          else (case gm_get (m_configs m) key of
                  Some existing \<Rightarrow> (m\<lparr>m_configs := gm_put key (fill_missing config existing) (m_configs m)\<rparr>, None)
                | None \<Rightarrow> (m\<lparr>m_configs := gm_put key config (m_configs m)\<rparr>, None)))"

definition ConfigureConfigResolver :: "ConfigResolver option \<Rightarrow> ('v, 'n) Manager \<Rightarrow> ('v, 'n) Manager" where
  "ConfigureConfigResolver resolver m = m\<lparr>m_resolver := resolver\<rparr>"

text \<open>The two halves of \<open>UpdateCacheInstance\<close>: \<open>build_instance\<close> runs without the write lock.\<close>

definition build_instance :: "('v, 'n) Manager \<Rightarrow> string \<Rightarrow> string \<Rightarrow> raw res \<Rightarrow> (raw \<times> 'v dyn) res" where
  "build_instance m key i marshalled =
     (case cc_Factory (config_of m key) of
        None \<Rightarrow> Inl (ErrFactoryNotFound key)
      | Some factory \<Rightarrow>
          bind_res marshalled (\<lambda>encoded.
          bind_res (resolveConfig m key i encoded) (\<lambda>resolvedConfig.
          bind_res (factory resolvedConfig) (\<lambda>v.
            case validatePointer v of Some e \<Rightarrow> Inl e | None \<Rightarrow> Inr (encoded, v)))))"

definition save_record :: "'n nstore \<Rightarrow> persistedInstance \<Rightarrow> ('v, 'n) Manager \<Rightarrow> ('v, 'n) Manager \<times> persistedInstance res" where
  "save_record N record m =
     (case m_storage m of
        None \<Rightarrow> (m, Inr record)
      | Some s \<Rightarrow> (case ns_save N record s of (s', r) \<Rightarrow> (m\<lparr>m_storage := Some s'\<rparr>, r)))"

definition commit_instance :: "'n nstore \<Rightarrow> string \<Rightarrow> string \<Rightarrow> raw \<Rightarrow> 'v dyn \<Rightarrow> ('v, 'n) Manager
    \<Rightarrow> ('v, 'n) Manager \<times> go_error option" where
  "commit_instance N key i encoded v m =
     (let (old, exists) = lookup m key i; size = int (length encoded) in
      case checkLimits m key exists (ci_size old) size of
        Some e \<Rightarrow> (m, Some e)
      | None \<Rightarrow>
          let record = \<lparr>pi_ID = (if exists \<and> ci_recordID old \<noteq> '''' then Some (ci_recordID old) else None),
                        pi_CacheKey = key, pi_InstanceID = i, pi_Config = encoded\<rparr> in
          (case save_record N record m of
             (m1, Inl e) \<Rightarrow> (m1, Some e)
           | (m1, Inr saved) \<Rightarrow>
               (store key i \<lparr>ci_value = v, ci_size = size, ci_recordID = or_default (pi_ID saved) '''',
                             ci_config = encoded\<rparr> exists (ci_size old) m1, None)))"

definition UpdateCacheInstance :: "'n nstore \<Rightarrow> string \<Rightarrow> string \<Rightarrow> raw res \<Rightarrow> ('v, 'n) Manager
    \<Rightarrow> ('v, 'n) Manager \<times> go_error option" where
  "UpdateCacheInstance N key i marshalled m =
     (case build_instance m key i marshalled of
        Inl e \<Rightarrow> (m, Some e)
      | Inr (encoded, v) \<Rightarrow> commit_instance N key i encoded v m)"

definition UpdateRuntimeCacheInstance :: "'n nstore \<Rightarrow> string \<Rightarrow> string \<Rightarrow> 'v dyn \<Rightarrow> int \<Rightarrow> ('v, 'n) Manager
    \<Rightarrow> ('v, 'n) Manager \<times> go_error option" where
  "UpdateRuntimeCacheInstance N key i v sizeBytes m =
     (case validatePointer v of
        Some e \<Rightarrow> (m, Some e)
      | None \<Rightarrow>
          if sizeBytes < 0 then (m, Some (ErrText ''cache instance size cannot be negative''))
          else let (old, exists) = lookup m key i in
               case checkLimits m key exists (ci_size old) sizeBytes of
                 Some e \<Rightarrow> (m, Some e)
               | None \<Rightarrow>
                   (case (if exists then drop_record N (ci_recordID old) m else (m, None)) of
                      (m1, Some e) \<Rightarrow> (m1, Some e)
                    | (m1, None) \<Rightarrow>
                        (store key i \<lparr>ci_value = v, ci_size = sizeBytes, ci_recordID = '''', ci_config = ''''\<rparr>
                           exists (ci_size old) m1, None)))"

definition RemoveCacheInstance :: "'n nstore \<Rightarrow> string \<Rightarrow> string \<Rightarrow> ('v, 'n) Manager
    \<Rightarrow> ('v, 'n) Manager \<times> go_error option" where
  "RemoveCacheInstance N key i m =
     (case gm_get (m_caches m) key of
        None \<Rightarrow> (m, Some ErrCacheNotFound)
      | Some cache \<Rightarrow>
          (case gm_get cache i of
             None \<Rightarrow> (m, Some ErrInstanceNotFound)
           | Some entry \<Rightarrow>
               (case drop_record N (ci_recordID entry) m of
                  (m1, Some e) \<Rightarrow> (m1, Some e)
                | (m1, None) \<Rightarrow>
                    let cache' = gm_del i cache in
                    (m1\<lparr>m_instances := wrap64 (m_instances m1 - 1),
                        m_sizeBytes := wrap64 (m_sizeBytes m1 - ci_size entry),
                        m_caches := (if length cache' = 0 then gm_del key (m_caches m1)
                                     else gm_put key cache' (m_caches m1))\<rparr>, None))))"

fun remove_entries :: "'n nstore \<Rightarrow> 'v cache_instance gomap \<Rightarrow> ('v, 'n) Manager \<Rightarrow> ('v, 'n) Manager \<times> go_error option" where
  "remove_entries N [] m = (m, None)"
| "remove_entries N (p # rest) m =
     (case drop_record N (ci_recordID (snd p)) m of
        (m1, Some e) \<Rightarrow> (m1, Some e)
      | (m1, None) \<Rightarrow>
          remove_entries N rest (m1\<lparr>m_instances := wrap64 (m_instances m1 - 1),
                                    m_sizeBytes := wrap64 (m_sizeBytes m1 - ci_size (snd p))\<rparr>))"

definition RemoveCache :: "'n nstore \<Rightarrow> string \<Rightarrow> ('v, 'n) Manager \<Rightarrow> ('v, 'n) Manager \<times> go_error option" where
  "RemoveCache N key m =
     (case gm_get (m_caches m) key of
        None \<Rightarrow> (m, Some ErrCacheNotFound)
      | Some cache \<Rightarrow>
          (case remove_entries N cache m of
             (m1, Some e) \<Rightarrow> (m1, Some e)
           | (m1, None) \<Rightarrow> (m1\<lparr>m_caches := gm_del key (m_caches m1)\<rparr>, None)))"

definition Stats :: "('v, 'n) Manager \<Rightarrow> int \<times> int" where
  "Stats m = (m_instances m, m_sizeBytes m)"

definition CacheStats :: "('v, 'n) Manager \<Rightarrow> string \<Rightarrow> int \<times> int" where
  "CacheStats m key = cacheStatsLocked (cache_of m key) (0, 0)"

definition cache_info :: "('v, 'n) Manager \<Rightarrow> string \<Rightarrow> CacheInfo" where
  "cache_info m key =
     (let config = config_of m key; (instances, sizeBytes) = cacheStatsLocked (cache_of m key) (0, 0) in
      \<lparr>inf_Key = key, inf_MaxInstances = cc_MaxInstances config, inf_MaxSizeBytes = cc_MaxSizeBytes config,
       inf_Instances = instances, inf_SizeBytes = sizeBytes, inf_Persistable = (\<not> Option.is_none (cc_Factory config)),
       inf_UserConfigurable = (\<not> Option.is_none (cc_Factory config) \<and> cc_UserConfigurable config),
       inf_Description = cc_Description config, inf_Schema = cc_Schema config\<rparr>)"

definition ListCaches :: "('v, 'n) Manager \<Rightarrow> CacheInfo list" where
  "ListCaches m = map (cache_info m) (remdups (map fst (m_configs m) @ map fst (m_caches m)))"

definition GetCacheInfo :: "('v, 'n) Manager \<Rightarrow> string \<Rightarrow> CacheInfo option" where
  "GetCacheInfo m key = (if Option.is_none (gm_get (m_configs m) key) then None else Some (cache_info m key))"

definition cacheInstanceInfo :: "string \<Rightarrow> string \<Rightarrow> 'v cache_instance \<Rightarrow> CacheInstanceInfo" where
  "cacheInstanceInfo key i e =
     \<lparr>ii_CacheKey = key, ii_InstanceID = i, ii_Config = ci_config e, ii_Persisted = (ci_recordID e \<noteq> ''''),
      ii_Runtime = (ci_recordID e = ''''), ii_SizeBytes = ci_size e\<rparr>"

definition ListCacheInstances :: "('v, 'n) Manager \<Rightarrow> CacheInstanceInfo list" where
  "ListCacheInstances m =
     concat (map (\<lambda>p. map (\<lambda>q. cacheInstanceInfo (fst p) (fst q) (snd q)) (snd p)) (m_caches m))"

definition GetCacheInstanceInfo :: "('v, 'n) Manager \<Rightarrow> string \<Rightarrow> string \<Rightarrow> CacheInstanceInfo option" where
  "GetCacheInstanceInfo m key i =
     (case lookup m key i of (e, ok) \<Rightarrow> if ok then Some (cacheInstanceInfo key i e) else None)"

subsection \<open>The counters\<close>

abbreviation total_count :: "'v cache_instance gomap gomap \<Rightarrow> int" where
  "total_count cs \<equiv> gm_sum (\<lambda>c. int (length c)) cs"

abbreviation total_size :: "'v cache_instance gomap gomap \<Rightarrow> int" where
  "total_size cs \<equiv> gm_sum (gm_sum ci_size) cs"

text \<open>Every cache is a non-empty map and the two counters are the totals, up to the wrap of 64 bits.\<close>

definition counters_exact :: "('v, 'n) Manager \<Rightarrow> bool" where
  "counters_exact m \<longleftrightarrow>
     gm_wf (m_caches m) \<and> (\<forall>p \<in> set (m_caches m). gm_wf (snd p) \<and> snd p \<noteq> []) \<and>
     m_instances m = wrap64 (total_count (m_caches m)) \<and> m_sizeBytes m = wrap64 (total_size (m_caches m))"

lemma cacheStatsLocked_wrap:
  "in_int64 n \<Longrightarrow> in_int64 s \<Longrightarrow>
   cacheStatsLocked c (n, s) = (wrap64 (n + int (length c)), wrap64 (s + gm_sum ci_size c))"
  by (induction c arbitrary: n s) (simp_all add: ac_simps)

lemma cacheStatsLocked_totals [simp]:
  "cacheStatsLocked c (0, 0) = (wrap64 (int (length c)), wrap64 (gm_sum ci_size c))"
  by (simp add: cacheStatsLocked_wrap in_int64_def)

lemma cache_of_wf: "counters_exact m \<Longrightarrow> gm_wf (cache_of m key)"
  by (cases "gm_get (m_caches m) key") (auto simp: counters_exact_def cache_of_def dest!: gm_get_in_set)

lemma lookup_cache_of:
  "lookup m key i = (case gm_get (cache_of m key) i of None \<Rightarrow> (zero_instance, False) | Some e \<Rightarrow> (e, True))"
  by (auto simp: lookup_def cache_of_def split: option.splits)

lemma lookup_store [simp]:
  "lookup (store key i e replacing d m) key' i' = (if key' = key \<and> i' = i then (e, True) else lookup m key' i')"
  by (auto simp: lookup_def store_def cache_of_def or_default_def split: option.splits)

lemma store_fields [simp]:
  "m_storage (store key i e r d m) = m_storage m" "m_configs (store key i e r d m) = m_configs m"
  "m_resolver (store key i e r d m) = m_resolver m"
  by (simp_all add: store_def)

lemma lookup_storage [simp]:
  "lookup (m\<lparr>m_storage := s\<rparr>) key i = lookup m key i" "cache_of (m\<lparr>m_storage := s\<rparr>) key = cache_of m key"
  by (simp_all add: lookup_def cache_of_def)

lemma exact_storage [simp]: "counters_exact (m\<lparr>m_storage := s\<rparr>) = counters_exact m"
  by (simp add: counters_exact_def)

lemma set_gm_put: "p \<in> set (gm_put k v m) \<Longrightarrow> p = (k, v) \<or> p \<in> set m"
  by (induction m) (auto split: if_splits)

lemma set_gm_del: "p \<in> set (gm_del k m) \<Longrightarrow> p \<in> set m"
  by (induction m) (auto split: if_splits)

lemma store_exact:
  assumes ok: "counters_exact m" and l: "lookup m key i = (old, ex)"
  shows "counters_exact (store key i e ex (ci_size old) m)"
proof -
  let ?c = "cache_of m key" and ?c' = "gm_put i e (cache_of m key)"
  have wf: "gm_wf (m_caches m)" using ok by (simp add: counters_exact_def)
  have wc: "gm_wf ?c" using ok by (rule cache_of_wf)
  have old: "(case gm_get (m_caches m) key of None \<Rightarrow> 0 | Some w \<Rightarrow> f w) = f ?c" if "f [] = 0"
    for f :: "_ \<Rightarrow> int"
    using that by (auto simp: cache_of_def split: option.splits)
  have "total_count (gm_put key ?c' (m_caches m)) = total_count (m_caches m) + (if ex then 0 else 1)"
    using l by (simp add: gm_sum_put [OF wf] old gm_put_length lookup_cache_of del: gm_sum_simps split: option.splits)
  moreover have "total_size (gm_put key ?c' (m_caches m)) = total_size (m_caches m) + (ci_size e - ci_size old)"
    using l by (auto simp: gm_sum_put [OF wf] old gm_sum_put [OF wc] lookup_cache_of zero_instance_def split: option.splits)
  ultimately show ?thesis
    using ok wc by (auto simp: counters_exact_def store_def dest!: set_gm_put)
qed

lemma drop_record_frame:
  "drop_record N rid m = (m', r) \<Longrightarrow> \<exists>s. m' = m\<lparr>m_storage := s\<rparr>"
  by (auto simp: drop_record_def deleteRecord_def split: option.splits if_splits prod.splits intro: exI [of _ "m_storage m"])

lemma save_record_frame:
  "save_record N rec m = (m', r) \<Longrightarrow> \<exists>s. m' = m\<lparr>m_storage := s\<rparr>"
  by (auto simp: save_record_def split: option.splits prod.splits intro: exI [of _ "m_storage m"])

text \<open>What successful and failed updates do, over the frame lemmas.\<close>

definition commit_record :: "string \<Rightarrow> string \<Rightarrow> raw \<Rightarrow> 'v cache_instance \<Rightarrow> bool \<Rightarrow> persistedInstance" where
  "commit_record key i encoded old ex = \<lparr>pi_ID = (if ex \<and> ci_recordID old \<noteq> '''' then Some (ci_recordID old) else None),
     pi_CacheKey = key, pi_InstanceID = i, pi_Config = encoded\<rparr>"

lemma commit_ok:
  assumes "commit_instance N key i encoded v m = (m', None)" and "lookup m key i = (old, ex)"
  shows "\<exists>m1 saved. checkLimits m key ex (ci_size old) (int (length encoded)) = None \<and>
     save_record N (commit_record key i encoded old ex) m = (m1, Inr saved) \<and>
     m' = store key i \<lparr>ci_value = v, ci_size = int (length encoded), ci_recordID = or_default (pi_ID saved) '''',
            ci_config = encoded\<rparr> ex (ci_size old) m1"
  using assms by (auto simp: commit_instance_def commit_record_def Let_def split: option.splits prod.splits sum.splits)

lemma commit_err:
  assumes "commit_instance N key i encoded v m = (m', Some e)" and "lookup m key i = (old, ex)"
  shows "m' = m \<or> save_record N (commit_record key i encoded old ex) m = (m', Inl e)"
  using assms by (auto simp: commit_instance_def commit_record_def Let_def split: option.splits prod.splits sum.splits)

lemma runtime_ok:
  assumes "UpdateRuntimeCacheInstance N key i v n m = (m', None)" and "lookup m key i = (old, ex)"
  shows "\<exists>m1. validatePointer v = None \<and> 0 \<le> n \<and> checkLimits m key ex (ci_size old) n = None \<and>
     (if ex then drop_record N (ci_recordID old) m else (m, None)) = (m1, None) \<and>
     m' = store key i \<lparr>ci_value = v, ci_size = n, ci_recordID = '''', ci_config = ''''\<rparr> ex (ci_size old) m1"
  using assms by (auto simp: UpdateRuntimeCacheInstance_def Let_def split: option.splits prod.splits if_splits)

lemma runtime_err:
  assumes "UpdateRuntimeCacheInstance N key i v n m = (m', Some e)" and "lookup m key i = (old, ex)"
  shows "m' = m \<or> drop_record N (ci_recordID old) m = (m', Some e)"
  using assms by (auto simp: UpdateRuntimeCacheInstance_def Let_def split: option.splits prod.splits if_splits)

lemma update_ok:
  assumes "UpdateCacheInstance N key i marshalled m = (m', None)"
  shows "\<exists>encoded v. marshalled = Inr encoded \<and> validatePointer v = None \<and> commit_instance N key i encoded v m = (m', None)"
  using assms by (auto simp: UpdateCacheInstance_def build_instance_def res_iff split: sum.splits option.splits)

lemma commit_exact:
  assumes "counters_exact m" and r: "commit_instance N key i encoded v m = (m', r)"
  shows "counters_exact m'"
proof -
  obtain old ex where l: "lookup m key i = (old, ex)" by fastforce
  show ?thesis
  proof (cases r)
    case None
    with commit_ok [OF _ l] r obtain m1 saved e where
      s: "save_record N (commit_record key i encoded old ex) m = (m1, Inr saved)"
      and m': "m' = store key i e ex (ci_size old) m1" by blast
    from save_record_frame [OF s] obtain t where t: "m1 = m\<lparr>m_storage := t\<rparr>" by blast
    show ?thesis unfolding m' t
      by (rule store_exact) (use assms(1) l in simp_all)
  next
    case (Some e)
    with commit_err [OF _ l] r save_record_frame assms(1) show ?thesis by fastforce
  qed
qed

lemma runtime_exact:
  assumes "counters_exact m" and r: "UpdateRuntimeCacheInstance N key i v n m = (m', r)"
  shows "counters_exact m'"
proof -
  obtain old ex where l: "lookup m key i = (old, ex)" by fastforce
  show ?thesis
  proof (cases r)
    case None
    with runtime_ok [OF _ l] r obtain m1 e where
      s: "(if ex then drop_record N (ci_recordID old) m else (m, None)) = (m1, None)"
      and m': "m' = store key i e ex (ci_size old) m1" by blast
    have "\<exists>t. m1 = m\<lparr>m_storage := t\<rparr>"
      using s by (auto dest: drop_record_frame split: if_splits intro: exI [of _ "m_storage m"])
    then obtain t where t: "m1 = m\<lparr>m_storage := t\<rparr>" by blast
    show ?thesis unfolding m' t
      by (rule store_exact) (use assms(1) l in simp_all)
  next
    case (Some e)
    with runtime_err [OF _ l] r drop_record_frame assms(1) show ?thesis by fastforce
  qed
qed

lemma cache_totals_del:
  assumes "gm_wf cs" and "gm_get cs key = Some cache" and "gm_wf cache" and "gm_get cache i = Some e"
  defines "c' \<equiv> gm_del i cache"
  defines "cs' \<equiv> (if length c' = 0 then gm_del key cs else gm_put key c' cs)"
  shows "total_count cs' = total_count cs - 1" and "total_size cs' = total_size cs - ci_size e"
proof -
  have n: "int (length c') = int (length cache) - 1" and s: "gm_sum ci_size c' = gm_sum ci_size cache - ci_size e"
    using assms(3,4) by (simp_all add: c'_def gm_del_length gm_sum_del)
  show "total_count cs' = total_count cs - 1"
    using n assms(1,2) by (auto simp: cs'_def gm_sum_put gm_sum_del)
  have "length c' = 0 \<Longrightarrow> gm_sum ci_size cache = ci_size e" using s by simp
  then show "total_size cs' = total_size cs - ci_size e"
    using s assms(1,2) by (simp add: cs'_def gm_sum_put gm_sum_del)
qed

lemma remove_ok:
  assumes "RemoveCacheInstance N key i m = (m', None)"
  shows "\<exists>cache e m1. gm_get (m_caches m) key = Some cache \<and> gm_get cache i = Some e \<and>
     drop_record N (ci_recordID e) m = (m1, None) \<and>
     m' = m1\<lparr>m_instances := wrap64 (m_instances m1 - 1), m_sizeBytes := wrap64 (m_sizeBytes m1 - ci_size e),
             m_caches := (if length (gm_del i cache) = 0 then gm_del key (m_caches m1)
                          else gm_put key (gm_del i cache) (m_caches m1))\<rparr>"
  using assms by (auto simp: RemoveCacheInstance_def Let_def split: option.splits prod.splits)

lemma remove_err:
  assumes "RemoveCacheInstance N key i m = (m', Some e)"
  shows "m' = m \<or> (\<exists>entry. lookup m key i = (entry, True) \<and> drop_record N (ci_recordID entry) m = (m', Some e))"
  using assms by (auto simp: RemoveCacheInstance_def Let_def lookup_def split: option.splits prod.splits)

lemma remove_exact:
  assumes ok: "counters_exact m" and r: "RemoveCacheInstance N key i m = (m', r)"
  shows "counters_exact m'"
proof (cases r)
  case None
  with remove_ok r obtain cache e m1 where g: "gm_get (m_caches m) key = Some cache" "gm_get cache i = Some e"
    and d: "drop_record N (ci_recordID e) m = (m1, None)"
    and m': "m' = m1\<lparr>m_instances := wrap64 (m_instances m1 - 1), m_sizeBytes := wrap64 (m_sizeBytes m1 - ci_size e),
             m_caches := (if length (gm_del i cache) = 0 then gm_del key (m_caches m1)
                          else gm_put key (gm_del i cache) (m_caches m1))\<rparr>" by blast
  from drop_record_frame [OF d] obtain t where t: "m1 = m\<lparr>m_storage := t\<rparr>" by blast
  have wf: "gm_wf (m_caches m)" "gm_wf cache"
    using ok g(1) cache_of_wf [OF ok, of key] by (simp_all add: counters_exact_def cache_of_def)
  note tot = cache_totals_del [OF wf(1) g(1) wf(2) g(2)]
  have i: "m_instances m = wrap64 (total_count (m_caches m))" "m_sizeBytes m = wrap64 (total_size (m_caches m))"
    and all: "\<forall>p \<in> set (m_caches m). gm_wf (snd p) \<and> snd p \<noteq> []"
    using ok by (simp_all add: counters_exact_def)
  show ?thesis
    using wf all i tot unfolding m' t counters_exact_def
    by (auto dest!: set_gm_put set_gm_del split: if_splits)
next
  case (Some e)
  with remove_err r drop_record_frame ok show ?thesis by fastforce
qed

text \<open>Removing the entries of a cache one by one counts down before the cache itself is dropped.\<close>

lemma remove_entries_ok:
  assumes "remove_entries N c m = (m', None)"
  shows "\<exists>t. m' = m\<lparr>m_storage := t, m_instances := m_instances m', m_sizeBytes := m_sizeBytes m'\<rparr> \<and>
     wrap64 (m_instances m') = wrap64 (m_instances m - int (length c)) \<and>
     wrap64 (m_sizeBytes m') = wrap64 (m_sizeBytes m - gm_sum ci_size c) \<and>
     (in_int64 (m_instances m) \<and> in_int64 (m_sizeBytes m) \<longrightarrow> in_int64 (m_instances m') \<and> in_int64 (m_sizeBytes m'))"
  using assms
proof (induction c arbitrary: m)
  case Nil
  then show ?case by (auto intro: exI [of _ "m_storage m"])
next
  case (Cons p c)
  then obtain m1 where d: "drop_record N (ci_recordID (snd p)) m = (m1, None)"
    and r: "remove_entries N c (m1\<lparr>m_instances := wrap64 (m_instances m1 - 1),
              m_sizeBytes := wrap64 (m_sizeBytes m1 - ci_size (snd p))\<rparr>) = (m', None)"
    by (auto split: option.splits prod.splits)
  from drop_record_frame [OF d] obtain t where t: "m1 = m\<lparr>m_storage := t\<rparr>" by blast
  from Cons.IH [OF r] show ?case
    unfolding t by (auto simp: algebra_simps)
qed

lemma remove_entries_err:
  assumes "remove_entries N c m = (m', Some e)"
  shows "\<exists>t j. j < length c \<and> m' = m\<lparr>m_storage := t, m_instances := m_instances m', m_sizeBytes := m_sizeBytes m'\<rparr> \<and>
     wrap64 (m_instances m') = wrap64 (m_instances m - int j) \<and>
     wrap64 (m_sizeBytes m') = wrap64 (m_sizeBytes m - gm_sum ci_size (take j c))"
  using assms
proof (induction c arbitrary: m)
  case (Cons p c)
  obtain m1 q where d: "drop_record N (ci_recordID (snd p)) m = (m1, q)" by fastforce
  from drop_record_frame [OF d] obtain t where t: "m1 = m\<lparr>m_storage := t\<rparr>" by blast
  show ?case
  proof (cases q)
    case None
    with Cons.prems d have r: "remove_entries N c (m1\<lparr>m_instances := wrap64 (m_instances m1 - 1),
              m_sizeBytes := wrap64 (m_sizeBytes m1 - ci_size (snd p))\<rparr>) = (m', Some e)" by simp
    from Cons.IH [OF r] obtain t' j where "j < length c"
      "m' = m\<lparr>m_storage := t', m_instances := m_instances m', m_sizeBytes := m_sizeBytes m'\<rparr>"
      "wrap64 (m_instances m') = wrap64 (m_instances m - 1 - int j)"
      "wrap64 (m_sizeBytes m') = wrap64 (m_sizeBytes m - ci_size (snd p) - gm_sum ci_size (take j c))"
      unfolding t by auto
    then show ?thesis
      by (intro exI [of _ t'] exI [of _ "Suc j"]) (auto simp: algebra_simps)
  next
    case (Some e')
    with Cons.prems d have "m' = m1" by simp
    then show ?thesis unfolding t by (intro exI [of _ t] exI [of _ 0]) simp
  qed
qed simp

lemma remove_cache_exact:
  assumes ok: "counters_exact m" and r: "RemoveCache N key m = (m', None)"
  shows "counters_exact m'"
proof -
  from r obtain cache m1 where g: "gm_get (m_caches m) key = Some cache" and e: "remove_entries N cache m = (m1, None)"
    and m': "m' = m1\<lparr>m_caches := gm_del key (m_caches m1)\<rparr>"
    by (auto simp: RemoveCache_def split: option.splits prod.splits)
  have i: "m_instances m = wrap64 (total_count (m_caches m))" "m_sizeBytes m = wrap64 (total_size (m_caches m))"
    and wf: "gm_wf (m_caches m)" and all: "\<forall>p \<in> set (m_caches m). gm_wf (snd p) \<and> snd p \<noteq> []"
    using ok by (simp_all add: counters_exact_def)
  from remove_entries_ok [OF e] i obtain t where
    m1: "m1 = m\<lparr>m_storage := t, m_instances := m_instances m1, m_sizeBytes := m_sizeBytes m1\<rparr>"
    and n: "m_instances m1 = wrap64 (total_count (m_caches m) - int (length cache))"
      "m_sizeBytes m1 = wrap64 (total_size (m_caches m) - gm_sum ci_size cache)"
    by auto
  have "m_caches m1 = m_caches m" by (subst m1) simp
  with n m' wf all g show ?thesis
    unfolding counters_exact_def by (auto simp: gm_sum_del dest!: set_gm_del)
qed

subsection \<open>Reachable managers\<close>

text \<open>
  One step is one critical section. \<open>commit\<close> takes an arbitrary built pointer and encoded
  configuration, since other steps may run between the building of an instance and its commit.
  \<open>RemoveCache\<close> that stops at a storage error is left out and treated on its own below.
\<close>

inductive mgr_step :: "'n nstore \<Rightarrow> ('v, 'n) Manager \<Rightarrow> ('v, 'n) Manager \<Rightarrow> bool" for N where
  configure: "mgr_step N m (fst (ConfigureCache key c m))"
| configure_missing: "mgr_step N m (fst (ConfigureCacheIfMissing key c m))"
| set_resolver: "mgr_step N m (ConfigureConfigResolver r m)"
| commit: "mgr_step N m (fst (commit_instance N key i encoded v m))"
| runtime: "mgr_step N m (fst (UpdateRuntimeCacheInstance N key i v n m))"
| remove: "mgr_step N m (fst (RemoveCacheInstance N key i m))"
| remove_cache: "RemoveCache N key m = (m', None) \<Longrightarrow> mgr_step N m m'"

inductive_cases mgr_stepE: "mgr_step N m m'"

lemma exact_configs [simp]:
  "counters_exact (m\<lparr>m_configs := c\<rparr>) = counters_exact m" "counters_exact (m\<lparr>m_resolver := r\<rparr>) = counters_exact m"
  by (simp_all add: counters_exact_def)

lemma configure_frame:
  "\<exists>cs. fst (ConfigureCache key c m) = m\<lparr>m_configs := cs\<rparr>"
  "\<exists>cs. fst (ConfigureCacheIfMissing key c m) = m\<lparr>m_configs := cs\<rparr>"
  by (auto simp: ConfigureCache_def ConfigureCacheIfMissing_def Let_def split: option.splits
        intro: exI [of _ "m_configs m"])

lemma step_exact:
  assumes "mgr_step N m m'" and "counters_exact m"
  shows "counters_exact m'"
  using assms(1)
proof cases
  case (configure key c)
  then show ?thesis using configure_frame(1) [of key c m] assms(2) by auto
next
  case (configure_missing key c)
  then show ?thesis using configure_frame(2) [of key c m] assms(2) by auto
next
  case (set_resolver r)
  then show ?thesis using assms(2) by (simp add: ConfigureConfigResolver_def)
next
  case (commit key i encoded v)
  then show ?thesis using commit_exact [OF assms(2)] by (metis surjective_pairing)
next
  case (runtime key i v n)
  then show ?thesis using runtime_exact [OF assms(2)] by (metis surjective_pairing)
next
  case (remove key i)
  then show ?thesis using remove_exact [OF assms(2)] by (metis surjective_pairing)
next
  case (remove_cache key)
  then show ?thesis using remove_cache_exact [OF assms(2)] by blast
qed

lemma steps_exact: "(mgr_step N)\<^sup>*\<^sup>* m m' \<Longrightarrow> counters_exact m \<Longrightarrow> counters_exact m'"
  by (induction rule: rtranclp_induct) (auto intro: step_exact)

text \<open>An update that validates, builds and commits without interruption is such a step.\<close>

lemma UpdateCacheInstance_steps: "(mgr_step N)\<^sup>*\<^sup>* m (fst (UpdateCacheInstance N key i marshalled m))"
  by (auto simp: UpdateCacheInstance_def split: sum.splits intro: mgr_step.commit)

subsection \<open>Loading\<close>

abbreviation record_slot :: "persistedInstance \<Rightarrow> string \<times> string" where
  "record_slot r \<equiv> (pi_CacheKey r, pi_InstanceID r)"

definition instance_of :: "persistedInstance \<Rightarrow> 'v dyn \<Rightarrow> 'v cache_instance" where
  "instance_of r v = \<lparr>ci_value = v, ci_size = int (length (pi_Config r)), ci_recordID = or_default (pi_ID r) '''',
     ci_config = pi_Config r\<rparr>"

lemma load_records_Cons:
  assumes "load_records (r # rs) m = Inr m'"
  shows "\<exists>v. load_records rs (store (pi_CacheKey r) (pi_InstanceID r) (instance_of r v) False 0 m) = Inr m'"
  using assms
  by (auto simp: addLoaded_def instance_of_def Let_def res_iff split: option.splits sum.splits)

lemma load_records_result:
  assumes "load_records rs m = Inr m'" and "distinct (map record_slot rs)"
    and "\<And>r. r \<in> set rs \<Longrightarrow> \<not> snd (lookup m (pi_CacheKey r) (pi_InstanceID r))" and "counters_exact m"
  shows "counters_exact m' \<and> m_storage m' = m_storage m \<and>
    (\<forall>r \<in> set rs. \<exists>v. lookup m' (pi_CacheKey r) (pi_InstanceID r) = (instance_of r v, True)) \<and>
    (\<forall>key i. (key, i) \<notin> record_slot ` set rs \<longrightarrow> lookup m' key i = lookup m key i)"
  using assms
proof (induction rs arbitrary: m)
  case (Cons r rs)
  let ?k = "pi_CacheKey r" and ?i = "pi_InstanceID r"
  from load_records_Cons [OF Cons.prems(1)] obtain v
    where l: "load_records rs (store ?k ?i (instance_of r v) False 0 m) = Inr m'" ..
  let ?m = "store ?k ?i (instance_of r v) False 0 m"
  have z: "lookup m ?k ?i = (zero_instance, False)"
    using Cons.prems(3) [of r] by (auto simp: lookup_def split: option.splits)
  have ex: "counters_exact ?m"
    using store_exact [OF Cons.prems(4) z, of "instance_of r v"] by (simp add: zero_instance_def)
  have d: "distinct (map record_slot rs)" and out: "(?k, ?i) \<notin> record_slot ` set rs"
    using Cons.prems(2) by auto
  have fresh: "\<not> snd (lookup ?m (pi_CacheKey q) (pi_InstanceID q))" if "q \<in> set rs" for q
  proof -
    have "record_slot q \<noteq> (?k, ?i)" using out imageI [OF that, of record_slot] by metis
    then show ?thesis using that Cons.prems(3) [of q] by simp
  qed
  from Cons.IH [OF l d fresh ex] have IH: "counters_exact m'" "m_storage m' = m_storage m"
    "\<forall>q \<in> set rs. \<exists>v. lookup m' (pi_CacheKey q) (pi_InstanceID q) = (instance_of q v, True)"
    "\<forall>key i. (key, i) \<notin> record_slot ` set rs \<longrightarrow> lookup m' key i = lookup ?m key i" by auto
  have "lookup m' ?k ?i = (instance_of r v, True)" using IH(4) out by simp
  moreover have "lookup m' key i = lookup m key i" if "(key, i) \<notin> record_slot ` set (r # rs)" for key i
    using that IH(4) by auto
  ultimately show ?case using IH by auto
qed simp

lemma NewManager_load:
  assumes "NewManager N (Some cfg) = Inr m"
  shows "if mc_FolderPath cfg = '''' then m = empty_manager cfg
     else \<exists>s. ns_open N (mc_FolderPath cfg) = Inr s \<and>
            load_records (ns_list N s) ((empty_manager cfg)\<lparr>m_storage := Some s\<rparr>) = Inr m"
  using assms by (auto simp: NewManager_def Let_def res_iff split: option.splits if_splits)

lemma empty_exact [simp]: "counters_exact (empty_manager cfg)"
  by (simp add: counters_exact_def empty_manager_def in_int64_def)

lemma empty_lookup [simp]: "lookup (empty_manager cfg) key i = (zero_instance, False)"
  by (simp add: lookup_def empty_manager_def)

lemma NewManager_exact:
  assumes "NewManager N (Some cfg) = Inr m"
    and "\<And>s. ns_open N (mc_FolderPath cfg) = Inr s \<Longrightarrow> distinct (map record_slot (ns_list N s))"
  shows "counters_exact m"
proof (cases "mc_FolderPath cfg = ''''")
  case True
  then show ?thesis using NewManager_load [OF assms(1)] by simp
next
  case False
  then obtain s where s: "ns_open N (mc_FolderPath cfg) = Inr s"
    and l: "load_records (ns_list N s) ((empty_manager cfg)\<lparr>m_storage := Some s\<rparr>) = Inr m"
    using NewManager_load [OF assms(1)] by auto
  from load_records_result [OF l assms(2) [OF s]] show ?thesis by simp
qed

lemma list_instances_totals:
  "int (length (ListCacheInstances m)) = total_count (m_caches m)"
  "sum_list (map ii_SizeBytes (ListCacheInstances m)) = total_size (m_caches m)"
proof -
  have "int (length (concat (map (\<lambda>p. map (\<lambda>q. cacheInstanceInfo (fst p) (fst q) (snd q)) (snd p)) cs))) = total_count cs"
    for cs :: "'a cache_instance gomap gomap" by (induction cs) auto
  then show "int (length (ListCacheInstances m)) = total_count (m_caches m)" by (simp add: ListCacheInstances_def)
  have one: "sum_list (map (ii_SizeBytes \<circ> (\<lambda>q. cacheInstanceInfo k (fst q) (snd q))) c) = gm_sum ci_size c"
    for k and c :: "'a cache_instance gomap" by (induction c) (auto simp: cacheInstanceInfo_def)
  have "sum_list (map ii_SizeBytes (concat (map (\<lambda>p. map (\<lambda>q. cacheInstanceInfo (fst p) (fst q) (snd q)) (snd p)) cs)))
      = total_size cs" for cs :: "'a cache_instance gomap gomap" by (induction cs) (auto simp: one)
  then show "sum_list (map ii_SizeBytes (ListCacheInstances m)) = total_size (m_caches m)" by (simp add: ListCacheInstances_def)
qed

end
