(* ===== verification/CacheStorage.thy ===== *)
theory CacheStorage
  imports CacheManager
begin

text \<open>
  The persistent side of \<^verbatim>\<open>cache/manager.go\<close>: what the manager relies on of its storage,
  the invariant that the stored records are those of the persisted instances, and what a
  restart rebuilds from them.
\<close>

subsection \<open>The storage mirrors the persisted instances\<close>

text \<open>
  What the manager relies on of \<^verbatim>\<open>go-nstore\<close>: records are listed once; a save keeps the
  record's identifier or gives it a new non-empty one, replaces the record of that identifier
  and no other; a delete removes the record of the identifier, also when its file is already
  gone; an operation that fails otherwise changes nothing.
\<close>

definition saved_as :: "'n nstore \<Rightarrow> persistedInstance \<Rightarrow> 'n \<Rightarrow> 'n \<Rightarrow> string \<Rightarrow> bool" where
  "saved_as N r s s' i \<longleftrightarrow>
     i \<noteq> '''' \<and> (pi_ID r \<noteq> None \<longrightarrow> pi_ID r = Some i) \<and>
     (pi_ID r = None \<longrightarrow> Some i \<notin> pi_ID ` set (ns_list N s)) \<and>
     set (ns_list N s') = insert (r\<lparr>pi_ID := Some i\<rparr>) {x \<in> set (ns_list N s). pi_ID x \<noteq> Some i}"

definition nstore_ok :: "'n nstore \<Rightarrow> bool" where
  "nstore_ok N \<longleftrightarrow>
     (\<forall>s. distinct (ns_list N s)) \<and>
     (\<forall>r s s' r'. ns_save N r s = (s', Inr r') \<longrightarrow> (\<exists>i. r' = r\<lparr>pi_ID := Some i\<rparr> \<and> saved_as N r s s' i)) \<and>
     (\<forall>r s s' e. ns_save N r s = (s', Inl e) \<longrightarrow> set (ns_list N s') = set (ns_list N s)) \<and>
     (\<forall>i s s'. ns_delete N i s = (s', None) \<longrightarrow> set (ns_list N s') = {x \<in> set (ns_list N s). pi_ID x \<noteq> Some i}) \<and>
     (\<forall>i s s' e. ns_delete N i s = (s', Some (True, e)) \<longrightarrow>
        set (ns_list N s') = {x \<in> set (ns_list N s). pi_ID x \<noteq> Some i}) \<and>
     (\<forall>i s s' e. ns_delete N i s = (s', Some (False, e)) \<longrightarrow> set (ns_list N s') = set (ns_list N s))"

lemma nstore_delete:
  assumes "nstore_ok N" and "ns_delete N i s = (s', q)" and "q = None \<or> (\<exists>e. q = Some (True, e))"
  shows "set (ns_list N s') = {x \<in> set (ns_list N s). pi_ID x \<noteq> Some i}"
proof -
  have "ns_delete N i s = (s', None) \<or> (\<exists>e. ns_delete N i s = (s', Some (True, e)))"
    using assms(2,3) by auto
  with assms(1) show ?thesis unfolding nstore_ok_def by (elim conjE disjE exE) simp_all
qed

lemma nstore_delete_err:
  assumes "nstore_ok N" and "ns_delete N i s = (s', Some (False, e))"
  shows "set (ns_list N s') = set (ns_list N s)"
  using assms unfolding nstore_ok_def by blast

lemma nstore_save:
  assumes "nstore_ok N" and "ns_save N r s = (s', Inr r')"
  shows "\<exists>i. r' = r\<lparr>pi_ID := Some i\<rparr> \<and> saved_as N r s s' i"
  using assms unfolding nstore_ok_def by (elim conjE) simp

lemma nstore_save_err:
  assumes "nstore_ok N" and "ns_save N r s = (s', Inl e)"
  shows "set (ns_list N s') = set (ns_list N s)"
  using assms unfolding nstore_ok_def by blast

definition persisted_record :: "string \<Rightarrow> string \<Rightarrow> 'v cache_instance \<Rightarrow> persistedInstance" where
  "persisted_record key i e = \<lparr>pi_ID = Some (ci_recordID e), pi_CacheKey = key, pi_InstanceID = i, pi_Config = ci_config e\<rparr>"

definition persisted :: "('v, 'n) Manager \<Rightarrow> persistedInstance set" where
  "persisted m = {persisted_record key i e | key i e. lookup m key i = (e, True) \<and> ci_recordID e \<noteq> ''''}"

definition mirrors :: "'n nstore \<Rightarrow> ('v, 'n) Manager \<Rightarrow> bool" where
  "mirrors N m \<longleftrightarrow> (\<exists>s. m_storage m = Some s \<and> set (ns_list N s) = persisted m \<and> inj_on pi_ID (persisted m))"

lemma persisted_slot: "r \<in> persisted m \<Longrightarrow> r' \<in> persisted m \<Longrightarrow> record_slot r = record_slot r' \<Longrightarrow> r = r'"
  by (auto simp: persisted_def persisted_record_def)

lemma persisted_lookup:
  "r \<in> persisted m \<longleftrightarrow>
    (\<exists>e. lookup m (pi_CacheKey r) (pi_InstanceID r) = (e, True) \<and> ci_recordID e \<noteq> '''' \<and>
         r = persisted_record (pi_CacheKey r) (pi_InstanceID r) e)"
  by (auto simp: persisted_def persisted_record_def)

text \<open>The records without the one of an identifier are those of the other slots.\<close>

lemma without_record:
  assumes "inj_on pi_ID (persisted m)" and l: "lookup m key i = (old, True)" and "ci_recordID old \<noteq> ''''"
  shows "{x \<in> persisted m. pi_ID x \<noteq> Some (ci_recordID old)} = {x \<in> persisted m. record_slot x \<noteq> (key, i)}"
proof -
  let ?r = "persisted_record key i old"
  have r: "?r \<in> persisted m" using assms(2,3) by (auto simp: persisted_def)
  have "pi_ID x = Some (ci_recordID old) \<longleftrightarrow> record_slot x = (key, i)" if "x \<in> persisted m" for x
  proof
    assume "pi_ID x = Some (ci_recordID old)"
    then have "x = ?r" using inj_onD [OF assms(1) _ that r] by (simp add: persisted_record_def)
    then show "record_slot x = (key, i)" by (simp add: persisted_record_def)
  next
    assume "record_slot x = (key, i)"
    then have "x = ?r" using persisted_slot [OF that r] by (simp add: persisted_record_def)
    then show "pi_ID x = Some (ci_recordID old)" by (simp add: persisted_record_def)
  qed
  then show ?thesis by blast
qed

lemma without_slot:
  assumes "lookup m key i = (old, ex)" and "\<not> (ex \<and> ci_recordID old \<noteq> '''')"
  shows "{x \<in> persisted m. record_slot x \<noteq> (key, i)} = persisted m"
  using assms by (auto simp: persisted_def persisted_record_def)

lemma persisted_store:
  "persisted (store key i e ex d m) =
     (if ci_recordID e = '''' then {} else {persisted_record key i e}) \<union> {x \<in> persisted m. record_slot x \<noteq> (key, i)}"
proof (rule set_eqI)
  fix x
  show "x \<in> persisted (store key i e ex d m) \<longleftrightarrow>
      x \<in> (if ci_recordID e = '''' then {} else {persisted_record key i e}) \<union> {x \<in> persisted m. record_slot x \<noteq> (key, i)}"
  proof (cases "record_slot x = (key, i)")
    case True
    then have "lookup (store key i e ex d m) (pi_CacheKey x) (pi_InstanceID x) = (e, True)" by simp
    then have "x \<in> persisted (store key i e ex d m) \<longleftrightarrow> ci_recordID e \<noteq> '''' \<and> x = persisted_record key i e"
      using True unfolding persisted_lookup by auto
    with True show ?thesis by simp
  next
    case False
    then have "lookup (store key i e ex d m) (pi_CacheKey x) (pi_InstanceID x) = lookup m (pi_CacheKey x) (pi_InstanceID x)"
      by auto
    moreover have "x \<noteq> persisted_record key i e" using False by (auto simp: persisted_record_def)
    ultimately show ?thesis using False unfolding persisted_lookup by simp
  qed
qed

lemma persisted_storage [simp]: "persisted (m\<lparr>m_storage := s\<rparr>) = persisted m"
  by (simp add: persisted_def)

lemma persisted_caches: "m_caches m = m_caches m' \<Longrightarrow> persisted m = persisted m'"
  by (simp add: persisted_def lookup_def)

lemma mirrors_store:
  assumes "m_storage m1 = Some s'" and "persisted m1 = persisted m" and inj: "inj_on pi_ID (persisted m)"
    and l: "set (ns_list N s') = (if ci_recordID e = '''' then {} else {persisted_record key i e}) \<union>
              {x \<in> persisted m. record_slot x \<noteq> (key, i)}"
    and new: "\<And>x. x \<in> persisted m \<Longrightarrow> record_slot x \<noteq> (key, i) \<Longrightarrow> ci_recordID e \<noteq> '''' \<Longrightarrow> pi_ID x \<noteq> Some (ci_recordID e)"
  shows "mirrors N (store key i e ex d m1)"
proof -
  let ?P = "{x \<in> persisted m. record_slot x \<noteq> (key, i)}"
  have i: "inj_on pi_ID ?P" using inj by (rule inj_on_subset) auto
  have "inj_on pi_ID (insert (persisted_record key i e) ?P)" if "ci_recordID e \<noteq> ''''"
  proof -
    have "Some (ci_recordID e) \<notin> pi_ID ` ?P"
    proof
      assume "Some (ci_recordID e) \<in> pi_ID ` ?P"
      then obtain x where "x \<in> persisted m" "record_slot x \<noteq> (key, i)" "pi_ID x = Some (ci_recordID e)" by auto
      then show False using new that by blast
    qed
    then have "pi_ID (persisted_record key i e) \<notin> pi_ID ` (?P - {persisted_record key i e})"
      by (auto simp: persisted_record_def)
    then show ?thesis using i by (simp only: inj_on_insert simp_thms)
  qed
  then have "inj_on pi_ID (persisted (store key i e ex d m1))"
    using i unfolding persisted_store assms(2) by simp
  then show ?thesis
    using assms(1) l unfolding mirrors_def persisted_store assms(2) by auto
qed

lemma drop_record_set:
  assumes N: "nstore_ok N" and s: "m_storage m = Some s" and d: "drop_record N rid m = (m', r)"
  shows "\<exists>s'. m' = m\<lparr>m_storage := Some s'\<rparr> \<and>
     set (ns_list N s') = {x \<in> set (ns_list N s). r = None \<and> rid \<noteq> '''' \<longrightarrow> pi_ID x \<noteq> Some rid}"
proof (cases "rid = ''''")
  case True
  with d s show ?thesis by (auto simp: drop_record_def intro!: exI [of _ s])
next
  case False
  obtain s' q where q: "ns_delete N rid s = (s', q)" by fastforce
  from d s False q have m': "m' = m\<lparr>m_storage := Some s'\<rparr>"
    and r: "r = (case q of None \<Rightarrow> None | Some (notExist, e) \<Rightarrow> if notExist then None else Some e)"
    by (auto simp: drop_record_def deleteRecord_def split: option.splits)
  show ?thesis
  proof (cases r)
    case None
    then have "q = None \<or> (\<exists>e. q = Some (True, e))" using r by (auto split: option.splits if_splits)
    from nstore_delete [OF N q this] m' False None show ?thesis by auto
  next
    case (Some e)
    then have "\<exists>e. q = Some (False, e)" using r by (auto split: option.splits if_splits)
    with nstore_delete_err [OF N] q m' Some show ?thesis by auto
  qed
qed

lemma drop_record_laws:
  assumes N: "nstore_ok N" and M: "mirrors N m" and d: "drop_record N rid m = (m', r)"
  shows "\<exists>s'. m' = m\<lparr>m_storage := Some s'\<rparr> \<and>
     set (ns_list N s') = {x \<in> persisted m. r = None \<and> rid \<noteq> '''' \<longrightarrow> pi_ID x \<noteq> Some rid}"
  using M drop_record_set [OF N _ d] by (auto simp: mirrors_def)

lemma mirrors_same: "mirrors N m \<Longrightarrow> m_storage m' = Some s' \<Longrightarrow> m_caches m' = m_caches m \<Longrightarrow>
    set (ns_list N s') = persisted m \<Longrightarrow> mirrors N m'"
  using persisted_caches [of m' m] by (auto simp: mirrors_def)

lemma commit_mirrors:
  assumes N: "nstore_ok N" and M: "mirrors N m" and c: "commit_instance N key i encoded v m = (m', r)"
  shows "mirrors N m'"
proof -
  from M obtain s where s: "m_storage m = Some s" "set (ns_list N s) = persisted m" and inj: "inj_on pi_ID (persisted m)"
    by (auto simp: mirrors_def)
  obtain old ex where l: "lookup m key i = (old, ex)" by fastforce
  let ?r = "commit_record key i encoded old ex"
  show ?thesis
  proof (cases r)
    case None
    with commit_ok [OF _ l] c obtain m1 saved where
      sv: "save_record N ?r m = (m1, Inr saved)" and
      m': "m' = store key i \<lparr>ci_value = v, ci_size = int (length encoded), ci_recordID = or_default (pi_ID saved) '''',
            ci_config = encoded\<rparr> ex (ci_size old) m1" by blast
    from sv s(1) obtain s' where ns: "ns_save N ?r s = (s', Inr saved)" and m1: "m1 = m\<lparr>m_storage := Some s'\<rparr>"
      by (auto simp: save_record_def split: prod.splits)
    from nstore_save [OF N ns] obtain j where j: "saved = ?r\<lparr>pi_ID := Some j\<rparr>" and sa: "saved_as N ?r s s' j" by blast
    let ?e = "\<lparr>ci_value = v, ci_size = int (length encoded), ci_recordID = j, ci_config = encoded\<rparr>"
    have "{x \<in> persisted m. pi_ID x \<noteq> Some j} = {x \<in> persisted m. record_slot x \<noteq> (key, i)}"
    proof (cases "ex \<and> ci_recordID old \<noteq> ''''")
      case True
      then have "j = ci_recordID old" using sa by (simp add: saved_as_def commit_record_def)
      with True l without_record [OF inj, of key i old] show ?thesis by simp
    next
      case False
      then have "{x \<in> persisted m. pi_ID x \<noteq> Some j} = persisted m"
        using sa s(2) by (auto simp: saved_as_def commit_record_def image_iff)
      with False without_slot [OF l] show ?thesis by simp
    qed
    moreover have "saved = persisted_record key i ?e" by (simp add: j commit_record_def persisted_record_def)
    moreover have "j \<noteq> ''''" using sa by (simp add: saved_as_def)
    ultimately have L: "set (ns_list N s') = {persisted_record key i ?e} \<union> {x \<in> persisted m. record_slot x \<noteq> (key, i)}"
      and new: "\<And>x. x \<in> persisted m \<Longrightarrow> record_slot x \<noteq> (key, i) \<Longrightarrow> pi_ID x \<noteq> Some j"
      using sa s(2) j by (auto simp: saved_as_def)
    have "mirrors N (store key i ?e ex (ci_size old) m1)"
      by (rule mirrors_store [where m = m and s' = s']) (use m1 inj L new \<open>j \<noteq> ''''\<close> in simp_all)
    then show ?thesis by (simp add: m' j)
  next
    case (Some e)
    with commit_err [OF _ l] c have "m' = m \<or> save_record N ?r m = (m', Inl e)" by blast
    then show ?thesis
    proof
      assume "save_record N ?r m = (m', Inl e)"
      then obtain s' where "ns_save N ?r s = (s', Inl e)" "m' = m\<lparr>m_storage := Some s'\<rparr>"
        using s(1) by (auto simp: save_record_def split: prod.splits)
      then show ?thesis using nstore_save_err [OF N] s(2) by (intro mirrors_same [OF M, where s' = s']) auto
    qed (use M in simp)
  qed
qed

lemma drop_err_mirrors:
  assumes "nstore_ok N" and M: "mirrors N m" and d: "drop_record N rid m = (m', Some e)"
  shows "mirrors N m'"
proof -
  from drop_record_laws [OF assms] obtain s' where "m' = m\<lparr>m_storage := Some s'\<rparr>" "set (ns_list N s') = persisted m"
    by auto
  then show ?thesis by (intro mirrors_same [OF M]) auto
qed

text \<open>A dropped record leaves the records of the other slots.\<close>

lemma drop_slot:
  assumes N: "nstore_ok N" and M: "mirrors N m" and l: "lookup m key i = (old, True)"
    and d: "drop_record N (ci_recordID old) m = (m', None)"
  shows "\<exists>s'. m' = m\<lparr>m_storage := Some s'\<rparr> \<and> set (ns_list N s') = {x \<in> persisted m. record_slot x \<noteq> (key, i)}"
proof -
  from M have inj: "inj_on pi_ID (persisted m)" by (auto simp: mirrors_def)
  from drop_record_laws [OF N M d] obtain s' where m': "m' = m\<lparr>m_storage := Some s'\<rparr>"
    and L: "set (ns_list N s') = {x \<in> persisted m. ci_recordID old \<noteq> '''' \<longrightarrow> pi_ID x \<noteq> Some (ci_recordID old)}"
    by auto
  show ?thesis
  proof (cases "ci_recordID old = ''''")
    case True
    then show ?thesis using m' L without_slot [OF l] by auto
  next
    case False
    then show ?thesis using m' L without_record [OF inj l] by auto
  qed
qed

lemma runtime_mirrors:
  assumes N: "nstore_ok N" and M: "mirrors N m" and c: "UpdateRuntimeCacheInstance N key i v n m = (m', r)"
  shows "mirrors N m'"
proof -
  from M obtain s where s: "m_storage m = Some s" "set (ns_list N s) = persisted m" and inj: "inj_on pi_ID (persisted m)"
    by (auto simp: mirrors_def)
  obtain old ex where l: "lookup m key i = (old, ex)" by fastforce
  show ?thesis
  proof (cases r)
    case None
    let ?e = "\<lparr>ci_value = v, ci_size = n, ci_recordID = '''', ci_config = ''''\<rparr>"
    from None runtime_ok [OF _ l] c obtain m1 where
      d: "(if ex then drop_record N (ci_recordID old) m else (m, None)) = (m1, None)"
      and m': "m' = store key i ?e ex (ci_size old) m1" by blast
    have "\<exists>s'. m1 = m\<lparr>m_storage := Some s'\<rparr> \<and> set (ns_list N s') = {x \<in> persisted m. record_slot x \<noteq> (key, i)}"
    proof (cases ex)
      case True
      with d l drop_slot [OF N M] show ?thesis by simp
    next
      case False
      with d l s without_slot [OF l] show ?thesis by (auto intro!: exI [of _ s])
    qed
    then obtain s' where "m1 = m\<lparr>m_storage := Some s'\<rparr>" "set (ns_list N s') = {x \<in> persisted m. record_slot x \<noteq> (key, i)}" by blast
    then show ?thesis unfolding m'
      by (intro mirrors_store [where m = m and s' = s']) (use inj in simp_all)
  next
    case (Some e)
    with runtime_err [OF _ l] c have "m' = m \<or> drop_record N (ci_recordID old) m = (m', Some e)" by blast
    with M drop_err_mirrors [OF N M] show ?thesis by blast
  qed
qed

lemma lookup_removed:
  assumes "gm_get (m_caches m) key = Some cache"
    and "m_caches m' = (if length (gm_del i cache) = 0 then gm_del key (m_caches m) else gm_put key (gm_del i cache) (m_caches m))"
  shows "lookup m' k j = (if k = key \<and> j = i then (zero_instance, False) else lookup m k j)"
proof -
  have "gm_get cache j = None" if "gm_del i cache = []" "j \<noteq> i" for j
    using that gm_get_del [of i cache j] by simp
  then show ?thesis using assms by (auto simp: lookup_def split: option.splits)
qed

lemma persisted_removed:
  assumes "\<And>k j. lookup m' k j = (if k = key \<and> j = i then (zero_instance, False) else lookup m k j)"
  shows "persisted m' = {x \<in> persisted m. record_slot x \<noteq> (key, i)}"
  unfolding persisted_lookup [abs_def] set_eq_iff using assms by (auto simp: persisted_lookup)

lemma mirrors_removed:
  assumes "m_storage m' = Some s'" and "set (ns_list N s') = persisted m'" and "persisted m' \<subseteq> persisted m" and "mirrors N m"
  shows "mirrors N m'"
  using assms by (auto simp: mirrors_def intro: inj_on_subset)

lemma remove_mirrors:
  assumes N: "nstore_ok N" and M: "mirrors N m" and c: "RemoveCacheInstance N key i m = (m', r)"
  shows "mirrors N m'"
proof (cases r)
  case None
  with remove_ok c obtain cache e m1 where g: "gm_get (m_caches m) key = Some cache" "gm_get cache i = Some e"
    and d: "drop_record N (ci_recordID e) m = (m1, None)"
    and m': "m' = m1\<lparr>m_instances := wrap64 (m_instances m1 - 1), m_sizeBytes := wrap64 (m_sizeBytes m1 - ci_size e),
             m_caches := (if length (gm_del i cache) = 0 then gm_del key (m_caches m1)
                          else gm_put key (gm_del i cache) (m_caches m1))\<rparr>" by blast
  have l: "lookup m key i = (e, True)" using g by (simp add: lookup_def)
  from drop_slot [OF N M l d] obtain s' where m1: "m1 = m\<lparr>m_storage := Some s'\<rparr>"
    and L: "set (ns_list N s') = {x \<in> persisted m. record_slot x \<noteq> (key, i)}" by blast

  have "lookup m' k j = (if k = key \<and> j = i then (zero_instance, False) else lookup m k j)" for k j
    by (rule lookup_removed [OF g(1)]) (simp add: m' m1)
  then have "persisted m' = {x \<in> persisted m. record_slot x \<noteq> (key, i)}" by (rule persisted_removed)
  then show ?thesis
    using L by (intro mirrors_removed [OF _ _ _ M, where s' = s']) (auto simp: m' m1)
next
  case (Some e)
  with remove_err c have "m' = m \<or> (\<exists>rid. drop_record N rid m = (m', Some e))" by blast
  with M drop_err_mirrors [OF N M] show ?thesis by blast
qed

lemma remove_entries_set:
  assumes "nstore_ok N" and "remove_entries N c m = (m', None)" and "m_storage m = Some s"
  shows "\<exists>s'. m_storage m' = Some s' \<and> m_caches m' = m_caches m \<and>
     set (ns_list N s') = {x \<in> set (ns_list N s). \<forall>p \<in> set c. ci_recordID (snd p) \<noteq> '''' \<longrightarrow> pi_ID x \<noteq> Some (ci_recordID (snd p))}"
  using assms(2,3)
proof (induction c arbitrary: m s)
  case (Cons p c)
  then obtain m1 where d: "drop_record N (ci_recordID (snd p)) m = (m1, None)"
    and r: "remove_entries N c (m1\<lparr>m_instances := wrap64 (m_instances m1 - 1),
              m_sizeBytes := wrap64 (m_sizeBytes m1 - ci_size (snd p))\<rparr>) = (m', None)"
    by (auto split: option.splits prod.splits)
  from drop_record_set [OF assms(1) Cons.prems(2) d] obtain s1 where m1: "m1 = m\<lparr>m_storage := Some s1\<rparr>"
    and L1: "set (ns_list N s1) = {x \<in> set (ns_list N s). ci_recordID (snd p) \<noteq> '''' \<longrightarrow> pi_ID x \<noteq> Some (ci_recordID (snd p))}"
    by auto
  from Cons.IH [OF r, of s1] m1 obtain s' where "m_storage m' = Some s'" "m_caches m' = m_caches m"
    "set (ns_list N s') = {x \<in> set (ns_list N s1). \<forall>p \<in> set c. ci_recordID (snd p) \<noteq> '''' \<longrightarrow> pi_ID x \<noteq> Some (ci_recordID (snd p))}"
    by auto
  with L1 show ?case by auto
qed simp

lemma remove_cache_mirrors:
  assumes N: "nstore_ok N" and M: "mirrors N m" and ok: "counters_exact m" and r: "RemoveCache N key m = (m', None)"
  shows "mirrors N m'"
proof -
  from M obtain s where s: "m_storage m = Some s" "set (ns_list N s) = persisted m" and inj: "inj_on pi_ID (persisted m)"
    by (auto simp: mirrors_def)
  from r obtain cache m1 where g: "gm_get (m_caches m) key = Some cache" and e: "remove_entries N cache m = (m1, None)"
    and m': "m' = m1\<lparr>m_caches := gm_del key (m_caches m1)\<rparr>"
    by (auto simp: RemoveCache_def split: option.splits prod.splits)
  from remove_entries_set [OF N e s(1)] s(2) obtain s' where s': "m_storage m1 = Some s'" "m_caches m1 = m_caches m"
    and L: "set (ns_list N s') = {x \<in> persisted m. \<forall>p \<in> set cache. ci_recordID (snd p) \<noteq> '''' \<longrightarrow> pi_ID x \<noteq> Some (ci_recordID (snd p))}"
    by auto
  have wf: "gm_wf cache" using cache_of_wf [OF ok, of key] g by (simp add: cache_of_def)
  have lk: "lookup m' k j = (if k = key then (zero_instance, False) else lookup m k j)" for k j
    unfolding m' by (simp add: lookup_def s'(2))
  have P: "persisted m' = {x \<in> persisted m. pi_CacheKey x \<noteq> key}"
    unfolding set_eq_iff by (auto simp: persisted_lookup lk)
  have "(\<forall>p \<in> set cache. ci_recordID (snd p) \<noteq> '''' \<longrightarrow> pi_ID x \<noteq> Some (ci_recordID (snd p))) \<longleftrightarrow> pi_CacheKey x \<noteq> key"
    if x: "x \<in> persisted m" for x
  proof
    assume a: "\<forall>p \<in> set cache. ci_recordID (snd p) \<noteq> '''' \<longrightarrow> pi_ID x \<noteq> Some (ci_recordID (snd p))"
    from x obtain e where e: "lookup m (pi_CacheKey x) (pi_InstanceID x) = (e, True)" "ci_recordID e \<noteq> ''''"
      "pi_ID x = Some (ci_recordID e)" by (auto simp: persisted_def persisted_record_def)
    show "pi_CacheKey x \<noteq> key"
    proof
      assume "pi_CacheKey x = key"
      then have "(pi_InstanceID x, e) \<in> set cache" using e(1) g by (auto simp: lookup_def split: option.splits dest: gm_get_in_set)
      with a e(2,3) show False by fastforce
    qed
  next
    assume k: "pi_CacheKey x \<noteq> key"
    have "pi_ID x \<noteq> Some (ci_recordID e)" if p: "(i, e) \<in> set cache" and ne: "ci_recordID e \<noteq> ''''" for i e
    proof
      assume "pi_ID x = Some (ci_recordID e)"
      moreover have "lookup m key i = (e, True)" using gm_in_set_get [OF wf p] g by (simp add: lookup_def)
      then have "persisted_record key i e \<in> persisted m" using ne unfolding persisted_def by blast
      ultimately have "x = persisted_record key i e"
        using inj_onD [OF inj _ x] by (simp add: persisted_record_def)
      with k show False by (simp add: persisted_record_def)
    qed
    then show "\<forall>p \<in> set cache. ci_recordID (snd p) \<noteq> '''' \<longrightarrow> pi_ID x \<noteq> Some (ci_recordID (snd p))"
      by (metis prod.collapse)
  qed
  with L P have "set (ns_list N s') = persisted m'" by blast
  then show ?thesis
    using P by (intro mirrors_removed [OF _ _ _ M, where s' = s']) (auto simp: m' s'(1))
qed

lemma mirrors_frame [simp]:
  "mirrors N (m\<lparr>m_configs := c\<rparr>) = mirrors N m" "mirrors N (m\<lparr>m_resolver := r\<rparr>) = mirrors N m"
  by (simp_all add: mirrors_def persisted_def lookup_def)

lemma step_mirrors:
  assumes "mgr_step N m m'" and N: "nstore_ok N" and ok: "counters_exact m" and M: "mirrors N m"
  shows "mirrors N m'"
  using assms(1)
proof cases
  case (configure key c)
  then show ?thesis using configure_frame(1) [of key c m] M by auto
next
  case (configure_missing key c)
  then show ?thesis using configure_frame(2) [of key c m] M by auto
next
  case (set_resolver r)
  then show ?thesis using M by (simp add: ConfigureConfigResolver_def)
next
  case (commit key i encoded v)
  then show ?thesis using commit_mirrors [OF N M] by (metis surjective_pairing)
next
  case (runtime key i v n)
  then show ?thesis using runtime_mirrors [OF N M] by (metis surjective_pairing)
next
  case (remove key i)
  then show ?thesis using remove_mirrors [OF N M] by (metis surjective_pairing)
next
  case (remove_cache key)
  then show ?thesis using remove_cache_mirrors [OF N M ok] by blast
qed

lemma steps_mirrors:
  assumes "(mgr_step N)\<^sup>*\<^sup>* m m'" and "nstore_ok N" and "counters_exact m" and "mirrors N m"
  shows "mirrors N m'"
  using assms
  by (induction rule: rtranclp_induct) (auto intro: step_mirrors steps_exact)

subsection \<open>Restart\<close>

lemma distinct_slots:
  assumes "nstore_ok N" and "mirrors N m" and "m_storage m = Some s"
  shows "distinct (map record_slot (ns_list N s))"
proof -
  have d: "distinct (ns_list N s)" using assms(1) by (simp add: nstore_ok_def)
  have "set (ns_list N s) = persisted m" using assms(2,3) by (auto simp: mirrors_def)
  then have "inj_on record_slot (set (ns_list N s))" using persisted_slot by (auto intro!: inj_onI)
  with d show ?thesis by (simp add: distinct_map)
qed

lemma restart_lookup:
  assumes N: "nstore_ok N" and M: "mirrors N m" and s: "m_storage m = Some s"
    and cfg: "mc_FolderPath cfg \<noteq> ''''" "ns_open N (mc_FolderPath cfg) = Inr s" and new: "NewManager N (Some cfg) = Inr m'"
  shows "\<exists>v. lookup m' key i =
    (case lookup m key i of (e, ex) \<Rightarrow>
       if ex \<and> ci_recordID e \<noteq> '''' then (e\<lparr>ci_value := v, ci_size := int (length (ci_config e))\<rparr>, True)
       else (zero_instance, False))"
proof -
  have L: "set (ns_list N s) = persisted m" using M s by (auto simp: mirrors_def)
  have l: "load_records (ns_list N s) ((empty_manager cfg)\<lparr>m_storage := Some s\<rparr>) = Inr m'"
    using NewManager_load [OF new] cfg by auto
  have R: "\<forall>r \<in> persisted m. \<exists>v. lookup m' (pi_CacheKey r) (pi_InstanceID r) = (instance_of r v, True)"
    "\<forall>key i. (key, i) \<notin> record_slot ` persisted m \<longrightarrow> lookup m' key i = (zero_instance, False)"
    using load_records_result [OF l distinct_slots [OF N M s]] by (simp_all add: L)
  obtain e ex where e: "lookup m key i = (e, ex)" by fastforce
  show ?thesis
  proof (cases "ex \<and> ci_recordID e \<noteq> ''''")
    case True
    then have "lookup m key i = (e, True) \<and> ci_recordID e \<noteq> ''''" using e by simp
    then have "persisted_record key i e \<in> persisted m" unfolding persisted_def by blast
    with R(1) obtain v where "lookup m' key i = (instance_of (persisted_record key i e) v, True)"
      by (fastforce simp: persisted_record_def)
    then show ?thesis using e True by (auto simp: instance_of_def persisted_record_def intro!: exI [of _ v])
  next
    case False
    then have "(key, i) \<notin> record_slot ` persisted m" using e by (auto simp: persisted_def persisted_record_def)
    with R(2) False e show ?thesis by auto
  qed
qed

text \<open>The size recorded for a persisted instance is the length of its configuration.\<close>

definition sized :: "('v, 'n) Manager \<Rightarrow> bool" where
  "sized m \<longleftrightarrow> (\<forall>key i e. lookup m key i = (e, True) \<longrightarrow> ci_recordID e \<noteq> '''' \<longrightarrow> ci_size e = int (length (ci_config e)))"

lemma sized_sub: "sized m \<Longrightarrow> (\<And>key i. lookup m' key i = lookup m key i \<or> \<not> snd (lookup m' key i)) \<Longrightarrow> sized m'"
  unfolding sized_def by (metis snd_conv)

lemma sized_store:
  "sized m1 \<Longrightarrow> ci_recordID e = '''' \<or> ci_size e = int (length (ci_config e)) \<Longrightarrow> sized (store key i e ex d m1)"
  by (auto simp: sized_def)

lemma sized_frame [simp]: "sized (m\<lparr>m_storage := s\<rparr>) = sized m" "sized (m\<lparr>m_configs := c\<rparr>) = sized m"
    "sized (m\<lparr>m_resolver := r\<rparr>) = sized m"
  by (simp_all add: sized_def lookup_def)

lemma commit_sized: "sized m \<Longrightarrow> commit_instance N key i encoded v m = (m', r) \<Longrightarrow> sized m'"
proof -
  assume a: "sized m" and c: "commit_instance N key i encoded v m = (m', r)"
  obtain old ex where l: "lookup m key i = (old, ex)" by fastforce
  show "sized m'"
  proof (cases r)
    case None
    with commit_ok [OF _ l] c obtain m1 saved where
      sv: "save_record N (commit_record key i encoded old ex) m = (m1, Inr saved)" and
      m': "m' = store key i \<lparr>ci_value = v, ci_size = int (length encoded), ci_recordID = or_default (pi_ID saved) '''',
            ci_config = encoded\<rparr> ex (ci_size old) m1" by blast
    from save_record_frame [OF sv] a have "sized m1" by auto
    then show ?thesis unfolding m' by (rule sized_store) simp
  next
    case (Some e)
    with commit_err [OF _ l] c save_record_frame a show ?thesis by fastforce
  qed
qed

lemma runtime_sized: "sized m \<Longrightarrow> UpdateRuntimeCacheInstance N key i v n m = (m', r) \<Longrightarrow> sized m'"
proof -
  assume a: "sized m" and c: "UpdateRuntimeCacheInstance N key i v n m = (m', r)"
  obtain old ex where l: "lookup m key i = (old, ex)" by fastforce
  show "sized m'"
  proof (cases r)
    case None
    with runtime_ok [OF _ l] c obtain m1 where
      d: "(if ex then drop_record N (ci_recordID old) m else (m, None)) = (m1, None)"
      and m': "m' = store key i \<lparr>ci_value = v, ci_size = n, ci_recordID = '''', ci_config = ''''\<rparr> ex (ci_size old) m1" by blast
    have "sized m1" using d a by (auto dest: drop_record_frame split: if_splits)
    then show ?thesis unfolding m' by (rule sized_store) simp
  next
    case (Some e)
    with runtime_err [OF _ l] c drop_record_frame a show ?thesis by fastforce
  qed
qed

lemma remove_sized: "sized m \<Longrightarrow> RemoveCacheInstance N key i m = (m', r) \<Longrightarrow> sized m'"
proof (cases r)
  case None
  assume a: "sized m" and c: "RemoveCacheInstance N key i m = (m', r)"
  from remove_ok [OF c [unfolded None]] obtain cache e m1 where g: "gm_get (m_caches m) key = Some cache"
    and "gm_get cache i = Some e" and d: "drop_record N (ci_recordID e) m = (m1, None)"
    and m': "m' = m1\<lparr>m_instances := wrap64 (m_instances m1 - 1), m_sizeBytes := wrap64 (m_sizeBytes m1 - ci_size e),
             m_caches := (if length (gm_del i cache) = 0 then gm_del key (m_caches m1)
                          else gm_put key (gm_del i cache) (m_caches m1))\<rparr>" by blast
  from drop_record_frame [OF d] obtain t where t: "m1 = m\<lparr>m_storage := t\<rparr>" by blast
  have "lookup m' k j = (if k = key \<and> j = i then (zero_instance, False) else lookup m k j)" for k j
    by (rule lookup_removed [OF g]) (simp add: m' t)
  then show ?thesis by (intro sized_sub [OF a]) simp
next
  case (Some e)
  assume a: "sized m" and "RemoveCacheInstance N key i m = (m', r)"
  with Some remove_err drop_record_frame show ?thesis by fastforce
qed

lemma remove_cache_sized: "sized m \<Longrightarrow> RemoveCache N key m = (m', None) \<Longrightarrow> sized m'"
proof -
  assume a: "sized m" and "RemoveCache N key m = (m', None)"
  then obtain cache m1 where e: "remove_entries N cache m = (m1, None)"
    and m': "m' = m1\<lparr>m_caches := gm_del key (m_caches m1)\<rparr>"
    by (auto simp: RemoveCache_def split: option.splits prod.splits)
  have "m_caches m1 = m_caches m" using remove_entries_ok [OF e] by (metis Manager.select_convs(1) Manager.surjective Manager.update_convs(3,4,5))
  then show "sized m'" by (intro sized_sub [OF a]) (simp add: m' lookup_def)
qed

lemma step_sized: "mgr_step N m m' \<Longrightarrow> sized m \<Longrightarrow> sized m'"
proof (induction rule: mgr_step.induct)
  case (configure m key c)
  then show ?case using configure_frame(1) [of key c m] by auto
next
  case (configure_missing m key c)
  then show ?case using configure_frame(2) [of key c m] by auto
next
  case (set_resolver m r)
  then show ?case by (simp add: ConfigureConfigResolver_def)
next
  case (commit m key i encoded v)
  then show ?case using commit_sized by (metis surjective_pairing)
next
  case (runtime m key i v n)
  then show ?case using runtime_sized by (metis surjective_pairing)
next
  case (remove m key i)
  then show ?case using remove_sized by (metis surjective_pairing)
next
  case (remove_cache key m m')
  then show ?case using remove_cache_sized by blast
qed

lemma steps_sized: "(mgr_step N)\<^sup>*\<^sup>* m m' \<Longrightarrow> sized m \<Longrightarrow> sized m'"
  by (induction rule: rtranclp_induct) (auto intro: step_sized)

text \<open>A folder the manager could have written: every record has an identifier and a slot of its own.\<close>

definition folder_ok :: "'n nstore \<Rightarrow> 'n \<Rightarrow> bool" where
  "folder_ok N s \<longleftrightarrow> distinct (map record_slot (ns_list N s)) \<and> distinct (map pi_ID (ns_list N s)) \<and>
     (\<forall>r \<in> set (ns_list N s). pi_ID r \<noteq> None \<and> pi_ID r \<noteq> Some '''')"

lemma loaded_manager:
  assumes f: "folder_ok N s" and cfg: "mc_FolderPath cfg \<noteq> ''''" "ns_open N (mc_FolderPath cfg) = Inr s"
    and new: "NewManager N (Some cfg) = Inr m"
  shows "counters_exact m \<and> mirrors N m \<and> sized m"
proof -
  have l: "load_records (ns_list N s) ((empty_manager cfg)\<lparr>m_storage := Some s\<rparr>) = Inr m"
    using NewManager_load [OF new] cfg by auto
  have d: "distinct (map record_slot (ns_list N s))" using f by (simp add: folder_ok_def)
  have R: "counters_exact m" "m_storage m = Some s"
    "\<forall>r \<in> set (ns_list N s). \<exists>v. lookup m (pi_CacheKey r) (pi_InstanceID r) = (instance_of r v, True)"
    "\<forall>key i. (key, i) \<notin> record_slot ` set (ns_list N s) \<longrightarrow> lookup m key i = (zero_instance, False)"
    using load_records_result [OF l d] by simp_all
  have origin: "\<exists>r v. r \<in> set (ns_list N s) \<and> key = pi_CacheKey r \<and> i = pi_InstanceID r \<and> e = instance_of r v"
    if "lookup m key i = (e, True)" for key i e
  proof -
    from that R(4) have "(key, i) \<in> record_slot ` set (ns_list N s)" by (metis prod.inject)
    then obtain r where "r \<in> set (ns_list N s)" "key = pi_CacheKey r" "i = pi_InstanceID r" by auto
    with R(3) that show ?thesis by force
  qed
  have id: "persisted_record (pi_CacheKey r) (pi_InstanceID r) (instance_of r v) = r \<and> ci_recordID (instance_of r v) \<noteq> ''''"
    if "r \<in> set (ns_list N s)" for r and v :: "'b dyn"
  proof -
    from that f obtain i where "pi_ID r = Some i" "i \<noteq> ''''" by (auto simp: folder_ok_def)
    then show ?thesis by (cases r) (simp add: persisted_record_def instance_of_def)
  qed
  have "persisted m = set (ns_list N s)"
  proof (intro equalityI subsetI)
    fix x assume "x \<in> persisted m"
    then obtain key i e where x: "x = persisted_record key i e" "lookup m key i = (e, True)" unfolding persisted_def by blast
    from origin [OF x(2)] obtain r v where r: "r \<in> set (ns_list N s)" "key = pi_CacheKey r" "i = pi_InstanceID r" "e = instance_of r v" by blast
    with x(1) id [OF r(1), of v] have "x = r" by simp
    with r(1) show "x \<in> set (ns_list N s)" by simp
  next
    fix r assume r: "r \<in> set (ns_list N s)"
    with R(3) obtain v where "lookup m (pi_CacheKey r) (pi_InstanceID r) = (instance_of r v, True)" by blast
    then have "persisted_record (pi_CacheKey r) (pi_InstanceID r) (instance_of r v) \<in> persisted m"
      using id [OF r, of v] unfolding persisted_def by blast
    then show "r \<in> persisted m" using id [OF r, of v] by simp
  qed
  moreover have "inj_on pi_ID (set (ns_list N s))" using f by (simp add: folder_ok_def distinct_map)
  ultimately have "mirrors N m" using R(2) by (simp add: mirrors_def)
  moreover have "sized m" unfolding sized_def using origin by (fastforce simp: instance_of_def)
  ultimately show ?thesis using R(1) by simp
qed

end
