(* ===== verification/CacheFacts.thy ===== *)
theory CacheFacts
  imports CacheStorage EnvConfig
begin

text \<open>
  What clients of the cache manager rely on: exact statistics, limits, the instances a restart
  restores, the registry contract, and the cache of compiled expressions built on it
  (\<^verbatim>\<open>cache/cache.journey.go\<close>).
\<close>

subsection \<open>The registry contract\<close>

text \<open>A client looks an instance up by cache key and identifier and installs runtime instances.\<close>

locale instance_registry =
  fixes get_instance :: "'m \<Rightarrow> string \<Rightarrow> string \<Rightarrow> 'v dyn \<times> bool"
    and put_instance :: "string \<Rightarrow> string \<Rightarrow> 'v dyn \<Rightarrow> int \<Rightarrow> 'm \<Rightarrow> 'm \<times> go_error option"
  assumes put_get: "put_instance key i v n m = (m', None) \<Longrightarrow> get_instance m' key i = (v, True)"
    and put_other: "put_instance key i v n m = (m', r) \<Longrightarrow> (key', i') \<noteq> (key, i) \<Longrightarrow>
        get_instance m' key' i' = get_instance m key' i'"
    and put_failed: "put_instance key i v n m = (m', Some e) \<Longrightarrow> get_instance m' key i = get_instance m key i"
    and put_pointer: "put_instance key i v n m = (m', None) \<Longrightarrow> \<exists>p. v = DPtr p"
begin

definition ensure_instance :: "string \<Rightarrow> string \<Rightarrow> 'v dyn \<Rightarrow> int \<Rightarrow> 'm \<Rightarrow> 'm \<times> go_error option" where
  "ensure_instance key i v n m = (if snd (get_instance m key i) then (m, None) else put_instance key i v n m)"

lemma ensure_found: "ensure_instance key i v n m = (m', None) \<Longrightarrow> snd (get_instance m' key i)"
  by (auto simp: ensure_instance_def put_get split: if_splits)

lemma ensure_keeps: "snd (get_instance m key' i') \<Longrightarrow>
    get_instance (fst (ensure_instance key i v n m)) key' i' = get_instance m key' i'"
proof -
  assume f: "snd (get_instance m key' i')"
  obtain m' r where p: "put_instance key i v n m = (m', r)" by fastforce
  show ?thesis
    using f p put_other [OF p, of key' i'] by (cases "(key', i') = (key, i)") (auto simp: ensure_instance_def)
qed

end

lemma GetCacheInstance_lookup: "GetCacheInstance m key i = (ci_value (fst (lookup m key i)), snd (lookup m key i))"
  by (auto simp: GetCacheInstance_def lookup_def zero_instance_def split: option.splits)

lemma runtime_lookup:
  assumes "UpdateRuntimeCacheInstance N key i v n m = (m', r)"
  shows "lookup m' key' i' =
    (if r = None \<and> key' = key \<and> i' = i then (\<lparr>ci_value = v, ci_size = n, ci_recordID = '''', ci_config = ''''\<rparr>, True)
     else lookup m key' i')"
proof -
  obtain old ex where l: "lookup m key i = (old, ex)" by fastforce
  show ?thesis
  proof (cases r)
    case None
    with runtime_ok [OF _ l] assms obtain m1 where
      d: "(if ex then drop_record N (ci_recordID old) m else (m, None)) = (m1, None)"
      and m': "m' = store key i \<lparr>ci_value = v, ci_size = n, ci_recordID = '''', ci_config = ''''\<rparr> ex (ci_size old) m1" by blast
    have "lookup m1 key' i' = lookup m key' i'" using d by (auto dest: drop_record_frame split: if_splits)
    then show ?thesis using None by (simp add: m')
  next
    case (Some e)
    with runtime_err [OF _ l] assms have "m' = m \<or> drop_record N (ci_recordID old) m = (m', Some e)" by blast
    then show ?thesis using Some by (auto dest: drop_record_frame)
  qed
qed

lemma validatePointer_None: "validatePointer v = None \<longleftrightarrow> (\<exists>p. v = DPtr p)"
  by (cases v) auto

interpretation manager: instance_registry GetCacheInstance "UpdateRuntimeCacheInstance N"
  for N :: "'n nstore"
proof unfold_locales
  fix key i v n m m' e and r :: "go_error option" and key' i'
  show "GetCacheInstance m' key i = (v, True)" if "UpdateRuntimeCacheInstance N key i v n m = (m', None)"
    using runtime_lookup [OF that, of key i] by (simp add: GetCacheInstance_lookup)
  show "GetCacheInstance m' key' i' = GetCacheInstance m key' i'"
    if "UpdateRuntimeCacheInstance N key i v n m = (m', r)" "(key', i') \<noteq> (key, i)"
    using runtime_lookup [OF that(1), of key' i'] that(2) by (auto simp: GetCacheInstance_lookup)
  show "GetCacheInstance m' key i = GetCacheInstance m key i" if "UpdateRuntimeCacheInstance N key i v n m = (m', Some e)"
    using runtime_lookup [OF that, of key i] by (simp add: GetCacheInstance_lookup)
  show "\<exists>p. v = DPtr p" if "UpdateRuntimeCacheInstance N key i v n m = (m', None)"
    using that by (auto simp: UpdateRuntimeCacheInstance_def validatePointer_None [symmetric] split: option.splits)
qed

subsection \<open>Compiled expressions\<close>

text \<open>
  \<^verbatim>\<open>groupcache/lru\<close> is an argument: \<open>l_new\<close>, \<open>l_get\<close> (which may reorder the entries) and
  \<open>l_add\<close> (which may evict). \<^verbatim>\<open>regexp.Compile\<close> is the argument \<open>compile\<close>. The pointer stored in
  the manager is a heap address; \<open>as_regexp\<close> is the type assertion on it.
\<close>

record ('l, 'p) lru =
  l_new :: "int \<Rightarrow> 'l"
  l_get :: "'l \<Rightarrow> string \<Rightarrow> 'l \<times> 'p option"
  l_add :: "string \<Rightarrow> 'p \<Rightarrow> 'l \<Rightarrow> 'l"

definition RegexpCacheKey :: string where "RegexpCacheKey = ''regexp''"
definition DefaultInstanceID :: string where "DefaultInstanceID = ''default''"

definition NewRegexpCache :: "('l, 'p) lru \<Rightarrow> int \<Rightarrow> 'l" where
  "NewRegexpCache L maxEntries = l_new L (if maxEntries \<le> 0 then 1000 else maxEntries)"

definition RegexpCacheGet :: "('l, 'p) lru \<Rightarrow> (string \<Rightarrow> 'p res) \<Rightarrow> string \<Rightarrow> 'l \<Rightarrow> 'l \<times> 'p res" where
  "RegexpCacheGet L compile pat cache =
     (case l_get L cache pat of
        (cache', Some v) \<Rightarrow> (cache', Inr v)
      | (cache', None) \<Rightarrow>
          (case compile pat of
             Inl e \<Rightarrow> (cache', Inl e)
           | Inr compiled \<Rightarrow> (l_add L pat compiled cache', Inr compiled)))"

text \<open>\<open>heap\<close> maps the addresses of regexp caches to their contents; a new cache is allocated at the
  address \<open>fresh\<close>.\<close>

definition EnsureRegexpCache :: "('l, 'p) lru \<Rightarrow> 'n nstore \<Rightarrow> int \<Rightarrow> 'v \<Rightarrow> ('v, 'n) Manager \<times> ('v \<Rightarrow> 'l option)
    \<Rightarrow> (('v, 'n) Manager \<times> ('v \<Rightarrow> 'l option)) \<times> go_error option" where
  "EnsureRegexpCache L N maxEntries fresh = (\<lambda>(m, heap).
     if snd (GetCacheInstance m RegexpCacheKey DefaultInstanceID) then ((m, heap), None)
     else (case UpdateRuntimeCacheInstance N RegexpCacheKey DefaultInstanceID (DPtr fresh) 0 m of
             (m', r) \<Rightarrow> ((m', heap(fresh := Some (NewRegexpCache L maxEntries))), r)))"

definition ErrInvalidRegexpCache :: go_error where
  "ErrInvalidRegexpCache = ErrText ''regexp cache instance has an invalid type''"


definition GetRegexp :: "('l, 'p) lru \<Rightarrow> (string \<Rightarrow> 'p res) \<Rightarrow> ('v, 'n) Manager option \<Rightarrow> string \<Rightarrow> ('v \<Rightarrow> 'l option)
    \<Rightarrow> ('v \<Rightarrow> 'l option) \<times> 'p res" where
  "GetRegexp L compile manager pat heap =
     (case manager of
        None \<Rightarrow> (heap, compile pat)
      | Some m \<Rightarrow>
          (case GetCacheInstance m RegexpCacheKey DefaultInstanceID of
             (v, False) \<Rightarrow> (heap, compile pat)
           | (DPtr a, True) \<Rightarrow>
               (case heap a of
                  None \<Rightarrow> (heap, Inl ErrInvalidRegexpCache)
                | Some cache \<Rightarrow> (case RegexpCacheGet L compile pat cache of (cache', r) \<Rightarrow> (heap(a := Some cache'), r)))
           | (v, True) \<Rightarrow> (heap, Inl ErrInvalidRegexpCache)))"

text \<open>What is relied on of the list: it returns what was added under the key, or nothing.\<close>

definition lru_ok :: "('l, 'p) lru \<Rightarrow> ('l \<Rightarrow> string \<Rightarrow> 'p \<Rightarrow> bool) \<Rightarrow> bool" where
  "lru_ok L holds \<longleftrightarrow>
     (\<forall>n k v. \<not> holds (l_new L n) k v) \<and>
     (\<forall>l k l' v. l_get L l k = (l', Some v) \<longrightarrow> holds l k v) \<and>
     (\<forall>l k l' r k' v. l_get L l k = (l', r) \<longrightarrow> holds l' k' v \<longrightarrow> holds l k' v) \<and>
     (\<forall>l k v k' v'. holds (l_add L k v l) k' v' \<longrightarrow> holds l k' v' \<or> k' = k \<and> v' = v)"

definition only_compiled :: "('l \<Rightarrow> string \<Rightarrow> 'p \<Rightarrow> bool) \<Rightarrow> (string \<Rightarrow> 'p res) \<Rightarrow> 'l \<Rightarrow> bool" where
  "only_compiled holds compile l \<longleftrightarrow> (\<forall>k v. holds l k v \<longrightarrow> compile k = Inr v)"

lemma RegexpCacheGet_compiles:
  assumes L: "lru_ok L holds" and c: "only_compiled holds compile l"
  shows "snd (RegexpCacheGet L compile pat l) = compile pat \<and> only_compiled holds compile (fst (RegexpCacheGet L compile pat l))"
proof -
  obtain l' r where g: "l_get L l pat = (l', r)" by fastforce
  have c': "only_compiled holds compile l'" using L c g unfolding lru_ok_def only_compiled_def by blast
  show ?thesis
  proof (cases r)
    case None
    show ?thesis
    proof (cases "compile pat")
      case (Inr v)
      have "only_compiled holds compile (l_add L pat v l')" using L c' Inr unfolding lru_ok_def only_compiled_def by metis
      then show ?thesis using None Inr g by (simp add: RegexpCacheGet_def)
    qed (use None g c' in \<open>simp add: RegexpCacheGet_def\<close>)
  next
    case (Some v)
    then have "holds l pat v" using L g unfolding lru_ok_def by blast
    then show ?thesis using Some g c c' by (simp add: RegexpCacheGet_def only_compiled_def)
  qed
qed

lemma Ensure_is_ensure:
  "EnsureRegexpCache L N n a (m, heap) = ((m', heap'), r) \<Longrightarrow>
   manager.ensure_instance N RegexpCacheKey DefaultInstanceID (DPtr a) 0 m = (m', r)"
  by (auto simp: EnsureRegexpCache_def manager.ensure_instance_def split: if_splits prod.splits)

subsection \<open>Properties\<close>



lemma cache_of_store [simp]: "cache_of (store key i e ex d m) key = gm_put i e (cache_of m key)"
  by (simp add: cache_of_def store_def)

lemma checkLimits_bounds:
  assumes c: "checkLimits m key ex (ci_size old) n = None" and l: "lookup m key i = (old, ex)" and wf: "gm_wf (cache_of m key)"
    and nn: "\<forall>p \<in> set (cache_of m key). 0 \<le> ci_size (snd p)" and n: "0 \<le> n" "gm_sum ci_size (cache_of m key) + n < 2 ^ 63"
    and len: "int (length (cache_of m key)) + 1 < 2 ^ 63" and e: "ci_size e = n"
  shows "(0 < cc_MaxSizeBytes (config_of m key) \<longrightarrow> gm_sum ci_size (gm_put i e (cache_of m key)) \<le> cc_MaxSizeBytes (config_of m key)) \<and>
    (0 < cc_MaxInstances (config_of m key) \<and> \<not> ex \<longrightarrow> int (length (gm_put i e (cache_of m key))) \<le> cc_MaxInstances (config_of m key))"
proof -
  let ?c = "cache_of m key"
  have old: "0 \<le> ci_size old" "ci_size old \<le> gm_sum ci_size ?c"
    and get: "gm_get ?c i = (if ex then Some old else None)" and z: "\<not> ex \<Longrightarrow> ci_size old = 0"
  proof -
    show g: "gm_get ?c i = (if ex then Some old else None)" using l by (auto simp: lookup_cache_of split: option.splits)
    show z: "\<not> ex \<Longrightarrow> ci_size old = 0" using l by (auto simp: lookup_cache_of zero_instance_def split: option.splits)
    have pos: "0 \<le> gm_sum ci_size ?c" using nn by (intro gm_sum_mono) auto
    have "ex \<Longrightarrow> 0 \<le> ci_size old" using g nn by (auto dest!: gm_get_in_set)
    then show "0 \<le> ci_size old" using z by (cases ex) auto
    have "0 \<le> gm_sum ci_size (gm_del i ?c)" using nn by (intro gm_sum_mono) (auto dest!: set_gm_del)
    then have "ex \<Longrightarrow> ci_size old \<le> gm_sum ci_size ?c" using g by (simp add: gm_sum_del [OF wf])
    then show "ci_size old \<le> gm_sum ci_size ?c" using z pos by (cases ex) auto
  qed
  have "gm_sum ci_size (gm_put i e ?c) = gm_sum ci_size ?c - ci_size old + n"
    using get z by (simp add: gm_sum_put [OF wf] e)
  moreover have "in_int64 (gm_sum ci_size ?c - ci_size old + n)" "in_int64 (gm_sum ci_size ?c - ci_size old)"
    "in_int64 (int (length ?c) + 1)"
    using old n len by (simp_all add: in_int64_def)
  ultimately show ?thesis
    using c get by (auto simp: checkLimits_def gm_put_length Let_def split: if_splits)
qed

text \<open>
  C29. An update that succeeds leaves the cache within its limits: its sizes add up to at most
  the maximal size and a new instance does not exceed the maximal number, as long as no sum
  leaves the range of 64-bit integers.
\<close>

theorem cache_limits_respected:
  assumes "UpdateRuntimeCacheInstance N key i v n m = (m', None) \<or>
      UpdateCacheInstance N key i (Inr encoded) m = (m', None) \<and> n = int (length encoded)"
    and "counters_exact m" and "\<forall>p \<in> set (cache_of m key). 0 \<le> ci_size (snd p)"
    and "gm_sum ci_size (cache_of m key) + n < 2 ^ 63" and "int (length (cache_of m key)) + 1 < 2 ^ 63"
  shows "(0 < cc_MaxSizeBytes (config_of m key) \<longrightarrow> gm_sum ci_size (cache_of m' key) \<le> cc_MaxSizeBytes (config_of m key)) \<and>
    (0 < cc_MaxInstances (config_of m key) \<and> \<not> snd (lookup m key i) \<longrightarrow>
       int (length (cache_of m' key)) \<le> cc_MaxInstances (config_of m key))"
proof -
  obtain old ex where l: "lookup m key i = (old, ex)" by fastforce
  have wf: "gm_wf (cache_of m key)" using assms(2) by (rule cache_of_wf)
  have "\<exists>e. ci_size e = n \<and> 0 \<le> n \<and> checkLimits m key ex (ci_size old) n = None \<and> cache_of m' key = gm_put i e (cache_of m key)"
    using assms(1)
  proof
    assume "UpdateRuntimeCacheInstance N key i v n m = (m', None)"
    from runtime_ok [OF this l] obtain m1 where *: "0 \<le> n" "checkLimits m key ex (ci_size old) n = None"
      and d: "(if ex then drop_record N (ci_recordID old) m else (m, None)) = (m1, None)"
      and m': "m' = store key i \<lparr>ci_value = v, ci_size = n, ci_recordID = '''', ci_config = ''''\<rparr> ex (ci_size old) m1" by blast
    have "cache_of m1 key = cache_of m key" using d by (auto dest: drop_record_frame split: if_splits)
    with * show ?thesis unfolding m' by (intro exI conjI, simp_all)
  next
    assume a: "UpdateCacheInstance N key i (Inr encoded) m = (m', None) \<and> n = int (length encoded)"
    with update_ok obtain v where "commit_instance N key i encoded v m = (m', None)" by blast
    from commit_ok [OF this l] a obtain m1 saved where *: "checkLimits m key ex (ci_size old) n = None"
      and d: "save_record N (commit_record key i encoded old ex) m = (m1, Inr saved)"
      and m': "m' = store key i \<lparr>ci_value = v, ci_size = int (length encoded), ci_recordID = or_default (pi_ID saved) '''',
            ci_config = encoded\<rparr> ex (ci_size old) m1" by blast
    have "cache_of m1 key = cache_of m key" using save_record_frame [OF d] by auto
    with * a show ?thesis unfolding m' by (intro exI conjI, simp_all)
  qed
  then obtain e where "ci_size e = n" "0 \<le> n" "checkLimits m key ex (ci_size old) n = None"
    and m': "cache_of m' key = gm_put i e (cache_of m key)" by blast
  from checkLimits_bounds [OF this(3) l wf assms(3) this(2) assms(4,5) this(1)] l m' show ?thesis by simp
qed

text \<open>
  The size check wraps around: an instance whose declared size is the largest 64-bit
  integer is accepted into any non-empty cache, whatever the configured maximal size.
\<close>

theorem cache_size_limit_wraps:
  assumes "\<not> snd (lookup m key i)" and "cc_MaxInstances (config_of m key) = 0"
    and "0 < gm_sum ci_size (cache_of m key)" "gm_sum ci_size (cache_of m key) < 2 ^ 63"
    and "cc_MaxSizeBytes (config_of m key) < 2 ^ 63" "0 \<le> cc_MaxSizeBytes (config_of m key)"
  shows "snd (UpdateRuntimeCacheInstance N key i (DPtr p) (2 ^ 63 - 1) m) = None \<and>
    lookup (fst (UpdateRuntimeCacheInstance N key i (DPtr p) (2 ^ 63 - 1) m)) key i =
      (\<lparr>ci_value = DPtr p, ci_size = 2 ^ 63 - 1, ci_recordID = '''', ci_config = ''''\<rparr>, True)"
proof -
  let ?t = "gm_sum ci_size (cache_of m key)"
  have l: "lookup m key i = (zero_instance, False)" using assms(1) by (auto simp: lookup_def split: option.splits)
  have "wrap64 (?t + (2 ^ 63 - 1)) = wrap64 (?t + (2 ^ 63 - 1) - 2 ^ 64)"
    by (rule wrap64_cong) (rule minus_mod_self2 [symmetric])
  also have "\<dots> = ?t + (2 ^ 63 - 1) - 2 ^ 64"
    using assms(3,4) by (intro wrap64_id) (simp add: in_int64_def)
  finally have w: "wrap64 (?t + (2 ^ 63 - 1)) \<le> 0" using assms(4) by simp
  have "checkLimits m key False 0 (2 ^ 63 - 1) = None"
    using w assms(2,6) by (auto simp: checkLimits_def Let_def)
  then have "UpdateRuntimeCacheInstance N key i (DPtr p) (2 ^ 63 - 1) m =
    (store key i \<lparr>ci_value = DPtr p, ci_size = 2 ^ 63 - 1, ci_recordID = '''', ci_config = ''''\<rparr> False 0 m, None)"
    using l by (simp add: UpdateRuntimeCacheInstance_def zero_instance_def)
  then show ?thesis by simp
qed

text \<open>A removal of a cache that fails on its second record has already deleted the first
  record and counted its instance out, but keeps both instances: the statistics are one short
  of the listed instances.
\<close>

theorem failed_cache_removal_drifts:
  assumes "counters_exact m" and "gm_get (m_caches m) key = Some (p1 # p2 # rest)" and "m_storage m = Some s"
    and "ci_recordID (snd p1) \<noteq> ''''" "ci_recordID (snd p2) \<noteq> ''''"
    and "ns_delete N (ci_recordID (snd p1)) s = (s1, None)" "ns_delete N (ci_recordID (snd p2)) s1 = (s2, Some (False, e))"
  shows "\<exists>m'. RemoveCache N key m = (m', Some e) \<and> m_storage m' = Some s2 \<and> ListCacheInstances m' = ListCacheInstances m \<and>
    fst (Stats m') = wrap64 (int (length (ListCacheInstances m')) - 1)"
proof -
  let ?m = "m\<lparr>m_storage := Some s2, m_instances := wrap64 (m_instances m - 1), m_sizeBytes := wrap64 (m_sizeBytes m - ci_size (snd p1))\<rparr>"
  have "RemoveCache N key m = (?m, Some e)"
    using assms(2-7) by (simp add: RemoveCache_def drop_record_def deleteRecord_def)
  moreover have "ListCacheInstances ?m = ListCacheInstances m" by (simp add: ListCacheInstances_def)
  moreover have "fst (Stats ?m) = wrap64 (int (length (ListCacheInstances m)) - 1)"
    using assms(1) by (simp add: Stats_def counters_exact_def list_instances_totals)
  ultimately show ?thesis by (intro exI [of _ ?m]) simp
qed

text \<open>
  The cache of compiled expressions is transparent: whatever patterns were asked before,
  a lookup answers what compiling the pattern answers, errors included.
\<close>

theorem regexp_cache_transparent:
  assumes "lru_ok L holds"
  shows "snd (RegexpCacheGet L compile pat (fold (\<lambda>q c. fst (RegexpCacheGet L compile q c)) pats (NewRegexpCache L n))) = compile pat"
proof -
  have "only_compiled holds compile (NewRegexpCache L n)"
    using assms by (simp add: only_compiled_def NewRegexpCache_def lru_ok_def)
  then have "only_compiled holds compile (fold (\<lambda>q c. fst (RegexpCacheGet L compile q c)) pats (NewRegexpCache L n))"
    by (induction pats arbitrary: n rule: rev_induct) (simp_all add: RegexpCacheGet_compiles [OF assms])
  then show ?thesis using RegexpCacheGet_compiles [OF assms] by blast
qed

text \<open>Ensuring the default cache of compiled expressions makes it available, and replaces
  neither an instance the host registered nor any other instance.
\<close>

theorem ensure_regexp_cache:
  assumes "EnsureRegexpCache L N n a (m, heap) = ((m', heap'), None)"
  shows "snd (GetCacheInstance m' RegexpCacheKey DefaultInstanceID) \<and>
    (\<forall>key i. snd (GetCacheInstance m key i) \<longrightarrow> GetCacheInstance m' key i = GetCacheInstance m key i)"
proof -
  have e: "manager.ensure_instance N RegexpCacheKey DefaultInstanceID (DPtr a) 0 m = (m', None)"
    using assms by (rule Ensure_is_ensure)
  show ?thesis using manager.ensure_found [OF e] manager.ensure_keeps [of m _ _ N RegexpCacheKey DefaultInstanceID "DPtr a" 0] e by simp
qed

subsection \<open>Witnesses\<close>

text \<open>A storage that keeps its records in a list.\<close>

definition fresh_id :: "persistedInstance list \<Rightarrow> string" where
  "fresh_id rs = replicate (Suc (sum_list (map (\<lambda>r. length (or_default (pi_ID r) '''')) rs))) (CHR ''r'')"

definition list_store :: "(string \<Rightarrow> persistedInstance list res) \<Rightarrow> persistedInstance list nstore" where
  "list_store op = \<lparr>ns_open = op, ns_list = remdups,
     ns_save = (\<lambda>r s. let i = or_default (pi_ID r) (fresh_id s); r' = r\<lparr>pi_ID := Some i\<rparr>
                      in if i = '''' then (s, Inl (ErrText ''invalid id''))
                         else (r' # filter (\<lambda>x. pi_ID x \<noteq> Some i) s, Inr r')),
     ns_delete = (\<lambda>i s. (filter (\<lambda>x. pi_ID x \<noteq> Some i) s, None))\<rparr>"

lemma fresh_id_fresh: "Some (fresh_id rs) \<notin> pi_ID ` set rs"
proof
  assume "Some (fresh_id rs) \<in> pi_ID ` set rs"
  then obtain r where r: "r \<in> set rs" "pi_ID r = Some (fresh_id rs)" by force
  have "length (or_default (pi_ID r) '''') \<le> sum_list (map (\<lambda>r. length (or_default (pi_ID r) '''')) rs)"
    using r(1) by (intro member_le_sum_list) auto
  then show False using r(2) by (simp add: fresh_id_def)
qed

lemma list_store_ok: "nstore_ok (list_store op)"
  unfolding nstore_ok_def saved_as_def
  by (auto simp: list_store_def Let_def or_default_def split: if_splits option.splits) (metis fresh_id_fresh)

definition sample_cache_config :: "unit CacheConfig" where
  "sample_cache_config = zero_config\<lparr>cc_Factory := Some (\<lambda>c. Inr (DPtr ())), cc_MaxInstances := 2, cc_MaxSizeBytes := 9\<rparr>"

definition sample_folder :: "string \<Rightarrow> unit ManagerConfig" where
  "sample_folder p = \<lparr>mc_FolderPath = p, mc_Caches = [(''k'', sample_cache_config)], mc_ConfigResolver = None\<rparr>"

definition sample_records :: "persistedInstance list" where
  "sample_records = [\<lparr>pi_ID = Some ''r'', pi_CacheKey = ''k'', pi_InstanceID = ''i'', pi_Config = ''{}''\<rparr>]"

definition sample_store :: "persistedInstance list nstore" where
  "sample_store = list_store (\<lambda>p. if p = ''b'' then Inr sample_records else Inr [])"

definition started_manager :: "string \<Rightarrow> (unit, persistedInstance list) Manager" where
  "started_manager p = (case NewManager sample_store (Some (sample_folder p)) of Inr m \<Rightarrow> m | Inl e \<Rightarrow> empty_manager (sample_folder p))"

definition written_manager :: "(unit, persistedInstance list) Manager" where
  "written_manager = fst (UpdateCacheInstance sample_store ''k'' ''i'' (Inr ''{}'') (started_manager ''a''))"

lemma started_opens: "\<not> isl (NewManager sample_store (Some (sample_folder ''a'')))" "\<not> isl (NewManager sample_store (Some (sample_folder ''b'')))"
  by code_simp+

lemma started_new: "\<not> isl (NewManager sample_store (Some (sample_folder p))) \<Longrightarrow>
    NewManager sample_store (Some (sample_folder p)) = Inr (started_manager p)"
  by (auto simp: started_manager_def isl_def split: sum.splits)

lemmas started_managers = started_opens [THEN started_new]

lemma started_eval:
  "m_storage (started_manager ''a'') = Some []"
  "GetCacheInstanceInfo (started_manager ''b'') ''k'' ''i'' =
     Some \<lparr>ii_CacheKey = ''k'', ii_InstanceID = ''i'', ii_Config = ''{}'', ii_Persisted = True, ii_Runtime = False, ii_SizeBytes = 2\<rparr>"
  unfolding started_manager_def by code_simp+
lemma written_eval:
  "snd (UpdateCacheInstance sample_store ''k'' ''i'' (Inr ''{}'') (started_manager ''a'')) = None"
  "m_storage written_manager = Some sample_records"
  "GetCacheInstanceInfo written_manager ''k'' ''i'' =
     Some \<lparr>ii_CacheKey = ''k'', ii_InstanceID = ''i'', ii_Config = ''{}'', ii_Persisted = True, ii_Runtime = False, ii_SizeBytes = 2\<rparr>"
  "ListCacheInstances written_manager =
     [\<lparr>ii_CacheKey = ''k'', ii_InstanceID = ''i'', ii_Config = ''{}'', ii_Persisted = True, ii_Runtime = False, ii_SizeBytes = 2\<rparr>]"
  unfolding written_manager_def started_manager_def by code_simp+

lemma written_steps: "(mgr_step sample_store)\<^sup>*\<^sup>* (started_manager ''a'') written_manager"
  unfolding written_manager_def by (rule UpdateCacheInstance_steps)



definition limited_manager :: "(unit, persistedInstance list) Manager" where
  "limited_manager = fst (UpdateRuntimeCacheInstance sample_store ''k'' ''j'' (DPtr ()) 7 written_manager)"

lemma limited_eval:
  "UpdateRuntimeCacheInstance sample_store ''k'' ''j'' (DPtr ()) 7 written_manager = (limited_manager, None)"
  "cc_MaxInstances (config_of written_manager ''k'') = 2" "cc_MaxSizeBytes (config_of written_manager ''k'') = 9"
  "map (\<lambda>p. ci_size (snd p)) (cache_of written_manager ''k'') = [2]" "\<not> snd (lookup written_manager ''k'' ''j'')"
  "gm_sum ci_size (cache_of limited_manager ''k'') = 9"
proof -
  have "snd (UpdateRuntimeCacheInstance sample_store ''k'' ''j'' (DPtr ()) 7 written_manager) = None"
    unfolding written_manager_def started_manager_def by code_simp
  then show "UpdateRuntimeCacheInstance sample_store ''k'' ''j'' (DPtr ()) 7 written_manager = (limited_manager, None)"
    unfolding limited_manager_def by (metis prod.collapse)
  show "cc_MaxInstances (config_of written_manager ''k'') = 2" "cc_MaxSizeBytes (config_of written_manager ''k'') = 9"
    "map (\<lambda>p. ci_size (snd p)) (cache_of written_manager ''k'') = [2]" "\<not> snd (lookup written_manager ''k'' ''j'')"
    "gm_sum ci_size (cache_of limited_manager ''k'') = 9"
    unfolding limited_manager_def written_manager_def started_manager_def by code_simp+
qed

theorem cache_limits_respected_witness:
  "UpdateRuntimeCacheInstance sample_store ''k'' ''j'' (DPtr ()) 7 written_manager = (limited_manager, None) \<and>
   gm_sum ci_size (cache_of limited_manager ''k'') \<le> 9 \<and> length (cache_of limited_manager ''k'') \<le> 2"
proof -
  have sizes: "gm_sum ci_size (cache_of written_manager ''k'') = 2" "length (cache_of written_manager ''k'') = 1"
    using arg_cong [OF limited_eval(4), of sum_list] arg_cong [OF limited_eval(4), of length] by (simp_all add: gm_sum_def)
  have nn: "\<forall>p \<in> set (cache_of written_manager ''k''). 0 \<le> ci_size (snd p)"
  proof
    fix p assume "p \<in> set (cache_of written_manager ''k'')"
    then have "ci_size (snd p) \<in> set (map (\<lambda>p. ci_size (snd p)) (cache_of written_manager ''k''))" by simp
    then show "0 \<le> ci_size (snd p)" unfolding limited_eval(4) by simp
  qed
  have "counters_exact written_manager"
    by (rule steps_exact [OF written_steps NewManager_exact [OF started_managers(1)]])
       (simp add: sample_store_def list_store_def sample_folder_def)
  from cache_limits_respected [OF disjI1 [OF limited_eval(1)] this nn] sizes limited_eval(1,2,3,5) show ?thesis by simp
qed

definition unlimited_manager :: "(unit, persistedInstance list) Manager" where
  "unlimited_manager = fst (ConfigureCache ''k'' (Some (sample_cache_config\<lparr>cc_MaxInstances := 0\<rparr>)) written_manager)"

lemma unlimited_eval:
  "cc_MaxInstances (config_of unlimited_manager ''k'') = 0" "cc_MaxSizeBytes (config_of unlimited_manager ''k'') = 9"
  "gm_sum ci_size (cache_of unlimited_manager ''k'') = 2" "\<not> snd (lookup unlimited_manager ''k'' ''j'')"
  unfolding unlimited_manager_def written_manager_def started_manager_def by code_simp+

theorem cache_size_limit_wraps_witness:
  "snd (UpdateRuntimeCacheInstance sample_store ''k'' ''j'' (DPtr ()) (2 ^ 63 - 1) unlimited_manager) = None \<and>
   cc_MaxSizeBytes (config_of unlimited_manager ''k'') = 9"
  using cache_size_limit_wraps [OF unlimited_eval(4,1)] unlimited_eval by simp

definition failing_store :: "persistedInstance list nstore" where
  "failing_store = sample_store\<lparr>ns_delete := (\<lambda>i s. if i = ''r2'' then (s, Some (False, ErrText ''denied''))
     else (filter (\<lambda>x. pi_ID x \<noteq> Some i) s, None))\<rparr>"

definition two_manager :: "(unit, persistedInstance list) Manager" where
  "two_manager = \<lparr>m_caches = [(''k'', [(''a'', \<lparr>ci_value = DPtr (), ci_size = 2, ci_recordID = ''r1'', ci_config = ''{}''\<rparr>),
       (''b'', \<lparr>ci_value = DPtr (), ci_size = 2, ci_recordID = ''r2'', ci_config = ''{}''\<rparr>)])], m_configs = [],
     m_storage = Some [], m_instances = 2, m_sizeBytes = 4, m_resolver = None\<rparr>"

theorem failed_cache_removal_drifts_witness:
  "\<exists>m'. RemoveCache failing_store ''k'' two_manager = (m', Some (ErrText ''denied'')) \<and> fst (Stats m') = 1 \<and>
     length (ListCacheInstances m') = 2"
proof -
  have "counters_exact two_manager" by (simp add: two_manager_def counters_exact_def in_int64_def)
  moreover have "length (ListCacheInstances two_manager) = 2" by (simp add: two_manager_def ListCacheInstances_def)
  ultimately show ?thesis
    using failed_cache_removal_drifts [of two_manager "''k''" "(''a'', \<lparr>ci_value = DPtr (), ci_size = 2, ci_recordID = ''r1'', ci_config = ''{}''\<rparr>)"
        "(''b'', \<lparr>ci_value = DPtr (), ci_size = 2, ci_recordID = ''r2'', ci_config = ''{}''\<rparr>)" "[]" "[]" failing_store "[]" "[]" "ErrText ''denied''"]
    by (auto simp: failing_store_def two_manager_def in_int64_def)
qed

definition list_lru :: "(string gomap, string) lru" where
  "list_lru = \<lparr>l_new = (\<lambda>n. []), l_get = (\<lambda>l k. (l, gm_get l k)), l_add = (\<lambda>k v l. gm_put k v l)\<rparr>"

lemma list_lru_ok: "lru_ok list_lru (\<lambda>l k v. gm_get l k = Some v)"
  by (auto simp: lru_ok_def list_lru_def split: if_splits)

theorem regexp_cache_transparent_witness:
  "snd (RegexpCacheGet list_lru (\<lambda>p. Inr (p @ ''!'')) ''a'' (fst (RegexpCacheGet list_lru (\<lambda>p. Inr (p @ ''!'')) ''a'' (NewRegexpCache list_lru 5)))) = Inr ''a!''"
  using regexp_cache_transparent [OF list_lru_ok, of "\<lambda>p. Inr (p @ ''!'')" "''a''" "[''a'']" 5] by simp

theorem ensure_regexp_cache_witness:
  "snd (GetCacheInstance (fst (fst (EnsureRegexpCache list_lru sample_store 5 () (written_manager, Map.empty)))) RegexpCacheKey DefaultInstanceID)"
proof -
  have "snd (EnsureRegexpCache list_lru sample_store 5 () (written_manager, Map.empty)) = None"
    unfolding written_manager_def started_manager_def by code_simp
  then have "EnsureRegexpCache list_lru sample_store 5 () (written_manager, Map.empty) =
      ((fst (fst (EnsureRegexpCache list_lru sample_store 5 () (written_manager, Map.empty))),
        snd (fst (EnsureRegexpCache list_lru sample_store 5 () (written_manager, Map.empty)))), None)"
    by (metis prod.collapse)
  from ensure_regexp_cache [OF this] show ?thesis by blast
qed

end
