(* ===== verification/Scheduler.thy ===== *)
theory Scheduler
  imports Execution
begin

text \<open>
  \<^verbatim>\<open>scheduler.go\<close>, \<^verbatim>\<open>scheduler.storage.go\<close> and \<^verbatim>\<open>types/schedule.type.go\<close>: schedules
  that run a script or a workflow journey by cron, by interval or on demand, and the cache of
  their last results. A time is the number of nanoseconds since the epoch; every reading of the
  clock is an argument. The cron library, the schedule folder and the script runtime are the
  fields of \<open>sched_env\<close> and \<open>script_runtime\<close>. A target that panics returns \<open>GoPanic\<close>.
\<close>

subsection \<open>Error texts\<close>

fun error_text :: "go_error \<Rightarrow> string" where
  "error_text (ErrJourneyInvalidPayload d) = ''journey error - invalid payload: '' @ d"
| "error_text ErrJourneyNotFound = ''journey error - not found:''"
| "error_text ErrInvalidJourneyToken = ''invalid journey token: journey error''"
| "error_text ErrJourneyInvalidOutcome = ''invalid outcome: journey error''"
| "error_text ErrJourneyFailure = ''failure: journey error''"
| "error_text ErrJourneyStateStore = ''state persistence failed: journey error''"
| "error_text (JourneyInfiniteLoopErr s) = ''journey error: starting an infinite loop from step '' @ s"
| "error_text ErrStepNotFound = ''step not found: step error''"
| "error_text ErrInvalidStepConfig = ''invalid step config: step error''"
| "error_text (StepUnsupported s) = ''step '' @ [CHR 0x27] @ s @ [CHR 0x27] @ '' is not supported: step error''"
| "error_text (StepNotFound s) = ''step '' @ [CHR 0x27] @ s @ [CHR 0x27] @ '' not found: step error''"
| "error_text (StepInvalidConfig s d) = ''invalid config in step '' @ [CHR 0x27] @ s @ [CHR 0x27] @ '' ('' @ d @ ''): step error''"
| "error_text (StepInvalidOutcome s oc) =
     ''invalid outcome '' @ [CHR 0x27] @ oc @ [CHR 0x27] @ '' in step '' @ [CHR 0x27] @ s @ [CHR 0x27] @ '': step error''"
| "error_text ErrCacheNotFound = ''cache not found''"
| "error_text ErrInstanceNotFound = ''cache instance not found''"
| "error_text (ErrFactoryNotFound k) = ''cache factory not found: '' @ k"
| "error_text ErrInstanceNotPointer = ''cache instance must be a non-nil pointer''"
| "error_text ErrMaxInstances = ''cache maximum instances exceeded''"
| "error_text ErrMaxSize = ''cache maximum size exceeded''"
| "error_text ErrScheduleNoResult = ''schedule produced no cacheable value''"
| "error_text (ErrText s) = s"
| "error_text (ErrWrap s e) = s @ '': '' @ error_text e"
| "error_text (GoPanic s) = s"

subsection \<open>Data\<close>

record ScheduleTarget =
  tg_Type :: string
  tg_ScriptID :: string
  tg_ScriptType :: string
  tg_Args :: DefaultMap
  tg_JourneyID :: string
  tg_InitialData :: DefaultMap

text \<open>\<open>sc_ID = None\<close> is a schedule without metadata.\<close>

record ScheduleConfiguration =
  sc_ID :: "string option"
  sc_Name :: string
  sc_Description :: string
  sc_Realm :: string
  sc_Active :: bool
  sc_Kind :: string
  sc_Cron :: string
  sc_IntervalSeconds :: int
  sc_StartAt :: int
  sc_Timezone :: string
  sc_MaxRuns :: int
  sc_TriggerEnabled :: bool
  sc_TriggerWait :: bool
  sc_TimeoutSeconds :: int
  sc_Target :: ScheduleTarget
  sc_RunCount :: int
  sc_LastRunAt :: int
  sc_NextRunAt :: int
  sc_Status :: string
  sc_LastError :: string
  sc_Running :: bool

record ScheduleTriggerRequest =
  tr_Wait :: "bool option"
  tr_Args :: DefaultMap
  tr_InitialData :: DefaultMap

record ScheduleRunResult =
  rr_ScheduleID :: string
  rr_Status :: string
  rr_Error :: string
  rr_Value :: gval
  rr_HasValue :: bool
  rr_StartedAt :: int
  rr_FinishedAt :: int
  rr_RunCount :: int

record ScheduleCacheOptions =
  co_MaxAgeSeconds :: int
  co_StaleIfError :: bool

text \<open>The result slot handed to a script.\<close>

record ScheduleResultContext =
  rc_PreviousResult :: gval
  rc_result :: gval
  rc_resultSet :: bool

definition NewScheduleResultContext :: "gval \<Rightarrow> ScheduleResultContext" where
  "NewScheduleResultContext previous = \<lparr>rc_PreviousResult = previous, rc_result = GNil, rc_resultSet = False\<rparr>"

definition SetScheduleResult :: "gval \<Rightarrow> ScheduleResultContext option \<Rightarrow> ScheduleResultContext option" where
  "SetScheduleResult v r = map_option (\<lambda>c. c\<lparr>rc_result := v, rc_resultSet := True\<rparr>) r"

definition ScheduleResult :: "ScheduleResultContext option \<Rightarrow> gval \<times> bool" where
  "ScheduleResult r = (case r of None \<Rightarrow> (GNil, False) | Some c \<Rightarrow> (rc_result c, rc_resultSet c))"

abbreviation empty_result :: "string \<Rightarrow> ScheduleRunResult" where
  "empty_result i \<equiv> \<lparr>rr_ScheduleID = i, rr_Status = '''', rr_Error = '''', rr_Value = GNil, rr_HasValue = False,
     rr_StartedAt = 0, rr_FinishedAt = 0, rr_RunCount = 0\<rparr>"

text \<open>\<open>se_save\<close> is the folder's own save, which \<open>SaveSchedule\<close> guards with validation. \<open>cr_next\<close> and
  \<open>cr_entry_next\<close> give \<open>None\<close> for the zero time.\<close>

record ('f, 'cr, 'sp) sched_env =
  se_load :: "'f \<Rightarrow> string \<Rightarrow> ScheduleConfiguration option res"
  se_save :: "ScheduleConfiguration \<Rightarrow> 'f \<Rightarrow> 'f \<times> go_error option"
  se_list :: "'f \<Rightarrow> ScheduleConfiguration option list"
  cr_parse :: "string \<Rightarrow> 'sp res"
  cr_next :: "'sp \<Rightarrow> int \<Rightarrow> int option"
  cr_add :: "string \<Rightarrow> 'cr \<Rightarrow> 'cr \<times> nat res"
  cr_remove :: "nat \<Rightarrow> 'cr \<Rightarrow> 'cr"
  cr_entry_next :: "'cr \<Rightarrow> nat \<Rightarrow> int option"

type_synonym result_cache = "(gval \<times> int) gomap"

text \<open>\<open>sd_intervals\<close> maps a schedule to the handle of its cancel function; \<open>sd_loops\<close> lists the
  interval loops that were started and not cancelled, with their handles.\<close>

record ('f, 'cr) Scheduler =
  sd_folder :: 'f
  sd_cron :: 'cr
  sd_cronJobs :: "nat gomap"
  sd_intervals :: "nat gomap"
  sd_loops :: "(nat \<times> string) list"
  sd_handles :: nat
  sd_results :: result_cache

definition newScheduler :: "'f \<Rightarrow> 'cr \<Rightarrow> ('f, 'cr) Scheduler" where
  "newScheduler folder cron = \<lparr>sd_folder = folder, sd_cron = cron, sd_cronJobs = [], sd_intervals = [], sd_loops = [],
     sd_handles = 0, sd_results = []\<rparr>"

subsection \<open>Validation and storage\<close>

definition normalizeScheduleTargetType :: "string \<Rightarrow> string" where
  "normalizeScheduleTargetType v =
     (if TrimSpace (ToLower v) \<in> set [WorkflowJourney, ''workflow-journey''] then WorkflowJourney else v)"

definition scheduleCronSpec :: "ScheduleConfiguration \<Rightarrow> string" where
  "scheduleCronSpec s =
     (if TrimSpace (sc_Timezone s) = '''' \<or> HasPrefix (TrimSpace (sc_Cron s)) ''CRON_TZ='' then sc_Cron s
      else ''CRON_TZ='' @ TrimSpace (sc_Timezone s) @ '' '' @ TrimSpace (sc_Cron s))"

definition kind_error :: "('f, 'cr, 'sp) sched_env \<Rightarrow> ScheduleConfiguration \<Rightarrow> go_error option" where
  "kind_error E s =
     (if sc_Kind s = ''cron''
      then (if TrimSpace (sc_Cron s) = '''' then Some (ErrText ''schedule cron is required'')
            else (case cr_parse E (scheduleCronSpec s) of
                    Inl e \<Rightarrow> Some (ErrWrap ''invalid cron schedule'' e) | Inr _ \<Rightarrow> None))
      else if sc_Kind s = ''interval''
      then (if sc_IntervalSeconds s \<le> 0 then Some (ErrText ''schedule interval_seconds must be positive'') else None)
      else Some (ErrText (''unsupported schedule kind \"'' @ sc_Kind s @ ''\"'')))"

definition target_error :: "ScheduleTarget \<Rightarrow> go_error option" where
  "target_error t =
     (if tg_Type t = ''script''
      then (if TrimSpace (tg_ScriptID t) = '''' then Some (ErrText ''schedule target.script_id is required'') else None)
      else if tg_Type t = WorkflowJourney
      then (if TrimSpace (tg_JourneyID t) = '''' then Some (ErrText ''schedule target.journey_id is required'') else None)
      else Some (ErrText (''unsupported schedule target type \"'' @ tg_Type t @ ''\"'')))"

text \<open>Validation works in place: the schedule comes back with its target type normalised, on errors
  after that point too, and with a status.\<close>

definition ValidateScheduleConfiguration :: "('f, 'cr, 'sp) sched_env \<Rightarrow> ScheduleConfiguration
    \<Rightarrow> ScheduleConfiguration \<times> go_error option" where
  "ValidateScheduleConfiguration E s =
     (if TrimSpace (sc_Name s) = '''' then (s, Some (ErrText ''schedule name is required''))
      else (case kind_error E s of
        Some e \<Rightarrow> (s, Some e)
      | None \<Rightarrow>
          if sc_MaxRuns s < 0 then (s, Some (ErrText ''schedule max_runs cannot be negative''))
          else if sc_StartAt s < 0 then (s, Some (ErrText ''schedule start_at cannot be negative''))
          else if sc_TimeoutSeconds s < 0 then (s, Some (ErrText ''schedule timeout_seconds cannot be negative''))
          else let s1 = s\<lparr>sc_Target := (sc_Target s)\<lparr>tg_Type := normalizeScheduleTargetType (tg_Type (sc_Target s))\<rparr>\<rparr> in
               (case target_error (sc_Target s1) of
                  Some e \<Rightarrow> (s1, Some e)
                | None \<Rightarrow> (if sc_Status s1 = '''' then s1\<lparr>sc_Status := (if sc_Active s1 then ''idle'' else ''disabled'')\<rparr> else s1,
                           None))))"

definition SaveSchedule :: "('f, 'cr, 'sp) sched_env \<Rightarrow> ScheduleConfiguration \<Rightarrow> 'f
    \<Rightarrow> 'f \<times> ScheduleConfiguration \<times> go_error option" where
  "SaveSchedule E s folder =
     (case ValidateScheduleConfiguration E s of
        (s1, Some e) \<Rightarrow> (folder, s1, Some e)
      | (s1, None) \<Rightarrow> (case se_save E s1 folder of (folder', r) \<Rightarrow> (folder', s1, r)))"

definition save_folder :: "('f, 'cr, 'sp) sched_env \<Rightarrow> ScheduleConfiguration \<Rightarrow> ('f, 'cr) Scheduler
    \<Rightarrow> ('f, 'cr) Scheduler \<times> ScheduleConfiguration \<times> go_error option" where
  "save_folder E s sd =
     (case SaveSchedule E s (sd_folder sd) of (folder, s1, r) \<Rightarrow> (sd\<lparr>sd_folder := folder\<rparr>, s1, r))"

definition scheduleCompleted :: "ScheduleConfiguration \<Rightarrow> bool" where
  "scheduleCompleted s \<longleftrightarrow> 0 < sc_MaxRuns s \<and> sc_MaxRuns s \<le> sc_RunCount s"

text \<open>Copies go through JSON: the numbers of the argument maps become doubles.\<close>

definition cloneScheduleConfiguration :: "ScheduleConfiguration \<Rightarrow> ScheduleConfiguration res" where
  "cloneScheduleConfiguration s =
     (let t = sc_Target s in
      if json_ok (GObj (tg_Args t)) \<and> json_ok (GObj (tg_InitialData t))
      then Inr (s\<lparr>sc_Target := t\<lparr>tg_Args := json_map (tg_Args t), tg_InitialData := json_map (tg_InitialData t)\<rparr>\<rparr>)
      else Inl (ErrText ''json: unsupported value''))"

definition cloneScheduleValue :: "gval \<Rightarrow> gval res" where
  "cloneScheduleValue v = json_copy v"

definition cloneScheduleRunResult :: "ScheduleRunResult option \<Rightarrow> ScheduleRunResult option" where
  "cloneScheduleRunResult r =
     map_option (\<lambda>c. c\<lparr>rr_Value := (case cloneScheduleValue (rr_Value c) of Inl _ \<Rightarrow> GNil | Inr v \<Rightarrow> v)\<rparr>) r"

subsection \<open>Times\<close>

definition unix_time :: "int \<Rightarrow> int" where "unix_time s = s * second"
definition to_unix :: "int \<Rightarrow> int" where "to_unix t = t div second"

text \<open>\<open>time.Duration(n) * time.Second\<close>, and the difference of two times, which saturates.\<close>

definition seconds :: "int \<Rightarrow> int" where "seconds n = wrap64 (n * second)"

definition time_sub :: "int \<Rightarrow> int \<Rightarrow> int" where
  "time_sub t u = max (- (2 ^ 63)) (min (2 ^ 63 - 1) (t - u))"

definition nextIntervalRunAt :: "ScheduleConfiguration \<Rightarrow> int \<Rightarrow> int res" where
  "nextIntervalRunAt s now =
     (if sc_IntervalSeconds s \<le> 0 then Inr now
      else let interval = seconds (sc_IntervalSeconds s) in
           if sc_StartAt s \<le> 0 then Inr (now + interval)
           else let start = unix_time (sc_StartAt s) in
                if now < start then Inr start
                else let elapsed = time_sub now start in
                     if interval = 0 then Inl (GoPanic ''runtime error: integer divide by zero'')
                     else Inr (start + wrap64 (wrap64 (quot elapsed interval + 1) * interval)))"

definition nextCronRunAt :: "('f, 'cr, 'sp) sched_env \<Rightarrow> ScheduleConfiguration \<Rightarrow> int \<Rightarrow> int option" where
  "nextCronRunAt E s after =
     (if TrimSpace (sc_Cron s) = '''' then None
      else (case cr_parse E (scheduleCronSpec s) of
              Inl _ \<Rightarrow> None
            | Inr p \<Rightarrow>
                cr_next E p (if 0 < sc_StartAt s \<and> after < unix_time (sc_StartAt s)
                             then unix_time (sc_StartAt s) - second else after)))"

subsection \<open>The result cache\<close>

definition scheduleResultKey :: "string \<Rightarrow> string \<Rightarrow> string" where
  "scheduleResultKey realm i = realm @ [CHR 0x00] @ i"

definition results_set :: "string \<Rightarrow> string \<Rightarrow> gval \<Rightarrow> int \<Rightarrow> result_cache \<Rightarrow> result_cache \<times> go_error option" where
  "results_set realm i v now c =
     (case json_copy v of
        Inl e \<Rightarrow> (c, Some e)
      | Inr w \<Rightarrow> (gm_put (scheduleResultKey realm i) (w, now) c, None))"

definition results_get :: "string \<Rightarrow> string \<Rightarrow> int \<Rightarrow> int \<Rightarrow> result_cache \<Rightarrow> gval option" where
  "results_get realm i maxAgeSeconds now c =
     (case gm_get c (scheduleResultKey realm i) of
        None \<Rightarrow> None
      | Some (v, storedAt) \<Rightarrow>
          if 0 < maxAgeSeconds \<and> seconds maxAgeSeconds < time_sub now storedAt then None else Some v)"

definition results_clear :: "string \<Rightarrow> string \<Rightarrow> result_cache \<Rightarrow> result_cache" where
  "results_clear realm i c = gm_del (scheduleResultKey realm i) c"

subsection \<open>Planning\<close>

definition Unschedule :: "('f, 'cr, 'sp) sched_env \<Rightarrow> string \<Rightarrow> ('f, 'cr) Scheduler \<Rightarrow> ('f, 'cr) Scheduler" where
  "Unschedule E i sd =
     (if i = '''' then sd
      else let sd1 = (case gm_get (sd_cronJobs sd) i of
                        None \<Rightarrow> sd
                      | Some entry \<Rightarrow> sd\<lparr>sd_cron := cr_remove E entry (sd_cron sd), sd_cronJobs := gm_del i (sd_cronJobs sd)\<rparr>)
           in (case gm_get (sd_intervals sd1) i of
                 None \<Rightarrow> sd1
               | Some h \<Rightarrow> sd1\<lparr>sd_loops := filter (\<lambda>l. fst l \<noteq> h) (sd_loops sd1), sd_intervals := gm_del i (sd_intervals sd1)\<rparr>))"

definition install_cron :: "('f, 'cr, 'sp) sched_env \<Rightarrow> int \<Rightarrow> string \<Rightarrow> ScheduleConfiguration \<Rightarrow> ('f, 'cr) Scheduler
    \<Rightarrow> ('f, 'cr) Scheduler \<times> go_error option" where
  "install_cron E now i s sd =
     (case cr_add E (scheduleCronSpec s) (sd_cron sd) of
        (c, Inl e) \<Rightarrow> (sd\<lparr>sd_cron := c\<rparr>, Some e)
      | (c, Inr entry) \<Rightarrow>
          let sd1 = sd\<lparr>sd_cron := c, sd_cronJobs := gm_put i entry (sd_cronJobs sd)\<rparr>;
              next1 = (case nextCronRunAt E s now of Some t \<Rightarrow> Some t | None \<Rightarrow> cr_entry_next E c entry)
          in (case next1 of
                None \<Rightarrow> (sd1, None)
              | Some t \<Rightarrow> (case save_folder E (s\<lparr>sc_NextRunAt := to_unix t\<rparr>) sd1 of (sd2, _, _) \<Rightarrow> (sd2, None))))"

definition install_interval :: "('f, 'cr, 'sp) sched_env \<Rightarrow> int \<Rightarrow> string \<Rightarrow> ScheduleConfiguration \<Rightarrow> ('f, 'cr) Scheduler
    \<Rightarrow> ('f, 'cr) Scheduler \<times> go_error option" where
  "install_interval E now i s sd =
     (let h = sd_handles sd;
          sd1 = sd\<lparr>sd_intervals := gm_put i h (sd_intervals sd), sd_handles := Suc h\<rparr>;
          started = (\<lambda>x. x\<lparr>sd_loops := (h, i) # sd_loops x\<rparr>)
      in if sc_NextRunAt s = 0
         then (case nextIntervalRunAt s now of
                 Inl e \<Rightarrow> (sd1, Some e)
               | Inr t \<Rightarrow> (case save_folder E (s\<lparr>sc_NextRunAt := to_unix t\<rparr>) sd1 of (sd2, _, _) \<Rightarrow> (started sd2, None)))
         else (started sd1, None))"

text \<open>The second critical section of \<open>Schedule\<close>, after \<open>Unschedule\<close>.\<close>

definition install_schedule :: "('f, 'cr, 'sp) sched_env \<Rightarrow> int \<Rightarrow> string \<Rightarrow> ScheduleConfiguration \<Rightarrow> ('f, 'cr) Scheduler
    \<Rightarrow> ('f, 'cr) Scheduler \<times> go_error option" where
  "install_schedule E now i s sd =
     (if \<not> sc_Active s \<or> scheduleCompleted s then (sd, None)
      else if sc_Kind s = ''cron'' then install_cron E now i s sd
      else if sc_Kind s = ''interval'' then install_interval E now i s sd
      else (sd, None))"

definition Schedule :: "('f, 'cr, 'sp) sched_env \<Rightarrow> int \<Rightarrow> ScheduleConfiguration option \<Rightarrow> ('f, 'cr) Scheduler
    \<Rightarrow> ('f, 'cr) Scheduler \<times> go_error option" where
  "Schedule E now so sd =
     (case so of
        None \<Rightarrow> (sd, None)
      | Some s \<Rightarrow>
          (case sc_ID s of
             None \<Rightarrow> (sd, None)
           | Some i \<Rightarrow> if i = '''' then (sd, None) else install_schedule E now i s (Unschedule E i sd)))"

definition Reload :: "('f, 'cr, 'sp) sched_env \<Rightarrow> int \<Rightarrow> ScheduleConfiguration option \<Rightarrow> ('f, 'cr) Scheduler
    \<Rightarrow> ('f, 'cr) Scheduler \<times> go_error option" where
  "Reload E now so sd =
     (case so of
        None \<Rightarrow> (sd, None)
      | Some s \<Rightarrow>
          (case sc_ID s of
             None \<Rightarrow> (sd, Some (GoPanic ''nil pointer dereference''))
           | Some i \<Rightarrow> if i = '''' then (sd, None) else Schedule E now so (Unschedule E i sd)))"

fun start_all :: "('f, 'cr, 'sp) sched_env \<Rightarrow> int \<Rightarrow> ScheduleConfiguration option list \<Rightarrow> ('f, 'cr) Scheduler
    \<Rightarrow> ('f, 'cr) Scheduler \<times> go_error option" where
  "start_all E now [] sd = (sd, None)"
| "start_all E now (None # rest) sd = start_all E now rest sd"
| "start_all E now (Some s # rest) sd =
     (if sc_Active s
      then (case Schedule E now (Some s) sd of
              (sd1, Some e) \<Rightarrow> (sd1, Some e)
            | (sd1, None) \<Rightarrow> start_all E now rest sd1)
      else start_all E now rest sd)"

definition StartScheduler :: "('f, 'cr, 'sp) sched_env \<Rightarrow> int \<Rightarrow> ('f, 'cr) Scheduler \<Rightarrow> ('f, 'cr) Scheduler \<times> go_error option" where
  "StartScheduler E now sd = start_all E now (se_list E (sd_folder sd)) sd"

definition StopScheduler :: "('f, 'cr) Scheduler \<Rightarrow> ('f, 'cr) Scheduler" where
  "StopScheduler sd = sd\<lparr>sd_loops := filter (\<lambda>l. fst l \<notin> snd ` set (sd_intervals sd)) (sd_loops sd),
     sd_intervals := [], sd_cronJobs := []\<rparr>"

text \<open>One turn of an interval loop: how long it waits before the next run; \<open>None\<close> ends the loop.\<close>

definition runInterval :: "('f, 'cr, 'sp) sched_env \<Rightarrow> int \<Rightarrow> string \<Rightarrow> ('f, 'cr) Scheduler \<Rightarrow> int option" where
  "runInterval E now i sd =
     (case se_load E (sd_folder sd) i of
        Inr (Some s) \<Rightarrow>
          if \<not> sc_Active s \<or> scheduleCompleted s then None
          else let delay = time_sub (unix_time (sc_NextRunAt s)) now
               in Some (if delay \<le> 0 then seconds (sc_IntervalSeconds s) else delay)
      | _ \<Rightarrow> None)"

subsection \<open>Targets\<close>

record ('scr, 'prog, 'b) script_runtime =
  sr_ready :: bool
  sr_load :: "string \<Rightarrow> 'scr option"
  sr_not_found :: go_error
  sr_type :: "'scr \<Rightarrow> string"
  sr_name :: "'scr \<Rightarrow> string"
  sr_code :: "'scr \<Rightarrow> string res"
  sr_compile :: "string \<Rightarrow> string \<Rightarrow> 'prog res"
  sr_bindings :: "string \<Rightarrow> 'scr \<Rightarrow> DefaultMap \<Rightarrow> int \<Rightarrow> 'b res"
  sr_execute :: "'prog \<Rightarrow> 'b \<Rightarrow> int \<Rightarrow> ScheduleResultContext \<Rightarrow> ScheduleResultContext \<times> unit res"

definition NormalizeScriptType :: "string \<Rightarrow> string" where
  "NormalizeScriptType t =
     (let n = TrimSpace (ToLower t) in if n = ''journey'' then ''auth'' else n)"

definition is_panic :: "go_error \<Rightarrow> string option" where
  "is_panic e = (case e of GoPanic m \<Rightarrow> Some m | _ \<Rightarrow> None)"

definition unlimited_timeout :: int where
  "unlimited_timeout = 10 * 365 * 24 * 60 * 60"

definition run_script_body :: "('scr, 'prog, 'b) script_runtime \<Rightarrow> ScheduleConfiguration \<Rightarrow> ScheduleTriggerRequest option
    \<Rightarrow> result_cache \<Rightarrow> int \<Rightarrow> (gval \<times> bool) res" where
  "run_script_body R s request results now =
     (if \<not> sr_ready R then Inl (ErrText ''script runtime is not configured'')
      else (case sr_load R (tg_ScriptID (sc_Target s)) of
        None \<Rightarrow> Inl (sr_not_found R)
      | Some script \<Rightarrow>
          if NormalizeScriptType (sr_type R script) \<noteq> ''schedule''
          then Inl (ErrText (''schedule target script \"'' @ tg_ScriptID (sc_Target s) @ ''\" must be type \"schedule\"''))
          else let args = (case request of
                             None \<Rightarrow> tg_Args (sc_Target s)
                           | Some r \<Rightarrow> if length (tr_Args r) \<noteq> 0 then tr_Args r else tg_Args (sc_Target s));
                   timeoutSeconds = (if sc_TimeoutSeconds s \<le> 0 then unlimited_timeout else sc_TimeoutSeconds s)
               in bind_res (sr_code R script) (\<lambda>code.
                  case sr_compile R (sr_name R script) code of
                    Inl e \<Rightarrow> Inl (ErrWrap (''compile schedule script '' @ sr_name R script) e)
                  | Inr prog \<Rightarrow>
                      let ctx = NewScheduleResultContext (or_default (results_get (sc_Realm s) (or_default (sc_ID s) '''') 0 now results) GNil)
                      in bind_res (sr_bindings R (sc_Realm s) script args timeoutSeconds) (\<lambda>b.
                         case sr_execute R prog b (seconds timeoutSeconds) ctx of
                           (ctx', Inl e) \<Rightarrow> Inl e
                         | (ctx', Inr _) \<Rightarrow> (case ScheduleResult (Some ctx') of (v, has) \<Rightarrow> Inr (if has then v else GNil, has))))))"

definition runScript :: "('scr, 'prog, 'b) script_runtime \<Rightarrow> ScheduleConfiguration \<Rightarrow> ScheduleTriggerRequest option
    \<Rightarrow> result_cache \<Rightarrow> int \<Rightarrow> (gval \<times> bool) res" where
  "runScript R s request results now =
     (case run_script_body R s request results now of
        Inl e \<Rightarrow> (case is_panic e of None \<Rightarrow> Inl e | Some m \<Rightarrow> Inl (ErrText (''schedule script panic: '' @ m)))
      | Inr r \<Rightarrow> Inr r)"

text \<open>\<open>None\<close> means that the journey did not finish within the fuel.\<close>

definition runWorkflow :: "('t, 'c, 'k, 'q) journeyManager \<Rightarrow> nat \<Rightarrow> string res \<Rightarrow> ScheduleConfiguration
    \<Rightarrow> ScheduleTriggerRequest option \<Rightarrow> result_cache \<Rightarrow> int \<Rightarrow> ('c, 'k) manager_state
    \<Rightarrow> (('c, 'k) manager_state \<times> (gval \<times> bool) res) option" where
  "runWorkflow jm fuel rand s request results now ms =
     (let journeyID = tg_JourneyID (sc_Target s) in
      case jm_storage jm journeyID of
        Inr (Some journey) \<Rightarrow>
          if NormalizeJourneyType (jc_JourneyType journey) \<noteq> WorkflowJourney
          then Some (ms, Inl (ErrText (''schedule target journey \"'' @ journeyID @ ''\" is not a workflow journey'')))
          else let initialData = (case request of
                                    None \<Rightarrow> tg_InitialData (sc_Target s)
                                  | Some r \<Rightarrow> if length (tr_InitialData r) \<noteq> 0 then tr_InitialData r else tg_InitialData (sc_Target s));
                   previous = or_default (results_get (sc_Realm s) (or_default (sc_ID s) '''') 0 now results) GNil;
                   payload = SetPayloadRealm (Some (named_realm (sc_Realm s)))
                     (empty_payload\<lparr>jp_JourneyID := journeyID, jp_InitialData := gm_put ''previousResult'' previous initialData\<rparr>)
               in (case InvokeJourney jm fuel rand
                          (Some \<lparr>je_Payload = Some payload, je_IsConfidential = True, je_Request = Some (ReqMemory (Some NewEmptyRequest)),
                                 je_Response = Some NewMemoryResponse\<rparr>) ms of
                     None \<Rightarrow> None
                   | Some (ms', _, Inl e) \<Rightarrow> Some (ms', Inl e)
                   | Some (ms', _, Inr (_, state)) \<Rightarrow>
                       Some (ms', Inr (if HasResult state then (GetResult state, True) else (GNil, False))))
      | _ \<Rightarrow> Some (ms, Inl ErrJourneyNotFound))"

definition runTarget :: "('scr, 'prog, 'b) script_runtime \<Rightarrow> ('t, 'c, 'k, 'q) journeyManager \<Rightarrow> nat \<Rightarrow> string res
    \<Rightarrow> ScheduleConfiguration \<Rightarrow> ScheduleTriggerRequest option \<Rightarrow> result_cache \<Rightarrow> int \<Rightarrow> ('c, 'k) manager_state
    \<Rightarrow> (('c, 'k) manager_state \<times> (gval \<times> bool) res) option" where
  "runTarget R jm fuel rand s request results now ms =
     (let t = normalizeScheduleTargetType (tg_Type (sc_Target s)) in
      if t = ''script'' then Some (ms, runScript R s request results now)
      else if t = WorkflowJourney then runWorkflow jm fuel rand s request results now ms
      else Some (ms, Inl (ErrText (''unsupported schedule target \"'' @ t @ ''\"''))))"

subsection \<open>Runs\<close>

text \<open>What the rest of a run is given: the target as a function of the schedule, the request, the
  results and a world (the journey manager's state). \<open>runTarget\<close> is such a function.\<close>

type_synonym 'w target = "ScheduleConfiguration \<Rightarrow> ScheduleTriggerRequest option \<Rightarrow> result_cache \<Rightarrow> int \<Rightarrow> 'w
    \<Rightarrow> ('w \<times> (gval \<times> bool) res) option"

definition next_run_at :: "('f, 'cr, 'sp) sched_env \<Rightarrow> int \<Rightarrow> ScheduleConfiguration \<Rightarrow> int" where
  "next_run_at E finishedAt s =
     (if sc_Kind s = ''interval'' then to_unix (finishedAt + seconds (sc_IntervalSeconds s))
      else if sc_Kind s = ''cron''
      then (case nextCronRunAt E s finishedAt of None \<Rightarrow> sc_NextRunAt s | Some t \<Rightarrow> to_unix t)
      else sc_NextRunAt s)"

definition settle :: "ScheduleConfiguration \<Rightarrow> ScheduleConfiguration" where
  "settle s =
     (if scheduleCompleted s then s\<lparr>sc_Active := False, sc_NextRunAt := 0\<rparr>
      else if sc_Active s then s\<lparr>sc_Status := ''idle''\<rparr> else s)"

text \<open>The bookkeeping after the target returned \<open>r\<close>: the schedule to save and the result.\<close>

definition after_target :: "('f, 'cr, 'sp) sched_env \<Rightarrow> int \<Rightarrow> ScheduleConfiguration \<Rightarrow> ScheduleRunResult \<Rightarrow> go_error option
    \<Rightarrow> ScheduleConfiguration \<times> ScheduleRunResult" where
  "after_target E finishedAt s result runErr =
     (let count = wrap64 (sc_RunCount s + 1);
          status = (if runErr = None then ''succeeded'' else ''failed'');
          text = (case runErr of None \<Rightarrow> '''' | Some e \<Rightarrow> error_text e);
          s1 = s\<lparr>sc_Running := False, sc_RunCount := count, sc_Status := status,
                 sc_LastError := (if runErr = None then sc_LastError s else text)\<rparr>
      in (settle (s1\<lparr>sc_NextRunAt := next_run_at E finishedAt s1\<rparr>), result\<lparr>rr_RunCount := count, rr_Status := status, rr_Error := text\<rparr>))"

definition start_run :: "int \<Rightarrow> ScheduleConfiguration \<Rightarrow> ScheduleConfiguration" where
  "start_run startedAt s = s\<lparr>sc_Running := True, sc_Status := ''running'', sc_LastRunAt := to_unix startedAt, sc_LastError := ''''\<rparr>"

text \<open>A run after its target returned \<open>r\<close>. A panic of the target is recovered by \<open>runOnce\<close> and ends the
  run on the spot.\<close>

definition finish_run :: "('f, 'cr, 'sp) sched_env \<Rightarrow> int \<Rightarrow> int \<Rightarrow> string \<Rightarrow> ScheduleConfiguration \<Rightarrow> (gval \<times> bool) res
    \<Rightarrow> ('f, 'cr) Scheduler \<Rightarrow> ('f, 'cr) Scheduler \<times> ScheduleRunResult option \<times> go_error option" where
  "finish_run E startedAt finishedAt i s r sd =
     (let result = (empty_result i)\<lparr>rr_Status := ''running'', rr_StartedAt := to_unix startedAt\<rparr> in
      case (case r of Inl e \<Rightarrow> is_panic e | Inr _ \<Rightarrow> None) of
        Some m \<Rightarrow>
          let text = ''schedule panic: '' @ m in
          (sd, Some (result\<lparr>rr_Status := ''failed'', rr_Error := text\<rparr>), Some (ErrText text))
      | None \<Rightarrow>
          let (v, has) = (case r of Inl _ \<Rightarrow> (GNil, False) | Inr p \<Rightarrow> p);
              result1 = result\<lparr>rr_FinishedAt := to_unix finishedAt, rr_Value := v, rr_HasValue := has\<rparr>;
              (results, runErr) = (case r of
                  Inl e \<Rightarrow> (sd_results sd, Some e)
                | Inr _ \<Rightarrow> if has
                    then (case results_set (sc_Realm s) i v finishedAt (sd_results sd) of
                            (c, None) \<Rightarrow> (c, None) | (c, Some e) \<Rightarrow> (c, Some (ErrWrap ''cache schedule result'' e)))
                    else (sd_results sd, None));
              (s1, result2) = after_target E finishedAt s result1 runErr;
              (sd1, s2, saveErr) = save_folder E s1 (sd\<lparr>sd_results := results\<rparr>);
              sd2 = (if sc_Active s2 then sd1 else Unschedule E i sd1)
          in (sd2, Some result2, if runErr = None then saveErr else runErr))"

definition runOnce :: "('f, 'cr, 'sp) sched_env \<Rightarrow> 'w target \<Rightarrow> int \<Rightarrow> int \<Rightarrow> string \<Rightarrow> ScheduleTriggerRequest option
    \<Rightarrow> 'w \<times> ('f, 'cr) Scheduler \<Rightarrow> (('w \<times> ('f, 'cr) Scheduler) \<times> ScheduleRunResult option \<times> go_error option) option" where
  "runOnce E tgt startedAt finishedAt i request = (\<lambda>(w, sd).
     case se_load E (sd_folder sd) i of
       Inr (Some stored) \<Rightarrow>
         (case cloneScheduleConfiguration stored of
            Inl e \<Rightarrow> Some ((w, sd), None, Some e)
          | Inr s \<Rightarrow>
              if scheduleCompleted s
              then Some ((w, sd), Some ((empty_result i)\<lparr>rr_Status := sc_Status s, rr_RunCount := sc_RunCount s\<rparr>), None)
              else (case save_folder E (start_run startedAt s) sd of
                      (sd1, s1, _) \<Rightarrow>
                        (case tgt s1 request (sd_results sd1) startedAt w of
                           None \<Rightarrow> None
                         | Some (w', r) \<Rightarrow>
                             let s2 = s1\<lparr>sc_Target := (sc_Target s1)\<lparr>tg_Type := normalizeScheduleTargetType (tg_Type (sc_Target s1))\<rparr>\<rparr>
                             in (case finish_run E startedAt finishedAt i s2 r sd1 of
                                   (sd2, result, err) \<Rightarrow> Some ((w', sd2), result, err)))))
     | _ \<Rightarrow> Some ((w, sd), None, Some ErrJourneyNotFound))"

text \<open>\<open>Run\<close> of the leader: the coordination with concurrent callers is \<open>beginRun\<close> and \<open>endRun\<close> below.\<close>

definition RunSchedule :: "('f, 'cr, 'sp) sched_env \<Rightarrow> 'w target \<Rightarrow> int \<Rightarrow> int \<Rightarrow> string \<Rightarrow> ScheduleTriggerRequest option
    \<Rightarrow> 'w \<times> ('f, 'cr) Scheduler \<Rightarrow> (('w \<times> ('f, 'cr) Scheduler) \<times> ScheduleRunResult option \<times> go_error option) option" where
  "RunSchedule E tgt t0 t1 i request x =
     map_option (\<lambda>(x', result, err). (x', cloneScheduleRunResult result, err)) (runOnce E tgt t0 t1 i request x)"

text \<open>A trigger that does not wait starts a run in the background (\<open>True\<close>) and answers at once.\<close>

definition TriggerSchedule :: "('f, 'cr, 'sp) sched_env \<Rightarrow> 'w target \<Rightarrow> int \<Rightarrow> int \<Rightarrow> string \<Rightarrow> ScheduleTriggerRequest option
    \<Rightarrow> 'w \<times> ('f, 'cr) Scheduler \<Rightarrow> (('w \<times> ('f, 'cr) Scheduler) \<times> bool \<times> ScheduleRunResult option \<times> go_error option) option" where
  "TriggerSchedule E tgt t0 t1 i request = (\<lambda>(w, sd).
     case se_load E (sd_folder sd) i of
       Inr (Some stored) \<Rightarrow>
         (case cloneScheduleConfiguration stored of
            Inl e \<Rightarrow> Some ((w, sd), False, None, Some e)
          | Inr s \<Rightarrow>
              if \<not> sc_TriggerEnabled s then Some ((w, sd), False, None, Some (ErrText ''schedule trigger is disabled''))
              else let wait = (case request of None \<Rightarrow> sc_TriggerWait s | Some r \<Rightarrow> or_default (tr_Wait r) (sc_TriggerWait s)) in
                   if \<not> wait then Some ((w, sd), True, Some ((empty_result i)\<lparr>rr_Status := ''running''\<rparr>), None)
                   else map_option (\<lambda>(x, result, err). (x, False, result, err)) (RunSchedule E tgt t0 t1 i request (w, sd)))
     | _ \<Rightarrow> Some ((w, sd), False, None, Some ErrJourneyNotFound))"

subsection \<open>Access to the results\<close>

fun find_schedule :: "string \<Rightarrow> string \<Rightarrow> ScheduleConfiguration option list \<Rightarrow> ScheduleConfiguration option" where
  "find_schedule realm name [] = None"
| "find_schedule realm name (None # rest) = find_schedule realm name rest"
| "find_schedule realm name (Some s # rest) =
     (if sc_Realm s = realm \<and> sc_Name s = name then Some s else find_schedule realm name rest)"

definition scheduleByName :: "('f, 'cr, 'sp) sched_env \<Rightarrow> string \<Rightarrow> string \<Rightarrow> ('f, 'cr) Scheduler \<Rightarrow> ScheduleConfiguration res" where
  "scheduleByName E realm name0 sd =
     (let name = TrimSpace name0 in
      if name = '''' then Inl (ErrText ''schedule name is required'')
      else (case find_schedule realm name (se_list E (sd_folder sd)) of
              None \<Rightarrow> Inl ErrJourneyNotFound | Some s \<Rightarrow> Inr s))"

text \<open>\<open>runningID\<close> is the schedule in whose run the caller is, from the context.\<close>

definition refresh :: "('f, 'cr, 'sp) sched_env \<Rightarrow> 'w target \<Rightarrow> int \<Rightarrow> int \<Rightarrow> string option \<Rightarrow> ScheduleConfiguration
    \<Rightarrow> 'w \<times> ('f, 'cr) Scheduler \<Rightarrow> (('w \<times> ('f, 'cr) Scheduler) \<times> gval res) option" where
  "refresh E tgt t0 t1 runningID s x =
     (let i = or_default (sc_ID s) '''' in
      if or_default runningID '''' = i then Some (x, Inl (ErrText ''a schedule cannot refresh its own cached result''))
      else if scheduleCompleted s then Some (x, Inl (ErrText ''schedule has completed its maximum runs''))
      else (case TriggerSchedule E tgt t0 t1 i (Some \<lparr>tr_Wait = Some True, tr_Args = [], tr_InitialData = []\<rparr>) x of
              None \<Rightarrow> None
            | Some (x', _, result, Some e) \<Rightarrow> Some (x', Inl e)
            | Some (x', _, None, None) \<Rightarrow> Some (x', Inl (ErrText ''schedule refresh did not succeed''))
            | Some (x', _, Some r, None) \<Rightarrow>
                Some (x', if rr_Status r \<noteq> ''succeeded''
                          then Inl (ErrText (if rr_Error r \<noteq> '''' then rr_Error r else ''schedule refresh did not succeed''))
                          else if \<not> rr_HasValue r then Inl ErrScheduleNoResult
                          else cloneScheduleValue (rr_Value r))))"

definition GetScheduled :: "('f, 'cr, 'sp) sched_env \<Rightarrow> 'w target \<Rightarrow> int \<Rightarrow> int \<Rightarrow> string option \<Rightarrow> string \<Rightarrow> string \<Rightarrow> ScheduleCacheOptions
    \<Rightarrow> 'w \<times> ('f, 'cr) Scheduler \<Rightarrow> (('w \<times> ('f, 'cr) Scheduler) \<times> gval res) option" where
  "GetScheduled E tgt t0 t1 runningID realm name options x =
     (case scheduleByName E realm name (snd x) of
        Inl e \<Rightarrow> Some (x, Inl e)
      | Inr s \<Rightarrow>
          let i = or_default (sc_ID s) '''' in
          (case results_get (sc_Realm s) i (co_MaxAgeSeconds options) t0 (sd_results (snd x)) of
             Some v \<Rightarrow> Some (x, Inr v)
           | None \<Rightarrow>
               let stale = results_get (sc_Realm s) i 0 t0 (sd_results (snd x)) in
               (case refresh E tgt t0 t1 runningID s x of
                  None \<Rightarrow> None
                | Some (x', Inl e) \<Rightarrow>
                    (case stale of
                       Some v \<Rightarrow> Some (x', if co_StaleIfError options then Inr v else Inl e)
                     | None \<Rightarrow> Some (x', Inl e))
                | Some (x', Inr v) \<Rightarrow> Some (x', Inr v))))"

definition RefreshScheduled :: "('f, 'cr, 'sp) sched_env \<Rightarrow> 'w target \<Rightarrow> int \<Rightarrow> int \<Rightarrow> string option \<Rightarrow> string \<Rightarrow> string
    \<Rightarrow> 'w \<times> ('f, 'cr) Scheduler \<Rightarrow> (('w \<times> ('f, 'cr) Scheduler) \<times> gval res) option" where
  "RefreshScheduled E tgt t0 t1 runningID realm name x =
     (case scheduleByName E realm name (snd x) of
        Inl e \<Rightarrow> Some (x, Inl e) | Inr s \<Rightarrow> refresh E tgt t0 t1 runningID s x)"

definition ClearScheduled :: "('f, 'cr, 'sp) sched_env \<Rightarrow> string \<Rightarrow> string \<Rightarrow> ('f, 'cr) Scheduler \<Rightarrow> ('f, 'cr) Scheduler \<times> go_error option" where
  "ClearScheduled E realm name sd =
     (case scheduleByName E realm name sd of
        Inl e \<Rightarrow> (sd, Some e)
      | Inr s \<Rightarrow> (sd\<lparr>sd_results := results_clear (sc_Realm s) (or_default (sc_ID s) '''') (sd_results sd)\<rparr>, None))"

subsection \<open>Coordination of concurrent runs\<close>

text \<open>Calls are numbered as they are allocated; \<open>fl_done\<close> holds the outcome of a closed call.\<close>

record flights =
  fl_running :: "nat gomap"
  fl_done :: "nat \<Rightarrow> (ScheduleRunResult option \<times> go_error option) option"
  fl_next :: nat

definition beginRun :: "string \<Rightarrow> flights \<Rightarrow> flights \<times> nat \<times> bool" where
  "beginRun i fl =
     (case gm_get (fl_running fl) i of
        Some call \<Rightarrow> (fl, call, False)
      | None \<Rightarrow> (fl\<lparr>fl_running := gm_put i (fl_next fl) (fl_running fl), fl_next := Suc (fl_next fl)\<rparr>, fl_next fl, True))"

definition endRun :: "string \<Rightarrow> nat \<Rightarrow> ScheduleRunResult option \<Rightarrow> go_error option \<Rightarrow> flights \<Rightarrow> flights" where
  "endRun i call result err fl =
     fl\<lparr>fl_done := (fl_done fl)(call := Some (cloneScheduleRunResult result, err)),
        fl_running := (if gm_get (fl_running fl) i = Some call then gm_del i (fl_running fl) else fl_running fl)\<rparr>"

datatype runner =
    Idle
  | Leading string nat
  | Waiting string nat
  | Returned "ScheduleRunResult option" "go_error option"

text \<open>The callers of \<open>Run\<close>, each at one of its blocking points; a leader finishes with whatever \<open>runOnce\<close>
  returned.\<close>

inductive run_step :: "flights \<times> (nat \<Rightarrow> runner) \<Rightarrow> flights \<times> (nat \<Rightarrow> runner) \<Rightarrow> bool" where
  lead: "thr t = Idle \<Longrightarrow> beginRun i fl = (fl', call, True) \<Longrightarrow> run_step (fl, thr) (fl', thr(t := Leading i call))"
| follow: "thr t = Idle \<Longrightarrow> beginRun i fl = (fl', call, False) \<Longrightarrow> run_step (fl, thr) (fl', thr(t := Waiting i call))"
| finish: "thr t = Leading i call \<Longrightarrow>
    run_step (fl, thr) (endRun i call result err fl, thr(t := Returned (cloneScheduleRunResult result) err))"
| wake: "thr t = Waiting i call \<Longrightarrow> fl_done fl call = Some (result, err) \<Longrightarrow>
    run_step (fl, thr) (fl, thr(t := Returned (cloneScheduleRunResult result) err))"
| cancelled: "thr t = Waiting i call \<Longrightarrow> run_step (fl, thr) (fl, thr(t := Returned None (Some err)))"

definition no_flights :: "flights \<times> (nat \<Rightarrow> runner)" where
  "no_flights = (\<lparr>fl_running = [], fl_done = (\<lambda>_. None), fl_next = 0\<rparr>, \<lambda>_. Idle)"

definition flights_ok :: "flights \<times> (nat \<Rightarrow> runner) \<Rightarrow> bool" where
  "flights_ok = (\<lambda>(fl, thr).
     (\<forall>i call. gm_get (fl_running fl) i = Some call \<longleftrightarrow> (\<exists>t. thr t = Leading i call)) \<and>
     (\<forall>t t' i i' call call'. thr t = Leading i call \<longrightarrow> thr t' = Leading i' call' \<longrightarrow> i = i' \<or> call = call' \<longrightarrow> t = t') \<and>
     (\<forall>t i call. thr t = Leading i call \<longrightarrow> call < fl_next fl \<and> fl_done fl call = None) \<and>
     (\<forall>t i call. thr t = Waiting i call \<longrightarrow> fl_done fl call \<noteq> None \<or> gm_get (fl_running fl) i = Some call) \<and>
     (\<forall>call. fl_next fl \<le> call \<longrightarrow> fl_done fl call = None))"

end
