(* ===== verification/SchedulerFacts.thy ===== *)
theory SchedulerFacts
  imports Scheduler
begin

text \<open>
  Properties of the scheduler: one run of a schedule at a time with a shared outcome, the
  bookkeeping of a run, the times of interval schedules, the age of cached results and the
  interval loops.
\<close>

subsection \<open>Single flight\<close>

inductive_cases run_stepE: "run_step x y"

lemma begin_leads:
  assumes "beginRun i fl = (fl', call, True)"
  shows "gm_get (fl_running fl) i = None \<and> call = fl_next fl \<and> fl_done fl' = fl_done fl \<and> fl_next fl' = Suc (fl_next fl) \<and>
    (\<forall>j. gm_get (fl_running fl') j = (if j = i then Some call else gm_get (fl_running fl) j))"
  using assms by (auto simp: beginRun_def split: option.splits)

lemma begin_follows:
  assumes "beginRun i fl = (fl', call, False)"
  shows "fl' = fl \<and> gm_get (fl_running fl) i = Some call"
  using assms by (auto simp: beginRun_def split: option.splits)

lemma flights_okD:
  assumes "flights_ok (fl, thr)"
  shows "gm_get (fl_running fl) i = Some call \<longleftrightarrow> (\<exists>t. thr t = Leading i call)"
    and "thr t = Leading i call \<Longrightarrow> thr t' = Leading i' call' \<Longrightarrow> i = i' \<or> call = call' \<Longrightarrow> t = t'"
    and "thr t = Leading i call \<Longrightarrow> call < fl_next fl \<and> fl_done fl call = None"
    and "thr t = Waiting i call \<Longrightarrow> fl_done fl call \<noteq> None \<or> gm_get (fl_running fl) i = Some call"
    and "fl_next fl \<le> call \<Longrightarrow> fl_done fl call = None"
  using assms unfolding flights_ok_def split by blast+

lemma flights_lead:
  assumes ok: "flights_ok (fl, thr)" and idle: "thr t = Idle" and b: "beginRun i fl = (fl', call, True)"
  shows "flights_ok (fl', thr(t := Leading i call))"
proof -
  note B = begin_leads [OF b]
  have fresh: "thr u \<noteq> Leading j call" "thr u \<noteq> Leading i c" for u j c
    using flights_okD(3) [OF ok, of u j call] flights_okD(1) [OF ok, of i c] B by auto
  show ?thesis
    unfolding flights_ok_def split
  proof (intro conjI allI impI)
    fix j c
    show "gm_get (fl_running fl') j = Some c \<longleftrightarrow> (\<exists>u. (thr(t := Leading i call)) u = Leading j c)"
    proof (cases "j = i")
      case True
      then show ?thesis using B fresh(2) by (auto split: if_splits)
    next
      case False
      then have "gm_get (fl_running fl') j = Some c \<longleftrightarrow> (\<exists>u. thr u = Leading j c)"
        using B flights_okD(1) [OF ok, of j c] by simp
      then show ?thesis using False idle by auto (metis runner.distinct(1))
    qed
  next
    fix u u' j j' c c'
    assume "(thr(t := Leading i call)) u = Leading j c" "(thr(t := Leading i call)) u' = Leading j' c'" "j = j' \<or> c = c'"
    then show "u = u'"
      using flights_okD(2) [OF ok, of u j c u' j' c'] fresh by (auto split: if_splits)
  next
    fix u j c
    assume "(thr(t := Leading i call)) u = Leading j c"
    then show "c < fl_next fl'" "fl_done fl' c = None"
      using flights_okD(3) [OF ok, of u j c] flights_okD(5) [OF ok, of c] B by (auto split: if_splits)
  next
    fix u j c
    assume "(thr(t := Leading i call)) u = Waiting j c"
    then have w: "thr u = Waiting j c" by (auto split: if_splits)
    then show "fl_done fl' c \<noteq> None \<or> gm_get (fl_running fl') j = Some c"
      using flights_okD(4) [OF ok w] B by (cases "j = i") auto
  next
    fix c assume "fl_next fl' \<le> c"
    then show "fl_done fl' c = None" using flights_okD(5) [OF ok, of c] B by auto
  qed
qed

lemma flights_finish:
  assumes ok: "flights_ok (fl, thr)" and l: "thr t = Leading i call"
  shows "flights_ok (endRun i call result err fl, thr(t := Returned r e))"
proof -
  have run: "gm_get (fl_running fl) i = Some call" using flights_okD(1) [OF ok] l by auto
  have D: "fl_done (endRun i call result err fl) = (fl_done fl)(call := Some (cloneScheduleRunResult result, err))"
    "fl_next (endRun i call result err fl) = fl_next fl"
    "gm_get (fl_running (endRun i call result err fl)) j = (if j = i then None else gm_get (fl_running fl) j)" for j
    using run by (simp_all add: endRun_def)
  have only: "thr u = Leading j c \<Longrightarrow> j = i \<or> c = call \<Longrightarrow> u = t" for u j c
    using flights_okD(2) [OF ok _ l] by blast
  show ?thesis
    unfolding flights_ok_def split D
  proof (intro conjI allI impI)
    fix j c
    show "(if j = i then None else gm_get (fl_running fl) j) = Some c \<longleftrightarrow> (\<exists>u. (thr(t := Returned r e)) u = Leading j c)"
    proof (cases "j = i")
      case True
      then show ?thesis using only by auto
    next
      case False
      then have "gm_get (fl_running fl) j = Some c \<longleftrightarrow> (\<exists>u. thr u = Leading j c)"
        using flights_okD(1) [OF ok] by simp
      then show ?thesis using False l by auto (metis runner.inject(1))
    qed
  next
    fix u u' j j' c c'
    assume "(thr(t := Returned r e)) u = Leading j c" "(thr(t := Returned r e)) u' = Leading j' c'" "j = j' \<or> c = c'"
    then show "u = u'" using flights_okD(2) [OF ok, of u j c u' j' c'] by (auto split: if_splits)
  next
    fix u j c
    assume "(thr(t := Returned r e)) u = Leading j c"
    then have u: "thr u = Leading j c" "u \<noteq> t" by (auto split: if_splits)
    then show "c < fl_next fl" using flights_okD(3) [OF ok] by auto
    show "((fl_done fl)(call := Some (cloneScheduleRunResult result, err))) c = None"
      using flights_okD(3) [OF ok u(1)] u only by auto
  next
    fix u j c
    assume "(thr(t := Returned r e)) u = Waiting j c"
    then have "thr u = Waiting j c" by (auto split: if_splits)
    then have w: "fl_done fl c \<noteq> None \<or> gm_get (fl_running fl) j = Some c" by (rule flights_okD(4) [OF ok])
    show "((fl_done fl)(call := Some (cloneScheduleRunResult result, err))) c \<noteq> None \<or>
        (if j = i then None else gm_get (fl_running fl) j) = Some c"
      using w run by (cases "j = i") auto
  next
    fix c assume "fl_next fl \<le> c"
    moreover have "call < fl_next fl" using flights_okD(3) [OF ok l] by simp
    ultimately show "((fl_done fl)(call := Some (cloneScheduleRunResult result, err))) c = None"
      using flights_okD(5) [OF ok] by auto
  qed
qed

lemma flights_other:
  assumes ok: "flights_ok (fl, thr)" and "\<And>i c. thr t \<noteq> Leading i c"
    and "\<And>i c. r \<noteq> Leading i c" and "\<And>i c. r = Waiting i c \<Longrightarrow> gm_get (fl_running fl) i = Some c"
  shows "flights_ok (fl, thr(t := r))"
proof -
  have L: "(thr(t := r)) u = Leading i c \<longleftrightarrow> thr u = Leading i c" for u i c
    using assms(2,3) by simp
  have W: "fl_done fl c \<noteq> None \<or> gm_get (fl_running fl) i = Some c" if "(thr(t := r)) u = Waiting i c" for u i c
    using that assms(4) flights_okD(4) [OF ok, of u i c] by (cases "u = t") auto
  show ?thesis unfolding flights_ok_def split L
    using W flights_okD(1,2,3,5) [OF ok] by blast
qed

lemma run_step_ok: "run_step x y \<Longrightarrow> flights_ok x \<Longrightarrow> flights_ok y"
proof (induction rule: run_step.induct)
  case (lead thr t i fl fl' call)
  then show ?case by (simp add: flights_lead)
next
  case (follow thr t i fl fl' call)
  then show ?case using begin_follows [OF follow(2)] by (auto intro: flights_other)
next
  case (finish thr t i call fl result err)
  then show ?case by (simp add: flights_finish)
qed (auto intro: flights_other)

lemma flights_reachable: "run_step\<^sup>*\<^sup>* no_flights x \<Longrightarrow> flights_ok x"
proof (induction rule: rtranclp_induct)
  case base
  then show ?case by (simp add: flights_ok_def no_flights_def)
qed (rule run_step_ok)

subsection \<open>The bookkeeping of a run\<close>

text \<open>What is relied on of the folder: a saved schedule is loaded back, the others are untouched.\<close>

definition folder_laws :: "('f, 'cr, 'sp) sched_env \<Rightarrow> bool" where
  "folder_laws E \<longleftrightarrow>
     (\<forall>s f f' i. se_save E s f = (f', None) \<longrightarrow> sc_ID s = Some i \<longrightarrow> se_load E f' i = Inr (Some s)) \<and>
     (\<forall>s f f' r i j. se_save E s f = (f', r) \<longrightarrow> sc_ID s = Some i \<longrightarrow> j \<noteq> i \<longrightarrow> se_load E f' j = se_load E f j)"

abbreviation normalized :: "ScheduleConfiguration \<Rightarrow> ScheduleConfiguration" where
  "normalized s \<equiv> s\<lparr>sc_Target := (sc_Target s)\<lparr>tg_Type := normalizeScheduleTargetType (tg_Type (sc_Target s))\<rparr>\<rparr>"

lemma normalize_idem [simp]: "normalizeScheduleTargetType (normalizeScheduleTargetType v) = normalizeScheduleTargetType v"
proof -
  have "normalizeScheduleTargetType WorkflowJourney = WorkflowJourney"
    by (simp add: normalizeScheduleTargetType_def WorkflowJourney_def ToLower_def TrimSpace_def trim_by_def lower_char_def is_space_def)
  then show ?thesis by (auto simp: normalizeScheduleTargetType_def split: if_splits)
qed

text \<open>Validation looks at the plan of a schedule only, not at the record of its runs.\<close>

definition same_plan :: "ScheduleConfiguration \<Rightarrow> ScheduleConfiguration \<Rightarrow> bool" where
  "same_plan x y \<longleftrightarrow> sc_Name x = sc_Name y \<and> sc_Kind x = sc_Kind y \<and> sc_Cron x = sc_Cron y \<and> sc_Timezone x = sc_Timezone y \<and>
     sc_IntervalSeconds x = sc_IntervalSeconds y \<and> sc_MaxRuns x = sc_MaxRuns y \<and> sc_StartAt x = sc_StartAt y \<and>
     sc_TimeoutSeconds x = sc_TimeoutSeconds y \<and> sc_Target (normalized x) = sc_Target (normalized y)"

lemma Validate_ok:
  "snd (ValidateScheduleConfiguration E s) = None \<longleftrightarrow>
     TrimSpace (sc_Name s) \<noteq> '''' \<and> kind_error E s = None \<and> 0 \<le> sc_MaxRuns s \<and> 0 \<le> sc_StartAt s \<and> 0 \<le> sc_TimeoutSeconds s \<and>
     target_error (sc_Target (normalized s)) = None"
  by (auto simp: ValidateScheduleConfiguration_def Let_def split: option.splits)

lemma Validate_value:
  "snd (ValidateScheduleConfiguration E s) = None \<Longrightarrow> sc_Status s \<noteq> '''' \<Longrightarrow> ValidateScheduleConfiguration E s = (normalized s, None)"
  by (auto simp: ValidateScheduleConfiguration_def Let_def split: option.splits if_splits)

lemma Validate_same_plan:
  assumes "snd (ValidateScheduleConfiguration E c) = None" and "same_plan x c"
  shows "snd (ValidateScheduleConfiguration E x) = None"
proof -
  have "kind_error E x = kind_error E c"
    using assms(2) by (simp add: kind_error_def scheduleCronSpec_def same_plan_def)
  then show ?thesis using assms unfolding Validate_ok same_plan_def by simp
qed

lemma save_folder_ok:
  assumes "snd (ValidateScheduleConfiguration E c) = None" and "same_plan x c" and "sc_Status x \<noteq> ''''"
    and "\<And>s f. snd (se_save E s f) = None"
  shows "save_folder E x sd = (sd\<lparr>sd_folder := fst (se_save E (normalized x) (sd_folder sd))\<rparr>, normalized x, None)"
proof -
  have "ValidateScheduleConfiguration E x = (normalized x, None)"
    using Validate_value [OF Validate_same_plan [OF assms(1,2)] assms(3)] .
  moreover obtain f r where r: "se_save E (normalized x) (sd_folder sd) = (f, r)" by fastforce
  moreover have "r = None" using assms(4) [of "normalized x" "sd_folder sd"] r by simp
  ultimately show ?thesis by (simp add: save_folder_def SaveSchedule_def)
qed

lemma Unschedule_gone:
  "i \<noteq> '''' \<Longrightarrow> gm_get (sd_cronJobs (Unschedule E i sd)) i = None \<and> gm_get (sd_intervals (Unschedule E i sd)) i = None"
  by (auto simp: Unschedule_def Let_def split: option.splits)

lemma Unschedule_frame [simp]:
  "sd_folder (Unschedule E i sd) = sd_folder sd" "sd_results (Unschedule E i sd) = sd_results sd"
  by (auto simp: Unschedule_def Let_def split: option.splits)

definition run_error :: "(gval \<times> bool) res \<Rightarrow> go_error option" where
  "run_error r = (case r of Inl e \<Rightarrow> Some e
     | Inr (v, has) \<Rightarrow> if has \<and> \<not> json_ok v then Some (ErrWrap ''cache schedule result'' (ErrText ''json: unsupported value'')) else None)"


lemma settle_facts:
  "same_plan (settle s) c = same_plan s c" "sc_ID (settle s) = sc_ID s" "sc_Running (settle s) = sc_Running s"
  "sc_RunCount (settle s) = sc_RunCount s" "sc_LastError (settle s) = sc_LastError s" "sc_Realm (settle s) = sc_Realm s"
  "scheduleCompleted (settle s) = scheduleCompleted s"
  "sc_Active (settle s) \<longleftrightarrow> sc_Active s \<and> \<not> scheduleCompleted s" "sc_Status s \<noteq> '''' \<Longrightarrow> sc_Status (settle s) \<noteq> ''''"
  by (simp_all add: settle_def same_plan_def scheduleCompleted_def)

lemma after_target_facts:
  assumes "after_target E t1 s r0 err = (s', r')"
  shows "same_plan s c \<Longrightarrow> same_plan s' c" "sc_ID s' = sc_ID s" "sc_Status s' \<noteq> ''''" "\<not> sc_Running s'"
    "sc_RunCount s' = wrap64 (sc_RunCount s + 1)"
    "sc_LastError s' = (case err of None \<Rightarrow> sc_LastError s | Some e \<Rightarrow> error_text e)"
    "sc_Active s' \<longleftrightarrow> sc_Active s \<and> \<not> scheduleCompleted s'" "sc_Realm s' = sc_Realm s"
    "rr_RunCount r' = sc_RunCount s'" "rr_Status r' = (if err = None then ''succeeded'' else ''failed'')"
    "rr_Value r' = rr_Value r0" "rr_HasValue r' = rr_HasValue r0"
proof -
  let ?s1 = "s\<lparr>sc_Running := False, sc_RunCount := wrap64 (sc_RunCount s + 1), sc_Status := (if err = None then ''succeeded'' else ''failed''),
     sc_LastError := (if err = None then sc_LastError s else case err of None \<Rightarrow> '''' | Some e \<Rightarrow> error_text e)\<rparr>"
  define n where "n = next_run_at E t1 ?s1"
  have s': "s' = settle (?s1\<lparr>sc_NextRunAt := n\<rparr>)"
    and r': "r' = r0\<lparr>rr_RunCount := wrap64 (sc_RunCount s + 1), rr_Status := (if err = None then ''succeeded'' else ''failed''),
        rr_Error := (case err of None \<Rightarrow> '''' | Some e \<Rightarrow> error_text e)\<rparr>"
    using assms by (simp_all add: after_target_def Let_def n_def)
  show "same_plan s c \<Longrightarrow> same_plan s' c" "sc_ID s' = sc_ID s" "\<not> sc_Running s'"
    "sc_RunCount s' = wrap64 (sc_RunCount s + 1)" "sc_Active s' \<longleftrightarrow> sc_Active s \<and> \<not> scheduleCompleted s'" "sc_Realm s' = sc_Realm s"
    unfolding s' settle_facts by (simp_all add: same_plan_def)
  show "sc_LastError s' = (case err of None \<Rightarrow> sc_LastError s | Some e \<Rightarrow> error_text e)"
    unfolding s' settle_facts by (simp split: option.splits)
  show "sc_Status s' \<noteq> ''''" unfolding s' by (rule settle_facts(9)) simp
  show "rr_RunCount r' = sc_RunCount s'" unfolding s' settle_facts r' by simp
  show "rr_Status r' = (if err = None then ''succeeded'' else ''failed'')" "rr_Value r' = rr_Value r0" "rr_HasValue r' = rr_HasValue r0"
    unfolding r' by simp_all
qed


lemma is_panic_None: "(\<And>m. e \<noteq> GoPanic m) \<Longrightarrow> is_panic e = None"
  by (cases e) (auto simp: is_panic_def)

lemma is_panic_GoPanic [simp]: "is_panic (GoPanic m) = Some m"
  by (simp add: is_panic_def)

text \<open>The rest of a run, when the target did not panic and the folder accepts saves.\<close>

lemma finish_run_facts:
  assumes np: "\<And>m. r \<noteq> Inl (GoPanic m)" and laws: "folder_laws E" and acc: "\<And>s f. snd (se_save E s f) = None"
    and val: "snd (ValidateScheduleConfiguration E c) = None" and plan: "same_plan s c" and i: "sc_ID s = Some i" "i \<noteq> ''''"
  shows "\<exists>sd' result s'. finish_run E t0 t1 i s r sd = (sd', Some result, run_error r) \<and>
    se_load E (sd_folder sd') i = Inr (Some s') \<and> same_plan s' c \<and> sc_ID s' = Some i \<and> sc_Realm s' = sc_Realm s \<and> \<not> sc_Running s' \<and>
    sc_RunCount s' = wrap64 (sc_RunCount s + 1) \<and> (sc_Active s' \<longleftrightarrow> sc_Active s \<and> \<not> scheduleCompleted s') \<and>
    sc_LastError s' = (case run_error r of None \<Rightarrow> sc_LastError s | Some e \<Rightarrow> error_text e) \<and>
    rr_RunCount result = sc_RunCount s' \<and> rr_Status result = (if run_error r = None then ''succeeded'' else ''failed'') \<and>
    (\<not> sc_Active s' \<longrightarrow> gm_get (sd_cronJobs sd') i = None \<and> gm_get (sd_intervals sd') i = None) \<and>
    sd_results sd' = (case r of Inr (v, True) \<Rightarrow> fst (results_set (sc_Realm s) i v t1 (sd_results sd)) | _ \<Rightarrow> sd_results sd)"
proof -
  define rs where "rs = (case r of Inr (v, True) \<Rightarrow> fst (results_set (sc_Realm s) i v t1 (sd_results sd)) | _ \<Rightarrow> sd_results sd)"
  define r1 where "r1 = (empty_result i)\<lparr>rr_Status := ''running'', rr_StartedAt := to_unix t0, rr_FinishedAt := to_unix t1,
     rr_Value := (case r of Inl _ \<Rightarrow> GNil | Inr p \<Rightarrow> fst p), rr_HasValue := (case r of Inl _ \<Rightarrow> False | Inr p \<Rightarrow> snd p)\<rparr>"
  obtain s1 r2 where a: "after_target E t1 s r1 (run_error r) = (s1, r2)" by fastforce
  note A = after_target_facts [OF a]
  let ?sd1 = "sd\<lparr>sd_results := rs, sd_folder := fst (se_save E (normalized s1) (sd_folder sd))\<rparr>"
  let ?sd2 = "if sc_Active s1 then ?sd1 else Unschedule E i ?sd1"
  have sv: "save_folder E s1 (sd\<lparr>sd_results := rs\<rparr>) = (?sd1, normalized s1, None)"
    using save_folder_ok [OF val A(1) [OF plan] A(3) acc, of "sd\<lparr>sd_results := rs\<rparr>"] by simp
  have f: "finish_run E t0 t1 i s r sd = (?sd2, Some r2, run_error r)"
  proof (cases r)
    case (Inl e)
    then have re: "run_error r = Some e" and rs': "rs = sd_results sd" by (simp_all add: run_error_def rs_def)
    have "after_target E t1 s ((empty_result i)\<lparr>rr_Status := ''running'', rr_StartedAt := to_unix t0, rr_FinishedAt := to_unix t1,
        rr_Value := GNil, rr_HasValue := False\<rparr>) (Some e) = (s1, r2)"
      using a re Inl by (simp add: r1_def)
    moreover have "is_panic e = None" using np Inl by (intro is_panic_None) auto
    ultimately show ?thesis
      using Inl sv rs' re unfolding finish_run_def by simp
  next
    case (Inr p)
    obtain v has where p: "p = (v, has)" by fastforce
    show ?thesis
    proof (cases has)
      case True
      have c: "results_set (sc_Realm s) i v t1 (sd_results sd) = (rs, if json_ok v then None else Some (ErrText ''json: unsupported value''))"
        using Inr p True by (auto simp: rs_def results_set_def json_copy_def split: if_splits)
      show ?thesis
        using a sv c Inr p True unfolding finish_run_def r1_def run_error_def by (cases "json_ok v") simp_all
    next
      case False
      then have "rs = sd_results sd" using Inr p by (simp add: rs_def)
      then show ?thesis using a sv Inr p False unfolding finish_run_def r1_def run_error_def by simp
    qed
  qed
  have "se_load E (sd_folder ?sd2) i = Inr (Some (normalized s1))"
  proof -
    obtain f' q where q: "se_save E (normalized s1) (sd_folder sd) = (f', q)" by fastforce
    then have "q = None" using acc [of "normalized s1" "sd_folder sd"] by simp
    then show ?thesis using q laws A(2) i(1) by (auto simp: folder_laws_def)
  qed
  moreover have "same_plan (normalized s1) c" using A(1) [OF plan] by (simp add: same_plan_def)
  moreover have "scheduleCompleted (normalized s1) = scheduleCompleted s1" by (simp add: scheduleCompleted_def)
  moreover have "\<not> sc_Active s1 \<longrightarrow> gm_get (sd_cronJobs ?sd2) i = None \<and> gm_get (sd_intervals ?sd2) i = None"
    by (simp add: Unschedule_gone [OF i(2)])
  moreover have "sd_results ?sd2 = rs" by simp
  ultimately obtain sd2 s' where *: "finish_run E t0 t1 i s r sd = (sd2, Some r2, run_error r)" "se_load E (sd_folder sd2) i = Inr (Some s')"
      "same_plan s' c" "\<not> sc_Active s' \<longrightarrow> gm_get (sd_cronJobs sd2) i = None \<and> gm_get (sd_intervals sd2) i = None"
      "sd_results sd2 = rs" "scheduleCompleted s' = scheduleCompleted s1" and s': "s' = normalized s1"
    using f by fastforce
  have "sc_ID s' = Some i" "sc_Realm s' = sc_Realm s" "\<not> sc_Running s'" "sc_RunCount s' = wrap64 (sc_RunCount s + 1)"
    "sc_Active s' \<longleftrightarrow> sc_Active s \<and> \<not> scheduleCompleted s'"
    "sc_LastError s' = (case run_error r of None \<Rightarrow> sc_LastError s | Some e \<Rightarrow> error_text e)"
    "rr_RunCount r2 = sc_RunCount s'" "rr_Status r2 = (if run_error r = None then ''succeeded'' else ''failed'')"
    using A i(1) *(6) by (simp_all add: s')
  with * show ?thesis unfolding rs_def [symmetric] by blast
qed

text \<open>A schedule as it lies in the folder: JSON data that passes validation.\<close>

definition stored_ok :: "('f, 'cr, 'sp) sched_env \<Rightarrow> string \<Rightarrow> ScheduleConfiguration \<Rightarrow> bool" where
  "stored_ok E i s \<longleftrightarrow> cloneScheduleConfiguration s = Inr s \<and> snd (ValidateScheduleConfiguration E s) = None \<and>
     sc_ID s = Some i \<and> i \<noteq> ''''"

lemma same_plan_fields: "same_plan x y \<Longrightarrow> tg_Args (sc_Target x) = tg_Args (sc_Target y) \<and>
    tg_InitialData (sc_Target x) = tg_InitialData (sc_Target y) \<and> sc_MaxRuns x = sc_MaxRuns y"
proof -
  assume p: "same_plan x y"
  then have "sc_Target (normalized x) = sc_Target (normalized y)" unfolding same_plan_def by (elim conjE)
  then have "tg_Args (sc_Target (normalized x)) = tg_Args (sc_Target (normalized y))"
    "tg_InitialData (sc_Target (normalized x)) = tg_InitialData (sc_Target (normalized y))" by (rule arg_cong)+
  moreover have "sc_MaxRuns x = sc_MaxRuns y" using p unfolding same_plan_def by (elim conjE)
  ultimately show ?thesis by simp
qed

lemma clone_fixed: "cloneScheduleConfiguration s = Inr s \<longleftrightarrow>
    json_ok (GObj (tg_Args (sc_Target s))) \<and> json_ok (GObj (tg_InitialData (sc_Target s))) \<and>
    json_map (tg_Args (sc_Target s)) = tg_Args (sc_Target s) \<and> json_map (tg_InitialData (sc_Target s)) = tg_InitialData (sc_Target s)"
proof -
  have "s\<lparr>sc_Target := (sc_Target s)\<lparr>tg_Args := a, tg_InitialData := b\<rparr>\<rparr> = s \<longleftrightarrow>
      a = tg_Args (sc_Target s) \<and> b = tg_InitialData (sc_Target s)" for a b
  proof
    assume "s\<lparr>sc_Target := (sc_Target s)\<lparr>tg_Args := a, tg_InitialData := b\<rparr>\<rparr> = s"
    then have "sc_Target (s\<lparr>sc_Target := (sc_Target s)\<lparr>tg_Args := a, tg_InitialData := b\<rparr>\<rparr>) = sc_Target s" by (rule arg_cong)
    then have "tg_Args ((sc_Target s)\<lparr>tg_Args := a, tg_InitialData := b\<rparr>) = tg_Args (sc_Target s)"
      "tg_InitialData ((sc_Target s)\<lparr>tg_Args := a, tg_InitialData := b\<rparr>) = tg_InitialData (sc_Target s)" by simp_all
    then show "a = tg_Args (sc_Target s) \<and> b = tg_InitialData (sc_Target s)" by simp
  qed simp
  then show ?thesis unfolding cloneScheduleConfiguration_def Let_def by auto
qed

lemma stored_ok_same_plan: "stored_ok E i s \<Longrightarrow> same_plan s' s \<Longrightarrow> sc_ID s' = Some i \<Longrightarrow> stored_ok E i s'"
  using same_plan_fields [of s' s] Validate_same_plan [of E s s'] unfolding stored_ok_def clone_fixed by simp

lemma runOnce_facts:
  assumes laws: "folder_laws E" and acc: "\<And>s f. snd (se_save E s f) = None"
    and ld: "se_load E (sd_folder sd) i = Inr (Some s)" and st: "stored_ok E i s" and nc: "\<not> scheduleCompleted s"
    and tgt: "\<And>s1. tgt s1 request (sd_results sd) t0 w = Some (w', r)" and np: "\<And>m. r \<noteq> Inl (GoPanic m)"
  shows "\<exists>sd' result s'. runOnce E tgt t0 t1 i request (w, sd) = Some ((w', sd'), Some result, run_error r) \<and>
    se_load E (sd_folder sd') i = Inr (Some s') \<and> stored_ok E i s' \<and> same_plan s' s \<and> \<not> sc_Running s' \<and>
    sc_RunCount s' = wrap64 (sc_RunCount s + 1) \<and> (sc_Active s' \<longleftrightarrow> sc_Active s \<and> \<not> scheduleCompleted s') \<and>
    sc_LastError s' = (case run_error r of None \<Rightarrow> '''' | Some e \<Rightarrow> error_text e) \<and>
    rr_RunCount result = sc_RunCount s' \<and> rr_Status result = (if run_error r = None then ''succeeded'' else ''failed'') \<and>
    (\<not> sc_Active s' \<longrightarrow> gm_get (sd_cronJobs sd') i = None \<and> gm_get (sd_intervals sd') i = None) \<and>
    sd_results sd' = (case r of Inr (v, True) \<Rightarrow> fst (results_set (sc_Realm s) i v t1 (sd_results sd)) | _ \<Rightarrow> sd_results sd)"
proof -
  have cl: "cloneScheduleConfiguration s = Inr s" and val: "snd (ValidateScheduleConfiguration E s) = None"
    and i: "sc_ID s = Some i" "i \<noteq> ''''" using st by (simp_all add: stored_ok_def)
  define s1 where "s1 = normalized (start_run t0 s)"
  have p0: "same_plan (start_run t0 s) s" and ne: "sc_Status (start_run t0 s) \<noteq> ''''" by (simp_all add: same_plan_def start_run_def)
  define sd1 where "sd1 = sd\<lparr>sd_folder := fst (se_save E s1 (sd_folder sd))\<rparr>"
  have sv: "save_folder E (start_run t0 s) sd = (sd1, s1, None)"
    using save_folder_ok [OF val p0 ne acc] by (simp add: s1_def sd1_def)
  have s1: "same_plan (normalized s1) s" "sc_ID (normalized s1) = Some i" "sc_Realm (normalized s1) = sc_Realm s"
      "sc_RunCount (normalized s1) = sc_RunCount s" "sc_Active (normalized s1) = sc_Active s" "sc_LastError (normalized s1) = ''''"
    using i by (simp_all add: s1_def same_plan_def start_run_def)
  have res: "sd_results sd1 = sd_results sd" by (simp add: sd1_def)
  have run: "runOnce E tgt t0 t1 i request (w, sd) =
      (case finish_run E t0 t1 i (normalized s1) r sd1 of (sd2, result, err) \<Rightarrow> Some ((w', sd2), result, err))"
    using ld cl nc sv tgt res unfolding runOnce_def Let_def by (simp split: prod.splits)
  from finish_run_facts [OF np laws acc val s1(1,2) i(2), of t0 t1 sd1] obtain sd' result s' where
    F: "finish_run E t0 t1 i (normalized s1) r sd1 = (sd', Some result, run_error r)"
      "se_load E (sd_folder sd') i = Inr (Some s')" "same_plan s' s" "sc_ID s' = Some i" "\<not> sc_Running s'"
      "sc_RunCount s' = wrap64 (sc_RunCount s + 1)" "sc_Active s' \<longleftrightarrow> sc_Active s \<and> \<not> scheduleCompleted s'"
      "sc_LastError s' = (case run_error r of None \<Rightarrow> '''' | Some e \<Rightarrow> error_text e)"
      "rr_RunCount result = sc_RunCount s'" "rr_Status result = (if run_error r = None then ''succeeded'' else ''failed'')"
      "\<not> sc_Active s' \<longrightarrow> gm_get (sd_cronJobs sd') i = None \<and> gm_get (sd_intervals sd') i = None"
      "sd_results sd' = (case r of Inr (v, True) \<Rightarrow> fst (results_set (sc_Realm s) i v t1 (sd_results sd)) | _ \<Rightarrow> sd_results sd)"
    unfolding s1(3-6) res by blast
  have "runOnce E tgt t0 t1 i request (w, sd) = Some ((w', sd'), Some result, run_error r)" using run F(1) by simp
  with F stored_ok_same_plan [OF st F(3,4)] show ?thesis by blast
qed

subsection \<open>Properties\<close>

text \<open>
  C30. However the callers of \<open>Run\<close> interleave, at most one of them executes a given schedule at
  a time, and a caller that waits either has a leader still running its call or can return the
  outcome the leader left.
\<close>

theorem single_flight:
  assumes "run_step\<^sup>*\<^sup>* no_flights (fl, thr)"
  shows "(thr t = Leading i call \<and> thr t' = Leading i call' \<longrightarrow> t = t' \<and> call = call') \<and>
    (thr t = Waiting i call \<longrightarrow> (\<exists>t'. thr t' = Leading i call) \<or>
       (\<exists>result err. fl_done fl call = Some (result, err) \<and>
          run_step (fl, thr) (fl, thr(t := Returned (cloneScheduleRunResult result) err))))"
proof -
  have ok: "flights_ok (fl, thr)" using assms by (rule flights_reachable)
  have "thr t = Leading i call \<and> thr t' = Leading i call' \<longrightarrow> t = t' \<and> call = call'"
    using flights_okD(2) [OF ok, of t i call t' i call'] by auto
  moreover have "(\<exists>t'. thr t' = Leading i call) \<or>
      (\<exists>result err. fl_done fl call = Some (result, err) \<and> run_step (fl, thr) (fl, thr(t := Returned (cloneScheduleRunResult result) err)))"
    if w: "thr t = Waiting i call"
    using flights_okD(1) [OF ok, of i call] flights_okD(4) [OF ok w] run_step.wake [of thr t i call fl] w
    by (cases "fl_done fl call") auto
  ultimately show ?thesis by blast
qed

text \<open>
  A run of a stored schedule whose target returns, by success or by error, is fully
  accounted for: the stored run count goes up by one, the schedule is no longer marked running,
  its last error is that of the run, it stays active exactly until its maximal number of runs
  and is then unscheduled, and the result reports the same count and the outcome.
\<close>

theorem run_accounted:
  assumes "folder_laws E" and "\<And>s f. snd (se_save E s f) = None"
    and "se_load E (sd_folder sd) i = Inr (Some s)" and "stored_ok E i s" and "\<not> scheduleCompleted s"
    and "\<And>s1. tgt s1 request (sd_results sd) t0 w = Some (w', r)" and "\<And>m. r \<noteq> Inl (GoPanic m)"
  shows "\<exists>sd' result s'. runOnce E tgt t0 t1 i request (w, sd) = Some ((w', sd'), Some result, run_error r) \<and>
    se_load E (sd_folder sd') i = Inr (Some s') \<and> \<not> sc_Running s' \<and> sc_RunCount s' = wrap64 (sc_RunCount s + 1) \<and>
    (sc_Active s' \<longleftrightarrow> sc_Active s \<and> \<not> (0 < sc_MaxRuns s \<and> sc_MaxRuns s \<le> sc_RunCount s')) \<and>
    (\<not> sc_Active s' \<longrightarrow> gm_get (sd_cronJobs sd') i = None \<and> gm_get (sd_intervals sd') i = None) \<and>
    sc_LastError s' = (case run_error r of None \<Rightarrow> '''' | Some e \<Rightarrow> error_text e) \<and>
    rr_RunCount result = sc_RunCount s' \<and> (rr_Status result = ''succeeded'' \<longleftrightarrow> run_error r = None)"
proof -
  from runOnce_facts [where tgt = tgt and request = request and w = w and w' = w' and r = r and ?t0.0 = t0 and sd = sd, OF assms]
  obtain sd' result s' where
    F: "runOnce E tgt t0 t1 i request (w, sd) = Some ((w', sd'), Some result, run_error r)"
      "se_load E (sd_folder sd') i = Inr (Some s')" "same_plan s' s" "\<not> sc_Running s'"
      "sc_RunCount s' = wrap64 (sc_RunCount s + 1)" "sc_Active s' \<longleftrightarrow> sc_Active s \<and> \<not> scheduleCompleted s'"
      "sc_LastError s' = (case run_error r of None \<Rightarrow> '''' | Some e \<Rightarrow> error_text e)" "rr_RunCount result = sc_RunCount s'"
      "rr_Status result = (if run_error r = None then ''succeeded'' else ''failed'')"
      "\<not> sc_Active s' \<longrightarrow> gm_get (sd_cronJobs sd') i = None \<and> gm_get (sd_intervals sd') i = None"
    by blast
  have c: "scheduleCompleted s' \<longleftrightarrow> 0 < sc_MaxRuns s \<and> sc_MaxRuns s \<le> sc_RunCount s'"
    using same_plan_fields [OF F(3)] by (simp add: scheduleCompleted_def)
  have "rr_Status result = ''succeeded'' \<longleftrightarrow> run_error r = None" using F(9) by simp
  with F(1,2,4,5,7,8,10) F(6) [unfolded c] show ?thesis by - (intro exI conjI, assumption+)
qed

text \<open>Runs one after the other, each with its times and request.\<close>

fun run_list :: "('f, 'cr, 'sp) sched_env \<Rightarrow> 'w target \<Rightarrow> string \<Rightarrow> (int \<times> int \<times> ScheduleTriggerRequest option) list
    \<Rightarrow> 'w \<times> ('f, 'cr) Scheduler \<Rightarrow> ('w \<times> ('f, 'cr) Scheduler) option" where
  "run_list E tgt i [] x = Some x"
| "run_list E tgt i ((t0, t1, req) # rs) x =
     (case runOnce E tgt t0 t1 i req x of None \<Rightarrow> None | Some (x', _, _) \<Rightarrow> run_list E tgt i rs x')"

lemma runOnce_completed:
  assumes "se_load E (sd_folder sd) i = Inr (Some s)" and "cloneScheduleConfiguration s = Inr s" and "scheduleCompleted s"
  shows "\<exists>result. runOnce E tgt t0 t1 i req (w, sd) = Some ((w, sd), Some result, None)"
  using assms by (simp add: runOnce_def)

lemma run_list_count:
  assumes laws: "folder_laws E" and acc: "\<And>s f. snd (se_save E s f) = None"
    and tgt: "\<And>s1 req res t w. \<exists>w' r. tgt s1 req res t w = Some (w', r) \<and> (\<forall>m. r \<noteq> Inl (GoPanic m)) \<and>
          (\<forall>s2. tgt s2 req res t w = Some (w', r))"
    and "se_load E (sd_folder sd) i = Inr (Some s)" "stored_ok E i s" "0 < sc_MaxRuns s" "sc_MaxRuns s < 2 ^ 63"
      "0 \<le> sc_RunCount s" "sc_RunCount s \<le> sc_MaxRuns s"
  shows "\<exists>w' sd' s'. run_list E tgt i rs (w, sd) = Some (w', sd') \<and> se_load E (sd_folder sd') i = Inr (Some s') \<and>
    sc_RunCount s' = min (sc_MaxRuns s) (sc_RunCount s + int (length rs))"
  using assms(4-)
proof (induction rs arbitrary: w sd s)
  case Nil
  then show ?case by auto
next
  case (Cons q rs)
  obtain t0 t1 req where q: "q = (t0, t1, req)" by (cases q) auto
  show ?case
  proof (cases "scheduleCompleted s")
    case True
    have "cloneScheduleConfiguration s = Inr s" using Cons.prems(2) by (simp add: stored_ok_def)
    from runOnce_completed [OF Cons.prems(1) this True, of tgt t0 t1 req w]
    have "run_list E tgt i (q # rs) (w, sd) = run_list E tgt i rs (w, sd)" by (auto simp: q)
    moreover have "sc_RunCount s = sc_MaxRuns s" using True Cons.prems(6) by (simp add: scheduleCompleted_def)
    ultimately show ?thesis using Cons.IH [OF Cons.prems, of w] Cons.prems(3) by auto
  next
    case False
    from tgt [of s req "sd_results sd" t0 w] obtain w' r where r: "\<And>s2. tgt s2 req (sd_results sd) t0 w = Some (w', r)"
      "\<And>m. r \<noteq> Inl (GoPanic m)" by blast
    from runOnce_facts [where tgt = tgt and request = req and w = w and w' = w' and r = r and ?t0.0 = t0 and sd = sd,
        OF laws acc Cons.prems(1,2) False r]
    obtain sd' result s' where
      F: "runOnce E tgt t0 t1 i req (w, sd) = Some ((w', sd'), Some result, run_error r)"
        "se_load E (sd_folder sd') i = Inr (Some s')" "stored_ok E i s'" "same_plan s' s" "sc_RunCount s' = wrap64 (sc_RunCount s + 1)"
      by blast
    have lt: "sc_RunCount s < sc_MaxRuns s" using False Cons.prems(3) by (auto simp: scheduleCompleted_def)
    then have c: "sc_RunCount s' = sc_RunCount s + 1" using F(5) Cons.prems(4,5) by (simp add: in_int64_def)
    have m: "sc_MaxRuns s' = sc_MaxRuns s" using same_plan_fields [OF F(4)] by simp
    have "run_list E tgt i (q # rs) (w, sd) = run_list E tgt i rs (w', sd')" using F(1) by (simp add: q)
    then show ?thesis using Cons.IH [OF F(2,3), of w'] Cons.prems(3,4,5) c m lt by (simp add: ac_simps)
  qed
qed

text \<open>
  A schedule with a maximal number of runs is run that many times in all, however often it
  is triggered: after any number of runs the stored count is the number of runs asked for, cut
  off at the maximum.
\<close>

theorem runs_bounded:
  assumes "folder_laws E" and "\<And>s f. snd (se_save E s f) = None"
    and "\<And>s1 req res t w. \<exists>w' r. tgt s1 req res t w = Some (w', r) \<and> (\<forall>m. r \<noteq> Inl (GoPanic m)) \<and>
          (\<forall>s2. tgt s2 req res t w = Some (w', r))"
    and "se_load E (sd_folder sd) i = Inr (Some s)" "stored_ok E i s" "0 < sc_MaxRuns s" "sc_MaxRuns s < 2 ^ 63"
      "0 \<le> sc_RunCount s" "sc_RunCount s \<le> sc_MaxRuns s"
  shows "\<exists>w' sd' s'. run_list E tgt i rs (w, sd) = Some (w', sd') \<and> se_load E (sd_folder sd') i = Inr (Some s') \<and>
    sc_RunCount s' = min (sc_MaxRuns s) (sc_RunCount s + int (length rs))"
  using assms by (rule run_list_count)

text \<open>
  An interval schedule with a start time in the past is planned for the next multiple of
  its interval after that start: strictly in the future, at most one interval away.
\<close>

theorem interval_next_run:
  assumes "0 < sc_IntervalSeconds s" and "0 < sc_StartAt s" and "unix_time (sc_StartAt s) \<le> now"
    and "now - unix_time (sc_StartAt s) + sc_IntervalSeconds s * second < 2 ^ 63"
  shows "\<exists>t. nextIntervalRunAt s now = Inr t \<and> now < t \<and> t \<le> now + sc_IntervalSeconds s * second \<and>
    (sc_IntervalSeconds s * second) dvd (t - unix_time (sc_StartAt s))"
proof -
  let ?iv = "sc_IntervalSeconds s * second" and ?st = "unix_time (sc_StartAt s)"
  define k where "k = (now - ?st) div ?iv"
  have iv: "0 < ?iv" using assms(1) by (simp add: second_def)
  have e: "0 \<le> now - ?st" using assms(3) by simp
  have k: "0 \<le> k" "k * ?iv \<le> now - ?st" "now - ?st < k * ?iv + ?iv"
    using iv e by (simp_all add: k_def pos_imp_zdiv_nonneg_iff minus_mod_eq_div_mult [symmetric] mod_pos_pos_trivial)
  have in64: "in_int64 ?iv" "in_int64 (now - ?st)" using iv e assms(4) by (simp_all add: in_int64_def)
  have w: "(k + 1) * ?iv = k * ?iv + ?iv" by (simp add: algebra_simps)
  have "k \<le> k * ?iv" using k(1) iv mult_left_mono [of 1 ?iv k] by simp
  then have k64: "in_int64 (k + 1)" "in_int64 ((k + 1) * ?iv)"
    using k assms(4) iv by (simp_all only: w) (simp_all add: in_int64_def)
  have "time_sub now ?st = now - ?st" using in64(2) e by (simp add: time_sub_def in_int64_def)
  moreover have "seconds (sc_IntervalSeconds s) = ?iv" using in64(1) by (simp add: seconds_def)
  moreover have "\<not> now < ?st" "?iv \<noteq> 0" using assms(3) iv by auto
  ultimately have "nextIntervalRunAt s now = Inr (?st + (k + 1) * ?iv)"
    using assms(1,2) e iv k64 by (simp add: nextIntervalRunAt_def Let_def k_def [symmetric])
  then show ?thesis using k w by (intro exI [of _ "?st + (k + 1) * ?iv"]) simp
qed

text \<open>
  The interval is not checked against the range of durations: for an interval of \<open>2 ^ 55\<close>
  seconds, which validation accepts, planning the next run divides by zero.
\<close>

theorem interval_overflow_panics:
  assumes "sc_Kind s = ''interval''" and "sc_IntervalSeconds s = 2 ^ 55 * int n" and "0 < n"
    and "0 < sc_StartAt s" and "unix_time (sc_StartAt s) \<le> now"
  shows "kind_error E s = None \<and> nextIntervalRunAt s now = Inl (GoPanic ''runtime error: integer divide by zero'')"
proof -
  have "sc_IntervalSeconds s * second = 2 ^ 64 * (5 ^ 9 * int n)"
    by (simp add: assms(2) second_def)
  then have "seconds (sc_IntervalSeconds s) = wrap64 0" unfolding seconds_def by (intro wrap64_cong) simp
  then have "seconds (sc_IntervalSeconds s) = 0" by (simp add: in_int64_def)
  moreover have "0 < sc_IntervalSeconds s" using assms(2,3) by simp
  ultimately show ?thesis using assms(1,4,5) by (simp add: nextIntervalRunAt_def kind_error_def Let_def)
qed

text \<open>A target that panics leaves the stored schedule marked as running, with the run
  uncounted: only the caller learns of the failure.
\<close>

theorem panic_leaves_running:
  assumes "folder_laws E" and "\<And>s f. snd (se_save E s f) = None"
    and "se_load E (sd_folder sd) i = Inr (Some s)" and "stored_ok E i s" and "\<not> scheduleCompleted s"
    and "\<And>s1. tgt s1 request (sd_results sd) t0 w = Some (w', Inl (GoPanic m))"
  shows "\<exists>sd' result s'. runOnce E tgt t0 t1 i request (w, sd) = Some ((w', sd'), Some result, Some (ErrText (''schedule panic: '' @ m))) \<and>
    rr_Status result = ''failed'' \<and> se_load E (sd_folder sd') i = Inr (Some s') \<and> sc_Running s' \<and> sc_Status s' = ''running'' \<and>
    sc_RunCount s' = sc_RunCount s"
proof -
  have cl: "cloneScheduleConfiguration s = Inr s" and val: "snd (ValidateScheduleConfiguration E s) = None"
    and i: "sc_ID s = Some i" using assms(4) by (simp_all add: stored_ok_def)
  define s1 where "s1 = normalized (start_run t0 s)"
  have p0: "same_plan (start_run t0 s) s" and ne: "sc_Status (start_run t0 s) \<noteq> ''''" by (simp_all add: same_plan_def start_run_def)
  obtain f q where q: "se_save E s1 (sd_folder sd) = (f, q)" by fastforce
  have "q = None" using assms(2) [of s1 "sd_folder sd"] q by simp
  moreover have "sc_ID s1 = Some i" using i by (simp add: s1_def start_run_def)
  ultimately have ld: "se_load E f i = Inr (Some s1)" using assms(1) q by (simp add: folder_laws_def)
  have sv: "save_folder E (start_run t0 s) sd = (sd\<lparr>sd_folder := f\<rparr>, s1, None)"
    using save_folder_ok [OF val p0 ne assms(2)] q by (simp add: s1_def)
  have "runOnce E tgt t0 t1 i request (w, sd) = Some ((w', sd\<lparr>sd_folder := f\<rparr>),
      Some ((empty_result i)\<lparr>rr_Status := ''failed'', rr_StartedAt := to_unix t0, rr_Error := ''schedule panic: '' @ m\<rparr>),
      Some (ErrText (''schedule panic: '' @ m)))"
    using assms(3,5,6) cl sv unfolding runOnce_def finish_run_def Let_def by simp
  moreover have "sc_Running s1" "sc_Status s1 = ''running''" "sc_RunCount s1 = sc_RunCount s"
    by (simp_all add: s1_def start_run_def)
  ultimately show ?thesis using ld
    by (intro exI [of _ "sd\<lparr>sd_folder := f\<rparr>"] exI [of _ s1]
        exI [of _ "(empty_result i)\<lparr>rr_Status := ''failed'', rr_StartedAt := to_unix t0, rr_Error := ''schedule panic: '' @ m\<rparr>"]) simp
qed

text \<open>
  The value of a successful run is what readers of the schedule get, without another run,
  for as long as it is not older than they accept.
\<close>

theorem run_then_get:
  assumes "folder_laws E" and "\<And>s f. snd (se_save E s f) = None"
    and "se_load E (sd_folder sd) i = Inr (Some s)" and "stored_ok E i s" and "\<not> scheduleCompleted s"
    and "\<And>s1. tgt s1 request (sd_results sd) t0 w = Some (w', Inr (v, True))" and "json_ok v"
  shows "\<exists>sd' result. runOnce E tgt t0 t1 i request (w, sd) = Some ((w', sd'), Some result, None) \<and>
    (\<forall>x now name q. snd x = sd' \<longrightarrow> scheduleByName E (sc_Realm s) name sd' = Inr q \<longrightarrow> sc_ID q = Some i \<longrightarrow> sc_Realm q = sc_Realm s \<longrightarrow>
       t1 \<le> now \<longrightarrow> co_MaxAgeSeconds options \<le> 0 \<or> time_sub now t1 \<le> seconds (co_MaxAgeSeconds options) \<longrightarrow>
       GetScheduled E tgt' now t3 runningID (sc_Realm s) name options x = Some (x, Inr (json_any v)))"
proof -
  have np: "\<And>m. Inr (v, True) \<noteq> Inl (GoPanic m)" by simp
  from runOnce_facts [where tgt = tgt and request = request and w = w and w' = w' and r = "Inr (v, True)" and ?t0.0 = t0 and ?t1.0 = t1 and sd = sd,
      OF assms(1-6) np]
  obtain sd' result where R: "runOnce E tgt t0 t1 i request (w, sd) = Some ((w', sd'), Some result, run_error (Inr (v, True)))"
    and r: "sd_results sd' = fst (results_set (sc_Realm s) i v t1 (sd_results sd))" by auto
  have e: "run_error (Inr (v, True)) = None" using assms(7) by (simp add: run_error_def)
  have g: "gm_get (sd_results sd') (scheduleResultKey (sc_Realm s) i) = Some (json_any v, t1)"
    using assms(7) by (simp add: r results_set_def json_copy_def)
  have "results_get (sc_Realm s) i maxAge now (sd_results sd') = Some (json_any v)"
    if "maxAge \<le> 0 \<or> time_sub now t1 \<le> seconds maxAge" for maxAge now
    using that g by (auto simp: results_get_def)
  then have "GetScheduled E tgt' now t3 runningID (sc_Realm s) name options x = Some (x, Inr (json_any v))"
    if "snd x = sd'" "scheduleByName E (sc_Realm s) name sd' = Inr q" "sc_ID q = Some i" "sc_Realm q = sc_Realm s"
      "co_MaxAgeSeconds options \<le> 0 \<or> time_sub now t1 \<le> seconds (co_MaxAgeSeconds options)" for x now name q
    using that by (simp add: GetScheduled_def Let_def)
  with R e show ?thesis by auto
qed

subsection \<open>Interval loops\<close>

text \<open>Every running loop can be cancelled through the map, and a schedule has at most one.\<close>

definition loops_ok :: "('f, 'cr) Scheduler \<Rightarrow> bool" where
  "loops_ok sd \<longleftrightarrow>
     distinct (sd_loops sd) \<and> (\<forall>h i. (h, i) \<in> set (sd_loops sd) \<longrightarrow> gm_get (sd_intervals sd) i = Some h) \<and>
     (\<forall>i h. gm_get (sd_intervals sd) i = Some h \<longrightarrow> h < sd_handles sd) \<and>
     (\<forall>i j h. gm_get (sd_intervals sd) i = Some h \<longrightarrow> gm_get (sd_intervals sd) j = Some h \<longrightarrow> i = j)"

lemma loops_frame: "sd_loops sd' = sd_loops sd \<Longrightarrow> sd_intervals sd' = sd_intervals sd \<Longrightarrow> sd_handles sd' = sd_handles sd \<Longrightarrow>
    loops_ok sd' = loops_ok sd"
  by (simp add: loops_ok_def)

lemma Unschedule_loops: "loops_ok sd \<Longrightarrow> loops_ok (Unschedule E i sd)"
  unfolding Unschedule_def Let_def loops_ok_def by (auto split: option.splits)

lemma save_folder_frame: "save_folder E s sd = (sd', s', r) \<Longrightarrow> \<exists>f. sd' = sd\<lparr>sd_folder := f\<rparr>"
  by (auto simp: save_folder_def split: prod.splits)

lemma install_interval_loops:
  fixes sd :: "('f, 'cr) Scheduler"
  assumes ok: "loops_ok sd" and free: "gm_get (sd_intervals sd) i = None" and r: "install_interval E now i s sd = (sd', e)"
  shows "loops_ok sd'"
proof -
  let ?sd1 = "sd\<lparr>sd_intervals := gm_put i (sd_handles sd) (sd_intervals sd), sd_handles := Suc (sd_handles sd)\<rparr>"
  have new: "loops_ok (sd2\<lparr>sd_loops := ls\<rparr>)" if "ls = sd_loops ?sd1 \<or> ls = (sd_handles sd, i) # sd_loops ?sd1"
      and "sd_intervals sd2 = sd_intervals ?sd1" "sd_handles sd2 = sd_handles ?sd1" for ls and sd2 :: "('f, 'cr) Scheduler"
    using that ok free unfolding loops_ok_def by (auto simp: less_Suc_eq)
  show ?thesis
  proof (cases "sc_NextRunAt s = 0")
    case True
    show ?thesis
    proof (cases "nextIntervalRunAt s now")
      case (Inl x)
      then have "sd' = ?sd1\<lparr>sd_loops := sd_loops ?sd1\<rparr>" using r True by (simp add: install_interval_def Let_def)
      then show ?thesis using new [of "sd_loops ?sd1" ?sd1] by simp
    next
      case (Inr t)
      obtain sd2 a b where sv: "save_folder E (s\<lparr>sc_NextRunAt := to_unix t\<rparr>) ?sd1 = (sd2, a, b)" by (metis prod.exhaust)
      from save_folder_frame [OF sv] obtain f where f: "sd2 = ?sd1\<lparr>sd_folder := f\<rparr>" by blast
      have "sd' = sd2\<lparr>sd_loops := (sd_handles sd, i) # sd_loops sd2\<rparr>"
        using r True Inr sv by (simp add: install_interval_def Let_def)
      then show ?thesis using new [of "(sd_handles sd, i) # sd_loops ?sd1" sd2] by (simp add: f)
    qed
  next
    case False
    then have "sd' = ?sd1\<lparr>sd_loops := (sd_handles sd, i) # sd_loops ?sd1\<rparr>" using r by (auto simp: install_interval_def Let_def)
    then show ?thesis using new [of "(sd_handles sd, i) # sd_loops ?sd1" ?sd1] by simp
  qed
qed

lemma install_cron_frame: "install_cron E now i s sd = (sd', e) \<Longrightarrow>
    sd_loops sd' = sd_loops sd \<and> sd_intervals sd' = sd_intervals sd \<and> sd_handles sd' = sd_handles sd"
  unfolding install_cron_def Let_def
  by (auto split: prod.splits sum.splits option.splits dest!: save_folder_frame)

lemma install_cron_loops: "loops_ok sd \<Longrightarrow> install_cron E now i s sd = (sd', e) \<Longrightarrow> loops_ok sd'"
  using install_cron_frame loops_frame by blast

lemma Schedule_loops: "loops_ok sd \<Longrightarrow> Schedule E now so sd = (sd', e) \<Longrightarrow> loops_ok sd'"
proof -
  assume ok: "loops_ok sd" and r: "Schedule E now so sd = (sd', e)"
  show "loops_ok sd'"
  proof (cases "\<exists>s i. so = Some s \<and> sc_ID s = Some i \<and> i \<noteq> ''''")
    case True
    then obtain s i where s: "so = Some s" "sc_ID s = Some i" "i \<noteq> ''''" by blast
    have u: "loops_ok (Unschedule E i sd)" using ok by (rule Unschedule_loops)
    have g: "gm_get (sd_intervals (Unschedule E i sd)) i = None" using Unschedule_gone [OF s(3)] by blast
    have "install_schedule E now i s (Unschedule E i sd) = (sd', e)" using r s by (simp add: Schedule_def)
    then show ?thesis unfolding install_schedule_def
      using u install_cron_loops [OF u] install_interval_loops [OF u g] by (auto split: if_splits)
  next
    case False
    then show ?thesis using ok r by (auto simp: Schedule_def split: option.splits if_splits)
  qed
qed

lemma finish_run_loops:
  assumes "loops_ok sd" and "finish_run E t0 t1 i s r sd = (sd', res, err)"
  shows "loops_ok sd'"
proof -
  have "sd' = sd \<or> (\<exists>s1 rs sd1 s2 q. save_folder E s1 (sd\<lparr>sd_results := rs\<rparr>) = (sd1, s2, q) \<and> (sd' = sd1 \<or> sd' = Unschedule E i sd1))"
    using assms(2) unfolding finish_run_def Let_def
    by (cases "case r of Inl e \<Rightarrow> is_panic e | Inr _ \<Rightarrow> None")
       (simp_all split: prod.splits if_splits, blast+)
  then consider "sd' = sd" | s1 rs sd1 s2 q where "save_folder E s1 (sd\<lparr>sd_results := rs\<rparr>) = (sd1, s2, q)" "sd' = sd1 \<or> sd' = Unschedule E i sd1"
    by blast
  then show ?thesis
  proof cases
    case 1
    then show ?thesis using assms(1) by simp
  next
    case sv: (2 s1 rs sd1 s2 q)
    from save_folder_frame [OF sv(1)] obtain f where "sd1 = sd\<lparr>sd_results := rs, sd_folder := f\<rparr>" by blast
    then have "loops_ok sd1" using assms(1) by (simp add: loops_ok_def)
    then show ?thesis using sv(2) Unschedule_loops by blast
  qed
qed

lemma runOnce_loops:
  assumes "loops_ok sd" and "runOnce E tgt t0 t1 i req (w, sd) = Some ((w', sd'), res, err)"
  shows "loops_ok sd'"
proof (cases "sd' = sd")
  case False
  with assms(2) obtain s sd1 s1 q s2 r where sv: "save_folder E s sd = (sd1, s1, q)" and f: "finish_run E t0 t1 i s2 r sd1 = (sd', res, err)"
    unfolding runOnce_def Let_def by (auto split: sum.splits option.splits if_splits prod.splits)
  from save_folder_frame [OF sv] obtain g where "sd1 = sd\<lparr>sd_folder := g\<rparr>" by blast
  then have "loops_ok sd1" using assms(1) by (simp add: loops_ok_def)
  then show ?thesis using f by (rule finish_run_loops)
qed (use assms(1) in simp)

lemma Reload_loops: "loops_ok sd \<Longrightarrow> Reload E now so sd = (sd', e) \<Longrightarrow> loops_ok sd'"
  unfolding Reload_def by (auto split: option.splits if_splits intro: Schedule_loops [OF Unschedule_loops])

lemma start_all_loops: "loops_ok sd \<Longrightarrow> start_all E now ss sd = (sd', e) \<Longrightarrow> loops_ok sd'"
proof (induction E now ss sd rule: start_all.induct)
  case (3 E now s rest sd)
  obtain sd1 q where q: "Schedule E now (Some s) sd = (sd1, q)" by fastforce
  with 3 Schedule_loops [OF _ q] show ?case by (cases q) (auto split: if_splits)
qed auto

lemma Stop_loops: "loops_ok sd \<Longrightarrow> sd_loops (StopScheduler sd) = []"
proof -
  assume ok: "loops_ok sd"
  have "fst l \<in> snd ` set (sd_intervals sd)" if "l \<in> set (sd_loops sd)" for l
  proof -
    have "gm_get (sd_intervals sd) (snd l) = Some (fst l)" using ok that unfolding loops_ok_def by (metis prod.collapse)
    then have "(snd l, fst l) \<in> set (sd_intervals sd)" by (rule gm_get_in_set)
    then show ?thesis by force
  qed
  then show ?thesis by (simp add: StopScheduler_def filter_empty_conv)
qed

text \<open>The operations of the scheduler, each as a whole, and the end of a loop by itself.\<close>

inductive sched_step :: "('f, 'cr, 'sp) sched_env \<Rightarrow> 'w \<times> ('f, 'cr) Scheduler \<Rightarrow> 'w \<times> ('f, 'cr) Scheduler \<Rightarrow> bool" for E where
  start: "sched_step E (w, sd) (w, fst (StartScheduler E now sd))"
| schedule: "sched_step E (w, sd) (w, fst (Schedule E now so sd))"
| unschedule: "sched_step E (w, sd) (w, Unschedule E i sd)"
| reload: "sched_step E (w, sd) (w, fst (Reload E now so sd))"
| run: "runOnce E tgt t0 t1 i req (w, sd) = Some ((w', sd'), res, err) \<Longrightarrow> sched_step E (w, sd) (w', sd')"
| clear: "sched_step E (w, sd) (w, fst (ClearScheduled E realm name sd))"
| loop_ends: "sched_step E (w, sd) (w, sd\<lparr>sd_loops := removeAll l (sd_loops sd)\<rparr>)"
| stop: "sched_step E (w, sd) (w, StopScheduler sd)"

lemma sched_step_loops: "sched_step E x x' \<Longrightarrow> loops_ok (snd x) \<Longrightarrow> loops_ok (snd x')"
proof (induction rule: sched_step.induct)
  case (start w sd now)
  then show ?case unfolding StartScheduler_def snd_conv by (metis start_all_loops surjective_pairing)
next
  case (schedule w sd now so)
  then show ?case unfolding snd_conv by (metis Schedule_loops surjective_pairing)
next
  case (unschedule w sd i)
  then show ?case by (simp add: Unschedule_loops)
next
  case (reload w sd now so)
  then show ?case unfolding snd_conv by (metis Reload_loops surjective_pairing)
next
  case (run tgt t0 t1 i req w sd w' sd' res err)
  then show ?case using runOnce_loops by (metis snd_conv)
next
  case (clear w sd realm name)
  then show ?case by (auto simp: ClearScheduled_def loops_ok_def split: sum.splits)
next
  case (loop_ends w sd l)
  then show ?case by (auto simp: loops_ok_def distinct_removeAll)
next
  case (stop w sd)
  then have "sd_loops (StopScheduler sd) = []" by (simp add: Stop_loops)
  then show ?case by (simp add: loops_ok_def) (simp add: StopScheduler_def)
qed

lemma sched_steps_loops: "(sched_step E)\<^sup>*\<^sup>* x x' \<Longrightarrow> loops_ok (snd x) \<Longrightarrow> loops_ok (snd x')"
  by (induction rule: rtranclp_induct) (auto intro: sched_step_loops)

lemma newScheduler_loops [simp]: "loops_ok (newScheduler folder cron)"
  by (simp add: newScheduler_def loops_ok_def)

lemma all_same_length:
  assumes "distinct xs" and "\<And>x y. x \<in> set xs \<Longrightarrow> y \<in> set xs \<Longrightarrow> x = y"
  shows "length xs \<le> 1"
proof (cases xs)
  case (Cons x ys)
  then have "set ys \<subseteq> {x}" using assms(2) by auto
  then show ?thesis using assms(1) Cons by (cases ys) auto
qed simp

text \<open>
  C31. Operations that run one after the other never leave two loops for a schedule, every loop
  can be cancelled, and stopping the scheduler stops all loops.
\<close>

theorem one_loop_per_schedule:
  assumes "(sched_step E)\<^sup>*\<^sup>* (w, newScheduler folder cron) (w', sd)"
  shows "length (filter (\<lambda>l. snd l = i) (sd_loops sd)) \<le> 1 \<and> sd_loops (StopScheduler sd) = [] \<and>
    (i \<noteq> '''' \<longrightarrow> filter (\<lambda>l. snd l = i) (sd_loops (Unschedule E i sd)) = [])"
proof -
  have ok: "loops_ok sd" using sched_steps_loops [OF assms] by simp
  let ?f = "filter (\<lambda>l. snd l = i) (sd_loops sd)"
  have "distinct ?f" using ok by (simp add: loops_ok_def)
  moreover have "l = l'" if "l \<in> set ?f" "l' \<in> set ?f" for l l'
  proof -
    define h h' where "h = fst l" and "h' = fst l'"
    then have l: "l = (h, i)" "l' = (h', i)" using that by (simp_all add: prod_eq_iff)
    then have "(h, i) \<in> set (sd_loops sd)" "(h', i) \<in> set (sd_loops sd)" using that by simp_all
    then have "gm_get (sd_intervals sd) i = Some h" "gm_get (sd_intervals sd) i = Some h'"
      using ok unfolding loops_ok_def by blast+
    then show ?thesis by (simp add: l)
  qed
  ultimately have "length ?f \<le> 1" by (rule all_same_length)
  moreover have "filter (\<lambda>l. snd l = i) (sd_loops (Unschedule E i sd)) = []" if "i \<noteq> ''''"
    using Unschedule_loops [OF ok, of E i] Unschedule_gone [OF that, of E sd] by (auto simp: filter_empty_conv loops_ok_def)
  ultimately show ?thesis using Stop_loops [OF ok] by blast
qed

text \<open>
  \<open>Schedule\<close> releases the lock between unscheduling and installing: two concurrent calls for
  the same interval schedule start two loops, one of which nothing can cancel any more.
\<close>

theorem concurrent_schedule_leaks:
  assumes "sd = Unschedule E i (Unschedule E i (newScheduler folder cron))"
    and "sc_Active s" and "\<not> scheduleCompleted s" and "sc_Kind s = ''interval''" and "sc_NextRunAt s \<noteq> 0"
  shows "length (filter (\<lambda>l. snd l = i) (sd_loops (fst (install_schedule E now' i s (fst (install_schedule E now i s sd)))))) = 2 \<and>
    sd_loops (StopScheduler (fst (install_schedule E now' i s (fst (install_schedule E now i s sd))))) = [(0, i)]"
proof -
  have sd: "sd = newScheduler folder cron" unfolding assms(1) by (simp add: Unschedule_def newScheduler_def)
  show ?thesis using assms(2-5) unfolding sd
    by (simp add: install_schedule_def install_interval_def newScheduler_def StopScheduler_def Let_def)
qed

subsection \<open>Witnesses\<close>

definition sample_sched_env :: "(ScheduleConfiguration gomap, unit, unit) sched_env" where
  "sample_sched_env = \<lparr>se_load = (\<lambda>f i. Inr (gm_get f i)),
     se_save = (\<lambda>s f. (case sc_ID s of None \<Rightarrow> f | Some i \<Rightarrow> gm_put i s f, None)),
     se_list = (\<lambda>f. map (\<lambda>p. Some (snd p)) f), cr_parse = (\<lambda>_. Inr ()), cr_next = (\<lambda>_ t. Some (t + minute)),
     cr_add = (\<lambda>_ c. (c, Inr 0)), cr_remove = (\<lambda>_ c. c), cr_entry_next = (\<lambda>_ _. None)\<rparr>"

definition sample_schedule :: ScheduleConfiguration where
  "sample_schedule = \<lparr>sc_ID = Some ''s1'', sc_Name = ''n'', sc_Description = '''', sc_Realm = ''r'', sc_Active = True,
     sc_Kind = ''interval'', sc_Cron = '''', sc_IntervalSeconds = 60, sc_StartAt = 1, sc_Timezone = '''', sc_MaxRuns = 2,
     sc_TriggerEnabled = True, sc_TriggerWait = True, sc_TimeoutSeconds = 0,
     sc_Target = \<lparr>tg_Type = ''script'', tg_ScriptID = ''x'', tg_ScriptType = '''', tg_Args = [], tg_JourneyID = '''', tg_InitialData = []\<rparr>,
     sc_RunCount = 0, sc_LastRunAt = 0, sc_NextRunAt = 61, sc_Status = ''idle'', sc_LastError = '''', sc_Running = False\<rparr>"

definition sample_scheduler :: "(ScheduleConfiguration gomap, unit) Scheduler" where
  "sample_scheduler = newScheduler [(''s1'', sample_schedule)] ()"

definition const_target :: "(gval \<times> bool) res \<Rightarrow> unit target" where
  "const_target r = (\<lambda>s req res t w. Some (w, r))"

lemma sample_folder_laws: "folder_laws sample_sched_env" "snd (se_save sample_sched_env s f) = None"
  by (simp_all add: folder_laws_def sample_sched_env_def)

lemma sample_load: "se_load sample_sched_env (sd_folder sample_scheduler) ''s1'' = Inr (Some sample_schedule)"
  by (simp add: sample_sched_env_def sample_scheduler_def newScheduler_def)

lemma sample_schedule_ok: "stored_ok sample_sched_env ''s1'' sample_schedule" "\<not> scheduleCompleted sample_schedule"
  by code_simp+

lemma sample_start: "save_folder sample_sched_env (start_run 5 sample_schedule) sample_scheduler =
    (sample_scheduler\<lparr>sd_folder := [(''s1'', start_run 5 sample_schedule)]\<rparr>, start_run 5 sample_schedule, None)"
  by code_simp

lemma sample_finish: "case finish_run sample_sched_env 5 9 ''s1'' (normalized (start_run 5 sample_schedule)) (Inr (GStr ''v'', True))
      (sample_scheduler\<lparr>sd_folder := [(''s1'', start_run 5 sample_schedule)]\<rparr>) of
    (sd, _) \<Rightarrow> (case scheduleByName sample_sched_env ''r'' ''n'' sd of Inr q \<Rightarrow> sc_ID q = Some ''s1'' \<and> sc_Realm q = ''r'' | _ \<Rightarrow> False)"
  by code_simp

definition two_callers :: "flights \<times> (nat \<Rightarrow> runner)" where
  "two_callers = (\<lparr>fl_running = [(''s'', 0)], fl_done = (\<lambda>_. None), fl_next = 1\<rparr>, (\<lambda>_. Idle)(0 := Leading ''s'' 0, 1 := Waiting ''s'' 0))"

theorem single_flight_witness: "\<exists>t'. snd two_callers t' = Leading ''s'' 0"
proof -
  let ?f = "\<lparr>fl_running = [(''s'', 0)], fl_done = (\<lambda>_. None), fl_next = 1\<rparr>"
  have a: "run_step no_flights (?f, (\<lambda>_. Idle)(0 := Leading ''s'' 0))"
    unfolding no_flights_def by (rule run_step.lead) (simp_all add: beginRun_def)
  have "run_step (?f, (\<lambda>_. Idle)(0 := Leading ''s'' 0)) (?f, ((\<lambda>_. Idle)(0 := Leading ''s'' 0))(1 := Waiting ''s'' 0))"
    by (rule run_step.follow) (simp_all add: beginRun_def)
  with a have r: "run_step\<^sup>*\<^sup>* no_flights (?f, ((\<lambda>_. Idle)(0 := Leading ''s'' 0))(1 := Waiting ''s'' 0))" by simp
  show ?thesis using single_flight [OF r, of 1 "''s''" 0] by (auto simp: two_callers_def)
qed

theorem run_accounted_witness:
  "\<exists>sd' result s'. runOnce sample_sched_env (const_target (Inl (ErrText ''boom''))) 5 9 ''s1'' None ((), sample_scheduler) =
     Some (((), sd'), Some result, Some (ErrText ''boom'')) \<and> rr_RunCount result = 1 \<and> sc_RunCount s' = 1 \<and> sc_LastError s' = ''boom'' \<and>
     se_load sample_sched_env (sd_folder sd') ''s1'' = Inr (Some s')"
proof -
  have t: "const_target (Inl (ErrText ''boom'')) s1 None (sd_results sample_scheduler) 5 () = Some ((), Inl (ErrText ''boom''))" for s1
    by (simp add: const_target_def)
  have "Inl (ErrText ''boom'') \<noteq> (Inl (GoPanic m) :: (gval \<times> bool) res)" for m by simp
  from run_accounted [where tgt = "const_target (Inl (ErrText ''boom''))" and request = None and w = "()" and w' = "()" and ?t0.0 = 5 and ?t1.0 = 9,
      OF sample_folder_laws sample_load sample_schedule_ok t this]
  obtain sd' result s' where *: "runOnce sample_sched_env (const_target (Inl (ErrText ''boom''))) 5 9 ''s1'' None ((), sample_scheduler) =
     Some (((), sd'), Some result, run_error (Inl (ErrText ''boom'')))" "se_load sample_sched_env (sd_folder sd') ''s1'' = Inr (Some s')"
     "sc_RunCount s' = wrap64 (sc_RunCount sample_schedule + 1)" "rr_RunCount result = sc_RunCount s'"
     "sc_LastError s' = (case run_error (Inl (ErrText ''boom'')) of None \<Rightarrow> '''' | Some e \<Rightarrow> error_text e)" by blast
  have "run_error (Inl (ErrText ''boom'')) = Some (ErrText ''boom'')" "sc_RunCount sample_schedule = 0"
    by (simp_all add: run_error_def sample_schedule_def)
  with * have "runOnce sample_sched_env (const_target (Inl (ErrText ''boom''))) 5 9 ''s1'' None ((), sample_scheduler) =
     Some (((), sd'), Some result, Some (ErrText ''boom''))" "sc_RunCount s' = 1" "rr_RunCount result = 1" "sc_LastError s' = ''boom''"
    by (simp_all add: in_int64_def)
  with *(2) show ?thesis by blast
qed

theorem runs_bounded_witness:
  "\<exists>sd' s'. run_list sample_sched_env (const_target (Inr (GNil, False))) ''s1'' [(1, 2, None), (3, 4, None), (5, 6, None)] ((), sample_scheduler) =
     Some ((), sd') \<and> se_load sample_sched_env (sd_folder sd') ''s1'' = Inr (Some s') \<and> sc_RunCount s' = 2"
proof -
  have "\<exists>w' r. const_target (Inr (GNil, False)) s1 req res t w = Some (w', r) \<and> (\<forall>m. r \<noteq> Inl (GoPanic m)) \<and>
      (\<forall>s2. const_target (Inr (GNil, False)) s2 req res t w = Some (w', r))" for s1 req res t w
    by (simp add: const_target_def)
  from runs_bounded [where tgt = "const_target (Inr (GNil, False))" and rs = "[(1, 2, None), (3, 4, None), (5, 6, None)]" and w = "()",
      OF sample_folder_laws this sample_load sample_schedule_ok(1)]
  show ?thesis by (simp add: sample_schedule_def)
qed

theorem interval_next_run_witness:
  "\<exists>t. nextIntervalRunAt sample_schedule (100 * second) = Inr t \<and> 100 * second < t \<and> t \<le> 160 * second"
  using interval_next_run [of sample_schedule "100 * second"] by (auto simp: sample_schedule_def second_def unix_time_def)

theorem interval_overflow_panics_witness:
  "nextIntervalRunAt (sample_schedule\<lparr>sc_IntervalSeconds := 2 ^ 55\<rparr>) (100 * second) = Inl (GoPanic ''runtime error: integer divide by zero'') \<and>
   kind_error sample_sched_env (sample_schedule\<lparr>sc_IntervalSeconds := 2 ^ 55\<rparr>) = None"
  using interval_overflow_panics [of "sample_schedule\<lparr>sc_IntervalSeconds := 2 ^ 55\<rparr>" 1 "100 * second" sample_sched_env]
  by (simp add: sample_schedule_def second_def unix_time_def)

theorem panic_leaves_running_witness:
  "\<exists>sd' result s'. runOnce sample_sched_env (const_target (Inl (GoPanic ''nil''))) 5 9 ''s1'' None ((), sample_scheduler) =
     Some (((), sd'), Some result, Some (ErrText ''schedule panic: nil'')) \<and>
     se_load sample_sched_env (sd_folder sd') ''s1'' = Inr (Some s') \<and> sc_Running s'"
proof -
  have t: "const_target (Inl (GoPanic ''nil'')) s1 None (sd_results sample_scheduler) 5 () = Some ((), Inl (GoPanic ''nil''))" for s1
    by (simp add: const_target_def)
  from panic_leaves_running [where tgt = "const_target (Inl (GoPanic ''nil''))" and request = None and w = "()" and w' = "()" and ?t0.0 = 5
      and ?t1.0 = 9 and m = "''nil''", OF sample_folder_laws sample_load sample_schedule_ok t]
  show ?thesis by auto
qed

theorem run_then_get_witness:
  "\<exists>sd'. runOnce sample_sched_env (const_target (Inr (GStr ''v'', True))) 5 9 ''s1'' None ((), sample_scheduler) \<noteq> None \<and>
     GetScheduled sample_sched_env (const_target (Inl ErrJourneyNotFound)) 10 11 None ''r'' ''n'' \<lparr>co_MaxAgeSeconds = 0, co_StaleIfError = False\<rparr> ((), sd') =
       Some (((), sd'), Inr (GStr ''v''))"
proof -
  have t: "const_target (Inr (GStr ''v'', True)) s1 None (sd_results sample_scheduler) 5 () = Some ((), Inr (GStr ''v'', True))" for s1
    by (simp add: const_target_def)
  have j: "json_ok (GStr ''v'')" by simp
  from run_then_get [where tgt = "const_target (Inr (GStr ''v'', True))" and request = None and w = "()" and w' = "()" and ?t0.0 = 5 and ?t1.0 = 9
      and options = "\<lparr>co_MaxAgeSeconds = 0, co_StaleIfError = False\<rparr>" and tgt' = "const_target (Inl ErrJourneyNotFound)" and ?t3.0 = 11 and runningID = None,
      OF sample_folder_laws sample_load sample_schedule_ok t j]
  obtain sd' result where r: "runOnce sample_sched_env (const_target (Inr (GStr ''v'', True))) 5 9 ''s1'' None ((), sample_scheduler) =
      Some (((), sd'), Some result, None)"
    and g: "\<And>x now name q. snd x = sd' \<Longrightarrow> scheduleByName sample_sched_env (sc_Realm sample_schedule) name sd' = Inr q \<Longrightarrow> sc_ID q = Some ''s1'' \<Longrightarrow>
       sc_Realm q = sc_Realm sample_schedule \<Longrightarrow> 9 \<le> now \<Longrightarrow>
       GetScheduled sample_sched_env (const_target (Inl ErrJourneyNotFound)) now 11 None (sc_Realm sample_schedule) name
         \<lparr>co_MaxAgeSeconds = 0, co_StaleIfError = False\<rparr> x = Some (x, Inr (json_any (GStr ''v'')))"
    by auto
  have "runOnce sample_sched_env (const_target (Inr (GStr ''v'', True))) 5 9 ''s1'' None ((), sample_scheduler) =
      (case finish_run sample_sched_env 5 9 ''s1'' (normalized (start_run 5 sample_schedule)) (Inr (GStr ''v'', True))
        (sample_scheduler\<lparr>sd_folder := [(''s1'', start_run 5 sample_schedule)]\<rparr>) of (sd2, result, err) \<Rightarrow> Some (((), sd2), result, err))"
    using sample_schedule_ok by (simp add: runOnce_def sample_load sample_start const_target_def stored_ok_def split: prod.split)
  then have "case scheduleByName sample_sched_env ''r'' ''n'' sd' of Inr q \<Rightarrow> sc_ID q = Some ''s1'' \<and> sc_Realm q = ''r'' | _ \<Rightarrow> False"
    using r sample_finish by (auto split: prod.splits)
  then obtain q where "scheduleByName sample_sched_env ''r'' ''n'' sd' = Inr q" "sc_ID q = Some ''s1''" "sc_Realm q = ''r''"
    by (auto split: sum.splits)
  with g [of "((), sd')" "''n''" q 10] r show ?thesis by (auto simp: sample_schedule_def)
qed

theorem one_loop_per_schedule_witness:
  "length (filter (\<lambda>l. snd l = ''s1'') (sd_loops (fst (Schedule sample_sched_env 5 (Some sample_schedule) sample_scheduler)))) \<le> 1 \<and>
   sd_loops (fst (Schedule sample_sched_env 5 (Some sample_schedule) sample_scheduler)) \<noteq> []"
proof -
  have r: "(sched_step sample_sched_env)\<^sup>*\<^sup>* ((), newScheduler [(''s1'', sample_schedule)] ())
      ((), fst (Schedule sample_sched_env 5 (Some sample_schedule) sample_scheduler))"
    unfolding sample_scheduler_def by (rule r_into_rtranclp) (rule sched_step.schedule)
  moreover have "sd_loops (fst (Schedule sample_sched_env 5 (Some sample_schedule) sample_scheduler)) \<noteq> []"
    by (simp add: Schedule_def install_schedule_def install_interval_def sample_schedule_def sample_scheduler_def newScheduler_def
        Unschedule_def scheduleCompleted_def Let_def)
  ultimately show ?thesis using one_loop_per_schedule [OF r, of "''s1''"] by simp
qed

theorem concurrent_schedule_leaks_witness:
  "sd_loops (StopScheduler (fst (install_schedule sample_sched_env 6 ''s1'' sample_schedule
     (fst (install_schedule sample_sched_env 5 ''s1'' sample_schedule
       (Unschedule sample_sched_env ''s1'' (Unschedule sample_sched_env ''s1'' (newScheduler [] ())))))))) = [(0, ''s1'')]"
  using concurrent_schedule_leaks [of _ sample_sched_env "''s1''" "[]" "()" sample_schedule 6 5]
  by (simp add: sample_schedule_def scheduleCompleted_def)

end
