(* ===== verification/RouteTable.thy ===== *)
theory RouteTable
  imports Transaction
begin

text \<open>
  \<^verbatim>\<open>steps/http-route-table.instance.go\<close>: route tables of proxied HTTP requests. A table compiles its
  URI patterns into a tree by protocol, host labels (from the last) and path segments; every node
  keeps the earliest route below it, so that a match can skip subtrees that cannot improve on
  the route found so far. A pointer to a tree node that the code fills in afterwards is a function
  applied to the node. Configurations are values, so the copies \<^verbatim>\<open>NewHTTPRouteTable\<close> makes of its
  configuration are the configuration. Package \<^verbatim>\<open>net/url\<close> is the record \<open>U\<close>,
  \<^verbatim>\<open>regexp.Compile\<close> the argument \<open>rx\<close>.
\<close>

subsection \<open>Configuration\<close>

record HTTPRouteUpstream =
  hu_URL :: string
  hu_HTTPInstance :: string
  hu_AddHeaders :: "string gomap"
  hu_StripHeaders :: "string list"

record HTTPRoutePolicy =
  hp_Name :: string
  hp_Type :: string
  hp_Config :: DefaultMap

record HTTPRoute =
  hr_Name :: string
  hr_URIs :: "string list"
  hr_Methods :: "string list"
  hr_Upstream :: string
  hr_HTTPInstance :: string
  hr_Rewrite :: string
  hr_Policies :: "HTTPRoutePolicy list"
  hr_Metadata :: DefaultMap
  hr_AddHeaders :: "string gomap"
  hr_StripHeaders :: "string list"

record HTTPRouteTableConfig =
  hc_DefaultHTTPInstance :: string
  hc_Upstreams :: "HTTPRouteUpstream gomap"
  hc_Routes :: "HTTPRoute list"
  hc_AddHeaders :: "string gomap"
  hc_StripHeaders :: "string list"

definition policy_key :: "HTTPRoutePolicy \<Rightarrow> string" where
  "policy_key p = (let v = TrimSpace (hp_Type p) in if v \<noteq> '''' then v else TrimSpace (hp_Name p))"

record HTTPRouteMatch =
  hm_Route :: HTTPRoute
  hm_Upstream :: HTTPRouteUpstream
  hm_Params :: "string gomap"
  hm_Wildcard :: string
  hm_RequestPath :: string
  hm_RequestURI :: string
  hm_HTTPInstance :: string
  hm_Metadata :: DefaultMap

subsection \<open>The compiled tree\<close>

datatype pathToken = PathLiteral string | PathParam string | PathWildcard | PathRest

record compiledHTTPRouteGroup =
  gr_route :: HTTPRoute
  gr_upstream :: HTTPRouteUpstream
  gr_methods :: "string list"

record compiledHTTPRouteRef =
  rf_groupIndex :: nat
  rf_order :: nat
  rf_uriOrder :: nat
  rf_pattern :: string
  rf_paramNames :: "string list"

text \<open>A path node has its literal children, the three special children, the routes that end here by method
  and the earliest route of the subtree.\<close>

datatype compiledHTTPPathNode = PathNode
  (pn_literals: "(string \<times> compiledHTTPPathNode) list")
  (pn_param: "compiledHTTPPathNode option")
  (pn_wildcard: "compiledHTTPPathNode option")
  (pn_rest: "compiledHTTPPathNode option")
  (pn_byMethod: "(string \<times> compiledHTTPRouteRef list) list")
  (pn_minRef: "compiledHTTPRouteRef option")

definition empty_path :: compiledHTTPPathNode where
  "empty_path = PathNode [] None None None [] None"

datatype compiledHTTPHostNode = HostNode
  (hn_children: "(string \<times> compiledHTTPHostNode) list")
  (hn_exact: "compiledHTTPPathNode option")
  (hn_wildcard: "compiledHTTPPathNode option")

definition empty_host :: compiledHTTPHostNode where
  "empty_host = HostNode [] None None"

record compiledHTTPSchemeNode =
  sn_hosts :: compiledHTTPHostNode
  sn_anyHost :: "compiledHTTPPathNode option"

definition empty_scheme :: compiledHTTPSchemeNode where
  "empty_scheme = \<lparr>sn_hosts = empty_host, sn_anyHost = None\<rparr>"

record compiledHTTPRouteTree =
  tr_schemes :: "compiledHTTPSchemeNode gomap"
  tr_anyScheme :: "compiledHTTPSchemeNode option"

record HTTPRouteTable =
  rt_config :: HTTPRouteTableConfig
  rt_tree :: compiledHTTPRouteTree
  rt_groups :: "compiledHTTPRouteGroup list"

record compiledHTTPPathMatch =
  bm_ref :: "compiledHTTPRouteRef option"
  bm_captures :: "string list"
  bm_wildcard :: string

subsection \<open>Strings\<close>

definition normalizeHTTPRouteHost :: "string \<Rightarrow> string" where
  "normalizeHTTPRouteHost host0 =
     (let host = ToLower (TrimSpace host0) in
      if host = '''' then ''''
      else (case SplitHostPort host of Some (withoutPort, _) \<Rightarrow> withoutPort | None \<Rightarrow> host))"

definition cleanHTTPRoutePath :: "string \<Rightarrow> string" where
  "cleanHTTPRoutePath path0 =
     (let path = TrimSpace path0 in
      if path = '''' then ''/'' else if \<not> HasPrefix path ''/'' then ''/'' @ path else path)"

definition splitHTTPRoutePath :: "string \<Rightarrow> string list" where
  "splitHTTPRoutePath path =
     (let p = Trim (cleanHTTPRoutePath path) (CHR ''/'') in if p = '''' then [] else Split p (CHR ''/''))"

definition splitHTTPRouteHost :: "string \<Rightarrow> string list" where
  "splitHTTPRouteHost host =
     (let h = Trim (normalizeHTTPRouteHost host) (CHR ''.'') in if h = '''' then [] else Split h (CHR ''.''))"

definition dedupe_step :: "string \<Rightarrow> string list \<Rightarrow> string list" where
  "dedupe_step v result = (let w = TrimSpace v in if w = '''' \<or> w \<in> set result then result else result @ [w])"

definition dedupeHTTPRouteStrings :: "string list \<Rightarrow> string list" where
  "dedupeHTTPRouteStrings vs = fold dedupe_step vs []"

text \<open>The loop of \<open>normalizeHTTPRouteMethods\<close>; \<open>None\<close> is its early return for a method \<^verbatim>\<open>*\<close>.\<close>

fun collect_methods :: "string list \<Rightarrow> string list \<Rightarrow> string list option" where
  "collect_methods [] result = Some result"
| "collect_methods (m # ms) result =
     (let w = ToUpper (TrimSpace m) in
      if w = '''' then collect_methods ms result
      else if w = ''*'' then None
      else collect_methods ms (if w \<in> set result then result else result @ [w]))"

definition normalizeHTTPRouteMethods :: "string list \<Rightarrow> string list" where
  "normalizeHTTPRouteMethods methods =
     (case collect_methods methods [] of None \<Rightarrow> [''*''] | Some [] \<Rightarrow> [''*''] | Some ms \<Rightarrow> ms)"

fun firstNonEmpty :: "string list \<Rightarrow> string" where
  "firstNonEmpty [] = ''''"
| "firstNonEmpty (v # vs) = (if TrimSpace v \<noteq> '''' then v else firstNonEmpty vs)"

text \<open>The expression \<^verbatim>\<open>^[a-z][a-z0-9+.-]*$\<close>.\<close>

definition scheme_ok :: "string \<Rightarrow> bool" where
  "scheme_ok s =
     (let low = (\<lambda>c. (97::nat) \<le> of_char c \<and> of_char c \<le> (122::nat));
          more = (\<lambda>c. low c \<or> ((48::nat) \<le> of_char c \<and> of_char c \<le> (57::nat)) \<or> c \<in> set ''+.-'')
      in case s of [] \<Rightarrow> False | c # cs \<Rightarrow> low c \<and> list_all more cs)"

definition parseHTTPRouteURIPattern :: "string \<Rightarrow> (string \<times> string \<times> string) res" where
  "parseHTTPRouteURIPattern pattern0 =
     (let pattern = TrimSpace pattern0 in
      case Index pattern ''://'' of
        None \<Rightarrow> Inl (ErrText ''must include protocol://host/path'')
      | Some separator \<Rightarrow>
          if separator = 0 then Inl (ErrText ''must include protocol://host/path'')
          else let scheme = ToLower (TrimSpace (take separator pattern));
                   remainder = drop (separator + 3) pattern;
                   (host0, path) = (case IndexByte remainder (CHR ''/'') of
                      None \<Rightarrow> (remainder, ''/'') | Some i \<Rightarrow> (take i remainder, drop i remainder));
                   host = normalizeHTTPRouteHost host0
               in if scheme = '''' \<or> host = '''' then Inl (ErrText ''protocol and host are required'')
                  else if scheme \<noteq> ''*'' \<and> \<not> scheme_ok scheme then Inl (ErrText (''invalid protocol '' @ scheme))
                  else if list_ex (\<lambda>c. c \<in> set ''?#'') path
                  then Inl (ErrText ''query strings and fragments are not supported in route patterns'')
                  else Inr (scheme, host, cleanHTTPRoutePath path))"

subsection \<open>Compiling\<close>

definition path_token :: "string \<Rightarrow> pathToken \<times> int" where
  "path_token part =
     (if part = ''*'' then (PathWildcard, 1)
      else if HasPrefix part ''{'' \<and> HasSuffix part ''}'' \<and> 2 < length part
      then (PathParam (TrimSuffix (TrimPrefix part ''{'') ''}''), 3)
      else (PathLiteral part, 10))"

fun compile_parts :: "string list \<Rightarrow> (pathToken list \<times> int) res" where
  "compile_parts [] = Inr ([], 0)"
| "compile_parts (part # parts) =
     (if part = ''**''
      then (if parts \<noteq> [] then Inl (ErrText ''** wildcard must be the last path segment'') else Inr ([PathRest], -1))
      else bind_res (compile_parts parts) (\<lambda>(tokens, n). Inr (fst (path_token part) # tokens, snd (path_token part) + n)))"

definition compileHTTPRoutePath :: "string \<Rightarrow> (pathToken list \<times> int) res" where
  "compileHTTPRoutePath pattern = compile_parts (splitHTTPRoutePath pattern)"

fun compiledHTTPRouteRefLess :: "compiledHTTPRouteRef option \<Rightarrow> compiledHTTPRouteRef option \<Rightarrow> bool" where
  "compiledHTTPRouteRefLess left None = (left \<noteq> None)"
| "compiledHTTPRouteRefLess None (Some r) = False"
| "compiledHTTPRouteRefLess (Some l) (Some r) =
     (if rf_order l \<noteq> rf_order r then rf_order l < rf_order r else rf_uriOrder l < rf_uriOrder r)"

definition updateMinRef :: "compiledHTTPRouteRef \<Rightarrow> compiledHTTPRouteRef option \<Rightarrow> compiledHTTPRouteRef option" where
  "updateMinRef ref m = (if m = None \<or> compiledHTTPRouteRefLess (Some ref) m then Some ref else m)"

definition add_route :: "compiledHTTPRouteRef \<Rightarrow> string \<Rightarrow> compiledHTTPRouteRef list gomap \<Rightarrow> compiledHTTPRouteRef list gomap" where
  "add_route ref method b = gm_put method (or_default (gm_get b method) [] @ [ref]) b"

fun insert_tokens :: "pathToken list \<Rightarrow> string list \<Rightarrow> compiledHTTPRouteRef \<Rightarrow> compiledHTTPPathNode \<Rightarrow> compiledHTTPPathNode" where
  "insert_tokens [] methods ref (PathNode l p w r b m) =
     PathNode l p w r (fold (add_route ref) methods b) (updateMinRef ref m)"
| "insert_tokens (PathLiteral s # ts) methods ref (PathNode l p w r b m) =
     PathNode (gm_put s (insert_tokens ts methods ref (or_default (gm_get l s) empty_path)) l) p w r b (updateMinRef ref m)"
| "insert_tokens (PathParam s # ts) methods ref (PathNode l p w r b m) =
     PathNode l (Some (insert_tokens ts methods ref (or_default p empty_path))) w r b (updateMinRef ref m)"
| "insert_tokens (PathWildcard # ts) methods ref (PathNode l p w r b m) =
     PathNode l p (Some (insert_tokens ts methods ref (or_default w empty_path))) r b (updateMinRef ref m)"
| "insert_tokens (PathRest # ts) methods ref (PathNode l p w r b m) =
     PathNode l p w (Some (insert_tokens ts methods ref (or_default r empty_path))) b (updateMinRef ref m)"

text \<open>The nodes hold a pointer to the reference, whose parameter names are appended while the tokens
  are inserted; every node sees the final names.\<close>

fun param_names :: "pathToken list \<Rightarrow> string list" where
  "param_names [] = []"
| "param_names (PathParam s # ts) = s # param_names ts"
| "param_names (_ # ts) = param_names ts"

definition insert_path :: "pathToken list \<Rightarrow> string list \<Rightarrow> compiledHTTPRouteRef \<Rightarrow> compiledHTTPPathNode \<Rightarrow> compiledHTTPPathNode" where
  "insert_path tokens methods ref node =
     insert_tokens tokens methods (ref\<lparr>rf_paramNames := rf_paramNames ref @ param_names tokens\<rparr>) node"

text \<open>\<open>pathForHost\<close> and \<open>schemeFor\<close> return a node to change; \<open>f\<close> is the change. Labels come last first.\<close>

fun at_labels :: "string list \<Rightarrow> bool \<Rightarrow> (compiledHTTPPathNode \<Rightarrow> compiledHTTPPathNode) \<Rightarrow> compiledHTTPHostNode \<Rightarrow> compiledHTTPHostNode" where
  "at_labels [] wildcard f (HostNode cs e w) =
     (if wildcard then HostNode cs e (Some (f (or_default w empty_path)))
      else HostNode cs (Some (f (or_default e empty_path))) w)"
| "at_labels (l # ls) wildcard f (HostNode cs e w) =
     HostNode (gm_put l (at_labels ls wildcard f (or_default (gm_get cs l) empty_host)) cs) e w"

definition pathForHost :: "string \<Rightarrow> (compiledHTTPPathNode \<Rightarrow> compiledHTTPPathNode) \<Rightarrow> compiledHTTPSchemeNode \<Rightarrow> compiledHTTPSchemeNode" where
  "pathForHost host f scheme =
     (if host = ''*'' then scheme\<lparr>sn_anyHost := Some (f (or_default (sn_anyHost scheme) empty_path))\<rparr>
      else let wildcard = HasPrefix host ''*.'' in
           scheme\<lparr>sn_hosts := at_labels (rev (splitHTTPRouteHost (if wildcard then TrimPrefix host ''*.'' else host)))
                     wildcard f (sn_hosts scheme)\<rparr>)"

definition schemeFor :: "string \<Rightarrow> (compiledHTTPSchemeNode \<Rightarrow> compiledHTTPSchemeNode) \<Rightarrow> compiledHTTPRouteTree \<Rightarrow> compiledHTTPRouteTree" where
  "schemeFor scheme f tree =
     (if scheme = ''*'' then tree\<lparr>tr_anyScheme := Some (f (or_default (tr_anyScheme tree) empty_scheme))\<rparr>
      else tree\<lparr>tr_schemes := gm_put scheme (f (or_default (gm_get (tr_schemes tree) scheme) empty_scheme)) (tr_schemes tree)\<rparr>)"

fun compile_uris :: "string \<Rightarrow> nat \<Rightarrow> nat \<Rightarrow> string list \<Rightarrow> nat \<Rightarrow> string list \<Rightarrow> compiledHTTPRouteTree \<Rightarrow> compiledHTTPRouteTree res" where
  "compile_uris name groupIndex order methods uriOrder [] tree = Inr tree"
| "compile_uris name groupIndex order methods uriOrder (pattern # rest) tree =
     (let fail = (\<lambda>e. Inl (ErrWrap (''route '' @ name @ '' uri '' @ pattern) e)) in
      case parseHTTPRouteURIPattern pattern of
        Inl e \<Rightarrow> fail e
      | Inr (scheme, host, path) \<Rightarrow>
          (case compileHTTPRoutePath path of
             Inl e \<Rightarrow> fail e
           | Inr (tokens, _) \<Rightarrow>
               let ref = \<lparr>rf_groupIndex = groupIndex, rf_order = order, rf_uriOrder = uriOrder, rf_pattern = pattern,
                          rf_paramNames = []\<rparr>
               in compile_uris name groupIndex order methods (Suc uriOrder) rest
                    (schemeFor scheme (pathForHost host (insert_path tokens methods ref)) tree)))"

subsection \<open>URLs\<close>

record 'u url_lib =
  ul_parse :: "string \<Rightarrow> 'u res"
  ul_scheme :: "'u \<Rightarrow> string"
  ul_host :: "'u \<Rightarrow> string"
  ul_path :: "'u \<Rightarrow> string"
  ul_escaped_path :: "'u \<Rightarrow> string"
  ul_set_path :: "string \<Rightarrow> 'u \<Rightarrow> 'u"
  ul_set_query :: "string \<Rightarrow> 'u \<Rightarrow> 'u"
  ul_set_fragment :: "string \<Rightarrow> 'u \<Rightarrow> 'u"
  ul_string :: "'u \<Rightarrow> string"

definition looksLikeURL :: "'u url_lib \<Rightarrow> string \<Rightarrow> bool" where
  "looksLikeURL U v =
     (case ul_parse U (TrimSpace v) of Inl _ \<Rightarrow> False | Inr u \<Rightarrow> ul_scheme U u \<noteq> '''' \<and> ul_host U u \<noteq> '''')"

definition no_upstream :: HTTPRouteUpstream where
  "no_upstream = \<lparr>hu_URL = '''', hu_HTTPInstance = '''', hu_AddHeaders = [], hu_StripHeaders = []\<rparr>"

definition route_upstream :: "HTTPRouteTableConfig \<Rightarrow> HTTPRoute \<Rightarrow> HTTPRouteUpstream" where
  "route_upstream config route =
     (let upstream = or_default (gm_get (hc_Upstreams config) (hr_Upstream route)) no_upstream
      in if hu_URL upstream = '''' then upstream\<lparr>hu_URL := hr_Upstream route\<rparr> else upstream)"

definition compileRoute :: "'u url_lib \<Rightarrow> HTTPRoute \<Rightarrow> nat \<Rightarrow> HTTPRouteTable \<Rightarrow> HTTPRouteTable res" where
  "compileRoute U route order table =
     (if TrimSpace (hr_Name route) = '''' then Inl (ErrText ''route name is required'')
      else let upstream = or_default (gm_get (hc_Upstreams (rt_config table)) (hr_Upstream route)) no_upstream in
           if hu_URL upstream = '''' \<and> hr_Upstream route \<noteq> '''' \<and> \<not> looksLikeURL U (hr_Upstream route)
           then Inl (ErrText (''route '' @ hr_Name route @ '' references unknown upstream '' @ hr_Upstream route))
           else let uris = dedupeHTTPRouteStrings (hr_URIs route) in
                if uris = [] then Inl (ErrText (''route '' @ hr_Name route @ '' uris is required''))
                else let methods = normalizeHTTPRouteMethods (hr_Methods route);
                         group = \<lparr>gr_route = route, gr_upstream = route_upstream (rt_config table) route, gr_methods = methods\<rparr>
                     in bind_res (compile_uris (hr_Name route) (length (rt_groups table)) order methods 0 uris (rt_tree table))
                          (\<lambda>tree. Inr (table\<lparr>rt_groups := rt_groups table @ [group], rt_tree := tree\<rparr>)))"

fun compile_routes :: "'u url_lib \<Rightarrow> nat \<Rightarrow> HTTPRoute list \<Rightarrow> HTTPRouteTable \<Rightarrow> HTTPRouteTable res" where
  "compile_routes U index [] table = Inr table"
| "compile_routes U index (route # routes) table =
     bind_res (compileRoute U route index table) (compile_routes U (Suc index) routes)"

definition NewHTTPRouteTable :: "'u url_lib \<Rightarrow> HTTPRouteTableConfig option \<Rightarrow> HTTPRouteTable res" where
  "NewHTTPRouteTable U config =
     (let c = or_default config \<lparr>hc_DefaultHTTPInstance = '''', hc_Upstreams = [], hc_Routes = [], hc_AddHeaders = [], hc_StripHeaders = []\<rparr>
      in compile_routes U 0 (hc_Routes c) \<lparr>rt_config = c, rt_tree = \<lparr>tr_schemes = [], tr_anyScheme = None\<rparr>, rt_groups = []\<rparr>)"

subsection \<open>Matching\<close>

definition selectMatch :: "compiledHTTPRouteRef list gomap \<Rightarrow> string \<Rightarrow> string list \<Rightarrow> string \<Rightarrow> compiledHTTPPathMatch
    \<Rightarrow> compiledHTTPPathMatch" where
  "selectMatch byMethod method captures wildcard best =
     (let first = (\<lambda>m. case or_default (gm_get byMethod m) [] of [] \<Rightarrow> None | r # _ \<Rightarrow> Some r);
          own = first method;
          candidate = (if method \<noteq> ''*'' \<and> first ''*'' \<noteq> None \<and> compiledHTTPRouteRefLess (first ''*'') own then first ''*'' else own)
      in if candidate = None \<or> (bm_ref best \<noteq> None \<and> \<not> compiledHTTPRouteRefLess candidate (bm_ref best)) then best
         else \<lparr>bm_ref = candidate, bm_captures = captures, bm_wildcard = wildcard\<rparr>)"

definition skip_node :: "compiledHTTPPathNode \<Rightarrow> compiledHTTPPathMatch \<Rightarrow> bool" where
  "skip_node node best \<longleftrightarrow> bm_ref best \<noteq> None \<and> \<not> compiledHTTPRouteRefLess (pn_minRef node) (bm_ref best)"

text \<open>\<open>match\<close> of a path node; the list is what is left of the path from \<open>index\<close> on.\<close>

fun match_path :: "compiledHTTPPathNode \<Rightarrow> string list \<Rightarrow> string \<Rightarrow> string list \<Rightarrow> string \<Rightarrow> compiledHTTPPathMatch
    \<Rightarrow> compiledHTTPPathMatch" where
  "match_path node [] method captures wildcard best =
     (if skip_node node best then best
      else let b1 = selectMatch (pn_byMethod node) method captures wildcard best
           in (case pn_rest node of None \<Rightarrow> b1 | Some r \<Rightarrow> selectMatch (pn_byMethod r) method captures '''' b1))"
| "match_path node (part # parts) method captures wildcard best =
     (if skip_node node best then best
      else let b1 = (case gm_get (pn_literals node) part of None \<Rightarrow> best
                     | Some child \<Rightarrow> match_path child parts method captures wildcard best);
               b2 = (case pn_param node of None \<Rightarrow> b1
                     | Some child \<Rightarrow> match_path child parts method (captures @ [part]) wildcard b1);
               b3 = (case pn_wildcard node of None \<Rightarrow> b2
                     | Some child \<Rightarrow> match_path child parts method captures wildcard b2)
           in (case pn_rest node of None \<Rightarrow> b3
               | Some r \<Rightarrow> selectMatch (pn_byMethod r) method captures (Join (part # parts) ''/'') b3))"

fun match_labels :: "compiledHTTPHostNode \<Rightarrow> string list \<Rightarrow> string list \<Rightarrow> string \<Rightarrow> compiledHTTPPathMatch \<Rightarrow> compiledHTTPPathMatch" where
  "match_labels node [] parts method best = best"
| "match_labels node (l # ls) parts method best =
     (case gm_get (hn_children node) l of
        None \<Rightarrow> best
      | Some child \<Rightarrow>
          let b1 = (case hn_wildcard child of None \<Rightarrow> best
                    | Some n \<Rightarrow> if ls \<noteq> [] then match_path n parts method [] '''' best else best);
              b2 = (case hn_exact child of None \<Rightarrow> b1
                    | Some n \<Rightarrow> if ls = [] then match_path n parts method [] '''' b1 else b1)
          in match_labels child ls parts method b2)"

definition matchHost :: "compiledHTTPSchemeNode \<Rightarrow> string \<Rightarrow> string list \<Rightarrow> string \<Rightarrow> compiledHTTPPathMatch \<Rightarrow> compiledHTTPPathMatch" where
  "matchHost scheme host parts method best =
     (let b1 = (case sn_anyHost scheme of None \<Rightarrow> best | Some n \<Rightarrow> match_path n parts method [] '''' best)
      in match_labels (sn_hosts scheme) (rev (splitHTTPRouteHost host)) parts method b1)"

definition find_route :: "compiledHTTPRouteTree \<Rightarrow> string \<Rightarrow> string \<Rightarrow> string list \<Rightarrow> string \<Rightarrow> compiledHTTPPathMatch" where
  "find_route tree scheme host parts method =
     (let b0 = \<lparr>bm_ref = None, bm_captures = [], bm_wildcard = ''''\<rparr>;
          b1 = (case gm_get (tr_schemes tree) scheme of None \<Rightarrow> b0 | Some n \<Rightarrow> matchHost n host parts method b0)
      in case tr_anyScheme tree of None \<Rightarrow> b1 | Some n \<Rightarrow> matchHost n host parts method b1)"

text \<open>Later names win when a pattern repeats one, as in the loop that fills the map.\<close>

definition bind_params :: "string list \<Rightarrow> string list \<Rightarrow> string gomap" where
  "bind_params names captures = fold (\<lambda>(n, v) m. gm_put n v m) (zip names captures) []"

definition table_match :: "HTTPRouteTable \<Rightarrow> string \<Rightarrow> string \<Rightarrow> string \<Rightarrow> string \<Rightarrow> string \<Rightarrow> HTTPRouteMatch option" where
  "table_match table scheme0 host0 method0 path0 rawURI =
     (let scheme = ToLower (TrimSpace scheme0);
          host = normalizeHTTPRouteHost host0;
          method = ToUpper (TrimSpace method0);
          path = cleanHTTPRoutePath path0;
          best = find_route (rt_tree table) scheme host (splitHTTPRoutePath path) method
      in case bm_ref best of
           None \<Rightarrow> None
         | Some ref \<Rightarrow>
             let group = rt_groups table ! rf_groupIndex ref;
                 route = (gr_route group)\<lparr>hr_URIs := [rf_pattern ref]\<rparr>
             in Some \<lparr>hm_Route = route, hm_Upstream = gr_upstream group, hm_Params = bind_params (rf_paramNames ref) (bm_captures best),
                      hm_Wildcard = bm_wildcard best, hm_RequestPath = path, hm_RequestURI = rawURI,
                      hm_HTTPInstance = firstNonEmpty [hr_HTTPInstance route, hu_HTTPInstance (gr_upstream group),
                                                       hc_DefaultHTTPInstance (rt_config table)],
                      hm_Metadata = hr_Metadata route\<rparr>)"

text \<open>A nil table matches nothing: the check at the start of \<open>match\<close>, whose only caller is \<open>MatchURI\<close>.\<close>

definition MatchURI :: "'u url_lib \<Rightarrow> HTTPRouteTable option \<Rightarrow> string \<Rightarrow> string \<Rightarrow> HTTPRouteMatch option" where
  "MatchURI U tableo rawURI method =
     (case ul_parse U (TrimSpace rawURI) of
        Inl _ \<Rightarrow> None
      | Inr u \<Rightarrow> if ul_scheme U u = '''' \<or> ul_host U u = '''' then None
                 else (case tableo of None \<Rightarrow> None
                       | Some table \<Rightarrow> table_match table (ul_scheme U u) (ul_host U u) method (ul_escaped_path U u) (ul_string U u)))"

subsection \<open>Targets and headers\<close>

definition joinHTTPURLPath :: "string \<Rightarrow> string \<Rightarrow> string" where
  "joinHTTPURLPath base0 route0 =
     (let base = TrimRight base0 (CHR ''/''); route = TrimLeft route0 (CHR ''/'')
      in if base = '''' then ''/'' @ route else if route = '''' then base else base @ ''/'' @ route)"

definition applyHTTPRouteRewrite :: "string \<Rightarrow> HTTPRouteMatch \<Rightarrow> string" where
  "applyHTTPRouteRewrite template m =
     (let v1 = fold (\<lambda>(key, param) v. ReplaceAll v (''{'' @ key @ ''}'') param) (hm_Params m) template;
          v2 = ReplaceAll v1 ''{wildcard}'' (hm_Wildcard m);
          v3 = ReplaceAll v2 ''{path}'' (TrimPrefix (hm_RequestPath m) ''/'')
      in cleanHTTPRoutePath v3)"

definition TargetURI :: "'u url_lib \<Rightarrow> HTTPRouteTable option \<Rightarrow> HTTPRouteMatch option \<Rightarrow> string \<Rightarrow> string res" where
  "TargetURI U tableo mo rawQuery =
     (case mo of
        None \<Rightarrow> Inl (ErrText ''route match is required'')
      | Some m \<Rightarrow>
          if tableo = None then Inl (ErrText ''route match is required'')
          else let base0 = TrimSpace (hu_URL (hm_Upstream m));
              base = (if base0 = '''' then TrimSpace (hr_Upstream (hm_Route m)) else base0)
          in if base = ''''
             then (if hm_RequestURI m = '''' then Inl (ErrText ''matched route has no upstream target'')
                   else bind_res (ul_parse U (hm_RequestURI m)) (\<lambda>u. Inr (ul_string U (ul_set_query U rawQuery u))))
             else bind_res (ul_parse U base) (\<lambda>u.
                    let targetPath = (if TrimSpace (hr_Rewrite (hm_Route m)) \<noteq> ''''
                                      then applyHTTPRouteRewrite (hr_Rewrite (hm_Route m)) m else hm_RequestPath m)
                    in Inr (ul_string U (ul_set_query U rawQuery (ul_set_path U (joinHTTPURLPath (ul_path U u) targetPath) u)))))"

definition deleteHeaderCaseInsensitive :: "string \<Rightarrow> string gomap \<Rightarrow> string gomap" where
  "deleteHeaderCaseInsensitive name headers = filter (\<lambda>p. \<not> EqualFold (fst p) name) headers"

definition hopByHopHeaders :: "string list" where
  "hopByHopHeaders = [''Connection'', ''Keep-Alive'', ''Proxy-Authenticate'', ''Proxy-Authorization'', ''Te'', ''Trailer'',
     ''Transfer-Encoding'', ''Upgrade'']"

definition strip_headers :: "string list \<Rightarrow> string gomap \<Rightarrow> string gomap" where
  "strip_headers names headers = fold deleteHeaderCaseInsensitive names headers"

definition add_headers :: "string gomap \<Rightarrow> string gomap \<Rightarrow> string gomap" where
  "add_headers adds headers = fold (\<lambda>(k, v) m. gm_put k v m) adds headers"

definition joined_headers :: "string list gomap \<Rightarrow> string gomap" where
  "joined_headers hs = fold (\<lambda>(k, vs) m. if vs = [] then m else gm_put k (Join vs '', '') m) hs []"

definition RouteHeaders :: "HTTPRouteTable option \<Rightarrow> string list gomap \<Rightarrow> HTTPRouteMatch option \<Rightarrow> string gomap" where
  "RouteHeaders tableo requestHeaders mo =
     (let h0 = strip_headers hopByHopHeaders (joined_headers requestHeaders);
          h1 = (case tableo of None \<Rightarrow> h0
                | Some table \<Rightarrow> add_headers (hc_AddHeaders (rt_config table)) (strip_headers (hc_StripHeaders (rt_config table)) h0))
      in case mo of
           None \<Rightarrow> h1
         | Some m \<Rightarrow>
             let h2 = add_headers (hu_AddHeaders (hm_Upstream m)) (strip_headers (hu_StripHeaders (hm_Upstream m)) h1)
             in add_headers (hr_AddHeaders (hm_Route m)) (strip_headers (hr_StripHeaders (hm_Route m)) h2))"

subsection \<open>Policies\<close>

type_synonym 't proxy_policy = "'t JourneyTransaction \<Rightarrow> HTTPRouteMatch \<Rightarrow> HTTPRoutePolicy \<Rightarrow> 't JourneyTransaction \<times> go_error option"

definition RegisterHTTPProxyPolicy :: "string \<Rightarrow> 't proxy_policy option \<Rightarrow> 't proxy_policy gomap \<Rightarrow> 't proxy_policy gomap" where
  "RegisterHTTPProxyPolicy name policy reg =
     (case policy of None \<Rightarrow> reg
      | Some p \<Rightarrow> if TrimSpace name = '''' then reg else gm_put (TrimSpace name) p reg)"

definition httpRoutePolicyRequiredString :: "HTTPRoutePolicy \<Rightarrow> string \<Rightarrow> string res" where
  "httpRoutePolicyRequiredString policy key =
     (let v = (case gm_get (hp_Config policy) key of Some (GStr s) \<Rightarrow> TrimSpace s | _ \<Rightarrow> '''')
      in if v = '''' then Inl (ErrText (''policy '' @ policy_key policy @ '' requires config.'' @ key)) else Inr v)"

definition httpRoutePolicyRequestHeader :: "'t JourneyTransaction \<Rightarrow> string \<Rightarrow> string" where
  "httpRoutePolicyRequestHeader tx name =
     (case tx_Request tx of None \<Rightarrow> '''' | Some r \<Rightarrow> firstOrDefault (req_HeaderValues name r) [])"

definition httpRoutePolicyRequestQuery :: "'t JourneyTransaction \<Rightarrow> string \<Rightarrow> string" where
  "httpRoutePolicyRequestQuery tx name =
     (case tx_Request tx of None \<Rightarrow> '''' | Some r \<Rightarrow> firstOrDefault (req_QueryValues name r) [])"

definition httpRoutePolicyRequireEquals :: "string \<Rightarrow> string \<Rightarrow> string \<Rightarrow> string \<Rightarrow> go_error option" where
  "httpRoutePolicyRequireEquals kind name v expected =
     (if v \<noteq> expected then Some (ErrText (kind @ '' '' @ name @ '' must equal '' @ expected)) else None)"

definition httpRoutePolicyRequireMatches :: "(string \<Rightarrow> (string \<Rightarrow> bool) res) \<Rightarrow> string \<Rightarrow> string \<Rightarrow> string \<Rightarrow> string \<Rightarrow> go_error option" where
  "httpRoutePolicyRequireMatches rx kind name v pattern =
     (case rx pattern of
        Inl e \<Rightarrow> Some (ErrWrap (''invalid pattern for '' @ kind @ '' '' @ name) e)
      | Inr matches \<Rightarrow> if \<not> matches v then Some (ErrText (kind @ '' '' @ name @ '' must match '' @ pattern)) else None)"

definition present_policy :: "string \<Rightarrow> ('t JourneyTransaction \<Rightarrow> string \<Rightarrow> string) \<Rightarrow> 't proxy_policy" where
  "present_policy kind get tx m policy =
     (tx, case httpRoutePolicyRequiredString policy ''name'' of Inl e \<Rightarrow> Some e
          | Inr name \<Rightarrow> if get tx name = '''' then Some (ErrText (kind @ '' '' @ name @ '' is required'')) else None)"

definition compare_policy :: "string \<Rightarrow> (string \<Rightarrow> string \<Rightarrow> string \<Rightarrow> go_error option) \<Rightarrow> ('t JourneyTransaction \<Rightarrow> string \<Rightarrow> string)
    \<Rightarrow> 't proxy_policy" where
  "compare_policy key compare get tx m policy =
     (tx, case httpRoutePolicyRequiredString policy ''name'' of Inl e \<Rightarrow> Some e
          | Inr name \<Rightarrow>
              (case httpRoutePolicyRequiredString policy key of Inl e \<Rightarrow> Some e
               | Inr expected \<Rightarrow> compare name (get tx name) expected))"

definition registerHTTPRouteBuiltInPolicies :: "(string \<Rightarrow> (string \<Rightarrow> bool) res) \<Rightarrow> 't proxy_policy gomap \<Rightarrow> 't proxy_policy gomap" where
  "registerHTTPRouteBuiltInPolicies rx reg =
     fold (\<lambda>(n, p). RegisterHTTPProxyPolicy n (Some p))
       [(''header_present'', present_policy ''header'' httpRoutePolicyRequestHeader),
        (''header_equals'', compare_policy ''value'' (httpRoutePolicyRequireEquals ''header'') httpRoutePolicyRequestHeader),
        (''header_matches'', compare_policy ''pattern'' (httpRoutePolicyRequireMatches rx ''header'') httpRoutePolicyRequestHeader),
        (''query_present'', present_policy ''query parameter'' httpRoutePolicyRequestQuery),
        (''query_equals'', compare_policy ''value'' (httpRoutePolicyRequireEquals ''query parameter'') httpRoutePolicyRequestQuery),
        (''query_matches'', compare_policy ''pattern'' (httpRoutePolicyRequireMatches rx ''query parameter'') httpRoutePolicyRequestQuery)]
       reg"

fun evaluate_policies :: "'t proxy_policy gomap \<Rightarrow> HTTPRouteMatch \<Rightarrow> HTTPRoutePolicy list \<Rightarrow> 't JourneyTransaction
    \<Rightarrow> 't JourneyTransaction \<times> go_error option" where
  "evaluate_policies reg m [] tx = (tx, None)"
| "evaluate_policies reg m (p # ps) tx =
     (let name = policy_key p in
      if name = '''' then evaluate_policies reg m ps tx
      else (case gm_get reg name of
              None \<Rightarrow> (tx, Some (ErrText (''HTTP proxy policy '' @ name @ '' is not registered'')))
            | Some policy \<Rightarrow>
                (case policy tx m p of (tx', Some e) \<Rightarrow> (tx', Some e) | (tx', None) \<Rightarrow> evaluate_policies reg m ps tx')))"

definition EvaluatePolicies :: "'t proxy_policy gomap \<Rightarrow> HTTPRouteMatch option \<Rightarrow> 't JourneyTransaction
    \<Rightarrow> 't JourneyTransaction \<times> go_error option" where
  "EvaluatePolicies reg mo tx =
     (case mo of None \<Rightarrow> (tx, None) | Some m \<Rightarrow> evaluate_policies reg m (hr_Policies (hm_Route m)) tx)"

end
