(* ===== verification/RouteTableFacts.thy ===== *)
theory RouteTableFacts
  imports RouteTable "HOL-Library.Product_Lexorder"
begin

text \<open>
  The compiled route tree finds what a scan of the configuration would find: the first URI pattern
  in configuration order that matches protocol, host, path and method. Also what reaches an
  upstream: the forwarded headers and the policies that were evaluated.
\<close>

subsection \<open>Order of routes\<close>

definition ref_key :: "compiledHTTPRouteRef \<Rightarrow> nat \<times> nat" where
  "ref_key r = (rf_order r, rf_uriOrder r)"

lemma RefLess_iff [simp]: "compiledHTTPRouteRefLess (Some l) (Some r) \<longleftrightarrow> ref_key l < ref_key r"
  by (auto simp: ref_key_def less_prod_def)

declare compiledHTTPRouteRefLess.simps(3) [simp del]

lemma updateMinRef_le: "\<exists>x. updateMinRef ref m = Some x \<and> ref_key x \<le> ref_key ref \<and> (\<forall>y. m = Some y \<longrightarrow> ref_key x \<le> ref_key y)"
  by (cases m) (auto simp: updateMinRef_def not_less)

subsection \<open>The routes at a path\<close>

fun shape :: "pathToken \<Rightarrow> pathToken" where
  "shape (PathParam s) = PathParam ''''"
| "shape t = t"

fun routes_at :: "compiledHTTPPathNode \<Rightarrow> pathToken list \<Rightarrow> string \<Rightarrow> compiledHTTPRouteRef list" where
  "routes_at n [] m = or_default (gm_get (pn_byMethod n) m) []"
| "routes_at n (PathLiteral s # ts) m = (case gm_get (pn_literals n) s of None \<Rightarrow> [] | Some c \<Rightarrow> routes_at c ts m)"
| "routes_at n (PathParam s # ts) m = (case pn_param n of None \<Rightarrow> [] | Some c \<Rightarrow> routes_at c ts m)"
| "routes_at n (PathWildcard # ts) m = (case pn_wildcard n of None \<Rightarrow> [] | Some c \<Rightarrow> routes_at c ts m)"
| "routes_at n (PathRest # ts) m = (case pn_rest n of None \<Rightarrow> [] | Some c \<Rightarrow> routes_at c ts m)"

lemma routes_at_empty [simp]: "routes_at empty_path ts m = []"
  by (cases "(empty_path, ts, m)" rule: routes_at.cases) (auto simp: empty_path_def)

lemma fold_add_route:
  "distinct ms \<Longrightarrow> or_default (gm_get (fold (add_route r) ms b) m) [] = or_default (gm_get b m) [] @ (if m \<in> set ms then [r] else [])"
  by (induction ms arbitrary: b) (auto simp: add_route_def)

lemma routes_at_insert:
  "distinct ms \<Longrightarrow> routes_at (insert_tokens ts ms r n) us m =
     routes_at n us m @ (if map shape us = map shape ts \<and> m \<in> set ms then [r] else [])"
proof (induction ts ms r n arbitrary: us rule: insert_tokens.induct)
  case (1 ms ref l p w r b m)
  then show ?case by (cases us; cases "hd us") (auto simp: fold_add_route)
next
  case (2 s ts ms ref l p w r b m)
  then show ?case by (cases us; cases "hd us") (auto split: option.splits)
next
  case (3 s ts ms ref l p w r b m)
  then show ?case by (cases us; cases "hd us") (auto split: option.splits)
next
  case (4 ts ms ref l p w r b m)
  then show ?case by (cases us; cases "hd us") (auto split: option.splits)
next
  case (5 ts ms ref l p w r b m)
  then show ?case by (cases us; cases "hd us") (auto split: option.splits)
qed

subsection \<open>Invariants of a path tree\<close>

definition min_ok :: "compiledHTTPPathNode \<Rightarrow> bool" where
  "min_ok n \<longleftrightarrow> (\<forall>us m r. r \<in> set (routes_at n us m) \<longrightarrow> (\<exists>x. pn_minRef n = Some x \<and> ref_key x \<le> ref_key r))"

inductive tree_ok :: "compiledHTTPPathNode \<Rightarrow> bool" where
  "min_ok n \<Longrightarrow> (\<And>s c. gm_get (pn_literals n) s = Some c \<Longrightarrow> tree_ok c) \<Longrightarrow> (\<And>c. pn_param n = Some c \<Longrightarrow> tree_ok c) \<Longrightarrow>
   (\<And>c. pn_wildcard n = Some c \<Longrightarrow> tree_ok c) \<Longrightarrow> (\<And>c. pn_rest n = Some c \<Longrightarrow> tree_ok c) \<Longrightarrow> tree_ok n"

inductive_cases tree_okE: "tree_ok n"

lemma tree_ok_empty [simp]: "tree_ok empty_path"
  by (rule tree_ok.intros) (auto simp: min_ok_def, auto simp: empty_path_def)

lemma min_ok_insert:
  assumes "min_ok n" and "distinct ms"
  shows "min_ok (insert_tokens ts ms r n)"
proof -
  have m: "pn_minRef (insert_tokens ts ms r n) = updateMinRef r (pn_minRef n)"
    by (cases "(ts, ms, r, n)" rule: insert_tokens.cases) auto
  show ?thesis unfolding min_ok_def m
  proof (intro allI impI)
    fix us me x assume "x \<in> set (routes_at (insert_tokens ts ms r n) us me)"
    then consider "x = r" | "x \<in> set (routes_at n us me)" by (auto simp: routes_at_insert [OF assms(2)] split: if_splits)
    then show "\<exists>y. updateMinRef r (pn_minRef n) = Some y \<and> ref_key y \<le> ref_key x"
    proof cases
      case 1
      then show ?thesis using updateMinRef_le [of r "pn_minRef n"] by auto
    next
      case 2
      then obtain y where "pn_minRef n = Some y" "ref_key y \<le> ref_key x" using assms(1) unfolding min_ok_def by blast
      then show ?thesis using updateMinRef_le [of r "pn_minRef n"] by force
    qed
  qed
qed

lemma tree_ok_insert: "tree_ok n \<Longrightarrow> distinct ms \<Longrightarrow> tree_ok (insert_tokens ts ms r n)"
proof (induction ts ms r n rule: insert_tokens.induct)
  case (1 ms ref l p w r b m)
  from 1(1) show ?case by (rule tree_okE) (rule tree_ok.intros, auto dest: min_ok_insert [OF _ 1(2), where ts = "[]" and r = ref])
next
  case (2 s ts ms ref l p w r b m)
  have mi: "min_ok (insert_tokens (PathLiteral s # ts) ms ref (PathNode l p w r b m))"
    using 2(2) by (rule tree_okE) (rule min_ok_insert [OF _ 2(3)])
  have "tree_ok (or_default (gm_get l s) empty_path)" using 2(2) by (rule tree_okE) (cases "gm_get l s"; simp)
  with 2 have c: "tree_ok (insert_tokens ts ms ref (or_default (gm_get l s) empty_path))" by blast
  from 2(2) show ?case by (rule tree_okE) (rule tree_ok.intros [OF mi], auto simp: c split: if_splits)
next
  case (3 s ts ms ref l p w r b m)
  have mi: "min_ok (insert_tokens (PathParam s # ts) ms ref (PathNode l p w r b m))"
    using 3(2) by (rule tree_okE) (rule min_ok_insert [OF _ 3(3)])
  have "tree_ok (or_default p empty_path)" using 3(2) by (rule tree_okE) (cases p; simp)
  with 3 have c: "tree_ok (insert_tokens ts ms ref (or_default p empty_path))" by blast
  from 3(2) show ?case by (rule tree_okE) (rule tree_ok.intros [OF mi], auto simp: c)
next
  case (4 ts ms ref l p w r b m)
  have mi: "min_ok (insert_tokens (PathWildcard # ts) ms ref (PathNode l p w r b m))"
    using 4(2) by (rule tree_okE) (rule min_ok_insert [OF _ 4(3)])
  have "tree_ok (or_default w empty_path)" using 4(2) by (rule tree_okE) (cases w; simp)
  with 4 have c: "tree_ok (insert_tokens ts ms ref (or_default w empty_path))" by blast
  from 4(2) show ?case by (rule tree_okE) (rule tree_ok.intros [OF mi], auto simp: c)
next
  case (5 ts ms ref l p w r b m)
  have mi: "min_ok (insert_tokens (PathRest # ts) ms ref (PathNode l p w r b m))"
    using 5(2) by (rule tree_okE) (rule min_ok_insert [OF _ 5(3)])
  have "tree_ok (or_default r empty_path)" using 5(2) by (rule tree_okE) (cases r; simp)
  with 5 have c: "tree_ok (insert_tokens ts ms ref (or_default r empty_path))" by blast
  from 5(2) show ?case by (rule tree_okE) (rule tree_ok.intros [OF mi], auto simp: c)
qed

definition sorted_ok :: "compiledHTTPPathNode \<Rightarrow> bool" where
  "sorted_ok n \<longleftrightarrow> (\<forall>us m. sorted (map ref_key (routes_at n us m)))"

lemma sorted_ok_child:
  assumes "sorted_ok n"
  shows "gm_get (pn_literals n) s = Some c \<Longrightarrow> sorted_ok c" "pn_param n = Some c \<Longrightarrow> sorted_ok c"
    "pn_wildcard n = Some c \<Longrightarrow> sorted_ok c" "pn_rest n = Some c \<Longrightarrow> sorted_ok c"
proof -
  have "sorted (map ref_key (routes_at n (t # us) m))" for t us m using assms by (simp add: sorted_ok_def)
  from this [of "PathLiteral s"] this [of "PathParam []"] this [of PathWildcard] this [of PathRest]
  show "gm_get (pn_literals n) s = Some c \<Longrightarrow> sorted_ok c" "pn_param n = Some c \<Longrightarrow> sorted_ok c"
    "pn_wildcard n = Some c \<Longrightarrow> sorted_ok c" "pn_rest n = Some c \<Longrightarrow> sorted_ok c"
    by (simp_all add: sorted_ok_def)
qed

lemma sorted_ok_insert:
  assumes "sorted_ok n" "distinct ms" "\<And>us m x. x \<in> set (routes_at n us m) \<Longrightarrow> ref_key x \<le> ref_key r"
  shows "sorted_ok (insert_tokens ts ms r n)"
  using assms by (auto simp: sorted_ok_def routes_at_insert sorted_append)

subsection \<open>Matching a path\<close>

text \<open>What a pattern means: the captured segments and the rest of the path, when it matches.\<close>

fun path_matches :: "pathToken list \<Rightarrow> string list \<Rightarrow> (string list \<times> string) option" where
  "path_matches [] parts = (if parts = [] then Some ([], '''') else None)"
| "path_matches (PathRest # ts) parts = (if ts = [] then Some ([], Join parts ''/'') else None)"
| "path_matches (t # ts) [] = None"
| "path_matches (PathLiteral s # ts) (p # ps) = (if s = p then path_matches ts ps else None)"
| "path_matches (PathParam s # ts) (p # ps) = map_option (\<lambda>(c, w). (p # c, w)) (path_matches ts ps)"
| "path_matches (PathWildcard # ts) (p # ps) = path_matches ts ps"

lemma path_matches_shape: "map shape ts = map shape us \<Longrightarrow> path_matches ts ps = path_matches us ps"
proof (induction ts arbitrary: us ps)
  case (Cons t ts)
  then obtain u us' where u: "us = u # us'" "shape t = shape u" "map shape ts = map shape us'" by (cases us) auto
  then have "ts = [] \<longleftrightarrow> us' = []" by (metis map_is_Nil_conv)
  then show ?case using Cons.IH [OF u(3)] u(1,2) by (cases ps; cases t; cases u) auto
qed simp

type_synonym hit = "compiledHTTPRouteRef \<times> string list \<times> string"

definition method_routes :: "compiledHTTPPathNode \<Rightarrow> pathToken list \<Rightarrow> string \<Rightarrow> compiledHTTPRouteRef set" where
  "method_routes n us method = set (routes_at n us method) \<union> set (routes_at n us ''*'')"

definition hits :: "compiledHTTPPathNode \<Rightarrow> string list \<Rightarrow> string \<Rightarrow> string list \<Rightarrow> hit set" where
  "hits n parts method captures =
     {(r, captures @ c, w) | r c w. \<exists>us. r \<in> method_routes n us method \<and> path_matches us parts = Some (c, w)}"

definition child_hits :: "compiledHTTPPathNode option \<Rightarrow> string list \<Rightarrow> string \<Rightarrow> string list \<Rightarrow> hit set" where
  "child_hits c parts method captures = (case c of None \<Rightarrow> {} | Some n \<Rightarrow> hits n parts method captures)"

definition rest_hits :: "compiledHTTPPathNode option \<Rightarrow> string list \<Rightarrow> string \<Rightarrow> string list \<Rightarrow> hit set" where
  "rest_hits c parts method captures =
     (case c of None \<Rightarrow> {} | Some n \<Rightarrow> (\<lambda>r. (r, captures, Join parts ''/'')) ` method_routes n [] method)"

lemma method_routes_Cons:
  "method_routes n (PathLiteral s # ts) m = (case gm_get (pn_literals n) s of None \<Rightarrow> {} | Some c \<Rightarrow> method_routes c ts m)"
  "method_routes n (PathParam s # ts) m = (case pn_param n of None \<Rightarrow> {} | Some c \<Rightarrow> method_routes c ts m)"
  "method_routes n (PathWildcard # ts) m = (case pn_wildcard n of None \<Rightarrow> {} | Some c \<Rightarrow> method_routes c ts m)"
  "method_routes n (PathRest # ts) m = (case pn_rest n of None \<Rightarrow> {} | Some c \<Rightarrow> method_routes c ts m)"
  by (auto simp: method_routes_def split: option.splits)

lemma mem_hits:
  "(r, c, w) \<in> hits n parts method captures \<longleftrightarrow>
     (\<exists>us c'. r \<in> method_routes n us method \<and> path_matches us parts = Some (c', w) \<and> c = captures @ c')"
  by (auto simp: hits_def)

lemma mem_child_hits: "x \<in> child_hits c parts method captures \<longleftrightarrow> (\<exists>n. c = Some n \<and> x \<in> hits n parts method captures)"
  by (auto simp: child_hits_def split: option.splits)

lemma mem_rest_hits:
  "(r, c, w) \<in> rest_hits n parts method captures \<longleftrightarrow>
     (\<exists>n'. n = Some n' \<and> r \<in> method_routes n' [] method) \<and> c = captures \<and> w = Join parts ''/''"
  by (auto simp: rest_hits_def split: option.splits)

lemma hits_Nil:
  "hits n [] method captures = (\<lambda>r. (r, captures, '''')) ` method_routes n [] method \<union> rest_hits (pn_rest n) [] method captures"
  (is "_ = ?A")
proof -
  have m: "path_matches us [] = Some (c, w) \<longleftrightarrow> (us = [] \<or> us = [PathRest]) \<and> c = [] \<and> w = ''''" for us c w
    by (cases "(us, [] :: string list)" rule: path_matches.cases) auto
  have "(r, c, w) \<in> hits n [] method captures \<longleftrightarrow> (r, c, w) \<in> ?A" for r c w
  proof -
    have "(r, c, w) \<in> hits n [] method captures \<longleftrightarrow>
        (r \<in> method_routes n [] method \<or> r \<in> method_routes n [PathRest] method) \<and> c = captures \<and> w = ''''"
      unfolding mem_hits m by auto
    then show ?thesis by (auto simp: mem_rest_hits method_routes_Cons split: option.splits)
  qed
  then show ?thesis by auto
qed

lemma path_matches_Cons:
  "path_matches us (p # ps) = Some (c, w) \<longleftrightarrow>
     (us = [PathRest] \<and> c = [] \<and> w = Join (p # ps) ''/'') \<or> (\<exists>ts. us = PathLiteral p # ts \<and> path_matches ts ps = Some (c, w)) \<or>
     (\<exists>s ts c'. us = PathParam s # ts \<and> c = p # c' \<and> path_matches ts ps = Some (c', w)) \<or>
     (\<exists>ts. us = PathWildcard # ts \<and> path_matches ts ps = Some (c, w))"
  by (cases "(us, p # ps)" rule: path_matches.cases) auto

lemma child_hits_routes:
  "(r, c, w) \<in> child_hits (gm_get (pn_literals n) s) ps m captures \<longleftrightarrow>
     (\<exists>ts c'. r \<in> method_routes n (PathLiteral s # ts) m \<and> path_matches ts ps = Some (c', w) \<and> c = captures @ c')"
  "(r, c, w) \<in> child_hits (pn_param n) ps m captures \<longleftrightarrow>
     (\<exists>ts c'. r \<in> method_routes n (PathParam q # ts) m \<and> path_matches ts ps = Some (c', w) \<and> c = captures @ c')"
  "(r, c, w) \<in> child_hits (pn_wildcard n) ps m captures \<longleftrightarrow>
     (\<exists>ts c'. r \<in> method_routes n (PathWildcard # ts) m \<and> path_matches ts ps = Some (c', w) \<and> c = captures @ c')"
  "(r, c, w) \<in> rest_hits (pn_rest n) ps m captures \<longleftrightarrow> r \<in> method_routes n [PathRest] m \<and> c = captures \<and> w = Join ps ''/''"
proof -
  show "(r, c, w) \<in> child_hits (gm_get (pn_literals n) s) ps m captures \<longleftrightarrow>
      (\<exists>ts c'. r \<in> method_routes n (PathLiteral s # ts) m \<and> path_matches ts ps = Some (c', w) \<and> c = captures @ c')"
    by (cases "gm_get (pn_literals n) s") (simp_all add: method_routes_Cons child_hits_def mem_hits)
  show "(r, c, w) \<in> child_hits (pn_param n) ps m captures \<longleftrightarrow>
      (\<exists>ts c'. r \<in> method_routes n (PathParam q # ts) m \<and> path_matches ts ps = Some (c', w) \<and> c = captures @ c')"
    by (cases "pn_param n") (simp_all add: method_routes_Cons child_hits_def mem_hits)
  show "(r, c, w) \<in> child_hits (pn_wildcard n) ps m captures \<longleftrightarrow>
      (\<exists>ts c'. r \<in> method_routes n (PathWildcard # ts) m \<and> path_matches ts ps = Some (c', w) \<and> c = captures @ c')"
    by (cases "pn_wildcard n") (simp_all add: method_routes_Cons child_hits_def mem_hits)
  show "(r, c, w) \<in> rest_hits (pn_rest n) ps m captures \<longleftrightarrow> r \<in> method_routes n [PathRest] m \<and> c = captures \<and> w = Join ps ''/''"
    by (cases "pn_rest n") (simp_all add: method_routes_Cons mem_rest_hits)
qed

lemma hits_Cons:
  "hits n (p # ps) method captures =
     child_hits (gm_get (pn_literals n) p) ps method captures \<union> child_hits (pn_param n) ps method (captures @ [p]) \<union>
     child_hits (pn_wildcard n) ps method captures \<union> rest_hits (pn_rest n) (p # ps) method captures" (is "_ = ?A")
proof -
  have "(r, c, w) \<in> hits n (p # ps) method captures \<longleftrightarrow> (r, c, w) \<in> ?A" for r c w
  proof -
    have "(r, c, w) \<in> hits n (p # ps) method captures \<longleftrightarrow>
        (r \<in> method_routes n [PathRest] method \<and> c = captures \<and> w = Join (p # ps) ''/'') \<or>
        (\<exists>ts c'. r \<in> method_routes n (PathLiteral p # ts) method \<and> path_matches ts ps = Some (c', w) \<and> c = captures @ c') \<or>
        (\<exists>s ts c'. r \<in> method_routes n (PathParam s # ts) method \<and> path_matches ts ps = Some (c', w) \<and> c = captures @ p # c') \<or>
        (\<exists>ts c'. r \<in> method_routes n (PathWildcard # ts) method \<and> path_matches ts ps = Some (c', w) \<and> c = captures @ c')"
      (is "?L \<longleftrightarrow> ?R")
    proof
      assume ?L
      then show ?R unfolding mem_hits path_matches_Cons by (elim exE conjE disjE) (simp_all, blast+)
    next
      assume ?R
      then show ?L
      proof (elim disjE exE conjE)
        assume "r \<in> method_routes n [PathRest] method" "c = captures" "w = Join (p # ps) ''/''"
        then show ?L unfolding mem_hits by (intro exI [of _ "[PathRest]"]) simp
      next
        fix ts c' assume "r \<in> method_routes n (PathLiteral p # ts) method" "path_matches ts ps = Some (c', w)" "c = captures @ c'"
        then show ?L unfolding mem_hits by (intro exI [of _ "PathLiteral p # ts"]) simp
      next
        fix s ts c' assume "r \<in> method_routes n (PathParam s # ts) method" "path_matches ts ps = Some (c', w)" "c = captures @ p # c'"
        then show ?L unfolding mem_hits by (intro exI [of _ "PathParam s # ts"]) simp
      next
        fix ts c' assume "r \<in> method_routes n (PathWildcard # ts) method" "path_matches ts ps = Some (c', w)" "c = captures @ c'"
        then show ?L unfolding mem_hits by (intro exI [of _ "PathWildcard # ts"]) simp
      qed
    qed
    also have "\<dots> \<longleftrightarrow> (r, c, w) \<in> ?A"
      unfolding Un_iff child_hits_routes(1,3,4) child_hits_routes(2) [where q = "''''"] by (auto simp: method_routes_Cons(2))
    finally show ?thesis .
  qed
  then show ?thesis by auto
qed

text \<open>A better match: the earliest of the match so far and the hits.\<close>

definition better :: "compiledHTTPPathMatch \<Rightarrow> hit set \<Rightarrow> compiledHTTPPathMatch \<Rightarrow> bool" where
  "better b M b' \<longleftrightarrow>
     (case bm_ref b' of
        None \<Rightarrow> b' = b \<and> M = {}
      | Some r \<Rightarrow> (b' = b \<or> (r, bm_captures b', bm_wildcard b') \<in> M) \<and> (\<forall>x\<in>M. ref_key r \<le> ref_key (fst x)) \<and>
                  (\<forall>r0. bm_ref b = Some r0 \<longrightarrow> ref_key r \<le> ref_key r0))"

lemma better_refl: "better b {} b"
  by (auto simp: better_def split: option.splits)

lemma better_skip: "bm_ref b = Some r0 \<Longrightarrow> (\<And>x. x \<in> M \<Longrightarrow> ref_key r0 \<le> ref_key (fst x)) \<Longrightarrow> better b M b"
  by (auto simp: better_def)

lemma better_trans:
  assumes "better b M b1" and "better b1 M' b2"
  shows "better b (M \<union> M') b2"
proof (cases "bm_ref b2")
  case None
  then show ?thesis using assms by (auto simp: better_def split: option.splits)
next
  case (Some r2)
  show ?thesis
  proof (cases "bm_ref b1")
    case None
    then show ?thesis using assms Some by (auto simp: better_def split: option.splits)
  next
    case (Some r1)
    with \<open>bm_ref b2 = Some r2\<close> have "ref_key r2 \<le> ref_key r1" using assms(2) by (simp add: better_def)
    then show ?thesis using assms Some \<open>bm_ref b2 = Some r2\<close> by (auto simp: better_def split: option.splits dest: order_trans)
  qed
qed

lemma better_child:
  "(\<And>n. c = Some n \<Longrightarrow> better b (hits n parts method caps) (f n)) \<Longrightarrow>
    better b (child_hits c parts method caps) (case c of None \<Rightarrow> b | Some n \<Rightarrow> f n)"
  by (auto simp: child_hits_def better_refl split: option.splits)

lemma sorted_hd: "sorted (map ref_key (r # rs)) \<Longrightarrow> x \<in> set (r # rs) \<Longrightarrow> ref_key r \<le> ref_key x"
  by auto

lemma selectMatch_better:
  assumes "\<And>m. sorted (map ref_key (or_default (gm_get bm m) []))"
  shows "better b ((\<lambda>r. (r, caps, w)) ` (set (or_default (gm_get bm method) []) \<union> set (or_default (gm_get bm ''*'') [])))
    (selectMatch bm method caps w b)"
proof -
  define xs ys where "xs = or_default (gm_get bm method) []" and "ys = or_default (gm_get bm ''*'') []"
  define first where "first = (\<lambda>m. case or_default (gm_get bm m) [] of [] \<Rightarrow> None | r # _ \<Rightarrow> Some r)"
  define cand where "cand = (if method \<noteq> ''*'' \<and> first ''*'' \<noteq> None \<and> compiledHTTPRouteRefLess (first ''*'') (first method)
    then first ''*'' else first method)"
  have sel: "selectMatch bm method caps w b = (if cand = None \<or> (bm_ref b \<noteq> None \<and> \<not> compiledHTTPRouteRefLess cand (bm_ref b)) then b
      else \<lparr>bm_ref = cand, bm_captures = caps, bm_wildcard = w\<rparr>)"
    unfolding selectMatch_def cand_def first_def Let_def by (rule refl)
  have fx: "first method = (case xs of [] \<Rightarrow> None | r # _ \<Rightarrow> Some r)" and fy: "first ''*'' = (case ys of [] \<Rightarrow> None | r # _ \<Rightarrow> Some r)"
    by (simp_all add: first_def xs_def ys_def)
  have sx: "sorted (map ref_key xs)" "sorted (map ref_key ys)" using assms by (simp_all add: xs_def ys_def)
  have same: "method = ''*'' \<Longrightarrow> xs = ys" by (simp add: xs_def ys_def)
  have none: "cand = None \<longleftrightarrow> set xs \<union> set ys = {}"
    using same by (cases xs; cases ys; auto simp: cand_def fx fy)
  have some: "c \<in> set xs \<union> set ys \<and> (\<forall>x \<in> set xs \<union> set ys. ref_key c \<le> ref_key x)" if "cand = Some c" for c
    using that same sx by (cases xs; cases ys; force simp: cand_def fx fy not_less split: if_splits)
  show ?thesis
  proof (cases cand)
    case None
    then show ?thesis using none by (simp add: sel better_refl xs_def ys_def)
  next
    case (Some c)
    show ?thesis
    proof (cases "bm_ref b \<noteq> None \<and> \<not> compiledHTTPRouteRefLess cand (bm_ref b)")
      case True
      then obtain r0 where r0: "bm_ref b = Some r0" "ref_key r0 \<le> ref_key c" using Some by (auto simp: not_less)
      then have "ref_key r0 \<le> ref_key x" if "x \<in> set xs \<union> set ys" for x using some [OF Some] that order_trans by blast
      then show ?thesis using True r0(1) unfolding sel by (auto intro!: better_skip simp: xs_def ys_def)
    next
      case False
      then have "ref_key c \<le> ref_key r0" if "bm_ref b = Some r0" for r0 using Some that by auto
      then show ?thesis using False some [OF Some] unfolding sel by (auto simp: better_def Some xs_def ys_def)
    qed
  qed
qed

lemma select_node_better:
  assumes "sorted_ok n"
  shows "better b ((\<lambda>r. (r, caps, w)) ` method_routes n [] method) (selectMatch (pn_byMethod n) method caps w b)"
proof -
  have "sorted (map ref_key (or_default (gm_get (pn_byMethod n) m) []))" for m
    using assms unfolding sorted_ok_def by (metis routes_at.simps(1))
  from selectMatch_better [OF this] show ?thesis by (simp add: method_routes_def)
qed

lemma rest_better:
  assumes "sorted_ok n"
  shows "better b (rest_hits (pn_rest n) parts method caps)
    (case pn_rest n of None \<Rightarrow> b | Some r \<Rightarrow> selectMatch (pn_byMethod r) method caps (Join parts ''/'') b)"
  using select_node_better sorted_ok_child(4) [OF assms]
  by (auto simp: rest_hits_def better_refl split: option.splits)

lemma skip_better:
  assumes "min_ok n" and "skip_node n b"
  shows "better b (hits n parts method caps) b"
proof -
  obtain r0 where r0: "bm_ref b = Some r0" "\<not> compiledHTTPRouteRefLess (pn_minRef n) (Some r0)"
    using assms(2) by (auto simp: skip_node_def)
  show ?thesis
  proof (rule better_skip [OF r0(1)])
    fix x assume "x \<in> hits n parts method caps"
    then obtain us m where "fst x \<in> set (routes_at n us m)" by (auto simp: hits_def method_routes_def)
    then obtain y where "pn_minRef n = Some y" "ref_key y \<le> ref_key (fst x)" using assms(1) unfolding min_ok_def by blast
    then show "ref_key r0 \<le> ref_key (fst x)" using r0(2) by (auto simp: not_less dest: order_trans)
  qed
qed

lemma match_path_better:
  "tree_ok n \<Longrightarrow> sorted_ok n \<Longrightarrow> better b (hits n parts method caps) (match_path n parts method caps '''' b)"
proof (induction parts arbitrary: n caps b)
  case Nil
  have m: "min_ok n" using Nil(1) by (rule tree_okE)
  show ?case
  proof (cases "skip_node n b")
    case True
    then show ?thesis using skip_better [OF m True] by simp
  next
    case False
    have "match_path n [] method caps '''' b = (let b1 = selectMatch (pn_byMethod n) method caps '''' b in
        case pn_rest n of None \<Rightarrow> b1 | Some r \<Rightarrow> selectMatch (pn_byMethod r) method caps (Join [] ''/'') b1)"
      using False by (simp add: Let_def split: option.split)
    then show ?thesis unfolding hits_Nil Let_def
      by (simp only:) (rule better_trans [OF select_node_better [OF Nil(2)] rest_better [OF Nil(2)]])
  qed
next
  case (Cons p ps)
  have m: "min_ok n" using Cons(2) by (rule tree_okE)
  have t: "tree_ok c" if "gm_get (pn_literals n) p = Some c \<or> pn_param n = Some c \<or> pn_wildcard n = Some c" for c
    using Cons(2) by (rule tree_okE) (use that in blast)
  have so: "sorted_ok c" if "gm_get (pn_literals n) p = Some c \<or> pn_param n = Some c \<or> pn_wildcard n = Some c" for c
    using sorted_ok_child [OF Cons(3)] that by blast
  show ?case
  proof (cases "skip_node n b")
    case True
    then show ?thesis using skip_better [OF m True] by simp
  next
    case False
    define b1 where "b1 = (case gm_get (pn_literals n) p of None \<Rightarrow> b | Some c \<Rightarrow> match_path c ps method caps '''' b)"
    define b2 where "b2 = (case pn_param n of None \<Rightarrow> b1 | Some c \<Rightarrow> match_path c ps method (caps @ [p]) '''' b1)"
    define b3 where "b3 = (case pn_wildcard n of None \<Rightarrow> b2 | Some c \<Rightarrow> match_path c ps method caps '''' b2)"
    have "better b (child_hits (gm_get (pn_literals n) p) ps method caps) b1"
      unfolding b1_def by (rule better_child) (use Cons(1) t so in blast)
    moreover have "better b1 (child_hits (pn_param n) ps method (caps @ [p])) b2"
      unfolding b2_def by (rule better_child) (use Cons(1) t so in blast)
    moreover have "better b2 (child_hits (pn_wildcard n) ps method caps) b3"
      unfolding b3_def by (rule better_child) (use Cons(1) t so in blast)
    moreover note rest_better [OF Cons(3), of b3 "p # ps" "method" caps]
    moreover have "match_path n (p # ps) method caps '''' b =
        (case pn_rest n of None \<Rightarrow> b3 | Some r \<Rightarrow> selectMatch (pn_byMethod r) method caps (Join (p # ps) ''/'') b3)"
      using False unfolding match_path.simps(2) b3_def b2_def b1_def Let_def by (simp only: if_False)
    ultimately show ?thesis unfolding hits_Cons by (metis better_trans)
  qed
qed

subsection \<open>Hosts\<close>

fun node_at :: "compiledHTTPHostNode \<Rightarrow> string list \<Rightarrow> bool \<Rightarrow> compiledHTTPPathNode option" where
  "node_at h [] wildcard = (if wildcard then hn_wildcard h else hn_exact h)"
| "node_at h (l # ls) wildcard = (case gm_get (hn_children h) l of None \<Rightarrow> None | Some c \<Rightarrow> node_at c ls wildcard)"

lemma node_at_empty [simp]: "node_at empty_host ls w = None"
  by (cases ls) (simp_all add: empty_host_def)

lemma node_at_labels:
  "node_at (at_labels ls w f h) ls' w' =
     (if ls' = ls \<and> w' = w then Some (f (or_default (node_at h ls w) empty_path)) else node_at h ls' w')"
proof (induction ls w f h arbitrary: ls' rule: at_labels.induct)
  case (1 w f cs e wc)
  then show ?case by (cases ls') auto
next
  case (2 l ls w f cs e wc)
  then show ?case by (cases ls') (auto split: option.splits)
qed

text \<open>Labels, the last one first: a wildcard pattern covers hosts with more labels, an exact one its own.\<close>

definition covers :: "string list \<Rightarrow> bool \<Rightarrow> string list \<Rightarrow> bool" where
  "covers pre wildcard labels \<longleftrightarrow>
     pre \<noteq> [] \<and> (if wildcard then \<exists>more. more \<noteq> [] \<and> labels = pre @ more else labels = pre)"

lemma covers_Cons:
  "covers pre w (l # ls) \<longleftrightarrow> (\<exists>pre'. pre = l # pre' \<and> (if pre' = [] then (w \<longleftrightarrow> ls \<noteq> []) else covers pre' w ls))"
  by (cases pre) (auto simp: covers_def)

lemma covers_Nil [simp]: "\<not> covers pre w []"
  by (auto simp: covers_def)

definition host_ok :: "compiledHTTPHostNode \<Rightarrow> bool" where
  "host_ok h \<longleftrightarrow> (\<forall>ls w n. node_at h ls w = Some n \<longrightarrow> tree_ok n \<and> sorted_ok n)"

definition host_hits :: "compiledHTTPHostNode \<Rightarrow> string list \<Rightarrow> string list \<Rightarrow> string \<Rightarrow> hit set" where
  "host_hits h labels parts method = {x. \<exists>pre w n. covers pre w labels \<and> node_at h pre w = Some n \<and> x \<in> hits n parts method []}"

lemma host_hits_Cons:
  "host_hits h (l # ls) parts method =
     (case gm_get (hn_children h) l of None \<Rightarrow> {}
      | Some c \<Rightarrow> (if ls \<noteq> [] then child_hits (hn_wildcard c) parts method [] else child_hits (hn_exact c) parts method []) \<union>
                  host_hits c ls parts method)" (is "_ = ?A")
proof (cases "gm_get (hn_children h) l")
  case None
  then show ?thesis by (auto simp: host_hits_def covers_Cons)
next
  case (Some c)
  have "x \<in> host_hits h (l # ls) parts method \<longleftrightarrow>
      (\<exists>n. node_at c [] (ls \<noteq> []) = Some n \<and> x \<in> hits n parts method []) \<or> x \<in> host_hits c ls parts method" (is "?L \<longleftrightarrow> ?R") for x
  proof
    assume ?L
    then obtain pre w n where "covers pre w (l # ls)" "node_at h pre w = Some n" "x \<in> hits n parts method []"
      by (auto simp: host_hits_def)
    then show ?R using Some by (auto simp: covers_Cons host_hits_def split: if_splits)
  next
    assume ?R
    then show ?L
    proof
      assume "\<exists>n. node_at c [] (ls \<noteq> []) = Some n \<and> x \<in> hits n parts method []"
      then show ?L unfolding host_hits_def using Some by (intro CollectI exI [of _ "[l]"] exI [of _ "ls \<noteq> []"]) (auto simp: covers_Cons)
    next
      assume "x \<in> host_hits c ls parts method"
      then obtain pre w n where "covers pre w ls" "node_at c pre w = Some n" "x \<in> hits n parts method []" by (auto simp: host_hits_def)
      then show ?L unfolding host_hits_def using Some
        by (intro CollectI exI [of _ "l # pre"] exI [of _ w]) (auto simp: covers_Cons covers_def)
    qed
  qed
  then show ?thesis using Some by (auto simp: child_hits_def split: option.splits)
qed

lemma host_ok_child: "host_ok h \<Longrightarrow> gm_get (hn_children h) l = Some c \<Longrightarrow> host_ok c"
  unfolding host_ok_def by (metis node_at.simps(2) option.simps(5))

lemma match_labels_better:
  "host_ok h \<Longrightarrow> better b (host_hits h labels parts method) (match_labels h labels parts method b)"
proof (induction labels arbitrary: h b)
  case Nil
  then show ?case by (simp add: host_hits_def better_refl)
next
  case (Cons l ls)
  show ?case
  proof (cases "gm_get (hn_children h) l")
    case None
    then show ?thesis by (simp add: host_hits_Cons better_refl)
  next
    case (Some c)
    have ok: "host_ok c" using host_ok_child [OF Cons(2) Some] .
    have n: "tree_ok n" "sorted_ok n" if "hn_wildcard c = Some n \<or> hn_exact c = Some n" for n
      using ok that unfolding host_ok_def by (metis node_at.simps(1))+
    define b1 where "b1 = (case (if ls \<noteq> [] then hn_wildcard c else hn_exact c) of None \<Rightarrow> b
      | Some n \<Rightarrow> match_path n parts method [] '''' b)"
    have "match_labels h (l # ls) parts method b = match_labels c ls parts method b1"
      using Some by (auto simp: b1_def Let_def split: option.splits)
    moreover have "better b (child_hits (if ls \<noteq> [] then hn_wildcard c else hn_exact c) parts method []) b1"
      unfolding b1_def by (rule better_child) (rule match_path_better, auto intro: n split: if_splits)
    moreover have "better b1 (host_hits c ls parts method) (match_labels c ls parts method b1)" using Cons(1) [OF ok] .
    ultimately show ?thesis using better_trans by (fastforce simp: host_hits_Cons Some if_distrib)
  qed
qed

subsection \<open>Protocols\<close>

text \<open>The position of a pattern: its protocol, \<open>None\<close> for any, and its host, \<open>None\<close> for any.\<close>

definition host_key :: "string \<Rightarrow> (string list \<times> bool) option" where
  "host_key host =
     (if host = ''*'' then None
      else Some (rev (splitHTTPRouteHost (if HasPrefix host ''*.'' then TrimPrefix host ''*.'' else host)), HasPrefix host ''*.''))"

definition scheme_key :: "string \<Rightarrow> string option" where
  "scheme_key s = (if s = ''*'' then None else Some s)"

fun node_for :: "compiledHTTPSchemeNode \<Rightarrow> (string list \<times> bool) option \<Rightarrow> compiledHTTPPathNode option" where
  "node_for s None = sn_anyHost s"
| "node_for s (Some (ls, w)) = node_at (sn_hosts s) ls w"

lemma node_for_empty [simp]: "node_for empty_scheme k = None"
  by (cases "(empty_scheme, k)" rule: node_for.cases) (auto simp: empty_scheme_def)

lemma node_for_pathForHost:
  "node_for (pathForHost host f s) k =
     (if k = host_key host then Some (f (or_default (node_for s k) empty_path)) else node_for s k)"
  by (cases "(s, k)" rule: node_for.cases) (auto simp: pathForHost_def host_key_def node_at_labels Let_def)

definition tree_node :: "compiledHTTPRouteTree \<Rightarrow> string option \<Rightarrow> (string list \<times> bool) option \<Rightarrow> compiledHTTPPathNode option" where
  "tree_node t sk hk =
     (case (case sk of None \<Rightarrow> tr_anyScheme t | Some s \<Rightarrow> gm_get (tr_schemes t) s) of None \<Rightarrow> None | Some s \<Rightarrow> node_for s hk)"

lemma tree_node_insert:
  "tree_node (schemeFor scheme (pathForHost host f) t) sk hk =
     (if sk = scheme_key scheme \<and> hk = host_key host then Some (f (or_default (tree_node t sk hk) empty_path)) else tree_node t sk hk)"
  by (auto simp: tree_node_def schemeFor_def scheme_key_def node_for_pathForHost or_default_def split: option.splits)

definition covers_host :: "(string list \<times> bool) option \<Rightarrow> string list \<Rightarrow> bool" where
  "covers_host hk labels = (case hk of None \<Rightarrow> True | Some (pre, w) \<Rightarrow> covers pre w labels)"

definition scheme_nodes_ok :: "compiledHTTPSchemeNode \<Rightarrow> bool" where
  "scheme_nodes_ok s \<longleftrightarrow> (\<forall>hk n. node_for s hk = Some n \<longrightarrow> tree_ok n \<and> sorted_ok n)"

definition scheme_hits :: "compiledHTTPSchemeNode option \<Rightarrow> string \<Rightarrow> string list \<Rightarrow> string \<Rightarrow> hit set" where
  "scheme_hits so host parts method =
     {x. \<exists>s hk n. so = Some s \<and> covers_host hk (rev (splitHTTPRouteHost host)) \<and> node_for s hk = Some n \<and> x \<in> hits n parts method []}"

lemma matchHost_better:
  assumes "scheme_nodes_ok s"
  shows "better b (scheme_hits (Some s) host parts method) (matchHost s host parts method b)"
proof -
  let ?ls = "rev (splitHTTPRouteHost host)"
  have ok: "host_ok (sn_hosts s)" unfolding host_ok_def using assms unfolding scheme_nodes_ok_def by (metis node_for.simps(2))
  have any: "tree_ok n" "sorted_ok n" if "sn_anyHost s = Some n" for n
    using assms that unfolding scheme_nodes_ok_def by (metis node_for.simps(1))+
  define b1 where "b1 = (case sn_anyHost s of None \<Rightarrow> b | Some n \<Rightarrow> match_path n parts method [] '''' b)"
  have "better b (child_hits (sn_anyHost s) parts method []) b1"
    unfolding b1_def by (rule better_child) (rule match_path_better, auto intro: any)
  moreover have "better b1 (host_hits (sn_hosts s) ?ls parts method) (match_labels (sn_hosts s) ?ls parts method b1)"
    by (rule match_labels_better [OF ok])
  moreover have "scheme_hits (Some s) host parts method = child_hits (sn_anyHost s) parts method [] \<union> host_hits (sn_hosts s) ?ls parts method"
  proof -
    have "x \<in> scheme_hits (Some s) host parts method \<longleftrightarrow>
        (\<exists>n. node_for s None = Some n \<and> x \<in> hits n parts method []) \<or>
        (\<exists>pre w n. covers pre w ?ls \<and> node_for s (Some (pre, w)) = Some n \<and> x \<in> hits n parts method [])" for x
    proof -
      have "(\<exists>hk. P hk) \<longleftrightarrow> P None \<or> (\<exists>pre w. P (Some (pre, w)))" for P :: "(string list \<times> bool) option \<Rightarrow> bool"
        by (metis not_None_eq old.prod.exhaust)
      then show ?thesis unfolding scheme_hits_def covers_host_def by simp
    qed
    then show ?thesis by (auto simp: mem_child_hits host_hits_def)
  qed
  ultimately show ?thesis unfolding matchHost_def Let_def b1_def by (metis better_trans)
qed


subsection \<open>The whole tree\<close>

definition tree_wf :: "compiledHTTPRouteTree \<Rightarrow> bool" where
  "tree_wf t \<longleftrightarrow> (\<forall>sk hk n. tree_node t sk hk = Some n \<longrightarrow> tree_ok n \<and> sorted_ok n)"

definition tree_hits :: "compiledHTTPRouteTree \<Rightarrow> string \<Rightarrow> string \<Rightarrow> string list \<Rightarrow> string \<Rightarrow> hit set" where
  "tree_hits t scheme host parts method =
     {x. \<exists>sk hk n. (sk = Some scheme \<or> sk = None) \<and> covers_host hk (rev (splitHTTPRouteHost host)) \<and>
        tree_node t sk hk = Some n \<and> x \<in> hits n parts method []}"

abbreviation no_match :: compiledHTTPPathMatch where
  "no_match \<equiv> \<lparr>bm_ref = None, bm_captures = [], bm_wildcard = ''''\<rparr>"

lemma scheme_better:
  assumes "\<And>s. so = Some s \<Longrightarrow> scheme_nodes_ok s"
  shows "better b (scheme_hits so host parts method) (case so of None \<Rightarrow> b | Some s \<Rightarrow> matchHost s host parts method b)"
proof (cases so)
  case None
  then show ?thesis by (simp add: scheme_hits_def better_refl)
next
  case (Some s)
  then show ?thesis using matchHost_better [OF assms] by simp
qed

lemma find_route_better:
  assumes "tree_wf t"
  shows "better no_match (tree_hits t scheme host parts method) (find_route t scheme host parts method)"
proof -
  have s1: "scheme_nodes_ok s" if "gm_get (tr_schemes t) scheme = Some s" for s
  proof -
    have "tree_node t (Some scheme) hk = node_for s hk" for hk using that by (simp add: tree_node_def)
    then show ?thesis using assms unfolding tree_wf_def scheme_nodes_ok_def by metis
  qed
  have s2: "scheme_nodes_ok s" if "tr_anyScheme t = Some s" for s
  proof -
    have "tree_node t None hk = node_for s hk" for hk using that by (simp add: tree_node_def)
    then show ?thesis using assms unfolding tree_wf_def scheme_nodes_ok_def by metis
  qed
  define b1 where "b1 = (case gm_get (tr_schemes t) scheme of None \<Rightarrow> no_match | Some s \<Rightarrow> matchHost s host parts method no_match)"
  have x1: "better no_match (scheme_hits (gm_get (tr_schemes t) scheme) host parts method) b1"
    unfolding b1_def by (rule scheme_better) (rule s1)
  have x2: "better b1 (scheme_hits (tr_anyScheme t) host parts method)
      (case tr_anyScheme t of None \<Rightarrow> b1 | Some s \<Rightarrow> matchHost s host parts method b1)"
    by (rule scheme_better) (rule s2)
  have x3: "tree_hits t scheme host parts method =
      scheme_hits (gm_get (tr_schemes t) scheme) host parts method \<union> scheme_hits (tr_anyScheme t) host parts method" (is "?L = ?R")
  proof (intro equalityI subsetI)
    fix x assume "x \<in> ?L"
    then obtain sk hk n where "sk = Some scheme \<or> sk = None" "covers_host hk (rev (splitHTTPRouteHost host))"
        "tree_node t sk hk = Some n" "x \<in> hits n parts method []" unfolding tree_hits_def by blast
    then show "x \<in> ?R" unfolding scheme_hits_def tree_node_def by (auto split: option.splits)
  next
    fix x assume "x \<in> ?R"
    then show "x \<in> ?L"
    proof
      assume "x \<in> scheme_hits (gm_get (tr_schemes t) scheme) host parts method"
      then obtain s hk n where "gm_get (tr_schemes t) scheme = Some s" "covers_host hk (rev (splitHTTPRouteHost host))"
          "node_for s hk = Some n" "x \<in> hits n parts method []" unfolding scheme_hits_def by blast
      then show ?thesis unfolding tree_hits_def
        by (intro CollectI exI [of _ "Some scheme"] exI [of _ hk] exI [of _ n]) (simp add: tree_node_def)
    next
      assume "x \<in> scheme_hits (tr_anyScheme t) host parts method"
      then obtain s hk n where "tr_anyScheme t = Some s" "covers_host hk (rev (splitHTTPRouteHost host))"
          "node_for s hk = Some n" "x \<in> hits n parts method []" unfolding scheme_hits_def by blast
      then show ?thesis unfolding tree_hits_def
        by (intro CollectI exI [of _ None] exI [of _ hk] exI [of _ n]) (simp add: tree_node_def)
    qed
  qed
  have "find_route t scheme host parts method = (case tr_anyScheme t of None \<Rightarrow> b1 | Some s \<Rightarrow> matchHost s host parts method b1)"
    unfolding find_route_def Let_def b1_def by (rule refl)
  then show ?thesis unfolding x3 using better_trans [OF x1 x2] by simp
qed

subsection \<open>The patterns of a configuration\<close>

record route_entry =
  en_route :: HTTPRoute
  en_index :: nat
  en_uri :: nat
  en_pattern :: string
  en_scheme :: string
  en_host :: string
  en_tokens :: "pathToken list"

fun uri_entries :: "HTTPRoute \<Rightarrow> nat \<Rightarrow> nat \<Rightarrow> string list \<Rightarrow> route_entry list" where
  "uri_entries route index uri [] = []"
| "uri_entries route index uri (pattern # rest) =
     (case parseHTTPRouteURIPattern pattern of
        Inl _ \<Rightarrow> []
      | Inr (scheme, host, path) \<Rightarrow>
          \<lparr>en_route = route, en_index = index, en_uri = uri, en_pattern = pattern, en_scheme = scheme, en_host = host,
           en_tokens = (case compileHTTPRoutePath path of Inl _ \<Rightarrow> [] | Inr (ts, _) \<Rightarrow> ts)\<rparr> # uri_entries route index (Suc uri) rest)"

fun config_entries :: "nat \<Rightarrow> HTTPRoute list \<Rightarrow> route_entry list" where
  "config_entries index [] = []"
| "config_entries index (route # routes) =
     uri_entries route index 0 (dedupeHTTPRouteStrings (hr_URIs route)) @ config_entries (Suc index) routes"

definition entry_methods :: "route_entry \<Rightarrow> string list" where
  "entry_methods e = normalizeHTTPRouteMethods (hr_Methods (en_route e))"

definition entry_ref :: "route_entry \<Rightarrow> compiledHTTPRouteRef" where
  "entry_ref e = \<lparr>rf_groupIndex = en_index e, rf_order = en_index e, rf_uriOrder = en_uri e, rf_pattern = en_pattern e,
     rf_paramNames = param_names (en_tokens e)\<rparr>"

definition insert_entry :: "route_entry \<Rightarrow> compiledHTTPRouteTree \<Rightarrow> compiledHTTPRouteTree" where
  "insert_entry e = schemeFor (en_scheme e) (pathForHost (en_host e) (insert_tokens (en_tokens e) (entry_methods e) (entry_ref e)))"

lemma insert_path_eq: "insert_path ts ms ref = insert_tokens ts ms (ref\<lparr>rf_paramNames := rf_paramNames ref @ param_names ts\<rparr>)"
  by (simp add: fun_eq_iff insert_path_def)

lemma compile_uris_entries:
  assumes "compile_uris name index index (normalizeHTTPRouteMethods (hr_Methods route)) uri uris tree = Inr tree'"
  shows "tree' = fold insert_entry (uri_entries route index uri uris) tree"
  using assms
proof (induction uris arbitrary: uri tree)
  case (Cons pattern rest)
  obtain scheme host path where p: "parseHTTPRouteURIPattern pattern = Inr (scheme, host, path)"
    using Cons.prems by (cases "parseHTTPRouteURIPattern pattern") (auto simp: Let_def)
  obtain ts n where c: "compileHTTPRoutePath path = Inr (ts, n)"
    using Cons.prems p by (cases "compileHTTPRoutePath path") (auto simp: Let_def)
  show ?case using Cons.prems p c by (auto simp: Let_def insert_path_eq insert_entry_def entry_methods_def entry_ref_def dest!: Cons.IH)
qed simp

definition route_group :: "HTTPRouteTableConfig \<Rightarrow> HTTPRoute \<Rightarrow> compiledHTTPRouteGroup" where
  "route_group config route = \<lparr>gr_route = route, gr_upstream = route_upstream config route,
     gr_methods = normalizeHTTPRouteMethods (hr_Methods route)\<rparr>"

lemma compileRoute_entries:
  assumes "compileRoute U route index table = Inr table'" and "index = length (rt_groups table)"
  shows "rt_tree table' = fold insert_entry (uri_entries route index 0 (dedupeHTTPRouteStrings (hr_URIs route))) (rt_tree table) \<and>
    rt_groups table' = rt_groups table @ [route_group (rt_config table) route] \<and> rt_config table' = rt_config table"
proof -
  obtain tree where tree: "compile_uris (hr_Name route) (length (rt_groups table)) index (normalizeHTTPRouteMethods (hr_Methods route)) 0
      (dedupeHTTPRouteStrings (hr_URIs route)) (rt_tree table) = Inr tree"
    and "table' = table\<lparr>rt_groups := rt_groups table @ [route_group (rt_config table) route], rt_tree := tree\<rparr>"
    using assms(1) by (auto simp: compileRoute_def Let_def route_group_def res_iff split: if_splits)
  with compile_uris_entries [OF tree [folded assms(2)]] show ?thesis by simp
qed

lemma compile_routes_entries:
  assumes "compile_routes U index routes table = Inr table'" and "index = length (rt_groups table)"
  shows "rt_tree table' = fold insert_entry (config_entries index routes) (rt_tree table) \<and>
    rt_groups table' = rt_groups table @ map (route_group (rt_config table)) routes \<and> rt_config table' = rt_config table"
  using assms
proof (induction routes arbitrary: index table)
  case (Cons route routes)
  then obtain t1 where t1: "compileRoute U route index table = Inr t1" "compile_routes U (Suc index) routes t1 = Inr table'"
    by (auto simp: res_iff)
  note e = compileRoute_entries [OF t1(1) Cons.prems(2)]
  then have "Suc index = length (rt_groups t1)" using Cons.prems(2) by simp
  from Cons.IH [OF t1(2) this] e show ?case by simp
qed simp

subsection \<open>The tree of a list of patterns\<close>

definition tree_routes :: "compiledHTTPRouteTree \<Rightarrow> string option \<Rightarrow> (string list \<times> bool) option \<Rightarrow> pathToken list \<Rightarrow> string
    \<Rightarrow> compiledHTTPRouteRef list" where
  "tree_routes t sk hk us m = (case tree_node t sk hk of None \<Rightarrow> [] | Some n \<Rightarrow> routes_at n us m)"

definition entry_at :: "string option \<Rightarrow> (string list \<times> bool) option \<Rightarrow> pathToken list \<Rightarrow> string \<Rightarrow> route_entry \<Rightarrow> bool" where
  "entry_at sk hk us m e \<longleftrightarrow> sk = scheme_key (en_scheme e) \<and> hk = host_key (en_host e) \<and>
     map shape us = map shape (en_tokens e) \<and> m \<in> set (entry_methods e)"

lemma collect_methods_distinct: "collect_methods ms acc = Some out \<Longrightarrow> distinct acc \<Longrightarrow> distinct out"
  by (induction ms acc arbitrary: out rule: collect_methods.induct) (auto simp: Let_def split: if_splits)

lemma normalize_methods_distinct [simp]: "distinct (normalizeHTTPRouteMethods ms)"
  by (auto simp: normalizeHTTPRouteMethods_def split: option.splits list.splits dest: collect_methods_distinct)

lemma entry_methods_distinct [simp]: "distinct (entry_methods e)"
  by (simp add: entry_methods_def)

lemma tree_routes_insert:
  "tree_routes (insert_entry e t) sk hk us m = tree_routes t sk hk us m @ (if entry_at sk hk us m e then [entry_ref e] else [])"
  by (auto simp: tree_routes_def insert_entry_def tree_node_insert entry_at_def routes_at_insert or_default_def split: option.splits)

lemma tree_routes_fold:
  "tree_routes (fold insert_entry es t) sk hk us m = tree_routes t sk hk us m @ map entry_ref (filter (entry_at sk hk us m) es)"
  by (induction es arbitrary: t) (auto simp: tree_routes_insert)

abbreviation entry_key :: "route_entry \<Rightarrow> nat \<times> nat" where
  "entry_key e \<equiv> (en_index e, en_uri e)"

lemma ref_key_entry [simp]: "ref_key (entry_ref e) = entry_key e"
  by (simp add: ref_key_def entry_ref_def)

lemma tree_wf_insert:
  assumes "tree_wf t" and "\<And>sk hk us m r. r \<in> set (tree_routes t sk hk us m) \<Longrightarrow> ref_key r \<le> entry_key e"
  shows "tree_wf (insert_entry e t)"
proof -
  have "tree_ok n \<and> sorted_ok n" if "tree_node (insert_entry e t) sk hk = Some n" for sk hk n
  proof (cases "sk = scheme_key (en_scheme e) \<and> hk = host_key (en_host e)")
    case False
    then have "tree_node t sk hk = Some n" using that by (auto simp: insert_entry_def tree_node_insert)
    then show ?thesis using assms(1) by (simp add: tree_wf_def)
  next
    case True
    define n0 where "n0 = or_default (tree_node t sk hk) empty_path"
    have n: "n = insert_tokens (en_tokens e) (entry_methods e) (entry_ref e) n0"
      using that True by (simp add: insert_entry_def tree_node_insert n0_def)
    have ok: "tree_ok n0" "sorted_ok n0" using assms(1)
      by (auto simp: n0_def tree_wf_def or_default_def sorted_ok_def split: option.splits)
    have "ref_key r \<le> ref_key (entry_ref e)" if "r \<in> set (routes_at n0 us m)" for r us m
      using assms(2) [of r sk hk us m] that unfolding n0_def by (cases "tree_node t sk hk") (simp_all add: tree_routes_def)
    then show ?thesis unfolding n using ok by (simp add: tree_ok_insert sorted_ok_insert)
  qed
  then show ?thesis by (simp add: tree_wf_def)
qed

abbreviation empty_tree :: compiledHTTPRouteTree where
  "empty_tree \<equiv> \<lparr>tr_schemes = [], tr_anyScheme = None\<rparr>"

lemma empty_tree_node [simp]: "tree_node empty_tree sk hk = None"
  by (simp add: tree_node_def split: option.split)

lemma empty_tree_routes [simp]: "tree_routes empty_tree sk hk us m = []"
  by (simp add: tree_routes_def)

lemma tree_wf_fold: "sorted (map entry_key es) \<Longrightarrow> tree_wf (fold insert_entry es empty_tree)"
proof (induction es rule: rev_induct)
  case Nil
  then show ?case by (simp add: tree_wf_def)
next
  case (snoc e es)
  have "ref_key r \<le> entry_key e" if "r \<in> set (tree_routes (fold insert_entry es empty_tree) sk hk us m)" for r sk hk us m
    using that snoc.prems by (auto simp: tree_routes_fold sorted_append)
  then show ?case using snoc by (simp add: tree_wf_insert sorted_append)
qed

subsection \<open>Scanning the configuration\<close>

definition host_matches :: "string \<Rightarrow> string \<Rightarrow> bool" where
  "host_matches pattern host \<longleftrightarrow>
     pattern = ''*'' \<or>
     (if HasPrefix pattern ''*.''
      then splitHTTPRouteHost (TrimPrefix pattern ''*.'') \<noteq> [] \<and>
           (\<exists>more. more \<noteq> [] \<and> splitHTTPRouteHost host = more @ splitHTTPRouteHost (TrimPrefix pattern ''*.''))
      else splitHTTPRouteHost pattern \<noteq> [] \<and> splitHTTPRouteHost host = splitHTTPRouteHost pattern)"

lemma covers_host_key: "covers_host (host_key pattern) (rev (splitHTTPRouteHost host)) = host_matches pattern host"
proof -
  have "rev h = rev p @ m \<longleftrightarrow> h = rev m @ p" for h p m :: "string list"
    by (metis rev_append rev_rev_ident)
  then have "(\<exists>m. m \<noteq> [] \<and> rev h = rev p @ m) \<longleftrightarrow> (\<exists>m. m \<noteq> [] \<and> h = m @ p)" for h p :: "string list"
    by (metis rev_is_Nil_conv rev_rev_ident)
  then show ?thesis by (simp add: covers_host_def host_key_def host_matches_def covers_def)
qed

definition entry_matches :: "string \<Rightarrow> string \<Rightarrow> string \<Rightarrow> string list \<Rightarrow> route_entry \<Rightarrow> bool" where
  "entry_matches scheme host method parts e \<longleftrightarrow>
     (en_scheme e = ''*'' \<or> en_scheme e = scheme) \<and> host_matches (en_host e) host \<and>
     (method \<in> set (entry_methods e) \<or> ''*'' \<in> set (entry_methods e)) \<and> path_matches (en_tokens e) parts \<noteq> None"

lemma tree_hits_entries:
  "(r, c, w) \<in> tree_hits (fold insert_entry es empty_tree) scheme host parts method \<longleftrightarrow>
    (\<exists>e \<in> set es. r = entry_ref e \<and> entry_matches scheme host method parts e \<and> path_matches (en_tokens e) parts = Some (c, w))"
  (is "?L \<longleftrightarrow> ?R")
proof -
  let ?t = "fold insert_entry es empty_tree"
  have routes: "(\<exists>n. tree_node ?t sk hk = Some n \<and> r \<in> method_routes n us method) \<longleftrightarrow>
      (\<exists>e \<in> set es. r = entry_ref e \<and> (entry_at sk hk us method e \<or> entry_at sk hk us ''*'' e))" for sk hk us
  proof -
    have "(\<exists>n. tree_node ?t sk hk = Some n \<and> r \<in> method_routes n us method) \<longleftrightarrow>
        r \<in> set (tree_routes ?t sk hk us method) \<union> set (tree_routes ?t sk hk us ''*'')"
      by (cases "tree_node ?t sk hk") (simp_all add: tree_routes_def method_routes_def)
    then show ?thesis unfolding tree_routes_fold by auto
  qed
  have "?L \<longleftrightarrow> (\<exists>sk hk us. (sk = Some scheme \<or> sk = None) \<and> covers_host hk (rev (splitHTTPRouteHost host)) \<and>
      (\<exists>n. tree_node ?t sk hk = Some n \<and> r \<in> method_routes n us method) \<and> path_matches us parts = Some (c, w))"
    unfolding tree_hits_def mem_Collect_eq mem_hits by auto
  also have "\<dots> \<longleftrightarrow> (\<exists>e \<in> set es. r = entry_ref e \<and> (scheme_key (en_scheme e) = Some scheme \<or> scheme_key (en_scheme e) = None) \<and>
      covers_host (host_key (en_host e)) (rev (splitHTTPRouteHost host)) \<and>
      (method \<in> set (entry_methods e) \<or> ''*'' \<in> set (entry_methods e)) \<and> path_matches (en_tokens e) parts = Some (c, w))"
    (is "?L1 \<longleftrightarrow> ?L2")
  proof
    assume ?L1
    then obtain sk hk us e where *: "sk = Some scheme \<or> sk = None" "covers_host hk (rev (splitHTTPRouteHost host))"
        "path_matches us parts = Some (c, w)" "e \<in> set es" "r = entry_ref e" "entry_at sk hk us method e \<or> entry_at sk hk us ''*'' e"
      unfolding routes by blast
    then have "map shape us = map shape (en_tokens e)" by (auto simp: entry_at_def)
    from path_matches_shape [OF this, of parts] * show ?L2 by (intro bexI [of _ e]) (auto simp: entry_at_def)
  next
    assume ?L2
    then obtain e where "e \<in> set es" "r = entry_ref e" "scheme_key (en_scheme e) = Some scheme \<or> scheme_key (en_scheme e) = None"
      "covers_host (host_key (en_host e)) (rev (splitHTTPRouteHost host))"
      "method \<in> set (entry_methods e) \<or> ''*'' \<in> set (entry_methods e)" "path_matches (en_tokens e) parts = Some (c, w)" by blast
    then show ?L1 unfolding routes
      by (intro exI [of _ "scheme_key (en_scheme e)"] exI [of _ "host_key (en_host e)"] exI [of _ "en_tokens e"])
        (auto simp: entry_at_def intro!: bexI [of _ e])
  qed
  also have "\<dots> \<longleftrightarrow> ?R" unfolding covers_host_key entry_matches_def by (auto simp: scheme_key_def)
  finally show ?thesis .
qed

lemma find_first:
  assumes "sorted_wrt (<) (map k xs)" and "find P xs = Some x" and "y \<in> set xs" and "P y" and "k y \<le> (k x :: 'a :: linorder)"
  shows "y = x"
  using assms
proof (induction xs)
  case (Cons z xs)
  show ?case
  proof (cases "P z")
    case True
    then show ?thesis using Cons.prems by (auto dest: leD)
  next
    case False
    then show ?thesis using Cons by auto
  qed
qed simp

lemma find_route_first:
  assumes "sorted_wrt (<) (map entry_key es)"
  shows "find_route (fold insert_entry es empty_tree) scheme host parts method =
    (case find (entry_matches scheme host method parts) es of
       None \<Rightarrow> no_match
     | Some e \<Rightarrow> (case path_matches (en_tokens e) parts of
                    Some (c, w) \<Rightarrow> \<lparr>bm_ref = Some (entry_ref e), bm_captures = c, bm_wildcard = w\<rparr>))"
proof -
  let ?t = "fold insert_entry es empty_tree"
  define b where "b = find_route ?t scheme host parts method"
  have "sorted (map entry_key es)" using assms(1) by (rule sorted_wrt_mono_rel [rotated]) simp
  then have bet: "better no_match (tree_hits ?t scheme host parts method) b"
    unfolding b_def by (intro find_route_better tree_wf_fold)
  note hit = tree_hits_entries [of _ _ _ es scheme host parts "method"]
  show ?thesis
  proof (cases "find (entry_matches scheme host method parts) es")
    case None
    then have "(r, c, w) \<notin> tree_hits ?t scheme host parts method" for r c w unfolding hit by (auto simp: find_None_iff)
    then have "tree_hits ?t scheme host parts method = {}" by auto
    with bet have "b = no_match" unfolding better_def by (cases b) (auto split: option.splits)
    then show ?thesis using None by (simp add: b_def)
  next
    case (Some e)
    then have e: "e \<in> set es" "entry_matches scheme host method parts e" by (auto simp: find_Some_iff)
    then obtain c w where cw: "path_matches (en_tokens e) parts = Some (c, w)" by (auto simp: entry_matches_def)
    have h: "(entry_ref e, c, w) \<in> tree_hits ?t scheme host parts method" unfolding hit using e cw by blast
    obtain r where r: "bm_ref b = Some r" using bet h by (auto simp: better_def split: option.splits)
    then have "(r, bm_captures b, bm_wildcard b) \<in> tree_hits ?t scheme host parts method" and le: "ref_key r \<le> ref_key (entry_ref e)"
      using bet h by (auto simp: better_def dest: bspec)
    then obtain e' where e': "e' \<in> set es" "r = entry_ref e'" "entry_matches scheme host method parts e'"
      "path_matches (en_tokens e') parts = Some (bm_captures b, bm_wildcard b)" unfolding hit by blast
    have "e' = e" by (rule find_first [where k = entry_key, OF assms(1) Some e'(1,3)]) (use le e'(2) in simp)
    with e' cw r have "b = \<lparr>bm_ref = Some (entry_ref e), bm_captures = c, bm_wildcard = w\<rparr>" by (cases b) simp
    then show ?thesis using Some cw by (simp add: b_def)
  qed
qed

lemma uri_entries_keys: "e \<in> set (uri_entries route i u uris) \<Longrightarrow> en_index e = i \<and> u \<le> en_uri e \<and> en_route e = route"
proof (induction uris arbitrary: u)
  case (Cons pattern uris)
  then obtain scheme host path where p: "parseHTTPRouteURIPattern pattern = Inr (scheme, host, path)"
    by (cases "parseHTTPRouteURIPattern pattern") auto
  show ?case using Cons.prems Cons.IH [of "Suc u"] unfolding uri_entries.simps p by auto
qed simp

lemma uri_entries_sorted: "sorted_wrt (<) (map entry_key (uri_entries route i u uris))"
  by (induction uris arbitrary: u) (auto split: sum.splits dest!: uri_entries_keys)

lemma config_entries_keys: "e \<in> set (config_entries i routes) \<Longrightarrow> i \<le> en_index e \<and> en_index e < i + length routes \<and> en_route e = routes ! (en_index e - i)"
proof (induction routes arbitrary: i)
  case (Cons route routes)
  then consider "e \<in> set (uri_entries route i 0 (dedupeHTTPRouteStrings (hr_URIs route)))" | "e \<in> set (config_entries (Suc i) routes)" by auto
  then show ?case
  proof cases
    case 1
    then show ?thesis using uri_entries_keys by fastforce
  next
    case 2
    with Cons.IH [OF this] show ?thesis by (auto simp: nth_Cons')
  qed
qed simp

lemma config_entries_sorted: "sorted_wrt (<) (map entry_key (config_entries i routes))"
  by (induction routes arbitrary: i)
    (auto simp: sorted_wrt_append uri_entries_sorted dest!: uri_entries_keys config_entries_keys)

definition entry_result :: "HTTPRouteTableConfig \<Rightarrow> string \<Rightarrow> string \<Rightarrow> route_entry \<Rightarrow> HTTPRouteMatch" where
  "entry_result config path uri e =
     (let route = (en_route e)\<lparr>hr_URIs := [en_pattern e]\<rparr>; upstream = route_upstream config (en_route e);
          (captures, wildcard) = the (path_matches (en_tokens e) (splitHTTPRoutePath path))
      in \<lparr>hm_Route = route, hm_Upstream = upstream, hm_Params = bind_params (param_names (en_tokens e)) captures, hm_Wildcard = wildcard,
          hm_RequestPath = path, hm_RequestURI = uri,
          hm_HTTPInstance = firstNonEmpty [hr_HTTPInstance route, hu_HTTPInstance upstream, hc_DefaultHTTPInstance config],
          hm_Metadata = hr_Metadata route\<rparr>)"

lemma new_table_tree:
  assumes "NewHTTPRouteTable U (Some config) = Inr table"
  shows "rt_tree table = fold insert_entry (config_entries 0 (hc_Routes config)) empty_tree \<and>
    rt_groups table = map (route_group config) (hc_Routes config) \<and> rt_config table = config"
  using compile_routes_entries [of U 0 "hc_Routes config" "\<lparr>rt_config = config, rt_tree = empty_tree, rt_groups = []\<rparr>" table] assms
  by (simp add: NewHTTPRouteTable_def Let_def)

text \<open>
  C6. The compiled tree with its pruning refines a scan of the configuration: a request gets the first URI
  pattern, in the order of routes and of the patterns of a route, whose protocol, host, path and
  methods admit it, with the captured parameters and the rest of the path, and no route when no
  pattern does.
\<close>

theorem route_match_first:
  assumes "NewHTTPRouteTable U (Some config) = Inr table"
  shows "table_match table scheme host method path uri =
    (case find (entry_matches (ToLower (TrimSpace scheme)) (normalizeHTTPRouteHost host) (ToUpper (TrimSpace method))
                 (splitHTTPRoutePath (cleanHTTPRoutePath path))) (config_entries 0 (hc_Routes config)) of
       None \<Rightarrow> None
     | Some e \<Rightarrow> Some (entry_result config (cleanHTTPRoutePath path) uri e))"
proof -
  let ?parts = "splitHTTPRoutePath (cleanHTTPRoutePath path)" and ?es = "config_entries 0 (hc_Routes config)"
  let ?m = "entry_matches (ToLower (TrimSpace scheme)) (normalizeHTTPRouteHost host) (ToUpper (TrimSpace method)) ?parts"
  note t = new_table_tree [OF assms]
  note f = find_route_first [OF config_entries_sorted, of 0 "hc_Routes config" "ToLower (TrimSpace scheme)"
      "normalizeHTTPRouteHost host" ?parts "ToUpper (TrimSpace method)"]
  show ?thesis
  proof (cases "find ?m ?es")
    case None
    then show ?thesis using t f by (simp add: table_match_def Let_def)
  next
    case (Some e)
    then have e: "e \<in> set ?es" "?m e" by (auto simp: find_Some_iff)
    then obtain c w where cw: "path_matches (en_tokens e) ?parts = Some (c, w)" by (auto simp: entry_matches_def)
    have g: "rt_groups table ! en_index e = route_group config (en_route e)"
      using config_entries_keys [OF e(1)] t by (auto simp: nth_map)
    show ?thesis using t f Some cw g
      by (simp add: table_match_def entry_result_def entry_ref_def route_group_def Let_def)
  qed
qed

definition plain_url :: "string url_lib" where
  "plain_url = \<lparr>ul_parse = Inr, ul_scheme = (\<lambda>u. or_default (map_option (\<lambda>i. take i u) (Index u ''://'')) ''''),
     ul_host = (\<lambda>u. or_default (map_option (\<lambda>i. takeWhile (\<lambda>c. c \<noteq> CHR ''/'') (drop (i + 3) u)) (Index u ''://'')) ''''),
     ul_path = (\<lambda>u. ''/''), ul_escaped_path = (\<lambda>u. ''/''), ul_set_path = (\<lambda>p u. u @ p), ul_set_query = (\<lambda>q u. u), ul_set_fragment = (\<lambda>f u. u),
     ul_string = id\<rparr>"

definition sample_route :: "string \<Rightarrow> string list \<Rightarrow> string list \<Rightarrow> HTTPRoute" where
  "sample_route name uris methods = \<lparr>hr_Name = name, hr_URIs = uris, hr_Methods = methods, hr_Upstream = ''users'', hr_HTTPInstance = '''',
     hr_Rewrite = '''', hr_Policies = [], hr_Metadata = [], hr_AddHeaders = [], hr_StripHeaders = []\<rparr>"

definition sample_routes :: HTTPRouteTableConfig where
  "sample_routes = \<lparr>hc_DefaultHTTPInstance = ''main'',
     hc_Upstreams = [(''users'', \<lparr>hu_URL = ''https://users.internal'', hu_HTTPInstance = '''', hu_AddHeaders = [], hu_StripHeaders = []\<rparr>)],
     hc_Routes = [sample_route ''item'' [''https://*.acme.com/u/{id}''] [''get''], sample_route ''all'' [''*://*/**''] []],
     hc_AddHeaders = [], hc_StripHeaders = []\<rparr>"

lemma proper_suffix: "(\<exists>more. more \<noteq> [] \<and> h = more @ p) \<longleftrightarrow> length p < length h \<and> drop (length h - length p) h = p"
proof
  assume "length p < length h \<and> drop (length h - length p) h = p"
  then have "take (length h - length p) h \<noteq> [] \<and> h = take (length h - length p) h @ p" by (metis append_take_drop_id append_self_conv2 less_irrefl)
  then show "\<exists>more. more \<noteq> [] \<and> h = more @ p" by blast
qed auto

lemmas host_matches_code [code] = host_matches_def [unfolded proper_suffix]

theorem route_match_first_witness:
  "\<exists>table. NewHTTPRouteTable plain_url (Some sample_routes) = Inr table \<and>
     map_option (\<lambda>m. (hr_Name (hm_Route m), hm_Params m, hm_Wildcard m)) (table_match table ''https'' ''api.acme.com'' ''GET'' ''/u/7'' '''') =
       Some (''item'', [(''id'', ''7'')], '''') \<and>
     map_option (\<lambda>m. (hr_Name (hm_Route m), hm_Params m, hm_Wildcard m)) (table_match table ''https'' ''acme.com'' ''GET'' ''/u/7'' '''') =
       Some (''all'', [], ''u/7'')"
proof -
  have "\<not> isl (NewHTTPRouteTable plain_url (Some sample_routes))" by code_simp
  then obtain table where t: "NewHTTPRouteTable plain_url (Some sample_routes) = Inr table"
    by (cases "NewHTTPRouteTable plain_url (Some sample_routes)") auto
  let ?view = "map_option (\<lambda>m. (hr_Name (hm_Route m), hm_Params m, hm_Wildcard m))"
  have "?view (table_match table ''https'' ''api.acme.com'' ''GET'' ''/u/7'' '''') = Some (''item'', [(''id'', ''7'')], '''')"
    unfolding route_match_first [OF t] by code_simp
  moreover have "?view (table_match table ''https'' ''acme.com'' ''GET'' ''/u/7'' '''') = Some (''all'', [], ''u/7'')"
    unfolding route_match_first [OF t] by code_simp
  ultimately show ?thesis using t by blast
qed

subsection \<open>Forwarded headers\<close>

text \<open>One layer of the configuration: what it adds wins, what it strips is gone, the rest is from below.\<close>

definition header_layer :: "string gomap \<Rightarrow> string list \<Rightarrow> string \<Rightarrow> string option \<Rightarrow> string option" where
  "header_layer adds strips k below =
     (case gm_get adds k of Some v \<Rightarrow> Some v | None \<Rightarrow> if list_ex (EqualFold k) strips then None else below)"

lemma strip_headers_get: "gm_get (strip_headers names h) k = (if list_ex (EqualFold k) names then None else gm_get h k)"
proof (induction names arbitrary: h)
  case Nil
  then show ?case by (simp add: strip_headers_def)
next
  case (Cons n names)
  have "gm_get (deleteHeaderCaseInsensitive n h) k = (if EqualFold k n then None else gm_get h k)"
    unfolding deleteHeaderCaseInsensitive_def by (induction h) auto
  with Cons.IH [of "deleteHeaderCaseInsensitive n h"] show ?case by (simp add: strip_headers_def)
qed

lemma fold_put_get:
  "gm_wf adds \<Longrightarrow> gm_get (fold (\<lambda>(k, v) m. if P v then m else gm_put k (f v) m) adds h) k =
     (case gm_get adds k of None \<Rightarrow> gm_get h k | Some v \<Rightarrow> if P v then gm_get h k else Some (f v))"
proof (induction adds arbitrary: h)
  case (Cons p adds)
  obtain a b where p: "p = (a, b)" by (cases p)
  from Cons.prems have "gm_wf adds" and "gm_get adds a = None" by (auto simp: gm_wf_def p map_of_eq_None_iff)
  with Cons.IH show ?case by (cases "k = a") (simp_all add: p split: option.split)
qed simp

lemma add_headers_get: "gm_wf adds \<Longrightarrow> gm_get (add_headers adds h) k = (case gm_get adds k of Some v \<Rightarrow> Some v | None \<Rightarrow> gm_get h k)"
  using fold_put_get [where P = "\<lambda>_. False" and f = id, of adds h k] by (cases "gm_get adds k") (simp_all add: add_headers_def)

lemma add_strip_get: "gm_wf adds \<Longrightarrow> gm_get (add_headers adds (strip_headers strips h)) k = header_layer adds strips k (gm_get h k)"
  by (cases "gm_get adds k") (simp_all add: add_headers_get strip_headers_get header_layer_def)

definition request_header :: "string list gomap \<Rightarrow> string \<Rightarrow> string option" where
  "request_header hs k =
     (if list_ex (EqualFold k) hopByHopHeaders then None
      else case gm_get hs k of None \<Rightarrow> None | Some vs \<Rightarrow> if vs = [] then None else Some (Join vs '', ''))"

lemma joined_headers_get: "gm_wf hs \<Longrightarrow> gm_get (strip_headers hopByHopHeaders (joined_headers hs)) k = request_header hs k"
  by (simp add: strip_headers_get joined_headers_def fold_put_get request_header_def split: option.splits)

definition config_wf :: "HTTPRouteTableConfig \<Rightarrow> HTTPRouteMatch \<Rightarrow> bool" where
  "config_wf c m \<longleftrightarrow> gm_wf (hc_AddHeaders c) \<and> gm_wf (hu_AddHeaders (hm_Upstream m)) \<and> gm_wf (hr_AddHeaders (hm_Route m))"

text \<open>The headers sent to an upstream are layered: the route decides before the upstream, the upstream before
  the table, the table before the request, each by adding or by stripping without regard to case; a
  hop-by-hop header of the request never reaches the layers above it.
\<close>

theorem route_headers_layers:
  assumes "config_wf (rt_config table) m" and "gm_wf requestHeaders"
  shows "gm_get (RouteHeaders (Some table) requestHeaders (Some m)) k =
    header_layer (hr_AddHeaders (hm_Route m)) (hr_StripHeaders (hm_Route m)) k
      (header_layer (hu_AddHeaders (hm_Upstream m)) (hu_StripHeaders (hm_Upstream m)) k
        (header_layer (hc_AddHeaders (rt_config table)) (hc_StripHeaders (rt_config table)) k (request_header requestHeaders k)))"
  using assms by (simp add: RouteHeaders_def config_wf_def add_strip_get joined_headers_get)

theorem route_headers_layers_witness:
  "\<exists>table m. gm_get (RouteHeaders (Some table) [(''upgrade'', [''h2c'']), (''X-Id'', [''1'', ''2''])] (Some m)) ''upgrade'' = None \<and>
     gm_get (RouteHeaders (Some table) [(''upgrade'', [''h2c'']), (''X-Id'', [''1'', ''2''])] (Some m)) ''X-Id'' = Some ''1, 2''"
proof -
  let ?hs = "[(''upgrade'', [''h2c'']), (''X-Id'', [''1'', ''2''])]"
  define table where "table = \<lparr>rt_config = sample_routes, rt_tree = \<lparr>tr_schemes = [], tr_anyScheme = None\<rparr>, rt_groups = []\<rparr>"
  define m where "m = \<lparr>hm_Route = sample_route ''item'' [] [], hm_Upstream = no_upstream, hm_Params = [], hm_Wildcard = '''',
    hm_RequestPath = ''/'', hm_RequestURI = '''', hm_HTTPInstance = '''', hm_Metadata = []\<rparr>"
  have wf: "config_wf (rt_config table) m" "gm_wf ?hs"
    by (simp_all add: config_wf_def table_def m_def sample_routes_def sample_route_def no_upstream_def gm_wf_def)
  have r: "request_header ?hs ''upgrade'' = None" "request_header ?hs ''X-Id'' = Some ''1, 2''" by code_simp+
  show ?thesis
    by (intro exI [of _ table] exI [of _ m])
      (simp add: route_headers_layers [OF wf] r header_layer_def, simp add: table_def m_def sample_routes_def sample_route_def no_upstream_def)
qed

end
