(* ===== verification/SubJourneyFacts.thy ===== *)
theory SubJourneyFacts
  imports StepFacts
begin

text \<open>
  Calling a journey from a step and coming back: the frames of the tracking stack, the properties of the call
  and the result the called journey leaves behind.
\<close>

subsection \<open>The stack of properties\<close>

definition frame_ok :: "subJourneyPropsFrame \<Rightarrow> bool" where
  "frame_ok f \<longleftrightarrow> json_normal (GObj (pf_Props f)) \<and> json_normal (pf_Previous f)"

definition props_stack :: "'t step_env \<Rightarrow> 't \<Rightarrow> subJourneyPropsFrame list \<Rightarrow> bool" where
  "props_stack S t fs \<longleftrightarrow> list_all frame_ok fs \<and>
     obs (sp_tree S) t (stack_key S) = (if fs = [] then None else Some (GArr (map frame_json fs)))"

definition new_frame :: "'t step_env \<Rightarrow> DefaultMap \<Rightarrow> 't \<Rightarrow> subJourneyPropsFrame" where
  "new_frame S props t = \<lparr>pf_Props = props, pf_HadPrevious = obs (sp_tree S) t (props_key S) \<noteq> None,
     pf_Previous = or_default (obs (sp_tree S) t (props_key S)) GNil\<rparr>"

lemma frame_json_normal: "frame_ok f \<Longrightarrow> json_normal (frame_json f)"
  by (auto simp: frame_ok_def json_normal_def frame_json_def omit_any_def)

lemma stack_json_normal: "list_all frame_ok fs \<Longrightarrow> json_normal (GArr (map frame_json fs))"
  using frame_json_normal by (induction fs) (auto simp: json_normal_def)

lemma dec_frame_json [simp]: "dec_frame (frame_json f) = Inr f"
  by (simp add: dec_frame_def frame_json_def dec_obj_def omit_any_def)

lemma dec_frames_json [simp]: "dec_frames (map frame_json fs) = Inr fs"
  by (induction fs) simp_all

context context_tree
begin

lemma stack_read: "props_stack S t fs \<Longrightarrow> sp_tree S = T \<Longrightarrow> subJourneyPropsStack S t (stack_key S) = fs"
  using as_struct [of "tm_get T t (stack_key S)" "GArr (map frame_json fs)"] as_struct_none [of "tm_get T t (stack_key S)"] stack_json_normal [of fs]
  by (cases "fs = []") (auto simp: props_stack_def subJourneyPropsStack_def obs_def)

lemma push_obs:
  assumes "sp_tree S = T" and "props_stack S t fs" and "frame_ok (new_frame S props t)"
    and "key_ok (stack_key S)" and "key_ok (props_key S)" and "stack_key S \<noteq> props_key S" and "key_ok k"
  shows "obs T (push_props S props t) k =
    (if k = props_key S then Some (GObj props)
     else if k = stack_key S then Some (GArr (map frame_json (fs @ [new_frame S props t]))) else obs T t k)"
proof -
  have f: "\<lparr>pf_Props = props, pf_HadPrevious = tm_defined T t (props_key S), pf_Previous = get_any_or T t (props_key S) GNil\<rparr> = new_frame S props t"
    using assms(1,5) by (simp add: new_frame_def defined_obs get_any_or_def obs_def)
  show ?thesis using assms unfolding push_props_def Let_def stack_read [OF assms(2,1)] by (auto simp: f obs_simps)
qed

lemma pop_obs:
  assumes "sp_tree S = T" and "props_stack S t (fs @ [f])"
    and "key_ok (stack_key S)" and "key_ok (props_key S)" and "stack_key S \<noteq> props_key S" and "key_ok k"
  shows "obs T (pop_props S t) k =
    (if k = props_key S then (if pf_HadPrevious f \<and> pf_Previous f \<noteq> GNil then Some (pf_Previous f) else None)
     else if k = stack_key S then (if fs = [] then None else Some (GArr (map frame_json fs))) else obs T t k)"
  using assms unfolding pop_props_def Let_def stack_read [OF assms(2,1)] by (auto simp: obs_simps)

end

subsection \<open>Call and return\<close>

text \<open>A step that calls journey \<open>journeyId\<close> with \<open>props\<close> in context \<open>k\<close>, on a first visit in \<open>tx\<close>.\<close>

definition calls :: "'t step_env \<Rightarrow> 't \<Rightarrow> ctx_kind \<Rightarrow> string \<Rightarrow> DefaultMap \<Rightarrow> subJourneyPropsFrame list \<Rightarrow> 't JourneyTransaction \<Rightarrow> bool" where
  "calls S config k journeyId props fs tx \<longleftrightarrow>
     tm_as_string (sp_tree S) (tm_get (sp_tree S) config ''journey_id'') = Some journeyId \<and>
     subJourneyPropsContext S config = Inr k \<and> subJourneyConfigProps S config = Inr props \<and>
     \<not> get_bool_or (sp_tree S) config ''pass_tag'' False \<and>
     obs (sp_tree S) (ctx_view S KClosed tx) (tx_CurrentStepID tx) = None \<and>
     props_stack S (ctx_view S k tx) fs \<and> frame_ok (new_frame S props (ctx_view S k tx)) \<and>
     obs (sp_tree S) (ctx_view S k tx) (props_key S) \<noteq> Some GNil \<and>
     id_ok journeyId \<and> id_ok (jc_ID (tx_Journey tx))"

definition call_keys_ok :: "'t step_env \<Rightarrow> string \<Rightarrow> bool" where
  "call_keys_ok S s \<longleftrightarrow> key_ok s \<and> key_ok (props_key S) \<and> key_ok (stack_key S) \<and> key_ok (tags_key S) \<and>
     distinct [s, props_key S, stack_key S, tags_key S]"

definition called :: "'t step_env \<Rightarrow> ctx_kind \<Rightarrow> string \<Rightarrow> DefaultMap \<Rightarrow> 't JourneyTransaction \<Rightarrow> 't JourneyTransaction" where
  "called S k journeyId props tx =
     (let tx2 = ctx_update S k (push_props S props) (fst (ctx_read S k (fst (ctx_read S KClosed tx))))
      in tx2\<lparr>tx_State := PushTracking journeyId '''' (PushTracking (jc_ID (tx_Journey tx)) (tx_CurrentStepID tx) (tx_State tx2))\<rparr>)"

lemma view_called [simp]: "ctx_view S c (called S k journeyId props tx) = ctx_view S c (ctx_update S k (push_props S props) tx)"
proof -
  have "ctx_view S c (called S k journeyId props tx) = ctx_view S c (ctx_update S k (push_props S props) (fst (ctx_read S k (fst (ctx_read S KClosed tx)))))"
    by (simp add: called_def Let_def ctx_view_def)
  then show ?thesis by simp
qed

context context_tree
begin

lemma first_visit:
  assumes "sp_tree S = T" and "calls S config k journeyId props fs tx" and "key_ok (tx_CurrentStepID tx)"
  shows "SubJourney S config tx = (called S k journeyId props tx, Inr '''')"
proof -
  from assms have "\<not> tm_defined T (ctx_view S KClosed tx) (tx_CurrentStepID tx)" by (simp add: calls_def defined_obs)
  with assms(1,2) show ?thesis
    by (simp add: SubJourney_def calls_def pushSubJourneyProps_def called_def Let_def split_beta)
qed

lemma return_visit:
  assumes "sp_tree S = T" and "tm_as_string T (tm_get T config ''journey_id'') = Some journeyId"
    and "subJourneyPropsContext S config = Inr k" and "key_ok (tx_CurrentStepID tx)"
    and "obs T (ctx_view S KClosed tx) (tx_CurrentStepID tx) = Some (GBool b)"
    and stack: "props_stack S (ctx_view S k tx) (fs @ [f])" and "call_keys_ok S (tx_CurrentStepID tx)"
  shows "\<exists>tx'. SubJourney S config tx = (tx', Inr (conditionOutcome b)) \<and> js_frames (tx_State tx') = js_frames (tx_State tx) \<and>
    (\<forall>c key. key_ok key \<longrightarrow> key \<noteq> tags_key S \<longrightarrow>
       obs T (ctx_view S c tx') key =
         (if c = KClosed \<and> key = tx_CurrentStepID tx then None
          else obs T (if c = k then pop_props S (ctx_view S c tx) else ctx_view S c tx) key))"
proof -
  have d: "tm_defined T (ctx_view S KClosed tx) (tx_CurrentStepID tx)" using assms by (simp add: defined_obs)
  let ?s = "tx_CurrentStepID tx" and ?tag = "cfg_str S config ''tag_name'' journeyId"
  define tx1 where "tx1 = ctx_update S k (pop_props S) (fst (ctx_read S KClosed tx))"
  define tx3 where "tx3 = ctx_update S KClosed (\<lambda>_. fst (tm_delete T (ctx_view S KClosed tx1) ?s)) (fst (ctx_read S KClosed tx1))"
  define tx4 where "tx4 = (if b \<and> get_bool_or T config ''set_tag'' False then ctx_update S KClosed (add_tag S ?tag) tx3 else tx3)"
  have popped: "obs T (pop_props S (ctx_view S k tx)) ?s = obs T (ctx_view S k tx) ?s"
    using pop_obs [OF assms(1) stack, of ?s] assms(7) by (auto simp: call_keys_ok_def)
  have "obs T (ctx_view S KClosed tx1) ?s = Some (GBool b)" using assms(5) popped by (auto simp: tx1_def)
  then have removed: "tm_as_bool T (tm_get T (ctx_view S KClosed tx1) ?s) = Some b" by (simp add: obs_def as_bool)
  have "SubJourney S config tx = sub_journey_return S ?tag config (fst (ctx_read S KClosed tx))"
    using assms(1,2) d by (simp add: SubJourney_def Let_def split_beta)
  also have "\<dots> = (tx4, Inr (conditionOutcome b))"
    using assms(1,3,4) removed
    by (simp add: sub_journey_return_def restoreSubJourneyProps_def Let_def split_beta delete_value tx4_def tx3_def conditionOutcome_def
        flip: tx1_def)
  finally have run: "SubJourney S config tx = (tx4, Inr (conditionOutcome b))" .
  have tag: "obs T (add_tag S ?tag t) key = obs T t key" if "key_ok key" "key \<noteq> tags_key S" for t key
    using that assms(1,7) by (simp add: add_tag_def Let_def obs_simps call_keys_ok_def)
  have "obs T (ctx_view S c tx4) key = obs T (ctx_view S c tx3) key" if "key_ok key" "key \<noteq> tags_key S" for c key
    using that tag by (simp add: tx4_def)
  moreover have "obs T (ctx_view S c tx3) key = (if c = KClosed \<and> key = ?s then None else obs T (ctx_view S c tx1) key)" if "key_ok key" for c key
    using that assms(4) by (simp add: tx3_def obs_simps)
  moreover have "ctx_view S c tx1 = (if c = k then pop_props S (ctx_view S c tx) else ctx_view S c tx)" for c by (simp add: tx1_def)
  moreover have "js_frames (tx_State tx4) = js_frames (tx_State tx)" by (simp add: tx4_def tx3_def tx1_def)
  ultimately show ?thesis using run by (intro exI [of _ tx4]) simp
qed

end

text \<open>How the executor enters the frame on top of the stack, and the two steps that end a called journey.\<close>

definition enter_frame :: "JourneyConfiguration \<Rightarrow> 't JourneyTransaction \<Rightarrow> 't JourneyTransaction" where
  "enter_frame journey tx =
     (case PopTracking (tx_State tx) of
        (st, journeyID, stepID) \<Rightarrow>
          tx\<lparr>tx_State := st, tx_Journey := journey, tx_CurrentStepID := (if stepID = '''' then jc_StartStepID journey else stepID)\<rparr>)"

definition end_step :: "'t step_env \<Rightarrow> bool \<Rightarrow> 't step" where
  "end_step S b = (if b then Success S else Failure S)"

lemma end_step_result:
  assumes "js_frames (tx_State tx) = (p, s) # old" and "js_ClosedCtx (tx_State tx) \<noteq> None"
  shows "end_step S b config tx = (ctx_set S KClosed s (GBool b) tx, Inr ''true'')"
proof -
  have "ExistsTracking (tx_State tx)" "GetTracking (tx_State tx) = (p, s)"
    using tracking.frames_nonempty [of "tx_State tx"] tracking.frames_top [OF assms(1)] assms(1) by auto
  then show ?thesis using assms(2)
    by (auto simp: end_step_def Success_def Failure_def ctx_set_def ctx_update_def GetClosedCtx_def)
qed

lemma enter_frame_facts:
  assumes "js_frames (tx_State tx) = (p, s) # old" and "s \<noteq> ''''"
  shows "js_frames (tx_State (enter_frame journey tx)) = old" "tx_CurrentStepID (enter_frame journey tx) = s"
    "ctx_view S k (enter_frame journey tx) = ctx_view S k tx"
  using tracking.frames_pop [OF assms(1)] assms(2)
  by (simp_all add: enter_frame_def split_beta ctx_view_def)

lemma called_frames:
  "id_ok journeyId \<Longrightarrow> id_ok (jc_ID (tx_Journey tx)) \<Longrightarrow> js_frames (tx_State (called S k journeyId props tx)) =
    (journeyId, '''') # (jc_ID (tx_Journey tx), tx_CurrentStepID tx) # js_frames (tx_State tx)"
  by (simp add: called_def Let_def tracking.frames_push)

context context_tree
begin

lemma ended_view:
  assumes "sp_tree S = T" and "js_frames (tx_State tx) = (p, s) # old" and "js_ClosedCtx (tx_State tx) \<noteq> None" and "key_ok s" and "key_ok key"
  shows "obs T (ctx_view S c (enter_frame journey (fst (end_step S b config tx)))) key =
    (if c = KClosed \<and> key = s then Some (GBool b) else obs T (ctx_view S c tx) key)"
proof -
  have "js_frames (tx_State (ctx_set S KClosed s (GBool b) tx)) = (p, s) # old" using assms(2) by (simp add: ctx_set_def)
  moreover have "s \<noteq> ''''" using assms(4) by (simp add: key_ok_def)
  ultimately show ?thesis using assms(1,4,5) unfolding end_step_result [OF assms(2,3)]
    by (simp add: enter_frame_facts(3)) (simp add: ctx_set_def obs_simps)
qed

lemma called_back:
  assumes "sp_tree S = T" and keys: "call_keys_ok S s" and "tm_as_string T (tm_get T config ''journey_id'') = Some journeyId"
    and "subJourneyPropsContext S config = Inr k" and fr: "js_frames (tx_State tx) = (p, s) # old" and cl: "js_ClosedCtx (tx_State tx) \<noteq> None"
    and stack: "props_stack S (ctx_view S k tx) (fs @ [f])"
  shows "\<exists>tx'. SubJourney S config (enter_frame journey (fst (end_step S b config2 tx))) = (tx', Inr (conditionOutcome b)) \<and>
    js_frames (tx_State tx') = old \<and>
    (\<forall>c key. key_ok key \<longrightarrow> key \<noteq> tags_key S \<longrightarrow>
       obs T (ctx_view S c tx') key =
         (if c = KClosed \<and> key = s then None
          else if c = k \<and> key = props_key S then (if pf_HadPrevious f \<and> pf_Previous f \<noteq> GNil then Some (pf_Previous f) else None)
          else if c = k \<and> key = stack_key S then (if fs = [] then None else Some (GArr (map frame_json fs)))
          else obs T (ctx_view S c tx) key))"
proof -
  define tx1 where "tx1 = enter_frame journey (fst (end_step S b config2 tx))"
  have ks: "key_ok s" "key_ok (props_key S)" "key_ok (stack_key S)" "stack_key S \<noteq> props_key S" "s \<noteq> stack_key S" "s \<noteq> props_key S" "s \<noteq> ''''"
    using keys by (auto simp: call_keys_ok_def key_ok_def)
  note v = ended_view [OF assms(1) fr cl ks(1), where journey = journey and b = b and config = config2, folded tx1_def]
  have e: "js_frames (tx_State tx1) = old" "tx_CurrentStepID tx1 = s"
    unfolding tx1_def end_step_result [OF fr cl] using fr ks(7)
    by (intro enter_frame_facts [where p = p] | simp add: ctx_set_def)+
  have st: "props_stack S (ctx_view S k tx1) (fs @ [f])" using stack ks(3,5) assms(1) by (simp add: props_stack_def v)
  from return_visit [OF assms(1,3,4), of tx1 b fs f] e ks(1) st keys v [OF ks(1)] obtain tx' where
    run: "SubJourney S config tx1 = (tx', Inr (conditionOutcome b))" "js_frames (tx_State tx') = old" and
    o: "\<And>c key. key_ok key \<Longrightarrow> key \<noteq> tags_key S \<Longrightarrow> obs T (ctx_view S c tx') key =
         (if c = KClosed \<and> key = s then None else obs T (if c = k then pop_props S (ctx_view S c tx1) else ctx_view S c tx1) key)" by auto
  have "obs T (ctx_view S c tx') key =
         (if c = KClosed \<and> key = s then None
          else if c = k \<and> key = props_key S then (if pf_HadPrevious f \<and> pf_Previous f \<noteq> GNil then Some (pf_Previous f) else None)
          else if c = k \<and> key = stack_key S then (if fs = [] then None else Some (GArr (map frame_json fs)))
          else obs T (ctx_view S c tx) key)" if key: "key_ok key" "key \<noteq> tags_key S" for c key
  proof (cases "c = KClosed \<and> key = s")
    case False
    then show ?thesis using o [OF key, of c] pop_obs [OF assms(1) st ks(3,2,4) key(1)] v [OF key(1), of c]
      by (cases "c = k") auto
  qed (use o [OF key, of c] in simp)
  then show ?thesis unfolding tx1_def [symmetric] using run by (intro exI [of _ tx']) simp
qed

end

text \<open>
  C7. A sub-journey call returns to its caller. The first visit of the step waits with the frames of the
  caller and of the called journey on the stack and the properties of the call in place. Whenever the
  called journey ends with \<open>Success\<close> or \<open>Failure\<close> on top of the caller's frame, with the stack of properties as
  the call left it, the executor is back at the calling step, and the second visit routes on the
  result, removes it, gives the caller its properties and its stack of properties back, and changes
  nothing else but the list of tags.
\<close>

theorem sub_journey_call:
  assumes "context_tree (sp_tree S)" and "call_keys_ok S (tx_CurrentStepID tx)" and "calls S config k journeyId props fs tx"
  shows "\<exists>tx1. SubJourney S config tx = (tx1, Inr '''') \<and>
    js_frames (tx_State tx1) = (journeyId, '''') # (jc_ID (tx_Journey tx), tx_CurrentStepID tx) # js_frames (tx_State tx) \<and>
    obs (sp_tree S) (ctx_view S k tx1) (props_key S) = Some (GObj props) \<and>
    (\<forall>tx2 b config2. js_frames (tx_State tx2) = tl (js_frames (tx_State tx1)) \<longrightarrow> js_ClosedCtx (tx_State tx2) \<noteq> None \<longrightarrow>
       obs (sp_tree S) (ctx_view S k tx2) (stack_key S) = obs (sp_tree S) (ctx_view S k tx1) (stack_key S) \<longrightarrow>
       (\<exists>tx3. SubJourney S config (enter_frame (tx_Journey tx) (fst (end_step S b config2 tx2))) = (tx3, Inr (conditionOutcome b)) \<and>
          js_frames (tx_State tx3) = js_frames (tx_State tx) \<and>
          obs (sp_tree S) (ctx_view S KClosed tx3) (tx_CurrentStepID tx) = None \<and>
          (\<forall>key \<in> {props_key S, stack_key S}. obs (sp_tree S) (ctx_view S k tx3) key = obs (sp_tree S) (ctx_view S k tx) key) \<and>
          (\<forall>c key. key_ok key \<longrightarrow> key \<notin> {tx_CurrentStepID tx, props_key S, stack_key S, tags_key S} \<longrightarrow>
             obs (sp_tree S) (ctx_view S c tx3) key = obs (sp_tree S) (ctx_view S c tx2) key)))"
proof -
  let ?s = "tx_CurrentStepID tx" and ?T = "sp_tree S" and ?j = "jc_ID (tx_Journey tx)"
  let ?f = "new_frame S props (ctx_view S k tx)"
  note t = context_tree.first_visit [OF assms(1) refl assms(3)] context_tree.push_obs [OF assms(1) refl]
    context_tree.called_back [OF assms(1) refl assms(2)]
  define tx1 where "tx1 = called S k journeyId props tx"
  have ks: "key_ok ?s" "key_ok (props_key S)" "key_ok (stack_key S)" "stack_key S \<noteq> props_key S"
    using assms(2) by (auto simp: call_keys_ok_def)
  have c: "props_stack S (ctx_view S k tx) fs" "frame_ok ?f" "id_ok journeyId" "id_ok ?j" "subJourneyPropsContext S config = Inr k"
    "tm_as_string ?T (tm_get ?T config ''journey_id'') = Some journeyId" "obs ?T (ctx_view S k tx) (props_key S) \<noteq> Some GNil"
    using assms(3) by (auto simp: calls_def)
  note p = t(2) [OF c(1,2) ks(3,2,4)]
  have fr: "js_frames (tx_State tx1) = (journeyId, '''') # (?j, ?s) # js_frames (tx_State tx)"
    unfolding tx1_def by (rule called_frames [OF c(3,4)])
  have f: "(if pf_HadPrevious ?f \<and> pf_Previous ?f \<noteq> GNil then Some (pf_Previous ?f) else None) = obs ?T (ctx_view S k tx) (props_key S)"
    using c(7) by (cases "obs ?T (ctx_view S k tx) (props_key S)") (auto simp: new_frame_def)
  show ?thesis
  proof (rule exI [of _ tx1], intro conjI allI impI)
    show "SubJourney S config tx = (tx1, Inr '''')" unfolding tx1_def by (rule t(1)) (rule ks)
    show "js_frames (tx_State tx1) = (journeyId, '''') # (?j, ?s) # js_frames (tx_State tx)" by (rule fr)
    show "obs ?T (ctx_view S k tx1) (props_key S) = Some (GObj props)" using p [OF ks(2)] by (simp add: tx1_def)
  next
    fix tx2 :: "'a JourneyTransaction" and b config2
    assume a: "js_frames (tx_State tx2) = tl (js_frames (tx_State tx1))" "js_ClosedCtx (tx_State tx2) \<noteq> None"
      "obs ?T (ctx_view S k tx2) (stack_key S) = obs ?T (ctx_view S k tx1) (stack_key S)"
    have "props_stack S (ctx_view S k tx2) (fs @ [?f])"
      using a(3) p [OF ks(3)] c(1,2) ks(4) by (simp add: props_stack_def tx1_def)
    from t(3) [OF c(6,5) _ a(2) this, of ?j "js_frames (tx_State tx)" "tx_Journey tx" b config2] a(1) fr obtain tx3 where
      run: "SubJourney S config (enter_frame (tx_Journey tx) (fst (end_step S b config2 tx2))) = (tx3, Inr (conditionOutcome b))"
        "js_frames (tx_State tx3) = js_frames (tx_State tx)" and
      o: "\<And>c key. key_ok key \<Longrightarrow> key \<noteq> tags_key S \<Longrightarrow> obs ?T (ctx_view S c tx3) key =
         (if c = KClosed \<and> key = ?s then None
          else if c = k \<and> key = props_key S then obs ?T (ctx_view S k tx) (props_key S)
          else if c = k \<and> key = stack_key S then (if fs = [] then None else Some (GArr (map frame_json fs)))
          else obs ?T (ctx_view S c tx2) key)" unfolding f by auto
    show "\<exists>tx3. SubJourney S config (enter_frame (tx_Journey tx) (fst (end_step S b config2 tx2))) = (tx3, Inr (conditionOutcome b)) \<and>
          js_frames (tx_State tx3) = js_frames (tx_State tx) \<and> obs ?T (ctx_view S KClosed tx3) ?s = None \<and>
          (\<forall>key \<in> {props_key S, stack_key S}. obs ?T (ctx_view S k tx3) key = obs ?T (ctx_view S k tx) key) \<and>
          (\<forall>c key. key_ok key \<longrightarrow> key \<notin> {?s, props_key S, stack_key S, tags_key S} \<longrightarrow>
             obs ?T (ctx_view S c tx3) key = obs ?T (ctx_view S c tx2) key)"
      using run assms(2) c(1) by (intro exI [of _ tx3]) (auto simp: o call_keys_ok_def props_stack_def)
  qed
qed

definition caller_tx :: "gval JourneyTransaction" where
  "caller_tx = flow_tx [] (zero_state\<lparr>js_ClosedCtx := Some (GObj [(''journey_props'', GObj [(''a'', GStr ''0'')])])\<rparr>)"

definition call_config :: gval where
  "call_config = GObj [(''journey_id'', GStr ''j2''), (''props'', GObj [(''a'', GStr ''1'')])]"

theorem sub_journey_call_witness:
  "\<exists>tx1 tx3. SubJourney flow_env call_config caller_tx = (tx1, Inr '''') \<and>
     obs ref_tree (ctx_view flow_env KClosed tx1) ''journey_props'' = Some (GObj [(''a'', GStr ''1'')]) \<and>
     SubJourney flow_env call_config (enter_frame tiny_journey (fst (end_step flow_env True (GObj []) (enter_frame tiny_journey tx1)))) =
       (tx3, Inr ''true'') \<and>
     obs ref_tree (ctx_view flow_env KClosed tx3) ''journey_props'' = Some (GObj [(''a'', GStr ''0'')])"
proof -
  have tree: "context_tree (sp_tree flow_env)" using ref.context_tree_axioms by (simp add: flow_env_def)
  have keys: "call_keys_ok flow_env (tx_CurrentStepID caller_tx)" by code_simp
  have j: "tx_Journey caller_tx = tiny_journey" "props_key flow_env = ''journey_props''" "sp_tree flow_env = ref_tree"
    by (simp_all add: caller_tx_def flow_tx_def new_transaction_def flow_env_def props_key_def GetContextKey_def GetContextPrefixKey_def unset_env_def)
  have "calls flow_env call_config KClosed ''j2'' [(''a'', GStr ''1'')] [] caller_tx" by code_simp
  from sub_journey_call [OF tree keys this] obtain tx1 where
    run1: "SubJourney flow_env call_config caller_tx = (tx1, Inr '''')" and
    p1: "obs ref_tree (ctx_view flow_env KClosed tx1) ''journey_props'' = Some (GObj [(''a'', GStr ''1'')])" and
    ret: "\<And>tx2. js_frames (tx_State tx2) = tl (js_frames (tx_State tx1)) \<Longrightarrow> js_ClosedCtx (tx_State tx2) \<noteq> None \<Longrightarrow>
      obs ref_tree (ctx_view flow_env KClosed tx2) (stack_key flow_env) = obs ref_tree (ctx_view flow_env KClosed tx1) (stack_key flow_env) \<Longrightarrow>
      \<exists>tx3. SubJourney flow_env call_config (enter_frame tiny_journey (fst (end_step flow_env True (GObj []) tx2))) = (tx3, Inr (conditionOutcome True)) \<and>
        obs ref_tree (ctx_view flow_env KClosed tx3) ''journey_props'' = obs ref_tree (ctx_view flow_env KClosed caller_tx) ''journey_props''"
    unfolding j by blast
  let ?tx2 = "enter_frame tiny_journey (fst (SubJourney flow_env call_config caller_tx))"
  have "js_frames (tx_State ?tx2) = tl (js_frames (tx_State (fst (SubJourney flow_env call_config caller_tx))))" by code_simp
  moreover have "js_ClosedCtx (tx_State ?tx2) \<noteq> None" by code_simp
  moreover have "ctx_view flow_env KClosed ?tx2 = ctx_view flow_env KClosed (fst (SubJourney flow_env call_config caller_tx))" by code_simp
  moreover have "obs ref_tree (ctx_view flow_env KClosed caller_tx) ''journey_props'' = Some (GObj [(''a'', GStr ''0'')])" by code_simp
  ultimately show ?thesis using run1 p1 ret [of ?tx2] by (auto simp: conditionOutcome_def)
qed

end
