(* ===== verification/FlowFacts.thy ===== *)
theory FlowFacts
  imports StepFacts
begin

text \<open>
  Facts of the steps that ask again: a retry step gives up after its configured number of visits, and a form
  either has what it requires or asks for it.
\<close>

subsection \<open>Retry\<close>

text \<open>The outcomes of visiting a step \<open>n\<close> times.\<close>

primrec visits :: "nat \<Rightarrow> ('s \<Rightarrow> 's \<times> 'r) \<Rightarrow> 's \<Rightarrow> 'r list" where
  "visits 0 step s = []"
| "visits (Suc n) step s = snd (step s) # visits n step (fst (step s))"

definition retry_config :: "'t step_env \<Rightarrow> 't \<Rightarrow> int \<Rightarrow> ctx_kind \<Rightarrow> string \<Rightarrow> bool" where
  "retry_config S config m k counter \<longleftrightarrow> get_int_or (sp_tree S) config ''max_attempts'' 0 = m \<and> 1 \<le> m \<and>
     ctx_kind_of (cfg_str S config ''context'' ''ctx'') = Some k \<and> cfg_str S config ''counter'' '''' = counter \<and> key_ok counter"

lemma view_named [simp]: "ctx_view S k (fst (named_ctx S name tx)) = ctx_view S k tx"
  by (auto simp: ctx_view_def named_ctx_def StateGet_def split_beta get_kind_fst split: option.split)

lemma snd_named [simp]: "snd (named_ctx S name tx) = ctx_kind_of name"
  by (auto simp: named_ctx_def StateGet_def split_beta split: option.split)

context context_tree
begin

lemma retry_visit:
  assumes "sp_tree S = T" and "retry_config S config m k counter" and "obs T (ctx_view S k tx) counter = (if a = 0 then None else Some (GInt a))"
    and "0 \<le> a" and "a + 1 < 2 ^ 63"
  shows "\<exists>tx'. Retry S config tx = (tx', Inr (if a + 1 < m then ''retry'' else ''exhausted'')) \<and>
    obs T (ctx_view S k tx') counter = Some (GInt (a + 1))"
proof -
  define tx1 where "tx1 = fst (named_ctx S (cfg_str S config ''context'' ''ctx'') tx)"
  have n: "named_ctx S (cfg_str S config ''context'' ''ctx'') tx = (tx1, Some k)"
    using assms(2) by (metis prod.collapse retry_config_def snd_named tx1_def)
  have "get_int_or T (ctx_view S k tx) counter 0 = a"
    using assms(3) as_int as_int_none by (auto simp: get_int_or_def obs_def split: if_splits)
  moreover have "wrap64 (a + 1) = a + 1" using assms(4,5) by (simp add: in_int64_def)
  moreover have "ctx_view S k tx1 = ctx_view S k tx" by (simp add: tx1_def)
  ultimately have "Retry S config tx = (ctx_set S k counter (GInt (a + 1)) tx1, Inr (if a + 1 < m then ''retry'' else ''exhausted''))"
    using assms(1,2) n by (auto simp: Retry_def retry_config_def Let_def key_ok_def)
  moreover have "obs T (ctx_view S k (ctx_set S k counter (GInt (a + 1)) tx1)) counter = Some (GInt (a + 1))"
    using assms(1,2) by (simp add: ctx_set_def obs_set retry_config_def)
  ultimately show ?thesis by blast
qed

lemma retry_outcomes:
  assumes "sp_tree S = T" and "retry_config S config m k counter" and "obs T (ctx_view S k tx) counter = (if a = 0 then None else Some (GInt a))"
    and "0 \<le> a" and "a + int n < 2 ^ 63"
  shows "visits n (Retry S config) tx = map (\<lambda>i. Inr (if a + int i + 1 < m then ''retry'' else ''exhausted'')) [0..<n]"
  using assms(3-5)
proof (induction n arbitrary: tx a)
  case (Suc n)
  then obtain tx' where run: "Retry S config tx = (tx', Inr (if a + 1 < m then ''retry'' else ''exhausted''))"
    "obs T (ctx_view S k tx') counter = Some (GInt (a + 1))"
    using retry_visit [OF assms(1,2) Suc.prems(1)] by auto
  with Suc.IH [of tx' "a + 1"] Suc.prems(2,3) show ?case
    by (simp add: upt_conv_Cons map_Suc_upt [symmetric] del: upt_Suc)
qed simp

end

text \<open>
  C32. A retry step lets exactly \<open>max_attempts - 1\<close> visits through and answers \<open>exhausted\<close> from then on, so a
  loop in the journey through it is left.
\<close>

theorem retry_gives_up:
  assumes "context_tree (sp_tree S)" and "retry_config S config m k counter"
    and "obs (sp_tree S) (ctx_view S k tx) counter = None" and "int n < 2 ^ 63"
  shows "visits n (Retry S config) tx = replicate (min n (nat (m - 1))) (Inr ''retry'') @ replicate (n - nat (m - 1)) (Inr ''exhausted'')"
proof -
  have "visits n (Retry S config) tx = map (\<lambda>i. Inr (if int i + 1 < m then ''retry'' else ''exhausted'')) [0..<n]"
    using context_tree.retry_outcomes [OF assms(1) refl assms(2), of tx 0 n] assms(3,4) by simp
  also have "\<dots> = replicate (min n (nat (m - 1))) (Inr ''retry'') @ replicate (n - nat (m - 1)) (Inr ''exhausted'')"
    using assms(2) by (intro nth_equalityI) (auto simp: nth_append retry_config_def)
  finally show ?thesis .
qed

theorem retry_gives_up_witness:
  "visits 4 (Retry flow_env (GObj [(''max_attempts'', GInt 3), (''counter'', GStr ''tries'')])) (flow_tx [] zero_state) =
     [Inr ''retry'', Inr ''retry'', Inr ''exhausted'', Inr ''exhausted'']"
proof -
  let ?c = "GObj [(''max_attempts'', GInt 3), (''counter'', GStr ''tries'')]"
  have "context_tree (sp_tree flow_env)" using ref.context_tree_axioms by (simp add: flow_env_def)
  moreover have "retry_config flow_env ?c 3 KCtx ''tries''" by code_simp
  moreover have "obs (sp_tree flow_env) (ctx_view flow_env KCtx (flow_tx [] zero_state)) ''tries'' = None" by code_simp
  ultimately show ?thesis using retry_gives_up [of flow_env ?c 3 KCtx "''tries''" "flow_tx [] zero_state" 4] by (simp add: numeral_eq_Suc)
qed

subsection \<open>Form\<close>

lemma put_builder_new [simp]:
  "tx_newClientInputs (put_builder b tx) = cib_newClientInputs b" "tx_clientInputs (put_builder b tx) = cib_clientInputs b"
  by (simp_all add: put_builder_def Let_def split: ctx_ref.split)

lemma tx_builder_fields [simp]:
  "cib_newClientInputs (tx_builder T K tx) = tx_newClientInputs tx" "cib_clientInputs (tx_builder T K tx) = tx_clientInputs tx"
  by (simp_all add: tx_builder_def)

lemma Add_fields: "Add T E inp config b = (b', None) \<Longrightarrow>
    length (cib_newClientInputs b') = Suc (length (cib_newClientInputs b)) \<and> cib_clientInputs b' = cib_clientInputs b"
  by (auto simp: Add_def Let_def split: option.splits if_splits sum.splits)

lemma AddValueInput_fields: "AddValueInput T E c b = (b', None) \<Longrightarrow>
    length (cib_newClientInputs b') = Suc (length (cib_newClientInputs b)) \<and> cib_clientInputs b' = cib_clientInputs b"
  by (cases c) (auto simp: AddValueInput_def dest: Add_fields)

text \<open>What a form has of one field: the value to keep, if any.\<close>

definition field_value :: "'t JourneyTransaction \<Rightarrow> ValueInputConfig \<Rightarrow> (ValueInputConfig \<times> gval) list" where
  "field_value tx c =
     (case first_external (vi_ExternalID c) (tx_clientInputs tx) of
        None \<Rightarrow> []
      | Some inp \<Rightarrow> if ci_Input inp = GNil \<and> \<not> vi_Required c then [] else [(c, ci_Input inp)])"

lemma form_field_cases:
  assumes "form_fields S (field # fds) tx = (tx', Inr (acc, asked))"
  obtains c acc' asked' tx1 where "valueInputConfig S field = Inr c" and "form_fields S fds tx1 = (tx', Inr (acc', asked'))"
    and "tx_clientInputs tx1 = tx_clientInputs tx" and "acc = field_value tx c @ acc'"
    and "(tx1 = tx \<and> asked = asked' \<and> (vi_Required c \<longrightarrow> first_external (vi_ExternalID c) (tx_clientInputs tx) \<noteq> None)) \<or>
         (asked \<and> length (tx_newClientInputs tx1) = Suc (length (tx_newClientInputs tx)))"
proof -
  from assms obtain c where c: "valueInputConfig S field = Inr c" by (cases "valueInputConfig S field") auto
  let ?b = "tx_builder (sp_tree S) (sp_crypto S) tx"
  show ?thesis
  proof (cases "GetFirstFromExternalID (vi_ExternalID c) ?b")
    case None
    then have f: "first_external (vi_ExternalID c) (tx_clientInputs tx) = None" by (simp add: GetFirstFromExternalID_def)
    show ?thesis
    proof (cases "WasRequested (sp_tree S) (sp_keys S) (vi_ExternalID c) (tx_CurrentStepID tx) ?b \<and> \<not> vi_Required c")
      case True
      with assms c None have "form_fields S fds tx = (tx', Inr (acc, asked))" by (auto split: prod.splits sum.splits)
      with True show ?thesis using c f by (intro that [of c tx acc asked]) (auto simp: field_value_def)
    next
      case False
      then obtain b' where a: "AddValueInput (sp_tree S) (sp_keys S) (Some c) ?b = (b', None)"
        using assms c None by (cases "AddValueInput (sp_tree S) (sp_keys S) (Some c) ?b") (auto split: option.splits)
      with assms c None False obtain asked' where "form_fields S fds (put_builder b' tx) = (tx', Inr (acc, asked'))" "asked"
        by (auto split: prod.splits sum.splits)
      with AddValueInput_fields [OF a] show ?thesis using c f by (intro that [of c "put_builder b' tx" acc asked']) (auto simp: field_value_def)
    qed
  next
    case (Some inp)
    then have f: "first_external (vi_ExternalID c) (tx_clientInputs tx) = Some inp" by (simp add: GetFirstFromExternalID_def)
    from assms c Some obtain acc' where "form_fields S fds tx = (tx', Inr (acc', asked))" "acc = field_value tx c @ acc'"
      by (auto simp: field_value_def f split: prod.splits sum.splits if_splits)
    then show ?thesis using c f by (intro that [of c tx acc' asked]) auto
  qed
qed

definition field_config :: "'t step_env \<Rightarrow> 't \<Rightarrow> ValueInputConfig" where
  "field_config S field = projr (valueInputConfig S field)"

lemma form_fields_result:
  assumes "form_fields S fds tx = (tx', Inr (acc, asked))"
  shows "acc = concat (map (\<lambda>f. field_value tx (field_config S f)) fds)"
    and "length (tx_newClientInputs tx) \<le> length (tx_newClientInputs tx')"
    and "asked \<Longrightarrow> length (tx_newClientInputs tx) < length (tx_newClientInputs tx')"
    and "\<not> asked \<Longrightarrow> tx' = tx \<and> (\<forall>f \<in> set fds. valueInputConfig S f = Inr (field_config S f) \<and>
           (vi_Required (field_config S f) \<longrightarrow> first_external (vi_ExternalID (field_config S f)) (tx_clientInputs tx) \<noteq> None))"
  using assms
proof (induction fds arbitrary: tx acc asked)
  case (Cons field fds)
  {
    case 1
    then show ?case
    proof (rule form_field_cases)
      fix c acc' asked' tx1
      assume a: "valueInputConfig S field = Inr c" "form_fields S fds tx1 = (tx', Inr (acc', asked'))"
        "tx_clientInputs tx1 = tx_clientInputs tx" "acc = field_value tx c @ acc'"
      have "field_value tx1 = field_value tx" using a(3) by (simp add: fun_eq_iff field_value_def)
      moreover have "field_config S field = c" using a(1) by (simp add: field_config_def)
      ultimately show ?case using Cons.IH(1) [OF a(2)] a(4) by simp
    qed
  next
    case 2
    then show ?case by (rule form_field_cases) (use Cons.IH(2) in fastforce)
  next
    case 3
    from 3(2) show ?case by (rule form_field_cases) (use 3(1) Cons.IH(2,3) in fastforce)
  next
    case 4
    from 4(2) show ?case by (rule form_field_cases) (use 4(1) Cons.IH(4) in \<open>auto simp: field_config_def\<close>)
  }
qed auto

definition user_key :: "'t step_env \<Rightarrow> string" where
  "user_key S = GetContextKey (sp_keys S) ''user_name''"

lemma ctx_set_new [simp]: "tx_newClientInputs (ctx_set S k key v tx) = tx_newClientInputs tx"
  by (simp add: ctx_set_def ctx_update_def split_beta)

lemma form_save_cases:
  assumes "form_save S k '''' ((c, v) # items) tx = (tx', Inr outcome)"
  obtains tx1 where "form_save S k '''' items tx1 = (tx', Inr outcome)"
    and "tx1 = ctx_set S k (vi_ID c) v tx \<or> (\<exists>hint. tx1 = ctx_set S KClosed (user_key S) (GStr hint) (ctx_set S k (vi_ID c) v tx))"
  using assms by (cases "vi_UserName c"; cases v) (auto simp: Let_def user_key_def)

context context_tree
begin

lemma view_set:
  "sp_tree S = T \<Longrightarrow> key_ok key' \<Longrightarrow> key_ok key \<Longrightarrow> obs T (ctx_view S k (ctx_set S k' key' v tx)) key =
     (if k' = k \<and> key = key' then (if v = GNil then None else Some v) else obs T (ctx_view S k tx) key)"
  by (simp add: ctx_set_def obs_simps)

lemma form_save_obs:
  assumes "sp_tree S = T" and "key_ok (user_key S)" and "form_save S k '''' items tx = (tx', Inr outcome)"
    and "\<forall>p \<in> set items. key_ok (vi_ID (fst p)) \<and> vi_ID (fst p) \<noteq> user_key S" and "distinct (map (\<lambda>p. vi_ID (fst p)) items)"
  shows "outcome = ''true'' \<and> tx_newClientInputs tx' = tx_newClientInputs tx \<and>
    (\<forall>p \<in> set items. obs T (ctx_view S k tx') (vi_ID (fst p)) = (if snd p = GNil then None else Some (snd p))) \<and>
    (\<forall>key. key_ok key \<longrightarrow> key \<noteq> user_key S \<longrightarrow> key \<notin> (\<lambda>p. vi_ID (fst p)) ` set items \<longrightarrow>
       obs T (ctx_view S k tx') key = obs T (ctx_view S k tx) key)"
  using assms(3-5)
proof (induction items arbitrary: tx)
  case (Cons p items)
  obtain c v where p: "p = (c, v)" by (cases p)
  from Cons.prems(1) [unfolded p] obtain tx1 where
    run: "form_save S k '''' items tx1 = (tx', Inr outcome)" and
    tx1: "tx1 = ctx_set S k (vi_ID c) v tx \<or> (\<exists>hint. tx1 = ctx_set S KClosed (user_key S) (GStr hint) (ctx_set S k (vi_ID c) v tx))"
    by (rule form_save_cases)
  have c: "key_ok (vi_ID c)" "vi_ID c \<noteq> user_key S" using Cons.prems(2) by (auto simp: p)
  have o: "obs T (ctx_view S k tx1) key = (if key = vi_ID c then (if v = GNil then None else Some v) else obs T (ctx_view S k tx) key)"
    if "key_ok key" "key \<noteq> user_key S" for key
    using tx1 that assms(1,2) c by (elim disjE exE) (simp_all add: view_set)
  have n: "tx_newClientInputs tx1 = tx_newClientInputs tx" using tx1 by auto
  note ih = Cons.IH [OF run]
  have "vi_ID c \<notin> (\<lambda>p. vi_ID (fst p)) ` set items" using Cons.prems(3) by (simp add: p)
  with ih Cons.prems(2,3) n o c show ?case by (auto simp: p)
qed auto

end

definition form_keys_ok :: "'t step_env \<Rightarrow> 't list \<Rightarrow> bool" where
  "form_keys_ok S fds \<longleftrightarrow> key_ok (user_key S) \<and> list_all (\<lambda>f. key_ok (vi_ID (field_config S f))) fds \<and>
     distinct (user_key S # map (\<lambda>f. vi_ID (field_config S f)) fds)"

lemma field_value_ids: "p \<in> set (field_value tx c) \<Longrightarrow> fst p = c"
  by (auto simp: field_value_def split: option.splits if_splits)

lemma accepted_ids:
  assumes "distinct (map (\<lambda>f. vi_ID (cfg f)) fds)"
  shows "distinct (map (\<lambda>p. vi_ID (fst p)) (concat (map (\<lambda>f. field_value tx (cfg f)) fds)))"
  using assms
proof (induction fds)
  case (Cons f fds)
  have "distinct (map (\<lambda>p. vi_ID (fst p)) (field_value tx (cfg f)))" by (auto simp: field_value_def split: option.splits)
  then show ?case using Cons by (auto dest!: field_value_ids)
qed simp

text \<open>
  A form never goes on without what it requires: either it asks for at least one input and waits, or it asks
  for nothing, every required field has an input of the client, and the inputs are in the context under
  the names of their fields.
\<close>

theorem form_complete_or_asks:
  assumes "context_tree (sp_tree S)" and "Form S config tx = (tx', Inr outcome)"
    and fds: "tm_as_slice (sp_tree S) (tm_get (sp_tree S) config ''inputs'') = Some fds"
    and "cfg_str S config ''object'' '''' = ''''" and "form_keys_ok S fds"
  shows "(outcome = '''' \<and> length (tx_newClientInputs tx) < length (tx_newClientInputs tx')) \<or>
    (outcome = ''true'' \<and> tx_newClientInputs tx' = tx_newClientInputs tx \<and>
     (\<exists>k. ctx_kind_of (cfg_str S config ''context'' ''ctx'') = Some k \<and>
        (\<forall>f \<in> set fds. \<exists>c. valueInputConfig S f = Inr c \<and>
           (case first_external (vi_ExternalID c) (tx_clientInputs tx) of
              None \<Rightarrow> \<not> vi_Required c
            | Some inp \<Rightarrow> ci_Input inp = GNil \<and> \<not> vi_Required c \<or>
                obs (sp_tree S) (ctx_view S k tx') (vi_ID c) = (if ci_Input inp = GNil then None else Some (ci_Input inp))))))"
proof -
  from assms(2) fds obtain tx1 acc asked where ff: "form_fields S fds tx = (tx1, Inr (acc, asked))"
    by (cases "form_fields S fds tx") (auto simp: Form_def split: if_splits sum.splits prod.splits)
  note r = form_fields_result [OF ff]
  show ?thesis
  proof (cases asked)
    case True
    then show ?thesis using assms(2) fds ff r(3) by (auto simp: Form_def split: if_splits)
  next
    case False
    let ?n = "named_ctx S (cfg_str S config ''context'' ''ctx'') tx"
    obtain k where k: "ctx_kind_of (cfg_str S config ''context'' ''ctx'') = Some k" and
      save: "form_save S k '''' acc (fst ?n) = (tx', Inr outcome)"
      using assms(2,4) fds ff False r(4) snd_named [of S "cfg_str S config ''context'' ''ctx''" tx]
      by (cases ?n) (auto simp: Form_def Let_def split: if_splits option.splits)
    have nn: "tx_newClientInputs (fst ?n) = tx_newClientInputs tx" by (simp add: named_ctx_def split_beta)
    have ids: "\<forall>p \<in> set acc. key_ok (vi_ID (fst p)) \<and> vi_ID (fst p) \<noteq> user_key S" "distinct (map (\<lambda>p. vi_ID (fst p)) acc)"
      using assms(5) accepted_ids [of "field_config S" fds tx]
      by (auto simp: r(1) form_keys_ok_def list_all_iff image_iff dest!: field_value_ids)
    note o = context_tree.form_save_obs [OF assms(1) refl _ save ids, unfolded nn]
    have "key_ok (user_key S)" using assms(5) by (simp add: form_keys_ok_def)
    note o = o [OF this]
    have "case first_external (vi_ExternalID (field_config S f)) (tx_clientInputs tx) of
              None \<Rightarrow> \<not> vi_Required (field_config S f)
            | Some inp \<Rightarrow> ci_Input inp = GNil \<and> \<not> vi_Required (field_config S f) \<or>
                obs (sp_tree S) (ctx_view S k tx') (vi_ID (field_config S f)) = (if ci_Input inp = GNil then None else Some (ci_Input inp))"
      if f: "f \<in> set fds" for f
    proof (cases "field_value tx (field_config S f)")
      case Nil
      then show ?thesis using r(4) [OF False] f by (auto simp: field_value_def split: option.splits if_splits)
    next
      case (Cons p ps)
      then have p: "p \<in> set acc" using f by (auto simp: r(1) intro!: bexI [of _ f])
      from Cons obtain inp where "first_external (vi_ExternalID (field_config S f)) (tx_clientInputs tx) = Some inp"
        "p = (field_config S f, ci_Input inp)" by (auto simp: field_value_def split: option.splits if_splits)
      with o p show ?thesis by auto
    qed
    then show ?thesis using o k r(4) [OF False] by blast
  qed
qed

definition mail_form :: gval where
  "mail_form = GObj [(''inputs'', GArr [GObj [(''id'', GStr ''mail''), (''external_id'', GStr ''email''), (''type'', GStr ''string'')]])]"

definition mail_tx :: "gval JourneyTransaction" where
  "mail_tx = flow_tx [Some \<lparr>ci_ID = '''', ci_ExternalID = ''email'', ci_StepType = ''Form'', ci_Type = ''string'', ci_SendBack = True,
     ci_Output = GNil, ci_Input = GStr ''ada''\<rparr>] zero_state"

theorem form_complete_or_asks_witness:
  "\<exists>tx'. Form flow_env mail_form mail_tx = (tx', Inr ''true'') \<and> tx_newClientInputs tx' = [] \<and>
     obs ref_tree (ctx_view flow_env KCtx tx') ''mail'' = Some (GStr ''ada'')"
proof -
  have tree: "context_tree (sp_tree flow_env)" using ref.context_tree_axioms by (simp add: flow_env_def)
  have T: "sp_tree flow_env = ref_tree" by (simp add: flow_env_def)
  let ?field = "GObj [(''id'', GStr ''mail''), (''external_id'', GStr ''email''), (''type'', GStr ''string'')]"
  have run: "snd (Form flow_env mail_form mail_tx) = Inr ''true''" by code_simp
  then have run: "Form flow_env mail_form mail_tx = (fst (Form flow_env mail_form mail_tx), Inr ''true'')" by (metis prod.collapse)
  have fds: "tm_as_slice (sp_tree flow_env) (tm_get (sp_tree flow_env) mail_form ''inputs'') = Some [?field]" by code_simp
  have obj: "cfg_str flow_env mail_form ''object'' '''' = ''''" by code_simp
  have keys: "form_keys_ok flow_env [?field]" by code_simp
  have k: "ctx_kind_of (cfg_str flow_env mail_form ''context'' ''ctx'') = Some KCtx" by code_simp
  have f: "map_option (\<lambda>c. (vi_ID c, map_option ci_Input (first_external (vi_ExternalID c) (tx_clientInputs mail_tx))))
      (case valueInputConfig flow_env ?field of Inl _ \<Rightarrow> None | Inr c \<Rightarrow> Some c) = Some (''mail'', Some (GStr ''ada''))" by code_simp
  have n: "tx_newClientInputs mail_tx = []" by code_simp
  from form_complete_or_asks [OF tree run fds obj keys, unfolded T n] k f show ?thesis
    by (intro exI [of _ "fst (Form flow_env mail_form mail_tx)"]) (auto simp: run [symmetric] split: sum.splits option.splits)
qed

end
