(* ===== verification/HttpProxy.thy ===== *)
theory HttpProxy
  imports FlowSteps RouteTable CacheFacts Scheduler
begin

text \<open>
  \<^verbatim>\<open>steps/http-proxy.step.go\<close>: the step that answers a request with the response of the upstream a route
  table selects, with \<^verbatim>\<open>requestHTTP\<close> and \<^verbatim>\<open>transactionHTTPClientInstance\<close> of
  \<^verbatim>\<open>steps/verify-jwt.step.go\<close>. The record \<open>X\<close> has what the step reaches beyond the transaction: package
  \<^verbatim>\<open>net/url\<close>, \<^verbatim>\<open>mime.ParseMediaType\<close>, the registered policies, the cache manager with the type
  assertions on its instances, and the package's client. A client is what its request method
  answers.
\<close>

subsection \<open>Requests of the transaction\<close>

fun req_GetMethod :: "request \<Rightarrow> string" where
  "req_GetMethod (ReqMemory r) = jr_Method (mr_snapshot r)"
| "req_GetMethod (ReqSnapshot r) = MethodValue r"
| "req_GetMethod (ReqHTTP r) = HA_GetMethod r"

fun req_GetPath :: "request \<Rightarrow> string" where
  "req_GetPath (ReqMemory r) = jr_Path (mr_snapshot r)"
| "req_GetPath (ReqSnapshot r) = PathValue r"
| "req_GetPath (ReqHTTP r) = HA_GetPath r"

fun req_RoutePath :: "request \<Rightarrow> string" where
  "req_RoutePath (ReqMemory r) = jr_RoutePath (mr_snapshot r)"
| "req_RoutePath (ReqSnapshot r) = RoutePathValue r"
| "req_RoutePath (ReqHTTP r) = (case r of None \<Rightarrow> '''' | Some h \<Rightarrow> ha_routePath h)"

fun req_GetRawQuery :: "request \<Rightarrow> string" where
  "req_GetRawQuery (ReqMemory r) = jr_RawQuery (mr_snapshot r)"
| "req_GetRawQuery (ReqSnapshot r) = RawQueryValue r"
| "req_GetRawQuery (ReqHTTP r) = HA_GetRawQuery r"

fun req_HeaderMap :: "request \<Rightarrow> multimap" where
  "req_HeaderMap (ReqMemory r) = MR_HeaderMap r"
| "req_HeaderMap (ReqSnapshot r) = JR_HeaderMap r"
| "req_HeaderMap (ReqHTTP r) = HA_HeaderMap r"

fun req_BodyContentType :: "request \<Rightarrow> string" where
  "req_BodyContentType (ReqMemory r) = rb_ContentType (jr_Body (mr_snapshot r))"
| "req_BodyContentType (ReqSnapshot r) = JR_BodyContentType r"
| "req_BodyContentType (ReqHTTP r) = HA_BodyContentType r"

fun req_BodyBytes :: "request \<Rightarrow> request \<times> string res" where
  "req_BodyBytes (ReqMemory r) = (ReqMemory r, Inr (MR_BodyBytes r))"
| "req_BodyBytes (ReqSnapshot r) = (ReqSnapshot r, Inr (JR_BodyBytes r))"
| "req_BodyBytes (ReqHTTP r) = (case HA_BodyBytes r of (r', b) \<Rightarrow> (ReqHTTP r', b))"

fun req_Snapshot :: "(string \<Rightarrow> string \<times> string gomap) \<Rightarrow> request \<Rightarrow> request \<times> JourneyRequest option res" where
  "req_Snapshot media (ReqMemory r) = (ReqMemory r, Inr (Some (MR_Snapshot r)))"
| "req_Snapshot media (ReqSnapshot r) = (ReqSnapshot r, Inr (Some (JR_Snapshot r)))"
| "req_Snapshot media (ReqHTTP r) = (case HA_Snapshot media r of (r', s) \<Rightarrow> (ReqHTTP r', s))"

subsection \<open>Clients\<close>

record http_reply =
  ry_Status :: int
  ry_Headers :: multimap
  ry_Body :: string

type_synonym http_client = "string \<Rightarrow> string \<Rightarrow> string gomap \<Rightarrow> string \<Rightarrow> http_reply res"

record ('t, 'v, 'n, 'u) proxy_env =
  px_url :: "'u url_lib"
  px_media :: "string \<Rightarrow> string \<times> string gomap"
  px_policies :: "'t proxy_policy gomap"
  px_manager :: "('v, 'n) Manager option"
  px_context :: bool
  px_table :: "'v dyn \<Rightarrow> HTTPRouteTable option option"
  px_client :: "'v dyn \<Rightarrow> http_client option"
  px_Client :: "http_client option"

definition HTTPClientCacheKey :: string where "HTTPClientCacheKey = ''http_client''"
definition HTTPRouteTableCacheKey :: string where "HTTPRouteTableCacheKey = ''http_route_table''"

definition transactionHTTPClientInstance :: "('t, 'v, 'n, 'u) proxy_env \<Rightarrow> string \<Rightarrow> http_client option" where
  "transactionHTTPClientInstance X instanceID0 =
     (let instanceID = (if TrimSpace instanceID0 = '''' then DefaultInstanceID else instanceID0) in
      case px_manager X of
        None \<Rightarrow> px_Client X
      | Some m \<Rightarrow>
          (case GetCacheInstance m HTTPClientCacheKey instanceID of
             (v, ok) \<Rightarrow> if ok then (case px_client X v of Some client \<Rightarrow> Some client | None \<Rightarrow> px_Client X) else px_Client X))"

definition requestHTTP :: "http_client option \<Rightarrow> string \<Rightarrow> string \<Rightarrow> string gomap \<Rightarrow> string \<Rightarrow> http_reply res" where
  "requestHTTP client method uri headers body =
     (case client of None \<Rightarrow> Inl (ErrText ''HTTP client is not configured'') | Some c \<Rightarrow> c method uri headers body)"

subsection \<open>Helpers of the step\<close>

definition httpProxyEffectiveURI :: "'u url_lib \<Rightarrow> JourneyRequest option \<Rightarrow> string \<Rightarrow> string \<Rightarrow> (string \<times> bool) res" where
  "httpProxyEffectiveURI U request baseURL0 path =
     (let overridden = (baseURL0 \<noteq> '''');
          baseURL = (if overridden then baseURL0
                     else case request of None \<Rightarrow> ''''
                       | Some r \<Rightarrow>
                           let b = TrimSpace (jr_BaseURL r); scheme = TrimSpace (jr_Protocol r) in
                           if b = '''' \<and> jr_Host r \<noteq> '''' then (if scheme = '''' then ''http'' else scheme) @ ''://'' @ jr_Host r else b);
          bad = Inl (ErrText ''HTTP proxy base_url must include protocol and host'')
      in case ul_parse U baseURL of
           Inl _ \<Rightarrow> bad
         | Inr u \<Rightarrow>
             if ul_scheme U u = '''' \<or> ul_host U u = '''' then bad
             else let u1 = ul_set_path U (joinHTTPURLPath (ul_path U u) path) u;
                      u2 = ul_set_query U (case request of None \<Rightarrow> '''' | Some r \<Rightarrow> jr_RawQuery r) u1
                  in Inr (ul_string U (ul_set_fragment U '''' u2), overridden))"

text \<open>Does a rewrite of \<open>prefix\<close> apply to \<open>path\<close>?\<close>

definition rewrite_applies :: "string \<Rightarrow> string \<Rightarrow> bool" where
  "rewrite_applies path prefix \<longleftrightarrow> path = prefix \<or> HasPrefix path (TrimRight prefix (CHR ''/'') @ ''/'')"

definition normalized_rewrites :: "string gomap \<Rightarrow> string gomap" where
  "normalized_rewrites rewrites = fold (\<lambda>(p, r) m. gm_put (cleanHTTPRoutePath p) r m) rewrites []"

definition httpProxyRewritePath :: "string \<Rightarrow> string gomap \<Rightarrow> string" where
  "httpProxyRewritePath path0 rewrites =
     (let path = cleanHTTPRoutePath path0;
          prefixes = sort_key (\<lambda>p. - int (length p)) (map (\<lambda>p. cleanHTTPRoutePath (fst p)) rewrites)
      in case find (rewrite_applies path) prefixes of
           None \<Rightarrow> path
         | Some prefix \<Rightarrow>
             cleanHTTPRoutePath (joinHTTPURLPath (or_default (gm_get (normalized_rewrites rewrites) prefix) '''') (TrimPrefix path prefix)))"

definition httpProxyStatus :: "'t step_env \<Rightarrow> 't \<Rightarrow> string \<Rightarrow> int \<Rightarrow> int" where
  "httpProxyStatus S config key fallback =
     (let status = get_int_or (sp_tree S) config key fallback in if status < 100 \<or> 599 < status then fallback else status)"

definition httpProxyWriteError :: "'t step_env \<Rightarrow> int \<Rightarrow> string \<Rightarrow> MemoryResponse option \<Rightarrow> MemoryResponse option" where
  "httpProxyWriteError S status message r =
     Response_Body json_type (or_default (cr_marshal (sp_crypto S) (GObj [(''error'', GStr message)])) '''') (Status status r)"

definition httpProxySkipHeader :: "string \<Rightarrow> bool" where
  "httpProxySkipHeader name \<longleftrightarrow> name = '''' \<or> EqualFold name ''Content-Length'' \<or> list_ex (EqualFold name) hopByHopHeaders"

definition copy_values :: "string \<Rightarrow> string list \<Rightarrow> MemoryResponse option \<Rightarrow> MemoryResponse option" where
  "copy_values name vs r = (case vs of [] \<Rightarrow> r | v # ws \<Rightarrow> fold (AddHeader name) ws (Response_Header name v r))"

definition httpProxyCopyResponseHeaders :: "multimap \<Rightarrow> MemoryResponse option \<Rightarrow> MemoryResponse option" where
  "httpProxyCopyResponseHeaders headers r =
     fold (\<lambda>(name, vs) r. if httpProxySkipHeader name then r else copy_values name vs r) headers r"

definition httpProxyFirstHeader :: "multimap \<Rightarrow> string \<Rightarrow> string \<Rightarrow> string" where
  "httpProxyFirstHeader headers name fallback =
     (let v = (case values_of headers (canonical_key name) of [] \<Rightarrow> '''' | v # _ \<Rightarrow> v) in if v \<noteq> '''' then v else fallback)"

definition httpProxyHasHeader :: "string gomap \<Rightarrow> string \<Rightarrow> bool" where
  "httpProxyHasHeader headers name \<longleftrightarrow> list_ex (\<lambda>p. EqualFold (fst p) name) headers"

text \<open>Decoding into \<^verbatim>\<open>map[string]string\<close> with the error dropped: a value that is not a string is empty.\<close>

definition dec_string_map :: "gval option \<Rightarrow> string gomap" where
  "dec_string_map v =
     (case v of Some (GObj m) \<Rightarrow> map (\<lambda>p. (fst p, case snd p of GStr s \<Rightarrow> s | _ \<Rightarrow> '''')) m | _ \<Rightarrow> [])"

definition match_json :: "HTTPRouteMatch \<Rightarrow> gval" where
  "match_json m = GObj [(''route'', GStr (hr_Name (hm_Route m))), (''upstream'', GStr (hu_URL (hm_Upstream m))),
     (''http_instance'', GStr (hm_HTTPInstance m)), (''params'', GObj (map (\<lambda>p. (fst p, GStr (snd p))) (hm_Params m))),
     (''wildcard'', GStr (hm_Wildcard m)), (''request_path'', GStr (hm_RequestPath m)), (''request_uri'', GStr (hm_RequestURI m)),
     (''metadata'', GObj (hm_Metadata m))]"

subsection \<open>The step\<close>

text \<open>The request that reaches the upstream and what becomes of the answer.\<close>

definition proxy_headers :: "HTTPRouteTable option \<Rightarrow> HTTPRouteMatch \<Rightarrow> request \<Rightarrow> string gomap" where
  "proxy_headers tableo m req =
     (let headers = RouteHeaders tableo (req_HeaderMap req) (Some m); contentType = req_BodyContentType req
      in if \<not> httpProxyHasHeader headers ''Content-Type'' \<and> contentType \<noteq> '''' then gm_put ''Content-Type'' contentType headers
         else headers)"

definition proxy_reply :: "'t step_env \<Rightarrow> 't \<Rightarrow> http_reply res \<Rightarrow> 't JourneyTransaction \<Rightarrow> 't JourneyTransaction \<times> string res" where
  "proxy_reply S config reply tx =
     (case reply of
        Inl e \<Rightarrow>
          let tx1 = ctx_set S KTemp ''http_proxy_error'' (GStr (error_text e)) tx
          in (tx1\<lparr>tx_Response := httpProxyWriteError S (httpProxyStatus S config ''upstream_error_status'' 502) (error_text e) (tx_Response tx1)\<rparr>,
              Inr ''false'')
      | Inr response \<Rightarrow>
          let r1 = (if get_bool_or (sp_tree S) config ''copy_response_headers'' True
                    then httpProxyCopyResponseHeaders (ry_Headers response) (tx_Response tx) else tx_Response tx);
              r2 = Response_Body (httpProxyFirstHeader (ry_Headers response) ''Content-Type'' ''application/octet-stream'') (ry_Body response)
                     (Status (ry_Status response) r1)
          in (ctx_update S KTemp (\<lambda>t. tm_try_delete (sp_tree S) t ''http_proxy_error'') (tx\<lparr>tx_Response := r2\<rparr>), Inr ''true''))"

definition proxy_target :: "('t, 'v, 'n, 'u) proxy_env \<Rightarrow> HTTPRouteTable option \<Rightarrow> HTTPRouteMatch \<Rightarrow> request \<Rightarrow> string \<Rightarrow> bool \<Rightarrow> string res" where
  "proxy_target X tableo m req effectiveURI overridden =
     (if \<not> overridden \<and> (hu_URL (hm_Upstream m) \<noteq> '''' \<or> hr_Upstream (hm_Route m) \<noteq> '''')
      then TargetURI (px_url X) tableo (Some m) (req_GetRawQuery req) else Inr effectiveURI)"

definition proxy_send :: "'t step_env \<Rightarrow> ('t, 'v, 'n, 'u) proxy_env \<Rightarrow> 't \<Rightarrow> HTTPRouteTable option \<Rightarrow> HTTPRouteMatch \<Rightarrow> string
    \<Rightarrow> string \<Rightarrow> bool \<Rightarrow> request \<Rightarrow> 't JourneyTransaction \<Rightarrow> 't JourneyTransaction \<times> string res" where
  "proxy_send S X config tableo m method effectiveURI overridden req tx =
     (case proxy_target X tableo m req effectiveURI overridden of
        Inl e \<Rightarrow> (tx, Inl e)
      | Inr targetURI \<Rightarrow>
          (case req_BodyBytes req of
             (req1, Inl e) \<Rightarrow> (tx\<lparr>tx_Request := Some req1\<rparr>, Inl e)
           | (req1, Inr body) \<Rightarrow>
               proxy_reply S config
                 (requestHTTP (transactionHTTPClientInstance X (hm_HTTPInstance m)) method targetURI (proxy_headers tableo m req1) body)
                 (tx\<lparr>tx_Request := Some req1\<rparr>)))"

definition proxy_save_match :: "'t step_env \<Rightarrow> 't \<Rightarrow> HTTPRouteMatch \<Rightarrow> 't JourneyTransaction \<Rightarrow> 't JourneyTransaction \<times> unit res" where
  "proxy_save_match S config m tx =
     (let saveMatchTo = TrimSpace (cfg_str S config ''save_match_to'' '''') in
      if saveMatchTo = '''' then (tx, Inr ())
      else (case GetCtxPath (sp_tree S) (sp_crypto S) saveMatchTo (tx_State tx) of
              (st, c, key) \<Rightarrow>
                let tx1 = tx\<lparr>tx_State := st\<rparr> in
                (case c of
                   None \<Rightarrow> (tx1, Inl (ErrText (''unsupported save_match_to path '' @ saveMatchTo)))
                 | Some (k, _) \<Rightarrow> if key = '''' then (tx1, Inl (ErrText (''unsupported save_match_to path '' @ saveMatchTo)))
                                  else (ctx_set S k key (match_json m) tx1, Inr ()))))"

definition proxy_deny :: "'t step_env \<Rightarrow> 't \<Rightarrow> string \<Rightarrow> int \<Rightarrow> string \<Rightarrow> 't JourneyTransaction \<Rightarrow> 't JourneyTransaction \<times> string res" where
  "proxy_deny S config key fallback message tx =
     (tx\<lparr>tx_Response := httpProxyWriteError S (httpProxyStatus S config key fallback) message (tx_Response tx)\<rparr>, Inr ''false'')"

text \<open>From the match on: policies, the saved match, the request.\<close>

definition proxy_route :: "'t step_env \<Rightarrow> ('t, 'v, 'n, 'u) proxy_env \<Rightarrow> 't \<Rightarrow> HTTPRouteTable option \<Rightarrow> string \<Rightarrow> string \<Rightarrow> bool
    \<Rightarrow> 't JourneyTransaction \<Rightarrow> 't JourneyTransaction \<times> string res" where
  "proxy_route S X config tableo method effectiveURI overridden tx =
     (case MatchURI (px_url X) tableo effectiveURI method of
        None \<Rightarrow> proxy_deny S config ''no_match_status'' 404 ''no HTTP proxy route matched'' tx
      | Some m \<Rightarrow>
          (case EvaluatePolicies (px_policies X) (Some m) tx of
             (tx1, Some e) \<Rightarrow>
               proxy_deny S config ''policy_denied_status'' 403 (error_text e) (ctx_set S KTemp ''http_proxy_error'' (GStr (error_text e)) tx1)
           | (tx1, None) \<Rightarrow>
               (case proxy_save_match S config m tx1 of
                  (tx2, Inl e) \<Rightarrow> (tx2, Inl e)
                | (tx2, Inr _) \<Rightarrow>
                    (case tx_Request tx2 of
                       None \<Rightarrow> (tx2, Inl (GoPanic ''nil pointer dereference''))
                     | Some req \<Rightarrow> proxy_send S X config tableo m method effectiveURI overridden req tx2))))"

definition proxy_method :: "request \<Rightarrow> string" where
  "proxy_method req = (let method = TrimSpace (req_GetMethod req) in if method = '''' then ''GET'' else method)"

definition proxy_path :: "'t step_env \<Rightarrow> 't \<Rightarrow> request \<Rightarrow> string" where
  "proxy_path S config req =
     (let path = TrimSpace (req_RoutePath req)
      in httpProxyRewritePath (if path = '''' then req_GetPath req else path)
           (dec_string_map (tm_as_struct (sp_tree S) (tm_get (sp_tree S) config ''rewrite''))))"

definition HTTPProxy :: "'t step_env \<Rightarrow> ('t, 'v, 'n, 'u) proxy_env \<Rightarrow> 't step" where
  "HTTPProxy S X config tx =
     (case tx_Request tx of
        None \<Rightarrow> (tx, Inl (ErrText ''request is not available''))
      | Some req \<Rightarrow>
          if tx_Response tx = None then (tx, Inl (ErrText ''response is not available''))
          else (case px_manager X of
             None \<Rightarrow> (tx, Inl (ErrText ''cache manager is not configured''))
           | Some manager \<Rightarrow>
               if \<not> px_context X then (tx, Inl (ErrText ''transaction context is not available''))
               else let tableID = TrimSpace (cfg_str S config ''route_table'' '''') in
                 if tableID = '''' then (tx, Inl (ErrText ''route_table is required''))
                 else (case GetCacheInstance manager HTTPRouteTableCacheKey tableID of
                    (instance, False) \<Rightarrow> proxy_deny S config ''no_match_status'' 404 ''HTTP proxy route table is not configured'' tx
                  | (instance, True) \<Rightarrow>
                      (case px_table X instance of
                         None \<Rightarrow> (tx, Inl (ErrText (''http route table '' @ tableID @ '' has an invalid type'')))
                       | Some tableo \<Rightarrow>
                           (case req_Snapshot (px_media X) req of
                              (req1, Inl e) \<Rightarrow> (tx\<lparr>tx_Request := Some req1\<rparr>, Inl e)
                            | (req1, Inr snapshot) \<Rightarrow>
                                let tx1 = tx\<lparr>tx_Request := Some req1\<rparr> in
                                (case httpProxyEffectiveURI (px_url X) snapshot (TrimSpace (cfg_str S config ''base_url'' ''''))
                                        (proxy_path S config req) of
                                   Inl e \<Rightarrow> (tx1, Inl e)
                                 | Inr (effectiveURI, overridden) \<Rightarrow>
                                     proxy_route S X config tableo (proxy_method req) effectiveURI overridden tx1))))))"

end
