(* ===== verification/ContextSteps.thy ===== *)
theory ContextSteps
  imports HttpProxy
begin

text \<open>
  Built-in steps that change contexts and responses (directory \<^verbatim>\<open>steps\<close>): \<open>SetCtxProperty\<close>, \<open>SetStaticProperty\<close>,
  \<open>RemoveCtxProperty\<close>, \<open>Transform\<close>, \<open>ExtendExp\<close>, \<open>Metadata\<close>, \<open>Random\<close>, \<open>ReadCookie\<close>, \<open>SetCookie\<close>,
  \<open>HTTPResponse\<close>, \<open>HTTPFinishResponse\<close> and the three schedule cache steps. Go's maps are association
  lists, in the order in which a loop visits them.
\<close>

subsection \<open>Properties of a context\<close>

definition SetCtxProperty :: "'t step_env \<Rightarrow> 't step" where
  "SetCtxProperty S config tx =
     (let T = sp_tree S; key = cfg_str S config ''key'' '''' in
      case tm_as_string T (tm_get T config ''expression'') of
        None \<Rightarrow> (tx, Inr ''false'')
      | Some exp \<Rightarrow>
          (case named_ctx S (cfg_str S config ''type'' '''') tx of
             (tx1, None) \<Rightarrow> (tx1, Inl (ErrText ''context type is not supported''))
           | (tx1, Some k) \<Rightarrow>
               (case sp_eval S exp tx1 of
                  (tx2, Inl _) \<Rightarrow> (tx2, Inr ''false'')
                | (tx2, Inr v) \<Rightarrow> (ctx_set S k key v tx2, Inr ''true''))))"

definition SetStaticProperty :: "'t step_env \<Rightarrow> 't step" where
  "SetStaticProperty S config tx =
     (let props = (case tm_as_struct (sp_tree S) (tm_get (sp_tree S) config ''props'') of Some (GObj m) \<Rightarrow> m | _ \<Rightarrow> []) in
      case named_ctx S (cfg_str S config ''type'' '''') tx of
        (tx1, None) \<Rightarrow> (tx1, Inl (ErrText ''context type is not supported''))
      | (tx1, Some k) \<Rightarrow> (fold (\<lambda>(key, v). ctx_set S k key v) props tx1, Inr ''true''))"

text \<open>A path without a context gives a nil interface, whose method call panics.\<close>

definition RemoveCtxProperty :: "'t step_env \<Rightarrow> 't step" where
  "RemoveCtxProperty S config tx =
     (case GetCtxPath (sp_tree S) (sp_crypto S) (cfg_str S config ''property_path'' '''') (tx_State tx) of
        (st, None, _) \<Rightarrow> (tx\<lparr>tx_State := st\<rparr>, Inl (GoPanic ''nil pointer dereference''))
      | (st, Some (k, _), keyPath) \<Rightarrow> (ctx_delete S k keyPath (tx\<lparr>tx_State := st\<rparr>), Inr ''true''))"

definition transformValue :: "'t step_env \<Rightarrow> gval \<Rightarrow> string \<Rightarrow> gval res" where
  "transformValue S v targetType =
     (let P = sp_text S; text = tc_sprint P v; bad = Inl (ErrText ''invalid syntax'') in
      if targetType = '''' then Inr v
      else if targetType = ''string'' then Inr (GStr text)
      else if targetType = ''int'' then (case ParseInt text of None \<Rightarrow> bad | Some i \<Rightarrow> Inr (GInt i))
      else if targetType = ''float'' then (case tc_parse_float P text of None \<Rightarrow> bad | Some f \<Rightarrow> Inr (GFloat f))
      else if targetType = ''bool'' then (case ParseBool text of None \<Rightarrow> bad | Some b \<Rightarrow> Inr (GBool b))
      else if targetType = ''object''
      then (case v of
              GObj m \<Rightarrow> Inr v
            | _ \<Rightarrow> (case tc_parse_json P text of Some (GObj m) \<Rightarrow> Inr (GObj m) | Some GNil \<Rightarrow> Inr (GObj []) | _ \<Rightarrow> bad))
      else Inl (ErrText (''unsupported transform type '' @ targetType)))"

fun transform_targets :: "'t step_env \<Rightarrow> string \<Rightarrow> string list \<Rightarrow> 't list \<Rightarrow> go_error option" where
  "transform_targets S stepName seen [] = None"
| "transform_targets S stepName seen (field # fds) =
     (let target = cfg_str S field ''target'' '''' in
      if target = '''' then Some (StepInvalidConfig stepName ''every transform field requires a target'')
      else if target \<in> set seen then Some (StepInvalidConfig stepName (''duplicate transform target: '' @ target))
      else transform_targets S stepName (target # seen) fds)"

definition Transform_VerifyConfig :: "'t step_env \<Rightarrow> string \<Rightarrow> 't \<Rightarrow> go_error option" where
  "Transform_VerifyConfig S stepName config =
     (if Contains (cfg_str S config ''fields'' '''') ''${'' then None
      else case tm_as_slice (sp_tree S) (tm_get (sp_tree S) config ''fields'') of
        None \<Rightarrow> Some (StepInvalidConfig stepName ''at least one transform field is required'')
      | Some fds \<Rightarrow> if fds = [] then Some (StepInvalidConfig stepName ''at least one transform field is required'')
                        else transform_targets S stepName [] fds)"

fun transform_fields :: "'t step_env \<Rightarrow> ctx_kind \<Rightarrow> string \<Rightarrow> 't list \<Rightarrow> 't JourneyTransaction \<Rightarrow> 't JourneyTransaction \<times> string" where
  "transform_fields S k target [] tx = (tx, ''true'')"
| "transform_fields S k target (field # fds) tx =
     (case transformValue S (get_any_or (sp_tree S) field ''value'' GNil) (cfg_str S field ''type'' '''') of
        Inl _ \<Rightarrow> (tx, ''error'')
      | Inr v \<Rightarrow>
          let path = cfg_str S field ''target'' '''' in
          transform_fields S k target fds (ctx_set S k (if target \<noteq> '''' then target @ ''.'' @ path else path) v tx))"

definition Transform :: "'t step_env \<Rightarrow> 't \<Rightarrow> 't JourneyTransaction \<Rightarrow> 't JourneyTransaction \<times> string" where
  "Transform S config tx =
     (case named_ctx S (cfg_str S config ''target_context'' ''ctx'') tx of
        (tx1, None) \<Rightarrow> (tx1, ''error'')
      | (tx1, Some k) \<Rightarrow>
          (case tm_as_slice (sp_tree S) (tm_get (sp_tree S) config ''fields'') of
             None \<Rightarrow> (tx1, ''error'')
           | Some fds \<Rightarrow>
               let target = cfg_str S config ''target'' '''' in
               transform_fields S k target fds
                 (if target \<noteq> '''' \<and> \<not> get_bool_or (sp_tree S) config ''merge'' True then ctx_delete S k target tx1 else tx1)))"

text \<open>\<open>parse32\<close> is \<open>strconv.ParseFloat(s, 32)\<close>.\<close>

definition ExtendExp :: "'t step_env \<Rightarrow> (string \<Rightarrow> 64 word option) \<Rightarrow> 't step" where
  "ExtendExp S parse32 config tx =
     (case parse32 (cfg_str S config ''minutes'' ''3'') of
        None \<Rightarrow> (tx, Inl (ErrText ''invalid syntax''))
      | Some minutes \<Rightarrow> (ctx_set S KCtx (GetExtendJourneyExpKey (sp_keys S)) (GFloat minutes) tx, Inr ''true''))"

definition metadata_value :: "'t step_env \<Rightarrow> 't \<Rightarrow> gval" where
  "metadata_value S config =
     (let T = sp_tree S in
      if cfg_str S config ''format'' ''TEXT'' = ''TEXT'' then GStr (cfg_str S config ''metadata'' '''')
      else case json_copy (get_any_or T config ''metadata'' GNil) of
             Inr (GObj m) \<Rightarrow> GObj m
           | Inr GNil \<Rightarrow> GNil
           | _ \<Rightarrow> GStr ''json: cannot unmarshal into map'')"

definition MetadataStep :: "'t step_env \<Rightarrow> 't step" where
  "MetadataStep S config tx =
     (let T = sp_tree S in
      case GetClientInput T (sp_keys S) (tx_CurrentStepID tx) ''Metadata'' (tx_builder T (sp_crypto S) tx) of
        Inr _ \<Rightarrow> (tx, Inr ''true'')
      | Inl _ \<Rightarrow>
          (with_builder S (AddMessageInput T (sp_keys S)
             \<lparr>mg_ID = tx_CurrentStepID tx, mg_StepType = ''Metadata'', mg_Type = '''', mg_Value = metadata_value S config\<rparr>) tx, Inr ''''))"


subsection \<open>Cookies\<close>

fun req_CookiesList :: "request \<Rightarrow> http_cookie list" where
  "req_CookiesList (ReqMemory r) = MR_CookiesList r"
| "req_CookiesList (ReqSnapshot r) = JR_CookiesList r"
| "req_CookiesList (ReqHTTP r) = HA_CookiesList r"

definition requestCookiesMap :: "request \<Rightarrow> multimap" where
  "requestCookiesMap request =
     fold (\<lambda>c result. gm_put (hc_Name c) (values_of result (hc_Name c) @ [hc_Value c]) result) (req_CookiesList request) []"

definition values_json :: "multimap \<Rightarrow> gval" where
  "values_json m = GObj (map (\<lambda>p. (fst p, GArr (map GStr (snd p)))) m)"

definition ReadCookie :: "'t step_env \<Rightarrow> 't step" where
  "ReadCookie S config tx =
     (case tx_Request tx of
        None \<Rightarrow> (tx, Inl (ErrText ''request is not available''))
      | Some request \<Rightarrow>
          (case named_ctx S (cfg_str S config ''context'' ''ctx'') tx of
             (tx1, None) \<Rightarrow> (tx1, Inl (ErrText ''context is not supported''))
           | (tx1, Some k) \<Rightarrow>
               let output = TrimSpace (cfg_str S config ''output'' ''''); name = TrimSpace (cfg_str S config ''name'' '''') in
               if output = '''' then (tx1, Inl (ErrText ''output is required''))
               else if get_bool_or (sp_tree S) config ''all'' False
               then (ctx_set S k output (values_json (requestCookiesMap request)) tx1, Inr ''true'')
               else if name = '''' then (tx1, Inl (ErrText ''cookie name is required''))
               else (case req_Cookie name request of
                       None \<Rightarrow> (tx1, Inr ''not_found'')
                     | Some c \<Rightarrow> (ctx_set S k output (GStr (hc_Value c)) tx1, Inr ''true''))))"

record SetCookieConfig =
  sc_CookieName :: string
  sc_CookieValue :: string
  sc_Path :: string
  sc_Domain :: string
  sc_Expires :: string
  sc_MaxAge :: int
  sc_Secure :: bool
  sc_HTTPOnly :: bool
  sc_SameSite :: string
  sc_Delete :: bool

definition dec_SetCookieConfig :: "gval \<Rightarrow> SetCookieConfig res" where
  "dec_SetCookieConfig v =
     bind_res (dec_obj (Some v)) (\<lambda>m.
     bind_res (dec_str m ''name'') (\<lambda>name. bind_res (dec_str m ''value'') (\<lambda>val. bind_res (dec_str m ''path'') (\<lambda>path.
     bind_res (dec_str m ''domain'') (\<lambda>domain. bind_res (dec_str m ''expires'') (\<lambda>expires. bind_res (dec_int m ''max_age'') (\<lambda>age.
     bind_res (dec_bool m ''secure'') (\<lambda>secure. bind_res (dec_bool m ''http_only'') (\<lambda>httpOnly.
     bind_res (dec_str m ''same_site'') (\<lambda>sameSite. bind_res (dec_bool m ''delete'') (\<lambda>del.
       Inr \<lparr>sc_CookieName = name, sc_CookieValue = val, sc_Path = path, sc_Domain = domain, sc_Expires = expires, sc_MaxAge = age,
            sc_Secure = secure, sc_HTTPOnly = httpOnly, sc_SameSite = sameSite, sc_Delete = del\<rparr>)))))))))))"

text \<open>The constants of \<^verbatim>\<open>http.SameSite\<close> from \<open>SameSiteDefaultMode\<close> on.\<close>

definition setCookieSameSite :: "string \<Rightarrow> int" where
  "setCookieSameSite v =
     (let mode = ToLower (TrimSpace v) in
      if mode = ''default'' then 1 else if mode = ''lax'' then 2 else if mode = ''strict'' then 3 else if mode = ''none'' then 4 else 0)"

text \<open>\<open>rfc3339\<close> is \<open>time.Parse\<close> with that layout, in nanoseconds; the zero time of an unset \<open>Expires\<close> is \<open>zero_time\<close>.\<close>

definition zero_time :: int where "zero_time = - 62135596800 * 1000000000"

definition setCookieConfigToHTTPCookie :: "(string \<Rightarrow> int res) \<Rightarrow> SetCookieConfig \<Rightarrow> http_cookie res" where
  "setCookieConfigToHTTPCookie rfc3339 c =
     (let name = TrimSpace (sc_CookieName c) in
      if name = '''' then Inl (ErrText ''cookie name is required'')
      else let cookie = \<lparr>hc_Name = name, hc_Value = sc_CookieValue c, hc_Path = sc_Path c, hc_Domain = sc_Domain c, hc_Expires = zero_time,
                hc_MaxAge = sc_MaxAge c, hc_Secure = sc_Secure c, hc_HttpOnly = sc_HTTPOnly c, hc_SameSite = setCookieSameSite (sc_SameSite c)\<rparr>;
               expires = TrimSpace (sc_Expires c)
           in bind_res (if expires \<noteq> '''' then bind_res (rfc3339 expires) (\<lambda>t. Inr (cookie\<lparr>hc_Expires := t\<rparr>)) else Inr cookie) (\<lambda>cookie1.
                Inr (if sc_Delete c then cookie1\<lparr>hc_Value := '''', hc_MaxAge := -1, hc_Expires := 1000000000\<rparr> else cookie1)))"

fun set_cookies :: "(string \<Rightarrow> int res) \<Rightarrow> SetCookieConfig list \<Rightarrow> MemoryResponse option \<Rightarrow> MemoryResponse option \<times> string res" where
  "set_cookies rfc3339 [] r = (r, Inr ''true'')"
| "set_cookies rfc3339 (c # cs) r =
     (case setCookieConfigToHTTPCookie rfc3339 c of
        Inl e \<Rightarrow> (r, Inl e)
      | Inr cookie \<Rightarrow> set_cookies rfc3339 cs (SetResponseCookie (Some cookie) r))"

definition SetCookie :: "'t step_env \<Rightarrow> (string \<Rightarrow> int res) \<Rightarrow> 't step" where
  "SetCookie S rfc3339 config tx =
     (if tx_Response tx = None then (tx, Inl (ErrText ''response is not available''))
      else case (case tm_as_struct (sp_tree S) (tm_get (sp_tree S) config ''cookies'') of
                   Some (GArr vs) \<Rightarrow> dec_list dec_SetCookieConfig vs | _ \<Rightarrow> Inr []) of
             Inl _ \<Rightarrow> (tx, Inl (ErrText ''cookies are required''))
           | Inr cookies \<Rightarrow>
               if cookies = [] then (tx, Inl (ErrText ''cookies are required''))
               else (case set_cookies rfc3339 cookies (tx_Response tx) of (r, res) \<Rightarrow> (tx\<lparr>tx_Response := r\<rparr>, res)))"

subsection \<open>Responses\<close>

definition httpResponseContentType :: "string \<Rightarrow> string gomap \<Rightarrow> gval \<Rightarrow> string" where
  "httpResponseContentType configured0 headers body =
     (let configured = ToUpper (TrimSpace configured0) in
      case find (\<lambda>(key, v). EqualFold key ''Content-Type'' \<and> TrimSpace v \<noteq> '''') headers of
        Some (_, v) \<Rightarrow> v
      | None \<Rightarrow>
          if configured = ''TEXT'' then ''text/plain; charset=utf-8''
          else if configured = ''HTML'' then ''text/html; charset=utf-8''
          else if configured = ''XML'' then ''application/xml''
          else if configured = ''CSV'' then ''text/csv; charset=utf-8''
          else if configured = ''OCTETSTREAM'' then ''application/octet-stream''
          else if (case body of GStr _ \<Rightarrow> True | _ \<Rightarrow> False) \<and> configured \<noteq> ''JSON'' then ''text/plain; charset=utf-8''
          else ''application/json; charset=utf-8'')"

text \<open>A configured body is JSON data, never a \<^verbatim>\<open>[]byte\<close>.\<close>

definition httpResponseBodyBytes :: "'t step_env \<Rightarrow> gval \<Rightarrow> string \<Rightarrow> string res" where
  "httpResponseBodyBytes S body contentType =
     (if Contains (ToLower contentType) ''json''
      then (case cr_marshal (sp_crypto S) body of None \<Rightarrow> Inl (ErrText ''json: unsupported value'') | Some text \<Rightarrow> Inr text)
      else Inr (tc_sprint (sp_text S) body))"

definition HTTPResponse :: "'t step_env \<Rightarrow> 't step" where
  "HTTPResponse S config tx =
     (if tx_Response tx = None then (tx, Inl (ErrText ''response is not available''))
      else let T = sp_tree S; code = get_int_or T config ''status_code'' 200;
               statusCode = (if code < 100 \<or> 599 < code then 200 else code);
               headers = dec_string_map (tm_as_struct T (tm_get T config ''headers''));
               body = get_any_or T config ''body'' GNil;
               contentType = httpResponseContentType (cfg_str S config ''content_type'' ''JSON'') headers body;
               tx1 = tx\<lparr>tx_Response := Status statusCode (fold (\<lambda>(key, v). Response_Header key v) headers (tx_Response tx))\<rparr>
           in if body = GNil then (tx1, Inr ''true'')
              else (case httpResponseBodyBytes S body contentType of
                      Inl e \<Rightarrow> (tx1, Inl e)
                    | Inr data \<Rightarrow> (tx1\<lparr>tx_Response := Response_Body contentType data (tx_Response tx1)\<rparr>, Inr ''true'')))"

definition HTTPFinishResponse :: "'t step" where
  "HTTPFinishResponse config tx =
     (if tx_Response tx = None then (tx, Inl (ErrText ''response is not available'')) else (tx, Inr ''true''))"

subsection \<open>Cached results of schedules\<close>

text \<open>The interface \<^verbatim>\<open>types.ScheduleCache\<close> over a world \<open>'w\<close>; \<open>None\<close> is a run that does not return.\<close>

record 'w schedule_cache =
  sk_Get :: "string \<Rightarrow> string \<Rightarrow> ScheduleCacheOptions \<Rightarrow> 'w \<Rightarrow> ('w \<times> gval res) option"
  sk_Refresh :: "string \<Rightarrow> string \<Rightarrow> 'w \<Rightarrow> ('w \<times> gval res) option"
  sk_Clear :: "string \<Rightarrow> string \<Rightarrow> 'w \<Rightarrow> 'w \<times> go_error option"

definition ScheduleCacheKey :: string where "ScheduleCacheKey = ''schedule_cache''"

definition scheduleCacheInstance :: "('v dyn \<Rightarrow> 'w schedule_cache option) \<Rightarrow> ('v, 'n) Manager option \<Rightarrow> 'w schedule_cache res" where
  "scheduleCacheInstance as_cache manager =
     (case manager of
        None \<Rightarrow> Inl (ErrText ''schedule cache is not configured'')
      | Some m \<Rightarrow>
          (case GetCacheInstance m ScheduleCacheKey DefaultInstanceID of
             (v, found) \<Rightarrow>
               if \<not> found then Inl (ErrText ''schedule cache is not configured'')
               else (case as_cache v of None \<Rightarrow> Inl (ErrText ''schedule cache instance has an invalid type'') | Some c \<Rightarrow> Inr c)))"

definition setScheduleCacheOutput :: "'t step_env \<Rightarrow> string \<Rightarrow> gval \<Rightarrow> 't JourneyTransaction \<Rightarrow> 't JourneyTransaction \<times> go_error option" where
  "setScheduleCacheOutput S output v tx =
     (case GetCtxPath (sp_tree S) (sp_crypto S) output (tx_State tx) of
        (st, c, path) \<Rightarrow>
          let tx1 = tx\<lparr>tx_State := st\<rparr>; bad = Some (StepInvalidConfig (tx_CurrentStepID tx) ''invalid schedule cache output context path'') in
          (case c of
             None \<Rightarrow> (tx1, bad)
           | Some (k, _) \<Rightarrow> if path = '''' then (tx1, bad) else (ctx_set S k path v tx1, None)))"

definition cache_output :: "'t step_env \<Rightarrow> 't \<Rightarrow> gval res \<Rightarrow> 't JourneyTransaction \<Rightarrow> 't JourneyTransaction \<times> string" where
  "cache_output S config r tx =
     (case r of
        Inl _ \<Rightarrow> (tx, ''error'')
      | Inr v \<Rightarrow> (case setScheduleCacheOutput S (cfg_str S config ''output'' '''') v tx of
                   (tx1, Some _) \<Rightarrow> (tx1, ''error'') | (tx1, None) \<Rightarrow> (tx1, ''true'')))"

definition ScheduleCacheGet :: "'t step_env \<Rightarrow> ('v dyn \<Rightarrow> 'w schedule_cache option) \<Rightarrow> ('v, 'n) Manager option \<Rightarrow> 't \<Rightarrow> 'w \<Rightarrow> 't JourneyTransaction
    \<Rightarrow> ('w \<times> 't JourneyTransaction \<times> string) option" where
  "ScheduleCacheGet S as_cache manager config w tx =
     (case scheduleCacheInstance as_cache manager of
        Inl _ \<Rightarrow> Some (w, tx, ''error'')
      | Inr cache \<Rightarrow>
          map_option (\<lambda>(w', r). (w', cache_output S config r tx))
            (sk_Get cache (js_Realm (tx_State tx)) (cfg_str S config ''schedule'' '''')
               \<lparr>co_MaxAgeSeconds = get_int_or (sp_tree S) config ''max_age_seconds'' 0, co_StaleIfError = get_bool_or (sp_tree S) config ''stale_if_error'' False\<rparr> w))"

definition ScheduleCacheRefresh :: "'t step_env \<Rightarrow> ('v dyn \<Rightarrow> 'w schedule_cache option) \<Rightarrow> ('v, 'n) Manager option \<Rightarrow> 't \<Rightarrow> 'w \<Rightarrow> 't JourneyTransaction
    \<Rightarrow> ('w \<times> 't JourneyTransaction \<times> string) option" where
  "ScheduleCacheRefresh S as_cache manager config w tx =
     (case scheduleCacheInstance as_cache manager of
        Inl _ \<Rightarrow> Some (w, tx, ''error'')
      | Inr cache \<Rightarrow>
          map_option (\<lambda>(w', r). (w', cache_output S config r tx)) (sk_Refresh cache (js_Realm (tx_State tx)) (cfg_str S config ''schedule'' '''') w))"

definition ScheduleCacheClear :: "'t step_env \<Rightarrow> ('v dyn \<Rightarrow> 'w schedule_cache option) \<Rightarrow> ('v, 'n) Manager option \<Rightarrow> 't \<Rightarrow> 'w \<Rightarrow> 't JourneyTransaction
    \<Rightarrow> 'w \<times> 't JourneyTransaction \<times> string" where
  "ScheduleCacheClear S as_cache manager config w tx =
     (case scheduleCacheInstance as_cache manager of
        Inl _ \<Rightarrow> (w, tx, ''error'')
      | Inr cache \<Rightarrow>
          (case sk_Clear cache (js_Realm (tx_State tx)) (cfg_str S config ''schedule'' '''') w of
             (w', Some _) \<Rightarrow> (w', tx, ''error'') | (w', None) \<Rightarrow> (w', tx, ''true'')))"


subsection \<open>Arithmetic of doubles\<close>

text \<open>A finite double is \<open>f64_num f / 2 ^ 1074\<close>; \<open>f64_ratio n d\<close> is \<open>n / d\<close> rounded to nearest, ties to even.\<close>

definition f64_num :: "64 word \<Rightarrow> int" where
  "f64_num f =
     (let a = (if f64_exp f = 0 then f64_mant f else (2 ^ 52 + f64_mant f) * 2 ^ (f64_exp f - 1)) in
      if f64_neg f then - int a else int a)"

definition round_div :: "nat \<Rightarrow> nat \<Rightarrow> nat" where
  "round_div n d = (let q = n div d; r = n mod d in if d < 2 * r \<or> d = 2 * r \<and> odd q then Suc q else q)"

definition f64_ratio :: "int \<Rightarrow> nat \<Rightarrow> 64 word" where
  "f64_ratio n d =
     (let a = nat \<bar>n\<bar> in
      if a = 0 then 0
      else let k = int (bit_len a) - int (bit_len d);
               e0 = (if 0 \<le> k then (if d * 2 ^ nat k \<le> a then k else k - 1) else (if d \<le> a * 2 ^ nat (- k) then k else k - 1));
               e = max e0 (- 1022); s = 52 - e;
               q = (if 0 \<le> s then round_div (a * 2 ^ nat s) d else round_div a (d * 2 ^ nat (- s)));
               bits = (if e0 < - 1022 then q else nat (e + 1022) * 2 ^ 52 + q)
           in word_of_nat ((if n < 0 then 2 ^ 63 else 0) + min bits (2047 * 2 ^ 52)))"

definition f64_nan_value :: "64 word" where "f64_nan_value = 0x7FF8000000000001"

definition f64_negate :: "64 word \<Rightarrow> 64 word" where
  "f64_negate f = word_of_nat (if f64_neg f then unat f - 2 ^ 63 else unat f + 2 ^ 63)"

definition f64_abs :: "64 word \<Rightarrow> 64 word" where
  "f64_abs f = (if f64_neg f then f64_negate f else f)"

definition f64_add :: "64 word \<Rightarrow> 64 word \<Rightarrow> 64 word" where
  "f64_add a b =
     (if f64_nan a \<or> f64_nan b then f64_nan_value
      else if f64_inf a then (if f64_inf b \<and> f64_neg a \<noteq> f64_neg b then f64_nan_value else a)
      else if f64_inf b then b
      else let n = f64_num a + f64_num b in
           if n = 0 then (if f64_neg a \<and> f64_neg b then a else 0) else f64_ratio n (2 ^ 1074))"

subsection \<open>Random\<close>

definition raw_probability :: "'t step_env \<Rightarrow> gval \<Rightarrow> 64 word \<Rightarrow> 64 word" where
  "raw_probability S raw d = or_default (tm_as_float (sp_tree S) (tm_new (sp_tree S) raw)) d"

definition minus_one :: "64 word" where "minus_one = f64_of_int (- 1)"

text \<open>\<open>math.Abs(tot-100) > 1e-9\<close>\<close>

definition not_hundred :: "64 word \<Rightarrow> bool" where
  "not_hundred tot = f64_less (f64_ratio 1 1000000000) (f64_abs (f64_add tot (f64_negate (f64_of_int 100))))"

fun check_probabilities :: "'t step_env \<Rightarrow> string \<Rightarrow> DefaultMap \<Rightarrow> (string \<times> gval) list \<Rightarrow> 64 word \<Rightarrow> bool \<Rightarrow> (64 word \<times> bool) res" where
  "check_probabilities S stepName outcomes [] tot dynamic = Inr (tot, dynamic)"
| "check_probabilities S stepName outcomes ((name, raw) # rest) tot dynamic =
     (let T = sp_tree S; unmatched = Inl (StepInvalidConfig stepName (''probability has no matching outcome: '' @ name));
          probability = raw_probability S raw minus_one in
      if Contains (or_default (tm_as_string T (tm_new T raw)) '''') ''${''
      then if gm_get outcomes name = None then unmatched else check_probabilities S stepName outcomes rest tot True
      else if f64_less probability 0 then Inl (StepInvalidConfig stepName (''probability cannot be negative: '' @ name))
      else if gm_get outcomes name = None then unmatched
      else check_probabilities S stepName outcomes rest (f64_add tot probability) dynamic)"

definition Random_VerifyConfig :: "'t step_env \<Rightarrow> string \<Rightarrow> 't \<Rightarrow> go_error option" where
  "Random_VerifyConfig S stepName config =
     (let T = sp_tree S; bad = (\<lambda>m. Some (StepInvalidConfig stepName m)) in
      case tm_as_map T (tm_get T config ''probabilities'') of
        None \<Rightarrow> bad ''probabilities are required''
      | Some probabilities \<Rightarrow>
          if probabilities = [] then bad ''probabilities are required''
          else (case tm_as_map T (tm_get T config ''outcome'') of
             None \<Rightarrow> bad ''outcome is required''
           | Some outcomes \<Rightarrow>
               if length outcomes \<noteq> length probabilities then bad ''probabilities and outcomes must contain the same names''
               else (case check_probabilities S stepName outcomes probabilities 0 False of
                       Inl e \<Rightarrow> Some e
                     | Inr (tot, dynamic) \<Rightarrow>
                         if \<not> dynamic \<and> not_hundred tot
                         then bad (''probabilities total '' @ tc_sprint (sp_text S) (GFloat tot) @ '', want 100'') else None)))"

fun sum_probabilities :: "'t step_env \<Rightarrow> DefaultMap \<Rightarrow> (string \<times> gval) list \<Rightarrow> 64 word \<Rightarrow> 64 word option" where
  "sum_probabilities S outcomes [] tot = Some tot"
| "sum_probabilities S outcomes ((name, raw) # rest) tot =
     (let probability = raw_probability S raw minus_one in
      if f64_less probability 0 \<or> gm_get outcomes name = None then None
      else sum_probabilities S outcomes rest (f64_add tot probability))"

fun pick :: "'t step_env \<Rightarrow> DefaultMap \<Rightarrow> 64 word \<Rightarrow> 64 word \<Rightarrow> string list \<Rightarrow> string option" where
  "pick S probabilities point cumulative0 [] = None"
| "pick S probabilities point cumulative0 (name # names) =
     (let cumulative = f64_add cumulative0 (raw_probability S (or_default (gm_get probabilities name) GNil) 0) in
      if f64_less point cumulative then Some name else pick S probabilities point cumulative names)"

text \<open>\<open>rawPoint\<close> is the random integer below 1000000.\<close>

definition Random :: "'t step_env \<Rightarrow> int res \<Rightarrow> 't \<Rightarrow> string res" where
  "Random S rawPoint config =
     (let T = sp_tree S in
      case (tm_as_map T (tm_get T config ''probabilities''), tm_as_map T (tm_get T config ''outcome'')) of
        (Some probabilities, Some outcomes) \<Rightarrow>
          if probabilities = [] \<or> length outcomes \<noteq> length probabilities then Inl ErrInvalidStepConfig
          else (case sum_probabilities S outcomes probabilities 0 of
                  None \<Rightarrow> Inl ErrInvalidStepConfig
                | Some tot \<Rightarrow>
                    if not_hundred tot then Inl ErrInvalidStepConfig
                    else let names = sort (map fst probabilities) in
                         bind_res rawPoint (\<lambda>n. Inr (or_default (pick S probabilities (f64_ratio n 10000) 0 names) (last names))))
      | _ \<Rightarrow> Inl ErrInvalidStepConfig)"

end
