(* ===== verification/JwtSteps.thy ===== *)
theory JwtSteps
  imports HttpProxy
begin

text \<open>
  \<^verbatim>\<open>steps/verify-jwt.step.go\<close> and \<^verbatim>\<open>steps/sign-jwt.step.go\<close>: verification and signing of tokens. The JWT and
  JWK libraries (\<^verbatim>\<open>jwx\<close>), base64, JSON text and the caches of key sets are the record \<open>J\<close>; the
  content of those caches is the world \<open>w\<close>, which a verification may change. Times are
  nanoseconds since 1970. A \<^verbatim>\<open>jwt.Token\<close> and \<^verbatim>\<open>jws.Headers\<close> are maps that only their setters change;
  \<open>jx_sign\<close> takes the algorithm, the key, the protected headers, the option \<^verbatim>\<open>FlattenAudience\<close> and the token.
\<close>

subsection \<open>Form encoding\<close>

text \<open>\<open>url.QueryEscape\<close> and \<open>url.Values\<close>.\<close>

definition hex_digit :: "nat \<Rightarrow> char" where
  "hex_digit n = ''0123456789ABCDEF'' ! n"

definition escape_char :: "char \<Rightarrow> string" where
  "escape_char c =
     (let n = of_char c :: nat in
      if (48 \<le> n \<and> n \<le> 57) \<or> (65 \<le> n \<and> n \<le> 90) \<or> (97 \<le> n \<and> n \<le> 122) \<or> c \<in> set ''-_.~'' then [c]
      else if c = CHR '' '' then ''+''
      else [CHR ''%'', hex_digit (n div 16), hex_digit (n mod 16)])"

definition QueryEscape :: "string \<Rightarrow> string" where
  "QueryEscape s = concat (map escape_char s)"

definition Values_Set :: "string \<Rightarrow> string \<Rightarrow> multimap \<Rightarrow> multimap" where
  "Values_Set k v m = gm_put k [v] m"

definition Values_Add :: "string \<Rightarrow> string \<Rightarrow> multimap \<Rightarrow> multimap" where
  "Values_Add k v m = gm_put k (values_of m k @ [v]) m"

definition Values_Encode :: "multimap \<Rightarrow> string" where
  "Values_Encode m =
     Join (concat (map (\<lambda>k. map (\<lambda>v. QueryEscape k @ ''='' @ QueryEscape v) (values_of m k)) (sort (map fst m)))) ''&''"

subsection \<open>The libraries\<close>

record ('j, 'k, 'v, 'h, 'w) jwt_lib =
  jx_known :: "string \<Rightarrow> bool"
  jx_symmetric :: "string \<Rightarrow> bool"
  jx_secret :: "string \<Rightarrow> 'k"
  jx_verify :: "string \<Rightarrow> 'k \<Rightarrow> string \<Rightarrow> bool"
  jx_sign :: "string \<Rightarrow> 'k \<Rightarrow> DefaultMap \<Rightarrow> bool \<Rightarrow> DefaultMap \<Rightarrow> string res"
  jx_parse_set :: "string \<Rightarrow> 'j list res"
  jx_parse_key :: "bool \<Rightarrow> string \<Rightarrow> 'j res"
  jx_field :: "'j \<Rightarrow> string \<Rightarrow> gval option"
  jx_raw :: "'j \<Rightarrow> 'k res"
  jx_lookup :: "'j list \<Rightarrow> string \<Rightarrow> 'j option"
  jx_set_claim :: "string \<Rightarrow> gval \<Rightarrow> DefaultMap \<Rightarrow> DefaultMap res"
  jx_set_time :: "string \<Rightarrow> int \<Rightarrow> DefaultMap \<Rightarrow> DefaultMap res"
  jx_set_header :: "string \<Rightarrow> gval \<Rightarrow> DefaultMap \<Rightarrow> DefaultMap res"
  jx_rawurl :: "string \<Rightarrow> string option"
  jx_b64url :: "string \<Rightarrow> string res"
  jx_json :: "string \<Rightarrow> DefaultMap res"
  jx_cache :: "'v dyn \<Rightarrow> 'h option"
  jx_external :: "'h option"
  jx_get :: "'h \<Rightarrow> 'w \<Rightarrow> string \<Rightarrow> string option"
  jx_put :: "'h \<Rightarrow> string \<Rightarrow> string \<Rightarrow> 'w \<Rightarrow> 'w \<times> go_error option"

text \<open>Algorithms are their names.\<close>

definition jwtSignatureAlgorithm :: "('j, 'k, 'v, 'h, 'w) jwt_lib \<Rightarrow> string \<Rightarrow> string res" where
  "jwtSignatureAlgorithm J algorithm =
     (if \<not> jx_known J algorithm \<or> algorithm = ''none'' then Inl (ErrText ''invalid JWT signature algorithm'') else Inr algorithm)"

definition symmetricJWTAlgorithm :: "('j, 'k, 'v, 'h, 'w) jwt_lib \<Rightarrow> string \<Rightarrow> string res" where
  "symmetricJWTAlgorithm J algorithm =
     (case jwtSignatureAlgorithm J algorithm of
        Inl _ \<Rightarrow> Inl (ErrText ''invalid symmetric signature algorithm'')
      | Inr alg \<Rightarrow> if jx_symmetric J alg then Inr alg else Inl (ErrText ''invalid symmetric signature algorithm''))"

subsection \<open>Verification\<close>

definition decode_part :: "('j, 'k, 'v, 'h, 'w) jwt_lib \<Rightarrow> string \<Rightarrow> DefaultMap res" where
  "decode_part J encoded = (case jx_rawurl J encoded of None \<Rightarrow> Inl (ErrText ''illegal base64 data'') | Some data \<Rightarrow> jx_json J data)"

definition decodeJWT :: "('j, 'k, 'v, 'h, 'w) jwt_lib \<Rightarrow> string \<Rightarrow> (DefaultMap \<times> DefaultMap \<times> string) res" where
  "decodeJWT J v =
     (case Split v (CHR ''.'') of
        [h, p, s] \<Rightarrow>
          if s = '''' then Inl (ErrText ''invalid compact JWT'')
          else bind_res (decode_part J h) (\<lambda>header. bind_res (decode_part J p) (\<lambda>payload. Inr (header, payload, s)))
      | _ \<Rightarrow> Inl (ErrText ''invalid compact JWT''))"

definition verifyJWTSecret :: "('j, 'k, 'v, 'h, 'w) jwt_lib \<Rightarrow> string \<Rightarrow> string \<Rightarrow> string \<Rightarrow> string \<Rightarrow> unit res" where
  "verifyJWTSecret J tokenText mode secret algorithm =
     bind_res (symmetricJWTAlgorithm J algorithm) (\<lambda>alg.
     bind_res (if mode = ''base64url-secret'' then jx_b64url J secret
               else if mode \<noteq> ''plain-secret'' then Inl (ErrText ''unsupported secret verification mode'')
               else Inr secret) (\<lambda>secretBytes.
       if jx_verify J alg (jx_secret J secretBytes) tokenText then Inr () else Inl (ErrText ''could not verify message'')))"

definition jwkString :: "'t step_env \<Rightarrow> ('j, 'k, 'v, 'h, 'w) jwt_lib \<Rightarrow> 'j \<Rightarrow> string \<Rightarrow> string" where
  "jwkString S J key field =
     (case jx_field J key field of None \<Rightarrow> '''' | Some v \<Rightarrow> if v = GNil then '''' else tc_sprint (sp_text S) v)"

definition parseJWKSet :: "('j, 'k, 'v, 'h, 'w) jwt_lib \<Rightarrow> string \<Rightarrow> 'j list res" where
  "parseJWKSet J data =
     bind_res (jx_json J data) (\<lambda>document.
       if gm_get document ''keys'' = None then Inl (ErrText ''jwk mode requires JWKS format with keys'')
       else bind_res (jx_parse_set J data) (\<lambda>keys.
              if keys = [] then Inl (ErrText ''jwk mode requires JWKS with at least one key'') else Inr keys))"

definition token_kid :: "'t step_env \<Rightarrow> DefaultMap \<Rightarrow> string" where
  "token_kid S header =
     (let kid = tc_sprint (sp_text S) (or_default (gm_get header ''kid'') GNil) in if kid = ''<nil>'' then '''' else kid)"

definition selectJWTJWK :: "'t step_env \<Rightarrow> ('j, 'k, 'v, 'h, 'w) jwt_lib \<Rightarrow> DefaultMap \<Rightarrow> 'j list \<Rightarrow> 'j res" where
  "selectJWTJWK S J header keys =
     (let tokenKid = token_kid S header in
      case keys of
        [] \<Rightarrow> Inl (ErrText ''jwk mode requires JWKS with at least one key'')
      | [key] \<Rightarrow> if tokenKid \<noteq> '''' \<and> jwkString S J key ''kid'' \<noteq> tokenKid then Inl (ErrText ''JWT kid does not match JWK'') else Inr key
      | _ \<Rightarrow>
          if list_ex (\<lambda>key. jwkString S J key ''kid'' = '''') keys then Inl (ErrText ''multiple JWK keys require kid'')
          else if tokenKid = '''' then Inl (ErrText ''JWT kid is required when JWKS has multiple keys'')
          else (case jx_lookup J keys tokenKid of None \<Rightarrow> Inl (ErrText ''JWK kid not found'') | Some key \<Rightarrow> Inr key))"

definition jwkVerifierAlgorithm :: "'t step_env \<Rightarrow> ('j, 'k, 'v, 'h, 'w) jwt_lib \<Rightarrow> 'j \<Rightarrow> string \<Rightarrow> string res" where
  "jwkVerifierAlgorithm S J key configuredAlgorithm =
     (let keyAlgorithm = jwkString S J key ''alg'' in
      if configuredAlgorithm \<noteq> ''''
      then bind_res (jwtSignatureAlgorithm J configuredAlgorithm) (\<lambda>alg.
             if keyAlgorithm \<noteq> '''' \<and> keyAlgorithm \<noteq> alg then Inl (ErrText ''configured JWT algorithm does not match JWK algorithm'')
             else Inr alg)
      else if keyAlgorithm = '''' then Inl (ErrText ''JWK algorithm is required when verify_jwt algorithm is empty'')
      else jwtSignatureAlgorithm J keyAlgorithm)"

definition verifyJWTJWK :: "'t step_env \<Rightarrow> ('j, 'k, 'v, 'h, 'w) jwt_lib \<Rightarrow> string \<Rightarrow> DefaultMap \<Rightarrow> 'j list \<Rightarrow> string \<Rightarrow> unit res" where
  "verifyJWTJWK S J tokenText header keys configuredAlgorithm =
     bind_res (selectJWTJWK S J header keys) (\<lambda>key.
     bind_res (jwkVerifierAlgorithm S J key configuredAlgorithm) (\<lambda>alg.
     bind_res (jx_raw J key) (\<lambda>raw.
       if jx_verify J alg raw tokenText then Inr () else Inl (ErrText ''could not verify message''))))"

definition JWKCacheKey :: string where "JWKCacheKey = ''jwk_cache''"

definition transactionJWKCache :: "('t, 'v, 'n, 'u) proxy_env \<Rightarrow> ('j, 'k, 'v, 'h, 'w) jwt_lib \<Rightarrow> 'h option" where
  "transactionJWKCache X J =
     (case px_manager X of
        None \<Rightarrow> jx_external J
      | Some m \<Rightarrow>
          (case GetCacheInstance m JWKCacheKey DefaultInstanceID of
             (v, ok) \<Rightarrow> if ok then (case jx_cache J v of Some h \<Rightarrow> Some h | None \<Rightarrow> jx_external J) else jx_external J))"

definition status_ok :: "http_reply \<Rightarrow> bool" where
  "status_ok r \<longleftrightarrow> \<not> (ry_Status r < 200 \<or> 300 \<le> ry_Status r)"

definition jwkSet :: "'t step_env \<Rightarrow> ('t, 'v, 'n, 'u) proxy_env \<Rightarrow> ('j, 'k, 'v, 'h, 'w) jwt_lib \<Rightarrow> 't \<Rightarrow> 'w \<Rightarrow> 'w \<times> 'j list res" where
  "jwkSet S X J config w =
     (let uri = cfg_str S config ''jwk_uri'' '''' in
      if uri \<noteq> ''''
      then (case transactionJWKCache X J of
              None \<Rightarrow> (w, Inl (ErrText ''jwk_uri mode requires a JWK cache''))
            | Some h \<Rightarrow>
                (case jx_get J h w uri of
                   Some cached \<Rightarrow> (w, parseJWKSet J cached)
                 | None \<Rightarrow>
                     (case requestHTTP (transactionHTTPClientInstance X '''') ''GET'' uri [(''Accept'', ''application/json'')] '''' of
                        Inl _ \<Rightarrow> (w, Inl (ErrText ''fetch jwk_uri''))
                      | Inr reply \<Rightarrow>
                          if \<not> status_ok reply then (w, Inl (ErrText ''fetch jwk_uri''))
                          else (case jx_put J h uri (ry_Body reply) w of
                                  (w', Some e) \<Rightarrow> (w', Inl e)
                                | (w', None) \<Rightarrow> (w', parseJWKSet J (ry_Body reply))))))
      else (w, case get_any_or (sp_tree S) config ''jwk'' GNil of
                 GStr text \<Rightarrow> parseJWKSet J text
               | raw \<Rightarrow> parseJWKSet J (or_default (cr_marshal (sp_crypto S) raw) '''')))"

definition verifyRemote :: "'t step_env \<Rightarrow> ('t, 'v, 'n, 'u) proxy_env \<Rightarrow> ('j, 'k, 'v, 'h, 'w) jwt_lib \<Rightarrow> 't \<Rightarrow> string \<Rightarrow> string \<Rightarrow> DefaultMap res" where
  "verifyRemote S X J config mode tokenText =
     (let endpoint = cfg_str S config ''endpoint'' '''';
          headers = [(''Authorization'', ''Bearer '' @ tokenText), (''Accept'', ''application/json'')];
          (meth, hs, body) = (if mode = ''introspection''
             then (''POST'', gm_put ''Content-Type'' ''application/x-www-form-urlencoded'' headers, Values_Encode [(''token'', [tokenText])])
             else (''GET'', headers, ''''))
      in case requestHTTP (transactionHTTPClientInstance X '''') meth endpoint hs body of
           Inl _ \<Rightarrow> Inl (ErrText ''remote JWT verification failed'')
         | Inr reply \<Rightarrow> if \<not> status_ok reply then Inl (ErrText ''remote JWT verification failed'') else jx_json J (ry_Body reply))"

definition validateJWTTimes :: "DefaultMap \<Rightarrow> bool \<Rightarrow> bool \<Rightarrow> int \<Rightarrow> bool" where
  "validateJWTTimes payload validateIAT validateEXP now =
     (let unix = f64_of_int (now div 1000000000) in
      (validateIAT \<longrightarrow> (case gm_get payload ''iat'' of None \<Rightarrow> True | Some (GFloat iat) \<Rightarrow> \<not> f64_less unix iat | _ \<Rightarrow> False)) \<and>
      (validateEXP \<longrightarrow> (case gm_get payload ''exp'' of None \<Rightarrow> True | Some (GFloat e) \<Rightarrow> \<not> f64_le e unix | _ \<Rightarrow> False)))"

definition claimsEqual :: "'t step_env \<Rightarrow> DefaultMap \<Rightarrow> 't \<Rightarrow> bool" where
  "claimsEqual S payload configured =
     (let T = sp_tree S; tree = tm_new T (GObj payload) in
      case tm_as_map T configured of
        None \<Rightarrow> True
      | Some required \<Rightarrow> list_all (\<lambda>(claim, expected). deep_equal (get_any_or T tree claim GNil) expected) required)"

definition check_signature :: "'t step_env \<Rightarrow> ('t, 'v, 'n, 'u) proxy_env \<Rightarrow> ('j, 'k, 'v, 'h, 'w) jwt_lib \<Rightarrow> 't \<Rightarrow> string \<Rightarrow> string
    \<Rightarrow> DefaultMap \<Rightarrow> DefaultMap \<Rightarrow> 'w \<Rightarrow> 'w \<times> DefaultMap res option" where
  "check_signature S X J config mode tokenText header payload w =
     (if mode = ''plain-secret'' \<or> mode = ''base64url-secret''
      then (w, Some (bind_res (verifyJWTSecret J tokenText mode (cfg_str S config ''secret'' '''') (cfg_str S config ''algorithm'' ''''))
              (\<lambda>_. Inr payload)))
      else if mode = ''jwk''
      then (case jwkSet S X J config w of
              (w', Inl e) \<Rightarrow> (w', Some (Inl e))
            | (w', Inr keys) \<Rightarrow>
                (w', Some (bind_res (verifyJWTJWK S J tokenText header keys (cfg_str S config ''algorithm'' '''')) (\<lambda>_. Inr payload))))
      else if mode = ''introspection'' \<or> mode = ''userinfo'' then (w, Some (verifyRemote S X J config mode tokenText))
      else (w, None))"

definition VerifyJWT :: "'t step_env \<Rightarrow> ('t, 'v, 'n, 'u) proxy_env \<Rightarrow> ('j, 'k, 'v, 'h, 'w) jwt_lib \<Rightarrow> int \<Rightarrow> 't \<Rightarrow> 't JourneyTransaction \<Rightarrow> 'w
    \<Rightarrow> 'w \<times> 't JourneyTransaction \<times> string" where
  "VerifyJWT S X J now config tx w =
     (let tokenText = cfg_str S config ''token'' ''''; mode = cfg_str S config ''mode'' '''' in
      case decodeJWT J tokenText of
        Inl _ \<Rightarrow> (w, tx, ''invalid'')
      | Inr (header, payload0, signature) \<Rightarrow>
          (case check_signature S X J config mode tokenText header payload0 w of
             (w', None) \<Rightarrow> (w', tx, ''error'')
           | (w', Some (Inl _)) \<Rightarrow> (w', tx, if mode = ''introspection'' \<or> mode = ''userinfo'' then ''error'' else ''invalid'')
           | (w', Some (Inr payload)) \<Rightarrow>
               if \<not> validateJWTTimes payload (get_bool_or (sp_tree S) config ''validate_iat'' True)
                    (get_bool_or (sp_tree S) config ''validate_exp'' True) now
                  \<or> \<not> claimsEqual S payload (tm_get (sp_tree S) config ''required_claims'') then (w', tx, ''invalid'')
               else if mode = ''introspection'' \<and> gm_get payload ''active'' \<noteq> Some (GBool True) then (w', tx, ''invalid'')
               else let output = cfg_str S config ''output'' '''' in
                 if output = '''' then (w', tx, ''valid'')
                 else (case named_ctx S (cfg_str S config ''context'' ''ctx'') tx of
                         (tx1, None) \<Rightarrow> (w', tx1, ''error'')
                       | (tx1, Some k) \<Rightarrow>
                           (w', ctx_set S k output (GObj [(''header'', GObj header), (''payload'', GObj payload), (''signature'', GStr signature)]) tx1,
                            ''valid''))))"

definition err_Error :: "go_error \<Rightarrow> string" where
  "err_Error e = (case e of ErrText t \<Rightarrow> t | _ \<Rightarrow> '''')"

text \<open>The configuration check of \<open>VerifyJWT\<close>.\<close>

definition VerifyJWT_VerifyConfig :: "'t step_env \<Rightarrow> ('j, 'k, 'v, 'h, 'w) jwt_lib \<Rightarrow> string \<Rightarrow> 't \<Rightarrow> go_error option" where
  "VerifyJWT_VerifyConfig S J stepName config =
     (let mode = cfg_str S config ''mode'' ''''; algorithm = cfg_str S config ''algorithm'' '''' in
      if Contains mode ''${'' then None
      else if mode = ''plain-secret'' \<or> mode = ''base64url-secret''
      then if cfg_str S config ''secret'' '''' = '''' \<or> algorithm = ''''
           then Some (StepInvalidConfig stepName (mode @ '' mode requires secret and algorithm''))
           else (case symmetricJWTAlgorithm J algorithm of Inl e \<Rightarrow> Some (StepInvalidConfig stepName (err_Error e)) | Inr _ \<Rightarrow> None)
      else if mode = ''jwk''
      then if (\<not> tm_defined (sp_tree S) config ''jwk'') = (cfg_str S config ''jwk_uri'' '''' = '''')
           then Some (StepInvalidConfig stepName ''jwk mode requires exactly one of jwk or jwk_uri'')
           else if algorithm \<noteq> '''' \<and> \<not> Contains algorithm ''${''
           then (case jwtSignatureAlgorithm J algorithm of Inl e \<Rightarrow> Some (StepInvalidConfig stepName (err_Error e)) | Inr _ \<Rightarrow> None)
           else None
      else if mode = ''introspection'' \<or> mode = ''userinfo''
      then if cfg_str S config ''endpoint'' '''' = '''' then Some (StepInvalidConfig stepName (mode @ '' mode requires endpoint'')) else None
      else Some (StepInvalidConfig stepName ''unsupported JWT verification mode''))"

subsection \<open>Signing\<close>

definition SignJWT_VerifyConfig :: "'t step_env \<Rightarrow> ('j, 'k, 'v, 'h, 'w) jwt_lib \<Rightarrow> string \<Rightarrow> 't \<Rightarrow> go_error option" where
  "SignJWT_VerifyConfig S J stepName config =
     (let T = sp_tree S; algorithm = cfg_str S config ''algorithm'' ''''; keyType = cfg_str S config ''key.type'' '''' in
      if algorithm = '''' then Some (StepInvalidConfig stepName ''algorithm is required'')
      else if Contains algorithm ''${'' then None
      else case jwtSignatureAlgorithm J algorithm of
        Inl e \<Rightarrow> Some (StepInvalidConfig stepName (err_Error e))
      | Inr alg \<Rightarrow>
          if Contains keyType ''${'' then None
          else if (keyType = ''plain-secret'' \<or> keyType = ''base64url-secret'') \<and> \<not> jx_symmetric J alg
          then Some (StepInvalidConfig stepName ''secret key type requires HS* algorithm'')
          else if (keyType = ''pem'' \<or> keyType = ''jwk'') \<and> jx_symmetric J alg
          then Some (StepInvalidConfig stepName (keyType @ '' key type cannot use HS* algorithm''))
          else if keyType \<notin> {''plain-secret'', ''base64url-secret'', ''pem'', ''jwk''}
          then Some (StepInvalidConfig stepName ''unsupported JWT signing key type'')
          else if tm_is_empty T (tm_get T config ''key.value'') then Some (StepInvalidConfig stepName ''key.value is required'')
          else if tm_is_empty T (tm_get T config ''claims'') then Some (StepInvalidConfig stepName ''claims are required'')
          else if cfg_str S config ''output'' '''' = '''' then Some (StepInvalidConfig stepName ''output is required'')
          else None)"

fun set_all :: "(string \<Rightarrow> gval \<Rightarrow> DefaultMap \<Rightarrow> DefaultMap res) \<Rightarrow> (string \<times> gval) list \<Rightarrow> DefaultMap \<Rightarrow> DefaultMap res" where
  "set_all f [] m = Inr m"
| "set_all f ((k, v) # rest) m = bind_res (f k v m) (set_all f rest)"

definition set_if :: "bool \<Rightarrow> (DefaultMap \<Rightarrow> DefaultMap res) \<Rightarrow> DefaultMap \<Rightarrow> DefaultMap res" where
  "set_if b f m = (if b then f m else Inr m)"

text \<open>The token and whether its audience is flattened.\<close>

definition buildSignJWTToken :: "'t step_env \<Rightarrow> ('j, 'k, 'v, 'h, 'w) jwt_lib \<Rightarrow> string \<Rightarrow> int \<Rightarrow> 't \<Rightarrow> (bool \<times> DefaultMap) res" where
  "buildSignJWTToken S J uuid now config =
     (let T = sp_tree S; issuer = cfg_str S config ''issuer'' ''''; subject = cfg_str S config ''subject'' '''';
          audience = get_any_or T config ''audience'' GNil; n = get_int_or T config ''expires_in_seconds'' 0
      in case tm_as_map T (tm_get T config ''claims'') of
           None \<Rightarrow> Inl (ErrText ''value is not a map'')
         | Some claims \<Rightarrow>
             bind_res (set_all (jx_set_claim J) claims []) (\<lambda>t0.
             bind_res (set_if (issuer \<noteq> '''') (jx_set_claim J ''iss'' (GStr issuer)) t0) (\<lambda>t1.
             bind_res (set_if (subject \<noteq> '''') (jx_set_claim J ''sub'' (GStr subject)) t1) (\<lambda>t2.
             bind_res (set_if (audience \<noteq> GNil) (jx_set_claim J ''aud'' audience) t2) (\<lambda>t3.
             bind_res (set_if (get_bool_or T config ''set_jti'' False) (jx_set_claim J ''jti'' (GStr uuid)) t3) (\<lambda>t4.
             bind_res (set_if (get_bool_or T config ''set_iat'' True) (jx_set_time J ''iat'' now) t4) (\<lambda>t5.
             bind_res (set_if (0 < n) (jx_set_time J ''exp'' (now + seconds n)) t5) (\<lambda>t6.
               Inr (audience \<noteq> GNil, t6)))))))))"

definition signJWTHeaders :: "'t step_env \<Rightarrow> ('j, 'k, 'v, 'h, 'w) jwt_lib \<Rightarrow> 't \<Rightarrow> DefaultMap res" where
  "signJWTHeaders S J config =
     (let T = sp_tree S; kid = cfg_str S config ''key.kid'' '''';
          raw = filter (\<lambda>(k, v). \<not> EqualFold k ''alg'') (or_default (tm_as_map T (tm_get T config ''headers'')) [])
      in bind_res (set_all (jx_set_header J) raw []) (\<lambda>h0.
         bind_res (set_if (kid \<noteq> '''') (jx_set_header J ''kid'' (GStr kid)) h0) (\<lambda>h1.
           set_if (gm_get h1 ''typ'' = None) (jx_set_header J ''typ'' (GStr ''JWT'')) h1)))"

definition signJWTSecretBytes :: "('j, 'k, 'v, 'h, 'w) jwt_lib \<Rightarrow> string \<Rightarrow> string \<Rightarrow> string res" where
  "signJWTSecretBytes J keyType secret = (if keyType = ''plain-secret'' then Inr secret else jx_b64url J secret)"

definition rawSigningKey :: "'t step_env \<Rightarrow> ('j, 'k, 'v, 'h, 'w) jwt_lib \<Rightarrow> string \<Rightarrow> bool \<Rightarrow> string \<Rightarrow> (string \<times> 'k) res" where
  "rawSigningKey S J alg pem data =
     bind_res (jx_parse_key J pem data) (\<lambda>key.
       let keyAlgorithm = jwkString S J key ''alg'' in
       if keyAlgorithm \<noteq> '''' \<and> keyAlgorithm \<noteq> alg then Inl (ErrText ''configured JWT algorithm does not match signing key algorithm'')
       else bind_res (jx_raw J key) (\<lambda>raw. Inr (alg, raw)))"

definition marshalSignJWK :: "'t step_env \<Rightarrow> gval \<Rightarrow> string res" where
  "marshalSignJWK S raw =
     (case raw of GStr text \<Rightarrow> Inr text
      | _ \<Rightarrow> (case cr_marshal (sp_crypto S) raw of None \<Rightarrow> Inl (ErrText ''json: unsupported value'') | Some data \<Rightarrow> Inr data))"

definition signJWTKey :: "'t step_env \<Rightarrow> ('j, 'k, 'v, 'h, 'w) jwt_lib \<Rightarrow> 't \<Rightarrow> (string \<times> 'k) res" where
  "signJWTKey S J config =
     bind_res (jwtSignatureAlgorithm J (cfg_str S config ''algorithm'' '''')) (\<lambda>alg.
       let keyType = cfg_str S config ''key.type'' ''''; raw = get_any_or (sp_tree S) config ''key.value'' GNil in
       if keyType = ''plain-secret'' \<or> keyType = ''base64url-secret''
       then if \<not> jx_symmetric J alg then Inl (ErrText ''secret key type requires HS* algorithm'')
            else bind_res (signJWTSecretBytes J keyType (tc_sprint (sp_text S) raw)) (\<lambda>bytes. Inr (alg, jx_secret J bytes))
       else if keyType = ''pem''
       then if jx_symmetric J alg then Inl (ErrText ''pem key type cannot use HS* algorithm'')
            else rawSigningKey S J alg True (tc_sprint (sp_text S) raw)
       else if keyType = ''jwk''
       then if jx_symmetric J alg then Inl (ErrText ''jwk key type cannot use HS* algorithm'')
            else bind_res (marshalSignJWK S raw) (rawSigningKey S J alg False)
       else Inl (ErrText ''unsupported JWT signing key type''))"

definition signJWTCompactFromConfig :: "'t step_env \<Rightarrow> ('j, 'k, 'v, 'h, 'w) jwt_lib \<Rightarrow> string \<Rightarrow> int \<Rightarrow> 't \<Rightarrow> string res" where
  "signJWTCompactFromConfig S J uuid now config =
     bind_res (buildSignJWTToken S J uuid now config) (\<lambda>(flatten, token).
     bind_res (signJWTKey S J config) (\<lambda>(alg, key).
     bind_res (signJWTHeaders S J config) (\<lambda>headers. jx_sign J alg key headers flatten token)))"

record SignJWTKey =
  sk_Type :: string
  sk_Value :: gval
  sk_KID :: string

text \<open>The zero \<open>Now\<close> is \<open>None\<close>.\<close>

record JWTSignOptions =
  so_Algorithm :: string
  so_Key :: SignJWTKey
  so_Claims :: DefaultMap
  so_Headers :: DefaultMap
  so_Issuer :: string
  so_Subject :: string
  so_Audience :: "string list"
  so_SetIAT :: bool
  so_SetJTI :: bool
  so_ExpiresIn :: int
  so_Now :: "int option"

definition sign_config :: "JWTSignOptions \<Rightarrow> DefaultMap" where
  "sign_config options = [(''algorithm'', GStr (so_Algorithm options)),
     (''key'', GObj [(''type'', GStr (sk_Type (so_Key options))), (''value'', sk_Value (so_Key options)), (''kid'', GStr (sk_KID (so_Key options)))]),
     (''claims'', GObj (so_Claims options)), (''headers'', GObj (so_Headers options)),
     (''issuer'', GStr (so_Issuer options)), (''subject'', GStr (so_Subject options)),
     (''set_iat'', GBool (so_SetIAT options)), (''set_jti'', GBool (so_SetJTI options)),
     (''expires_in_seconds'', GInt (so_ExpiresIn options)),
     (''audience'', case so_Audience options of [a] \<Rightarrow> GStr a | as \<Rightarrow> GArr (map GStr as))]"

definition SignCompactJWT :: "'t step_env \<Rightarrow> ('j, 'k, 'v, 'h, 'w) jwt_lib \<Rightarrow> string \<Rightarrow> int \<Rightarrow> JWTSignOptions \<Rightarrow> string res" where
  "SignCompactJWT S J uuid clock options =
     signJWTCompactFromConfig S J uuid (or_default (so_Now options) clock) (tm_new (sp_tree S) (GObj (sign_config options)))"

definition SignJWT :: "'t step_env \<Rightarrow> ('j, 'k, 'v, 'h, 'w) jwt_lib \<Rightarrow> string \<Rightarrow> int \<Rightarrow> 't \<Rightarrow> 't JourneyTransaction \<Rightarrow> 't JourneyTransaction \<times> string" where
  "SignJWT S J uuid now config tx =
     (case signJWTCompactFromConfig S J uuid now config of
        Inl _ \<Rightarrow> (tx, ''error'')
      | Inr compact \<Rightarrow>
          (case named_ctx S (cfg_str S config ''context'' ''ctx'') tx of
             (tx1, None) \<Rightarrow> (tx1, ''error'')
           | (tx1, Some k) \<Rightarrow> (ctx_set S k (cfg_str S config ''output'' '''') (GStr compact) tx1, ''true'')))"

end
