(* ===== verification/OidcStep.thy ===== *)
theory OidcStep
  imports JwtSteps
begin

text \<open>
  \<^verbatim>\<open>steps/oidc-authorization-code.step.go\<close>: the authorization-code flow with an OpenID provider. The first
  execution stores a state, a nonce and a code verifier in the closed context and asks the client to
  visit the provider; the resumed execution checks the callback and exchanges its code for tokens.

  The record \<open>D\<close> has the random source (the first draw is the state, then the nonce and the verifier), the
  identifiers of \<^verbatim>\<open>uuid\<close>, the clock, the hash and encodings, and \<open>URL.Query\<close>.
\<close>

record 'u oidc_lib =
  od_random :: "nat \<Rightarrow> string res"
  od_uuid :: "nat \<Rightarrow> string"
  od_now :: int
  od_sha256 :: "string \<Rightarrow> string"
  od_rawurl :: "string \<Rightarrow> string"
  od_std64 :: "string \<Rightarrow> string"
  od_query :: "'u \<Rightarrow> multimap"

definition secureToken :: "'u oidc_lib \<Rightarrow> nat \<Rightarrow> string res" where
  "secureToken D i = od_random D i"

subsection \<open>Configuration\<close>

fun first_missing :: "'t step_env \<Rightarrow> 't \<Rightarrow> string list \<Rightarrow> string option" where
  "first_missing S config [] = None"
| "first_missing S config (k # ks) = (if TrimSpace (cfg_str S config k '''') = '''' then Some k else first_missing S config ks)"

definition OIDC_VerifyConfig :: "'t step_env \<Rightarrow> ('j, 'k, 'v, 'h, 'w) jwt_lib \<Rightarrow> string \<Rightarrow> 't \<Rightarrow> go_error option" where
  "OIDC_VerifyConfig S J stepName config =
     (let T = sp_tree S;
          authMethod = TrimSpace (cfg_str S config ''client_auth_method'' '''');
          clientSecret = TrimSpace (cfg_str S config ''client_secret'' '''');
          httpClient = TrimSpace (cfg_str S config ''http_client'' '''');
          alg = TrimSpace (cfg_str S config ''signing_algorithm'' '''');
          output = cfg_str S config ''output'' '''';
          bad = (\<lambda>m. Some (StepInvalidConfig stepName m));
          check_output = (if Contains output ''${'' then None
             else if \<not> HasPrefix output ''encCtx.'' \<and> \<not> HasPrefix output ''closedCtx.'' then bad ''output must start with encCtx. or closedCtx.''
             else None)
      in case first_missing S config [''authorize_url'', ''token_url'', ''client_id'', ''redirect_uri'', ''output''] of
           Some key \<Rightarrow> bad (key @ '' is required'')
         | None \<Rightarrow>
             if Contains authMethod ''${'' then None
             else if authMethod \<notin> {'''', ''none'', ''client_secret_post'', ''client_secret_basic'', ''private_key_jwt'', ''tls_client_auth'',
                      ''self_signed_tls_client_auth''} then bad ''unsupported client_auth_method''
             else if (authMethod = ''client_secret_post'' \<or> authMethod = ''client_secret_basic'') \<and> clientSecret = ''''
             then bad (''client_secret is required for '' @ authMethod)
             else if (authMethod = ''private_key_jwt'' \<or> get_bool_or T config ''use_jar'' False)
                     \<and> tm_is_empty T (tm_get T config ''private_key_jwk'')
             then bad ''private_key_jwk is required for private_key_jwt or JAR''
             else if (authMethod = ''tls_client_auth'' \<or> authMethod = ''self_signed_tls_client_auth'') \<and> httpClient = ''''
             then bad (''http_client is required for '' @ authMethod)
             else if alg \<noteq> '''' \<and> \<not> Contains alg ''${''
             then (case jwtSignatureAlgorithm J alg of Inl e \<Rightarrow> bad (err_Error e) | Inr _ \<Rightarrow> check_output)
             else check_output)"

definition oidcClientAuthMethod :: "'t step_env \<Rightarrow> 't \<Rightarrow> string" where
  "oidcClientAuthMethod S config =
     (let configured = TrimSpace (cfg_str S config ''client_auth_method'' '''');
          secret = TrimSpace (cfg_str S config ''client_secret'' '''')
      in if configured \<noteq> '''' then configured
         else if \<not> tm_is_empty (sp_tree S) (tm_get (sp_tree S) config ''private_key_jwk'') \<and> secret = '''' then ''private_key_jwt''
         else if secret \<noteq> '''' then ''client_secret_basic''
         else ''none'')"

definition oidcSigningAlgorithm :: "'t step_env \<Rightarrow> 't \<Rightarrow> string" where
  "oidcSigningAlgorithm S config =
     (let algorithm = TrimSpace (cfg_str S config ''signing_algorithm'' '''') in if algorithm = '''' then ''RS256'' else algorithm)"

fun Fields_acc :: "string \<Rightarrow> string \<Rightarrow> string list" where
  "Fields_acc w [] = (if w = '''' then [] else [w])"
| "Fields_acc w (c # cs) = (if is_space c then (if w = '''' then Fields_acc '''' cs else w # Fields_acc '''' cs) else Fields_acc (w @ [c]) cs)"

definition Fields :: "string \<Rightarrow> string list" where
  "Fields s = Fields_acc '''' s"

definition oidcScopes :: "'t step_env \<Rightarrow> 't \<Rightarrow> string list" where
  "oidcScopes S config =
     (let T = sp_tree S; values = or_default (tm_as_slice T (tm_get T config ''scope'')) [] in
      if values = []
      then let scopeText = TrimSpace (cfg_str S config ''scope'' '''') in if scopeText \<noteq> '''' then Fields scopeText else [''openid'']
      else let scopes = filter (\<lambda>s. s \<noteq> '''') (map (\<lambda>v. TrimSpace (or_default (tm_as_string T v) '''')) values) in
           if scopes = [] then [''openid''] else scopes)"

definition anyMap :: "'t step_env \<Rightarrow> 't \<Rightarrow> DefaultMap" where
  "anyMap S v = (case tm_as_struct (sp_tree S) v of Some (GObj m) \<Rightarrow> m | _ \<Rightarrow> [])"

text \<open>The parameters are decoded JSON, so an array is a \<^verbatim>\<open>[]any\<close>.\<close>

fun addQueryParams :: "'t step_env \<Rightarrow> (string \<times> gval) list \<Rightarrow> multimap \<Rightarrow> multimap" where
  "addQueryParams S [] values = values"
| "addQueryParams S ((key0, raw) # params) values =
     (let key = TrimSpace key0 in
      addQueryParams S params
        (if key = '''' \<or> raw = GNil then values
         else case raw of
                GArr _ \<Rightarrow> Values_Add key (or_default (cr_marshal (sp_crypto S) raw) '''') values
              | _ \<Rightarrow> Values_Set key (tc_sprint (sp_text S) raw) values))"

subsection \<open>The context of the flow\<close>

definition oidc_base :: "'t step_env \<Rightarrow> 't JourneyTransaction \<Rightarrow> string" where
  "oidc_base S tx = GetContextKey (sp_keys S) (''oidc.'' @ tx_CurrentStepID tx)"

definition setOIDCError :: "'t step_env \<Rightarrow> string \<Rightarrow> string \<Rightarrow> DefaultMap \<Rightarrow> 't JourneyTransaction \<Rightarrow> 't JourneyTransaction" where
  "setOIDCError S code message attrs tx =
     (let v = fold (\<lambda>(key, attr) m. gm_put key attr m) (filter (\<lambda>(key, attr). TrimSpace key \<noteq> '''' \<and> attr \<noteq> GNil) attrs)
                [(''code'', GStr code), (''message'', GStr message)]
      in ctx_set S KTemp (GetContextKey (sp_keys S) (''oidc.'' @ tx_CurrentStepID tx @ ''.error'')) (GObj v) tx)"

definition oidc_cleanup :: "'t step_env \<Rightarrow> string \<Rightarrow> 't JourneyTransaction \<Rightarrow> 't JourneyTransaction" where
  "oidc_cleanup S baseKey tx = ctx_delete S KClosed baseKey tx"

definition oidc_reject :: "'t step_env \<Rightarrow> string \<Rightarrow> string \<Rightarrow> string \<Rightarrow> DefaultMap \<Rightarrow> 't JourneyTransaction \<Rightarrow> 't JourneyTransaction \<times> string res" where
  "oidc_reject S baseKey code message attrs tx = (oidc_cleanup S baseKey (setOIDCError S code message attrs tx), Inr ''false'')"


subsection \<open>Client authentication\<close>

definition oidc_sign_options :: "'t step_env \<Rightarrow> 't \<Rightarrow> DefaultMap \<Rightarrow> DefaultMap \<Rightarrow> string \<Rightarrow> string \<Rightarrow> int option \<Rightarrow> JWTSignOptions" where
  "oidc_sign_options S config claims headers subject audience now =
     \<lparr>so_Algorithm = oidcSigningAlgorithm S config,
      so_Key = \<lparr>sk_Type = ''jwk'', sk_Value = get_any_or (sp_tree S) config ''private_key_jwk'' GNil, sk_KID = ''''\<rparr>,
      so_Claims = claims, so_Headers = headers, so_Issuer = cfg_str S config ''client_id'' '''', so_Subject = subject,
      so_Audience = [audience], so_SetIAT = True, so_SetJTI = True, so_ExpiresIn = 300, so_Now = now\<rparr>"

definition applyClientAuthentication :: "'t step_env \<Rightarrow> ('j, 'k, 'v, 'h, 'w) jwt_lib \<Rightarrow> 'u oidc_lib \<Rightarrow> 't \<Rightarrow> string \<Rightarrow> multimap \<Rightarrow> string gomap
    \<Rightarrow> (multimap \<times> string gomap) res" where
  "applyClientAuthentication S J D config audience values headers =
     (let authMethod = oidcClientAuthMethod S config; clientID = cfg_str S config ''client_id'' '''';
          clientSecret = cfg_str S config ''client_secret'' '''' in
      if authMethod = ''none'' then Inr (Values_Set ''client_id'' clientID values, headers)
      else if authMethod = ''client_secret_post''
      then Inr (Values_Set ''client_secret'' clientSecret (Values_Set ''client_id'' clientID values), headers)
      else if authMethod = ''client_secret_basic''
      then Inr (values, gm_put ''Authorization'' (''Basic '' @ od_std64 D (clientID @ '':'' @ clientSecret)) headers)
      else if authMethod = ''private_key_jwt''
      then bind_res (SignCompactJWT S J (od_uuid D 1) (od_now D) (oidc_sign_options S config [] [] clientID audience (Some (od_now D))))
             (\<lambda>assertion. Inr (Values_Set ''client_assertion'' assertion
                (Values_Set ''client_assertion_type'' ''urn:ietf:params:oauth:client-assertion-type:jwt-bearer''
                  (Values_Set ''client_id'' clientID values)), headers))
      else if authMethod = ''tls_client_auth'' \<or> authMethod = ''self_signed_tls_client_auth''
      then Inr (Values_Set ''client_id'' clientID values, headers)
      else Inr (values, headers))"

definition oidc_post :: "'t step_env \<Rightarrow> ('t, 'v, 'n, 'u) proxy_env \<Rightarrow> ('j, 'k, 'v, 'h, 'w) jwt_lib \<Rightarrow> 'u oidc_lib \<Rightarrow> 't \<Rightarrow> string \<Rightarrow> string \<Rightarrow> multimap
    \<Rightarrow> DefaultMap res" where
  "oidc_post S X J D config endpoint what values =
     bind_res (applyClientAuthentication S J D config endpoint values
                 [(''Accept'', ''application/json''), (''Content-Type'', ''application/x-www-form-urlencoded'')]) (\<lambda>(values, headers).
     bind_res (requestHTTP (transactionHTTPClientInstance X (cfg_str S config ''http_client'' '''')) ''POST'' endpoint headers (Values_Encode values)) (\<lambda>response.
       if \<not> status_ok response
       then Inl (ErrText (''OIDC '' @ what @ '' endpoint returned status '' @ tc_sprint (sp_text S) (GInt (ry_Status response)) @ '': '' @ ry_Body response))
       else jx_json J (ry_Body response)))"

definition pushAuthorizationRequest :: "'t step_env \<Rightarrow> ('t, 'v, 'n, 'u) proxy_env \<Rightarrow> ('j, 'k, 'v, 'h, 'w) jwt_lib \<Rightarrow> 'u oidc_lib \<Rightarrow> 't \<Rightarrow> string \<Rightarrow> multimap
    \<Rightarrow> string res" where
  "pushAuthorizationRequest S X J D config parURL values =
     bind_res (oidc_post S X J D config parURL ''PAR'' values) (\<lambda>payload.
       let requestURI = (case gm_get payload ''request_uri'' of Some (GStr u) \<Rightarrow> u | _ \<Rightarrow> '''') in
       if TrimSpace requestURI = '''' then Inl (ErrText ''OIDC PAR endpoint did not return request_uri'') else Inr requestURI)"

subsection \<open>The authorization request\<close>

definition request_claims :: "multimap \<Rightarrow> DefaultMap" where
  "request_claims values =
     concat (map (\<lambda>(key, items). case items of [] \<Rightarrow> [] | [item] \<Rightarrow> [(key, GStr item)] | _ \<Rightarrow> [(key, GArr (map GStr items))]) values)"

definition buildRequestObject :: "'t step_env \<Rightarrow> ('j, 'k, 'v, 'h, 'w) jwt_lib \<Rightarrow> 'u oidc_lib \<Rightarrow> 't \<Rightarrow> multimap \<Rightarrow> string \<Rightarrow> DefaultMap \<Rightarrow> string res" where
  "buildRequestObject S J D config values audience extraParams =
     SignCompactJWT S J (od_uuid D 0) (od_now D)
       (oidc_sign_options S config (fold (\<lambda>(k, v) m. gm_put k v m) extraParams (request_claims values))
          [(''typ'', GStr ''oauth-authz-req+jwt'')] '''' audience None)"

definition authorization_values :: "'t step_env \<Rightarrow> 't \<Rightarrow> string \<Rightarrow> multimap \<Rightarrow> multimap" where
  "authorization_values S config state query =
     Values_Set ''state'' state (Values_Set ''scope'' (Join (oidcScopes S config) '' '') (Values_Set ''response_type'' ''code''
       (Values_Set ''redirect_uri'' (cfg_str S config ''redirect_uri'' '''') (Values_Set ''client_id'' (cfg_str S config ''client_id'' '''') query))))"

definition start_nonce :: "'t step_env \<Rightarrow> 'u oidc_lib \<Rightarrow> 't \<Rightarrow> string \<Rightarrow> multimap \<Rightarrow> 't JourneyTransaction \<Rightarrow> 't JourneyTransaction \<times> multimap res" where
  "start_nonce S D config baseKey values tx =
     (if get_bool_or (sp_tree S) config ''nonce'' True
      then (case secureToken D 1 of
              Inl e \<Rightarrow> (tx, Inl e)
            | Inr nonce \<Rightarrow> (ctx_set S KClosed (baseKey @ ''.nonce'') (GStr nonce) tx, Inr (Values_Set ''nonce'' nonce values)))
      else (tx, Inr values))"

definition start_pkce :: "'t step_env \<Rightarrow> 'u oidc_lib \<Rightarrow> 't \<Rightarrow> string \<Rightarrow> multimap \<Rightarrow> 't JourneyTransaction \<Rightarrow> 't JourneyTransaction \<times> multimap res" where
  "start_pkce S D config baseKey values tx =
     (if get_bool_or (sp_tree S) config ''pkce'' True
      then (case secureToken D 2 of
              Inl e \<Rightarrow> (tx, Inl e)
            | Inr verifier \<Rightarrow>
                (ctx_set S KClosed (baseKey @ ''.code_verifier'') (GStr verifier) tx,
                 Inr (Values_Set ''code_challenge_method'' ''S256'' (Values_Set ''code_challenge'' (od_rawurl D (od_sha256 D verifier)) values))))
      else (tx, Inr values))"

text \<open>The signed request object or the plain parameters, then the pushed request; the error has its code.\<close>

definition authorization_query :: "'t step_env \<Rightarrow> ('t, 'v, 'n, 'u) proxy_env \<Rightarrow> ('j, 'k, 'v, 'h, 'w) jwt_lib \<Rightarrow> 'u oidc_lib \<Rightarrow> 't \<Rightarrow> multimap
    \<Rightarrow> (string \<times> go_error) + multimap" where
  "authorization_query S X J D config values =
     (let clientID = cfg_str S config ''client_id'' ''''; parURL = TrimSpace (cfg_str S config ''par_url'' '''');
          extraParams = anyMap S (tm_get (sp_tree S) config ''extra_authorize_params'');
          jar = (if get_bool_or (sp_tree S) config ''use_jar'' False
                 then (case buildRequestObject S J D config values (cfg_str S config ''aud_url'' '''') extraParams of
                         Inl e \<Rightarrow> Inl (''jar_failed'', e)
                       | Inr requestObject \<Rightarrow> Inr (Values_Set ''request'' requestObject (Values_Set ''client_id'' clientID [])))
                 else Inr (addQueryParams S extraParams values))
      in case jar of
           Inl e \<Rightarrow> Inl e
         | Inr values1 \<Rightarrow>
             if parURL = '''' then Inr values1
             else (case pushAuthorizationRequest S X J D config parURL values1 of
                     Inl e \<Rightarrow> Inl (''par_failed'', e)
                   | Inr requestURI \<Rightarrow> Inr (Values_Set ''request_uri'' requestURI (Values_Set ''client_id'' clientID []))))"

definition startAuthorization :: "'t step_env \<Rightarrow> ('t, 'v, 'n, 'u) proxy_env \<Rightarrow> ('j, 'k, 'v, 'h, 'w) jwt_lib \<Rightarrow> 'u oidc_lib \<Rightarrow> 't \<Rightarrow> string
    \<Rightarrow> 't JourneyTransaction \<Rightarrow> 't JourneyTransaction \<times> string res" where
  "startAuthorization S X J D config baseKey tx =
     (let U = px_url X in
      case secureToken D 0 of
        Inl e \<Rightarrow> (tx, Inl e)
      | Inr state \<Rightarrow>
          (case ul_parse U (cfg_str S config ''authorize_url'' '''') of
             Inl e \<Rightarrow> (tx, Inl e)
           | Inr authorizeURL \<Rightarrow>
               let values = authorization_values S config state (od_query D authorizeURL);
                   tx1 = ctx_set S KClosed (baseKey @ ''.state'') (GStr state) tx in
               (case start_nonce S D config baseKey values tx1 of
                  (tx2, Inl e) \<Rightarrow> (tx2, Inl e)
                | (tx2, Inr values1) \<Rightarrow>
                    (case start_pkce S D config baseKey values1 tx2 of
                       (tx3, Inl e) \<Rightarrow> (tx3, Inl e)
                     | (tx3, Inr values2) \<Rightarrow>
                         (case authorization_query S X J D config values2 of
                            Inl (code, e) \<Rightarrow> oidc_reject S baseKey code (err_Error e) [] tx3
                          | Inr values3 \<Rightarrow>
                              (with_builder S (AddMessageInput (sp_tree S) (sp_keys S)
                                 \<lparr>mg_ID = tx_CurrentStepID tx, mg_StepType = ''OIDCAuthorizationCode'', mg_Type = '''',
                                  mg_Value = GObj [(''type'', GStr ''oidc_authorization''), (''method'', GStr ''GET''),
                                    (''authorize_url'', GStr (ul_string U (ul_set_query U (Values_Encode values3) authorizeURL)))]\<rparr>) tx3,
                               Inr ''''))))))"

subsection \<open>The callback\<close>

definition token_values :: "'t step_env \<Rightarrow> 't \<Rightarrow> string \<Rightarrow> string \<Rightarrow> multimap" where
  "token_values S config code codeVerifier =
     (let authMethod = oidcClientAuthMethod S config; clientID = cfg_str S config ''client_id'' '''';
          v0 = Values_Set ''redirect_uri'' (cfg_str S config ''redirect_uri'' '''') (Values_Set ''code'' code (Values_Set ''grant_type'' ''authorization_code'' []));
          v1 = (if codeVerifier \<noteq> '''' then Values_Set ''code_verifier'' codeVerifier v0 else v0);
          v2 = (if authMethod = ''none'' \<or> authMethod = ''client_secret_post'' then Values_Set ''client_id'' clientID v1 else v1);
          v3 = (if authMethod = ''client_secret_post'' then Values_Set ''client_secret'' (cfg_str S config ''client_secret'' '''') v2 else v2)
      in addQueryParams S (anyMap S (tm_get (sp_tree S) config ''extra_token_params'')) v3)"

definition exchangeToken :: "'t step_env \<Rightarrow> ('t, 'v, 'n, 'u) proxy_env \<Rightarrow> ('j, 'k, 'v, 'h, 'w) jwt_lib \<Rightarrow> 'u oidc_lib \<Rightarrow> 't \<Rightarrow> string \<Rightarrow> string
    \<Rightarrow> 't JourneyTransaction \<Rightarrow> 't JourneyTransaction \<times> DefaultMap res" where
  "exchangeToken S X J D config baseKey code tx =
     (case ctx_read S KClosed tx of
        (tx1, closed) \<Rightarrow>
          (tx1, oidc_post S X J D config (cfg_str S config ''token_url'' '''') ''token''
                  (token_values S config code (get_str_or (sp_tree S) closed (baseKey @ ''.code_verifier'') ''''))))"

definition req_QueryFirst :: "string \<Rightarrow> string list \<Rightarrow> request \<Rightarrow> string" where
  "req_QueryFirst name dflt r = firstOrDefault (req_QueryValues name r) dflt"

text \<open>The name of the running step; without an entry the pointer of the step is nil.\<close>

definition oidc_event :: "string \<Rightarrow> 't JourneyTransaction \<Rightarrow> 't JourneyTransaction res" where
  "oidc_event message tx =
     (case gm_get (jc_Steps (tx_Journey tx)) (tx_CurrentStepID tx) of
        Some (Some step) \<Rightarrow> Inr (EmitEvent (step_event EventInfo message None (tx_CurrentStepID tx) (st_Name step)) tx)
      | _ \<Rightarrow> Inl (GoPanic ''nil pointer dereference''))"

definition save_tokens :: "'t step_env \<Rightarrow> 't \<Rightarrow> string \<Rightarrow> DefaultMap \<Rightarrow> 't JourneyTransaction \<Rightarrow> 't JourneyTransaction \<times> string res" where
  "save_tokens S config baseKey tokens tx =
     (case GetCtxPath (sp_tree S) (sp_crypto S) (cfg_str S config ''output'' '''') (tx_State tx) of
        (st, c, key) \<Rightarrow>
          let tx1 = tx\<lparr>tx_State := st\<rparr> in
          (case c of
             None \<Rightarrow> (tx1, Inl (StepInvalidConfig (tx_CurrentStepID tx) ''invalid output context path''))
           | Some (k, _) \<Rightarrow>
               if key = '''' then (tx1, Inl (StepInvalidConfig (tx_CurrentStepID tx) ''invalid output context path''))
               else (oidc_cleanup S baseKey (ctx_set S k key (GObj tokens) tx1), Inr ''true'')))"

definition exchangeCallback :: "'t step_env \<Rightarrow> ('t, 'v, 'n, 'u) proxy_env \<Rightarrow> ('j, 'k, 'v, 'h, 'w) jwt_lib \<Rightarrow> 'u oidc_lib \<Rightarrow> 't \<Rightarrow> string \<Rightarrow> string
    \<Rightarrow> 't JourneyTransaction \<Rightarrow> 't JourneyTransaction \<times> string res" where
  "exchangeCallback S X J D config baseKey expectedState tx =
     (case tx_Request tx of
        None \<Rightarrow> oidc_reject S baseKey ''missing_request'' ''OIDC callback requires request query parameters'' [] tx
      | Some request \<Rightarrow>
          let actualState = req_QueryFirst ''state'' [] request; providerError = req_QueryFirst ''error'' [] request;
              code = req_QueryFirst ''code'' [] request in
          if actualState = '''' \<or> actualState \<noteq> expectedState
          then oidc_reject S baseKey ''invalid_state'' ''OIDC callback state does not match stored state'' [(''received_state'', GStr actualState)] tx
          else if providerError \<noteq> ''''
          then oidc_reject S baseKey providerError (req_QueryFirst ''error_description'' [providerError] request)
                 [(''error_uri'', GStr (req_QueryFirst ''error_uri'' [] request))] tx
          else if code = ''''
          then oidc_reject S baseKey ''missing_code'' ''OIDC callback does not include an authorization code'' [] tx
          else (case oidc_event ''required data processed, starting exchange for tokens'' tx of
                  Inl e \<Rightarrow> (tx, Inl e)
                | Inr tx1 \<Rightarrow>
                    (case exchangeToken S X J D config baseKey code tx1 of
                       (tx2, Inl e) \<Rightarrow> oidc_reject S baseKey ''token_exchange_failed'' (err_Error e) [] tx2
                     | (tx2, Inr tokens) \<Rightarrow> save_tokens S config baseKey tokens tx2)))"

definition OIDCAuthorizationCode :: "'t step_env \<Rightarrow> ('t, 'v, 'n, 'u) proxy_env \<Rightarrow> ('j, 'k, 'v, 'h, 'w) jwt_lib \<Rightarrow> 'u oidc_lib \<Rightarrow> 't step" where
  "OIDCAuthorizationCode S X J D config tx =
     (let baseKey = oidc_base S tx in
      case ctx_read S KClosed tx of
        (tx1, closed) \<Rightarrow>
          let expectedState = get_str_or (sp_tree S) closed (baseKey @ ''.state'') '''' in
          if expectedState = ''''
          then (case oidc_event ''not found state in context, returning authorization url...'' tx1 of
                  Inl e \<Rightarrow> (tx1, Inl e)
                | Inr tx2 \<Rightarrow> startAuthorization S X J D config baseKey tx2)
          else exchangeCallback S X J D config baseKey expectedState tx1)"

end
