(* ===== verification/JwtFacts.thy ===== *)
theory JwtFacts
  imports JwtSteps StepFacts RouteTableFacts
begin

text \<open>
  What a token that \<open>VerifyJWT\<close> accepts has been checked for, and that it accepts what \<open>SignJWT\<close> signs.
\<close>

subsection \<open>Errors of the checks\<close>

lemma signature_algorithm_Inr: "jwtSignatureAlgorithm J a = Inr alg \<longleftrightarrow> alg = a \<and> jx_known J a \<and> a \<noteq> ''none''"
  by (auto simp: jwtSignatureAlgorithm_def)

lemma symmetric_algorithm_Inr:
  "symmetricJWTAlgorithm J a = Inr alg \<longleftrightarrow> alg = a \<and> jx_known J a \<and> a \<noteq> ''none'' \<and> jx_symmetric J a"
  by (auto simp: symmetricJWTAlgorithm_def jwtSignatureAlgorithm_def)

subsection \<open>What was checked\<close>

text \<open>
  The grounds on which a payload is believed: in the secret modes a symmetric signature over the token under
  the configured secret; in the mode \<open>jwk\<close> a signature under one key of the set, chosen by the token's key
  identifier where it has one or the set has several keys, with the algorithm that both the configuration and
  the key allow; in the remote modes a successful answer of the endpoint, which carries the payload.
\<close>

definition secret_grounds :: "'t step_env \<Rightarrow> ('j, 'k, 'v, 'h, 'w) jwt_lib \<Rightarrow> 't \<Rightarrow> bool" where
  "secret_grounds S J config \<longleftrightarrow>
     (let token = cfg_str S config ''token'' ''''; alg = cfg_str S config ''algorithm'' ''''; secret = cfg_str S config ''secret'' '''' in
      \<exists>bytes. jx_known J alg \<and> alg \<noteq> ''none'' \<and> jx_symmetric J alg
        \<and> (if cfg_str S config ''mode'' '''' = ''plain-secret'' then bytes = secret else jx_b64url J secret = Inr bytes)
        \<and> jx_verify J alg (jx_secret J bytes) token)"

definition key_grounds :: "'t step_env \<Rightarrow> ('j, 'k, 'v, 'h, 'w) jwt_lib \<Rightarrow> 't \<Rightarrow> DefaultMap \<Rightarrow> 'j list \<Rightarrow> bool" where
  "key_grounds S J config header keys \<longleftrightarrow>
     (let token = cfg_str S config ''token'' ''''; configured = cfg_str S config ''algorithm'' ''''; kid = token_kid S header in
      \<exists>key alg raw. key \<in> set keys \<and> (kid \<noteq> '''' \<longrightarrow> jwkString S J key ''kid'' = kid) \<and> (1 < length keys \<longrightarrow> kid \<noteq> '''')
        \<and> jx_known J alg \<and> alg \<noteq> ''none'' \<and> (configured \<noteq> '''' \<longrightarrow> alg = configured)
        \<and> (jwkString S J key ''alg'' \<noteq> '''' \<longrightarrow> alg = jwkString S J key ''alg'')
        \<and> jx_raw J key = Inr raw \<and> jx_verify J alg raw token)"

definition remote_grounds :: "'t step_env \<Rightarrow> ('t, 'v, 'n, 'u) proxy_env \<Rightarrow> ('j, 'k, 'v, 'h, 'w) jwt_lib \<Rightarrow> 't \<Rightarrow> DefaultMap \<Rightarrow> bool" where
  "remote_grounds S X J config payload \<longleftrightarrow>
     (let token = cfg_str S config ''token'' ''''; endpoint = cfg_str S config ''endpoint'' ''''; send = requestHTTP (transactionHTTPClientInstance X '''') in
      \<exists>reply. 200 \<le> ry_Status reply \<and> ry_Status reply < 300 \<and> jx_json J (ry_Body reply) = Inr payload
        \<and> (if cfg_str S config ''mode'' '''' = ''introspection''
           then send ''POST'' endpoint [(''Authorization'', ''Bearer '' @ token), (''Accept'', ''application/json''),
                  (''Content-Type'', ''application/x-www-form-urlencoded'')] (''token='' @ QueryEscape token) = Inr reply
                \<and> gm_get payload ''active'' = Some (GBool True)
           else send ''GET'' endpoint [(''Authorization'', ''Bearer '' @ token), (''Accept'', ''application/json'')] '''' = Inr reply))"

lemma verify_secret_grounds:
  assumes "verifyJWTSecret J (cfg_str S config ''token'' '''') (cfg_str S config ''mode'' '''') (cfg_str S config ''secret'' '''')
      (cfg_str S config ''algorithm'' '''') = Inr u"
  shows "secret_grounds S J config"
  using assms
  by (auto simp: verifyJWTSecret_def secret_grounds_def Let_def bind_res_Inr_iff symmetric_algorithm_Inr split: if_splits)

lemma select_key:
  assumes "selectJWTJWK S J header keys = Inr key"
    and "\<And>kid k. jx_lookup J keys kid = Some k \<Longrightarrow> k \<in> set keys \<and> jwkString S J k ''kid'' = kid"
  shows "key \<in> set keys" "token_kid S header \<noteq> '''' \<Longrightarrow> jwkString S J key ''kid'' = token_kid S header"
    "1 < length keys \<Longrightarrow> token_kid S header \<noteq> ''''"
  using assms by (auto simp: selectJWTJWK_def Let_def split: list.splits if_splits option.splits)

lemma verifier_algorithm:
  assumes "jwkVerifierAlgorithm S J key configured = Inr alg"
  shows "jx_known J alg" "alg \<noteq> ''none''" "configured \<noteq> '''' \<Longrightarrow> alg = configured"
    "jwkString S J key ''alg'' \<noteq> '''' \<Longrightarrow> alg = jwkString S J key ''alg''"
  using assms by (auto simp: jwkVerifierAlgorithm_def Let_def bind_res_Inr_iff signature_algorithm_Inr split: if_splits)

lemma verify_key_grounds:
  assumes v: "verifyJWTJWK S J (cfg_str S config ''token'' '''') header keys (cfg_str S config ''algorithm'' '''') = Inr u"
    and l: "\<And>kid k. jx_lookup J keys kid = Some k \<Longrightarrow> k \<in> set keys \<and> jwkString S J k ''kid'' = kid"
  shows "key_grounds S J config header keys"
proof -
  from v obtain key alg raw where s: "selectJWTJWK S J header keys = Inr key"
    and a: "jwkVerifierAlgorithm S J key (cfg_str S config ''algorithm'' '''') = Inr alg"
    and r: "jx_raw J key = Inr raw" "jx_verify J alg raw (cfg_str S config ''token'' '''')"
    by (auto simp: verifyJWTJWK_def bind_res_Inr_iff split: if_splits)
  show ?thesis
    unfolding key_grounds_def Let_def
    using select_key [OF s l] verifier_algorithm [OF a] r by blast
qed

lemma encode_token: "Values_Encode [(''token'', [t])] = ''token='' @ QueryEscape t"
  by (simp add: Values_Encode_def QueryEscape_def escape_char_def values_of_def Let_def)


lemma verify_remote_grounds:
  assumes "verifyRemote S X J config (cfg_str S config ''mode'' '''') (cfg_str S config ''token'' '''') = Inr payload"
    and "cfg_str S config ''mode'' '''' = ''introspection'' \<Longrightarrow> gm_get payload ''active'' = Some (GBool True)"
  shows "remote_grounds S X J config payload"
  using assms
  by (auto simp: verifyRemote_def remote_grounds_def status_ok_def Let_def encode_token not_less
      intro!: exI split: if_splits sum.splits)

lemma times_valid:
  assumes "validateJWTTimes payload iat exp now"
  shows "iat \<Longrightarrow> gm_get payload ''iat'' = Some v \<Longrightarrow> \<exists>f. v = GFloat f \<and> \<not> f64_less (f64_of_int (now div 1000000000)) f"
    "exp \<Longrightarrow> gm_get payload ''exp'' = Some v \<Longrightarrow> \<exists>f. v = GFloat f \<and> \<not> f64_le f (f64_of_int (now div 1000000000))"
  using assms by (cases v; simp add: validateJWTTimes_def Let_def)+

lemma verify_jwt_cases:
  assumes "VerifyJWT S X J now config tx w = (w', tx', ''valid'')"
  obtains header payload0 sig payload where
    "decodeJWT J (cfg_str S config ''token'' '''') = Inr (header, payload0, sig)"
    "check_signature S X J config (cfg_str S config ''mode'' '''') (cfg_str S config ''token'' '''') header payload0 w = (w', Some (Inr payload))"
    "validateJWTTimes payload (get_bool_or (sp_tree S) config ''validate_iat'' True) (get_bool_or (sp_tree S) config ''validate_exp'' True) now"
    "claimsEqual S payload (tm_get (sp_tree S) config ''required_claims'')"
    "cfg_str S config ''mode'' '''' = ''introspection'' \<longrightarrow> gm_get payload ''active'' = Some (GBool True)"
    "if cfg_str S config ''output'' '''' = '''' then tx' = tx
     else \<exists>tx1 k. named_ctx S (cfg_str S config ''context'' ''ctx'') tx = (tx1, Some k) \<and>
       tx' = ctx_set S k (cfg_str S config ''output'' '''') (GObj [(''header'', GObj header), (''payload'', GObj payload), (''signature'', GStr sig)]) tx1"
  using assms unfolding VerifyJWT_def Let_def
  by (auto split: sum.splits prod.splits option.splits if_splits)


lemma signature_grounds:
  assumes c: "check_signature S X J config (cfg_str S config ''mode'' '''') (cfg_str S config ''token'' '''') header payload0 w = (w', Some (Inr payload))"
    and l: "\<And>keys kid k. jx_lookup J keys kid = Some k \<Longrightarrow> k \<in> set keys \<and> jwkString S J k ''kid'' = kid"
    and a: "cfg_str S config ''mode'' '''' = ''introspection'' \<Longrightarrow> gm_get payload ''active'' = Some (GBool True)"
  shows "let mode = cfg_str S config ''mode'' '''' in
       mode \<in> {''plain-secret'', ''base64url-secret''} \<and> payload = payload0 \<and> secret_grounds S J config
       \<or> mode = ''jwk'' \<and> payload = payload0 \<and> (\<exists>keys. snd (jwkSet S X J config w) = Inr keys \<and> key_grounds S J config header keys)
       \<or> mode \<in> {''introspection'', ''userinfo''} \<and> remote_grounds S X J config payload"
proof -
  let ?mode = "cfg_str S config ''mode'' ''''"
  from c consider "?mode \<in> {''plain-secret'', ''base64url-secret''}" | "?mode = ''jwk''" | "?mode \<in> {''introspection'', ''userinfo''}"
    by (auto simp: check_signature_def split: if_splits)
  then show ?thesis
  proof cases
    case 1
    with c obtain u where p: "payload = payload0" and u: "verifyJWTSecret J (cfg_str S config ''token'' '''') ?mode (cfg_str S config ''secret'' '''')
        (cfg_str S config ''algorithm'' '''') = Inr u" by (auto simp: check_signature_def bind_res_Inr_iff)
    show ?thesis using 1 p verify_secret_grounds [OF u] unfolding Let_def by blast
  next
    case 2
    with c obtain keys u where p: "payload = payload0" and k: "snd (jwkSet S X J config w) = Inr keys"
      and u: "verifyJWTJWK S J (cfg_str S config ''token'' '''') header keys (cfg_str S config ''algorithm'' '''') = Inr u"
      by (auto simp: check_signature_def bind_res_Inr_iff split: prod.splits sum.splits)
    show ?thesis using 2 p k verify_key_grounds [OF u l] by (simp add: Let_def)
  next
    case 3
    then have u: "verifyRemote S X J config ?mode (cfg_str S config ''token'' '''') = Inr payload" using c by (auto simp: check_signature_def)
    show ?thesis using 3 verify_remote_grounds [OF u a] by (simp add: Let_def)
  qed
qed

subsection \<open>Seconds as doubles\<close>

lemma bit_len_bounds: "n \<noteq> 0 \<Longrightarrow> 2 ^ (bit_len n - 1) \<le> n \<and> n < 2 ^ bit_len n \<and> 0 < bit_len n"
proof (induction n rule: bit_len.induct)
  case (1 n)
  show ?case
  proof (cases "n div 2 = 0")
    case True
    with 1(2) have "n = 1" by auto
    then show ?thesis by (simp add: bit_len.simps)
  next
    case False
    from 1(1) [OF 1(2) False] have b: "2 ^ (bit_len (n div 2) - 1) \<le> n div 2" "n div 2 < 2 ^ bit_len (n div 2)" "0 < bit_len (n div 2)"
      by auto
    have l: "bit_len n = Suc (bit_len (n div 2))" using 1(2) by (simp add: bit_len.simps)
    have "2 ^ bit_len (n div 2) = 2 * (2::nat) ^ (bit_len (n div 2) - 1)" using b(3) by (cases "bit_len (n div 2)") auto
    then have "2 ^ bit_len (n div 2) \<le> n" using b(1) by linarith
    moreover have "n < 2 ^ Suc (bit_len (n div 2))" using b(2) by simp
    ultimately show ?thesis by (simp add: l)
  qed
qed

text \<open>The bits of a double for an integer below \<open>2 ^ 53\<close>, which needs no rounding.\<close>

definition small_bits :: "nat \<Rightarrow> nat" where
  "small_bits a = (if a = 0 then 0 else (bit_len a - 1 + 1023) * 2 ^ 52 + (a * 2 ^ (52 - (bit_len a - 1)) - 2 ^ 52))"

lemma small_exponent:
  assumes "a \<noteq> 0" "a < 2 ^ 53"
  shows "bit_len a - 1 \<le> 52" "2 ^ 52 \<le> a * 2 ^ (52 - (bit_len a - 1))" "a * 2 ^ (52 - (bit_len a - 1)) < 2 ^ 53"
proof -
  define e where "e = bit_len a - 1"
  have b: "2 ^ e \<le> a" "a < 2 ^ Suc e" using bit_len_bounds [OF assms(1)] by (auto simp: e_def)
  then have "(2::nat) ^ e < 2 ^ 53" using assms(2) by linarith
  then show e: "bit_len a - 1 \<le> 52" using power_less_imp_less_exp [of "2::nat" e 53] by (simp add: e_def)
  have p: "(2::nat) ^ e * 2 ^ (52 - e) = 2 ^ 52" "(2::nat) ^ Suc e * 2 ^ (52 - e) = 2 ^ 53"
    using e by (simp_all add: e_def flip: power_add)
  show "2 ^ 52 \<le> a * 2 ^ (52 - (bit_len a - 1))" using mult_le_mono1 [OF b(1), of "2 ^ (52 - e)"] by (simp only: p flip: e_def)
  show "a * 2 ^ (52 - (bit_len a - 1)) < 2 ^ 53"
    using mult_strict_right_mono [OF b(2), of "2 ^ (52 - e)"] by (simp only: p flip: e_def) simp
qed

lemma small_bits_bounds:
  assumes "a < 2 ^ 53" shows "small_bits a < 1076 * 2 ^ 52"
proof (cases "a = 0")
  case False
  have "bit_len a - 1 + 1023 \<le> 1075" using small_exponent(1) [OF False assms] by linarith
  then have "(bit_len a - 1 + 1023) * 2 ^ 52 \<le> 1075 * 2 ^ 52" by (rule mult_le_mono1)
  then show ?thesis using small_exponent(3) [OF False assms] False by (simp add: small_bits_def)
qed (simp add: small_bits_def)

lemma small_bits_mono:
  assumes "a < b" "b < 2 ^ 53"
  shows "small_bits a < small_bits b"
proof (cases "a = 0")
  case True
  then show ?thesis using assms(1) by (simp add: small_bits_def)
next
  case False
  define e e' where "e = bit_len a - 1" "e' = bit_len b - 1"
  note a = small_exponent [OF False less_trans [OF assms]]
  have b0: "b \<noteq> 0" using assms(1) by simp
  note b = small_exponent [OF b0 assms(2)]
  have "\<not> e' < e"
  proof
    assume l: "e' < e"
    have "b < 2 ^ Suc e'" using bit_len_bounds [OF b0] by (simp add: e_e'_def)
    also have "(2::nat) ^ Suc e' \<le> 2 ^ e" using l by (intro power_increasing) auto
    also have "\<dots> \<le> a" using bit_len_bounds [OF False] by (simp add: e_e'_def)
    finally show False using assms(1) by simp
  qed
  then consider "e = e'" | "Suc e \<le> e'" by linarith
  then show ?thesis
  proof cases
    case 1
    then have "a * 2 ^ (52 - e) < b * 2 ^ (52 - e')" using assms(1) by simp
    then show ?thesis using 1 a(2) b(2) False b0 by (simp add: small_bits_def e_e'_def)
  next
    case 2
    have "small_bits a < Suc e * 2 ^ 52 + 1023 * 2 ^ 52" using a(2,3) False by (simp add: small_bits_def e_e'_def algebra_simps)
    also have "\<dots> \<le> e' * 2 ^ 52 + 1023 * 2 ^ 52" using 2 by (intro add_right_mono mult_le_mono1)
    also have "\<dots> \<le> small_bits b" using b0 by (simp add: small_bits_def e_e'_def algebra_simps)
    finally show ?thesis .
  qed
qed

lemma f64_of_small:
  assumes "0 \<le> i" "i < 2 ^ 53"
  shows "f64_key (f64_of_int i) = int (small_bits (nat i))" "\<not> f64_nan (f64_of_int i)"
proof -
  have lt: "nat i < 2 ^ 53" using assms by simp
  have e: "i \<noteq> 0 \<Longrightarrow> bit_len (nat i) - 1 \<le> 52" using small_exponent(1) [OF _ lt] assms(1) by simp
  have f: "f64_of_int i = word_of_nat (small_bits (nat i))"
    using assms(1) e by (simp add: f64_of_int_def small_bits_def Let_def)
  have "small_bits (nat i) < 2 ^ 63" using small_bits_bounds [OF lt] by simp
  then have u: "unat (f64_of_int i) = small_bits (nat i)" "small_bits (nat i) mod 2 ^ 63 = small_bits (nat i)"
    by (simp_all add: f unat_of_nat take_bit_eq_mod)
  show "f64_key (f64_of_int i) = int (small_bits (nat i))"
    using \<open>small_bits (nat i) < 2 ^ 63\<close> u by (simp add: f64_key_def f64_neg_def f64_mag_def)
  have "small_bits (nat i) div 2 ^ 52 < 1076" using small_bits_bounds [OF lt] by (simp add: less_mult_imp_div_less)
  then have "f64_exp (f64_of_int i) \<noteq> 2047" by (simp add: f64_exp_def u)
  then show "\<not> f64_nan (f64_of_int i)" by (simp add: f64_nan_def)
qed

lemma f64_small_order:
  assumes "0 \<le> i" "i < 2 ^ 53" "0 \<le> j" "j < 2 ^ 53"
  shows "f64_less (f64_of_int i) (f64_of_int j) \<longleftrightarrow> i < j" "f64_le (f64_of_int i) (f64_of_int j) \<longleftrightarrow> i \<le> j"
proof -
  have m: "small_bits (nat i) < small_bits (nat j) \<longleftrightarrow> i < j" if "0 \<le> i" "i < 2 ^ 53" "0 \<le> j" "j < 2 ^ 53" for i j
  proof -
    have "nat i < 2 ^ 53" "nat j < 2 ^ 53" using that by simp_all
    then show ?thesis
      using small_bits_mono [of "nat i" "nat j"] small_bits_mono [of "nat j" "nat i"] that
      by (cases i j rule: linorder_cases) (auto simp del: power_numeral)
  qed
  show "f64_less (f64_of_int i) (f64_of_int j) \<longleftrightarrow> i < j" "f64_le (f64_of_int i) (f64_of_int j) \<longleftrightarrow> i \<le> j"
    using f64_of_small [OF assms(1,2)] f64_of_small [OF assms(3,4)] m [OF assms] m [OF assms(3,4,1,2)]
    by (auto simp: f64_less_def f64_le_def not_less [symmetric])
qed


subsection \<open>The signing library\<close>

text \<open>
  What the round trip relies on of \<^verbatim>\<open>jwx\<close>: a token signed with a key verifies with it; it is compact, and its
  first two parts decode to the headers and the claims; a time claim is stored in whole seconds and leaves
  the other claims alone.
\<close>

locale jwt_library =
  fixes J :: "('j, 'k, 'v, 'h, 'w) jwt_lib"
    and header_of :: "string \<Rightarrow> DefaultMap \<Rightarrow> DefaultMap"
    and payload_of :: "bool \<Rightarrow> DefaultMap \<Rightarrow> DefaultMap"
  assumes sign_verifies: "jx_sign J alg k h fl c = Inr t \<Longrightarrow> jx_verify J alg k t"
    and sign_compact: "jx_sign J alg k h fl c = Inr t \<Longrightarrow> \<exists>a b s. t = a @ ''.'' @ b @ ''.'' @ s \<and> s \<noteq> ''''
      \<and> CHR ''.'' \<notin> set (a @ b @ s) \<and> decode_part J a = Inr (header_of alg h) \<and> decode_part J b = Inr (payload_of fl c)"
    and time_stored: "jx_set_time J n time c = Inr c' \<Longrightarrow> n \<in> {''iat'', ''exp''} \<Longrightarrow>
      gm_get (payload_of fl c') n = Some (GFloat (f64_of_int (time div 1000000000)))"
    and time_other: "jx_set_time J n time c = Inr c' \<Longrightarrow> n' \<noteq> n \<Longrightarrow> gm_get (payload_of fl c') n' = gm_get (payload_of fl c) n'"
begin

lemma sign_decodes:
  assumes "jx_sign J alg k h fl c = Inr t"
  obtains s where "decodeJWT J t = Inr (header_of alg h, payload_of fl c, s)"
proof -
  from sign_compact [OF assms] obtain a b s where t: "t = a @ ''.'' @ b @ ''.'' @ s" and s: "s \<noteq> ''''"
    and d: "CHR ''.'' \<notin> set a" "CHR ''.'' \<notin> set b" "CHR ''.'' \<notin> set s"
    and p: "decode_part J a = Inr (header_of alg h)" "decode_part J b = Inr (payload_of fl c)" by auto
  have "Split t (CHR ''.'') = [a, b, s]"
    using d by (simp add: t Split_append Split_no_sep)
  then show thesis using s p by (intro that [of s]) (simp add: decodeJWT_def)
qed

lemma token_times:
  assumes "buildSignJWTToken S J uuid now config = Inr (fl, token)"
    and "get_bool_or (sp_tree S) config ''set_iat'' True" "0 < get_int_or (sp_tree S) config ''expires_in_seconds'' 0"
  shows "gm_get (payload_of fl token) ''iat'' = Some (GFloat (f64_of_int (now div 1000000000)))"
    "gm_get (payload_of fl token) ''exp'' = Some (GFloat (f64_of_int ((now + seconds (get_int_or (sp_tree S) config ''expires_in_seconds'' 0)) div 1000000000)))"
proof -
  from assms obtain t4 t5 where "jx_set_time J ''iat'' now t4 = Inr t5"
    "jx_set_time J ''exp'' (now + seconds (get_int_or (sp_tree S) config ''expires_in_seconds'' 0)) t5 = Inr token"
    by (auto simp: buildSignJWTToken_def Let_def bind_res_Inr_iff set_if_def split: option.splits)
  note t = this
  show "gm_get (payload_of fl token) ''iat'' = Some (GFloat (f64_of_int (now div 1000000000)))"
    using time_other [OF t(2), of "''iat''"] time_stored [OF t(1)] by simp
  show "gm_get (payload_of fl token) ''exp'' = Some (GFloat (f64_of_int ((now + seconds (get_int_or (sp_tree S) config ''expires_in_seconds'' 0)) div 1000000000)))"
    using time_stored [OF t(2)] by simp
qed

end


lemma sign_parts:
  assumes "signJWTCompactFromConfig S J uuid now config = Inr token"
  obtains fl claims alg key headers where "buildSignJWTToken S J uuid now config = Inr (fl, claims)"
    "signJWTKey S J config = Inr (alg, key)" "jx_sign J alg key headers fl claims = Inr token"
  using assms by (auto simp: signJWTCompactFromConfig_def bind_res_Inr_iff)

lemma secret_key:
  assumes "signJWTKey S J config = Inr (alg, key)"
    and "cfg_str S config ''key.type'' '''' = mode" "mode = ''plain-secret'' \<or> mode = ''base64url-secret''"
    and "get_any_or (sp_tree S) config ''key.value'' GNil = GStr secret" "tc_sprint (sp_text S) (GStr secret) = secret"
    and "jx_verify J alg key token"
  shows "verifyJWTSecret J token mode secret (cfg_str S config ''algorithm'' '''') = Inr ()"
  using assms
  by (auto simp: signJWTKey_def Let_def bind_res_Inr_iff signature_algorithm_Inr symmetric_algorithm_Inr verifyJWTSecret_def signJWTSecretBytes_def
      split: if_splits)

lemma seconds_small: "0 < n \<Longrightarrow> n \<le> 9223372036 \<Longrightarrow> seconds n = n * 1000000000"
  by (simp add: seconds_def second_def wrap64_id in_int64_def)

lemma valid_until:
  assumes p: "gm_get payload ''iat'' = Some (GFloat (f64_of_int (t div 1000000000)))"
      "gm_get payload ''exp'' = Some (GFloat (f64_of_int ((t + n * 1000000000) div 1000000000)))"
    and b: "0 \<le> t" "t \<le> now" "now < 2 ^ 63" "0 < n" "n \<le> 9223372036"
  shows "validateJWTTimes payload iat True now \<longleftrightarrow> now div 1000000000 < t div 1000000000 + n"
proof -
  define u v where "u = t div 1000000000" "v = now div 1000000000"
  have "u \<le> v" using b(2) by (simp add: u_v_def zdiv_mono1)
  moreover have "0 \<le> u" "v < 2 ^ 52" using b(1,3) by (simp_all add: u_v_def)
  ultimately have r: "0 \<le> u" "u < 2 ^ 53" "0 \<le> v" "v < 2 ^ 53" "0 \<le> u + n" "u + n < 2 ^ 53" "\<not> v < u" using b(4,5) by simp_all
  have "(t + n * 1000000000) div 1000000000 = u + n" by (simp add: u_v_def)
  then show ?thesis
    using p f64_small_order(1) [OF r(3,4,1,2)] f64_small_order(2) [OF r(5,6,3,4)] r(7)
    by (simp add: validateJWTTimes_def Let_def not_le ac_simps flip: u_v_def)
qed

text \<open>C19: The step \<open>SignJWT\<close> and the step \<open>VerifyJWT\<close> agree. A token that was signed with a plain or base64url secret
  at the time \<open>signed_at\<close>, with an issue time and a life of \<open>n\<close> seconds, and that is verified with the same
  mode, secret and algorithm, is valid until \<open>n\<close> seconds have passed and invalid from then on.\<close>

theorem sign_verify_roundtrip:
  assumes lib: "jwt_library J header_of payload_of"
    and s: "signJWTCompactFromConfig S J uuid signed_at sc = Inr token"
    and key: "cfg_str S sc ''key.type'' '''' = mode" "mode = ''plain-secret'' \<or> mode = ''base64url-secret''"
      "get_any_or (sp_tree S) sc ''key.value'' GNil = GStr secret" "tc_sprint (sp_text S) (GStr secret) = secret"
    and iat: "get_bool_or (sp_tree S) sc ''set_iat'' True"
    and n: "get_int_or (sp_tree S) sc ''expires_in_seconds'' 0 = n" "0 < n" "n \<le> 9223372036"
    and v: "cfg_str S vc ''token'' '''' = token" "cfg_str S vc ''mode'' '''' = mode" "cfg_str S vc ''secret'' '''' = secret"
      "cfg_str S vc ''algorithm'' '''' = cfg_str S sc ''algorithm'' ''''" "get_bool_or (sp_tree S) vc ''validate_exp'' True"
      "tm_as_map (sp_tree S) (tm_get (sp_tree S) vc ''required_claims'') = None" "cfg_str S vc ''output'' '''' = ''''"
    and t: "0 \<le> signed_at" "signed_at \<le> now" "now < 2 ^ 63"
  shows "VerifyJWT S X J now vc tx w = (w, tx, if now div 1000000000 < signed_at div 1000000000 + n then ''valid'' else ''invalid'')"
proof -
  note L = jwt_library.sign_verifies [OF lib] jwt_library.sign_decodes [OF lib] jwt_library.token_times [OF lib]
  from s obtain fl claims alg k headers where b: "buildSignJWTToken S J uuid signed_at sc = Inr (fl, claims)"
    and k: "signJWTKey S J sc = Inr (alg, k)" and j: "jx_sign J alg k headers fl claims = Inr token" by (rule sign_parts)
  from j obtain sig where d: "decodeJWT J token = Inr (header_of alg headers, payload_of fl claims, sig)" by (rule L(2))
  have x: "verifyJWTSecret J token mode secret (cfg_str S sc ''algorithm'' '''') = Inr ()"
    by (rule secret_key [OF k key]) (rule L(1) [OF j])
  have "validateJWTTimes (payload_of fl claims) iat True now \<longleftrightarrow> now div 1000000000 < signed_at div 1000000000 + n" for iat
    using L(3,4) [OF b iat] n t by (intro valid_until) (simp_all add: seconds_small)
  then show ?thesis
    using key(2) v x d by (auto simp: VerifyJWT_def Let_def check_signature_def claimsEqual_def)
qed


text \<open>C9: The step \<open>VerifyJWT\<close> follows the outcome \<open>valid\<close> only for a compact token with grounds of the configured mode: a
  symmetric signature under the secret, a signature under the right key of the set, or a successful answer of
  the endpoint (for introspection, one that says the token is active). The payload then has the required
  claims, was not issued in the future and has not expired, as far as these are validated and present, and
  it is what is stored; nothing else of the transaction changes.\<close>

theorem verify_jwt_sound:
  assumes v: "VerifyJWT S X J now config tx w = (w', tx', ''valid'')"
    and l: "\<And>keys kid k. jx_lookup J keys kid = Some k \<Longrightarrow> k \<in> set keys \<and> jwkString S J k ''kid'' = kid"
  shows "\<exists>header payload0 sig payload. decodeJWT J (cfg_str S config ''token'' '''') = Inr (header, payload0, sig)
    \<and> (let mode = cfg_str S config ''mode'' '''' in
       mode \<in> {''plain-secret'', ''base64url-secret''} \<and> payload = payload0 \<and> secret_grounds S J config
       \<or> mode = ''jwk'' \<and> payload = payload0 \<and> (\<exists>keys. snd (jwkSet S X J config w) = Inr keys \<and> key_grounds S J config header keys)
       \<or> mode \<in> {''introspection'', ''userinfo''} \<and> remote_grounds S X J config payload)
    \<and> (get_bool_or (sp_tree S) config ''validate_iat'' True \<longrightarrow>
        (\<forall>v. gm_get payload ''iat'' = Some v \<longrightarrow> (\<exists>f. v = GFloat f \<and> \<not> f64_less (f64_of_int (now div 1000000000)) f)))
    \<and> (get_bool_or (sp_tree S) config ''validate_exp'' True \<longrightarrow>
        (\<forall>v. gm_get payload ''exp'' = Some v \<longrightarrow> (\<exists>f. v = GFloat f \<and> \<not> f64_le f (f64_of_int (now div 1000000000)))))
    \<and> (\<forall>required. tm_as_map (sp_tree S) (tm_get (sp_tree S) config ''required_claims'') = Some required \<longrightarrow>
        (\<forall>(claim, expected) \<in> set required. deep_equal (get_any_or (sp_tree S) (tm_new (sp_tree S) (GObj payload)) claim GNil) expected))
    \<and> (if cfg_str S config ''output'' '''' = '''' then tx' = tx
       else \<exists>tx1 k. named_ctx S (cfg_str S config ''context'' ''ctx'') tx = (tx1, Some k) \<and>
         tx' = ctx_set S k (cfg_str S config ''output'' '''') (GObj [(''header'', GObj header), (''payload'', GObj payload), (''signature'', GStr sig)]) tx1)"
proof -
  from v obtain header payload0 sig payload where d: "decodeJWT J (cfg_str S config ''token'' '''') = Inr (header, payload0, sig)"
    and c: "check_signature S X J config (cfg_str S config ''mode'' '''') (cfg_str S config ''token'' '''') header payload0 w = (w', Some (Inr payload))"
    and t: "validateJWTTimes payload (get_bool_or (sp_tree S) config ''validate_iat'' True) (get_bool_or (sp_tree S) config ''validate_exp'' True) now"
    and q: "claimsEqual S payload (tm_get (sp_tree S) config ''required_claims'')"
    and a: "cfg_str S config ''mode'' '''' = ''introspection'' \<longrightarrow> gm_get payload ''active'' = Some (GBool True)"
    and o: "if cfg_str S config ''output'' '''' = '''' then tx' = tx
       else \<exists>tx1 k. named_ctx S (cfg_str S config ''context'' ''ctx'') tx = (tx1, Some k) \<and>
         tx' = ctx_set S k (cfg_str S config ''output'' '''') (GObj [(''header'', GObj header), (''payload'', GObj payload), (''signature'', GStr sig)]) tx1"
    by (rule verify_jwt_cases)
  have g: "let mode = cfg_str S config ''mode'' '''' in
       mode \<in> {''plain-secret'', ''base64url-secret''} \<and> payload = payload0 \<and> secret_grounds S J config
       \<or> mode = ''jwk'' \<and> payload = payload0 \<and> (\<exists>keys. snd (jwkSet S X J config w) = Inr keys \<and> key_grounds S J config header keys)
       \<or> mode \<in> {''introspection'', ''userinfo''} \<and> remote_grounds S X J config payload"
    by (rule signature_grounds [OF c l mp [OF a]])
  have r: "\<forall>required. tm_as_map (sp_tree S) (tm_get (sp_tree S) config ''required_claims'') = Some required \<longrightarrow>
        (\<forall>(claim, expected) \<in> set required. deep_equal (get_any_or (sp_tree S) (tm_new (sp_tree S) (GObj payload)) claim GNil) expected)"
    using q by (auto simp: claimsEqual_def Let_def list_all_iff)
  show ?thesis
    by (intro exI [of _ header] exI [of _ payload0] exI [of _ sig] exI [of _ payload] conjI impI allI d g o
        times_valid(1) [OF t] times_valid(2) [OF t]) (use r in blast)+
qed


subsection \<open>A sample library\<close>

text \<open>One token, signed with one key; the times are stored in seconds.\<close>

definition sample_claims :: DefaultMap where
  "sample_claims = [(''sub'', GStr ''ada''), (''iat'', GFloat (f64_of_int 100)), (''exp'', GFloat (f64_of_int 160))]"

definition sample_header :: DefaultMap where
  "sample_header = [(''typ'', GStr ''JWT'')]"

definition sample_jwt :: "(unit, string, unit, unit, unit) jwt_lib" where
  "sample_jwt = \<lparr>jx_known = (\<lambda>a. a = ''HS256''), jx_symmetric = (\<lambda>a. a = ''HS256''), jx_secret = (\<lambda>s. s),
     jx_verify = (\<lambda>a k t. a = ''HS256'' \<and> k = ''key'' \<and> t = ''h.p.s''),
     jx_sign = (\<lambda>a k h fl c. if a = ''HS256'' \<and> k = ''key'' \<and> h = sample_header \<and> c = sample_claims then Inr ''h.p.s'' else Inl (ErrText ''no'')),
     jx_parse_set = (\<lambda>s. Inr []), jx_parse_key = (\<lambda>b s. Inr ()), jx_field = (\<lambda>j f. None), jx_raw = (\<lambda>j. Inr ''''), jx_lookup = (\<lambda>js k. None),
     jx_set_claim = (\<lambda>n v c. Inr (gm_put n v c)), jx_set_time = (\<lambda>n t c. Inr (gm_put n (GFloat (f64_of_int (t div 1000000000))) c)),
     jx_set_header = (\<lambda>n v h. Inr (gm_put n v h)), jx_rawurl = Some, jx_b64url = Inr,
     jx_json = (\<lambda>s. if s = ''h'' then Inr sample_header else if s = ''p'' then Inr sample_claims else Inl (ErrText ''json'')),
     jx_cache = (\<lambda>v. None), jx_external = None, jx_get = (\<lambda>h w u. None), jx_put = (\<lambda>h u d w. (w, None))\<rparr>"

interpretation sample: jwt_library sample_jwt "\<lambda>a h. h" "\<lambda>fl c. c"
proof
  fix alg k h fl c t
  assume "jx_sign sample_jwt alg k h fl c = Inr t"
  then have t: "alg = ''HS256''" "k = ''key''" "h = sample_header" "c = sample_claims" "t = ''h.p.s''"
    by (auto simp: sample_jwt_def split: if_splits)
  then show "jx_verify sample_jwt alg k t" by (simp add: sample_jwt_def)
  show "\<exists>a b s. t = a @ ''.'' @ b @ ''.'' @ s \<and> s \<noteq> '''' \<and> CHR ''.'' \<notin> set (a @ b @ s) \<and>
      decode_part sample_jwt a = Inr h \<and> decode_part sample_jwt b = Inr c"
    unfolding t by (rule exI [of _ "''h''"], rule exI [of _ "''p''"], rule exI [of _ "''s''"]) (simp add: decode_part_def sample_jwt_def)
qed (auto simp: sample_jwt_def)

definition sign_cfg :: gval where
  "sign_cfg = GObj [(''algorithm'', GStr ''HS256''), (''key'', GObj [(''type'', GStr ''plain-secret''), (''value'', GStr ''key'')]),
     (''claims'', GObj [(''sub'', GStr ''ada'')]), (''expires_in_seconds'', GInt 60)]"

definition verify_cfg :: gval where
  "verify_cfg = GObj [(''token'', GStr ''h.p.s''), (''mode'', GStr ''plain-secret''), (''secret'', GStr ''key''), (''algorithm'', GStr ''HS256'')]"

definition no_proxy :: "(gval, unit, unit, string) proxy_env" where
  "no_proxy = \<lparr>px_url = plain_url, px_media = (\<lambda>s. (s, [])), px_policies = [], px_manager = None, px_context = True,
     px_table = (\<lambda>v. None), px_client = (\<lambda>v. None), px_Client = None\<rparr>"

lemmas sample_simps = cfg_str_def flow_env_def ref_tree_def sample_jwt_def get_or_defs rt_path_def Split.simps plain_text_def Let_def

lemma sample_signed: "signJWTCompactFromConfig flow_env sample_jwt ''u'' 100000000000 sign_cfg = Inr ''h.p.s''"
proof -
  have b: "buildSignJWTToken flow_env sample_jwt ''u'' 100000000000 sign_cfg = Inr (False, sample_claims)"
    by (simp add: buildSignJWTToken_def set_if_def sign_cfg_def sample_claims_def seconds_small sample_simps)
  have k: "signJWTKey flow_env sample_jwt sign_cfg = Inr (''HS256'', ''key'')" by code_simp
  have h: "signJWTHeaders flow_env sample_jwt sign_cfg = Inr sample_header" by code_simp
  show ?thesis by (simp add: signJWTCompactFromConfig_def b k h) (simp add: sample_jwt_def)
qed

theorem sign_verify_roundtrip_witness:
  "VerifyJWT flow_env no_proxy sample_jwt 159000000000 verify_cfg (flow_tx [] zero_state) () = ((), flow_tx [] zero_state, ''valid'')
    \<and> VerifyJWT flow_env no_proxy sample_jwt 160000000000 verify_cfg (flow_tx [] zero_state) () = ((), flow_tx [] zero_state, ''invalid'')"
proof -
  have c: "cfg_str flow_env sign_cfg ''key.type'' '''' = ''plain-secret''" "get_any_or (sp_tree flow_env) sign_cfg ''key.value'' GNil = GStr ''key''"
    "tc_sprint (sp_text flow_env) (GStr ''key'') = ''key''" "get_bool_or (sp_tree flow_env) sign_cfg ''set_iat'' True"
    "get_int_or (sp_tree flow_env) sign_cfg ''expires_in_seconds'' 0 = 60" "cfg_str flow_env verify_cfg ''token'' '''' = ''h.p.s''"
    "cfg_str flow_env verify_cfg ''mode'' '''' = ''plain-secret''" "cfg_str flow_env verify_cfg ''secret'' '''' = ''key''"
    "cfg_str flow_env verify_cfg ''algorithm'' '''' = cfg_str flow_env sign_cfg ''algorithm'' ''''"
    "get_bool_or (sp_tree flow_env) verify_cfg ''validate_exp'' True"
    "tm_as_map (sp_tree flow_env) (tm_get (sp_tree flow_env) verify_cfg ''required_claims'') = None"
    "cfg_str flow_env verify_cfg ''output'' '''' = ''''"
    by code_simp+
  show ?thesis
    using sign_verify_roundtrip [OF sample.jwt_library_axioms sample_signed c(1) disjI1 [OF refl] c(2-5) _ _ c(6-12), of 159000000000 no_proxy "flow_tx [] zero_state" "()"]
      sign_verify_roundtrip [OF sample.jwt_library_axioms sample_signed c(1) disjI1 [OF refl] c(2-5) _ _ c(6-12), of 160000000000 no_proxy "flow_tx [] zero_state" "()"]
    by simp
qed

lemma sample_outcome:
  "snd (snd (VerifyJWT flow_env no_proxy sample_jwt 159000000000 verify_cfg (flow_tx [] zero_state) ())) = ''valid''"
proof -
  have d: "decodeJWT sample_jwt (cfg_str flow_env verify_cfg ''token'' '''') = Inr (sample_header, sample_claims, ''s'')"
    by (simp add: decodeJWT_def decode_part_def verify_cfg_def sample_simps)
  have c: "check_signature flow_env no_proxy sample_jwt verify_cfg (cfg_str flow_env verify_cfg ''mode'' '''')
      (cfg_str flow_env verify_cfg ''token'' '''') sample_header sample_claims () = ((), Some (Inr sample_claims))"
    by (simp add: check_signature_def verifyJWTSecret_def symmetricJWTAlgorithm_def jwtSignatureAlgorithm_def verify_cfg_def sample_simps)
  have t: "validateJWTTimes sample_claims iat True 159000000000" for iat
    by (simp add: validateJWTTimes_def sample_claims_def f64_small_order)
  have q: "claimsEqual flow_env sample_claims (tm_get (sp_tree flow_env) verify_cfg ''required_claims'')"
    "get_bool_or (sp_tree flow_env) verify_cfg ''validate_exp'' True" "cfg_str flow_env verify_cfg ''mode'' '''' \<noteq> ''introspection''"
    "cfg_str flow_env verify_cfg ''output'' '''' = ''''"
    by (simp_all add: claimsEqual_def verify_cfg_def sample_simps)
  show ?thesis by (simp add: VerifyJWT_def d c t q Let_def)
qed

theorem verify_jwt_sound_witness:
  "snd (snd (VerifyJWT flow_env no_proxy sample_jwt 159000000000 verify_cfg (flow_tx [] zero_state) ())) = ''valid''
    \<and> secret_grounds flow_env sample_jwt verify_cfg"
proof -
  obtain w' tx' where v: "VerifyJWT flow_env no_proxy sample_jwt 159000000000 verify_cfg (flow_tx [] zero_state) () = (w', tx', ''valid'')"
    using sample_outcome by (metis prod.collapse)
  have m: "cfg_str flow_env verify_cfg ''mode'' '''' = ''plain-secret''" by code_simp
  have l: "jx_lookup sample_jwt keys kid = Some k \<Longrightarrow> k \<in> set keys \<and> jwkString flow_env sample_jwt k ''kid'' = kid" for keys kid k
    by (simp add: sample_jwt_def)
  show ?thesis using verify_jwt_sound [OF v l] sample_outcome m by (auto simp: Let_def)
qed

end
