(* ===== verification/OidcFacts.thy ===== *)
theory OidcFacts
  imports OidcStep JwtFacts FlowFacts "HOL-Library.Sublist"
begin

text \<open>
  What the authorization-code flow guarantees: tokens are stored only for a callback that carries the stored
  state, with the stored verifier in the exchange; a stored state serves one callback; and the stored
  values are those of the authorization request.
\<close>

subsection \<open>Paths of the tree container\<close>

text \<open>
  What the flow relies on of \<^verbatim>\<open>goutils.TreeMapImpl\<close> for dotted paths: a text that was set is read back; a
  change leaves the paths alone that neither lead to it nor from it; nothing is left below a deleted path.
\<close>

definition apart :: "string \<Rightarrow> string \<Rightarrow> bool" where
  "apart p q \<longleftrightarrow> \<not> prefix (Split p (CHR ''.'')) (Split q (CHR ''.'')) \<and> \<not> prefix (Split q (CHR ''.'')) (Split p (CHR ''.''))"

locale path_tree =
  fixes T :: "'t treemap"
  assumes set_text: "p \<noteq> '''' \<Longrightarrow> tm_as_string T (tm_get T (tm_set T t p (GStr s)) p) = Some s"
    and set_apart: "p \<noteq> '''' \<Longrightarrow> q \<noteq> '''' \<Longrightarrow> apart p q \<Longrightarrow> tm_get T (tm_set T t p v) q = tm_get T t q"
    and delete_below: "p \<noteq> '''' \<Longrightarrow> tm_as_string T (tm_get T (fst (tm_delete T t p)) (p @ ''.'' @ q)) = None"

lemma Split_dot: "Split (p @ CHR ''.'' # q) (CHR ''.'') = Split p (CHR ''.'') @ Split q (CHR ''.'')"
  by (induction p "CHR ''.''" rule: Split.induct) (auto split: list.splits)

lemma rt_get_set: "rt_get (rt_set t ks v) ks = v"
  by (induction t ks v rule: rt_set.induct) auto

lemma rt_get_set_apart:
  "\<not> prefix ks qs \<Longrightarrow> \<not> prefix qs ks \<Longrightarrow> rt_get (rt_set t ks v) qs = rt_get t qs"
proof (induction ks arbitrary: t qs)
  case (Cons k ks)
  then obtain q qs' where q: "qs = q # qs'" by (cases qs) auto
  then have n: "q = k \<Longrightarrow> \<not> prefix ks qs' \<and> \<not> prefix qs' ks" using Cons.prems by auto
  then have "q = k \<Longrightarrow> rt_get (GObj []) qs' = GNil" by (cases qs') auto
  then show ?case using n q Cons.IH by (cases t) (auto split: option.splits)
qed auto

lemma rt_get_del_below: "ks \<noteq> [] \<Longrightarrow> rt_get (rt_del t ks) (ks @ qs) = GNil"
  by (induction t ks rule: rt_del.induct) (auto split: option.splits)

interpretation ref_path: path_tree ref_tree
  by unfold_locales
    (auto simp: ref_tree_def rt_path_def rt_get_set apart_def rt_get_set_apart Split_dot rt_get_del_below)


subsection \<open>Form values\<close>

lemma values_set [simp]: "values_of (Values_Set k v m) k' = (if k' = k then [v] else values_of m k')"
  by (simp add: Values_Set_def values_of_def)

lemma values_add_other [simp]: "k' \<noteq> k \<Longrightarrow> values_of (Values_Add k v m) k' = values_of m k'"
  by (simp add: Values_Add_def values_of_def)

lemma add_params_other:
  "k \<notin> (\<lambda>(key, v). TrimSpace key) ` set ps \<Longrightarrow> values_of (addQueryParams S ps m) k = values_of m k"
  by (induction ps arbitrary: m) (auto simp: Let_def split: gval.splits)

lemma authentication_keeps:
  assumes "applyClientAuthentication S J D config aud values headers = Inr (values', headers')"
    and "k \<notin> {''client_id'', ''client_secret'', ''client_assertion'', ''client_assertion_type''}"
  shows "values_of values' k = values_of values k"
  using assms by (auto simp: applyClientAuthentication_def Let_def bind_res_Inr_iff split: if_splits)

lemma post_sent:
  assumes "oidc_post S X J D config endpoint what values = Inr payload"
  obtains values' headers reply where
    "requestHTTP (transactionHTTPClientInstance X (cfg_str S config ''http_client'' '''')) ''POST'' endpoint headers (Values_Encode values') = Inr reply"
    "status_ok reply" "jx_json J (ry_Body reply) = Inr payload"
    "\<And>k. k \<notin> {''client_id'', ''client_secret'', ''client_assertion'', ''client_assertion_type''} \<Longrightarrow> values_of values' k = values_of values k"
proof -
  from assms obtain values' headers reply where
    a: "applyClientAuthentication S J D config endpoint values
      [(''Accept'', ''application/json''), (''Content-Type'', ''application/x-www-form-urlencoded'')] = Inr (values', headers)"
    and r: "requestHTTP (transactionHTTPClientInstance X (cfg_str S config ''http_client'' '''')) ''POST'' endpoint headers (Values_Encode values') = Inr reply"
    "status_ok reply" "jx_json J (ry_Body reply) = Inr payload"
    by (auto simp: oidc_post_def bind_res_Inr_iff split: if_splits)
  show thesis by (rule that [OF r]) (rule authentication_keeps [OF a])
qed


lemma token_values_sent:
  assumes "k \<notin> (\<lambda>(key, v). TrimSpace key) ` set (anyMap S (tm_get (sp_tree S) config ''extra_token_params''))"
  shows "k = ''code'' \<Longrightarrow> values_of (token_values S config code verifier) k = [code]"
    "k = ''code_verifier'' \<Longrightarrow> values_of (token_values S config code verifier) k = (if verifier = '''' then [] else [verifier])"
    "k = ''redirect_uri'' \<Longrightarrow> values_of (token_values S config code verifier) k = [cfg_str S config ''redirect_uri'' '''']"
proof -
  note a = add_params_other [OF assms]
  have n: "values_of [] k = []" by (simp add: values_of_def)
  show "k = ''code'' \<Longrightarrow> values_of (token_values S config code verifier) k = [code]"
    unfolding token_values_def Let_def a by simp
  show "k = ''code_verifier'' \<Longrightarrow> values_of (token_values S config code verifier) k = (if verifier = '''' then [] else [verifier])"
    unfolding token_values_def Let_def a using n by simp
  show "k = ''redirect_uri'' \<Longrightarrow> values_of (token_values S config code verifier) k = [cfg_str S config ''redirect_uri'' '''']"
    unfolding token_values_def Let_def a by simp
qed

subsection \<open>The steps of the flow\<close>

definition stored_value :: "'t step_env \<Rightarrow> string \<Rightarrow> 't JourneyTransaction \<Rightarrow> string" where
  "stored_value S field tx = get_str_or (sp_tree S) (ctx_view S KClosed tx) (oidc_base S tx @ ''.'' @ field) ''''"

lemma base_keeps: "tx_CurrentStepID tx' = tx_CurrentStepID tx \<Longrightarrow> oidc_base S tx' = oidc_base S tx"
  by (simp add: oidc_base_def)

lemma ctx_set_id [simp]: "tx_CurrentStepID (ctx_set S k p v tx) = tx_CurrentStepID tx"
  by (simp add: ctx_set_def)

lemma ctx_delete_id [simp]: "tx_CurrentStepID (ctx_delete S k p tx) = tx_CurrentStepID tx"
  by (simp add: ctx_delete_def)

lemma view_ctx_set [simp]: "ctx_view S k (ctx_set S k' p v tx) = (if k' = k then tm_set (sp_tree S) (ctx_view S k tx) p v else ctx_view S k tx)"
  by (simp add: ctx_set_def)

lemma view_ctx_delete [simp]: "ctx_view S k (ctx_delete S k' p tx) = (if k' = k then fst (tm_delete (sp_tree S) (ctx_view S k tx) p) else ctx_view S k tx)"
  by (simp add: ctx_delete_def)

lemma view_emit [simp]: "ctx_view S k (EmitEvent e tx) = ctx_view S k tx" "tx_CurrentStepID (EmitEvent e tx) = tx_CurrentStepID tx"
  by (simp_all add: EmitEvent_def ctx_view_def)

lemma oidc_event_Inr:
  assumes "oidc_event m tx = Inr tx'"
  shows "ctx_view S k tx' = ctx_view S k tx" "tx_CurrentStepID tx' = tx_CurrentStepID tx" "tx_Request tx' = tx_Request tx"
  using assms by (auto simp: oidc_event_def EmitEvent_def ctx_view_def split: option.splits)

lemma oidc_run:
  "OIDCAuthorizationCode S X J D config tx =
     (if stored_value S ''state'' tx = ''''
      then (case oidc_event ''not found state in context, returning authorization url...'' (fst (ctx_read S KClosed tx)) of
              Inl e \<Rightarrow> (fst (ctx_read S KClosed tx), Inl e)
            | Inr tx2 \<Rightarrow> startAuthorization S X J D config (oidc_base S tx) tx2)
      else exchangeCallback S X J D config (oidc_base S tx) (stored_value S ''state'' tx) (fst (ctx_read S KClosed tx)))"
  by (simp add: OIDCAuthorizationCode_def Let_def stored_value_def split_beta cong: sum.case_cong)

lemma start_not_true: "startAuthorization S X J D config base tx \<noteq> (tx', Inr ''true'')"
  by (auto simp: startAuthorization_def Let_def oidc_reject_def split: sum.splits prod.splits)

lemma callback_true:
  assumes "exchangeCallback S X J D config base expected tx = (tx', Inr ''true'')"
  obtains request tx1 tx2 tokens where "tx_Request tx = Some request" "req_QueryFirst ''state'' [] request = expected" "expected \<noteq> ''''"
    "req_QueryFirst ''error'' [] request = ''''" "req_QueryFirst ''code'' [] request \<noteq> ''''"
    "oidc_event ''required data processed, starting exchange for tokens'' tx = Inr tx1"
    "exchangeToken S X J D config base (req_QueryFirst ''code'' [] request) tx1 = (tx2, Inr tokens)"
    "save_tokens S config base tokens tx2 = (tx', Inr ''true'')"
proof (cases "tx_Request tx")
  case None
  then show thesis using assms by (simp add: exchangeCallback_def oidc_reject_def)
next
  case (Some request)
  then have b: "req_QueryFirst ''state'' [] request = expected" "expected \<noteq> ''''"
    "req_QueryFirst ''error'' [] request = ''''" "req_QueryFirst ''code'' [] request \<noteq> ''''"
    using assms by (auto simp: exchangeCallback_def oidc_reject_def Let_def split: if_splits)
  then obtain tx1 where e: "oidc_event ''required data processed, starting exchange for tokens'' tx = Inr tx1"
    using assms Some by (auto simp: exchangeCallback_def Let_def split: sum.splits)
  then obtain tx2 tokens where "exchangeToken S X J D config base (req_QueryFirst ''code'' [] request) tx1 = (tx2, Inr tokens)"
    "save_tokens S config base tokens tx2 = (tx', Inr ''true'')"
    using assms Some b by (auto simp: exchangeCallback_def oidc_reject_def Let_def split: sum.splits prod.splits)
  then show thesis using Some b e that by blast
qed

lemma reject_cleans:
  assumes "oidc_reject S base code m attrs tx = (tx', Inr outcome)"
  shows "\<exists>tx1. outcome \<in> {''true'', ''false''} \<and> tx' = oidc_cleanup S base tx1 \<and> tx_CurrentStepID tx1 = tx_CurrentStepID tx"
  using assms by (auto simp: oidc_reject_def setOIDCError_def Let_def)

lemma save_cleans:
  assumes "save_tokens S config base tokens tx = (tx', Inr outcome)"
  shows "\<exists>tx1. outcome \<in> {''true'', ''false''} \<and> tx' = oidc_cleanup S base tx1 \<and> tx_CurrentStepID tx1 = tx_CurrentStepID tx"
  using assms by (auto simp: save_tokens_def Let_def split: prod.splits option.splits if_splits)

lemma exchange_id: "tx_CurrentStepID (fst (exchangeToken S X J D config base code tx)) = tx_CurrentStepID tx"
  by (simp add: exchangeToken_def split_beta)

lemma callback_cleans:
  assumes "exchangeCallback S X J D config base expected tx = (tx', Inr outcome)"
  obtains tx1 where "outcome \<in> {''true'', ''false''}" "tx' = oidc_cleanup S base tx1" "tx_CurrentStepID tx1 = tx_CurrentStepID tx"
proof -
  from assms consider code m attrs where "oidc_reject S base code m attrs tx = (tx', Inr outcome)"
    | request tx1 where "oidc_event ''required data processed, starting exchange for tokens'' tx = Inr tx1"
        "(case exchangeToken S X J D config base (req_QueryFirst ''code'' [] request) tx1 of
            (tx2, Inl e) \<Rightarrow> oidc_reject S base ''token_exchange_failed'' (err_Error e) [] tx2
          | (tx2, Inr tokens) \<Rightarrow> save_tokens S config base tokens tx2) = (tx', Inr outcome)"
    by (auto simp: exchangeCallback_def Let_def split: option.splits if_splits sum.splits)
  then show thesis
  proof cases
    case 1
    then show thesis using reject_cleans that by blast
  next
    case 2
    obtain tx2 r where x: "exchangeToken S X J D config base (req_QueryFirst ''code'' [] request) tx1 = (tx2, r)" by fastforce
    have i: "tx_CurrentStepID tx2 = tx_CurrentStepID tx"
      using exchange_id [of S X J D config base "req_QueryFirst ''code'' [] request" tx1] oidc_event_Inr(2) [OF 2(1)] by (simp add: x)
    show thesis
    proof (cases r)
      case (Inl e)
      then show thesis using 2(2) x i reject_cleans [of S base "''token_exchange_failed''" "err_Error e" "[]" tx2] that by auto
    next
      case (Inr tokens)
      then show thesis using 2(2) x i save_cleans [of S config base tokens tx2] that by auto
    qed
  qed
qed

lemma tokens_saved:
  assumes "save_tokens S config base tokens tx = (tx', Inr ''true'')"
  obtains k name key tx1 where "cfg_str S config ''output'' '''' = name @ ''.'' @ key" "CHR ''.'' \<notin> set name" "ctx_kind_of name = Some k" "key \<noteq> ''''"
    "tx' = oidc_cleanup S base (ctx_set S k key (GObj tokens) tx1)" "tx_CurrentStepID tx1 = tx_CurrentStepID tx" "\<And>k'. ctx_view S k' tx1 = ctx_view S k' tx"
proof -
  from assms obtain st k t key where g: "GetCtxPath (sp_tree S) (sp_crypto S) (cfg_str S config ''output'' '''') (tx_State tx) = (st, Some (k, t), key)"
    and key: "key \<noteq> ''''" and tx': "tx' = oidc_cleanup S base (ctx_set S k key (GObj tokens) (tx\<lparr>tx_State := st\<rparr>))"
    by (auto simp: save_tokens_def Let_def split: prod.splits option.splits if_splits)
  from g obtain name where n: "SplitN2 (cfg_str S config ''output'' '''') (CHR ''.'') = [name, key]"
    and s: "StateGet (sp_tree S) (sp_crypto S) name (tx_State tx) = (st, Some (k, t))"
    by (auto simp: GetCtxPath_def Let_def split: list.splits if_splits prod.splits)
  from s have k: "ctx_kind_of name = Some k" and st: "st = fst (get_kind (sp_tree S) (sp_crypto S) k (tx_State tx))"
    by (auto simp: StateGet_def Let_def split: option.splits prod.splits)
  from n SplitN2_cases [of "cfg_str S config ''output'' ''''" "CHR ''.''"] have "cfg_str S config ''output'' '''' = name @ ''.'' @ key" "CHR ''.'' \<notin> set name"
    by auto
  then show thesis using k key tx' by (rule that) (simp_all add: st ctx_view_def get_kind_fst)
qed


text \<open>C10: The step \<open>OIDCAuthorizationCode\<close> succeeds only for a callback of the flow it started: the request carries the stored,
  non-empty state, no error of the provider and a code; the token endpoint answered with success to a
  form that has this code, the configured redirect address and the stored verifier (as far as the configured
  extra parameters do not replace them); and the answer is what the output path of the context was set to,
  before the stored values of the flow were deleted.\<close>

theorem oidc_callback_checked:
  assumes run: "OIDCAuthorizationCode S X J D config tx = (tx', Inr ''true'')"
  shows "\<exists>request values headers reply tokens. tx_Request tx = Some request
    \<and> stored_value S ''state'' tx \<noteq> '''' \<and> req_QueryFirst ''state'' [] request = stored_value S ''state'' tx
    \<and> req_QueryFirst ''error'' [] request = '''' \<and> req_QueryFirst ''code'' [] request \<noteq> ''''
    \<and> requestHTTP (transactionHTTPClientInstance X (cfg_str S config ''http_client'' '''')) ''POST'' (cfg_str S config ''token_url'' '''')
        headers (Values_Encode values) = Inr reply
    \<and> 200 \<le> ry_Status reply \<and> ry_Status reply < 300 \<and> jx_json J (ry_Body reply) = Inr tokens
    \<and> (let extra = (\<lambda>(key, v). TrimSpace key) ` set (anyMap S (tm_get (sp_tree S) config ''extra_token_params'')) in
       (''code'' \<notin> extra \<longrightarrow> values_of values ''code'' = [req_QueryFirst ''code'' [] request])
       \<and> (''redirect_uri'' \<notin> extra \<longrightarrow> values_of values ''redirect_uri'' = [cfg_str S config ''redirect_uri'' ''''])
       \<and> (''code_verifier'' \<notin> extra \<longrightarrow> values_of values ''code_verifier'' =
            (if stored_value S ''code_verifier'' tx = '''' then [] else [stored_value S ''code_verifier'' tx])))
    \<and> (\<exists>name k key tx1. cfg_str S config ''output'' '''' = name @ ''.'' @ key \<and> ctx_kind_of name = Some k
        \<and> (\<forall>k'. ctx_view S k' tx1 = ctx_view S k' tx) \<and> tx' = oidc_cleanup S (oidc_base S tx) (ctx_set S k key (GObj tokens) tx1))"
proof -
  let ?tx0 = "fst (ctx_read S KClosed tx)" and ?base = "oidc_base S tx"
  have "stored_value S ''state'' tx \<noteq> ''''" using run by (auto simp: oidc_run start_not_true split: sum.splits if_splits)
  then have "exchangeCallback S X J D config ?base (stored_value S ''state'' tx) ?tx0 = (tx', Inr ''true'')" using run by (simp add: oidc_run)
  then obtain request tx1 tx2 tokens where q: "tx_Request ?tx0 = Some request" "req_QueryFirst ''state'' [] request = stored_value S ''state'' tx"
    "stored_value S ''state'' tx \<noteq> ''''" "req_QueryFirst ''error'' [] request = ''''" "req_QueryFirst ''code'' [] request \<noteq> ''''"
    and ev: "oidc_event ''required data processed, starting exchange for tokens'' ?tx0 = Inr tx1"
    and ex: "exchangeToken S X J D config ?base (req_QueryFirst ''code'' [] request) tx1 = (tx2, Inr tokens)"
    and sv: "save_tokens S config ?base tokens tx2 = (tx', Inr ''true'')" by (rule callback_true)
  note v1 = oidc_event_Inr [OF ev]
  have tx2: "tx2 = fst (ctx_read S KClosed tx1)"
    and po: "oidc_post S X J D config (cfg_str S config ''token_url'' '''') ''token''
      (token_values S config (req_QueryFirst ''code'' [] request) (stored_value S ''code_verifier'' tx)) = Inr tokens"
    using ex by (simp_all add: exchangeToken_def stored_value_def v1 split_beta)
  from po obtain "values" headers reply where r: "requestHTTP (transactionHTTPClientInstance X (cfg_str S config ''http_client'' '''')) ''POST''
      (cfg_str S config ''token_url'' '''') headers (Values_Encode values) = Inr reply" "status_ok reply" "jx_json J (ry_Body reply) = Inr tokens"
    and keep: "\<And>k. k \<notin> {''client_id'', ''client_secret'', ''client_assertion'', ''client_assertion_type''} \<Longrightarrow>
      values_of values k = values_of (token_values S config (req_QueryFirst ''code'' [] request) (stored_value S ''code_verifier'' tx)) k"
    by (rule post_sent) blast
  from sv obtain k name key tx3 where o: "cfg_str S config ''output'' '''' = name @ ''.'' @ key" "ctx_kind_of name = Some k"
    "tx' = oidc_cleanup S ?base (ctx_set S k key (GObj tokens) tx3)" "\<And>k'. ctx_view S k' tx3 = ctx_view S k' tx2" by (rule tokens_saved) blast
  have "tx_Request tx = Some request" using q(1) by (simp add: ctx_read_def split_beta)
  moreover have "\<forall>k'. ctx_view S k' tx3 = ctx_view S k' tx" using o(4) by (simp add: tx2 v1)
  moreover have "200 \<le> ry_Status reply" "ry_Status reply < 300" using r(2) by (auto simp: status_ok_def)
  ultimately show ?thesis
    using q(2-5) r(1,3) o(1-3) token_values_sent [where S = S and config = config] keep
    by (intro exI [of _ request] exI [of _ "values"] exI [of _ headers] exI [of _ reply] exI [of _ tokens]) (auto simp: Let_def)
qed

text \<open>A stored state serves one callback. Whatever callback the step \<open>OIDCAuthorizationCode\<close> answers with an outcome, the state, the nonce and the
  verifier are gone afterwards, so the same callback again is not exchanged but starts a new flow.\<close>

theorem oidc_state_single_use:
  assumes T: "path_tree (sp_tree S)"
    and "stored_value S ''state'' tx \<noteq> ''''" and run: "OIDCAuthorizationCode S X J D config tx = (tx', Inr outcome)"
  shows "outcome \<in> {''true'', ''false''} \<and> stored_value S field tx' = ''''"
proof -
  let ?tx0 = "fst (ctx_read S KClosed tx)" and ?base = "oidc_base S tx"
  have "exchangeCallback S X J D config ?base (stored_value S ''state'' tx) ?tx0 = (tx', Inr outcome)" using assms(2) run by (simp add: oidc_run)
  then obtain tx1 where c: "outcome \<in> {''true'', ''false''}" "tx' = oidc_cleanup S ?base tx1" "tx_CurrentStepID tx1 = tx_CurrentStepID tx"
    by (rule callback_cleans) simp
  have "oidc_base S tx' = ?base" by (rule base_keeps) (simp add: c(2,3) oidc_cleanup_def)
  moreover have "?base \<noteq> ''''" by (simp add: oidc_base_def GetContextKey_def)
  ultimately show ?thesis
    using c(1) path_tree.delete_below [OF T] by (simp add: stored_value_def c(2) oidc_cleanup_def get_str_or_def)
qed


subsection \<open>The start of a flow\<close>

lemma view_builder: "ctx_view S KClosed (with_builder S f tx) = ctx_view S KClosed tx" "tx_CurrentStepID (with_builder S f tx) = tx_CurrentStepID tx"
  by (auto simp: with_builder_def put_builder_def Let_def ctx_view_def get_kind_other simp del: get_kind.simps put_kind.simps split: ctx_ref.split)

lemma apart_fields: "f \<noteq> g \<Longrightarrow> CHR ''.'' \<notin> set f \<Longrightarrow> CHR ''.'' \<notin> set g \<Longrightarrow> apart (p @ ''.'' @ f) (p @ ''.'' @ g)"
  by (simp add: apart_def Split_dot Split_no_sep)

text \<open>The stored value of a field after a change of another field or of itself.\<close>

context path_tree
begin

lemma get_field:
  "f \<noteq> g \<Longrightarrow> CHR ''.'' \<notin> set f \<Longrightarrow> CHR ''.'' \<notin> set g \<Longrightarrow>
     get_str_or T (tm_set T t (p @ ''.'' @ f) (GStr s)) (p @ ''.'' @ g) '''' = get_str_or T t (p @ ''.'' @ g) ''''"
  "get_str_or T (tm_set T t (p @ ''.'' @ f) (GStr s)) (p @ ''.'' @ f) '''' = s"
  using set_apart set_text apart_fields by (simp_all add: get_str_or_def)

end


lemma start_waits:
  assumes "startAuthorization S X J D config base tx = (tx', Inr '''')"
  obtains state url tx2 values1 tx3 values2 values3 where
    "start_nonce S D config base (authorization_values S config state (od_query D url)) (ctx_set S KClosed (base @ ''.state'') (GStr state) tx) = (tx2, Inr values1)"
    "start_pkce S D config base values1 tx2 = (tx3, Inr values2)" "authorization_query S X J D config values2 = Inr values3"
    "ul_parse (px_url X) (cfg_str S config ''authorize_url'' '''') = Inr url"
    "tx' = with_builder S (AddMessageInput (sp_tree S) (sp_keys S) \<lparr>mg_ID = tx_CurrentStepID tx, mg_StepType = ''OIDCAuthorizationCode'', mg_Type = '''',
       mg_Value = GObj [(''type'', GStr ''oidc_authorization''), (''method'', GStr ''GET''),
         (''authorize_url'', GStr (ul_string (px_url X) (ul_set_query (px_url X) (Values_Encode values3) url)))]\<rparr>) tx3"
  using assms unfolding startAuthorization_def Let_def oidc_reject_def
  by (auto split: sum.splits prod.splits)

lemma nonce_stored:
  assumes "start_nonce S D config base v tx = (tx', Inr v')"
  shows "tx_CurrentStepID tx' = tx_CurrentStepID tx" "k \<noteq> ''nonce'' \<Longrightarrow> values_of v' k = values_of v k"
    "get_bool_or (sp_tree S) config ''nonce'' True \<Longrightarrow> \<exists>n. values_of v' ''nonce'' = [n] \<and>
       ctx_view S KClosed tx' = tm_set (sp_tree S) (ctx_view S KClosed tx) (base @ ''.nonce'') (GStr n)"
    "\<not> get_bool_or (sp_tree S) config ''nonce'' True \<Longrightarrow> tx' = tx"
  using assms by (auto simp: start_nonce_def split: sum.splits if_splits)

lemma verifier_stored:
  assumes "start_pkce S D config base v tx = (tx', Inr v')"
  shows "tx_CurrentStepID tx' = tx_CurrentStepID tx" "k \<notin> {''code_challenge'', ''code_challenge_method''} \<Longrightarrow> values_of v' k = values_of v k"
    "get_bool_or (sp_tree S) config ''pkce'' True \<Longrightarrow> \<exists>c. values_of v' ''code_challenge'' = [od_rawurl D (od_sha256 D c)] \<and>
       values_of v' ''code_challenge_method'' = [''S256''] \<and>
       ctx_view S KClosed tx' = tm_set (sp_tree S) (ctx_view S KClosed tx) (base @ ''.code_verifier'') (GStr c)"
    "\<not> get_bool_or (sp_tree S) config ''pkce'' True \<Longrightarrow> tx' = tx"
  using assms by (auto simp: start_pkce_def split: sum.splits if_splits)

text \<open>When the step \<open>OIDCAuthorizationCode\<close> waits for the client, what it has stored is what the provider is asked with: the state and
  the nonce of the authorization request are the stored ones, and its challenge is the S256 challenge of
  the stored verifier, which the exchange will send.\<close>

theorem oidc_start_binds:
  assumes T: "path_tree (sp_tree S)" and run: "OIDCAuthorizationCode S X J D config tx = (tx', Inr '''')"
  shows "\<exists>values url values3 tx3. values_of values ''state'' = [stored_value S ''state'' tx']
    \<and> values_of values ''redirect_uri'' = [cfg_str S config ''redirect_uri'' '''']
    \<and> (get_bool_or (sp_tree S) config ''nonce'' True \<longrightarrow> values_of values ''nonce'' = [stored_value S ''nonce'' tx'])
    \<and> (get_bool_or (sp_tree S) config ''pkce'' True \<longrightarrow>
        values_of values ''code_challenge'' = [od_rawurl D (od_sha256 D (stored_value S ''code_verifier'' tx'))]
        \<and> values_of values ''code_challenge_method'' = [''S256''])
    \<and> ul_parse (px_url X) (cfg_str S config ''authorize_url'' '''') = Inr url
    \<and> authorization_query S X J D config values = Inr values3
    \<and> tx' = with_builder S (AddMessageInput (sp_tree S) (sp_keys S) \<lparr>mg_ID = tx_CurrentStepID tx, mg_StepType = ''OIDCAuthorizationCode'', mg_Type = '''',
       mg_Value = GObj [(''type'', GStr ''oidc_authorization''), (''method'', GStr ''GET''),
         (''authorize_url'', GStr (ul_string (px_url X) (ul_set_query (px_url X) (Values_Encode values3) url)))]\<rparr>) tx3"
proof -
  let ?base = "oidc_base S tx"
  have "stored_value S ''state'' tx = ''''"
    using run by (auto simp: oidc_run elim!: callback_cleans split: if_splits)
  then obtain tx0 where "oidc_event ''not found state in context, returning authorization url...'' (fst (ctx_read S KClosed tx)) = Inr tx0"
    and st: "startAuthorization S X J D config ?base tx0 = (tx', Inr '''')" using run by (auto simp: oidc_run split: sum.splits)
  then have i: "tx_CurrentStepID tx0 = tx_CurrentStepID tx" using oidc_event_Inr(2) by fastforce
  from st obtain state url tx2 values1 tx3 values2 values3 where
    n: "start_nonce S D config ?base (authorization_values S config state (od_query D url)) (ctx_set S KClosed (?base @ ''.state'') (GStr state) tx0) = (tx2, Inr values1)"
    and p: "start_pkce S D config ?base values1 tx2 = (tx3, Inr values2)" and q: "authorization_query S X J D config values2 = Inr values3"
    and u: "ul_parse (px_url X) (cfg_str S config ''authorize_url'' '''') = Inr url"
    and tx': "tx' = with_builder S (AddMessageInput (sp_tree S) (sp_keys S) \<lparr>mg_ID = tx_CurrentStepID tx0, mg_StepType = ''OIDCAuthorizationCode'', mg_Type = '''',
       mg_Value = GObj [(''type'', GStr ''oidc_authorization''), (''method'', GStr ''GET''),
         (''authorize_url'', GStr (ul_string (px_url X) (ul_set_query (px_url X) (Values_Encode values3) url)))]\<rparr>) tx3" by (rule start_waits)
  have b: "stored_value S field tx' = get_str_or (sp_tree S) (ctx_view S KClosed tx3) (?base @ ''.'' @ field) ''''" for field
  proof -
    have "oidc_base S tx' = ?base" by (rule base_keeps) (simp add: tx' view_builder verifier_stored(1) [OF p] nonce_stored(1) [OF n] i)
    then show ?thesis by (simp add: stored_value_def tx' view_builder)
  qed
  note g = path_tree.get_field(1) [OF T, where p = ?base] and g2 = path_tree.get_field(2) [OF T, where p = ?base]
  note f' = g [where f = "''nonce''" and g = "''state''"] g [where f = "''code_verifier''" and g = "''state''"]
    g [where f = "''code_verifier''" and g = "''nonce''"]
    g2 [where f = "''state''"] g2 [where f = "''nonce''"] g2 [where f = "''code_verifier''"]
  have "values_of values2 ''state'' = [stored_value S ''state'' tx']" "values_of values2 ''redirect_uri'' = [cfg_str S config ''redirect_uri'' '''']"
    using f' nonce_stored [OF n] verifier_stored [OF p]
    by (cases "get_bool_or (sp_tree S) config ''nonce'' True"; cases "get_bool_or (sp_tree S) config ''pkce'' True"; auto simp: b authorization_values_def)+
  moreover have "get_bool_or (sp_tree S) config ''nonce'' True \<longrightarrow> values_of values2 ''nonce'' = [stored_value S ''nonce'' tx']"
    using f' nonce_stored [OF n] verifier_stored [OF p] by (cases "get_bool_or (sp_tree S) config ''pkce'' True") (auto simp: b)
  moreover have "get_bool_or (sp_tree S) config ''pkce'' True \<longrightarrow>
        values_of values2 ''code_challenge'' = [od_rawurl D (od_sha256 D (stored_value S ''code_verifier'' tx'))]
        \<and> values_of values2 ''code_challenge_method'' = [''S256'']"
    using f' verifier_stored [OF p] by (auto simp: b)
  ultimately show ?thesis using q u tx' i by auto
qed


subsection \<open>A sample flow\<close>

definition sample_oidc :: "string oidc_lib" where
  "sample_oidc = \<lparr>od_random = (\<lambda>i. Inr ([''st'', ''no'', ''ve''] ! i)), od_uuid = (\<lambda>i. ''u''), od_now = 0, od_sha256 = (\<lambda>s. ''h'' @ s), od_rawurl = (\<lambda>s. s),
     od_std64 = (\<lambda>s. s), od_query = (\<lambda>u. [])\<rparr>"

definition oidc_jwt :: "(unit, string, unit, unit, unit) jwt_lib" where
  "oidc_jwt = sample_jwt\<lparr>jx_json := (\<lambda>s. Inr [(''access_token'', GStr ''a'')])\<rparr>"

definition oidc_proxy :: "(gval, unit, unit, string) proxy_env" where
  "oidc_proxy = no_proxy\<lparr>px_Client := Some (\<lambda>meth uri hs body. Inr \<lparr>ry_Status = 200, ry_Headers = [], ry_Body = body\<rparr>)\<rparr>"

definition oidc_config :: gval where
  "oidc_config = GObj [(''authorize_url'', GStr ''https://p/a''), (''token_url'', GStr ''https://p/t''), (''client_id'', GStr ''c''),
     (''redirect_uri'', GStr ''https://me''), (''output'', GStr ''closedCtx.tokens'')]"

definition oidc_fresh :: "gval JourneyTransaction" where
  "oidc_fresh = flow_tx [] zero_state"

definition oidc_back :: "gval JourneyTransaction" where
  "oidc_back = (fst (OIDCAuthorizationCode flow_env oidc_proxy oidc_jwt sample_oidc oidc_config oidc_fresh))\<lparr>
     tx_Request := Some (ReqSnapshot (Some (empty_request\<lparr>jr_QueryParameters := [(''state'', [''st'']), (''code'', [''k''])]\<rparr>)))\<rparr>"

lemma sample_flow:
  "snd (OIDCAuthorizationCode flow_env oidc_proxy oidc_jwt sample_oidc oidc_config oidc_fresh) = Inr ''''"
  "snd (OIDCAuthorizationCode flow_env oidc_proxy oidc_jwt sample_oidc oidc_config oidc_back) = Inr ''true''"
  "stored_value flow_env ''state'' oidc_back = ''st''" "stored_value flow_env ''code_verifier'' oidc_back = ''ve''"
  by code_simp+

lemma flow_path: "path_tree (sp_tree flow_env)"
  using ref_path.path_tree_axioms by (simp add: flow_env_def)

theorem oidc_start_binds_witness:
  "\<exists>values. values_of values ''code_challenge'' = [''h'' @ stored_value flow_env ''code_verifier''
     (fst (OIDCAuthorizationCode flow_env oidc_proxy oidc_jwt sample_oidc oidc_config oidc_fresh))]"
proof -
  obtain tx' where r: "OIDCAuthorizationCode flow_env oidc_proxy oidc_jwt sample_oidc oidc_config oidc_fresh = (tx', Inr '''')"
    using sample_flow(1) by (metis prod.collapse)
  have "get_bool_or (sp_tree flow_env) oidc_config ''pkce'' True" by code_simp
  then obtain "values" where "values_of values ''code_challenge'' = [od_rawurl sample_oidc (od_sha256 sample_oidc (stored_value flow_env ''code_verifier'' tx'))]"
    using oidc_start_binds [OF flow_path r] by blast
  then show ?thesis unfolding r by (intro exI [of _ "values"]) (simp add: sample_oidc_def)
qed

theorem oidc_callback_checked_witness:
  "\<exists>values headers reply. requestHTTP (transactionHTTPClientInstance oidc_proxy (cfg_str flow_env oidc_config ''http_client'' '''')) ''POST''
     (cfg_str flow_env oidc_config ''token_url'' '''') headers (Values_Encode values) = Inr reply
     \<and> values_of values ''code_verifier'' = [''ve''] \<and> values_of values ''code'' = [''k'']"
proof -
  obtain tx' where r: "OIDCAuthorizationCode flow_env oidc_proxy oidc_jwt sample_oidc oidc_config oidc_back = (tx', Inr ''true'')"
    using sample_flow(2) by (metis prod.collapse)
  have e: "anyMap flow_env (tm_get (sp_tree flow_env) oidc_config ''extra_token_params'') = []" by code_simp
  have q: "map_option (req_QueryFirst ''code'' []) (tx_Request oidc_back) = Some ''k''" by code_simp
  show ?thesis using oidc_callback_checked [OF r] q by (auto simp: e sample_flow Let_def) blast
qed

theorem oidc_state_single_use_witness:
  "stored_value flow_env ''state'' (fst (OIDCAuthorizationCode flow_env oidc_proxy oidc_jwt sample_oidc oidc_config oidc_back)) = ''''"
proof -
  obtain tx' where r: "OIDCAuthorizationCode flow_env oidc_proxy oidc_jwt sample_oidc oidc_config oidc_back = (tx', Inr ''true'')"
    using sample_flow(2) by (metis prod.collapse)
  have "stored_value flow_env ''state'' oidc_back \<noteq> ''''" by (simp add: sample_flow)
  then show ?thesis using oidc_state_single_use [OF flow_path _ r] by (simp add: r)
qed

end
