(* ===== verification/HttpProxyFacts.thy ===== *)
theory HttpProxyFacts
  imports HttpProxy RouteTableFacts FlowFacts
begin

text \<open>
  The proxy step: what has to be true before a request reaches an upstream, which rewrite applies, and what
  happens to a request body over the limit.
\<close>

subsection \<open>Cases of the step\<close>

definition reading_policies :: "'t proxy_policy gomap \<Rightarrow> bool" where
  "reading_policies reg \<longleftrightarrow> (\<forall>n p. gm_get reg n = Some p \<longrightarrow> (\<forall>tx m c. fst (p tx m c) = tx))"

lemma policies_read: "reading_policies reg \<Longrightarrow> fst (evaluate_policies reg m ps tx) = tx"
proof (induction ps)
  case (Cons p ps)
  show ?case
  proof (cases "gm_get reg (policy_key p)")
    case (Some policy)
    then have "fst (policy tx m p) = tx" using Cons.prems by (simp add: reading_policies_def)
    then obtain r where "policy tx m p = (tx, r)" by (cases "policy tx m p") simp
    then show ?thesis using Some Cons by (simp add: Let_def split: option.split)
  qed (use Cons in \<open>simp add: Let_def\<close>)
qed simp

lemma evaluate_read: "reading_policies reg \<Longrightarrow> fst (EvaluatePolicies reg mo tx) = tx"
  by (simp add: EvaluatePolicies_def policies_read split: option.split)

text \<open>Every policy of a matched route, but for those without a name, is registered and accepts the request.\<close>

definition policies_accept :: "'t proxy_policy gomap \<Rightarrow> HTTPRouteMatch \<Rightarrow> 't JourneyTransaction \<Rightarrow> bool" where
  "policies_accept reg m tx \<longleftrightarrow>
     (\<forall>p \<in> set (hr_Policies (hm_Route m)). policy_key p \<noteq> '''' \<longrightarrow>
        (\<exists>policy. gm_get reg (policy_key p) = Some policy \<and> snd (policy tx m p) = None))"

lemma evaluate_accepts:
  "reading_policies reg \<Longrightarrow> snd (evaluate_policies reg m ps tx) = None \<Longrightarrow> p \<in> set ps \<Longrightarrow> policy_key p \<noteq> '''' \<Longrightarrow>
     \<exists>policy. gm_get reg (policy_key p) = Some policy \<and> snd (policy tx m p) = None"
proof (induction ps)
  case (Cons q ps)
  show ?case
  proof (cases "policy_key q = ''''")
    case True
    with Cons show ?thesis by (auto simp: Let_def)
  next
    case False
    with Cons.prems(2) obtain policy where g: "gm_get reg (policy_key q) = Some policy"
      by (auto simp: Let_def split: option.splits)
    with Cons.prems(1) have "fst (policy tx m q) = tx" by (simp add: reading_policies_def)
    then obtain e where e: "policy tx m q = (tx, e)" by (cases "policy tx m q") simp
    with Cons.prems(2) False g have "e = None" "snd (evaluate_policies reg m ps tx) = None"
      by (auto simp: Let_def split: option.splits)
    with Cons g e show ?thesis by auto
  qed
qed simp

lemma accepted: "reading_policies reg \<Longrightarrow> snd (EvaluatePolicies reg (Some m) tx) = None \<Longrightarrow> policies_accept reg m tx"
  by (auto simp: policies_accept_def EvaluatePolicies_def intro: evaluate_accepts)

lemma register_reading:
  "reading_policies reg \<Longrightarrow> (\<And>tx m c. fst (p tx m c) = tx) \<Longrightarrow> reading_policies (RegisterHTTPProxyPolicy n (Some p) reg)"
  by (simp add: reading_policies_def RegisterHTTPProxyPolicy_def)

lemma built_in_policies_read: "reading_policies (registerHTTPRouteBuiltInPolicies rx [])"
  unfolding registerHTTPRouteBuiltInPolicies_def fold_simps o_def case_prod_conv id_def
  by (intro register_reading) (simp_all add: reading_policies_def present_policy_def compare_policy_def)

lemma proxy_cases:
  assumes "HTTPProxy S X config tx = (tx', Inr outcome)"
  obtains (unconfigured) "tx_Response tx \<noteq> None"
      "(tx', Inr outcome) = proxy_deny S config ''no_match_status'' 404 ''HTTP proxy route table is not configured'' tx"
  | (routed) req req1 snapshot manager v tableo uri overridden where "tx_Request tx = Some req" and "tx_Response tx \<noteq> None"
      and "px_manager X = Some manager"
      and "GetCacheInstance manager HTTPRouteTableCacheKey (TrimSpace (cfg_str S config ''route_table'' '''')) = (v, True)"
      and "px_table X v = Some tableo" and "req_Snapshot (px_media X) req = (req1, Inr snapshot)"
      and "httpProxyEffectiveURI (px_url X) snapshot (TrimSpace (cfg_str S config ''base_url'' '''')) (proxy_path S config req) = Inr (uri, overridden)"
      and "proxy_route S X config tableo (proxy_method req) uri overridden (tx\<lparr>tx_Request := Some req1\<rparr>) = (tx', Inr outcome)"
  using assms unfolding HTTPProxy_def Let_def
  by (simp split: option.splits if_splits prod.splits bool.splits sum.splits)

lemma update_request [simp]:
  "tx_Request (ctx_update S k f tx) = tx_Request tx" "tx_Response (ctx_update S k f tx) = tx_Response tx"
  "tx_Request (ctx_set S k key v tx) = tx_Request tx" "tx_Response (ctx_set S k key v tx) = tx_Response tx"
  by (simp_all add: ctx_set_def ctx_update_def split_beta)

lemma save_match_keeps:
  "proxy_save_match S config m tx = (tx', r) \<Longrightarrow> tx_Request tx' = tx_Request tx \<and> tx_Response tx' = tx_Response tx"
  by (auto simp: proxy_save_match_def Let_def split: if_splits prod.splits option.splits)

lemma route_cases:
  assumes "proxy_route S X config tableo meth uri overridden tx = (tx', Inr outcome)" and "reading_policies (px_policies X)"
    and "tx_Request tx = Some req"
  obtains (denied) key fallback message tx0 where "fallback \<in> {404, 403}" and "tx_Response tx0 = tx_Response tx"
      and "(tx', Inr outcome) = proxy_deny S config key fallback message tx0"
  | (sent) m tx2 where "MatchURI (px_url X) tableo uri meth = Some m" and "snd (EvaluatePolicies (px_policies X) (Some m) tx) = None"
      and "tx_Request tx2 = Some req" and "tx_Response tx2 = tx_Response tx"
      and "proxy_send S X config tableo m meth uri overridden req tx2 = (tx', Inr outcome)"
proof (cases "MatchURI (px_url X) tableo uri meth")
  case None
  then show ?thesis using assms(1) by (intro denied [of 404 tx "''no_match_status''" "''no HTTP proxy route matched''"]) (auto simp: proxy_route_def)
next
  case (Some m)
  have tx1: "fst (EvaluatePolicies (px_policies X) (Some m) tx) = tx" by (rule evaluate_read) (rule assms(2))
  show ?thesis
  proof (cases "snd (EvaluatePolicies (px_policies X) (Some m) tx)")
    case (Some e)
    with tx1 have "EvaluatePolicies (px_policies X) (Some m) tx = (tx, Some e)" by (metis prod.collapse)
    then show ?thesis using assms(1) \<open>MatchURI _ _ _ _ = Some m\<close>
      by (intro denied [of 403 "ctx_set S KTemp ''http_proxy_error'' (GStr (error_text e)) tx" "''policy_denied_status''" "error_text e"])
        (auto simp: proxy_route_def)
  next
    case None
    with tx1 have e: "EvaluatePolicies (px_policies X) (Some m) tx = (tx, None)" by (metis prod.collapse)
    obtain tx2 r where s: "proxy_save_match S config m tx = (tx2, r)" by (cases "proxy_save_match S config m tx")
    with assms(1) e \<open>MatchURI _ _ _ _ = Some m\<close> obtain u where "r = Inr u" by (cases r) (auto simp: proxy_route_def)
    then show ?thesis using s assms(1,3) e None \<open>MatchURI _ _ _ _ = Some m\<close> save_match_keeps [OF s]
      by (intro sent [of m tx2]) (auto simp: proxy_route_def)
  qed
qed

lemma Status_Some: "r \<noteq> None \<Longrightarrow> \<exists>m. Response_Body ct data (Status code r) = Some m \<and> rs_StatusCode m = code \<and> rs_BodyBytesValue m = data \<and> rs_BodySet m"
  by (auto simp: Response_Body_def Status_def)

lemma status_range: "100 \<le> fallback \<Longrightarrow> fallback \<le> 599 \<Longrightarrow> 100 \<le> httpProxyStatus S config key fallback \<and> httpProxyStatus S config key fallback \<le> 599"
  by (simp add: httpProxyStatus_def Let_def)

lemma write_error:
  assumes "r \<noteq> None" and "100 \<le> fallback" and "fallback \<le> 599"
  shows "\<exists>m. httpProxyWriteError S (httpProxyStatus S config key fallback) message r = Some m \<and> rs_BodySet m \<and>
    100 \<le> rs_StatusCode m \<and> rs_StatusCode m \<le> 599"
  using Status_Some [OF assms(1)] status_range [OF assms(2,3)] unfolding httpProxyWriteError_def by metis

lemma copy_headers_Some: "r \<noteq> None \<Longrightarrow> httpProxyCopyResponseHeaders hs r \<noteq> None"
proof -
  have a: "r \<noteq> None \<Longrightarrow> fold (AddHeader n) vs r \<noteq> None" for n vs r
    by (induction vs arbitrary: r) (auto simp: AddHeader_def Let_def)
  have "r \<noteq> None \<Longrightarrow> copy_values n vs r \<noteq> None" for n vs r
    using a [of "Response_Header n (hd vs) r" n "tl vs"] by (cases vs) (auto simp: copy_values_def Response_Header_def split: if_splits)
  then show "r \<noteq> None \<Longrightarrow> httpProxyCopyResponseHeaders hs r \<noteq> None"
    unfolding httpProxyCopyResponseHeaders_def by (induction hs arbitrary: r) auto
qed

text \<open>A written error: a body and a status of the allowed range.\<close>

definition error_written :: "'t JourneyTransaction \<Rightarrow> bool" where
  "error_written tx \<longleftrightarrow> (\<exists>m. tx_Response tx = Some m \<and> rs_BodySet m \<and> 100 \<le> rs_StatusCode m \<and> rs_StatusCode m \<le> 599)"

lemma deny_written:
  "(tx', r) = proxy_deny S config key fallback message tx \<Longrightarrow> tx_Response tx \<noteq> None \<Longrightarrow> 100 \<le> fallback \<Longrightarrow> fallback \<le> 599 \<Longrightarrow>
     error_written tx' \<and> r = Inr ''false''"
  using write_error by (fastforce simp: proxy_deny_def error_written_def)

lemma reply_cases:
  assumes "proxy_reply S config reply tx = (tx', Inr outcome)" and "tx_Response tx \<noteq> None"
  shows "(outcome = ''false'' \<and> error_written tx') \<or>
    (outcome = ''true'' \<and> (\<exists>response m. reply = Inr response \<and> tx_Response tx' = Some m \<and>
        rs_StatusCode m = ry_Status response \<and> rs_BodyBytesValue m = ry_Body response))"
proof (cases reply)
  case (Inl e)
  then show ?thesis using assms write_error [OF assms(2), of 502]
    by (fastforce simp: proxy_reply_def Let_def error_written_def)
next
  case (Inr response)
  let ?r = "if get_bool_or (sp_tree S) config ''copy_response_headers'' True
    then httpProxyCopyResponseHeaders (ry_Headers response) (tx_Response tx) else tx_Response tx"
  have "?r \<noteq> None" using assms(2) copy_headers_Some by simp
  from Status_Some [OF this, of "httpProxyFirstHeader (ry_Headers response) ''Content-Type'' ''application/octet-stream''" "ry_Body response" "ry_Status response"]
  obtain m where "Response_Body (httpProxyFirstHeader (ry_Headers response) ''Content-Type'' ''application/octet-stream'') (ry_Body response)
      (Status (ry_Status response) ?r) = Some m" "rs_StatusCode m = ry_Status response" "rs_BodyBytesValue m = ry_Body response" by blast
  then show ?thesis using assms(1) Inr unfolding proxy_reply_def Let_def by auto
qed

lemma send_cases:
  assumes "proxy_send S X config tableo m meth uri overridden req tx = (tx', Inr outcome)" and "tx_Response tx \<noteq> None"
  obtains target req1 body reply where "proxy_target X tableo m req uri overridden = Inr target" and "req_BodyBytes req = (req1, Inr body)"
    and "reply = requestHTTP (transactionHTTPClientInstance X (hm_HTTPInstance m)) meth target (proxy_headers tableo m req1) body"
    and "(outcome = ''false'' \<and> error_written tx') \<or>
      (outcome = ''true'' \<and> (\<exists>response r. reply = Inr response \<and> tx_Response tx' = Some r \<and>
          rs_StatusCode r = ry_Status response \<and> rs_BodyBytesValue r = ry_Body response))"
proof -
  obtain req1 b where b: "req_BodyBytes req = (req1, b)" by (cases "req_BodyBytes req")
  from assms(1) obtain target where t: "proxy_target X tableo m req uri overridden = Inr target"
    by (cases "proxy_target X tableo m req uri overridden") (auto simp: proxy_send_def)
  from assms(1) t b obtain body where body: "b = Inr body" by (cases b) (auto simp: proxy_send_def)
  let ?reply = "requestHTTP (transactionHTTPClientInstance X (hm_HTTPInstance m)) meth target (proxy_headers tableo m req1) body"
  have "proxy_reply S config ?reply (tx\<lparr>tx_Request := Some req1\<rparr>) = (tx', Inr outcome)" using assms(1) t b body by (simp add: proxy_send_def)
  from reply_cases [OF this] assms(2) show ?thesis by (intro that [OF t _ refl]) (simp_all add: b body)
qed

text \<open>What the upstream answered through a route that admits the request.\<close>

definition answered_by_route :: "('t, 'v, 'n, 'u) proxy_env \<Rightarrow> HTTPRouteTable option \<Rightarrow> string \<Rightarrow> string \<Rightarrow> request \<Rightarrow> 't JourneyTransaction
    \<Rightarrow> 't JourneyTransaction \<Rightarrow> bool" where
  "answered_by_route X tableo meth uri req tx tx' \<longleftrightarrow>
     (\<exists>m client target overridden body req1 response r.
        MatchURI (px_url X) tableo uri meth = Some m \<and> policies_accept (px_policies X) m tx \<and>
        transactionHTTPClientInstance X (hm_HTTPInstance m) = Some client \<and> proxy_target X tableo m req uri overridden = Inr target \<and>
        req_BodyBytes req = (req1, Inr body) \<and> client meth target (proxy_headers tableo m req1) body = Inr response \<and>
        tx_Response tx' = Some r \<and> rs_StatusCode r = ry_Status response \<and> rs_BodyBytesValue r = ry_Body response)"

lemma proxy_outcome:
  assumes "reading_policies (px_policies X)" and "HTTPProxy S X config tx = (tx', Inr outcome)"
  shows "(outcome = ''false'' \<and> error_written tx') \<or>
    (outcome = ''true'' \<and> (\<exists>req req1 snapshot manager v tableo uri overridden.
       tx_Request tx = Some req \<and> px_manager X = Some manager \<and>
       GetCacheInstance manager HTTPRouteTableCacheKey (TrimSpace (cfg_str S config ''route_table'' '''')) = (v, True) \<and>
       px_table X v = Some tableo \<and> req_Snapshot (px_media X) req = (req1, Inr snapshot) \<and>
       httpProxyEffectiveURI (px_url X) snapshot (TrimSpace (cfg_str S config ''base_url'' '''')) (proxy_path S config req) = Inr (uri, overridden) \<and>
       answered_by_route X tableo (proxy_method req) uri req1 (tx\<lparr>tx_Request := Some req1\<rparr>) tx'))"
  using assms(2)
proof (cases rule: proxy_cases)
  case unconfigured
  then show ?thesis using deny_written by fastforce
next
  case (routed req req1 snapshot manager v tableo uri overridden)
  have "tx_Request (tx\<lparr>tx_Request := Some req1\<rparr>) = Some req1" by simp
  from routed(8) assms(1) this show ?thesis
  proof (cases rule: route_cases)
    case (denied key fallback message tx0)
    then show ?thesis using deny_written [OF denied(3)] routed(2) by auto
  next
    case (sent m tx2)
    have "tx_Response tx2 \<noteq> None" using sent(4) routed(2) by simp
    from sent(5) this show ?thesis
    proof (cases rule: send_cases)
      case (1 target req2 body reply)
      show ?thesis
      proof (cases "outcome = ''false''")
        case False
        with 1(4) obtain response r where r: "outcome = ''true''" "reply = Inr response" "tx_Response tx' = Some r"
          "rs_StatusCode r = ry_Status response" "rs_BodyBytesValue r = ry_Body response" by auto
        then obtain client where "transactionHTTPClientInstance X (hm_HTTPInstance m) = Some client"
          "client (proxy_method req) target (proxy_headers tableo m req2) body = Inr response"
          using 1(3) by (auto simp: requestHTTP_def split: option.splits)
        then have "answered_by_route X tableo (proxy_method req) uri req1 (tx\<lparr>tx_Request := Some req1\<rparr>) tx'"
          unfolding answered_by_route_def using sent(1) accepted [OF assms(1) sent(2)] 1(1,2) r by blast
        then show ?thesis using routed(1,3-7) r(1) by blast
      qed (use 1(4) in auto)
    qed
  qed
qed

text \<open>
  C8. The proxy answers \<open>true\<close> only with the response of an upstream that a route of the configured table
  selects for the request, each policy of that route being registered and accepting the request; in
  every other case that is not an error of the step it answers \<open>false\<close> and the client gets an error with
  a status from 100 to 599. The registered policies are taken to read the transaction and not to
  change it, as the built-in ones do (\<open>built_in_policies_read\<close>).
\<close>

theorem proxy_guarded:
  assumes "reading_policies (px_policies X)" and "HTTPProxy S X config tx = (tx', Inr outcome)"
  shows "(outcome = ''false'' \<and> error_written tx') \<or>
    (outcome = ''true'' \<and> (\<exists>req req1 snapshot manager v tableo uri overridden.
       tx_Request tx = Some req \<and> px_manager X = Some manager \<and>
       GetCacheInstance manager HTTPRouteTableCacheKey (TrimSpace (cfg_str S config ''route_table'' '''')) = (v, True) \<and>
       px_table X v = Some tableo \<and> req_Snapshot (px_media X) req = (req1, Inr snapshot) \<and>
       httpProxyEffectiveURI (px_url X) snapshot (TrimSpace (cfg_str S config ''base_url'' '''')) (proxy_path S config req) = Inr (uri, overridden) \<and>
       answered_by_route X tableo (proxy_method req) uri req1 (tx\<lparr>tx_Request := Some req1\<rparr>) tx'))"
  using assms by (rule proxy_outcome)

subsection \<open>A body over the limit\<close>

definition unread_body :: "HTTPRequestAccessor \<Rightarrow> int \<Rightarrow> string \<Rightarrow> bool" where
  "unread_body h mx data \<longleftrightarrow> ha_maxBodySize h = mx \<and> \<not> ha_bodyRead h \<and>
     (\<exists>q u. ha_request h = Some q \<and> hq_URL q = Some u \<and> hq_Body q = Some (Inr data))"

lemma snapshot_then_body:
  assumes "unread_body h mx data" and "0 < mx" and "mx + 1 < 2 ^ 63" and "mx < int (length data)" and "int (length data) \<le> 2 * mx + 1"
  shows "\<exists>req snapshot req'. req_Snapshot media (ReqHTTP (Some h)) = (req, Inr snapshot) \<and>
    req_BodyBytes req = (req', Inr (drop (nat mx + 1) data))"
proof -
  from assms(1) obtain q u where q: "ha_request h = Some q" "hq_URL q = Some u" "hq_Body q = Some (Inr data)" "ha_maxBodySize h = mx" "\<not> ha_bodyRead h"
    by (auto simp: unread_body_def)
  have w: "nat (wrap64 (mx + 1)) = nat mx + 1" using assms(2,3) by (simp add: in_int64_def nat_add_distrib)
  define q1 where "q1 = q\<lparr>hq_Body := Some (Inr (drop (nat mx + 1) data))\<rparr>"
  define h1 where "h1 = h\<lparr>ha_request := Some q1\<rparr>"
  have len: "length (take (nat mx + 1) data) = nat mx + 1" using assms(2,4) by simp
  have "snd (HA_BodyBytes (Some h)) = Inl (ErrText (''request body exceeds '' @ nat_str (nat mx) @ '' bytes''))" "fst (HA_BodyBytes (Some h)) = Some h1"
    using q assms(2,4) len by (simp_all add: HA_BodyBytes_def Let_def w h1_def q1_def)
  then have "HA_BodyBytes (Some h) = (Some h1, Inl (ErrText (''request body exceeds '' @ nat_str (nat mx) @ '' bytes'')))" by (metis prod.collapse)
  moreover have "\<exists>s. NewJourneyRequest media (http_of (Some h1)) '''' = Inr (Some s)"
    using q by (simp add: NewJourneyRequest_def http_of_def h1_def q1_def Let_def split_beta)
  ultimately have "\<exists>s. req_Snapshot media (ReqHTTP (Some h)) = (ReqHTTP (Some h1), Inr s)"
    using q by (auto simp: HA_Snapshot_def http_of_def)
  moreover have "\<exists>r. req_BodyBytes (ReqHTTP (Some h1)) = (r, Inr (drop (nat mx + 1) data))"
    using q assms(2,5) by (simp add: HA_BodyBytes_def Let_def w h1_def q1_def)
  ultimately show ?thesis by blast
qed

text \<open>
  A request body over the limit is not refused by the proxy: taking the snapshot of the request consumes
  the bytes up to the limit and drops the error, and the upstream is sent what is left, the bytes after
  the limit, as the whole body.
\<close>

theorem oversized_body_tail_forwarded:
  assumes "reading_policies (px_policies X)" and "HTTPProxy S X config tx = (tx', Inr ''true'')"
    and "tx_Request tx = Some (ReqHTTP (Some h))" and "unread_body h mx data" and "0 < mx" and "mx + 1 < 2 ^ 63"
    and "mx < int (length data)" and "int (length data) \<le> 2 * mx + 1"
  shows "\<exists>i client target headers response r. transactionHTTPClientInstance X i = Some client \<and>
    client (proxy_method (ReqHTTP (Some h))) target headers (drop (nat mx + 1) data) = Inr response \<and>
    tx_Response tx' = Some r \<and> rs_StatusCode r = ry_Status response \<and> rs_BodyBytesValue r = ry_Body response"
proof -
  from proxy_outcome [OF assms(1,2)] assms(3) obtain req1 snapshot tableo uri where
    s: "req_Snapshot (px_media X) (ReqHTTP (Some h)) = (req1, Inr snapshot)" and
    a: "answered_by_route X tableo (proxy_method (ReqHTTP (Some h))) uri req1 (tx\<lparr>tx_Request := Some req1\<rparr>) tx'" by auto
  from snapshot_then_body [OF assms(4-8), of "px_media X"] s obtain req' where
    "req_BodyBytes req1 = (req', Inr (drop (nat mx + 1) data))" by auto
  with a show ?thesis unfolding answered_by_route_def by (elim exE conjE) (simp, blast)
qed

subsection \<open>Rewrites\<close>

lemma normalized_keep:
  "k \<notin> (\<lambda>p. cleanHTTPRoutePath (fst p)) ` set rs \<Longrightarrow> gm_get (fold (\<lambda>(p, r) m. gm_put (cleanHTTPRoutePath p) r m) rs m0) k = gm_get m0 k"
  by (induction rs arbitrary: m0) auto

lemma normalized_fold:
  "distinct (map (\<lambda>p. cleanHTTPRoutePath (fst p)) rws) \<Longrightarrow> (raw, r) \<in> set rws \<Longrightarrow>
     gm_get (fold (\<lambda>(p, r) m. gm_put (cleanHTTPRoutePath p) r m) rws m0) (cleanHTTPRoutePath raw) = Some r"
proof (induction rws arbitrary: m0)
  case (Cons p rws)
  then show ?case by (cases "p = (raw, r)") (auto simp: normalized_keep split: prod.split)
qed simp

lemma find_longest:
  assumes "find P (sort_key (\<lambda>p. - int (length p)) ps) = Some p"
  shows "p \<in> set ps \<and> P p \<and> (\<forall>q \<in> set ps. P q \<longrightarrow> length q \<le> length p)"
proof -
  let ?s = "sort_key (\<lambda>p. - int (length p)) ps"
  from assms obtain i where i: "i < length ?s" "P (?s ! i)" "p = ?s ! i" "\<forall>j < i. \<not> P (?s ! j)" by (auto simp: find_Some_iff)
  have sorted: "sorted (map (\<lambda>p. - int (length p)) ?s)" by (rule sorted_sort_key)
  have "length q \<le> length p" if q: "q \<in> set ps" "P q" for q
  proof -
    from q(1) obtain j where j: "j < length ?s" "q = ?s ! j" by (metis in_set_conv_nth set_sort)
    with i(4) q(2) have "i \<le> j" by (meson not_le)
    with sorted_nth_mono [OF sorted, of i j] j i(1,3) show ?thesis by (simp del: length_sort)
  qed
  moreover have "p \<in> set ps" using i(1,3) by (metis nth_mem set_sort)
  ultimately show ?thesis using i by auto
qed

text \<open>
  The longest prefix that applies is rewritten: no other applicable prefix is longer, the result is its
  replacement joined with the rest of the path, and a path to which no prefix applies is kept.
\<close>

theorem rewrite_longest_prefix:
  assumes "distinct (map (\<lambda>p. cleanHTTPRoutePath (fst p)) rws)"
  shows "(httpProxyRewritePath path rws = cleanHTTPRoutePath path \<and>
      (\<forall>(raw, r) \<in> set rws. \<not> rewrite_applies (cleanHTTPRoutePath path) (cleanHTTPRoutePath raw))) \<or>
    (\<exists>(raw, r) \<in> set rws. rewrite_applies (cleanHTTPRoutePath path) (cleanHTTPRoutePath raw) \<and>
      (\<forall>(raw', r') \<in> set rws. rewrite_applies (cleanHTTPRoutePath path) (cleanHTTPRoutePath raw') \<longrightarrow>
         length (cleanHTTPRoutePath raw') \<le> length (cleanHTTPRoutePath raw)) \<and>
      httpProxyRewritePath path rws =
        cleanHTTPRoutePath (joinHTTPURLPath r (TrimPrefix (cleanHTTPRoutePath path) (cleanHTTPRoutePath raw))))"
proof -
  let ?ps = "map (\<lambda>p. cleanHTTPRoutePath (fst p)) rws" and ?P = "rewrite_applies (cleanHTTPRoutePath path)"
  show ?thesis
  proof (cases "find ?P (sort_key (\<lambda>p. - int (length p)) ?ps)")
    case None
    then have "httpProxyRewritePath path rws = cleanHTTPRoutePath path" by (simp add: httpProxyRewritePath_def Let_def)
    with None show ?thesis by (intro disjI1) (auto simp: find_None_iff)
  next
    case (Some p)
    note l = find_longest [OF Some]
    then obtain raw r where r: "(raw, r) \<in> set rws" "p = cleanHTTPRoutePath raw" "?P p" by auto
    have longest: "length q \<le> length p" if "q \<in> set ?ps" "?P q" for q using l that by blast
    have "httpProxyRewritePath path rws = cleanHTTPRoutePath (joinHTTPURLPath r (TrimPrefix (cleanHTTPRoutePath path) p))"
      using Some normalized_fold [OF assms r(1), of "[]"] r(2) by (simp add: httpProxyRewritePath_def normalized_rewrites_def Let_def)
    moreover have "length (cleanHTTPRoutePath raw') \<le> length p" if "(raw', r') \<in> set rws" "?P (cleanHTTPRoutePath raw')" for raw' r'
      using longest [of "cleanHTTPRoutePath raw'"] that by force
    ultimately show ?thesis using r by (intro disjI2 bexI [of _ "(raw, r)"]) auto
  qed
qed

subsection \<open>Witnesses\<close>

definition echo_client :: http_client where
  "echo_client meth uri headers body = Inr \<lparr>ry_Status = 200, ry_Headers = [], ry_Body = body\<rparr>"

definition proxy_manager :: "(HTTPRouteTable, unit) Manager" where
  "proxy_manager = \<lparr>m_caches = [(''http_route_table'', [(''main'',
       \<lparr>ci_value = (case NewHTTPRouteTable plain_url (Some sample_routes) of Inl _ \<Rightarrow> DNil | Inr t \<Rightarrow> DPtr t),
        ci_size = 0, ci_recordID = '''', ci_config = ''''\<rparr>)])],
     m_configs = [], m_storage = None, m_instances = 1, m_sizeBytes = 0, m_resolver = None\<rparr>"

definition sample_proxy :: "(gval, HTTPRouteTable, unit, string) proxy_env" where
  "sample_proxy = \<lparr>px_url = plain_url, px_media = (\<lambda>s. (s, [])), px_policies = registerHTTPRouteBuiltInPolicies (\<lambda>p. Inr (\<lambda>s. True)) [],
     px_manager = Some proxy_manager, px_context = True,
     px_table = (\<lambda>v. case v of DPtr t \<Rightarrow> Some (Some t) | _ \<Rightarrow> None), px_client = (\<lambda>v. None), px_Client = Some echo_client\<rparr>"

definition long_request :: HTTPRequestAccessor where
  "long_request = NewHTTPRequestAccessor (Some \<lparr>hq_Method = ''POST'',
     hq_URL = Some \<lparr>ur_Scheme = '''', ur_Host = '''', ur_Path = ''/u'', ur_RawQuery = '''', ur_Query = []\<rparr>,
     hq_RequestURI = ''/u'', hq_Header = [], hq_Host = ''api'', hq_TLS = None, hq_Proto = ''HTTP/1.1'', hq_RemoteAddr = '''',
     hq_Cookies = [], hq_Body = Some (Inr ''abcdefg'')\<rparr>) 3"

definition proxy_tx :: "gval JourneyTransaction" where
  "proxy_tx = (flow_tx [] zero_state)\<lparr>tx_Request := Some (ReqHTTP (Some long_request))\<rparr>"

definition proxy_config :: gval where
  "proxy_config = GObj [(''route_table'', GStr ''main'')]"

lemma proxy_runs:
  "snd (HTTPProxy flow_env sample_proxy proxy_config proxy_tx) = Inr ''true''"
  "map_option rs_BodyBytesValue (tx_Response (fst (HTTPProxy flow_env sample_proxy proxy_config proxy_tx))) = Some ''efg''"
  by code_simp+

theorem proxy_guarded_witness:
  "\<exists>tx' tableo uri req1. HTTPProxy flow_env sample_proxy proxy_config proxy_tx = (tx', Inr ''true'') \<and>
     answered_by_route sample_proxy tableo ''POST'' uri req1 (proxy_tx\<lparr>tx_Request := Some req1\<rparr>) tx'"
proof -
  let ?r = "HTTPProxy flow_env sample_proxy proxy_config proxy_tx"
  have run: "?r = (fst ?r, Inr ''true'')" using proxy_runs(1) by (metis prod.collapse)
  have p: "reading_policies (px_policies sample_proxy)" by (simp add: sample_proxy_def built_in_policies_read)
  have m: "tx_Request proxy_tx = Some (ReqHTTP (Some long_request))" "proxy_method (ReqHTTP (Some long_request)) = ''POST''"
    by code_simp+
  from proxy_guarded [OF p run] m show ?thesis by (subst run) auto
qed

theorem oversized_body_tail_forwarded_witness:
  "\<exists>tx' r. HTTPProxy flow_env sample_proxy proxy_config proxy_tx = (tx', Inr ''true'') \<and>
     tx_Response tx' = Some r \<and> rs_BodyBytesValue r = ''efg'' \<and> unread_body long_request 3 ''abcdefg''"
proof -
  let ?r = "HTTPProxy flow_env sample_proxy proxy_config proxy_tx"
  have run: "?r = (fst ?r, Inr ''true'')" using proxy_runs(1) by (metis prod.collapse)
  have p: "reading_policies (px_policies sample_proxy)" by (simp add: sample_proxy_def built_in_policies_read)
  have h: "tx_Request proxy_tx = Some (ReqHTTP (Some long_request))" "unread_body long_request 3 ''abcdefg''"
    by (simp_all add: proxy_tx_def unread_body_def long_request_def NewHTTPRequestAccessor_def)
  have "(0 :: int) < 3" "(3 :: int) + 1 < 2 ^ 63" "(3 :: int) < int (length ''abcdefg'')" "int (length ''abcdefg'') \<le> 2 * 3 + 1" by simp_all
  from oversized_body_tail_forwarded [OF p run h this] obtain i client target headers response r where
    c: "transactionHTTPClientInstance sample_proxy i = Some client"
      "client (proxy_method (ReqHTTP (Some long_request))) target headers ''efg'' = Inr response"
      "tx_Response (fst ?r) = Some r" "rs_BodyBytesValue r = ry_Body response" by (auto simp: numeral_eq_Suc)
  have "client = echo_client"
    using c(1) by (simp add: transactionHTTPClientInstance_def sample_proxy_def Let_def split: if_splits prod.splits)
  with c(2,4) have "rs_BodyBytesValue r = ''efg''" by (simp add: echo_client_def) (metis http_reply.select_convs(3))
  with run h(2) c(3) show ?thesis by blast
qed

theorem rewrite_longest_prefix_witness:
  "httpProxyRewritePath ''/api/v1/x'' [(''/api'', ''/a''), (''/api/v1'', ''/b'')] = ''/b/x''"
proof -
  let ?rs = "[(''/api'', ''/a''), (''/api/v1'', ''/b'')]"
  have "distinct (map (\<lambda>p. cleanHTTPRoutePath (fst p)) ?rs)" by code_simp
  moreover have "rewrite_applies (cleanHTTPRoutePath ''/api/v1/x'') (cleanHTTPRoutePath ''/api/v1'')"
    "length (cleanHTTPRoutePath ''/api'') < length (cleanHTTPRoutePath ''/api/v1'')" by code_simp+
  moreover have "cleanHTTPRoutePath (joinHTTPURLPath ''/b'' (TrimPrefix (cleanHTTPRoutePath ''/api/v1/x'') (cleanHTTPRoutePath ''/api/v1''))) = ''/b/x''"
    by code_simp
  ultimately show ?thesis using rewrite_longest_prefix [of ?rs "''/api/v1/x''"] by auto
qed

end
