(* ===== verification/ContextFacts.thy ===== *)
theory ContextFacts
  imports ContextSteps OidcFacts HttpProxyFacts
begin

text \<open>
  Facts that span the built-in steps: every step follows an outcome that its configuration declares, and a
  transformation writes the converted values to its targets and to nothing else.
\<close>

subsection \<open>Outcomes\<close>

text \<open>
  A step \<open>declares\<close> outcomes when every outcome it returns is one of them. Where a step may wait for the client,
  the empty outcome is among them.
\<close>

definition declares :: "('c \<Rightarrow> 's \<Rightarrow> 's \<times> string res) \<Rightarrow> string list \<Rightarrow> bool" where
  "declares step os \<longleftrightarrow> (\<forall>config s s' o1. step config s = (s', Inr o1) \<longrightarrow> o1 \<in> set os)"

named_theorems outcomes

lemma declares_Condition [outcomes]: "declares (Condition S) [''true'', ''false'']"
  by (auto simp: declares_def Condition_def Let_def conditionOutcome_def bind_res_Inr_iff split: if_splits)

lemma declares_If [outcomes]: "declares (IfExpression S) [''true'', ''false'']"
  by (auto simp: declares_def IfExpression_def split: prod.splits sum.splits if_splits)

lemma declares_NotEmpty [outcomes]: "declares (NotEmpty S) [''true'', ''false'']"
  by (auto simp: declares_def NotEmpty_def split: if_splits)

lemma declares_Assert [outcomes]: "declares (Assert S) [''valid'', ''invalid'', ''error'']"
  by (auto simp: declares_def Assert_def Let_def split: option.splits prod.splits if_splits)

lemma declares_Retry [outcomes]: "declares (Retry S) [''retry'', ''exhausted'']"
  by (auto simp: declares_def Retry_def Let_def split: option.splits prod.splits if_splits)

lemma form_save_outcome: "form_save S k object items tx = (tx', Inr o1) \<Longrightarrow> o1 = ''true''"
  by (induction S k object items tx rule: form_save.induct) (auto simp: Let_def split: if_splits gval.splits)

lemma declares_Form [outcomes]: "declares (Form S) [''true'', '''']"
  by (auto simp: declares_def Form_def Let_def dest: form_save_outcome
      split: option.splits prod.splits sum.splits if_splits)

lemma declares_SetCtx [outcomes]: "declares (SetCtxProperty S) [''true'', ''false'']"
  by (auto simp: declares_def SetCtxProperty_def Let_def split: option.splits prod.splits sum.splits)

lemma declares_SetStatic [outcomes]: "declares (SetStaticProperty S) [''true'']"
  by (auto simp: declares_def SetStaticProperty_def Let_def split: option.splits prod.splits)

lemma declares_Remove [outcomes]: "declares (RemoveCtxProperty S) [''true'', ''false'']"
  by (auto simp: declares_def RemoveCtxProperty_def split: option.splits prod.splits)

lemma map_prod_Inr [simp]: "map_prod id Inr p = (s', Inr o1) \<longleftrightarrow> p = (s', o1)"
  by (cases p) auto

lemma transform_outcome: "transform_fields S k target fs tx = (tx', o1) \<Longrightarrow> o1 \<in> {''true'', ''error''}"
  by (induction S k target fs tx rule: transform_fields.induct) (auto simp: Let_def split: sum.splits)

lemma declares_Transform [outcomes]: "declares (\<lambda>config tx. map_prod id Inr (Transform S config tx)) [''true'', ''error'']"
  by (auto simp: declares_def Transform_def Let_def dest!: transform_outcome split: option.splits prod.splits)

lemma declares_ExtendExp [outcomes]: "declares (ExtendExp S parse32) [''true'']"
  by (auto simp: declares_def ExtendExp_def split: option.splits)

lemma declares_Metadata [outcomes]: "declares (MetadataStep S) [''true'', '''']"
  by (auto simp: declares_def MetadataStep_def Let_def split: sum.splits)

lemma declares_ReadCookie [outcomes]: "declares (ReadCookie S) [''true'', ''not_found'', ''error'']"
  by (auto simp: declares_def ReadCookie_def Let_def split: option.splits prod.splits if_splits)

lemma set_cookies_outcome: "set_cookies p cs r = (r', Inr o1) \<Longrightarrow> o1 = ''true''"
  by (induction p cs r rule: set_cookies.induct) (auto split: sum.splits)

lemma declares_SetCookie [outcomes]: "declares (SetCookie S rfc3339) [''true'', ''error'']"
  by (auto simp: declares_def SetCookie_def dest!: set_cookies_outcome split: option.splits prod.splits sum.splits if_splits)

lemma declares_HTTPResponse [outcomes]: "declares (HTTPResponse S) [''true'']"
  by (auto simp: declares_def HTTPResponse_def Let_def split: sum.splits if_splits)

lemma declares_HTTPFinishResponse [outcomes]: "declares HTTPFinishResponse [''true'']"
  by (auto simp: declares_def HTTPFinishResponse_def split: if_splits)

lemma declares_VerifyJWT [outcomes]: "declares (\<lambda>config (w, tx). case VerifyJWT S X J now config tx w of (w', tx', o1) \<Rightarrow> ((w', tx'), Inr o1))
    [''valid'', ''invalid'', ''error'']"
  by (auto simp: declares_def VerifyJWT_def Let_def split: sum.splits prod.splits option.splits if_splits)

lemma declares_SignJWT [outcomes]: "declares (\<lambda>config tx. map_prod id Inr (SignJWT S J uuid now config tx)) [''true'', ''error'']"
  by (auto simp: declares_def SignJWT_def split: sum.splits prod.splits option.splits)

lemma start_outcome: "startAuthorization S X J D config base tx = (tx', Inr o1) \<Longrightarrow> o1 \<in> {'''', ''false''}"
  by (auto simp: startAuthorization_def Let_def oidc_reject_def split: sum.splits prod.splits)

lemma declares_OIDC [outcomes]: "declares (OIDCAuthorizationCode S X J D) [''true'', ''false'', '''']"
  by (auto simp: declares_def oidc_run elim!: callback_cleans dest!: start_outcome split: if_splits sum.splits)

lemma cache_output_outcome: "cache_output S config r tx = (tx', o1) \<Longrightarrow> o1 \<in> {''true'', ''error''}"
  by (auto simp: cache_output_def split: sum.splits prod.splits option.splits)


lemma declares_CacheGet [outcomes]:
  "declares (\<lambda>config (w, tx). case ScheduleCacheGet S c m config w tx of None \<Rightarrow> ((w, tx), Inl ErrJourneyFailure) | Some (w', tx', o1) \<Rightarrow> ((w', tx'), Inr o1))
    [''true'', ''error'']"
  by (auto simp: declares_def ScheduleCacheGet_def dest!: cache_output_outcome split: sum.splits prod.splits option.splits)

lemma declares_CacheRefresh [outcomes]:
  "declares (\<lambda>config (w, tx). case ScheduleCacheRefresh S c m config w tx of None \<Rightarrow> ((w, tx), Inl ErrJourneyFailure) | Some (w', tx', o1) \<Rightarrow> ((w', tx'), Inr o1))
    [''true'', ''error'']"
  by (auto simp: declares_def ScheduleCacheRefresh_def dest!: cache_output_outcome split: sum.splits prod.splits option.splits)

lemma declares_CacheClear [outcomes]:
  "declares (\<lambda>config (w, tx). case ScheduleCacheClear S c m config w tx of (w', tx', o1) \<Rightarrow> ((w', tx'), Inr o1)) [''true'', ''error'']"
  by (auto simp: declares_def ScheduleCacheClear_def split: sum.splits prod.splits option.splits)

lemma pick_some: "pick S ps point c names = Some name \<Longrightarrow> name \<in> set names"
  by (induction names arbitrary: c) (auto simp: Let_def split: if_splits)

lemma sum_matched: "sum_probabilities S outs ps t = Some t' \<Longrightarrow> (name, raw) \<in> set ps \<Longrightarrow> gm_get outs name \<noteq> None"
  by (induction S outs ps t rule: sum_probabilities.induct) (auto simp: Let_def split: if_splits)

lemma random_configured:
  assumes "Random S point config = Inr name" "tm_as_map (sp_tree S) (tm_get (sp_tree S) config ''outcome'') = Some outs"
  shows "gm_get outs name \<noteq> None"
proof -
  from assms obtain ps t n where p: "ps \<noteq> []" "sum_probabilities S outs ps 0 = Some t"
    "name = or_default (pick S ps (f64_ratio n 10000) 0 (sort (map fst ps))) (last (sort (map fst ps)))"
    by (auto simp: Random_def Let_def bind_res_Inr_iff split: option.splits if_splits)
  have "sort (map fst ps) \<noteq> []" using p(1) by (metis length_0_conv length_map length_sort)
  then have "last (sort (map fst ps)) \<in> set (sort (map fst ps))" by (rule last_in_set)
  then have "name \<in> set (sort (map fst ps))"
    using p(3) pick_some [of S ps "f64_ratio n 10000" 0 "sort (map fst ps)"] by (cases "pick S ps (f64_ratio n 10000) 0 (sort (map fst ps))") auto
  then obtain raw where "(name, raw) \<in> set ps" by auto
  then show ?thesis by (rule sum_matched [OF p(2)])
qed



subsection \<open>Transformations\<close>

text \<open>The law for values of any kind: what was set is read back, nil as no value.\<close>

locale value_tree = path_tree +
  assumes set_value: "p \<noteq> '''' \<Longrightarrow> get_any_or T (tm_set T t p v) p GNil = v"
begin

text \<open>Setting values at paths that are apart from one another, one after the other.\<close>

lemma sets_apart: "q \<noteq> '''' \<Longrightarrow> list_all (\<lambda>(p, v). p \<noteq> '''' \<and> apart p q) ps \<Longrightarrow> tm_get T (fold (\<lambda>(p, v) t. tm_set T t p v) ps t) q = tm_get T t q"
  by (induction ps arbitrary: t) (auto simp: set_apart)

lemma sets_value:
  assumes "(p, v) \<in> set ps" "list_all (\<lambda>(p, v). p \<noteq> '''') ps" "sorted_wrt (\<lambda>x y. apart (fst y) (fst x)) ps"
  shows "get_any_or T (fold (\<lambda>(p, v) t. tm_set T t p v) ps t) p GNil = v"
  using assms
proof (induction ps arbitrary: t)
  case (Cons x ps)
  show ?case
  proof (cases "x = (p, v)")
    case True
    have "p \<noteq> ''''" using Cons.prems(2) True by simp
    moreover have "list_all (\<lambda>(p', v). p' \<noteq> '''' \<and> apart p' p) ps"
      using Cons.prems(2,3) True by (auto simp: list_all_iff)
    ultimately have "tm_get T (fold (\<lambda>(p, v) t. tm_set T t p v) ps (tm_set T t p v)) p = tm_get T (tm_set T t p v) p" by (rule sets_apart)
    then show ?thesis using set_value [OF \<open>p \<noteq> ''''\<close>] True by (simp add: get_any_or_def)
  next
    case False
    then show ?thesis using Cons by auto
  qed
qed simp

end

interpretation ref_value: value_tree ref_tree
  by unfold_locales (auto simp: ref_tree_def rt_path_def rt_get_set get_any_or_def)

text \<open>The path a field is written to.\<close>

definition field_path :: "'t step_env \<Rightarrow> string \<Rightarrow> 't \<Rightarrow> string" where
  "field_path S target field = (if target \<noteq> '''' then target @ ''.'' @ cfg_str S field ''target'' '''' else cfg_str S field ''target'' '''')"

definition field_result :: "'t step_env \<Rightarrow> 't \<Rightarrow> gval res" where
  "field_result S field = transformValue S (get_any_or (sp_tree S) field ''value'' GNil) (cfg_str S field ''type'' '''')"

lemma transform_sets:
  assumes "transform_fields S k target fs tx = (tx', ''true'')"
  shows "list_all (\<lambda>f. isl (field_result S f) = False) fs"
    "ctx_view S k tx' = fold (\<lambda>(p, v) t. tm_set (sp_tree S) t p v) (map (\<lambda>f. (field_path S target f, projr (field_result S f))) fs) (ctx_view S k tx)"
    "k' \<noteq> k \<Longrightarrow> ctx_view S k' tx' = ctx_view S k' tx"
  using assms
  by (induction S k target fs tx rule: transform_fields.induct) (auto simp: Let_def field_path_def field_result_def split: sum.splits)

text \<open>The step \<open>Transform\<close> that follows \<open>true\<close> has converted every field and written it: where the targets are paths
  apart from one another, the context holds at each target the converted value of its field; paths apart
  from all targets and the other contexts are unchanged (with \<open>merge\<close>, or without a common parent).\<close>

theorem transform_writes:
  assumes T: "value_tree (sp_tree S)" and run: "Transform S config tx = (tx', ''true'')"
    and k: "ctx_kind_of (cfg_str S config ''target_context'' ''ctx'') = Some k"
    and fs: "tm_as_slice (sp_tree S) (tm_get (sp_tree S) config ''fields'') = Some fs"
    and paths: "list_all (\<lambda>f. field_path S (cfg_str S config ''target'' '''') f \<noteq> '''') fs"
      "sorted_wrt (\<lambda>f g. apart (field_path S (cfg_str S config ''target'' '''') g) (field_path S (cfg_str S config ''target'' '''') f)) fs"
  shows "(\<forall>f \<in> set fs. \<exists>v. field_result S f = Inr v \<and>
      get_any_or (sp_tree S) (ctx_view S k tx') (field_path S (cfg_str S config ''target'' '''') f) GNil = v)
    \<and> (\<forall>q. q \<noteq> '''' \<and> list_all (\<lambda>f. apart (field_path S (cfg_str S config ''target'' '''') f) q) fs
        \<and> (cfg_str S config ''target'' '''' = '''' \<or> get_bool_or (sp_tree S) config ''merge'' True)
        \<longrightarrow> tm_get (sp_tree S) (ctx_view S k tx') q = tm_get (sp_tree S) (ctx_view S k tx) q)
    \<and> (\<forall>k'. k' \<noteq> k \<longrightarrow> ctx_view S k' tx' = ctx_view S k' tx)"
proof -
  let ?target = "cfg_str S config ''target'' ''''" and ?ps = "map (\<lambda>f. (field_path S (cfg_str S config ''target'' '''') f, projr (field_result S f))) fs"
  define tx1 where "tx1 = fst (named_ctx S (cfg_str S config ''target_context'' ''ctx'') tx)"
  define tx2 where "tx2 = (if ?target \<noteq> '''' \<and> \<not> get_bool_or (sp_tree S) config ''merge'' True then ctx_delete S k ?target tx1 else tx1)"
  have n: "named_ctx S (cfg_str S config ''target_context'' ''ctx'') tx = (tx1, Some k)" using k by (metis prod.collapse snd_named tx1_def)
  then have "transform_fields S k ?target fs tx2 = (tx', ''true'')" using run fs by (simp add: Transform_def tx2_def Let_def)
  note t = transform_sets [OF this]
  have ps: "list_all (\<lambda>(p, v). p \<noteq> '''') ?ps" "sorted_wrt (\<lambda>x y. apart (fst y) (fst x)) ?ps"
    using paths by (simp_all add: list_all_iff sorted_wrt_map)
  have "\<exists>v. field_result S f = Inr v \<and> get_any_or (sp_tree S) (ctx_view S k tx') (field_path S ?target f) GNil = v" if f: "f \<in> set fs" for f
  proof -
    have "(field_path S ?target f, projr (field_result S f)) \<in> set ?ps" using f by auto
    then have "get_any_or (sp_tree S) (ctx_view S k tx') (field_path S ?target f) GNil = projr (field_result S f)"
      unfolding t(2) by (rule value_tree.sets_value [OF T _ ps])
    moreover have "\<not> isl (field_result S f)" using t(1) f by (simp add: list_all_iff)
    ultimately show ?thesis by (cases "field_result S f") auto
  qed
  moreover have "tm_get (sp_tree S) (ctx_view S k tx') q = tm_get (sp_tree S) (ctx_view S k tx) q"
    if q: "q \<noteq> ''''" "list_all (\<lambda>f. apart (field_path S ?target f) q) fs" "?target = '''' \<or> get_bool_or (sp_tree S) config ''merge'' True" for q
  proof -
    have "tx2 = tx1" using q(3) by (auto simp: tx2_def)
    moreover have "list_all (\<lambda>(p, v). p \<noteq> '''' \<and> apart p q) ?ps" using q(2) paths(1) by (simp add: list_all_iff)
    ultimately show ?thesis using value_tree.sets_apart [OF T q(1)] by (simp add: t(2) tx1_def)
  qed
  moreover have "ctx_view S k' tx' = ctx_view S k' tx" if "k' \<noteq> k" for k'
    using t(3) [OF that] that by (simp add: tx2_def tx1_def)
  ultimately show ?thesis by blast
qed

definition transform_config :: gval where
  "transform_config = GObj [(''target'', GStr ''user''), (''fields'', GArr [GObj [(''target'', GStr ''name''), (''value'', GStr ''ada'')],
     GObj [(''target'', GStr ''admin''), (''value'', GStr ''true''), (''type'', GStr ''bool'')]])]"

lemma transform_sample: "snd (Transform flow_env transform_config (flow_tx [] zero_state)) = ''true''"
  by code_simp

theorem transform_writes_witness:
  "get_any_or (sp_tree flow_env) (ctx_view flow_env KCtx (fst (Transform flow_env transform_config (flow_tx [] zero_state)))) ''user.admin'' GNil = GBool True"
proof -
  obtain tx' where r: "Transform flow_env transform_config (flow_tx [] zero_state) = (tx', ''true'')"
    by (metis (mono_tags) prod.collapse transform_sample)
  define fs where "fs = [GObj [(''target'', GStr ''name''), (''value'', GStr ''ada'')],
     GObj [(''target'', GStr ''admin''), (''value'', GStr ''true''), (''type'', GStr ''bool'')]]"
  have T: "value_tree (sp_tree flow_env)" using ref_value.value_tree_axioms by (simp add: flow_env_def)
  have f: "tm_as_slice (sp_tree flow_env) (tm_get (sp_tree flow_env) transform_config ''fields'') = Some fs"
    unfolding fs_def by code_simp
  have c: "ctx_kind_of (cfg_str flow_env transform_config ''target_context'' ''ctx'') = Some KCtx" by code_simp
  have p: "list_all (\<lambda>f. field_path flow_env (cfg_str flow_env transform_config ''target'' '''') f \<noteq> '''') fs"
    "sorted_wrt (\<lambda>f g. apart (field_path flow_env (cfg_str flow_env transform_config ''target'' '''') g)
       (field_path flow_env (cfg_str flow_env transform_config ''target'' '''') f)) fs"
    unfolding fs_def by code_simp+
  have x: "field_path flow_env (cfg_str flow_env transform_config ''target'' '''') (fs ! 1) = ''user.admin''" "field_result flow_env (fs ! 1) = Inr (GBool True)"
    unfolding fs_def by code_simp+
  have "fs ! 1 \<in> set fs" by (simp add: fs_def)
  then show ?thesis
    using conjunct1 [OF transform_writes [OF T r c f p]] x by (auto simp: r)
qed

end
