(* ===== verification/RestRoutes.thy ===== *)
theory RestRoutes
  imports JourneyConfig
begin

text \<open>
  \<^verbatim>\<open>rest.api.go\<close>, the addresses: the route templates of the REST API and their configuration, the
  registration of the handlers with their middleware, and the resolution of a request path to a
  resource journey through the route cache. The router itself (gin) is not part of the program: a
  registration is the list of what the program hands to it. The configuration reader \<^verbatim>\<open>goconf\<close>
  is the function \<open>conf\<close>, whose errors include the panics that the readers recover from. A journey
  storage is seen through \<open>load\<close> and the list of its cache.
\<close>

subsection \<open>Paths\<close>

definition normalizeRoutePath :: "string \<Rightarrow> string" where
  "normalizeRoutePath s =
     (let v = TrimSpace s in
      if v = '''' then ''''
      else let parts = filter (\<lambda>part. part \<noteq> '''') (Split v (CHR ''/'')) in
           if length parts = 0 then '''' else ''/'' @ Join parts ''/'')"

definition normalizeRESTBasePath :: "string \<Rightarrow> string" where
  "normalizeRESTBasePath s =
     (let v = ''/'' @ Trim (TrimSpace s) (CHR ''/'') in if v = ''/'' then '''' else v)"

definition resourceJourneyPath :: "string \<Rightarrow> string \<Rightarrow> string \<times> bool" where
  "resourceJourneyPath base requestPath =
     (let basePath = TrimRight base (CHR ''/'') in
      if basePath = '''' then (normalizeRoutePath requestPath, True)
      else if requestPath = basePath then ('''', True)
      else if \<not> HasPrefix requestPath (basePath @ ''/'') then ('''', False)
      else (normalizeRoutePath (TrimPrefix requestPath basePath), True))"

definition resourcePathForPrefix :: "string \<Rightarrow> string \<Rightarrow> string" where
  "resourcePathForPrefix path pre =
     (let routePath = normalizeRoutePath path; prefix = normalizeRoutePath pre in
      if routePath = prefix then ''/''
      else let resourcePath = TrimPrefix routePath prefix in
           if resourcePath = '''' then ''/''
           else if \<not> HasPrefix resourcePath ''/'' then ''/'' @ resourcePath
           else resourcePath)"

subsection \<open>The route cache\<close>

text \<open>A nil cache is \<open>None\<close>. Every method holds the cache's lock for the whole of its body.\<close>

type_synonym journeyRouteCache = "string gomap option"

definition newJourneyRouteCache :: journeyRouteCache where
  "newJourneyRouteCache = Some []"

definition routeCacheKey :: "string \<Rightarrow> string" where
  "routeCacheKey prefix = normalizeRoutePath prefix"

definition rc_Get :: "string \<Rightarrow> journeyRouteCache \<Rightarrow> string option" where
  "rc_Get prefix cache = (case cache of None \<Rightarrow> None | Some entries \<Rightarrow> gm_get entries (routeCacheKey prefix))"

definition rc_Set :: "string \<Rightarrow> string \<Rightarrow> journeyRouteCache \<Rightarrow> journeyRouteCache" where
  "rc_Set prefix journeyID cache =
     (if cache = None \<or> journeyID = '''' then cache
      else map_option (gm_put (routeCacheKey prefix) journeyID) cache)"

definition rc_Delete :: "string \<Rightarrow> journeyRouteCache \<Rightarrow> journeyRouteCache" where
  "rc_Delete prefix cache = map_option (gm_del (routeCacheKey prefix)) cache"

definition rc_Clear :: "journeyRouteCache \<Rightarrow> journeyRouteCache" where
  "rc_Clear cache = map_option (\<lambda>_. []) cache"

subsection \<open>Resolution of resource journeys\<close>

record restRouteJourneyMatch =
  rj_Journey :: JourneyConfiguration
  rj_RoutePrefix :: string
  rj_ResourcePath :: string

definition routeJourneyMatches :: "JourneyConfiguration option \<Rightarrow> string \<Rightarrow> bool" where
  "routeJourneyMatches journey prefix =
     (case journey of
        None \<Rightarrow> False
      | Some j \<Rightarrow> if \<not> jc_Active j \<or> normalizeRoutePath (jc_Name j) \<noteq> prefix then False
                  else NormalizeJourneyType (jc_JourneyType j) = ResourceJourney)"

fun find_resource :: "string \<Rightarrow> JourneyConfiguration option list \<Rightarrow> JourneyConfiguration option" where
  "find_resource prefix [] = None"
| "find_resource prefix (j # js) = (if routeJourneyMatches j prefix then j else find_resource prefix js)"

text \<open>The journey listed first is the match; \<open>listed\<close> is \<^verbatim>\<open>ListOfCache()\<close>.\<close>

definition findRouteJourneyByName :: "JourneyConfiguration option list \<Rightarrow> string \<Rightarrow> JourneyConfiguration option" where
  "findRouteJourneyByName listed prefix = find_resource prefix listed"

text \<open>The cached identifier is used when the journey it names still matches, and forgotten otherwise.
  \<^verbatim>\<open>journey.ID\<close> of a journey without metadata is a nil dereference.\<close>

definition cached_route :: "(string \<Rightarrow> JourneyConfiguration option res) \<Rightarrow> string \<Rightarrow> journeyRouteCache
    \<Rightarrow> journeyRouteCache \<times> JourneyConfiguration option" where
  "cached_route load prefix cache =
     (case rc_Get prefix cache of
        None \<Rightarrow> (cache, None)
      | Some journeyID \<Rightarrow>
          (case load journeyID of
             Inr journey \<Rightarrow> if routeJourneyMatches journey prefix then (cache, journey) else (rc_Delete prefix cache, None)
           | Inl e \<Rightarrow> (rc_Delete prefix cache, None)))"

definition route_match :: "string \<Rightarrow> string \<Rightarrow> JourneyConfiguration \<Rightarrow> restRouteJourneyMatch" where
  "route_match path prefix j = \<lparr>rj_Journey = j, rj_RoutePrefix = prefix, rj_ResourcePath = resourcePathForPrefix path prefix\<rparr>"

definition resolveRouteJourney :: "(string \<Rightarrow> JourneyConfiguration option res) \<Rightarrow> JourneyConfiguration option list \<Rightarrow> string
    \<Rightarrow> journeyRouteCache \<Rightarrow> journeyRouteCache \<times> restRouteJourneyMatch option res" where
  "resolveRouteJourney load listed routePath cache =
     (let normalizedPath = normalizeRoutePath routePath in
      if normalizedPath = '''' then (cache, Inr None)
      else let prefix = ''/'' @ hd (Split (TrimPrefix normalizedPath ''/'') (CHR ''/'')) in
           (case cached_route load prefix cache of
              (cache1, Some j) \<Rightarrow> (cache1, Inr (Some (route_match normalizedPath prefix j)))
            | (cache1, None) \<Rightarrow>
                (case findRouteJourneyByName listed prefix of
                   None \<Rightarrow> (cache1, Inr None)
                 | Some j \<Rightarrow>
                     if jc_Metadata j = None then (cache1, Inl (GoPanic ''nil pointer dereference''))
                     else (rc_Set prefix (jc_ID j) cache1, Inr (Some (route_match normalizedPath prefix j))))))"

text \<open>The parameters of the path that routed the request here are not those of the resource journey.\<close>

definition clearRESTResourceRouteParams :: "(string \<times> string) list \<Rightarrow> (string \<times> string) list" where
  "clearRESTResourceRouteParams ps = filter (\<lambda>(key, v). key \<notin> set [''realm'', ''journeyId'', ''routePath'']) ps"

subsection \<open>Route templates\<close>

fun clean_templates :: "(string \<Rightarrow> bool) \<Rightarrow> string list \<Rightarrow> string list \<Rightarrow> string list" where
  "clean_templates reject seen [] = []"
| "clean_templates reject seen (v # vs) =
     (let value = Trim (TrimSpace v) (CHR ''/'') in
      if value = '''' \<or> reject value then clean_templates reject seen vs
      else if value \<in> set seen then clean_templates reject seen vs
      else value # clean_templates reject (value # seen) vs)"

definition cleanRouteTemplates :: "string list \<Rightarrow> string list" where
  "cleanRouteTemplates vs = clean_templates (\<lambda>v. Contains v ''*'') [] vs"

fun wildcard_segments_ok :: "string list \<Rightarrow> bool" where
  "wildcard_segments_ok [] = True"
| "wildcard_segments_ok (segment # rest) =
     (if Contains segment ''*'' \<and> (\<not> HasPrefix segment ''*'' \<or> segment = ''*'' \<or> rest \<noteq> []) then False
      else wildcard_segments_ok rest)"

definition cleanRouteTemplatesWithWildcard :: "string list \<Rightarrow> string list" where
  "cleanRouteTemplatesWithWildcard vs = clean_templates (\<lambda>v. \<not> wildcard_segments_ok (Split v (CHR ''/''))) [] vs"

definition routeParamSet :: "string \<Rightarrow> string list" where
  "routeParamSet route = filter (\<lambda>segment. HasPrefix segment '':'' \<or> HasPrefix segment ''*'') (Split route (CHR ''/''))"

fun check_route :: "string \<Rightarrow> string \<Rightarrow> string list \<Rightarrow> unit res" where
  "check_route name route [] = Inr ()"
| "check_route name route (required # rest) =
     (if required \<notin> set (routeParamSet route)
      then Inl (ErrText (''REST API '' @ name @ '' route '' @ route @ '' must include '' @ required))
      else check_route name route rest)"

fun check_routes :: "string \<Rightarrow> string list \<Rightarrow> string list \<Rightarrow> unit res" where
  "check_routes name requiredParams [] = Inr ()"
| "check_routes name requiredParams (route # routes) =
     bind_res (check_route name route requiredParams) (\<lambda>_. check_routes name requiredParams routes)"

definition validateRESTRouteTemplates :: "string \<Rightarrow> string list \<Rightarrow> string list \<Rightarrow> unit res" where
  "validateRESTRouteTemplates name routes requiredParams =
     (if length routes = 0 then Inl (ErrText (''REST API '' @ name @ '' must contain at least one route''))
      else check_routes name requiredParams routes)"

subsection \<open>Configuration\<close>

text \<open>\<open>Inl\<close> is a missing field, a field of another type, or the panic of an unloaded configuration.\<close>

definition GetJourneyField :: "(string \<Rightarrow> 'a res) \<Rightarrow> string \<Rightarrow> 'a res" where
  "GetJourneyField conf name = conf (''journey.'' @ name)"

definition restConfigStringSlice :: "(string \<Rightarrow> string list res) \<Rightarrow> string \<Rightarrow> string list option" where
  "restConfigStringSlice conf key = (case GetJourneyField conf key of Inl e \<Rightarrow> None | Inr vs \<Rightarrow> Some vs)"

definition restConfigString :: "(string \<Rightarrow> string res) \<Rightarrow> string \<Rightarrow> string \<Rightarrow> string" where
  "restConfigString conf key dflt = (case GetJourneyField conf key of Inl e \<Rightarrow> dflt | Inr v \<Rightarrow> v)"

definition restConfigBool :: "(string \<Rightarrow> bool res) \<Rightarrow> string \<Rightarrow> bool \<Rightarrow> bool" where
  "restConfigBool conf key dflt = (case GetJourneyField conf key of Inl e \<Rightarrow> dflt | Inr v \<Rightarrow> v)"

fun configured_templates :: "(string list \<Rightarrow> string list) \<Rightarrow> (string \<Rightarrow> string list res) \<Rightarrow> string list \<Rightarrow> string list option" where
  "configured_templates clean conf [] = None"
| "configured_templates clean conf (key # keys) =
     (case restConfigStringSlice conf (''rest_api.routes.'' @ key) of
        None \<Rightarrow> configured_templates clean conf keys
      | Some configured \<Rightarrow> if length (clean configured) > 0 then Some (clean configured)
                           else configured_templates clean conf keys)"

definition templates_from :: "(string list \<Rightarrow> string list) \<Rightarrow> (string \<Rightarrow> string list res) \<Rightarrow> string list \<Rightarrow> string list \<Rightarrow> string list \<Rightarrow> string list" where
  "templates_from clean conf overrides defaults keys =
     (if length (clean overrides) > 0 then clean overrides
      else or_default (configured_templates clean conf keys) (clean defaults))"

definition restRouteTemplates :: "(string \<Rightarrow> string list res) \<Rightarrow> string list \<Rightarrow> string list \<Rightarrow> string list \<Rightarrow> string list" where
  "restRouteTemplates conf overrides defaults keys = templates_from cleanRouteTemplates conf overrides defaults keys"

definition restWildcardRouteTemplates :: "(string \<Rightarrow> string list res) \<Rightarrow> string list \<Rightarrow> string list \<Rightarrow> string list \<Rightarrow> string list" where
  "restWildcardRouteTemplates conf overrides defaults keys = templates_from cleanRouteTemplatesWithWildcard conf overrides defaults keys"

record RESTAPIRoutes =
  ra_Journeys :: "string list"
  ra_JourneyItems :: "string list"
  ra_Scripts :: "string list"
  ra_ScriptItems :: "string list"
  ra_ScriptBindings :: "string list"
  ra_ScriptTypeBindings :: "string list"
  ra_Schemas :: "string list"
  ra_SchemaItems :: "string list"
  ra_Schedules :: "string list"
  ra_ScheduleItems :: "string list"
  ra_ScheduleTriggers :: "string list"
  ra_Instances :: "string list"
  ra_InstanceItems :: "string list"
  ra_InstanceSchemas :: "string list"
  ra_InstanceSchemaItems :: "string list"
  ra_StepSchemas :: "string list"
  ra_StepSchemaItems :: "string list"
  ra_Invoke :: "string list"
  ra_RouteInvoke :: "string list"

definition no_routes :: RESTAPIRoutes where
  "no_routes = \<lparr>ra_Journeys = [], ra_JourneyItems = [], ra_Scripts = [], ra_ScriptItems = [], ra_ScriptBindings = [],
     ra_ScriptTypeBindings = [], ra_Schemas = [], ra_SchemaItems = [], ra_Schedules = [], ra_ScheduleItems = [],
     ra_ScheduleTriggers = [], ra_Instances = [], ra_InstanceItems = [], ra_InstanceSchemas = [],
     ra_InstanceSchemaItems = [], ra_StepSchemas = [], ra_StepSchemaItems = [], ra_Invoke = [], ra_RouteInvoke = []\<rparr>"

definition route_templates :: "(string \<Rightarrow> string list res) \<Rightarrow> RESTAPIRoutes \<Rightarrow> RESTAPIRoutes" where
  "route_templates conf overrides = \<lparr>
     ra_Journeys = restRouteTemplates conf (ra_Journeys overrides) [''/:realm''] [''journey_routes'', ''journeys''],
     ra_JourneyItems = restRouteTemplates conf (ra_JourneyItems overrides) [''/:realm/:journeyId''] [''journey_item_routes'', ''journey_items''],
     ra_Scripts = restRouteTemplates conf (ra_Scripts overrides) [''/:realm/scripts''] [''script_routes'', ''scripts''],
     ra_ScriptItems = restRouteTemplates conf (ra_ScriptItems overrides) [''/:realm/scripts/:scriptId''] [''script_item_routes'', ''script_items''],
     ra_ScriptBindings = restRouteTemplates conf (ra_ScriptBindings overrides) [''/:realm/scripts/:scriptId/bindings''] [''script_binding_routes'', ''script_bindings''],
     ra_ScriptTypeBindings = restRouteTemplates conf (ra_ScriptTypeBindings overrides) [''/:realm/script-bindings''] [''script_type_binding_routes'', ''script_type_bindings''],
     ra_Schemas = restRouteTemplates conf (ra_Schemas overrides) [''/:realm/schemas''] [''schema_routes'', ''schemas''],
     ra_SchemaItems = restRouteTemplates conf (ra_SchemaItems overrides) [''/:realm/schemas/:schemaId''] [''schema_item_routes'', ''schema_items''],
     ra_Schedules = restRouteTemplates conf (ra_Schedules overrides) [''/:realm/schedules''] [''schedule_routes'', ''schedules''],
     ra_ScheduleItems = restRouteTemplates conf (ra_ScheduleItems overrides) [''/:realm/schedules/:scheduleId''] [''schedule_item_routes'', ''schedule_items''],
     ra_ScheduleTriggers = restRouteTemplates conf (ra_ScheduleTriggers overrides) [''/:realm/schedules/:scheduleId/trigger''] [''schedule_trigger_routes'', ''schedule_triggers''],
     ra_Instances = restRouteTemplates conf (ra_Instances overrides) [''/:realm/instances''] [''instance_routes'', ''instances''],
     ra_InstanceItems = restRouteTemplates conf (ra_InstanceItems overrides) [''/:realm/instances/:cacheKey/:instanceId''] [''instance_item_routes'', ''instance_items''],
     ra_InstanceSchemas = restRouteTemplates conf (ra_InstanceSchemas overrides) [''/:realm/instance-schemas''] [''instance_schema_routes'', ''instance_schemas''],
     ra_InstanceSchemaItems = restRouteTemplates conf (ra_InstanceSchemaItems overrides) [''/:realm/instance-schemas/:cacheKey''] [''instance_schema_item_routes'', ''instance_schema_items''],
     ra_StepSchemas = restRouteTemplates conf (ra_StepSchemas overrides) [''/step-schemas''] [''step_schema_routes'', ''step_schemas''],
     ra_StepSchemaItems = restRouteTemplates conf (ra_StepSchemaItems overrides) [''/step-schemas/:stepType''] [''step_schema_item_routes'', ''step_schema_items''],
     ra_Invoke = restRouteTemplates conf (ra_Invoke overrides) [''/:realm/invoke''] [''invoke_routes'', ''invoke''],
     ra_RouteInvoke = []\<rparr>"

text \<open>The templates of a group with the parameters its handlers read, in the order they are validated.\<close>

definition route_checks :: "RESTAPIRoutes \<Rightarrow> (string \<times> string list \<times> string list) list" where
  "route_checks r = [
     (''journey_routes'', ra_Journeys r, []), (''journey_item_routes'', ra_JourneyItems r, ['':journeyId'']),
     (''script_routes'', ra_Scripts r, []), (''script_item_routes'', ra_ScriptItems r, ['':scriptId'']),
     (''script_binding_routes'', ra_ScriptBindings r, ['':scriptId'']),
     (''script_type_binding_routes'', ra_ScriptTypeBindings r, []),
     (''schema_routes'', ra_Schemas r, []), (''schema_item_routes'', ra_SchemaItems r, ['':schemaId'']),
     (''schedule_routes'', ra_Schedules r, []), (''schedule_item_routes'', ra_ScheduleItems r, ['':scheduleId'']),
     (''schedule_trigger_routes'', ra_ScheduleTriggers r, ['':scheduleId'']),
     (''instance_routes'', ra_Instances r, []),
     (''instance_item_routes'', ra_InstanceItems r, ['':cacheKey'', '':instanceId'']),
     (''instance_schema_routes'', ra_InstanceSchemas r, []),
     (''instance_schema_item_routes'', ra_InstanceSchemaItems r, ['':cacheKey'']),
     (''step_schema_routes'', ra_StepSchemas r, []), (''step_schema_item_routes'', ra_StepSchemaItems r, ['':stepType'']),
     (''invoke_routes'', ra_Invoke r, [])]"

fun validate_groups :: "(string \<times> string list \<times> string list) list \<Rightarrow> unit res" where
  "validate_groups [] = Inr ()"
| "validate_groups ((name, routes, params) # rest) =
     bind_res (validateRESTRouteTemplates name routes params) (\<lambda>_. validate_groups rest)"

definition restAPIRoutes :: "(string \<Rightarrow> string list res) \<Rightarrow> RESTAPIRoutes \<Rightarrow> RESTAPIRoutes res" where
  "restAPIRoutes conf overrides =
     (let routes = route_templates conf overrides in
      bind_res (validate_groups (route_checks routes)) (\<lambda>_. Inr routes))"

subsection \<open>Registration\<close>

datatype rest_handler =
    ListStepSchemas | GetStepSchemaH | ListInstanceSchemas | GetInstanceSchemaH
  | ListJourneys | SaveJourneyH | ListScripts | SaveScriptH | ListScriptTypeBindings | GetScriptBindingsH
  | ListSchemas | SaveSchemaH | ListSchedules | SaveScheduleH | GetSchemaH | DeleteSchemaH
  | GetScheduleH | DeleteScheduleH | TriggerScheduleH | GetScriptH | DeleteScriptH
  | ListInstances | GetInstanceH | SaveInstanceH | DeleteInstanceH
  | InvokeJourneyH | GetJourneyH | DeleteJourneyH | InvokeRouteJourneyH

datatype 'm middleware = Configured 'm | AccessEvents

record 'm route =
  ro_Method :: string
  ro_Base :: string
  ro_Template :: string
  ro_Middleware :: "'m middleware list"
  ro_Handler :: rest_handler

record ('m, 'j, 'sc, 'sh, 'sd) RESTAPIConfig =
  cf_Enabled :: bool
  cf_Router :: "bool option"
  cf_BasePath :: string
  cf_Routes :: RESTAPIRoutes
  cf_UIEnabled :: bool
  cf_UIPath :: string
  cf_Middleware :: "'m list"
  cf_AdminMiddleware :: "'m list"
  cf_InvocationMiddleware :: "'m list"
  cf_JourneyStorage :: "'j option"
  cf_ScriptStorage :: "'sc option"
  cf_SchemaStorage :: "'sh option"
  cf_ScheduleStorage :: "'sd option"
  cf_MaxBodyBytes :: int
  cf_ReturnVars :: bool

text \<open>\<open>cf_Router\<close> is nil or tells whether the router supports \<^verbatim>\<open>NoRoute\<close>. What the manager and its
  cache manager offer when the configuration names no storage:\<close>

record ('j, 'sc, 'sh, 'sd) rest_defaults =
  df_journeys :: "'j option"
  df_scripts :: "'sc option"
  df_schemas :: "'sh option"
  df_cachedSchemas :: "'sh option"
  df_schedules :: "'sd option"

record ('m, 'j, 'sc, 'sh, 'sd) restAPI =
  api_journeys :: 'j
  api_scripts :: 'sc
  api_schemas :: 'sh
  api_schedules :: "'sd option"
  api_maxBodyBytes :: int
  api_basePath :: string
  api_routeCache :: journeyRouteCache
  api_ui :: "string option"
  api_routes :: "'m route list"
  api_noRoute :: "'m middleware list"

definition defaultRESTMaxBodyBytes :: int where
  "defaultRESTMaxBodyBytes = 1048576"

definition restUIEnabled :: "(string \<Rightarrow> bool res) \<Rightarrow> ('m, 'j, 'sc, 'sh, 'sd) RESTAPIConfig option \<Rightarrow> bool" where
  "restUIEnabled conf config =
     ((case config of None \<Rightarrow> False | Some c \<Rightarrow> cf_UIEnabled c) \<or> restConfigBool conf ''rest_api.ui.enabled'' False)"

definition restUIPath :: "(string \<Rightarrow> string res) \<Rightarrow> ('m, 'j, 'sc, 'sh, 'sd) RESTAPIConfig option \<Rightarrow> string" where
  "restUIPath conf config =
     (case config of
        Some c \<Rightarrow> if TrimSpace (cf_UIPath c) \<noteq> '''' then cf_UIPath c else restConfigString conf ''rest_api.ui.path'' ''/journey-ui''
      | None \<Rightarrow> restConfigString conf ''rest_api.ui.path'' ''/journey-ui'')"

definition on_group :: "'m middleware list \<Rightarrow> string \<Rightarrow> (string \<times> rest_handler) list \<Rightarrow> string list \<Rightarrow> 'm route list" where
  "on_group mws base handlers templates =
     concat (map (\<lambda>t. map (\<lambda>(verb, h). \<lparr>ro_Method = verb, ro_Base = base, ro_Template = t, ro_Middleware = mws, ro_Handler = h\<rparr>)
                          handlers) templates)"

definition admin_routes :: "'m middleware list \<Rightarrow> string \<Rightarrow> bool \<Rightarrow> RESTAPIRoutes \<Rightarrow> 'm route list" where
  "admin_routes mws base schedules r =
     on_group mws base [(''GET'', ListStepSchemas)] (ra_StepSchemas r) @
     on_group mws base [(''GET'', GetStepSchemaH)] (ra_StepSchemaItems r) @
     on_group mws base [(''GET'', ListInstanceSchemas)] (ra_InstanceSchemas r) @
     on_group mws base [(''GET'', GetInstanceSchemaH)] (ra_InstanceSchemaItems r) @
     on_group mws base [(''GET'', ListJourneys), (''PUT'', SaveJourneyH)] (ra_Journeys r) @
     on_group mws base [(''GET'', ListScripts), (''PUT'', SaveScriptH)] (ra_Scripts r) @
     on_group mws base [(''GET'', ListScriptTypeBindings)] (ra_ScriptTypeBindings r) @
     on_group mws base [(''GET'', GetScriptBindingsH)] (ra_ScriptBindings r) @
     on_group mws base [(''GET'', ListSchemas), (''PUT'', SaveSchemaH)] (ra_Schemas r) @
     (if schedules then on_group mws base [(''GET'', ListSchedules), (''PUT'', SaveScheduleH)] (ra_Schedules r) else []) @
     on_group mws base [(''GET'', GetSchemaH), (''DELETE'', DeleteSchemaH)] (ra_SchemaItems r) @
     (if schedules then on_group mws base [(''GET'', GetScheduleH), (''DELETE'', DeleteScheduleH)] (ra_ScheduleItems r) @
                        on_group mws base [(''POST'', TriggerScheduleH)] (ra_ScheduleTriggers r) else []) @
     on_group mws base [(''GET'', GetScriptH), (''DELETE'', DeleteScriptH)] (ra_ScriptItems r) @
     on_group mws base [(''GET'', ListInstances)] (ra_Instances r) @
     on_group mws base [(''GET'', GetInstanceH), (''PUT'', SaveInstanceH), (''DELETE'', DeleteInstanceH)] (ra_InstanceItems r)"

text \<open>The handlers in the order of their registration: the administrative ones, the invocation, and the
  items of journeys, which are administrative again.\<close>

definition rest_routes :: "('m, 'j, 'sc, 'sh, 'sd) RESTAPIConfig \<Rightarrow> string \<Rightarrow> bool \<Rightarrow> RESTAPIRoutes \<Rightarrow> 'm route list" where
  "rest_routes config base schedules r =
     (let group = map Configured (cf_Middleware config) @ [AccessEvents];
          admin = group @ map Configured (cf_AdminMiddleware config);
          invoke = group @ map Configured (cf_InvocationMiddleware config)
      in admin_routes admin base schedules r @
         on_group invoke base [(''POST'', InvokeJourneyH)] (ra_Invoke r) @
         on_group admin base [(''GET'', GetJourneyH), (''DELETE'', DeleteJourneyH)] (ra_JourneyItems r))"

text \<open>The fallback of every path no route takes: the middleware in front of \<open>InvokeRouteJourneyH\<close>.\<close>

definition registerResourceJourneyFallback :: "('m, 'j, 'sc, 'sh, 'sd) RESTAPIConfig \<Rightarrow> 'm middleware list res" where
  "registerResourceJourneyFallback config =
     (if cf_Router config \<noteq> Some True
      then Inl (ErrText ''resource journey fallback requires a Gin engine with NoRoute support'')
      else Inr (map Configured (cf_Middleware config) @ [AccessEvents] @ map Configured (cf_InvocationMiddleware config)))"

definition first_some :: "'a option \<Rightarrow> 'a option \<Rightarrow> 'a option" where
  "first_some a b = (case a of None \<Rightarrow> b | Some v \<Rightarrow> Some v)"

definition required_store :: "string \<Rightarrow> 'a option \<Rightarrow> 'a res" where
  "required_store what s = (case s of None \<Rightarrow> Inl (ErrText (''REST API requires an administrative '' @ what @ '' storage'')) | Some v \<Rightarrow> Inr v)"

text \<open>\<open>Inr None\<close> is an API that is not enabled. An API whose fallback cannot be registered leaves its
  routes on the router; the error carries no API.\<close>

definition registerRESTAPI :: "(string \<Rightarrow> string res) \<Rightarrow> (string \<Rightarrow> bool res) \<Rightarrow> (string \<Rightarrow> string list res)
    \<Rightarrow> ('j, 'sc, 'sh, 'sd) rest_defaults \<Rightarrow> ('m, 'j, 'sc, 'sh, 'sd) RESTAPIConfig option
    \<Rightarrow> ('m, 'j, 'sc, 'sh, 'sd) restAPI option res" where
  "registerRESTAPI cs cb cl D config =
     (case config of
        None \<Rightarrow> Inr None
      | Some c \<Rightarrow>
          if \<not> cf_Enabled c then Inr None
          else if cf_Router c = None then Inl (ErrText ''REST API router is required'')
          else
            bind_res (required_store ''journey'' (first_some (cf_JourneyStorage c) (df_journeys D))) (\<lambda>journeys.
            bind_res (required_store ''script'' (first_some (cf_ScriptStorage c) (df_scripts D))) (\<lambda>scripts.
            bind_res (required_store ''schema'' (first_some (first_some (cf_SchemaStorage c) (df_schemas D)) (df_cachedSchemas D))) (\<lambda>schemas.
              let schedules = first_some (cf_ScheduleStorage c) (df_schedules D);
                  base = (if TrimSpace (cf_BasePath c) = '''' then restConfigString cs ''rest_api.base_path'' ''/journey''
                          else TrimSpace (cf_BasePath c))
              in bind_res (restAPIRoutes cl (cf_Routes c)) (\<lambda>routes.
                 bind_res (registerResourceJourneyFallback c) (\<lambda>fallback.
                   Inr (Some \<lparr>api_journeys = journeys, api_scripts = scripts, api_schemas = schemas, api_schedules = schedules,
                     api_maxBodyBytes = (if cf_MaxBodyBytes c \<le> 0 then defaultRESTMaxBodyBytes else cf_MaxBodyBytes c),
                     api_basePath = normalizeRESTBasePath base, api_routeCache = newJourneyRouteCache,
                     api_ui = (if restUIEnabled cb (Some c) then Some (restUIPath cs (Some c)) else None),
                     api_routes = rest_routes c base (schedules \<noteq> None) routes, api_noRoute = fallback\<rparr>)))))))"

end
