(* ===== verification/RestInvoke.thy ===== *)
theory RestInvoke
  imports RestRoutes Execution
begin

text \<open>
  \<^verbatim>\<open>rest.api.go\<close>, requests and invocation: what a handler reads of the gin context, the replies it
  writes, the response mutator that steps write to, and the two handlers that run a journey. Gin is
  not part of the program: \<open>rest_context\<close> holds what the handlers ask of it, and a reply is the
  call that ends the handler (\<^verbatim>\<open>JSON\<close>, \<^verbatim>\<open>AbortWithStatusJSON\<close>, \<^verbatim>\<open>Status\<close>,
  \<^verbatim>\<open>Data\<close>) with the headers written before. The executor is the argument \<open>invoke\<close>;
  \<open>engine_invoke\<close> is the model's own. \<^verbatim>\<open>json.Unmarshal\<close> into the type of the target is the
  argument \<open>unmarshal\<close>.
\<close>

subsection \<open>Requests\<close>

datatype realm_value = RealmText string | RealmPointer "Realm option" | RealmStruct Realm | RealmNil | RealmOther string

text \<open>\<open>RealmOther\<close> holds the \<^verbatim>\<open>fmt.Sprint\<close> text of a value of any other type.\<close>

record rest_context =
  gx_params :: "(string \<times> string) list"
  gx_query :: multimap
  gx_realm :: "realm_value option"
  gx_request :: http_request
  gx_contentLength :: int

definition gx_Param :: "rest_context \<Rightarrow> string \<Rightarrow> string" where
  "gx_Param c key = or_default (map_of (gx_params c) key) ''''"

definition gx_Query :: "rest_context \<Rightarrow> string \<Rightarrow> string" where
  "gx_Query c key = (case values_of (gx_query c) key of [] \<Rightarrow> '''' | v # _ \<Rightarrow> v)"

definition restContextRealm :: "rest_context \<Rightarrow> string" where
  "restContextRealm c =
     (case gx_realm c of
        None \<Rightarrow> ''''
      | Some RealmNil \<Rightarrow> ''''
      | Some (RealmText s) \<Rightarrow> TrimSpace s
      | Some (RealmPointer None) \<Rightarrow> ''''
      | Some (RealmPointer (Some r)) \<Rightarrow> TrimSpace (rl_Name r)
      | Some (RealmStruct r) \<Rightarrow> TrimSpace (rl_Name r)
      | Some (RealmOther s) \<Rightarrow> TrimSpace s)"

definition restRequestRealm :: "rest_context \<Rightarrow> string" where
  "restRequestRealm c = (if restContextRealm c \<noteq> '''' then restContextRealm c else TrimSpace (gx_Param c ''realm''))"

definition restRealmMatches :: "rest_context \<Rightarrow> string \<Rightarrow> bool" where
  "restRealmMatches c resourceRealm \<longleftrightarrow> restRequestRealm c = '''' \<or> resourceRealm = restRequestRealm c"

subsection \<open>Replies\<close>

datatype 'b reply =
    JSON int 'b
  | ErrorReply int string go_error
  | StatusReply int
  | DataReply int string string
  | Panicked string

text \<open>A value of a response header: text, or a cookie that \<^verbatim>\<open>http.SetCookie\<close> serialises.\<close>

datatype header_value = HText string | HCookie http_cookie

record 'b gin_response =
  gr_headers :: "header_value list gomap"
  gr_reply :: "'b reply"

subsection \<open>Bodies\<close>

definition read_body :: "int \<Rightarrow> rest_context \<Rightarrow> 'b reply + string" where
  "read_body maxBytes c =
     (case hq_Body (gx_request c) of
        None \<Rightarrow> Inr ''''
      | Some (Inl e) \<Rightarrow> Inl (ErrorReply 400 ''invalid_body'' e)
      | Some (Inr data) \<Rightarrow> if maxBytes < int (length data)
          then Inl (ErrorReply 413 ''body_too_large'' (ErrText ''http: request body too large'')) else Inr data)"

definition readRawBody :: "int \<Rightarrow> rest_context \<Rightarrow> 'b reply + string" where
  "readRawBody maxBytes c = read_body maxBytes c"

definition readJSON :: "(string \<Rightarrow> 'a option) \<Rightarrow> int \<Rightarrow> rest_context \<Rightarrow> 'b reply + (string \<times> 'a)" where
  "readJSON unmarshal maxBytes c =
     (case read_body maxBytes c of
        Inl r \<Rightarrow> Inl r
      | Inr data \<Rightarrow>
          (case (if length data = 0 then None else unmarshal data) of
             None \<Rightarrow> Inl (ErrorReply 400 ''invalid_json'' (ErrText ''valid JSON body is required''))
           | Some v \<Rightarrow> Inr (data, v)))"

subsection \<open>The response mutator\<close>

record restResponseMutator =
  rm_headers :: multimap
  rm_cookies :: "http_cookie list"
  rm_statusCode :: int
  rm_contentType :: string
  rm_body :: string
  rm_bodySet :: bool

definition newRESTResponseMutator :: restResponseMutator where
  "newRESTResponseMutator = \<lparr>rm_headers = [], rm_cookies = [], rm_statusCode = 0, rm_contentType = '''', rm_body = '''', rm_bodySet = False\<rparr>"

definition rm_Header :: "string \<Rightarrow> string \<Rightarrow> restResponseMutator \<Rightarrow> restResponseMutator" where
  "rm_Header name v r =
     (if TrimSpace name = '''' then r else r\<lparr>rm_headers := gm_put (canonical_key name) [v] (rm_headers r)\<rparr>)"

definition rm_AddHeader :: "string \<Rightarrow> string \<Rightarrow> restResponseMutator \<Rightarrow> restResponseMutator" where
  "rm_AddHeader name v r =
     (if TrimSpace name = '''' then r
      else let key = canonical_key name in r\<lparr>rm_headers := gm_put key (values_of (rm_headers r) key @ [v]) (rm_headers r)\<rparr>)"

definition rm_SetCookie :: "http_cookie option \<Rightarrow> restResponseMutator \<Rightarrow> restResponseMutator" where
  "rm_SetCookie c r = (case c of None \<Rightarrow> r | Some k \<Rightarrow> r\<lparr>rm_cookies := rm_cookies r @ [k]\<rparr>)"

definition rm_Status :: "int \<Rightarrow> restResponseMutator \<Rightarrow> restResponseMutator" where
  "rm_Status code r = r\<lparr>rm_statusCode := code\<rparr>"

definition rm_Body :: "string \<Rightarrow> string \<Rightarrow> restResponseMutator \<Rightarrow> restResponseMutator" where
  "rm_Body contentType data r = r\<lparr>rm_contentType := contentType, rm_body := data, rm_bodySet := True\<rparr>"

text \<open>\<^verbatim>\<open>http.SetCookie\<close> adds a header, and nothing for a cookie whose name is not a token.\<close>

definition write_cookie :: "http_cookie \<Rightarrow> header_value list gomap \<Rightarrow> header_value list gomap" where
  "write_cookie k hs =
     (if hc_Name k = '''' \<or> \<not> list_all is_token_char (hc_Name k) then hs
      else gm_put ''Set-Cookie'' (or_default (gm_get hs ''Set-Cookie'') [] @ [HCookie k]) hs)"

definition write_header :: "string \<times> string list \<Rightarrow> header_value list gomap \<Rightarrow> header_value list gomap" where
  "write_header p hs = (if snd p = [] then gm_del (canonical_key (fst p)) hs
     else gm_put (canonical_key (fst p)) (map HText (snd p)) hs)"

definition applyHeaders :: "restResponseMutator \<Rightarrow> header_value list gomap \<Rightarrow> header_value list gomap" where
  "applyHeaders r hs = fold write_cookie (rm_cookies r) (fold write_header (rm_headers r) hs)"

definition applyTerminal :: "restResponseMutator \<Rightarrow> header_value list gomap \<Rightarrow> header_value list gomap \<times> 'b reply option" where
  "applyTerminal r hs =
     (applyHeaders r hs,
      if rm_bodySet r then Some (DataReply (if rm_statusCode r = 0 then 200 else rm_statusCode r) (rm_contentType r) (rm_body r))
      else if rm_statusCode r \<noteq> 0 then Some (StatusReply (rm_statusCode r))
      else None)"

subsection \<open>Terminal responses\<close>

definition closed_key :: "'t treemap \<Rightarrow> env_keys \<Rightarrow> 't \<Rightarrow> string \<Rightarrow> bool" where
  "closed_key T E closedCtx name = tm_defined T closedCtx (GetContextKey E name)"

definition restTerminalResponse :: "'t treemap \<Rightarrow> env_keys \<Rightarrow> 't JourneyState option \<Rightarrow> bool \<Rightarrow> DefaultMap" where
  "restTerminalResponse T E so failed =
     (case so of
        None \<Rightarrow> []
      | Some st \<Rightarrow>
          let closedCtx = snd (GetClosedCtx T st);
              url = (if failed then ''failure_url'' else ''success_url'');
              data = (if failed then ''error_data'' else ''data'');
              r0 = (if js_Realm st \<noteq> '''' then [(''realm'', GStr (js_Realm st))] else []);
              r1 = (if closed_key T E closedCtx url then gm_put url (GStr (get_str_or T closedCtx (GetContextKey E url) '''')) r0 else r0)
          in if closed_key T E closedCtx data then gm_put ''data'' (get_any_or T closedCtx (GetContextKey E data) GNil) r1 else r1)"

definition hasFailureTerminalResponse :: "'t treemap \<Rightarrow> env_keys \<Rightarrow> 't JourneyState option \<Rightarrow> bool" where
  "hasFailureTerminalResponse T E so =
     (case so of
        None \<Rightarrow> False
      | Some st \<Rightarrow> closed_key T E (snd (GetClosedCtx T st)) ''failure_url'' \<or> closed_key T E (snd (GetClosedCtx T st)) ''error_data'')"

text \<open>\<^verbatim>\<open>errors.Is\<close>: the error itself or what it wraps.\<close>

fun err_is :: "(go_error \<Rightarrow> bool) \<Rightarrow> go_error \<Rightarrow> bool" where
  "err_is p (ErrWrap s e) = err_is p e"
| "err_is p e = p e"

fun is_invalid_payload :: "go_error \<Rightarrow> bool" where
  "is_invalid_payload (ErrJourneyInvalidPayload d) = True"
| "is_invalid_payload _ = False"

datatype invocation_body = BodyPayload JourneyPayloadReq | BodyTerminal DefaultMap

definition writeJourneyExecutionError :: "'t treemap \<Rightarrow> env_keys \<Rightarrow> 't JourneyState option \<Rightarrow> go_error \<Rightarrow> invocation_body reply" where
  "writeJourneyExecutionError T E so e =
     (if err_is (\<lambda>x. x = ErrJourneyNotFound) e then ErrorReply 404 ''journey_not_found'' e
      else if err_is (\<lambda>x. x = ErrInvalidJourneyToken) e then ErrorReply 401 ''invalid_journey_token'' e
      else if err_is is_invalid_payload e then ErrorReply 400 ''invalid_payload'' e
      else if err_is (\<lambda>x. x = ErrJourneyFailure) e
      then (if hasFailureTerminalResponse T E so then JSON 401 (BodyTerminal (restTerminalResponse T E so True))
            else ErrorReply 401 ''journey_failed'' e)
      else ErrorReply 500 ''journey_execution_failed'' e)"

subsection \<open>Invocation\<close>

text \<open>The callbacks of the configuration. \<open>hk_prepare\<close> may change the execution; the other two may write
  headers of the response.\<close>

record 't rest_hooks =
  hk_prepare :: "(rest_context \<Rightarrow> JourneyExecute \<Rightarrow> JourneyExecute \<times> go_error option) option"
  hk_success :: "(rest_context \<Rightarrow> 't JourneyState option \<Rightarrow> header_value list gomap \<Rightarrow> header_value list gomap) option"
  hk_failure :: "(rest_context \<Rightarrow> 't JourneyState option \<Rightarrow> go_error \<Rightarrow> header_value list gomap \<Rightarrow> header_value list gomap) option"

type_synonym ('t, 'w) engine = "JourneyExecute \<Rightarrow> restResponseMutator \<Rightarrow> 'w
    \<Rightarrow> ('w \<times> restResponseMutator \<times> JourneyPayloadReq option \<times> 't JourneyState option \<times> go_error option) option"

definition after_failure :: "'t treemap \<Rightarrow> env_keys \<Rightarrow> 't rest_hooks \<Rightarrow> bool \<Rightarrow> rest_context \<Rightarrow> restResponseMutator \<Rightarrow> 't JourneyState option \<Rightarrow> go_error
    \<Rightarrow> invocation_body gin_response" where
  "after_failure T E H resource c r st e =
     (let hs0 = (case hk_failure H of None \<Rightarrow> [] | Some f \<Rightarrow> f c st e []) in
      case applyTerminal r hs0 of
        (hs, Some rep) \<Rightarrow> \<lparr>gr_headers = hs, gr_reply = rep\<rparr>
      | (hs, None) \<Rightarrow> \<lparr>gr_headers = hs, gr_reply =
          (if resource \<and> err_is (\<lambda>x. x = ErrJourneyNotFound) e then StatusReply 404 else writeJourneyExecutionError T E st e)\<rparr>)"

definition after_success :: "'t treemap \<Rightarrow> env_keys \<Rightarrow> 't rest_hooks \<Rightarrow> rest_context \<Rightarrow> restResponseMutator \<Rightarrow> JourneyPayloadReq option \<Rightarrow> 't JourneyState option
    \<Rightarrow> invocation_body gin_response" where
  "after_success T E H c r response st =
     (case response of
        Some p \<Rightarrow> \<lparr>gr_headers = applyHeaders r [], gr_reply = JSON 200 (BodyPayload p)\<rparr>
      | None \<Rightarrow>
          let hs0 = (case hk_success H of None \<Rightarrow> [] | Some f \<Rightarrow> f c st []) in
          (case applyTerminal r hs0 of
             (hs, Some rep) \<Rightarrow> \<lparr>gr_headers = hs, gr_reply = rep\<rparr>
           | (hs, None) \<Rightarrow> \<lparr>gr_headers = applyHeaders r hs, gr_reply = JSON 200 (BodyTerminal (restTerminalResponse T E st False))\<rparr>))"

text \<open>What the two handlers share: preparation, execution and the reply.\<close>

definition run_execution :: "'t treemap \<Rightarrow> env_keys \<Rightarrow> 't rest_hooks \<Rightarrow> ('t, 'w) engine \<Rightarrow> bool \<Rightarrow> rest_context \<Rightarrow> JourneyExecute \<Rightarrow> 'w
    \<Rightarrow> ('w \<times> invocation_body gin_response) option" where
  "run_execution T E H invoke resource c execution w =
     (let (execution1, refused) = (case hk_prepare H of None \<Rightarrow> (execution, None) | Some f \<Rightarrow> f c execution) in
      case refused of
        Some e \<Rightarrow> Some (w, \<lparr>gr_headers = [], gr_reply = ErrorReply 403 ''execution_rejected'' e\<rparr>)
      | None \<Rightarrow>
          (case invoke execution1 newRESTResponseMutator w of
             None \<Rightarrow> None
           | Some (w', r, response, st, Some e) \<Rightarrow> Some (w', after_failure T E H resource c r st e)
           | Some (w', r, response, st, None) \<Rightarrow> Some (w', after_success T E H c r response st)))"

definition plain_reply :: "'b reply \<Rightarrow> 'b gin_response" where
  "plain_reply r = \<lparr>gr_headers = [], gr_reply = r\<rparr>"

definition invokeJourney :: "'t treemap \<Rightarrow> env_keys \<Rightarrow> 't rest_hooks \<Rightarrow> ('t, 'w) engine \<Rightarrow> (string \<Rightarrow> JourneyPayloadReq option) \<Rightarrow> int
    \<Rightarrow> rest_context \<Rightarrow> 'w \<Rightarrow> ('w \<times> invocation_body gin_response) option" where
  "invokeJourney T E H invoke unmarshal maxBytes c w =
     (case readJSON unmarshal maxBytes c of
        Inl r \<Rightarrow> Some (w, plain_reply r)
      | Inr (body, payload) \<Rightarrow>
          let realm = restRequestRealm c in
          if realm = '''' then Some (w, plain_reply (ErrorReply 400 ''invalid_payload'' (ErrJourneyInvalidPayload '''')))
          else run_execution T E H invoke False c
                 \<lparr>je_Payload = Some (SetPayloadRealm (Some (named_realm realm)) payload), je_IsConfidential = False,
                  je_Request = Some (ReqHTTP (Some (NewHTTPRequestAccessorWithBody (Some (gx_request c)) body maxBytes))),
                  je_Response = None\<rparr> w)"

text \<open>The path of the request; a request of the server always has a URL.\<close>

definition request_path :: "rest_context \<Rightarrow> string" where
  "request_path c = (case hq_URL (gx_request c) of None \<Rightarrow> '''' | Some u \<Rightarrow> ur_Path u)"

definition resource_execution :: "restRouteJourneyMatch \<Rightarrow> int \<Rightarrow> rest_context \<Rightarrow> JourneyExecute" where
  "resource_execution m maxBytes c =
     \<lparr>je_Payload = Some (SetPayloadRealm (Some (named_realm (jc_Realm (rj_Journey m))))
        (empty_payload\<lparr>jp_JourneyID := jc_ID (rj_Journey m)\<rparr>)),
      je_IsConfidential = False,
      je_Request = Some (ReqHTTP (SetRoute (rj_RoutePrefix m) (rj_ResourcePath m)
        (Some (NewHTTPRequestAccessor (Some (gx_request c)) maxBytes)))),
      je_Response = None\<rparr>"

definition invokeRouteJourney :: "'t treemap \<Rightarrow> env_keys \<Rightarrow> 't rest_hooks \<Rightarrow> ('t, 'w) engine \<Rightarrow> string \<Rightarrow> int
    \<Rightarrow> (string \<Rightarrow> JourneyConfiguration option res) \<Rightarrow> JourneyConfiguration option list
    \<Rightarrow> rest_context \<Rightarrow> journeyRouteCache \<times> 'w \<Rightarrow> ((journeyRouteCache \<times> 'w) \<times> invocation_body gin_response) option" where
  "invokeRouteJourney T E H invoke base maxBytes load listed c = (\<lambda>(cache, w).
     case resourceJourneyPath base (request_path c) of
       (routePath, insideBasePath) \<Rightarrow>
         if \<not> insideBasePath then Some ((cache, w), plain_reply (StatusReply 404))
         else (case resolveRouteJourney load listed routePath cache of
                 (cache1, Inl e) \<Rightarrow> Some ((cache1, w), plain_reply (Panicked ''nil pointer dereference''))
               | (cache1, Inr None) \<Rightarrow> Some ((cache1, w), plain_reply (StatusReply 404))
               | (cache1, Inr (Some m)) \<Rightarrow>
                   let c1 = c\<lparr>gx_params := clearRESTResourceRouteParams (gx_params c)\<rparr> in
                   if jc_Metadata (rj_Journey m) = None then Some ((cache1, w), plain_reply (Panicked ''nil pointer dereference''))
                   else map_option (\<lambda>(w', r). ((cache1, w'), r)) (run_execution T E H invoke True c1 (resource_execution m maxBytes c1) w)))"

subsection \<open>The executor behind the handlers\<close>

text \<open>The executor's transaction keeps the response as \<open>MemoryResponse\<close>, whose operations do not rewrite
  the names of headers; for names in canonical form the two mutators agree (\<open>RestInvokeFacts\<close>).
  Of the failures of an execution only that of a failed journey comes with the state.\<close>

definition memory_of :: "restResponseMutator \<Rightarrow> MemoryResponse" where
  "memory_of r = \<lparr>rs_Headers = Some (rm_headers r), rs_Cookies = rm_cookies r, rs_StatusCode = rm_statusCode r,
     rs_ContentType = rm_contentType r, rs_BodyBytesValue = rm_body r, rs_BodySet = rm_bodySet r\<rparr>"

definition mutator_of :: "MemoryResponse \<Rightarrow> restResponseMutator" where
  "mutator_of m = \<lparr>rm_headers = or_default (rs_Headers m) [], rm_cookies = rs_Cookies m, rm_statusCode = rs_StatusCode m,
     rm_contentType = rs_ContentType m, rm_body = rs_BodyBytesValue m, rm_bodySet = rs_BodySet m\<rparr>"

definition tx_mutator :: "restResponseMutator \<Rightarrow> 't JourneyTransaction option \<Rightarrow> restResponseMutator" where
  "tx_mutator r txo = (case txo of None \<Rightarrow> r | Some tx \<Rightarrow> (case tx_Response tx of None \<Rightarrow> r | Some m \<Rightarrow> mutator_of m))"

definition engine_invoke :: "('t, 'c, 's, 'k) journeyManager \<Rightarrow> nat \<Rightarrow> string res \<Rightarrow> ('t, ('c, 's) manager_state) engine" where
  "engine_invoke jm fuel rand execution r ms =
     (case InvokeJourney jm fuel rand (Some (execution\<lparr>je_Response := Some (memory_of r)\<rparr>)) ms of
        None \<Rightarrow> None
      | Some (ms', tx, Inr (response, st)) \<Rightarrow> Some (ms', tx_mutator r tx, response, st, None)
      | Some (ms', tx, Inl e) \<Rightarrow>
          Some (ms', tx_mutator r tx, None, if e = ErrJourneyFailure then map_option tx_State tx else None, Some e))"

end
