(* ===== verification/RestAdmin.thy ===== *)
theory RestAdmin
  imports RestInvoke CacheManager Scheduler
begin

text \<open>
  \<^verbatim>\<open>rest.api.go\<close>, administration: the handlers that list, read, save and delete journeys, scripts,
  developer schemas, schedules, cache instances and step schemas, and
  \<^verbatim>\<open>storage.journey.go\<close>, \<^verbatim>\<open>schema.storage.go\<close>, \<^verbatim>\<open>types/developer.schema.go\<close>
  behind them. A document storage (\<^verbatim>\<open>go-nstore\<close> or one of the configuration) is the record
  \<open>doc_store\<close>; saving returns the document with its metadata. Where the code sorts a list by a key
  that is not unique, the model keeps the order of equal keys, one of those the code can give. A slice or
  map that is nil in Go and one that is empty are the same list.
\<close>

subsection \<open>Documents\<close>

record ('d, 'n) doc_store =
  ds_load :: "'n \<Rightarrow> string \<Rightarrow> 'd option res"
  ds_save :: "'d \<Rightarrow> 'n \<Rightarrow> 'n \<times> 'd res"
  ds_delete :: "string \<Rightarrow> 'n \<Rightarrow> 'n \<times> (bool \<times> go_error) option"
  ds_list :: "'n \<Rightarrow> 'd option list"

text \<open>The Boolean of a failed deletion tells that the error is \<^verbatim>\<open>os.ErrNotExist\<close>.\<close>

definition restMetadataID :: "Metadata option \<Rightarrow> string" where
  "restMetadataID m = (case m of None \<Rightarrow> '''' | Some md \<Rightarrow> TrimSpace (md_ID md))"

definition metadataID :: "Metadata option \<Rightarrow> string" where
  "metadataID m = (case m of None \<Rightarrow> '''' | Some md \<Rightarrow> md_ID md)"

record 'a restQueryResponse =
  qr_Result :: "'a list"
  qr_ResultCount :: nat

definition query_response :: "'a list \<Rightarrow> 'a restQueryResponse" where
  "query_response xs = \<lparr>qr_Result = xs, qr_ResultCount = length xs\<rparr>"

definition restQueryLimit :: "rest_context \<Rightarrow> 'b reply + int" where
  "restQueryLimit c =
     (let raw = TrimSpace (gx_Query c ''limit'') in
      if raw = '''' then Inr 0
      else (case ParseInt raw of
              Some limit \<Rightarrow> if limit < 0 then Inl (ErrorReply 400 ''invalid_limit'' (ErrText ''limit must be a non-negative integer'')) else Inr limit
            | None \<Rightarrow> Inl (ErrorReply 400 ''invalid_limit'' (ErrText ''limit must be a non-negative integer''))))"

text \<open>The loop of the list handlers: it keeps what passes the filters and stops at the limit; nil entries are
  skipped.\<close>

fun take_matching :: "('d \<Rightarrow> bool) \<Rightarrow> int \<Rightarrow> nat \<Rightarrow> 'd option list \<Rightarrow> 'd list" where
  "take_matching keep limit n [] = []"
| "take_matching keep limit n (None # xs) = take_matching keep limit n xs"
| "take_matching keep limit n (Some x # xs) =
     (if \<not> keep x then take_matching keep limit n xs
      else if limit > 0 \<and> int (Suc n) \<ge> limit then [x]
      else x # take_matching keep limit (Suc n) xs)"

definition name_filter :: "rest_context \<Rightarrow> string" where
  "name_filter c = ToLower (TrimSpace (gx_Query c ''name''))"

definition first_query :: "rest_context \<Rightarrow> string \<Rightarrow> string \<Rightarrow> string" where
  "first_query c a b = (if TrimSpace (gx_Query c a) \<noteq> '''' then TrimSpace (gx_Query c a) else TrimSpace (gx_Query c b))"

subsection \<open>Journeys\<close>

text \<open>A response shows a journey as it is, or its JSON object without the variables of its steps.
  \<open>mj\<close> gives the JSON fields of the metadata, whose type is the storage's.\<close>

datatype journey_view = FullJourney "JourneyConfiguration option" | JourneyObject DefaultMap

datatype journey_body = JourneyItem journey_view | JourneyList "journey_view restQueryResponse" | Invoked invocation_body

definition json_num :: "int \<Rightarrow> gval" where
  "json_num i = GFloat (f64_of_int i)"

definition journey_object :: "(Metadata \<Rightarrow> DefaultMap) \<Rightarrow> JourneyConfiguration \<Rightarrow> DefaultMap" where
  "journey_object mj j =
     (case jc_Metadata j of None \<Rightarrow> [] | Some m \<Rightarrow> mj m) @
     [(''name'', GStr (jc_Name j)), (''description'', GStr (jc_Description j)),
      (''encrypted_client_inputs'', GBool (jc_EncryptedClientInputs j)), (''confidential'', GBool (jc_Confidential j)),
      (''active'', GBool (jc_Active j)), (''debug'', GBool (jc_Debug j))] @
     (if jc_JourneyType j = '''' then [] else [(''journey_type'', GStr (jc_JourneyType j))]) @
     [(''default_exp'', json_num (jc_DefaultExp j)), (''realm'', GStr (jc_Realm j)), (''start_step_id'', GStr (jc_StartStepID j)),
      (''sub_entries'', GArr (map GStr (jc_SubEntries j))),
      (''steps'', GObj (map (\<lambda>(i, s). (i, case s of None \<Rightarrow> GNil | Some st \<Rightarrow> step_json st)) (jc_Steps j))),
      (''additional_properties'', json_any (GObj (jc_AdditionalProps j)))]"

definition strip_step :: "gval \<Rightarrow> gval" where
  "strip_step rawStep =
     (case rawStep of
        GObj step \<Rightarrow>
          (case gm_get step ''config'' of
             Some (GObj config) \<Rightarrow> GObj (gm_put ''config'' (GObj (gm_del ''vars'' config)) step)
           | _ \<Rightarrow> rawStep)
      | _ \<Rightarrow> rawStep)"

definition stripRESTJourneyVars :: "DefaultMap \<Rightarrow> DefaultMap" where
  "stripRESTJourneyVars journey =
     (case gm_get journey ''steps'' of
        Some (GObj steps) \<Rightarrow> gm_put ''steps'' (GObj (map (\<lambda>(i, s). (i, strip_step s)) steps)) journey
      | _ \<Rightarrow> journey)"

definition returnVars :: "(string \<Rightarrow> bool res) \<Rightarrow> bool \<Rightarrow> bool" where
  "returnVars conf configured = (configured \<or> restConfigBool conf ''rest_api.return_vars'' False)"

definition restJourneyResponse :: "(Metadata \<Rightarrow> DefaultMap) \<Rightarrow> bool \<Rightarrow> JourneyConfiguration option \<Rightarrow> journey_view" where
  "restJourneyResponse mj vars journey =
     (case journey of
        None \<Rightarrow> FullJourney None
      | Some j \<Rightarrow>
          if vars then FullJourney (Some j)
          else (case json_journey j of
                  Inl e \<Rightarrow> FullJourney (Some j)
                | Inr j' \<Rightarrow> JourneyObject (stripRESTJourneyVars (journey_object mj j))))"

definition journey_kept :: "rest_context \<Rightarrow> JourneyConfiguration \<Rightarrow> bool" where
  "journey_kept c item =
     (let nameFilter = name_filter c;
          rawTypeFilter = first_query c ''type'' ''journey_type'';
          typeFilter = (if rawTypeFilter \<noteq> '''' then NormalizeJourneyType rawTypeFilter else '''');
          realmFilter = (if restRequestRealm c = '''' then TrimSpace (gx_Query c ''realm'') else restRequestRealm c)
      in \<not> (nameFilter \<noteq> '''' \<and> \<not> Contains (ToLower (jc_Name item)) nameFilter) \<and>
         \<not> (realmFilter \<noteq> '''' \<and> jc_Realm item \<noteq> realmFilter) \<and>
         \<not> (typeFilter \<noteq> '''' \<and> NormalizeJourneyType (jc_JourneyType item) \<noteq> typeFilter))"

text \<open>Sorting two or more journeys reads the identifier of each.\<close>

definition listJourneys :: "(Metadata \<Rightarrow> DefaultMap) \<Rightarrow> bool \<Rightarrow> (JourneyConfiguration, 'n) doc_store \<Rightarrow> 'n \<Rightarrow> rest_context \<Rightarrow> journey_body reply" where
  "listJourneys mj vars S n c =
     (case restQueryLimit c of
        Inl r \<Rightarrow> r
      | Inr limit \<Rightarrow>
          let items = take_matching (journey_kept c) limit 0 (ds_list S n) in
          if 1 < length items \<and> list_ex (\<lambda>j. jc_Metadata j = None) items then Panicked ''nil pointer dereference''
          else JSON 200 (JourneyList (query_response (map (\<lambda>j. restJourneyResponse mj vars (Some j)) (sort_key jc_ID items)))))"

fun first_document :: "('d \<Rightarrow> bool) \<Rightarrow> 'd option list \<Rightarrow> 'd option" where
  "first_document p [] = None"
| "first_document p (None # xs) = first_document p xs"
| "first_document p (Some x # xs) = (if p x then Some x else first_document p xs)"

definition findJourneyByNameRealm :: "JourneyConfiguration option list \<Rightarrow> string \<Rightarrow> string \<Rightarrow> string \<Rightarrow> JourneyConfiguration option" where
  "findJourneyByNameRealm listed nm rl excludeID =
     (let name = TrimSpace nm; realm = TrimSpace rl in
      if name = '''' then None
      else first_document (\<lambda>e. jc_Name e = name \<and> jc_Realm e = realm \<and> restMetadataID (jc_Metadata e) \<noteq> excludeID) listed)"

definition resolveJourneySaveTarget :: "(JourneyConfiguration, 'n) doc_store \<Rightarrow> 'n \<Rightarrow> JourneyConfiguration
    \<Rightarrow> JourneyConfiguration option \<times> JourneyConfiguration option" where
  "resolveJourneySaveTarget S n journey =
     (let i = restMetadataID (jc_Metadata journey);
          existing = (if i \<noteq> '''' then (case ds_load S n i of Inr current \<Rightarrow> current | Inl e \<Rightarrow> None) else None)
      in (existing, findJourneyByNameRealm (ds_list S n) (jc_Name journey) (jc_Realm journey) i))"

definition saved_metadata :: "Metadata option \<Rightarrow> Metadata option option \<Rightarrow> Metadata option" where
  "saved_metadata own existing =
     (case existing of
        Some m \<Rightarrow> m
      | None \<Rightarrow> (case own of Some m \<Rightarrow> if md_ID m = '''' then None else own | None \<Rightarrow> None))"

definition saveJourney :: "(Metadata \<Rightarrow> DefaultMap) \<Rightarrow> bool \<Rightarrow> (string \<Rightarrow> JourneyConfiguration option) \<Rightarrow> int \<Rightarrow> (JourneyConfiguration, 'n) doc_store
    \<Rightarrow> rest_context \<Rightarrow> 'n \<times> journeyRouteCache \<Rightarrow> ('n \<times> journeyRouteCache) \<times> journey_body reply" where
  "saveJourney mj vars unmarshal maxBytes S c = (\<lambda>(n, cache).
     case readJSON unmarshal maxBytes c of
       Inl r \<Rightarrow> ((n, cache), r)
     | Inr (body, sent) \<Rightarrow>
         let realm = restRequestRealm c;
             journey = (if realm \<noteq> '''' then sent\<lparr>jc_Realm := realm\<rparr> else sent);
             (existing, duplicate) = resolveJourneySaveTarget S n journey
         in if duplicate \<noteq> None
            then ((n, cache), ErrorReply 409 ''duplicate_journey''
                   (ErrText (''journey name '' @ jc_Name journey @ '' already exists in realm '' @ jc_Realm journey)))
            else (case ds_save S (journey\<lparr>jc_Metadata := saved_metadata (jc_Metadata journey) (map_option jc_Metadata existing)\<rparr>) n of
                    (n', Inl e) \<Rightarrow> ((n', cache), ErrorReply 400 ''invalid_journey'' e)
                  | (n', Inr saved) \<Rightarrow>
                      ((n', rc_Clear cache), JSON (if existing = None then 201 else 200)
                         (JourneyItem (restJourneyResponse mj vars (Some saved))))))"

text \<open>A journey the request's realm does not have is looked up as a resource journey (\<open>fallback\<close>).\<close>

definition visible_journey :: "(JourneyConfiguration, 'n) doc_store \<Rightarrow> 'n \<Rightarrow> rest_context \<Rightarrow> JourneyConfiguration option" where
  "visible_journey S n c =
     (case ds_load S n (gx_Param c ''journeyId'') of
        Inr (Some j) \<Rightarrow> if restRealmMatches c (jc_Realm j) then Some j else None
      | _ \<Rightarrow> None)"

type_synonym 'w fallback = "rest_context \<Rightarrow> journeyRouteCache \<times> 'w \<Rightarrow> ((journeyRouteCache \<times> 'w) \<times> invocation_body gin_response) option"

definition invoked :: "invocation_body gin_response \<Rightarrow> journey_body gin_response" where
  "invoked r = \<lparr>gr_headers = gr_headers r, gr_reply = map_reply Invoked (gr_reply r)\<rparr>"

definition getJourney :: "(Metadata \<Rightarrow> DefaultMap) \<Rightarrow> bool \<Rightarrow> 'w fallback \<Rightarrow> (JourneyConfiguration, 'n) doc_store \<Rightarrow> 'n \<Rightarrow> rest_context
    \<Rightarrow> journeyRouteCache \<times> 'w \<Rightarrow> ((journeyRouteCache \<times> 'w) \<times> journey_body gin_response) option" where
  "getJourney mj vars fallback S n c x =
     (case visible_journey S n c of
        Some j \<Rightarrow> Some (x, plain_reply (JSON 200 (JourneyItem (restJourneyResponse mj vars (Some j)))))
      | None \<Rightarrow> map_option (\<lambda>(x', r). (x', invoked r)) (fallback c x))"

definition deleteJourney :: "'w fallback \<Rightarrow> (JourneyConfiguration, 'n) doc_store \<Rightarrow> rest_context
    \<Rightarrow> 'n \<times> journeyRouteCache \<times> 'w \<Rightarrow> (('n \<times> journeyRouteCache \<times> 'w) \<times> journey_body gin_response) option" where
  "deleteJourney fallback S c = (\<lambda>(n, cache, w).
     case visible_journey S n c of
       None \<Rightarrow> map_option (\<lambda>(x', r). ((n, x'), invoked r)) (fallback c (cache, w))
     | Some j \<Rightarrow>
         (case ds_delete S (gx_Param c ''journeyId'') n of
            (n', Some (missing, e)) \<Rightarrow> Some ((n', cache, w), plain_reply (ErrorReply 500 ''journey_delete_failed'' e))
          | (n', None) \<Rightarrow> Some ((n', rc_Clear cache, w), plain_reply (StatusReply 204))))"

text \<open>\<^verbatim>\<open>JourneyStorage.Save\<close>: preparation with the storage's registry, or the default one, and then the
  document storage.\<close>

definition JourneyStorage_Save :: "'t treemap \<Rightarrow> 't Steps \<Rightarrow> 't Steps option \<Rightarrow> (JourneyConfiguration, 'n) doc_store
    \<Rightarrow> JourneyConfiguration \<Rightarrow> 'n \<Rightarrow> 'n \<times> JourneyConfiguration res" where
  "JourneyStorage_Save T dflt registry S j n =
     (case PrepareJourneyConfiguration T (Some (or_default registry dflt)) (Some j) of
        Inl e \<Rightarrow> (n, Inl e)
      | Inr prepared \<Rightarrow> ds_save S prepared n)"

definition journey_storage :: "'t treemap \<Rightarrow> 't Steps \<Rightarrow> 't Steps option \<Rightarrow> (JourneyConfiguration, 'n) doc_store \<Rightarrow> (JourneyConfiguration, 'n) doc_store" where
  "journey_storage T dflt registry S = S\<lparr>ds_save := JourneyStorage_Save T dflt registry S\<rparr>"

subsection \<open>Scripts\<close>

record Script =
  scr_Metadata :: "Metadata option"
  scr_Name :: string
  scr_Type :: string
  scr_AdditionalProps :: "DefaultMap option"
  scr_Code :: string

text \<open>The JavaScript runtime: the decoding of stored code, the compiler, and the cache of compiled programs,
  from which \<open>sj_forget\<close> drops a name (\<open>None\<close> without a script manager).\<close>

record 'p script_js =
  sj_raw :: "Script \<Rightarrow> string res"
  sj_compile :: "string \<Rightarrow> string \<Rightarrow> unit res"
  sj_forget :: "(string \<Rightarrow> 'p \<Rightarrow> 'p) option"

datatype script_body = ScriptItem "Script option" | ScriptList "Script restQueryResponse"

definition SupportsDeclaredScriptOutcomes :: "string \<Rightarrow> bool" where
  "SupportsDeclaredScriptOutcomes t \<longleftrightarrow> NormalizeScriptType t \<in> set [''auth'', ''resource'', ''workflow'']"

fun normalize_names :: "string list \<Rightarrow> string list \<Rightarrow> string list" where
  "normalize_names seen [] = []"
| "normalize_names seen (v # vs) =
     (let value = ToLower (TrimSpace v) in
      if value = '''' \<or> value \<in> set seen then normalize_names seen vs
      else value # normalize_names (value # seen) vs)"

definition normalizeOutcomeNames :: "string list \<Rightarrow> string list" where
  "normalizeOutcomeNames vs = normalize_names [] vs"

fun outcome_texts :: "gval list \<Rightarrow> string list option" where
  "outcome_texts [] = Some []"
| "outcome_texts (GStr s # vs) = map_option ((#) s) (outcome_texts vs)"
| "outcome_texts (_ # vs) = None"

definition DeclaredScriptOutcomes :: "Script option \<Rightarrow> string list" where
  "DeclaredScriptOutcomes so =
     (case so of
        None \<Rightarrow> []
      | Some s \<Rightarrow>
          if \<not> SupportsDeclaredScriptOutcomes (scr_Type s) then []
          else (case scr_AdditionalProps s of
                  None \<Rightarrow> []
                | Some props \<Rightarrow>
                    (case gm_get props ''outcomes'' of
                       Some (GArr vs) \<Rightarrow> (case outcome_texts vs of None \<Rightarrow> [] | Some texts \<Rightarrow> normalizeOutcomeNames texts)
                     | _ \<Rightarrow> [])))"

definition NormalizeDeclaredScriptOutcomes :: "Script \<Rightarrow> Script res" where
  "NormalizeDeclaredScriptOutcomes s =
     (case scr_AdditionalProps s of
        None \<Rightarrow> Inr s
      | Some props \<Rightarrow>
          if \<not> SupportsDeclaredScriptOutcomes (scr_Type s)
          then let props' = gm_del ''outcomes'' props in
               Inr (s\<lparr>scr_AdditionalProps := (if length props' = 0 then None else Some props')\<rparr>)
          else (case gm_get props ''outcomes'' of
                  None \<Rightarrow> Inr s
                | Some (GArr vs) \<Rightarrow>
                    (case outcome_texts vs of
                       None \<Rightarrow> Inl (ErrText ''script outcomes must be an array of strings'')
                     | Some texts \<Rightarrow>
                         let normalized = normalizeOutcomeNames texts in
                         if length normalized = 0 \<and> length texts > 0 then Inl (ErrText ''script outcomes cannot contain empty values'')
                         else Inr (s\<lparr>scr_AdditionalProps := Some (gm_put ''outcomes'' (GArr (map GStr normalized)) props)\<rparr>))
                | Some _ \<Rightarrow> Inl (ErrText ''script outcomes must be an array of strings'')))"

text \<open>\<open>types\<close> are the registered script types. Validation normalises the script in place.\<close>

definition IsAllowedType :: "string list \<Rightarrow> string \<Rightarrow> bool" where
  "IsAllowedType types t \<longleftrightarrow> NormalizeScriptType t \<in> set types"

definition validateRESTScript :: "'p script_js \<Rightarrow> string list \<Rightarrow> Script \<Rightarrow> Script res" where
  "validateRESTScript J types sent =
     (let s = sent\<lparr>scr_Type := NormalizeScriptType (scr_Type sent)\<rparr> in
      if TrimSpace (scr_Name s) = '''' \<or> \<not> IsAllowedType types (scr_Type s)
      then Inl (ErrText ''script name and supported type are required'')
      else bind_res (NormalizeDeclaredScriptOutcomes s) (\<lambda>s1.
           bind_res (sj_raw J s1) (\<lambda>code.
             if TrimSpace code = '''' then Inl (ErrText ''script code is required'')
             else let code' = (if scr_Type s1 = ''library'' then ''(function(exports, module) { '' @ code @ [CHR 0x0A] @ ''})'' else code) in
                  bind_res (sj_compile J (scr_Name s1) code') (\<lambda>_. Inr s1))))"

definition same_name_type :: "string \<Rightarrow> string \<Rightarrow> Script \<Rightarrow> bool" where
  "same_name_type name ty e \<longleftrightarrow> scr_Name e = name \<and> NormalizeScriptType (scr_Type e) = NormalizeScriptType ty"

definition findExistingScript :: "(Script, 'n) doc_store \<Rightarrow> 'n \<Rightarrow> Script \<Rightarrow> Script option" where
  "findExistingScript S n s =
     (let by_name = (if TrimSpace (scr_Name s) = '''' then None
                     else first_document (same_name_type (TrimSpace (scr_Name s)) (scr_Type s)) (ds_list S n))
      in case scr_Metadata s of
           Some m \<Rightarrow>
             if TrimSpace (md_ID m) \<noteq> ''''
             then (case ds_load S n (md_ID m) of Inr existing \<Rightarrow> existing | Inl e \<Rightarrow> by_name)
             else by_name
         | None \<Rightarrow> by_name)"

definition findScriptByNameType :: "Script option list \<Rightarrow> string \<Rightarrow> string \<Rightarrow> string \<Rightarrow> Script option" where
  "findScriptByNameType listed nm ty excludeID =
     (let name = TrimSpace nm in
      if name = '''' then None
      else first_document (\<lambda>e. same_name_type name ty e \<and> restMetadataID (scr_Metadata e) \<noteq> excludeID) listed)"

definition saveScript :: "'p script_js \<Rightarrow> string list \<Rightarrow> (string \<Rightarrow> Script option) \<Rightarrow> int \<Rightarrow> (Script, 'n) doc_store \<Rightarrow> rest_context
    \<Rightarrow> 'n \<times> 'p \<Rightarrow> ('n \<times> 'p) \<times> script_body reply" where
  "saveScript J types unmarshal maxBytes S c = (\<lambda>(n, p).
     case readJSON unmarshal maxBytes c of
       Inl r \<Rightarrow> ((n, p), r)
     | Inr (body, sent) \<Rightarrow>
         (case validateRESTScript J types sent of
            Inl e \<Rightarrow> ((n, p), ErrorReply 400 ''invalid_script'' e)
          | Inr s \<Rightarrow>
              let existing = findExistingScript S n s in
              if findScriptByNameType (ds_list S n) (scr_Name s) (scr_Type s) (restMetadataID (scr_Metadata s)) \<noteq> None
              then ((n, p), ErrorReply 409 ''duplicate_script''
                     (ErrText (''script name '' @ scr_Name s @ '' already exists for type '' @ scr_Type s)))
              else let s1 = s\<lparr>scr_Metadata := saved_metadata (scr_Metadata s) (map_option scr_Metadata existing)\<rparr>;
                       p1 = (case (sj_forget J, existing) of
                               (Some forget, Some e) \<Rightarrow> if scr_Name e \<noteq> scr_Name s1 then forget (scr_Name e) p else p
                             | _ \<Rightarrow> p)
                   in (case ds_save S s1 n of
                         (n', Inl e) \<Rightarrow> ((n', p1), ErrorReply 400 ''invalid_script'' e)
                       | (n', Inr saved) \<Rightarrow> ((n', p1), JSON (if existing = None then 201 else 200) (ScriptItem (Some saved))))))"

definition listScripts :: "(Script, 'n) doc_store \<Rightarrow> 'n \<Rightarrow> rest_context \<Rightarrow> script_body reply" where
  "listScripts S n c =
     (case restQueryLimit c of
        Inl r \<Rightarrow> r
      | Inr limit \<Rightarrow>
          let nameFilter = name_filter c;
              typeFilter = NormalizeScriptType (gx_Query c ''type'');
              items = take_matching (\<lambda>s. \<not> (nameFilter \<noteq> '''' \<and> \<not> Contains (ToLower (scr_Name s)) nameFilter) \<and>
                         \<not> (typeFilter \<noteq> '''' \<and> NormalizeScriptType (scr_Type s) \<noteq> typeFilter)) limit 0 (ds_list S n)
          in if 1 < length items \<and> list_ex (\<lambda>s. scr_Metadata s = None) items then Panicked ''nil pointer dereference''
             else JSON 200 (ScriptList (query_response (sort_key (\<lambda>s. metadataID (scr_Metadata s)) items))))"

definition getScript :: "(Script, 'n) doc_store \<Rightarrow> 'n \<Rightarrow> rest_context \<Rightarrow> script_body reply" where
  "getScript S n c =
     (case ds_load S n (gx_Param c ''scriptId'') of
        Inl e \<Rightarrow> ErrorReply 404 ''script_not_found'' e
      | Inr s \<Rightarrow> JSON 200 (ScriptItem s))"

definition deleteScript :: "'p script_js \<Rightarrow> (Script, 'n) doc_store \<Rightarrow> rest_context \<Rightarrow> 'n \<times> 'p \<Rightarrow> ('n \<times> 'p) \<times> script_body reply" where
  "deleteScript J S c = (\<lambda>(n, p).
     case ds_load S n (gx_Param c ''scriptId'') of
       Inl e \<Rightarrow> ((n, p), ErrorReply 404 ''script_not_found'' e)
     | Inr so \<Rightarrow>
         (case ds_delete S (gx_Param c ''scriptId'') n of
            (n', Some (False, e)) \<Rightarrow> ((n', p), ErrorReply 500 ''script_delete_failed'' e)
          | (n', _) \<Rightarrow>
              (case sj_forget J of
                 None \<Rightarrow> ((n', p), StatusReply 204)
               | Some forget \<Rightarrow>
                   (case so of
                      None \<Rightarrow> ((n', p), Panicked ''nil pointer dereference'')
                    | Some s \<Rightarrow> ((n', forget (scr_Name s) p), StatusReply 204)))))"

subsection \<open>Developer schemas\<close>

record DeveloperSchema =
  sch_Metadata :: "Metadata option"
  sch_Name :: string
  sch_Description :: string
  sch_Realm :: string
  sch_Draft :: string
  sch_Schema :: DefaultMap

definition schemaKey :: "DeveloperSchema option \<Rightarrow> string" where
  "schemaKey so =
     (case so of
        None \<Rightarrow> ''''
      | Some s \<Rightarrow>
          if metadataID (sch_Metadata s) \<noteq> '''' then metadataID (sch_Metadata s)
          else TrimSpace (sch_Realm s) @ ''/'' @ TrimSpace (sch_Name s))"

definition developerSchemaResourceName :: "DeveloperSchema option \<Rightarrow> string" where
  "developerSchemaResourceName s = ''journey://developer-schemas/'' @ ReplaceAll (schemaKey s) '' '' ''%20''"

text \<open>The JSON-schema library: \<open>js_compile\<close> adds the marshalled schema as a resource and compiles it,
  \<open>js_validate\<close> runs a compiled schema.\<close>

record 'v json_compiler =
  js_compile :: "string \<Rightarrow> gval \<Rightarrow> 'v res"
  js_validate :: "'v \<Rightarrow> gval \<Rightarrow> go_error option"

definition CompileSchema :: "'v json_compiler \<Rightarrow> DeveloperSchema option \<Rightarrow> 'v gomap \<Rightarrow> 'v gomap \<times> go_error option" where
  "CompileSchema V so m =
     (case so of
        None \<Rightarrow> (m, Some (ErrText ''schema is required''))
      | Some s \<Rightarrow>
          if TrimSpace (sch_Name s) = '''' then (m, Some (ErrText ''schema name is required''))
          else if length (sch_Schema s) = 0 then (m, Some (ErrText ''schema body is required''))
          else (case json_copy (GObj (sch_Schema s)) of
                  Inl e \<Rightarrow> (m, Some e)
                | Inr raw \<Rightarrow>
                    (case js_compile V (developerSchemaResourceName so) raw of
                       Inl e \<Rightarrow> (m, Some e)
                     | Inr compiled \<Rightarrow> (gm_put (schemaKey so) compiled m, None))))"

definition DeleteCompiled :: "DeveloperSchema option \<Rightarrow> 'v gomap \<Rightarrow> 'v gomap" where
  "DeleteCompiled so m = (case so of None \<Rightarrow> m | Some s \<Rightarrow> gm_del (schemaKey so) m)"

definition ValidateWith :: "'v json_compiler \<Rightarrow> DeveloperSchema option \<Rightarrow> gval \<Rightarrow> 'v gomap \<Rightarrow> 'v gomap \<times> go_error option" where
  "ValidateWith V so data m =
     (case so of
        None \<Rightarrow> (m, Some (ErrText ''schema is required''))
      | Some s \<Rightarrow>
          (case (case gm_get m (schemaKey so) of Some v \<Rightarrow> (m, None) | None \<Rightarrow> CompileSchema V so m) of
             (m1, Some e) \<Rightarrow> (m1, Some e)
           | (m1, None) \<Rightarrow>
               (case gm_get m1 (schemaKey so) of
                  None \<Rightarrow> (m1, Some (ErrText (''schema '' @ sch_Name s @ '' is not compiled'')))
                | Some v \<Rightarrow> (m1, js_validate V v data))))"

fun compile_all :: "'v json_compiler \<Rightarrow> DeveloperSchema option list \<Rightarrow> 'v gomap \<Rightarrow> 'v gomap res" where
  "compile_all V [] m = Inr m"
| "compile_all V (so # ss) m = (case CompileSchema V so m of (m1, Some e) \<Rightarrow> Inl e | (m1, None) \<Rightarrow> compile_all V ss m1)"

text \<open>\<open>folder\<close> is the opened and loaded folder, or the error of doing so.\<close>

definition NewDeveloperSchemaStorage :: "'v json_compiler \<Rightarrow> (DeveloperSchema, 'n) doc_store \<Rightarrow> 'n res \<Rightarrow> ('n \<times> 'v gomap) res" where
  "NewDeveloperSchemaStorage V S folder =
     bind_res folder (\<lambda>n. bind_res (compile_all V (ds_list S n) []) (\<lambda>m. Inr (n, m)))"

definition SchemaStorage_Save :: "'v json_compiler \<Rightarrow> (DeveloperSchema, 'n) doc_store \<Rightarrow> DeveloperSchema option \<Rightarrow> 'n \<times> 'v gomap
    \<Rightarrow> ('n \<times> 'v gomap) \<times> DeveloperSchema res" where
  "SchemaStorage_Save V S so = (\<lambda>(n, m).
     case so of
       None \<Rightarrow> ((n, m), Inl (ErrText ''schema is required''))
     | Some sent \<Rightarrow>
         if TrimSpace (sch_Name sent) = '''' then ((n, m), Inl (ErrText ''schema name is required''))
         else let s = (if sch_Draft sent = '''' then sent\<lparr>sch_Draft := ''draft-07''\<rparr> else sent) in
              (case CompileSchema V (Some s) m of
                 (m1, Some e) \<Rightarrow> ((n, m1), Inl e)
               | (m1, None) \<Rightarrow> (case ds_save S s n of (n', r) \<Rightarrow> ((n', m1), r))))"

definition SchemaStorage_Delete :: "(DeveloperSchema, 'n) doc_store \<Rightarrow> string \<Rightarrow> 'n \<times> 'v gomap \<Rightarrow> ('n \<times> 'v gomap) \<times> (bool \<times> go_error) option" where
  "SchemaStorage_Delete S i = (\<lambda>(n, m).
     let m1 = (case ds_load S n i of Inr so \<Rightarrow> DeleteCompiled so m | Inl e \<Rightarrow> m) in
     case ds_delete S i n of (n', r) \<Rightarrow> ((n', m1), r))"

definition SchemaStorage_Validate :: "'v json_compiler \<Rightarrow> (DeveloperSchema, 'n) doc_store \<Rightarrow> string \<Rightarrow> gval \<Rightarrow> 'n \<times> 'v gomap
    \<Rightarrow> ('n \<times> 'v gomap) \<times> go_error option" where
  "SchemaStorage_Validate V S i data = (\<lambda>(n, m).
     case ds_load S n i of
       Inl e \<Rightarrow> ((n, m), Some e)
     | Inr so \<Rightarrow> (case ValidateWith V so data m of (m1, r) \<Rightarrow> ((n, m1), r)))"

datatype schema_body = SchemaItem DeveloperSchema | SchemaList "DeveloperSchema restQueryResponse"

definition search_text :: "string \<Rightarrow> string \<Rightarrow> string \<Rightarrow> string" where
  "search_text name description i = ToLower (name @ '' '' @ description @ '' '' @ i)"

definition listSchemas :: "(DeveloperSchema, 'n) doc_store \<Rightarrow> 'n \<Rightarrow> rest_context \<Rightarrow> schema_body reply" where
  "listSchemas S n c =
     (case restQueryLimit c of
        Inl r \<Rightarrow> r
      | Inr given \<Rightarrow>
          let nameFilter = name_filter c; limit = (if given = 0 then 200 else given); realm = restRequestRealm c;
              filtered = take_matching (\<lambda>s. sch_Realm s = realm \<and>
                \<not> (nameFilter \<noteq> '''' \<and> \<not> Contains (search_text (sch_Name s) (sch_Description s) (metadataID (sch_Metadata s))) nameFilter))
                limit 0 (ds_list S n)
          in JSON 200 (SchemaList (query_response (sort_key sch_Name filtered))))"

definition validateSchemaUniqueness :: "DeveloperSchema option list \<Rightarrow> DeveloperSchema \<Rightarrow> string \<Rightarrow> unit res" where
  "validateSchemaUniqueness listed s realm =
     (if first_document (\<lambda>e. sch_Realm e = realm \<and> sch_Name e = sch_Name s \<and> metadataID (sch_Metadata e) \<noteq> '''' \<and>
           metadataID (sch_Metadata e) \<noteq> metadataID (sch_Metadata s)) listed = None
      then Inr () else Inl (ErrText (''schema '' @ sch_Name s @ '' already exists in realm '' @ realm)))"

definition saveSchema :: "'v json_compiler \<Rightarrow> (string \<Rightarrow> DeveloperSchema option) \<Rightarrow> int \<Rightarrow> (DeveloperSchema, 'n) doc_store \<Rightarrow> rest_context
    \<Rightarrow> 'n \<times> 'v gomap \<Rightarrow> ('n \<times> 'v gomap) \<times> schema_body reply" where
  "saveSchema V unmarshal maxBytes S c = (\<lambda>(n, m).
     case readJSON unmarshal maxBytes c of
       Inl r \<Rightarrow> ((n, m), r)
     | Inr (body, sent) \<Rightarrow>
         let realm = restRequestRealm c; s = sent\<lparr>sch_Realm := realm\<rparr> in
         if TrimSpace (sch_Name s) = '''' then ((n, m), ErrorReply 400 ''invalid_schema'' (ErrText ''schema name is required''))
         else if length (sch_Schema s) = 0 then ((n, m), ErrorReply 400 ''invalid_schema'' (ErrText ''schema body is required''))
         else (case validateSchemaUniqueness (ds_list S n) s realm of
                 Inl e \<Rightarrow> ((n, m), ErrorReply 409 ''duplicate_schema'' e)
               | Inr _ \<Rightarrow>
                   (case SchemaStorage_Save V S (Some s) (n, m) of
                      (x, Inl e) \<Rightarrow> (x, ErrorReply 400 ''schema_save_failed'' e)
                    | (x, Inr saved) \<Rightarrow> (x, JSON (if restMetadataID (sch_Metadata s) = '''' then 201 else 200) (SchemaItem saved)))))"

definition getSchema :: "(DeveloperSchema, 'n) doc_store \<Rightarrow> 'n \<Rightarrow> rest_context \<Rightarrow> schema_body reply" where
  "getSchema S n c =
     (case ds_load S n (gx_Param c ''schemaId'') of
        Inl e \<Rightarrow> ErrorReply 404 ''schema_not_found'' (ErrText ''file does not exist'')
      | Inr None \<Rightarrow> Panicked ''nil pointer dereference''
      | Inr (Some s) \<Rightarrow> if sch_Realm s \<noteq> restRequestRealm c then ErrorReply 404 ''schema_not_found'' (ErrText ''file does not exist'')
                         else JSON 200 (SchemaItem s))"

definition deleteSchema :: "(DeveloperSchema, 'n) doc_store \<Rightarrow> rest_context \<Rightarrow> 'n \<times> 'v gomap \<Rightarrow> ('n \<times> 'v gomap) \<times> schema_body reply" where
  "deleteSchema S c = (\<lambda>(n, m).
     case ds_load S n (gx_Param c ''schemaId'') of
       Inl e \<Rightarrow> ((n, m), ErrorReply 404 ''schema_not_found'' (ErrText ''file does not exist''))
     | Inr None \<Rightarrow> ((n, m), Panicked ''nil pointer dereference'')
     | Inr (Some s) \<Rightarrow>
         if sch_Realm s \<noteq> restRequestRealm c then ((n, m), ErrorReply 404 ''schema_not_found'' (ErrText ''file does not exist''))
         else (case SchemaStorage_Delete S (gx_Param c ''schemaId'') (n, m) of
                 (x, Some (False, e)) \<Rightarrow> (x, ErrorReply 500 ''schema_delete_failed'' e)
               | (x, _) \<Rightarrow> (x, StatusReply 204)))"

subsection \<open>Schedules\<close>

text \<open>The API and the scheduler share the schedule storage, whose state is the scheduler's folder; \<open>S\<close> gives
  the storage's own operations and \<open>running\<close> tells whether the manager has a scheduler.\<close>

datatype schedule_body = ScheduleItem ScheduleConfiguration | ScheduleList "ScheduleConfiguration restQueryResponse"
  | ScheduleRun "ScheduleRunResult option"

definition sc_id :: "ScheduleConfiguration \<Rightarrow> string" where
  "sc_id s = or_default (sc_ID s) ''''"

definition listSchedules :: "(ScheduleConfiguration, 'f) doc_store \<Rightarrow> 'f \<Rightarrow> rest_context \<Rightarrow> schedule_body reply" where
  "listSchedules S folder c =
     (case restQueryLimit c of
        Inl r \<Rightarrow> r
      | Inr limit \<Rightarrow>
          let nameFilter = name_filter c; targetFilter = TrimSpace (gx_Query c ''target_type''); realm = restRequestRealm c;
              filtered = take_matching (\<lambda>s. sc_Realm s = realm \<and>
                \<not> (nameFilter \<noteq> '''' \<and> \<not> Contains (search_text (sc_Name s) (sc_Description s) (sc_id s)) nameFilter) \<and>
                \<not> (targetFilter \<noteq> '''' \<and> tg_Type (sc_Target s) \<noteq> targetFilter)) limit 0 (ds_list S folder)
          in JSON 200 (ScheduleList (query_response (sort_key sc_Name filtered))))"

definition validateScheduleUniqueness :: "ScheduleConfiguration option list \<Rightarrow> ScheduleConfiguration \<Rightarrow> string \<Rightarrow> unit res" where
  "validateScheduleUniqueness listed s realm =
     (if first_document (\<lambda>e. sc_Realm e = realm \<and> sc_Name e = sc_Name s \<and> sc_id e \<noteq> '''' \<and> sc_id e \<noteq> sc_id s) listed = None
      then Inr () else Inl (ErrText (''schedule '' @ sc_Name s @ '' already exists in realm '' @ realm)))"

definition ScheduleStorage_Save :: "('f, 'cr, 'sp) sched_env \<Rightarrow> (ScheduleConfiguration, 'f) doc_store \<Rightarrow> ScheduleConfiguration \<Rightarrow> 'f
    \<Rightarrow> 'f \<times> ScheduleConfiguration res" where
  "ScheduleStorage_Save E S s folder =
     (case ValidateScheduleConfiguration E s of
        (s1, Some e) \<Rightarrow> (folder, Inl e)
      | (s1, None) \<Rightarrow> ds_save S s1 folder)"

definition saveSchedule :: "('f, 'cr, 'sp) sched_env \<Rightarrow> (string \<Rightarrow> ScheduleConfiguration option) \<Rightarrow> int \<Rightarrow> (ScheduleConfiguration, 'f) doc_store
    \<Rightarrow> bool \<Rightarrow> int \<Rightarrow> rest_context \<Rightarrow> ('f, 'cr) Scheduler \<Rightarrow> ('f, 'cr) Scheduler \<times> schedule_body reply" where
  "saveSchedule E unmarshal maxBytes S running now c sd =
     (case readJSON unmarshal maxBytes c of
        Inl r \<Rightarrow> (sd, r)
      | Inr (body, sent) \<Rightarrow>
          let realm = restRequestRealm c; s = sent\<lparr>sc_Realm := realm\<rparr> in
          (case validateScheduleUniqueness (ds_list S (sd_folder sd)) s realm of
             Inl e \<Rightarrow> (sd, ErrorReply 409 ''duplicate_schedule'' e)
           | Inr _ \<Rightarrow>
               let created = (TrimSpace (sc_id s) = '''') in
               (case ScheduleStorage_Save E S s (sd_folder sd) of
                  (folder, Inl e) \<Rightarrow> (sd\<lparr>sd_folder := folder\<rparr>, ErrorReply 400 ''schedule_save_failed'' e)
                | (folder, Inr saved) \<Rightarrow>
                    let sd1 = sd\<lparr>sd_folder := folder\<rparr>; ok = JSON (if created then 201 else 200) (ScheduleItem saved) in
                    if \<not> running then (sd1, ok)
                    else (case Reload E now (Some saved) sd1 of
                            (sd2, Some (GoPanic m)) \<Rightarrow> (sd2, Panicked m)
                          | (sd2, Some e) \<Rightarrow> (sd2, ErrorReply 400 ''schedule_reload_failed'' e)
                          | (sd2, None) \<Rightarrow> (sd2, ok)))))"

definition visible_schedule :: "(ScheduleConfiguration, 'f) doc_store \<Rightarrow> 'f \<Rightarrow> rest_context \<Rightarrow> ScheduleConfiguration option" where
  "visible_schedule S folder c =
     (case ds_load S folder (gx_Param c ''scheduleId'') of
        Inr (Some s) \<Rightarrow> if sc_Realm s \<noteq> restRequestRealm c then None else Some s
      | _ \<Rightarrow> None)"

definition schedule_missing :: "schedule_body reply" where
  "schedule_missing = ErrorReply 404 ''schedule_not_found'' (ErrText ''file does not exist'')"

definition getSchedule :: "(ScheduleConfiguration, 'f) doc_store \<Rightarrow> 'f \<Rightarrow> rest_context \<Rightarrow> schedule_body reply" where
  "getSchedule S folder c =
     (case visible_schedule S folder c of None \<Rightarrow> schedule_missing | Some s \<Rightarrow> JSON 200 (ScheduleItem s))"

definition deleteSchedule :: "('f, 'cr, 'sp) sched_env \<Rightarrow> (ScheduleConfiguration, 'f) doc_store \<Rightarrow> bool \<Rightarrow> rest_context
    \<Rightarrow> ('f, 'cr) Scheduler \<Rightarrow> ('f, 'cr) Scheduler \<times> schedule_body reply" where
  "deleteSchedule E S running c sd =
     (case visible_schedule S (sd_folder sd) c of
        None \<Rightarrow> (sd, schedule_missing)
      | Some s \<Rightarrow>
          let i = gx_Param c ''scheduleId''; sd1 = (if running then Unschedule E i sd else sd) in
          (case ds_delete S i (sd_folder sd1) of
             (folder, Some (False, e)) \<Rightarrow> (sd1\<lparr>sd_folder := folder\<rparr>, ErrorReply 500 ''schedule_delete_failed'' e)
           | (folder, _) \<Rightarrow> (sd1\<lparr>sd_folder := folder\<rparr>, StatusReply 204)))"

definition empty_trigger :: ScheduleTriggerRequest where
  "empty_trigger = \<lparr>tr_Wait = None, tr_Args = [], tr_InitialData = []\<rparr>"

definition triggerSchedule :: "('f, 'cr, 'sp) sched_env \<Rightarrow> 'w target \<Rightarrow> (string \<Rightarrow> ScheduleTriggerRequest option) \<Rightarrow> int
    \<Rightarrow> (ScheduleConfiguration, 'f) doc_store \<Rightarrow> bool \<Rightarrow> int \<Rightarrow> int \<Rightarrow> rest_context \<Rightarrow> 'w \<times> ('f, 'cr) Scheduler
    \<Rightarrow> (('w \<times> ('f, 'cr) Scheduler) \<times> bool \<times> schedule_body reply) option" where
  "triggerSchedule E tgt unmarshal maxBytes S running t0 t1 c x =
     (case (if hq_Body (gx_request c) \<noteq> None \<and> gx_contentLength c \<noteq> 0
            then (case readJSON unmarshal maxBytes c of Inl r \<Rightarrow> Inl r | Inr (body, req) \<Rightarrow> Inr req)
            else Inr empty_trigger) of
        Inl r \<Rightarrow> Some (x, False, r)
      | Inr request \<Rightarrow>
          if \<not> running then Some (x, False, ErrorReply 503 ''scheduler_not_available'' (ErrText ''scheduler is not available''))
          else (case visible_schedule S (sd_folder (snd x)) c of
                  None \<Rightarrow> Some (x, False, schedule_missing)
                | Some s \<Rightarrow>
                    map_option (\<lambda>(x', background, result, err).
                      (x', background, (case err of
                         Some e \<Rightarrow> ErrorReply (if err_is (\<lambda>y. y = ErrJourneyNotFound) e then 404 else 400) ''schedule_trigger_failed'' e
                       | None \<Rightarrow> JSON 200 (ScheduleRun result))))
                    (TriggerSchedule E tgt t0 t1 (gx_Param c ''scheduleId'') (Some request) x)))"

subsection \<open>Cache instances\<close>

record restInstancesResponse =
  ir_Result :: "CacheInstanceInfo list"
  ir_ResultCount :: nat
  ir_Caches :: "CacheInfo list"

datatype instance_body = InstanceItem "CacheInstanceInfo option" | InstanceList restInstancesResponse
  | InstanceSchema CacheInfo | InstanceSchemaList "CacheInfo restQueryResponse"

definition configurable_caches :: "('v, 'n) Manager \<Rightarrow> CacheInfo list" where
  "configurable_caches m = filter inf_UserConfigurable (ListCaches m)"

definition configurable_key :: "('v, 'n) Manager \<Rightarrow> string \<Rightarrow> bool" where
  "configurable_key m key \<longleftrightarrow> key \<in> inf_Key ` set (configurable_caches m)"

definition cache_stat :: "('v, 'n) Manager \<Rightarrow> string \<Rightarrow> int \<times> int" where
  "cache_stat m key =
     fold (\<lambda>item (instances, sizeBytes). (instances + 1, wrap64 (sizeBytes + ii_SizeBytes item)))
       (filter (\<lambda>item. ii_Persisted item \<and> configurable_key m (ii_CacheKey item) \<and> ii_CacheKey item = key) (ListCacheInstances m)) (0, 0)"

definition listInstances :: "('v, 'n) Manager \<Rightarrow> rest_context \<Rightarrow> instance_body reply" where
  "listInstances m c =
     (case restQueryLimit c of
        Inl r \<Rightarrow> r
      | Inr limit \<Rightarrow>
          let cacheKeyFilter = first_query c ''cache'' ''key'';
              instanceFilter = ToLower (first_query c ''instance_id'' ''name'');
              filteredCaches = map (\<lambda>item. item\<lparr>inf_Instances := fst (cache_stat m (inf_Key item)), inf_SizeBytes := snd (cache_stat m (inf_Key item))\<rparr>)
                (filter (\<lambda>item. \<not> (cacheKeyFilter \<noteq> '''' \<and> inf_Key item \<noteq> cacheKeyFilter)) (configurable_caches m));
              filteredInstances = take_matching (\<lambda>item. ii_Persisted item \<and> configurable_key m (ii_CacheKey item) \<and>
                \<not> (cacheKeyFilter \<noteq> '''' \<and> ii_CacheKey item \<noteq> cacheKeyFilter) \<and>
                \<not> (instanceFilter \<noteq> '''' \<and> \<not> Contains (ToLower (ii_InstanceID item)) instanceFilter)) limit 0 (map Some (ListCacheInstances m))
          in JSON 200 (InstanceList \<lparr>ir_Result = sort_key ii_CacheKey (sort_key ii_InstanceID filteredInstances),
               ir_ResultCount = length filteredInstances, ir_Caches = sort_key inf_Key filteredCaches\<rparr>))"

text \<open>An instance the API shows: persisted, and of a cache that users may configure.\<close>

definition visible_instance :: "('v, 'n) Manager \<Rightarrow> string \<Rightarrow> string \<Rightarrow> CacheInstanceInfo option" where
  "visible_instance m key i =
     (case (GetCacheInstanceInfo m key i, GetCacheInfo m key) of
        (Some item, Some info) \<Rightarrow> if ii_Persisted item \<and> inf_UserConfigurable info then Some item else None
      | _ \<Rightarrow> None)"

definition getInstance :: "('v, 'n) Manager \<Rightarrow> rest_context \<Rightarrow> instance_body reply" where
  "getInstance m c =
     (case visible_instance m (gx_Param c ''cacheKey'') (gx_Param c ''instanceId'') of
        None \<Rightarrow> ErrorReply 404 ''instance_not_found'' ErrInstanceNotFound
      | Some item \<Rightarrow> JSON 200 (InstanceItem (Some item)))"

fun is_factory_missing :: "go_error \<Rightarrow> bool" where
  "is_factory_missing (ErrFactoryNotFound k) = True"
| "is_factory_missing _ = False"

definition writeCacheRESTError :: "go_error \<Rightarrow> instance_body reply" where
  "writeCacheRESTError e =
     (if err_is (\<lambda>x. x = ErrCacheNotFound) e \<or> err_is (\<lambda>x. x = ErrInstanceNotFound) e then ErrorReply 404 ''instance_not_found'' e
      else if err_is is_factory_missing e then ErrorReply 400 ''cache_not_persistable'' e
      else if err_is (\<lambda>x. x = ErrMaxInstances) e \<or> err_is (\<lambda>x. x = ErrMaxSize) e then ErrorReply 409 ''cache_limit_exceeded'' e
      else ErrorReply 400 ''invalid_instance'' e)"

text \<open>\<open>marshal\<close> is \<^verbatim>\<open>json.Marshal\<close> of a \<^verbatim>\<open>json.RawMessage\<close>.\<close>

definition saveInstance :: "'n nstore \<Rightarrow> (raw \<Rightarrow> raw res) \<Rightarrow> (string \<Rightarrow> raw option) \<Rightarrow> int \<Rightarrow> rest_context \<Rightarrow> ('v, 'n) Manager
    \<Rightarrow> ('v, 'n) Manager \<times> instance_body reply" where
  "saveInstance N marshal unmarshal maxBytes c m =
     (let key = TrimSpace (gx_Param c ''cacheKey''); i = TrimSpace (gx_Param c ''instanceId'') in
      if key = '''' \<or> i = '''' then (m, ErrorReply 400 ''invalid_instance'' (ErrText ''cache key and instance id are required''))
      else if (case GetCacheInfo m key of None \<Rightarrow> True | Some info \<Rightarrow> \<not> inf_UserConfigurable info)
      then (m, ErrorReply 404 ''instance_cache_not_found'' ErrCacheNotFound)
      else let existed = (GetCacheInstanceInfo m key i \<noteq> None) in
           (case readJSON unmarshal maxBytes c of
              Inl r \<Rightarrow> (m, r)
            | Inr (body, config) \<Rightarrow>
                (case UpdateCacheInstance N key i (marshal config) m of
                   (m', Some e) \<Rightarrow> (m', writeCacheRESTError e)
                 | (m', None) \<Rightarrow> (m', JSON (if existed then 200 else 201) (InstanceItem (GetCacheInstanceInfo m' key i))))))"

definition deleteInstance :: "'n nstore \<Rightarrow> rest_context \<Rightarrow> ('v, 'n) Manager \<Rightarrow> ('v, 'n) Manager \<times> instance_body reply" where
  "deleteInstance N c m =
     (case visible_instance m (gx_Param c ''cacheKey'') (gx_Param c ''instanceId'') of
        None \<Rightarrow> (m, ErrorReply 404 ''instance_not_found'' ErrInstanceNotFound)
      | Some item \<Rightarrow>
          (case RemoveCacheInstance N (gx_Param c ''cacheKey'') (gx_Param c ''instanceId'') m of
             (m', Some e) \<Rightarrow> (m', writeCacheRESTError e)
           | (m', None) \<Rightarrow> (m', StatusReply 204)))"

definition listInstanceSchemas :: "('v, 'n) Manager \<Rightarrow> rest_context \<Rightarrow> instance_body reply" where
  "listInstanceSchemas m c =
     (case restQueryLimit c of
        Inl r \<Rightarrow> r
      | Inr limit \<Rightarrow>
          let cacheKeyFilter = first_query c ''cache_key'' ''key'';
              typeFilter = ToLower (first_query c ''type'' ''name'');
              result = sort_key inf_Key (filter (\<lambda>item. inf_UserConfigurable item \<and> length (inf_Schema item) \<noteq> 0 \<and>
                \<not> (cacheKeyFilter \<noteq> '''' \<and> inf_Key item \<noteq> cacheKeyFilter) \<and>
                \<not> (typeFilter \<noteq> '''' \<and> \<not> Contains (ToLower (inf_Key item)) typeFilter \<and> \<not> Contains (ToLower (inf_Description item)) typeFilter))
                (ListCaches m))
          in JSON 200 (InstanceSchemaList (query_response (if limit > 0 then take (nat limit) result else result))))"

definition getInstanceSchema :: "('v, 'n) Manager \<Rightarrow> rest_context \<Rightarrow> instance_body reply" where
  "getInstanceSchema m c =
     (case GetCacheInfo m (TrimSpace (gx_Param c ''cacheKey'')) of
        Some item \<Rightarrow> if inf_UserConfigurable item \<and> length (inf_Schema item) \<noteq> 0 then JSON 200 (InstanceSchema item)
                     else ErrorReply 404 ''instance_schema_not_found'' (ErrText ''instance schema not found'')
      | None \<Rightarrow> ErrorReply 404 ''instance_schema_not_found'' (ErrText ''instance schema not found''))"

subsection \<open>Step schemas\<close>

datatype step_schema_body = StepSchemaList "(string \<times> gval) restQueryResponse" | StepSchemaDoc gval

definition listStepSchemas :: "'t Steps \<Rightarrow> rest_context \<Rightarrow> step_schema_body reply" where
  "listStepSchemas registry c =
     (case restQueryLimit c of
        Inl r \<Rightarrow> r
      | Inr limit \<Rightarrow>
          let stepTypeFilter = first_query c ''type'' ''name'';
              schemas = GetStepSchemasJSON registry;
              stepTypes = sort (filter (\<lambda>t. \<not> (stepTypeFilter \<noteq> '''' \<and> \<not> Contains (ToLower t) (ToLower stepTypeFilter))) (map fst schemas));
              shown = (if limit > 0 then take (nat limit) stepTypes else stepTypes)
          in JSON 200 (StepSchemaList (query_response (map (\<lambda>t. (t, or_default (gm_get schemas t) GNil)) shown))))"

text \<open>The schema is sent as raw JSON, \<^verbatim>\<open>Data(200, "application/json; charset=utf-8", schema)\<close>.\<close>

definition getStepSchema :: "'t Steps \<Rightarrow> rest_context \<Rightarrow> step_schema_body reply" where
  "getStepSchema registry c =
     (case gm_get (GetStepSchemasJSON registry) (TrimSpace (gx_Param c ''stepType'')) of
        None \<Rightarrow> ErrorReply 404 ''step_schema_not_found'' (ErrText ''step schema not found'')
      | Some schema \<Rightarrow> JSON 200 (StepSchemaDoc schema))"

subsection \<open>Access events\<close>

text \<open>The event of a request after its handlers: failed when a handler stored an error or the status is that
  of a server error. \<open>e\<close> is the error \<^verbatim>\<open>writeRESTError\<close> stored. The duration and the attributes,
  which repeat the request and the status, are not part of the model's events; a panicking handler
  emits none.\<close>

definition access_event :: "int \<Rightarrow> go_error option \<Rightarrow> string \<Rightarrow> string \<Rightarrow> Event" where
  "access_event status e verb fullPath =
     \<lparr>ev_Type = (if e \<noteq> None \<or> status \<ge> 500 then EventFailed else EventFinished), ev_Message = ''rest request'', ev_Error = e,
      ev_Subject = \<lparr>es_Type = ''rest'', es_ID = fullPath, es_Name = verb @ '' '' @ fullPath\<rparr>\<rparr>"

definition reply_error :: "'b reply \<Rightarrow> go_error option" where
  "reply_error r = (case r of ErrorReply status code e \<Rightarrow> Some e | _ \<Rightarrow> None)"

definition reply_status :: "'b reply \<Rightarrow> int" where
  "reply_status r = (case r of JSON s b \<Rightarrow> s | ErrorReply s code e \<Rightarrow> s | StatusReply s \<Rightarrow> s | DataReply s t d \<Rightarrow> s | Panicked m \<Rightarrow> 500)"

definition accessEventMiddleware :: "string \<Rightarrow> string \<Rightarrow> 'b reply \<Rightarrow> Event option" where
  "accessEventMiddleware verb fullPath r =
     (case r of Panicked m \<Rightarrow> None | _ \<Rightarrow> Some (access_event (reply_status r) (reply_error r) verb fullPath))"

end
