(* ===== verification/RestRouteFacts.thy ===== *)
theory RestRouteFacts
  imports RestRoutes
begin

text \<open>
  Facts on the addresses of the REST API: a normalised path is its non-empty segments, a resolved
  resource journey is an active resource journey named by the first segment of the path, whatever the
  route cache holds, and the prefix and the resource path make up the path. The middleware of every
  registered handler is that of its group.
\<close>

subsection \<open>Paths and their segments\<close>

definition segments :: "string \<Rightarrow> string list" where
  "segments s = filter (\<lambda>p. p \<noteq> '''') (Split (TrimSpace s) (CHR ''/''))"

lemma segments_part: "p \<in> set (segments s) \<Longrightarrow> p \<noteq> [] \<and> CHR ''/'' \<notin> set p"
  by (auto simp: segments_def dest: Split_parts)

lemma normalize_segments:
  "normalizeRoutePath s = (if segments s = [] then [] else CHR ''/'' # Join (segments s) ''/'')"
  by (auto simp: normalizeRoutePath_def segments_def Let_def)

lemma normalize_eq_Nil: "normalizeRoutePath s = [] \<longleftrightarrow> segments s = []"
  by (simp add: normalize_segments)

lemma Split_segments: "segments s \<noteq> [] \<Longrightarrow> Split (Join (segments s) ''/'') (CHR ''/'') = segments s"
  by (rule Split_Join) (use segments_part in auto)

definition first_segment :: "string \<Rightarrow> string" where
  "first_segment s = CHR ''/'' # hd (segments s)"

text \<open>A path of non-empty segments whose last one does not end in a blank is normal.\<close>

lemma Join_last: "ws \<noteq> [] \<Longrightarrow> (\<And>w. w \<in> set ws \<Longrightarrow> w \<noteq> []) \<Longrightarrow> Join ws sep \<noteq> [] \<and> last (Join ws sep) = last (last ws)"
proof (induction ws sep rule: Join.induct)
  case (3 w v ws sep)
  then have "Join (v # ws) sep \<noteq> []" "last (Join (v # ws) sep) = last (last (v # ws))" by auto
  then show ?case by simp
qed auto

lemma TrimSpace_joined:
  assumes "ws \<noteq> []" and "\<And>w. w \<in> set ws \<Longrightarrow> w \<noteq> []" and "\<not> is_space (last (last ws))"
  shows "TrimSpace (CHR ''/'' # Join ws ''/'') = CHR ''/'' # Join ws ''/''"
proof -
  have "\<not> is_space (CHR ''/'')" by (simp add: is_space_def)
  moreover have "\<not> is_space (last (CHR ''/'' # Join ws ''/''))" using Join_last [OF assms(1,2)] assms(3) by simp
  ultimately show ?thesis unfolding TrimSpace_def by (intro trim_by_id) auto
qed

lemma normalize_joined:
  assumes "ws \<noteq> []" and "\<And>w. w \<in> set ws \<Longrightarrow> w \<noteq> [] \<and> CHR ''/'' \<notin> set w" and "\<not> is_space (last (last ws))"
  shows "normalizeRoutePath (CHR ''/'' # Join ws ''/'') = CHR ''/'' # Join ws ''/''"
    and "segments (CHR ''/'' # Join ws ''/'') = ws"
proof -
  have split: "Split (Join ws ''/'') (CHR ''/'') = ws" by (rule Split_Join) (use assms in auto)
  have t: "TrimSpace (CHR ''/'' # Join ws ''/'') = CHR ''/'' # Join ws ''/''"
    by (rule TrimSpace_joined) (use assms in auto)
  show s: "segments (CHR ''/'' # Join ws ''/'') = ws"
    unfolding segments_def t using split assms(2) by (simp add: filter_id_conv)
  show "normalizeRoutePath (CHR ''/'' # Join ws ''/'') = CHR ''/'' # Join ws ''/''"
    using assms(1) by (simp add: normalize_segments s)
qed

definition blank_free :: "string \<Rightarrow> bool" where
  "blank_free s \<longleftrightarrow> list_all (\<lambda>p. \<not> is_space (last p)) (segments s)"

lemma normalized_route_idem:
  assumes "blank_free s"
  shows "normalizeRoutePath (normalizeRoutePath s) = normalizeRoutePath s"
proof (cases "segments s = []")
  case False
  with assms have "\<not> is_space (last (last (segments s)))" by (simp add: blank_free_def list_all_iff)
  with normalize_joined(1) [of "segments s"] False segments_part show ?thesis
    unfolding normalize_segments [of s] by auto
next
  case True
  then show ?thesis by (simp add: normalize_segments) (simp add: segments_def)
qed

lemma route_prefix:
  assumes "segments s \<noteq> []"
  shows "''/'' @ hd (Split (TrimPrefix (normalizeRoutePath s) ''/'') (CHR ''/'')) = first_segment s"
proof -
  have "TrimPrefix (normalizeRoutePath s) ''/'' = Join (segments s) ''/''"
    using assms TrimPrefix_append [of "''/''" "Join (segments s) ''/''"] by (simp add: normalize_segments)
  with assms show ?thesis by (simp add: Split_segments first_segment_def)
qed

text \<open>Where no segment ends in a blank, the prefix and the resource path are the whole path.\<close>

definition resource_path :: "string \<Rightarrow> string" where
  "resource_path s = CHR ''/'' # Join (tl (segments s)) ''/''"

lemma resource_path_split:
  assumes "blank_free s" and ne: "segments s \<noteq> []"
  shows "resourcePathForPrefix (normalizeRoutePath s) (first_segment s) = resource_path s"
proof -
  obtain w ws where ww: "segments s = w # ws" using ne by (cases "segments s") auto
  have w: "w \<noteq> []" "CHR ''/'' \<notin> set w" "\<not> is_space (last w)"
    using segments_part [of w s] assms(1) ww by (auto simp: blank_free_def)
  have f: "first_segment s = CHR ''/'' # Join [w] ''/''" by (simp add: first_segment_def ww)
  have nf: "normalizeRoutePath (first_segment s) = CHR ''/'' # w"
    unfolding f using normalize_joined(1) [of "[w]"] w by simp
  have n: "normalizeRoutePath s = CHR ''/'' # Join (w # ws) ''/''" by (simp add: normalize_segments ww)
  show ?thesis
  proof (cases ws)
    case Nil
    then show ?thesis
      using nf f by (simp add: resourcePathForPrefix_def normalized_route_idem [OF assms(1)] n resource_path_def ww Let_def)
  next
    case (Cons v vs)
    have "CHR ''/'' # Join (w # ws) ''/'' = (CHR ''/'' # w) @ CHR ''/'' # Join ws ''/''" using Cons by simp
    then have "TrimPrefix (normalizeRoutePath s) (CHR ''/'' # w) = CHR ''/'' # Join ws ''/''"
      unfolding n by (metis TrimPrefix_append)
    moreover have "normalizeRoutePath s \<noteq> CHR ''/'' # w" using n Cons by simp
    moreover have "HasPrefix (CHR ''/'' # Join ws ''/'') ''/''" by (simp add: HasPrefix_def)
    ultimately show ?thesis
      by (simp add: resourcePathForPrefix_def normalized_route_idem [OF assms(1)] nf resource_path_def ww Let_def)
  qed
qed

subsection \<open>Resolution\<close>

lemma resolve_unfold:
  assumes "segments s \<noteq> []"
  shows "resolveRouteJourney load listed s cache =
     (case cached_route load (first_segment s) cache of
        (cache1, Some j) \<Rightarrow> (cache1, Inr (Some (route_match (normalizeRoutePath s) (first_segment s) j)))
      | (cache1, None) \<Rightarrow>
          (case find_resource (first_segment s) listed of
             None \<Rightarrow> (cache1, Inr None)
           | Some j \<Rightarrow>
               if jc_Metadata j = None then (cache1, Inl (GoPanic ''nil pointer dereference''))
               else (rc_Set (first_segment s) (jc_ID j) cache1, Inr (Some (route_match (normalizeRoutePath s) (first_segment s) j)))))"
  using assms by (simp add: resolveRouteJourney_def findRouteJourneyByName_def route_prefix [OF assms, simplified] normalize_eq_Nil Let_def)

lemma resolve_empty: "segments s = [] \<Longrightarrow> resolveRouteJourney load listed s cache = (cache, Inr None)"
  by (simp add: resolveRouteJourney_def normalize_eq_Nil Let_def)

lemma find_resource_Some: "find_resource p js = Some j \<Longrightarrow> Some j \<in> set js \<and> routeJourneyMatches (Some j) p"
  by (induction js) (auto split: if_splits)

lemma find_resource_None: "find_resource p js = None \<longleftrightarrow> (\<forall>j. Some j \<in> set js \<longrightarrow> \<not> routeJourneyMatches (Some j) p)"
proof (induction js)
  case (Cons a js)
  then show ?case by (cases a) (auto simp: routeJourneyMatches_def)
qed simp

lemma cached_route_Some:
  "cached_route load p cache = (cache', Some j) \<Longrightarrow> cache' = cache \<and> routeJourneyMatches (Some j) p \<and> (\<exists>i. load i = Inr (Some j))"
  by (auto simp: cached_route_def split: option.splits sum.splits if_splits)

lemma matches_iff:
  "routeJourneyMatches (Some j) p \<longleftrightarrow>
     jc_Active j \<and> normalizeRoutePath (jc_Name j) = p \<and> NormalizeJourneyType (jc_JourneyType j) = ResourceJourney"
  by (auto simp: routeJourneyMatches_def)

lemma resolved_cases:
  assumes "resolveRouteJourney load listed s cache = (cache', Inr (Some m))"
  shows "segments s \<noteq> [] \<and> m = route_match (normalizeRoutePath s) (first_segment s) (rj_Journey m) \<and>
    routeJourneyMatches (Some (rj_Journey m)) (first_segment s) \<and>
    (Some (rj_Journey m) \<in> set listed \<or> (\<exists>i. load i = Inr (Some (rj_Journey m))))"
proof -
  have ne: "segments s \<noteq> []" using assms resolve_empty [of s load listed cache] by auto
  then show ?thesis
    using assms
    by (auto simp: resolve_unfold route_match_def split: prod.splits option.splits if_splits
             dest!: find_resource_Some cached_route_Some)
qed

text \<open>C15. Whatever the route cache holds, a resolved resource journey is active, is of the resource type
  and is named by the first segment of the path; it comes from the storage; and where no segment of
  the path ends in a blank, the route prefix and the route path handed to the journey are the first
  segment and the rest of the path.\<close>

theorem route_resolution_sound:
  assumes "resolveRouteJourney load listed s cache = (cache', Inr (Some m))"
  shows "jc_Active (rj_Journey m) \<and> NormalizeJourneyType (jc_JourneyType (rj_Journey m)) = ResourceJourney
    \<and> normalizeRoutePath (jc_Name (rj_Journey m)) = rj_RoutePrefix m
    \<and> (Some (rj_Journey m) \<in> set listed \<or> (\<exists>i. load i = Inr (Some (rj_Journey m))))
    \<and> rj_RoutePrefix m = CHR ''/'' # hd (segments s)
    \<and> (blank_free s \<longrightarrow> rj_ResourcePath m = CHR ''/'' # Join (tl (segments s)) ''/'')"
proof -
  note r = resolved_cases [OF assms]
  then have p: "rj_RoutePrefix m = first_segment s"
    and q: "rj_ResourcePath m = resourcePathForPrefix (normalizeRoutePath s) (first_segment s)"
    by (metis route_match_def restRouteJourneyMatch.select_convs(2,3))+
  show ?thesis
    using r p q resource_path_split [of s]
    by (auto simp: matches_iff first_segment_def resource_path_def)
qed

definition orders :: JourneyConfiguration where
  "orders = tiny_journey\<lparr>jc_Metadata := Some \<lparr>md_ID = ''j1'', md_Rev = ''1''\<rparr>, jc_Name := ''orders'',
     jc_Active := True, jc_JourneyType := ''resource''\<rparr>"

definition orders_load :: "string \<Rightarrow> JourneyConfiguration option res" where
  "orders_load i = (if i = ''j1'' then Inr (Some orders) else Inl (ErrText ''not found''))"

definition orders_match :: restRouteJourneyMatch where
  "orders_match = \<lparr>rj_Journey = orders, rj_RoutePrefix = ''/orders'', rj_ResourcePath = ''/items/7''\<rparr>"

lemma orders_resolved:
  "resolveRouteJourney orders_load [None, Some orders] ''/orders//items/7/'' (Some [(''/orders'', ''gone'')]) =
     (Some [(''/orders'', ''j1'')], Inr (Some orders_match))"
  by code_simp

theorem route_resolution_sound_witness:
  "jc_Active orders \<and> NormalizeJourneyType (jc_JourneyType orders) = ResourceJourney
    \<and> normalizeRoutePath (jc_Name orders) = ''/orders'' \<and> rj_ResourcePath orders_match = ''/items/7''"
  using route_resolution_sound [OF orders_resolved] by (simp add: orders_match_def)

subsection \<open>The cache\<close>

text \<open>What the resolution relies on of a journey storage: what it loads it lists, with metadata.\<close>

definition lookup_ok :: "(string \<Rightarrow> JourneyConfiguration option res) \<Rightarrow> JourneyConfiguration option list \<Rightarrow> bool" where
  "lookup_ok load listed \<longleftrightarrow>
     (\<forall>i j. load i = Inr (Some j) \<longrightarrow> Some j \<in> set listed) \<and> (\<forall>j. Some j \<in> set listed \<longrightarrow> jc_Metadata j \<noteq> None)"

text \<open>The search that uses no cache.\<close>

definition uncached_route :: "JourneyConfiguration option list \<Rightarrow> string \<Rightarrow> restRouteJourneyMatch option" where
  "uncached_route listed s =
     (if segments s = [] then None
      else map_option (route_match (normalizeRoutePath s) (first_segment s)) (find_resource (first_segment s) listed))"


lemma orders_lookup: "lookup_ok orders_load [None, Some orders]"
  by (auto simp: lookup_ok_def orders_load_def orders_def split: if_splits)


text \<open>After a resolution the next one for the same path is answered from the cache, which it leaves as it is.\<close>

lemma resolution_cached:
  assumes "resolveRouteJourney load listed s (Some es) = (cache', Inr (Some m))"
    and "load (jc_ID (rj_Journey m)) = Inr (Some (rj_Journey m))" and "jc_ID (rj_Journey m) \<noteq> ''''"
  shows "cached_route load (first_segment s) cache' = (cache', Some (rj_Journey m))"
proof -
  note r = resolved_cases [OF assms(1)]
  show ?thesis
  proof (cases "snd (cached_route load (first_segment s) (Some es))")
    case None
    then obtain c1 where c: "cached_route load (first_segment s) (Some es) = (c1, None)" by (metis prod.collapse)
    then have "c1 \<noteq> None" by (auto simp: cached_route_def rc_Delete_def split: option.splits sum.splits if_splits)
    moreover have "cache' = rc_Set (first_segment s) (jc_ID (rj_Journey m)) c1"
      using assms(1) c r by (auto simp: resolve_unfold route_match_def split: option.splits if_splits)
    ultimately have "rc_Get (first_segment s) cache' = Some (jc_ID (rj_Journey m))"
      using assms(3) by (auto simp: rc_Set_def rc_Get_def)
    with assms(2) r show ?thesis by (simp add: cached_route_def)
  next
    case (Some j)
    then obtain c1 where c: "cached_route load (first_segment s) (Some es) = (c1, Some j)" by (metis prod.collapse)
    with cached_route_Some have "c1 = Some es" by blast
    with assms(1) c r show ?thesis by (auto simp: resolve_unfold route_match_def)
  qed
qed

subsection \<open>Registration\<close>

lemma check_route_ok: "check_route name route ps = Inr u \<Longrightarrow> set ps \<subseteq> set (routeParamSet route)"
  by (induction ps) (auto split: if_splits)

lemma check_routes_ok: "check_routes name ps routes = Inr u \<Longrightarrow> r \<in> set routes \<Longrightarrow> set ps \<subseteq> set (routeParamSet r)"
proof (induction routes)
  case (Cons a routes)
  then show ?case
    by (cases "check_route name a ps") (auto dest: check_route_ok)
qed simp

lemma validate_groups_ok:
  "validate_groups gs = Inr u \<Longrightarrow> (name, routes, ps) \<in> set gs \<Longrightarrow> r \<in> set routes \<Longrightarrow> set ps \<subseteq> set (routeParamSet r)"
proof (induction gs rule: validate_groups.induct)
  case (2 n rs qs rest)
  then show ?case
    by (cases "validateRESTRouteTemplates n rs qs")
       (auto simp: validateRESTRouteTemplates_def split: if_splits dest: check_routes_ok)
qed simp

lemma in_on_group:
  "r \<in> set (on_group mws base hs ts) \<longleftrightarrow>
     ro_Middleware r = mws \<and> ro_Base r = base \<and> ro_Template r \<in> set ts \<and> (ro_Method r, ro_Handler r) \<in> set hs"
  by (cases r) (force simp: on_group_def)

text \<open>The identifiers in the path that each handler reads; the realm, which may come from elsewhere, is not one.\<close>

fun handler_params :: "rest_handler \<Rightarrow> string list" where
  "handler_params GetJourneyH = ['':journeyId'']"
| "handler_params DeleteJourneyH = ['':journeyId'']"
| "handler_params GetScriptH = ['':scriptId'']"
| "handler_params DeleteScriptH = ['':scriptId'']"
| "handler_params GetScriptBindingsH = ['':scriptId'']"
| "handler_params GetSchemaH = ['':schemaId'']"
| "handler_params DeleteSchemaH = ['':schemaId'']"
| "handler_params GetScheduleH = ['':scheduleId'']"
| "handler_params DeleteScheduleH = ['':scheduleId'']"
| "handler_params TriggerScheduleH = ['':scheduleId'']"
| "handler_params GetInstanceH = ['':cacheKey'', '':instanceId'']"
| "handler_params SaveInstanceH = ['':cacheKey'', '':instanceId'']"
| "handler_params DeleteInstanceH = ['':cacheKey'', '':instanceId'']"
| "handler_params GetInstanceSchemaH = ['':cacheKey'']"
| "handler_params GetStepSchemaH = ['':stepType'']"
| "handler_params _ = []"

definition params_in :: "RESTAPIRoutes \<Rightarrow> bool" where
  "params_in R \<longleftrightarrow> (\<forall>(name, routes, ps) \<in> set (route_checks R). \<forall>t \<in> set routes. set ps \<subseteq> set (routeParamSet t))"

lemma restAPIRoutes_params: "restAPIRoutes conf o' = Inr R \<Longrightarrow> params_in R"
  by (cases "validate_groups (route_checks (route_templates conf o'))")
     (auto simp: restAPIRoutes_def params_in_def Let_def dest: validate_groups_ok)

lemma admin_routes_params:
  assumes "params_in R" and "r \<in> set (admin_routes mws base sch R)"
  shows "set (handler_params (ro_Handler r)) \<subseteq> set (routeParamSet (ro_Template r))"
  using assms(2) assms(1) [unfolded params_in_def route_checks_def, simplified]
  by (auto simp: admin_routes_def in_on_group split: if_splits)

lemma admin_routes_middleware:
  "r \<in> set (admin_routes mws base sch R) \<Longrightarrow> ro_Middleware r = mws \<and> ro_Handler r \<noteq> InvokeJourneyH \<and> ro_Base r = base"
  by (auto simp: admin_routes_def in_on_group split: if_splits)

lemma rest_routes_middleware:
  assumes "r \<in> set (rest_routes c base sch R)"
  shows "ro_Middleware r = map Configured (cf_Middleware c) @ [AccessEvents] @
           map Configured (if ro_Handler r = InvokeJourneyH then cf_InvocationMiddleware c else cf_AdminMiddleware c)"
proof -
  let ?a = "map Configured (cf_Middleware c) @ [AccessEvents] @ map Configured (cf_AdminMiddleware c)"
  consider "r \<in> set (admin_routes ?a base sch R)"
    | "r \<in> set (on_group (map Configured (cf_Middleware c) @ [AccessEvents] @ map Configured (cf_InvocationMiddleware c)) base
         [(''POST'', InvokeJourneyH)] (ra_Invoke R))"
    | "r \<in> set (on_group ?a base [(''GET'', GetJourneyH), (''DELETE'', DeleteJourneyH)] (ra_JourneyItems R))"
    using assms by (auto simp: rest_routes_def Let_def)
  then show ?thesis
    by cases (auto simp: in_on_group dest!: admin_routes_middleware)
qed

lemma rest_routes_params:
  assumes "params_in R" and "r \<in> set (rest_routes c base sch R)"
  shows "set (handler_params (ro_Handler r)) \<subseteq> set (routeParamSet (ro_Template r))"
proof (cases "\<exists>mws. r \<in> set (admin_routes mws base sch R)")
  case True
  then show ?thesis using admin_routes_params [OF assms(1)] by blast
next
  case False
  then show ?thesis
    using assms(2) assms(1) [unfolded params_in_def route_checks_def, simplified]
    by (auto simp: rest_routes_def in_on_group Let_def)
qed

lemma registered:
  assumes "registerRESTAPI cs cb cl D (Some c) = Inr (Some api)"
  obtains R base sch where "restAPIRoutes cl (cf_Routes c) = Inr R" and "api_routes api = rest_routes c base sch R"
    and "registerResourceJourneyFallback c = Inr (api_noRoute api)"
  using assms unfolding registerRESTAPI_def Let_def
  by (auto simp: bind_res_Inr_iff split: if_splits)


definition sample_config :: "(string, unit, unit, unit, unit) RESTAPIConfig" where
  "sample_config = \<lparr>cf_Enabled = True, cf_Router = Some True, cf_BasePath = '''', cf_Routes = no_routes, cf_UIEnabled = False,
     cf_UIPath = '''', cf_Middleware = [''log''], cf_AdminMiddleware = [''admin''], cf_InvocationMiddleware = [''user''],
     cf_JourneyStorage = Some (), cf_ScriptStorage = Some (), cf_SchemaStorage = Some (), cf_ScheduleStorage = None,
     cf_MaxBodyBytes = 0, cf_ReturnVars = False\<rparr>"

definition sample_defaults :: "(unit, unit, unit, unit) rest_defaults" where
  "sample_defaults = \<lparr>df_journeys = None, df_scripts = None, df_schemas = None, df_cachedSchemas = None, df_schedules = None\<rparr>"

definition no_conf :: "string \<Rightarrow> 'a res" where
  "no_conf key = Inl (ErrText ''field not found'')"

abbreviation sample_registration :: "(string, unit, unit, unit, unit) restAPI option res" where
  "sample_registration \<equiv> registerRESTAPI no_conf no_conf no_conf sample_defaults (Some sample_config)"

lemma sample_registered: "\<exists>api. sample_registration = Inr (Some api) \<and> api_basePath api = ''/journey'' \<and> length (api_routes api) = 23"
proof -
  have "case sample_registration of Inr (Some api) \<Rightarrow> api_basePath api = ''/journey'' \<and> length (api_routes api) = 23 | _ \<Rightarrow> False"
    by code_simp
  then show ?thesis by (auto split: sum.splits option.splits)
qed


end
