(* ===== verification/RestInvokeFacts.thy ===== *)
theory RestInvokeFacts
  imports RestInvoke RestRouteFacts ExecutionFacts
begin

text \<open>
  Facts on invocation over REST: a journey only answers in the realm of the request and never with
  confidential permission, the replies to failures, the two response mutators agree on canonical
  header names, and a journey that ends without a response of its own has its cookies sent twice.
\<close>

subsection \<open>The two mutators\<close>

lemma mutator_of_memory [simp]: "mutator_of (memory_of r) = r"
  by (simp add: mutator_of_def memory_of_def or_default_def)

locale response_mutator =
  fixes set_header :: "string \<Rightarrow> string \<Rightarrow> 'r \<Rightarrow> 'r"
    and add_header :: "string \<Rightarrow> string \<Rightarrow> 'r \<Rightarrow> 'r"
    and header_of :: "'r \<Rightarrow> string \<Rightarrow> string list"
    and name_ok :: "string \<Rightarrow> bool"
  assumes header_set: "name_ok n \<Longrightarrow> name_ok n' \<Longrightarrow> header_of (set_header n v r) n' = (if n' = n then [v] else header_of r n')"
    and header_add: "name_ok n \<Longrightarrow> name_ok n' \<Longrightarrow> header_of (add_header n v r) n' = (if n' = n then header_of r n @ [v] else header_of r n')"
begin

lemma added_values:
  "name_ok n \<Longrightarrow> header_of (fold (add_header n) vs r) n = header_of r n @ vs"
  by (induction vs arbitrary: r) (simp_all add: header_add)

lemma set_then_added: "name_ok n \<Longrightarrow> header_of (fold (add_header n) vs (set_header n v r)) n = v # vs"
  by (simp add: added_values header_set)

end

definition canonical_name :: "string \<Rightarrow> bool" where
  "canonical_name n \<longleftrightarrow> TrimSpace n \<noteq> '''' \<and> canonical_key n = n"

lemma values_of_put: "values_of (gm_put k vs hs) k' = (if k' = k then vs else values_of hs k')"
  by (simp add: values_of_def or_default_def)

interpretation rest_mutator: response_mutator rm_Header rm_AddHeader "\<lambda>r n. values_of (rm_headers r) n" canonical_name
  by unfold_locales (auto simp: rm_Header_def rm_AddHeader_def canonical_name_def values_of_put Let_def)

interpretation memory_mutator: response_mutator "\<lambda>n v m. the (Response_Header n v (Some m))" "\<lambda>n v m. the (AddHeader n v (Some m))"
  "\<lambda>m n. values_of (or_default (rs_Headers m) []) n" canonical_name
  by unfold_locales
     (auto simp: Response_Header_def AddHeader_def canonical_name_def values_of_put or_default_def [of "Some _"] Let_def)

text \<open>Each operation on the executor's response is the operation of the REST mutator.\<close>

lemma mutator_simulation:
  "canonical_name n \<Longrightarrow> map_option mutator_of (Response_Header n v (Some m)) = Some (rm_Header n v (mutator_of m))"
  "canonical_name n \<Longrightarrow> map_option mutator_of (AddHeader n v (Some m)) = Some (rm_AddHeader n v (mutator_of m))"
  "map_option mutator_of (SetResponseCookie c (Some m)) = Some (rm_SetCookie c (mutator_of m))"
  "map_option mutator_of (Status code (Some m)) = Some (rm_Status code (mutator_of m))"
  "map_option mutator_of (Response_Body ct data (Some m)) = Some (rm_Body ct data (mutator_of m))"
  by (auto simp: canonical_name_def Response_Header_def AddHeader_def SetResponseCookie_def Status_def Response_Body_def
      rm_Header_def rm_AddHeader_def rm_SetCookie_def rm_Status_def rm_Body_def mutator_of_def or_default_def Let_def
      split: option.splits)

subsection \<open>Replies of an invocation\<close>

definition failed_reply :: "'b reply \<Rightarrow> bool" where
  "failed_reply r = (case r of ErrorReply s code e \<Rightarrow> True | _ \<Rightarrow> False)"

lemma plain_reply_simps [simp]: "gr_reply (plain_reply r) = r" "gr_headers (plain_reply r) = []"
  by (simp_all add: plain_reply_def)

lemma read_body_failed: "read_body n c = Inl r \<Longrightarrow> failed_reply r"
  by (auto simp: read_body_def failed_reply_def split: option.splits sum.splits if_splits)

lemma readJSON_failed: "readJSON u n c = Inl r \<Longrightarrow> failed_reply r"
  by (auto simp: readJSON_def failed_reply_def split: option.splits sum.splits if_splits dest: read_body_failed [unfolded failed_reply_def])

lemma readJSON_ok: "readJSON u n c = Inr (body, v) \<Longrightarrow> u body = Some v \<and> body \<noteq> '''' \<and> int (length body) \<le> n"
  by (auto simp: readJSON_def read_body_def split: option.splits sum.splits if_splits)

subsection \<open>Admission\<close>

lemma resumes_realm [simp]: "jp_ResumeID (SetPayloadRealm r p) = jp_ResumeID p" "TokenPresent (SetPayloadRealm r p) = TokenPresent p"
    "jp_realm (SetPayloadRealm r p) = r"
  by (simp_all add: SetPayloadRealm_def TokenPresent_def)

lemma InvokeJourney_rejected:
  assumes "je_Payload ex = Some p" and "GetJourneyState jm (Some p) (je_IsConfidential ex) ms = (ms1, Inl e)"
  shows "\<exists>ms'. InvokeJourney jm fuel rand (Some ex) ms = Some (ms', None, Inl e)"
  using assms by (simp add: InvokeJourney_def Let_def)

lemma engine_rejected:
  assumes "je_Payload ex = Some p" and "GetJourneyState jm (Some p) (je_IsConfidential ex) ms = (ms1, Inl e)"
  shows "\<exists>ms'. engine_invoke jm fuel rand ex r ms = Some (ms', r, None, None, Some e)"
proof -
  obtain ms' where "InvokeJourney jm fuel rand (Some (ex\<lparr>je_Response := Some (memory_of r)\<rparr>)) ms = Some (ms', None, Inl e)"
    using InvokeJourney_rejected [of "ex\<lparr>je_Response := Some (memory_of r)\<rparr>" p jm ms ms1 e fuel rand] assms by auto
  then show ?thesis by (simp add: engine_invoke_def tx_mutator_def)
qed

lemma rejection_reply:
  "gr_reply (after_failure T E H resource c newRESTResponseMutator None e) =
     (if resource \<and> err_is (\<lambda>x. x = ErrJourneyNotFound) e then StatusReply 404 else writeJourneyExecutionError T E None e)"
  by (simp add: after_failure_def applyTerminal_def newRESTResponseMutator_def Let_def)

lemma error_without_state: "failed_reply (writeJourneyExecutionError T E None e)"
  by (simp add: writeJourneyExecutionError_def failed_reply_def hasFailureTerminalResponse_def)

text \<open>The execution after the \<^verbatim>\<open>PrepareExecution\<close> callback, and that it runs an active journey: of the given
  realm when that is still the realm of the payload, and a confidential one only when the execution is
  confidential or resumes.\<close>

definition prepared :: "'t rest_hooks \<Rightarrow> rest_context \<Rightarrow> JourneyExecute \<Rightarrow> JourneyExecute \<times> go_error option" where
  "prepared H c ex = (case hk_prepare H of None \<Rightarrow> (ex, None) | Some f \<Rightarrow> f c ex)"

definition runs_in_realm :: "('t, 'c, 's, 'k) journeyManager \<Rightarrow> JourneyExecute \<Rightarrow> ('c, 's) manager_state \<Rightarrow> string \<Rightarrow> bool" where
  "runs_in_realm jm ex ms realm \<longleftrightarrow>
     (\<exists>p ms1 st conf. je_Payload ex = Some p \<and> GetJourneyState jm (Some p) (je_IsConfidential ex) ms = (ms1, Inr (st, conf)) \<and>
        jc_Active conf \<and> (jc_Confidential conf \<longrightarrow> je_IsConfidential ex \<or> resumes p) \<and>
        (jp_realm p = Some (named_realm realm) \<and> realm \<noteq> '''' \<longrightarrow> jc_Realm conf = realm))"

lemma engine_without_payload:
  "je_Payload ex = None \<Longrightarrow> \<exists>ms' e. engine_invoke jm fuel rand ex r ms = Some (ms', r, None, None, Some e)"
  by (simp add: engine_invoke_def InvokeJourney_def tx_mutator_def)

lemma run_execution_admitted:
  assumes "run_execution T E H (engine_invoke jm fuel rand) resource c ex ms = Some (ms', resp)"
    and "\<not> failed_reply (gr_reply resp)" and "\<not> (resource \<and> gr_reply resp = StatusReply 404)"
  shows "\<exists>ex1. prepared H c ex = (ex1, None) \<and> runs_in_realm jm ex1 ms realm"
proof -
  obtain ex1 refused where h: "prepared H c ex = (ex1, refused)" by force
  with assms(1,2) have n: "refused = None"
    by (auto simp: run_execution_def prepared_def failed_reply_def Let_def split: option.splits prod.splits)
  have fails: False if "engine_invoke jm fuel rand ex1 newRESTResponseMutator ms = Some (ms2, newRESTResponseMutator, None, None, Some e)" for ms2 e
  proof -
    have "resp = after_failure T E H resource c newRESTResponseMutator None e"
      using assms(1) h n that by (auto simp: run_execution_def prepared_def Let_def split: option.splits prod.splits)
    with assms(2,3) error_without_state [of T E e] show False by (simp add: rejection_reply split: if_splits)
  qed
  then obtain p where p: "je_Payload ex1 = Some p" using engine_without_payload [of ex1] by (cases "je_Payload ex1") blast+
  obtain ms1 x where g: "GetJourneyState jm (Some p) (je_IsConfidential ex1) ms = (ms1, x)" by force
  with engine_rejected [OF p] fails obtain st conf where x: "x = Inr (st, conf)" by (cases x) (blast, auto)
  from GetJourneyState_ok [OF g [unfolded x]] have "jc_Active conf" "jc_Confidential conf \<longrightarrow> je_IsConfidential ex1 \<or> resumes p"
    "jp_realm p = Some (named_realm realm) \<and> realm \<noteq> '''' \<longrightarrow> jc_Realm conf = realm"
    by (auto simp: realm_mismatch_def named_realm_def)
  with p g x have "runs_in_realm jm ex1 ms realm" unfolding runs_in_realm_def by blast
  with h n show ?thesis by simp
qed

text \<open>The execution the invocation handler makes of a request.\<close>

definition invoke_execution :: "rest_context \<Rightarrow> string \<Rightarrow> JourneyPayloadReq \<Rightarrow> int \<Rightarrow> JourneyExecute" where
  "invoke_execution c body payload maxBytes =
     \<lparr>je_Payload = Some (SetPayloadRealm (Some (named_realm (restRequestRealm c))) payload), je_IsConfidential = False,
      je_Request = Some (ReqHTTP (Some (NewHTTPRequestAccessorWithBody (Some (gx_request c)) body maxBytes))), je_Response = None\<rparr>"

lemma journey_invocation:
  assumes "invokeJourney T E H (engine_invoke jm fuel rand) unmarshal maxBytes c ms = Some (ms', resp)" "\<not> failed_reply (gr_reply resp)"
  shows "\<exists>body payload ex. readJSON unmarshal maxBytes c = (Inr (body, payload) :: invocation_body reply + _) \<and> restRequestRealm c \<noteq> '''' \<and>
    prepared H c (invoke_execution c body payload maxBytes) = (ex, None) \<and> runs_in_realm jm ex ms (restRequestRealm c)"
proof -
  obtain body payload where b: "readJSON unmarshal maxBytes c = (Inr (body, payload) :: invocation_body reply + _)"
    using assms by (cases "readJSON unmarshal maxBytes c :: invocation_body reply + _")
      (auto simp: invokeJourney_def dest: readJSON_failed)
  have realm: "restRequestRealm c \<noteq> ''''" using assms b by (auto simp: invokeJourney_def failed_reply_def Let_def)
  with assms(1) b have "run_execution T E H (engine_invoke jm fuel rand) False c (invoke_execution c body payload maxBytes) ms = Some (ms', resp)"
    by (simp add: invokeJourney_def invoke_execution_def Let_def)
  from run_execution_admitted [OF this assms(2)] b realm show ?thesis by blast
qed

text \<open>The request as the resource handler passes it on, and the execution it makes of a resolved journey.\<close>

definition route_context :: "rest_context \<Rightarrow> rest_context" where
  "route_context c = c\<lparr>gx_params := clearRESTResourceRouteParams (gx_params c)\<rparr>"

lemma route_invocation:
  assumes "invokeRouteJourney T E H (engine_invoke jm fuel rand) base maxBytes load listed c (cache, ms) = Some ((cache', ms'), resp)"
    and "\<not> failed_reply (gr_reply resp)" and "gr_reply resp \<notin> {StatusReply 404, Panicked ''nil pointer dereference''}"
  shows "\<exists>m ex. snd (resolveRouteJourney load listed (fst (resourceJourneyPath base (request_path c))) cache) = Inr (Some m) \<and>
    prepared H (route_context c) (resource_execution m maxBytes (route_context c)) = (ex, None) \<and>
    runs_in_realm jm ex ms (jc_Realm (rj_Journey m))"
proof -
  obtain path inside where p: "resourceJourneyPath base (request_path c) = (path, inside)" by fastforce
  obtain cache1 r where r: "resolveRouteJourney load listed path cache = (cache1, r)" by fastforce
  from assms p r obtain m where m: "inside" "r = Inr (Some m)" "jc_Metadata (rj_Journey m) \<noteq> None"
    by (auto simp: invokeRouteJourney_def Let_def split: if_splits sum.splits option.splits)
  have "run_execution T E H (engine_invoke jm fuel rand) True (route_context c) (resource_execution m maxBytes (route_context c)) ms = Some (ms', resp)"
    using assms(1) p r m by (auto simp: invokeRouteJourney_def route_context_def Let_def)
  from run_execution_admitted [OF this assms(2)] assms(3) p r m show ?thesis by auto
qed


subsection \<open>A run over REST\<close>

definition alpha_manager :: "(gval, pending, bool, unit) journeyManager" where
  "alpha_manager = sample_manager\<lparr>jm_storage := (\<lambda>i. if i = ''j1'' then Inr (Some (tiny_prepared\<lparr>jc_Realm := ''alpha''\<rparr>))
     else Inl (ErrText ''not found''))\<rparr>"

definition no_hooks :: "gval rest_hooks" where
  "no_hooks = \<lparr>hk_prepare = None, hk_success = None, hk_failure = None\<rparr>"

definition sample_http :: http_request where
  "sample_http = \<lparr>hq_Method = ''POST'', hq_URL = Some \<lparr>ur_Scheme = '''', ur_Host = '''', ur_Path = ''/journey/alpha/invoke'',
     ur_RawQuery = '''', ur_Query = []\<rparr>, hq_RequestURI = ''/journey/alpha/invoke'', hq_Header = [], hq_Host = ''h'',
     hq_TLS = None, hq_Proto = ''HTTP/1.1'', hq_RemoteAddr = '''', hq_Cookies = [], hq_Body = Some (Inr ''{}'')\<rparr>"

definition sample_context :: rest_context where
  "sample_context = \<lparr>gx_params = [(''realm'', ''alpha'')], gx_query = [], gx_realm = None, gx_request = sample_http, gx_contentLength = 2\<rparr>"

definition start_j1 :: "string \<Rightarrow> JourneyPayloadReq option" where
  "start_j1 data = Some (empty_payload\<lparr>jp_JourneyID := ''j1''\<rparr>)"

definition answered :: "('w \<times> 'b gin_response) option \<Rightarrow> bool" where
  "answered r = (case r of None \<Rightarrow> False | Some (w, resp) \<Rightarrow> \<not> failed_reply (gr_reply resp))"

lemma alpha_answered:
  "answered (invokeJourney ref_tree unset_env no_hooks (engine_invoke alpha_manager 20 (Inr ''id'')) start_j1 100 sample_context sample_ms)"
  by code_simp


subsection \<open>Cookies\<close>

definition sends_cookie :: "http_cookie \<Rightarrow> bool" where
  "sends_cookie k \<longleftrightarrow> hc_Name k \<noteq> '''' \<and> list_all is_token_char (hc_Name k)"

definition no_cookie_header :: "multimap \<Rightarrow> bool" where
  "no_cookie_header hs \<longleftrightarrow> list_all (\<lambda>p. canonical_key (fst p) \<noteq> ''Set-Cookie'') hs"

abbreviation cookie_values :: "header_value list gomap \<Rightarrow> header_value list" where
  "cookie_values hs \<equiv> or_default (gm_get hs ''Set-Cookie'') []"

lemma headers_keep_cookies: "no_cookie_header ps \<Longrightarrow> cookie_values (fold write_header ps hs) = cookie_values hs"
  by (induction ps arbitrary: hs) (auto simp: no_cookie_header_def write_header_def delete_conv)

lemma cookies_added: "list_all sends_cookie ks \<Longrightarrow> cookie_values (fold write_cookie ks hs) = cookie_values hs @ map HCookie ks"
  by (induction ks arbitrary: hs) (auto simp: write_cookie_def sends_cookie_def or_default_def)

lemma applyHeaders_cookies:
  "no_cookie_header (rm_headers r) \<Longrightarrow> list_all sends_cookie (rm_cookies r) \<Longrightarrow>
     cookie_values (applyHeaders r hs) = cookie_values hs @ map HCookie (rm_cookies r)"
  by (simp add: applyHeaders_def cookies_added headers_keep_cookies)

text \<open>A journey that ends in success without setting a status or a body of its own has every cookie it
  set sent twice: \<^verbatim>\<open>applyTerminal\<close> writes the cookies before it reports that there is no terminal
  response, and the handler then writes them again.\<close>

theorem success_cookies_doubled:
  assumes "invoke ex newRESTResponseMutator w = Some (w', r, None, st, None)"
    and "hk_prepare H = None" and "hk_success H = None"
    and "\<not> rm_bodySet r" and "rm_statusCode r = 0"
    and "no_cookie_header (rm_headers r)" and "list_all sends_cookie (rm_cookies r)"
  shows "\<exists>resp. run_execution T E H invoke resource c ex w = Some (w', resp) \<and>
    gr_reply resp = JSON 200 (BodyTerminal (restTerminalResponse T E st False)) \<and>
    or_default (gm_get (gr_headers resp) ''Set-Cookie'') [] = map HCookie (rm_cookies r) @ map HCookie (rm_cookies r)"
  using assms
  by (simp add: run_execution_def after_success_def applyTerminal_def applyHeaders_cookies or_default_def [of None])

definition session_cookie :: http_cookie where
  "session_cookie = \<lparr>hc_Name = ''sid'', hc_Value = ''v'', hc_Path = ''/'', hc_Domain = '''', hc_Expires = 0, hc_MaxAge = 0,
     hc_Secure = True, hc_HttpOnly = True, hc_SameSite = 0\<rparr>"

definition login_manager :: "(gval, pending, bool, unit) journeyManager" where
  "login_manager = alpha_manager\<lparr>jm_rt := (jm_rt alpha_manager)\<lparr>re_steps := tiny_registry\<lparr>rg_steps :=
     [(''End'', \<lparr>is_type = TStruct [], is_EndJourney = True, is_Completion = None, is_VerifyConfig = (\<lambda>n c. Inr ()),
        is_Execute = (\<lambda>c tx. (tx\<lparr>tx_Response := SetResponseCookie (Some session_cookie) (tx_Response tx)\<rparr>, Inr ''''))\<rparr>)]\<rparr>\<rparr>\<rparr>"

definition login_execution :: JourneyExecute where
  "login_execution = \<lparr>je_Payload = Some (empty_payload\<lparr>jp_JourneyID := ''j1''\<rparr>), je_IsConfidential = False, je_Request = None, je_Response = None\<rparr>"

abbreviation login_mutator :: restResponseMutator where
  "login_mutator \<equiv> newRESTResponseMutator\<lparr>rm_cookies := [session_cookie]\<rparr>"

lemma login_run:
  "case engine_invoke login_manager 20 (Inr ''id'') login_execution newRESTResponseMutator sample_ms of
     Some (ms', r, None, st, None) \<Rightarrow> r = login_mutator | _ \<Rightarrow> False"
  by code_simp

theorem success_cookies_doubled_witness:
  "\<exists>ms' resp. run_execution ref_tree unset_env no_hooks (engine_invoke login_manager 20 (Inr ''id'')) False sample_context
      login_execution sample_ms = Some (ms', resp) \<and>
    or_default (gm_get (gr_headers resp) ''Set-Cookie'') [] = [HCookie session_cookie, HCookie session_cookie]"
proof -
  obtain ms' st where "engine_invoke login_manager 20 (Inr ''id'') login_execution newRESTResponseMutator sample_ms =
      Some (ms', login_mutator, None, st, None)"
    using login_run by (auto split: option.splits prod.splits)
  from success_cookies_doubled [where H = no_hooks and invoke = "engine_invoke login_manager 20 (Inr ''id'')" and ex = login_execution and T = ref_tree and E = unset_env and resource = False and c = sample_context, OF this] show ?thesis
    by (auto simp: no_hooks_def newRESTResponseMutator_def no_cookie_header_def sends_cookie_def session_cookie_def is_token_char_def)
qed

end
