(* ===== verification/RestAdminFacts.thy ===== *)
theory RestAdminFacts
  imports RestAdmin RestInvokeFacts
begin

text \<open>
  Facts on the administration of the API: what a list handler returns, the realm a handler works in
  and where it does not hold to it, the variables hidden from responses, the uniqueness of names, and
  the compiled developer schemas.
\<close>

subsection \<open>Lists\<close>

definition documents :: "'d option list \<Rightarrow> 'd list" where
  "documents xs = List.map_filter id xs"

lemma documents_simps [simp]:
  "documents [] = []" "documents (None # xs) = documents xs" "documents (Some x # xs) = x # documents xs"
  by (simp_all add: documents_def List.map_filter_simps)

lemma in_documents: "d \<in> set (documents xs) \<longleftrightarrow> Some d \<in> set xs"
  by (induction xs) (auto simp: documents_def List.map_filter_simps split: option.splits)

lemma take_matching_unlimited: "limit \<le> 0 \<Longrightarrow> take_matching keep limit n xs = filter keep (documents xs)"
  by (induction keep limit n xs rule: take_matching.induct) auto

lemma take_matching_limited: "int n < limit \<Longrightarrow> take_matching keep limit n xs = take (nat limit - n) (filter keep (documents xs))"
proof (induction keep limit n xs rule: take_matching.induct)
  case (3 keep limit n x xs)
  show ?case
  proof (cases "keep x \<and> int (Suc n) \<ge> limit")
    case True
    with 3(3) have "nat limit - n = Suc 0" by linarith
    with True 3(3) show ?thesis by simp
  next
    case False
    with 3 have "Suc (nat limit - Suc n) = nat limit - n" if "keep x" using that by linarith
    with False 3 show ?thesis by (auto simp: take_Suc_Cons [symmetric])
  qed
qed auto

text \<open>A limited list is a prefix, in the order of the storage, of what passes the filters.\<close>

lemma take_matching_eq:
  "take_matching keep limit 0 xs = (if 0 < limit then take (nat limit) (filter keep (documents xs)) else filter keep (documents xs))"
  by (simp add: take_matching_unlimited take_matching_limited)

lemma take_matching_kept: "d \<in> set (take_matching keep limit 0 xs) \<Longrightarrow> keep d \<and> Some d \<in> set xs"
  by (auto simp: take_matching_eq in_documents split: if_splits dest: in_set_takeD)

lemma first_document_Some: "first_document p xs = Some d \<Longrightarrow> p d \<and> Some d \<in> set xs"
  by (induction p xs rule: first_document.induct) (auto split: if_splits)

lemma first_document_None: "first_document p xs = None \<longleftrightarrow> (\<forall>d. Some d \<in> set xs \<longrightarrow> \<not> p d)"
  by (induction p xs rule: first_document.induct) auto

subsection \<open>Realms\<close>

lemma realm_matches: "restRequestRealm c \<noteq> '''' \<Longrightarrow> restRealmMatches c r \<Longrightarrow> r = restRequestRealm c"
  by (auto simp: restRealmMatches_def)

lemma journey_kept_realm: "restRequestRealm c \<noteq> '''' \<Longrightarrow> journey_kept c j \<Longrightarrow> jc_Realm j = restRequestRealm c"
  by (auto simp: journey_kept_def Let_def)

lemma visible_journey_realm:
  "visible_journey S n c = Some j \<Longrightarrow> ds_load S n (gx_Param c ''journeyId'') = Inr (Some j) \<and> restRealmMatches c (jc_Realm j)"
  by (auto simp: visible_journey_def split: sum.splits option.splits if_splits)

lemma listed_journey:
  assumes "listJourneys mj vars S n c = JSON status (JourneyList q)" and "v \<in> set (qr_Result q)"
  shows "\<exists>j. Some j \<in> set (ds_list S n) \<and> journey_kept c j \<and> v = restJourneyResponse mj vars (Some j)"
proof (cases "restQueryLimit c :: journey_body reply + int")
  case (Inl r)
  then have "\<exists>m e. r = ErrorReply 400 m e" by (auto simp: restQueryLimit_def Let_def split: if_splits option.splits)
  with Inl assms(1) show ?thesis by (auto simp: listJourneys_def)
next
  case (Inr limit)
  with assms obtain j where "j \<in> set (take_matching (journey_kept c) limit 0 (ds_list S n))" "v = restJourneyResponse mj vars (Some j)"
    by (auto simp: listJourneys_def query_response_def Let_def split: if_splits)
  with take_matching_kept show ?thesis by metis
qed

lemma read_journey:
  assumes "getJourney mj vars fallback S n c x = Some (x', resp)" and "gr_reply resp = JSON status (JourneyItem v)"
  shows "\<exists>j. visible_journey S n c = Some j \<and> v = restJourneyResponse mj vars (Some j)"
proof (cases "visible_journey S n c")
  case None
  with assms(1) obtain r where "resp = invoked r" by (auto simp: getJourney_def split: option.splits)
  with assms(2) show ?thesis by (cases "gr_reply r") (auto simp: invoked_def)
next
  case (Some j)
  with assms show ?thesis by (auto simp: getJourney_def)
qed

lemma deleted_journey:
  assumes "deleteJourney fallback S c (n, y) = Some ((n', y'), resp)" and "n' \<noteq> n"
  shows "\<exists>j. visible_journey S n c = Some j"
  using assms by (cases y) (auto simp: deleteJourney_def split: option.splits)

text \<open>C17. A request of a realm sees the journeys of that realm only: the listed journeys, the journey read
  and the journey deleted have the realm of the request.\<close>

theorem journeys_realm_isolated:
  assumes "restRequestRealm c \<noteq> ''''"
  shows "(\<forall>status q v. listJourneys mj vars S n c = JSON status (JourneyList q) \<and> v \<in> set (qr_Result q) \<longrightarrow>
      (\<exists>j. Some j \<in> set (ds_list S n) \<and> jc_Realm j = restRequestRealm c \<and> v = restJourneyResponse mj vars (Some j))) \<and>
    (\<forall>x x' resp status v. getJourney mj vars fallback S n c x = Some (x', resp) \<and> gr_reply resp = JSON status (JourneyItem v) \<longrightarrow>
      (\<exists>j. ds_load S n (gx_Param c ''journeyId'') = Inr (Some j) \<and> jc_Realm j = restRequestRealm c \<and>
           v = restJourneyResponse mj vars (Some j))) \<and>
    (\<forall>y n' y' resp. deleteJourney fallback S c (n, y) = Some ((n', y'), resp) \<and> n' \<noteq> n \<longrightarrow>
      (\<exists>j. ds_load S n (gx_Param c ''journeyId'') = Inr (Some j) \<and> jc_Realm j = restRequestRealm c))"
proof (intro conjI allI impI; elim conjE)
  fix status q v assume "listJourneys mj vars S n c = JSON status (JourneyList q)" "v \<in> set (qr_Result q)"
  then show "\<exists>j. Some j \<in> set (ds_list S n) \<and> jc_Realm j = restRequestRealm c \<and> v = restJourneyResponse mj vars (Some j)"
    using listed_journey journey_kept_realm [OF assms] by metis
next
  fix x x' resp status v
  assume "getJourney mj vars fallback S n c x = Some (x', resp)" "gr_reply resp = JSON status (JourneyItem v)"
  then show "\<exists>j. ds_load S n (gx_Param c ''journeyId'') = Inr (Some j) \<and> jc_Realm j = restRequestRealm c \<and>
      v = restJourneyResponse mj vars (Some j)"
    using read_journey visible_journey_realm realm_matches [OF assms] by metis
next
  fix y n' y' resp assume "deleteJourney fallback S c (n, y) = Some ((n', y'), resp)" "n' \<noteq> n"
  then show "\<exists>j. ds_load S n (gx_Param c ''journeyId'') = Inr (Some j) \<and> jc_Realm j = restRequestRealm c"
    using deleted_journey visible_journey_realm realm_matches [OF assms] by metis
qed

text \<open>Schemas and schedules are held to the realm of the request, also to the empty one.\<close>

lemma limit_refused: "restQueryLimit c = Inl r \<Longrightarrow> failed_reply r"
  by (auto simp: restQueryLimit_def failed_reply_def Let_def split: if_splits option.splits)

lemma listed_schemas_realm:
  "listSchemas S n c = JSON status (SchemaList q) \<Longrightarrow> s \<in> set (qr_Result q) \<Longrightarrow> sch_Realm s = restRequestRealm c \<and> Some s \<in> set (ds_list S n)"
  by (auto simp: listSchemas_def query_response_def Let_def failed_reply_def split: sum.splits dest!: take_matching_kept dest: limit_refused)

lemma listed_schedules_realm:
  "listSchedules S n c = JSON status (ScheduleList q) \<Longrightarrow> s \<in> set (qr_Result q) \<Longrightarrow> sc_Realm s = restRequestRealm c \<and> Some s \<in> set (ds_list S n)"
  by (auto simp: listSchedules_def query_response_def Let_def failed_reply_def split: sum.splits dest!: take_matching_kept dest: limit_refused)

lemma visible_schedule_realm:
  "visible_schedule S n c = Some s \<Longrightarrow> ds_load S n (gx_Param c ''scheduleId'') = Inr (Some s) \<and> sc_Realm s = restRequestRealm c"
  by (auto simp: visible_schedule_def split: sum.splits option.splits if_splits)

text \<open>A deleted schedule of the realm leaves no job behind: the scheduler forgets it before its document goes.\<close>

lemma deleted_schedule_unscheduled:
  assumes "deleteSchedule E S True c sd = (sd', StatusReply 204)"
  shows "sd_cronJobs sd' = sd_cronJobs (Unschedule E (gx_Param c ''scheduleId'') sd) \<and>
    sd_intervals sd' = sd_intervals (Unschedule E (gx_Param c ''scheduleId'') sd)"
  using assms
  by (auto simp: deleteSchedule_def schedule_missing_def Let_def split: option.splits prod.splits bool.splits)

subsection \<open>Samples\<close>

text \<open>A storage in memory, for witnesses.\<close>

definition mem_load :: "('d \<Rightarrow> string) \<Rightarrow> 'd gomap \<Rightarrow> string \<Rightarrow> 'd option res" where
  "mem_load id_of n i =
     (case gm_get n i of
        Some d \<Rightarrow> if id_of d = i \<and> i \<noteq> '''' then Inr (Some d) else Inl (ErrText ''not found'')
      | None \<Rightarrow> Inl (ErrText ''not found''))"

definition fresh_id :: "'d gomap \<Rightarrow> string" where
  "fresh_id n = replicate (Suc (sum_list (map (length \<circ> fst) n))) (CHR ''n'')"

definition mem_store :: "('d \<Rightarrow> string) \<Rightarrow> (string \<Rightarrow> 'd \<Rightarrow> 'd) \<Rightarrow> ('d, 'd gomap) doc_store" where
  "mem_store id_of set_id = \<lparr>
     ds_load = mem_load id_of,
     ds_save = (\<lambda>d n. let d' = (if id_of d = '''' then set_id (fresh_id n) d else d) in (gm_put (id_of d') d' n, Inr d')),
     ds_delete = (\<lambda>i n. (gm_del i n, None)),
     ds_list = (\<lambda>n. map (\<lambda>k. case mem_load id_of n k of Inr d \<Rightarrow> d | Inl e \<Rightarrow> None) (map fst n))\<rparr>"

definition journey_store :: "(JourneyConfiguration, JourneyConfiguration gomap) doc_store" where
  "journey_store = mem_store jc_ID (\<lambda>i j. j\<lparr>jc_Metadata := Some \<lparr>md_ID = i, md_Rev = ''1''\<rparr>\<rparr>)"

definition alpha_journey :: JourneyConfiguration where
  "alpha_journey = orders\<lparr>jc_Realm := ''alpha''\<rparr>"

definition beta_journey :: JourneyConfiguration where
  "beta_journey = orders\<lparr>jc_Metadata := Some \<lparr>md_ID = ''j2'', md_Rev = ''1''\<rparr>, jc_Name := ''payments'', jc_Realm := ''beta''\<rparr>"

definition meta_json :: "Metadata \<Rightarrow> DefaultMap" where
  "meta_json m = [(''id'', GStr (md_ID m)), (''rev'', GStr (md_Rev m))]"

lemma journeys_listed_sample:
  "listJourneys meta_json True journey_store [(''j2'', beta_journey), (''j1'', alpha_journey)] sample_context =
     JSON 200 (JourneyList \<lparr>qr_Result = [FullJourney (Some alpha_journey)], qr_ResultCount = 1\<rparr>)"
  by code_simp

theorem journeys_realm_isolated_witness:
  "listJourneys meta_json True journey_store [(''j2'', beta_journey), (''j1'', alpha_journey)] sample_context =
     JSON 200 (JourneyList \<lparr>qr_Result = [FullJourney (Some alpha_journey)], qr_ResultCount = 1\<rparr>) \<and>
   (\<exists>j. Some j \<in> set (ds_list journey_store [(''j2'', beta_journey), (''j1'', alpha_journey)]) \<and> jc_Realm j = ''alpha'' \<and>
      FullJourney (Some alpha_journey) = restJourneyResponse meta_json True (Some j))"
proof -
  have r: "restRequestRealm sample_context = ''alpha''" by code_simp
  have "restRequestRealm sample_context \<noteq> ''''" by (simp add: r)
  from journeys_realm_isolated [OF this, THEN conjunct1, rule_format,
      of meta_json True journey_store "[(''j2'', beta_journey), (''j1'', alpha_journey)]" 200 "\<lparr>qr_Result = [FullJourney (Some alpha_journey)], qr_ResultCount = 1\<rparr>"
         "FullJourney (Some alpha_journey)"]
  show ?thesis by (simp add: journeys_listed_sample r)
qed

subsection \<open>Saving journeys\<close>

text \<open>What the handlers rely on of a document storage: it lists what it loads, saving keeps a given identifier
  or draws a fresh one, keeps what \<open>key\<close> tells of a document, and saving and deleting touch no other document.\<close>

definition saved_ok :: "('d \<Rightarrow> string) \<Rightarrow> ('d \<Rightarrow> 'k) \<Rightarrow> ('d, 'n) doc_store \<Rightarrow> 'd \<Rightarrow> 'n \<Rightarrow> 'n \<Rightarrow> 'd \<Rightarrow> bool" where
  "saved_ok id_of key S d n n' d' \<longleftrightarrow>
     key d' = key d \<and> (id_of d \<noteq> '''' \<longrightarrow> id_of d' = id_of d) \<and>
     (id_of d = '''' \<longrightarrow> (\<forall>e. ds_load S n (id_of d') \<noteq> Inr (Some e))) \<and>
     ds_load S n' (id_of d') = Inr (Some d') \<and> (\<forall>k. k \<noteq> id_of d' \<longrightarrow> ds_load S n' k = ds_load S n k)"

definition doc_store_ok :: "('d \<Rightarrow> string) \<Rightarrow> ('d \<Rightarrow> 'k) \<Rightarrow> ('d, 'n) doc_store \<Rightarrow> bool" where
  "doc_store_ok id_of key S \<longleftrightarrow>
     (\<forall>n d. Some d \<in> set (ds_list S n) \<longrightarrow> id_of d \<noteq> '''' \<and> ds_load S n (id_of d) = Inr (Some d)) \<and>
     (\<forall>n i d. ds_load S n i = Inr (Some d) \<longrightarrow> id_of d = i \<and> Some d \<in> set (ds_list S n)) \<and>
     (\<forall>d n n' d'. ds_save S d n = (n', Inr d') \<longrightarrow> saved_ok id_of key S d n n' d') \<and>
     (\<forall>i n n' r k. ds_delete S i n = (n', r) \<and> k \<noteq> i \<longrightarrow> ds_load S n' k = ds_load S n k)"

lemma doc_listed: "doc_store_ok id_of key S \<Longrightarrow> Some d \<in> set (ds_list S n) \<Longrightarrow> id_of d \<noteq> '''' \<and> ds_load S n (id_of d) = Inr (Some d)"
  unfolding doc_store_ok_def by metis

lemma doc_loaded: "doc_store_ok id_of key S \<Longrightarrow> ds_load S n i = Inr (Some d) \<Longrightarrow> id_of d = i \<and> Some d \<in> set (ds_list S n)"
  unfolding doc_store_ok_def by metis

lemma doc_save_ok: "doc_store_ok id_of key S \<Longrightarrow> ds_save S d n = (n', Inr d') \<Longrightarrow> saved_ok id_of key S d n n' d'"
  unfolding doc_store_ok_def by metis

lemma doc_save_law:
  assumes "doc_store_ok id_of key S" and "ds_save S d n = (n', Inr d')"
  shows "key d' = key d" and "id_of d \<noteq> '''' \<Longrightarrow> id_of d' = id_of d"
    and "id_of d = '''' \<Longrightarrow> ds_load S n (id_of d') \<noteq> Inr (Some e)"
    and "ds_load S n' (id_of d') = Inr (Some d')" and "k \<noteq> id_of d' \<Longrightarrow> ds_load S n' k = ds_load S n k"
  using doc_save_ok [OF assms] unfolding saved_ok_def by blast+

lemma doc_delete_law: "doc_store_ok id_of key S \<Longrightarrow> ds_delete S i n = (n', r) \<Longrightarrow> k \<noteq> i \<Longrightarrow> ds_load S n' k = ds_load S n k"
  unfolding doc_store_ok_def by metis

lemma doc_saved:
  assumes S: "doc_store_ok id_of key S" and sv: "ds_save S d n = (n', Inr d')" and l: "Some e \<in> set (ds_list S n')"
  shows "e = d' \<or> id_of e \<noteq> id_of d' \<and> Some e \<in> set (ds_list S n)"
proof (cases "id_of e = id_of d'")
  case True
  have "ds_load S n' (id_of e) = Inr (Some e)" by (rule doc_listed [OF S l, THEN conjunct2])
  then have "Inr (Some d') = (Inr (Some e) :: _ res)" unfolding True doc_save_law(4) [OF S sv] .
  then show ?thesis by simp
next
  case False
  then have "ds_load S n (id_of e) = Inr (Some e)"
    using doc_listed [OF S l] doc_save_law(5) [OF S sv False] by simp
  with doc_loaded [OF S this] False show ?thesis by simp
qed

definition journey_key :: "JourneyConfiguration \<Rightarrow> string \<times> string" where
  "journey_key j = (jc_Name j, jc_Realm j)"

text \<open>The journey storage prepares a journey first, which keeps its name, realm and metadata.\<close>

lemma prepared_keeps:
  "PrepareJourneyConfiguration T r (Some j) = Inr j' \<Longrightarrow> journey_key j' = journey_key j \<and> jc_ID j' = jc_ID j"
  by (auto simp: PrepareJourneyConfiguration_def Let_def journey_key_def jc_ID_def bind_res_Inr_iff split: option.splits if_splits)

lemma journey_storage_saves:
  assumes "doc_store_ok jc_ID journey_key S" and "JourneyStorage_Save T dflt registry S d n = (n', Inr d')"
  shows "saved_ok jc_ID journey_key S d n n' d'"
proof -
  obtain p where p: "PrepareJourneyConfiguration T (Some (or_default registry dflt)) (Some d) = Inr p" and sv: "ds_save S p n = (n', Inr d')"
    using assms(2) by (auto simp: JourneyStorage_Save_def split: sum.splits)
  from doc_save_ok [OF assms(1) sv] prepared_keeps [OF p] show ?thesis by (simp add: saved_ok_def)
qed

lemma journey_storage_ok:
  assumes "doc_store_ok jc_ID journey_key S"
  shows "doc_store_ok jc_ID journey_key (journey_storage T dflt registry S)"
proof -
  let ?S = "journey_storage T dflt registry S"
  have same: "ds_load ?S = ds_load S" "ds_list ?S = ds_list S" "ds_delete ?S = ds_delete S"
    "ds_save ?S = JourneyStorage_Save T dflt registry S" by (simp_all add: journey_storage_def)
  have "saved_ok jc_ID journey_key ?S d n n' d'" if "JourneyStorage_Save T dflt registry S d n = (n', Inr d')" for d n n' d'
    using journey_storage_saves [OF assms that] unfolding saved_ok_def same .
  with assms show ?thesis
    unfolding doc_store_ok_def same by simp
qed

definition trimmed :: "string \<Rightarrow> bool" where
  "trimmed s \<longleftrightarrow> TrimSpace s = s"

text \<open>No two journeys of a realm have the same name, for names and realms without blanks around them. Names with
  such blanks are left out because the check does not see them (\<open>blank_name_saved_twice\<close>).\<close>

definition names_unique :: "JourneyConfiguration option list \<Rightarrow> bool" where
  "names_unique listed \<longleftrightarrow>
     (\<forall>j j'. Some j \<in> set listed \<and> Some j' \<in> set listed \<and> journey_key j = journey_key j' \<and> jc_Name j \<noteq> '''' \<and>
        trimmed (jc_Name j) \<and> trimmed (jc_Realm j) \<longrightarrow> j = j')"

lemma saved_journey:
  assumes "saveJourney mj vars unmarshal maxBytes S c (n, cache) = ((n', cache'), JSON status b)"
  shows "\<exists>body sent journey existing saved.
    readJSON unmarshal maxBytes c = (Inr (body, sent) :: journey_body reply + _) \<and>
    journey = (if restRequestRealm c \<noteq> '''' then sent\<lparr>jc_Realm := restRequestRealm c\<rparr> else sent) \<and>
    resolveJourneySaveTarget S n journey = (existing, None) \<and> cache' = rc_Clear cache \<and>
    ds_save S (journey\<lparr>jc_Metadata := saved_metadata (jc_Metadata journey) (map_option jc_Metadata existing)\<rparr>) n = (n', Inr saved) \<and>
    status = (if existing = None then 201 else 200) \<and> b = JourneyItem (restJourneyResponse mj vars (Some saved))"
proof (cases "readJSON unmarshal maxBytes c :: journey_body reply + _")
  case (Inl r)
  with assms readJSON_failed [OF Inl] show ?thesis by (simp add: saveJourney_def failed_reply_def)
next
  case (Inr p)
  obtain body sent where p: "p = (body, sent)" by (cases p)
  define journey where "journey = (if restRequestRealm c \<noteq> '''' then sent\<lparr>jc_Realm := restRequestRealm c\<rparr> else sent)"
  obtain existing duplicate where t: "resolveJourneySaveTarget S n journey = (existing, duplicate)" by fastforce
  obtain n2 r where s: "ds_save S (journey\<lparr>jc_Metadata := saved_metadata (jc_Metadata journey) (map_option jc_Metadata existing)\<rparr>) n = (n2, r)"
    by fastforce
  have u: "saveJourney mj vars unmarshal maxBytes S c (n, cache) =
      (if duplicate \<noteq> None then ((n, cache), ErrorReply 409 ''duplicate_journey''
          (ErrText (''journey name '' @ jc_Name journey @ '' already exists in realm '' @ jc_Realm journey)))
       else (case r of Inl e \<Rightarrow> ((n2, cache), ErrorReply 400 ''invalid_journey'' e)
             | Inr saved \<Rightarrow> ((n2, rc_Clear cache), JSON (if existing = None then 201 else 200)
                 (JourneyItem (restJourneyResponse mj vars (Some saved))))))"
    using Inr t s by (simp add: saveJourney_def p journey_def [symmetric] Let_def split: sum.split)
  from assms u obtain saved where "duplicate = None" "r = Inr saved" by (auto split: if_splits sum.splits)
  with assms u t s Inr p show ?thesis
    by (intro exI [of _ body] exI [of _ sent] exI [of _ journey] exI [of _ existing] exI [of _ saved]) (auto simp: journey_def)
qed

lemma restMetadataID_trim: "restMetadataID (jc_Metadata j) = TrimSpace (jc_ID j)"
  by (simp add: restMetadataID_def jc_ID_def split: option.split)

lemma no_other_of_name:
  assumes S: "doc_store_ok jc_ID journey_key S" and "resolveJourneySaveTarget S n journey = (existing, None)"
    and e: "Some e \<in> set (ds_list S n)" "journey_key e = journey_key journey" "trimmed (jc_ID e)"
    and nm: "jc_Name journey \<noteq> ''''" "trimmed (jc_Name journey)" "trimmed (jc_Realm journey)"
  shows "existing = Some e"
proof -
  let ?i = "restMetadataID (jc_Metadata journey)"
  have "findJourneyByNameRealm (ds_list S n) (jc_Name journey) (jc_Realm journey) ?i = None"
    using assms(2) by (auto simp: resolveJourneySaveTarget_def Let_def split: if_splits)
  then have "restMetadataID (jc_Metadata e) = ?i"
    using e nm by (auto simp: findJourneyByNameRealm_def first_document_None trimmed_def journey_key_def Let_def)
  then have "jc_ID e = ?i" using e(3) by (simp add: restMetadataID_trim [of e] trimmed_def)
  moreover have "jc_ID e \<noteq> ''''" "ds_load S n (jc_ID e) = Inr (Some e)" using doc_listed [OF S e(1)] by auto
  ultimately show ?thesis using assms(2) by (auto simp: resolveJourneySaveTarget_def Let_def)
qed


lemma mem_load_Some: "mem_load id_of n i = Inr (Some d) \<longleftrightarrow> gm_get n i = Some d \<and> id_of d = i \<and> i \<noteq> ''''"
  by (auto simp: mem_load_def split: option.splits if_splits)

lemma mem_listed:
  "Some d \<in> set (ds_list (mem_store id_of set_id) n) \<longleftrightarrow> gm_get n (id_of d) = Some d \<and> id_of d \<noteq> ''''"
proof
  assume "Some d \<in> set (ds_list (mem_store id_of set_id) n)"
  then obtain k where "mem_load id_of n k = Inr (Some d)" by (auto simp: mem_store_def split: sum.splits)
  then show "gm_get n (id_of d) = Some d \<and> id_of d \<noteq> ''''" by (auto simp: mem_load_Some)
next
  assume a: "gm_get n (id_of d) = Some d \<and> id_of d \<noteq> ''''"
  then have "id_of d \<in> fst ` set n" by (metis domI dom_map_of_conv_image_fst)
  moreover from a have "mem_load id_of n (id_of d) = Inr (Some d)" by (simp add: mem_load_Some)
  ultimately show "Some d \<in> set (ds_list (mem_store id_of set_id) n)"
    by (force simp: mem_store_def image_iff split: sum.splits)
qed

lemma fresh_id_absent: "gm_get n (fresh_id n) = None"
proof -
  have "length k \<le> sum_list (map (length \<circ> fst) n)" if "k \<in> fst ` set n" for k
    using that member_le_sum_list [of "length k" "map (length \<circ> fst) n"] by force
  then have "fresh_id n \<notin> fst ` set n" by (force simp: fresh_id_def)
  then show ?thesis by (simp add: map_of_eq_None_iff)
qed

lemma mem_store_ok:
  assumes "\<And>i d. id_of (set_id i d) = i" and "\<And>i d. key (set_id i d) = key d"
  shows "doc_store_ok id_of key (mem_store id_of set_id)"
proof -
  have ld: "ds_load (mem_store id_of set_id) = mem_load id_of" by (simp add: mem_store_def)
  have save: "saved_ok id_of key (mem_store id_of set_id) d n n' d'"
    if "ds_save (mem_store id_of set_id) d n = (n', Inr d')" for d n n' d'
  proof -
    define d2 where "d2 = (if id_of d = '''' then set_id (fresh_id n) d else d)"
    have "ds_save (mem_store id_of set_id) d n = (gm_put (id_of d2) d2 n, Inr d2)" by (simp only: mem_store_def doc_store.select_convs Let_def d2_def)
    with that have "d' = d2" and n: "n' = gm_put (id_of d') d' n" by auto
    then have d: "d' = (if id_of d = '''' then set_id (fresh_id n) d else d)" by (simp only: d2_def)
    have i: "id_of d = '''' \<Longrightarrow> id_of d' = fresh_id n" using d assms(1) by simp
    then have "id_of d' \<noteq> ''''" using d by (cases "id_of d = ''''") (simp_all add: fresh_id_def)
    then have "mem_load id_of n' (id_of d') = Inr (Some d')" by (simp add: mem_load_Some n update_conv)
    moreover have "mem_load id_of n' k = mem_load id_of n k" if "k \<noteq> id_of d'" for k
      using that by (simp add: mem_load_def n update_conv)
    moreover have "mem_load id_of n (id_of d') \<noteq> Inr (Some e)" if "id_of d = ''''" for e
      by (simp add: i [OF that] mem_load_Some fresh_id_absent)
    moreover have "key d' = key d" "id_of d \<noteq> '''' \<Longrightarrow> id_of d' = id_of d" using d assms(2) by simp_all
    ultimately show ?thesis unfolding saved_ok_def ld by blast
  qed
  have del: "mem_load id_of n' k = mem_load id_of n k" if "ds_delete (mem_store id_of set_id) i n = (n', r)" "k \<noteq> i" for i n n' r k
    using that by (auto simp: mem_store_def mem_load_def delete_conv)
  show ?thesis
    unfolding doc_store_ok_def mem_listed ld
  proof (intro conjI)
    show "\<forall>i n n' r k. ds_delete (mem_store id_of set_id) i n = (n', r) \<and> k \<noteq> i \<longrightarrow> mem_load id_of n' k = mem_load id_of n k"
      using del by blast
  qed (simp_all add: mem_load_Some save)
qed

lemma journey_store_ok: "doc_store_ok jc_ID journey_key journey_store"
  unfolding journey_store_def by (rule mem_store_ok) (simp_all add: jc_ID_def journey_key_def)

definition refunds_body :: "string \<Rightarrow> JourneyConfiguration option" where
  "refunds_body data = Some (orders\<lparr>jc_Metadata := None, jc_Name := ''refunds''\<rparr>)"

lemma refunds_saved:
  "case saveJourney meta_json True refunds_body 100 journey_store sample_context ([(''j1'', alpha_journey)], newJourneyRouteCache) of
     ((n', cache'), JSON status b) \<Rightarrow> length n' = 2 | _ \<Rightarrow> False"
  by code_simp


text \<open>The check of a name trims what was sent and compares it with the names as they are stored.\<close>

definition blank_body :: "string \<Rightarrow> JourneyConfiguration option" where
  "blank_body data = Some (orders\<lparr>jc_Metadata := None, jc_Name := ''refunds ''\<rparr>)"

lemma blank_name_saved_twice:
  "let n1 = [(''j9'', orders\<lparr>jc_Metadata := Some \<lparr>md_ID = ''j9'', md_Rev = ''1''\<rparr>, jc_Name := ''refunds '', jc_Realm := ''alpha''\<rparr>)] in
   case saveJourney meta_json True blank_body 100 journey_store sample_context (n1, newJourneyRouteCache) of
     ((n', cache'), JSON status b) \<Rightarrow> status = 201 \<and> map (jc_Name \<circ> snd) n' = [''refunds '', ''refunds ''] | _ \<Rightarrow> False"
  by code_simp

text \<open>C33. Saving does not keep to the realm of the request: a journey sent with the identifier of a journey of
  another realm, under a name that is free in the own one, replaces that journey and moves it to the
  realm of the request. Reading and deleting it are refused to the same request.\<close>

theorem journey_save_takes_over:
  assumes "readJSON unmarshal maxBytes c = (Inr (body, sent) :: journey_body reply + _)"
    and "restRequestRealm c \<noteq> ''''" and "restMetadataID (jc_Metadata sent) = i" and "i \<noteq> ''''"
    and "ds_load S n i = Inr (Some other)" and "jc_Realm other \<noteq> restRequestRealm c"
    and "findJourneyByNameRealm (ds_list S n) (jc_Name sent) (restRequestRealm c) i = None"
    and "ds_save S (sent\<lparr>jc_Realm := restRequestRealm c, jc_Metadata := jc_Metadata other\<rparr>) n = (n', Inr saved)"
  shows "saveJourney mj vars unmarshal maxBytes S c (n, cache) =
      ((n', rc_Clear cache), JSON 200 (JourneyItem (restJourneyResponse mj vars (Some saved)))) \<and>
    (gx_Param c ''journeyId'' = i \<longrightarrow> visible_journey S n c = None)"
  using assms
  by (auto simp: saveJourney_def resolveJourneySaveTarget_def saved_metadata_def visible_journey_def restRealmMatches_def Let_def)

definition steal_body :: "string \<Rightarrow> JourneyConfiguration option" where
  "steal_body data = Some (orders\<lparr>jc_Metadata := Some \<lparr>md_ID = ''j2'', md_Rev = ''''\<rparr>, jc_Name := ''mine''\<rparr>)"

theorem journey_save_takes_over_witness:
  "jc_Realm beta_journey = ''beta'' \<and>
   saveJourney meta_json True steal_body 100 journey_store sample_context ([(''j2'', beta_journey)], newJourneyRouteCache) =
     (([(''j2'', orders\<lparr>jc_Metadata := jc_Metadata beta_journey, jc_Name := ''mine'', jc_Realm := ''alpha''\<rparr>)], newJourneyRouteCache),
      JSON 200 (JourneyItem (FullJourney (Some (orders\<lparr>jc_Metadata := jc_Metadata beta_journey, jc_Name := ''mine'', jc_Realm := ''alpha''\<rparr>)))))"
proof -
  let ?sent = "orders\<lparr>jc_Metadata := Some \<lparr>md_ID = ''j2'', md_Rev = ''''\<rparr>, jc_Name := ''mine''\<rparr>"
  let ?saved = "?sent\<lparr>jc_Realm := restRequestRealm sample_context, jc_Metadata := jc_Metadata beta_journey\<rparr>"
  have r: "restRequestRealm sample_context = ''alpha''" by code_simp
  have j: "readJSON steal_body 100 sample_context = (Inr (''{}'', ?sent) :: journey_body reply + _)" by code_simp
  have i: "restMetadataID (jc_Metadata ?sent) = ''j2''" by code_simp
  have l: "ds_load journey_store [(''j2'', beta_journey)] ''j2'' = Inr (Some beta_journey)" by code_simp
  have f: "findJourneyByNameRealm (ds_list journey_store [(''j2'', beta_journey)]) (jc_Name ?sent) (restRequestRealm sample_context) ''j2'' = None"
    by code_simp
  have s: "ds_save journey_store ?saved [(''j2'', beta_journey)] = ([(''j2'', ?saved)], Inr ?saved)" by code_simp
  have b: "jc_Realm beta_journey = ''beta''" by (simp add: beta_journey_def)
  from journey_save_takes_over [OF j _ i _ l _ f s, of meta_json True newJourneyRouteCache] r b show ?thesis
    by (simp add: restJourneyResponse_def newJourneyRouteCache_def rc_Clear_def)
qed

end
