(* ===== verification/LdapPool.thy ===== *)
theory LdapPool
  imports Requests "HOL-Library.Multiset"
begin

text \<open>
  \<^verbatim>\<open>steps/ldap.client.go\<close>: the configuration of an LDAP client, its TLS settings, the connection pool
  and the operations that borrow a connection from it. The LDAP library, the TLS library and the file
  system are records of functions; a connection of the library has the type \<open>'c\<close>, a context is the error
  it has at a given moment. \<open>acquire\<close> and \<open>release\<close> are what one caller does; the relation
  \<open>pool_step\<close> at the end interleaves the critical sections and channel operations of many callers.
\<close>

subsection \<open>Configuration\<close>

record LDAPBindConfig =
  lb_Method :: string
  lb_DN :: string
  lb_Password :: string
  lb_Username :: string
  lb_Realm :: string
  lb_SASLMechanism :: string
  lb_Properties :: "string gomap"

record LDAPPoolConfig =
  lc_MaxOpen :: int
  lc_MaxIdle :: int
  lc_MaxLifetimeSeconds :: int

record LDAPClientConfig =
  ld_URLs :: "string list"
  ld_Host :: string
  ld_Port :: int
  ld_BaseDN :: string
  ld_UseTLS :: bool
  ld_StartTLS :: bool
  ld_ServerName :: string
  ld_InsecureSkipVerify :: bool
  ld_RootCAs :: "string list"
  ld_ClientCert :: string
  ld_ClientKey :: string
  ld_Bind :: LDAPBindConfig
  ld_ConnectTimeoutSeconds :: int
  ld_OperationTimeoutSeconds :: int
  ld_Pool :: LDAPPoolConfig

definition int_text :: "int \<Rightarrow> string" where
  "int_text i = (if i < 0 then ''-'' @ nat_str (nat (- i)) else nat_str (nat i))"

definition ldapURLs :: "LDAPClientConfig option \<Rightarrow> string list" where
  "ldapURLs config =
     (case config of
        None \<Rightarrow> []
      | Some c \<Rightarrow>
          if length (ld_URLs c) > 0 then ld_URLs c
          else if ld_Host c = '''' then []
          else let port = (if ld_Port c = 0 then (if ld_UseTLS c then 636 else 389) else ld_Port c);
                   scheme = (if ld_UseTLS c then ''ldaps'' else ''ldap'')
               in [scheme @ ''://'' @ ld_Host c @ '':'' @ int_text port])"

subsection \<open>TLS\<close>

text \<open>Certificates: \<open>tl_system\<close> is the system's pool, \<open>None\<close> when it cannot be had.\<close>

record ('ca, 'cert) tls_lib =
  tl_read :: "string \<Rightarrow> string res"
  tl_system :: "'ca option"
  tl_empty :: 'ca
  tl_append :: "string \<Rightarrow> 'ca \<Rightarrow> 'ca option"
  tl_keypair :: "string \<Rightarrow> string \<Rightarrow> 'cert res"

record ('ca, 'cert) tls_config =
  tc_ServerName :: string
  tc_InsecureSkipVerify :: bool
  tc_RootCAs :: "'ca option"
  tc_Certificates :: "'cert list"

definition ldapPEM :: "('ca, 'cert) tls_lib \<Rightarrow> string \<Rightarrow> string res" where
  "ldapPEM X v = (if Contains v ''-----BEGIN'' then Inr v else tl_read X v)"

fun append_roots :: "('ca, 'cert) tls_lib \<Rightarrow> string list \<Rightarrow> 'ca \<Rightarrow> 'ca res" where
  "append_roots X [] pool = Inr pool"
| "append_roots X (source # sources) pool =
     bind_res (ldapPEM X source) (\<lambda>pem.
       case tl_append X pem pool of None \<Rightarrow> Inl (ErrText ''invalid LDAP root CA'') | Some pool' \<Rightarrow> append_roots X sources pool')"

definition root_cas :: "('ca, 'cert) tls_lib \<Rightarrow> LDAPClientConfig \<Rightarrow> 'ca option res" where
  "root_cas X c =
     (if length (ld_RootCAs c) > 0
      then bind_res (append_roots X (ld_RootCAs c) (or_default (tl_system X) (tl_empty X))) (\<lambda>pool. Inr (Some pool))
      else Inr None)"

definition client_certs :: "('ca, 'cert) tls_lib \<Rightarrow> LDAPClientConfig \<Rightarrow> 'cert list res" where
  "client_certs X c =
     (if ld_ClientCert c \<noteq> '''' \<or> ld_ClientKey c \<noteq> ''''
      then bind_res (ldapPEM X (ld_ClientCert c)) (\<lambda>certPEM.
           bind_res (ldapPEM X (ld_ClientKey c)) (\<lambda>keyPEM.
           bind_res (tl_keypair X certPEM keyPEM) (\<lambda>cert. Inr [cert])))
      else Inr [])"

definition ldapTLSConfig :: "('ca, 'cert) tls_lib \<Rightarrow> LDAPClientConfig option \<Rightarrow> ('ca, 'cert) tls_config res" where
  "ldapTLSConfig X config =
     (case config of
        None \<Rightarrow> Inl (ErrText ''LDAP client config is nil'')
      | Some c \<Rightarrow>
          bind_res (root_cas X c) (\<lambda>roots.
          bind_res (client_certs X c) (\<lambda>certs.
            Inr \<lparr>tc_ServerName = ld_ServerName c, tc_InsecureSkipVerify = ld_InsecureSkipVerify c,
                 tc_RootCAs = roots, tc_Certificates = certs\<rparr>)))"

subsection \<open>The pool\<close>

record 'c ldapPooledConn =
  pc_conn :: 'c
  pc_createdAt :: int

text \<open>\<open>lp_idle\<close> is the content of the channel \<^verbatim>\<open>idle\<close>, whose capacity is \<open>lp_maxIdle\<close>; times are nanoseconds.\<close>

record ('c, 'ca, 'cert) LDAPClientPool =
  lp_config :: LDAPClientConfig
  lp_urls :: "string list"
  lp_tlsConfig :: "('ca, 'cert) tls_config"
  lp_timeout :: int
  lp_lifetime :: int
  lp_maxOpen :: int
  lp_maxIdle :: int
  lp_idle :: "'c ldapPooledConn list"
  lp_open :: int
  lp_nextID :: int

definition seconds_ns :: "int \<Rightarrow> int" where
  "seconds_ns s = wrap64 (s * 1000000000)"

definition NewLDAPClientPool :: "('ca, 'cert) tls_lib \<Rightarrow> LDAPClientConfig option \<Rightarrow> ('c, 'ca, 'cert) LDAPClientPool res" where
  "NewLDAPClientPool X config =
     (case config of
        None \<Rightarrow> Inl (ErrText ''LDAP client config is nil'')
      | Some c \<Rightarrow>
          let urls = ldapURLs config in
          if length urls = 0 then Inl (ErrText ''LDAP urls or host are required'')
          else bind_res (ldapTLSConfig X config) (\<lambda>tlsConfig.
            let maxOpen = (if lc_MaxOpen (ld_Pool c) \<le> 0 then 10 else lc_MaxOpen (ld_Pool c));
                maxIdle = lc_MaxIdle (ld_Pool c);
                timeout = seconds_ns (ld_OperationTimeoutSeconds c)
            in if maxIdle < 0 then Inl (ErrText ''LDAP max_idle cannot be negative'')
               else Inr \<lparr>lp_config = c, lp_urls = urls, lp_tlsConfig = tlsConfig,
                      lp_timeout = (if timeout \<le> 0 then 10 * 1000000000 else timeout),
                      lp_lifetime = seconds_ns (lc_MaxLifetimeSeconds (ld_Pool c)), lp_maxOpen = maxOpen,
                      lp_maxIdle = (if maxIdle = 0 \<or> maxIdle > maxOpen then maxOpen else maxIdle),
                      lp_idle = [], lp_open = 0, lp_nextID = 0\<rparr>))"

definition LDAPClientFactory :: "('ca, 'cert) tls_lib \<Rightarrow> (string \<Rightarrow> LDAPClientConfig res) \<Rightarrow> string \<Rightarrow> ('c, 'ca, 'cert) LDAPClientPool res" where
  "LDAPClientFactory X unmarshal config = bind_res (unmarshal config) (\<lambda>c. NewLDAPClientPool X (Some c))"

subsection \<open>Dialling\<close>

text \<open>The LDAP library. The timeout and the TLS settings of a connection are the pool's; they do not change.\<close>

record 'c ldap_lib =
  ll_dial :: "string \<Rightarrow> 'c res"
  ll_startTLS :: "'c \<Rightarrow> go_error option"
  ll_bind :: "'c \<Rightarrow> string \<Rightarrow> string \<Rightarrow> go_error option"
  ll_unauthenticated :: "'c \<Rightarrow> string \<Rightarrow> go_error option"
  ll_external :: "'c \<Rightarrow> go_error option"
  ll_ntlm :: "'c \<Rightarrow> string \<Rightarrow> string \<Rightarrow> string \<Rightarrow> go_error option"
  ll_ntlm_unauthenticated :: "'c \<Rightarrow> string \<Rightarrow> string \<Rightarrow> go_error option"
  ll_digest_md5 :: "'c \<Rightarrow> string \<Rightarrow> string \<Rightarrow> string \<Rightarrow> go_error option"

text \<open>Go's remainder has the sign of the dividend; a negative index panics.\<close>

definition nextURL :: "nat \<Rightarrow> int \<Rightarrow> int \<times> int" where
  "nextURL n nextID = (wrap64 (nextID + 1), nextID - quot nextID (int n) * int n)"

fun dial_loop :: "'c ldap_lib \<Rightarrow> bool \<Rightarrow> go_error option \<Rightarrow> string list \<Rightarrow> nat \<Rightarrow> go_error \<Rightarrow> int \<Rightarrow> int \<times> 'c res" where
  "dial_loop L startTLS ctx urls 0 lastErr nextID = (nextID, Inl lastErr)"
| "dial_loop L startTLS ctx urls (Suc n) lastErr nextID =
     (case nextURL (length urls) nextID of
        (next, i) \<Rightarrow>
          if i < 0 then (next, Inl (GoPanic ''index out of range''))
          else (case ctx of
                  Some e \<Rightarrow> (next, Inl e)
                | None \<Rightarrow>
                    (case ll_dial L (urls ! nat i) of
                       Inl e \<Rightarrow> dial_loop L startTLS ctx urls n e next
                     | Inr conn \<Rightarrow>
                         (case (if startTLS then ll_startTLS L conn else None) of
                            Some e \<Rightarrow> dial_loop L startTLS ctx urls n e next
                          | None \<Rightarrow> (next, Inr conn)))))"

text \<open>A pool has at least one URL; without any, \<^verbatim>\<open>dial\<close> would return a nil connection and no error.\<close>

definition dial :: "'c ldap_lib \<Rightarrow> go_error option \<Rightarrow> ('c, 'ca, 'cert) LDAPClientPool \<Rightarrow> ('c, 'ca, 'cert) LDAPClientPool \<times> 'c res" where
  "dial L ctx p =
     (case dial_loop L (ld_StartTLS (lp_config p)) ctx (lp_urls p) (length (lp_urls p)) (GoPanic ''nil pointer dereference'') (lp_nextID p) of
        (next, r) \<Rightarrow> (p\<lparr>lp_nextID := next\<rparr>, r))"

definition configuredBind :: "'c ldap_lib \<Rightarrow> LDAPBindConfig \<Rightarrow> 'c \<Rightarrow> go_error option" where
  "configuredBind L b conn =
     (let m = (if ToLower (lb_Method b) = '''' then ''none'' else ToLower (lb_Method b)) in
      if m = ''none'' \<or> m = ''anonymous'' then None
      else if m = ''simple'' then ll_bind L conn (lb_DN b) (lb_Password b)
      else if m = ''unauthenticated'' then ll_unauthenticated L conn (lb_DN b)
      else if m = ''external'' \<or> m = ''sasl_external'' then ll_external L conn
      else if m = ''ntlm'' then ll_ntlm L conn (lb_Realm b) (lb_Username b) (lb_Password b)
      else if m = ''ntlm_unauthenticated'' then ll_ntlm_unauthenticated L conn (lb_Realm b) (lb_Username b)
      else if m = ''digest_md5'' \<or> m = ''sasl_digest_md5''
      then ll_digest_md5 L conn (or_default (gm_get (lb_Properties b) ''host'') '''') (lb_Username b) (lb_Password b)
      else Some (ErrText (''unsupported LDAP bind method '' @ lb_Method b)))"

subsection \<open>Borrowing a connection\<close>

definition conn_expired :: "int \<Rightarrow> int \<Rightarrow> 'c ldapPooledConn \<Rightarrow> bool" where
  "conn_expired lifetime now conn \<longleftrightarrow> lifetime > 0 \<and> now - pc_createdAt conn \<ge> lifetime"

definition discard_open :: "int \<Rightarrow> int" where
  "discard_open n = (if n > 0 then n - 1 else n)"

text \<open>The non-blocking receives at the head of the loop of \<^verbatim>\<open>acquire\<close>: expired connections are discarded.\<close>

fun scan_idle :: "int \<Rightarrow> int \<Rightarrow> 'c ldapPooledConn list \<Rightarrow> int \<Rightarrow> 'c ldapPooledConn list \<times> int \<times> 'c ldapPooledConn option" where
  "scan_idle lifetime now [] n = ([], n, None)"
| "scan_idle lifetime now (conn # rest) n =
     (if conn_expired lifetime now conn then scan_idle lifetime now rest (discard_open n) else (rest, n, Some conn))"

text \<open>A new connection takes a slot first and gives it back when dialling or binding fails. With every slot
  taken the caller waits for the channel: alone, until its context is done, and \<open>None\<close> is a wait without end.\<close>

definition acquire :: "'c ldap_lib \<Rightarrow> go_error option \<Rightarrow> int \<Rightarrow> ('c, 'ca, 'cert) LDAPClientPool
    \<Rightarrow> (('c, 'ca, 'cert) LDAPClientPool \<times> 'c ldapPooledConn res) option" where
  "acquire L ctx now p =
     (case scan_idle (lp_lifetime p) now (lp_idle p) (lp_open p) of
        (rest, n, Some conn) \<Rightarrow> Some (p\<lparr>lp_idle := rest, lp_open := n\<rparr>, Inr conn)
      | (rest, n, None) \<Rightarrow>
          let p1 = p\<lparr>lp_idle := rest, lp_open := n\<rparr> in
          if lp_open p1 < lp_maxOpen p1
          then (case dial L ctx (p1\<lparr>lp_open := lp_open p1 + 1\<rparr>) of
                  (p2, Inl e) \<Rightarrow> Some (p2\<lparr>lp_open := lp_open p2 - 1\<rparr>, Inl e)
                | (p2, Inr conn) \<Rightarrow>
                    (case configuredBind L (ld_Bind (lp_config p2)) conn of
                       Some e \<Rightarrow> Some (p2\<lparr>lp_open := lp_open p2 - 1\<rparr>, Inl e)
                     | None \<Rightarrow> Some (p2, Inr \<lparr>pc_conn = conn, pc_createdAt = now\<rparr>)))
          else (case ctx of Some e \<Rightarrow> Some (p1, Inl e) | None \<Rightarrow> None))"

definition release :: "int \<Rightarrow> 'c ldapPooledConn \<Rightarrow> ('c, 'ca, 'cert) LDAPClientPool \<Rightarrow> ('c, 'ca, 'cert) LDAPClientPool" where
  "release now conn p =
     (if conn_expired (lp_lifetime p) now conn then p\<lparr>lp_open := discard_open (lp_open p)\<rparr>
      else if int (length (lp_idle p)) < lp_maxIdle p then p\<lparr>lp_idle := lp_idle p @ [conn]\<rparr>
      else p\<lparr>lp_open := discard_open (lp_open p)\<rparr>)"

definition with_conn :: "'c ldap_lib \<Rightarrow> go_error option \<Rightarrow> int \<Rightarrow> int \<Rightarrow> ('c \<Rightarrow> 'a res) \<Rightarrow> ('c, 'ca, 'cert) LDAPClientPool
    \<Rightarrow> (('c, 'ca, 'cert) LDAPClientPool \<times> 'a res) option" where
  "with_conn L ctx t0 t1 op p =
     (case acquire L ctx t0 p of
        None \<Rightarrow> None
      | Some (p1, Inl e) \<Rightarrow> Some (p1, Inl e)
      | Some (p1, Inr conn) \<Rightarrow> Some (release t1 conn p1, op (pc_conn conn)))"

subsection \<open>Operations\<close>

record LDAPSearchRequest =
  sr_BaseDN :: string
  sr_Scope :: string
  sr_DerefAliases :: string
  sr_Filter :: string
  sr_Attributes :: "string list"
  sr_SizeLimit :: int
  sr_TimeLimitSeconds :: int
  sr_TypesOnly :: bool

record LDAPEntry =
  en_DN :: string
  en_Attributes :: multimap

record LDAPModification =
  lm_Operation :: string
  lm_Attribute :: string
  lm_Values :: "string list"

record LDAPModifyRequest =
  mr_DN :: string
  mr_Changes :: "LDAPModification list"

record LDAPAddRequest =
  ar_DN :: string
  ar_Attributes :: multimap

record LDAPModifyDNRequest =
  dr_DN :: string
  dr_RDN :: string
  dr_DeleteOldRDN :: bool
  dr_NewSuperior :: string

datatype change = AddValues string "string list" | DeleteValues string "string list" | ReplaceValues string "string list" | IncrementBy string string

record 'c ldap_ops =
  lo_Search :: "'c \<Rightarrow> string \<Rightarrow> int \<Rightarrow> int \<Rightarrow> int \<Rightarrow> int \<Rightarrow> bool \<Rightarrow> string \<Rightarrow> string list \<Rightarrow> (string \<times> (string \<times> string list) list) list res"
  lo_Compare :: "'c \<Rightarrow> string \<Rightarrow> string \<Rightarrow> string \<Rightarrow> bool res"
  lo_Modify :: "'c \<Rightarrow> string \<Rightarrow> change list \<Rightarrow> unit res"
  lo_Add :: "'c \<Rightarrow> string \<Rightarrow> (string \<times> string list) list \<Rightarrow> unit res"
  lo_Del :: "'c \<Rightarrow> string \<Rightarrow> unit res"
  lo_ModifyDN :: "'c \<Rightarrow> string \<Rightarrow> string \<Rightarrow> bool \<Rightarrow> string \<Rightarrow> unit res"

text \<open>The constants of the library (RFC 4511).\<close>

definition ldapScope :: "string \<Rightarrow> int" where
  "ldapScope v = (if ToLower v = ''base'' then 0 else if ToLower v = ''one'' then 1 else 2)"

definition ldapDerefAliases :: "string \<Rightarrow> int" where
  "ldapDerefAliases v =
     (if ToLower v = ''searching'' then 1 else if ToLower v = ''finding'' then 2 else if ToLower v = ''always'' then 3 else 0)"

definition to_entry :: "string \<times> (string \<times> string list) list \<Rightarrow> LDAPEntry" where
  "to_entry e = \<lparr>en_DN = fst e, en_Attributes = fold (\<lambda>(name, vs). gm_put name vs) (snd e) []\<rparr>"

type_synonym ('c, 'ca, 'cert, 'a) pool_op = "('c, 'ca, 'cert) LDAPClientPool \<Rightarrow> (('c, 'ca, 'cert) LDAPClientPool \<times> 'a res) option"

definition pool_Search :: "'c ldap_lib \<Rightarrow> 'c ldap_ops \<Rightarrow> go_error option \<Rightarrow> int \<Rightarrow> int \<Rightarrow> LDAPSearchRequest option \<Rightarrow> ('c, 'ca, 'cert, LDAPEntry list) pool_op" where
  "pool_Search L Op ctx t0 t1 request p =
     (case request of
        None \<Rightarrow> Some (p, Inl (ErrText ''LDAP search request is nil''))
      | Some r \<Rightarrow>
          with_conn L ctx t0 t1 (\<lambda>conn.
            bind_res (lo_Search Op conn (if sr_BaseDN r = '''' then ld_BaseDN (lp_config p) else sr_BaseDN r) (ldapScope (sr_Scope r))
                (ldapDerefAliases (sr_DerefAliases r)) (sr_SizeLimit r) (sr_TimeLimitSeconds r) (sr_TypesOnly r) (sr_Filter r) (sr_Attributes r))
              (\<lambda>entries. Inr (map to_entry entries))) p)"

text \<open>\<^verbatim>\<open>Bind\<close> checks credentials on a connection of its own, outside the pool.\<close>

definition pool_Bind :: "'c ldap_lib \<Rightarrow> go_error option \<Rightarrow> string \<Rightarrow> string \<Rightarrow> ('c, 'ca, 'cert, unit) pool_op" where
  "pool_Bind L ctx dn password p =
     (case dial L ctx p of
        (p1, Inl e) \<Rightarrow> Some (p1, Inl e)
      | (p1, Inr conn) \<Rightarrow>
          Some (p1, case (if password = '''' then ll_unauthenticated L conn dn else ll_bind L conn dn password) of
                      Some e \<Rightarrow> Inl e | None \<Rightarrow> Inr ()))"

definition pool_Compare :: "'c ldap_lib \<Rightarrow> 'c ldap_ops \<Rightarrow> go_error option \<Rightarrow> int \<Rightarrow> int \<Rightarrow> string \<Rightarrow> string \<Rightarrow> string \<Rightarrow> ('c, 'ca, 'cert, bool) pool_op" where
  "pool_Compare L Op ctx t0 t1 dn attribute v = with_conn L ctx t0 t1 (\<lambda>conn. lo_Compare Op conn dn attribute v)"

fun build_changes :: "LDAPModification list \<Rightarrow> change list res" where
  "build_changes [] = Inr []"
| "build_changes (c # cs) =
     (let operation = ToLower (lm_Operation c) in
      if operation = ''add'' then bind_res (build_changes cs) (\<lambda>rest. Inr (AddValues (lm_Attribute c) (lm_Values c) # rest))
      else if operation = ''delete'' then bind_res (build_changes cs) (\<lambda>rest. Inr (DeleteValues (lm_Attribute c) (lm_Values c) # rest))
      else if operation = ''replace'' then bind_res (build_changes cs) (\<lambda>rest. Inr (ReplaceValues (lm_Attribute c) (lm_Values c) # rest))
      else if operation = ''increment''
      then (if length (lm_Values c) \<noteq> 1 then Inl (ErrText ''LDAP increment requires exactly one value'')
            else bind_res (build_changes cs) (\<lambda>rest. Inr (IncrementBy (lm_Attribute c) (hd (lm_Values c)) # rest)))
      else Inl (ErrText (''unsupported LDAP modify operation '' @ lm_Operation c)))"

definition pool_Modify :: "'c ldap_lib \<Rightarrow> 'c ldap_ops \<Rightarrow> go_error option \<Rightarrow> int \<Rightarrow> int \<Rightarrow> LDAPModifyRequest option \<Rightarrow> ('c, 'ca, 'cert, unit) pool_op" where
  "pool_Modify L Op ctx t0 t1 request p =
     (case request of
        None \<Rightarrow> Some (p, Inl (ErrText ''LDAP modify request is nil''))
      | Some r \<Rightarrow> with_conn L ctx t0 t1 (\<lambda>conn. bind_res (build_changes (mr_Changes r)) (lo_Modify Op conn (mr_DN r))) p)"

definition pool_Add :: "'c ldap_lib \<Rightarrow> 'c ldap_ops \<Rightarrow> go_error option \<Rightarrow> int \<Rightarrow> int \<Rightarrow> LDAPAddRequest option \<Rightarrow> ('c, 'ca, 'cert, unit) pool_op" where
  "pool_Add L Op ctx t0 t1 request p =
     (case request of
        None \<Rightarrow> Some (p, Inl (ErrText ''LDAP add request is nil''))
      | Some r \<Rightarrow> with_conn L ctx t0 t1 (\<lambda>conn. lo_Add Op conn (ar_DN r) (ar_Attributes r)) p)"

definition pool_Delete :: "'c ldap_lib \<Rightarrow> 'c ldap_ops \<Rightarrow> go_error option \<Rightarrow> int \<Rightarrow> int \<Rightarrow> string \<Rightarrow> ('c, 'ca, 'cert, unit) pool_op" where
  "pool_Delete L Op ctx t0 t1 dn = with_conn L ctx t0 t1 (\<lambda>conn. lo_Del Op conn dn)"

definition pool_ModifyDN :: "'c ldap_lib \<Rightarrow> 'c ldap_ops \<Rightarrow> go_error option \<Rightarrow> int \<Rightarrow> int \<Rightarrow> LDAPModifyDNRequest option \<Rightarrow> ('c, 'ca, 'cert, unit) pool_op" where
  "pool_ModifyDN L Op ctx t0 t1 request p =
     (case request of
        None \<Rightarrow> Some (p, Inl (ErrText ''LDAP modify DN request is nil''))
      | Some r \<Rightarrow> with_conn L ctx t0 t1 (\<lambda>conn. lo_ModifyDN Op conn (dr_DN r) (dr_RDN r) (dr_DeleteOldRDN r) (dr_NewSuperior r)) p)"

subsection \<open>Many callers\<close>

text \<open>A caller of the pool is at one of these points of \<^verbatim>\<open>acquire\<close>, the operation, \<^verbatim>\<open>release\<close> and \<^verbatim>\<open>discard\<close>.
  Connections are numbered in the order in which they are made.\<close>

datatype caller =
    Scanning
  | Reserving
  | Dialing
  | Unreserving
  | Blocked
  | Using "nat ldapPooledConn"
  | Discarding bool
  | Returned

record world =
  wo_idle :: "nat ldapPooledConn list"
  wo_open :: int
  wo_created :: nat
  wo_now :: int
  wo_callers :: "caller list"

record limits =
  li_maxOpen :: int
  li_maxIdle :: int
  li_lifetime :: int

abbreviation at :: "world \<Rightarrow> nat \<Rightarrow> caller \<Rightarrow> bool" where
  "at w i c \<equiv> i < length (wo_callers w) \<and> wo_callers w ! i = c"

definition goto :: "nat \<Rightarrow> caller \<Rightarrow> world \<Rightarrow> world" where
  "goto i c w = w\<lparr>wo_callers := (wo_callers w)[i := c]\<rparr>"

text \<open>The step of caller \<open>i\<close> (\<open>None\<close> is the clock). \<open>Discarding True\<close> goes back to the loop of \<^verbatim>\<open>acquire\<close>, \<open>Discarding False\<close>
  ends \<^verbatim>\<open>release\<close>; the connection has been closed before the slot is given back.\<close>

inductive pool_step :: "limits \<Rightarrow> nat option \<Rightarrow> world \<Rightarrow> world \<Rightarrow> bool" for P where
  call: "at w i Returned \<Longrightarrow> pool_step P (Some i) w (goto i Scanning w)"
| scan_hit: "at w i Scanning \<Longrightarrow> wo_idle w = conn # rest \<Longrightarrow> \<not> conn_expired (li_lifetime P) (wo_now w) conn \<Longrightarrow>
    pool_step P (Some i) w (goto i (Using conn) (w\<lparr>wo_idle := rest\<rparr>))"
| scan_expired: "at w i Scanning \<Longrightarrow> wo_idle w = conn # rest \<Longrightarrow> conn_expired (li_lifetime P) (wo_now w) conn \<Longrightarrow>
    pool_step P (Some i) w (goto i (Discarding True) (w\<lparr>wo_idle := rest\<rparr>))"
| scan_empty: "at w i Scanning \<Longrightarrow> wo_idle w = [] \<Longrightarrow> pool_step P (Some i) w (goto i Reserving w)"
| reserve: "at w i Reserving \<Longrightarrow> wo_open w < li_maxOpen P \<Longrightarrow>
    pool_step P (Some i) w (goto i Dialing (w\<lparr>wo_open := wo_open w + 1\<rparr>))"
| no_slot: "at w i Reserving \<Longrightarrow> \<not> wo_open w < li_maxOpen P \<Longrightarrow> pool_step P (Some i) w (goto i Blocked w)"
| dialled: "at w i Dialing \<Longrightarrow>
    pool_step P (Some i) w (goto i (Using \<lparr>pc_conn = wo_created w, pc_createdAt = wo_now w\<rparr>) (w\<lparr>wo_created := Suc (wo_created w)\<rparr>))"
| dial_failed: "at w i Dialing \<Longrightarrow> pool_step P (Some i) w (goto i Unreserving w)"
| unreserve: "at w i Unreserving \<Longrightarrow> pool_step P (Some i) w (goto i Returned (w\<lparr>wo_open := wo_open w - 1\<rparr>))"
| woken: "at w i Blocked \<Longrightarrow> wo_idle w = conn # rest \<Longrightarrow> \<not> conn_expired (li_lifetime P) (wo_now w) conn \<Longrightarrow>
    pool_step P (Some i) w (goto i (Using conn) (w\<lparr>wo_idle := rest\<rparr>))"
| woken_expired: "at w i Blocked \<Longrightarrow> wo_idle w = conn # rest \<Longrightarrow> conn_expired (li_lifetime P) (wo_now w) conn \<Longrightarrow>
    pool_step P (Some i) w (goto i (Discarding True) (w\<lparr>wo_idle := rest\<rparr>))"
| cancelled: "at w i Blocked \<Longrightarrow> pool_step P (Some i) w (goto i Returned w)"
| keep: "at w i (Using conn) \<Longrightarrow> \<not> conn_expired (li_lifetime P) (wo_now w) conn \<Longrightarrow> int (length (wo_idle w)) < li_maxIdle P \<Longrightarrow>
    pool_step P (Some i) w (goto i Returned (w\<lparr>wo_idle := wo_idle w @ [conn]\<rparr>))"
| drop_conn: "at w i (Using conn) \<Longrightarrow> conn_expired (li_lifetime P) (wo_now w) conn \<or> \<not> int (length (wo_idle w)) < li_maxIdle P \<Longrightarrow>
    pool_step P (Some i) w (goto i (Discarding False) w)"
| discarded: "at w i (Discarding again) \<Longrightarrow>
    pool_step P (Some i) w (goto i (if again then Scanning else Returned) (w\<lparr>wo_open := discard_open (wo_open w)\<rparr>))"
| clock: "0 \<le> d \<Longrightarrow> pool_step P None w (w\<lparr>wo_now := wo_now w + d\<rparr>)"

inductive_simps pool_step_at: "pool_step P (Some i) w w'"
inductive_simps pool_step_clock: "pool_step P None w w'"

text \<open>The worlds that \<open>k\<close> callers reach from a new pool.\<close>

definition new_world :: "nat \<Rightarrow> int \<Rightarrow> world" where
  "new_world k now = \<lparr>wo_idle = [], wo_open = 0, wo_created = 0, wo_now = now, wo_callers = replicate k Returned\<rparr>"

inductive pool_reachable :: "limits \<Rightarrow> nat \<Rightarrow> world \<Rightarrow> bool" for P k where
  new: "pool_reachable P k (new_world k now)"
| move: "pool_reachable P k w \<Longrightarrow> pool_step P who w w' \<Longrightarrow> pool_reachable P k w'"

end
