(* ===== verification/LdapFacts.thy ===== *)
theory LdapFacts
  imports LdapPool
begin

text \<open>
  Facts on the LDAP connection pool: the limits a new pool has, which servers \<^verbatim>\<open>dial\<close> tries, callers one
  after the other, and the invariant of many callers at once, under which a connection has one user and the
  number of connections stays within the limits. A caller that waits is not told of a slot that is given back.
\<close>

subsection \<open>New pools\<close>

lemma new_pool_limits:
  assumes "NewLDAPClientPool X config = Inr p"
  shows "1 \<le> lp_maxIdle p" and "lp_maxIdle p \<le> lp_maxOpen p" and "lp_idle p = []" and "lp_open p = 0"
    and "lp_nextID p = 0" and "lp_urls p \<noteq> []"
  using assms
  by (auto simp: NewLDAPClientPool_def Let_def bind_res_Inr_iff split: option.splits if_splits)

subsection \<open>Dialling\<close>

definition reachable_server :: "'c ldap_lib \<Rightarrow> bool \<Rightarrow> string \<Rightarrow> bool" where
  "reachable_server L startTLS url \<longleftrightarrow> (\<exists>conn. ll_dial L url = Inr conn \<and> (startTLS \<longrightarrow> ll_startTLS L conn = None))"

lemma nextURL_nonneg:
  assumes "0 < n" and "0 \<le> nextID" and "nextID < 2 ^ 63 - 1"
  shows "nextURL n nextID = (nextID + 1, nextID mod int n)"
proof -
  from assms have "in_int64 (nextID + 1)" by (simp add: in_int64_def)
  moreover have "nextID - nextID div int n * int n = nextID mod int n" by (simp add: minus_div_mult_eq_mod)
  ultimately show ?thesis using assms by (simp add: nextURL_def)
qed

lemma dial_loop_reaches:
  assumes "urls \<noteq> []" and "0 \<le> nextID" and "nextID + int n < 2 ^ 63"
    and "k < n" and "reachable_server L startTLS (urls ! nat ((nextID + int k) mod int (length urls)))"
  shows "\<exists>conn. snd (dial_loop L startTLS None urls n e nextID) = Inr conn"
  using assms(2-)
proof (induction n arbitrary: k nextID e)
  case (Suc n)
  let ?len = "int (length urls)"
  have nu: "nextURL (length urls) nextID = (nextID + 1, nextID mod ?len)"
    using Suc.prems assms(1) by (intro nextURL_nonneg) auto
  have i: "\<not> nextID mod ?len < 0" using assms(1) by (simp add: not_less)
  have again: "\<exists>conn. snd (dial_loop L startTLS None urls n e' (nextID + 1)) = Inr conn" if "k \<noteq> 0" for e'
    using Suc.IH [of "nextID + 1" "k - 1" e'] Suc.prems that by (simp add: algebra_simps of_nat_diff)
  show ?case
  proof (cases "k = 0")
    case True
    with Suc.prems obtain conn where "ll_dial L (urls ! nat (nextID mod ?len)) = Inr conn" "startTLS \<longrightarrow> ll_startTLS L conn = None"
      by (auto simp: reachable_server_def)
    then show ?thesis by (simp add: nu i)
  next
    case False
    show ?thesis
    proof (cases "ll_dial L (urls ! nat (nextID mod ?len))")
      case (Inl e')
      with again [OF False] show ?thesis by (simp add: nu i)
    next
      case (Inr conn)
      then show ?thesis using again [OF False] by (auto simp: nu i split: option.split)
    qed
  qed
qed simp

lemma residue_reached:
  assumes "j < (n::nat)"
  shows "\<exists>k < n. (x + int k) mod int n = int j"
proof (intro exI conjI)
  let ?k = "nat ((int j - x) mod int n)"
  have r: "0 \<le> (int j - x) mod int n" "(int j - x) mod int n < int n" using assms by auto
  then show "?k < n" by linarith
  have "(x + int ?k) mod int n = (x + (int j - x)) mod int n" using r(1) by (simp add: mod_add_right_eq)
  also have "\<dots> = int j" using assms by simp
  finally show "(x + int ?k) mod int n = int j" .
qed

text \<open>Dialling tries every server: a pool whose rotation was not disturbed gets a connection as soon as one of its
  servers answers, wherever the rotation stands.\<close>

theorem dial_tries_every_server:
  assumes "url \<in> set (lp_urls p)" and "reachable_server L (ld_StartTLS (lp_config p)) url"
    and "0 \<le> lp_nextID p" and "lp_nextID p + int (length (lp_urls p)) < 2 ^ 63"
  shows "\<exists>p' conn. dial L None p = (p', Inr conn)"
proof -
  obtain j where j: "j < length (lp_urls p)" "lp_urls p ! j = url" using assms(1) by (auto simp: in_set_conv_nth)
  obtain k where k: "k < length (lp_urls p)" "(lp_nextID p + int k) mod int (length (lp_urls p)) = int j"
    using residue_reached [OF j(1)] by blast
  have "\<exists>conn. snd (dial_loop L (ld_StartTLS (lp_config p)) None (lp_urls p) (length (lp_urls p)) (GoPanic ''nil pointer dereference'') (lp_nextID p)) = Inr conn"
    using assms j k by (intro dial_loop_reaches [OF _ _ _ k(1)]) auto
  then show ?thesis by (auto simp: dial_def split: prod.split)
qed

lemma dial_keeps: "dial L ctx p = (p', r) \<Longrightarrow> \<exists>next. p' = p\<lparr>lp_nextID := next\<rparr>"
  by (auto simp: dial_def split: prod.splits)

subsection \<open>One caller after the other\<close>

text \<open>Between operations every connection of the pool is idle.\<close>

definition pool_at_rest :: "('c, 'ca, 'cert) LDAPClientPool \<Rightarrow> bool" where
  "pool_at_rest p \<longleftrightarrow> lp_open p = int (length (lp_idle p)) \<and> int (length (lp_idle p)) \<le> lp_maxIdle p \<and>
     lp_maxIdle p \<le> lp_maxOpen p \<and> 0 < lp_maxOpen p"

lemma new_pool_at_rest: "NewLDAPClientPool X config = Inr p \<Longrightarrow> pool_at_rest p"
  using new_pool_limits [of X config p] by (auto simp: pool_at_rest_def)

lemma scan_idle_result:
  "scan_idle lifetime now idle (int (length idle)) = (rest, m, r) \<Longrightarrow>
     length rest \<le> length idle \<and> (r = None \<longrightarrow> rest = [] \<and> m = 0) \<and> (r \<noteq> None \<longrightarrow> m = int (length rest) + 1)"
proof (induction idle)
  case (Cons conn idle)
  then show ?case by (cases "conn_expired lifetime now conn") (auto simp: discard_open_def)
qed auto

definition borrowed :: "('c, 'ca, 'cert) LDAPClientPool \<Rightarrow> ('c, 'ca, 'cert) LDAPClientPool \<Rightarrow> int \<Rightarrow> bool" where
  "borrowed p p' n \<longleftrightarrow> lp_maxIdle p' = lp_maxIdle p \<and> lp_maxOpen p' = lp_maxOpen p \<and>
     length (lp_idle p') \<le> length (lp_idle p) \<and> lp_open p' = int (length (lp_idle p')) + n"

lemma acquire_returns:
  assumes "pool_at_rest p"
  obtains (refused) p' e where "acquire L ctx now p = Some (p', Inl e)" and "borrowed p p' 0"
  | (lent) p' conn where "acquire L ctx now p = Some (p', Inr conn)" and "borrowed p p' 1"
proof -
  obtain rest m r where s: "scan_idle (lp_lifetime p) now (lp_idle p) (lp_open p) = (rest, m, r)" by (metis prod_cases3)
  have o: "lp_open p = int (length (lp_idle p))" using assms by (simp add: pool_at_rest_def)
  note f = scan_idle_result [OF s [unfolded o]]
  show ?thesis
  proof (cases r)
    case (Some conn)
    with s f show ?thesis by (intro lent [of "p\<lparr>lp_idle := rest, lp_open := m\<rparr>" conn]) (simp_all add: acquire_def borrowed_def)
  next
    case None
    with f assms have z: "rest = []" "m = 0" "0 < lp_maxOpen p" by (auto simp: pool_at_rest_def)
    define p1 where "p1 = p\<lparr>lp_idle := [], lp_open := 1\<rparr>"
    obtain nx d where d: "dial L ctx p1 = (p1\<lparr>lp_nextID := nx\<rparr>, d)" using dial_keeps by (metis prod.exhaust)
    have a: "acquire L ctx now p = (case d of
        Inl e \<Rightarrow> Some (p1\<lparr>lp_nextID := nx, lp_open := 0\<rparr>, Inl e)
      | Inr conn \<Rightarrow> (case configuredBind L (ld_Bind (lp_config p)) conn of
          Some e \<Rightarrow> Some (p1\<lparr>lp_nextID := nx, lp_open := 0\<rparr>, Inl e)
        | None \<Rightarrow> Some (p1\<lparr>lp_nextID := nx\<rparr>, Inr \<lparr>pc_conn = conn, pc_createdAt = now\<rparr>)))"
      using s None z d by (simp add: acquire_def p1_def Let_def split: sum.split option.split)
    have b: "borrowed p (p1\<lparr>lp_nextID := nx, lp_open := 0\<rparr>) 0" "borrowed p (p1\<lparr>lp_nextID := nx\<rparr>) 1"
      by (simp_all add: borrowed_def p1_def)
    show ?thesis
    proof (cases d)
      case (Inl e)
      with a b(1) refused show ?thesis by simp
    next
      case (Inr conn)
      with a b refused lent show ?thesis by (cases "configuredBind L (ld_Bind (lp_config p)) conn") simp_all
    qed
  qed
qed

lemma release_at_rest: "pool_at_rest p \<Longrightarrow> borrowed p p' 1 \<Longrightarrow> pool_at_rest (release now conn p')"
  by (auto simp: release_def pool_at_rest_def borrowed_def discard_open_def)

lemma refused_at_rest: "pool_at_rest p \<Longrightarrow> borrowed p p' 0 \<Longrightarrow> pool_at_rest p'"
  by (simp add: pool_at_rest_def borrowed_def)

text \<open>Operations one after the other neither wait nor lose a slot: each returns and leaves every connection idle.\<close>

lemma with_conn_returns:
  assumes "pool_at_rest p"
  shows "\<exists>p' r. with_conn L ctx t0 t1 op p = Some (p', r) \<and> pool_at_rest p'"
proof (cases rule: acquire_returns [OF assms, of L ctx t0])
  case (1 p' e)
  with refused_at_rest [OF assms] show ?thesis by (simp add: with_conn_def)
next
  case (2 p' conn)
  with release_at_rest [OF assms] show ?thesis by (simp add: with_conn_def)
qed

lemma pool_Bind_returns: "pool_at_rest p \<Longrightarrow> \<exists>p' r. pool_Bind L ctx dn password p = Some (p', r) \<and> pool_at_rest p'"
  by (auto simp: pool_Bind_def pool_at_rest_def split: prod.split sum.split dest!: dial_keeps)

subsection \<open>Many callers\<close>

text \<open>The connections of a world, and the slots that are taken for none: by a caller that dials, gives a slot back, or
  discards a connection.\<close>

fun held :: "caller \<Rightarrow> nat list" where
  "held (Using conn) = [pc_conn conn]"
| "held _ = []"

fun slot :: "caller \<Rightarrow> nat" where
  "slot Dialing = 1"
| "slot Unreserving = 1"
| "slot (Discarding again) = 1"
| "slot _ = 0"

definition held_by :: "caller list \<Rightarrow> nat multiset" where
  "held_by cs = mset (concat (map held cs))"

definition slots_of :: "caller list \<Rightarrow> nat" where
  "slots_of cs = sum_list (map slot cs)"

definition world_conns :: "world \<Rightarrow> nat multiset" where
  "world_conns w = mset (map pc_conn (wo_idle w)) + held_by (wo_callers w)"

lemma held_by_update: "i < length cs \<Longrightarrow> held_by (cs[i := c]) + mset (held (cs ! i)) = held_by cs + mset (held c)"
proof (induction cs arbitrary: i)
  case (Cons x cs)
  show ?case
  proof (cases i)
    case (Suc j)
    with Cons.IH [of j] Cons.prems have "held_by (cs[j := c]) + mset (held (cs ! j)) = held_by cs + mset (held c)" by simp
    with Suc show ?thesis by (simp add: held_by_def add.assoc)
  qed (simp add: held_by_def ac_simps)
qed simp

lemma slots_of_update: "i < length cs \<Longrightarrow> slots_of (cs[i := c]) + slot (cs ! i) = slots_of cs + slot c"
proof (induction cs arbitrary: i)
  case (Cons x cs)
  show ?case
  proof (cases i)
    case (Suc j)
    with Cons.IH [of j] Cons.prems show ?thesis by (simp add: slots_of_def)
  qed (simp add: slots_of_def)
qed simp

lemma goto_simps [simp]:
  "wo_idle (goto i c w) = wo_idle w" "wo_open (goto i c w) = wo_open w" "wo_created (goto i c w) = wo_created w"
  "wo_now (goto i c w) = wo_now w" "wo_callers (goto i c w) = (wo_callers w)[i := c]"
  by (simp_all add: goto_def)

definition books_ok :: "limits \<Rightarrow> nat multiset \<Rightarrow> nat \<Rightarrow> nat \<Rightarrow> int \<Rightarrow> nat \<Rightarrow> bool" where
  "books_ok P conns created slots opened idle \<longleftrightarrow>
     (\<forall>x. count conns x \<le> 1) \<and> (\<forall>x. x \<in># conns \<longrightarrow> x < created) \<and> opened = int (size conns + slots) \<and>
     opened \<le> li_maxOpen P \<and> int idle \<le> li_maxIdle P"

definition pool_ok :: "limits \<Rightarrow> world \<Rightarrow> bool" where
  "pool_ok P w \<longleftrightarrow> books_ok P (world_conns w) (wo_created w) (slots_of (wo_callers w)) (wo_open w) (length (wo_idle w))"

lemma books_fresh:
  assumes "books_ok P M n (Suc s) opened l"
  shows "books_ok P (add_mset n M) (Suc n) s opened l"
proof -
  have "n \<notin># M" using assms by (auto simp: books_ok_def)
  then have "count M n = 0" by (simp add: not_in_iff)
  with assms show ?thesis by (auto simp: books_ok_def less_Suc_eq)
qed

lemma books_drop:
  assumes "books_ok P (add_mset x M) n s opened l" and "l' \<le> l"
  shows "books_ok P M n (Suc s) opened l'"
proof -
  have "count M y \<le> 1" for y
  proof -
    have "count M y \<le> count (add_mset x M) y" by simp
    also have "\<dots> \<le> 1" using assms(1) by (simp only: books_ok_def)
    finally show ?thesis .
  qed
  with assms show ?thesis by (auto simp: books_ok_def)
qed

text \<open>A caller that moves between two points: what it held and the slot it took are exchanged for those of the
  new point.\<close>

lemma caller_moves:
  assumes "at w i old"
  shows "held_by ((wo_callers w)[i := new]) + mset (held old) = held_by (wo_callers w) + mset (held new)"
    and "slots_of ((wo_callers w)[i := new]) + slot old = slots_of (wo_callers w) + slot new"
  using assms held_by_update [of i "wo_callers w" new] slots_of_update [of i "wo_callers w" new] by auto

lemma pool_ok_step:
  assumes "pool_ok P w" and "pool_step P who w w'"
  shows "pool_ok P w'"
  using assms(2,1)
proof cases
  case (call i)
  with caller_moves [of i w Returned Scanning] assms(1) show ?thesis by (simp add: pool_ok_def world_conns_def)
next
  case (scan_hit i conn rest)
  with caller_moves [of i w Scanning "Using conn"] assms(1) show ?thesis by (simp add: pool_ok_def world_conns_def books_ok_def)
next
  case (scan_expired i conn rest)
  with caller_moves [of i w Scanning "Discarding True"] assms(1) show ?thesis
    by (simp add: pool_ok_def world_conns_def books_drop [of P "pc_conn conn" _ _ _ _ "Suc (length rest)"])
next
  case (scan_empty i)
  with caller_moves [of i w Scanning Reserving] assms(1) show ?thesis by (simp add: pool_ok_def world_conns_def)
next
  case (reserve i)
  with caller_moves [of i w Reserving Dialing] assms(1) show ?thesis by (simp add: pool_ok_def world_conns_def books_ok_def)
next
  case (no_slot i)
  with caller_moves [of i w Reserving Blocked] assms(1) show ?thesis by (simp add: pool_ok_def world_conns_def)
next
  case (dialled i)
  let ?conn = "\<lparr>pc_conn = wo_created w, pc_createdAt = wo_now w\<rparr>"
  from dialled caller_moves [of i w Dialing "Using ?conn"] assms(1) show ?thesis
    by (simp add: pool_ok_def world_conns_def books_fresh)
next
  case (dial_failed i)
  with caller_moves [of i w Dialing Unreserving] assms(1) show ?thesis by (simp add: pool_ok_def world_conns_def)
next
  case (unreserve i)
  with caller_moves [of i w Unreserving Returned] assms(1) show ?thesis by (simp add: pool_ok_def world_conns_def books_ok_def)
next
  case (woken i conn rest)
  with caller_moves [of i w Blocked "Using conn"] assms(1) show ?thesis by (simp add: pool_ok_def world_conns_def books_ok_def)
next
  case (woken_expired i conn rest)
  with caller_moves [of i w Blocked "Discarding True"] assms(1) show ?thesis
    by (simp add: pool_ok_def world_conns_def books_drop [of P "pc_conn conn" _ _ _ _ "Suc (length rest)"])
next
  case (cancelled i)
  with caller_moves [of i w Blocked Returned] assms(1) show ?thesis by (simp add: pool_ok_def world_conns_def)
next
  case (keep i conn)
  then have "held_by (wo_callers w) = add_mset (pc_conn conn) (held_by ((wo_callers w)[i := Returned]))"
    "slots_of ((wo_callers w)[i := Returned]) = slots_of (wo_callers w)"
    using caller_moves [of i w "Using conn" Returned] by simp_all
  with keep assms(1) show ?thesis by (simp add: pool_ok_def world_conns_def books_ok_def)
next
  case (drop_conn i conn)
  then have "held_by (wo_callers w) = add_mset (pc_conn conn) (held_by ((wo_callers w)[i := Discarding False]))"
    "slots_of ((wo_callers w)[i := Discarding False]) = Suc (slots_of (wo_callers w))"
    using caller_moves [of i w "Using conn" "Discarding False"] by simp_all
  with drop_conn assms(1) show ?thesis
    by (simp add: pool_ok_def world_conns_def books_drop [of P "pc_conn conn" _ _ _ _ "length (wo_idle w)"])
next
  case (discarded i again)
  with caller_moves [of i w "Discarding again" "if again then Scanning else Returned"] assms(1) show ?thesis
    by (auto simp: pool_ok_def world_conns_def books_ok_def discard_open_def)
next
  case (clock d)
  with assms(1) show ?thesis by (simp add: pool_ok_def world_conns_def)
qed

lemma pool_ok_new: "0 \<le> li_maxOpen P \<Longrightarrow> 0 \<le> li_maxIdle P \<Longrightarrow> pool_ok P (new_world k now)"
proof -
  have "held_by (replicate k Returned) = {#}" "slots_of (replicate k Returned) = 0"
    by (induction k) (simp_all add: held_by_def slots_of_def)
  then show "0 \<le> li_maxOpen P \<Longrightarrow> 0 \<le> li_maxIdle P \<Longrightarrow> pool_ok P (new_world k now)"
    by (simp add: pool_ok_def books_ok_def world_conns_def new_world_def)
qed

lemma pool_ok_reachable:
  assumes "pool_reachable P k w" and "0 \<le> li_maxOpen P" and "0 \<le> li_maxIdle P"
  shows "pool_ok P w"
  using assms(1) by induction (auto intro: pool_ok_new pool_ok_step assms(2,3))

lemma held_member: "j < length cs \<Longrightarrow> cs ! j = Using conn \<Longrightarrow> pc_conn conn \<in># held_by cs"
proof -
  assume "j < length cs" "cs ! j = Using conn"
  then have "Using conn \<in> set cs" by (metis nth_mem)
  then show ?thesis by (force simp: held_by_def)
qed

lemma held_twice:
  assumes "at w i (Using c)" and "at w j (Using d)" and "i \<noteq> j" and "pc_conn c = pc_conn d"
  shows "2 \<le> count (held_by (wo_callers w)) (pc_conn c)"
proof -
  let ?cs = "(wo_callers w)[i := Returned]"
  have "held_by ?cs + {#pc_conn c#} = held_by (wo_callers w)"
    using caller_moves(1) [OF assms(1), of Returned] by simp
  moreover have "pc_conn c \<in># held_by ?cs"
    using assms held_member [of j ?cs d] by simp
  ultimately show ?thesis
    by (metis count_add_mset add_mset_add_single count_greater_eq_one_iff Suc_le_mono numeral_2_eq_2 One_nat_def)
qed

definition pool_limits :: "('c, 'ca, 'cert) LDAPClientPool \<Rightarrow> limits" where
  "pool_limits p = \<lparr>li_maxOpen = lp_maxOpen p, li_maxIdle = lp_maxIdle p, li_lifetime = lp_lifetime p\<rparr>"

text \<open>C34. However many callers use a pool at once, and in whatever order their steps fall: there are never more
  connections than the pool may open, no more of them idle than it may keep, a connection has one user, and a
  connection in use is not idle.\<close>

theorem ldap_pool_bounded:
  assumes "NewLDAPClientPool X config = Inr p" and "pool_reachable (pool_limits p) k w"
  shows "int (size (world_conns w)) \<le> wo_open w \<and> wo_open w \<le> lp_maxOpen p \<and> int (length (wo_idle w)) \<le> lp_maxIdle p \<and>
    (\<forall>i j c d. at w i (Using c) \<and> at w j (Using d) \<and> i \<noteq> j \<longrightarrow> pc_conn c \<noteq> pc_conn d) \<and>
    (\<forall>i c. at w i (Using c) \<longrightarrow> pc_conn c \<notin> pc_conn ` set (wo_idle w))"
proof -
  have ok: "pool_ok (pool_limits p) w"
    using new_pool_limits [OF assms(1)] by (intro pool_ok_reachable [OF assms(2)]) (auto simp: pool_limits_def)
  then have one: "count (world_conns w) x \<le> 1" for x by (simp only: pool_ok_def books_ok_def)
  have "pc_conn c \<noteq> pc_conn d" if "at w i (Using c)" "at w j (Using d)" "i \<noteq> j" for i j c d
  proof
    assume "pc_conn c = pc_conn d"
    from held_twice [OF that this] one [of "pc_conn c"] show False by (simp add: world_conns_def)
  qed
  moreover have "pc_conn c \<notin> pc_conn ` set (wo_idle w)" if "at w i (Using c)" for i c
  proof
    assume "pc_conn c \<in> pc_conn ` set (wo_idle w)"
    then have "0 < count (mset (map pc_conn (wo_idle w))) (pc_conn c)" by (simp only: count_mset_0_iff neq0_conv [symmetric]) auto
    moreover have "0 < count (held_by (wo_callers w)) (pc_conn c)" using that held_member [of i "wo_callers w" c] by (simp only: count_greater_zero_iff)
    moreover have "count (mset (map pc_conn (wo_idle w))) (pc_conn c) + count (held_by (wo_callers w)) (pc_conn c) \<le> 1"
      using one [of "pc_conn c"] by (simp only: world_conns_def count_union)
    ultimately show False by linarith
  qed
  ultimately show ?thesis using ok by (auto simp: pool_ok_def books_ok_def pool_limits_def)
qed

text \<open>A pool of one connection that lives ten seconds.\<close>

definition sample_ldap :: LDAPClientConfig where
  "sample_ldap = \<lparr>ld_URLs = [''ldap://a'', ''ldap://b''], ld_Host = '''', ld_Port = 0, ld_BaseDN = '''', ld_UseTLS = False, ld_StartTLS = False,
     ld_ServerName = '''', ld_InsecureSkipVerify = False, ld_RootCAs = [], ld_ClientCert = '''', ld_ClientKey = '''',
     ld_Bind = \<lparr>lb_Method = '''', lb_DN = '''', lb_Password = '''', lb_Username = '''', lb_Realm = '''', lb_SASLMechanism = '''', lb_Properties = []\<rparr>,
     ld_ConnectTimeoutSeconds = 0, ld_OperationTimeoutSeconds = 0,
     ld_Pool = \<lparr>lc_MaxOpen = 1, lc_MaxIdle = 0, lc_MaxLifetimeSeconds = 10\<rparr>\<rparr>"

definition no_tls :: "(unit, unit) tls_lib" where
  "no_tls = \<lparr>tl_read = (\<lambda>f. Inl (ErrText ''no file'')), tl_system = None, tl_empty = (), tl_append = (\<lambda>pem pool. Some ()), tl_keypair = (\<lambda>c k. Inr ())\<rparr>"

definition sample_pool :: "(nat, unit, unit) LDAPClientPool" where
  "sample_pool = \<lparr>lp_config = sample_ldap, lp_urls = [''ldap://a'', ''ldap://b''],
     lp_tlsConfig = \<lparr>tc_ServerName = '''', tc_InsecureSkipVerify = False, tc_RootCAs = None, tc_Certificates = []\<rparr>,
     lp_timeout = 10000000000, lp_lifetime = 10000000000, lp_maxOpen = 1, lp_maxIdle = 1, lp_idle = [], lp_open = 0, lp_nextID = 0\<rparr>"

lemma sample_pool_new: "NewLDAPClientPool no_tls (Some sample_ldap) = Inr sample_pool"
  by (simp add: NewLDAPClientPool_def ldapURLs_def ldapTLSConfig_def root_cas_def client_certs_def seconds_ns_def sample_ldap_def sample_pool_def in_int64_def Let_def)

lemma pool_reachable_move: "pool_step P who w w' \<Longrightarrow> pool_reachable P k w \<Longrightarrow> pool_reachable P k w'"
  by (rule pool_reachable.move)

lemma first_caller_uses:
  assumes "0 < li_maxOpen P"
  shows "pool_reachable P (Suc k) \<lparr>wo_idle = [], wo_open = 1, wo_created = 1, wo_now = t,
    wo_callers = Using \<lparr>pc_conn = 0, pc_createdAt = t\<rparr> # replicate k Returned\<rparr>"
proof -
  let ?w = "\<lambda>c n m. \<lparr>wo_idle = [], wo_open = n, wo_created = m, wo_now = t, wo_callers = c # replicate k Returned\<rparr>"
  have "pool_reachable P (Suc k) (?w Returned 0 0)" using pool_reachable.new [of P "Suc k" t] by (simp add: new_world_def)
  from pool_step.call [of 0 "?w Returned 0 0" P, THEN pool_reachable_move, OF _ this]
  have "pool_reachable P (Suc k) (?w Scanning 0 0)" by (simp add: goto_def)
  from pool_step.scan_empty [of 0 "?w Scanning 0 0" P, THEN pool_reachable_move, OF _ _ this]
  have "pool_reachable P (Suc k) (?w Reserving 0 0)" by (simp add: goto_def)
  from pool_step.reserve [of 0 "?w Reserving 0 0" P, THEN pool_reachable_move, OF _ _ this] assms
  have "pool_reachable P (Suc k) (?w Dialing 1 0)" by (simp add: goto_def)
  from pool_step.dialled [of 0 "?w Dialing 1 0" P, THEN pool_reachable_move, OF _ this]
  show ?thesis by (simp add: goto_def)
qed

text \<open>C35. A waiting caller is not told of a slot that is given back: a pool of one connection gets to a point where
  no connection is open or idle and nobody else is at work, and the waiting caller can only go on by the end of
  its context.\<close>

theorem ldap_waiter_not_woken:
  assumes "li_maxOpen P = 1" and "0 < li_lifetime P"
  shows "\<exists>w. pool_reachable P 2 w \<and> at w 1 Blocked \<and> at w 0 Returned \<and> wo_open w < li_maxOpen P \<and> world_conns w = {#} \<and>
    (\<forall>w'. pool_step P (Some 1) w w' \<longleftrightarrow> w' = goto 1 Returned w)"
proof -
  let ?c = "\<lparr>pc_conn = 0, pc_createdAt = 0\<rparr>"
  let ?w = "\<lambda>a b n t. \<lparr>wo_idle = [], wo_open = n, wo_created = 1, wo_now = t, wo_callers = [a, b]\<rparr>"
  have "pool_reachable P 2 (?w (Using ?c) Returned 1 0)"
    using first_caller_uses [of P 1 0] assms(1) by (simp add: numeral_2_eq_2)
  from pool_step.call [of 1 "?w (Using ?c) Returned 1 0" P, THEN pool_reachable_move, OF _ this]
  have "pool_reachable P 2 (?w (Using ?c) Scanning 1 0)" by (simp add: goto_def)
  from pool_step.scan_empty [of 1 "?w (Using ?c) Scanning 1 0" P, THEN pool_reachable_move, OF _ _ this]
  have "pool_reachable P 2 (?w (Using ?c) Reserving 1 0)" by (simp add: goto_def)
  from pool_step.no_slot [of 1 "?w (Using ?c) Reserving 1 0" P, THEN pool_reachable_move, OF _ _ this] assms(1)
  have "pool_reachable P 2 (?w (Using ?c) Blocked 1 0)" by (simp add: goto_def)
  from pool_step.clock [of "li_lifetime P" P "?w (Using ?c) Blocked 1 0", THEN pool_reachable_move, OF _ this] assms(2)
  have "pool_reachable P 2 (?w (Using ?c) Blocked 1 (li_lifetime P))" by simp
  from pool_step.drop_conn [of 0 "?w (Using ?c) Blocked 1 (li_lifetime P)" ?c P, THEN pool_reachable_move, OF _ _ this] assms(2)
  have "pool_reachable P 2 (?w (Discarding False) Blocked 1 (li_lifetime P))" by (simp add: goto_def conn_expired_def)
  from pool_step.discarded [of 0 "?w (Discarding False) Blocked 1 (li_lifetime P)" False P, THEN pool_reachable_move, OF _ this]
  have r: "pool_reachable P 2 (?w Returned Blocked 0 (li_lifetime P))" by (simp add: goto_def discard_open_def)
  have "pool_step P (Some 1) (?w Returned Blocked 0 (li_lifetime P)) w' \<longleftrightarrow> w' = goto 1 Returned (?w Returned Blocked 0 (li_lifetime P))" for w'
    by (auto simp: pool_step_at)
  with r assms(1) show ?thesis
    by (intro exI [of _ "?w Returned Blocked 0 (li_lifetime P)"]) (simp add: world_conns_def held_by_def)
qed

theorem ldap_waiter_not_woken_witness:
  "\<exists>w. pool_reachable (pool_limits sample_pool) 2 w \<and> at w 1 Blocked \<and> at w 0 Returned \<and> wo_open w < 1 \<and> world_conns w = {#}"
proof -
  have "li_maxOpen (pool_limits sample_pool) = 1" "0 < li_lifetime (pool_limits sample_pool)"
    by (simp_all add: pool_limits_def sample_pool_def)
  from ldap_waiter_not_woken [OF this] this show ?thesis by auto
qed

theorem ldap_pool_bounded_witness:
  "wo_open \<lparr>wo_idle = [], wo_open = 1, wo_created = 1, wo_now = 0, wo_callers = [Using \<lparr>pc_conn = 0, pc_createdAt = 0\<rparr>, Returned]\<rparr> \<le> lp_maxOpen sample_pool \<and>
   pc_conn \<lparr>pc_conn = (0::nat), pc_createdAt = 0\<rparr> \<notin> pc_conn ` set ([] :: nat ldapPooledConn list)"
proof -
  let ?w = "\<lparr>wo_idle = [], wo_open = 1, wo_created = 1, wo_now = 0, wo_callers = [Using \<lparr>pc_conn = 0, pc_createdAt = 0\<rparr>, Returned]\<rparr>"
  have "pool_reachable (pool_limits sample_pool) (Suc 1) ?w"
    using first_caller_uses [of "pool_limits sample_pool" 1 0] by (simp add: pool_limits_def sample_pool_def)
  from ldap_pool_bounded [OF sample_pool_new this] show ?thesis by simp
qed

definition sample_lib :: "nat ldap_lib" where
  "sample_lib = \<lparr>ll_dial = (\<lambda>url. if url = ''ldap://b'' then Inr 7 else Inl (ErrText ''refused'')), ll_startTLS = (\<lambda>c. None),
     ll_bind = (\<lambda>c dn pw. if pw = ''secret'' then None else Some (ErrText ''invalid credentials'')), ll_unauthenticated = (\<lambda>c dn. None),
     ll_external = (\<lambda>c. None), ll_ntlm = (\<lambda>c r u p. None), ll_ntlm_unauthenticated = (\<lambda>c r u. None), ll_digest_md5 = (\<lambda>c h u p. None)\<rparr>"

theorem dial_tries_every_server_witness: "\<exists>p' conn. dial sample_lib None sample_pool = (p', Inr conn)"
  by (rule dial_tries_every_server [of "''ldap://b''"]) (simp_all add: sample_pool_def reachable_server_def sample_lib_def)

end
