(* ===== verification/LdapSteps.thy ===== *)
theory LdapSteps
  imports LdapFacts ContextSteps StepFacts
begin

text \<open>
  The LDAP steps (\<^verbatim>\<open>steps/ldap-*.step.go\<close>) over the interface \<^verbatim>\<open>LDAPRepository\<close>, which the pool of
  \<^verbatim>\<open>steps/ldap.client.go\<close> implements. \<open>'w\<close> is the state of the repository; \<open>None\<close> is an operation that does
  not return. Decoding into a slice, map or struct whose error is ignored keeps what could be decoded, with
  the zero value for the rest.
\<close>

subsection \<open>The interface\<close>

record 'w LDAPRepository =
  rp_Search :: "LDAPSearchRequest option \<Rightarrow> 'w \<Rightarrow> ('w \<times> LDAPEntry list res) option"
  rp_Bind :: "string \<Rightarrow> string \<Rightarrow> 'w \<Rightarrow> ('w \<times> unit res) option"
  rp_Compare :: "string \<Rightarrow> string \<Rightarrow> string \<Rightarrow> 'w \<Rightarrow> ('w \<times> bool res) option"
  rp_Modify :: "LDAPModifyRequest option \<Rightarrow> 'w \<Rightarrow> ('w \<times> unit res) option"
  rp_Add :: "LDAPAddRequest option \<Rightarrow> 'w \<Rightarrow> ('w \<times> unit res) option"
  rp_Delete :: "string \<Rightarrow> 'w \<Rightarrow> ('w \<times> unit res) option"
  rp_ModifyDN :: "LDAPModifyDNRequest option \<Rightarrow> 'w \<Rightarrow> ('w \<times> unit res) option"

definition pool_repository :: "'c ldap_lib \<Rightarrow> 'c ldap_ops \<Rightarrow> go_error option \<Rightarrow> int \<Rightarrow> int \<Rightarrow> ('c, 'ca, 'cert) LDAPClientPool LDAPRepository" where
  "pool_repository L Op ctx t0 t1 = \<lparr>
     rp_Search = pool_Search L Op ctx t0 t1, rp_Bind = pool_Bind L ctx, rp_Compare = pool_Compare L Op ctx t0 t1,
     rp_Modify = pool_Modify L Op ctx t0 t1, rp_Add = pool_Add L Op ctx t0 t1, rp_Delete = pool_Delete L Op ctx t0 t1,
     rp_ModifyDN = pool_ModifyDN L Op ctx t0 t1\<rparr>"

definition LDAPClientCacheKey :: string where "LDAPClientCacheKey = ''ldap_client''"

definition transactionLDAPRepository :: "('v dyn \<Rightarrow> 'w LDAPRepository option) \<Rightarrow> ('v, 'n) Manager option \<Rightarrow> string \<Rightarrow> 'w LDAPRepository res" where
  "transactionLDAPRepository as_repo manager connection =
     (case manager of
        None \<Rightarrow> Inl (ErrText ''LDAP cache manager is not configured'')
      | Some m \<Rightarrow>
          (case GetCacheInstance m LDAPClientCacheKey connection of
             (v, found) \<Rightarrow>
               if \<not> found then Inl (ErrText (''LDAP connection '' @ connection @ '' not found''))
               else (case as_repo v of
                       None \<Rightarrow> Inl (ErrText (''LDAP connection '' @ connection @ '' has invalid type''))
                     | Some r \<Rightarrow> Inr r)))"

subsection \<open>Decoding\<close>

definition lenient_str :: "gval option \<Rightarrow> string" where
  "lenient_str v = (case v of Some (GStr s) \<Rightarrow> s | _ \<Rightarrow> '''')"

definition lenient_strings :: "gval option \<Rightarrow> string list" where
  "lenient_strings v = (case v of Some (GArr vs) \<Rightarrow> map (\<lambda>x. lenient_str (Some x)) vs | _ \<Rightarrow> [])"

definition lenient_multimap :: "gval option \<Rightarrow> multimap" where
  "lenient_multimap v = (case v of Some (GObj m) \<Rightarrow> map (\<lambda>(k, x). (k, lenient_strings (Some x))) m | _ \<Rightarrow> [])"

definition lenient_change :: "gval \<Rightarrow> LDAPModification" where
  "lenient_change v =
     (let m = (case v of GObj m \<Rightarrow> m | _ \<Rightarrow> []) in
      \<lparr>lm_Operation = lenient_str (gm_get m ''operation''), lm_Attribute = lenient_str (gm_get m ''attribute''),
       lm_Values = lenient_strings (gm_get m ''values'')\<rparr>)"

definition lenient_changes :: "gval option \<Rightarrow> LDAPModification list" where
  "lenient_changes v = (case v of Some (GArr vs) \<Rightarrow> map lenient_change vs | _ \<Rightarrow> [])"

definition cfg_struct :: "'t step_env \<Rightarrow> 't \<Rightarrow> string \<Rightarrow> gval option" where
  "cfg_struct S config key = tm_as_struct (sp_tree S) (tm_get (sp_tree S) config key)"

subsection \<open>The steps\<close>

type_synonym ('t, 'w) ldap_step = "'t \<Rightarrow> 'w \<Rightarrow> 't JourneyTransaction \<Rightarrow> ('w \<times> 't JourneyTransaction \<times> string) option"

definition setLDAPOutput :: "'t step_env \<Rightarrow> string \<Rightarrow> gval \<Rightarrow> 't JourneyTransaction \<Rightarrow> 't JourneyTransaction \<times> go_error option" where
  "setLDAPOutput S output v tx =
     (case GetCtxPath (sp_tree S) (sp_crypto S) output (tx_State tx) of
        (st, c, key) \<Rightarrow>
          let tx1 = tx\<lparr>tx_State := st\<rparr>; bad = Some (StepInvalidConfig (tx_CurrentStepID tx) ''invalid LDAP output context path'') in
          (case c of
             None \<Rightarrow> (tx1, bad)
           | Some (k, _) \<Rightarrow> if key = '''' then (tx1, bad) else (ctx_set S k key v tx1, None)))"

definition entry_json :: "LDAPEntry \<Rightarrow> gval" where
  "entry_json e = GObj [(''dn'', GStr (en_DN e)), (''attributes'', values_json (en_Attributes e))]"

definition search_request :: "'t step_env \<Rightarrow> 't \<Rightarrow> LDAPSearchRequest" where
  "search_request S config = \<lparr>
     sr_BaseDN = cfg_str S config ''base_dn'' '''', sr_Scope = cfg_str S config ''scope'' ''sub'',
     sr_DerefAliases = cfg_str S config ''deref_aliases'' ''never'', sr_Filter = cfg_str S config ''filter'' '''',
     sr_Attributes = lenient_strings (cfg_struct S config ''attributes''),
     sr_SizeLimit = get_int_or (sp_tree S) config ''size_limit'' 0, sr_TimeLimitSeconds = get_int_or (sp_tree S) config ''time_limit_seconds'' 0,
     sr_TypesOnly = get_bool_or (sp_tree S) config ''types_only'' False\<rparr>"

definition search_output :: "'t step_env \<Rightarrow> 't \<Rightarrow> LDAPEntry list res \<Rightarrow> 't JourneyTransaction \<Rightarrow> 't JourneyTransaction \<times> string" where
  "search_output S config r tx =
     (case r of
        Inl e \<Rightarrow> (tx, ''error'')
      | Inr entries \<Rightarrow>
          (case setLDAPOutput S (cfg_str S config ''output'' '''')
                 (GObj [(''count'', GInt (int (length entries))), (''entries'', GArr (map entry_json entries))]) tx of
             (tx1, Some e) \<Rightarrow> (tx1, ''error'')
           | (tx1, None) \<Rightarrow> (tx1, if length entries = 0 then ''not_found'' else ''found'')))"

definition LDAPSearch :: "'t step_env \<Rightarrow> ('v dyn \<Rightarrow> 'w LDAPRepository option) \<Rightarrow> ('v, 'n) Manager option \<Rightarrow> ('t, 'w) ldap_step" where
  "LDAPSearch S as_repo manager config w tx =
     (case transactionLDAPRepository as_repo manager (cfg_str S config ''connection'' '''') of
        Inl e \<Rightarrow> Some (w, tx, ''error'')
      | Inr R \<Rightarrow> map_option (\<lambda>(w', r). (w', search_output S config r tx)) (rp_Search R (Some (search_request S config)) w))"

text \<open>\<open>has_code\<close> is \<^verbatim>\<open>ldap.IsErrorWithCode\<close>; the codes are those of RFC 4511.\<close>

definition LDAPBind :: "'t step_env \<Rightarrow> (int \<Rightarrow> go_error \<Rightarrow> bool) \<Rightarrow> ('v dyn \<Rightarrow> 'w LDAPRepository option) \<Rightarrow> ('v, 'n) Manager option \<Rightarrow> ('t, 'w) ldap_step" where
  "LDAPBind S has_code as_repo manager config w tx =
     (case transactionLDAPRepository as_repo manager (cfg_str S config ''connection'' '''') of
        Inl e \<Rightarrow> Some (w, tx, ''error'')
      | Inr R \<Rightarrow>
          map_option (\<lambda>(w', r). (w', tx, case r of Inr _ \<Rightarrow> ''valid'' | Inl e \<Rightarrow> if has_code 49 e then ''invalid'' else ''error''))
            (rp_Bind R (cfg_str S config ''dn'' '''') (cfg_str S config ''password'' '''') w))"

definition LDAPCompare :: "'t step_env \<Rightarrow> ('v dyn \<Rightarrow> 'w LDAPRepository option) \<Rightarrow> ('v, 'n) Manager option \<Rightarrow> ('t, 'w) ldap_step" where
  "LDAPCompare S as_repo manager config w tx =
     (case transactionLDAPRepository as_repo manager (cfg_str S config ''connection'' '''') of
        Inl e \<Rightarrow> Some (w, tx, ''error'')
      | Inr R \<Rightarrow>
          map_option (\<lambda>(w', r). (w', tx, case r of Inl e \<Rightarrow> ''error'' | Inr matched \<Rightarrow> if matched then ''true'' else ''false''))
            (rp_Compare R (cfg_str S config ''dn'' '''') (cfg_str S config ''attribute'' '''') (cfg_str S config ''value'' '''') w))"

definition ldapWriteOutcome :: "(int \<Rightarrow> go_error \<Rightarrow> bool) \<Rightarrow> unit res \<Rightarrow> string" where
  "ldapWriteOutcome has_code r = (case r of Inr _ \<Rightarrow> ''success'' | Inl e \<Rightarrow> if has_code 32 e then ''not_found'' else ''error'')"

definition LDAPModify :: "'t step_env \<Rightarrow> (int \<Rightarrow> go_error \<Rightarrow> bool) \<Rightarrow> ('v dyn \<Rightarrow> 'w LDAPRepository option) \<Rightarrow> ('v, 'n) Manager option \<Rightarrow> ('t, 'w) ldap_step" where
  "LDAPModify S has_code as_repo manager config w tx =
     (case transactionLDAPRepository as_repo manager (cfg_str S config ''connection'' '''') of
        Inl e \<Rightarrow> Some (w, tx, ''error'')
      | Inr R \<Rightarrow>
          map_option (\<lambda>(w', r). (w', tx, ldapWriteOutcome has_code r))
            (rp_Modify R (Some \<lparr>mr_DN = cfg_str S config ''dn'' '''', mr_Changes = lenient_changes (cfg_struct S config ''changes'')\<rparr>) w))"

fun verify_changes :: "string \<Rightarrow> LDAPModification list \<Rightarrow> go_error option" where
  "verify_changes stepName [] = None"
| "verify_changes stepName (c # cs) =
     (if ToLower (lm_Operation c) \<in> set [''add'', ''delete'', ''replace'', ''increment''] then verify_changes stepName cs
      else Some (StepInvalidConfig stepName (''unsupported LDAP modify operation '' @ lm_Operation c)))"

text \<open>\<open>decode\<close> is \<^verbatim>\<open>AsStruct\<close> into the changes; what it refuses is not verified.\<close>

definition LDAPModify_VerifyConfig :: "(gval option \<Rightarrow> LDAPModification list option) \<Rightarrow> 't step_env \<Rightarrow> string \<Rightarrow> 't \<Rightarrow> go_error option" where
  "LDAPModify_VerifyConfig decode S stepName config =
     (case decode (cfg_struct S config ''changes'') of None \<Rightarrow> None | Some changes \<Rightarrow> verify_changes stepName changes)"

definition LDAPAdd :: "'t step_env \<Rightarrow> (int \<Rightarrow> go_error \<Rightarrow> bool) \<Rightarrow> ('v dyn \<Rightarrow> 'w LDAPRepository option) \<Rightarrow> ('v, 'n) Manager option \<Rightarrow> ('t, 'w) ldap_step" where
  "LDAPAdd S has_code as_repo manager config w tx =
     (case transactionLDAPRepository as_repo manager (cfg_str S config ''connection'' '''') of
        Inl e \<Rightarrow> Some (w, tx, ''error'')
      | Inr R \<Rightarrow>
          map_option (\<lambda>(w', r). (w', tx, case r of Inr _ \<Rightarrow> ''success'' | Inl e \<Rightarrow> if has_code 68 e then ''already_exists'' else ''error''))
            (rp_Add R (Some \<lparr>ar_DN = cfg_str S config ''dn'' '''', ar_Attributes = lenient_multimap (cfg_struct S config ''attributes'')\<rparr>) w))"

definition LDAPDelete :: "'t step_env \<Rightarrow> (int \<Rightarrow> go_error \<Rightarrow> bool) \<Rightarrow> ('v dyn \<Rightarrow> 'w LDAPRepository option) \<Rightarrow> ('v, 'n) Manager option \<Rightarrow> ('t, 'w) ldap_step" where
  "LDAPDelete S has_code as_repo manager config w tx =
     (case transactionLDAPRepository as_repo manager (cfg_str S config ''connection'' '''') of
        Inl e \<Rightarrow> Some (w, tx, ''error'')
      | Inr R \<Rightarrow> map_option (\<lambda>(w', r). (w', tx, ldapWriteOutcome has_code r)) (rp_Delete R (cfg_str S config ''dn'' '''') w))"

definition LDAPModifyDN :: "'t step_env \<Rightarrow> (int \<Rightarrow> go_error \<Rightarrow> bool) \<Rightarrow> ('v dyn \<Rightarrow> 'w LDAPRepository option) \<Rightarrow> ('v, 'n) Manager option \<Rightarrow> ('t, 'w) ldap_step" where
  "LDAPModifyDN S has_code as_repo manager config w tx =
     (case transactionLDAPRepository as_repo manager (cfg_str S config ''connection'' '''') of
        Inl e \<Rightarrow> Some (w, tx, ''error'')
      | Inr R \<Rightarrow>
          map_option (\<lambda>(w', r). (w', tx, ldapWriteOutcome has_code r))
            (rp_ModifyDN R (Some \<lparr>dr_DN = cfg_str S config ''dn'' '''', dr_RDN = cfg_str S config ''rdn'' '''',
               dr_DeleteOldRDN = get_bool_or (sp_tree S) config ''delete_old_rdn'' True,
               dr_NewSuperior = cfg_str S config ''new_superior'' ''''\<rparr>) w))"

subsection \<open>Steps over a repository that answers\<close>

lemma bind_outcome: "(case r of Inl e \<Rightarrow> if has_code 49 e then ''invalid'' else ''error'' | Inr (_ :: unit) \<Rightarrow> ''valid'') \<in> {''valid'', ''invalid'', ''error''}"
  by (simp split: sum.split)

lemma compare_outcome: "(case r of Inl e \<Rightarrow> ''error'' | Inr matched \<Rightarrow> if matched then ''true'' else ''false'') \<in> {''true'', ''false'', ''error''}"
  by (simp split: sum.split)

lemma add_outcome: "(case r of Inl e \<Rightarrow> if has_code 68 e then ''already_exists'' else ''error'' | Inr (_ :: unit) \<Rightarrow> ''success'') \<in> {''success'', ''already_exists'', ''error''}"
  by (simp split: sum.split)

lemma write_outcome: "ldapWriteOutcome has_code r \<in> {''success'', ''not_found'', ''error''}"
  by (simp add: ldapWriteOutcome_def split: sum.split)

lemma mapped_answer:
  assumes "\<exists>w' r. op = Some (w', r) \<and> keeps w'" and "\<And>r. f r \<in> A"
  shows "\<exists>w' x. map_option (\<lambda>(w', r). (w', tx, f r)) op = Some (w', tx, x) \<and> keeps w' \<and> x \<in> A"
  using assms by force

lemma mapped_output:
  assumes "\<exists>w' r. op = Some (w', r) \<and> keeps w'" and "\<And>r. snd (g r) \<in> A"
  shows "\<exists>w' tx' x. map_option (\<lambda>(w', r). (w', g r)) op = Some (w', tx', x) \<and> keeps w' \<and> x \<in> A"
proof -
  from assms(1) obtain w' r where o: "op = Some (w', r)" "keeps w'" by blast
  obtain tx' x where "g r = (tx', x)" by fastforce
  with o assms(2) [of r] show ?thesis by simp
qed

text \<open>What the steps rely on of a repository: every operation returns and keeps the repository's invariant.\<close>

locale answering_repository =
  fixes R :: "'w LDAPRepository" and keeps :: "'w \<Rightarrow> bool"
  assumes search: "keeps w \<Longrightarrow> \<exists>w' r. rp_Search R q w = Some (w', r) \<and> keeps w'"
    and bind: "keeps w \<Longrightarrow> \<exists>w' u. rp_Bind R dn password w = Some (w', u) \<and> keeps w'"
    and compare: "keeps w \<Longrightarrow> \<exists>w' b. rp_Compare R dn attribute v w = Some (w', b) \<and> keeps w'"
    and modify: "keeps w \<Longrightarrow> \<exists>w' u. rp_Modify R mq w = Some (w', u) \<and> keeps w'"
    and add_entry: "keeps w \<Longrightarrow> \<exists>w' u. rp_Add R aq w = Some (w', u) \<and> keeps w'"
    and delete: "keeps w \<Longrightarrow> \<exists>w' u. rp_Delete R dn w = Some (w', u) \<and> keeps w'"
    and modify_dn: "keeps w \<Longrightarrow> \<exists>w' u. rp_ModifyDN R nq w = Some (w', u) \<and> keeps w'"
begin

lemma search_answers:
  assumes "transactionLDAPRepository as_repo m (cfg_str S config ''connection'' '''') = Inr R" and "keeps w"
  shows "\<exists>w' tx' r. LDAPSearch S as_repo m config w tx = Some (w', tx', r) \<and> keeps w' \<and> r \<in> {''found'', ''not_found'', ''error''}"
  unfolding LDAPSearch_def assms(1) sum.case
  by (rule mapped_output [OF search [OF assms(2)]]) (auto simp: search_output_def split: sum.splits prod.splits option.splits)

lemma steps_answer:
  assumes "transactionLDAPRepository as_repo m (cfg_str S config ''connection'' '''') = Inr R" and "keeps w"
  shows "\<exists>w' r. LDAPBind S has_code as_repo m config w tx = Some (w', tx, r) \<and> keeps w' \<and> r \<in> {''valid'', ''invalid'', ''error''}"
    and "\<exists>w' r. LDAPCompare S as_repo m config w tx = Some (w', tx, r) \<and> keeps w' \<and> r \<in> {''true'', ''false'', ''error''}"
    and "\<exists>w' r. LDAPModify S has_code as_repo m config w tx = Some (w', tx, r) \<and> keeps w' \<and> r \<in> {''success'', ''not_found'', ''error''}"
    and "\<exists>w' r. LDAPAdd S has_code as_repo m config w tx = Some (w', tx, r) \<and> keeps w' \<and> r \<in> {''success'', ''already_exists'', ''error''}"
    and "\<exists>w' r. LDAPDelete S has_code as_repo m config w tx = Some (w', tx, r) \<and> keeps w' \<and> r \<in> {''success'', ''not_found'', ''error''}"
    and "\<exists>w' r. LDAPModifyDN S has_code as_repo m config w tx = Some (w', tx, r) \<and> keeps w' \<and> r \<in> {''success'', ''not_found'', ''error''}"
  unfolding LDAPBind_def LDAPCompare_def LDAPModify_def LDAPAdd_def LDAPDelete_def LDAPModifyDN_def assms(1) sum.case
  by (rule mapped_answer [OF bind [OF assms(2)] bind_outcome] mapped_answer [OF compare [OF assms(2)] compare_outcome]
        mapped_answer [OF modify [OF assms(2)] write_outcome] mapped_answer [OF add_entry [OF assms(2)] add_outcome]
        mapped_answer [OF delete [OF assms(2)] write_outcome] mapped_answer [OF modify_dn [OF assms(2)] write_outcome])+

end

lemma pool_op_returns:
  assumes "pool_at_rest p"
  shows "\<exists>p' r. pool_Search L Op ctx t0 t1 q p = Some (p', r) \<and> pool_at_rest p'"
    and "\<exists>p' r. pool_Compare L Op ctx t0 t1 dn a v p = Some (p', r) \<and> pool_at_rest p'"
    and "\<exists>p' r. pool_Modify L Op ctx t0 t1 mq p = Some (p', r) \<and> pool_at_rest p'"
    and "\<exists>p' r. pool_Add L Op ctx t0 t1 aq p = Some (p', r) \<and> pool_at_rest p'"
    and "\<exists>p' r. pool_Delete L Op ctx t0 t1 dn p = Some (p', r) \<and> pool_at_rest p'"
    and "\<exists>p' r. pool_ModifyDN L Op ctx t0 t1 nq p = Some (p', r) \<and> pool_at_rest p'"
proof -
  note ops = pool_Search_def pool_Compare_def pool_Modify_def pool_Add_def pool_Delete_def pool_ModifyDN_def
  have refused: "\<exists>p' r. Some (p, Inl e) = Some (p', r) \<and> pool_at_rest p'" for e using assms by simp
  show "\<exists>p' r. pool_Search L Op ctx t0 t1 q p = Some (p', r) \<and> pool_at_rest p'"
    by (cases q) (simp_all only: ops option.case refused with_conn_returns [OF assms])
  show "\<exists>p' r. pool_Compare L Op ctx t0 t1 dn a v p = Some (p', r) \<and> pool_at_rest p'"
    unfolding ops by (rule with_conn_returns [OF assms])
  show "\<exists>p' r. pool_Modify L Op ctx t0 t1 mq p = Some (p', r) \<and> pool_at_rest p'"
    by (cases mq) (simp_all only: ops option.case refused with_conn_returns [OF assms])
  show "\<exists>p' r. pool_Add L Op ctx t0 t1 aq p = Some (p', r) \<and> pool_at_rest p'"
    by (cases aq) (simp_all only: ops option.case refused with_conn_returns [OF assms])
  show "\<exists>p' r. pool_Delete L Op ctx t0 t1 dn p = Some (p', r) \<and> pool_at_rest p'"
    unfolding ops by (rule with_conn_returns [OF assms])
  show "\<exists>p' r. pool_ModifyDN L Op ctx t0 t1 nq p = Some (p', r) \<and> pool_at_rest p'"
    by (cases nq) (simp_all only: ops option.case refused with_conn_returns [OF assms])
qed

interpretation ldap_pool: answering_repository "pool_repository L Op ctx t0 t1" pool_at_rest
  for L :: "'c ldap_lib" and Op and ctx and t0 and t1
  by unfold_locales (simp_all only: pool_repository_def LDAPRepository.select_convs pool_op_returns pool_Bind_returns)

text \<open>C36. Steps one after the other never wait for a connection: on a pool at rest every LDAP step returns with an
  outcome its configuration declares, and leaves the pool at rest.\<close>

theorem ldap_steps_return:
  assumes "transactionLDAPRepository as_repo m (cfg_str S config ''connection'' '''') = Inr (pool_repository L Op ctx t0 t1)"
    and "pool_at_rest p"
  shows "(\<exists>p' tx' r. LDAPSearch S as_repo m config p tx = Some (p', tx', r) \<and> pool_at_rest p' \<and> r \<in> {''found'', ''not_found'', ''error''}) \<and>
    (\<exists>p' r. LDAPBind S has_code as_repo m config p tx = Some (p', tx, r) \<and> pool_at_rest p' \<and> r \<in> {''valid'', ''invalid'', ''error''}) \<and>
    (\<exists>p' r. LDAPCompare S as_repo m config p tx = Some (p', tx, r) \<and> pool_at_rest p' \<and> r \<in> {''true'', ''false'', ''error''}) \<and>
    (\<exists>p' r. LDAPModify S has_code as_repo m config p tx = Some (p', tx, r) \<and> pool_at_rest p' \<and> r \<in> {''success'', ''not_found'', ''error''}) \<and>
    (\<exists>p' r. LDAPAdd S has_code as_repo m config p tx = Some (p', tx, r) \<and> pool_at_rest p' \<and> r \<in> {''success'', ''already_exists'', ''error''}) \<and>
    (\<exists>p' r. LDAPDelete S has_code as_repo m config p tx = Some (p', tx, r) \<and> pool_at_rest p' \<and> r \<in> {''success'', ''not_found'', ''error''}) \<and>
    (\<exists>p' r. LDAPModifyDN S has_code as_repo m config p tx = Some (p', tx, r) \<and> pool_at_rest p' \<and> r \<in> {''success'', ''not_found'', ''error''})"
  by (intro conjI ldap_pool.search_answers [OF assms] ldap_pool.steps_answer [OF assms])

definition ldap_manager :: "(unit, unit) Manager" where
  "ldap_manager = (empty_manager \<lparr>mc_FolderPath = '''', mc_Caches = [], mc_ConfigResolver = None\<rparr>)\<lparr>m_caches := [(LDAPClientCacheKey, [(''main'',
     zero_instance\<lparr>ci_value := DPtr ()\<rparr>)])]\<rparr>"

definition silent_ops :: "nat ldap_ops" where
  "silent_ops = \<lparr>lo_Search = (\<lambda>c b s d n t ty f a. Inr []), lo_Compare = (\<lambda>c dn a v. Inr True), lo_Modify = (\<lambda>c dn cs. Inr ()),
     lo_Add = (\<lambda>c dn a. Inr ()), lo_Del = (\<lambda>c dn. Inr ()), lo_ModifyDN = (\<lambda>c dn r d n. Inr ())\<rparr>"

definition sample_repository :: "unit dyn \<Rightarrow> (nat, unit, unit) LDAPClientPool LDAPRepository option" where
  "sample_repository v = Some (pool_repository sample_lib silent_ops None 0 0)"

definition bind_config :: gval where
  "bind_config = GObj [(''connection'', GStr ''main''), (''dn'', GStr ''cn=alice'')]"

lemma bind_config_simps [simp]:
  "cfg_str flow_env bind_config ''connection'' '''' = ''main''" "cfg_str flow_env bind_config ''dn'' '''' = ''cn=alice''"
  "cfg_str flow_env bind_config ''password'' '''' = ''''"
  by code_simp+

lemma sample_connection: "transactionLDAPRepository sample_repository (Some ldap_manager) (cfg_str flow_env bind_config ''connection'' '''') =
    Inr (pool_repository sample_lib silent_ops None 0 0)"
  by (simp add: transactionLDAPRepository_def ldap_manager_def GetCacheInstance_def sample_repository_def)

theorem ldap_steps_return_witness:
  "\<exists>p' r. LDAPCompare flow_env sample_repository (Some ldap_manager) bind_config sample_pool (flow_tx [] zero_state) = Some (p', flow_tx [] zero_state, r) \<and>
     pool_at_rest p' \<and> r \<in> {''true'', ''false'', ''error''}"
  using ldap_steps_return [OF sample_connection new_pool_at_rest [OF sample_pool_new], THEN conjunct2, THEN conjunct2, THEN conjunct1] .

text \<open>The step that validates credentials accepts an empty password: it asks the server for an unauthenticated
  bind, which servers grant for any name, and follows \<open>valid\<close>.\<close>

theorem ldap_empty_password_valid:
  assumes "transactionLDAPRepository as_repo m (cfg_str S config ''connection'' '''') = Inr (pool_repository L Op ctx t0 t1)"
    and "cfg_str S config ''password'' '''' = ''''"
    and "dial L ctx p = (p', Inr conn)" and "ll_unauthenticated L conn (cfg_str S config ''dn'' '''') = None"
  shows "LDAPBind S has_code as_repo m config p tx = Some (p', tx, ''valid'')"
  using assms by (simp add: LDAPBind_def pool_repository_def pool_Bind_def)

theorem ldap_empty_password_valid_witness:
  "\<exists>p'. LDAPBind flow_env (\<lambda>code e. True) sample_repository (Some ldap_manager) bind_config sample_pool (flow_tx [] zero_state) =
      Some (p', flow_tx [] zero_state, ''valid'') \<and>
    ll_bind sample_lib 7 ''cn=alice'' '''' \<noteq> None"
proof -
  have "dial sample_lib None sample_pool = (sample_pool\<lparr>lp_nextID := 2\<rparr>, Inr 7)" by code_simp
  from ldap_empty_password_valid [OF sample_connection _ this] show ?thesis by (simp add: sample_lib_def)
qed

end
