(* ===== verification/SchemaFacts.thy ===== *)
theory SchemaFacts
  imports RestAdminFacts
begin

text \<open>
  Facts on the developer schemas: the compiled schema of a stored document is that of the document as it is
  stored, after any sequence of operations that were answered without an error, so that validation answers what
  compiling the stored document anew would; and what a save that fails leaves behind.
\<close>

subsection \<open>Compiled schemas\<close>

definition schema_id :: "DeveloperSchema \<Rightarrow> string" where
  "schema_id s = metadataID (sch_Metadata s)"

definition schema_content :: "DeveloperSchema \<Rightarrow> string \<times> DefaultMap" where
  "schema_content s = (sch_Name s, sch_Schema s)"

definition compiled_of :: "'v json_compiler \<Rightarrow> DeveloperSchema \<Rightarrow> 'v option" where
  "compiled_of V s =
     (if TrimSpace (sch_Name s) = '''' \<or> length (sch_Schema s) = 0 then None
      else (case json_copy (GObj (sch_Schema s)) of
              Inl e \<Rightarrow> None
            | Inr raw \<Rightarrow> (case js_compile V (developerSchemaResourceName (Some s)) raw of Inl e \<Rightarrow> None | Inr v \<Rightarrow> Some v)))"

lemma CompileSchema_ok:
  "CompileSchema V (Some s) m = (m', None) \<Longrightarrow> \<exists>v. compiled_of V s = Some v \<and> m' = gm_put (schemaKey (Some s)) v m"
  by (auto simp: CompileSchema_def compiled_of_def split: if_splits sum.splits)

lemma CompileSchema_refused: "CompileSchema V (Some s) m = (m', Some e) \<Longrightarrow> m' = m \<and> compiled_of V s = None"
  by (auto simp: CompileSchema_def compiled_of_def split: if_splits sum.splits)

lemma CompileSchema_snd: "snd (CompileSchema V (Some s) m) = snd (CompileSchema V (Some s) m')"
  by (auto simp: CompileSchema_def split: sum.split)

lemma schemaKey_id: "schema_id s \<noteq> '''' \<Longrightarrow> schemaKey (Some s) = schema_id s"
  by (simp add: schemaKey_def schema_id_def)

lemma schemaKey_slash: "schema_id s = '''' \<Longrightarrow> CHR ''/'' \<in> set (schemaKey (Some s))"
  by (simp add: schemaKey_def schema_id_def)

lemma compiled_same:
  assumes "schema_content s = schema_content s'" and "schema_id s = schema_id s'" and "schema_id s \<noteq> ''''"
  shows "compiled_of V s = compiled_of V s'"
proof -
  have "developerSchemaResourceName (Some s) = developerSchemaResourceName (Some s')"
    using assms schemaKey_id [of s] schemaKey_id [of s'] by (simp add: developerSchemaResourceName_def)
  moreover have "sch_Name s = sch_Name s'" "sch_Schema s = sch_Schema s'" using assms(1) by (simp_all add: schema_content_def)
  ultimately show ?thesis by (simp only: compiled_of_def)
qed

subsection \<open>Runs\<close>

text \<open>What holds of the documents and the compiled schemas: a compiled schema under an identifier belongs to a
  stored document and is what that document compiles to. (Documents without identifier are compiled under a name
  with a slash, which no identifier has.)\<close>

definition compiled_ok :: "'v json_compiler \<Rightarrow> (DeveloperSchema, 'n) doc_store \<Rightarrow> 'n \<times> 'v gomap \<Rightarrow> bool" where
  "compiled_ok V S x \<longleftrightarrow>
     (\<forall>i v. gm_get (snd x) i = Some v \<and> CHR ''/'' \<notin> set i \<longrightarrow> (\<exists>s. ds_load S (fst x) i = Inr (Some s) \<and> compiled_of V s = Some v))"

lemma compiled_okD: "compiled_ok V S (n, m) \<Longrightarrow> gm_get m i = Some v \<Longrightarrow> CHR ''/'' \<notin> set i \<Longrightarrow>
    \<exists>s. ds_load S n i = Inr (Some s) \<and> compiled_of V s = Some v"
  by (simp add: compiled_ok_def)

definition plain_ids :: "(DeveloperSchema, 'n) doc_store \<Rightarrow> bool" where
  "plain_ids S \<longleftrightarrow> (\<forall>n i s. ds_load S n i = Inr (Some s) \<longrightarrow> CHR ''/'' \<notin> set i)"

text \<open>The operations of the storage that are answered without an error, in any order. Validation may fail.\<close>

inductive schema_run :: "'v json_compiler \<Rightarrow> (DeveloperSchema, 'n) doc_store \<Rightarrow> 'n \<times> 'v gomap \<Rightarrow> 'n \<times> 'v gomap \<Rightarrow> bool" for V S x where
  start: "schema_run V S x x"
| saved: "schema_run V S x y \<Longrightarrow> SchemaStorage_Save V S so y = (z, Inr s) \<Longrightarrow> schema_run V S x z"
| deleted: "schema_run V S x y \<Longrightarrow> SchemaStorage_Delete S i y = (z, None) \<Longrightarrow> schema_run V S x z"
| validated: "schema_run V S x y \<Longrightarrow> SchemaStorage_Validate V S i data y = (z, r) \<Longrightarrow> schema_run V S x z"

lemma save_cases:
  assumes "SchemaStorage_Save V S so (n, m) = ((n', m'), Inr s')"
  obtains s v where "compiled_of V s = Some v" and "m' = gm_put (schemaKey (Some s)) v m" and "ds_save S s n = (n', Inr s')"
proof -
  obtain sent where so: "so = Some sent" using assms by (cases so) (auto simp: SchemaStorage_Save_def)
  define s where "s = (if sch_Draft sent = '''' then sent\<lparr>sch_Draft := ''draft-07''\<rparr> else sent)"
  obtain m1 r where c: "CompileSchema V (Some s) m = (m1, r)" by fastforce
  from assms so c have "r = None" "m1 = m'" "ds_save S s n = (n', Inr s')"
    by (auto simp: SchemaStorage_Save_def s_def [symmetric] Let_def split: if_splits option.splits prod.splits)
  with CompileSchema_ok [of V s m m'] c that show thesis by auto
qed

lemma save_compiled_ok:
  assumes S: "doc_store_ok schema_id schema_content S" and P: "plain_ids S" and ok: "compiled_ok V S (n, m)"
    and sv: "SchemaStorage_Save V S so (n, m) = ((n', m'), Inr s')"
  shows "compiled_ok V S (n', m')"
proof -
  obtain s v where c: "compiled_of V s = Some v" and m: "m' = gm_put (schemaKey (Some s)) v m" and d: "ds_save S s n = (n', Inr s')"
    by (rule save_cases [OF sv])
  note law = doc_save_law [OF S d]
  have free: "CHR ''/'' \<notin> set (schema_id s')" using P law(4) by (auto simp: plain_ids_def)
  have "\<exists>t. ds_load S n' i = Inr (Some t) \<and> compiled_of V t = Some w" if g: "gm_get m' i = Some w" and i: "CHR ''/'' \<notin> set i" for i w
  proof (cases "i = schemaKey (Some s)")
    case True
    with i schemaKey_slash have ne: "schema_id s \<noteq> ''''" by auto
    with True law(2) have "i = schema_id s'" "schema_id s' = schema_id s" by (simp_all add: schemaKey_id)
    moreover have "w = v" using g True by (simp add: m)
    moreover have "compiled_of V s' = compiled_of V s" using law(1) ne calculation(2) by (intro compiled_same) auto
    ultimately show ?thesis using law(4) c by simp
  next
    case False
    with g have "gm_get m i = Some w" by (simp add: m)
    then obtain t where t: "ds_load S n i = Inr (Some t)" "compiled_of V t = Some w" using compiled_okD [OF ok] i by blast
    have "i \<noteq> schema_id s'"
    proof
      assume e: "i = schema_id s'"
      show False
      proof (cases "schema_id s = ''''")
        case True
        from law(3) [OF this, of t] t(1) e show False by simp
      next
        case ne: False
        with law(2) e False show False by (simp add: schemaKey_id)
      qed
    qed
    with law(5) t show ?thesis by auto
  qed
  then show ?thesis by (simp add: compiled_ok_def)
qed

lemma delete_compiled_ok:
  assumes S: "doc_store_ok schema_id schema_content S" and ok: "compiled_ok V S (n, m)"
    and d: "SchemaStorage_Delete S i (n, m) = ((n', m'), r)"
  shows "compiled_ok V S (n', m')"
proof -
  obtain r' where del: "ds_delete S i n = (n', r')" and m: "m' = (case ds_load S n i of Inr so \<Rightarrow> DeleteCompiled so m | Inl e \<Rightarrow> m)"
    using d by (auto simp: SchemaStorage_Delete_def Let_def split: prod.splits)
  have "\<exists>t. ds_load S n' k = Inr (Some t) \<and> compiled_of V t = Some w" if g: "gm_get m' k = Some w" and k: "CHR ''/'' \<notin> set k" for k w
  proof -
    from g have "gm_get m k = Some w" by (auto simp: m DeleteCompiled_def split: sum.splits option.splits if_splits)
    then obtain t where t: "ds_load S n k = Inr (Some t)" "compiled_of V t = Some w" using compiled_okD [OF ok] k by blast
    have "k \<noteq> i"
    proof
      assume e: "k = i"
      have id: "schema_id t = i" "Some t \<in> set (ds_list S n)" using doc_loaded [OF S t(1)] e by auto
      then have "schemaKey (Some t) = i" using doc_listed [OF S id(2)] by (simp add: schemaKey_id)
      with t(1) g e show False by (simp add: m DeleteCompiled_def)
    qed
    with doc_delete_law [OF S del] t show ?thesis by auto
  qed
  then show ?thesis by (simp add: compiled_ok_def)
qed

lemma ValidateWith_eq:
  assumes "\<And>v. gm_get m (schemaKey (Some s)) = Some v \<Longrightarrow> compiled_of V s = Some v"
  shows "snd (ValidateWith V (Some s) data m) = snd (ValidateWith V (Some s) data [])"
    and "fst (ValidateWith V (Some s) data m) = m \<or>
      (\<exists>v. compiled_of V s = Some v \<and> fst (ValidateWith V (Some s) data m) = gm_put (schemaKey (Some s)) v m)"
proof -
  obtain m1 r where c: "CompileSchema V (Some s) [] = (m1, r)" by fastforce
  obtain m2 where c2: "CompileSchema V (Some s) m = (m2, r)" using CompileSchema_snd [of V s m "[]"] c by (cases "CompileSchema V (Some s) m") simp
  show "snd (ValidateWith V (Some s) data m) = snd (ValidateWith V (Some s) data [])"
  proof (cases r)
    case None
    with CompileSchema_ok [of V s "[]" m1] CompileSchema_ok [of V s m m2] c c2 assms show ?thesis
      by (auto simp: ValidateWith_def split: option.split)
  next
    case (Some e)
    with CompileSchema_refused [of V s m m2 e] c c2 assms show ?thesis by (auto simp: ValidateWith_def split: option.split)
  qed
  show "fst (ValidateWith V (Some s) data m) = m \<or>
      (\<exists>v. compiled_of V s = Some v \<and> fst (ValidateWith V (Some s) data m) = gm_put (schemaKey (Some s)) v m)"
  proof (cases r)
    case None
    with CompileSchema_ok [of V s m m2] c2 show ?thesis by (auto simp: ValidateWith_def split: option.split)
  next
    case (Some e)
    with CompileSchema_refused [of V s m m2 e] c2 show ?thesis by (auto simp: ValidateWith_def split: option.split)
  qed
qed

lemma validate_compiled_ok:
  assumes S: "doc_store_ok schema_id schema_content S" and P: "plain_ids S" and ok: "compiled_ok V S (n, m)"
    and v: "SchemaStorage_Validate V S i data (n, m) = ((n', m'), r)"
  shows "compiled_ok V S (n', m')"
proof -
  have same: "n' = n" using v by (auto simp: SchemaStorage_Validate_def split: sum.splits prod.splits)
  consider (kept) "m' = m" | (loaded) s where "ds_load S n i = Inr (Some s)" "m' = fst (ValidateWith V (Some s) data m)"
  proof (cases "ds_load S n i")
    case (Inl e)
    with v kept show ?thesis by (simp add: SchemaStorage_Validate_def)
  next
    case (Inr so)
    with v kept loaded show ?thesis by (cases so) (auto simp: SchemaStorage_Validate_def ValidateWith_def [of V None] split: prod.splits)
  qed
  then show ?thesis
  proof cases
    case kept
    with ok same show ?thesis by simp
  next
    case loaded
    have id: "schema_id s = i" "Some s \<in> set (ds_list S n)" using doc_loaded [OF S loaded(1)] by auto
    then have key: "schemaKey (Some s) = i" using doc_listed [OF S id(2)] by (simp add: schemaKey_id)
    have "CHR ''/'' \<notin> set i" using P loaded(1) by (auto simp: plain_ids_def)
    with compiled_okD [OF ok] loaded(1) key have "compiled_of V s = Some w" if "gm_get m (schemaKey (Some s)) = Some w" for w
      using that by fastforce
    from ValidateWith_eq(2) [where data = data and m = m, OF this] loaded key ok same show ?thesis
      by (auto simp: compiled_ok_def split: if_splits)
  qed
qed

lemma run_compiled_ok:
  assumes S: "doc_store_ok schema_id schema_content S" and P: "plain_ids S"
  shows "schema_run V S x y \<Longrightarrow> compiled_ok V S x \<Longrightarrow> compiled_ok V S y"
proof (induction rule: schema_run.induct)
  case (saved y so z s)
  then show ?case using save_compiled_ok [OF S P] by (cases y; cases z) blast
next
  case (deleted y i z)
  then show ?case using delete_compiled_ok [OF S] by (cases y; cases z) blast
next
  case (validated y i data z r)
  then show ?case using validate_compiled_ok [OF S P] by (cases y; cases z) blast
qed simp

subsection \<open>Opening\<close>

lemma compile_all_entries:
  "compile_all V ss m = Inr m' \<Longrightarrow> gm_get m' i = Some v \<Longrightarrow>
     gm_get m i = Some v \<or> (\<exists>s. Some s \<in> set ss \<and> schemaKey (Some s) = i \<and> compiled_of V s = Some v)"
proof (induction V ss m rule: compile_all.induct)
  case (2 V so ss m)
  obtain m1 r where c: "CompileSchema V so m = (m1, r)" by fastforce
  with 2(2) have r: "r = None" and rest: "compile_all V ss m1 = Inr m'" by (auto split: option.splits)
  obtain s where so: "so = Some s" using c r by (cases so) (auto simp: CompileSchema_def)
  obtain w where w: "compiled_of V s = Some w" "m1 = gm_put (schemaKey (Some s)) w m" using CompileSchema_ok c r so by blast
  from 2(1) [OF c [symmetric] r rest 2(3)] w so show ?case by (auto split: if_splits)
qed simp

lemma opened_compiled_ok:
  assumes S: "doc_store_ok schema_id schema_content S" and o: "NewDeveloperSchemaStorage V S folder = Inr (n, m)"
  shows "compiled_ok V S (n, m)"
proof -
  have c: "compile_all V (ds_list S n) [] = Inr m" using o by (auto simp: NewDeveloperSchemaStorage_def bind_res_Inr_iff)
  have "\<exists>s. ds_load S n i = Inr (Some s) \<and> compiled_of V s = Some v" if "gm_get m i = Some v" for i v
  proof -
    from compile_all_entries [OF c that] obtain s where s: "Some s \<in> set (ds_list S n)" "schemaKey (Some s) = i" "compiled_of V s = Some v" by auto
    with doc_listed [OF S s(1)] show ?thesis by (auto simp: schemaKey_id)
  qed
  then show ?thesis by (simp add: compiled_ok_def)
qed

lemma validates_as_stored:
  assumes S: "doc_store_ok schema_id schema_content S" and P: "plain_ids S" and ok: "compiled_ok V S (n, m)" and l: "ds_load S n i = Inr (Some s)"
  shows "snd (SchemaStorage_Validate V S i data (n, m)) = snd (ValidateWith V (Some s) data [])"
proof -
  have id: "schema_id s = i" "Some s \<in> set (ds_list S n)" using doc_loaded [OF S l] by auto
  then have key: "schemaKey (Some s) = i" using doc_listed [OF S id(2)] by (simp add: schemaKey_id)
  have "CHR ''/'' \<notin> set i" using P l by (auto simp: plain_ids_def)
  with compiled_okD [OF ok] l key have "compiled_of V s = Some w" if "gm_get m (schemaKey (Some s)) = Some w" for w
    using that by fastforce
  from ValidateWith_eq(1) [where data = data and m = m, OF this] l show ?thesis
    by (cases "ValidateWith V (Some s) data m") (simp add: SchemaStorage_Validate_def)
qed

text \<open>C37. Validation keeps up with the stored schemas: after opening a storage and any operations that were
  answered without an error, validating against a stored schema answers what compiling the stored document
  anew answers.\<close>

theorem schema_validation_current:
  assumes S: "doc_store_ok schema_id schema_content S" and P: "plain_ids S"
    and "NewDeveloperSchemaStorage V S folder = Inr x" and "schema_run V S x (n, m)" and "ds_load S n i = Inr (Some s)"
  shows "snd (SchemaStorage_Validate V S i data (n, m)) = snd (ValidateWith V (Some s) data [])"
proof -
  have "compiled_ok V S (n, m)"
    using opened_compiled_ok [OF S] run_compiled_ok [OF S P] assms(3,4) by (cases x) blast
  with assms show ?thesis by (intro validates_as_stored)
qed

text \<open>A schema is compiled before it is saved: when the save fails, validation with the identifier already uses
  the schema that was not saved.\<close>

theorem failed_schema_save_applies:
  assumes "schema_id s = i" and "i \<noteq> ''''" and "sch_Draft s \<noteq> ''''" and "compiled_of V s = Some v"
    and "ds_save S s n = (n', Inl e)" and "ds_load S n' i = Inr (Some old)" and "schema_id old = i"
  shows "\<exists>x. SchemaStorage_Save V S (Some s) (n, m) = (x, Inl e) \<and>
    snd (SchemaStorage_Validate V S i data x) = js_validate V v data"
proof -
  have "CompileSchema V (Some s) m = (gm_put i v m, None)"
    using assms(1,2,4) by (auto simp: CompileSchema_def compiled_of_def schemaKey_id split: if_splits sum.splits)
  moreover have "TrimSpace (sch_Name s) \<noteq> ''''" using assms(4) by (auto simp: compiled_of_def)
  ultimately have "SchemaStorage_Save V S (Some s) (n, m) = ((n', gm_put i v m), Inl e)"
    using assms by (simp add: SchemaStorage_Save_def)
  moreover have "schemaKey (Some old) = i" using assms(2,7) schemaKey_id by simp
  ultimately show ?thesis using assms(6) by (simp add: SchemaStorage_Validate_def ValidateWith_def)
qed

subsection \<open>Samples\<close>

text \<open>A storage that takes some identifiers only.\<close>

definition restrict_store :: "(string \<Rightarrow> bool) \<Rightarrow> ('d \<Rightarrow> string) \<Rightarrow> ('d, 'n) doc_store \<Rightarrow> ('d, 'n) doc_store" where
  "restrict_store good id_of S = S\<lparr>
     ds_load := (\<lambda>n i. if good i then ds_load S n i else Inl (ErrText ''not found'')),
     ds_save := (\<lambda>d n. case ds_save S d n of
        (n', Inr d') \<Rightarrow> if good (id_of d') then (n', Inr d') else (n, Inl (ErrText ''invalid identifier'')) | (n', Inl e) \<Rightarrow> (n', Inl e)),
     ds_list := (\<lambda>n. map (\<lambda>d. case d of None \<Rightarrow> None | Some x \<Rightarrow> if good (id_of x) then Some x else None) (ds_list S n))\<rparr>"

lemma restricted_listed: "Some d \<in> set (ds_list (restrict_store good id_of S) n) \<longleftrightarrow> good (id_of d) \<and> Some d \<in> set (ds_list S n)"
  by (force simp: restrict_store_def image_iff split: option.splits if_splits)

lemma restricted_store_ok:
  assumes S: "doc_store_ok id_of key S"
  shows "doc_store_ok id_of key (restrict_store good id_of S)"
proof -
  let ?R = "restrict_store good id_of S"
  have ld: "ds_load ?R n i = (if good i then ds_load S n i else Inl (ErrText ''not found''))" for n i by (simp add: restrict_store_def)
  have save: "saved_ok id_of key ?R d n n' d'" if r: "ds_save ?R d n = (n', Inr d')" for d n n' d'
  proof -
    from r have "ds_save S d n = (n', Inr d')" and g: "good (id_of d')"
      by (auto simp: restrict_store_def split: prod.splits sum.splits if_splits)
    with doc_save_ok [OF S] have "saved_ok id_of key S d n n' d'" by blast
    with g show ?thesis by (simp add: saved_ok_def ld)
  qed
  have del: "ds_load ?R n' k = ds_load ?R n k" if "ds_delete ?R i n = (n', r)" "k \<noteq> i" for i n n' r k
    using that doc_delete_law [OF S, of i n n' r k] by (simp add: restrict_store_def)
  show ?thesis
    unfolding doc_store_ok_def restricted_listed
  proof (intro conjI allI impI; (elim conjE)?)
    fix n d assume "good (id_of d)" "Some d \<in> set (ds_list S n)"
    with doc_listed [OF S] show "id_of d \<noteq> ''''" "ds_load ?R n (id_of d) = Inr (Some d)" by (auto simp: ld)
  next
    fix n i d assume "ds_load ?R n i = Inr (Some d)"
    then have "good i" "ds_load S n i = Inr (Some d)" by (auto simp: ld split: if_splits)
    with doc_loaded [OF S this(2)] show "id_of d = i" "good (id_of d)" "Some d \<in> set (ds_list S n)" by auto
  qed (blast intro: save del)+
qed

definition schema_store :: "(DeveloperSchema, DeveloperSchema gomap) doc_store" where
  "schema_store = restrict_store (\<lambda>i. CHR ''/'' \<notin> set i) schema_id
     (mem_store schema_id (\<lambda>i s. s\<lparr>sch_Metadata := Some \<lparr>md_ID = i, md_Rev = ''1''\<rparr>\<rparr>))"

lemma schema_store_ok: "doc_store_ok schema_id schema_content schema_store" "plain_ids schema_store"
proof -
  show "doc_store_ok schema_id schema_content schema_store"
    unfolding schema_store_def
    by (intro restricted_store_ok mem_store_ok) (simp_all add: schema_id_def metadataID_def schema_content_def)
  show "plain_ids schema_store" by (simp add: plain_ids_def schema_store_def restrict_store_def)
qed

definition sample_schema :: DeveloperSchema where
  "sample_schema = \<lparr>sch_Metadata = Some \<lparr>md_ID = ''s1'', md_Rev = ''1''\<rparr>, sch_Name = ''order'', sch_Description = '''', sch_Realm = ''alpha'',
     sch_Draft = ''draft-07'', sch_Schema = [(''type'', GStr ''string'')]\<rparr>"

text \<open>A compiler whose schemas admit the values of one JSON type.\<close>

definition type_compiler :: "gval json_compiler" where
  "type_compiler = \<lparr>js_compile = (\<lambda>name raw. Inr raw),
     js_validate = (\<lambda>v data. case (v, data) of
        (GObj [(k, GStr t)], GStr s) \<Rightarrow> if t = ''string'' then None else Some (ErrText ''type'') | _ \<Rightarrow> Some (ErrText ''type''))\<rparr>"

definition opened_schemas :: "DeveloperSchema gomap \<times> gval gomap" where
  "opened_schemas = ([(''s1'', sample_schema)], [(''s1'', GObj [(''type'', GStr ''string'')])])"

lemma sample_opened: "NewDeveloperSchemaStorage type_compiler schema_store (Inr [(''s1'', sample_schema)]) = Inr opened_schemas"
  by code_simp

definition changed_schema :: DeveloperSchema where
  "changed_schema = sample_schema\<lparr>sch_Schema := [(''type'', GStr ''null'')]\<rparr>"

lemma sample_changed: "SchemaStorage_Save type_compiler schema_store (Some changed_schema) opened_schemas =
    (([(''s1'', changed_schema)], [(''s1'', GObj [(''type'', GStr ''null'')])]), Inr changed_schema)"
  by code_simp

theorem schema_validation_current_witness:
  "snd (SchemaStorage_Validate type_compiler schema_store ''s1'' (GStr ''x'') ([(''s1'', changed_schema)], [(''s1'', GObj [(''type'', GStr ''null'')])])) =
     snd (ValidateWith type_compiler (Some changed_schema) (GStr ''x'') [])"
proof (rule schema_validation_current [OF schema_store_ok sample_opened])
  show "schema_run type_compiler schema_store opened_schemas ([(''s1'', changed_schema)], [(''s1'', GObj [(''type'', GStr ''null'')])])"
    by (rule schema_run.saved [OF schema_run.start sample_changed])
  show "ds_load schema_store [(''s1'', changed_schema)] ''s1'' = Inr (Some changed_schema)" by code_simp
qed

text \<open>A storage whose disk is full.\<close>

definition full_store :: "(DeveloperSchema, DeveloperSchema gomap) doc_store" where
  "full_store = schema_store\<lparr>ds_save := (\<lambda>s n. (n, Inl (ErrText ''no space left on device'')))\<rparr>"

theorem failed_schema_save_applies_witness:
  "\<exists>x. SchemaStorage_Save type_compiler full_store (Some changed_schema) opened_schemas = (x, Inl (ErrText ''no space left on device'')) \<and>
     snd (SchemaStorage_Validate type_compiler full_store ''s1'' (GStr ''x'') x) = Some (ErrText ''type'')"
proof -
  have a: "schema_id changed_schema = ''s1''" "schema_id sample_schema = ''s1''" "sch_Draft changed_schema \<noteq> ''''"
    "compiled_of type_compiler changed_schema = Some (GObj [(''type'', GStr ''null'')])"
    "ds_load full_store [(''s1'', sample_schema)] ''s1'' = Inr (Some sample_schema)" by code_simp+
  have b: "ds_save full_store changed_schema [(''s1'', sample_schema)] = ([(''s1'', sample_schema)], Inl (ErrText ''no space left on device''))"
    by (simp add: full_store_def)
  have c: "js_validate type_compiler (GObj [(''type'', GStr ''null'')]) (GStr ''x'') = Some (ErrText ''type'')" by (simp add: type_compiler_def)
  have "''s1'' \<noteq> ''''" by simp
  from failed_schema_save_applies [OF a(1) this a(3) a(4) b a(5) a(2), where data = "GStr ''x''"] show ?thesis
    unfolding opened_schemas_def c .
qed

end
