(* ===== verification/SchemaSteps.thy ===== *)
theory SchemaSteps
  imports SchemaFacts ContextSteps StepFacts
begin

text \<open>
  \<^verbatim>\<open>steps/schema-validator.step.go\<close>: the step that validates request or context data against developer
  schemas. The provider of schemas is an interface over a state \<open>'w\<close>; the storage of developer schemas implements
  it. \<open>decode\<close> is the JSON decoder applied to a body, with numbers as 64-bit integers where they are, and as
  doubles otherwise.
\<close>

record 'w schema_provider =
  sp_Validate :: "string \<Rightarrow> gval \<Rightarrow> 'w \<Rightarrow> 'w \<times> go_error option"

definition storage_provider :: "'v json_compiler \<Rightarrow> (DeveloperSchema, 'n) doc_store \<Rightarrow> ('n \<times> 'v gomap) schema_provider" where
  "storage_provider V S = \<lparr>sp_Validate = SchemaStorage_Validate V S\<rparr>"

definition SchemaStorageCacheKey :: string where "SchemaStorageCacheKey = ''schema_storage''"

definition schemaProvider :: "('v dyn \<Rightarrow> 'w schema_provider option) \<Rightarrow> ('v, 'n) Manager option \<Rightarrow> 'w schema_provider res" where
  "schemaProvider as_provider manager =
     (case manager of
        None \<Rightarrow> Inl (ErrText ''schema storage is not configured'')
      | Some m \<Rightarrow>
          (case GetCacheInstance m SchemaStorageCacheKey DefaultInstanceID of
             (v, found) \<Rightarrow>
               if \<not> found then Inl (ErrText ''schema storage is not configured'')
               else (case as_provider v of None \<Rightarrow> Inl (ErrText ''schema storage cache has an invalid type'') | Some p \<Rightarrow> Inr p)))"

record SchemaValidationConfig =
  vc_Source :: string
  vc_SchemaID :: string
  vc_Context :: string
  vc_Path :: string
  vc_OutputContext :: string
  vc_OutputPath :: string

definition dec_validation :: "gval \<Rightarrow> SchemaValidationConfig res" where
  "dec_validation v =
     bind_res (dec_obj (Some v)) (\<lambda>m.
     bind_res (dec_str m ''source'') (\<lambda>source.
     bind_res (dec_str m ''schema_id'') (\<lambda>schemaID.
     bind_res (dec_str m ''context'') (\<lambda>context.
     bind_res (dec_str m ''path'') (\<lambda>path.
     bind_res (dec_str m ''output_context'') (\<lambda>outputContext.
     bind_res (dec_str m ''output_path'') (\<lambda>outputPath.
       Inr \<lparr>vc_Source = source, vc_SchemaID = schemaID, vc_Context = context, vc_Path = path,
            vc_OutputContext = outputContext, vc_OutputPath = outputPath\<rparr>)))))))"

fun dec_validations :: "gval list \<Rightarrow> SchemaValidationConfig list res" where
  "dec_validations [] = Inr []"
| "dec_validations (v # vs) = bind_res (dec_validation v) (\<lambda>c. bind_res (dec_validations vs) (\<lambda>cs. Inr (c # cs)))"

definition config_validations :: "'t step_env \<Rightarrow> 't \<Rightarrow> SchemaValidationConfig list res" where
  "config_validations S config =
     (case tm_as_struct (sp_tree S) (tm_get (sp_tree S) config ''validations'') of
        Some (GArr vs) \<Rightarrow> dec_validations vs
      | Some GNil \<Rightarrow> Inr []
      | _ \<Rightarrow> Inl (ErrText ''validations are required''))"

text \<open>A value as the schema library takes it. A \<^verbatim>\<open>StepVariable\<close> is marshalled; what is not JSON data is refused.\<close>

definition variable_json :: "StepVariable \<Rightarrow> gval" where
  "variable_json v = GObj [(''type'', GStr (sv_Type v)),
     (''placeholders'', GArr (map (\<lambda>p. GObj [(''template'', GStr (Template p)), (''starts_at'', GInt (StartsAt p)), (''ends_at'', GInt (EndsAt p))])
        (sv_Placeholders v)))]"

fun jsonSchemaCompatibleValue :: "gval \<Rightarrow> gval res" and compatible_items :: "gval list \<Rightarrow> gval list res"
  and compatible_entries :: "(string \<times> gval) list \<Rightarrow> (string \<times> gval) list res" where
  "jsonSchemaCompatibleValue (GArr vs) = bind_res (compatible_items vs) (\<lambda>rs. Inr (GArr rs))"
| "jsonSchemaCompatibleValue (GObj m) = bind_res (compatible_entries m) (\<lambda>rs. Inr (GObj rs))"
| "jsonSchemaCompatibleValue (GVar v) = Inr (variable_json v)"
| "jsonSchemaCompatibleValue (GOpaque n) = Inl (ErrText ''json: unsupported value'')"
| "jsonSchemaCompatibleValue v = Inr v"
| "compatible_items [] = Inr []"
| "compatible_items (v # vs) = bind_res (jsonSchemaCompatibleValue v) (\<lambda>r. bind_res (compatible_items vs) (\<lambda>rs. Inr (r # rs)))"
| "compatible_entries [] = Inr []"
| "compatible_entries ((k, v) # m) = bind_res (jsonSchemaCompatibleValue v) (\<lambda>r. bind_res (compatible_entries m) (\<lambda>rs. Inr ((k, r) # rs)))"

fun req_QueryMap :: "request \<Rightarrow> multimap" where
  "req_QueryMap (ReqMemory r) = MR_QueryMap r"
| "req_QueryMap (ReqSnapshot r) = JR_QueryMap r"
| "req_QueryMap (ReqHTTP r) = HA_QueryMap r"

definition parseRequestJSONBody :: "(string \<Rightarrow> gval res) \<Rightarrow> request option \<Rightarrow> request option \<times> gval res" where
  "parseRequestJSONBody decode request =
     (case request of
        None \<Rightarrow> (None, Inl (ErrText ''request is not available''))
      | Some r \<Rightarrow>
          (case req_BodyBytes r of
             (r', Inl e) \<Rightarrow> (Some r', Inl e)
           | (r', Inr body) \<Rightarrow> (Some r', if length body = 0 then Inl (ErrText ''request body is empty'') else decode body)))"

definition validationData :: "'t step_env \<Rightarrow> (string \<Rightarrow> gval res) \<Rightarrow> SchemaValidationConfig \<Rightarrow> 't JourneyTransaction \<Rightarrow> 't JourneyTransaction \<times> gval res" where
  "validationData S decode c tx =
     (if vc_Source c = ''query_params''
      then (tx, case tx_Request tx of None \<Rightarrow> Inl (ErrText ''request is not available'') | Some r \<Rightarrow> Inr (values_json (req_QueryMap r)))
      else if vc_Source c = ''headers''
      then (tx, case tx_Request tx of None \<Rightarrow> Inl (ErrText ''request is not available'') | Some r \<Rightarrow> Inr (values_json (req_HeaderMap r)))
      else if vc_Source c = ''body_json''
      then (case parseRequestJSONBody decode (tx_Request tx) of (r', v) \<Rightarrow> (tx\<lparr>tx_Request := r'\<rparr>, v))
      else if vc_Source c = ''context''
      then (case named_ctx S (vc_Context c) tx of
              (tx1, None) \<Rightarrow> (tx1, Inl (ErrText ''context is not supported''))
            | (tx1, Some k) \<Rightarrow>
                (case ctx_read S k tx1 of
                   (tx2, t) \<Rightarrow>
                     (tx2, if TrimSpace (vc_Path c) = ''''
                           then (case tm_as_map (sp_tree S) t of None \<Rightarrow> Inl (ErrText ''value is not a map'') | Some m \<Rightarrow> Inr (GObj m))
                           else (case tm_as_any (sp_tree S) (tm_get (sp_tree S) t (vc_Path c)) of
                                   None \<Rightarrow> Inl (ErrText ''value is not defined'') | Some v \<Rightarrow> Inr v))))
      else (tx, Inl (ErrText (''unsupported source '' @ vc_Source c))))"

text \<open>A failed validation reads the name of the current step from the journey, a nil dereference where the journey
  has no such step.\<close>

definition refuse_data :: "'t step_env \<Rightarrow> go_error \<Rightarrow> 't JourneyTransaction \<Rightarrow> 't JourneyTransaction \<times> string res" where
  "refuse_data S e tx =
     (case gm_get (jc_Steps (tx_Journey tx)) (tx_CurrentStepID tx) of
        Some (Some st) \<Rightarrow>
          (ctx_set S KClosed ''schema_validation_error'' (GStr (error_text e))
             (EmitEvent (step_event EventFailed ''failed validation'' (Some e) (tx_CurrentStepID tx) (st_Name st)) tx), Inr ''invalid'')
      | _ \<Rightarrow> (tx, Inl (GoPanic ''nil pointer dereference'')))"

definition save_validated :: "'t step_env \<Rightarrow> nat \<Rightarrow> SchemaValidationConfig \<Rightarrow> gval \<Rightarrow> 't JourneyTransaction \<Rightarrow> 't JourneyTransaction \<times> go_error option" where
  "save_validated S index c data tx =
     (if TrimSpace (vc_OutputContext c) \<noteq> '''' \<and> TrimSpace (vc_OutputPath c) \<noteq> ''''
      then (case named_ctx S (vc_OutputContext c) tx of
              (tx1, None) \<Rightarrow> (tx1, Some (ErrText (''validation '' @ nat_str index @ '' output context is unsupported'')))
            | (tx1, Some k) \<Rightarrow> (ctx_set S k (vc_OutputPath c) data tx1, None))
      else (tx, None))"

definition validation_input :: "'t step_env \<Rightarrow> (string \<Rightarrow> gval res) \<Rightarrow> SchemaValidationConfig \<Rightarrow> 't JourneyTransaction \<Rightarrow> 't JourneyTransaction \<times> gval res" where
  "validation_input S decode c tx = (case validationData S decode c tx of (tx1, r) \<Rightarrow> (tx1, bind_res r jsonSchemaCompatibleValue))"

fun run_validations :: "'t step_env \<Rightarrow> (string \<Rightarrow> gval res) \<Rightarrow> 'w schema_provider \<Rightarrow> nat \<Rightarrow> SchemaValidationConfig list \<Rightarrow> 'w \<Rightarrow> 't JourneyTransaction
    \<Rightarrow> 'w \<times> 't JourneyTransaction \<times> string res" where
  "run_validations S decode P index [] w tx =
     (w, ctx_update S KClosed (\<lambda>t. tm_try_delete (sp_tree S) t ''schema_validation_error'') tx, Inr ''valid'')"
| "run_validations S decode P index (c # cs) w tx =
     (case validation_input S decode c tx of
        (tx1, Inl e) \<Rightarrow> (w, tx1, Inl (ErrWrap (''validation '' @ nat_str index @ '' data'') e))
      | (tx1, Inr data) \<Rightarrow>
          (case sp_Validate P (vc_SchemaID c) data w of
             (w1, Some e) \<Rightarrow> (w1, refuse_data S e tx1)
           | (w1, None) \<Rightarrow>
               (case save_validated S index c data tx1 of
                  (tx2, Some e) \<Rightarrow> (w1, tx2, Inl e)
                | (tx2, None) \<Rightarrow> run_validations S decode P (Suc index) cs w1 tx2)))"

definition SchemaValidator :: "'t step_env \<Rightarrow> (string \<Rightarrow> gval res) \<Rightarrow> ('v dyn \<Rightarrow> 'w schema_provider option) \<Rightarrow> ('v, 'n) Manager option \<Rightarrow> 't \<Rightarrow> 'w
    \<Rightarrow> 't JourneyTransaction \<Rightarrow> 'w \<times> 't JourneyTransaction \<times> string res" where
  "SchemaValidator S decode as_provider manager config w tx =
     (case schemaProvider as_provider manager of
        Inl e \<Rightarrow> (w, tx, Inl e)
      | Inr P \<Rightarrow>
          (case config_validations S config of
             Inl e \<Rightarrow> (w, tx, Inl (ErrText ''validations are required''))
           | Inr validations \<Rightarrow>
               if length validations = 0 then (w, tx, Inl (ErrText ''validations are required''))
               else run_validations S decode P 0 validations w tx))"

subsection \<open>Facts\<close>

lemma compatible_values_total:
  "json_ok v \<Longrightarrow> \<exists>r. jsonSchemaCompatibleValue v = Inr r"
  "list_all json_ok vs \<Longrightarrow> \<exists>rs. compatible_items vs = Inr rs \<and> length rs = length vs"
  "list_all (\<lambda>p. json_ok (snd p)) m \<Longrightarrow> \<exists>rs. compatible_entries m = Inr rs \<and> map fst rs = map fst m"
proof (induction v and vs and m rule: jsonSchemaCompatibleValue_compatible_items_compatible_entries.induct)
qed auto

text \<open>What the step promises, without the provider and its state: the rules are applied in order, each to the
  transaction the rules before it left, until one has no data, is refused or cannot save its output.\<close>

fun validated :: "'t step_env \<Rightarrow> (string \<Rightarrow> gval res) \<Rightarrow> (string \<Rightarrow> gval \<Rightarrow> bool) \<Rightarrow> nat \<Rightarrow> SchemaValidationConfig list \<Rightarrow> 't JourneyTransaction
    \<Rightarrow> 't JourneyTransaction option" where
  "validated S decode accepts index [] tx = Some tx"
| "validated S decode accepts index (c # cs) tx =
     (case validation_input S decode c tx of
        (tx1, Inl e) \<Rightarrow> None
      | (tx1, Inr data) \<Rightarrow>
          if \<not> accepts (vc_SchemaID c) data then None
          else (case save_validated S index c data tx1 of
                  (tx2, Some e) \<Rightarrow> None
                | (tx2, None) \<Rightarrow> validated S decode accepts (Suc index) cs tx2))"

definition error_cleared :: "'t step_env \<Rightarrow> 't JourneyTransaction \<Rightarrow> 't JourneyTransaction" where
  "error_cleared S tx = ctx_update S KClosed (\<lambda>t. tm_try_delete (sp_tree S) t ''schema_validation_error'') tx"

lemma refused_not_valid: "refuse_data S e tx \<noteq> (tx', Inr ''valid'')"
  by (auto simp: refuse_data_def split: option.splits)

text \<open>A run of the rules keeps the promise when the provider answers as \<open>accepts\<close> says; \<open>J\<close> is what validation keeps
  of the provider's state.\<close>

lemma run_validations_refines:
  assumes keep: "\<forall>i data w w' r. J w \<longrightarrow> sp_Validate P i data w = (w', r) \<longrightarrow> J w' \<and> (r = None \<longleftrightarrow> accepts i data)"
  shows "J w \<Longrightarrow> (\<exists>w'. run_validations S decode P index cs w tx = (w', tx', Inr ''valid'')) \<longleftrightarrow>
     (\<exists>tx2. validated S decode accepts index cs tx = Some tx2 \<and> tx' = error_cleared S tx2)"
proof (induction cs arbitrary: index w tx)
  case (Cons d cs)
  obtain tx1 r where i: "validation_input S decode d tx = (tx1, r)" by fastforce
  show ?case
  proof (cases r)
    case (Inr data)
    obtain w1 e where v: "sp_Validate P (vc_SchemaID d) data w = (w1, e)" by fastforce
    with keep Cons.prems have J: "J w1" and e: "e = None \<longleftrightarrow> accepts (vc_SchemaID d) data" by blast+
    obtain tx2 e2 where s: "save_validated S index d data tx1 = (tx2, e2)" by fastforce
    show ?thesis using Cons.IH [OF J, of "Suc index" tx2] i Inr v s e refused_not_valid [of S _ tx1 tx']
      by (cases e; cases e2) auto
  qed (simp add: i)
qed (auto simp: error_cleared_def)

lemma storage_validation_keeps:
  assumes "doc_store_ok schema_id schema_content D" and "plain_ids D"
    and "compiled_ok V D x \<and> fst x = n" and "sp_Validate (storage_provider V D) i data x = (x', r)"
  shows "compiled_ok V D x' \<and> fst x' = n"
proof -
  obtain n1 m n' m' where x: "x = (n1, m)" "x' = (n', m')" by (cases x; cases x')
  have v: "SchemaStorage_Validate V D i data (n1, m) = ((n', m'), r)" using assms(4) by (simp add: storage_provider_def x)
  then have "n' = n1" by (auto simp: SchemaStorage_Validate_def split: sum.splits prod.splits)
  with validate_compiled_ok [OF assms(1,2) _ v] assms(3) show ?thesis by (auto simp: x)
qed

definition stored_accepts :: "'v json_compiler \<Rightarrow> (DeveloperSchema, 'n) doc_store \<Rightarrow> 'n \<Rightarrow> string \<Rightarrow> gval \<Rightarrow> bool" where
  "stored_accepts V D n i data =
     (case ds_load D n i of Inr (Some s) \<Rightarrow> snd (ValidateWith V (Some s) data []) = None | _ \<Rightarrow> False)"

lemma storage_validation_answers:
  assumes "doc_store_ok schema_id schema_content D" and "plain_ids D"
    and "compiled_ok V D x \<and> fst x = n" and "sp_Validate (storage_provider V D) i data x = (x', r)"
  shows "r = None \<longleftrightarrow> stored_accepts V D n i data"
proof -
  obtain m where x: "x = (n, m)" using assms(3) by (cases x) simp
  have r: "r = snd (SchemaStorage_Validate V D i data (n, m))" using assms(4) by (simp add: storage_provider_def x)
  show ?thesis
  proof (cases "\<exists>s. ds_load D n i = Inr (Some s)")
    case True
    then obtain s where s: "ds_load D n i = Inr (Some s)" by blast
    have "compiled_ok V D (n, m)" using assms(3) by (simp add: x)
    from validates_as_stored [OF assms(1,2) this s, of data] s show ?thesis by (simp add: r stored_accepts_def)
  next
    case False
    then show ?thesis
      by (auto simp: r stored_accepts_def SchemaStorage_Validate_def ValidateWith_def split: sum.splits option.splits prod.splits)
  qed
qed

text \<open>C38. The step follows \<open>valid\<close> exactly when it should: over a storage whose compiled schemas are current, when
  there are rules and each of them, in order, has data that the schema stored under its identifier accepts, compiled
  anew, and an output that can be saved; the transaction is then the one the rules left, without a validation error.\<close>

theorem schema_validator_exact:
  assumes D: "doc_store_ok schema_id schema_content D" "plain_ids D" and ok: "compiled_ok V D (n, m)"
    and P: "schemaProvider as_provider manager = Inr (storage_provider V D)"
  shows "(\<exists>x'. SchemaValidator S decode as_provider manager config (n, m) tx = (x', tx', Inr ''valid'')) \<longleftrightarrow>
    (\<exists>rules tx2. config_validations S config = Inr rules \<and> rules \<noteq> [] \<and>
       validated S decode (stored_accepts V D n) 0 rules tx = Some tx2 \<and> tx' = error_cleared S tx2)"
proof -
  let ?J = "\<lambda>x. compiled_ok V D x \<and> fst x = n"
  have keep: "\<forall>i data x x' r. ?J x \<longrightarrow> sp_Validate (storage_provider V D) i data x = (x', r) \<longrightarrow>
      ?J x' \<and> (r = None \<longleftrightarrow> stored_accepts V D n i data)"
    using storage_validation_keeps [OF D] storage_validation_answers [OF D] by blast
  show ?thesis
    using run_validations_refines [where J = ?J and S = S and decode = decode and index = 0 and w = "(n, m)" and tx = tx and tx' = tx', OF keep] ok
    by (cases "config_validations S config") (auto simp: SchemaValidator_def P)
qed

text \<open>Where the current step is not one of the journey's own, as in a chain or an asynchronous step, data that a
  schema refuses do not lead to \<open>invalid\<close>: the step dereferences a nil pointer.\<close>

theorem nested_schema_validator_panics:
  assumes P: "schemaProvider as_provider manager = Inr P" and r: "config_validations S config = Inr (c # cs)"
    and i: "validation_input S decode c tx = (tx1, Inr data)" and v: "sp_Validate P (vc_SchemaID c) data w = (w1, Some e)"
    and nested: "gm_get (jc_Steps (tx_Journey tx1)) (tx_CurrentStepID tx1) = None"
  shows "SchemaValidator S decode as_provider manager config w tx = (w1, tx1, Inl (GoPanic ''nil pointer dereference''))"
  using assms by (simp add: SchemaValidator_def refuse_data_def)

subsection \<open>Samples\<close>

definition schema_manager :: "(unit, unit) Manager" where
  "schema_manager = (empty_manager \<lparr>mc_FolderPath = '''', mc_Caches = [], mc_ConfigResolver = None\<rparr>)\<lparr>m_caches := [(SchemaStorageCacheKey,
     [(DefaultInstanceID, zero_instance\<lparr>ci_value := DPtr ()\<rparr>)])]\<rparr>"

definition sample_provider :: "unit dyn \<Rightarrow> (DeveloperSchema gomap \<times> gval gomap) schema_provider option" where
  "sample_provider v = Some (storage_provider type_compiler schema_store)"

lemma sample_schemas: "schemaProvider sample_provider (Some schema_manager) = Inr (storage_provider type_compiler schema_store)"
  by (simp add: schemaProvider_def schema_manager_def GetCacheInstance_def sample_provider_def)

definition validate_config :: gval where
  "validate_config = GObj [(''validations'', GArr [GObj [(''source'', GStr ''context''), (''schema_id'', GStr ''s1''),
     (''context'', GStr ''ctx''), (''path'', GStr ''name'')]])]"

definition no_decoder :: "string \<Rightarrow> gval res" where "no_decoder body = Inl (ErrText ''no body'')"

definition named_tx :: "gval \<Rightarrow> gval JourneyTransaction" where
  "named_tx v = ctx_set flow_env KCtx ''name'' v (flow_tx [] zero_state)"

lemma sample_validated:
  "case SchemaValidator flow_env no_decoder sample_provider (Some schema_manager) validate_config opened_schemas (named_tx (GStr ''x'')) of
     (x', tx', r) \<Rightarrow> r = Inr ''valid''"
  by code_simp

lemma sample_rule: "config_validations flow_env validate_config = Inr [\<lparr>vc_Source = ''context'', vc_SchemaID = ''s1'', vc_Context = ''ctx'',
    vc_Path = ''name'', vc_OutputContext = '''', vc_OutputPath = ''''\<rparr>]"
  by code_simp

theorem schema_validator_exact_witness:
  "\<exists>tx2. validated flow_env no_decoder (stored_accepts type_compiler schema_store [(''s1'', sample_schema)]) 0
      [\<lparr>vc_Source = ''context'', vc_SchemaID = ''s1'', vc_Context = ''ctx'', vc_Path = ''name'', vc_OutputContext = '''', vc_OutputPath = ''''\<rparr>]
      (named_tx (GStr ''x'')) = Some tx2"
proof -
  obtain x' tx' where r: "SchemaValidator flow_env no_decoder sample_provider (Some schema_manager) validate_config opened_schemas (named_tx (GStr ''x'')) =
      (x', tx', Inr ''valid'')" using sample_validated by (auto split: prod.splits)
  have "compiled_ok type_compiler schema_store opened_schemas"
    using opened_compiled_ok [OF schema_store_ok(1)] sample_opened by (metis opened_schemas_def)
  from schema_validator_exact [OF schema_store_ok this [unfolded opened_schemas_def] sample_schemas] r [unfolded opened_schemas_def] show ?thesis
    by (metis sample_rule sum.inject(2))
qed

definition nested_tx :: "gval JourneyTransaction" where
  "nested_tx = (named_tx (GBool True))\<lparr>tx_CurrentStepID := ''j10''\<rparr>"

lemma sample_input: "validation_input flow_env no_decoder \<lparr>vc_Source = ''context'', vc_SchemaID = ''s1'', vc_Context = ''ctx'',
    vc_Path = ''name'', vc_OutputContext = '''', vc_OutputPath = ''''\<rparr> nested_tx = (nested_tx, Inr (GBool True))"
  by code_simp

theorem nested_schema_validator_panics_witness:
  "\<exists>x'. SchemaValidator flow_env no_decoder sample_provider (Some schema_manager) validate_config opened_schemas nested_tx =
     (x', nested_tx, Inl (GoPanic ''nil pointer dereference''))"
proof -
  have "snd (sp_Validate (storage_provider type_compiler schema_store) ''s1'' (GBool True) opened_schemas) = Some (ErrText ''type'')" by code_simp
  then obtain x' where "sp_Validate (storage_provider type_compiler schema_store) ''s1'' (GBool True) opened_schemas = (x', Some (ErrText ''type''))"
    by (metis prod.collapse)
  moreover have "gm_get (jc_Steps (tx_Journey nested_tx)) (tx_CurrentStepID nested_tx) = None" by code_simp
  ultimately show ?thesis
    using nested_schema_validator_panics [OF sample_schemas sample_rule sample_input] by fastforce
qed

end
