(* ===== verification/AsyncSteps.thy ===== *)
theory AsyncSteps
  imports ContextSteps
begin

text \<open>
  Background work: \<^verbatim>\<open>utils/promise.go\<close>, the child transactions of \<^verbatim>\<open>steps/steps-vault.go\<close>, and the
  steps \<^verbatim>\<open>steps/async-exec.step.go\<close>, \<^verbatim>\<open>steps/async-wait.step.go\<close> and \<^verbatim>\<open>steps/wait-until.step.go\<close>.

  Goroutines are modelled by the order of what happens: a list of events says which task finishes next and when the
  context ends. A task is taken to be atomic, with its effect on the shared state when it finishes. The goroutines of the
  code share the contexts of the parent without a lock, so that a task may read what another has not
  written yet and finish after it, or both may race: such runs are outside of the model, and so is what a
  task does after its wait has ended. A panic in a goroutine is not recovered and ends the program,
  which the results show as the error \<open>GoPanic\<close>.
\<close>

section \<open>Promises\<close>

datatype promise_event = Finishes nat | Ends go_error

type_synonym 'a answer = "'a \<times> go_error option"

text \<open>\<open>task i\<close> is the \<open>i\<close>th task on the shared state. The loops of \<^verbatim>\<open>PromiseAll\<close> and \<^verbatim>\<open>PromiseAny\<close> give \<open>None\<close> while they
  wait for an event.\<close>

definition settled :: "'a \<Rightarrow> go_error \<Rightarrow> 'a answer option \<Rightarrow> 'a answer" where
  "settled zero e slot = (case slot of None \<Rightarrow> (zero, Some e) | Some r \<Rightarrow> r)"

fun all_loop :: "(nat \<Rightarrow> 's \<Rightarrow> 's \<times> 'a answer) \<Rightarrow> 'a \<Rightarrow> nat \<Rightarrow> 'a answer option list \<Rightarrow> promise_event list \<Rightarrow> 's
    \<Rightarrow> ('s \<times> 'a answer list res) option" where
  "all_loop task zero 0 slots evs s = Some (s, Inr (map (settled zero ErrJourneyFailure) slots))"
| "all_loop task zero (Suc k) slots [] s = None"
| "all_loop task zero (Suc k) slots (Ends e # evs) s = Some (s, Inr (map (settled zero e) slots))"
| "all_loop task zero (Suc k) slots (Finishes i # evs) s =
     (case task i s of
        (s1, v, Some (GoPanic m)) \<Rightarrow> Some (s1, Inl (GoPanic m))
      | (s1, r) \<Rightarrow> if slots ! i = None then all_loop task zero k (slots[i := Some r]) evs s1 else all_loop task zero (Suc k) slots evs s1)"

definition PromiseAll :: "(nat \<Rightarrow> 's \<Rightarrow> 's \<times> 'a answer) \<Rightarrow> 'a \<Rightarrow> nat \<Rightarrow> promise_event list \<Rightarrow> 's \<Rightarrow> ('s \<times> 'a answer list res) option" where
  "PromiseAll task zero n evs s = all_loop task zero n (replicate n None) evs s"

definition errors_Join :: "go_error list \<Rightarrow> go_error" where
  "errors_Join es = ErrText (Join (map error_text es) [CHR 0x0A])"

fun any_loop :: "(nat \<Rightarrow> 's \<Rightarrow> 's \<times> 'a answer) \<Rightarrow> nat \<Rightarrow> go_error list \<Rightarrow> promise_event list \<Rightarrow> 's \<Rightarrow> ('s \<times> 'a res) option" where
  "any_loop task 0 errs evs s = Some (s, Inl (errors_Join errs))"
| "any_loop task (Suc k) errs [] s = None"
| "any_loop task (Suc k) errs (Ends e # evs) s = Some (s, Inl e)"
| "any_loop task (Suc k) errs (Finishes i # evs) s =
     (case task i s of
        (s1, v, None) \<Rightarrow> Some (s1, Inr v)
      | (s1, v, Some (GoPanic m)) \<Rightarrow> Some (s1, Inl (GoPanic m))
      | (s1, v, Some e) \<Rightarrow> any_loop task k (errs @ [e]) evs s1)"

definition PromiseAny :: "(nat \<Rightarrow> 's \<Rightarrow> 's \<times> 'a answer) \<Rightarrow> nat \<Rightarrow> promise_event list \<Rightarrow> 's \<Rightarrow> ('s \<times> 'a res) option" where
  "PromiseAny task n evs s =
     (if n = 0 then Some (s, Inl (ErrText ''no tasks provided'')) else any_loop task n [] evs s)"

section \<open>Child transactions\<close>

definition configuredStep :: "'t Steps option \<Rightarrow> string \<Rightarrow> 't IStep option" where
  "configuredStep reg stepType = (case reg of None \<Rightarrow> None | Some r \<Rightarrow> GetStep r stepType)"

definition unsafeAsyncStep :: "string \<Rightarrow> bool" where
  "unsafeAsyncStep stepType \<longleftrightarrow> stepType \<in> set [''AsyncExec'', ''AsyncWait'', ''Chain'', ''SubJourney'', ''Success'', ''Failure'', ''SuspendFlow'',
     ''Form'', ''HTTPResponse'', ''HTTPFinishResponse'', ''HTTPProxy'', ''SetCookie'', ''ReadCookie'', ''Choice'', ''Metadata'', ''WaitUntil'',
     ''Retry'', ''Script'']"

text \<open>A clone has a state and a builder of its own; the contexts, the response, the request and the interaction values
  are shared with the original. The contexts of the original come into being when it has none.\<close>

definition cloneTransaction :: "'t step_env \<Rightarrow> 't JourneyTransaction \<Rightarrow> 't JourneyTransaction \<times> 't JourneyTransaction" where
  "cloneTransaction S tx =
     (case ctx_read S KCtx tx of (tx1, c) \<Rightarrow>
      case ctx_read S KEnc tx1 of (tx2, e) \<Rightarrow>
      case ctx_read S KClosed tx2 of (tx3, cl) \<Rightarrow>
      case ctx_read S KTemp tx3 of (tx4, tmp) \<Rightarrow>
        (tx4, tx4\<lparr>tx_clientInputs := [], tx_newClientInputs := [],
                  tx_inputsRef := Detached (cib_ctxManager (tx_builder (sp_tree S) (sp_crypto S) tx4)), tx_Ticks := [],
                  tx_State := SetAllCtx c e cl tmp ((NewJourneyState (sp_tree S))\<lparr>js_Exp := js_Exp (tx_State tx), js_Jti := js_Jti (tx_State tx),
                                js_Realm := js_Realm (tx_State tx)\<rparr>)\<rparr>))"

text \<open>What the original sees of a clone that has run: the objects they share.\<close>

definition shared_back :: "'t JourneyTransaction \<Rightarrow> 't JourneyTransaction \<Rightarrow> 't JourneyTransaction" where
  "shared_back child tx =
     tx\<lparr>tx_Request := tx_Request child, tx_Response := tx_Response child, tx_Values := tx_Values child, tx_events := tx_events child,
        tx_reads := tx_reads child,
        tx_inputsRef := (case tx_inputsRef tx of Detached t \<Rightarrow> tx_inputsRef child | r \<Rightarrow> r),
        tx_State := (tx_State tx)\<lparr>js_ctx := js_ctx (tx_State child), js_encryptedCtx := js_encryptedCtx (tx_State child),
                      js_ClosedCtx := js_ClosedCtx (tx_State child), js_tempCtx := js_tempCtx (tx_State child)\<rparr>\<rparr>"

text \<open>The contexts are replaced by synchronised ones; \<open>sync\<close> is \<^verbatim>\<open>goutils.NewSyncTreeMap\<close> of the map of a tree.\<close>

definition synchronised :: "'t step_env \<Rightarrow> ('t \<Rightarrow> 't) \<Rightarrow> 't JourneyTransaction \<Rightarrow> 't JourneyTransaction" where
  "synchronised S sync tx =
     (case ctx_read S KCtx tx of (tx1, c) \<Rightarrow>
      case ctx_read S KEnc tx1 of (tx2, e) \<Rightarrow>
      case ctx_read S KClosed tx2 of (tx3, cl) \<Rightarrow>
      case ctx_read S KTemp tx3 of (tx4, tmp) \<Rightarrow>
        tx_SetAllCtx (sp_tree S) (sp_crypto S) (sync c) (sync e) (sync cl) (sync tmp) tx4)"

text \<open>A step of a list, run in a clone of \<open>tx\<close>. \<open>tag\<close> is the part of the current step identifier that names the
  container.\<close>

definition run_child :: "'t step_env \<Rightarrow> 't Steps option \<Rightarrow> resolver gomap \<Rightarrow> string \<Rightarrow> Step \<Rightarrow> nat \<Rightarrow> 't JourneyTransaction
    \<Rightarrow> 't JourneyTransaction \<times> string answer" where
  "run_child S reg resolvers tag step index tx =
     (case configuredStep reg (st_StepType step) of
        None \<Rightarrow> (tx, '''', Some (StepNotFound (st_StepType step)))
      | Some current \<Rightarrow>
          (case cloneTransaction S tx of
             (tx1, child) \<Rightarrow>
               (case ExecuteStepConfig (sp_tree S) (sp_crypto S) (sp_text S) resolvers current (st_Config step)
                       (child\<lparr>tx_CurrentStepID := tx_CurrentStepID tx @ tag @ nat_str index\<rparr>) of
                  (child', Inl e) \<Rightarrow> (shared_back child' tx1, '''', Some e)
                | (child', Inr outcome) \<Rightarrow>
                    (shared_back child' tx1,
                     if tx_newClientInputs child' \<noteq> []
                     then ('''', Some (StepInvalidConfig (st_Name step) ''asynchronous steps cannot request client input''))
                     else (outcome, None)))))"

section \<open>AsyncWait\<close>

definition unsafe_step :: "Step list \<Rightarrow> Step option" where
  "unsafe_step steps = find (\<lambda>s. unsafeAsyncStep (st_StepType s)) steps"

definition wait_task :: "'t step_env \<Rightarrow> 't Steps option \<Rightarrow> resolver gomap \<Rightarrow> Step list \<Rightarrow> nat \<Rightarrow> 't JourneyTransaction
    \<Rightarrow> 't JourneyTransaction \<times> string answer" where
  "wait_task S reg resolvers steps i = run_child S reg resolvers ''.wait.'' (steps ! i) i"

definition wait_all :: "string answer list res \<Rightarrow> string res" where
  "wait_all r =
     bind_res r (\<lambda>answers.
       let errs = List.map_filter snd answers in if errs \<noteq> [] then Inl (errors_Join errs) else Inr ''true'')"

definition AsyncWait :: "'t step_env \<Rightarrow> 't Steps option \<Rightarrow> resolver gomap \<Rightarrow> ('t \<Rightarrow> 't) \<Rightarrow> promise_event list \<Rightarrow> 't
    \<Rightarrow> 't JourneyTransaction \<Rightarrow> ('t JourneyTransaction \<times> string res) option" where
  "AsyncWait S reg resolvers sync evs config tx =
     (case chain_config_steps S config of
        Inl _ \<Rightarrow> Some (tx, Inl ErrInvalidStepConfig)
      | Inr steps \<Rightarrow>
          let waitFor = cfg_str S config ''wait_for'' ''ALL'' in
          if waitFor \<noteq> ''ALL'' \<and> waitFor \<noteq> ''ANY''
          then Some (tx, Inl (StepInvalidConfig (tx_CurrentStepID tx) ''wait_for must be ALL or ANY''))
          else (case unsafe_step steps of
                  Some s \<Rightarrow> Some (tx, Inl (StepInvalidConfig (tx_CurrentStepID tx) (''step '' @ st_StepType s @ '' cannot run asynchronously'')))
                | None \<Rightarrow>
                    let tx1 = synchronised S sync tx; task = wait_task S reg resolvers steps in
                    if waitFor = ''ALL''
                    then map_option (\<lambda>(tx', r). (tx', wait_all r)) (PromiseAll task '''' (length steps) evs tx1)
                    else map_option (\<lambda>(tx', r). (tx', bind_res r (\<lambda>_. Inr ''true''))) (PromiseAny task (length steps) evs tx1)))"

section \<open>AsyncExec\<close>

text \<open>The step starts a job and goes on. The job works on a clone of the transaction, which shares the contexts with
  it; \<open>order\<close> is the order in which the steps run, that of the list when they run sequentially. What fails is reported to
  \<^verbatim>\<open>OnAsyncError\<close>; a panic is the last entry.\<close>

record 't async_job =
  aj_steps :: "Step list"
  aj_sequential :: bool
  aj_base :: "'t JourneyTransaction"

definition AsyncExec :: "'t step_env \<Rightarrow> ('t \<Rightarrow> 't) \<Rightarrow> 't \<Rightarrow> 't JourneyTransaction \<Rightarrow> 't JourneyTransaction \<times> ('t async_job \<times> string) res" where
  "AsyncExec S sync config tx =
     (case chain_config_steps S config of
        Inl _ \<Rightarrow> (tx, Inl ErrInvalidStepConfig)
      | Inr steps \<Rightarrow>
          let runMethod = cfg_str S config ''run_method'' ''SEQUENTLY'' in
          if runMethod \<noteq> ''SEQUENTLY'' \<and> runMethod \<noteq> ''CONCURRENT''
          then (tx, Inl (StepInvalidConfig (tx_CurrentStepID tx) ''run_method must be SEQUENTLY or CONCURRENT''))
          else (case unsafe_step steps of
                  Some s \<Rightarrow> (tx, Inl (StepInvalidConfig (tx_CurrentStepID tx) (''step '' @ st_StepType s @ '' cannot run asynchronously'')))
                | None \<Rightarrow>
                    (case cloneTransaction S (synchronised S sync tx) of
                       (tx1, base) \<Rightarrow> (tx1, Inr (\<lparr>aj_steps = steps, aj_sequential = (runMethod = ''SEQUENTLY''), aj_base = base\<rparr>, ''true'')))))"

fun run_job :: "'t step_env \<Rightarrow> 't Steps option \<Rightarrow> resolver gomap \<Rightarrow> Step list \<Rightarrow> nat list \<Rightarrow> 't JourneyTransaction
    \<Rightarrow> 't JourneyTransaction \<times> (Step \<times> go_error) list" where
  "run_job S reg resolvers steps [] base = (base, [])"
| "run_job S reg resolvers steps (i # is) base =
     (case run_child S reg resolvers ''.async.'' (steps ! i) i base of
        (base1, v, Some (GoPanic m)) \<Rightarrow> (base1, [(steps ! i, GoPanic m)])
      | (base1, v, e) \<Rightarrow>
          (case run_job S reg resolvers steps is base1 of
             (base2, reports) \<Rightarrow> (base2, (case e of None \<Rightarrow> reports | Some e \<Rightarrow> (steps ! i, e) # reports))))"

definition job_order :: "'t async_job \<Rightarrow> nat list \<Rightarrow> bool" where
  "job_order j order \<longleftrightarrow> (if aj_sequential j then order = [0..<length (aj_steps j)]
     else length order = length (aj_steps j) \<and> distinct order \<and> list_all (\<lambda>i. i < length (aj_steps j)) order)"

section \<open>WaitUntil\<close>

text \<open>\<open>time.Parse\<close> with the layout RFC 3339, \<open>time.LoadLocation\<close>, \<open>time.ParseInLocation\<close> with the layout of the step, the
  nanoseconds of a time and its text.\<close>

record ('z, 'm) wait_lib =
  wl_rfc3339 :: "string \<Rightarrow> 'm res"
  wl_LoadLocation :: "string \<Rightarrow> 'z res"
  wl_ParseInLocation :: "string \<Rightarrow> 'z \<Rightarrow> 'm res"
  wl_ns :: "'m \<Rightarrow> int"
  wl_Format :: "'m \<Rightarrow> string"

definition parseWaitTimestamp :: "('z, 'm) wait_lib \<Rightarrow> string \<Rightarrow> string \<Rightarrow> 'm res" where
  "parseWaitTimestamp W txt timezone =
     (case wl_rfc3339 W txt of
        Inr parsed \<Rightarrow> Inr parsed
      | Inl _ \<Rightarrow> bind_res (wl_LoadLocation W timezone) (\<lambda>location. wl_ParseInLocation W txt location))"

text \<open>\<open>Time.Sub\<close> saturates; \<open>Duration.Seconds\<close> and the conversion of \<open>math.Ceil\<close> to an integer.\<close>

definition time_Sub :: "int \<Rightarrow> int \<Rightarrow> int" where
  "time_Sub t u = max (- (2 ^ 63)) (min (2 ^ 63 - 1) (t - u))"

definition duration_Seconds :: "int \<Rightarrow> 64 word" where
  "duration_Seconds d = f64_add (f64_of_int (quot d second)) (f64_ratio (d - quot d second * second) 1000000000)"

definition ceil_int :: "64 word \<Rightarrow> int" where
  "ceil_int f = - ((- f64_num f) div 2 ^ 1074)"

definition wait_limit :: "string \<Rightarrow> int option" where
  "wait_limit txt =
     (if txt = '''' then Some 0 else (case ParseInt txt of None \<Rightarrow> None | Some m \<Rightarrow> if m \<le> 0 then None else Some m))"

text \<open>\<open>rand\<close> is the text of the random resume identifier.\<close>

definition WaitUntil :: "'t step_env \<Rightarrow> ('z, 'm) wait_lib \<Rightarrow> int \<Rightarrow> string res \<Rightarrow> 't step" where
  "WaitUntil S W now rand config tx =
     (case parseWaitTimestamp W (cfg_str S config ''timestamp'' '''') (cfg_str S config ''timezone'' ''UTC'') of
        Inl _ \<Rightarrow> (tx, Inr ''invalid'')
      | Inr target \<Rightarrow>
          (case wait_limit (cfg_str S config ''max_wait_seconds'' '''') of
             None \<Rightarrow> (tx, Inr ''invalid'')
           | Some maxWait \<Rightarrow>
               let key = GetSuspendJourneyKey (sp_keys S); remaining = time_Sub (wl_ns W target) now in
               if remaining \<le> 0 then (ctx_delete S KClosed key tx, Inr ''resumed'')
               else if maxWait > 0 \<and> remaining > wrap64 (maxWait * second) then (tx, Inr ''limit_exceeded'')
               else (case rand of
                       Inl e \<Rightarrow> (tx, Inl e)
                     | Inr resumeID \<Rightarrow>
                         let tx1 = ctx_set S KClosed (key @ ''.journey_id'') (GStr (jc_ID (tx_Journey tx))) tx;
                             tx2 = ctx_set S KClosed (key @ ''.step_id'') (GStr (tx_CurrentStepID tx)) tx1;
                             tx3 = ctx_set S KClosed (key @ ''.wait_until'') (GStr (wl_Format W target)) tx2;
                             ttl = wrap64 (ceil_int (duration_Seconds remaining) + ceil_int (duration_Seconds (js_Exp (tx_State tx))));
                             tx4 = ctx_set S KTemp (key @ ''.exp'') (GInt ttl) tx3;
                             tx5 = ctx_set S KTemp (key @ ''.resume_id'') (GStr resumeID) tx4
                         in (with_builder S (AddMessageInput (sp_tree S) (sp_keys S)
                               \<lparr>mg_ID = tx_CurrentStepID tx, mg_StepType = ''WaitUntil'', mg_Type = '''',
                                mg_Value = GObj [(''resume_id'', GStr resumeID), (''wait_until'', GStr (wl_Format W target))]\<rparr>) tx5, Inr ''resumed''))))"

end
