(* ===== verification/AsyncFacts.thy ===== *)
theory AsyncFacts
  imports AsyncSteps FlowFacts
begin

text \<open>
  Facts of background work: what a wait for many tasks gives, for every order in which they finish; what it leaves of the
  waiting transaction; and when a step that waits for a time lets the journey go on.
\<close>

subsection \<open>Tasks in the order in which they finish\<close>

fun in_order :: "(nat \<Rightarrow> 's \<Rightarrow> 's \<times> 'a answer) \<Rightarrow> nat list \<Rightarrow> 's \<Rightarrow> 's \<times> (nat \<times> 'a answer) list" where
  "in_order task [] s = (s, [])"
| "in_order task (i # is) s =
     (case task i s of (s1, r) \<Rightarrow> case in_order task is s1 of (s2, rs) \<Rightarrow> (s2, (i, r) # rs))"

definition panics :: "'a answer \<Rightarrow> bool" where
  "panics r = (case snd r of Some (GoPanic m) \<Rightarrow> True | _ \<Rightarrow> False)"

definition answered :: "(nat \<times> 'a answer) list \<Rightarrow> bool" where
  "answered rs = list_all (\<lambda>(i, r). \<not> panics r) rs"

lemma in_order_keys: "map fst (snd (in_order task is s)) = is"
  by (induction "is" arbitrary: s) (auto split: prod.splits, metis snd_conv)

text \<open>An invariant of the tasks is one of a sequence of them.\<close>

lemma in_order_keeps:
  assumes "\<And>i s. P s \<Longrightarrow> P (fst (task i s))"
  shows "P s \<Longrightarrow> P (fst (in_order task is s))"
  using assms by (induction "is" arbitrary: s) (auto split: prod.splits, metis fst_conv)

lemma all_loop_finishes:
  "distinct is \<Longrightarrow> list_all (\<lambda>i. slots ! i = None) is \<Longrightarrow> length is \<le> k \<Longrightarrow> answered (snd (in_order task is s)) \<Longrightarrow>
   all_loop task zero k slots (map Finishes is @ evs) s =
     all_loop task zero (k - length is) (fold (\<lambda>(i, r) sl. sl[i := Some r]) (snd (in_order task is s)) slots) evs (fst (in_order task is s))"
proof (induction "is" arbitrary: k slots s)
  case (Cons i "is")
  then obtain l where k: "k = Suc l" by (cases k) auto
  obtain s1 v e where t: "task i s = (s1, v, e)" by (cases "task i s") auto
  obtain s2 rs where o: "in_order task is s1 = (s2, rs)" by fastforce
  have np: "\<not> panics (v, e)" and a: "answered (snd (in_order task is s1))" using Cons.prems(4) t o by (auto simp: answered_def)
  have "list_all (\<lambda>j. (slots[i := Some (v, e)]) ! j = None) is"
    using Cons.prems(1,2) by (auto simp: list_all_iff) (metis nth_list_update_neq)
  from Cons.IH [OF _ this _ a, of l] Cons.prems k np show ?case
    by (auto simp: t o panics_def split: option.splits go_error.splits)
qed (cases k; simp)

lemma fold_slots_length [simp]: "length (fold (\<lambda>(i, r) sl. sl[i := Some r]) rs slots) = length slots"
  by (induction rs arbitrary: slots) auto

lemma fold_slots_nth:
  "distinct (map fst rs) \<Longrightarrow> j < length slots \<Longrightarrow>
   fold (\<lambda>(i, r) sl. sl[i := Some r]) rs slots ! j = (case map_of rs j of None \<Rightarrow> slots ! j | Some r \<Rightarrow> Some r)"
proof (induction rs arbitrary: slots)
  case (Cons p rs)
  obtain i r where p: "p = (i, r)" by fastforce
  have "map_of rs i = None" using Cons.prems(1) by (simp add: p map_of_eq_None_iff)
  with Cons p show ?case by (auto simp: nth_list_update split: option.splits)
qed simp

lemma fold_slots_new:
  assumes "distinct (map fst rs)"
  shows "fold (\<lambda>(i, r) sl. sl[i := Some r]) rs (replicate n None) = map (map_of rs) [0..<n]"
  using assms by (intro nth_equalityI) (auto simp: fold_slots_nth split: option.splits)

lemma promise_all_after:
  assumes "distinct is" "list_all (\<lambda>i. i < n) is" "in_order task is s = (s', rs)" "answered rs"
  shows "PromiseAll task zero n (map Finishes is @ evs) s = all_loop task zero (n - length is) (map (map_of rs) [0..<n]) evs s'"
proof -
  have "length is \<le> n" using assms(1,2) card_mono [of "{..<n}" "set is"] by (auto simp: distinct_card list_all_iff)
  moreover have "map fst rs = is" using in_order_keys [of task "is" s] assms(3) by simp
  ultimately show ?thesis
    using assms by (simp add: PromiseAll_def all_loop_finishes list_all_iff fold_slots_new)
qed

lemma promise_all_complete:
  assumes "distinct is" and "list_all (\<lambda>i. i < n) is" and "in_order task is s = (s', rs)" and "answered rs" and "length is = n"
  shows "PromiseAll task zero n (map Finishes is @ evs) s = Some (s', Inr (map (\<lambda>i. the (map_of rs i)) [0..<n]))"
proof -
  have "map fst rs = is" using in_order_keys [of task "is" s] assms(3) by simp
  then have "set is = dom (map_of rs)" by (metis dom_map_of_conv_image_fst set_map)
  moreover have "set is = {..<n}" using assms by (intro card_subset_eq) (auto simp: distinct_card list_all_iff)
  ultimately have "map_of rs i \<noteq> None" if "i < n" for i using that by blast
  then have "settled zero e (map_of rs i) = the (map_of rs i)" if "i < n" for i e
    using that by (metis option.exhaust_sel option.simps(5) settled_def)
  then show ?thesis by (simp add: promise_all_after [OF assms(1-4)] assms(5))
qed

lemma promise_all_waits:
  assumes "distinct is" and "list_all (\<lambda>i. i < n) is" and "in_order task is s = (s', rs)" and "answered rs" and "length is < n"
  shows "PromiseAll task zero n (map Finishes is @ Ends e # evs) s = Some (s', Inr (map (\<lambda>i. settled zero e (map_of rs i)) [0..<n]))"
    and "PromiseAll task zero n (map Finishes is) s = None"
proof -
  obtain k where k: "n - length is = Suc k" using assms(5) by (cases "n - length is") auto
  show "PromiseAll task zero n (map Finishes is @ Ends e # evs) s = Some (s', Inr (map (\<lambda>i. settled zero e (map_of rs i)) [0..<n]))"
    by (simp add: promise_all_after [OF assms(1-4)] k)
  show "PromiseAll task zero n (map Finishes is) s = None"
    using promise_all_after [OF assms(1-4), of zero "[]"] by (simp add: k)
qed

text \<open>A wait for all tasks gives, for every order in which the tasks finish, the answers of the tasks run one after
  the other in that order, each at its own index. It returns when the last of them has finished, or when the
  context ends; then the tasks that have not finished have the error of the context. Before that it waits.\<close>

theorem promise_all_answers:
  assumes "distinct is" and "list_all (\<lambda>i. i < n) is" and "in_order task is s = (s', rs)" and "answered rs"
  shows "(length is = n \<longrightarrow> PromiseAll task zero n (map Finishes is @ evs) s = Some (s', Inr (map (\<lambda>i. the (map_of rs i)) [0..<n]))) \<and>
    (length is < n \<longrightarrow> PromiseAll task zero n (map Finishes is @ Ends e # evs) s =
       Some (s', Inr (map (\<lambda>i. settled zero e (map_of rs i)) [0..<n]))) \<and>
    (length is < n \<longrightarrow> PromiseAll task zero n (map Finishes is) s = None)"
  using promise_all_complete [OF assms] promise_all_waits(1) [OF assms] promise_all_waits(2) [OF assms]
  by simp

text \<open>A wait for any task gives the first success.\<close>

lemma any_loop_finishes:
  "list_all (\<lambda>(i, r). snd r \<noteq> None \<and> \<not> panics r) (snd (in_order task is s)) \<Longrightarrow> length is \<le> k \<Longrightarrow>
   any_loop task k errs (map Finishes is @ evs) s =
     any_loop task (k - length is) (errs @ map (\<lambda>(i, r). the (snd r)) (snd (in_order task is s))) evs (fst (in_order task is s))"
proof (induction "is" arbitrary: k errs s)
  case (Cons i "is")
  then obtain l where k: "k = Suc l" by (cases k) auto
  obtain s1 v e where t: "task i s = (s1, v, e)" by (cases "task i s") auto
  obtain s2 rs where o: "in_order task is s1 = (s2, rs)" by fastforce
  obtain err where e: "e = Some err" and np: "\<not> panics (v, e)" using Cons.prems(1) t o by auto
  have "list_all (\<lambda>(i, r). snd r \<noteq> None \<and> \<not> panics r) (snd (in_order task is s1))" using Cons.prems(1) t o by simp
  from Cons.IH [OF this, of l "errs @ [err]"] Cons.prems(2) k np show ?case
    by (auto simp: t o e panics_def split: go_error.splits)
qed (cases k; simp)

lemma promise_any_first:
  assumes "in_order task is s = (s1, rs)" and "list_all (\<lambda>(i, r). snd r \<noteq> None \<and> \<not> panics r) rs" and "length is < n"
    and "task i s1 = (s', v, None)"
  shows "PromiseAny task n (map Finishes (is @ [i]) @ evs) s = Some (s', Inr v)"
proof -
  obtain k where k: "n - length is = Suc k" using assms(3) by (cases "n - length is") auto
  from any_loop_finishes [of task "is" s n "[]" "Finishes i # evs"] assms k show ?thesis by (simp add: PromiseAny_def)
qed

lemma promise_any_none:
  assumes "in_order task is s = (s', rs)" and "list_all (\<lambda>(i, r). snd r \<noteq> None \<and> \<not> panics r) rs" and "length is = n" and "is \<noteq> []"
  shows "PromiseAny task n (map Finishes is @ evs) s = Some (s', Inl (errors_Join (map (\<lambda>(i, r). the (snd r)) rs)))"
  using any_loop_finishes [of task "is" s n "[]" evs] assms by (auto simp: PromiseAny_def)

subsection \<open>What a child leaves of its parent\<close>

definition own_part :: "'t JourneyTransaction \<Rightarrow> ClientInput option list \<times> ClientInput list \<times> JourneyConfiguration \<times> string \<times> string \<times>
    (string \<times> string) list \<times> int \<times> string \<times> string \<times> gval \<times> bool" where
  "own_part tx = (tx_clientInputs tx, tx_newClientInputs tx, tx_Journey tx, tx_CurrentStepID tx, tx_ChainStepID tx, js_frames (tx_State tx),
     js_Exp (tx_State tx), js_Jti (tx_State tx), js_Realm (tx_State tx), js_result (tx_State tx), js_resultSet (tx_State tx))"

lemma get_kind_own:
  "js_Exp (fst (get_kind T K c js)) = js_Exp js" "js_Jti (fst (get_kind T K c js)) = js_Jti js" "js_Realm (fst (get_kind T K c js)) = js_Realm js"
  "js_result (fst (get_kind T K c js)) = js_result js" "js_resultSet (fst (get_kind T K c js)) = js_resultSet js"
  by (cases c; auto simp: GetCtx_def GetEncryptedCtx_def GetClosedCtx_def GetTempCtx_def Let_def split: option.splits sum.splits)+

lemma read_own [simp]: "own_part (fst (ctx_read S k tx)) = own_part tx"
  by (simp add: own_part_def ctx_read_def split_beta get_kind_own)

lemma clone_own: "own_part (fst (cloneTransaction S tx)) = own_part tx"
  by (simp add: cloneTransaction_def split_beta)

lemma shared_back_own [simp]: "own_part (shared_back child tx) = own_part tx"
  by (simp add: own_part_def shared_back_def js_frames_def trackings_def)

lemma run_child_own: "own_part (fst (run_child S reg resolvers tag step index tx)) = own_part tx"
  using clone_own [of S tx] by (auto simp: run_child_def split: option.split prod.split sum.split)

lemma synchronised_own: "own_part (synchronised S sync tx) = own_part tx"
proof -
  have "own_part (tx_SetAllCtx T K c e cl tmp t) = own_part t" for T K c e cl tmp and t :: "'a JourneyTransaction"
    by (simp add: own_part_def tx_SetAllCtx_def SetAllCtx_def js_frames_def trackings_def)
  then show ?thesis by (simp add: synchronised_def split_beta)
qed

lemma wait_tasks_own: "own_part (fst (in_order (wait_task S reg resolvers steps) is tx)) = own_part tx"
  by (rule in_order_keeps [where P = "\<lambda>t. own_part t = own_part tx"]) (simp_all add: wait_task_def run_child_own)

subsection \<open>AsyncWait\<close>

definition finished_errors :: "nat \<Rightarrow> (nat \<times> string answer) list \<Rightarrow> go_error list" where
  "finished_errors n rs = List.map_filter (\<lambda>i. snd (the (map_of rs i))) [0..<n]"

lemma finished_errors_Nil:
  assumes "map fst rs = is" and "distinct is" and "set is = {..<n}"
  shows "finished_errors n rs = [] \<longleftrightarrow> list_all (\<lambda>(i, r). snd r = None) rs"
proof -
  have "finished_errors n rs = [] \<longleftrightarrow> (\<forall>i < n. snd (the (map_of rs i)) = None)"
    by (auto simp: finished_errors_def List.map_filter_def filter_empty_conv)
  also have "\<dots> \<longleftrightarrow> (\<forall>p \<in> set rs. snd (snd p) = None)"
  proof -
    have "map_of rs i = Some r" if "(i, r) \<in> set rs" for i r using that assms(1,2) by (simp add: map_of_is_SomeI)
    moreover have "i < n" if "(i, r) \<in> set rs" for i r
    proof -
      have "i \<in> set (map fst rs)" using that by force
      then show ?thesis using assms(1,3) by simp
    qed
    moreover have "\<exists>r. (i, r) \<in> set rs" if "i < n" for i
    proof -
      have "i \<in> set (map fst rs)" using that assms(1,3) by simp
      then show ?thesis by force
    qed
    ultimately show ?thesis by (metis option.sel prod.exhaust_sel snd_conv)
  qed
  finally show ?thesis by (auto simp: list_all_iff)
qed


text \<open>The outcome \<open>false\<close> of the step is never followed: every failure comes with an error, which ends the journey.\<close>

lemma async_wait_never_false:
  assumes "AsyncWait S reg resolvers sync evs config tx = Some (tx', Inr outcome)"
  shows "outcome = ''true''"
  using assms by (auto simp: AsyncWait_def wait_all_def Let_def bind_res_Inr_iff split: sum.splits if_splits option.splits)

text \<open>A context that ends before the last step has finished ends the journey with its error.\<close>

lemma async_wait_ends:
  assumes steps: "chain_config_steps S config = Inr steps" and all: "cfg_str S config ''wait_for'' ''ALL'' = ''ALL''"
    and safe: "unsafe_step steps = None" and order: "distinct is" "list_all (\<lambda>i. i < length steps) is" "length is < length steps"
    and run: "in_order (wait_task S reg resolvers steps) is (synchronised S sync tx) = (tx', rs)" and a: "answered rs"
  shows "\<exists>e'. AsyncWait S reg resolvers sync (map Finishes is @ Ends e # evs) config tx = Some (tx', Inl e')"
proof -
  have "\<not> {..<length steps} \<subseteq> set is"
    using order(3) card_length [of "is"] card_mono [of "set is" "{..<length steps}"] by auto
  then obtain i where i: "i < length steps" "i \<notin> set is" by auto
  moreover have "map fst rs = is" using in_order_keys [of "wait_task S reg resolvers steps" "is" "synchronised S sync tx"] run by simp
  ultimately have "map_of rs i = None" by (metis map_of_eq_None_iff set_map)
  then have "settled '''' e (map_of rs i) = ('''', Some e)" by (simp add: settled_def)
  with i(1) have "List.map_filter snd (map (\<lambda>i. settled '''' e (map_of rs i)) [0..<length steps]) \<noteq> []"
    by (force simp: List.map_filter_def filter_empty_conv)
  then show ?thesis
    by (simp add: AsyncWait_def steps all safe Let_def promise_all_waits(1) [OF order(1,2) run a order(3)] wait_all_def)
qed

subsection \<open>AsyncExec\<close>

text \<open>A background job runs its steps as a wait does, and reports those that fail, in the order in which they ran.\<close>

lemma run_job_in_order:
  assumes "answered (snd (in_order (\<lambda>i. run_child S reg resolvers ''.async.'' (steps ! i) i) order base))"
  shows "run_job S reg resolvers steps order base =
    (case in_order (\<lambda>i. run_child S reg resolvers ''.async.'' (steps ! i) i) order base of
       (base', rs) \<Rightarrow> (base', List.map_filter (\<lambda>(i, r). map_option (\<lambda>e. (steps ! i, e)) (snd r)) rs))"
  using assms
proof (induction order arbitrary: base)
  case (Cons i order)
  obtain b1 v e where c: "run_child S reg resolvers ''.async.'' (steps ! i) i base = (b1, v, e)"
    by (cases "run_child S reg resolvers ''.async.'' (steps ! i) i base") auto
  obtain b2 rs where o: "in_order (\<lambda>i. run_child S reg resolvers ''.async.'' (steps ! i) i) order b1 = (b2, rs)" by fastforce
  have "\<not> panics (v, e)" and "answered rs" using Cons.prems c o by (auto simp: answered_def)
  with Cons.IH [of b1] show ?case
    by (auto simp: c o panics_def List.map_filter_simps split: option.splits go_error.splits)
qed (simp add: List.map_filter_simps)

text \<open>The step itself goes on at once, and neither it nor its job changes what belongs to the parent.\<close>

lemma async_exec_isolated:
  assumes "AsyncExec S sync config tx = (tx', Inr (job, outcome))" and "job_order job order"
  shows "outcome = ''true'' \<and> own_part tx' = own_part tx \<and> length order = length (aj_steps job) \<and>
    own_part (fst (in_order (\<lambda>i. run_child S reg resolvers ''.async.'' (aj_steps job ! i) i) order (aj_base job))) = own_part (aj_base job) \<and>
    tx_newClientInputs (aj_base job) = []"
proof -
  obtain base where c: "cloneTransaction S (synchronised S sync tx) = (tx', base)" and j: "aj_base job = base" "outcome = ''true''"
    using assms(1) by (auto simp: AsyncExec_def Let_def split: sum.splits if_splits option.splits prod.splits)
  have "own_part tx' = own_part tx" using clone_own [of S "synchronised S sync tx"] c by (simp add: synchronised_own)
  moreover have "tx_newClientInputs base = []" using c by (auto simp: cloneTransaction_def split: prod.splits)
  moreover have "own_part (fst (in_order (\<lambda>i. run_child S reg resolvers ''.async.'' (aj_steps job ! i) i) order base)) = own_part base"
    by (rule in_order_keeps [where P = "\<lambda>t. own_part t = own_part base"]) (simp_all add: run_child_own)
  moreover have "length order = length (aj_steps job)" using assms(2) by (auto simp: job_order_def split: if_splits)
  ultimately show ?thesis using j by simp
qed

subsection \<open>WaitUntil\<close>

lemma message_added:
  assumes "mg_ID m \<noteq> ''''"
  shows "\<exists>ci. cib_newClientInputs (AddMessageInput T E m b) = cib_newClientInputs b @ [ci]"
  using assms by (auto simp: AddMessageInput_def Add_def Let_def split: sum.split)

lemma message_asked:
  assumes "mg_ID m \<noteq> ''''"
  shows "\<exists>ci. tx_newClientInputs (with_builder S (AddMessageInput T E m) tx) = tx_newClientInputs tx @ [ci]"
  using message_added [OF assms, of T E "tx_builder (sp_tree S) (sp_crypto S) tx"] by (simp add: with_builder_def)

lemma small_limit: "0 \<le> m \<Longrightarrow> m \<le> 9223372036 \<Longrightarrow> wrap64 (m * second) = m * second"
  by (intro wrap64_id) (simp add: in_int64_def second_def)

lemma time_Sub_order: "time_Sub t now \<le> 0 \<longleftrightarrow> t \<le> now" "0 \<le> d \<Longrightarrow> d < 2 ^ 63 - 1 \<Longrightarrow> d < time_Sub t now \<longleftrightarrow> d < t - now"
  by (auto simp: time_Sub_def)

text \<open>C39. The step that waits for a time lets the journey go on from that time and not before. Earlier it refuses a
  wait beyond the configured limit and otherwise pauses the journey with one message that carries the resume
  identifier. (Limits above 9223372036 seconds wrap around.)\<close>

theorem wait_until_exact:
  assumes target: "parseWaitTimestamp W (cfg_str S config ''timestamp'' '''') (cfg_str S config ''timezone'' ''UTC'') = Inr target"
    and limit: "wait_limit (cfg_str S config ''max_wait_seconds'' '''') = Some m" "m \<le> 9223372036"
    and tx: "tx_newClientInputs tx = []" "tx_CurrentStepID tx \<noteq> ''''"
    and run: "WaitUntil S W now (Inr resumeID) config tx = (tx', r)"
  shows "(wl_ns W target \<le> now \<longleftrightarrow> r = Inr ''resumed'' \<and> tx_newClientInputs tx' = []) \<and>
    (now < wl_ns W target \<and> 0 < m \<and> m * second < wl_ns W target - now \<longleftrightarrow> r = Inr ''limit_exceeded'') \<and>
    (now < wl_ns W target \<and> (m = 0 \<or> wl_ns W target - now \<le> m * second) \<longleftrightarrow> r = Inr ''resumed'' \<and> length (tx_newClientInputs tx') = 1)"
proof -
  have m: "0 \<le> m" using limit(1) by (auto simp: wait_limit_def split: if_splits option.splits)
  let ?late = "0 < m \<and> m * second < wl_ns W target - now"
  have late: "m > 0 \<and> time_Sub (wl_ns W target) now > wrap64 (m * second) \<longleftrightarrow> ?late"
    using m limit(2) by (subst small_limit, simp, simp, subst time_Sub_order(2)) (auto simp: second_def)
  consider (go) "wl_ns W target \<le> now" | (late) "now < wl_ns W target" "?late" | (pause) "now < wl_ns W target" "\<not> ?late" by linarith
  then show ?thesis
  proof cases
    case go
    then have "r = Inr ''resumed''" "tx_newClientInputs tx' = []"
      using run tx by (auto simp: WaitUntil_def target limit(1) Let_def time_Sub_order(1) ctx_delete_def ctx_update_def split_beta)
    with go show ?thesis by simp
  next
    case late
    then have "r = Inr ''limit_exceeded''" using run \<open>_ \<longleftrightarrow> ?late\<close> by (auto simp: WaitUntil_def target limit(1) Let_def time_Sub_order(1))
    with late m show ?thesis by auto
  next
    case pause
    then have "\<not> time_Sub (wl_ns W target) now \<le> 0" "\<not> (m > 0 \<and> time_Sub (wl_ns W target) now > wrap64 (m * second))"
      using \<open>_ \<longleftrightarrow> ?late\<close> by (simp_all add: time_Sub_order(1))
    then obtain txs M where r: "r = Inr ''resumed''" and tx': "tx' = with_builder S (AddMessageInput (sp_tree S) (sp_keys S) M) txs"
      and new: "tx_newClientInputs txs = []" and M: "mg_ID M = tx_CurrentStepID tx"
      using run tx(1) by (auto simp: WaitUntil_def target limit(1) Let_def)
    from message_asked [of M S "sp_tree S" "sp_keys S" txs] M tx(2) new have "length (tx_newClientInputs tx') = 1" by (auto simp: tx')
    with r pause m show ?thesis by auto
  qed
qed

subsection \<open>Samples\<close>

definition logged_task :: "nat \<Rightarrow> nat list \<Rightarrow> nat list \<times> nat answer" where
  "logged_task i s = (s @ [i], 10 * i, None)"

theorem promise_all_answers_witness:
  "PromiseAll logged_task 0 2 [Finishes 1, Finishes 0] [] = Some ([1, 0], Inr [(0, None), (10, None)]) \<and>
   PromiseAll logged_task 7 2 [Finishes 1, Ends ErrJourneyFailure] [] = Some ([1], Inr [(7, Some ErrJourneyFailure), (10, None)])"
proof -
  have "in_order logged_task [1, 0] [] = ([1, 0], [(1, 10, None), (0, 0, None)])" by (simp add: logged_task_def)
  from promise_all_answers [where n = 2 and zero = 0 and evs = "[]", OF _ _ this]
  have "PromiseAll logged_task 0 2 [Finishes 1, Finishes 0] [] = Some ([1, 0], Inr [(0, None), (10, None)])"
    by (simp add: answered_def panics_def upt_rec)
  moreover have "in_order logged_task [1] [] = ([1], [(1, 10, None)])" by (simp add: logged_task_def)
  from promise_all_answers [where n = 2 and zero = 7 and e = ErrJourneyFailure and evs = "[]", OF _ _ this]
  have "PromiseAll logged_task 7 2 [Finishes 1, Ends ErrJourneyFailure] [] = Some ([1], Inr [(7, Some ErrJourneyFailure), (10, None)])"
    by (simp add: answered_def panics_def upt_rec settled_def)
  ultimately show ?thesis ..
qed

definition mark_step :: "string \<Rightarrow> gval IStep" where
  "mark_step key = \<lparr>is_type = TStruct [], is_EndJourney = False, is_Completion = None, is_VerifyConfig = (\<lambda>n c. Inr ()),
     is_Execute = (\<lambda>c tx. (ctx_set flow_env KCtx key (GStr (tx_CurrentStepID tx)) tx, Inr ''true''))\<rparr>"

definition mark_registry :: "gval Steps" where
  "mark_registry = \<lparr>rg_steps = [(''A'', mark_step ''a''), (''B'', mark_step ''b'')], rg_schemas = [], rg_valid = (\<lambda>s d. True)\<rparr>"

definition wait_config :: gval where
  "wait_config = GObj [(''steps'', GArr [GObj [(''step_type'', GStr ''A''), (''config'', GObj [])], GObj [(''step_type'', GStr ''B''), (''config'', GObj [])]])]"

definition wait_steps :: "Step list" where
  "wait_steps = [\<lparr>st_Name = '''', st_StepType = ''A'', st_Config = GObj []\<rparr>, \<lparr>st_Name = '''', st_StepType = ''B'', st_Config = GObj []\<rparr>]"

lemma sample_waits:
  "chain_config_steps flow_env wait_config = Inr wait_steps" "cfg_str flow_env wait_config ''wait_for'' ''ALL'' = ''ALL''"
  "unsafe_step wait_steps = None"
  "list_all (\<lambda>(i, r). snd r = None)
     (snd (in_order (wait_task flow_env (Some mark_registry) [] wait_steps) [1, 0] (synchronised flow_env (\<lambda>t. t) (flow_tx [] zero_state))))"
  by code_simp+


definition wall_clock :: "(unit, int) wait_lib" where
  "wall_clock = \<lparr>wl_rfc3339 = (\<lambda>s. Inr (int (length s) * second)), wl_LoadLocation = (\<lambda>z. Inr ()), wl_ParseInLocation = (\<lambda>s z. Inr 0),
     wl_ns = (\<lambda>t. t), wl_Format = (\<lambda>t. ''t'')\<rparr>"

definition until_config :: gval where
  "until_config = GObj [(''timestamp'', GStr ''xxxxx''), (''max_wait_seconds'', GStr ''3'')]"

lemma sample_until:
  "parseWaitTimestamp wall_clock (cfg_str flow_env until_config ''timestamp'' '''') (cfg_str flow_env until_config ''timezone'' ''UTC'') = Inr (5 * second)"
  "wait_limit (cfg_str flow_env until_config ''max_wait_seconds'' '''') = Some 3"
  "tx_newClientInputs (flow_tx [] zero_state :: gval JourneyTransaction) = []" "tx_CurrentStepID (flow_tx [] zero_state :: gval JourneyTransaction) \<noteq> ''''"
  by code_simp+

theorem wait_until_exact_witness:
  "(\<exists>tx'. WaitUntil flow_env wall_clock (6 * second) (Inr ''id'') until_config (flow_tx [] zero_state) = (tx', Inr ''resumed'') \<and> tx_newClientInputs tx' = []) \<and>
   (\<exists>tx'. WaitUntil flow_env wall_clock (3 * second) (Inr ''id'') until_config (flow_tx [] zero_state) = (tx', Inr ''resumed'') \<and>
      length (tx_newClientInputs tx') = 1) \<and>
   snd (WaitUntil flow_env wall_clock second (Inr ''id'') until_config (flow_tx [] zero_state)) = Inr ''limit_exceeded''"
proof -
  note w = wait_until_exact [OF sample_until(1,2) _ sample_until(3,4)]
  have ns: "wl_ns wall_clock t = t" for t by (simp add: wall_clock_def)
  obtain t1 r1 where 1: "WaitUntil flow_env wall_clock (6 * second) (Inr ''id'') until_config (flow_tx [] zero_state) = (t1, r1)" by fastforce
  obtain t2 r2 where 2: "WaitUntil flow_env wall_clock (3 * second) (Inr ''id'') until_config (flow_tx [] zero_state) = (t2, r2)" by fastforce
  obtain t3 r3 where 3: "WaitUntil flow_env wall_clock second (Inr ''id'') until_config (flow_tx [] zero_state) = (t3, r3)" by fastforce
  from w [OF _ 1] w [OF _ 2] w [OF _ 3] 1 2 3 show ?thesis by (simp add: ns second_def)
qed


end
