(* ===== verification/HttpRequestStep.thy ===== *)
theory HttpRequestStep
  imports ContextSteps
begin

text \<open>
  The step of \<^verbatim>\<open>steps/http-request.step.go\<close>. A client answers a request and may change the world outside; it is a
  parameter, as is the cast of a cached instance to a client.
\<close>

definition content_type_of :: "string \<Rightarrow> string" where
  "content_type_of contentType =
     (let t = ToUpper contentType in
      if t = ''JSON'' then ''application/json''
      else if t = ''TEXT'' then ''text/plain; charset=utf-8''
      else if t = ''URLENCODED'' then ''application/x-www-form-urlencoded''
      else if t = ''XML'' then ''application/xml''
      else if t = ''FORMDATA'' then ''multipart/form-data''
      else if t = ''OCTETSTREAM'' then ''application/octet-stream''
      else if t = ''HTML'' then ''text/html; charset=utf-8''
      else if t = ''CSV'' then ''text/csv; charset=utf-8''
      else ''application/octet-stream'')"

text \<open>Writing to the nil map panics.\<close>

definition setContentType :: "string \<Rightarrow> string gomap option \<Rightarrow> string gomap option res" where
  "setContentType contentType headers =
     (case headers of
        None \<Rightarrow> Inl (GoPanic ''assignment to entry in nil map'')
      | Some hs \<Rightarrow> Inr (Some (gm_put ''Content-Type'' (content_type_of contentType) hs)))"

text \<open>A reply with the duration of its request.\<close>

type_synonym 'w http_sender = "string \<Rightarrow> string \<Rightarrow> string gomap option \<Rightarrow> string \<Rightarrow> 'w \<Rightarrow> 'w \<times> (http_reply \<times> int) res"

definition request_client :: "('v dyn \<Rightarrow> 'w http_sender option) \<Rightarrow> 'w http_sender option \<Rightarrow> ('v, 'n) Manager option \<Rightarrow> string \<Rightarrow> 'w http_sender option" where
  "request_client as_client Client manager instanceID =
     (case manager of
        None \<Rightarrow> Client
      | Some m \<Rightarrow>
          (case GetCacheInstance m HTTPClientCacheKey instanceID of
             (v, ok) \<Rightarrow> if ok then (case as_client v of Some client \<Rightarrow> Some client | None \<Rightarrow> Client) else Client))"

text \<open>The headers of the configuration: nil for a JSON null, empty when they cannot be decoded.\<close>

definition request_headers :: "gval option \<Rightarrow> string gomap option" where
  "request_headers v = (case v of Some GNil \<Rightarrow> None | _ \<Rightarrow> Some (dec_string_map v))"

definition reply_headers :: "multimap \<Rightarrow> DefaultMap" where
  "reply_headers hs = fold (\<lambda>(k, vs). gm_put (ToLower k) (GArr (map GStr vs))) hs []"

definition reply_map :: "'t step_env \<Rightarrow> bool \<Rightarrow> http_reply \<times> int \<Rightarrow> DefaultMap" where
  "reply_map S parse reply =
     (case reply of
        (r, duration) \<Rightarrow>
          [(''status'', GInt (ry_Status r)), (''headers'', GObj (reply_headers (ry_Headers r))), (''duration'', GInt duration),
           (if parse then (''jsonBody'', or_default (tc_parse_json (sp_text S) (ry_Body r)) GNil) else (''rawBody'', GStr (ry_Body r)))])"

definition send_request :: "'t step_env \<Rightarrow> 'w http_sender \<Rightarrow> 't \<Rightarrow> 'w \<Rightarrow> 't JourneyTransaction \<Rightarrow> 'w \<times> 't JourneyTransaction \<times> string res" where
  "send_request S client config w tx =
     (let T = sp_tree S; body = cfg_str S config ''body'' '''';
          headers0 = request_headers (tm_as_struct T (tm_get T config ''headers''))
      in case (if body \<noteq> '''' then setContentType (cfg_str S config ''content_type'' ''JSON'') headers0 else Inr headers0) of
           Inl e \<Rightarrow> (w, tx, Inl e)
         | Inr headers \<Rightarrow>
             (case client (cfg_str S config ''method'' ''GET'') (cfg_str S config ''uri'' '''') headers body w of
                (w1, Inl e) \<Rightarrow> (w1, tx, Inl e)
              | (w1, Inr reply) \<Rightarrow>
                  (case GetCtxPath T (sp_crypto S) (cfg_str S config ''response_output'' ''httpResponse'') (tx_State tx) of
                     (st, c, key) \<Rightarrow>
                       let tx1 = tx\<lparr>tx_State := st\<rparr>;
                           bad = (w1, tx1, Inl (StepInvalidConfig (tx_CurrentStepID tx) ''invalid response_output context path'')) in
                       (case c of
                          None \<Rightarrow> bad
                        | Some (k, _) \<Rightarrow>
                            if key = '''' then bad
                            else (w1, ctx_set S k key (GObj (reply_map S (get_bool_or T config ''parse_json'' False) reply)) tx1, Inr ''true'')))))"

definition chain_key :: "'t JourneyTransaction \<Rightarrow> string" where
  "chain_key tx = tx_ChainStepID tx @ ''.'' @ tx_CurrentStepID tx"

definition HttpRequest :: "'t step_env \<Rightarrow> ('v dyn \<Rightarrow> 'w http_sender option) \<Rightarrow> 'w http_sender option \<Rightarrow> ('v, 'n) Manager option \<Rightarrow> 't \<Rightarrow> 'w
    \<Rightarrow> 't JourneyTransaction \<Rightarrow> 'w \<times> 't JourneyTransaction \<times> string res" where
  "HttpRequest S as_client Client manager config w tx =
     (case request_client as_client Client manager (cfg_str S config ''http_instance'' DefaultInstanceID) of
        None \<Rightarrow> (w, tx, Inl (ErrText ''HTTP client is not configured''))
      | Some client \<Rightarrow>
          (case ctx_read S KClosed tx of
             (tx1, closed) \<Rightarrow>
               if tx_ChainStepID tx \<noteq> '''' \<and> \<not> get_bool_or (sp_tree S) config ''re_execute_on_chain_step'' False
               then (if get_bool_or (sp_tree S) closed (chain_key tx) False then (w, tx1, Inr ''true'')
                     else send_request S client config w (ctx_set S KClosed (chain_key tx) (GBool True) tx1))
               else send_request S client config w tx1))"

end
