(* ===== verification/HttpRequestFacts.thy ===== *)
theory HttpRequestFacts
  imports HttpRequestStep OidcFacts
begin

text \<open>
  A request inside a chain is sent once: when the chain is executed again, after it has asked the client for inputs, the
  step finds its mark and sends nothing.
\<close>

definition marked :: "'t treemap \<Rightarrow> 't \<Rightarrow> string \<Rightarrow> bool" where
  "marked T t p \<longleftrightarrow> tm_as_bool T (tm_get T t p) = Some True"

lemma marked_flag: "marked T t p \<Longrightarrow> get_bool_or T t p d"
  by (simp add: marked_def get_bool_or_def or_default_def)

text \<open>The tree keeps a flag at a dotted path.\<close>

locale flag_tree = path_tree T for T :: "'t treemap" +
  assumes set_flag: "p \<noteq> '''' \<Longrightarrow> tm_as_bool T (tm_get T (tm_set T t p (GBool b)) p) = Some b"
begin

lemma marked_set: "p \<noteq> '''' \<Longrightarrow> marked T (tm_set T t p (GBool True)) p"
  by (simp add: marked_def set_flag)

lemma marked_apart: "marked T t p \<Longrightarrow> p \<noteq> '''' \<Longrightarrow> q \<noteq> '''' \<Longrightarrow> apart q p \<Longrightarrow> marked T (tm_set T t q v) p"
  by (simp add: marked_def set_apart)

end

interpretation ref_flag: flag_tree ref_tree
  by unfold_locales (auto simp: ref_tree_def rt_path_def rt_get_set)

text \<open>The output does not overwrite the mark.\<close>

definition output_apart :: "string \<Rightarrow> string \<Rightarrow> bool" where
  "output_apart output key =
     (case SplitN2 output (CHR ''.'') of [a, b] \<Rightarrow> ctx_kind_of a \<noteq> Some KClosed \<or> apart b key | _ \<Rightarrow> True)"

lemma path_target:
  assumes "GetCtxPath T K output js = (st, Some (k, t), key)"
  shows "\<exists>a. SplitN2 output (CHR ''.'') = [a, key] \<and> ctx_kind_of a = Some k" and "key \<noteq> ''''"
  using assms by (auto simp: GetCtxPath_def StateGet_def Let_def split: list.splits if_splits option.splits prod.splits)

lemma path_view: "snd (get_kind T K k (fst (GetCtxPath T K output js))) = snd (get_kind T K k js)"
  by (auto simp: GetCtxPath_def StateGet_def Let_def split_beta get_kind_fst split: list.split option.split)

lemma send_keeps_mark:
  assumes T: "flag_tree (sp_tree S)" and run: "send_request S client config w tx = (w', tx', Inr r)"
    and out: "output_apart (cfg_str S config ''response_output'' ''httpResponse'') p" and p: "p \<noteq> ''''"
    and m: "marked (sp_tree S) (ctx_view S KClosed tx) p"
  shows "marked (sp_tree S) (ctx_view S KClosed tx') p \<and> tx_ChainStepID tx' = tx_ChainStepID tx \<and> tx_CurrentStepID tx' = tx_CurrentStepID tx \<and> r = ''true''"
proof -
  let ?T = "sp_tree S" and ?o = "cfg_str S config ''response_output'' ''httpResponse''"
  obtain st k t key v where g: "GetCtxPath ?T (sp_crypto S) ?o (tx_State tx) = (st, Some (k, t), key)"
    and tx': "tx' = ctx_set S k key v (tx\<lparr>tx_State := st\<rparr>)" and r: "r = ''true''"
    using run by (auto simp: send_request_def Let_def split: sum.splits prod.splits option.splits if_splits)
  have "ctx_view S KClosed (tx\<lparr>tx_State := st\<rparr>) = ctx_view S KClosed tx"
    using path_view [of ?T "sp_crypto S" KClosed ?o "tx_State tx"] g by (simp add: ctx_view_def)
  moreover have "marked ?T (tm_set ?T (ctx_view S KClosed tx) key v) p" if "k = KClosed"
    using out path_target [OF g] that
    by (intro flag_tree.marked_apart [OF T m p]) (auto simp: output_apart_def)
  ultimately have "marked ?T (ctx_view S KClosed tx') p" using m by (auto simp: tx')
  then show ?thesis by (simp add: tx' r ctx_set_def ctx_update_def split_beta)
qed


subsection \<open>Samples\<close>

definition counting_client :: "nat http_sender" where
  "counting_client meth uri headers body w = (Suc w, Inr (\<lparr>ry_Status = 200, ry_Headers = [], ry_Body = ''ok''\<rparr>, 5))"

definition fetch_config :: gval where
  "fetch_config = GObj [(''uri'', GStr ''http://a''), (''response_output'', GStr ''ctx.answer'')]"

definition chained_tx :: "gval JourneyTransaction" where
  "chained_tx = (flow_tx [] zero_state)\<lparr>tx_ChainStepID := ''c'', tx_CurrentStepID := ''j0''\<rparr>"

lemma sample_fetch:
  "case HttpRequest flow_env (\<lambda>v :: unit dyn. None) (Some counting_client) (None :: (unit, unit) Manager option) fetch_config 0 chained_tx of
     (w, tx', r) \<Rightarrow> w = 1 \<and> r = Inr ''true''"
  "tx_ChainStepID chained_tx \<noteq> ''''" "\<not> get_bool_or (sp_tree flow_env) fetch_config ''re_execute_on_chain_step'' False"
  "output_apart (cfg_str flow_env fetch_config ''response_output'' ''httpResponse'') (chain_key chained_tx)"
  by code_simp+


end
