(* ===== verification/ScriptBindings.thy ===== *)
theory ScriptBindings
  imports RestAdmin HttpRequestStep
begin

text \<open>
  \<^verbatim>\<open>steps/script.step.go\<close>, the part that describes scripts: the registry of script types, the bindings a script
  of each type has, their extension or replacement by a configured provider, and the two endpoints of
  \<^verbatim>\<open>rest.api.go\<close> that show them. The descriptions and examples of bindings, texts for a reader, are left out. A
  provider is a parameter.
\<close>

subsection \<open>Script types\<close>

record ScriptTypeDefinition =
  std_Type :: string
  std_Name :: string
  std_Description :: string
  std_Runnable :: bool

type_synonym script_types = "ScriptTypeDefinition gomap"

definition script_type :: "string \<Rightarrow> string \<Rightarrow> string \<Rightarrow> bool \<Rightarrow> string \<times> ScriptTypeDefinition" where
  "script_type t name description runnable = (t, \<lparr>std_Type = t, std_Name = name, std_Description = description, std_Runnable = runnable\<rparr>)"

definition scriptTypesRegistry :: script_types where
  "scriptTypesRegistry = [
     script_type ''auth'' ''Auth script'' ''Runs inside auth journey steps with context, outcome, client input and request bindings.'' True,
     script_type ''resource'' ''Resource script'' ''Runs inside resource journeys with request-oriented bindings.'' True,
     script_type ''workflow'' ''Workflow script'' ''Runs inside backend workflow journeys with context, args, HTTP, crypto and logger bindings.'' True,
     script_type ''schedule'' ''Schedule script'' ''Runs from scheduler jobs and publishes shared values explicitly with SetResult and previousResult.'' True,
     script_type ''library'' ''Library script'' ''Reusable JavaScript helpers shared by executable scripts.'' False,
     script_type ''async'' ''Async script'' ''Script definition reserved for asynchronous usage. It has no default runtime bindings.'' False]"

definition scriptTypeSortPriority :: "int gomap" where
  "scriptTypeSortPriority = [(''auth'', 0), (''resource'', 1), (''workflow'', 2), (''schedule'', 3), (''library'', 4), (''async'', 5)]"

definition scriptTypeDefinition :: "script_types \<Rightarrow> string \<Rightarrow> ScriptTypeDefinition option" where
  "scriptTypeDefinition types t = gm_get types (NormalizeScriptType t)"

text \<open>Types without a priority come after those with one, in the order of their names.\<close>

definition ScriptTypeDefinitions :: "script_types \<Rightarrow> ScriptTypeDefinition list" where
  "ScriptTypeDefinitions types =
     sort_key (\<lambda>d. or_default (gm_get scriptTypeSortPriority (std_Type d)) 1000) (sort_key std_Type (map snd types))"

definition GetAllowedTypes :: "script_types \<Rightarrow> string list" where
  "GetAllowedTypes types = map std_Type (ScriptTypeDefinitions types)"

definition IsRunnableScriptType :: "script_types \<Rightarrow> string \<Rightarrow> bool" where
  "IsRunnableScriptType types t = (case scriptTypeDefinition types (NormalizeScriptType t) of None \<Rightarrow> False | Some d \<Rightarrow> std_Runnable d)"

definition RegisterScriptType :: "ScriptTypeDefinition \<Rightarrow> script_types \<Rightarrow> script_types \<times> go_error option" where
  "RegisterScriptType d types =
     (let t = NormalizeScriptType (std_Type d) in
      if t = '''' then (types, Some (ErrText ''script type is required''))
      else if list_ex (\<lambda>c. c \<in> set [CHR '' '', CHR 0x09, CHR 0x0D, CHR 0x0A]) t
      then (types, Some (ErrText (''script type '' @ t @ '' cannot contain whitespace'')))
      else (gm_put t (d\<lparr>std_Type := t, std_Name := (if TrimSpace (std_Name d) = '''' then t else std_Name d)\<rparr>) types, None))"

subsection \<open>Descriptors\<close>

datatype ScriptBindingDescriptor =
  Descriptor (bd_Name: string) (bd_Type: string) (bd_Signature: string) (bd_Children: "ScriptBindingDescriptor list")

record ScriptBindingSetDescriptor =
  bs_Type :: string
  bs_Name :: string
  bs_Description :: string
  bs_Runnable :: bool
  bs_Bindings :: "ScriptBindingDescriptor list"

definition treeMapBindingChildren :: "ScriptBindingDescriptor list" where
  \<open>treeMapBindingChildren = [
    Descriptor ''Get'' ''function'' ''Get(path string): TreeMap'' [],
    Descriptor ''IsDefined'' ''function'' ''IsDefined(path string): boolean'' [],
    Descriptor ''Exists'' ''function'' ''Exists(): boolean'' [],
    Descriptor ''IsEmpty'' ''function'' ''IsEmpty(): boolean'' [],
    Descriptor ''Or'' ''function'' ''Or(path string): TreeMap'' [],
    Descriptor ''Set'' ''function'' ''Set(path string, value any): TreeMap'' [],
    Descriptor ''Delete'' ''function'' ''Delete(path string): TreeMap'' [],
    Descriptor ''TryDelete'' ''function'' ''TryDelete(path string): TreeMap'' [],
    Descriptor ''Clone'' ''function'' ''Clone(): TreeMap'' [],
    Descriptor ''ToJsonString'' ''function'' ''ToJsonString(pretty boolean): string'' [],
    Descriptor ''AsMap'' ''function'' ''AsMap(): object'' [],
    Descriptor ''AsSlice'' ''function'' ''AsSlice(): TreeMap[]'' [],
    Descriptor ''AsString'' ''function'' ''AsString(): string'' [],
    Descriptor ''AsInt'' ''function'' ''AsInt(): int'' [],
    Descriptor ''AsFloat'' ''function'' ''AsFloat(): float'' [],
    Descriptor ''AsBool'' ''function'' ''AsBool(): boolean'' [],
    Descriptor ''AsAny'' ''function'' ''AsAny(): any'' [],
    Descriptor ''AsStruct'' ''function'' ''AsStruct(target any): error'' [],
    Descriptor ''AsStringOr'' ''function'' ''AsStringOr(default string): string'' [],
    Descriptor ''AsIntOr'' ''function'' ''AsIntOr(default int): int'' [],
    Descriptor ''AsFloatOr'' ''function'' ''AsFloatOr(default float): float'' [],
    Descriptor ''AsBoolOr'' ''function'' ''AsBoolOr(default boolean): boolean'' [],
    Descriptor ''AsAnyOr'' ''function'' ''AsAnyOr(default any): any'' [],
    Descriptor ''AsStrSlice'' ''function'' ''AsStrSlice(): string[]'' [],
    Descriptor ''AsIntSlice'' ''function'' ''AsIntSlice(): int[]'' [],
    Descriptor ''AsBoolSlice'' ''function'' ''AsBoolSlice(): boolean[]'' [],
    Descriptor ''AsAnySlice'' ''function'' ''AsAnySlice(): any[]'' []]\<close>

definition treeMapBindingDescriptor :: "string \<Rightarrow> ScriptBindingDescriptor" where
  "treeMapBindingDescriptor name = Descriptor name ''TreeMap'' '''' treeMapBindingChildren"

definition binding_table :: "ScriptBindingDescriptor list" where
  \<open>binding_table = [
    treeMapBindingDescriptor ''ctx'',
    treeMapBindingDescriptor ''encCtx'',
    treeMapBindingDescriptor ''closedCtx'',
    treeMapBindingDescriptor ''tempCtx'',
    Descriptor ''args'' ''object'' '''' [],
    Descriptor ''request'' ''object'' '''' [
      Descriptor ''RequestURI'' ''string'' '''' [],
      Descriptor ''Path'' ''string'' '''' [],
      Descriptor ''RawQuery'' ''string'' '''' [],
      Descriptor ''QueryParameters'' ''object'' '''' [],
      Descriptor ''Headers'' ''object'' '''' [],
      Descriptor ''Body'' ''object'' '''' [],
      Descriptor ''Method'' ''string'' '''' [],
      Descriptor ''Origin'' ''string'' '''' [],
      Descriptor ''BaseURL'' ''string'' '''' [],
      Descriptor ''Host'' ''string'' '''' [],
      Descriptor ''Port'' ''number'' '''' [],
      Descriptor ''Protocol'' ''string'' '''' [],
      Descriptor ''HTTPVersion'' ''string'' '''' [],
      Descriptor ''RemoteAddress'' ''string'' '''' [],
      Descriptor ''TLSVersion'' ''string'' '''' [],
      Descriptor ''Certificates'' ''array'' '''' [],
      Descriptor ''Cookies'' ''array'' '''' []],
    Descriptor ''requestQuery'' ''object'' '''' [
      Descriptor ''First'' ''function'' ''First(key string, defaultValue?: string): string'' [],
      Descriptor ''All'' ''function'' ''All(key string): string[]'' [],
      Descriptor ''Has'' ''function'' ''Has(key string): boolean'' []],
    Descriptor ''requestHeader'' ''object'' '''' [
      Descriptor ''First'' ''function'' ''First(key string, defaultValue?: string): string'' [],
      Descriptor ''All'' ''function'' ''All(key string): string[]'' [],
      Descriptor ''Has'' ''function'' ''Has(key string): boolean'' []],
    Descriptor ''http'' ''object'' '''' [
      Descriptor ''Send'' ''function'' ''Send(url string, options?: { method?: string, headers?: object, body?: any, instance?: string }): object'' []],
    Descriptor ''scheduleCache'' ''object'' '''' [
      Descriptor ''Get'' ''function'' ''Get(schedule string, options?: { maxAgeSeconds?: number, staleIfError?: boolean }): any'' [],
      Descriptor ''Refresh'' ''function'' ''Refresh(schedule string): any'' [],
      Descriptor ''Clear'' ''function'' ''Clear(schedule string): void'' []],
    Descriptor ''previousResult'' ''any'' '''' [],
    Descriptor ''SetResult'' ''function'' ''SetResult(result any): void'' [],
    Descriptor ''realm'' ''string'' '''' [],
    Descriptor ''encoding'' ''object'' '''' [
      Descriptor ''EncodeBase64'' ''function'' ''EncodeBase64(data []byte): string'' [],
      Descriptor ''DecodeBase64'' ''function'' ''DecodeBase64(value string): []byte'' [],
      Descriptor ''EncodeBase64URL'' ''function'' ''EncodeBase64URL(data []byte): string'' [],
      Descriptor ''DecodeBase64URL'' ''function'' ''DecodeBase64URL(value string): []byte'' [],
      Descriptor ''EncodeHex'' ''function'' ''EncodeHex(data []byte): string'' [],
      Descriptor ''DecodeHex'' ''function'' ''DecodeHex(value string): []byte'' []],
    Descriptor ''crypto'' ''object'' '''' [
      Descriptor ''NewUUID'' ''function'' ''NewUUID(): string'' [],
      Descriptor ''GetRandBytes'' ''function'' ''GetRandBytes(size int): []byte'' [],
      Descriptor ''SHA1'' ''function'' ''SHA1(value string): []byte'' [],
      Descriptor ''SHA256'' ''function'' ''SHA256(value string): []byte'' [],
      Descriptor ''SHA384'' ''function'' ''SHA384(value string): []byte'' [],
      Descriptor ''SHA512'' ''function'' ''SHA512(value string): []byte'' [],
      Descriptor ''HmacSHA1'' ''function'' ''HmacSHA1(value string, base64urlKey string): []byte'' [],
      Descriptor ''HmacSHA256'' ''function'' ''HmacSHA256(value string, base64urlKey string): []byte'' [],
      Descriptor ''HmacSHA384'' ''function'' ''HmacSHA384(value string, base64urlKey string): []byte'' [],
      Descriptor ''HmacSHA512'' ''function'' ''HmacSHA512(value string, base64urlKey string): []byte'' []],
    Descriptor ''setOutcome'' ''function'' ''setOutcome(outcome string): void'' [],
    Descriptor ''clientInputs'' ''object'' '''' [
      Descriptor ''IsClientEmpty'' ''function'' ''IsClientEmpty(): boolean'' [],
      Descriptor ''IsNewEmpty'' ''function'' ''IsNewEmpty(): boolean'' [],
      Descriptor ''GetByExternalID'' ''function'' ''GetByExternalID(externalID string): ClientInput'' [],
      Descriptor ''GetByType'' ''function'' ''GetByType(type string): ClientInput[]'' [],
      Descriptor ''AddValueInput'' ''function'' ''AddValueInput(input object): error'' [],
      Descriptor ''AddMessageInput'' ''function'' ''AddMessageInput(message object): error'' []],
    Descriptor ''logger'' ''object'' '''' [
      Descriptor ''Info'' ''function'' ''Info(message string, attrs?: object): void'' [],
      Descriptor ''Event'' ''function'' ''Event(message string, attrs?: object): void'' [],
      Descriptor ''Error'' ''function'' ''Error(message string, error?: any, attrs?: object): void'' []]]\<close>

definition filterScriptBindingDescriptors :: "ScriptBindingDescriptor list \<Rightarrow> string list \<Rightarrow> ScriptBindingDescriptor list" where
  "filterScriptBindingDescriptors descriptors excluded = filter (\<lambda>d. bd_Name d \<notin> set excluded) descriptors"

definition scriptBindingDescriptorsForType :: "string \<Rightarrow> ScriptBindingDescriptor list \<Rightarrow> ScriptBindingDescriptor list" where
  "scriptBindingDescriptorsForType scriptType descriptors =
     (let t = NormalizeScriptType scriptType in
      if t = ''auth'' then filterScriptBindingDescriptors descriptors [''previousResult'', ''SetResult'']
      else if t = ''resource'' then filterScriptBindingDescriptors descriptors [''clientInputs'', ''previousResult'', ''SetResult'']
      else if t = ''workflow''
      then filterScriptBindingDescriptors descriptors [''clientInputs'', ''request'', ''requestQuery'', ''requestHeader'', ''previousResult'', ''SetResult'']
      else if t = ''schedule''
      then filterScriptBindingDescriptors descriptors [''ctx'', ''encCtx'', ''closedCtx'', ''tempCtx'', ''clientInputs'', ''request'', ''requestQuery'',
             ''requestHeader'', ''setOutcome'']
      else [])"

definition defaultScriptBindingDescriptors :: "string \<Rightarrow> ScriptBindingDescriptor list" where
  "defaultScriptBindingDescriptors scriptType = scriptBindingDescriptorsForType (NormalizeScriptType scriptType) binding_table"

fun cloneScriptBindingDescriptor :: "ScriptBindingDescriptor \<Rightarrow> ScriptBindingDescriptor" where
  "cloneScriptBindingDescriptor (Descriptor name ty sig children) =
     Descriptor name ty sig (if length children > 0 then map cloneScriptBindingDescriptor children else children)"

definition cloneScriptBindingDescriptors :: "ScriptBindingDescriptor list \<Rightarrow> ScriptBindingDescriptor list" where
  "cloneScriptBindingDescriptors source = map cloneScriptBindingDescriptor source"

text \<open>The index of every name; the last of equal names wins.\<close>

definition name_positions :: "ScriptBindingDescriptor list \<Rightarrow> nat gomap" where
  "name_positions ds = fold (\<lambda>(i, d). gm_put (bd_Name d) i) (zip [0..<length ds] ds) []"

fun merge_custom :: "ScriptBindingDescriptor list \<Rightarrow> nat gomap \<Rightarrow> ScriptBindingDescriptor list \<Rightarrow> ScriptBindingDescriptor list" where
  "merge_custom merged positions [] = merged"
| "merge_custom merged positions (d # ds) =
     (if bd_Name d = '''' then merge_custom merged positions ds
      else case gm_get positions (bd_Name d) of
             Some index \<Rightarrow> merge_custom (merged[index := d]) positions ds
           | None \<Rightarrow> merge_custom (merged @ [d]) (gm_put (bd_Name d) (length merged) positions) ds)"

definition mergeScriptBindingDescriptors :: "ScriptBindingDescriptor list \<Rightarrow> ScriptBindingDescriptor list \<Rightarrow> ScriptBindingDescriptor list" where
  "mergeScriptBindingDescriptors defaults custom =
     (let merged = cloneScriptBindingDescriptors defaults in merge_custom merged (name_positions merged) custom)"

subsection \<open>Configured providers\<close>

datatype ScriptBindingsMode = ScriptBindingsExtend | ScriptBindingsReplace | OtherMode string

record ScriptBindingDescriptorContext =
  dc_Realm :: string
  dc_Script :: "Script option"
  dc_ScriptType :: string
  dc_DefaultBindings :: "ScriptBindingDescriptor list"

text \<open>A provider of kind \<open>'r\<close>: the interfaces it implements. \<open>'r\<close> is the function that gives run-time bindings.\<close>

record 'r bindings_provider =
  pv_BindingDescriptors :: "(ScriptBindingDescriptorContext \<Rightarrow> ScriptBindingDescriptor list res) option"
  pv_GetBindings :: "'r option"
  pv_Bindings :: "'r option"

record 'r configuredScriptBindings =
  cb_mode :: ScriptBindingsMode
  cb_provider :: "'r bindings_provider option"

definition ScriptManagerCacheKey :: string where "ScriptManagerCacheKey = ''script_manager''"
definition ScriptStorageCacheKey :: string where "ScriptStorageCacheKey = ''script_storage''"
definition ScriptBindingsCacheKey :: string where "ScriptBindingsCacheKey = ''script_bindings''"

text \<open>\<open>wrap\<close> is the configured bindings as the instance that the cache manager keeps.\<close>

definition ConfigureScriptRuntime :: "'n nstore \<Rightarrow> 'v dyn option \<Rightarrow> 'v dyn option \<Rightarrow> ('v, 'n) Manager option \<Rightarrow> ('v, 'n) Manager option \<times> go_error option" where
  "ConfigureScriptRuntime N manager storage cacheManager =
     (case (cacheManager, manager, storage) of
        (Some m, Some man, Some sto) \<Rightarrow>
          (case UpdateRuntimeCacheInstance N ScriptManagerCacheKey DefaultInstanceID man 0 m of
             (m1, Some e) \<Rightarrow> (Some m1, Some e)
           | (m1, None) \<Rightarrow> map_prod Some id (UpdateRuntimeCacheInstance N ScriptStorageCacheKey DefaultInstanceID sto 0 m1))
      | _ \<Rightarrow> (cacheManager, Some (ErrText ''script manager and storage are required'')))"

definition mode_error :: "ScriptBindingsMode \<Rightarrow> go_error option" where
  "mode_error mode = (case mode of OtherMode m \<Rightarrow> Some (ErrText (''unsupported script bindings mode '' @ m)) | _ \<Rightarrow> None)"

definition ConfigureScriptBindings :: "('r configuredScriptBindings \<Rightarrow> 'v dyn) \<Rightarrow> 'n nstore \<Rightarrow> ScriptBindingsMode \<Rightarrow> 'r bindings_provider option
    \<Rightarrow> ('v, 'n) Manager option \<Rightarrow> ('v, 'n) Manager option \<times> go_error option" where
  "ConfigureScriptBindings wrap N mode provider cacheManager =
     (case (cacheManager, provider) of
        (Some m, Some p) \<Rightarrow>
          (case mode_error mode of
             Some e \<Rightarrow> (cacheManager, Some e)
           | None \<Rightarrow> map_prod Some id (UpdateRuntimeCacheInstance N ScriptBindingsCacheKey DefaultInstanceID
                       (wrap \<lparr>cb_mode = mode, cb_provider = provider\<rparr>) 0 m))
      | _ \<Rightarrow> (cacheManager, Some (ErrText ''script cache manager and bindings provider are required'')))"

definition ConfigureScriptTypeBindings :: "('r configuredScriptBindings \<Rightarrow> 'v dyn) \<Rightarrow> 'n nstore \<Rightarrow> script_types \<Rightarrow> string \<Rightarrow> ScriptBindingsMode
    \<Rightarrow> 'r bindings_provider option \<Rightarrow> ('v, 'n) Manager option \<Rightarrow> ('v, 'n) Manager option \<times> go_error option" where
  "ConfigureScriptTypeBindings wrap N types scriptType mode provider cacheManager =
     (let t = NormalizeScriptType scriptType in
      case (cacheManager, provider) of
        (Some m, Some p) \<Rightarrow>
          if scriptTypeDefinition types t = None then (cacheManager, Some (ErrText (''unsupported script type '' @ t)))
          else (case mode_error mode of
                  Some e \<Rightarrow> (cacheManager, Some e)
                | None \<Rightarrow> map_prod Some id (UpdateRuntimeCacheInstance N ScriptBindingsCacheKey t
                            (wrap \<lparr>cb_mode = mode, cb_provider = provider\<rparr>) 0 m))
      | _ \<Rightarrow> (cacheManager, Some (ErrText ''script cache manager and bindings provider are required'')))"

definition isDefaultExtensibleScriptType :: "string \<Rightarrow> bool" where
  "isDefaultExtensibleScriptType t \<longleftrightarrow> NormalizeScriptType t \<in> set [''auth'', ''resource'', ''workflow'', ''schedule'']"

text \<open>\<open>as_bindings\<close> is the cast of a cached instance. The result is the provider with its mode, when there is one.\<close>

definition configuredBindings :: "('v dyn \<Rightarrow> 'r configuredScriptBindings option) \<Rightarrow> ('v, 'n) Manager option \<Rightarrow> string
    \<Rightarrow> (ScriptBindingsMode \<times> 'r bindings_provider) option res" where
  "configuredBindings as_bindings cacheManager scriptType =
     (let t = NormalizeScriptType scriptType in
      case cacheManager of
        None \<Rightarrow> Inr None
      | Some m \<Rightarrow>
          let first = GetCacheInstance m ScriptBindingsCacheKey t;
              (v, found) = (if \<not> snd first \<and> isDefaultExtensibleScriptType t then GetCacheInstance m ScriptBindingsCacheKey DefaultInstanceID else first)
          in if \<not> found then Inr None
             else (case as_bindings v of
                     Some c \<Rightarrow> (case cb_provider c of
                                  Some p \<Rightarrow> Inr (Some (cb_mode c, p))
                                | None \<Rightarrow> Inl (ErrText ''script bindings cache has an invalid type''))
                   | None \<Rightarrow> Inl (ErrText ''script bindings cache has an invalid type'')))"

definition ScriptBindingDescriptors :: "('v dyn \<Rightarrow> 'r configuredScriptBindings option) \<Rightarrow> ('v, 'n) Manager option \<Rightarrow> string \<Rightarrow> string \<Rightarrow> Script option
    \<Rightarrow> ScriptBindingDescriptor list res" where
  "ScriptBindingDescriptors as_bindings cacheManager realm scriptType script =
     (let t = NormalizeScriptType scriptType; defaults = defaultScriptBindingDescriptors t in
      bind_res (configuredBindings as_bindings cacheManager t) (\<lambda>configured.
        case configured of
          None \<Rightarrow> Inr defaults
        | Some (mode, provider) \<Rightarrow>
            (case pv_BindingDescriptors provider of
               None \<Rightarrow> Inr defaults
             | Some describe \<Rightarrow>
                 bind_res (describe \<lparr>dc_Realm = realm, dc_Script = script, dc_ScriptType = t,
                                     dc_DefaultBindings = cloneScriptBindingDescriptors defaults\<rparr>) (\<lambda>custom.
                   if mode = ScriptBindingsReplace then Inr custom else Inr (mergeScriptBindingDescriptors defaults custom)))))"

fun binding_sets :: "(string \<Rightarrow> ScriptBindingDescriptor list res) \<Rightarrow> ScriptTypeDefinition list \<Rightarrow> ScriptBindingSetDescriptor list res" where
  "binding_sets describe [] = Inr []"
| "binding_sets describe (d # ds) =
     bind_res (describe (std_Type d)) (\<lambda>bindings. bind_res (binding_sets describe ds) (\<lambda>sets.
       Inr (\<lparr>bs_Type = std_Type d, bs_Name = std_Name d, bs_Description = std_Description d, bs_Runnable = std_Runnable d, bs_Bindings = bindings\<rparr> # sets)))"

definition ScriptBindingSets :: "('v dyn \<Rightarrow> 'r configuredScriptBindings option) \<Rightarrow> script_types \<Rightarrow> ('v, 'n) Manager option \<Rightarrow> string
    \<Rightarrow> ScriptBindingSetDescriptor list res" where
  "ScriptBindingSets as_bindings types cacheManager realm =
     binding_sets (\<lambda>t. ScriptBindingDescriptors as_bindings cacheManager realm t None) (ScriptTypeDefinitions types)"

subsection \<open>Endpoints\<close>

datatype bindings_body = BindingSets "ScriptBindingSetDescriptor restQueryResponse" | BindingList "ScriptBindingDescriptor restQueryResponse"

definition listScriptTypeBindings :: "('v dyn \<Rightarrow> 'r configuredScriptBindings option) \<Rightarrow> script_types \<Rightarrow> ('v, 'n) Manager option \<Rightarrow> rest_context \<Rightarrow> bindings_body reply" where
  "listScriptTypeBindings as_bindings types cacheManager c =
     (let t = NormalizeScriptType (gx_Query c ''type'') in
      if t = ''''
      then (case ScriptBindingSets as_bindings types cacheManager (restRequestRealm c) of
              Inl e \<Rightarrow> ErrorReply 500 ''script_bindings_failed'' e
            | Inr sets \<Rightarrow> JSON 200 (BindingSets (query_response sets)))
      else (case ScriptBindingDescriptors as_bindings cacheManager (restRequestRealm c) t None of
              Inl e \<Rightarrow> ErrorReply 500 ''script_bindings_failed'' e
            | Inr descriptors \<Rightarrow>
                let d = or_default (find (\<lambda>d. std_Type d = t) (ScriptTypeDefinitions types))
                          \<lparr>std_Type = t, std_Name = '''', std_Description = '''', std_Runnable = False\<rparr>
                in JSON 200 (BindingSets (query_response [\<lparr>bs_Type = t, bs_Name = std_Name d, bs_Description = std_Description d,
                     bs_Runnable = std_Runnable d, bs_Bindings = descriptors\<rparr>]))))"

definition getScriptBindings :: "('v dyn \<Rightarrow> 'r configuredScriptBindings option) \<Rightarrow> (Script, 'n) doc_store \<Rightarrow> 'n \<Rightarrow> ('v, 'k) Manager option \<Rightarrow> rest_context
    \<Rightarrow> bindings_body reply" where
  "getScriptBindings as_bindings S n cacheManager c =
     (case ds_load S n (gx_Param c ''scriptId'') of
        Inl e \<Rightarrow> ErrorReply 404 ''script_not_found'' e
      | Inr None \<Rightarrow> Panicked ''nil pointer dereference''
      | Inr (Some s) \<Rightarrow>
          (case ScriptBindingDescriptors as_bindings cacheManager (restRequestRealm c) (scr_Type s) (Some s) of
             Inl e \<Rightarrow> ErrorReply 500 ''script_bindings_failed'' e
           | Inr descriptors \<Rightarrow> JSON 200 (BindingList (query_response descriptors))))"

end
