(* ===== verification/ScriptStep.thy ===== *)
theory ScriptStep
  imports ScriptBindings
begin

text \<open>
  \<^verbatim>\<open>steps/script.step.go\<close>, the part that runs scripts: the bindings a script gets, what each of them does, and the
  step. The JavaScript engine is a parameter that says which calls of bindings a program makes and how it ends; a
  call of a binding that is not there changes nothing. HTTP clients, the schedule cache, encodings and
  custom bindings are parameters too.
\<close>

subsection \<open>Bindings\<close>

text \<open>\<open>BHttp\<close> and \<open>BScheduleCache\<close> carry what the Go objects hold; \<open>BSetOutcome\<close> whether the outcome is normalised.\<close>

datatype 'c binding =
    BArgs DefaultMap | BHttp bool | BScheduleCache string | BRealm string | BEncoding | BCrypto | BSetOutcome bool
  | BCtx ctx_kind | BRequest "JourneyRequest option" | BRequestQuery | BRequestHeader | BClientInputs | BLogger
  | BPreviousResult gval | BSetResult | BScriptID string | BTimeout int | BCustom 'c

text \<open>Reading the contexts creates those that are not there; a snapshot of the request reads its body.\<close>

definition context_bindings :: "'t step_env \<Rightarrow> 't JourneyTransaction \<Rightarrow> 't JourneyTransaction" where
  "context_bindings S tx = fst (ctx_read S KTemp (fst (ctx_read S KClosed (fst (ctx_read S KEnc (fst (ctx_read S KCtx tx)))))))"

definition request_binding :: "(string \<Rightarrow> string \<times> string gomap) \<Rightarrow> 't JourneyTransaction \<Rightarrow> 't JourneyTransaction \<times> JourneyRequest option res" where
  "request_binding media tx =
     (case tx_Request tx of
        None \<Rightarrow> (tx, Inr (Some (MR_Snapshot (Some NewEmptyRequest))))
      | Some r \<Rightarrow> (case req_Snapshot media r of (r', s) \<Rightarrow> (tx\<lparr>tx_Request := Some r'\<rparr>, s)))"

definition scriptBindings :: "'t step_env \<Rightarrow> (string \<Rightarrow> string \<times> string gomap) \<Rightarrow> DefaultMap \<Rightarrow> string \<Rightarrow> 't JourneyTransaction
    \<Rightarrow> 't JourneyTransaction \<times> 'c binding gomap res" where
  "scriptBindings S media args scriptType tx =
     (let t = NormalizeScriptType scriptType; setter = (''setOutcome'', BSetOutcome (SupportsDeclaredScriptOutcomes t)) in
      if \<not> isDefaultExtensibleScriptType t then (tx, Inr [(''args'', BArgs args), setter])
      else let base = [(''args'', BArgs args), (''http'', BHttp True), (''scheduleCache'', BScheduleCache (js_Realm (tx_State tx))),
                       (''realm'', BRealm (js_Realm (tx_State tx))), (''encoding'', BEncoding), (''crypto'', BCrypto), setter];
               contexts = (if t \<noteq> ''schedule''
                           then [(''ctx'', BCtx KCtx), (''encCtx'', BCtx KEnc), (''closedCtx'', BCtx KClosed), (''tempCtx'', BCtx KTemp)] else []);
               tx1 = (if t \<noteq> ''schedule'' then context_bindings S tx else tx)
           in if t = ''auth'' \<or> t = ''resource''
              then (case request_binding media tx1 of
                      (tx2, Inl e) \<Rightarrow> (tx2, Inl e)
                    | (tx2, Inr request) \<Rightarrow>
                        (tx2, Inr (base @ contexts @ [(''request'', BRequest request), (''requestQuery'', BRequestQuery), (''requestHeader'', BRequestHeader)] @
                                   (if t = ''auth'' then [(''clientInputs'', BClientInputs)] else []))))
              else (tx1, Inr (base @ contexts)))"

definition scriptID :: "Script option \<Rightarrow> string" where
  "scriptID so = (case so of None \<Rightarrow> '''' | Some s \<Rightarrow> metadataID (scr_Metadata s))"

definition scriptName :: "Script option \<Rightarrow> string" where
  "scriptName so = (case so of None \<Rightarrow> '''' | Some s \<Rightarrow> scr_Name s)"

definition scheduleScriptBindings :: "string \<Rightarrow> Script option \<Rightarrow> DefaultMap \<Rightarrow> int \<Rightarrow> ScheduleResultContext \<Rightarrow> 'c binding gomap" where
  "scheduleScriptBindings realm script args timeoutSeconds result =
     [(''args'', BArgs args), (''script_id'', BScriptID (scriptID script)), (''timeout_seconds'', BTimeout timeoutSeconds), (''http'', BHttp False),
      (''scheduleCache'', BScheduleCache realm), (''previousResult'', BPreviousResult (rc_PreviousResult result)), (''SetResult'', BSetResult),
      (''realm'', BRealm realm), (''encoding'', BEncoding), (''crypto'', BCrypto), (''logger'', BLogger)]"

text \<open>A provider sees the transaction, when there is one, and may change it.\<close>

record ('t, 'c) ScriptBindingContext =
  bx_Transaction :: "'t JourneyTransaction option"
  bx_Args :: DefaultMap
  bx_ScriptType :: string
  bx_DefaultBindings :: "'c binding gomap"

type_synonym ('t, 'c) custom_bindings = "('t, 'c) ScriptBindingContext \<Rightarrow> 't JourneyTransaction option \<times> 'c binding gomap res"

definition provider_bindings :: "('t, 'c) custom_bindings bindings_provider \<Rightarrow> ('t, 'c) custom_bindings" where
  "provider_bindings provider context =
     (case pv_GetBindings provider of
        Some get \<Rightarrow> get context
      | None \<Rightarrow>
          (case pv_Bindings provider of
             Some legacy \<Rightarrow> legacy context
           | None \<Rightarrow> (bx_Transaction context, Inl (ErrText ''script bindings provider must implement GetBindings or Bindings''))))"

definition combine_bindings :: "ScriptBindingsMode \<Rightarrow> 'c binding gomap \<Rightarrow> 'c binding gomap \<Rightarrow> 'c binding gomap" where
  "combine_bindings mode defaults custom =
     (if mode = ScriptBindingsReplace then custom else fold (\<lambda>(name, b). gm_put name b) custom defaults)"

definition ResolvedScheduleScriptBindings :: "('v dyn \<Rightarrow> ('t, 'c) custom_bindings configuredScriptBindings option) \<Rightarrow> ('v, 'n) Manager option
    \<Rightarrow> string \<Rightarrow> Script option \<Rightarrow> DefaultMap \<Rightarrow> int \<Rightarrow> ScheduleResultContext option \<Rightarrow> 'c binding gomap res" where
  "ResolvedScheduleScriptBindings as_bindings cacheManager realm script args timeoutSeconds result =
     (let defaults = scheduleScriptBindings realm script args timeoutSeconds (or_default result (NewScheduleResultContext GNil)) in
      bind_res (configuredBindings as_bindings cacheManager ''schedule'') (\<lambda>configured.
        case configured of
          None \<Rightarrow> Inr defaults
        | Some (mode, provider) \<Rightarrow>
            bind_res (snd (provider_bindings provider \<lparr>bx_Transaction = None, bx_Args = args, bx_ScriptType = ''schedule'', bx_DefaultBindings = defaults\<rparr>))
              (\<lambda>custom. Inr (combine_bindings mode defaults custom))))"

definition resolvedScriptBindings :: "'t step_env \<Rightarrow> (string \<Rightarrow> string \<times> string gomap) \<Rightarrow> ('v dyn \<Rightarrow> ('t, 'c) custom_bindings configuredScriptBindings option)
    \<Rightarrow> ('v, 'n) Manager option \<Rightarrow> DefaultMap \<Rightarrow> string \<Rightarrow> 't JourneyTransaction \<Rightarrow> 't JourneyTransaction \<times> 'c binding gomap res" where
  "resolvedScriptBindings S media as_bindings cacheManager args scriptType tx =
     (case scriptBindings S media args scriptType tx of
        (tx1, Inl e) \<Rightarrow> (tx1, Inl e)
      | (tx1, Inr defaults) \<Rightarrow>
          (case configuredBindings as_bindings cacheManager scriptType of
             Inl e \<Rightarrow> (tx1, Inl e)
           | Inr None \<Rightarrow> (tx1, Inr defaults)
           | Inr (Some (mode, provider)) \<Rightarrow>
               (case provider_bindings provider \<lparr>bx_Transaction = Some tx1, bx_Args = args, bx_ScriptType = scriptType, bx_DefaultBindings = defaults\<rparr> of
                  (tx2, r) \<Rightarrow> (or_default tx2 tx1, bind_res r (\<lambda>custom. Inr (combine_bindings mode defaults custom))))))"

subsection \<open>What the bindings do\<close>

definition addScriptValueInput :: "'t step_env \<Rightarrow> DefaultMap \<Rightarrow> 't JourneyTransaction \<Rightarrow> 't JourneyTransaction \<times> go_error option" where
  "addScriptValueInput S obj tx =
     (case bind_res (json_copy (GObj obj)) (\<lambda>v. dec_ValueInputConfig (Some v)) of
        Inl e \<Rightarrow> (tx, Some e)
      | Inr c0 \<Rightarrow>
          if vi_ExternalID c0 = '''' \<or> \<not> isValueInputType (vi_Type c0)
          then (tx, Some (ErrText ''script value input requires external_id and a supported type''))
          else let c = (if gm_get obj ''required'' = None then c0\<lparr>vi_Required := True\<rparr> else c0) in
               if vi_Pattern c \<noteq> '''' \<and> vi_Type c \<noteq> ''string'' then (tx, Some (ErrText ''script value input pattern requires string type''))
               else if vi_UserName c \<and> vi_Type c \<noteq> ''string'' then (tx, Some (ErrText ''script user_name input requires string type''))
               else (case AddValueInput (sp_tree S) (sp_keys S) (Some (c\<lparr>vi_ID := '''', vi_StepType := ''Script''\<rparr>)) (tx_builder (sp_tree S) (sp_crypto S) tx) of
                       (b, e) \<Rightarrow> (put_builder b tx, e)))"

definition dec_Message :: "gval option \<Rightarrow> Message res" where
  "dec_Message v =
     bind_res (dec_obj v) (\<lambda>m. bind_res (dec_str m ''id'') (\<lambda>i. bind_res (dec_str m ''step_type'') (\<lambda>st. bind_res (dec_str m ''type'') (\<lambda>ty.
       Inr \<lparr>mg_ID = i, mg_StepType = st, mg_Type = ty, mg_Value = or_default (gm_get m ''value'') GNil\<rparr>))))"

definition addScriptMessageInput :: "'t step_env \<Rightarrow> DefaultMap \<Rightarrow> 't JourneyTransaction \<Rightarrow> 't JourneyTransaction \<times> go_error option" where
  "addScriptMessageInput S obj tx =
     (case bind_res (json_copy (GObj obj)) (\<lambda>v. dec_Message (Some v)) of
        Inl e \<Rightarrow> (tx, Some e)
      | Inr m \<Rightarrow>
          (with_builder S (AddMessageInput (sp_tree S) (sp_keys S) (m\<lparr>mg_ID := tx_CurrentStepID tx, mg_StepType := ''Script''\<rparr>)) tx, None))"

text \<open>The first parameter that is neither nil nor a map of attributes is the error of the event.\<close>

fun log_error :: "text_conv \<Rightarrow> gval list \<Rightarrow> go_error option" where
  "log_error P [] = None"
| "log_error P (GNil # ps) = log_error P ps"
| "log_error P (GObj m # ps) = log_error P ps"
| "log_error P (p # ps) = Some (ErrText (tc_sprint P p))"

definition scriptLogger :: "'t step_env \<Rightarrow> Script option \<Rightarrow> bool \<Rightarrow> string \<Rightarrow> gval list \<Rightarrow> 't JourneyTransaction \<Rightarrow> 't JourneyTransaction" where
  "scriptLogger S script failed message params tx =
     EmitEvent \<lparr>ev_Type = (if failed then EventFailed else EventFinished), ev_Message = message, ev_Error = log_error (sp_text S) params,
       ev_Subject = \<lparr>es_Type = ''script'', es_ID = scriptID script, es_Name = scriptName script\<rparr>\<rparr> tx"

definition scriptOutcomeSetter :: "bool \<Rightarrow> string \<Rightarrow> string \<Rightarrow> string" where
  "scriptOutcomeSetter lower v outcome =
     (if TrimSpace v = '''' then outcome else if lower then ToLower (TrimSpace v) else v)"

definition scriptHTTPOptionString :: "text_conv \<Rightarrow> DefaultMap option \<Rightarrow> string \<Rightarrow> string \<Rightarrow> string" where
  "scriptHTTPOptionString P options key fallback =
     (case options of
        None \<Rightarrow> fallback
      | Some m \<Rightarrow>
          (case gm_get m key of
             None \<Rightarrow> fallback
           | Some (GStr s) \<Rightarrow> if TrimSpace s \<noteq> '''' then s else fallback
           | Some v \<Rightarrow> if TrimSpace (tc_sprint P v) \<noteq> '''' then tc_sprint P v else fallback))"

definition scriptHTTPHeaders :: "text_conv \<Rightarrow> gval \<Rightarrow> string gomap" where
  "scriptHTTPHeaders P v =
     (case v of GObj m \<Rightarrow> map (\<lambda>(k, x). (k, tc_sprint P x)) (filter (\<lambda>(k, x). x \<noteq> GNil) m) | _ \<Rightarrow> [])"

definition scriptHTTPBody :: "crypto \<Rightarrow> gval \<Rightarrow> string res" where
  "scriptHTTPBody K v =
     (case v of
        GNil \<Rightarrow> Inr ''''
      | GStr s \<Rightarrow> Inr s
      | _ \<Rightarrow> (case cr_marshal K v of None \<Rightarrow> Inl (ErrWrap ''marshal http.Send body'' (ErrText ''json: unsupported value'')) | Some t \<Rightarrow> Inr t))"

text \<open>The client of the binding: an instance of another type is an error here.\<close>

definition script_client :: "('v dyn \<Rightarrow> 'w http_sender option) \<Rightarrow> 'w http_sender option \<Rightarrow> ('v, 'n) Manager option \<Rightarrow> string \<Rightarrow> 'w http_sender res" where
  "script_client as_client Client manager instanceID =
     (let default = (case Client of None \<Rightarrow> Inl (ErrText ''HTTP client is not configured'') | Some c \<Rightarrow> Inr c) in
      case manager of
        None \<Rightarrow> default
      | Some m \<Rightarrow>
          (case GetCacheInstance m HTTPClientCacheKey instanceID of
             (v, ok) \<Rightarrow>
               if ok then (case as_client v of
                             None \<Rightarrow> Inl (ErrText (''http_client instance '' @ instanceID @ '' has an invalid type''))
                           | Some c \<Rightarrow> Inr c)
               else default))"

definition script_Send :: "'t step_env \<Rightarrow> ('v dyn \<Rightarrow> 'w http_sender option) \<Rightarrow> 'w http_sender option \<Rightarrow> ('v, 'n) Manager option \<Rightarrow> string
    \<Rightarrow> DefaultMap option \<Rightarrow> 'w \<Rightarrow> 'w \<times> (http_reply \<times> int) res" where
  "script_Send S as_client Client manager uri options w =
     (if TrimSpace uri = '''' then (w, Inl (ErrText ''http.Send requires url''))
      else (case script_client as_client Client manager (scriptHTTPOptionString (sp_text S) options ''instance'' DefaultInstanceID) of
              Inl e \<Rightarrow> (w, Inl e)
            | Inr client \<Rightarrow>
                let option_value = (\<lambda>key. case options of None \<Rightarrow> GNil | Some m \<Rightarrow> or_default (gm_get m key) GNil) in
                (case scriptHTTPBody (sp_crypto S) (option_value ''body'') of
                   Inl e \<Rightarrow> (w, Inl e)
                 | Inr body \<Rightarrow>
                     client (ToUpper (scriptHTTPOptionString (sp_text S) options ''method'' ''GET'')) uri
                       (Some (scriptHTTPHeaders (sp_text S) (option_value ''headers''))) body w)))"

definition scriptScheduleCacheInt64 :: "DefaultMap option \<Rightarrow> string \<Rightarrow> int" where
  "scriptScheduleCacheInt64 options key =
     (case options of
        None \<Rightarrow> 0
      | Some m \<Rightarrow> (case gm_get m key of Some (GInt i) \<Rightarrow> i | Some (GFloat f) \<Rightarrow> f64_trunc f | _ \<Rightarrow> 0))"

definition scriptScheduleCacheBool :: "DefaultMap option \<Rightarrow> string \<Rightarrow> bool" where
  "scriptScheduleCacheBool options key =
     (case options of None \<Rightarrow> False | Some m \<Rightarrow> (case gm_get m key of Some (GBool b) \<Rightarrow> b | _ \<Rightarrow> False))"

subsection \<open>Calls of a program\<close>

datatype script_op =
    OpSetOutcome string | OpTreeSet string gval | OpTreeDelete string | OpTreeTryDelete string
  | OpAddValueInput DefaultMap | OpAddMessageInput DefaultMap | OpLog bool string "gval list"
  | OpSend string "DefaultMap option" | OpCacheGet string "DefaultMap option" | OpCacheRefresh string | OpCacheClear string | OpCustom gval

record ('t, 'v, 'n, 'w, 'c, 'p) script_env =
  sx_manager :: "('v, 'n) Manager option"
  sx_types :: script_types
  sx_media :: "string \<Rightarrow> string \<times> string gomap"
  sx_bindings :: "'v dyn \<Rightarrow> ('t, 'c) custom_bindings configuredScriptBindings option"
  sx_client :: "'v dyn \<Rightarrow> 'w http_sender option"
  sx_Client :: "'w http_sender option"
  sx_cache :: "'v dyn \<Rightarrow> 'w schedule_cache option"
  sx_custom :: "'c \<Rightarrow> gval \<Rightarrow> 'w \<times> 't JourneyTransaction \<Rightarrow> 'w \<times> 't JourneyTransaction"
  sx_storage :: "'v dyn \<Rightarrow> (string \<Rightarrow> Script option res) option"
  sx_runtime :: "'v dyn \<Rightarrow> (string \<Rightarrow> string \<Rightarrow> 'p res) option"
  sx_raw :: "Script \<Rightarrow> string res"
  sx_execute :: "'p \<Rightarrow> 'c binding gomap \<Rightarrow> int \<Rightarrow> 'w \<Rightarrow> 't JourneyTransaction \<Rightarrow> (string \<times> script_op) list \<times> go_error option"

text \<open>The state of a run: the world, the transaction and the outcome. \<open>None\<close> is a call that does not return.\<close>

definition script_call :: "'t step_env \<Rightarrow> ('t, 'v, 'n, 'w, 'c, 'p) script_env \<Rightarrow> Script \<Rightarrow> 'c binding option \<Rightarrow> script_op
    \<Rightarrow> 'w \<times> 't JourneyTransaction \<times> string \<Rightarrow> ('w \<times> 't JourneyTransaction \<times> string) option" where
  "script_call S X script b op = (\<lambda>(w, tx, outcome).
     case (b, op) of
       (Some (BSetOutcome lower), OpSetOutcome v) \<Rightarrow> Some (w, tx, scriptOutcomeSetter lower v outcome)
     | (Some (BCtx k), OpTreeSet path v) \<Rightarrow> Some (w, ctx_set S k path v tx, outcome)
     | (Some (BCtx k), OpTreeDelete path) \<Rightarrow> Some (w, ctx_delete S k path tx, outcome)
     | (Some (BCtx k), OpTreeTryDelete path) \<Rightarrow> Some (w, ctx_update S k (\<lambda>t. tm_try_delete (sp_tree S) t path) tx, outcome)
     | (Some BClientInputs, OpAddValueInput obj) \<Rightarrow> Some (w, fst (addScriptValueInput S obj tx), outcome)
     | (Some BClientInputs, OpAddMessageInput obj) \<Rightarrow> Some (w, fst (addScriptMessageInput S obj tx), outcome)
     | (Some BLogger, OpLog failed message params) \<Rightarrow> Some (w, scriptLogger S (Some script) failed message params tx, outcome)
     | (Some (BHttp inTransaction), OpSend uri options) \<Rightarrow> Some (fst (script_Send S (sx_client X) (sx_Client X) (sx_manager X) uri options w), tx, outcome)
     | (Some (BScheduleCache realm), OpCacheGet schedule options) \<Rightarrow>
         (case scheduleCacheInstance (sx_cache X) (sx_manager X) of
            Inl e \<Rightarrow> Some (w, tx, outcome)
          | Inr cache \<Rightarrow>
              map_option (\<lambda>(w', r). (w', tx, outcome))
                (sk_Get cache realm schedule \<lparr>co_MaxAgeSeconds = scriptScheduleCacheInt64 options ''maxAgeSeconds'',
                   co_StaleIfError = scriptScheduleCacheBool options ''staleIfError''\<rparr> w))
     | (Some (BScheduleCache realm), OpCacheRefresh schedule) \<Rightarrow>
         (case scheduleCacheInstance (sx_cache X) (sx_manager X) of
            Inl e \<Rightarrow> Some (w, tx, outcome)
          | Inr cache \<Rightarrow> map_option (\<lambda>(w', r). (w', tx, outcome)) (sk_Refresh cache realm schedule w))
     | (Some (BScheduleCache realm), OpCacheClear schedule) \<Rightarrow>
         (case scheduleCacheInstance (sx_cache X) (sx_manager X) of
            Inl e \<Rightarrow> Some (w, tx, outcome)
          | Inr cache \<Rightarrow> Some (fst (sk_Clear cache realm schedule w), tx, outcome))
     | (Some (BCustom c), OpCustom v) \<Rightarrow> (case sx_custom X c v (w, tx) of (w', tx') \<Rightarrow> Some (w', tx', outcome))
     | _ \<Rightarrow> Some (w, tx, outcome))"

fun script_calls :: "'t step_env \<Rightarrow> ('t, 'v, 'n, 'w, 'c, 'p) script_env \<Rightarrow> Script \<Rightarrow> 'c binding gomap \<Rightarrow> (string \<times> script_op) list
    \<Rightarrow> 'w \<times> 't JourneyTransaction \<times> string \<Rightarrow> ('w \<times> 't JourneyTransaction \<times> string) option" where
  "script_calls S X script bindings [] st = Some st"
| "script_calls S X script bindings ((name, op) # calls) st =
     Option.bind (script_call S X script (gm_get bindings name) op st) (script_calls S X script bindings calls)"

subsection \<open>The step\<close>

definition getScriptRuntime :: "('t, 'v, 'n, 'w, 'c, 'p) script_env \<Rightarrow> ((string \<Rightarrow> string \<Rightarrow> 'p res) \<times> (string \<Rightarrow> Script option res)) res" where
  "getScriptRuntime X =
     (case sx_manager X of
        None \<Rightarrow> Inl (ErrText ''script cache manager is not configured'')
      | Some m \<Rightarrow>
          let (managerValue, hasManager) = GetCacheInstance m ScriptManagerCacheKey DefaultInstanceID;
              (storageValue, hasStorage) = GetCacheInstance m ScriptStorageCacheKey DefaultInstanceID
          in case (sx_runtime X managerValue, sx_storage X storageValue) of
               (Some manager, Some storage) \<Rightarrow>
                 if hasManager \<and> hasStorage then Inr (manager, storage) else Inl (ErrText ''script runtime is not configured'')
             | _ \<Rightarrow> Inl (ErrText ''script runtime is not configured''))"

definition scriptArgs :: "'t step_env \<Rightarrow> 't \<Rightarrow> DefaultMap" where
  "scriptArgs S config =
     (case tm_as_map (sp_tree S) (tm_get (sp_tree S) config ''args'') of
        None \<Rightarrow> []
      | Some m \<Rightarrow> (case json_copy (GObj m) of Inr (GObj c) \<Rightarrow> c | _ \<Rightarrow> []))"

definition hasDeclaredScriptOutcomes :: "Script \<Rightarrow> bool" where
  "hasDeclaredScriptOutcomes s \<longleftrightarrow> SupportsDeclaredScriptOutcomes (scr_Type s) \<and>
     (case scr_AdditionalProps s of None \<Rightarrow> False | Some props \<Rightarrow> gm_get props ''outcomes'' \<noteq> None)"

definition script_result :: "Script \<Rightarrow> bool \<Rightarrow> string \<Rightarrow> string res" where
  "script_result script asked outcome =
     (if outcome = '''' \<and> \<not> asked then Inl (ErrText ''script returned neither an outcome nor client inputs'')
      else if outcome \<noteq> '''' \<and> hasDeclaredScriptOutcomes script
      then (case find (\<lambda>allowed. EqualFold allowed outcome) (DeclaredScriptOutcomes (Some script)) of
              Some allowed \<Rightarrow> Inr allowed
            | None \<Rightarrow> Inl (ErrText (''script outcome '' @ outcome @ '' is not declared'')))
      else Inr outcome)"

definition run_program :: "'t step_env \<Rightarrow> ('t, 'v, 'n, 'w, 'c, 'p) script_env \<Rightarrow> Script \<Rightarrow> 'p \<Rightarrow> int \<Rightarrow> DefaultMap \<Rightarrow> 'w \<Rightarrow> 't JourneyTransaction
    \<Rightarrow> ('w \<times> 't JourneyTransaction \<times> string res) option" where
  "run_program S X script program timeout args w tx =
     (case resolvedScriptBindings S (sx_media X) (sx_bindings X) (sx_manager X) args (scr_Type script) tx of
        (tx1, Inl e) \<Rightarrow> Some (w, tx1, Inl e)
      | (tx1, Inr resolved) \<Rightarrow>
          let bindings = gm_put ''logger'' BLogger resolved in
          (case sx_execute X program bindings (wrap64 (timeout * second)) w tx1 of
             (calls, failure) \<Rightarrow>
               map_option (\<lambda>(w', tx2, outcome).
                 (w', tx2, case failure of Some e \<Rightarrow> Inl e | None \<Rightarrow> script_result script (tx_newClientInputs tx2 \<noteq> []) outcome))
                 (script_calls S X script bindings calls (w, tx1, ''''))))"

definition ScriptExecute :: "'t step_env \<Rightarrow> ('t, 'v, 'n, 'w, 'c, 'p) script_env \<Rightarrow> 't \<Rightarrow> 'w \<Rightarrow> 't JourneyTransaction
    \<Rightarrow> ('w \<times> 't JourneyTransaction \<times> string res) option" where
  "ScriptExecute S X config w tx =
     (let stop = (\<lambda>e. Some (w, tx, Inl e)); missing = ErrText ''script not found'' in
      case getScriptRuntime X of
        Inl e \<Rightarrow> stop e
      | Inr (compile, load) \<Rightarrow>
          (case tm_as_string (sp_tree S) (tm_get (sp_tree S) config ''script_id'') of
             None \<Rightarrow> stop (ErrText ''script_id is required'')
           | Some i \<Rightarrow>
               (case load i of
                  Inl _ \<Rightarrow> stop missing
                | Inr None \<Rightarrow> stop (GoPanic ''nil pointer dereference'')
                | Inr (Some script) \<Rightarrow>
                    if \<not> IsRunnableScriptType (sx_types X) (scr_Type script) then stop missing
                    else (case sx_raw X script of
                            Inl e \<Rightarrow> stop e
                          | Inr code \<Rightarrow>
                              (case compile (scr_Name script) code of
                                 Inl e \<Rightarrow> stop (ErrWrap (''compile script '' @ scr_Name script) e)
                               | Inr program \<Rightarrow>
                                   let timeout = get_int_or (sp_tree S) config ''timeout_seconds'' 60 in
                                   if timeout < 1 then stop (ErrText ''timeout_seconds must be positive'')
                                   else run_program S X script program timeout (scriptArgs S config) w tx)))))"

text \<open>The runtime of a manager that has none: \<open>open_folder\<close> opens and loads a storage folder.\<close>

definition EnsureDefaultScriptRuntime :: "'n nstore \<Rightarrow> ('v dyn \<Rightarrow> bool) \<Rightarrow> ('v dyn \<Rightarrow> bool) \<Rightarrow> (string \<Rightarrow> ('v dyn \<times> 'v dyn) res) \<Rightarrow> string
    \<Rightarrow> ('v, 'n) Manager \<Rightarrow> ('v, 'n) Manager \<times> go_error option" where
  "EnsureDefaultScriptRuntime N is_manager is_storage open_folder folder m =
     (let (managerValue, hasManager) = GetCacheInstance m ScriptManagerCacheKey DefaultInstanceID;
          (storageValue, hasStorage) = GetCacheInstance m ScriptStorageCacheKey DefaultInstanceID
      in if hasManager \<or> hasStorage
         then (m, if \<not> hasManager \<or> \<not> hasStorage then Some (ErrText ''script runtime cache is incomplete'')
                  else if \<not> is_manager managerValue then Some (ErrText ''script manager cache has an invalid type'')
                  else if \<not> is_storage storageValue then Some (ErrText ''script storage cache has an invalid type'')
                  else None)
         else (case open_folder (if folder = '''' then ''js-scripts'' else folder) of
                 Inl e \<Rightarrow> (m, Some e)
               | Inr (manager, storage) \<Rightarrow>
                   (case ConfigureScriptRuntime N (Some manager) (Some storage) (Some m) of (m', r) \<Rightarrow> (or_default m' m, r))))"

end
