(* ===== verification/ScriptFacts.thy ===== *)
theory ScriptFacts
  imports ScriptStep FlowFacts
begin

text \<open>
  What scripts can do: whatever a program calls, the outcome of its step is one the script declares, inputs are asked
  only by scripts of the type \<open>auth\<close>, and the bindings that the API describes are those a program finds.
\<close>

subsection \<open>Outcomes\<close>

lemma script_result_Inr:
  assumes "script_result script asked outcome = Inr r"
  shows "(r = '''' \<longrightarrow> asked) \<and> (r \<noteq> '''' \<and> hasDeclaredScriptOutcomes script \<longrightarrow> r \<in> set (DeclaredScriptOutcomes (Some script)))"
proof (cases "outcome \<noteq> '''' \<and> hasDeclaredScriptOutcomes script")
  case True
  then obtain allowed where f: "find (\<lambda>a. EqualFold a outcome) (DeclaredScriptOutcomes (Some script)) = Some allowed" and r: "r = allowed"
    using assms by (auto simp: script_result_def split: option.splits)
  have "allowed \<in> set (DeclaredScriptOutcomes (Some script))" "EqualFold allowed outcome" using f by (auto simp: find_Some_iff)
  with True r show ?thesis by (auto simp: EqualFold_def ToLower_def)
next
  case False
  with assms show ?thesis by (auto simp: script_result_def split: if_splits)
qed


subsection \<open>Confinement\<close>

definition asks :: "'c binding \<Rightarrow> bool" where
  "asks b = (case b of BClientInputs \<Rightarrow> True | BCustom c \<Rightarrow> True | _ \<Rightarrow> False)"

definition writes :: "'c binding \<Rightarrow> bool" where
  "writes b = (case b of BClientInputs \<Rightarrow> True | BCustom c \<Rightarrow> True | BCtx k \<Rightarrow> True | _ \<Rightarrow> False)"

lemma call_asks_not:
  assumes "script_call S X script b op (w, tx, r) = Some (w', tx', r')" and "\<forall>x. b = Some x \<longrightarrow> \<not> asks x"
  shows "tx_newClientInputs tx' = tx_newClientInputs tx"
  using assms
  by (auto simp: script_call_def asks_def scriptLogger_def EmitEvent_def ctx_set_def ctx_delete_def ctx_update_def split_beta
      split: option.splits binding.splits script_op.splits sum.splits)

lemma call_writes_not:
  assumes "script_call S X script b op (w, tx, r) = Some (w', tx', r')" and "\<forall>x. b = Some x \<longrightarrow> \<not> writes x"
  shows "ctx_view S k tx' = ctx_view S k tx"
  using assms
  by (auto simp: script_call_def writes_def scriptLogger_def EmitEvent_def ctx_view_def
      split: option.splits binding.splits script_op.splits sum.splits)

lemma calls_keep:
  assumes step: "\<And>b op w tx r w' tx' r'. \<lbrakk>script_call S X script b op (w, tx, r) = Some (w', tx', r'); \<forall>x. b = Some x \<longrightarrow> \<not> Q x\<rbrakk> \<Longrightarrow> P tx' = P tx"
    and none: "\<forall>name x. gm_get bindings name = Some x \<longrightarrow> \<not> Q x"
  shows "script_calls S X script bindings calls (w, tx, r) = Some (w', tx', r') \<Longrightarrow> P tx' = P tx"
proof (induction calls arbitrary: w tx r)
  case (Cons c calls)
  obtain name op where c: "c = (name, op)" by fastforce
  from Cons.prems c obtain w1 tx1 r1 where s: "script_call S X script (gm_get bindings name) op (w, tx, r) = Some (w1, tx1, r1)"
    and rest: "script_calls S X script bindings calls (w1, tx1, r1) = Some (w', tx', r')"
    by (auto simp: bind_eq_Some_conv)
  from Cons.IH [OF rest] step [OF s] none show ?case by simp
qed simp

text \<open>The bindings without a configured provider.\<close>

lemma default_bindings_values:
  assumes "scriptBindings S media args t tx = (tx', Inr bs)" and "(name, b) \<in> set bs"
  shows "NormalizeScriptType t \<noteq> ''auth'' \<Longrightarrow> \<not> asks b" and "NormalizeScriptType t = ''schedule'' \<Longrightarrow> \<not> writes b"
  using assms
  by (auto simp: scriptBindings_def Let_def asks_def writes_def isDefaultExtensibleScriptType_def split: if_splits prod.splits sum.splits)

lemma request_binding_keeps:
  "tx_newClientInputs (fst (request_binding media tx)) = tx_newClientInputs tx" "ctx_view S k (fst (request_binding media tx)) = ctx_view S k tx"
  by (auto simp: request_binding_def ctx_view_def split: option.split prod.split)

lemma context_bindings_keep:
  "tx_newClientInputs (context_bindings S tx) = tx_newClientInputs tx" "ctx_view S k (context_bindings S tx) = ctx_view S k tx"
  by (simp_all add: context_bindings_def) (simp add: ctx_read_def split_beta)

lemma default_bindings_keep:
  assumes "scriptBindings S media args t tx = (tx', r)"
  shows "tx_newClientInputs tx' = tx_newClientInputs tx" and "ctx_view S k tx' = ctx_view S k tx"
proof -
  consider "tx' = tx" | "tx' = context_bindings S tx" | "tx' = fst (request_binding media (context_bindings S tx))"
    using assms by (cases "request_binding media (context_bindings S tx)")
      (auto simp: scriptBindings_def Let_def split: if_splits sum.splits prod.splits)
  then show "tx_newClientInputs tx' = tx_newClientInputs tx" "ctx_view S k tx' = ctx_view S k tx"
    by (cases; simp add: request_binding_keeps context_bindings_keep)+
qed

lemma program_keeps:
  fixes X :: "('t, 'v, 'n, 'w, 'c, 'p) script_env" and Q :: "'c binding \<Rightarrow> bool"
  assumes run: "run_program S X script program timeout args w tx = Some (w', tx', r)"
    and no_provider: "configuredBindings (sx_bindings X) (sx_manager X) (scr_Type script) = Inr None"
    and start: "\<And>tx1 (b :: 'c binding gomap res). scriptBindings S (sx_media X) args (scr_Type script) tx = (tx1, b) \<Longrightarrow> P tx1 = P tx"
    and step: "\<And>b op w tx r w' tx' r'. \<lbrakk>script_call S X script b op (w, tx, r) = Some (w', tx', r'); \<forall>x. b = Some x \<longrightarrow> \<not> Q x\<rbrakk> \<Longrightarrow> P tx' = P tx"
    and none: "\<And>tx1 (bs :: 'c binding gomap) name b. \<lbrakk>scriptBindings S (sx_media X) args (scr_Type script) tx = (tx1, Inr bs); (name, b) \<in> set bs\<rbrakk> \<Longrightarrow> \<not> Q b"
    and logger: "\<not> Q BLogger"
  shows "P tx' = P tx"
proof -
  obtain tx1 and rb :: "'c binding gomap res" where b: "scriptBindings S (sx_media X) args (scr_Type script) tx = (tx1, rb)" by fastforce
  show ?thesis
  proof (cases rb)
    case (Inl e)
    with run b start [OF b] show ?thesis by (simp add: run_program_def resolvedScriptBindings_def)
  next
    case (Inr bs)
    let ?bs = "gm_put ''logger'' BLogger bs"
    obtain calls failure where e: "sx_execute X program ?bs (wrap64 (timeout * second)) w tx1 = (calls, failure)" by fastforce
    from run b Inr no_provider e obtain r' where c: "script_calls S X script ?bs calls (w, tx1, '''') = Some (w', tx', r')"
      by (auto simp: run_program_def resolvedScriptBindings_def Let_def)
    have "\<not> Q x" if "gm_get ?bs name = Some x" for name x
    proof (cases "name = ''logger''")
      case False
      with that have "(name, x) \<in> set bs" by (intro gm_get_in_set) (simp add: gm_get_put)
      with none [OF b [unfolded Inr]] show ?thesis by blast
    qed (use that logger in \<open>simp add: gm_get_put\<close>)
    then have "\<forall>name x. gm_get ?bs name = Some x \<longrightarrow> \<not> Q x" by blast
    then have "P tx' = P tx1" using c by (rule calls_keep [where P = P and Q = Q, rotated]) (rule step)
    also have "\<dots> = P tx" by (rule start [OF b])
    finally show ?thesis .
  qed
qed

text \<open>C12. Scripts are confined by their type: without a configured provider, whatever the program does, a script of
  another type than \<open>auth\<close> asks the client for nothing, and a script of the type \<open>schedule\<close>, run by a step, leaves the contexts
  of the journey as they were.\<close>

theorem script_confined:
  assumes run: "ScriptExecute S X config w tx = Some (w', tx', r)" and X: "getScriptRuntime X = Inr (compile, load)"
    and i: "tm_as_string (sp_tree S) (tm_get (sp_tree S) config ''script_id'') = Some i" and script: "load i = Inr (Some script)"
    and none: "configuredBindings (sx_bindings X) (sx_manager X) (scr_Type script) = Inr None"
  shows "(NormalizeScriptType (scr_Type script) \<noteq> ''auth'' \<longrightarrow> tx_newClientInputs tx' = tx_newClientInputs tx) \<and>
    (NormalizeScriptType (scr_Type script) = ''schedule'' \<longrightarrow> (\<forall>k. ctx_view S k tx' = ctx_view S k tx))"
proof -
  consider "tx' = tx" | program timeout where "run_program S X script program timeout (scriptArgs S config) w tx = Some (w', tx', r)"
    using run X i script by (auto simp: ScriptExecute_def Let_def split: sum.splits if_splits)
  then show ?thesis
  proof cases
    case 2
    have "tx_newClientInputs tx' = tx_newClientInputs tx" if "NormalizeScriptType (scr_Type script) \<noteq> ''auth''"
      by (rule program_keeps [where P = tx_newClientInputs and Q = asks, OF 2 none])
        ((rule default_bindings_keep(1), assumption) | (rule call_asks_not, assumption, assumption) |
         (rule default_bindings_values(1), assumption, assumption, rule that) | simp add: asks_def)+
    moreover have "ctx_view S k tx' = ctx_view S k tx" if "NormalizeScriptType (scr_Type script) = ''schedule''" for k
      by (rule program_keeps [where P = "ctx_view S k" and Q = writes, OF 2 none])
        ((rule default_bindings_keep(2), assumption) | (rule call_writes_not, assumption, assumption) |
         (rule default_bindings_values(2), assumption, assumption, rule that) | simp add: writes_def)+
    ultimately show ?thesis by blast
  qed simp
qed

subsection \<open>Descriptions\<close>

lemma normalized_types [simp]:
  "NormalizeScriptType ''auth'' = ''auth''" "NormalizeScriptType ''resource'' = ''resource''"
  "NormalizeScriptType ''workflow'' = ''workflow''" "NormalizeScriptType ''schedule'' = ''schedule''"
  by code_simp+

definition common_names :: "string list" where
  "common_names = [''args'', ''http'', ''scheduleCache'', ''realm'', ''encoding'', ''crypto'', ''setOutcome'', ''ctx'', ''encCtx'', ''closedCtx'', ''tempCtx'']"

lemma provided_names:
  "scriptBindings S media args ''auth'' tx = (tx', Inr bs) \<Longrightarrow> map fst bs = common_names @ [''request'', ''requestQuery'', ''requestHeader'', ''clientInputs'']"
  "scriptBindings S media args ''resource'' tx = (tx', Inr bs) \<Longrightarrow> map fst bs = common_names @ [''request'', ''requestQuery'', ''requestHeader'']"
  "scriptBindings S media args ''workflow'' tx = (tx', Inr bs) \<Longrightarrow> map fst bs = common_names"
  by (auto simp: scriptBindings_def isDefaultExtensibleScriptType_def common_names_def Let_def split: prod.splits sum.splits)

lemma described_names:
  "set (map bd_Name (defaultScriptBindingDescriptors ''auth'')) = insert ''logger'' (set (common_names @ [''request'', ''requestQuery'', ''requestHeader'', ''clientInputs'']))"
  "set (map bd_Name (defaultScriptBindingDescriptors ''resource'')) = insert ''logger'' (set (common_names @ [''request'', ''requestQuery'', ''requestHeader'']))"
  "set (map bd_Name (defaultScriptBindingDescriptors ''workflow'')) = insert ''logger'' (set common_names)"
  "set (map bd_Name (defaultScriptBindingDescriptors ''schedule'')) \<subseteq>
     set [''args'', ''script_id'', ''timeout_seconds'', ''http'', ''scheduleCache'', ''previousResult'', ''SetResult'', ''realm'', ''encoding'', ''crypto'', ''logger'']"
  by code_simp+


subsection \<open>Samples\<close>

definition login_script :: Script where
  "login_script = \<lparr>scr_Metadata = None, scr_Name = ''login'', scr_Type = ''Resource'', scr_AdditionalProps = Some [(''outcomes'', GArr [GStr ''Ok '', GStr ''no''])],
     scr_Code = ''''\<rparr>"

definition script_manager :: "(unit, unit) Manager" where
  "script_manager = (empty_manager \<lparr>mc_FolderPath = '''', mc_Caches = [], mc_ConfigResolver = None\<rparr>)\<lparr>m_caches :=
     [(ScriptManagerCacheKey, [(DefaultInstanceID, zero_instance\<lparr>ci_value := DPtr ()\<rparr>)]),
      (ScriptStorageCacheKey, [(DefaultInstanceID, zero_instance\<lparr>ci_value := DPtr ()\<rparr>)])]\<rparr>"

definition load_script :: "string \<Rightarrow> Script option res" where
  "load_script i = Inr (Some login_script)"

definition compile_script :: "string \<Rightarrow> string \<Rightarrow> unit res" where
  "compile_script name code = Inr ()"

definition sample_scripts :: "(gval, unit, unit, nat, unit, unit) script_env" where
  "sample_scripts = \<lparr>sx_manager = Some script_manager, sx_types = scriptTypesRegistry, sx_media = (\<lambda>s. (s, [])), sx_bindings = (\<lambda>v. None),
     sx_client = (\<lambda>v. None), sx_Client = None, sx_cache = (\<lambda>v. None), sx_custom = (\<lambda>c v x. x), sx_storage = (\<lambda>v. Some load_script),
     sx_runtime = (\<lambda>v. Some compile_script), sx_raw = (\<lambda>s. Inr ''''),
     sx_execute = (\<lambda>p b t w tx. ([(''setOutcome'', OpSetOutcome '' OK ''), (''clientInputs'', OpAddMessageInput []), (''ctx'', OpTreeSet ''a'' (GInt 1))], None))\<rparr>"

definition script_config :: gval where
  "script_config = GObj [(''script_id'', GStr ''s1'')]"

lemma sample_script:
  "case ScriptExecute flow_env sample_scripts script_config 0 (flow_tx [] zero_state) of
     Some (w, tx', r) \<Rightarrow> r = Inr ''ok'' | None \<Rightarrow> False"
  "tm_as_string (sp_tree flow_env) (tm_get (sp_tree flow_env) script_config ''script_id'') = Some ''s1''"
  "NormalizeScriptType (scr_Type login_script) = ''resource''" "hasDeclaredScriptOutcomes login_script"
  by code_simp+

lemma sample_script_runtime:
  "getScriptRuntime sample_scripts = Inr (compile_script, load_script)"
  "configuredBindings (sx_bindings sample_scripts) (sx_manager sample_scripts) (scr_Type login_script) = Inr None"
  by (simp_all add: getScriptRuntime_def sample_scripts_def script_manager_def GetCacheInstance_def ScriptManagerCacheKey_def ScriptStorageCacheKey_def
      configuredBindings_def ScriptBindingsCacheKey_def Let_def)


theorem script_confined_witness:
  "\<exists>w' tx'. ScriptExecute flow_env sample_scripts script_config 0 (flow_tx [] zero_state) = Some (w', tx', Inr ''ok'') \<and>
     tx_newClientInputs tx' = tx_newClientInputs (flow_tx [] zero_state :: gval JourneyTransaction)"
proof -
  obtain w' tx' where r: "ScriptExecute flow_env sample_scripts script_config 0 (flow_tx [] zero_state) = Some (w', tx', Inr ''ok'')"
    using sample_script(1) by (auto split: option.splits)
  from script_confined [OF r sample_script_runtime(1) sample_script(2) _ sample_script_runtime(2)] sample_script(3) show ?thesis
    using r by (auto simp: load_script_def)
qed


end
