(* ===== verification/Registries.thy ===== *)
theory Registries
  imports JwtSteps
begin

text \<open>
  Registries of the engine: listeners of finished journeys (\<^verbatim>\<open>journey.listeners.go\<close>) and the observer that writes
  events as JSON (\<^verbatim>\<open>observer.go\<close>); the JSON schemas of steps (\<^verbatim>\<open>types/schemas.step.go\<close>); and the definitions of
  runtime instances (\<^verbatim>\<open>steps/instance.registry.go\<close>, \<^verbatim>\<open>steps/cache.config.go\<close>). Listeners run in goroutines of their own, so
  a delivery is a pair of listener and event. The reflection of Go structs, the JSON-schema compiler and
  JSON texts are parameters.
\<close>

section \<open>Listeners\<close>

datatype JourneyExecutionStatus = JourneyExecutionSucceeded | JourneyExecutionFailed

record 't JourneyExecutionEvent =
  je_Status :: JourneyExecutionStatus
  je_Journey :: JourneyConfiguration
  je_State :: "'t JourneyState option"
  je_EventPayload :: JourneyPayloadReq
  je_Error :: "go_error option"

record 'l journeyListenerRegistry =
  lr_success :: "'l option gomap"
  lr_failure :: "'l option gomap"

definition newJourneyListenerRegistry :: "'l journeyListenerRegistry" where
  "newJourneyListenerRegistry = \<lparr>lr_success = [], lr_failure = []\<rparr>"

text \<open>\<open>uuid\<close> is the new identifier; registering nil gives the empty one.\<close>

definition add_listener :: "string \<Rightarrow> 'l option \<Rightarrow> 'l option gomap \<Rightarrow> 'l option gomap \<times> string" where
  "add_listener uuid listener target = (if listener = None then (target, '''') else (gm_put uuid listener target, uuid))"

definition addSuccess :: "string \<Rightarrow> 'l option \<Rightarrow> 'l journeyListenerRegistry \<Rightarrow> 'l journeyListenerRegistry \<times> string" where
  "addSuccess uuid listener r = (case add_listener uuid listener (lr_success r) of (m, i) \<Rightarrow> (r\<lparr>lr_success := m\<rparr>, i))"

definition addFailure :: "string \<Rightarrow> 'l option \<Rightarrow> 'l journeyListenerRegistry \<Rightarrow> 'l journeyListenerRegistry \<times> string" where
  "addFailure uuid listener r = (case add_listener uuid listener (lr_failure r) of (m, i) \<Rightarrow> (r\<lparr>lr_failure := m\<rparr>, i))"

definition remove_listener :: "string \<Rightarrow> 'l journeyListenerRegistry \<Rightarrow> 'l journeyListenerRegistry" where
  "remove_listener i r = (if i = '''' then r else r\<lparr>lr_success := gm_del i (lr_success r), lr_failure := gm_del i (lr_failure r)\<rparr>)"

definition listener_snapshot :: "JourneyExecutionStatus \<Rightarrow> 'l journeyListenerRegistry \<Rightarrow> 'l list" where
  "listener_snapshot status r =
     List.map_filter snd (if status = JourneyExecutionFailed then lr_failure r else lr_success r)"

text \<open>The methods of the manager, whose registry may be nil.\<close>

definition OnJourneySuccess :: "string \<Rightarrow> 'l option \<Rightarrow> 'l journeyListenerRegistry option \<Rightarrow> 'l journeyListenerRegistry option \<times> string" where
  "OnJourneySuccess uuid listener ro = (case ro of None \<Rightarrow> (None, '''') | Some r \<Rightarrow> map_prod Some id (addSuccess uuid listener r))"

definition OnJourneyFailure :: "string \<Rightarrow> 'l option \<Rightarrow> 'l journeyListenerRegistry option \<Rightarrow> 'l journeyListenerRegistry option \<times> string" where
  "OnJourneyFailure uuid listener ro = (case ro of None \<Rightarrow> (None, '''') | Some r \<Rightarrow> map_prod Some id (addFailure uuid listener r))"

definition RemoveJourneyListener :: "string \<Rightarrow> 'l journeyListenerRegistry option \<Rightarrow> 'l journeyListenerRegistry option" where
  "RemoveJourneyListener i ro = map_option (remove_listener i) ro"

definition emitJourneyExecutionEvent :: "'t JourneyExecutionEvent option \<Rightarrow> 'l journeyListenerRegistry option \<Rightarrow> ('l \<times> 't JourneyExecutionEvent) list" where
  "emitJourneyExecutionEvent event ro =
     (case (ro, event) of (Some r, Some e) \<Rightarrow> map (\<lambda>l. (l, e)) (listener_snapshot (je_Status e) r) | _ \<Rightarrow> [])"

text \<open>The event of an execution, from the three values it returns: none when the journey waits for the client.\<close>

definition execution_event :: "JourneyConfiguration \<Rightarrow> JourneyPayloadReq \<Rightarrow> JourneyPayloadReq option \<Rightarrow> 't JourneyState option \<Rightarrow> go_error option
    \<Rightarrow> 't JourneyExecutionEvent option" where
  "execution_event journey payload response state err =
     (if response = None
      then Some \<lparr>je_Status = (if err \<noteq> None then JourneyExecutionFailed else JourneyExecutionSucceeded), je_Journey = journey, je_State = state,
                 je_EventPayload = payload, je_Error = err\<rparr>
      else None)"

subsection \<open>The JSON observer\<close>

record jsonEvent =
  jn_Type :: EventType
  jn_Message :: string
  jn_Error :: string
  jn_Subject :: EventSubject

text \<open>\<open>text\<close> is the text of an error and \<open>encode\<close> the line that \<^verbatim>\<open>json.Encoder\<close> writes; times and attributes are left out,
  as in the model of events.\<close>

definition OnEvent :: "(go_error \<Rightarrow> string) \<Rightarrow> (jsonEvent \<Rightarrow> string) \<Rightarrow> Event option \<Rightarrow> string \<Rightarrow> string" where
  "OnEvent txt encode event out =
     (case event of
        None \<Rightarrow> out
      | Some e \<Rightarrow>
          out @ encode \<lparr>jn_Type = ev_Type e, jn_Message = ev_Message e, jn_Error = (case ev_Error e of None \<Rightarrow> '''' | Some err \<Rightarrow> txt err),
                        jn_Subject = ev_Subject e\<rparr>)"

section \<open>Schemas with placeholders\<close>

definition placeholderSchema :: gval where
  "placeholderSchema = GObj [(''type'', GStr ''string''), (''pattern'', GStr ([CHR 0x5C] @ ''$'' @ [CHR 0x5C] @ ''{[^{}.]+'' @ [CHR 0x5C] @ ''.[^{}]+'' @ [CHR 0x5C] @ ''}''))]"

definition or_placeholder :: "gval \<Rightarrow> gval" where
  "or_placeholder v = GObj [(''anyOf'', GArr [v, placeholderSchema])]"

text \<open>Both decorations of the code: \<open>static\<close> says which properties keep their schema. \<open>allow_schema\<close> is that of a schema and
  \<open>decorate_schema\<close> that of its children only.\<close>

fun allow_schema :: "(string \<Rightarrow> bool) \<Rightarrow> gval \<Rightarrow> gval" and allow_entries :: "(string \<Rightarrow> bool) \<Rightarrow> (string \<times> gval) list \<Rightarrow> (string \<times> gval) list"
  and decorate_schema :: "(string \<Rightarrow> bool) \<Rightarrow> gval \<Rightarrow> gval" and decorate_entries :: "(string \<Rightarrow> bool) \<Rightarrow> (string \<times> gval) list \<Rightarrow> (string \<times> gval) list"
  and allow_definitions :: "(string \<Rightarrow> bool) \<Rightarrow> gval \<Rightarrow> gval" and definition_entries :: "(string \<Rightarrow> bool) \<Rightarrow> (string \<times> gval) list \<Rightarrow> (string \<times> gval) list"
  and allow_properties :: "(string \<Rightarrow> bool) \<Rightarrow> gval \<Rightarrow> gval" and property_entries :: "(string \<Rightarrow> bool) \<Rightarrow> (string \<times> gval) list \<Rightarrow> (string \<times> gval) list" where
  "allow_schema static (GObj m) = GObj (allow_entries static m)"
| "allow_schema static v = v"
| "allow_entries static [] = []"
| "allow_entries static ((k, v) # m) =
     (k, if k = ''properties'' then allow_properties static v else if k = ''definitions'' then allow_definitions static v
         else if k = ''items'' \<or> k = ''additionalProperties'' then allow_schema static v else v) # allow_entries static m"
| "decorate_schema static (GObj m) = GObj (decorate_entries static m)"
| "decorate_schema static v = v"
| "decorate_entries static [] = []"
| "decorate_entries static ((k, v) # m) =
     (k, if k = ''definitions'' then allow_definitions static v
         else if k = ''items'' \<or> k = ''additionalProperties'' then allow_schema static v else v) # decorate_entries static m"
| "allow_definitions static (GObj m) = GObj (definition_entries static m)"
| "allow_definitions static v = v"
| "definition_entries static [] = []"
| "definition_entries static ((k, v) # m) = (k, allow_schema static v) # definition_entries static m"
| "allow_properties static (GObj m) = GObj (property_entries static m)"
| "allow_properties static v = v"
| "property_entries static [] = []"
| "property_entries static ((k, v) # m) =
     (k, case v of GObj p \<Rightarrow> (if static k then decorate_schema static v else or_placeholder (decorate_schema static v)) | _ \<Rightarrow> v) # property_entries static m"

definition staticStepProperty :: "string \<Rightarrow> bool" where
  "staticStepProperty name \<longleftrightarrow> name \<in> set [''outcome'', ''steps'', ''step_type'', ''name'', ''vars'']"

definition allowStepPlaceholders :: "gval \<Rightarrow> gval" where
  "allowStepPlaceholders = allow_schema staticStepProperty"

definition allowInstanceConfigPlaceholders :: "gval \<Rightarrow> gval" where
  "allowInstanceConfigPlaceholders = allow_schema (\<lambda>_. False)"

section \<open>Schemas of steps\<close>

text \<open>The compiler \<open>'k\<close> of the JSON-schema library, with its resources, and compiled schemas \<open>'v\<close>. A schema document is
  represented by the value its text denotes.\<close>

record ('k, 'v) schema_lib =
  sl_new :: 'k
  sl_add :: "string \<Rightarrow> gval \<Rightarrow> 'k \<Rightarrow> 'k \<times> go_error option"
  sl_compile :: "string \<Rightarrow> 'k \<Rightarrow> 'k \<times> 'v res"
  sl_valid :: "'v \<Rightarrow> gval \<Rightarrow> go_error option"

record ('k, 'v) SchemaForm =
  sf_compiler :: 'k
  sf_schemas :: "'v gomap"
  sf_raw :: "gval gomap"

definition defaultSchemaBaseURL :: string where "defaultSchemaBaseURL = ''https://localhost:3000''"

definition schemaResourceName :: "string \<Rightarrow> string \<Rightarrow> string" where
  "schemaResourceName baseURL name =
     TrimRight (if TrimSpace baseURL = '''' then defaultSchemaBaseURL else baseURL) (CHR ''/'') @ ''/schemas/'' @ name @ ''.json''"

definition NewSchemaForm :: "('k, 'v) schema_lib \<Rightarrow> ('k, 'v) SchemaForm" where
  "NewSchemaForm L = \<lparr>sf_compiler = sl_new L, sf_schemas = [], sf_raw = []\<rparr>"

fun add_resources :: "('k, 'v) schema_lib \<Rightarrow> string \<Rightarrow> gval gomap \<Rightarrow> string list \<Rightarrow> 'k \<Rightarrow> 'k option" where
  "add_resources L url raw [] k = Some k"
| "add_resources L url raw (name # names) k =
     (case sl_add L (schemaResourceName url name) (or_default (gm_get raw name) GNil) k of
        (k', Some e) \<Rightarrow> None
      | (k', None) \<Rightarrow> add_resources L url raw names k')"

fun compile_resources :: "('k, 'v) schema_lib \<Rightarrow> string \<Rightarrow> string list \<Rightarrow> 'v gomap \<Rightarrow> 'k \<Rightarrow> ('k \<times> 'v gomap) option" where
  "compile_resources L url [] compiled k = Some (k, compiled)"
| "compile_resources L url (name # names) compiled k =
     (case sl_compile L (schemaResourceName url name) k of
        (k', Inl e) \<Rightarrow> None
      | (k', Inr v) \<Rightarrow> compile_resources L url names (gm_put name v compiled) k')"

text \<open>A rebuild that fails leaves the registry as it was.\<close>

definition recompileResources :: "('k, 'v) schema_lib \<Rightarrow> string \<Rightarrow> ('k, 'v) SchemaForm \<Rightarrow> ('k, 'v) SchemaForm" where
  "recompileResources L url sf =
     (let names = sort (map fst (sf_raw sf)) in
      case add_resources L url (sf_raw sf) names (sl_new L) of
        None \<Rightarrow> sf
      | Some k \<Rightarrow> (case compile_resources L url names [] k of
                     None \<Rightarrow> sf
                   | Some (k', compiled) \<Rightarrow> sf\<lparr>sf_compiler := k', sf_schemas := compiled\<rparr>))"

definition AddRawSchema :: "('k, 'v) schema_lib \<Rightarrow> string \<Rightarrow> string \<Rightarrow> gval \<Rightarrow> ('k, 'v) SchemaForm \<Rightarrow> ('k, 'v) SchemaForm \<times> go_error option" where
  "AddRawSchema L url name doc sf =
     (case sl_add L (schemaResourceName url name) doc (sf_compiler sf) of
        (k, Some e) \<Rightarrow> (sf\<lparr>sf_compiler := k\<rparr>, Some e)
      | (k, None) \<Rightarrow>
          (case sl_compile L (schemaResourceName url name) k of
             (k', Inl e) \<Rightarrow> (sf\<lparr>sf_compiler := k'\<rparr>, Some e)
           | (k', Inr v) \<Rightarrow> (\<lparr>sf_compiler = k', sf_schemas = gm_put name v (sf_schemas sf), sf_raw = gm_put name doc (sf_raw sf)\<rparr>, None)))"

text \<open>\<open>reflect\<close> gives the name of a struct and, with the extra properties, its schema; an error for what is not a struct.\<close>

definition AddSchema :: "('k, 'v) schema_lib \<Rightarrow> string \<Rightarrow> ('x \<Rightarrow> DefaultMap gomap \<Rightarrow> (string \<times> gval) res) \<Rightarrow> 'x \<Rightarrow> DefaultMap gomap
    \<Rightarrow> ('k, 'v) SchemaForm \<Rightarrow> ('k, 'v) SchemaForm \<times> go_error option" where
  "AddSchema L url reflect v extra sf =
     (case reflect v extra of
        Inl e \<Rightarrow> (sf, Some e)
      | Inr (name, doc) \<Rightarrow> AddRawSchema L url name (allowStepPlaceholders doc) sf)"

definition GetSchema :: "string \<Rightarrow> ('k, 'v) SchemaForm \<Rightarrow> gval option" where
  "GetSchema name sf = gm_get (sf_raw sf) name"

definition SchemaForm_Validate :: "('k, 'v) schema_lib \<Rightarrow> string \<Rightarrow> gval res \<Rightarrow> ('k, 'v) SchemaForm \<Rightarrow> go_error option" where
  "SchemaForm_Validate L name decoded sf =
     (case gm_get (sf_schemas sf) name of
        None \<Rightarrow> Some (ErrText (''schema '' @ name @ '' no encontrado''))
      | Some v \<Rightarrow> (case decoded of Inl e \<Rightarrow> Some e | Inr d \<Rightarrow> sl_valid L v d))"

section \<open>Definitions of instances\<close>

record ('v, 'x) InstanceDefinition =
  id_Key :: string
  id_Config :: "'x option"
  id_Factory :: "(raw \<Rightarrow> 'v dyn res) option"
  id_MaxInstances :: int
  id_MaxSizeBytes :: int
  id_Description :: string
  id_Internal :: bool

record ('v, 'x) registeredInstance =
  ri_definition :: "('v, 'x) InstanceDefinition"
  ri_schema :: raw

type_synonym ('v, 'x) InstanceRegistry = "('v, 'x) registeredInstance gomap"

text \<open>The properties at a path of a schema, changed by \<open>f\<close>; a path that leads nowhere changes nothing.\<close>

fun at_schema_path :: "string list \<Rightarrow> (DefaultMap \<Rightarrow> DefaultMap) \<Rightarrow> gval \<Rightarrow> gval option" where
  "at_schema_path [] f (GObj m) = Some (GObj (f m))"
| "at_schema_path (part # parts) f (GObj m) =
     (case gm_get m ''properties'' of
        Some (GObj ps) \<Rightarrow>
          (case gm_get ps part of
             Some v \<Rightarrow> map_option (\<lambda>v'. GObj (gm_put ''properties'' (GObj (gm_put part v' ps)) m)) (at_schema_path parts f v)
           | None \<Rightarrow> None)
      | _ \<Rightarrow> None)"
| "at_schema_path parts f v = None"

definition instanceSchemaPath :: "string \<Rightarrow> string list" where
  "instanceSchemaPath path0 = (let path = TrimSpace path0 in if path = '''' \<or> path = ''.'' then [] else Split path (CHR ''.''))"

definition applyInstanceSchemaExtensions :: "DefaultMap gomap \<Rightarrow> gval \<Rightarrow> gval" where
  "applyInstanceSchemaExtensions extensions schema =
     fold (\<lambda>(path, vs) s. or_default (at_schema_path (instanceSchemaPath path) (\<lambda>m. fold (\<lambda>(k, v). gm_put k v) vs m) s) s) extensions schema"

text \<open>\<open>reflect\<close> is the schema of a struct and \<open>marshal\<close> the text of a document.\<close>

definition instanceConfigSchema :: "('x \<Rightarrow> DefaultMap option) \<Rightarrow> (gval \<Rightarrow> raw option) \<Rightarrow> 'x option \<Rightarrow> string \<Rightarrow> DefaultMap gomap \<Rightarrow> raw" where
  "instanceConfigSchema reflect marshal v description extensions =
     (case Option.bind v reflect of
        None \<Rightarrow> ''''
      | Some document \<Rightarrow>
          let described = (if description \<noteq> '''' then gm_put ''description'' (GStr description) document else document) in
          or_default (marshal (allowInstanceConfigPlaceholders (applyInstanceSchemaExtensions extensions (GObj described)))) '''')"

definition AddInstance :: "('x \<Rightarrow> DefaultMap option) \<Rightarrow> (gval \<Rightarrow> raw option) \<Rightarrow> ('v, 'x) InstanceDefinition option \<Rightarrow> DefaultMap gomap
    \<Rightarrow> ('v, 'x) InstanceRegistry \<Rightarrow> ('v, 'x) InstanceRegistry res" where
  "AddInstance reflect marshal def extensions registry =
     (case def of
        None \<Rightarrow> Inl (GoPanic ''instance definition is required'')
      | Some d0 \<Rightarrow>
          let d = d0\<lparr>id_Key := TrimSpace (id_Key d0)\<rparr> in
          if id_Key d = '''' then Inl (GoPanic ''instance key is required'')
          else Inr (gm_put (id_Key d) \<lparr>ri_definition = d,
                      ri_schema = instanceConfigSchema reflect marshal (id_Config d) (id_Description d) extensions\<rparr> registry))"

definition instance_config :: "('v, 'x) registeredInstance \<Rightarrow> 'v CacheConfig" where
  "instance_config r =
     (let d = ri_definition r in
      \<lparr>cc_Factory = id_Factory d, cc_MaxInstances = id_MaxInstances d, cc_MaxSizeBytes = id_MaxSizeBytes d, cc_Description = id_Description d,
       cc_Schema = ri_schema r, cc_UserConfigurable = (id_Factory d \<noteq> None \<and> \<not> id_Internal d)\<rparr>)"

fun apply_definitions :: "('v, 'x) registeredInstance list \<Rightarrow> ('v, 'n) Manager \<Rightarrow> ('v, 'n) Manager \<times> go_error option" where
  "apply_definitions [] m = (m, None)"
| "apply_definitions (r # rs) m =
     (case ConfigureCacheIfMissing (id_Key (ri_definition r)) (Some (instance_config r)) m of
        (m1, Some e) \<Rightarrow> (m1, Some e)
      | (m1, None) \<Rightarrow> apply_definitions rs m1)"

definition RegistryApply :: "('v, 'x) InstanceRegistry \<Rightarrow> ('v, 'n) Manager \<Rightarrow> ('v, 'n) Manager \<times> go_error option" where
  "RegistryApply registry m = apply_definitions (map snd registry) m"

text \<open>\<open>external\<close> is the cache over the external storage of keys, when one is set.\<close>

definition EnsureDefaultCacheConfigurations :: "'n nstore \<Rightarrow> ('v, 'x) InstanceRegistry \<Rightarrow> 'v dyn option \<Rightarrow> ('v, 'n) Manager option
    \<Rightarrow> ('v, 'n) Manager option \<times> go_error option" where
  "EnsureDefaultCacheConfigurations N registry external manager =
     (case manager of
        None \<Rightarrow> (None, None)
      | Some m \<Rightarrow>
          (case RegistryApply registry m of
             (m1, Some e) \<Rightarrow> (Some m1, Some e)
           | (m1, None) \<Rightarrow>
               (case external of
                  None \<Rightarrow> (Some m1, None)
                | Some cache \<Rightarrow>
                    if snd (GetCacheInstance m1 JWKCacheKey DefaultInstanceID) then (Some m1, None)
                    else map_prod Some id (UpdateRuntimeCacheInstance N JWKCacheKey DefaultInstanceID cache 0 m1))))"

end
