(* ===== verification/RegistryFacts.thy ===== *)
theory RegistryFacts
  imports Registries
begin

text \<open>
  Facts of the registries: a listener hears of journeys from its registration to its removal; every registered step
  schema is compiled; and applying the instance definitions configures what is missing and keeps what is
  there.
\<close>

subsection \<open>Listeners\<close>

lemma snapshot_append: "List.map_filter snd (m @ [(k, Some l)]) = List.map_filter snd m @ [l]"
  by (simp add: List.map_filter_def)

lemma gm_put_new: "gm_get m k = None \<Longrightarrow> gm_put k v m = m @ [(k, v)]"
  by (simp add: gm_put_fresh)

text \<open>A listener for successes is notified of each success until it is removed, and of nothing else; other listeners
  are not affected.\<close>

lemma listener_lifecycle:
  assumes "uuid \<noteq> ''''" and "gm_get (lr_success r) uuid = None" and "gm_get (lr_failure r) uuid = None"
    and "OnJourneySuccess uuid (Some l) (Some r) = (r', i)"
  shows "i = uuid \<and>
    emitJourneyExecutionEvent (Some e) r' =
      emitJourneyExecutionEvent (Some e) (Some r) @ (if je_Status e = JourneyExecutionSucceeded then [(l, e)] else []) \<and>
    RemoveJourneyListener i r' = Some r"
proof -
  have r': "r' = Some (r\<lparr>lr_success := gm_put uuid (Some l) (lr_success r)\<rparr>)" and i: "i = uuid"
    using assms(4) by (auto simp: OnJourneySuccess_def addSuccess_def add_listener_def)
  have "emitJourneyExecutionEvent (Some e) r' =
      emitJourneyExecutionEvent (Some e) (Some r) @ (if je_Status e = JourneyExecutionSucceeded then [(l, e)] else [])"
    using assms(2) by (cases "je_Status e") (simp_all add: emitJourneyExecutionEvent_def listener_snapshot_def r' gm_put_new snapshot_append)
  moreover have "RemoveJourneyListener i r' = Some r"
    using assms(1-3) by (simp add: RemoveJourneyListener_def remove_listener_def r' i gm_del_put_fresh gm_del_fresh)
  ultimately show ?thesis using i by simp
qed

text \<open>An execution that ends without an error is announced to the listeners for successes and one that ends with an error
  to those for failures, each of them once; a pause is announced to nobody.\<close>

lemma announced_once:
  "map fst (emitJourneyExecutionEvent (execution_event journey payload response st err) (Some r)) =
     (if response \<noteq> None then [] else List.map_filter snd (if err = None then lr_success r else lr_failure r))"
  by (simp add: execution_event_def emitJourneyExecutionEvent_def listener_snapshot_def comp_def)

subsection \<open>Step schemas\<close>

definition form_ok :: "('k, 'v) SchemaForm \<Rightarrow> bool" where
  "form_ok sf \<longleftrightarrow> (\<forall>name. gm_get (sf_schemas sf) name = None \<longleftrightarrow> gm_get (sf_raw sf) name = None)"

inductive form_run :: "('k, 'v) schema_lib \<Rightarrow> ('k, 'v) SchemaForm \<Rightarrow> bool" for L where
  new: "form_run L (NewSchemaForm L)"
| add_raw: "form_run L sf \<Longrightarrow> form_run L (fst (AddRawSchema L url name doc sf))"
| reload: "form_run L sf \<Longrightarrow> form_run L (recompileResources L url sf)"

lemma add_raw_ok: "form_ok sf \<Longrightarrow> form_ok (fst (AddRawSchema L url name doc sf))"
  by (auto simp: AddRawSchema_def form_ok_def gm_get_put split: prod.split option.split sum.split)

lemma compiled_names:
  "compile_resources L url names compiled k = Some (k', compiled') \<Longrightarrow>
   gm_get compiled' name = None \<longleftrightarrow> gm_get compiled name = None \<and> name \<notin> set names"
proof (induction names arbitrary: compiled k)
  case (Cons n names)
  obtain k1 v where "sl_compile L (schemaResourceName url n) k = (k1, Inr v)"
    and "compile_resources L url names (gm_put n v compiled) k1 = Some (k', compiled')"
    using Cons.prems by (auto split: prod.splits sum.splits)
  with Cons.IH show ?case by (auto simp: gm_get_put)
qed simp

lemma gm_get_None_iff: "gm_get m k = None \<longleftrightarrow> k \<notin> set (map fst m)"
  by (induction m) auto

lemma reload_ok: "form_ok sf \<Longrightarrow> form_ok (recompileResources L url sf)"
proof (cases "add_resources L url (sf_raw sf) (sort (map fst (sf_raw sf))) (sl_new L)")
  case (Some k)
  assume ok: "form_ok sf"
  show ?thesis
  proof (cases "compile_resources L url (sort (map fst (sf_raw sf))) [] k")
    case None
    with Some ok show ?thesis by (simp add: recompileResources_def Let_def)
  next
    case (Some p)
    obtain k' compiled where p: "p = (k', compiled)" by fastforce
    have "recompileResources L url sf = sf\<lparr>sf_compiler := k', sf_schemas := compiled\<rparr>"
      using Some p \<open>add_resources L url _ _ _ = Some k\<close> by (simp add: recompileResources_def Let_def)
    with compiled_names [OF Some [unfolded p]] show ?thesis by (simp add: form_ok_def gm_get_None_iff)
  qed
qed (simp add: recompileResources_def Let_def)

text \<open>Whatever was registered and reloaded, exactly the registered schemas can be validated with.\<close>

lemma registered_schemas_compiled: "form_run L sf \<Longrightarrow> form_ok sf"
proof (induction rule: form_run.induct)
  case new
  then show ?case by (simp add: form_ok_def NewSchemaForm_def)
qed (simp_all add: add_raw_ok reload_ok)

text \<open>Registering a struct is registering its schema with the placeholders allowed.\<close>

lemma add_schema_ok: "form_ok sf \<Longrightarrow> form_ok (fst (AddSchema L url reflect v extra sf))"
  by (auto simp: AddSchema_def add_raw_ok split: sum.split)

subsection \<open>Instances\<close>

lemma apply_configures:
  assumes "apply_definitions rs m = (m', None)" and "\<forall>r \<in> set rs. TrimSpace (id_Key (ri_definition r)) = id_Key (ri_definition r)"
    and "distinct (map (\<lambda>r. id_Key (ri_definition r)) rs)"
  shows "gm_get (m_configs m') key =
    (case find (\<lambda>r. id_Key (ri_definition r) = key) rs of
       None \<Rightarrow> gm_get (m_configs m) key
     | Some r \<Rightarrow> Some (case gm_get (m_configs m) key of None \<Rightarrow> instance_config r | Some c \<Rightarrow> fill_missing (instance_config r) c))"
  using assms
proof (induction rs arbitrary: m)
  case (Cons r rs)
  let ?k = "id_Key (ri_definition r)"
  obtain m1 where 1: "ConfigureCacheIfMissing ?k (Some (instance_config r)) m = (m1, None)" and rest: "apply_definitions rs m1 = (m', None)"
    using Cons.prems(1) by (auto split: prod.splits option.splits)
  have m1: "gm_get (m_configs m1) key' = (if key' = ?k
      then Some (case gm_get (m_configs m) ?k of None \<Rightarrow> instance_config r | Some c \<Rightarrow> fill_missing (instance_config r) c) else gm_get (m_configs m) key')" for key'
    using 1 Cons.prems(2) by (auto simp: ConfigureCacheIfMissing_def Let_def gm_get_put split: if_splits option.splits)
  have "find (\<lambda>r'. id_Key (ri_definition r') = ?k) rs = None"
    using Cons.prems(3) by (force simp: find_None_iff image_iff)
  with Cons.IH [OF rest] Cons.prems m1 show ?case by (auto split: option.splits)
qed simp

end
