(* ===== verification/Spec2Isabelle.thy ===== *)
theory Spec2Isabelle
  imports ExecutionFacts CacheFacts SchedulerFacts RouteTableFacts SubJourneyFacts FlowFacts ContextFacts RestAdminFacts LdapSteps SchemaSteps
    AsyncFacts HttpRequestFacts ScriptFacts RegistryFacts
begin

text \<open>
  \<^bold>\<open>The journey engine\<close>

  \<^verbatim>\<open>go-journey\<close> runs journeys: configured graphs of steps that authenticate a user, serve a
  resource or carry out a workflow. A client invokes a journey; the engine runs step after step,
  may pause to ask the client for inputs, and continues when the client comes back with a token.
  Journeys also run on schedules, and the instances they share (HTTP clients, script runtimes,
  expression caches) live in a registry with limits.

  \<^bold>\<open>Theories and sources\<close> (paths under \<^verbatim>\<open>src/\<close>)

  \<^item> \<^verbatim>\<open>Prelude\<close>, \<^verbatim>\<open>GoStrings\<close>, \<^verbatim>\<open>Values\<close>: 64-bit integers, Go maps, package
    \<^verbatim>\<open>strings\<close>, JSON values and the errors of \<^verbatim>\<open>errors.go\<close>.
  \<^item> \<^verbatim>\<open>EnvConfig\<close>: the reserved keys of \<^verbatim>\<open>env/env.go\<close>.
  \<^item> \<^verbatim>\<open>JourneyState\<close>: the state of an invocation (\<^verbatim>\<open>types/journey.state.go\<close>), its contexts,
    encryption, tracking stack and stored form.
  \<^item> \<^verbatim>\<open>StateStore\<close>: pending states (\<^verbatim>\<open>state.journey.go\<close>) and client tokens
    (\<^verbatim>\<open>token.journey.go\<close>).
  \<^item> \<^verbatim>\<open>Inputs\<close>: package \<^verbatim>\<open>inputs\<close>, what a step asks of the client and the validation of
    what the client sends.
  \<^item> \<^verbatim>\<open>Placeholders\<close>: discovery, validation and resolution of \<^verbatim>\<open>${...}\<close> in configurations
    (\<^verbatim>\<open>types/step.type.go\<close>, \<^verbatim>\<open>types/journey.validation.go\<close>).
  \<^item> \<^verbatim>\<open>Requests\<close>: payloads, request accessors and responses (\<^verbatim>\<open>types/journey.type.go\<close>,
    \<^verbatim>\<open>types/request.bindings.go\<close>).
  \<^item> \<^verbatim>\<open>Transaction\<close>, \<^verbatim>\<open>JourneyConfig\<close>: steps, registry, transactions and events; the
    preparation of a journey before it is stored.
  \<^item> \<^verbatim>\<open>Runtime\<close>: compiled journeys with their environment values (\<^verbatim>\<open>runtime_journey.go\<close>,
    \<^verbatim>\<open>config_placeholders.go\<close>).
  \<^item> \<^verbatim>\<open>Execution\<close>, \<^verbatim>\<open>ExecutionFacts\<close>: \<^verbatim>\<open>execution.journey.go\<close>, from
    \<^verbatim>\<open>InvokeJourney\<close> down to a single step.
  \<^item> \<^verbatim>\<open>CacheManager\<close>, \<^verbatim>\<open>CacheStorage\<close>, \<^verbatim>\<open>CacheFacts\<close>: \<^verbatim>\<open>cache/manager.go\<close>,
    \<^verbatim>\<open>cache/cache.journey.go\<close>.
  \<^item> \<^verbatim>\<open>Scheduler\<close>, \<^verbatim>\<open>SchedulerFacts\<close>: \<^verbatim>\<open>scheduler.go\<close>, \<^verbatim>\<open>scheduler.storage.go\<close>,
    \<^verbatim>\<open>types/schedule.type.go\<close>.
  \<^item> \<^verbatim>\<open>RouteTable\<close>, \<^verbatim>\<open>RouteTableFacts\<close>: \<^verbatim>\<open>steps/http-route-table.instance.go\<close>, the
    compiled tables of proxied requests.
  \<^item> \<^verbatim>\<open>FlowSteps\<close>: the built-in steps that route a journey (\<^verbatim>\<open>condition\<close>, \<^verbatim>\<open>if-expression\<close>,
    \<^verbatim>\<open>switch-expression\<close>, \<^verbatim>\<open>assert\<close>, \<^verbatim>\<open>not-empty\<close>, \<^verbatim>\<open>choice\<close>, \<^verbatim>\<open>input\<close>, \<^verbatim>\<open>retry\<close>,
    \<^verbatim>\<open>sub-journey\<close>, \<^verbatim>\<open>chain\<close>, \<^verbatim>\<open>suspend\<close>, \<^verbatim>\<open>success\<close>, \<^verbatim>\<open>failure\<close>, \<^verbatim>\<open>end\<close>, each the
    file \<^verbatim>\<open>steps/<name>.step.go\<close>); \<^verbatim>\<open>StepFacts\<close>, \<^verbatim>\<open>SubJourneyFacts\<close> and \<^verbatim>\<open>FlowFacts\<close>
    hold the laws they rely on and their properties.
  \<^item> \<^verbatim>\<open>ContextSteps\<close>, \<^verbatim>\<open>ContextFacts\<close>: the steps that change contexts and responses
    (\<^verbatim>\<open>set-ctx-property\<close>, \<^verbatim>\<open>set-static-property\<close>, \<^verbatim>\<open>remove-ctx-property\<close>, \<^verbatim>\<open>transform\<close>,
    \<^verbatim>\<open>extend-exp\<close>, \<^verbatim>\<open>metadata\<close>, \<^verbatim>\<open>random\<close>, \<^verbatim>\<open>read-cookie\<close>, \<^verbatim>\<open>set-cookie\<close>, \<^verbatim>\<open>http-response\<close>,
    \<^verbatim>\<open>http-finish-response\<close>, \<^verbatim>\<open>schedule-cache\<close>), with the arithmetic of doubles that \<^verbatim>\<open>random\<close> needs.
  \<^item> \<^verbatim>\<open>HttpProxy\<close>, \<^verbatim>\<open>HttpProxyFacts\<close>: \<^verbatim>\<open>steps/http-proxy.step.go\<close>, over the route tables, the
    cache manager and the request accessors.
  \<^item> \<^verbatim>\<open>JwtSteps\<close>, \<^verbatim>\<open>JwtFacts\<close>: \<^verbatim>\<open>steps/verify-jwt.step.go\<close>, \<^verbatim>\<open>steps/sign-jwt.step.go\<close>.
  \<^item> \<^verbatim>\<open>OidcStep\<close>, \<^verbatim>\<open>OidcFacts\<close>: \<^verbatim>\<open>steps/oidc-authorization-code.step.go\<close>, over the JWT steps.
  \<^item> \<^verbatim>\<open>RestRoutes\<close>, \<^verbatim>\<open>RestInvoke\<close>, \<^verbatim>\<open>RestAdmin\<close> with their \<^verbatim>\<open>Facts\<close>: the API of
    \<^verbatim>\<open>rest.api.go\<close> over all of the above: routes, registration and resource journeys; invocation and
    responses; and the administration of journeys, scripts, schemas, schedules, instances and step schemas,
    with \<^verbatim>\<open>storage.journey.go\<close>, \<^verbatim>\<open>schema.storage.go\<close> and \<^verbatim>\<open>types/developer.schema.go\<close>.
  \<^item> \<^verbatim>\<open>SchemaFacts\<close>, \<^verbatim>\<open>SchemaSteps\<close>: the storage of JSON schemas over time, and
    \<^verbatim>\<open>steps/schema-validator.step.go\<close>, the step that uses it.
  \<^item> \<^verbatim>\<open>LdapPool\<close>, \<^verbatim>\<open>LdapFacts\<close>, \<^verbatim>\<open>LdapSteps\<close>: \<^verbatim>\<open>steps/ldap.client.go\<close>, the pool of
    connections for one caller and, as the step relation \<open>pool_step\<close>, for many; and the steps
    \<^verbatim>\<open>steps/ldap-*.step.go\<close>.
  \<^item> \<^verbatim>\<open>AsyncSteps\<close>, \<^verbatim>\<open>AsyncFacts\<close>: \<^verbatim>\<open>utils/promise.go\<close>, the clones of a transaction
    (\<^verbatim>\<open>steps/steps-vault.go\<close>) and the steps \<^verbatim>\<open>async-wait\<close>, \<^verbatim>\<open>async-exec\<close>, \<^verbatim>\<open>wait-until\<close>. What runs
    concurrently is a list of events: which task finishes next, when the context ends.
  \<^item> \<^verbatim>\<open>HttpRequestStep\<close>, \<^verbatim>\<open>HttpRequestFacts\<close>: \<^verbatim>\<open>steps/http-request.step.go\<close>.
  \<^item> \<^verbatim>\<open>ScriptBindings\<close>, \<^verbatim>\<open>ScriptStep\<close>, \<^verbatim>\<open>ScriptFacts\<close>: \<^verbatim>\<open>steps/script.step.go\<close>, the types of
    scripts, their described and actual bindings, and the step that runs them; the JavaScript engine is a
    function that gives the calls of bindings a program makes.
  \<^item> \<^verbatim>\<open>Registries\<close>, \<^verbatim>\<open>RegistryFacts\<close>: the listeners of finished journeys (\<^verbatim>\<open>journey.listeners.go\<close>),
    the JSON observer (\<^verbatim>\<open>observer.go\<close>), the schemas of steps (\<^verbatim>\<open>types/schemas.step.go\<close>) and the
    definitions of runtime instances (\<^verbatim>\<open>steps/instance.registry.go\<close>, \<^verbatim>\<open>steps/cache.config.go\<close>).

  A Go struct is a record with the source's field names behind a short prefix, a pointer that may be
  nil an \<open>option\<close>, an error the left summand of a result, a panic the error \<open>GoPanic\<close>, a map an
  association list. Methods that change their receiver return it. The texts of errors that quote a
  value with \<^verbatim>\<open>%q\<close> have it without its quotes. Third-party code
  (\<^verbatim>\<open>go-cache\<close>, \<^verbatim>\<open>go-nstore\<close>, JWS signing, ciphers, \<^verbatim>\<open>robfig/cron\<close>, regular
  expressions, the script engine) and the clock are arguments, with what the code relies on as
  hypotheses of the theorems that need it.

  \<^bold>\<open>What is shown\<close>

  \<^item> Executor: an invocation is admitted in exactly one way and for an active journey of its realm; a
    token or resume identifier works once; a pause followed by a resume continues with the same
    state; nested journeys end frame by frame; success means that the journey finished; the loops
    return. The two loops take fuel; the tick limit of 500 executions per step ends them, and fuel
    above 500 times the number of step identifiers is enough.
  \<^item> Data: tokens and stored states round-trip; a submission passes exactly when it answers the
    requested inputs; placeholders that discovery records are valid and resolve to the text they
    stand for; an update changes the addressed values only; a prepared journey refers only to steps
    that exist; the compiled copy has no environment placeholder left; snapshots answer as the
    request.
  \<^item> Cache manager: under any interleaving of its critical sections the statistics are those of the
    listed instances; limits hold while sums stay within 64 bits; a restart restores exactly the
    persisted instances; the expression cache is transparent.
  \<^item> Scheduler: one run of a schedule at a time, whoever asks for it; runs are counted and bounded;
    the next run of an interval is on its grid; one loop per schedule; a result can be read back.
  \<^item> Route tables: the compiled tree with its pruning refines a scan of the configuration for the
    first pattern that admits the request; the headers of an upstream request are layered.
  \<^item> Routing steps: a sub-journey call returns to its caller with the result and the caller's
    properties; a retry step gives up in time; a form has what it requires or asks for it. These
    rest on the laws of \<^verbatim>\<open>goutils.TreeMapImpl\<close> for keys without dots (locale \<^verbatim>\<open>context_tree\<close>),
    which a concrete tree satisfies.
  \<^item> Built-in steps: each follows an outcome that its configuration declares; a transformation writes the
    converted fields and nothing else.
  \<^item> Proxy: an upstream answers only a request that a route admits and whose policies all accept it; the
    longest applicable prefix is rewritten.
  \<^item> Tokens: a token is valid only on the grounds of its mode, within its times and with its claims; a
    signed token verifies until it expires (for lives of at most 9223372036 seconds, where the 64-bit
    product does not wrap). What the round trip needs of the JWT library is the locale \<^verbatim>\<open>jwt_library\<close>.
  \<^item> Authorization code: tokens are stored only for a callback with the stored state, exchanged with the
    stored verifier; a state serves one callback; the request to the provider carries what is stored.
    The locale \<^verbatim>\<open>path_tree\<close>, extended by \<^verbatim>\<open>value_tree\<close>, has the laws of dotted paths.
  \<^item> REST API: every handler stands behind its middleware and its template has the parameters it reads; a
    request path resolves to an active resource journey, with and without the route cache alike; an
    invocation runs an active journey of the realm of the request; listing, reading and deleting
    keep to that realm; saving keeps names unique. The writer of responses that steps see and that of
    the executor agree (locale \<^verbatim>\<open>response_mutator\<close>).
  \<^item> Schemas: validation uses the stored schemas as they are now; the validator step follows \<open>valid\<close>
    exactly when its rules, in order, have data those schemas accept.
  \<^item> LDAP: under every interleaving of its callers the pool keeps to its limits and a connection has one
    user; dialling tries every server; on a pool at rest (locale \<^verbatim>\<open>answering_repository\<close>) every step
    returns with a declared outcome.
  \<^item> Background work: waiting for all steps is running them one after the other in the order in which they
    finish, and the parent keeps its own inputs, position and stack; a wait for a time ends then and not
    before. A chained request that has answered is not sent again; the mark rests on
    \<^verbatim>\<open>path_tree\<close>, extended to \<^verbatim>\<open>flag_tree\<close>.
  \<^item> Scripts: a script leaves its step only by an outcome it declares, asks the client only when its
    type allows it, and finds the bindings that are described for its type.
  \<^item> Registries: a listener hears of the journeys that end between its registration and its removal;
    exactly the registered schemas can be validated with, whatever was added and reloaded; applying the
    definitions of instances configures what is missing.
  \<^item> Where the code does not do what it means to, a theorem states what it does: an emptied encrypted
    context comes back, an oversized body is read again as a short one and its tail is proxied, an
    empty closed context becomes nil, a size limit wraps around, a failed removal drifts the statistics, an interval
    overflow divides by zero, a panic leaves a schedule running, concurrent scheduling leaks a loop, cookies of a successful journey
    are sent twice, a journey of another realm can be overwritten, a failed save of a schema takes effect, a schema validator
    inside another step panics, an LDAP caller is not woken when a slot is free, an empty LDAP password passes, and the outcome
    \<open>false\<close> of a wait for steps is never followed.

  \<^bold>\<open>Not modelled\<close>

  Gin, the document storage, the JavaScript engine, the JSON-schema library, LDAP, JWT and HTTP clients are third-party
  code and arguments of the model, as are the reflection of Go structs into schemas and the texts of JSON. The
  embedded user interface and the test servers have no logic of their own. The \<^verbatim>\<open>init\<close> functions, struct
  tags, descriptions and examples are metadata for forms and readers. The pool of promises is left out because
  no caller passes one. Times and attributes of events, and cancellation of a context inside third-party
  calls, are not part of the model. Goroutines are interleaved at the granularity the theories state: critical sections
  for the cache manager and the scheduler, pool operations for LDAP, whole tasks for background steps.
\<close>

end
